(* ===== verification/Prelude.thy ===== *)
theory Prelude
  imports Main "HOL-Library.DAList" "HOL-Library.Multiset" "HOL-Library.List_Lexorder"
    "HOL-Library.Char_ord" "HOL-Library.Product_Lexorder"
begin

text \<open>
  Shared vocabulary of the development: the Go data the service is written with and the proof
  automation every component uses.

  \<^item> Go maps are association lists with distinct keys (\<open>'v gomap\<close>): the list order stands for the
    order in which a \<^verbatim>\<open>range\<close> loop happens to visit the entries, which Go leaves unspecified, so a
    statement over all \<open>gomap\<close> values is a statement over all visiting orders.
  \<^item> \<^verbatim>\<open>sort.Slice\<close> is an insertion sort over the caller's \<^verbatim>\<open>less\<close> function.
  \<^item> Code that may return an \<^verbatim>\<open>error\<close> and change state is a function
    \<open>'s \<Rightarrow> ('e + 'a) \<times> 's\<close> (\<open>('e, 's, 'a) prog\<close>): the state survives an error, as it does in Go.
  \<^item> \<open>hoare P m Q E\<close> is the triple used for invariants: \<open>Q\<close> for normal returns, \<open>E\<close> for error
    returns. The rules are collected in \<open>hoare_rules\<close>.
\<close>

named_theorems prog_simps \<open>unfolding of the program combinators\<close>
named_theorems hoare_rules \<open>syntax-directed rules for \<open>hoare\<close>\<close>
named_theorems go_eval \<open>evaluation of Go maps on concrete values\<close>

section \<open>Go maps\<close>

type_synonym 'v gomap = "(string, 'v) DAList.alist"

definition mempty :: "'v gomap" where
  "mempty = DAList.empty"

definition mget :: "'v gomap \<Rightarrow> string \<Rightarrow> 'v option" where
  "mget m k = DAList.lookup m k"

definition mput :: "string \<Rightarrow> 'v \<Rightarrow> 'v gomap \<Rightarrow> 'v gomap" where
  "mput k v m = DAList.update k v m"

definition mentries :: "'v gomap \<Rightarrow> (string \<times> 'v) list" where
  "mentries m = DAList.impl_of m"

definition mvals :: "'v gomap \<Rightarrow> 'v list" where
  "mvals m = map snd (mentries m)"

text \<open>\<^verbatim>\<open>delete(m, k)\<close>\<close>

definition mdel :: "string \<Rightarrow> 'v gomap \<Rightarrow> 'v gomap" where
  "mdel k m = DAList.delete k m"

text \<open>The \<^verbatim>\<open>dst[k] = f(v)\<close> loops that copy a map.\<close>

definition mclone :: "('v \<Rightarrow> 'v) \<Rightarrow> 'v gomap \<Rightarrow> 'v gomap" where
  "mclone f m = fold (\<lambda>(k, v) dst. mput k (f v) dst) (mentries m) mempty"

lemma mget_mempty [simp]: "mget mempty k = None"
  by (simp add: mget_def mempty_def)

lemma mget_mdel: "mget (mdel k m) k' = (if k = k' then None else mget m k')"
  by (simp add: mget_def mdel_def DAList.lookup_delete)

lemma mget_mput: "mget (mput k v m) k' = (if k = k' then Some v else mget m k')"
  by (simp add: mget_def mput_def DAList.lookup_update)

lemma mget_mput_same [simp]: "mget (mput k v m) k = Some v"
  by (simp add: mget_mput)

lemma mget_mput_other [simp]: "k \<noteq> k' \<Longrightarrow> mget (mput k v m) k' = mget m k'"
  by (simp add: mget_mput)

lemma mentries_mempty [go_eval]: "mentries mempty = []"
  by (simp add: mentries_def mempty_def DAList.empty.rep_eq)

lemma mentries_mdel [go_eval]: "mentries (mdel k m) = AList.delete k (mentries m)"
  by (simp add: mentries_def mdel_def DAList.delete.rep_eq)

lemma mentries_mput [go_eval]: "mentries (mput k v m) = AList.update k v (mentries m)"
  by (simp add: mentries_def mput_def DAList.update.rep_eq)

lemma distinct_mentries [simp]: "distinct (map fst (mentries m))"
  by (simp add: mentries_def)

lemma mget_mentries: "mget m k = map_of (mentries m) k"
  by (simp add: mget_def mentries_def DAList.lookup.rep_eq)

lemma in_mentries_iff: "(k, v) \<in> set (mentries m) \<longleftrightarrow> mget m k = Some v"
  by (simp add: mget_mentries map_of_eq_Some_iff)

lemma mvals_mempty [simp]: "mvals mempty = []"
  by (simp add: mvals_def mentries_mempty)

lemma set_mvals: "set (mvals m) = ran (mget m)"
proof -
  have "set (mvals m) = {v. \<exists>k. (k, v) \<in> set (mentries m)}"
    by (force simp: mvals_def)
  then show ?thesis
    by (auto simp: in_mentries_iff ran_def)
qed

lemma in_mvals_iff: "v \<in> set (mvals m) \<longleftrightarrow> (\<exists>k. mget m k = Some v)"
  by (simp add: set_mvals ran_def)

lemma gomap_eqI: "mentries m = mentries m' \<Longrightarrow> m = m'"
  by (simp add: mentries_def DAList.alist_ext)

lemma update_fresh: "k \<notin> fst ` set xs \<Longrightarrow> AList.update k v xs = xs @ [(k, v)]"
  by (induction xs) auto

text \<open>Copying every entry of a map into a fresh map gives the map back when the values are copied.\<close>

lemma mentries_mclone: "mentries (mclone f m) = map (\<lambda>(k, v). (k, f v)) (mentries m)"
proof -
  have fold_entries: "mentries (fold (\<lambda>(k, v) dst. mput k (f v) dst) xs dst)
      = mentries dst @ map (\<lambda>(k, v). (k, f v)) xs"
    if "distinct (map fst xs)" "fst ` set xs \<inter> fst ` set (mentries dst) = {}" for xs dst
    using that
  proof (induction xs arbitrary: dst)
    case (Cons x xs)
    obtain k v where x: "x = (k, v)" by (cases x)
    have fresh: "mentries (mput k (f v) dst) = mentries dst @ [(k, f v)]"
      using Cons.prems x by (simp add: mentries_mput update_fresh)
    have "fst ` set xs \<inter> fst ` set (mentries (mput k (f v) dst)) = {}"
      using Cons.prems x by (auto simp: fresh)
    with Cons x show ?case by (simp add: fresh)
  qed simp
  show ?thesis
    by (simp add: mclone_def fold_entries mentries_mempty)
qed

lemma mclone_id: "(\<And>v. f v = v) \<Longrightarrow> mclone f m = m"
  by (rule gomap_eqI) (simp add: mentries_mclone)

text \<open>Two maps with the same lookups hold the same values, in some other order.\<close>

lemma mset_mvals_eq:
  assumes "mget m = mget m'"
  shows "mset (mvals m) = mset (mvals m')"
proof -
  have "set (mentries m) = set (mentries m')"
    using assms by (auto simp: in_mentries_iff set_eq_iff)
  moreover have "distinct (mentries m)" "distinct (mentries m')"
    using distinct_mentries distinct_map by blast+
  ultimately have "mset (mentries m) = mset (mentries m')"
    by (simp add: set_eq_iff_mset_eq_distinct)
  then show ?thesis
    by (metis mset_map mvals_def)
qed

section \<open>Sorting\<close>

text \<open>\<^verbatim>\<open>sort.Slice\<close> and \<^verbatim>\<open>sort.SliceStable\<close> with the caller's \<^verbatim>\<open>less\<close>: a stable insertion sort.\<close>

fun insort_by :: "('a \<Rightarrow> 'a \<Rightarrow> bool) \<Rightarrow> 'a \<Rightarrow> 'a list \<Rightarrow> 'a list" where
  "insort_by lt x [] = [x]"
| "insort_by lt x (y # ys) = (if lt y x then y # insort_by lt x ys else x # y # ys)"

fun sort_by :: "('a \<Rightarrow> 'a \<Rightarrow> bool) \<Rightarrow> 'a list \<Rightarrow> 'a list" where
  "sort_by lt [] = []"
| "sort_by lt (x # xs) = insort_by lt x (sort_by lt xs)"

lemma mset_insort_by: "mset (insort_by lt x xs) = add_mset x (mset xs)"
  by (induction xs) auto

lemma mset_sort_by [simp]: "mset (sort_by lt xs) = mset xs"
  by (induction xs) (simp_all add: mset_insort_by)

lemma set_sort_by [simp]: "set (sort_by lt xs) = set xs"
  by (metis mset_sort_by set_mset_mset)

lemma length_sort_by [simp]: "length (sort_by lt xs) = length xs"
  by (metis mset_sort_by size_mset)

lemma insort_by_key:
  assumes "\<And>a b. lt a b \<longleftrightarrow> key a < (key b :: 'k :: linorder)"
  shows "insort_by lt x xs = insort_key key x xs"
  by (induction xs) (auto simp: assms not_less)

lemma sort_by_key:
  assumes "\<And>a b. lt a b \<longleftrightarrow> key a < (key b :: 'k :: linorder)"
  shows "sort_by lt xs = sort_key key xs"
  by (induction xs) (simp_all add: insort_by_key[OF assms])

lemma sort_by_sorted:
  assumes "\<And>a b. lt a b \<longleftrightarrow> key a < (key b :: 'k :: linorder)"
  shows "sorted (map key (sort_by lt xs))"
  by (simp add: sort_by_key[OF assms])

text \<open>
  A \<^verbatim>\<open>less\<close> that separates the elements of the list makes the result independent of the order the
  list was collected in, hence of the map iteration order.
\<close>

lemma sort_by_permutation:
  assumes "\<And>a b. lt a b \<longleftrightarrow> key a < (key b :: 'k :: linorder)"
    and "mset xs = mset ys" and "inj_on key (set xs)"
  shows "sort_by lt xs = sort_by lt ys"
proof -
  have "mset xs = mset (sort_key key ys)" and "sorted (map key (sort_key key ys))"
    by (simp_all add: assms(2))
  with assms(3) have "sort_key key xs = sort_key key ys"
    by (intro sort_key_inj_key_eq)
  then show ?thesis by (simp add: sort_by_key[OF assms(1)])
qed

section \<open>Programs that change state and may return an error\<close>

type_synonym ('e, 's, 'a) prog = "'s \<Rightarrow> ('e + 'a) \<times> 's"

definition returnM :: "'a \<Rightarrow> ('e, 's, 'a) prog" where
  "returnM x = (\<lambda>s. (Inr x, s))"

definition throwM :: "'e \<Rightarrow> ('e, 's, 'a) prog" where
  "throwM e = (\<lambda>s. (Inl e, s))"

text \<open>\<^verbatim>\<open>x, err := m(); if err != nil { return err }; f(x)\<close>\<close>

definition bindM :: "('e, 's, 'a) prog \<Rightarrow> ('a \<Rightarrow> ('e, 's, 'b) prog) \<Rightarrow> ('e, 's, 'b) prog" where
  "bindM m f = (\<lambda>s. case m s of (Inl e, s') \<Rightarrow> (Inl e, s') | (Inr x, s') \<Rightarrow> f x s')"

definition thenM :: "('e, 's, 'a) prog \<Rightarrow> ('e, 's, 'b) prog \<Rightarrow> ('e, 's, 'b) prog" where
  "thenM m k = bindM m (\<lambda>_. k)"

text \<open>\<^verbatim>\<open>if b { return err }; k\<close>\<close>

definition failIf :: "bool \<Rightarrow> 'e \<Rightarrow> ('e, 's, 'a) prog \<Rightarrow> ('e, 's, 'a) prog" where
  "failIf b e k = (if b then throwM e else k)"

text \<open>A call whose error value the caller inspects itself.\<close>

definition attemptM :: "('e, 's, 'a) prog \<Rightarrow> ('e, 's, 'e + 'a) prog" where
  "attemptM m = (\<lambda>s. case m s of (r, s') \<Rightarrow> (Inr r, s'))"

text \<open>A pure check that yields an error or a value.\<close>

definition liftE :: "'e + 'a \<Rightarrow> ('e, 's, 'a) prog" where
  "liftE r = (\<lambda>s. (r, s))"

text \<open>A \<^verbatim>\<open>range\<close> loop whose body may return an error out of the loop.\<close>

fun forM :: "'x list \<Rightarrow> ('x \<Rightarrow> ('e, 's, unit) prog) \<Rightarrow> ('e, 's, unit) prog" where
  "forM [] f = returnM ()"
| "forM (x # xs) f = thenM (f x) (forM xs f)"

text \<open>The same loop with the local variables it updates threaded through.\<close>

fun foldM :: "('x \<Rightarrow> 'a \<Rightarrow> ('e, 's, 'a) prog) \<Rightarrow> 'x list \<Rightarrow> 'a \<Rightarrow> ('e, 's, 'a) prog" where
  "foldM f [] acc = returnM acc"
| "foldM f (x # xs) acc = bindM (f x acc) (foldM f xs)"

lemma run_returnM [simp, prog_simps]: "returnM x s = (Inr x, s)"
  by (simp add: returnM_def)

lemma run_throwM [simp, prog_simps]: "throwM e s = (Inl e, s)"
  by (simp add: throwM_def)

lemma run_liftE [simp, prog_simps]: "liftE r s = (r, s)"
  by (simp add: liftE_def)

lemma run_bindM [prog_simps]:
  "bindM m f s = (case m s of (Inl e, s') \<Rightarrow> (Inl e, s') | (Inr x, s') \<Rightarrow> f x s')"
  by (simp add: bindM_def)

lemma run_thenM [prog_simps]:
  "thenM m k s = (case m s of (Inl e, s') \<Rightarrow> (Inl e, s') | (Inr x, s') \<Rightarrow> k s')"
  by (simp add: thenM_def bindM_def)

lemma run_failIf [prog_simps]: "failIf b e k s = (if b then (Inl e, s) else k s)"
  by (simp add: failIf_def)

lemma run_attemptM [prog_simps]: "attemptM m s = (case m s of (r, s') \<Rightarrow> (Inr r, s'))"
  by (simp add: attemptM_def)

section \<open>Triples\<close>

definition hoare ::
  "('s \<Rightarrow> bool) \<Rightarrow> ('e, 's, 'a) prog \<Rightarrow> ('a \<Rightarrow> 's \<Rightarrow> bool) \<Rightarrow> ('e \<Rightarrow> 's \<Rightarrow> bool) \<Rightarrow> bool" where
  "hoare P m Q E \<longleftrightarrow>
     (\<forall>s. P s \<longrightarrow> (case m s of (Inr x, s') \<Rightarrow> Q x s' | (Inl e, s') \<Rightarrow> E e s'))"

text \<open>\<open>keeps I m\<close>: whatever \<open>m\<close> returns, it preserves \<open>I\<close>.\<close>

definition keeps :: "('s \<Rightarrow> bool) \<Rightarrow> ('e, 's, 'a) prog \<Rightarrow> bool" where
  "keeps I m \<longleftrightarrow> (\<forall>s. I s \<longrightarrow> I (snd (m s)))"

lemma hoareI:
  assumes "\<And>s x s'. P s \<Longrightarrow> m s = (Inr x, s') \<Longrightarrow> Q x s'"
    and "\<And>s e s'. P s \<Longrightarrow> m s = (Inl e, s') \<Longrightarrow> E e s'"
  shows "hoare P m Q E"
  unfolding hoare_def using assms by (auto split: prod.split sum.split)

lemma hoareD:
  assumes "hoare P m Q E" "P s"
  shows "m s = (Inr x, s') \<Longrightarrow> Q x s'" "m s = (Inl e, s') \<Longrightarrow> E e s'"
  using assms unfolding hoare_def by force+

lemma keepsD: "keeps I m \<Longrightarrow> I s \<Longrightarrow> m s = (r, s') \<Longrightarrow> I s'"
  unfolding keeps_def by force

lemma keepsI: "(\<And>s r s'. I s \<Longrightarrow> m s = (r, s') \<Longrightarrow> I s') \<Longrightarrow> keeps I m"
  unfolding keeps_def by (metis surjective_pairing)

lemma keeps_hoare: "keeps I m \<longleftrightarrow> hoare I m (\<lambda>_. I) (\<lambda>_. I)"
proof -
  have "(case m s of (Inr x, s') \<Rightarrow> I s' | (Inl e, s') \<Rightarrow> I s') = I (snd (m s))" for s
    by (auto split: prod.split sum.split)
  then show ?thesis by (simp add: keeps_def hoare_def)
qed

lemma hoare_weaken:
  assumes "hoare P m Q E" "\<And>s. P' s \<Longrightarrow> P s" "\<And>x s. Q x s \<Longrightarrow> Q' x s" "\<And>e s. E e s \<Longrightarrow> E' e s"
  shows "hoare P' m Q' E'"
  using assms unfolding hoare_def by (fastforce split: prod.splits sum.splits)

lemma hoare_bind:
  assumes "hoare P m R E" "\<And>x. hoare (R x) (f x) Q E"
  shows "hoare P (bindM m f) Q E"
  using assms unfolding hoare_def bindM_def by (fastforce split: prod.splits sum.splits)

lemma keeps_return [hoare_rules]: "keeps I (returnM x)"
  by (simp add: keeps_def)

lemma keeps_throw [hoare_rules]: "keeps I (throwM e)"
  by (simp add: keeps_def)

lemma keeps_liftE [hoare_rules]: "keeps I (liftE r)"
  by (simp add: keeps_def)

lemma keeps_bind [hoare_rules]:
  "keeps I m \<Longrightarrow> (\<And>x. keeps I (f x)) \<Longrightarrow> keeps I (bindM m f)"
  unfolding keeps_def bindM_def by (auto split: prod.splits sum.splits)

lemma keeps_then [hoare_rules]: "keeps I m \<Longrightarrow> keeps I k \<Longrightarrow> keeps I (thenM m k)"
  unfolding thenM_def by (rule keeps_bind)

lemma keeps_failIf [hoare_rules]: "keeps I k \<Longrightarrow> keeps I (failIf b e k)"
  by (simp add: failIf_def keeps_throw)

lemma keeps_attempt [hoare_rules]: "keeps I m \<Longrightarrow> keeps I (attemptM m)"
  unfolding keeps_def attemptM_def by (auto split: prod.splits)

lemma keeps_if [hoare_rules]: "keeps I m \<Longrightarrow> keeps I m' \<Longrightarrow> keeps I (if b then m else m')"
  by simp

lemma keeps_case_sum [hoare_rules]:
  "(\<And>e. keeps I (f e)) \<Longrightarrow> (\<And>x. keeps I (g x)) \<Longrightarrow> keeps I (case r of Inl e \<Rightarrow> f e | Inr x \<Rightarrow> g x)"
  by (cases r) simp_all

lemma keeps_case_option [hoare_rules]:
  "keeps I m \<Longrightarrow> (\<And>x. keeps I (g x)) \<Longrightarrow> keeps I (case r of None \<Rightarrow> m | Some x \<Rightarrow> g x)"
  by (cases r) simp_all

lemma keeps_case_prod [hoare_rules]:
  "(\<And>x y. keeps I (g x y)) \<Longrightarrow> keeps I (case r of (x, y) \<Rightarrow> g x y)"
  by (cases r) simp

lemma keeps_let [hoare_rules]: "(\<And>x. keeps I (f x)) \<Longrightarrow> keeps I (let x = v in f x)"
  by simp

lemma keeps_forM [hoare_rules]: "(\<And>x. keeps I (f x)) \<Longrightarrow> keeps I (forM xs f)"
  by (induction xs) (simp_all add: keeps_return keeps_then)

lemma keeps_foldM [hoare_rules]: "(\<And>x a. keeps I (f x a)) \<Longrightarrow> keeps I (foldM f xs acc)"
  by (induction xs arbitrary: acc) (simp_all add: keeps_return keeps_bind)

end
