(* ===== verification/GoLib.thy ===== *)
theory GoLib
  imports Prelude
begin

text \<open>
  The parts of the Go language and standard library the service's logic depends on: byte strings
  and the \<^verbatim>\<open>strings\<close> functions it calls, instants and durations of package \<^verbatim>\<open>time\<close>, and 64-bit
  signed wrap-around.

  A Go string is a byte sequence, here a \<open>string\<close> (one \<open>char\<close> per byte). \<open>TrimSpace\<close> removes the
  UTF-8 encodings of every \<^verbatim>\<open>unicode.IsSpace\<close> rune; \<open>ToLower\<close> and \<open>EqualFold\<close> fold ASCII letters and
  leave the other bytes alone, which is what Go does on ASCII input (host names, algorithm names
  and CAA tags; beyond ASCII the Unicode case tables are not modelled). An instant is its number of nanoseconds since Go's zero time,
  so \<^verbatim>\<open>IsZero\<close> is \<open>= 0\<close> and \<^verbatim>\<open>Before\<close>, \<^verbatim>\<open>After\<close> and \<^verbatim>\<open>Equal\<close> are the order and equality of \<open>int\<close>.
\<close>

section \<open>Integers and time\<close>

text \<open>Two's complement wrap-around of Go's \<^verbatim>\<open>int64\<close> (also \<^verbatim>\<open>int\<close> and \<^verbatim>\<open>time.Duration\<close>).\<close>

definition i64 :: "int \<Rightarrow> int" where
  "i64 x = (x + 2 ^ 63) mod 2 ^ 64 - 2 ^ 63"

lemma i64_range: "- (2 ^ 63) \<le> i64 x" "i64 x < 2 ^ 63"
  by (simp_all add: i64_def)

lemma i64_small: "- (2 ^ 63) \<le> x \<Longrightarrow> x < 2 ^ 63 \<Longrightarrow> i64 x = x"
  by (simp add: i64_def)

type_synonym time = int
type_synonym duration = int

abbreviation time_zero :: time where
  "time_zero \<equiv> 0"

definition IsZero :: "time \<Rightarrow> bool" where
  "IsZero t \<longleftrightarrow> t = 0"

definition Second :: duration where "Second = 1000000000"
definition Minute :: duration where "Minute = 60 * Second"
definition Hour :: duration where "Hour = 60 * Minute"

text \<open>\<^verbatim>\<open>time.Date(y, m, d, 0, 0, 0, 0, time.UTC)\<close> given as the Unix time of that midnight.\<close>

definition unix_time :: "int \<Rightarrow> time" where
  "unix_time secs = (62135596800 + secs) * Second"

section \<open>Package strings\<close>

definition HasPrefix :: "string \<Rightarrow> string \<Rightarrow> bool" where
  "HasPrefix s p \<longleftrightarrow> take (length p) s = p"

definition HasSuffix :: "string \<Rightarrow> string \<Rightarrow> bool" where
  "HasSuffix s p \<longleftrightarrow> HasPrefix (rev s) (rev p)"

fun Contains :: "string \<Rightarrow> string \<Rightarrow> bool" where
  "Contains [] sub \<longleftrightarrow> sub = []"
| "Contains (c # cs) sub \<longleftrightarrow> HasPrefix (c # cs) sub \<or> Contains cs sub"

text \<open>\<^verbatim>\<open>strings.Cut\<close> and \<^verbatim>\<open>strings.Split\<close> at a one-byte separator.\<close>

definition Cut :: "string \<Rightarrow> char \<Rightarrow> string \<times> string \<times> bool" where
  "Cut s c = (case dropWhile (\<lambda>x. x \<noteq> c) s of
      [] \<Rightarrow> (s, [], False)
    | _ # rest \<Rightarrow> (takeWhile (\<lambda>x. x \<noteq> c) s, rest, True))"

fun Split :: "string \<Rightarrow> char \<Rightarrow> string list" where
  "Split [] c = [[]]"
| "Split (x # xs) c =
     (if x = c then [] # Split xs c
      else case Split xs c of y # ys \<Rightarrow> (x # y) # ys | [] \<Rightarrow> [[x]])"

definition byte_lower :: "char \<Rightarrow> char" where
  "byte_lower c = (let n = of_char c :: nat in if 65 \<le> n \<and> n \<le> 90 then char_of (n + 32) else c)"

definition ToLower :: "string \<Rightarrow> string" where
  "ToLower s = map byte_lower s"

definition EqualFold :: "string \<Rightarrow> string \<Rightarrow> bool" where
  "EqualFold a b \<longleftrightarrow> ToLower a = ToLower b"

definition TrimPrefix :: "string \<Rightarrow> string \<Rightarrow> string" where
  "TrimPrefix s p = (if HasPrefix s p then drop (length p) s else s)"

definition TrimSuffix :: "string \<Rightarrow> string \<Rightarrow> string" where
  "TrimSuffix s p = (if HasSuffix s p then take (length s - length p) s else s)"

text \<open>The UTF-8 encodings of the runes \<^verbatim>\<open>unicode.IsSpace\<close> accepts.\<close>

definition space_runes :: "string list" where
  "space_runes =
     [[CHR 0x20], [CHR 0x09], [CHR 0x0A], [CHR 0x0B], [CHR 0x0C], [CHR 0x0D],
      [CHR 0xC2, CHR 0x85], [CHR 0xC2, CHR 0xA0], [CHR 0xE1, CHR 0x9A, CHR 0x80],
      [CHR 0xE2, CHR 0x80, CHR 0x80], [CHR 0xE2, CHR 0x80, CHR 0x81],
      [CHR 0xE2, CHR 0x80, CHR 0x82], [CHR 0xE2, CHR 0x80, CHR 0x83],
      [CHR 0xE2, CHR 0x80, CHR 0x84], [CHR 0xE2, CHR 0x80, CHR 0x85],
      [CHR 0xE2, CHR 0x80, CHR 0x86], [CHR 0xE2, CHR 0x80, CHR 0x87],
      [CHR 0xE2, CHR 0x80, CHR 0x88], [CHR 0xE2, CHR 0x80, CHR 0x89],
      [CHR 0xE2, CHR 0x80, CHR 0x8A], [CHR 0xE2, CHR 0x80, CHR 0xA8],
      [CHR 0xE2, CHR 0x80, CHR 0xA9], [CHR 0xE2, CHR 0x80, CHR 0xAF],
      [CHR 0xE2, CHR 0x81, CHR 0x9F], [CHR 0xE3, CHR 0x80, CHR 0x80]]"

text \<open>Strip runes of a list from the front of a string, as long as one matches.\<close>

function drop_runes :: "string list \<Rightarrow> string \<Rightarrow> string" where
  "drop_runes rs s =
     (case find (\<lambda>r. r \<noteq> [] \<and> HasPrefix s r) rs of
        None \<Rightarrow> s
      | Some r \<Rightarrow> drop_runes rs (drop (length r) s))"
  by pat_completeness auto
termination
proof (relation "measure (length \<circ> snd)", goal_cases)
  case (2 rs s r)
  then have "r \<noteq> []" and "take (length r) s = r"
    by (auto simp: find_Some_iff HasPrefix_def)
  then have "length r \<le> length s" and "0 < length r"
    by (metis length_take min.cobounded1, simp)
  then have "length s - length r < length s" by linarith
  then show ?case by simp
qed simp

declare drop_runes.simps [simp del]

definition TrimSpace :: "string \<Rightarrow> string" where
  "TrimSpace s = rev (drop_runes (map rev space_runes) (rev (drop_runes space_runes s)))"

text \<open>\<^verbatim>\<open>strings.TrimSpace(value) == ""\<close>, the service's own \<^verbatim>\<open>isBlank\<close>.\<close>

definition isBlank :: "string \<Rightarrow> bool" where
  "isBlank value \<longleftrightarrow> TrimSpace value = []"

lemma HasPrefix_Nil [simp]: "HasPrefix s []"
  by (simp add: HasPrefix_def)

lemma HasPrefix_append: "HasPrefix s p \<longleftrightarrow> (\<exists>t. s = p @ t)"
  unfolding HasPrefix_def by (metis append_eq_conv_conj append_take_drop_id)

lemma HasSuffix_append: "HasSuffix s p \<longleftrightarrow> (\<exists>t. s = t @ p)"
  unfolding HasSuffix_def HasPrefix_append by (metis rev_append rev_rev_ident)

lemma drop_runes_None:
  "find (\<lambda>r. r \<noteq> [] \<and> HasPrefix s r) rs = None \<Longrightarrow> drop_runes rs s = s"
  by (subst drop_runes.simps) simp

lemma drop_runes_Some:
  "find (\<lambda>r. r \<noteq> [] \<and> HasPrefix s r) rs = Some r \<Longrightarrow> drop_runes rs s = drop_runes rs (drop (length r) s)"
  by (subst drop_runes.simps) simp

lemma drop_runes_suffix: "\<exists>p. s = p @ drop_runes rs s"
proof (induction rs s rule: drop_runes.induct)
  case (1 rs s)
  show ?case
  proof (cases "find (\<lambda>r. r \<noteq> [] \<and> HasPrefix s r) rs")
    case None
    then show ?thesis by (simp add: drop_runes_None)
  next
    case (Some r)
    then obtain p where "drop (length r) s = p @ drop_runes rs (drop (length r) s)"
      using "1.IH" by blast
    then have "s = (take (length r) s @ p) @ drop_runes rs s"
      by (simp add: drop_runes_Some[OF Some] flip: \<open>drop (length r) s = p @ drop_runes rs (drop (length r) s)\<close>)
    then show ?thesis by blast
  qed
qed

lemma drop_runes_done: "r \<in> set rs \<Longrightarrow> r \<noteq> [] \<Longrightarrow> \<not> HasPrefix (drop_runes rs s) r"
proof (induction rs s rule: drop_runes.induct)
  case (1 rs s)
  show ?case
  proof (cases "find (\<lambda>r. r \<noteq> [] \<and> HasPrefix s r) rs")
    case None
    then show ?thesis
      using "1.prems" by (auto simp: drop_runes_None[OF None] find_None_iff)
  next
    case (Some r')
    then show ?thesis
      using "1.IH" "1.prems" by (simp add: drop_runes_Some[OF Some])
  qed
qed

lemma drop_runes_fix:
  assumes "\<And>r. r \<in> set rs \<Longrightarrow> r \<noteq> [] \<Longrightarrow> \<not> HasPrefix s r"
  shows "drop_runes rs s = s"
proof -
  have "find (\<lambda>r. r \<noteq> [] \<and> HasPrefix s r) rs = None"
    using assms by (auto simp: find_None_iff)
  then show ?thesis by (rule drop_runes_None)
qed

text \<open>Trimming twice is trimming once.\<close>

lemma TrimSpace_idem [simp]: "TrimSpace (TrimSpace s) = TrimSpace s"
proof -
  let ?L = "drop_runes space_runes s" and ?R = "map rev space_runes"
  obtain p where p: "rev ?L = p @ drop_runes ?R (rev ?L)"
    using drop_runes_suffix by blast
  then have L: "?L = TrimSpace s @ rev p"
    by (metis TrimSpace_def rev_append rev_swap)
  have "\<not> HasPrefix (TrimSpace s) r" if "r \<in> set space_runes" "r \<noteq> []" for r
    using drop_runes_done[OF that, of s] L by (auto simp: HasPrefix_append)
  then have left: "drop_runes space_runes (TrimSpace s) = TrimSpace s"
    by (rule drop_runes_fix)
  have "drop_runes ?R (drop_runes ?R (rev ?L)) = drop_runes ?R (rev ?L)"
    by (rule drop_runes_fix) (rule drop_runes_done)
  with left show ?thesis
    by (simp add: TrimSpace_def)
qed

lemma TrimSpace_Nil [simp]: "TrimSpace [] = []"
  by (simp add: TrimSpace_def drop_runes.simps space_runes_def HasPrefix_def)

lemma isBlank_Nil [simp]: "isBlank []"
  by (simp add: isBlank_def)

lemma isBlank_TrimSpace [simp]: "isBlank (TrimSpace s) = isBlank s"
  by (simp add: isBlank_def)

text \<open>A string whose first and last bytes belong to no space rune is not changed.\<close>

lemma TrimSpace_plain:
  assumes "s = c # cs" "\<And>r. r \<in> set space_runes \<Longrightarrow> hd r \<noteq> c"
    and "\<And>r. r \<in> set space_runes \<Longrightarrow> last r \<noteq> last s"
  shows "TrimSpace s = s"
proof -
  have "drop_runes space_runes s = s"
  proof (rule drop_runes_fix)
    fix r assume r: "r \<in> set space_runes" "r \<noteq> []"
    with assms(2) have "hd r \<noteq> c" by blast
    with r(2) assms(1) show "\<not> HasPrefix s r"
      by (cases r) (auto simp: HasPrefix_append)
  qed
  moreover have "drop_runes (map rev space_runes) (rev s) = rev s"
  proof (rule drop_runes_fix)
    fix r assume r: "r \<in> set (map rev space_runes)" "r \<noteq> []"
    then obtain r' where r': "r = rev r'" "r' \<in> set space_runes" "r' \<noteq> []" by auto
    show "\<not> HasPrefix (rev s) r"
    proof
      assume "HasPrefix (rev s) r"
      then obtain t where "rev s = rev r' @ t" by (auto simp: HasPrefix_append r')
      then have "s = rev t @ r'" by (metis rev_append rev_rev_ident)
      then have "last s = last r'" using r' by simp
      with assms(3) r' show False by auto
    qed
  qed
  ultimately show ?thesis by (simp add: TrimSpace_def)
qed

section \<open>Decimal rendering\<close>

fun nat_digits :: "nat \<Rightarrow> string" where
  "nat_digits n = (if n < 10 then [char_of (48 + n)] else nat_digits (n div 10) @ [char_of (48 + n mod 10)])"

declare nat_digits.simps [simp del]

definition Itoa :: "int \<Rightarrow> string" where
  "Itoa n = (if n < 0 then CHR ''-'' # nat_digits (nat (- n)) else nat_digits (nat n))"

section \<open>Runes\<close>

text \<open>
  \<^verbatim>\<open>for _, r := range s\<close>: the first rune of a string and its width; a byte that starts no valid UTF-8
  sequence is U+FFFD of width one.
\<close>

definition contByte :: "nat \<Rightarrow> nat \<Rightarrow> string \<Rightarrow> nat \<Rightarrow> bool" where
  "contByte lo hi s i \<longleftrightarrow> i < length s \<and> lo \<le> (of_char (s ! i) :: nat) \<and> (of_char (s ! i) :: nat) \<le> hi"

definition decodeRune :: "string \<Rightarrow> nat \<times> nat" where
  "decodeRune s =
     (let b = (\<lambda>i. of_char (s ! i) :: nat); b0 = b 0; tail = contByte 0x80 0xBF s;
          two = tail 1; three = tail 2; four = tail 3 in
      if b0 < 0x80 then (b0, 1)
      else if 0xC2 \<le> b0 \<and> b0 \<le> 0xDF \<and> two then ((b0 - 0xC0) * 64 + (b 1 - 0x80), 2)
      else if (b0 = 0xE0 \<and> contByte 0xA0 0xBF s 1 \<or> b0 = 0xED \<and> contByte 0x80 0x9F s 1 \<or>
               0xE1 \<le> b0 \<and> b0 \<le> 0xEF \<and> b0 \<noteq> 0xED \<and> two) \<and> three
        then ((b0 - 0xE0) * 4096 + (b 1 - 0x80) * 64 + (b 2 - 0x80), 3)
      else if (b0 = 0xF0 \<and> contByte 0x90 0xBF s 1 \<or> b0 = 0xF4 \<and> contByte 0x80 0x8F s 1 \<or>
               0xF1 \<le> b0 \<and> b0 \<le> 0xF3 \<and> two) \<and> three \<and> four
        then ((b0 - 0xF0) * 262144 + (b 1 - 0x80) * 4096 + (b 2 - 0x80) * 64 + (b 3 - 0x80), 4)
      else (0xFFFD, 1))"

lemma decodeRune_width: "snd (decodeRune s) > 0"
  by (simp add: decodeRune_def Let_def)

function runes :: "string \<Rightarrow> nat list" where
  "runes s = (if s = [] then [] else case decodeRune s of (r, n) \<Rightarrow> r # runes (drop n s))"
  by pat_completeness auto
termination
proof (relation "measure length")
  fix s :: string and r n
  assume a: "s \<noteq> []" "(r, n) = decodeRune s"
  then have "n > 0" by (metis decodeRune_width snd_conv)
  with a show "(drop n s, s) \<in> measure length" by simp
qed simp

declare runes.simps [simp del]

end
