(* ===== verification/Domain.thy ===== *)
theory Domain
  imports GoLib
begin

text \<open>
  \<^verbatim>\<open>internal/domain\<close>: the data model (\<^verbatim>\<open>types.go\<close>) and the error values (\<^verbatim>\<open>errors.go\<close>).

  A Go string enumeration is a datatype with one constructor per constant and an \<open>...Other\<close>
  constructor for every other string a value of the type may hold (the zero value is
  \<open>...Other []\<close>); \<open>str_T\<close> is the conversion \<^verbatim>\<open>string(v)\<close>. A struct is a record whose fields carry the
  Go field names behind a short prefix. \<open>zero_T\<close> is the zero value of a struct where the code uses one.
  Errors are values: the sentinel errors, errors that come from the signer or another
  collaborator, and errors that wrap two others (\<^verbatim>\<open>fmt.Errorf("%w: %w", a, b)\<close>).
\<close>

section \<open>Enumerations\<close>

datatype IdentityType =
    IdentityUser
  | IdentityMachine
  | IdentityService
  | IdentityIoTDevice
  | IdentityWorkload
  | IdentityTypeOther string

fun str_IdentityType :: "IdentityType \<Rightarrow> string" where
  "str_IdentityType IdentityUser = ''user''"
| "str_IdentityType IdentityMachine = ''machine''"
| "str_IdentityType IdentityService = ''service''"
| "str_IdentityType IdentityIoTDevice = ''iot_device''"
| "str_IdentityType IdentityWorkload = ''workload''"
| "str_IdentityType (IdentityTypeOther s) = s"

datatype IdentityStatus =
    IdentityActive
  | IdentityDisabled
  | IdentityStatusOther string

fun str_IdentityStatus :: "IdentityStatus \<Rightarrow> string" where
  "str_IdentityStatus IdentityActive = ''active''"
| "str_IdentityStatus IdentityDisabled = ''disabled''"
| "str_IdentityStatus (IdentityStatusOther s) = s"

datatype IssuerStatus =
    IssuerActive
  | IssuerDisabled
  | IssuerStatusOther string

fun str_IssuerStatus :: "IssuerStatus \<Rightarrow> string" where
  "str_IssuerStatus IssuerActive = ''active''"
| "str_IssuerStatus IssuerDisabled = ''disabled''"
| "str_IssuerStatus (IssuerStatusOther s) = s"

datatype OCSPResponderStatus =
    OCSPResponderActive
  | OCSPResponderDisabled
  | OCSPResponderStatusOther string

fun str_OCSPResponderStatus :: "OCSPResponderStatus \<Rightarrow> string" where
  "str_OCSPResponderStatus OCSPResponderActive = ''active''"
| "str_OCSPResponderStatus OCSPResponderDisabled = ''disabled''"
| "str_OCSPResponderStatus (OCSPResponderStatusOther s) = s"

datatype NotificationEndpointType =
    NotificationEndpointWebhook
  | NotificationEndpointTypeOther string

fun str_NotificationEndpointType :: "NotificationEndpointType \<Rightarrow> string" where
  "str_NotificationEndpointType NotificationEndpointWebhook = ''webhook''"
| "str_NotificationEndpointType (NotificationEndpointTypeOther s) = s"

datatype NotificationEndpointStatus =
    NotificationEndpointActive
  | NotificationEndpointDisabled
  | NotificationEndpointStatusOther string

fun str_NotificationEndpointStatus :: "NotificationEndpointStatus \<Rightarrow> string" where
  "str_NotificationEndpointStatus NotificationEndpointActive = ''active''"
| "str_NotificationEndpointStatus NotificationEndpointDisabled = ''disabled''"
| "str_NotificationEndpointStatus (NotificationEndpointStatusOther s) = s"

datatype EnrollmentStatus =
    EnrollmentPending
  | EnrollmentApproved
  | EnrollmentRejected
  | EnrollmentIssued
  | EnrollmentCanceled
  | EnrollmentStatusOther string

fun str_EnrollmentStatus :: "EnrollmentStatus \<Rightarrow> string" where
  "str_EnrollmentStatus EnrollmentPending = ''pending''"
| "str_EnrollmentStatus EnrollmentApproved = ''approved''"
| "str_EnrollmentStatus EnrollmentRejected = ''rejected''"
| "str_EnrollmentStatus EnrollmentIssued = ''issued''"
| "str_EnrollmentStatus EnrollmentCanceled = ''canceled''"
| "str_EnrollmentStatus (EnrollmentStatusOther s) = s"

datatype IssuanceAttemptStatus =
    IssuanceAttemptSigning
  | IssuanceAttemptSigned
  | IssuanceAttemptFinalized
  | IssuanceAttemptFailed
  | IssuanceAttemptStatusOther string

fun str_IssuanceAttemptStatus :: "IssuanceAttemptStatus \<Rightarrow> string" where
  "str_IssuanceAttemptStatus IssuanceAttemptSigning = ''signing''"
| "str_IssuanceAttemptStatus IssuanceAttemptSigned = ''signed''"
| "str_IssuanceAttemptStatus IssuanceAttemptFinalized = ''finalized''"
| "str_IssuanceAttemptStatus IssuanceAttemptFailed = ''failed''"
| "str_IssuanceAttemptStatus (IssuanceAttemptStatusOther s) = s"

datatype CertificateStatus =
    CertificateValid
  | CertificateSuspended
  | CertificateRevoked
  | CertificateExpired
  | CertificateStatusOther string

fun str_CertificateStatus :: "CertificateStatus \<Rightarrow> string" where
  "str_CertificateStatus CertificateValid = ''valid''"
| "str_CertificateStatus CertificateSuspended = ''suspended''"
| "str_CertificateStatus CertificateRevoked = ''revoked''"
| "str_CertificateStatus CertificateExpired = ''expired''"
| "str_CertificateStatus (CertificateStatusOther s) = s"

datatype CRLPublicationStatus =
    CRLPublicationPublished
  | CRLPublicationStatusOther string

fun str_CRLPublicationStatus :: "CRLPublicationStatus \<Rightarrow> string" where
  "str_CRLPublicationStatus CRLPublicationPublished = ''published''"
| "str_CRLPublicationStatus (CRLPublicationStatusOther s) = s"

datatype OutboxMessageStatus =
    OutboxPending
  | OutboxProcessing
  | OutboxCompleted
  | OutboxFailed
  | OutboxDeadLetter
  | OutboxMessageStatusOther string

fun str_OutboxMessageStatus :: "OutboxMessageStatus \<Rightarrow> string" where
  "str_OutboxMessageStatus OutboxPending = ''pending''"
| "str_OutboxMessageStatus OutboxProcessing = ''processing''"
| "str_OutboxMessageStatus OutboxCompleted = ''completed''"
| "str_OutboxMessageStatus OutboxFailed = ''failed''"
| "str_OutboxMessageStatus OutboxDeadLetter = ''dead_letter''"
| "str_OutboxMessageStatus (OutboxMessageStatusOther s) = s"

datatype JobAttemptStatus =
    JobAttemptSucceeded
  | JobAttemptFailed
  | JobAttemptStatusOther string

fun str_JobAttemptStatus :: "JobAttemptStatus \<Rightarrow> string" where
  "str_JobAttemptStatus JobAttemptSucceeded = ''succeeded''"
| "str_JobAttemptStatus JobAttemptFailed = ''failed''"
| "str_JobAttemptStatus (JobAttemptStatusOther s) = s"

datatype APIKeyStatus =
    APIKeyActive
  | APIKeyDisabled
  | APIKeyStatusOther string

fun str_APIKeyStatus :: "APIKeyStatus \<Rightarrow> string" where
  "str_APIKeyStatus APIKeyActive = ''active''"
| "str_APIKeyStatus APIKeyDisabled = ''disabled''"
| "str_APIKeyStatus (APIKeyStatusOther s) = s"

datatype APIKeyScope =
    APIKeyScopeRead
  | APIKeyScopeWrite
  | APIKeyScopeOperator
  | APIKeyScopeOther string

fun str_APIKeyScope :: "APIKeyScope \<Rightarrow> string" where
  "str_APIKeyScope APIKeyScopeRead = ''read''"
| "str_APIKeyScope APIKeyScopeWrite = ''write''"
| "str_APIKeyScope APIKeyScopeOperator = ''operator''"
| "str_APIKeyScope (APIKeyScopeOther s) = s"

datatype ACMEAccountStatus =
    ACMEAccountValid
  | ACMEAccountDeactivated
  | ACMEAccountStatusOther string

fun str_ACMEAccountStatus :: "ACMEAccountStatus \<Rightarrow> string" where
  "str_ACMEAccountStatus ACMEAccountValid = ''valid''"
| "str_ACMEAccountStatus ACMEAccountDeactivated = ''deactivated''"
| "str_ACMEAccountStatus (ACMEAccountStatusOther s) = s"

datatype ACMEOrderStatus =
    ACMEOrderPending
  | ACMEOrderReady
  | ACMEOrderValid
  | ACMEOrderInvalid
  | ACMEOrderStatusOther string

fun str_ACMEOrderStatus :: "ACMEOrderStatus \<Rightarrow> string" where
  "str_ACMEOrderStatus ACMEOrderPending = ''pending''"
| "str_ACMEOrderStatus ACMEOrderReady = ''ready''"
| "str_ACMEOrderStatus ACMEOrderValid = ''valid''"
| "str_ACMEOrderStatus ACMEOrderInvalid = ''invalid''"
| "str_ACMEOrderStatus (ACMEOrderStatusOther s) = s"

datatype ACMEAuthorizationStatus =
    ACMEAuthorizationPending
  | ACMEAuthorizationValid
  | ACMEAuthorizationInvalid
  | ACMEAuthorizationStatusOther string

fun str_ACMEAuthorizationStatus :: "ACMEAuthorizationStatus \<Rightarrow> string" where
  "str_ACMEAuthorizationStatus ACMEAuthorizationPending = ''pending''"
| "str_ACMEAuthorizationStatus ACMEAuthorizationValid = ''valid''"
| "str_ACMEAuthorizationStatus ACMEAuthorizationInvalid = ''invalid''"
| "str_ACMEAuthorizationStatus (ACMEAuthorizationStatusOther s) = s"

datatype ACMEChallengeType =
    ACMEChallengeHTTP01
  | ACMEChallengeDNS01
  | ACMEChallengeTypeOther string

fun str_ACMEChallengeType :: "ACMEChallengeType \<Rightarrow> string" where
  "str_ACMEChallengeType ACMEChallengeHTTP01 = ''http-01''"
| "str_ACMEChallengeType ACMEChallengeDNS01 = ''dns-01''"
| "str_ACMEChallengeType (ACMEChallengeTypeOther s) = s"

datatype ACMEChallengeStatus =
    ACMEChallengePending
  | ACMEChallengeProcessing
  | ACMEChallengeValid
  | ACMEChallengeInvalid
  | ACMEChallengeStatusOther string

fun str_ACMEChallengeStatus :: "ACMEChallengeStatus \<Rightarrow> string" where
  "str_ACMEChallengeStatus ACMEChallengePending = ''pending''"
| "str_ACMEChallengeStatus ACMEChallengeProcessing = ''processing''"
| "str_ACMEChallengeStatus ACMEChallengeValid = ''valid''"
| "str_ACMEChallengeStatus ACMEChallengeInvalid = ''invalid''"
| "str_ACMEChallengeStatus (ACMEChallengeStatusOther s) = s"

datatype RevocationReason =
    RevocationKeyCompromise
  | RevocationCACompromise
  | RevocationAffiliationChanged
  | RevocationSuperseded
  | RevocationCessationOfOperation
  | RevocationPrivilegeWithdrawn
  | RevocationUnspecified
  | RevocationReasonOther string

fun str_RevocationReason :: "RevocationReason \<Rightarrow> string" where
  "str_RevocationReason RevocationKeyCompromise = ''key_compromise''"
| "str_RevocationReason RevocationCACompromise = ''ca_compromise''"
| "str_RevocationReason RevocationAffiliationChanged = ''affiliation_changed''"
| "str_RevocationReason RevocationSuperseded = ''superseded''"
| "str_RevocationReason RevocationCessationOfOperation = ''cessation_of_operation''"
| "str_RevocationReason RevocationPrivilegeWithdrawn = ''privilege_withdrawn''"
| "str_RevocationReason RevocationUnspecified = ''unspecified''"
| "str_RevocationReason (RevocationReasonOther s) = s"

datatype IssuerKind =
    IssuerRootCA
  | IssuerIntermediateCA
  | IssuerKindOther string

fun str_IssuerKind :: "IssuerKind \<Rightarrow> string" where
  "str_IssuerKind IssuerRootCA = ''root_ca''"
| "str_IssuerKind IssuerIntermediateCA = ''intermediate_ca''"
| "str_IssuerKind (IssuerKindOther s) = s"

section \<open>Structs\<close>

record Identity =
  idn_ID :: string
  idn_Type :: IdentityType
  idn_Name :: string
  idn_ExternalID :: string
  idn_Owner :: string
  idn_Team :: string
  idn_Service :: string
  idn_Environment :: string
  idn_DeploymentTarget :: string
  idn_LastSeenAt :: time
  idn_MetadataJSON :: string
  idn_AllowedDNSNames :: "string list"
  idn_AllowedIPAddresses :: "string list"
  idn_Status :: IdentityStatus
  idn_CreatedAt :: time
  idn_UpdatedAt :: time

definition zero_Identity :: Identity where
  "zero_Identity = \<lparr>idn_ID = [],
     idn_Type = IdentityTypeOther [],
     idn_Name = [],
     idn_ExternalID = [],
     idn_Owner = [],
     idn_Team = [],
     idn_Service = [],
     idn_Environment = [],
     idn_DeploymentTarget = [],
     idn_LastSeenAt = time_zero,
     idn_MetadataJSON = [],
     idn_AllowedDNSNames = [],
     idn_AllowedIPAddresses = [],
     idn_Status = IdentityStatusOther [],
     idn_CreatedAt = time_zero,
     idn_UpdatedAt = time_zero\<rparr>"

record Issuer =
  iss_ID :: string
  iss_Name :: string
  iss_Kind :: IssuerKind
  iss_Status :: IssuerStatus
  iss_ParentIssuerID :: string
  iss_CertificatePEM :: string
  iss_KeyRef :: string
  iss_AIAURL :: string
  iss_CRLDistributionPoints :: "string list"
  iss_TrustAnchor :: bool
  iss_CreatedAt :: time
  iss_UpdatedAt :: time

definition zero_Issuer :: Issuer where
  "zero_Issuer = \<lparr>iss_ID = [],
     iss_Name = [],
     iss_Kind = IssuerKindOther [],
     iss_Status = IssuerStatusOther [],
     iss_ParentIssuerID = [],
     iss_CertificatePEM = [],
     iss_KeyRef = [],
     iss_AIAURL = [],
     iss_CRLDistributionPoints = [],
     iss_TrustAnchor = False,
     iss_CreatedAt = time_zero,
     iss_UpdatedAt = time_zero\<rparr>"

record OCSPResponder =
  rsp_ID :: string
  rsp_IssuerID :: string
  rsp_Name :: string
  rsp_Status :: OCSPResponderStatus
  rsp_CertificatePEM :: string
  rsp_KeyRef :: string
  rsp_CreatedAt :: time
  rsp_UpdatedAt :: time

record NotificationEndpoint =
  ep_ID :: string
  ep_Name :: string
  ep_Type :: NotificationEndpointType
  ep_Status :: NotificationEndpointStatus
  ep_URL :: string
  ep_Secret :: string
  ep_EventTypes :: "string list"
  ep_CreatedAt :: time
  ep_UpdatedAt :: time

record StringListExtensionPolicy =
  slp_Critical :: bool
  slp_Values :: "string list"

definition zero_StringListExtensionPolicy :: StringListExtensionPolicy where
  "zero_StringListExtensionPolicy = \<lparr>slp_Critical = False,
     slp_Values = []\<rparr>"

record BasicConstraintsPolicy =
  bc_Critical :: bool
  bc_CA :: bool
  bc_MaxPathLen :: "int option"

definition zero_BasicConstraintsPolicy :: BasicConstraintsPolicy where
  "zero_BasicConstraintsPolicy = \<lparr>bc_Critical = False,
     bc_CA = False,
     bc_MaxPathLen = None\<rparr>"

record CertificateProfile =
  prof_ID :: string
  prof_Name :: string
  prof_Description :: string
  prof_IssuerID :: string
  prof_ValidityPeriodSeconds :: int
  prof_PublicTLS :: bool
  prof_SubjectTemplate :: string
  prof_AllowedDNSPatterns :: "string list"
  prof_AllowedIPRanges :: "string list"
  prof_AllowedKeyAlgorithms :: "string list"
  prof_MinKeySizeBits :: int
  prof_AllowedSignatureAlgorithms :: "string list"
  prof_KeyUsage :: StringListExtensionPolicy
  prof_ExtendedKeyUsage :: StringListExtensionPolicy
  prof_BasicConstraints :: BasicConstraintsPolicy
  prof_SubjectKeyIdentifier :: bool
  prof_AuthorityKeyIdentifier :: bool
  prof_CreatedAt :: time
  prof_UpdatedAt :: time

definition zero_CertificateProfile :: CertificateProfile where
  "zero_CertificateProfile = \<lparr>prof_ID = [],
     prof_Name = [],
     prof_Description = [],
     prof_IssuerID = [],
     prof_ValidityPeriodSeconds = 0,
     prof_PublicTLS = False,
     prof_SubjectTemplate = [],
     prof_AllowedDNSPatterns = [],
     prof_AllowedIPRanges = [],
     prof_AllowedKeyAlgorithms = [],
     prof_MinKeySizeBits = 0,
     prof_AllowedSignatureAlgorithms = [],
     prof_KeyUsage = zero_StringListExtensionPolicy,
     prof_ExtendedKeyUsage = zero_StringListExtensionPolicy,
     prof_BasicConstraints = zero_BasicConstraintsPolicy,
     prof_SubjectKeyIdentifier = False,
     prof_AuthorityKeyIdentifier = False,
     prof_CreatedAt = time_zero,
     prof_UpdatedAt = time_zero\<rparr>"

record Enrollment =
  enr_ID :: string
  enr_IdentityID :: string
  enr_IssuerID :: string
  enr_CertificateProfileID :: string
  enr_CSRPEM :: string
  enr_Status :: EnrollmentStatus
  enr_RequestedSubject :: string
  enr_RequestedDNSNames :: "string list"
  enr_RequestedIPAddresses :: "string list"
  enr_CSRDNSNames :: "string list"
  enr_CSRIPAddresses :: "string list"
  enr_RequestedNotAfter :: time
  enr_ApprovedBy :: string
  enr_ApprovedAt :: time
  enr_CreatedAt :: time
  enr_UpdatedAt :: time

record Certificate =
  cert_ID :: string
  cert_IdentityID :: string
  cert_IssuerID :: string
  cert_EnrollmentID :: string
  cert_CertificateProfileID :: string
  cert_SerialNumber :: string
  cert_Subject :: string
  cert_DNSNames :: "string list"
  cert_IPAddresses :: "string list"
  cert_NotBefore :: time
  cert_NotAfter :: time
  cert_Status :: CertificateStatus
  cert_CertificatePEM :: string
  cert_RenewalNotifiedAt :: time
  cert_CreatedAt :: time
  cert_UpdatedAt :: time

record IssuanceAttempt =
  att_EnrollmentID :: string
  att_Status :: IssuanceAttemptStatus
  att_LeaseExpiresAt :: time
  att_CertificateID :: string
  att_CertificatePEM :: string
  att_SerialNumber :: string
  att_Subject :: string
  att_NotBefore :: time
  att_NotAfter :: time
  att_SigningStartedAt :: time
  att_SignedAt :: time
  att_FinalizedAt :: time
  att_LastError :: string
  att_CreatedAt :: time
  att_UpdatedAt :: time

record Revocation =
  rev_ID :: string
  rev_CertificateID :: string
  rev_Reason :: RevocationReason
  rev_RevokedBy :: string
  rev_RevokedAt :: time
  rev_CreatedAt :: time

record RevokedCertificateEntry =
  rce_CertificateID :: string
  rce_SerialNumber :: string
  rce_RevokedAt :: time
  rce_Reason :: RevocationReason

record CRLPublication =
  crl_ID :: string
  crl_IssuerID :: string
  crl_DistributionPoint :: string
  crl_CRLNumber :: int
  crl_ThisUpdate :: time
  crl_NextUpdate :: time
  crl_Status :: CRLPublicationStatus
  crl_CRLPEM :: string
  crl_CreatedAt :: time
  crl_UpdatedAt :: time

record AuditEvent =
  aud_ID :: string
  aud_Actor :: string
  aud_Action :: string
  aud_ResourceType :: string
  aud_ResourceID :: string
  aud_MetadataJSON :: string
  aud_CreatedAt :: time

record OutboxMessage =
  msg_ID :: string
  msg_Type :: string
  msg_PayloadJSON :: string
  msg_Status :: OutboxMessageStatus
  msg_AvailableAt :: time
  msg_ProcessingDeadlineAt :: time
  msg_AttemptCount :: int
  msg_MaxAttempts :: int
  msg_LastError :: string
  msg_CreatedAt :: time
  msg_UpdatedAt :: time

record JobAttempt =
  job_ID :: string
  job_OutboxMessageID :: string
  job_Status :: JobAttemptStatus
  job_Error :: string
  job_StartedAt :: time
  job_FinishedAt :: time
  job_CreatedAt :: time

record WebhookDelivery =
  whd_OutboxMessageID :: string
  whd_EndpointID :: string
  whd_Status :: JobAttemptStatus
  whd_AttemptCount :: int
  whd_LastError :: string
  whd_LastAttemptedAt :: time
  whd_CreatedAt :: time
  whd_UpdatedAt :: time

definition zero_WebhookDelivery :: WebhookDelivery where
  "zero_WebhookDelivery = \<lparr>whd_OutboxMessageID = [],
     whd_EndpointID = [],
     whd_Status = JobAttemptStatusOther [],
     whd_AttemptCount = 0,
     whd_LastError = [],
     whd_LastAttemptedAt = time_zero,
     whd_CreatedAt = time_zero,
     whd_UpdatedAt = time_zero\<rparr>"

record APIKey =
  key_ID :: string
  key_Name :: string
  key_TokenHash :: string
  key_Status :: APIKeyStatus
  key_Actor :: string
  key_Scopes :: "APIKeyScope list"
  key_ExpiresAt :: time
  key_LastUsedAt :: time
  key_CreatedAt :: time
  key_UpdatedAt :: time

record ACMEAccount =
  acc_ID :: string
  acc_Contacts :: "string list"
  acc_Status :: ACMEAccountStatus
  acc_TermsOfServiceAgreed :: bool
  acc_KeyThumbprint :: string
  acc_KeyJWKJSON :: string
  acc_CreatedAt :: time
  acc_UpdatedAt :: time

record ACMEOrder =
  ord_ID :: string
  ord_AccountID :: string
  ord_IdentityID :: string
  ord_IssuerID :: string
  ord_CertificateProfileID :: string
  ord_Status :: ACMEOrderStatus
  ord_CSRPEM :: string
  ord_RequestedSubject :: string
  ord_RequestedDNSNames :: "string list"
  ord_RequestedIPAddresses :: "string list"
  ord_RequestedNotAfter :: time
  ord_EnrollmentID :: string
  ord_CertificateID :: string
  ord_ExpiresAt :: time
  ord_CreatedAt :: time
  ord_UpdatedAt :: time

record ACMEAuthorization =
  authz_ID :: string
  authz_OrderID :: string
  authz_IdentifierType :: string
  authz_IdentifierValue :: string
  authz_Status :: ACMEAuthorizationStatus
  authz_ExpiresAt :: time
  authz_ValidationReuseExpiresAt :: time
  authz_CreatedAt :: time
  authz_UpdatedAt :: time

record ACMEChallenge =
  chal_ID :: string
  chal_AuthorizationID :: string
  chal_Type :: ACMEChallengeType
  chal_Token :: string
  chal_Status :: ACMEChallengeStatus
  chal_ValidatedAt :: time
  chal_CreatedAt :: time
  chal_UpdatedAt :: time

section \<open>Errors\<close>

text \<open>
  \<open>ErrCommand code text\<close> is a \<^verbatim>\<open>corecli.CommandError\<close> with its code and its message; \<open>ErrExternal msg\<close> any other error value of a
  collaborator that matches no sentinel (network, JSON, random source);
  \<open>ErrWrap a b\<close> is \<^verbatim>\<open>fmt.Errorf("%w: %w", a, b)\<close>. \<open>ErrACMEBadNonce\<close> is \<^verbatim>\<open>errACMEBadNonce\<close> of \<^verbatim>\<open>internal/httpapi/server.go\<close>.
\<close>

datatype error =
    ErrInvalidRequest
  | ErrUnsupportedMediaType
  | ErrUnauthorized
  | ErrForbidden
  | ErrRateLimited
  | ErrIdentityNotFound
  | ErrIssuerNotFound
  | ErrOCSPResponderNotFound
  | ErrNotificationEndpointNotFound
  | ErrCertificateProfileNotFound
  | ErrEnrollmentNotFound
  | ErrCertificateNotFound
  | ErrIssuanceAttemptNotFound
  | ErrCRLPublicationNotFound
  | ErrOutboxMessageNotFound
  | ErrWebhookDeliveryNotFound
  | ErrAPIKeyNotFound
  | ErrACMEAccountNotFound
  | ErrACMEAccountDeactivated
  | ErrACMEOrderNotFound
  | ErrACMEAuthorizationNotFound
  | ErrACMEChallengeNotFound
  | ErrInvalidTransition
  | ErrCSRParseFailed
  | ErrCertificateIssuanceFailed
  | ErrCRLGenerationFailed
  | ErrOCSPDecodeFailed
  | ErrOCSPResponseFailed
  | ErrOCSPResponderValidationFailed
  | ErrStorageFailure
  | ErrACMEBadNonce
  | ErrCommand string string
  | ErrExternal string
  | ErrWrap error error

text \<open>\<^verbatim>\<open>errors.Is\<close>: the error itself or one it wraps.\<close>

fun errors_Is :: "error \<Rightarrow> error \<Rightarrow> bool" where
  "errors_Is (ErrWrap a b) target \<longleftrightarrow> ErrWrap a b = target \<or> errors_Is a target \<or> errors_Is b target"
| "errors_Is e target \<longleftrightarrow> e = target"

text \<open>\<^verbatim>\<open>err.Error()\<close>.\<close>

fun error_text :: "error \<Rightarrow> string" where
  "error_text ErrInvalidRequest = ''invalid request''"
| "error_text ErrUnsupportedMediaType = ''unsupported media type''"
| "error_text ErrUnauthorized = ''unauthorized''"
| "error_text ErrForbidden = ''forbidden''"
| "error_text ErrRateLimited = ''rate limited''"
| "error_text ErrIdentityNotFound = ''identity not found''"
| "error_text ErrIssuerNotFound = ''issuer not found''"
| "error_text ErrOCSPResponderNotFound = ''ocsp responder not found''"
| "error_text ErrNotificationEndpointNotFound = ''notification endpoint not found''"
| "error_text ErrCertificateProfileNotFound = ''certificate profile not found''"
| "error_text ErrEnrollmentNotFound = ''enrollment not found''"
| "error_text ErrCertificateNotFound = ''certificate not found''"
| "error_text ErrIssuanceAttemptNotFound = ''issuance attempt not found''"
| "error_text ErrCRLPublicationNotFound = ''crl publication not found''"
| "error_text ErrOutboxMessageNotFound = ''outbox message not found''"
| "error_text ErrWebhookDeliveryNotFound = ''webhook delivery not found''"
| "error_text ErrAPIKeyNotFound = ''api key not found''"
| "error_text ErrACMEAccountNotFound = ''acme account not found''"
| "error_text ErrACMEAccountDeactivated = ''acme account deactivated''"
| "error_text ErrACMEOrderNotFound = ''acme order not found''"
| "error_text ErrACMEAuthorizationNotFound = ''acme authorization not found''"
| "error_text ErrACMEChallengeNotFound = ''acme challenge not found''"
| "error_text ErrInvalidTransition = ''invalid lifecycle transition''"
| "error_text ErrCSRParseFailed = ''csr parse failed''"
| "error_text ErrCertificateIssuanceFailed = ''certificate issuance failed''"
| "error_text ErrCRLGenerationFailed = ''crl generation failed''"
| "error_text ErrOCSPDecodeFailed = ''ocsp decode failed''"
| "error_text ErrOCSPResponseFailed = ''ocsp response failed''"
| "error_text ErrOCSPResponderValidationFailed = ''ocsp responder validation failed''"
| "error_text ErrStorageFailure = ''storage failure''"
| "error_text ErrACMEBadNonce = ''acme bad nonce''"
| "error_text (ErrCommand code text) = text"
| "error_text (ErrExternal msg) = msg"
| "error_text (ErrWrap a b) = error_text a @ '': '' @ error_text b"

text \<open>The result of a call that changes nothing.\<close>

type_synonym 'a result = "error + 'a"

end
