(* ===== verification/MemoryStore.thy ===== *)
theory MemoryStore
  imports Domain
begin

text \<open>
  \<^verbatim>\<open>internal/store/memory.go\<close>: the in-memory repository. \<open>MemoryStore\<close> is the struct (its tables;
  the mutex is not a field of the model because every method holds it from entry to return, so one
  method call is one atomic step), the helpers over the tables come first, in the order of the
  file, and every method of the \<^verbatim>\<open>Repository\<close> interface is \<open>MemoryStore_<Method>\<close>, a
  program over the store. \<open>copyX\<close> functions are the defensive copies; on values they are the identity.
  The transactional view \<^verbatim>\<open>memoryTx\<close> is modelled in theory \<open>MemoryTx\<close>.
\<close>

section \<open>Store types\<close>

record CertificateInventoryFilter =
  cif_Owner :: string
  cif_Team :: string
  cif_Service :: string
  cif_Environment :: string
  cif_IssuerID :: string
  cif_ProfileID :: string
  cif_RevocationState :: string
  cif_Limit :: int
  cif_Offset :: int

record CertificateInventoryRecord =
  cir_Certificate :: Certificate
  cir_Identity :: Identity
  cir_Issuer :: Issuer

record AuditEventQuery =
  aq_Actor :: string
  aq_Action :: string
  aq_ResourceType :: string
  aq_ResourceID :: string
  aq_CreatedFrom :: time
  aq_CreatedTo :: time
  aq_Sort :: string
  aq_Limit :: int
  aq_Offset :: int

record MemoryStore =
  ms_identities :: "Identity gomap"
  ms_issuers :: "Issuer gomap"
  ms_ocspResponders :: "OCSPResponder gomap"
  ms_notifications :: "NotificationEndpoint gomap"
  ms_profiles :: "CertificateProfile gomap"
  ms_enrollments :: "Enrollment gomap"
  ms_certificates :: "Certificate gomap"
  ms_issuanceAttempts :: "IssuanceAttempt gomap"
  ms_revocations :: "Revocation gomap"
  ms_crls :: "CRLPublication gomap"
  ms_auditEvents :: "AuditEvent list"
  ms_outbox :: "OutboxMessage gomap"
  ms_jobAttempts :: "JobAttempt gomap"
  ms_webhookDeliveries :: "WebhookDelivery gomap"
  ms_apiKeys :: "APIKey gomap"
  ms_acmeAccounts :: "ACMEAccount gomap"
  ms_acmeOrders :: "ACMEOrder gomap"
  ms_acmeAuthzs :: "ACMEAuthorization gomap"
  ms_acmeChallenges :: "ACMEChallenge gomap"

definition NewMemoryStore :: MemoryStore where
  "NewMemoryStore = \<lparr>ms_identities = mempty, ms_issuers = mempty, ms_ocspResponders = mempty,
     ms_notifications = mempty, ms_profiles = mempty, ms_enrollments = mempty,
     ms_certificates = mempty, ms_issuanceAttempts = mempty, ms_revocations = mempty,
     ms_crls = mempty, ms_auditEvents = [], ms_outbox = mempty, ms_jobAttempts = mempty,
     ms_webhookDeliveries = mempty, ms_apiKeys = mempty, ms_acmeAccounts = mempty,
     ms_acmeOrders = mempty, ms_acmeAuthzs = mempty, ms_acmeChallenges = mempty\<rparr>"

section \<open>Copies\<close>

text \<open>\<^verbatim>\<open>append([]T(nil), xs...)\<close>: a fresh slice with the same elements.\<close>

definition copySlice :: "'a list \<Rightarrow> 'a list" where
  "copySlice xs = [] @ xs"

definition copyStringSlice :: "string list \<Rightarrow> string list" where
  "copyStringSlice values = (if length values = 0 then [] else copySlice values)"

definition copyEnrollment :: "Enrollment \<Rightarrow> Enrollment" where
  "copyEnrollment enrollment = enrollment
     \<lparr>enr_RequestedDNSNames := copySlice (enr_RequestedDNSNames enrollment),
      enr_RequestedIPAddresses := copySlice (enr_RequestedIPAddresses enrollment),
      enr_CSRDNSNames := copySlice (enr_CSRDNSNames enrollment),
      enr_CSRIPAddresses := copySlice (enr_CSRIPAddresses enrollment)\<rparr>"

definition copyIssuer :: "Issuer \<Rightarrow> Issuer" where
  "copyIssuer issuer = issuer\<lparr>iss_CRLDistributionPoints := copySlice (iss_CRLDistributionPoints issuer)\<rparr>"

definition copyCertificateProfile :: "CertificateProfile \<Rightarrow> CertificateProfile" where
  "copyCertificateProfile profile = profile
     \<lparr>prof_AllowedDNSPatterns := copySlice (prof_AllowedDNSPatterns profile),
      prof_AllowedIPRanges := copySlice (prof_AllowedIPRanges profile),
      prof_AllowedKeyAlgorithms := copySlice (prof_AllowedKeyAlgorithms profile),
      prof_AllowedSignatureAlgorithms := copySlice (prof_AllowedSignatureAlgorithms profile),
      prof_KeyUsage := (prof_KeyUsage profile)\<lparr>slp_Values := copySlice (slp_Values (prof_KeyUsage profile))\<rparr>,
      prof_ExtendedKeyUsage := (prof_ExtendedKeyUsage profile)\<lparr>slp_Values := copySlice (slp_Values (prof_ExtendedKeyUsage profile))\<rparr>\<rparr>"

definition copyCertificate :: "Certificate \<Rightarrow> Certificate" where
  "copyCertificate certificate = certificate
     \<lparr>cert_DNSNames := copySlice (cert_DNSNames certificate),
      cert_IPAddresses := copySlice (cert_IPAddresses certificate)\<rparr>"

definition copyIssuanceAttempt :: "IssuanceAttempt \<Rightarrow> IssuanceAttempt" where
  "copyIssuanceAttempt attempt = attempt"

definition copyNotificationEndpoint :: "NotificationEndpoint \<Rightarrow> NotificationEndpoint" where
  "copyNotificationEndpoint endpoint = endpoint\<lparr>ep_EventTypes := copySlice (ep_EventTypes endpoint)\<rparr>"

definition copyAPIKey :: "APIKey \<Rightarrow> APIKey" where
  "copyAPIKey key = key\<lparr>key_Scopes := copySlice (key_Scopes key)\<rparr>"

definition copyACMEAccount :: "ACMEAccount \<Rightarrow> ACMEAccount" where
  "copyACMEAccount account = account\<lparr>acc_Contacts := copySlice (acc_Contacts account)\<rparr>"

definition copyACMEOrder :: "ACMEOrder \<Rightarrow> ACMEOrder" where
  "copyACMEOrder order = order
     \<lparr>ord_RequestedDNSNames := copySlice (ord_RequestedDNSNames order),
      ord_RequestedIPAddresses := copySlice (ord_RequestedIPAddresses order)\<rparr>"

definition copyIdentity :: "Identity \<Rightarrow> Identity" where
  "copyIdentity identity = identity
     \<lparr>idn_AllowedDNSNames := copyStringSlice (idn_AllowedDNSNames identity),
      idn_AllowedIPAddresses := copyStringSlice (idn_AllowedIPAddresses identity)\<rparr>"

section \<open>Helpers over the tables\<close>

text \<open>
  The \<^verbatim>\<open>less\<close> function of the listings: creation time first, then identifier.
\<close>

definition createdThenID :: "('a \<Rightarrow> time) \<Rightarrow> ('a \<Rightarrow> string) \<Rightarrow> 'a \<Rightarrow> 'a \<Rightarrow> bool" where
  "createdThenID created ident a b =
     (if created a \<noteq> created b then created a < created b else ident a < ident b)"

text \<open>
  The selection loops \<^verbatim>\<open>if !found || better(x, best) { best = x; found = true }\<close>.
\<close>

fun pickBest :: "('a \<Rightarrow> 'a \<Rightarrow> bool) \<Rightarrow> 'a list \<Rightarrow> 'a option \<Rightarrow> 'a option" where
  "pickBest better [] best = best"
| "pickBest better (x # xs) best =
     pickBest better xs (case best of None \<Rightarrow> Some x | Some b \<Rightarrow> if better x b then Some x else Some b)"

fun ensureFinalizationKeys :: "Certificate list \<Rightarrow> Certificate \<Rightarrow> unit result" where
  "ensureFinalizationKeys [] certificate = Inr ()"
| "ensureFinalizationKeys (existing # rest) certificate =
     (if cert_ID existing = cert_ID certificate then ensureFinalizationKeys rest certificate
      else if cert_EnrollmentID certificate \<noteq> [] \<and> cert_EnrollmentID existing = cert_EnrollmentID certificate
        then Inl ErrInvalidTransition
      else if cert_IssuerID certificate \<noteq> [] \<and> cert_SerialNumber certificate \<noteq> [] \<and>
          cert_IssuerID existing = cert_IssuerID certificate \<and>
          cert_SerialNumber existing = cert_SerialNumber certificate
        then Inl ErrInvalidTransition
      else ensureFinalizationKeys rest certificate)"

definition ensureCertificateFinalizationKeysAvailable ::
  "Certificate gomap \<Rightarrow> Certificate \<Rightarrow> unit result" where
  "ensureCertificateFinalizationKeysAvailable certificates certificate =
     ensureFinalizationKeys (mvals certificates) certificate"

definition certificateByEnrollmentID :: "Certificate gomap \<Rightarrow> string \<Rightarrow> Certificate result" where
  "certificateByEnrollmentID certificates enrollmentID =
     (case find (\<lambda>certificate. cert_EnrollmentID certificate = enrollmentID) (mvals certificates) of
        Some certificate \<Rightarrow> Inr (copyCertificate certificate)
      | None \<Rightarrow> Inl ErrCertificateNotFound)"

definition createIssuanceAttempt ::
  "IssuanceAttempt gomap \<Rightarrow> IssuanceAttempt \<Rightarrow> IssuanceAttempt gomap result" where
  "createIssuanceAttempt attempts attempt =
     (case mget attempts (att_EnrollmentID attempt) of
        Some _ \<Rightarrow> Inl ErrInvalidTransition
      | None \<Rightarrow> Inr (mput (att_EnrollmentID attempt) (copyIssuanceAttempt attempt) attempts))"

definition getIssuanceAttempt :: "IssuanceAttempt gomap \<Rightarrow> string \<Rightarrow> IssuanceAttempt result" where
  "getIssuanceAttempt attempts enrollmentID =
     (case mget attempts enrollmentID of
        None \<Rightarrow> Inl ErrIssuanceAttemptNotFound
      | Some attempt \<Rightarrow> Inr (copyIssuanceAttempt attempt))"

definition updateEnrollmentIfStatus ::
  "Enrollment gomap \<Rightarrow> Enrollment \<Rightarrow> EnrollmentStatus \<Rightarrow> Enrollment gomap result" where
  "updateEnrollmentIfStatus enrollments enrollment currentStatus =
     (case mget enrollments (enr_ID enrollment) of
        None \<Rightarrow> Inl ErrEnrollmentNotFound
      | Some current \<Rightarrow>
          if enr_Status current \<noteq> currentStatus then Inl ErrInvalidTransition
          else Inr (mput (enr_ID enrollment) (copyEnrollment enrollment) enrollments))"

definition updateCertificateIfStatus ::
  "Certificate gomap \<Rightarrow> Certificate \<Rightarrow> CertificateStatus \<Rightarrow> Certificate gomap result" where
  "updateCertificateIfStatus certificates certificate currentStatus =
     (case mget certificates (cert_ID certificate) of
        None \<Rightarrow> Inl ErrCertificateNotFound
      | Some current \<Rightarrow>
          if cert_Status current \<noteq> currentStatus then Inl ErrInvalidTransition
          else Inr (mput (cert_ID certificate) (copyCertificate certificate) certificates))"

definition updateIssuanceAttemptIfCurrent ::
  "IssuanceAttempt gomap \<Rightarrow> IssuanceAttempt \<Rightarrow> IssuanceAttempt \<Rightarrow> IssuanceAttempt gomap result" where
  "updateIssuanceAttemptIfCurrent attempts attempt current =
     (case mget attempts (att_EnrollmentID attempt) of
        None \<Rightarrow> Inl ErrIssuanceAttemptNotFound
      | Some stored \<Rightarrow>
          if att_Status stored \<noteq> att_Status current \<or>
             att_LeaseExpiresAt stored \<noteq> att_LeaseExpiresAt current \<or>
             att_UpdatedAt stored \<noteq> att_UpdatedAt current
          then Inl ErrInvalidTransition
          else Inr (mput (att_EnrollmentID attempt) (copyIssuanceAttempt attempt) attempts))"

definition listOCSPRespondersByIssuer :: "OCSPResponder gomap \<Rightarrow> string \<Rightarrow> OCSPResponder list" where
  "listOCSPRespondersByIssuer responders issuerID =
     sort_by (createdThenID rsp_CreatedAt rsp_ID)
       (filter (\<lambda>responder. rsp_IssuerID responder = issuerID) (mvals responders))"

definition activeOCSPResponderByIssuer :: "OCSPResponder gomap \<Rightarrow> string \<Rightarrow> OCSPResponder result" where
  "activeOCSPResponderByIssuer responders issuerID =
     (case pickBest
        (\<lambda>responder active. rsp_CreatedAt responder > rsp_CreatedAt active \<or>
           rsp_CreatedAt responder = rsp_CreatedAt active \<and> rsp_ID responder > rsp_ID active)
        (filter (\<lambda>responder. \<not> (rsp_IssuerID responder \<noteq> issuerID \<or> rsp_Status responder \<noteq> OCSPResponderActive))
          (mvals responders)) None of
        None \<Rightarrow> Inl ErrOCSPResponderNotFound
      | Some active \<Rightarrow> Inr active)"

definition updateOCSPResponderIfStatus ::
  "OCSPResponder gomap \<Rightarrow> OCSPResponder \<Rightarrow> OCSPResponderStatus \<Rightarrow> OCSPResponder gomap result" where
  "updateOCSPResponderIfStatus responders responder currentStatus =
     (case mget responders (rsp_ID responder) of
        None \<Rightarrow> Inl ErrOCSPResponderNotFound
      | Some current \<Rightarrow>
          if rsp_Status current \<noteq> currentStatus then Inl ErrInvalidTransition
          else if rsp_Status responder = OCSPResponderActive \<and>
            (case activeOCSPResponderByIssuer responders (rsp_IssuerID responder) of
               Inr active \<Rightarrow> rsp_ID active \<noteq> rsp_ID responder
             | Inl _ \<Rightarrow> False)
            then Inl ErrInvalidTransition
          else Inr (mput (rsp_ID responder) responder responders))"

definition updateNotificationEndpointIfStatus ::
  "NotificationEndpoint gomap \<Rightarrow> NotificationEndpoint \<Rightarrow> NotificationEndpointStatus \<Rightarrow> NotificationEndpoint gomap result" where
  "updateNotificationEndpointIfStatus endpoints endpoint currentStatus =
     (case mget endpoints (ep_ID endpoint) of
        None \<Rightarrow> Inl ErrNotificationEndpointNotFound
      | Some current \<Rightarrow>
          if ep_Status current \<noteq> currentStatus then Inl ErrInvalidTransition
          else Inr (mput (ep_ID endpoint) (copyNotificationEndpoint endpoint) endpoints))"

definition listNotificationEndpoints :: "NotificationEndpoint gomap \<Rightarrow> NotificationEndpoint list" where
  "listNotificationEndpoints endpoints =
     sort_by (createdThenID ep_CreatedAt ep_ID) (map copyNotificationEndpoint (mvals endpoints))"

definition outboxMessageDue :: "OutboxMessage \<Rightarrow> time \<Rightarrow> bool" where
  "outboxMessageDue message now =
     (case msg_Status message of
        OutboxPending \<Rightarrow> \<not> msg_AvailableAt message > now
      | OutboxProcessing \<Rightarrow> \<not> IsZero (msg_ProcessingDeadlineAt message) \<and> \<not> msg_ProcessingDeadlineAt message > now
      | _ \<Rightarrow> False)"

definition outboxMessageDueAt :: "OutboxMessage \<Rightarrow> time" where
  "outboxMessageDueAt message =
     (if msg_Status message = OutboxProcessing then msg_ProcessingDeadlineAt message
      else msg_AvailableAt message)"

definition listDueOutboxMessages :: "OutboxMessage gomap \<Rightarrow> time \<Rightarrow> int \<Rightarrow> OutboxMessage list" where
  "listDueOutboxMessages messages now limit =
     (if limit \<le> 0 then []
      else
        let due = sort_by
              (\<lambda>a b. let left = outboxMessageDueAt a; right = outboxMessageDueAt b in
                 if left \<noteq> right then left < right
                 else if msg_CreatedAt a \<noteq> msg_CreatedAt b then msg_CreatedAt a < msg_CreatedAt b
                 else msg_ID a < msg_ID b)
              (filter (\<lambda>message. outboxMessageDue message now) (mvals messages))
        in if int (length due) > limit then take (nat limit) due else due)"

text \<open>The empty status string selects every message.\<close>

definition listOutboxMessages :: "OutboxMessage gomap \<Rightarrow> OutboxMessageStatus \<Rightarrow> OutboxMessage list" where
  "listOutboxMessages messages status =
     sort_by (createdThenID msg_CreatedAt msg_ID)
       (filter (\<lambda>message. \<not> (str_OutboxMessageStatus status \<noteq> [] \<and> msg_Status message \<noteq> status)) (mvals messages))"

definition updateOutboxMessageStatusIfStatus ::
  "OutboxMessage gomap \<Rightarrow> OutboxMessage \<Rightarrow> OutboxMessageStatus \<Rightarrow> OutboxMessage gomap result" where
  "updateOutboxMessageStatusIfStatus messages message currentStatus =
     (case mget messages (msg_ID message) of
        None \<Rightarrow> Inl ErrOutboxMessageNotFound
      | Some current \<Rightarrow>
          if msg_Status current \<noteq> currentStatus then Inl ErrInvalidTransition
          else Inr (mput (msg_ID message) message messages))"

definition updateOutboxMessageIfCurrent ::
  "OutboxMessage gomap \<Rightarrow> OutboxMessage \<Rightarrow> OutboxMessage \<Rightarrow> OutboxMessage gomap result" where
  "updateOutboxMessageIfCurrent messages message current =
     (case mget messages (msg_ID message) of
        None \<Rightarrow> Inl ErrOutboxMessageNotFound
      | Some stored \<Rightarrow>
          if msg_Status stored \<noteq> msg_Status current \<or>
             msg_ProcessingDeadlineAt stored \<noteq> msg_ProcessingDeadlineAt current \<or>
             msg_UpdatedAt stored \<noteq> msg_UpdatedAt current
          then Inl ErrInvalidTransition
          else Inr (mput (msg_ID message) message messages))"

definition listJobAttemptsByOutboxMessage :: "JobAttempt gomap \<Rightarrow> string \<Rightarrow> JobAttempt list" where
  "listJobAttemptsByOutboxMessage attempts outboxMessageID =
     sort_by (createdThenID job_CreatedAt job_ID)
       (filter (\<lambda>attempt. job_OutboxMessageID attempt = outboxMessageID) (mvals attempts))"

definition listAPIKeys :: "APIKey gomap \<Rightarrow> APIKey list" where
  "listAPIKeys keys = sort_by (createdThenID key_CreatedAt key_ID) (map copyAPIKey (mvals keys))"

definition updateAPIKeyIfStatus :: "APIKey gomap \<Rightarrow> APIKey \<Rightarrow> APIKeyStatus \<Rightarrow> APIKey gomap result" where
  "updateAPIKeyIfStatus keys key currentStatus =
     (case mget keys (key_ID key) of
        None \<Rightarrow> Inl ErrAPIKeyNotFound
      | Some current \<Rightarrow>
          if key_Status current \<noteq> currentStatus then Inl ErrInvalidTransition
          else Inr (mput (key_ID key) (copyAPIKey key) keys))"

definition ensureACMEAccountThumbprintAvailable :: "ACMEAccount gomap \<Rightarrow> ACMEAccount \<Rightarrow> unit result" where
  "ensureACMEAccountThumbprintAvailable accounts candidate =
     (if acc_KeyThumbprint candidate = [] then Inr ()
      else if \<exists>account \<in> set (mvals accounts).
          acc_ID account \<noteq> acc_ID candidate \<and> acc_KeyThumbprint account = acc_KeyThumbprint candidate
        then Inl ErrInvalidTransition
      else Inr ())"

definition updateACMEAccountIfStatus ::
  "ACMEAccount gomap \<Rightarrow> ACMEAccount \<Rightarrow> ACMEAccountStatus \<Rightarrow> ACMEAccount gomap result" where
  "updateACMEAccountIfStatus accounts account currentStatus =
     (case mget accounts (acc_ID account) of
        None \<Rightarrow> Inl ErrACMEAccountNotFound
      | Some current \<Rightarrow>
          if acc_Status current \<noteq> currentStatus then Inl ErrInvalidTransition
          else case ensureACMEAccountThumbprintAvailable accounts account of
              Inl err \<Rightarrow> Inl err
            | Inr _ \<Rightarrow> Inr (mput (acc_ID account) (copyACMEAccount account) accounts))"

definition updateACMEOrderIfStatus ::
  "ACMEOrder gomap \<Rightarrow> ACMEOrder \<Rightarrow> ACMEOrderStatus \<Rightarrow> ACMEOrder gomap result" where
  "updateACMEOrderIfStatus orders order currentStatus =
     (case mget orders (ord_ID order) of
        None \<Rightarrow> Inl ErrACMEOrderNotFound
      | Some current \<Rightarrow>
          if ord_Status current \<noteq> currentStatus then Inl ErrInvalidTransition
          else Inr (mput (ord_ID order) (copyACMEOrder order) orders))"

definition updateACMEAuthorizationIfStatus ::
  "ACMEAuthorization gomap \<Rightarrow> ACMEAuthorization \<Rightarrow> ACMEAuthorizationStatus \<Rightarrow> ACMEAuthorization gomap result" where
  "updateACMEAuthorizationIfStatus authorizations authorization currentStatus =
     (case mget authorizations (authz_ID authorization) of
        None \<Rightarrow> Inl ErrACMEAuthorizationNotFound
      | Some current \<Rightarrow>
          if authz_Status current \<noteq> currentStatus then Inl ErrInvalidTransition
          else Inr (mput (authz_ID authorization) authorization authorizations))"

definition updateACMEChallengeIfStatus ::
  "ACMEChallenge gomap \<Rightarrow> ACMEChallenge \<Rightarrow> ACMEChallengeStatus \<Rightarrow> ACMEChallenge gomap result" where
  "updateACMEChallengeIfStatus challenges challenge currentStatus =
     (case mget challenges (chal_ID challenge) of
        None \<Rightarrow> Inl ErrACMEChallengeNotFound
      | Some current \<Rightarrow>
          if chal_Status current \<noteq> currentStatus then Inl ErrInvalidTransition
          else Inr (mput (chal_ID challenge) challenge challenges))"

definition listACMEAccounts :: "ACMEAccount gomap \<Rightarrow> ACMEAccount list" where
  "listACMEAccounts accounts = sort_by (createdThenID acc_CreatedAt acc_ID) (map copyACMEAccount (mvals accounts))"

definition listACMEOrdersByAccount :: "ACMEOrder gomap \<Rightarrow> string \<Rightarrow> ACMEOrder list" where
  "listACMEOrdersByAccount orders accountID =
     sort_by (createdThenID ord_CreatedAt ord_ID)
       (map copyACMEOrder (filter (\<lambda>order. ord_AccountID order = accountID) (mvals orders)))"

definition listACMEAuthorizationsByOrder :: "ACMEAuthorization gomap \<Rightarrow> string \<Rightarrow> ACMEAuthorization list" where
  "listACMEAuthorizationsByOrder authorizations orderID =
     sort_by (createdThenID authz_CreatedAt authz_ID)
       (filter (\<lambda>authorization. authz_OrderID authorization = orderID) (mvals authorizations))"

definition listACMEChallengesByAuthorization :: "ACMEChallenge gomap \<Rightarrow> string \<Rightarrow> ACMEChallenge list" where
  "listACMEChallengesByAuthorization challenges authorizationID =
     sort_by (createdThenID chal_CreatedAt chal_ID)
       (filter (\<lambda>challenge. chal_AuthorizationID challenge = authorizationID) (mvals challenges))"

fun revokedEntries :: "Certificate gomap \<Rightarrow> string \<Rightarrow> Revocation list \<Rightarrow> RevokedCertificateEntry list" where
  "revokedEntries certificates issuerID [] = []"
| "revokedEntries certificates issuerID (revocation # rest) =
     (case mget certificates (rev_CertificateID revocation) of
        None \<Rightarrow> revokedEntries certificates issuerID rest
      | Some certificate \<Rightarrow>
          if cert_IssuerID certificate \<noteq> issuerID \<or> cert_Status certificate \<noteq> CertificateRevoked
          then revokedEntries certificates issuerID rest
          else \<lparr>rce_CertificateID = cert_ID certificate, rce_SerialNumber = cert_SerialNumber certificate,
                rce_RevokedAt = rev_RevokedAt revocation, rce_Reason = rev_Reason revocation\<rparr>
               # revokedEntries certificates issuerID rest)"

definition listRevocationsByIssuer ::
  "Certificate gomap \<Rightarrow> Revocation gomap \<Rightarrow> string \<Rightarrow> RevokedCertificateEntry list" where
  "listRevocationsByIssuer certificates revocations issuerID =
     revokedEntries certificates issuerID (mvals revocations)"

definition listCRLPublicationsByIssuer :: "CRLPublication gomap \<Rightarrow> string \<Rightarrow> CRLPublication list" where
  "listCRLPublicationsByIssuer publications issuerID =
     filter (\<lambda>publication. crl_IssuerID publication = issuerID) (mvals publications)"

definition ensureCRLPublicationNumberAvailable :: "CRLPublication gomap \<Rightarrow> CRLPublication \<Rightarrow> unit result" where
  "ensureCRLPublicationNumberAvailable publications candidate =
     (if \<exists>publication \<in> set (mvals publications).
          crl_ID publication \<noteq> crl_ID candidate \<and>
          crl_IssuerID publication = crl_IssuerID candidate \<and>
          crl_DistributionPoint publication = crl_DistributionPoint candidate \<and>
          crl_CRLNumber publication = crl_CRLNumber candidate
      then Inl ErrInvalidTransition else Inr ())"

definition certificateNeedsExpirationScan :: "Certificate \<Rightarrow> time \<Rightarrow> time \<Rightarrow> bool" where
  "certificateNeedsExpirationScan certificate now warningBefore =
     (if (cert_Status certificate = CertificateValid \<or> cert_Status certificate = CertificateSuspended) \<and>
         \<not> cert_NotAfter certificate > now then True
      else cert_Status certificate = CertificateValid \<and> cert_NotAfter certificate > now \<and>
        \<not> cert_NotAfter certificate > warningBefore \<and> IsZero (cert_RenewalNotifiedAt certificate))"

text \<open>\<^verbatim>\<open>NotAfter\<close> first, then \<^verbatim>\<open>ID\<close>: the order of both expiry listings.\<close>

definition notAfterThenID :: "Certificate \<Rightarrow> Certificate \<Rightarrow> bool" where
  "notAfterThenID a b =
     (if cert_NotAfter a \<noteq> cert_NotAfter b then cert_NotAfter a < cert_NotAfter b else cert_ID a < cert_ID b)"

definition listCertificatesForExpirationScan ::
  "Certificate gomap \<Rightarrow> time \<Rightarrow> time \<Rightarrow> int \<Rightarrow> Certificate list" where
  "listCertificatesForExpirationScan certificates now warningBefore limit =
     (if limit \<le> 0 then []
      else
        let result = sort_by notAfterThenID
              (map copyCertificate
                (filter (\<lambda>certificate. certificateNeedsExpirationScan certificate now warningBefore) (mvals certificates)))
        in if int (length result) > limit then take (nat limit) result else result)"

text \<open>
  The paging of the two listings below slices at \<open>offset\<close>; a negative offset (which Go would
  answer with a panic) is refused by every caller before it gets here.
\<close>

definition listCertificatesExpiringWithin ::
  "Certificate gomap \<Rightarrow> time \<Rightarrow> time \<Rightarrow> int \<Rightarrow> int \<Rightarrow> Certificate list" where
  "listCertificatesExpiringWithin certificates now cutoff limit offset =
     (let result = sort_by notAfterThenID
            (map copyCertificate
              (filter (\<lambda>certificate. cert_Status certificate = CertificateValid \<and>
                  cert_NotAfter certificate > now \<and> \<not> cert_NotAfter certificate > cutoff) (mvals certificates)))
      in if offset \<ge> int (length result) then []
         else let page = drop (nat offset) result
              in if limit > 0 \<and> int (length page) > limit then take (nat limit) page else page)"

definition certificateInventoryRecordMatches ::
  "Certificate \<Rightarrow> Identity \<Rightarrow> CertificateInventoryFilter \<Rightarrow> bool" where
  "certificateInventoryRecordMatches certificate identity filt =
     (if cif_Owner filt \<noteq> [] \<and> idn_Owner identity \<noteq> cif_Owner filt then False
      else if cif_Team filt \<noteq> [] \<and> idn_Team identity \<noteq> cif_Team filt then False
      else if cif_Service filt \<noteq> [] \<and> idn_Service identity \<noteq> cif_Service filt then False
      else if cif_Environment filt \<noteq> [] \<and> idn_Environment identity \<noteq> cif_Environment filt then False
      else if cif_IssuerID filt \<noteq> [] \<and> cert_IssuerID certificate \<noteq> cif_IssuerID filt then False
      else if cif_ProfileID filt \<noteq> [] \<and> cert_CertificateProfileID certificate \<noteq> cif_ProfileID filt then False
      else if cif_RevocationState filt \<noteq> [] \<and> str_CertificateStatus (cert_Status certificate) \<noteq> cif_RevocationState filt then False
      else True)"

text \<open>\<^verbatim>\<open>m[k]\<close> of a missing key is the zero value.\<close>

definition mgetZero :: "'v \<Rightarrow> 'v gomap \<Rightarrow> string \<Rightarrow> 'v" where
  "mgetZero z m k = (case mget m k of None \<Rightarrow> z | Some v \<Rightarrow> v)"

definition listCertificateInventory ::
  "Certificate gomap \<Rightarrow> Identity gomap \<Rightarrow> Issuer gomap \<Rightarrow> CertificateInventoryFilter \<Rightarrow> CertificateInventoryRecord list" where
  "listCertificateInventory certificates identities issuers filt =
     (let matching = filter (\<lambda>certificate. certificateInventoryRecordMatches certificate
              (mgetZero zero_Identity identities (cert_IdentityID certificate)) filt) (mvals certificates);
          result = sort_by (\<lambda>a b. cert_ID (cir_Certificate a) < cert_ID (cir_Certificate b))
            (map (\<lambda>certificate.
               \<lparr>cir_Certificate = copyCertificate certificate,
                cir_Identity = copyIdentity (mgetZero zero_Identity identities (cert_IdentityID certificate)),
                cir_Issuer = copyIssuer (mgetZero zero_Issuer issuers (cert_IssuerID certificate))\<rparr>) matching)
      in if cif_Offset filt \<ge> int (length result) then []
         else let page = drop (nat (cif_Offset filt)) result
              in if cif_Limit filt > 0 \<and> cif_Limit filt < int (length page) then take (nat (cif_Limit filt)) page else page)"

definition latestCRLPublicationByIssuer :: "CRLPublication gomap \<Rightarrow> string \<Rightarrow> CRLPublication result" where
  "latestCRLPublicationByIssuer publications issuerID =
     (case pickBest
        (\<lambda>publication latest. crl_CRLNumber publication > crl_CRLNumber latest \<or>
           crl_CreatedAt publication > crl_CreatedAt latest)
        (filter (\<lambda>publication. crl_IssuerID publication = issuerID) (mvals publications)) None of
        None \<Rightarrow> Inl ErrCRLPublicationNotFound
      | Some latest \<Rightarrow> Inr latest)"

definition auditEventMatches :: "AuditEvent \<Rightarrow> AuditEventQuery \<Rightarrow> bool" where
  "auditEventMatches event query =
     (\<not> (aq_Actor query \<noteq> [] \<and> aud_Actor event \<noteq> aq_Actor query) \<and>
      \<not> (aq_Action query \<noteq> [] \<and> aud_Action event \<noteq> aq_Action query) \<and>
      \<not> (aq_ResourceType query \<noteq> [] \<and> aud_ResourceType event \<noteq> aq_ResourceType query) \<and>
      \<not> (aq_ResourceID query \<noteq> [] \<and> aud_ResourceID event \<noteq> aq_ResourceID query) \<and>
      \<not> (\<not> IsZero (aq_CreatedFrom query) \<and> aud_CreatedAt event < aq_CreatedFrom query) \<and>
      \<not> (\<not> IsZero (aq_CreatedTo query) \<and> aud_CreatedAt event > aq_CreatedTo query))"

definition listAuditEventsQuery :: "AuditEvent list \<Rightarrow> AuditEventQuery \<Rightarrow> AuditEvent list" where
  "listAuditEventsQuery events query =
     (let desc = (aq_Sort query = ''desc'');
          result = sort_by (\<lambda>a b.
              if aud_CreatedAt a = aud_CreatedAt b
              then (if desc then aud_ID a > aud_ID b else aud_ID a < aud_ID b)
              else if desc then aud_CreatedAt a > aud_CreatedAt b else aud_CreatedAt a < aud_CreatedAt b)
            (filter (\<lambda>event. auditEventMatches event query) events)
      in if aq_Offset query > 0 \<and> aq_Offset query \<ge> int (length result) then []
         else let page = (if aq_Offset query > 0 then drop (nat (aq_Offset query)) result else result)
              in if aq_Limit query > 0 \<and> aq_Limit query < int (length page) then take (nat (aq_Limit query)) page else page)"

definition deleteAuditEventsBefore :: "AuditEvent list \<Rightarrow> time \<Rightarrow> AuditEvent list \<times> int" where
  "deleteAuditEventsBefore events before =
     fold (\<lambda>event (kept, deleted).
         if aud_CreatedAt event < before then (kept, deleted + 1) else (kept @ [event], deleted))
       events ([], 0)"

definition webhookDeliveryKey :: "string \<Rightarrow> string \<Rightarrow> string" where
  "webhookDeliveryKey outboxMessageID endpointID = outboxMessageID @ [CHR 0x00] @ endpointID"

definition getWebhookDelivery :: "WebhookDelivery gomap \<Rightarrow> string \<Rightarrow> string \<Rightarrow> WebhookDelivery result" where
  "getWebhookDelivery deliveries outboxMessageID endpointID =
     (case mget deliveries (webhookDeliveryKey outboxMessageID endpointID) of
        None \<Rightarrow> Inl ErrWebhookDeliveryNotFound
      | Some delivery \<Rightarrow> Inr delivery)"

definition apiKeyByTokenHash :: "APIKey gomap \<Rightarrow> string \<Rightarrow> APIKey result" where
  "apiKeyByTokenHash keys tokenHash =
     (case find (\<lambda>key. key_TokenHash key = tokenHash) (mvals keys) of
        Some key \<Rightarrow> Inr (copyAPIKey key)
      | None \<Rightarrow> Inl ErrAPIKeyNotFound)"

section \<open>Repository operations\<close>

definition MemoryStore_CreateIdentity :: "Identity \<Rightarrow> (error, MemoryStore, unit) prog" where
  "MemoryStore_CreateIdentity identity = (\<lambda>s.
     (Inr (), s\<lparr>ms_identities := mput (idn_ID identity) (copyIdentity identity) (ms_identities s)\<rparr>))"

definition MemoryStore_GetIdentity :: "string \<Rightarrow> (error, MemoryStore, Identity) prog" where
  "MemoryStore_GetIdentity ident = (\<lambda>s.
     (case mget (ms_identities s) ident of None \<Rightarrow> Inl ErrIdentityNotFound | Some identity \<Rightarrow> Inr (copyIdentity identity), s))"

definition MemoryStore_ListIdentities :: "(error, MemoryStore, Identity list) prog" where
  "MemoryStore_ListIdentities = (\<lambda>s. (Inr (map copyIdentity (mvals (ms_identities s))), s))"

definition MemoryStore_CreateIssuer :: "Issuer \<Rightarrow> (error, MemoryStore, unit) prog" where
  "MemoryStore_CreateIssuer issuer = (\<lambda>s.
     (Inr (), s\<lparr>ms_issuers := mput (iss_ID issuer) (copyIssuer issuer) (ms_issuers s)\<rparr>))"

definition MemoryStore_GetIssuer :: "string \<Rightarrow> (error, MemoryStore, Issuer) prog" where
  "MemoryStore_GetIssuer ident = (\<lambda>s.
     (case mget (ms_issuers s) ident of None \<Rightarrow> Inl ErrIssuerNotFound | Some issuer \<Rightarrow> Inr (copyIssuer issuer), s))"

definition MemoryStore_ListIssuers :: "(error, MemoryStore, Issuer list) prog" where
  "MemoryStore_ListIssuers = (\<lambda>s. (Inr (map copyIssuer (mvals (ms_issuers s))), s))"

definition MemoryStore_CreateOCSPResponder :: "OCSPResponder \<Rightarrow> (error, MemoryStore, unit) prog" where
  "MemoryStore_CreateOCSPResponder responder = (\<lambda>s.
     if rsp_Status responder = OCSPResponderActive \<and>
        \<not> isl (activeOCSPResponderByIssuer (ms_ocspResponders s) (rsp_IssuerID responder))
     then (Inl ErrInvalidTransition, s)
     else (Inr (), s\<lparr>ms_ocspResponders := mput (rsp_ID responder) responder (ms_ocspResponders s)\<rparr>))"

definition MemoryStore_GetOCSPResponder :: "string \<Rightarrow> (error, MemoryStore, OCSPResponder) prog" where
  "MemoryStore_GetOCSPResponder ident = (\<lambda>s.
     (case mget (ms_ocspResponders s) ident of None \<Rightarrow> Inl ErrOCSPResponderNotFound | Some responder \<Rightarrow> Inr responder, s))"

definition MemoryStore_ListOCSPRespondersByIssuer :: "string \<Rightarrow> (error, MemoryStore, OCSPResponder list) prog" where
  "MemoryStore_ListOCSPRespondersByIssuer issuerID = (\<lambda>s. (Inr (listOCSPRespondersByIssuer (ms_ocspResponders s) issuerID), s))"

definition MemoryStore_GetActiveOCSPResponderByIssuer :: "string \<Rightarrow> (error, MemoryStore, OCSPResponder) prog" where
  "MemoryStore_GetActiveOCSPResponderByIssuer issuerID = (\<lambda>s. (activeOCSPResponderByIssuer (ms_ocspResponders s) issuerID, s))"

definition MemoryStore_UpdateOCSPResponderIfStatus :: "OCSPResponder \<Rightarrow> OCSPResponderStatus \<Rightarrow> (error, MemoryStore, unit) prog" where
  "MemoryStore_UpdateOCSPResponderIfStatus responder currentStatus = (\<lambda>s.
     (case updateOCSPResponderIfStatus (ms_ocspResponders s) responder currentStatus of
        Inl err \<Rightarrow> (Inl err, s)
      | Inr m \<Rightarrow> (Inr (), s\<lparr>ms_ocspResponders := m\<rparr>)))"

definition MemoryStore_CreateNotificationEndpoint :: "NotificationEndpoint \<Rightarrow> (error, MemoryStore, unit) prog" where
  "MemoryStore_CreateNotificationEndpoint endpoint = (\<lambda>s.
     (Inr (), s\<lparr>ms_notifications := mput (ep_ID endpoint) (copyNotificationEndpoint endpoint) (ms_notifications s)\<rparr>))"

definition MemoryStore_GetNotificationEndpoint :: "string \<Rightarrow> (error, MemoryStore, NotificationEndpoint) prog" where
  "MemoryStore_GetNotificationEndpoint ident = (\<lambda>s.
     (case mget (ms_notifications s) ident of None \<Rightarrow> Inl ErrNotificationEndpointNotFound | Some endpoint \<Rightarrow> Inr (copyNotificationEndpoint endpoint), s))"

definition MemoryStore_ListNotificationEndpoints :: "(error, MemoryStore, NotificationEndpoint list) prog" where
  "MemoryStore_ListNotificationEndpoints = (\<lambda>s. (Inr (listNotificationEndpoints (ms_notifications s)), s))"

definition MemoryStore_UpdateNotificationEndpointIfStatus :: "NotificationEndpoint \<Rightarrow> NotificationEndpointStatus \<Rightarrow> (error, MemoryStore, unit) prog" where
  "MemoryStore_UpdateNotificationEndpointIfStatus endpoint currentStatus = (\<lambda>s.
     (case updateNotificationEndpointIfStatus (ms_notifications s) endpoint currentStatus of
        Inl err \<Rightarrow> (Inl err, s)
      | Inr m \<Rightarrow> (Inr (), s\<lparr>ms_notifications := m\<rparr>)))"

definition MemoryStore_CreateCertificateProfile :: "CertificateProfile \<Rightarrow> (error, MemoryStore, unit) prog" where
  "MemoryStore_CreateCertificateProfile profile = (\<lambda>s.
     (Inr (), s\<lparr>ms_profiles := mput (prof_ID profile) (copyCertificateProfile profile) (ms_profiles s)\<rparr>))"

definition MemoryStore_GetCertificateProfile :: "string \<Rightarrow> (error, MemoryStore, CertificateProfile) prog" where
  "MemoryStore_GetCertificateProfile ident = (\<lambda>s.
     (case mget (ms_profiles s) ident of None \<Rightarrow> Inl ErrCertificateProfileNotFound | Some profile \<Rightarrow> Inr (copyCertificateProfile profile), s))"

definition MemoryStore_ListCertificateProfiles :: "(error, MemoryStore, CertificateProfile list) prog" where
  "MemoryStore_ListCertificateProfiles = (\<lambda>s. (Inr (map copyCertificateProfile (mvals (ms_profiles s))), s))"

definition MemoryStore_CreateEnrollment :: "Enrollment \<Rightarrow> (error, MemoryStore, unit) prog" where
  "MemoryStore_CreateEnrollment enrollment = (\<lambda>s.
     (Inr (), s\<lparr>ms_enrollments := mput (enr_ID enrollment) (copyEnrollment enrollment) (ms_enrollments s)\<rparr>))"

definition MemoryStore_GetEnrollment :: "string \<Rightarrow> (error, MemoryStore, Enrollment) prog" where
  "MemoryStore_GetEnrollment ident = (\<lambda>s.
     (case mget (ms_enrollments s) ident of None \<Rightarrow> Inl ErrEnrollmentNotFound | Some enrollment \<Rightarrow> Inr (copyEnrollment enrollment), s))"

definition MemoryStore_ListEnrollments :: "(error, MemoryStore, Enrollment list) prog" where
  "MemoryStore_ListEnrollments = (\<lambda>s. (Inr (map copyEnrollment (mvals (ms_enrollments s))), s))"

definition MemoryStore_UpdateEnrollment :: "Enrollment \<Rightarrow> (error, MemoryStore, unit) prog" where
  "MemoryStore_UpdateEnrollment enrollment = (\<lambda>s.
     (case mget (ms_enrollments s) (enr_ID enrollment) of
        None \<Rightarrow> (Inl ErrEnrollmentNotFound, s)
      | Some _ \<Rightarrow> (Inr (), s\<lparr>ms_enrollments := mput (enr_ID enrollment) (copyEnrollment enrollment) (ms_enrollments s)\<rparr>)))"

definition MemoryStore_UpdateEnrollmentIfStatus :: "Enrollment \<Rightarrow> EnrollmentStatus \<Rightarrow> (error, MemoryStore, unit) prog" where
  "MemoryStore_UpdateEnrollmentIfStatus enrollment currentStatus = (\<lambda>s.
     (case updateEnrollmentIfStatus (ms_enrollments s) enrollment currentStatus of
        Inl err \<Rightarrow> (Inl err, s)
      | Inr m \<Rightarrow> (Inr (), s\<lparr>ms_enrollments := m\<rparr>)))"

definition MemoryStore_CreateCertificate :: "Certificate \<Rightarrow> (error, MemoryStore, unit) prog" where
  "MemoryStore_CreateCertificate certificate = (\<lambda>s.
     (case ensureCertificateFinalizationKeysAvailable (ms_certificates s) certificate of
        Inl err \<Rightarrow> (Inl err, s)
      | Inr _ \<Rightarrow> (Inr (), s\<lparr>ms_certificates := mput (cert_ID certificate) (copyCertificate certificate) (ms_certificates s)\<rparr>)))"

definition MemoryStore_GetCertificate :: "string \<Rightarrow> (error, MemoryStore, Certificate) prog" where
  "MemoryStore_GetCertificate ident = (\<lambda>s.
     (case mget (ms_certificates s) ident of None \<Rightarrow> Inl ErrCertificateNotFound | Some certificate \<Rightarrow> Inr (copyCertificate certificate), s))"

definition MemoryStore_GetCertificateByEnrollmentID :: "string \<Rightarrow> (error, MemoryStore, Certificate) prog" where
  "MemoryStore_GetCertificateByEnrollmentID enrollmentID = (\<lambda>s. (certificateByEnrollmentID (ms_certificates s) enrollmentID, s))"

definition MemoryStore_ListCertificates :: "(error, MemoryStore, Certificate list) prog" where
  "MemoryStore_ListCertificates = (\<lambda>s. (Inr (map copyCertificate (mvals (ms_certificates s))), s))"

definition MemoryStore_ListCertificateInventory :: "CertificateInventoryFilter \<Rightarrow> (error, MemoryStore, CertificateInventoryRecord list) prog" where
  "MemoryStore_ListCertificateInventory filt = (\<lambda>s. (Inr (listCertificateInventory (ms_certificates s) (ms_identities s) (ms_issuers s) filt), s))"

definition MemoryStore_ListCertificatesExpiringWithin :: "time \<Rightarrow> time \<Rightarrow> int \<Rightarrow> int \<Rightarrow> (error, MemoryStore, Certificate list) prog" where
  "MemoryStore_ListCertificatesExpiringWithin now cutoff limit offset = (\<lambda>s. (Inr (listCertificatesExpiringWithin (ms_certificates s) now cutoff limit offset), s))"

definition MemoryStore_ListCertificatesForExpirationScan :: "time \<Rightarrow> time \<Rightarrow> int \<Rightarrow> (error, MemoryStore, Certificate list) prog" where
  "MemoryStore_ListCertificatesForExpirationScan now warningBefore limit = (\<lambda>s. (Inr (listCertificatesForExpirationScan (ms_certificates s) now warningBefore limit), s))"

definition MemoryStore_UpdateCertificate :: "Certificate \<Rightarrow> (error, MemoryStore, unit) prog" where
  "MemoryStore_UpdateCertificate certificate = (\<lambda>s.
     (case mget (ms_certificates s) (cert_ID certificate) of
        None \<Rightarrow> (Inl ErrCertificateNotFound, s)
      | Some _ \<Rightarrow> (Inr (), s\<lparr>ms_certificates := mput (cert_ID certificate) (copyCertificate certificate) (ms_certificates s)\<rparr>)))"

definition MemoryStore_UpdateCertificateIfStatus :: "Certificate \<Rightarrow> CertificateStatus \<Rightarrow> (error, MemoryStore, unit) prog" where
  "MemoryStore_UpdateCertificateIfStatus certificate currentStatus = (\<lambda>s.
     (case updateCertificateIfStatus (ms_certificates s) certificate currentStatus of
        Inl err \<Rightarrow> (Inl err, s)
      | Inr m \<Rightarrow> (Inr (), s\<lparr>ms_certificates := m\<rparr>)))"

definition MemoryStore_CreateIssuanceAttempt :: "IssuanceAttempt \<Rightarrow> (error, MemoryStore, unit) prog" where
  "MemoryStore_CreateIssuanceAttempt attempt = (\<lambda>s.
     (case createIssuanceAttempt (ms_issuanceAttempts s) attempt of
        Inl err \<Rightarrow> (Inl err, s)
      | Inr m \<Rightarrow> (Inr (), s\<lparr>ms_issuanceAttempts := m\<rparr>)))"

definition MemoryStore_GetIssuanceAttempt :: "string \<Rightarrow> (error, MemoryStore, IssuanceAttempt) prog" where
  "MemoryStore_GetIssuanceAttempt enrollmentID = (\<lambda>s. (getIssuanceAttempt (ms_issuanceAttempts s) enrollmentID, s))"

definition MemoryStore_UpdateIssuanceAttemptIfCurrent :: "IssuanceAttempt \<Rightarrow> IssuanceAttempt \<Rightarrow> (error, MemoryStore, unit) prog" where
  "MemoryStore_UpdateIssuanceAttemptIfCurrent attempt current = (\<lambda>s.
     (case updateIssuanceAttemptIfCurrent (ms_issuanceAttempts s) attempt current of
        Inl err \<Rightarrow> (Inl err, s)
      | Inr m \<Rightarrow> (Inr (), s\<lparr>ms_issuanceAttempts := m\<rparr>)))"

definition MemoryStore_CreateRevocation :: "Revocation \<Rightarrow> (error, MemoryStore, unit) prog" where
  "MemoryStore_CreateRevocation revocation = (\<lambda>s.
     (Inr (), s\<lparr>ms_revocations := mput (rev_ID revocation) revocation (ms_revocations s)\<rparr>))"

definition MemoryStore_ListRevocationsByIssuer :: "string \<Rightarrow> (error, MemoryStore, RevokedCertificateEntry list) prog" where
  "MemoryStore_ListRevocationsByIssuer issuerID = (\<lambda>s. (Inr (listRevocationsByIssuer (ms_certificates s) (ms_revocations s) issuerID), s))"

definition MemoryStore_CreateCRLPublication :: "CRLPublication \<Rightarrow> (error, MemoryStore, unit) prog" where
  "MemoryStore_CreateCRLPublication publication = (\<lambda>s.
     (case ensureCRLPublicationNumberAvailable (ms_crls s) publication of
        Inl err \<Rightarrow> (Inl err, s)
      | Inr _ \<Rightarrow> (Inr (), s\<lparr>ms_crls := mput (crl_ID publication) publication (ms_crls s)\<rparr>)))"

definition MemoryStore_GetCRLPublication :: "string \<Rightarrow> (error, MemoryStore, CRLPublication) prog" where
  "MemoryStore_GetCRLPublication ident = (\<lambda>s.
     (case mget (ms_crls s) ident of None \<Rightarrow> Inl ErrCRLPublicationNotFound | Some publication \<Rightarrow> Inr publication, s))"

definition MemoryStore_GetLatestCRLPublicationByIssuer :: "string \<Rightarrow> (error, MemoryStore, CRLPublication) prog" where
  "MemoryStore_GetLatestCRLPublicationByIssuer issuerID = (\<lambda>s. (latestCRLPublicationByIssuer (ms_crls s) issuerID, s))"

definition MemoryStore_ListCRLPublicationsByIssuer :: "string \<Rightarrow> (error, MemoryStore, CRLPublication list) prog" where
  "MemoryStore_ListCRLPublicationsByIssuer issuerID = (\<lambda>s. (Inr (listCRLPublicationsByIssuer (ms_crls s) issuerID), s))"

definition MemoryStore_CreateAuditEvent :: "AuditEvent \<Rightarrow> (error, MemoryStore, unit) prog" where
  "MemoryStore_CreateAuditEvent event = (\<lambda>s. (Inr (), s\<lparr>ms_auditEvents := ms_auditEvents s @ [event]\<rparr>))"

definition MemoryStore_ListAuditEvents :: "(error, MemoryStore, AuditEvent list) prog" where
  "MemoryStore_ListAuditEvents = (\<lambda>s. (Inr (ms_auditEvents s), s))"

definition MemoryStore_ListAuditEventsQuery :: "AuditEventQuery \<Rightarrow> (error, MemoryStore, AuditEvent list) prog" where
  "MemoryStore_ListAuditEventsQuery query = (\<lambda>s. (Inr (listAuditEventsQuery (ms_auditEvents s) query), s))"

definition MemoryStore_DeleteAuditEventsBefore :: "time \<Rightarrow> (error, MemoryStore, int) prog" where
  "MemoryStore_DeleteAuditEventsBefore before = (\<lambda>s.
     (case deleteAuditEventsBefore (ms_auditEvents s) before of (kept, deleted) \<Rightarrow>
        (Inr deleted, s\<lparr>ms_auditEvents := kept\<rparr>)))"

definition MemoryStore_CreateOutboxMessage :: "OutboxMessage \<Rightarrow> (error, MemoryStore, unit) prog" where
  "MemoryStore_CreateOutboxMessage message = (\<lambda>s.
     (Inr (), s\<lparr>ms_outbox := mput (msg_ID message) message (ms_outbox s)\<rparr>))"

definition MemoryStore_GetOutboxMessage :: "string \<Rightarrow> (error, MemoryStore, OutboxMessage) prog" where
  "MemoryStore_GetOutboxMessage ident = (\<lambda>s.
     (case mget (ms_outbox s) ident of None \<Rightarrow> Inl ErrOutboxMessageNotFound | Some message \<Rightarrow> Inr message, s))"

definition MemoryStore_ListOutboxMessages :: "OutboxMessageStatus \<Rightarrow> (error, MemoryStore, OutboxMessage list) prog" where
  "MemoryStore_ListOutboxMessages status = (\<lambda>s. (Inr (listOutboxMessages (ms_outbox s) status), s))"

definition MemoryStore_ListDueOutboxMessages :: "time \<Rightarrow> int \<Rightarrow> (error, MemoryStore, OutboxMessage list) prog" where
  "MemoryStore_ListDueOutboxMessages now limit = (\<lambda>s. (Inr (listDueOutboxMessages (ms_outbox s) now limit), s))"

definition MemoryStore_UpdateOutboxMessageStatusIfStatus :: "OutboxMessage \<Rightarrow> OutboxMessageStatus \<Rightarrow> (error, MemoryStore, unit) prog" where
  "MemoryStore_UpdateOutboxMessageStatusIfStatus message currentStatus = (\<lambda>s.
     (case updateOutboxMessageStatusIfStatus (ms_outbox s) message currentStatus of
        Inl err \<Rightarrow> (Inl err, s)
      | Inr m \<Rightarrow> (Inr (), s\<lparr>ms_outbox := m\<rparr>)))"

definition MemoryStore_UpdateOutboxMessageIfCurrent :: "OutboxMessage \<Rightarrow> OutboxMessage \<Rightarrow> (error, MemoryStore, unit) prog" where
  "MemoryStore_UpdateOutboxMessageIfCurrent message current = (\<lambda>s.
     (case updateOutboxMessageIfCurrent (ms_outbox s) message current of
        Inl err \<Rightarrow> (Inl err, s)
      | Inr m \<Rightarrow> (Inr (), s\<lparr>ms_outbox := m\<rparr>)))"

definition MemoryStore_CreateJobAttempt :: "JobAttempt \<Rightarrow> (error, MemoryStore, unit) prog" where
  "MemoryStore_CreateJobAttempt attempt = (\<lambda>s.
     (Inr (), s\<lparr>ms_jobAttempts := mput (job_ID attempt) attempt (ms_jobAttempts s)\<rparr>))"

definition MemoryStore_ListJobAttemptsByOutboxMessage :: "string \<Rightarrow> (error, MemoryStore, JobAttempt list) prog" where
  "MemoryStore_ListJobAttemptsByOutboxMessage outboxMessageID = (\<lambda>s. (Inr (listJobAttemptsByOutboxMessage (ms_jobAttempts s) outboxMessageID), s))"

definition MemoryStore_GetWebhookDelivery :: "string \<Rightarrow> string \<Rightarrow> (error, MemoryStore, WebhookDelivery) prog" where
  "MemoryStore_GetWebhookDelivery outboxMessageID endpointID = (\<lambda>s. (getWebhookDelivery (ms_webhookDeliveries s) outboxMessageID endpointID, s))"

definition MemoryStore_UpsertWebhookDelivery :: "WebhookDelivery \<Rightarrow> (error, MemoryStore, unit) prog" where
  "MemoryStore_UpsertWebhookDelivery delivery = (\<lambda>s.
     (Inr (), s\<lparr>ms_webhookDeliveries :=
        mput (webhookDeliveryKey (whd_OutboxMessageID delivery) (whd_EndpointID delivery)) delivery (ms_webhookDeliveries s)\<rparr>))"

definition MemoryStore_CreateAPIKey :: "APIKey \<Rightarrow> (error, MemoryStore, unit) prog" where
  "MemoryStore_CreateAPIKey key = (\<lambda>s.
     (Inr (), s\<lparr>ms_apiKeys := mput (key_ID key) (copyAPIKey key) (ms_apiKeys s)\<rparr>))"

definition MemoryStore_GetAPIKey :: "string \<Rightarrow> (error, MemoryStore, APIKey) prog" where
  "MemoryStore_GetAPIKey ident = (\<lambda>s.
     (case mget (ms_apiKeys s) ident of None \<Rightarrow> Inl ErrAPIKeyNotFound | Some key \<Rightarrow> Inr (copyAPIKey key), s))"

definition MemoryStore_GetAPIKeyByTokenHash :: "string \<Rightarrow> (error, MemoryStore, APIKey) prog" where
  "MemoryStore_GetAPIKeyByTokenHash tokenHash = (\<lambda>s. (apiKeyByTokenHash (ms_apiKeys s) tokenHash, s))"

definition MemoryStore_ListAPIKeys :: "(error, MemoryStore, APIKey list) prog" where
  "MemoryStore_ListAPIKeys = (\<lambda>s. (Inr (listAPIKeys (ms_apiKeys s)), s))"

definition MemoryStore_UpdateAPIKeyIfStatus :: "APIKey \<Rightarrow> APIKeyStatus \<Rightarrow> (error, MemoryStore, unit) prog" where
  "MemoryStore_UpdateAPIKeyIfStatus key currentStatus = (\<lambda>s.
     (case updateAPIKeyIfStatus (ms_apiKeys s) key currentStatus of
        Inl err \<Rightarrow> (Inl err, s)
      | Inr m \<Rightarrow> (Inr (), s\<lparr>ms_apiKeys := m\<rparr>)))"

definition MemoryStore_CreateACMEAccount :: "ACMEAccount \<Rightarrow> (error, MemoryStore, unit) prog" where
  "MemoryStore_CreateACMEAccount account = (\<lambda>s.
     (case ensureACMEAccountThumbprintAvailable (ms_acmeAccounts s) account of
        Inl err \<Rightarrow> (Inl err, s)
      | Inr _ \<Rightarrow> (Inr (), s\<lparr>ms_acmeAccounts := mput (acc_ID account) (copyACMEAccount account) (ms_acmeAccounts s)\<rparr>)))"

definition MemoryStore_GetACMEAccount :: "string \<Rightarrow> (error, MemoryStore, ACMEAccount) prog" where
  "MemoryStore_GetACMEAccount ident = (\<lambda>s.
     (case mget (ms_acmeAccounts s) ident of None \<Rightarrow> Inl ErrACMEAccountNotFound | Some account \<Rightarrow> Inr (copyACMEAccount account), s))"

definition MemoryStore_ListACMEAccounts :: "(error, MemoryStore, ACMEAccount list) prog" where
  "MemoryStore_ListACMEAccounts = (\<lambda>s. (Inr (listACMEAccounts (ms_acmeAccounts s)), s))"

definition MemoryStore_UpdateACMEAccountIfStatus :: "ACMEAccount \<Rightarrow> ACMEAccountStatus \<Rightarrow> (error, MemoryStore, unit) prog" where
  "MemoryStore_UpdateACMEAccountIfStatus account currentStatus = (\<lambda>s.
     (case updateACMEAccountIfStatus (ms_acmeAccounts s) account currentStatus of
        Inl err \<Rightarrow> (Inl err, s)
      | Inr m \<Rightarrow> (Inr (), s\<lparr>ms_acmeAccounts := m\<rparr>)))"

definition MemoryStore_CreateACMEOrder :: "ACMEOrder \<Rightarrow> (error, MemoryStore, unit) prog" where
  "MemoryStore_CreateACMEOrder order = (\<lambda>s.
     (Inr (), s\<lparr>ms_acmeOrders := mput (ord_ID order) (copyACMEOrder order) (ms_acmeOrders s)\<rparr>))"

definition MemoryStore_GetACMEOrder :: "string \<Rightarrow> (error, MemoryStore, ACMEOrder) prog" where
  "MemoryStore_GetACMEOrder ident = (\<lambda>s.
     (case mget (ms_acmeOrders s) ident of None \<Rightarrow> Inl ErrACMEOrderNotFound | Some order \<Rightarrow> Inr (copyACMEOrder order), s))"

definition MemoryStore_ListACMEOrdersByAccount :: "string \<Rightarrow> (error, MemoryStore, ACMEOrder list) prog" where
  "MemoryStore_ListACMEOrdersByAccount accountID = (\<lambda>s. (Inr (listACMEOrdersByAccount (ms_acmeOrders s) accountID), s))"

definition MemoryStore_UpdateACMEOrderIfStatus :: "ACMEOrder \<Rightarrow> ACMEOrderStatus \<Rightarrow> (error, MemoryStore, unit) prog" where
  "MemoryStore_UpdateACMEOrderIfStatus order currentStatus = (\<lambda>s.
     (case updateACMEOrderIfStatus (ms_acmeOrders s) order currentStatus of
        Inl err \<Rightarrow> (Inl err, s)
      | Inr m \<Rightarrow> (Inr (), s\<lparr>ms_acmeOrders := m\<rparr>)))"

definition MemoryStore_CreateACMEAuthorization :: "ACMEAuthorization \<Rightarrow> (error, MemoryStore, unit) prog" where
  "MemoryStore_CreateACMEAuthorization authorization = (\<lambda>s.
     (Inr (), s\<lparr>ms_acmeAuthzs := mput (authz_ID authorization) authorization (ms_acmeAuthzs s)\<rparr>))"

definition MemoryStore_GetACMEAuthorization :: "string \<Rightarrow> (error, MemoryStore, ACMEAuthorization) prog" where
  "MemoryStore_GetACMEAuthorization ident = (\<lambda>s.
     (case mget (ms_acmeAuthzs s) ident of None \<Rightarrow> Inl ErrACMEAuthorizationNotFound | Some authorization \<Rightarrow> Inr authorization, s))"

definition MemoryStore_ListACMEAuthorizationsByOrder :: "string \<Rightarrow> (error, MemoryStore, ACMEAuthorization list) prog" where
  "MemoryStore_ListACMEAuthorizationsByOrder orderID = (\<lambda>s. (Inr (listACMEAuthorizationsByOrder (ms_acmeAuthzs s) orderID), s))"

definition MemoryStore_UpdateACMEAuthorizationIfStatus :: "ACMEAuthorization \<Rightarrow> ACMEAuthorizationStatus \<Rightarrow> (error, MemoryStore, unit) prog" where
  "MemoryStore_UpdateACMEAuthorizationIfStatus authorization currentStatus = (\<lambda>s.
     (case updateACMEAuthorizationIfStatus (ms_acmeAuthzs s) authorization currentStatus of
        Inl err \<Rightarrow> (Inl err, s)
      | Inr m \<Rightarrow> (Inr (), s\<lparr>ms_acmeAuthzs := m\<rparr>)))"

definition MemoryStore_CreateACMEChallenge :: "ACMEChallenge \<Rightarrow> (error, MemoryStore, unit) prog" where
  "MemoryStore_CreateACMEChallenge challenge = (\<lambda>s.
     (Inr (), s\<lparr>ms_acmeChallenges := mput (chal_ID challenge) challenge (ms_acmeChallenges s)\<rparr>))"

definition MemoryStore_GetACMEChallenge :: "string \<Rightarrow> (error, MemoryStore, ACMEChallenge) prog" where
  "MemoryStore_GetACMEChallenge ident = (\<lambda>s.
     (case mget (ms_acmeChallenges s) ident of None \<Rightarrow> Inl ErrACMEChallengeNotFound | Some challenge \<Rightarrow> Inr challenge, s))"

definition MemoryStore_ListACMEChallengesByAuthorization :: "string \<Rightarrow> (error, MemoryStore, ACMEChallenge list) prog" where
  "MemoryStore_ListACMEChallengesByAuthorization authorizationID = (\<lambda>s. (Inr (listACMEChallengesByAuthorization (ms_acmeChallenges s) authorizationID), s))"

definition MemoryStore_UpdateACMEChallengeIfStatus :: "ACMEChallenge \<Rightarrow> ACMEChallengeStatus \<Rightarrow> (error, MemoryStore, unit) prog" where
  "MemoryStore_UpdateACMEChallengeIfStatus challenge currentStatus = (\<lambda>s.
     (case updateACMEChallengeIfStatus (ms_acmeChallenges s) challenge currentStatus of
        Inl err \<Rightarrow> (Inl err, s)
      | Inr m \<Rightarrow> (Inr (), s\<lparr>ms_acmeChallenges := m\<rparr>)))"

section \<open>Copies are copies\<close>

lemma copySlice_id [simp]: "copySlice xs = xs"
  by (simp add: copySlice_def)

lemma copyStringSlice_id [simp]: "copyStringSlice xs = xs"
  by (simp add: copyStringSlice_def)

lemma copyEnrollment_id [simp]: "copyEnrollment x = x"
  by (simp add: copyEnrollment_def)

lemma map_copyEnrollment [simp]: "map copyEnrollment xs = xs"
  by (simp add: list.map_ident_strong)

lemma copyIssuer_id [simp]: "copyIssuer x = x"
  by (simp add: copyIssuer_def)

lemma map_copyIssuer [simp]: "map copyIssuer xs = xs"
  by (simp add: list.map_ident_strong)

lemma copyCertificateProfile_id [simp]: "copyCertificateProfile x = x"
  by (simp add: copyCertificateProfile_def)

lemma map_copyCertificateProfile [simp]: "map copyCertificateProfile xs = xs"
  by (simp add: list.map_ident_strong)

lemma copyCertificate_id [simp]: "copyCertificate x = x"
  by (simp add: copyCertificate_def)

lemma map_copyCertificate [simp]: "map copyCertificate xs = xs"
  by (simp add: list.map_ident_strong)

lemma copyIssuanceAttempt_id [simp]: "copyIssuanceAttempt x = x"
  by (simp add: copyIssuanceAttempt_def)

lemma map_copyIssuanceAttempt [simp]: "map copyIssuanceAttempt xs = xs"
  by (simp add: list.map_ident_strong)

lemma copyNotificationEndpoint_id [simp]: "copyNotificationEndpoint x = x"
  by (simp add: copyNotificationEndpoint_def)

lemma map_copyNotificationEndpoint [simp]: "map copyNotificationEndpoint xs = xs"
  by (simp add: list.map_ident_strong)

lemma copyAPIKey_id [simp]: "copyAPIKey x = x"
  by (simp add: copyAPIKey_def)

lemma map_copyAPIKey [simp]: "map copyAPIKey xs = xs"
  by (simp add: list.map_ident_strong)

lemma copyACMEAccount_id [simp]: "copyACMEAccount x = x"
  by (simp add: copyACMEAccount_def)

lemma map_copyACMEAccount [simp]: "map copyACMEAccount xs = xs"
  by (simp add: list.map_ident_strong)

lemma copyACMEOrder_id [simp]: "copyACMEOrder x = x"
  by (simp add: copyACMEOrder_def)

lemma map_copyACMEOrder [simp]: "map copyACMEOrder xs = xs"
  by (simp add: list.map_ident_strong)

lemma copyIdentity_id [simp]: "copyIdentity x = x"
  by (simp add: copyIdentity_def)

lemma map_copyIdentity [simp]: "map copyIdentity xs = xs"
  by (simp add: list.map_ident_strong)


end
