(* ===== verification/MemoryTx.thy ===== *)
theory MemoryTx
  imports MemoryStore
begin

text \<open>
  \<^verbatim>\<open>internal/store/memory.go\<close>, the transactional view: \<^verbatim>\<open>memoryTx\<close> holds copies of the tables, and
  \<^verbatim>\<open>WithinTx\<close> runs its argument on such a copy and writes the tables back only when it returns no
  error. \<^verbatim>\<open>memoryTx\<close> has the same tables as \<^verbatim>\<open>MemoryStore\<close>, so the type is shared; its methods are
  written out a second time in the source and are modelled a second time here
  (\<open>memoryTx_<Method>\<close>). The lemmas show that both implementations of the \<^verbatim>\<open>Repository\<close> interface agree.

  \<open>world\<close> is what a service operation acts on: the repository and how often the clock, the
  identifier generator and the other collaborators have been called so far.
\<close>

type_synonym memoryTx = MemoryStore

section \<open>Cloning the tables\<close>

definition cloneIdentities :: "Identity gomap \<Rightarrow> Identity gomap" where
  "cloneIdentities src = mclone copyIdentity src"

definition cloneIssuers :: "Issuer gomap \<Rightarrow> Issuer gomap" where
  "cloneIssuers src = mclone copyIssuer src"

definition cloneOCSPResponders :: "OCSPResponder gomap \<Rightarrow> OCSPResponder gomap" where
  "cloneOCSPResponders src = mclone (\<lambda>x. x) src"

definition cloneNotificationEndpoints :: "NotificationEndpoint gomap \<Rightarrow> NotificationEndpoint gomap" where
  "cloneNotificationEndpoints src = mclone copyNotificationEndpoint src"

definition cloneCertificateProfiles :: "CertificateProfile gomap \<Rightarrow> CertificateProfile gomap" where
  "cloneCertificateProfiles src = mclone copyCertificateProfile src"

definition cloneEnrollments :: "Enrollment gomap \<Rightarrow> Enrollment gomap" where
  "cloneEnrollments src = mclone copyEnrollment src"

definition cloneCertificates :: "Certificate gomap \<Rightarrow> Certificate gomap" where
  "cloneCertificates src = mclone copyCertificate src"

definition cloneIssuanceAttempts :: "IssuanceAttempt gomap \<Rightarrow> IssuanceAttempt gomap" where
  "cloneIssuanceAttempts src = mclone copyIssuanceAttempt src"

definition cloneRevocations :: "Revocation gomap \<Rightarrow> Revocation gomap" where
  "cloneRevocations src = mclone (\<lambda>x. x) src"

definition cloneCRLPublications :: "CRLPublication gomap \<Rightarrow> CRLPublication gomap" where
  "cloneCRLPublications src = mclone (\<lambda>x. x) src"

definition cloneAuditEvents :: "AuditEvent list \<Rightarrow> AuditEvent list" where
  "cloneAuditEvents src = copySlice src"

definition cloneOutboxMessages :: "OutboxMessage gomap \<Rightarrow> OutboxMessage gomap" where
  "cloneOutboxMessages src = mclone (\<lambda>x. x) src"

definition cloneJobAttempts :: "JobAttempt gomap \<Rightarrow> JobAttempt gomap" where
  "cloneJobAttempts src = mclone (\<lambda>x. x) src"

definition cloneWebhookDeliveries :: "WebhookDelivery gomap \<Rightarrow> WebhookDelivery gomap" where
  "cloneWebhookDeliveries src = mclone (\<lambda>x. x) src"

definition cloneAPIKeys :: "APIKey gomap \<Rightarrow> APIKey gomap" where
  "cloneAPIKeys src = mclone copyAPIKey src"

definition cloneACMEAccounts :: "ACMEAccount gomap \<Rightarrow> ACMEAccount gomap" where
  "cloneACMEAccounts src = mclone copyACMEAccount src"

definition cloneACMEOrders :: "ACMEOrder gomap \<Rightarrow> ACMEOrder gomap" where
  "cloneACMEOrders src = mclone copyACMEOrder src"

definition cloneACMEAuthorizations :: "ACMEAuthorization gomap \<Rightarrow> ACMEAuthorization gomap" where
  "cloneACMEAuthorizations src = mclone (\<lambda>x. x) src"

definition cloneACMEChallenges :: "ACMEChallenge gomap \<Rightarrow> ACMEChallenge gomap" where
  "cloneACMEChallenges src = mclone (\<lambda>x. x) src"

section \<open>Transactions\<close>

text \<open>What a service operation acts on.\<close>

record world =
  w_repo :: MemoryStore
  w_clock :: nat
  w_ids :: nat
  w_ext :: nat

text \<open>A repository call made by the service.\<close>

definition onRepo :: "(error, MemoryStore, 'a) prog \<Rightarrow> (error, world, 'a) prog" where
  "onRepo m = (\<lambda>w. case m (w_repo w) of (r, s') \<Rightarrow> (r, w\<lparr>w_repo := s'\<rparr>))"

definition beginTx :: "MemoryStore \<Rightarrow> memoryTx" where
  "beginTx s = \<lparr>ms_identities = cloneIdentities (ms_identities s),
     ms_issuers = cloneIssuers (ms_issuers s),
     ms_ocspResponders = cloneOCSPResponders (ms_ocspResponders s),
     ms_notifications = cloneNotificationEndpoints (ms_notifications s),
     ms_profiles = cloneCertificateProfiles (ms_profiles s),
     ms_enrollments = cloneEnrollments (ms_enrollments s),
     ms_certificates = cloneCertificates (ms_certificates s),
     ms_issuanceAttempts = cloneIssuanceAttempts (ms_issuanceAttempts s),
     ms_revocations = cloneRevocations (ms_revocations s),
     ms_crls = cloneCRLPublications (ms_crls s),
     ms_auditEvents = cloneAuditEvents (ms_auditEvents s),
     ms_outbox = cloneOutboxMessages (ms_outbox s),
     ms_jobAttempts = cloneJobAttempts (ms_jobAttempts s),
     ms_webhookDeliveries = cloneWebhookDeliveries (ms_webhookDeliveries s),
     ms_apiKeys = cloneAPIKeys (ms_apiKeys s),
     ms_acmeAccounts = cloneACMEAccounts (ms_acmeAccounts s),
     ms_acmeOrders = cloneACMEOrders (ms_acmeOrders s),
     ms_acmeAuthzs = cloneACMEAuthorizations (ms_acmeAuthzs s),
     ms_acmeChallenges = cloneACMEChallenges (ms_acmeChallenges s)\<rparr>"

definition commitTx :: "MemoryStore \<Rightarrow> memoryTx \<Rightarrow> MemoryStore" where
  "commitTx s tx = s\<lparr>ms_identities := ms_identities tx,
     ms_issuers := ms_issuers tx,
     ms_ocspResponders := ms_ocspResponders tx,
     ms_notifications := ms_notifications tx,
     ms_profiles := ms_profiles tx,
     ms_enrollments := ms_enrollments tx,
     ms_certificates := ms_certificates tx,
     ms_issuanceAttempts := ms_issuanceAttempts tx,
     ms_revocations := ms_revocations tx,
     ms_crls := ms_crls tx,
     ms_auditEvents := ms_auditEvents tx,
     ms_outbox := ms_outbox tx,
     ms_jobAttempts := ms_jobAttempts tx,
     ms_webhookDeliveries := ms_webhookDeliveries tx,
     ms_apiKeys := ms_apiKeys tx,
     ms_acmeAccounts := ms_acmeAccounts tx,
     ms_acmeOrders := ms_acmeOrders tx,
     ms_acmeAuthzs := ms_acmeAuthzs tx,
     ms_acmeChallenges := ms_acmeChallenges tx\<rparr>"

text \<open>
  The argument is the closure passed to \<^verbatim>\<open>WithinTx\<close>, with the variables it assigns as its result.
  Counters of the collaborators are not rolled back.
\<close>

definition MemoryStore_WithinTx :: "(error, world, 'a) prog \<Rightarrow> (error, world, 'a) prog" where
  "MemoryStore_WithinTx fn = (\<lambda>w.
     case fn (w\<lparr>w_repo := beginTx (w_repo w)\<rparr>) of
       (Inl err, w') \<Rightarrow> (Inl err, w'\<lparr>w_repo := w_repo w\<rparr>)
     | (Inr x, w') \<Rightarrow> (Inr x, w'\<lparr>w_repo := commitTx (w_repo w) (w_repo w')\<rparr>))"

definition memoryTx_WithinTx :: "(error, world, 'a) prog \<Rightarrow> (error, world, 'a) prog" where
  "memoryTx_WithinTx fn = fn"

section \<open>Methods of the transactional view\<close>

definition memoryTx_CreateIdentity :: "Identity \<Rightarrow> (error, memoryTx, unit) prog" where
  "memoryTx_CreateIdentity identity = (\<lambda>s.
     (Inr (), s\<lparr>ms_identities := mput (idn_ID identity) (copyIdentity identity) (ms_identities s)\<rparr>))"

definition memoryTx_GetIdentity :: "string \<Rightarrow> (error, memoryTx, Identity) prog" where
  "memoryTx_GetIdentity ident = (\<lambda>s.
     (case mget (ms_identities s) ident of None \<Rightarrow> Inl ErrIdentityNotFound | Some identity \<Rightarrow> Inr (copyIdentity identity), s))"

definition memoryTx_ListIdentities :: "(error, memoryTx, Identity list) prog" where
  "memoryTx_ListIdentities = (\<lambda>s. (Inr (map copyIdentity (mvals (ms_identities s))), s))"

definition memoryTx_CreateIssuer :: "Issuer \<Rightarrow> (error, memoryTx, unit) prog" where
  "memoryTx_CreateIssuer issuer = (\<lambda>s.
     (Inr (), s\<lparr>ms_issuers := mput (iss_ID issuer) (copyIssuer issuer) (ms_issuers s)\<rparr>))"

definition memoryTx_GetIssuer :: "string \<Rightarrow> (error, memoryTx, Issuer) prog" where
  "memoryTx_GetIssuer ident = (\<lambda>s.
     (case mget (ms_issuers s) ident of None \<Rightarrow> Inl ErrIssuerNotFound | Some issuer \<Rightarrow> Inr (copyIssuer issuer), s))"

definition memoryTx_ListIssuers :: "(error, memoryTx, Issuer list) prog" where
  "memoryTx_ListIssuers = (\<lambda>s. (Inr (map copyIssuer (mvals (ms_issuers s))), s))"

definition memoryTx_CreateOCSPResponder :: "OCSPResponder \<Rightarrow> (error, memoryTx, unit) prog" where
  "memoryTx_CreateOCSPResponder responder = (\<lambda>s.
     if rsp_Status responder = OCSPResponderActive \<and>
        \<not> isl (activeOCSPResponderByIssuer (ms_ocspResponders s) (rsp_IssuerID responder))
     then (Inl ErrInvalidTransition, s)
     else (Inr (), s\<lparr>ms_ocspResponders := mput (rsp_ID responder) responder (ms_ocspResponders s)\<rparr>))"

definition memoryTx_GetOCSPResponder :: "string \<Rightarrow> (error, memoryTx, OCSPResponder) prog" where
  "memoryTx_GetOCSPResponder ident = (\<lambda>s.
     (case mget (ms_ocspResponders s) ident of None \<Rightarrow> Inl ErrOCSPResponderNotFound | Some responder \<Rightarrow> Inr responder, s))"

definition memoryTx_ListOCSPRespondersByIssuer :: "string \<Rightarrow> (error, memoryTx, OCSPResponder list) prog" where
  "memoryTx_ListOCSPRespondersByIssuer issuerID = (\<lambda>s. (Inr (listOCSPRespondersByIssuer (ms_ocspResponders s) issuerID), s))"

definition memoryTx_GetActiveOCSPResponderByIssuer :: "string \<Rightarrow> (error, memoryTx, OCSPResponder) prog" where
  "memoryTx_GetActiveOCSPResponderByIssuer issuerID = (\<lambda>s. (activeOCSPResponderByIssuer (ms_ocspResponders s) issuerID, s))"

definition memoryTx_UpdateOCSPResponderIfStatus :: "OCSPResponder \<Rightarrow> OCSPResponderStatus \<Rightarrow> (error, memoryTx, unit) prog" where
  "memoryTx_UpdateOCSPResponderIfStatus responder currentStatus = (\<lambda>s.
     (case updateOCSPResponderIfStatus (ms_ocspResponders s) responder currentStatus of
        Inl err \<Rightarrow> (Inl err, s)
      | Inr m \<Rightarrow> (Inr (), s\<lparr>ms_ocspResponders := m\<rparr>)))"

definition memoryTx_CreateNotificationEndpoint :: "NotificationEndpoint \<Rightarrow> (error, memoryTx, unit) prog" where
  "memoryTx_CreateNotificationEndpoint endpoint = (\<lambda>s.
     (Inr (), s\<lparr>ms_notifications := mput (ep_ID endpoint) (copyNotificationEndpoint endpoint) (ms_notifications s)\<rparr>))"

definition memoryTx_GetNotificationEndpoint :: "string \<Rightarrow> (error, memoryTx, NotificationEndpoint) prog" where
  "memoryTx_GetNotificationEndpoint ident = (\<lambda>s.
     (case mget (ms_notifications s) ident of None \<Rightarrow> Inl ErrNotificationEndpointNotFound | Some endpoint \<Rightarrow> Inr (copyNotificationEndpoint endpoint), s))"

definition memoryTx_ListNotificationEndpoints :: "(error, memoryTx, NotificationEndpoint list) prog" where
  "memoryTx_ListNotificationEndpoints = (\<lambda>s. (Inr (listNotificationEndpoints (ms_notifications s)), s))"

definition memoryTx_UpdateNotificationEndpointIfStatus :: "NotificationEndpoint \<Rightarrow> NotificationEndpointStatus \<Rightarrow> (error, memoryTx, unit) prog" where
  "memoryTx_UpdateNotificationEndpointIfStatus endpoint currentStatus = (\<lambda>s.
     (case updateNotificationEndpointIfStatus (ms_notifications s) endpoint currentStatus of
        Inl err \<Rightarrow> (Inl err, s)
      | Inr m \<Rightarrow> (Inr (), s\<lparr>ms_notifications := m\<rparr>)))"

definition memoryTx_CreateCertificateProfile :: "CertificateProfile \<Rightarrow> (error, memoryTx, unit) prog" where
  "memoryTx_CreateCertificateProfile profile = (\<lambda>s.
     (Inr (), s\<lparr>ms_profiles := mput (prof_ID profile) (copyCertificateProfile profile) (ms_profiles s)\<rparr>))"

definition memoryTx_GetCertificateProfile :: "string \<Rightarrow> (error, memoryTx, CertificateProfile) prog" where
  "memoryTx_GetCertificateProfile ident = (\<lambda>s.
     (case mget (ms_profiles s) ident of None \<Rightarrow> Inl ErrCertificateProfileNotFound | Some profile \<Rightarrow> Inr (copyCertificateProfile profile), s))"

definition memoryTx_ListCertificateProfiles :: "(error, memoryTx, CertificateProfile list) prog" where
  "memoryTx_ListCertificateProfiles = (\<lambda>s. (Inr (map copyCertificateProfile (mvals (ms_profiles s))), s))"

definition memoryTx_CreateEnrollment :: "Enrollment \<Rightarrow> (error, memoryTx, unit) prog" where
  "memoryTx_CreateEnrollment enrollment = (\<lambda>s.
     (Inr (), s\<lparr>ms_enrollments := mput (enr_ID enrollment) (copyEnrollment enrollment) (ms_enrollments s)\<rparr>))"

definition memoryTx_GetEnrollment :: "string \<Rightarrow> (error, memoryTx, Enrollment) prog" where
  "memoryTx_GetEnrollment ident = (\<lambda>s.
     (case mget (ms_enrollments s) ident of None \<Rightarrow> Inl ErrEnrollmentNotFound | Some enrollment \<Rightarrow> Inr (copyEnrollment enrollment), s))"

definition memoryTx_ListEnrollments :: "(error, memoryTx, Enrollment list) prog" where
  "memoryTx_ListEnrollments = (\<lambda>s. (Inr (map copyEnrollment (mvals (ms_enrollments s))), s))"

definition memoryTx_UpdateEnrollment :: "Enrollment \<Rightarrow> (error, memoryTx, unit) prog" where
  "memoryTx_UpdateEnrollment enrollment = (\<lambda>s.
     (case mget (ms_enrollments s) (enr_ID enrollment) of
        None \<Rightarrow> (Inl ErrEnrollmentNotFound, s)
      | Some _ \<Rightarrow> (Inr (), s\<lparr>ms_enrollments := mput (enr_ID enrollment) (copyEnrollment enrollment) (ms_enrollments s)\<rparr>)))"

definition memoryTx_UpdateEnrollmentIfStatus :: "Enrollment \<Rightarrow> EnrollmentStatus \<Rightarrow> (error, memoryTx, unit) prog" where
  "memoryTx_UpdateEnrollmentIfStatus enrollment currentStatus = (\<lambda>s.
     (case updateEnrollmentIfStatus (ms_enrollments s) enrollment currentStatus of
        Inl err \<Rightarrow> (Inl err, s)
      | Inr m \<Rightarrow> (Inr (), s\<lparr>ms_enrollments := m\<rparr>)))"

definition memoryTx_CreateCertificate :: "Certificate \<Rightarrow> (error, memoryTx, unit) prog" where
  "memoryTx_CreateCertificate certificate = (\<lambda>s.
     (case ensureCertificateFinalizationKeysAvailable (ms_certificates s) certificate of
        Inl err \<Rightarrow> (Inl err, s)
      | Inr _ \<Rightarrow> (Inr (), s\<lparr>ms_certificates := mput (cert_ID certificate) (copyCertificate certificate) (ms_certificates s)\<rparr>)))"

definition memoryTx_GetCertificate :: "string \<Rightarrow> (error, memoryTx, Certificate) prog" where
  "memoryTx_GetCertificate ident = (\<lambda>s.
     (case mget (ms_certificates s) ident of None \<Rightarrow> Inl ErrCertificateNotFound | Some certificate \<Rightarrow> Inr (copyCertificate certificate), s))"

definition memoryTx_GetCertificateByEnrollmentID :: "string \<Rightarrow> (error, memoryTx, Certificate) prog" where
  "memoryTx_GetCertificateByEnrollmentID enrollmentID = (\<lambda>s. (certificateByEnrollmentID (ms_certificates s) enrollmentID, s))"

definition memoryTx_ListCertificates :: "(error, memoryTx, Certificate list) prog" where
  "memoryTx_ListCertificates = (\<lambda>s. (Inr (map copyCertificate (mvals (ms_certificates s))), s))"

definition memoryTx_ListCertificateInventory :: "CertificateInventoryFilter \<Rightarrow> (error, memoryTx, CertificateInventoryRecord list) prog" where
  "memoryTx_ListCertificateInventory filt = (\<lambda>s. (Inr (listCertificateInventory (ms_certificates s) (ms_identities s) (ms_issuers s) filt), s))"

definition memoryTx_ListCertificatesExpiringWithin :: "time \<Rightarrow> time \<Rightarrow> int \<Rightarrow> int \<Rightarrow> (error, memoryTx, Certificate list) prog" where
  "memoryTx_ListCertificatesExpiringWithin now cutoff limit offset = (\<lambda>s. (Inr (listCertificatesExpiringWithin (ms_certificates s) now cutoff limit offset), s))"

definition memoryTx_ListCertificatesForExpirationScan :: "time \<Rightarrow> time \<Rightarrow> int \<Rightarrow> (error, memoryTx, Certificate list) prog" where
  "memoryTx_ListCertificatesForExpirationScan now warningBefore limit = (\<lambda>s. (Inr (listCertificatesForExpirationScan (ms_certificates s) now warningBefore limit), s))"

definition memoryTx_UpdateCertificate :: "Certificate \<Rightarrow> (error, memoryTx, unit) prog" where
  "memoryTx_UpdateCertificate certificate = (\<lambda>s.
     (case mget (ms_certificates s) (cert_ID certificate) of
        None \<Rightarrow> (Inl ErrCertificateNotFound, s)
      | Some _ \<Rightarrow> (Inr (), s\<lparr>ms_certificates := mput (cert_ID certificate) (copyCertificate certificate) (ms_certificates s)\<rparr>)))"

definition memoryTx_UpdateCertificateIfStatus :: "Certificate \<Rightarrow> CertificateStatus \<Rightarrow> (error, memoryTx, unit) prog" where
  "memoryTx_UpdateCertificateIfStatus certificate currentStatus = (\<lambda>s.
     (case updateCertificateIfStatus (ms_certificates s) certificate currentStatus of
        Inl err \<Rightarrow> (Inl err, s)
      | Inr m \<Rightarrow> (Inr (), s\<lparr>ms_certificates := m\<rparr>)))"

definition memoryTx_CreateIssuanceAttempt :: "IssuanceAttempt \<Rightarrow> (error, memoryTx, unit) prog" where
  "memoryTx_CreateIssuanceAttempt attempt = (\<lambda>s.
     (case createIssuanceAttempt (ms_issuanceAttempts s) attempt of
        Inl err \<Rightarrow> (Inl err, s)
      | Inr m \<Rightarrow> (Inr (), s\<lparr>ms_issuanceAttempts := m\<rparr>)))"

definition memoryTx_GetIssuanceAttempt :: "string \<Rightarrow> (error, memoryTx, IssuanceAttempt) prog" where
  "memoryTx_GetIssuanceAttempt enrollmentID = (\<lambda>s. (getIssuanceAttempt (ms_issuanceAttempts s) enrollmentID, s))"

definition memoryTx_UpdateIssuanceAttemptIfCurrent :: "IssuanceAttempt \<Rightarrow> IssuanceAttempt \<Rightarrow> (error, memoryTx, unit) prog" where
  "memoryTx_UpdateIssuanceAttemptIfCurrent attempt current = (\<lambda>s.
     (case updateIssuanceAttemptIfCurrent (ms_issuanceAttempts s) attempt current of
        Inl err \<Rightarrow> (Inl err, s)
      | Inr m \<Rightarrow> (Inr (), s\<lparr>ms_issuanceAttempts := m\<rparr>)))"

definition memoryTx_CreateRevocation :: "Revocation \<Rightarrow> (error, memoryTx, unit) prog" where
  "memoryTx_CreateRevocation revocation = (\<lambda>s.
     (Inr (), s\<lparr>ms_revocations := mput (rev_ID revocation) revocation (ms_revocations s)\<rparr>))"

definition memoryTx_ListRevocationsByIssuer :: "string \<Rightarrow> (error, memoryTx, RevokedCertificateEntry list) prog" where
  "memoryTx_ListRevocationsByIssuer issuerID = (\<lambda>s. (Inr (listRevocationsByIssuer (ms_certificates s) (ms_revocations s) issuerID), s))"

definition memoryTx_CreateCRLPublication :: "CRLPublication \<Rightarrow> (error, memoryTx, unit) prog" where
  "memoryTx_CreateCRLPublication publication = (\<lambda>s.
     (case ensureCRLPublicationNumberAvailable (ms_crls s) publication of
        Inl err \<Rightarrow> (Inl err, s)
      | Inr _ \<Rightarrow> (Inr (), s\<lparr>ms_crls := mput (crl_ID publication) publication (ms_crls s)\<rparr>)))"

definition memoryTx_GetCRLPublication :: "string \<Rightarrow> (error, memoryTx, CRLPublication) prog" where
  "memoryTx_GetCRLPublication ident = (\<lambda>s.
     (case mget (ms_crls s) ident of None \<Rightarrow> Inl ErrCRLPublicationNotFound | Some publication \<Rightarrow> Inr publication, s))"

definition memoryTx_GetLatestCRLPublicationByIssuer :: "string \<Rightarrow> (error, memoryTx, CRLPublication) prog" where
  "memoryTx_GetLatestCRLPublicationByIssuer issuerID = (\<lambda>s. (latestCRLPublicationByIssuer (ms_crls s) issuerID, s))"

definition memoryTx_ListCRLPublicationsByIssuer :: "string \<Rightarrow> (error, memoryTx, CRLPublication list) prog" where
  "memoryTx_ListCRLPublicationsByIssuer issuerID = (\<lambda>s. (Inr (listCRLPublicationsByIssuer (ms_crls s) issuerID), s))"

definition memoryTx_CreateAuditEvent :: "AuditEvent \<Rightarrow> (error, memoryTx, unit) prog" where
  "memoryTx_CreateAuditEvent event = (\<lambda>s. (Inr (), s\<lparr>ms_auditEvents := ms_auditEvents s @ [event]\<rparr>))"

definition memoryTx_ListAuditEvents :: "(error, memoryTx, AuditEvent list) prog" where
  "memoryTx_ListAuditEvents = (\<lambda>s. (Inr (ms_auditEvents s), s))"

definition memoryTx_ListAuditEventsQuery :: "AuditEventQuery \<Rightarrow> (error, memoryTx, AuditEvent list) prog" where
  "memoryTx_ListAuditEventsQuery query = (\<lambda>s. (Inr (listAuditEventsQuery (ms_auditEvents s) query), s))"

definition memoryTx_DeleteAuditEventsBefore :: "time \<Rightarrow> (error, memoryTx, int) prog" where
  "memoryTx_DeleteAuditEventsBefore before = (\<lambda>s.
     (case deleteAuditEventsBefore (ms_auditEvents s) before of (kept, deleted) \<Rightarrow>
        (Inr deleted, s\<lparr>ms_auditEvents := kept\<rparr>)))"

definition memoryTx_CreateOutboxMessage :: "OutboxMessage \<Rightarrow> (error, memoryTx, unit) prog" where
  "memoryTx_CreateOutboxMessage message = (\<lambda>s.
     (Inr (), s\<lparr>ms_outbox := mput (msg_ID message) message (ms_outbox s)\<rparr>))"

definition memoryTx_GetOutboxMessage :: "string \<Rightarrow> (error, memoryTx, OutboxMessage) prog" where
  "memoryTx_GetOutboxMessage ident = (\<lambda>s.
     (case mget (ms_outbox s) ident of None \<Rightarrow> Inl ErrOutboxMessageNotFound | Some message \<Rightarrow> Inr message, s))"

definition memoryTx_ListOutboxMessages :: "OutboxMessageStatus \<Rightarrow> (error, memoryTx, OutboxMessage list) prog" where
  "memoryTx_ListOutboxMessages status = (\<lambda>s. (Inr (listOutboxMessages (ms_outbox s) status), s))"

definition memoryTx_ListDueOutboxMessages :: "time \<Rightarrow> int \<Rightarrow> (error, memoryTx, OutboxMessage list) prog" where
  "memoryTx_ListDueOutboxMessages now limit = (\<lambda>s. (Inr (listDueOutboxMessages (ms_outbox s) now limit), s))"

definition memoryTx_UpdateOutboxMessageStatusIfStatus :: "OutboxMessage \<Rightarrow> OutboxMessageStatus \<Rightarrow> (error, memoryTx, unit) prog" where
  "memoryTx_UpdateOutboxMessageStatusIfStatus message currentStatus = (\<lambda>s.
     (case updateOutboxMessageStatusIfStatus (ms_outbox s) message currentStatus of
        Inl err \<Rightarrow> (Inl err, s)
      | Inr m \<Rightarrow> (Inr (), s\<lparr>ms_outbox := m\<rparr>)))"

definition memoryTx_UpdateOutboxMessageIfCurrent :: "OutboxMessage \<Rightarrow> OutboxMessage \<Rightarrow> (error, memoryTx, unit) prog" where
  "memoryTx_UpdateOutboxMessageIfCurrent message current = (\<lambda>s.
     (case updateOutboxMessageIfCurrent (ms_outbox s) message current of
        Inl err \<Rightarrow> (Inl err, s)
      | Inr m \<Rightarrow> (Inr (), s\<lparr>ms_outbox := m\<rparr>)))"

definition memoryTx_CreateJobAttempt :: "JobAttempt \<Rightarrow> (error, memoryTx, unit) prog" where
  "memoryTx_CreateJobAttempt attempt = (\<lambda>s.
     (Inr (), s\<lparr>ms_jobAttempts := mput (job_ID attempt) attempt (ms_jobAttempts s)\<rparr>))"

definition memoryTx_ListJobAttemptsByOutboxMessage :: "string \<Rightarrow> (error, memoryTx, JobAttempt list) prog" where
  "memoryTx_ListJobAttemptsByOutboxMessage outboxMessageID = (\<lambda>s. (Inr (listJobAttemptsByOutboxMessage (ms_jobAttempts s) outboxMessageID), s))"

definition memoryTx_GetWebhookDelivery :: "string \<Rightarrow> string \<Rightarrow> (error, memoryTx, WebhookDelivery) prog" where
  "memoryTx_GetWebhookDelivery outboxMessageID endpointID = (\<lambda>s. (getWebhookDelivery (ms_webhookDeliveries s) outboxMessageID endpointID, s))"

definition memoryTx_UpsertWebhookDelivery :: "WebhookDelivery \<Rightarrow> (error, memoryTx, unit) prog" where
  "memoryTx_UpsertWebhookDelivery delivery = (\<lambda>s.
     (Inr (), s\<lparr>ms_webhookDeliveries :=
        mput (webhookDeliveryKey (whd_OutboxMessageID delivery) (whd_EndpointID delivery)) delivery (ms_webhookDeliveries s)\<rparr>))"

definition memoryTx_CreateAPIKey :: "APIKey \<Rightarrow> (error, memoryTx, unit) prog" where
  "memoryTx_CreateAPIKey key = (\<lambda>s.
     (Inr (), s\<lparr>ms_apiKeys := mput (key_ID key) (copyAPIKey key) (ms_apiKeys s)\<rparr>))"

definition memoryTx_GetAPIKey :: "string \<Rightarrow> (error, memoryTx, APIKey) prog" where
  "memoryTx_GetAPIKey ident = (\<lambda>s.
     (case mget (ms_apiKeys s) ident of None \<Rightarrow> Inl ErrAPIKeyNotFound | Some key \<Rightarrow> Inr (copyAPIKey key), s))"

definition memoryTx_GetAPIKeyByTokenHash :: "string \<Rightarrow> (error, memoryTx, APIKey) prog" where
  "memoryTx_GetAPIKeyByTokenHash tokenHash = (\<lambda>s. (apiKeyByTokenHash (ms_apiKeys s) tokenHash, s))"

definition memoryTx_ListAPIKeys :: "(error, memoryTx, APIKey list) prog" where
  "memoryTx_ListAPIKeys = (\<lambda>s. (Inr (listAPIKeys (ms_apiKeys s)), s))"

definition memoryTx_UpdateAPIKeyIfStatus :: "APIKey \<Rightarrow> APIKeyStatus \<Rightarrow> (error, memoryTx, unit) prog" where
  "memoryTx_UpdateAPIKeyIfStatus key currentStatus = (\<lambda>s.
     (case updateAPIKeyIfStatus (ms_apiKeys s) key currentStatus of
        Inl err \<Rightarrow> (Inl err, s)
      | Inr m \<Rightarrow> (Inr (), s\<lparr>ms_apiKeys := m\<rparr>)))"

definition memoryTx_CreateACMEAccount :: "ACMEAccount \<Rightarrow> (error, memoryTx, unit) prog" where
  "memoryTx_CreateACMEAccount account = (\<lambda>s.
     (case ensureACMEAccountThumbprintAvailable (ms_acmeAccounts s) account of
        Inl err \<Rightarrow> (Inl err, s)
      | Inr _ \<Rightarrow> (Inr (), s\<lparr>ms_acmeAccounts := mput (acc_ID account) (copyACMEAccount account) (ms_acmeAccounts s)\<rparr>)))"

definition memoryTx_GetACMEAccount :: "string \<Rightarrow> (error, memoryTx, ACMEAccount) prog" where
  "memoryTx_GetACMEAccount ident = (\<lambda>s.
     (case mget (ms_acmeAccounts s) ident of None \<Rightarrow> Inl ErrACMEAccountNotFound | Some account \<Rightarrow> Inr (copyACMEAccount account), s))"

definition memoryTx_ListACMEAccounts :: "(error, memoryTx, ACMEAccount list) prog" where
  "memoryTx_ListACMEAccounts = (\<lambda>s. (Inr (listACMEAccounts (ms_acmeAccounts s)), s))"

definition memoryTx_UpdateACMEAccountIfStatus :: "ACMEAccount \<Rightarrow> ACMEAccountStatus \<Rightarrow> (error, memoryTx, unit) prog" where
  "memoryTx_UpdateACMEAccountIfStatus account currentStatus = (\<lambda>s.
     (case updateACMEAccountIfStatus (ms_acmeAccounts s) account currentStatus of
        Inl err \<Rightarrow> (Inl err, s)
      | Inr m \<Rightarrow> (Inr (), s\<lparr>ms_acmeAccounts := m\<rparr>)))"

definition memoryTx_CreateACMEOrder :: "ACMEOrder \<Rightarrow> (error, memoryTx, unit) prog" where
  "memoryTx_CreateACMEOrder order = (\<lambda>s.
     (Inr (), s\<lparr>ms_acmeOrders := mput (ord_ID order) (copyACMEOrder order) (ms_acmeOrders s)\<rparr>))"

definition memoryTx_GetACMEOrder :: "string \<Rightarrow> (error, memoryTx, ACMEOrder) prog" where
  "memoryTx_GetACMEOrder ident = (\<lambda>s.
     (case mget (ms_acmeOrders s) ident of None \<Rightarrow> Inl ErrACMEOrderNotFound | Some order \<Rightarrow> Inr (copyACMEOrder order), s))"

definition memoryTx_ListACMEOrdersByAccount :: "string \<Rightarrow> (error, memoryTx, ACMEOrder list) prog" where
  "memoryTx_ListACMEOrdersByAccount accountID = (\<lambda>s. (Inr (listACMEOrdersByAccount (ms_acmeOrders s) accountID), s))"

definition memoryTx_UpdateACMEOrderIfStatus :: "ACMEOrder \<Rightarrow> ACMEOrderStatus \<Rightarrow> (error, memoryTx, unit) prog" where
  "memoryTx_UpdateACMEOrderIfStatus order currentStatus = (\<lambda>s.
     (case updateACMEOrderIfStatus (ms_acmeOrders s) order currentStatus of
        Inl err \<Rightarrow> (Inl err, s)
      | Inr m \<Rightarrow> (Inr (), s\<lparr>ms_acmeOrders := m\<rparr>)))"

definition memoryTx_CreateACMEAuthorization :: "ACMEAuthorization \<Rightarrow> (error, memoryTx, unit) prog" where
  "memoryTx_CreateACMEAuthorization authorization = (\<lambda>s.
     (Inr (), s\<lparr>ms_acmeAuthzs := mput (authz_ID authorization) authorization (ms_acmeAuthzs s)\<rparr>))"

definition memoryTx_GetACMEAuthorization :: "string \<Rightarrow> (error, memoryTx, ACMEAuthorization) prog" where
  "memoryTx_GetACMEAuthorization ident = (\<lambda>s.
     (case mget (ms_acmeAuthzs s) ident of None \<Rightarrow> Inl ErrACMEAuthorizationNotFound | Some authorization \<Rightarrow> Inr authorization, s))"

definition memoryTx_ListACMEAuthorizationsByOrder :: "string \<Rightarrow> (error, memoryTx, ACMEAuthorization list) prog" where
  "memoryTx_ListACMEAuthorizationsByOrder orderID = (\<lambda>s. (Inr (listACMEAuthorizationsByOrder (ms_acmeAuthzs s) orderID), s))"

definition memoryTx_UpdateACMEAuthorizationIfStatus :: "ACMEAuthorization \<Rightarrow> ACMEAuthorizationStatus \<Rightarrow> (error, memoryTx, unit) prog" where
  "memoryTx_UpdateACMEAuthorizationIfStatus authorization currentStatus = (\<lambda>s.
     (case updateACMEAuthorizationIfStatus (ms_acmeAuthzs s) authorization currentStatus of
        Inl err \<Rightarrow> (Inl err, s)
      | Inr m \<Rightarrow> (Inr (), s\<lparr>ms_acmeAuthzs := m\<rparr>)))"

definition memoryTx_CreateACMEChallenge :: "ACMEChallenge \<Rightarrow> (error, memoryTx, unit) prog" where
  "memoryTx_CreateACMEChallenge challenge = (\<lambda>s.
     (Inr (), s\<lparr>ms_acmeChallenges := mput (chal_ID challenge) challenge (ms_acmeChallenges s)\<rparr>))"

definition memoryTx_GetACMEChallenge :: "string \<Rightarrow> (error, memoryTx, ACMEChallenge) prog" where
  "memoryTx_GetACMEChallenge ident = (\<lambda>s.
     (case mget (ms_acmeChallenges s) ident of None \<Rightarrow> Inl ErrACMEChallengeNotFound | Some challenge \<Rightarrow> Inr challenge, s))"

definition memoryTx_ListACMEChallengesByAuthorization :: "string \<Rightarrow> (error, memoryTx, ACMEChallenge list) prog" where
  "memoryTx_ListACMEChallengesByAuthorization authorizationID = (\<lambda>s. (Inr (listACMEChallengesByAuthorization (ms_acmeChallenges s) authorizationID), s))"

definition memoryTx_UpdateACMEChallengeIfStatus :: "ACMEChallenge \<Rightarrow> ACMEChallengeStatus \<Rightarrow> (error, memoryTx, unit) prog" where
  "memoryTx_UpdateACMEChallengeIfStatus challenge currentStatus = (\<lambda>s.
     (case updateACMEChallengeIfStatus (ms_acmeChallenges s) challenge currentStatus of
        Inl err \<Rightarrow> (Inl err, s)
      | Inr m \<Rightarrow> (Inr (), s\<lparr>ms_acmeChallenges := m\<rparr>)))"

section \<open>The two implementations agree\<close>

named_theorems tx_agree \<open>\<open>memoryTx\<close> methods as \<open>MemoryStore\<close> methods\<close>

lemma memoryTx_CreateIdentity_agrees [tx_agree]: "memoryTx_CreateIdentity = MemoryStore_CreateIdentity"
  by (intro ext) (simp add: memoryTx_CreateIdentity_def MemoryStore_CreateIdentity_def)

lemma memoryTx_GetIdentity_agrees [tx_agree]: "memoryTx_GetIdentity = MemoryStore_GetIdentity"
  by (intro ext) (simp add: memoryTx_GetIdentity_def MemoryStore_GetIdentity_def)

lemma memoryTx_ListIdentities_agrees [tx_agree]: "memoryTx_ListIdentities = MemoryStore_ListIdentities"
  by (intro ext) (simp add: memoryTx_ListIdentities_def MemoryStore_ListIdentities_def)

lemma memoryTx_CreateIssuer_agrees [tx_agree]: "memoryTx_CreateIssuer = MemoryStore_CreateIssuer"
  by (intro ext) (simp add: memoryTx_CreateIssuer_def MemoryStore_CreateIssuer_def)

lemma memoryTx_GetIssuer_agrees [tx_agree]: "memoryTx_GetIssuer = MemoryStore_GetIssuer"
  by (intro ext) (simp add: memoryTx_GetIssuer_def MemoryStore_GetIssuer_def)

lemma memoryTx_ListIssuers_agrees [tx_agree]: "memoryTx_ListIssuers = MemoryStore_ListIssuers"
  by (intro ext) (simp add: memoryTx_ListIssuers_def MemoryStore_ListIssuers_def)

lemma memoryTx_CreateOCSPResponder_agrees [tx_agree]: "memoryTx_CreateOCSPResponder = MemoryStore_CreateOCSPResponder"
  by (intro ext) (simp add: memoryTx_CreateOCSPResponder_def MemoryStore_CreateOCSPResponder_def)

lemma memoryTx_GetOCSPResponder_agrees [tx_agree]: "memoryTx_GetOCSPResponder = MemoryStore_GetOCSPResponder"
  by (intro ext) (simp add: memoryTx_GetOCSPResponder_def MemoryStore_GetOCSPResponder_def)

lemma memoryTx_ListOCSPRespondersByIssuer_agrees [tx_agree]: "memoryTx_ListOCSPRespondersByIssuer = MemoryStore_ListOCSPRespondersByIssuer"
  by (intro ext) (simp add: memoryTx_ListOCSPRespondersByIssuer_def MemoryStore_ListOCSPRespondersByIssuer_def)

lemma memoryTx_GetActiveOCSPResponderByIssuer_agrees [tx_agree]: "memoryTx_GetActiveOCSPResponderByIssuer = MemoryStore_GetActiveOCSPResponderByIssuer"
  by (intro ext) (simp add: memoryTx_GetActiveOCSPResponderByIssuer_def MemoryStore_GetActiveOCSPResponderByIssuer_def)

lemma memoryTx_UpdateOCSPResponderIfStatus_agrees [tx_agree]: "memoryTx_UpdateOCSPResponderIfStatus = MemoryStore_UpdateOCSPResponderIfStatus"
  by (intro ext) (simp add: memoryTx_UpdateOCSPResponderIfStatus_def MemoryStore_UpdateOCSPResponderIfStatus_def)

lemma memoryTx_CreateNotificationEndpoint_agrees [tx_agree]: "memoryTx_CreateNotificationEndpoint = MemoryStore_CreateNotificationEndpoint"
  by (intro ext) (simp add: memoryTx_CreateNotificationEndpoint_def MemoryStore_CreateNotificationEndpoint_def)

lemma memoryTx_GetNotificationEndpoint_agrees [tx_agree]: "memoryTx_GetNotificationEndpoint = MemoryStore_GetNotificationEndpoint"
  by (intro ext) (simp add: memoryTx_GetNotificationEndpoint_def MemoryStore_GetNotificationEndpoint_def)

lemma memoryTx_ListNotificationEndpoints_agrees [tx_agree]: "memoryTx_ListNotificationEndpoints = MemoryStore_ListNotificationEndpoints"
  by (intro ext) (simp add: memoryTx_ListNotificationEndpoints_def MemoryStore_ListNotificationEndpoints_def)

lemma memoryTx_UpdateNotificationEndpointIfStatus_agrees [tx_agree]: "memoryTx_UpdateNotificationEndpointIfStatus = MemoryStore_UpdateNotificationEndpointIfStatus"
  by (intro ext) (simp add: memoryTx_UpdateNotificationEndpointIfStatus_def MemoryStore_UpdateNotificationEndpointIfStatus_def)

lemma memoryTx_CreateCertificateProfile_agrees [tx_agree]: "memoryTx_CreateCertificateProfile = MemoryStore_CreateCertificateProfile"
  by (intro ext) (simp add: memoryTx_CreateCertificateProfile_def MemoryStore_CreateCertificateProfile_def)

lemma memoryTx_GetCertificateProfile_agrees [tx_agree]: "memoryTx_GetCertificateProfile = MemoryStore_GetCertificateProfile"
  by (intro ext) (simp add: memoryTx_GetCertificateProfile_def MemoryStore_GetCertificateProfile_def)

lemma memoryTx_ListCertificateProfiles_agrees [tx_agree]: "memoryTx_ListCertificateProfiles = MemoryStore_ListCertificateProfiles"
  by (intro ext) (simp add: memoryTx_ListCertificateProfiles_def MemoryStore_ListCertificateProfiles_def)

lemma memoryTx_CreateEnrollment_agrees [tx_agree]: "memoryTx_CreateEnrollment = MemoryStore_CreateEnrollment"
  by (intro ext) (simp add: memoryTx_CreateEnrollment_def MemoryStore_CreateEnrollment_def)

lemma memoryTx_GetEnrollment_agrees [tx_agree]: "memoryTx_GetEnrollment = MemoryStore_GetEnrollment"
  by (intro ext) (simp add: memoryTx_GetEnrollment_def MemoryStore_GetEnrollment_def)

lemma memoryTx_ListEnrollments_agrees [tx_agree]: "memoryTx_ListEnrollments = MemoryStore_ListEnrollments"
  by (intro ext) (simp add: memoryTx_ListEnrollments_def MemoryStore_ListEnrollments_def)

lemma memoryTx_UpdateEnrollment_agrees [tx_agree]: "memoryTx_UpdateEnrollment = MemoryStore_UpdateEnrollment"
  by (intro ext) (simp add: memoryTx_UpdateEnrollment_def MemoryStore_UpdateEnrollment_def)

lemma memoryTx_UpdateEnrollmentIfStatus_agrees [tx_agree]: "memoryTx_UpdateEnrollmentIfStatus = MemoryStore_UpdateEnrollmentIfStatus"
  by (intro ext) (simp add: memoryTx_UpdateEnrollmentIfStatus_def MemoryStore_UpdateEnrollmentIfStatus_def)

lemma memoryTx_CreateCertificate_agrees [tx_agree]: "memoryTx_CreateCertificate = MemoryStore_CreateCertificate"
  by (intro ext) (simp add: memoryTx_CreateCertificate_def MemoryStore_CreateCertificate_def)

lemma memoryTx_GetCertificate_agrees [tx_agree]: "memoryTx_GetCertificate = MemoryStore_GetCertificate"
  by (intro ext) (simp add: memoryTx_GetCertificate_def MemoryStore_GetCertificate_def)

lemma memoryTx_GetCertificateByEnrollmentID_agrees [tx_agree]: "memoryTx_GetCertificateByEnrollmentID = MemoryStore_GetCertificateByEnrollmentID"
  by (intro ext) (simp add: memoryTx_GetCertificateByEnrollmentID_def MemoryStore_GetCertificateByEnrollmentID_def)

lemma memoryTx_ListCertificates_agrees [tx_agree]: "memoryTx_ListCertificates = MemoryStore_ListCertificates"
  by (intro ext) (simp add: memoryTx_ListCertificates_def MemoryStore_ListCertificates_def)

lemma memoryTx_ListCertificateInventory_agrees [tx_agree]: "memoryTx_ListCertificateInventory = MemoryStore_ListCertificateInventory"
  by (intro ext) (simp add: memoryTx_ListCertificateInventory_def MemoryStore_ListCertificateInventory_def)

lemma memoryTx_ListCertificatesExpiringWithin_agrees [tx_agree]: "memoryTx_ListCertificatesExpiringWithin = MemoryStore_ListCertificatesExpiringWithin"
  by (intro ext) (simp add: memoryTx_ListCertificatesExpiringWithin_def MemoryStore_ListCertificatesExpiringWithin_def)

lemma memoryTx_ListCertificatesForExpirationScan_agrees [tx_agree]: "memoryTx_ListCertificatesForExpirationScan = MemoryStore_ListCertificatesForExpirationScan"
  by (intro ext) (simp add: memoryTx_ListCertificatesForExpirationScan_def MemoryStore_ListCertificatesForExpirationScan_def)

lemma memoryTx_UpdateCertificate_agrees [tx_agree]: "memoryTx_UpdateCertificate = MemoryStore_UpdateCertificate"
  by (intro ext) (simp add: memoryTx_UpdateCertificate_def MemoryStore_UpdateCertificate_def)

lemma memoryTx_UpdateCertificateIfStatus_agrees [tx_agree]: "memoryTx_UpdateCertificateIfStatus = MemoryStore_UpdateCertificateIfStatus"
  by (intro ext) (simp add: memoryTx_UpdateCertificateIfStatus_def MemoryStore_UpdateCertificateIfStatus_def)

lemma memoryTx_CreateIssuanceAttempt_agrees [tx_agree]: "memoryTx_CreateIssuanceAttempt = MemoryStore_CreateIssuanceAttempt"
  by (intro ext) (simp add: memoryTx_CreateIssuanceAttempt_def MemoryStore_CreateIssuanceAttempt_def)

lemma memoryTx_GetIssuanceAttempt_agrees [tx_agree]: "memoryTx_GetIssuanceAttempt = MemoryStore_GetIssuanceAttempt"
  by (intro ext) (simp add: memoryTx_GetIssuanceAttempt_def MemoryStore_GetIssuanceAttempt_def)

lemma memoryTx_UpdateIssuanceAttemptIfCurrent_agrees [tx_agree]: "memoryTx_UpdateIssuanceAttemptIfCurrent = MemoryStore_UpdateIssuanceAttemptIfCurrent"
  by (intro ext) (simp add: memoryTx_UpdateIssuanceAttemptIfCurrent_def MemoryStore_UpdateIssuanceAttemptIfCurrent_def)

lemma memoryTx_CreateRevocation_agrees [tx_agree]: "memoryTx_CreateRevocation = MemoryStore_CreateRevocation"
  by (intro ext) (simp add: memoryTx_CreateRevocation_def MemoryStore_CreateRevocation_def)

lemma memoryTx_ListRevocationsByIssuer_agrees [tx_agree]: "memoryTx_ListRevocationsByIssuer = MemoryStore_ListRevocationsByIssuer"
  by (intro ext) (simp add: memoryTx_ListRevocationsByIssuer_def MemoryStore_ListRevocationsByIssuer_def)

lemma memoryTx_CreateCRLPublication_agrees [tx_agree]: "memoryTx_CreateCRLPublication = MemoryStore_CreateCRLPublication"
  by (intro ext) (simp add: memoryTx_CreateCRLPublication_def MemoryStore_CreateCRLPublication_def)

lemma memoryTx_GetCRLPublication_agrees [tx_agree]: "memoryTx_GetCRLPublication = MemoryStore_GetCRLPublication"
  by (intro ext) (simp add: memoryTx_GetCRLPublication_def MemoryStore_GetCRLPublication_def)

lemma memoryTx_GetLatestCRLPublicationByIssuer_agrees [tx_agree]: "memoryTx_GetLatestCRLPublicationByIssuer = MemoryStore_GetLatestCRLPublicationByIssuer"
  by (intro ext) (simp add: memoryTx_GetLatestCRLPublicationByIssuer_def MemoryStore_GetLatestCRLPublicationByIssuer_def)

lemma memoryTx_ListCRLPublicationsByIssuer_agrees [tx_agree]: "memoryTx_ListCRLPublicationsByIssuer = MemoryStore_ListCRLPublicationsByIssuer"
  by (intro ext) (simp add: memoryTx_ListCRLPublicationsByIssuer_def MemoryStore_ListCRLPublicationsByIssuer_def)

lemma memoryTx_CreateAuditEvent_agrees [tx_agree]: "memoryTx_CreateAuditEvent = MemoryStore_CreateAuditEvent"
  by (intro ext) (simp add: memoryTx_CreateAuditEvent_def MemoryStore_CreateAuditEvent_def)

lemma memoryTx_ListAuditEvents_agrees [tx_agree]: "memoryTx_ListAuditEvents = MemoryStore_ListAuditEvents"
  by (intro ext) (simp add: memoryTx_ListAuditEvents_def MemoryStore_ListAuditEvents_def)

lemma memoryTx_ListAuditEventsQuery_agrees [tx_agree]: "memoryTx_ListAuditEventsQuery = MemoryStore_ListAuditEventsQuery"
  by (intro ext) (simp add: memoryTx_ListAuditEventsQuery_def MemoryStore_ListAuditEventsQuery_def)

lemma memoryTx_DeleteAuditEventsBefore_agrees [tx_agree]: "memoryTx_DeleteAuditEventsBefore = MemoryStore_DeleteAuditEventsBefore"
  by (intro ext) (simp add: memoryTx_DeleteAuditEventsBefore_def MemoryStore_DeleteAuditEventsBefore_def)

lemma memoryTx_CreateOutboxMessage_agrees [tx_agree]: "memoryTx_CreateOutboxMessage = MemoryStore_CreateOutboxMessage"
  by (intro ext) (simp add: memoryTx_CreateOutboxMessage_def MemoryStore_CreateOutboxMessage_def)

lemma memoryTx_GetOutboxMessage_agrees [tx_agree]: "memoryTx_GetOutboxMessage = MemoryStore_GetOutboxMessage"
  by (intro ext) (simp add: memoryTx_GetOutboxMessage_def MemoryStore_GetOutboxMessage_def)

lemma memoryTx_ListOutboxMessages_agrees [tx_agree]: "memoryTx_ListOutboxMessages = MemoryStore_ListOutboxMessages"
  by (intro ext) (simp add: memoryTx_ListOutboxMessages_def MemoryStore_ListOutboxMessages_def)

lemma memoryTx_ListDueOutboxMessages_agrees [tx_agree]: "memoryTx_ListDueOutboxMessages = MemoryStore_ListDueOutboxMessages"
  by (intro ext) (simp add: memoryTx_ListDueOutboxMessages_def MemoryStore_ListDueOutboxMessages_def)

lemma memoryTx_UpdateOutboxMessageStatusIfStatus_agrees [tx_agree]: "memoryTx_UpdateOutboxMessageStatusIfStatus = MemoryStore_UpdateOutboxMessageStatusIfStatus"
  by (intro ext) (simp add: memoryTx_UpdateOutboxMessageStatusIfStatus_def MemoryStore_UpdateOutboxMessageStatusIfStatus_def)

lemma memoryTx_UpdateOutboxMessageIfCurrent_agrees [tx_agree]: "memoryTx_UpdateOutboxMessageIfCurrent = MemoryStore_UpdateOutboxMessageIfCurrent"
  by (intro ext) (simp add: memoryTx_UpdateOutboxMessageIfCurrent_def MemoryStore_UpdateOutboxMessageIfCurrent_def)

lemma memoryTx_CreateJobAttempt_agrees [tx_agree]: "memoryTx_CreateJobAttempt = MemoryStore_CreateJobAttempt"
  by (intro ext) (simp add: memoryTx_CreateJobAttempt_def MemoryStore_CreateJobAttempt_def)

lemma memoryTx_ListJobAttemptsByOutboxMessage_agrees [tx_agree]: "memoryTx_ListJobAttemptsByOutboxMessage = MemoryStore_ListJobAttemptsByOutboxMessage"
  by (intro ext) (simp add: memoryTx_ListJobAttemptsByOutboxMessage_def MemoryStore_ListJobAttemptsByOutboxMessage_def)

lemma memoryTx_GetWebhookDelivery_agrees [tx_agree]: "memoryTx_GetWebhookDelivery = MemoryStore_GetWebhookDelivery"
  by (intro ext) (simp add: memoryTx_GetWebhookDelivery_def MemoryStore_GetWebhookDelivery_def)

lemma memoryTx_UpsertWebhookDelivery_agrees [tx_agree]: "memoryTx_UpsertWebhookDelivery = MemoryStore_UpsertWebhookDelivery"
  by (intro ext) (simp add: memoryTx_UpsertWebhookDelivery_def MemoryStore_UpsertWebhookDelivery_def)

lemma memoryTx_CreateAPIKey_agrees [tx_agree]: "memoryTx_CreateAPIKey = MemoryStore_CreateAPIKey"
  by (intro ext) (simp add: memoryTx_CreateAPIKey_def MemoryStore_CreateAPIKey_def)

lemma memoryTx_GetAPIKey_agrees [tx_agree]: "memoryTx_GetAPIKey = MemoryStore_GetAPIKey"
  by (intro ext) (simp add: memoryTx_GetAPIKey_def MemoryStore_GetAPIKey_def)

lemma memoryTx_GetAPIKeyByTokenHash_agrees [tx_agree]: "memoryTx_GetAPIKeyByTokenHash = MemoryStore_GetAPIKeyByTokenHash"
  by (intro ext) (simp add: memoryTx_GetAPIKeyByTokenHash_def MemoryStore_GetAPIKeyByTokenHash_def)

lemma memoryTx_ListAPIKeys_agrees [tx_agree]: "memoryTx_ListAPIKeys = MemoryStore_ListAPIKeys"
  by (intro ext) (simp add: memoryTx_ListAPIKeys_def MemoryStore_ListAPIKeys_def)

lemma memoryTx_UpdateAPIKeyIfStatus_agrees [tx_agree]: "memoryTx_UpdateAPIKeyIfStatus = MemoryStore_UpdateAPIKeyIfStatus"
  by (intro ext) (simp add: memoryTx_UpdateAPIKeyIfStatus_def MemoryStore_UpdateAPIKeyIfStatus_def)

lemma memoryTx_CreateACMEAccount_agrees [tx_agree]: "memoryTx_CreateACMEAccount = MemoryStore_CreateACMEAccount"
  by (intro ext) (simp add: memoryTx_CreateACMEAccount_def MemoryStore_CreateACMEAccount_def)

lemma memoryTx_GetACMEAccount_agrees [tx_agree]: "memoryTx_GetACMEAccount = MemoryStore_GetACMEAccount"
  by (intro ext) (simp add: memoryTx_GetACMEAccount_def MemoryStore_GetACMEAccount_def)

lemma memoryTx_ListACMEAccounts_agrees [tx_agree]: "memoryTx_ListACMEAccounts = MemoryStore_ListACMEAccounts"
  by (intro ext) (simp add: memoryTx_ListACMEAccounts_def MemoryStore_ListACMEAccounts_def)

lemma memoryTx_UpdateACMEAccountIfStatus_agrees [tx_agree]: "memoryTx_UpdateACMEAccountIfStatus = MemoryStore_UpdateACMEAccountIfStatus"
  by (intro ext) (simp add: memoryTx_UpdateACMEAccountIfStatus_def MemoryStore_UpdateACMEAccountIfStatus_def)

lemma memoryTx_CreateACMEOrder_agrees [tx_agree]: "memoryTx_CreateACMEOrder = MemoryStore_CreateACMEOrder"
  by (intro ext) (simp add: memoryTx_CreateACMEOrder_def MemoryStore_CreateACMEOrder_def)

lemma memoryTx_GetACMEOrder_agrees [tx_agree]: "memoryTx_GetACMEOrder = MemoryStore_GetACMEOrder"
  by (intro ext) (simp add: memoryTx_GetACMEOrder_def MemoryStore_GetACMEOrder_def)

lemma memoryTx_ListACMEOrdersByAccount_agrees [tx_agree]: "memoryTx_ListACMEOrdersByAccount = MemoryStore_ListACMEOrdersByAccount"
  by (intro ext) (simp add: memoryTx_ListACMEOrdersByAccount_def MemoryStore_ListACMEOrdersByAccount_def)

lemma memoryTx_UpdateACMEOrderIfStatus_agrees [tx_agree]: "memoryTx_UpdateACMEOrderIfStatus = MemoryStore_UpdateACMEOrderIfStatus"
  by (intro ext) (simp add: memoryTx_UpdateACMEOrderIfStatus_def MemoryStore_UpdateACMEOrderIfStatus_def)

lemma memoryTx_CreateACMEAuthorization_agrees [tx_agree]: "memoryTx_CreateACMEAuthorization = MemoryStore_CreateACMEAuthorization"
  by (intro ext) (simp add: memoryTx_CreateACMEAuthorization_def MemoryStore_CreateACMEAuthorization_def)

lemma memoryTx_GetACMEAuthorization_agrees [tx_agree]: "memoryTx_GetACMEAuthorization = MemoryStore_GetACMEAuthorization"
  by (intro ext) (simp add: memoryTx_GetACMEAuthorization_def MemoryStore_GetACMEAuthorization_def)

lemma memoryTx_ListACMEAuthorizationsByOrder_agrees [tx_agree]: "memoryTx_ListACMEAuthorizationsByOrder = MemoryStore_ListACMEAuthorizationsByOrder"
  by (intro ext) (simp add: memoryTx_ListACMEAuthorizationsByOrder_def MemoryStore_ListACMEAuthorizationsByOrder_def)

lemma memoryTx_UpdateACMEAuthorizationIfStatus_agrees [tx_agree]: "memoryTx_UpdateACMEAuthorizationIfStatus = MemoryStore_UpdateACMEAuthorizationIfStatus"
  by (intro ext) (simp add: memoryTx_UpdateACMEAuthorizationIfStatus_def MemoryStore_UpdateACMEAuthorizationIfStatus_def)

lemma memoryTx_CreateACMEChallenge_agrees [tx_agree]: "memoryTx_CreateACMEChallenge = MemoryStore_CreateACMEChallenge"
  by (intro ext) (simp add: memoryTx_CreateACMEChallenge_def MemoryStore_CreateACMEChallenge_def)

lemma memoryTx_GetACMEChallenge_agrees [tx_agree]: "memoryTx_GetACMEChallenge = MemoryStore_GetACMEChallenge"
  by (intro ext) (simp add: memoryTx_GetACMEChallenge_def MemoryStore_GetACMEChallenge_def)

lemma memoryTx_ListACMEChallengesByAuthorization_agrees [tx_agree]: "memoryTx_ListACMEChallengesByAuthorization = MemoryStore_ListACMEChallengesByAuthorization"
  by (intro ext) (simp add: memoryTx_ListACMEChallengesByAuthorization_def MemoryStore_ListACMEChallengesByAuthorization_def)

lemma memoryTx_UpdateACMEChallengeIfStatus_agrees [tx_agree]: "memoryTx_UpdateACMEChallengeIfStatus = MemoryStore_UpdateACMEChallengeIfStatus"
  by (intro ext) (simp add: memoryTx_UpdateACMEChallengeIfStatus_def MemoryStore_UpdateACMEChallengeIfStatus_def)

lemma cloneIdentities_id [simp]: "cloneIdentities src = src"
  by (simp add: cloneIdentities_def mclone_id)

lemma cloneIssuers_id [simp]: "cloneIssuers src = src"
  by (simp add: cloneIssuers_def mclone_id)

lemma cloneOCSPResponders_id [simp]: "cloneOCSPResponders src = src"
  by (simp add: cloneOCSPResponders_def mclone_id)

lemma cloneNotificationEndpoints_id [simp]: "cloneNotificationEndpoints src = src"
  by (simp add: cloneNotificationEndpoints_def mclone_id)

lemma cloneCertificateProfiles_id [simp]: "cloneCertificateProfiles src = src"
  by (simp add: cloneCertificateProfiles_def mclone_id)

lemma cloneEnrollments_id [simp]: "cloneEnrollments src = src"
  by (simp add: cloneEnrollments_def mclone_id)

lemma cloneCertificates_id [simp]: "cloneCertificates src = src"
  by (simp add: cloneCertificates_def mclone_id)

lemma cloneIssuanceAttempts_id [simp]: "cloneIssuanceAttempts src = src"
  by (simp add: cloneIssuanceAttempts_def mclone_id)

lemma cloneRevocations_id [simp]: "cloneRevocations src = src"
  by (simp add: cloneRevocations_def mclone_id)

lemma cloneCRLPublications_id [simp]: "cloneCRLPublications src = src"
  by (simp add: cloneCRLPublications_def mclone_id)

lemma cloneAuditEvents_id [simp]: "cloneAuditEvents src = src"
  by (simp add: cloneAuditEvents_def)

lemma cloneOutboxMessages_id [simp]: "cloneOutboxMessages src = src"
  by (simp add: cloneOutboxMessages_def mclone_id)

lemma cloneJobAttempts_id [simp]: "cloneJobAttempts src = src"
  by (simp add: cloneJobAttempts_def mclone_id)

lemma cloneWebhookDeliveries_id [simp]: "cloneWebhookDeliveries src = src"
  by (simp add: cloneWebhookDeliveries_def mclone_id)

lemma cloneAPIKeys_id [simp]: "cloneAPIKeys src = src"
  by (simp add: cloneAPIKeys_def mclone_id)

lemma cloneACMEAccounts_id [simp]: "cloneACMEAccounts src = src"
  by (simp add: cloneACMEAccounts_def mclone_id)

lemma cloneACMEOrders_id [simp]: "cloneACMEOrders src = src"
  by (simp add: cloneACMEOrders_def mclone_id)

lemma cloneACMEAuthorizations_id [simp]: "cloneACMEAuthorizations src = src"
  by (simp add: cloneACMEAuthorizations_def mclone_id)

lemma cloneACMEChallenges_id [simp]: "cloneACMEChallenges src = src"
  by (simp add: cloneACMEChallenges_def mclone_id)

lemma beginTx_id [simp]: "beginTx s = s"
  by (simp add: beginTx_def)

lemma commitTx_id [simp]: "commitTx s tx = tx"
  by (simp add: commitTx_def)

lemma run_onRepo [prog_simps]:
  "onRepo m w = (case m (w_repo w) of (r, s') \<Rightarrow> (r, w\<lparr>w_repo := s'\<rparr>))"
  by (simp add: onRepo_def)

lemma run_WithinTx [prog_simps]:
  "MemoryStore_WithinTx fn w =
     (case fn w of (Inl err, w') \<Rightarrow> (Inl err, w'\<lparr>w_repo := w_repo w\<rparr>) | (Inr x, w') \<Rightarrow> (Inr x, w'))"
  by (simp add: MemoryStore_WithinTx_def split: prod.split sum.split)

lemma memoryTx_WithinTx_id [simp, prog_simps]: "memoryTx_WithinTx fn = fn"
  by (simp add: memoryTx_WithinTx_def)

end
