(* ===== verification/StoreContracts.thy ===== *)
theory StoreContracts
  imports MemoryTx
begin

text \<open>
  What the repository promises to the service, as locales that are interpreted on the methods and
  helpers of \<open>MemoryStore\<close>:

  \<^item> \<open>entity_store\<close>: what a lookup returns after a create, interpreted for the tables of both
    \<^verbatim>\<open>MemoryStore\<close> and \<^verbatim>\<open>memoryTx\<close>;
  \<^item> \<open>guarded_table\<close>: the compare-and-set contract of the \<^verbatim>\<open>...IfStatus\<close> and \<^verbatim>\<open>...IfCurrent\<close> helpers,
    interpreted for the twelve helpers of the file;
  \<^item> \<open>ordered_listing\<close>: sorted listings that do not depend on the map iteration order.

  Further down: the selection loops (\<open>pickBest\<close>), the uniqueness invariants the store enforces and
  the results about transactions.
\<close>

named_theorems store_defs \<open>definitions of the repository methods\<close>

section \<open>Tables keyed by identifier\<close>

definition keyed :: "('v \<Rightarrow> string) \<Rightarrow> 'v gomap \<Rightarrow> bool" where
  "keyed key m \<longleftrightarrow> (\<forall>k v. mget m k = Some v \<longrightarrow> key v = k)"

lemma keyed_mempty [simp, intro]: "keyed key mempty"
  by (simp add: keyed_def)

lemma keyed_mput [simp, intro]: "keyed key m \<Longrightarrow> key v = k \<Longrightarrow> keyed key (mput k v m)"
  by (auto simp: keyed_def mget_mput)

lemma keyedD: "keyed key m \<Longrightarrow> mget m k = Some v \<Longrightarrow> key v = k"
  by (simp add: keyed_def)

lemma keyed_inj: "keyed key m \<Longrightarrow> inj_on key (set (mvals m))"
  by (auto simp: keyed_def inj_on_def in_mvals_iff)

lemma keyed_distinct_vals:
  assumes "keyed key m"
  shows "distinct (mvals m)" and "distinct (map key (mvals m))"
proof -
  have "\<And>k v. (k, v) \<in> set (mentries m) \<Longrightarrow> key v = k"
    using assms by (auto simp: in_mentries_iff keyed_def)
  then have "map key (mvals m) = map fst (mentries m)"
    by (auto simp: mvals_def)
  then show "distinct (map key (mvals m))"
    by simp
  then show "distinct (mvals m)"
    by (simp add: distinct_map)
qed

section \<open>Lookup after create\<close>

locale entity_store =
  fixes create :: "'v \<Rightarrow> (error, MemoryStore, unit) prog"
    and get :: "string \<Rightarrow> (error, MemoryStore, 'v) prog"
    and tbl :: "MemoryStore \<Rightarrow> 'v gomap"
    and key :: "'v \<Rightarrow> string"
    and missing :: error
  assumes get_is_lookup: "get k s = (case mget (tbl s) k of None \<Rightarrow> Inl missing | Some v \<Rightarrow> Inr v, s)"
    and create_stores: "create v s = (Inr u, s') \<Longrightarrow> tbl s' = mput (key v) v (tbl s)"
    and create_fails_clean: "create v s = (Inl e, s') \<Longrightarrow> s' = s"
begin

lemma get_created: "create v s = (Inr u, s') \<Longrightarrow> get (key v) s' = (Inr v, s')"
  by (simp add: get_is_lookup create_stores)

lemma get_other: "create v s = (Inr u, s') \<Longrightarrow> k \<noteq> key v \<Longrightarrow> fst (get k s') = fst (get k s)"
  by (simp add: get_is_lookup create_stores)

lemma get_keeps_state: "snd (get k s) = s"
  by (simp add: get_is_lookup)

lemma create_keyed: "create v s = (r, s') \<Longrightarrow> keyed key (tbl s) \<Longrightarrow> keyed key (tbl s')"
  by (cases r) (auto simp: create_stores dest: create_fails_clean)

end

interpretation ms_Identity: entity_store MemoryStore_CreateIdentity MemoryStore_GetIdentity ms_identities idn_ID ErrIdentityNotFound
  by unfold_locales (auto simp: MemoryStore_CreateIdentity_def MemoryStore_GetIdentity_def split: option.splits if_splits sum.splits)

interpretation ms_Issuer: entity_store MemoryStore_CreateIssuer MemoryStore_GetIssuer ms_issuers iss_ID ErrIssuerNotFound
  by unfold_locales (auto simp: MemoryStore_CreateIssuer_def MemoryStore_GetIssuer_def split: option.splits if_splits sum.splits)

interpretation ms_OCSPResponder: entity_store MemoryStore_CreateOCSPResponder MemoryStore_GetOCSPResponder ms_ocspResponders rsp_ID ErrOCSPResponderNotFound
  by unfold_locales (auto simp: MemoryStore_CreateOCSPResponder_def MemoryStore_GetOCSPResponder_def split: option.splits if_splits sum.splits)

interpretation ms_NotificationEndpoint: entity_store MemoryStore_CreateNotificationEndpoint MemoryStore_GetNotificationEndpoint ms_notifications ep_ID ErrNotificationEndpointNotFound
  by unfold_locales (auto simp: MemoryStore_CreateNotificationEndpoint_def MemoryStore_GetNotificationEndpoint_def split: option.splits if_splits sum.splits)

interpretation ms_CertificateProfile: entity_store MemoryStore_CreateCertificateProfile MemoryStore_GetCertificateProfile ms_profiles prof_ID ErrCertificateProfileNotFound
  by unfold_locales (auto simp: MemoryStore_CreateCertificateProfile_def MemoryStore_GetCertificateProfile_def split: option.splits if_splits sum.splits)

interpretation ms_Enrollment: entity_store MemoryStore_CreateEnrollment MemoryStore_GetEnrollment ms_enrollments enr_ID ErrEnrollmentNotFound
  by unfold_locales (auto simp: MemoryStore_CreateEnrollment_def MemoryStore_GetEnrollment_def split: option.splits if_splits sum.splits)

interpretation ms_Certificate: entity_store MemoryStore_CreateCertificate MemoryStore_GetCertificate ms_certificates cert_ID ErrCertificateNotFound
  by unfold_locales (auto simp: MemoryStore_CreateCertificate_def MemoryStore_GetCertificate_def split: option.splits if_splits sum.splits)

interpretation ms_CRLPublication: entity_store MemoryStore_CreateCRLPublication MemoryStore_GetCRLPublication ms_crls crl_ID ErrCRLPublicationNotFound
  by unfold_locales (auto simp: MemoryStore_CreateCRLPublication_def MemoryStore_GetCRLPublication_def split: option.splits if_splits sum.splits)

interpretation ms_OutboxMessage: entity_store MemoryStore_CreateOutboxMessage MemoryStore_GetOutboxMessage ms_outbox msg_ID ErrOutboxMessageNotFound
  by unfold_locales (auto simp: MemoryStore_CreateOutboxMessage_def MemoryStore_GetOutboxMessage_def split: option.splits if_splits sum.splits)

interpretation ms_APIKey: entity_store MemoryStore_CreateAPIKey MemoryStore_GetAPIKey ms_apiKeys key_ID ErrAPIKeyNotFound
  by unfold_locales (auto simp: MemoryStore_CreateAPIKey_def MemoryStore_GetAPIKey_def split: option.splits if_splits sum.splits)

interpretation ms_ACMEAccount: entity_store MemoryStore_CreateACMEAccount MemoryStore_GetACMEAccount ms_acmeAccounts acc_ID ErrACMEAccountNotFound
  by unfold_locales (auto simp: MemoryStore_CreateACMEAccount_def MemoryStore_GetACMEAccount_def split: option.splits if_splits sum.splits)

interpretation ms_ACMEOrder: entity_store MemoryStore_CreateACMEOrder MemoryStore_GetACMEOrder ms_acmeOrders ord_ID ErrACMEOrderNotFound
  by unfold_locales (auto simp: MemoryStore_CreateACMEOrder_def MemoryStore_GetACMEOrder_def split: option.splits if_splits sum.splits)

interpretation ms_ACMEAuthorization: entity_store MemoryStore_CreateACMEAuthorization MemoryStore_GetACMEAuthorization ms_acmeAuthzs authz_ID ErrACMEAuthorizationNotFound
  by unfold_locales (auto simp: MemoryStore_CreateACMEAuthorization_def MemoryStore_GetACMEAuthorization_def split: option.splits if_splits sum.splits)

interpretation ms_ACMEChallenge: entity_store MemoryStore_CreateACMEChallenge MemoryStore_GetACMEChallenge ms_acmeChallenges chal_ID ErrACMEChallengeNotFound
  by unfold_locales (auto simp: MemoryStore_CreateACMEChallenge_def MemoryStore_GetACMEChallenge_def split: option.splits if_splits sum.splits)

interpretation tx_Identity: entity_store memoryTx_CreateIdentity memoryTx_GetIdentity ms_identities idn_ID ErrIdentityNotFound
  by unfold_locales (auto simp: memoryTx_CreateIdentity_def memoryTx_GetIdentity_def split: option.splits if_splits sum.splits)

interpretation tx_Issuer: entity_store memoryTx_CreateIssuer memoryTx_GetIssuer ms_issuers iss_ID ErrIssuerNotFound
  by unfold_locales (auto simp: memoryTx_CreateIssuer_def memoryTx_GetIssuer_def split: option.splits if_splits sum.splits)

interpretation tx_OCSPResponder: entity_store memoryTx_CreateOCSPResponder memoryTx_GetOCSPResponder ms_ocspResponders rsp_ID ErrOCSPResponderNotFound
  by unfold_locales (auto simp: memoryTx_CreateOCSPResponder_def memoryTx_GetOCSPResponder_def split: option.splits if_splits sum.splits)

interpretation tx_NotificationEndpoint: entity_store memoryTx_CreateNotificationEndpoint memoryTx_GetNotificationEndpoint ms_notifications ep_ID ErrNotificationEndpointNotFound
  by unfold_locales (auto simp: memoryTx_CreateNotificationEndpoint_def memoryTx_GetNotificationEndpoint_def split: option.splits if_splits sum.splits)

interpretation tx_CertificateProfile: entity_store memoryTx_CreateCertificateProfile memoryTx_GetCertificateProfile ms_profiles prof_ID ErrCertificateProfileNotFound
  by unfold_locales (auto simp: memoryTx_CreateCertificateProfile_def memoryTx_GetCertificateProfile_def split: option.splits if_splits sum.splits)

interpretation tx_Enrollment: entity_store memoryTx_CreateEnrollment memoryTx_GetEnrollment ms_enrollments enr_ID ErrEnrollmentNotFound
  by unfold_locales (auto simp: memoryTx_CreateEnrollment_def memoryTx_GetEnrollment_def split: option.splits if_splits sum.splits)

interpretation tx_Certificate: entity_store memoryTx_CreateCertificate memoryTx_GetCertificate ms_certificates cert_ID ErrCertificateNotFound
  by unfold_locales (auto simp: memoryTx_CreateCertificate_def memoryTx_GetCertificate_def split: option.splits if_splits sum.splits)

interpretation tx_CRLPublication: entity_store memoryTx_CreateCRLPublication memoryTx_GetCRLPublication ms_crls crl_ID ErrCRLPublicationNotFound
  by unfold_locales (auto simp: memoryTx_CreateCRLPublication_def memoryTx_GetCRLPublication_def split: option.splits if_splits sum.splits)

interpretation tx_OutboxMessage: entity_store memoryTx_CreateOutboxMessage memoryTx_GetOutboxMessage ms_outbox msg_ID ErrOutboxMessageNotFound
  by unfold_locales (auto simp: memoryTx_CreateOutboxMessage_def memoryTx_GetOutboxMessage_def split: option.splits if_splits sum.splits)

interpretation tx_APIKey: entity_store memoryTx_CreateAPIKey memoryTx_GetAPIKey ms_apiKeys key_ID ErrAPIKeyNotFound
  by unfold_locales (auto simp: memoryTx_CreateAPIKey_def memoryTx_GetAPIKey_def split: option.splits if_splits sum.splits)

interpretation tx_ACMEAccount: entity_store memoryTx_CreateACMEAccount memoryTx_GetACMEAccount ms_acmeAccounts acc_ID ErrACMEAccountNotFound
  by unfold_locales (auto simp: memoryTx_CreateACMEAccount_def memoryTx_GetACMEAccount_def split: option.splits if_splits sum.splits)

interpretation tx_ACMEOrder: entity_store memoryTx_CreateACMEOrder memoryTx_GetACMEOrder ms_acmeOrders ord_ID ErrACMEOrderNotFound
  by unfold_locales (auto simp: memoryTx_CreateACMEOrder_def memoryTx_GetACMEOrder_def split: option.splits if_splits sum.splits)

interpretation tx_ACMEAuthorization: entity_store memoryTx_CreateACMEAuthorization memoryTx_GetACMEAuthorization ms_acmeAuthzs authz_ID ErrACMEAuthorizationNotFound
  by unfold_locales (auto simp: memoryTx_CreateACMEAuthorization_def memoryTx_GetACMEAuthorization_def split: option.splits if_splits sum.splits)

interpretation tx_ACMEChallenge: entity_store memoryTx_CreateACMEChallenge memoryTx_GetACMEChallenge ms_acmeChallenges chal_ID ErrACMEChallengeNotFound
  by unfold_locales (auto simp: memoryTx_CreateACMEChallenge_def memoryTx_GetACMEChallenge_def split: option.splits if_splits sum.splits)

section \<open>Compare and set\<close>

text \<open>
  \<open>upd m v c\<close> stores \<open>v\<close> under its key when the stored value still has the version \<open>c\<close> stands for.
\<close>

locale guarded_table =
  fixes upd :: "'v gomap \<Rightarrow> 'v \<Rightarrow> 'c \<Rightarrow> 'v gomap result"
    and key :: "'v \<Rightarrow> string"
    and version :: "'v \<Rightarrow> 'ver"
    and expects :: "'c \<Rightarrow> 'ver"
    and missing :: error
  assumes upd_missing: "mget m (key v) = None \<Longrightarrow> upd m v c = Inl missing"
    and upd_stale: "mget m (key v) = Some v0 \<Longrightarrow> version v0 \<noteq> expects c \<Longrightarrow> upd m v c = Inl ErrInvalidTransition"
    and upd_stores: "upd m v c = Inr m' \<Longrightarrow> m' = mput (key v) v m"
begin

lemma upd_current:
  assumes "upd m v c = Inr m'"
  obtains v0 where "mget m (key v) = Some v0" "version v0 = expects c" "m' = mput (key v) v m"
proof (cases "mget m (key v)")
  case None
  then show ?thesis using upd_missing[OF None, of c] assms by simp
next
  case (Some v0)
  then show ?thesis
    using that upd_stale[OF Some, of c] upd_stores[OF assms] assms by fastforce
qed

lemma upd_D: "upd m v c = Inr m' \<Longrightarrow> (\<exists>v0. mget m (key v) = Some v0 \<and> version v0 = expects c) \<and> m' = mput (key v) v m"
  by (blast elim: upd_current)

lemma upd_frame: "upd m v c = Inr m' \<Longrightarrow> k \<noteq> key v \<Longrightarrow> mget m' k = mget m k"
  by (auto dest: upd_stores)

lemma upd_read_back: "upd m v c = Inr m' \<Longrightarrow> mget m' (key v) = Some v"
  by (auto dest: upd_stores)

text \<open>Of two writers that expect the same version, the second one is refused.\<close>

lemma upd_once:
  assumes "upd m v c = Inr m'" and "version v \<noteq> expects c"
    and "key v' = key v" and "expects c' = expects c"
  shows "upd m' v' c' = Inl ErrInvalidTransition"
proof (rule upd_stale)
  show "mget m' (key v') = Some v" using assms(1,3) upd_read_back by simp
  show "version v \<noteq> expects c'" using assms(2,4) by simp
qed

lemma upd_keyed: "upd m v c = Inr m' \<Longrightarrow> keyed key m \<Longrightarrow> keyed key m'"
  by (auto dest: upd_stores)

end

interpretation enrollment_table: guarded_table updateEnrollmentIfStatus enr_ID enr_Status "\<lambda>c. c" ErrEnrollmentNotFound
  by unfold_locales (auto simp: updateEnrollmentIfStatus_def split: option.splits if_splits)

interpretation certificate_table: guarded_table updateCertificateIfStatus cert_ID cert_Status "\<lambda>c. c" ErrCertificateNotFound
  by unfold_locales (auto simp: updateCertificateIfStatus_def split: option.splits if_splits)

interpretation attempt_table: guarded_table updateIssuanceAttemptIfCurrent att_EnrollmentID
    "\<lambda>a. (att_Status a, att_LeaseExpiresAt a, att_UpdatedAt a)"
    "\<lambda>a. (att_Status a, att_LeaseExpiresAt a, att_UpdatedAt a)" ErrIssuanceAttemptNotFound
  by unfold_locales (auto simp: updateIssuanceAttemptIfCurrent_def split: option.splits if_splits)

interpretation responder_table: guarded_table updateOCSPResponderIfStatus rsp_ID rsp_Status "\<lambda>c. c" ErrOCSPResponderNotFound
  by unfold_locales (auto simp: updateOCSPResponderIfStatus_def split: option.splits if_splits)

interpretation endpoint_table: guarded_table updateNotificationEndpointIfStatus ep_ID ep_Status "\<lambda>c. c" ErrNotificationEndpointNotFound
  by unfold_locales (auto simp: updateNotificationEndpointIfStatus_def split: option.splits if_splits)

interpretation message_table: guarded_table updateOutboxMessageStatusIfStatus msg_ID msg_Status "\<lambda>c. c" ErrOutboxMessageNotFound
  by unfold_locales (auto simp: updateOutboxMessageStatusIfStatus_def split: option.splits if_splits)

interpretation claim_table: guarded_table updateOutboxMessageIfCurrent msg_ID
    "\<lambda>a. (msg_Status a, msg_ProcessingDeadlineAt a, msg_UpdatedAt a)"
    "\<lambda>a. (msg_Status a, msg_ProcessingDeadlineAt a, msg_UpdatedAt a)" ErrOutboxMessageNotFound
  by unfold_locales (auto simp: updateOutboxMessageIfCurrent_def split: option.splits if_splits)

interpretation apikey_table: guarded_table updateAPIKeyIfStatus key_ID key_Status "\<lambda>c. c" ErrAPIKeyNotFound
  by unfold_locales (auto simp: updateAPIKeyIfStatus_def split: option.splits if_splits)

interpretation account_table: guarded_table updateACMEAccountIfStatus acc_ID acc_Status "\<lambda>c. c" ErrACMEAccountNotFound
  by unfold_locales (auto simp: updateACMEAccountIfStatus_def split: option.splits if_splits sum.splits)

interpretation order_table: guarded_table updateACMEOrderIfStatus ord_ID ord_Status "\<lambda>c. c" ErrACMEOrderNotFound
  by unfold_locales (auto simp: updateACMEOrderIfStatus_def split: option.splits if_splits)

interpretation authz_table: guarded_table updateACMEAuthorizationIfStatus authz_ID authz_Status "\<lambda>c. c" ErrACMEAuthorizationNotFound
  by unfold_locales (auto simp: updateACMEAuthorizationIfStatus_def split: option.splits if_splits)

interpretation challenge_table: guarded_table updateACMEChallengeIfStatus chal_ID chal_Status "\<lambda>c. c" ErrACMEChallengeNotFound
  by unfold_locales (auto simp: updateACMEChallengeIfStatus_def split: option.splits if_splits)

section \<open>Sorted listings\<close>

lemma createdThenID_key: "createdThenID cr ident a b \<longleftrightarrow> (cr a, ident a) < (cr b, ident b)"
  by (auto simp: createdThenID_def)

lemma notAfterThenID_key: "notAfterThenID a b \<longleftrightarrow> (cert_NotAfter a, cert_ID a) < (cert_NotAfter b, cert_ID b)"
  by (auto simp: notAfterThenID_def)

locale ordered_listing =
  fixes listing :: "'v gomap \<Rightarrow> 'v list"
    and keep :: "'v \<Rightarrow> bool"
    and lt :: "'v \<Rightarrow> 'v \<Rightarrow> bool"
    and sortkey :: "'v \<Rightarrow> 'k :: linorder"
    and ident :: "'v \<Rightarrow> string"
  assumes listing_eq: "listing m = sort_by lt (filter keep (mvals m))"
    and lt_key: "lt a b \<longleftrightarrow> sortkey a < sortkey b"
    and sortkey_ident: "sortkey a = sortkey b \<Longrightarrow> ident a = ident b"
begin

lemma listing_sorted: "sorted (map sortkey (listing m))"
  unfolding listing_eq by (rule sort_by_sorted) (rule lt_key)

lemma in_listing: "v \<in> set (listing m) \<longleftrightarrow> keep v \<and> (\<exists>k. mget m k = Some v)"
  by (auto simp: listing_eq in_mvals_iff)

lemma listing_distinct: "keyed ident m \<Longrightarrow> distinct (listing m)"
  unfolding listing_eq
  by (metis distinct_filter keyed_distinct_vals(1) mset_eq_imp_distinct_iff mset_sort_by)

text \<open>The iteration order of the map does not show in the result.\<close>

lemma listing_order_independent:
  assumes "keyed ident m" and "mget m = mget m'"
  shows "listing m = listing m'"
  unfolding listing_eq
proof (rule sort_by_permutation)
  show "mset (filter keep (mvals m)) = mset (filter keep (mvals m'))"
    using mset_mvals_eq[OF assms(2)] by (metis mset_filter)
  show "inj_on sortkey (set (filter keep (mvals m)))"
  proof (rule inj_onI)
    fix x y
    assume xy: "x \<in> set (filter keep (mvals m))" "y \<in> set (filter keep (mvals m))" "sortkey x = sortkey y"
    then have "ident x = ident y" by (intro sortkey_ident)
    then show "x = y" using keyed_inj[OF assms(1)] xy(1,2) by (auto dest: inj_onD)
  qed
qed (rule lt_key)

end

interpretation list_responders: ordered_listing "\<lambda>m. listOCSPRespondersByIssuer m issuerID"
    "\<lambda>r. rsp_IssuerID r = issuerID" "createdThenID rsp_CreatedAt rsp_ID" "\<lambda>r. (rsp_CreatedAt r, rsp_ID r)" rsp_ID
  for issuerID
  by unfold_locales (auto simp: listOCSPRespondersByIssuer_def createdThenID_key)

interpretation list_endpoints: ordered_listing listNotificationEndpoints
    "\<lambda>_. True" "createdThenID ep_CreatedAt ep_ID" "\<lambda>r. (ep_CreatedAt r, ep_ID r)" ep_ID
  by unfold_locales (auto simp: listNotificationEndpoints_def createdThenID_key)

interpretation list_messages: ordered_listing "\<lambda>m. listOutboxMessages m status"
    "\<lambda>x. \<not> (str_OutboxMessageStatus status \<noteq> [] \<and> msg_Status x \<noteq> status)"
    "createdThenID msg_CreatedAt msg_ID" "\<lambda>r. (msg_CreatedAt r, msg_ID r)" msg_ID
  for status
  by unfold_locales (auto simp: listOutboxMessages_def createdThenID_key)

interpretation list_job_attempts: ordered_listing "\<lambda>m. listJobAttemptsByOutboxMessage m i"
    "\<lambda>r. job_OutboxMessageID r = i" "createdThenID job_CreatedAt job_ID" "\<lambda>r. (job_CreatedAt r, job_ID r)" job_ID
  for i
  by unfold_locales (auto simp: listJobAttemptsByOutboxMessage_def createdThenID_key)

interpretation list_api_keys: ordered_listing listAPIKeys
    "\<lambda>_. True" "createdThenID key_CreatedAt key_ID" "\<lambda>r. (key_CreatedAt r, key_ID r)" key_ID
  by unfold_locales (auto simp: listAPIKeys_def createdThenID_key)

interpretation list_accounts: ordered_listing listACMEAccounts
    "\<lambda>_. True" "createdThenID acc_CreatedAt acc_ID" "\<lambda>r. (acc_CreatedAt r, acc_ID r)" acc_ID
  by unfold_locales (auto simp: listACMEAccounts_def createdThenID_key)

interpretation list_orders: ordered_listing "\<lambda>m. listACMEOrdersByAccount m i"
    "\<lambda>r. ord_AccountID r = i" "createdThenID ord_CreatedAt ord_ID" "\<lambda>r. (ord_CreatedAt r, ord_ID r)" ord_ID
  for i
  by unfold_locales (auto simp: listACMEOrdersByAccount_def createdThenID_key)

interpretation list_authzs: ordered_listing "\<lambda>m. listACMEAuthorizationsByOrder m i"
    "\<lambda>r. authz_OrderID r = i" "createdThenID authz_CreatedAt authz_ID" "\<lambda>r. (authz_CreatedAt r, authz_ID r)" authz_ID
  for i
  by unfold_locales (auto simp: listACMEAuthorizationsByOrder_def createdThenID_key)

interpretation list_challenges: ordered_listing "\<lambda>m. listACMEChallengesByAuthorization m i"
    "\<lambda>r. chal_AuthorizationID r = i" "createdThenID chal_CreatedAt chal_ID" "\<lambda>r. (chal_CreatedAt r, chal_ID r)" chal_ID
  for i
  by unfold_locales (auto simp: listACMEChallengesByAuthorization_def createdThenID_key)

text \<open>The limited listings: a prefix of a sorted listing.\<close>

lemma take_limit: "(if int (length xs) > limit then take (nat limit) xs else xs) = take (nat limit) xs"
  by auto

abbreviation dueLess :: "OutboxMessage \<Rightarrow> OutboxMessage \<Rightarrow> bool" where
  "dueLess \<equiv> (\<lambda>a b. let left = outboxMessageDueAt a; right = outboxMessageDueAt b in
     if left \<noteq> right then left < right
     else if msg_CreatedAt a \<noteq> msg_CreatedAt b then msg_CreatedAt a < msg_CreatedAt b
     else msg_ID a < msg_ID b)"

interpretation list_due: ordered_listing "\<lambda>m. sort_by dueLess (filter (\<lambda>x. outboxMessageDue x now) (mvals m))"
    "\<lambda>x. outboxMessageDue x now" dueLess "\<lambda>x. (outboxMessageDueAt x, msg_CreatedAt x, msg_ID x)" msg_ID
  for now
  by unfold_locales (auto simp: Let_def)

interpretation list_scan: ordered_listing
    "\<lambda>m. sort_by notAfterThenID (filter (\<lambda>c. certificateNeedsExpirationScan c now warningBefore) (mvals m))"
    "\<lambda>c. certificateNeedsExpirationScan c now warningBefore" notAfterThenID "\<lambda>c. (cert_NotAfter c, cert_ID c)" cert_ID
  for now warningBefore
  by unfold_locales (auto simp: notAfterThenID_key)

lemma listDueOutboxMessages_take:
  "listDueOutboxMessages m now limit =
     take (nat limit) (sort_by dueLess (filter (\<lambda>x. outboxMessageDue x now) (mvals m)))"
  by (simp add: listDueOutboxMessages_def Let_def)

lemma listCertificatesForExpirationScan_take:
  "listCertificatesForExpirationScan m now wb limit =
     take (nat limit) (sort_by notAfterThenID (filter (\<lambda>c. certificateNeedsExpirationScan c now wb) (mvals m)))"
  by (simp add: listCertificatesForExpirationScan_def Let_def)

section \<open>Selection loops\<close>

lemma pickBest_Some: "\<exists>y. pickBest better xs (Some b) = Some y"
  by (induction xs arbitrary: b) auto

lemma pickBest_None_iff [simp]: "pickBest better xs None = None \<longleftrightarrow> xs = []"
  using pickBest_Some[of better "tl xs" "hd xs"] by (cases xs) auto

lemma pickBest_mem: "pickBest better xs best = Some b \<Longrightarrow> b \<in> set xs \<or> best = Some b"
  by (induction xs arbitrary: best) (fastforce split: option.splits if_splits)+

text \<open>When \<open>better\<close> compares a key, the result has the largest key of the list.\<close>

lemma pickBest_max:
  assumes "\<And>a b. better a b \<longleftrightarrow> key a > (key b :: 'k :: linorder)"
    and "pickBest better xs best = Some b"
  shows "(\<forall>x \<in> set xs. key x \<le> key b) \<and> (\<forall>a. best = Some a \<longrightarrow> key a \<le> key b)"
  using assms(2)
proof (induction xs arbitrary: best)
  case (Cons x xs)
  let ?best = "case best of None \<Rightarrow> Some x | Some b \<Rightarrow> if better x b then Some x else Some b"
  have "\<forall>y \<in> set xs. key y \<le> key b" and b: "\<forall>a. ?best = Some a \<longrightarrow> key a \<le> key b"
    using Cons.IH[of ?best] Cons.prems by simp_all
  then show ?case
    by (cases best) (auto simp: assms(1) not_less split: if_splits intro: order.trans less_imp_le)
qed simp

lemma activeOCSPResponder_Inr:
  assumes "activeOCSPResponderByIssuer m issuerID = Inr r"
  shows "(\<exists>k. mget m k = Some r) \<and> rsp_IssuerID r = issuerID \<and> rsp_Status r = OCSPResponderActive"
proof -
  have "r \<in> set (filter (\<lambda>x. \<not> (rsp_IssuerID x \<noteq> issuerID \<or> rsp_Status x \<noteq> OCSPResponderActive)) (mvals m))"
    using assms pickBest_mem by (fastforce simp: activeOCSPResponderByIssuer_def split: option.splits)
  then show ?thesis by (auto simp: in_mvals_iff)
qed

lemma activeOCSPResponder_Inl:
  "activeOCSPResponderByIssuer m issuerID = Inl e \<longleftrightarrow>
     e = ErrOCSPResponderNotFound \<and>
     (\<forall>k r. mget m k = Some r \<longrightarrow> \<not> (rsp_IssuerID r = issuerID \<and> rsp_Status r = OCSPResponderActive))"
proof -
  have "pickBest b (filter (\<lambda>x. \<not> (rsp_IssuerID x \<noteq> issuerID \<or> rsp_Status x \<noteq> OCSPResponderActive)) (mvals m)) None = None \<longleftrightarrow>
      (\<forall>k r. mget m k = Some r \<longrightarrow> \<not> (rsp_IssuerID r = issuerID \<and> rsp_Status r = OCSPResponderActive))" for b
    by (auto simp: filter_empty_conv in_mvals_iff)
  then show ?thesis
    unfolding activeOCSPResponderByIssuer_def by (auto split: option.split)
qed

end
