(* ===== verification/Netip.thy ===== *)
theory Netip
  imports Domain "HOL-Library.Word"
begin

unbundle bit_operations_syntax

text \<open>
  IP addresses: the parts of Go's \<^verbatim>\<open>net/netip\<close> the service relies on (parsing of addresses and
  prefixes, containment, the address classes), at their widths of 32 and 128 bits, and the guard of
  \<^verbatim>\<open>internal/lifecycle/service.go\<close> that keeps HTTP-01 validation and webhooks away from internal
  addresses (\<^verbatim>\<open>acmeHTTP01SafeIP\<close>, \<^verbatim>\<open>validateACMEHTTP01Host\<close>, \<^verbatim>\<open>acmeHTTP01DialTargets\<close>).
\<close>

section \<open>Addresses\<close>

text \<open>\<open>AddrInvalid\<close> is the zero \<^verbatim>\<open>netip.Addr\<close>; the second component of an IPv6 address is its zone.\<close>

datatype Addr = AddrInvalid | V4 "32 word" | V6 "128 word" string

datatype Prefix = Prefix Addr nat

fun IsValid :: "Addr \<Rightarrow> bool" where
  "IsValid AddrInvalid \<longleftrightarrow> False"
| "IsValid _ \<longleftrightarrow> True"

fun BitLen :: "Addr \<Rightarrow> nat" where
  "BitLen AddrInvalid = 0"
| "BitLen (V4 _) = 32"
| "BitLen (V6 _ _) = 128"

fun hasZone :: "Addr \<Rightarrow> bool" where
  "hasZone (V6 _ z) \<longleftrightarrow> z \<noteq> []"
| "hasZone _ \<longleftrightarrow> False"

definition is4in6 :: "128 word \<Rightarrow> bool" where
  "is4in6 v \<longleftrightarrow> drop_bit 32 v = 0xffff"

fun Unmap :: "Addr \<Rightarrow> Addr" where
  "Unmap (V6 v z) = (if is4in6 v then V4 (ucast v) else V6 v z)"
| "Unmap a = a"

text \<open>The address classes; an IPv4-mapped IPv6 address is classified as the IPv4 address.\<close>

definition IsLoopback :: "Addr \<Rightarrow> bool" where
  "IsLoopback a = (case Unmap a of
      AddrInvalid \<Rightarrow> False
    | V4 v \<Rightarrow> drop_bit 24 v = 127
    | V6 v _ \<Rightarrow> v = 1)"

definition IsPrivate :: "Addr \<Rightarrow> bool" where
  "IsPrivate a = (case Unmap a of
      AddrInvalid \<Rightarrow> False
    | V4 v \<Rightarrow> drop_bit 24 v = 10 \<or> drop_bit 20 v = 0xac1 \<or> drop_bit 16 v = 0xc0a8
    | V6 v _ \<Rightarrow> drop_bit 121 v = 0x7e)"

definition IsLinkLocalUnicast :: "Addr \<Rightarrow> bool" where
  "IsLinkLocalUnicast a = (case Unmap a of
      AddrInvalid \<Rightarrow> False
    | V4 v \<Rightarrow> drop_bit 16 v = 0xa9fe
    | V6 v _ \<Rightarrow> drop_bit 118 v = 0x3fa)"

definition IsLinkLocalMulticast :: "Addr \<Rightarrow> bool" where
  "IsLinkLocalMulticast a = (case Unmap a of
      AddrInvalid \<Rightarrow> False
    | V4 v \<Rightarrow> drop_bit 8 v = 0xe00000
    | V6 v _ \<Rightarrow> drop_bit 112 v AND 0xff0f = 0xff02)"

definition IsMulticast :: "Addr \<Rightarrow> bool" where
  "IsMulticast a = (case Unmap a of
      AddrInvalid \<Rightarrow> False
    | V4 v \<Rightarrow> drop_bit 28 v = 0xe
    | V6 v _ \<Rightarrow> drop_bit 120 v = 0xff)"

definition IsUnspecified :: "Addr \<Rightarrow> bool" where
  "IsUnspecified a \<longleftrightarrow> a = V4 0 \<or> a = V6 0 []"

text \<open>\<^verbatim>\<open>Prefix.Contains\<close>: no zone, same family, equal leading bits.\<close>

fun prefixContains :: "Prefix \<Rightarrow> Addr \<Rightarrow> bool" where
  "prefixContains (Prefix (V4 p) bits) (V4 a) \<longleftrightarrow> drop_bit (32 - bits) (p XOR a) = 0"
| "prefixContains (Prefix (V6 p _) bits) (V6 a z) \<longleftrightarrow> z = [] \<and> drop_bit (128 - bits) (p XOR a) = 0"
| "prefixContains _ _ \<longleftrightarrow> False"

section \<open>Parsing\<close>

definition isDigit :: "char \<Rightarrow> bool" where
  "isDigit c \<longleftrightarrow> CHR ''0'' \<le> c \<and> c \<le> CHR ''9''"

definition digitVal :: "char \<Rightarrow> nat" where
  "digitVal c = of_char c - 48"

definition decimal :: "string \<Rightarrow> nat" where
  "decimal s = foldl (\<lambda>acc c. acc * 10 + digitVal c) 0 s"

text \<open>One octet: digits only, no leading zero, at most 255.\<close>

definition parseOctet :: "string \<Rightarrow> nat option" where
  "parseOctet s =
     (if s \<noteq> [] \<and> length s \<le> 3 \<and> list_all isDigit s \<and> (length s = 1 \<or> hd s \<noteq> CHR ''0'') \<and> decimal s \<le> 255
      then Some (decimal s) else None)"

definition parseIPv4Fields :: "string \<Rightarrow> (nat \<times> nat \<times> nat \<times> nat) option" where
  "parseIPv4Fields s =
     (case map parseOctet (Split s CHR ''.'') of
        [Some a, Some b, Some c, Some d] \<Rightarrow> Some (a, b, c, d)
      | _ \<Rightarrow> None)"

definition parseIPv4 :: "string \<Rightarrow> Addr option" where
  "parseIPv4 s = map_option (\<lambda>(a, b, c, d). V4 (((of_nat a * 256 + of_nat b) * 256 + of_nat c) * 256 + of_nat d)) (parseIPv4Fields s)"

definition hexVal :: "char \<Rightarrow> nat option" where
  "hexVal c =
     (if CHR ''0'' \<le> c \<and> c \<le> CHR ''9'' then Some (of_char c - 48)
      else if CHR ''a'' \<le> c \<and> c \<le> CHR ''f'' then Some (of_char c - 87)
      else if CHR ''A'' \<le> c \<and> c \<le> CHR ''F'' then Some (of_char c - 55)
      else None)"

definition hexNum :: "string \<Rightarrow> nat" where
  "hexNum s = foldl (\<lambda>acc c. acc * 16 + (case hexVal c of None \<Rightarrow> 0 | Some d \<Rightarrow> d)) 0 s"

text \<open>
  The loop of \<^verbatim>\<open>parseIPv6\<close>: the 16-bit groups read so far, the position of the ellipsis and the rest of
  the text. It stops after eight groups, at the end of the text or with an error.
\<close>

function parseIPv6Loop :: "string \<Rightarrow> nat list \<Rightarrow> nat option \<Rightarrow> (nat list \<times> nat option \<times> string) option" where
  "parseIPv6Loop s groups ell =
     (if length groups \<ge> 8 then Some (groups, ell, s)
      else
        let digits = takeWhile (\<lambda>c. hexVal c \<noteq> None) s; rest = drop (length digits) s; groups' = groups @ [hexNum digits] in
        if digits = [] \<or> length digits > 4 then None
        else if rest \<noteq> [] \<and> hd rest = CHR ''.'' then
          (if ell = None \<and> length groups \<noteq> 6 \<or> length groups > 6 then None
           else map_option (\<lambda>(a, b, c, d). (groups @ [a * 256 + b, c * 256 + d], ell, [])) (parseIPv4Fields s))
        else if rest = [] then Some (groups', ell, [])
        else if hd rest \<noteq> CHR '':'' \<or> length rest = 1 then None
        else if hd (tl rest) = CHR '':'' then
          (if ell \<noteq> None then None
           else if tl (tl rest) = [] then Some (groups', Some (length groups'), [])
           else parseIPv6Loop (tl (tl rest)) groups' (Some (length groups')))
        else parseIPv6Loop (tl rest) groups' ell)"
  by pat_completeness auto
termination
proof (relation "measure (length \<circ> fst)", goal_cases)
  case (2 s groups ell digits rest groups')
  then have "length rest < length s"
    by (metis drop_eq_Nil diff_less length_drop length_greater_0_conv not_le_imp_less takeWhile_eq_Nil_iff)
  then show ?case by simp
next
  case (3 s groups ell digits rest groups')
  then have "length rest < length s"
    by (metis drop_eq_Nil diff_less length_drop length_greater_0_conv not_le_imp_less takeWhile_eq_Nil_iff)
  then show ?case by simp
qed simp

declare parseIPv6Loop.simps [simp del]

definition groupsToWord :: "nat list \<Rightarrow> 128 word" where
  "groupsToWord groups = foldl (\<lambda>acc g. acc * 65536 + of_nat g) 0 groups"

definition parseIPv6 :: "string \<Rightarrow> Addr option" where
  "parseIPv6 text =
     (case Cut text CHR ''%'' of (s, zone, hasPercent) \<Rightarrow>
      if hasPercent \<and> zone = [] then None
      else if s = ''::'' then Some (V6 0 zone)
      else
        let leading = HasPrefix s ''::'' in
        case parseIPv6Loop (if leading then drop 2 s else s) [] (if leading then Some 0 else None) of
          None \<Rightarrow> None
        | Some (groups, ell, rest) \<Rightarrow>
            if rest \<noteq> [] then None
            else if length groups < 8 then
              (case ell of
                 None \<Rightarrow> None
               | Some e \<Rightarrow> Some (V6 (groupsToWord (take e groups @ replicate (8 - length groups) 0 @ drop e groups)) zone))
            else if ell \<noteq> None then None
            else Some (V6 (groupsToWord groups) zone))"

text \<open>\<^verbatim>\<open>netip.ParseAddr\<close>: the first of \<open>.\<close>, \<open>:\<close> and \<open>%\<close> decides the format.\<close>

definition ParseAddr :: "string \<Rightarrow> Addr option" where
  "ParseAddr s =
     (case dropWhile (\<lambda>c. c \<noteq> CHR ''.'' \<and> c \<noteq> CHR '':'' \<and> c \<noteq> CHR ''%'') s of
        [] \<Rightarrow> None
      | c # _ \<Rightarrow> if c = CHR ''.'' then parseIPv4 s else if c = CHR '':'' then parseIPv6 s else None)"

text \<open>\<^verbatim>\<open>netip.ParsePrefix\<close>: an address without zone, the last slash, a decimal length that fits.\<close>

definition ParsePrefix :: "string \<Rightarrow> Prefix option" where
  "ParsePrefix s =
     (if CHR ''/'' \<notin> set s then None
      else
        let bitsText = rev (takeWhile (\<lambda>c. c \<noteq> CHR ''/'') (rev s));
            ipText = take (length s - length bitsText - 1) s in
        case ParseAddr ipText of
          None \<Rightarrow> None
        | Some ip \<Rightarrow>
            if hasZone ip \<or> bitsText = [] \<or> length bitsText > 3 \<or> \<not> list_all isDigit bitsText \<or>
               (length bitsText > 1 \<and> hd bitsText = CHR ''0'') \<or> decimal bitsText > BitLen ip
            then None else Some (Prefix ip (decimal bitsText)))"

section \<open>The address guard\<close>

definition acmeHTTP01BlockedSpecialPrefixes :: "Prefix list" where
  "acmeHTTP01BlockedSpecialPrefixes =
     [Prefix (V4 0x64400000) 10,   \<comment> \<open>100.64.0.0/10\<close>
      Prefix (V4 0xC0000000) 24,   \<comment> \<open>192.0.0.0/24\<close>
      Prefix (V4 0xC0000200) 24,   \<comment> \<open>192.0.2.0/24\<close>
      Prefix (V4 0xC6120000) 15,   \<comment> \<open>198.18.0.0/15\<close>
      Prefix (V4 0xC6336400) 24,   \<comment> \<open>198.51.100.0/24\<close>
      Prefix (V4 0xCB007100) 24,   \<comment> \<open>203.0.113.0/24\<close>
      Prefix (V6 0x20010DB8000000000000000000000000 []) 32]  \<comment> \<open>2001:db8::/32\<close>"

definition acmeHTTP01BlockedSpecialIP :: "Addr \<Rightarrow> bool" where
  "acmeHTTP01BlockedSpecialIP addr \<longleftrightarrow>
     list_ex (\<lambda>p. prefixContains p addr) acmeHTTP01BlockedSpecialPrefixes \<or>
     addr = V4 0xA9FEA9FE \<or> addr = V4 0x646464C8"

definition acmeHTTP01SafeIP :: "Addr \<Rightarrow> bool" where
  "acmeHTTP01SafeIP addr0 =
     (if \<not> IsValid addr0 then False
      else
        let addr = Unmap addr0 in
        if acmeHTTP01BlockedSpecialIP addr then False
        else \<not> IsLoopback addr \<and> \<not> IsPrivate addr \<and> \<not> IsLinkLocalUnicast addr \<and>
             \<not> IsLinkLocalMulticast addr \<and> \<not> IsMulticast addr \<and> \<not> IsUnspecified addr)"

definition acmeHTTP01AllowedScheme :: "string \<Rightarrow> bool" where
  "acmeHTTP01AllowedScheme scheme \<longleftrightarrow> scheme = ''http'' \<or> scheme = ''https''"

definition validateACMEHTTP01Host :: "string \<Rightarrow> unit result" where
  "validateACMEHTTP01Host host0 =
     (let host = TrimSpace (ToLower host0) in
      if host = [] \<or> host = ''localhost'' \<or> HasSuffix host ''.localhost'' then Inl ErrInvalidRequest
      else case ParseAddr host of
          Some addr \<Rightarrow> if \<not> acmeHTTP01SafeIP (Unmap addr) then Inl ErrInvalidRequest else Inr ()
        | None \<Rightarrow> Inr ())"

text \<open>\<^verbatim>\<open>netip.AddrFromSlice\<close>: four or sixteen bytes, never a zone.\<close>

definition AddrFromSlice :: "8 word list \<Rightarrow> Addr option" where
  "AddrFromSlice bs =
     (if length bs = 4 then Some (V4 (foldl (\<lambda>acc b. acc * 256 + ucast b) 0 bs))
      else if length bs = 16 then Some (V6 (foldl (\<lambda>acc b. acc * 256 + ucast b) 0 bs) [])
      else None)"

text \<open>
  The addresses a connection may be made to: those of the resolver's answers that
  \<^verbatim>\<open>AddrFromSlice\<close> accepts and that pass the guard. \<open>joinHostPort\<close> renders an address and a port.
\<close>

fun safeTargets :: "(Addr \<Rightarrow> string \<Rightarrow> string) \<Rightarrow> string \<Rightarrow> 8 word list list \<Rightarrow> string list" where
  "safeTargets joinHostPort port [] = []"
| "safeTargets joinHostPort port (ip # ips) =
     (case AddrFromSlice ip of
        None \<Rightarrow> safeTargets joinHostPort port ips
      | Some addr \<Rightarrow>
          if \<not> acmeHTTP01SafeIP (Unmap addr) then safeTargets joinHostPort port ips
          else joinHostPort (Unmap addr) port # safeTargets joinHostPort port ips)"

definition acmeHTTP01DialTargets ::
  "(Addr \<Rightarrow> string \<Rightarrow> string) \<Rightarrow> string \<Rightarrow> string \<Rightarrow> (string \<Rightarrow> 8 word list list result) \<Rightarrow> string list result" where
  "acmeHTTP01DialTargets joinHostPort host port lookup =
     (case validateACMEHTTP01Host host of
        Inl err \<Rightarrow> Inl err
      | Inr _ \<Rightarrow>
          (case lookup host of
             Inl err \<Rightarrow> Inl err
           | Inr ips \<Rightarrow>
               let targets = safeTargets joinHostPort port ips in
               if length targets = 0 then Inl ErrInvalidRequest else Inr targets))"

text \<open>
  The guarded client: the dialer tries the targets in order and keeps the last error; a redirect is
  followed at most ten times and only to a URL that passes the same checks. \<^verbatim>\<open>u.Hostname()\<close> is the
  standard library's and is a component of the URL here.
\<close>

record URL =
  url_Scheme :: string
  url_Host :: string
  url_Hostname :: string
  url_HasUser :: bool
  url_Path :: string

fun dialLoop :: "(string \<Rightarrow> 'c result) \<Rightarrow> string list \<Rightarrow> error option \<Rightarrow> 'c result" where
  "dialLoop dial [] lastErr = (case lastErr of Some err \<Rightarrow> Inl err | None \<Rightarrow> Inl ErrInvalidRequest)"
| "dialLoop dial (target # targets) lastErr =
     (case dial target of Inr conn \<Rightarrow> Inr conn | Inl err \<Rightarrow> dialLoop dial targets (Some err))"

definition guardedDialContext ::
  "(Addr \<Rightarrow> string \<Rightarrow> string) \<Rightarrow> (string \<Rightarrow> (string \<times> string) option) \<Rightarrow> (string \<Rightarrow> 8 word list list result) \<Rightarrow>
   (string \<Rightarrow> 'c result) \<Rightarrow> string \<Rightarrow> 'c result" where
  "guardedDialContext joinHostPort splitHostPort lookup dial address =
     (case splitHostPort address of
        None \<Rightarrow> Inl ErrInvalidRequest
      | Some (host, port) \<Rightarrow>
          (case acmeHTTP01DialTargets joinHostPort host port lookup of
             Inl err \<Rightarrow> Inl err
           | Inr targets \<Rightarrow> dialLoop dial targets None))"

definition validateACMEHTTP01FetchURL :: "URL option \<Rightarrow> unit result" where
  "validateACMEHTTP01FetchURL fetchURL =
     (case fetchURL of
        None \<Rightarrow> Inl ErrInvalidRequest
      | Some u \<Rightarrow>
          if \<not> acmeHTTP01AllowedScheme (url_Scheme u) \<or> url_Host u = [] \<or> url_HasUser u then Inl ErrInvalidRequest
          else validateACMEHTTP01Host (url_Hostname u))"

definition acmeHTTP01RedirectLimit :: nat where
  "acmeHTTP01RedirectLimit = 10"

definition guardedCheckRedirect :: "URL \<Rightarrow> nat \<Rightarrow> unit result" where
  "guardedCheckRedirect u via =
     (if via \<ge> acmeHTTP01RedirectLimit then Inl ErrInvalidRequest
      else validateACMEHTTP01FetchURL (Some u))"

section \<open>What the guard lets through\<close>

lemma xor_eq_0: "(a :: 'a :: len word) XOR b = 0 \<longleftrightarrow> a = b"
  by (metis xor.assoc xor.left_neutral xor_self_eq)

lemma prefixContains_V4: "prefixContains (Prefix (V4 p) n) (V4 a) \<longleftrightarrow> drop_bit (32 - n) a = drop_bit (32 - n) p"
  by (auto simp: xor_eq_0)

lemma prefixContains_V6: "prefixContains (Prefix (V6 p z) n) (V6 a z') \<longleftrightarrow> z' = [] \<and> drop_bit (128 - n) a = drop_bit (128 - n) p"
  by (auto simp: xor_eq_0)

text \<open>The address blocks no outgoing validation or webhook request may reach.\<close>

definition internalV4 :: "Prefix list" where
  "internalV4 =
     [Prefix (V4 0) 32,            \<comment> \<open>0.0.0.0\<close>
      Prefix (V4 0x0A000000) 8,    \<comment> \<open>10.0.0.0/8\<close>
      Prefix (V4 0x64400000) 10,   \<comment> \<open>100.64.0.0/10\<close>
      Prefix (V4 0x7F000000) 8,    \<comment> \<open>127.0.0.0/8\<close>
      Prefix (V4 0xA9FE0000) 16,   \<comment> \<open>169.254.0.0/16\<close>
      Prefix (V4 0xAC100000) 12,   \<comment> \<open>172.16.0.0/12\<close>
      Prefix (V4 0xC0000000) 24,   \<comment> \<open>192.0.0.0/24\<close>
      Prefix (V4 0xC0000200) 24,   \<comment> \<open>192.0.2.0/24\<close>
      Prefix (V4 0xC0A80000) 16,   \<comment> \<open>192.168.0.0/16\<close>
      Prefix (V4 0xC6120000) 15,   \<comment> \<open>198.18.0.0/15\<close>
      Prefix (V4 0xC6336400) 24,   \<comment> \<open>198.51.100.0/24\<close>
      Prefix (V4 0xCB007100) 24,   \<comment> \<open>203.0.113.0/24\<close>
      Prefix (V4 0xE0000000) 4]    \<comment> \<open>224.0.0.0/4\<close>"

definition internalV6 :: "Prefix list" where
  "internalV6 =
     [Prefix (V6 0 []) 128,                                  \<comment> \<open>::\<close>
      Prefix (V6 1 []) 128,                                  \<comment> \<open>::1\<close>
      Prefix (V6 0x20010DB8000000000000000000000000 []) 32,  \<comment> \<open>2001:db8::/32\<close>
      Prefix (V6 0xFC000000000000000000000000000000 []) 7,   \<comment> \<open>fc00::/7\<close>
      Prefix (V6 0xFE800000000000000000000000000000 []) 10,  \<comment> \<open>fe80::/10\<close>
      Prefix (V6 0xFF000000000000000000000000000000 []) 8]   \<comment> \<open>ff00::/8\<close>"

text \<open>An address that lies in none of them, once an IPv4-mapped address is read as IPv4.\<close>

definition externalAddr :: "Addr \<Rightarrow> bool" where
  "externalAddr a \<longleftrightarrow> IsValid a \<and> \<not> list_ex (\<lambda>p. prefixContains p (Unmap a)) (internalV4 @ internalV6)"

lemma acmeHTTP01SafeIP_V4:
  "acmeHTTP01SafeIP (V4 v) \<longleftrightarrow> (\<forall>p \<in> set internalV4. \<not> prefixContains p (V4 v))"
proof -
  have mc: "drop_bit 28 v = 0xe" if "drop_bit 8 v = 0xe00000"
  proof -
    have "drop_bit 28 v = drop_bit 20 (drop_bit 8 v)" by simp
    then show ?thesis by (simp add: that)
  qed
  have md: "v = 0xA9FEA9FE \<Longrightarrow> drop_bit 16 v = 0xa9fe" by simp
  have al: "v = 0x646464C8 \<Longrightarrow> drop_bit 22 v = drop_bit 22 (0x64400000 :: 32 word)" by simp
  have "acmeHTTP01SafeIP (V4 v) \<longleftrightarrow> \<not> acmeHTTP01BlockedSpecialIP (V4 v) \<and> drop_bit 24 v \<noteq> 127 \<and>
      drop_bit 24 v \<noteq> 10 \<and> drop_bit 20 v \<noteq> 0xac1 \<and> drop_bit 16 v \<noteq> 0xc0a8 \<and>
      drop_bit 16 v \<noteq> 0xa9fe \<and> drop_bit 28 v \<noteq> 0xe \<and> v \<noteq> 0"
    using mc by (auto simp: acmeHTTP01SafeIP_def IsLoopback_def IsPrivate_def IsLinkLocalUnicast_def
        IsLinkLocalMulticast_def IsMulticast_def IsUnspecified_def)
  then show ?thesis using md al
    by (auto simp: internalV4_def acmeHTTP01BlockedSpecialIP_def acmeHTTP01BlockedSpecialPrefixes_def
        prefixContains_V4 simp del: prefixContains.simps(1))
qed

lemma linkLocalMulticast_V6:
  assumes "drop_bit 112 (v :: 128 word) AND 0xff0f = 0xff02"
  shows "drop_bit 120 v = 0xff"
proof -
  have "drop_bit 8 (drop_bit 112 v AND 0xff0f) = drop_bit 8 (0xff02 :: 128 word)"
    using assms by simp
  then have low: "drop_bit 120 v AND 0xff = 0xff"
    by simp
  have "drop_bit 120 v AND mask 8 = drop_bit 120 v"
    by (rule bit_word_eqI) (auto simp: bit_simps dest: bit_imp_le_length)
  then show ?thesis
    using low by (simp add: mask_eq_exp_minus_1)
qed

lemma acmeHTTP01SafeIP_V6:
  assumes "\<not> is4in6 v"
  shows "acmeHTTP01SafeIP (V6 v []) \<longleftrightarrow> (\<forall>p \<in> set internalV6. \<not> prefixContains p (V6 v []))"
proof -
  have "acmeHTTP01SafeIP (V6 v []) \<longleftrightarrow> \<not> acmeHTTP01BlockedSpecialIP (V6 v []) \<and> v \<noteq> 1 \<and>
      drop_bit 121 v \<noteq> 0x7e \<and> drop_bit 118 v \<noteq> 0x3fa \<and> drop_bit 120 v \<noteq> 0xff \<and> v \<noteq> 0"
    using linkLocalMulticast_V6[of v] assms
    by (auto simp: acmeHTTP01SafeIP_def IsLoopback_def IsPrivate_def IsLinkLocalUnicast_def
        IsLinkLocalMulticast_def IsMulticast_def IsUnspecified_def)
  then show ?thesis
    by (auto simp: internalV6_def acmeHTTP01BlockedSpecialIP_def acmeHTTP01BlockedSpecialPrefixes_def
        prefixContains_V6 simp del: prefixContains.simps(2))
qed

lemma AddrFromSlice_noZone: "AddrFromSlice bs = Some (V6 v z) \<Longrightarrow> z = []"
  by (auto simp: AddrFromSlice_def split: if_splits)

lemma Unmap_Unmap [simp]: "Unmap (Unmap a) = Unmap a"
  by (cases a) auto

lemma IsValid_Unmap [simp]: "IsValid (Unmap a) = IsValid a"
  by (cases a) auto

lemma noContains_other:
  "\<forall>p \<in> set internalV6. \<not> prefixContains p (V4 v)" "\<forall>p \<in> set internalV4. \<not> prefixContains p (V6 w z)"
  by (simp_all add: internalV6_def internalV4_def)

lemma acmeHTTP01SafeIP_external:
  assumes "AddrFromSlice ip = Some addr"
  shows "acmeHTTP01SafeIP (Unmap addr) \<longleftrightarrow> externalAddr addr"
proof (cases addr)
  case (V6 v z)
  then have "z = []" using assms AddrFromSlice_noZone by blast
  with V6 show ?thesis
    by (cases "is4in6 v") (simp_all add: externalAddr_def acmeHTTP01SafeIP_V4 acmeHTTP01SafeIP_V6
        list_ex_iff ball_Un noContains_other)
next
  case (V4 v)
  then show ?thesis by (simp add: externalAddr_def acmeHTTP01SafeIP_V4 list_ex_iff ball_Un noContains_other)
next
  case AddrInvalid
  then show ?thesis by (simp add: externalAddr_def acmeHTTP01SafeIP_def)
qed

text \<open>The resolver's answers as addresses, those it cannot read left out.\<close>

definition resolvedAddrs :: "8 word list list \<Rightarrow> Addr list" where
  "resolvedAddrs ips = List.map_filter AddrFromSlice ips"

lemma safeTargets_eq:
  "safeTargets joinHostPort port ips = map (\<lambda>a. joinHostPort (Unmap a) port) (filter externalAddr (resolvedAddrs ips))"
  by (induction ips) (auto simp: resolvedAddrs_def map_filter_simps acmeHTTP01SafeIP_external split: option.split)


end
