(* ===== verification/Service.thy ===== *)
theory Service
  imports StoreContracts Netip
begin

text \<open>
  The lifecycle service as a value: the request and result structs of
  \<^verbatim>\<open>internal/lifecycle/service.go\<close> and \<^verbatim>\<open>internal/corecli/runner.go\<close>, the collaborators the service is
  given (signer, clock, identifier generator, HTTP-01 verifier, CAA lookup) and the \<open>Service\<close> struct itself.

  A collaborator is a function of the number of calls made before, so that it may answer
  differently every time: \<open>svc_clock svc n\<close> is the instant the \<open>n\<close>-th clock call returns,
  \<open>svc_idgen svc n\<close> the \<open>n\<close>-th identifier, and every other collaborator takes the count of external calls
  first. Nothing is assumed about them here; a theorem that needs identifiers to be fresh says so.
  \<open>Runtime\<close> holds the library functions whose values the logic passes through unexamined: the hash
  functions, the random source, the rendering of instants (which depends on the time zone attached
  to the value), elapsed time, \<^verbatim>\<open>url.Parse\<close>, and \<^verbatim>\<open>json.Unmarshal\<close> into a map followed by \<^verbatim>\<open>json.Marshal\<close>
  of the map (\<open>rt_jsonObject\<close>).
\<close>

section \<open>Signer requests and results\<close>

record IssueRequest =
  irq_CSRPEM :: string
  irq_IssuerCertificatePEM :: string
  irq_IssuerKeyRef :: string
  irq_AIAURL :: string
  irq_CRLDistributionPoints :: "string list"
  irq_Subject :: string
  irq_DNSNames :: "string list"
  irq_IPAddresses :: "string list"
  irq_NotBefore :: time
  irq_NotAfter :: time
  irq_SignatureAlgorithm :: string
  irq_ProfileID :: string
  irq_BasicConstraintsCritical :: bool
  irq_BasicConstraintsCA :: bool
  irq_BasicConstraintsMaxPathLen :: "int option"
  irq_KeyUsageCritical :: bool
  irq_KeyUsage :: "string list"
  irq_ExtendedKeyUsageCritical :: bool
  irq_ExtendedKeyUsage :: "string list"
  irq_SubjectKeyIdentifier :: bool
  irq_AuthorityKeyIdentifier :: bool

record IssueResult =
  irs_CertificatePEM :: string
  irs_SerialNumber :: string
  irs_Subject :: string
  irs_NotBefore :: time
  irs_NotAfter :: time

record CSRInfo =
  csr_Subject :: string
  csr_DNSNames :: "string list"
  csr_IPAddresses :: "string list"
  csr_PublicKeyAlgorithm :: string
  csr_PublicKeySizeBits :: int
  csr_SignatureAlgorithm :: string
  csr_ExtensionOIDs :: "string list"

record RevokedCertificate =
  rvk_SerialNumber :: string
  rvk_RevokedAt :: time
  rvk_Reason :: string

record GenerateCRLRequest =
  gcq_IssuerCertificatePEM :: string
  gcq_IssuerKeyRef :: string
  gcq_CRLNumber :: int
  gcq_ThisUpdate :: time
  gcq_NextUpdate :: time
  gcq_RevokedCertificates :: "RevokedCertificate list"

record GenerateCRLResult =
  gcr_CRLPEM :: string

record OCSPCertificateID =
  oci_SerialNumber :: string
  oci_IssuerNameHash :: string
  oci_IssuerKeyHash :: string
  oci_HashAlgorithm :: string

record OCSPRequestInfo =
  ori_Certificates :: "OCSPCertificateID list"
  ori_HasNonce :: bool
  ori_NonceHex :: string

record OCSPIssuerInfo =
  oii_IssuerNameHash :: string
  oii_IssuerKeyHash :: string
  oii_HashAlgorithm :: string

record ValidateOCSPResponderResult =
  vor_Valid :: bool

record OCSPCertificateStatus =
  ocs_SerialNumber :: string
  ocs_Status :: string
  ocs_RevokedAt :: time
  ocs_RevocationReason :: string
  ocs_HashAlgorithm :: string
  ocs_IssuerNameHash :: string
  ocs_IssuerKeyHash :: string

record GenerateOCSPResponseRequest =
  goq_RequestDER :: string
  goq_IssuerCertificatePEM :: string
  goq_IssuerKeyRef :: string
  goq_ThisUpdate :: time
  goq_NextUpdate :: time
  goq_Certificates :: "OCSPCertificateStatus list"

record GenerateOCSPResponseResult =
  gor_ResponseDER :: string

record CertificateIssuer =
  ci_Issue :: "nat \<Rightarrow> IssueRequest \<Rightarrow> IssueResult result"
  ci_InspectCSR :: "nat \<Rightarrow> string \<Rightarrow> CSRInfo result"
  ci_GenerateCRL :: "nat \<Rightarrow> GenerateCRLRequest \<Rightarrow> GenerateCRLResult result"
  ci_InspectOCSPIssuer :: "nat \<Rightarrow> string \<Rightarrow> string \<Rightarrow> OCSPIssuerInfo result"
  ci_ValidateOCSPResponder :: "nat \<Rightarrow> string \<Rightarrow> string \<Rightarrow> ValidateOCSPResponderResult result"
  ci_InspectOCSP :: "nat \<Rightarrow> string \<Rightarrow> OCSPRequestInfo result"
  ci_GenerateOCSPResponse :: "nat \<Rightarrow> GenerateOCSPResponseRequest \<Rightarrow> GenerateOCSPResponseResult result"

section \<open>CAA policy\<close>

datatype CAADNSSECStatus =
    CAADNSSECSecure
  | CAADNSSECInsecure
  | CAADNSSECBogus
  | CAADNSSECIndeterminate
  | CAADNSSECStatusOther string

record CAARecord =
  caa_Flag :: int
  caa_Tag :: string
  caa_Value :: string

record CAALookupResult =
  clr_Records :: "CAARecord list"
  clr_DNSSECStatus :: CAADNSSECStatus

record PublicTLSCAAPolicy =
  caap_IssuerDomain :: string
  caap_AccountURI :: string
  caap_ValidationMethod :: string
  caap_AllowDNSSECIndeterminate :: bool
  caap_Lookup :: "(nat \<Rightarrow> string \<Rightarrow> CAALookupResult result) option"

section \<open>Service requests and results\<close>

record AuditRequestMetadata =
  arm_RequestID :: string
  arm_Traceparent :: string
  arm_ClientIP :: string
  arm_UserAgent :: string
  arm_AuthMethod :: string
  arm_StartedAt :: time

record APIKeyAuditMetadata =
  akm_ID :: string
  akm_Name :: string
  akm_Actor :: string
  akm_Fingerprint :: string
  akm_Scopes :: "APIKeyScope list"

record APIFailureAuditRequest =
  afr_Method :: string
  afr_Path :: string
  afr_StatusCode :: int
  afr_Err :: error

record CreateIdentityRequest =
  cid_Type :: IdentityType
  cid_Name :: string
  cid_ExternalID :: string
  cid_Owner :: string
  cid_Team :: string
  cid_Service :: string
  cid_Environment :: string
  cid_DeploymentTarget :: string
  cid_LastSeenAt :: time
  cid_MetadataJSON :: string
  cid_AllowedDNSNames :: "string list"
  cid_AllowedIPAddresses :: "string list"

record CreateIssuerRequest =
  cis_Name :: string
  cis_Kind :: IssuerKind
  cis_ParentIssuerID :: string
  cis_CertificatePEM :: string
  cis_KeyRef :: string
  cis_AIAURL :: string
  cis_CRLDistributionPoints :: "string list"
  cis_TrustAnchor :: bool

record CreateOCSPResponderRequest =
  cor_IssuerID :: string
  cor_Name :: string
  cor_CertificatePEM :: string
  cor_KeyRef :: string

record RotateOCSPResponderRequest =
  ror_IssuerID :: string
  ror_Name :: string
  ror_CertificatePEM :: string
  ror_KeyRef :: string

record CreateNotificationEndpointRequest =
  cne_Name :: string
  cne_URL :: string
  cne_Secret :: string
  cne_EventTypes :: "string list"

record CreateCertificateProfileRequest =
  cpr_Name :: string
  cpr_Description :: string
  cpr_IssuerID :: string
  cpr_ValidityPeriodSeconds :: int
  cpr_PublicTLS :: bool
  cpr_SubjectTemplate :: string
  cpr_AllowedDNSPatterns :: "string list"
  cpr_AllowedIPRanges :: "string list"
  cpr_AllowedKeyAlgorithms :: "string list"
  cpr_MinKeySizeBits :: int
  cpr_AllowedSignatureAlgorithms :: "string list"
  cpr_KeyUsage :: StringListExtensionPolicy
  cpr_ExtendedKeyUsage :: StringListExtensionPolicy
  cpr_BasicConstraints :: BasicConstraintsPolicy
  cpr_SubjectKeyIdentifier :: bool
  cpr_AuthorityKeyIdentifier :: bool

record CreateEnrollmentRequest =
  cer_IdentityID :: string
  cer_IssuerID :: string
  cer_CertificateProfileID :: string
  cer_CSRPEM :: string
  cer_RequestedSubject :: string
  cer_RequestedDNSNames :: "string list"
  cer_RequestedIPAddresses :: "string list"
  cer_RequestedNotAfter :: time

record CreateACMEAccountRequest =
  car_Contacts :: "string list"
  car_TermsOfServiceAgreed :: bool
  car_KeyThumbprint :: string
  car_KeyJWKJSON :: string

record CreateACMEAccountResult =
  cas_Account :: ACMEAccount
  cas_Created :: bool

record UpdateACMEAccountRequest =
  uar_Contacts :: "string list"
  uar_UpdateContacts :: bool
  uar_Deactivate :: bool

record UpdateACMEAccountKeyRequest =
  ukr_KeyThumbprint :: string
  ukr_KeyJWKJSON :: string

record CreateACMEOrderRequest =
  cao_AccountID :: string
  cao_IdentityID :: string
  cao_IssuerID :: string
  cao_CertificateProfileID :: string
  cao_RequestedDNSNames :: "string list"
  cao_RequestedIPAddresses :: "string list"
  cao_RequestedNotAfter :: time

record FinalizeACMEOrderRequest =
  fao_CSRPEM :: string
  fao_RequestedSubject :: string

record RenewCertificateRequest =
  rcr_CSRPEM :: string
  rcr_RequestedNotAfter :: time

record ReissueCertificateRequest =
  rir_CSRPEM :: string

record ScanCertificateExpirationsRequest =
  scr_WarningWindow :: duration
  scr_Limit :: int

record CertificateExpirationScanResult =
  scs_Expired :: "Certificate list"
  scs_ExpirationWarnings :: "Certificate list"

record ReplayDeadLetterOutboxRequest =
  rdl_EventType :: string
  rdl_CreatedFrom :: time
  rdl_CreatedTo :: time
  rdl_Limit :: int

record PublishCRLRequest =
  pcr_IssuerID :: string
  pcr_DistributionPoint :: string
  pcr_NextUpdate :: time

record OCSPResponse =
  orp_ResponseDER :: string

record EnsureAPIKeyRequest =
  ekr_Name :: string
  ekr_Token :: string
  ekr_Actor :: string
  ekr_Scopes :: "APIKeyScope list"

record CreateAPIKeyRequest =
  ckr_Name :: string
  ckr_Actor :: string
  ckr_Scopes :: "APIKeyScope list"
  ckr_ExpiresAt :: time

record CreateAPIKeyResult =
  cks_Key :: APIKey
  cks_Token :: string

record ocspSigner =
  sgn_CertificatePEM :: string
  sgn_KeyRef :: string
  sgn_ResponderMode :: string
  sgn_ResponderID :: string

section \<open>The service\<close>

record Runtime =
  rt_sha256hex :: "string \<Rightarrow> string"
  rt_hmacSha256hex :: "string \<Rightarrow> string \<Rightarrow> string"
  rt_randBytes :: "nat \<Rightarrow> nat \<Rightarrow> string result"
  rt_rfc3339 :: "time \<Rightarrow> string"
  rt_rfc3339nano :: "time \<Rightarrow> string"
  rt_sinceMillis :: "time \<Rightarrow> int"
  rt_urlParse :: "string \<Rightarrow> URL option"
  rt_jsonObject :: "string \<Rightarrow> string result"

record Service =
  svc_issuer :: CertificateIssuer
  svc_clock :: "nat \<Rightarrow> time"
  svc_idgen :: "nat \<Rightarrow> string"
  svc_acmeHTTP01Verifier :: "nat \<Rightarrow> string \<Rightarrow> string \<Rightarrow> string \<Rightarrow> unit result"
  svc_apiKeyPepper :: string
  svc_productionPolicy :: bool
  svc_publicTLSMaxValidityOverride :: duration
  svc_publicTLSCAAPolicy :: "PublicTLSCAAPolicy option"
  svc_runtime :: Runtime

text \<open>The request context: what the HTTP layer put into \<^verbatim>\<open>ctx\<close>.\<close>

record Context =
  ctx_auditRequest :: "AuditRequestMetadata option"
  ctx_apiKey :: "APIKeyAuditMetadata option"

type_synonym 'a svc = "(error, world, 'a) prog"

text \<open>\<^verbatim>\<open>s.clock.Now()\<close>, \<^verbatim>\<open>s.idgen.NewID()\<close> and a call of another collaborator.\<close>

definition Now :: "Service \<Rightarrow> time svc" where
  "Now svc = (\<lambda>w. (Inr (svc_clock svc (w_clock w)), w\<lparr>w_clock := Suc (w_clock w)\<rparr>))"

definition NewID :: "Service \<Rightarrow> string svc" where
  "NewID svc = (\<lambda>w. (Inr (svc_idgen svc (w_ids w)), w\<lparr>w_ids := Suc (w_ids w)\<rparr>))"

definition callExt :: "(nat \<Rightarrow> 'a result) \<Rightarrow> 'a svc" where
  "callExt f = (\<lambda>w. (f (w_ext w), w\<lparr>w_ext := Suc (w_ext w)\<rparr>))"

definition EnableProductionPolicy :: "Service \<Rightarrow> Service" where
  "EnableProductionPolicy svc = svc\<lparr>svc_productionPolicy := True\<rparr>"

definition SetPublicTLSMaxValidity :: "Service \<Rightarrow> duration \<Rightarrow> Service result" where
  "SetPublicTLSMaxValidity svc maxValidity =
     (if maxValidity \<le> 0 then Inl ErrInvalidRequest
      else Inr (svc\<lparr>svc_publicTLSMaxValidityOverride := maxValidity\<rparr>))"

text \<open>The lookup installed when a policy comes without one: it answers every question with an error.\<close>

definition rejectingCAALookup :: "nat \<Rightarrow> string \<Rightarrow> CAALookupResult result" where
  "rejectingCAALookup n dnsName = Inl ErrInvalidRequest"

definition SetPublicTLSCAAPolicy :: "Service \<Rightarrow> PublicTLSCAAPolicy \<Rightarrow> Service result" where
  "SetPublicTLSCAAPolicy svc policy =
     (if isBlank (caap_IssuerDomain policy) \<or> isBlank (caap_ValidationMethod policy) then Inl ErrInvalidRequest
      else
        let policy' = (case caap_Lookup policy of
                None \<Rightarrow> policy\<lparr>caap_Lookup := Some rejectingCAALookup\<rparr>
              | Some _ \<Rightarrow> policy)
        in Inr (svc\<lparr>svc_publicTLSCAAPolicy := Some policy'\<rparr>))"

section \<open>Running the collaborators\<close>

lemma run_Now [prog_simps]: "Now svc w = (Inr (svc_clock svc (w_clock w)), w\<lparr>w_clock := Suc (w_clock w)\<rparr>)"
  by (simp add: Now_def)

lemma run_NewID [prog_simps]: "NewID svc w = (Inr (svc_idgen svc (w_ids w)), w\<lparr>w_ids := Suc (w_ids w)\<rparr>)"
  by (simp add: NewID_def)

lemma run_callExt [prog_simps]: "callExt f w = (f (w_ext w), w\<lparr>w_ext := Suc (w_ext w)\<rparr>)"
  by (simp add: callExt_def)

end
