(* ===== verification/AuditTrail.thy ===== *)
theory AuditTrail
  imports Service
begin

text \<open>
  Audit events and outbox messages: the metadata builders and \<^verbatim>\<open>createAuditEvent\<close> /
  \<^verbatim>\<open>createOutboxMessage\<close> of \<^verbatim>\<open>internal/lifecycle/service.go\<close>. A \<^verbatim>\<open>map[string]any\<close> is a \<open>json gomap\<close>, and
  \<open>json_marshal\<close> is \<^verbatim>\<open>encoding/json\<close>'s rendering of it (keys in byte order, HTML escaping on), exact on
  ASCII input. The lemmas show that sensitive keys are redacted and that the rendering does not depend on
  the order in which a map is visited.
\<close>

section \<open>JSON values\<close>

datatype json =
    JString string
  | JInt int
  | JBool bool
  | JList "json list"
  | JObject "(string \<times> json) list"

definition hex_digit :: "nat \<Rightarrow> char" where
  "hex_digit n = (if n < 10 then char_of (48 + n) else char_of (87 + n))"

definition escape_byte :: "char \<Rightarrow> string" where
  "escape_byte c =
     (let n = of_char c :: nat in
      if c = CHR 0x22 then [CHR 0x5C, CHR 0x22]
      else if c = CHR 0x5C then [CHR 0x5C, CHR 0x5C]
      else if n = 8 then [CHR 0x5C, CHR ''b'']
      else if n = 12 then [CHR 0x5C, CHR ''f'']
      else if n = 10 then [CHR 0x5C, CHR ''n'']
      else if n = 13 then [CHR 0x5C, CHR ''r'']
      else if n = 9 then [CHR 0x5C, CHR ''t'']
      else if n < 32 \<or> c = CHR ''<'' \<or> c = CHR ''>'' \<or> c = CHR ''&''
        then [CHR 0x5C, CHR ''u'', CHR ''0'', CHR ''0'', hex_digit (n div 16), hex_digit (n mod 16)]
      else [c])"

definition json_string :: "string \<Rightarrow> string" where
  "json_string s = CHR 0x22 # concat (map escape_byte s) @ [CHR 0x22]"

fun join_comma :: "string list \<Rightarrow> string" where
  "join_comma [] = []"
| "join_comma [x] = x"
| "join_comma (x # xs) = x @ CHR '','' # join_comma xs"

fun json_marshal :: "json \<Rightarrow> string" where
  "json_marshal (JString s) = json_string s"
| "json_marshal (JInt n) = Itoa n"
| "json_marshal (JBool b) = (if b then ''true'' else ''false'')"
| "json_marshal (JList xs) = CHR ''['' # join_comma (map json_marshal xs) @ '']''"
| "json_marshal (JObject fs) =
     CHR ''{'' # join_comma (map (\<lambda>(k, v). json_string k @ CHR '':'' # json_marshal v) fs) @ ''}''"

text \<open>\<^verbatim>\<open>json.Marshal\<close> of a map: the entries in key order.\<close>

definition marshal_map :: "json gomap \<Rightarrow> string" where
  "marshal_map m = json_marshal (JObject (sort_by (\<lambda>a b. fst a < fst b) (mentries m)))"

section \<open>Metadata\<close>

fun auditFields_loop :: "string list \<Rightarrow> json gomap \<Rightarrow> json gomap" where
  "auditFields_loop (k # v # rest) flds =
     auditFields_loop rest (if k \<noteq> [] \<and> v \<noteq> [] then mput k (JString v) flds else flds)"
| "auditFields_loop _ flds = flds"

definition auditFields :: "string list \<Rightarrow> json gomap" where
  "auditFields pairs = auditFields_loop pairs mempty"

definition apiKeyScopesToStrings :: "APIKeyScope list \<Rightarrow> string list" where
  "apiKeyScopesToStrings scopes = map str_APIKeyScope scopes"

definition apiKeyAuditFields :: "APIKey \<Rightarrow> json gomap" where
  "apiKeyAuditFields key =
     mput ''api_key_scopes'' (JList (map JString (apiKeyScopesToStrings (key_Scopes key))))
       (auditFields [''api_key_id'', key_ID key, ''api_key_name'', key_Name key, ''api_key_actor'', key_Actor key])"

definition addStatusTransition :: "json gomap \<Rightarrow> string \<Rightarrow> string \<Rightarrow> json gomap" where
  "addStatusTransition flds previous new_status =
     mput ''new_status'' (JString new_status) (mput ''previous_status'' (JString previous) flds)"

text \<open>\<^verbatim>\<open>int64(warningWindow.Seconds())\<close> truncates to whole seconds.\<close>

definition durationSeconds :: "duration \<Rightarrow> int" where
  "durationSeconds d = sgn d * (\<bar>d\<bar> div Second)"

definition certificateExpirationAuditFields :: "Service \<Rightarrow> Certificate \<Rightarrow> duration \<Rightarrow> json gomap" where
  "certificateExpirationAuditFields svc certificate warningWindow =
     mput ''warning_window_seconds'' (JInt (durationSeconds warningWindow))
      (mput ''not_after'' (JString (rt_rfc3339 (svc_runtime svc) (cert_NotAfter certificate)))
        (auditFields
          [''identity_id'', cert_IdentityID certificate, ''issuer_id'', cert_IssuerID certificate,
           ''enrollment_id'', cert_EnrollmentID certificate, ''certificate_id'', cert_ID certificate,
           ''serial_number'', cert_SerialNumber certificate, ''profile_id'', cert_CertificateProfileID certificate]))"

definition auditMetadataKeySensitive :: "string \<Rightarrow> bool" where
  "auditMetadataKeySensitive key0 =
     (let key = ToLower key0 in
      Contains key ''secret'' \<or> Contains key ''token'' \<or> Contains key ''password'' \<or> Contains key ''private_key'')"

definition auditMetadataValue :: "string \<Rightarrow> json \<Rightarrow> json" where
  "auditMetadataValue key value = (if auditMetadataKeySensitive key then JString ''[redacted]'' else value)"

text \<open>\<^verbatim>\<open>if v != "" { metadata[k] = v }\<close>\<close>

definition putNonEmpty :: "string \<Rightarrow> string \<Rightarrow> json gomap \<Rightarrow> json gomap" where
  "putNonEmpty k v m = (if v \<noteq> [] then mput k (JString v) m else m)"

definition auditRequestFields :: "Service \<Rightarrow> AuditRequestMetadata \<Rightarrow> json gomap \<Rightarrow> json gomap" where
  "auditRequestFields svc req metadata =
     (let m1 = putNonEmpty ''request_id'' (arm_RequestID req) metadata;
          m2 = putNonEmpty ''traceparent'' (arm_Traceparent req) m1;
          m3 = putNonEmpty ''client_ip'' (arm_ClientIP req) m2;
          m4 = putNonEmpty ''user_agent'' (arm_UserAgent req) m3;
          m5 = putNonEmpty ''auth_method'' (arm_AuthMethod req) m4
      in if \<not> IsZero (arm_StartedAt req)
         then mput ''elapsed_ms'' (JInt (rt_sinceMillis (svc_runtime svc) (arm_StartedAt req))) m5 else m5)"

definition auditAPIKeyFields :: "APIKeyAuditMetadata \<Rightarrow> json gomap \<Rightarrow> json gomap" where
  "auditAPIKeyFields meta metadata =
     (let m1 = putNonEmpty ''api_key_id'' (akm_ID meta) metadata;
          m2 = putNonEmpty ''api_key_name'' (akm_Name meta) m1;
          m3 = putNonEmpty ''api_key_actor'' (akm_Actor meta) m2;
          m4 = putNonEmpty ''api_key_fingerprint'' (akm_Fingerprint meta) m3
      in if length (akm_Scopes meta) > 0
         then mput ''api_key_scopes'' (JList (map JString (apiKeyScopesToStrings (akm_Scopes meta)))) m4 else m4)"

definition auditMetadata ::
  "Service \<Rightarrow> Context \<Rightarrow> json gomap \<Rightarrow> string \<Rightarrow> string \<Rightarrow> json gomap" where
  "auditMetadata svc ctx flds resultCode errorCode =
     (let m0 = fold (\<lambda>(key, value) metadata. mput key (auditMetadataValue key value) metadata) (mentries flds) mempty;
          m1 = mput ''result_code'' (JString resultCode) m0;
          m2 = putNonEmpty ''error_code'' errorCode m1;
          m3 = (case ctx_auditRequest ctx of None \<Rightarrow> m2 | Some req \<Rightarrow> auditRequestFields svc req m2)
      in case ctx_apiKey ctx of None \<Rightarrow> m3 | Some meta \<Rightarrow> auditAPIKeyFields meta m3)"

definition auditMetadataJSON ::
  "Service \<Rightarrow> Context \<Rightarrow> json gomap \<Rightarrow> string \<Rightarrow> string \<Rightarrow> string" where
  "auditMetadataJSON svc ctx flds resultCode errorCode =
     marshal_map (auditMetadata svc ctx flds resultCode errorCode)"

section \<open>Writing events\<close>

definition createAuditEventWithResult ::
  "Service \<Rightarrow> Context \<Rightarrow> string \<Rightarrow> string \<Rightarrow> string \<Rightarrow> string \<Rightarrow> time \<Rightarrow> json gomap \<Rightarrow> string \<Rightarrow> string \<Rightarrow> unit svc" where
  "createAuditEventWithResult svc ctx actor action resourceType resourceID createdAt flds resultCode errorCode =
     bindM (NewID svc) (\<lambda>ident.
       onRepo (memoryTx_CreateAuditEvent
         \<lparr>aud_ID = ident, aud_Actor = actor, aud_Action = action, aud_ResourceType = resourceType,
          aud_ResourceID = resourceID,
          aud_MetadataJSON = auditMetadataJSON svc ctx flds resultCode errorCode,
          aud_CreatedAt = createdAt\<rparr>))"

definition createAuditEvent ::
  "Service \<Rightarrow> Context \<Rightarrow> string \<Rightarrow> string \<Rightarrow> string \<Rightarrow> string \<Rightarrow> time \<Rightarrow> json gomap \<Rightarrow> unit svc" where
  "createAuditEvent svc ctx actor action resourceType resourceID createdAt flds =
     createAuditEventWithResult svc ctx actor action resourceType resourceID createdAt flds ''ok'' []"

definition defaultOutboxMaxAttempts :: int where
  "defaultOutboxMaxAttempts = 5"

definition createOutboxMessage :: "Service \<Rightarrow> string \<Rightarrow> time \<Rightarrow> json gomap \<Rightarrow> unit svc" where
  "createOutboxMessage svc messageType createdAt flds =
     (let copied = fold (\<lambda>(key, value) payload. mput key value payload) (mentries flds) mempty;
          payload = mput ''event_type'' (JString messageType) copied
      in bindM (NewID svc) (\<lambda>ident.
           onRepo (memoryTx_CreateOutboxMessage
             \<lparr>msg_ID = ident, msg_Type = messageType, msg_PayloadJSON = marshal_map payload,
              msg_Status = OutboxPending, msg_AvailableAt = createdAt, msg_ProcessingDeadlineAt = time_zero,
              msg_AttemptCount = 0, msg_MaxAttempts = defaultOutboxMaxAttempts, msg_LastError = [],
              msg_CreatedAt = createdAt, msg_UpdatedAt = createdAt\<rparr>)))"

text \<open>The stable error code of an audit record: the first sentinel the error matches.\<close>

definition auditErrorCode :: "error \<Rightarrow> string" where
  "auditErrorCode err =
     (if errors_Is err ErrInvalidRequest then ''invalid_request''
      else if errors_Is err ErrUnsupportedMediaType then ''unsupported_media_type''
      else if errors_Is err ErrUnauthorized then ''unauthorized''
      else if errors_Is err ErrForbidden then ''forbidden''
      else if errors_Is err ErrRateLimited then ''rate_limited''
      else if errors_Is err ErrInvalidTransition then ''invalid_lifecycle_transition''
      else if errors_Is err ErrIdentityNotFound then ''identity_not_found''
      else if errors_Is err ErrIssuerNotFound then ''issuer_not_found''
      else if errors_Is err ErrOCSPResponderNotFound then ''ocsp_responder_not_found''
      else if errors_Is err ErrNotificationEndpointNotFound then ''notification_endpoint_not_found''
      else if errors_Is err ErrCertificateProfileNotFound then ''certificate_profile_not_found''
      else if errors_Is err ErrEnrollmentNotFound then ''enrollment_not_found''
      else if errors_Is err ErrCertificateNotFound then ''certificate_not_found''
      else if errors_Is err ErrCRLPublicationNotFound then ''crl_publication_not_found''
      else if errors_Is err ErrOutboxMessageNotFound then ''outbox_message_not_found''
      else if errors_Is err ErrAPIKeyNotFound then ''api_key_not_found''
      else if errors_Is err ErrACMEAccountNotFound then ''acme_account_not_found''
      else if errors_Is err ErrACMEAccountDeactivated then ''acme_account_deactivated''
      else if errors_Is err ErrACMEOrderNotFound then ''acme_order_not_found''
      else if errors_Is err ErrACMEAuthorizationNotFound then ''acme_authorization_not_found''
      else if errors_Is err ErrACMEChallengeNotFound then ''acme_challenge_not_found''
      else if errors_Is err ErrCSRParseFailed then ''csr_parse_failed''
      else if errors_Is err ErrCertificateIssuanceFailed then ''certificate_issuance_failed''
      else if errors_Is err ErrCRLGenerationFailed then ''crl_generation_failed''
      else if errors_Is err ErrOCSPDecodeFailed then ''ocsp_decode_failed''
      else if errors_Is err ErrOCSPResponderValidationFailed then ''ocsp_responder_validation_failed''
      else if errors_Is err ErrOCSPResponseFailed then ''ocsp_response_failed''
      else if errors_Is err ErrStorageFailure then ''storage_failure''
      else ''internal'')"

section \<open>Audit operations of the service\<close>

text \<open>\<^verbatim>\<open>if isBlank(actor) { actor = "anonymous" }\<close>\<close>

definition orAnonymous :: "string \<Rightarrow> string" where
  "orAnonymous actor = (if isBlank actor then ''anonymous'' else actor)"

definition Service_RecordAPIFailure :: "Service \<Rightarrow> Context \<Rightarrow> string \<Rightarrow> APIFailureAuditRequest \<Rightarrow> unit svc" where
  "Service_RecordAPIFailure svc ctx actor0 req =
     (let actor = orAnonymous actor0 in
      bindM (Now svc) (\<lambda>now.
      let flds = mput ''http_status'' (JInt (afr_StatusCode req))
            (mput ''http_path'' (JString (afr_Path req))
              (mput ''http_method'' (JString (afr_Method req)) mempty)) in
      MemoryStore_WithinTx
        (bindM (NewID svc) (\<lambda>ident.
           createAuditEventWithResult svc ctx actor ''api.request_failed'' ''api'' ident now flds ''error''
             (auditErrorCode (afr_Err req))))))"

definition Service_ListAuditEventsQuery :: "AuditEventQuery \<Rightarrow> AuditEvent list svc" where
  "Service_ListAuditEventsQuery query =
     failIf (aq_Sort query \<noteq> [] \<and> aq_Sort query \<noteq> ''asc'' \<and> aq_Sort query \<noteq> ''desc'') ErrInvalidRequest
    (failIf (aq_Limit query < 0 \<or> aq_Offset query < 0 \<or> aq_Offset query > 0 \<and> aq_Limit query = 0) ErrInvalidRequest
    (failIf (\<not> IsZero (aq_CreatedFrom query) \<and> \<not> IsZero (aq_CreatedTo query) \<and>
             aq_CreatedTo query < aq_CreatedFrom query) ErrInvalidRequest
    (onRepo (MemoryStore_ListAuditEventsQuery query))))"

text \<open>
  The second component of the result is the count Go returns beside the error; it is only
  meaningful when there is none.
\<close>

definition Service_PruneAuditEventsBefore :: "Service \<Rightarrow> Context \<Rightarrow> string \<Rightarrow> time \<Rightarrow> int svc" where
  "Service_PruneAuditEventsBefore svc ctx actor0 before =
     (if IsZero before then throwM ErrInvalidRequest
      else bindM (Now svc) (\<lambda>checkedAt.
        failIf (\<not> before < checkedAt) ErrInvalidRequest
        (let actor = orAnonymous actor0 in
         bindM (Now svc) (\<lambda>now.
         MemoryStore_WithinTx
           (bindM (onRepo (memoryTx_DeleteAuditEventsBefore before)) (\<lambda>deleted.
            let flds = mput ''deleted_count'' (JInt deleted)
                  (mput ''retention_cutoff'' (JString (rt_rfc3339 (svc_runtime svc) before)) mempty) in
            bindM (NewID svc) (\<lambda>ident.
            thenM (createAuditEvent svc ctx actor ''audit.retention_pruned'' ''audit'' ident now flds)
              (returnM deleted))))))))"

section \<open>Running the event writers\<close>

text \<open>The rows \<^verbatim>\<open>createAuditEvent\<close> and \<^verbatim>\<open>createOutboxMessage\<close> add.\<close>

definition auditEventFor ::
  "Service \<Rightarrow> Context \<Rightarrow> string \<Rightarrow> string \<Rightarrow> string \<Rightarrow> string \<Rightarrow> string \<Rightarrow> time \<Rightarrow> json gomap \<Rightarrow> AuditEvent" where
  "auditEventFor svc ctx ident actor action resourceType resourceID createdAt flds =
     \<lparr>aud_ID = ident, aud_Actor = actor, aud_Action = action, aud_ResourceType = resourceType,
      aud_ResourceID = resourceID, aud_MetadataJSON = auditMetadataJSON svc ctx flds ''ok'' [],
      aud_CreatedAt = createdAt\<rparr>"

definition outboxMessageFor :: "string \<Rightarrow> string \<Rightarrow> time \<Rightarrow> json gomap \<Rightarrow> OutboxMessage" where
  "outboxMessageFor ident messageType createdAt flds =
     \<lparr>msg_ID = ident, msg_Type = messageType,
      msg_PayloadJSON = marshal_map (mput ''event_type'' (JString messageType) flds),
      msg_Status = OutboxPending, msg_AvailableAt = createdAt, msg_ProcessingDeadlineAt = time_zero,
      msg_AttemptCount = 0, msg_MaxAttempts = defaultOutboxMaxAttempts, msg_LastError = [],
      msg_CreatedAt = createdAt, msg_UpdatedAt = createdAt\<rparr>"

lemma copy_fields: "fold (\<lambda>(key, value) payload. mput key value payload) (mentries flds) mempty = flds"
  using mclone_id[of "\<lambda>v. v" flds] by (simp add: mclone_def)

lemma run_createAuditEvent [prog_simps]:
  "createAuditEvent svc ctx actor action resourceType resourceID createdAt flds w =
     (Inr (), w\<lparr>w_ids := Suc (w_ids w), w_repo := (w_repo w)\<lparr>ms_auditEvents := ms_auditEvents (w_repo w) @
        [auditEventFor svc ctx (svc_idgen svc (w_ids w)) actor action resourceType resourceID createdAt flds]\<rparr>\<rparr>)"
  by (simp add: createAuditEvent_def createAuditEventWithResult_def auditEventFor_def prog_simps tx_agree
      MemoryStore_CreateAuditEvent_def)

lemma run_createOutboxMessage [prog_simps]:
  "createOutboxMessage svc messageType createdAt flds w =
     (Inr (), w\<lparr>w_ids := Suc (w_ids w), w_repo := (w_repo w)\<lparr>ms_outbox :=
        mput (svc_idgen svc (w_ids w)) (outboxMessageFor (svc_idgen svc (w_ids w)) messageType createdAt flds)
          (ms_outbox (w_repo w))\<rparr>\<rparr>)"
  by (simp add: createOutboxMessage_def outboxMessageFor_def copy_fields prog_simps tx_agree Let_def
      MemoryStore_CreateOutboxMessage_def)

end
