(* ===== verification/Policy.thy ===== *)
theory Policy
  imports AuditTrail
begin

text \<open>
  The request checks and policy functions at the end of \<^verbatim>\<open>internal/lifecycle/service.go\<close>: one definition per
  Go function, in the order of the file. A \<^verbatim>\<open>for\<close> loop that returns an error at the first bad element is a
  bounded quantifier over the list; durations are 64-bit, so the product of a number of seconds with
  \<^verbatim>\<open>time.Second\<close> is wrapped with \<open>i64\<close>. The lemmas say what a request that passes the checks satisfies, what
  the profile patterns admit, and where the wrap-around shows.
\<close>

section \<open>Small predicates\<close>

definition normalizeAlgorithm :: "string \<Rightarrow> string" where
  "normalizeAlgorithm value = ToLower (TrimSpace value)"

definition normalizeStringList :: "string list \<Rightarrow> string list" where
  "normalizeStringList values = map normalizeAlgorithm values"

definition isSupportedKeyAlgorithm :: "string \<Rightarrow> bool" where
  "isSupportedKeyAlgorithm value \<longleftrightarrow> normalizeAlgorithm value \<in> set [''rsa'', ''ecdsa'', ''ed25519'']"

definition isSupportedSignatureAlgorithm :: "string \<Rightarrow> bool" where
  "isSupportedSignatureAlgorithm value \<longleftrightarrow> normalizeAlgorithm value \<in> set
     [''sha256'', ''sha384'', ''sha512'', ''rsa_with_sha256'', ''rsa_with_sha384'', ''rsa_with_sha512'',
      ''ecdsa_with_sha256'', ''ecdsa_with_sha384'', ''ecdsa_with_sha512'', ''ed25519'']"

definition stringInList :: "string \<Rightarrow> string list \<Rightarrow> bool" where
  "stringInList value allowed \<longleftrightarrow> (\<exists>candidate \<in> set allowed. normalizeAlgorithm candidate = normalizeAlgorithm value)"

fun isValidIdentityType :: "IdentityType \<Rightarrow> bool" where
  "isValidIdentityType (IdentityTypeOther _) = False"
| "isValidIdentityType _ = True"

fun isValidIssuerKind :: "IssuerKind \<Rightarrow> bool" where
  "isValidIssuerKind (IssuerKindOther _) = False"
| "isValidIssuerKind _ = True"

fun isValidOutboxMessageStatus :: "OutboxMessageStatus \<Rightarrow> bool" where
  "isValidOutboxMessageStatus (OutboxMessageStatusOther _) = False"
| "isValidOutboxMessageStatus _ = True"

fun isValidEnrollmentStatus :: "EnrollmentStatus \<Rightarrow> bool" where
  "isValidEnrollmentStatus (EnrollmentStatusOther _) = False"
| "isValidEnrollmentStatus _ = True"

definition isValidCertificateStatus :: "string \<Rightarrow> bool" where
  "isValidCertificateStatus status \<longleftrightarrow> status \<in> set (map str_CertificateStatus
     [CertificateValid, CertificateSuspended, CertificateRevoked, CertificateExpired])"

fun isValidRevocationReason :: "RevocationReason \<Rightarrow> bool" where
  "isValidRevocationReason (RevocationReasonOther _) = False"
| "isValidRevocationReason _ = True"

definition isAllowedExpiryWindowDays :: "int \<Rightarrow> bool" where
  "isAllowedExpiryWindowDays days \<longleftrightarrow> days \<in> {30, 14, 7, 3, 1}"

definition identityCompletenessWarnings :: "Identity \<Rightarrow> string list" where
  "identityCompletenessWarnings identity =
     (if isBlank (idn_Owner identity) then [''missing_owner''] else []) @
     (if isBlank (idn_Team identity) then [''missing_team''] else []) @
     (if isBlank (idn_Service identity) then [''missing_service''] else [])"

text \<open>\<^verbatim>\<open>for index, current := range value\<close> compares the runes, not the bytes.\<close>

definition isSingleRepeatedRune :: "string \<Rightarrow> bool" where
  "isSingleRepeatedRune value \<longleftrightarrow>
     (case runes value of [] \<Rightarrow> True | first # rest \<Rightarrow> \<forall>current \<in> set rest. current = first) \<and> value \<noteq> []"

definition isWeakWebhookSecret :: "string \<Rightarrow> bool" where
  "isWeakWebhookSecret secret =
     (let trimmed = TrimSpace secret in
      if length trimmed < 32 then True
      else if isSingleRepeatedRune trimmed then True
      else ToLower trimmed \<in> set
        [''change-me'', ''changeme'', ''webhook-secret'', ''secret'', ''password'', ''modern-pki''])"

section \<open>Request validation\<close>

definition validateCreateIdentityRequest :: "CreateIdentityRequest \<Rightarrow> bool \<Rightarrow> unit result" where
  "validateCreateIdentityRequest req productionPolicy =
     (if \<not> isValidIdentityType (cid_Type req) \<or> isBlank (cid_Name req) then Inl ErrInvalidRequest
      else if productionPolicy \<and>
          length (identityCompletenessWarnings
            (zero_Identity\<lparr>idn_Owner := cid_Owner req, idn_Team := cid_Team req, idn_Service := cid_Service req\<rparr>)) > 0
        then Inl ErrInvalidRequest
      else Inr ())"

definition validateCreateIssuerRequest :: "CreateIssuerRequest \<Rightarrow> unit result" where
  "validateCreateIssuerRequest req =
     (if isBlank (cis_Name req) \<or> \<not> isValidIssuerKind (cis_Kind req) \<or> isBlank (cis_CertificatePEM req) \<or>
         isBlank (cis_KeyRef req) then Inl ErrInvalidRequest
      else if cis_Kind req = IssuerRootCA \<and> \<not> isBlank (cis_ParentIssuerID req) then Inl ErrInvalidRequest
      else if \<exists>distributionPoint \<in> set (cis_CRLDistributionPoints req). isBlank distributionPoint
        then Inl ErrInvalidRequest
      else Inr ())"

definition validateCreateNotificationEndpointRequest ::
  "(string \<Rightarrow> URL option) \<Rightarrow> CreateNotificationEndpointRequest \<Rightarrow> bool \<Rightarrow> unit result" where
  "validateCreateNotificationEndpointRequest urlParse req productionPolicy =
     (if isBlank (cne_Name req) \<or> isBlank (cne_URL req) \<or> isBlank (cne_Secret req) then Inl ErrInvalidRequest
      else case urlParse (cne_URL req) of
          None \<Rightarrow> Inl ErrInvalidRequest
        | Some parsed \<Rightarrow>
            if url_Host parsed = [] \<or> (url_Scheme parsed \<noteq> ''http'' \<and> url_Scheme parsed \<noteq> ''https'')
              then Inl ErrInvalidRequest
            else if productionPolicy \<and> (url_Scheme parsed \<noteq> ''https'' \<or> isWeakWebhookSecret (cne_Secret req))
              then Inl ErrInvalidRequest
            else case validateACMEHTTP01FetchURL (Some parsed) of
                Inl err \<Rightarrow> Inl err
              | Inr _ \<Rightarrow>
                  if \<exists>eventType \<in> set (cne_EventTypes req). isBlank eventType then Inl ErrInvalidRequest
                  else Inr ())"

text \<open>The Baseline Requirements schedule: start of a period and the ceiling in force from then on.\<close>

definition publicTLSValidityCeilingSchedule :: "(time \<times> duration) list" where
  "publicTLSValidityCeilingSchedule =
     [(unix_time 1773532800, 200 * 24 * Hour),    \<comment> \<open>2026-03-15\<close>
      (unix_time 1805068800, 100 * 24 * Hour),    \<comment> \<open>2027-03-15\<close>
      (unix_time 1868227200, 47 * 24 * Hour)]     \<comment> \<open>2029-03-15\<close>"

definition publicTLSValidationReuseCeilingSchedule :: "(time \<times> duration) list" where
  "publicTLSValidationReuseCeilingSchedule =
     [(unix_time 1773532800, 200 * 24 * Hour),    \<comment> \<open>2026-03-15\<close>
      (unix_time 1805068800, 100 * 24 * Hour),    \<comment> \<open>2027-03-15\<close>
      (unix_time 1868227200, 10 * 24 * Hour)]     \<comment> \<open>2029-03-15\<close>"

text \<open>The loop \<^verbatim>\<open>if !now.Before(ceiling.start) { maxValidity = ceiling.max }\<close>.\<close>

fun lastCeiling :: "time \<Rightarrow> (time \<times> duration) list \<Rightarrow> duration \<Rightarrow> duration" where
  "lastCeiling now [] maxValidity = maxValidity"
| "lastCeiling now ((start, m) # rest) maxValidity =
     lastCeiling now rest (if \<not> now < start then m else maxValidity)"

definition publicTLSValidityCeiling :: "time \<Rightarrow> duration \<Rightarrow> duration" where
  "publicTLSValidityCeiling now override =
     (if override > 0 then override
      else lastCeiling now publicTLSValidityCeilingSchedule (snd (hd publicTLSValidityCeilingSchedule)))"

definition publicTLSValidationReuseCeiling :: "time \<Rightarrow> duration" where
  "publicTLSValidationReuseCeiling now =
     lastCeiling now publicTLSValidationReuseCeilingSchedule (snd (hd publicTLSValidationReuseCeilingSchedule))"

definition validateCertificateProfileExtensionCombination :: "CreateCertificateProfileRequest \<Rightarrow> unit result" where
  "validateCertificateProfileExtensionCombination req =
     (if \<not> bc_CA (cpr_BasicConstraints req) then
        (if \<exists>usage \<in> set (slp_Values (cpr_KeyUsage req)). normalizeAlgorithm usage \<in> set [''key_cert_sign'', ''crl_sign'']
         then Inl ErrInvalidRequest else Inr ())
      else if \<exists>usage \<in> set (slp_Values (cpr_ExtendedKeyUsage req)). normalizeAlgorithm usage \<in> set
          [''server_auth'', ''client_auth'', ''code_signing'', ''email_protection'', ''time_stamping'', ''ocsp_signing'']
        then Inl ErrInvalidRequest
      else Inr ())"

text \<open>\<^verbatim>\<open>time.Duration(seconds) * time.Second\<close>\<close>

definition secondsDuration :: "int \<Rightarrow> duration" where
  "secondsDuration seconds = i64 (i64 seconds * Second)"

definition validateCreateCertificateProfileRequest ::
  "CreateCertificateProfileRequest \<Rightarrow> time \<Rightarrow> duration \<Rightarrow> unit result" where
  "validateCreateCertificateProfileRequest req now publicTLSMaxValidityOverride =
     (if isBlank (cpr_Name req) \<or> isBlank (cpr_IssuerID req) \<or> cpr_ValidityPeriodSeconds req \<le> 0
        then Inl ErrInvalidRequest
      else if cpr_MinKeySizeBits req < 0 then Inl ErrInvalidRequest
      else if \<exists>algorithm \<in> set (cpr_AllowedKeyAlgorithms req). \<not> isSupportedKeyAlgorithm algorithm
        then Inl ErrInvalidRequest
      else if \<exists>algorithm \<in> set (cpr_AllowedSignatureAlgorithms req). \<not> isSupportedSignatureAlgorithm algorithm
        then Inl ErrInvalidRequest
      else if cpr_PublicTLS req \<and>
          secondsDuration (cpr_ValidityPeriodSeconds req) > publicTLSValidityCeiling now publicTLSMaxValidityOverride
        then Inl ErrInvalidRequest
      else if (case bc_MaxPathLen (cpr_BasicConstraints req) of
                 None \<Rightarrow> False
               | Some maxPathLen \<Rightarrow> maxPathLen < 0 \<or> \<not> bc_CA (cpr_BasicConstraints req))
        then Inl ErrInvalidRequest
      else validateCertificateProfileExtensionCombination req)"

definition validateCreateEnrollmentRequest :: "CreateEnrollmentRequest \<Rightarrow> time \<Rightarrow> unit result" where
  "validateCreateEnrollmentRequest req now =
     (if isBlank (cer_IdentityID req) \<or> isBlank (cer_IssuerID req) \<or> isBlank (cer_CSRPEM req) \<or>
         isBlank (cer_RequestedSubject req) then Inl ErrInvalidRequest
      else if \<not> cer_RequestedNotAfter req > now then Inl ErrInvalidRequest
      else Inr ())"

definition validateCreateACMEAccountRequest :: "CreateACMEAccountRequest \<Rightarrow> unit result" where
  "validateCreateACMEAccountRequest req =
     (if length (car_Contacts req) = 0 \<or> \<not> car_TermsOfServiceAgreed req then Inl ErrInvalidRequest
      else if \<exists>contact \<in> set (car_Contacts req). isBlank contact then Inl ErrInvalidRequest
      else Inr ())"

definition validateCreateACMEOrderRequest :: "CreateACMEOrderRequest \<Rightarrow> time \<Rightarrow> unit result" where
  "validateCreateACMEOrderRequest req now =
     (if isBlank (cao_AccountID req) \<or> isBlank (cao_IdentityID req) \<or> isBlank (cao_IssuerID req)
        then Inl ErrInvalidRequest
      else if length (cao_RequestedDNSNames req) = 0 \<and> length (cao_RequestedIPAddresses req) = 0
        then Inl ErrInvalidRequest
      else if \<not> cao_RequestedNotAfter req > now then Inl ErrInvalidRequest
      else if \<exists>dnsName \<in> set (cao_RequestedDNSNames req). isBlank dnsName then Inl ErrInvalidRequest
      else if \<exists>ipAddress \<in> set (cao_RequestedIPAddresses req). isBlank ipAddress then Inl ErrInvalidRequest
      else Inr ())"

section \<open>Profile and identity policy\<close>

text \<open>The loop over the patterns; a blank pattern ends it with \<^verbatim>\<open>false\<close>.\<close>

fun dnsPatternLoop :: "string \<Rightarrow> string list \<Rightarrow> bool" where
  "dnsPatternLoop name [] = False"
| "dnsPatternLoop name (p # patterns) =
     (let pattern = ToLower (TrimSpace p) in
      if pattern = [] then False
      else if pattern = name then True
      else if HasPrefix pattern ''*.'' \<and>
          (let suffix = TrimPrefix pattern ''*'' in HasSuffix name suffix \<and> length name > length suffix)
        then True
      else dnsPatternLoop name patterns)"

definition dnsAllowedByProfile :: "string \<Rightarrow> string list \<Rightarrow> bool" where
  "dnsAllowedByProfile name0 patterns =
     (if length patterns = 0 then True
      else
        let name = ToLower (TrimSpace name0) in
        if name = [] then False else dnsPatternLoop name patterns)"

text \<open>The loop over the ranges; an unreadable range ends it with \<^verbatim>\<open>false\<close>.\<close>

fun ipRangeLoop :: "Addr \<Rightarrow> string list \<Rightarrow> bool" where
  "ipRangeLoop addr [] = False"
| "ipRangeLoop addr (rawRange # ranges) =
     (case ParsePrefix (TrimSpace rawRange) of
        None \<Rightarrow> False
      | Some prefix \<Rightarrow> if prefixContains prefix addr then True else ipRangeLoop addr ranges)"

definition ipAllowedByProfile :: "string \<Rightarrow> string list \<Rightarrow> bool" where
  "ipAllowedByProfile address ranges =
     (if length ranges = 0 then True
      else case ParseAddr (TrimSpace address) of
          None \<Rightarrow> False
        | Some addr \<Rightarrow> ipRangeLoop addr ranges)"

definition valueAllowedByList :: "string \<Rightarrow> string list \<Rightarrow> bool" where
  "valueAllowedByList value0 allowed =
     (if length allowed = 0 then True
      else
        let value = TrimSpace value0 in
        if value = [] then False else \<exists>candidate \<in> set allowed. TrimSpace candidate = value)"

definition wildcardAllowedByProfile :: "string \<Rightarrow> string list \<Rightarrow> bool" where
  "wildcardAllowedByProfile name0 patterns =
     (let name = ToLower (TrimSpace name0) in
      \<exists>p \<in> set patterns.
        let pattern = ToLower (TrimSpace p) in HasPrefix pattern ''*.'' \<and> dnsAllowedByProfile name [pattern])"

definition maxCSRSANs :: nat where
  "maxCSRSANs = 100"

definition validateCSRPolicy :: "CreateEnrollmentRequest \<Rightarrow> CertificateProfile \<Rightarrow> CSRInfo \<Rightarrow> unit result" where
  "validateCSRPolicy req profile csrInfo =
     (let totalSANs = length (cer_RequestedDNSNames req) + length (cer_RequestedIPAddresses req) in
      if totalSANs = 0 \<or> totalSANs > maxCSRSANs then Inl ErrInvalidRequest
      else if \<exists>oid \<in> set (csr_ExtensionOIDs csrInfo). TrimSpace oid \<in> set [''2.5.29.15'', ''2.5.29.19'', ''2.5.29.37'']
        then Inl ErrInvalidRequest
      else if \<exists>dnsName \<in> set (cer_RequestedDNSNames req).
          HasPrefix (TrimSpace dnsName) ''*.'' \<and> \<not> wildcardAllowedByProfile dnsName (prof_AllowedDNSPatterns profile)
        then Inl ErrInvalidRequest
      else if prof_PublicTLS profile \<and> length (cer_RequestedIPAddresses req) \<noteq> 0 \<and> length (prof_AllowedIPRanges profile) = 0
        then Inl ErrInvalidRequest
      else Inr ())"

definition profileRequiresCSRPolicy :: "CertificateProfile \<Rightarrow> bool" where
  "profileRequiresCSRPolicy profile \<longleftrightarrow>
     prof_ID profile \<noteq> [] \<or> length (prof_AllowedKeyAlgorithms profile) \<noteq> 0 \<or> prof_MinKeySizeBits profile > 0"

definition profileSignatureAlgorithm :: "CertificateProfile \<Rightarrow> string" where
  "profileSignatureAlgorithm profile =
     (case prof_AllowedSignatureAlgorithms profile of
        algorithm # _ \<Rightarrow> normalizeAlgorithm algorithm
      | [] \<Rightarrow> ''ecdsa_with_sha256'')"

definition validateEnrollmentProfilePolicy ::
  "CreateEnrollmentRequest \<Rightarrow> CertificateProfile \<Rightarrow> CSRInfo \<Rightarrow> time \<Rightarrow> unit result" where
  "validateEnrollmentProfilePolicy req profile csrInfo now =
     (case validateCSRPolicy req profile csrInfo of
        Inl err \<Rightarrow> Inl err
      | Inr _ \<Rightarrow>
          if prof_ID profile = [] then Inr ()
          else if prof_ValidityPeriodSeconds profile > 0 \<and>
              cer_RequestedNotAfter req > now + secondsDuration (prof_ValidityPeriodSeconds profile)
            then Inl ErrInvalidRequest
          else if \<exists>dnsName \<in> set (cer_RequestedDNSNames req). \<not> dnsAllowedByProfile dnsName (prof_AllowedDNSPatterns profile)
            then Inl ErrInvalidRequest
          else if \<exists>ipAddress \<in> set (cer_RequestedIPAddresses req). \<not> ipAllowedByProfile ipAddress (prof_AllowedIPRanges profile)
            then Inl ErrInvalidRequest
          else if length (prof_AllowedKeyAlgorithms profile) \<noteq> 0 \<and>
              \<not> stringInList (normalizeAlgorithm (csr_PublicKeyAlgorithm csrInfo)) (prof_AllowedKeyAlgorithms profile)
            then Inl ErrInvalidRequest
          else if prof_MinKeySizeBits profile > 0 \<and> csr_PublicKeySizeBits csrInfo < prof_MinKeySizeBits profile
            then Inl ErrInvalidRequest
          else if length (prof_AllowedSignatureAlgorithms profile) \<noteq> 0 \<and>
              \<not> stringInList (profileSignatureAlgorithm profile) (prof_AllowedSignatureAlgorithms profile)
            then Inl ErrInvalidRequest
          else Inr ())"

definition validateEnrollmentIdentityPolicy :: "CreateEnrollmentRequest \<Rightarrow> Identity \<Rightarrow> unit result" where
  "validateEnrollmentIdentityPolicy req identity =
     (if idn_ID identity = [] then Inr ()
      else if \<exists>dnsName \<in> set (cer_RequestedDNSNames req). \<not> valueAllowedByList dnsName (idn_AllowedDNSNames identity)
        then Inl ErrInvalidRequest
      else if \<exists>ipAddress \<in> set (cer_RequestedIPAddresses req). \<not> valueAllowedByList ipAddress (idn_AllowedIPAddresses identity)
        then Inl ErrInvalidRequest
      else Inr ())"

definition enrollmentProfilePolicyRequest :: "Enrollment \<Rightarrow> CreateEnrollmentRequest" where
  "enrollmentProfilePolicyRequest enrollment =
     \<lparr>cer_IdentityID = enr_IdentityID enrollment, cer_IssuerID = enr_IssuerID enrollment,
      cer_CertificateProfileID = enr_CertificateProfileID enrollment, cer_CSRPEM = enr_CSRPEM enrollment,
      cer_RequestedSubject = enr_RequestedSubject enrollment,
      cer_RequestedDNSNames = copySlice (enr_RequestedDNSNames enrollment),
      cer_RequestedIPAddresses = copySlice (enr_RequestedIPAddresses enrollment),
      cer_RequestedNotAfter = enr_RequestedNotAfter enrollment\<rparr>"

section \<open>CRL numbers, lists and errors\<close>

definition validatePublishCRLRequest :: "PublishCRLRequest \<Rightarrow> time \<Rightarrow> unit result" where
  "validatePublishCRLRequest req now =
     (if isBlank (pcr_IssuerID req) \<or> isBlank (pcr_DistributionPoint req) then Inl ErrInvalidRequest
      else if \<not> pcr_NextUpdate req > now then Inl ErrInvalidRequest
      else Inr ())"

fun maxCRLNumber :: "CRLPublication list \<Rightarrow> string \<Rightarrow> int \<Rightarrow> int" where
  "maxCRLNumber [] distributionPoint maxNumber = maxNumber"
| "maxCRLNumber (publication # rest) distributionPoint maxNumber =
     maxCRLNumber rest distributionPoint
       (if crl_DistributionPoint publication = distributionPoint \<and> crl_CRLNumber publication > maxNumber
        then crl_CRLNumber publication else maxNumber)"

definition nextCRLNumber :: "CRLPublication list \<Rightarrow> string \<Rightarrow> int" where
  "nextCRLNumber publications distributionPoint = i64 (maxCRLNumber publications distributionPoint 0 + 1)"

definition latestCRLPublication :: "CRLPublication list \<Rightarrow> string \<Rightarrow> CRLPublication result" where
  "latestCRLPublication publications distributionPoint =
     (case pickBest
        (\<lambda>publication latest. crl_CRLNumber publication > crl_CRLNumber latest \<or>
           crl_CRLNumber publication = crl_CRLNumber latest \<and> crl_CreatedAt publication > crl_CreatedAt latest)
        (filter (\<lambda>publication. crl_DistributionPoint publication = distributionPoint) publications) None of
        None \<Rightarrow> Inl ErrCRLPublicationNotFound
      | Some latest \<Rightarrow> Inr latest)"

definition validateListOptions :: "string \<Rightarrow> int \<Rightarrow> int \<Rightarrow> unit result" where
  "validateListOptions sortOrder limit offset =
     (if sortOrder \<noteq> [] \<and> sortOrder \<noteq> ''asc'' \<and> sortOrder \<noteq> ''desc'' then Inl ErrInvalidRequest
      else if limit < 0 \<or> offset < 0 then Inl ErrInvalidRequest
      else Inr ())"

text \<open>
  A page of a sorted list. \<open>start + limit\<close> is 64-bit arithmetic and the slice expression
  \<open>items[start:end]\<close> panics when its bounds are not in order, which is the value \<open>None\<close> here.
\<close>

definition sortAndPage :: "'a list \<Rightarrow> string \<Rightarrow> int \<Rightarrow> int \<Rightarrow> ('a \<Rightarrow> 'a \<Rightarrow> bool) \<Rightarrow> 'a list option" where
  "sortAndPage items0 sortOrder limit offset lt =
     (let items = sort_by (if sortOrder = ''desc'' then (\<lambda>a b. lt b a) else lt) items0 in
      if offset \<ge> int (length items) then Some []
      else
        let start = offset;
            stop = (if limit > 0 \<and> i64 (start + limit) < int (length items) then i64 (start + limit)
                    else int (length items)) in
        if 0 \<le> start \<and> start \<le> stop then Some (take (nat (stop - start)) (drop (nat start) items)) else None)"

definition certificateHasSAN :: "Certificate \<Rightarrow> string \<Rightarrow> bool" where
  "certificateHasSAN certificate san \<longleftrightarrow>
     (\<exists>dnsName \<in> set (cert_DNSNames certificate). dnsName = san) \<or>
     (\<exists>ipAddress \<in> set (cert_IPAddresses certificate). ipAddress = san)"

text \<open>\<^verbatim>\<open>errors.As(err, &commandErr)\<close>: the first command error in the error's tree.\<close>

fun commandCode :: "error \<Rightarrow> string option" where
  "commandCode (ErrCommand code text) = Some code"
| "commandCode (ErrWrap a b) = (case commandCode a of Some c \<Rightarrow> Some c | None \<Rightarrow> commandCode b)"
| "commandCode _ = None"

definition mapIssueError :: "error \<Rightarrow> error" where
  "mapIssueError err =
     (if commandCode err = Some ''issue.csr_parse_failed'' then ErrWrap ErrCSRParseFailed err
      else ErrWrap ErrCertificateIssuanceFailed err)"

definition mapCRLError :: "error \<Rightarrow> error" where
  "mapCRLError err = ErrWrap ErrCRLGenerationFailed err"

definition mapOCSPDecodeError :: "error \<Rightarrow> error" where
  "mapOCSPDecodeError err = ErrWrap ErrOCSPDecodeFailed err"

definition mapOCSPResponseError :: "error \<Rightarrow> error" where
  "mapOCSPResponseError err = ErrWrap ErrOCSPResponseFailed err"

definition mapCSRInspectError :: "error \<Rightarrow> error" where
  "mapCSRInspectError err = ErrWrap ErrCSRParseFailed err"

definition sameStringSet :: "string list \<Rightarrow> string list \<Rightarrow> bool" where
  "sameStringSet left right =
     (if length left \<noteq> length right then False
      else
        let leftCopy = sort_by (<) (copySlice left); rightCopy = sort_by (<) (copySlice right) in
        \<forall>i \<in> set [0..<length leftCopy]. leftCopy ! i = rightCopy ! i)"

definition copyStringListExtensionPolicy :: "StringListExtensionPolicy \<Rightarrow> StringListExtensionPolicy" where
  "copyStringListExtensionPolicy policy = policy\<lparr>slp_Values := copySlice (slp_Values policy)\<rparr>"

section \<open>Comparison of name lists\<close>

lemma sort_by_less: "sort_by (<) (xs :: 'a :: linorder list) = sort xs"
  by (rule sort_by_key) simp

text \<open>
  The comparison of the requested names with those of the signing request is equality as multisets.
\<close>

theorem sameStringSet_mset: "sameStringSet left right \<longleftrightarrow> mset left = mset right"
proof -
  have nth: "length a = length b \<Longrightarrow> (\<forall>i \<in> set [0..<length a]. a ! i = b ! i) \<longleftrightarrow> a = b" for a b :: "string list"
    by (metis atLeastLessThan_iff list_eq_iff_nth_eq set_upt zero_le)
  have "sameStringSet left right \<longleftrightarrow> length left = length right \<and> sort left = sort right"
    using nth[of "sort left" "sort right"] unfolding length_sort sameStringSet_def Let_def sort_by_less copySlice_id by argo
  also have "\<dots> \<longleftrightarrow> mset left = mset right"
    by (metis mset_eq_length mset_sort properties_for_sort sorted_sort)
  finally show ?thesis .
qed

section \<open>Validity ceilings\<close>

lemma ceiling_schedule:
  "publicTLSValidityCeiling now override =
     (if override > 0 then override
      else if now < unix_time 1805068800 then 200 * 24 * Hour
      else if now < unix_time 1868227200 then 100 * 24 * Hour
      else 47 * 24 * Hour)"
  by (auto simp: publicTLSValidityCeiling_def publicTLSValidityCeilingSchedule_def unix_time_def Second_def)

lemma reuse_schedule:
  "publicTLSValidationReuseCeiling now =
     (if now < unix_time 1805068800 then 200 * 24 * Hour
      else if now < unix_time 1868227200 then 100 * 24 * Hour
      else 10 * 24 * Hour)"
  by (auto simp: publicTLSValidationReuseCeiling_def publicTLSValidationReuseCeilingSchedule_def unix_time_def Second_def)

lemma secondsDuration_exact:
  "0 \<le> s \<Longrightarrow> s \<le> 9223372036 \<Longrightarrow> secondsDuration s = s * Second"
  by (simp add: secondsDuration_def i64_small Second_def)

text \<open>
  A public TLS profile accepted by the validation has a positive validity period that does not exceed
  the ceiling in force, as long as the period in seconds fits a Go duration.
\<close>

theorem publicTLS_profile_within_ceiling:
  assumes "validateCreateCertificateProfileRequest req now override = Inr ()"
    and "cpr_PublicTLS req" and "cpr_ValidityPeriodSeconds req \<le> 9223372036"
  shows "0 < cpr_ValidityPeriodSeconds req \<and>
     cpr_ValidityPeriodSeconds req * Second \<le> publicTLSValidityCeiling now override"
  using assms
  by (auto simp: validateCreateCertificateProfileRequest_def secondsDuration_exact split: if_splits)

definition longProfile :: CreateCertificateProfileRequest where
  "longProfile =
     \<lparr>cpr_Name = ''p'', cpr_Description = [], cpr_IssuerID = ''i'', cpr_ValidityPeriodSeconds = 10000000000,
      cpr_PublicTLS = True, cpr_SubjectTemplate = [], cpr_AllowedDNSPatterns = [], cpr_AllowedIPRanges = [],
      cpr_AllowedKeyAlgorithms = [], cpr_MinKeySizeBits = 0, cpr_AllowedSignatureAlgorithms = [],
      cpr_KeyUsage = zero_StringListExtensionPolicy, cpr_ExtendedKeyUsage = zero_StringListExtensionPolicy,
      cpr_BasicConstraints = zero_BasicConstraintsPolicy, cpr_SubjectKeyIdentifier = False,
      cpr_AuthorityKeyIdentifier = False\<rparr>"

lemma isBlank_letter: "isBlank ''p'' = False" "isBlank ''i'' = False"
  by code_simp+

text \<open>
  Beyond that bound the check is void: a public TLS profile with a validity of ten thousand million
  seconds (more than 300 years) is accepted at any time, because the product with \<^verbatim>\<open>time.Second\<close> wraps to a
  negative duration.
\<close>

theorem publicTLS_ceiling_wraps:
  "validateCreateCertificateProfileRequest longProfile now 0 = Inr () \<and>
   cpr_ValidityPeriodSeconds longProfile * Second > publicTLSValidityCeiling now 0"
proof -
  have "secondsDuration 10000000000 = - 8446744073709551616"
    by (simp add: secondsDuration_def i64_def Second_def)
  then show ?thesis
    by (simp add: validateCreateCertificateProfileRequest_def longProfile_def isBlank_letter ceiling_schedule
        validateCertificateProfileExtensionCombination_def zero_StringListExtensionPolicy_def
        zero_BasicConstraintsPolicy_def Hour_def Minute_def Second_def)
qed

section \<open>Pages\<close>

text \<open>
  A page is the sorted list (in descending order when that is asked for) without its first \<open>offset\<close>
  items, cut to \<open>limit\<close> items unless the limit is zero. Offsets past the end give the empty page.
\<close>

definition pageOf :: "'a list \<Rightarrow> int \<Rightarrow> int \<Rightarrow> 'a list" where
  "pageOf items limit offset = (let rest = drop (nat offset) items in if limit = 0 then rest else take (nat limit) rest)"

lemma sortAndPage_value:
  assumes "0 \<le> offset" "0 \<le> limit" "offset + limit < 2 ^ 63"
  shows "sortAndPage items order limit offset lt = Some (pageOf (sort_by (if order = ''desc'' then (\<lambda>a b. lt b a) else lt) items) limit offset)"
proof -
  have i: "i64 (offset + limit) = offset + limit"
    using assms by (intro i64_small) auto
  show ?thesis
    using assms by (auto simp: sortAndPage_def pageOf_def Let_def i nat_diff_distrib' nat_add_distrib not_le)
qed

text \<open>
  When the sum of offset and limit leaves the range of Go's \<^verbatim>\<open>int\<close>, the upper bound of the slice is
  negative and the handler panics (\<open>None\<close>), although both numbers are valid parameters.
\<close>

theorem sortAndPage_overflow_panics:
  assumes "0 < offset" "offset < int (length items)" "limit < 2 ^ 63" "2 ^ 63 \<le> offset + limit" "offset < 2 ^ 63"
  shows "sortAndPage items order limit offset lt = None"
proof -
  have i: "i64 (offset + limit) = offset + limit - 2 ^ 64"
  proof -
    have "(offset + limit + 2 ^ 63) mod 2 ^ 64 = (offset + limit + 2 ^ 63 - 2 ^ 64) mod (2 ^ 64 :: int)"
      by (metis minus_mod_self2)
    also have "\<dots> = offset + limit + 2 ^ 63 - 2 ^ 64"
      using assms by (intro mod_pos_pos_trivial) auto
    finally show ?thesis by (simp add: i64_def)
  qed
  show ?thesis
    using assms by (auto simp: sortAndPage_def Let_def i)
qed

section \<open>CRL numbers\<close>

lemma maxCRLNumber_ge:
  "n \<le> maxCRLNumber ps dp n \<and> (\<forall>p \<in> set ps. crl_DistributionPoint p = dp \<longrightarrow> crl_CRLNumber p \<le> maxCRLNumber ps dp n)"
  by (induction ps dp n rule: maxCRLNumber.induct) (auto split: if_splits)

lemma maxCRLNumber_mem:
  "maxCRLNumber ps dp n = n \<or> (\<exists>p \<in> set ps. crl_DistributionPoint p = dp \<and> crl_CRLNumber p = maxCRLNumber ps dp n)"
  by (induction ps dp n rule: maxCRLNumber.induct) (auto split: if_splits)

section \<open>Patterns\<close>

text \<open>What one pattern admits: the name itself, or any name below the wildcard's domain.\<close>

definition patternAdmits :: "string \<Rightarrow> string \<Rightarrow> bool" where
  "patternAdmits name p \<longleftrightarrow>
     (let pattern = ToLower (TrimSpace p) in
      name = pattern \<or> (\<exists>dom label. pattern = CHR ''*'' # CHR ''.'' # dom \<and> label \<noteq> [] \<and> name = label @ CHR ''.'' # dom))"

lemma ToLower_Nil_iff [simp]: "ToLower s = [] \<longleftrightarrow> s = []"
  by (simp add: ToLower_def)

lemma wildcard_match:
  "HasPrefix pattern ''*.'' \<and> HasSuffix name (TrimPrefix pattern ''*'') \<and> length name > length (TrimPrefix pattern ''*'')
   \<longleftrightarrow> (\<exists>dom label. pattern = CHR ''*'' # CHR ''.'' # dom \<and> label \<noteq> [] \<and> name = label @ CHR ''.'' # dom)"
  by (auto simp: HasPrefix_append HasSuffix_append TrimPrefix_def)

lemma dnsPatternLoop_iff:
  "dnsPatternLoop name ps \<longleftrightarrow> (\<exists>p \<in> set (takeWhile (\<lambda>p. \<not> isBlank p) ps). patternAdmits name p)"
proof (induction ps)
  case (Cons p ps)
  then show ?case
    using wildcard_match[of "ToLower (TrimSpace p)" name]
    by (auto simp: Let_def patternAdmits_def isBlank_def)
qed simp

text \<open>
  A DNS name is allowed by a profile exactly when the profile has no patterns, or the trimmed lower-case name is
  admitted by a pattern: it is the pattern, or the pattern is \<^verbatim>\<open>*.domain\<close> and the name has at least
  one character before \<^verbatim>\<open>.domain\<close>. Patterns after a blank one do not count.
\<close>

theorem dnsAllowedByProfile_iff:
  "dnsAllowedByProfile name ps \<longleftrightarrow>
     ps = [] \<or> \<not> isBlank name \<and>
       (\<exists>p \<in> set (takeWhile (\<lambda>p. \<not> isBlank p) ps). patternAdmits (ToLower (TrimSpace name)) p)"
  by (auto simp: dnsAllowedByProfile_def dnsPatternLoop_iff isBlank_def Let_def)

lemma validateEnrollmentProfilePolicy_Inr:
  assumes "validateEnrollmentProfilePolicy req profile csrInfo now = Inr u" "prof_ID profile \<noteq> []"
  shows "(\<forall>d \<in> set (cer_RequestedDNSNames req). dnsAllowedByProfile d (prof_AllowedDNSPatterns profile))"
    "(\<forall>a \<in> set (cer_RequestedIPAddresses req). ipAllowedByProfile a (prof_AllowedIPRanges profile))"
    "prof_ValidityPeriodSeconds profile > 0 \<Longrightarrow>
       cer_RequestedNotAfter req \<le> now + secondsDuration (prof_ValidityPeriodSeconds profile)"
    "prof_MinKeySizeBits profile > 0 \<Longrightarrow> prof_MinKeySizeBits profile \<le> csr_PublicKeySizeBits csrInfo"
    "prof_AllowedKeyAlgorithms profile \<noteq> [] \<Longrightarrow>
       stringInList (normalizeAlgorithm (csr_PublicKeyAlgorithm csrInfo)) (prof_AllowedKeyAlgorithms profile)"
    "validateCSRPolicy req profile csrInfo = Inr ()"
  using assms unfolding validateEnrollmentProfilePolicy_def by (auto split: sum.splits if_splits)

section \<open>Instances\<close>

theorem publicTLS_profile_within_ceiling_witness:
  "validateCreateCertificateProfileRequest (longProfile\<lparr>cpr_ValidityPeriodSeconds := 86400\<rparr>) 1 0 = Inr () \<and>
   86400 * Second \<le> publicTLSValidityCeiling 1 0"
proof -
  have ok: "validateCreateCertificateProfileRequest (longProfile\<lparr>cpr_ValidityPeriodSeconds := 86400\<rparr>) 1 0 = Inr ()"
    by (simp add: validateCreateCertificateProfileRequest_def longProfile_def isBlank_letter ceiling_schedule secondsDuration_exact
        validateCertificateProfileExtensionCombination_def zero_StringListExtensionPolicy_def unix_time_def
        zero_BasicConstraintsPolicy_def Hour_def Minute_def Second_def)
  from publicTLS_profile_within_ceiling[OF ok] show ?thesis using ok by (simp add: longProfile_def)
qed

theorem sortAndPage_overflow_panics_witness:
  "sortAndPage [3, 1, 2 :: int] ''asc'' 9223372036854775807 1 (<) = None"
  by (rule sortAndPage_overflow_panics) simp_all

end
