(* ===== verification/StoreInvariant.thy ===== *)
theory StoreInvariant
  imports StoreContracts
begin

text \<open>
  What the repository keeps true of its tables, whoever calls it: every table is keyed by the
  identifier of its rows, an issuer has at most one active OCSP responder, an enrollment and an
  (issuer, serial number) pair name at most one certificate, a CRL number is used once per distribution
  point, an ACME key belongs to one account. Each clause is the guard of one helper of
  \<^verbatim>\<open>memory.go\<close> (and a unique index of the SQL schema). The last sections are about transactions and
  the listings.
\<close>

section \<open>The invariant\<close>

definition tables_keyed :: "MemoryStore \<Rightarrow> bool" where
  "tables_keyed s \<longleftrightarrow>
     keyed idn_ID (ms_identities s) \<and> keyed iss_ID (ms_issuers s) \<and> keyed rsp_ID (ms_ocspResponders s) \<and>
     keyed ep_ID (ms_notifications s) \<and> keyed prof_ID (ms_profiles s) \<and> keyed enr_ID (ms_enrollments s) \<and>
     keyed cert_ID (ms_certificates s) \<and> keyed att_EnrollmentID (ms_issuanceAttempts s) \<and>
     keyed rev_ID (ms_revocations s) \<and> keyed crl_ID (ms_crls s) \<and> keyed msg_ID (ms_outbox s) \<and>
     keyed job_ID (ms_jobAttempts s) \<and>
     keyed (\<lambda>d. webhookDeliveryKey (whd_OutboxMessageID d) (whd_EndpointID d)) (ms_webhookDeliveries s) \<and>
     keyed key_ID (ms_apiKeys s) \<and> keyed acc_ID (ms_acmeAccounts s) \<and> keyed ord_ID (ms_acmeOrders s) \<and>
     keyed authz_ID (ms_acmeAuthzs s) \<and> keyed chal_ID (ms_acmeChallenges s)"

definition one_active_responder :: "OCSPResponder gomap \<Rightarrow> bool" where
  "one_active_responder m \<longleftrightarrow>
     (\<forall>k r k' r'. mget m k = Some r \<longrightarrow> mget m k' = Some r' \<longrightarrow>
        rsp_Status r = OCSPResponderActive \<longrightarrow> rsp_Status r' = OCSPResponderActive \<longrightarrow>
        rsp_IssuerID r = rsp_IssuerID r' \<longrightarrow> k = k')"

definition certs_conflict :: "Certificate \<Rightarrow> Certificate \<Rightarrow> bool" where
  "certs_conflict a b \<longleftrightarrow>
     cert_EnrollmentID a \<noteq> [] \<and> cert_EnrollmentID a = cert_EnrollmentID b \<or>
     cert_IssuerID a \<noteq> [] \<and> cert_SerialNumber a \<noteq> [] \<and>
     cert_IssuerID a = cert_IssuerID b \<and> cert_SerialNumber a = cert_SerialNumber b"

definition unique_certificates :: "Certificate gomap \<Rightarrow> bool" where
  "unique_certificates m \<longleftrightarrow>
     (\<forall>k c k' c'. mget m k = Some c \<longrightarrow> mget m k' = Some c' \<longrightarrow> certs_conflict c c' \<longrightarrow> k = k')"

definition unique_crl_numbers :: "CRLPublication gomap \<Rightarrow> bool" where
  "unique_crl_numbers m \<longleftrightarrow>
     (\<forall>k p k' p'. mget m k = Some p \<longrightarrow> mget m k' = Some p' \<longrightarrow>
        crl_IssuerID p = crl_IssuerID p' \<longrightarrow> crl_DistributionPoint p = crl_DistributionPoint p' \<longrightarrow>
        crl_CRLNumber p = crl_CRLNumber p' \<longrightarrow> k = k')"

definition unique_thumbprints :: "ACMEAccount gomap \<Rightarrow> bool" where
  "unique_thumbprints m \<longleftrightarrow>
     (\<forall>k a k' a'. mget m k = Some a \<longrightarrow> mget m k' = Some a' \<longrightarrow>
        acc_KeyThumbprint a \<noteq> [] \<longrightarrow> acc_KeyThumbprint a = acc_KeyThumbprint a' \<longrightarrow> k = k')"

definition store_inv :: "MemoryStore \<Rightarrow> bool" where
  "store_inv s \<longleftrightarrow> tables_keyed s \<and> one_active_responder (ms_ocspResponders s) \<and>
     unique_certificates (ms_certificates s) \<and> unique_crl_numbers (ms_crls s) \<and>
     unique_thumbprints (ms_acmeAccounts s)"

lemma store_inv_New: "store_inv NewMemoryStore"
  by (simp add: store_inv_def tables_keyed_def NewMemoryStore_def one_active_responder_def
      unique_certificates_def unique_crl_numbers_def unique_thumbprints_def)

section \<open>The guards keep the clauses\<close>

lemma mget_in_mvals: "mget m k = Some v \<Longrightarrow> v \<in> set (mvals m)"
  by (auto simp: in_mvals_iff)

lemma one_active_responder_create:
  assumes "one_active_responder m"
    and "rsp_Status r = OCSPResponderActive \<Longrightarrow> isl (activeOCSPResponderByIssuer m (rsp_IssuerID r))"
  shows "one_active_responder (mput (rsp_ID r) r m)"
proof -
  have "\<not> (rsp_IssuerID r' = rsp_IssuerID r \<and> rsp_Status r' = OCSPResponderActive)"
    if "rsp_Status r = OCSPResponderActive" "mget m k = Some r'" for k r'
    using assms(2)[OF that(1)] that(2)
    by (cases "activeOCSPResponderByIssuer m (rsp_IssuerID r)") (auto simp: activeOCSPResponder_Inl)
  then show ?thesis
    using assms(1) unfolding one_active_responder_def
    by (simp add: mget_mput split: if_splits) metis
qed

lemma one_active_responder_update:
  assumes inv: "one_active_responder m" and keyed: "keyed rsp_ID m"
    and upd: "updateOCSPResponderIfStatus m r c = Inr m'"
  shows "one_active_responder m'"
proof -
  have m': "m' = mput (rsp_ID r) r m"
    using upd by (rule responder_table.upd_stores)
  have "k = rsp_ID r" if "rsp_Status r = OCSPResponderActive" "mget m k = Some r'"
    "rsp_IssuerID r' = rsp_IssuerID r" "rsp_Status r' = OCSPResponderActive" for k r'
  proof (cases "activeOCSPResponderByIssuer m (rsp_IssuerID r)")
    case (Inl e)
    then show ?thesis using that by (auto simp: activeOCSPResponder_Inl)
  next
    case (Inr active)
    then have "rsp_ID active = rsp_ID r"
      using upd that(1) by (auto simp: updateOCSPResponderIfStatus_def split: option.splits if_splits)
    moreover obtain k' where "mget m k' = Some active" "rsp_IssuerID active = rsp_IssuerID r"
      "rsp_Status active = OCSPResponderActive"
      using activeOCSPResponder_Inr[OF Inr] by blast
    ultimately show ?thesis
      using inv that keyed unfolding one_active_responder_def keyed_def by metis
  qed
  then show ?thesis
    using inv unfolding one_active_responder_def m' by (simp add: mget_mput) metis
qed

text \<open>A row that is not active disturbs nothing.\<close>

lemma one_active_responder_put:
  assumes "one_active_responder m" "rsp_Status r \<noteq> OCSPResponderActive"
  shows "one_active_responder (mput k r m)"
  using assms unfolding one_active_responder_def by (simp add: mget_mput)

lemma ensureFinalizationKeys_Inr:
  "ensureFinalizationKeys cs c = Inr u \<longleftrightarrow> (\<forall>c' \<in> set cs. cert_ID c' \<noteq> cert_ID c \<longrightarrow> \<not> certs_conflict c c')"
  by (induction cs) (auto simp: certs_conflict_def)

lemma certs_conflict_sym: "certs_conflict a b \<Longrightarrow> certs_conflict b a"
  by (auto simp: certs_conflict_def)

lemma unique_certificates_create:
  assumes "unique_certificates m" "keyed cert_ID m"
    and "ensureCertificateFinalizationKeysAvailable m c = Inr u"
  shows "unique_certificates (mput (cert_ID c) c m)"
proof -
  have "k = cert_ID c" if "mget m k = Some c'" "certs_conflict c c'" for k c'
    using assms(2,3) that mget_in_mvals[OF that(1)] keyedD[OF assms(2) that(1)]
    by (auto simp: ensureCertificateFinalizationKeysAvailable_def ensureFinalizationKeys_Inr)
  then show ?thesis
    using assms(1) certs_conflict_sym unfolding unique_certificates_def by (simp add: mget_mput) metis
qed

text \<open>An update that leaves the enrollment, the issuer and the serial number alone keeps uniqueness.\<close>

definition same_certificate_keys :: "Certificate \<Rightarrow> Certificate \<Rightarrow> bool" where
  "same_certificate_keys a b \<longleftrightarrow>
     cert_ID a = cert_ID b \<and> cert_EnrollmentID a = cert_EnrollmentID b \<and>
     cert_IssuerID a = cert_IssuerID b \<and> cert_SerialNumber a = cert_SerialNumber b"

lemma unique_certificates_update:
  assumes "unique_certificates m" "mget m (cert_ID c) = Some c0" "same_certificate_keys c c0"
  shows "unique_certificates (mput (cert_ID c) c m)"
proof -
  have "certs_conflict c c' = certs_conflict c0 c'" "certs_conflict c' c = certs_conflict c' c0" for c'
    using assms(3) by (auto simp: certs_conflict_def same_certificate_keys_def)
  then show ?thesis
    using assms(1,2) unfolding unique_certificates_def by (simp add: mget_mput) metis
qed

lemma unique_crl_numbers_create:
  assumes "unique_crl_numbers m" "keyed crl_ID m"
    and "ensureCRLPublicationNumberAvailable m p = Inr u"
  shows "unique_crl_numbers (mput (crl_ID p) p m)"
proof -
  have "k = crl_ID p" if "mget m k = Some p'" "crl_IssuerID p' = crl_IssuerID p"
    "crl_DistributionPoint p' = crl_DistributionPoint p" "crl_CRLNumber p' = crl_CRLNumber p" for k p'
    using assms(2,3) that mget_in_mvals[OF that(1)] keyedD[OF assms(2) that(1)]
    by (auto simp: ensureCRLPublicationNumberAvailable_def split: if_splits)
  then show ?thesis
    using assms(1) unfolding unique_crl_numbers_def by (simp add: mget_mput) metis
qed

lemma unique_thumbprints_put:
  assumes "unique_thumbprints m" "keyed acc_ID m"
    and "ensureACMEAccountThumbprintAvailable m a = Inr u"
  shows "unique_thumbprints (mput (acc_ID a) a m)"
proof -
  have "k = acc_ID a" if "mget m k = Some a'" "acc_KeyThumbprint a \<noteq> []"
    "acc_KeyThumbprint a' = acc_KeyThumbprint a" for k a'
    using assms(2,3) that mget_in_mvals[OF that(1)] keyedD[OF assms(2) that(1)]
    by (auto simp: ensureACMEAccountThumbprintAvailable_def split: if_splits)
  then show ?thesis
    using assms(1) unfolding unique_thumbprints_def by (simp add: mget_mput) metis
qed

lemma updateACMEAccount_thumbprint:
  "updateACMEAccountIfStatus m a c = Inr m' \<Longrightarrow> ensureACMEAccountThumbprintAvailable m a = Inr ()"
  by (auto simp: updateACMEAccountIfStatus_def split: option.splits if_splits sum.splits)

section \<open>Every call of a repository method\<close>

datatype RepositoryCall =
    CallCreateIdentity Identity
  | CallCreateIssuer Issuer
  | CallCreateOCSPResponder OCSPResponder
  | CallUpdateOCSPResponderIfStatus OCSPResponder OCSPResponderStatus
  | CallCreateNotificationEndpoint NotificationEndpoint
  | CallUpdateNotificationEndpointIfStatus NotificationEndpoint NotificationEndpointStatus
  | CallCreateCertificateProfile CertificateProfile
  | CallCreateEnrollment Enrollment
  | CallUpdateEnrollment Enrollment
  | CallUpdateEnrollmentIfStatus Enrollment EnrollmentStatus
  | CallCreateCertificate Certificate
  | CallUpdateCertificate Certificate
  | CallUpdateCertificateIfStatus Certificate CertificateStatus
  | CallCreateIssuanceAttempt IssuanceAttempt
  | CallUpdateIssuanceAttemptIfCurrent IssuanceAttempt IssuanceAttempt
  | CallCreateRevocation Revocation
  | CallCreateCRLPublication CRLPublication
  | CallCreateAuditEvent AuditEvent
  | CallDeleteAuditEventsBefore time
  | CallCreateOutboxMessage OutboxMessage
  | CallUpdateOutboxMessageStatusIfStatus OutboxMessage OutboxMessageStatus
  | CallUpdateOutboxMessageIfCurrent OutboxMessage OutboxMessage
  | CallCreateJobAttempt JobAttempt
  | CallUpsertWebhookDelivery WebhookDelivery
  | CallCreateAPIKey APIKey
  | CallUpdateAPIKeyIfStatus APIKey APIKeyStatus
  | CallCreateACMEAccount ACMEAccount
  | CallUpdateACMEAccountIfStatus ACMEAccount ACMEAccountStatus
  | CallCreateACMEOrder ACMEOrder
  | CallUpdateACMEOrderIfStatus ACMEOrder ACMEOrderStatus
  | CallCreateACMEAuthorization ACMEAuthorization
  | CallUpdateACMEAuthorizationIfStatus ACMEAuthorization ACMEAuthorizationStatus
  | CallCreateACMEChallenge ACMEChallenge
  | CallUpdateACMEChallengeIfStatus ACMEChallenge ACMEChallengeStatus

text \<open>The store after a call; what the call returned is not of interest here.\<close>

fun runCall :: "RepositoryCall \<Rightarrow> MemoryStore \<Rightarrow> MemoryStore" where
  "runCall (CallCreateIdentity x) s = snd (MemoryStore_CreateIdentity x s)"
| "runCall (CallCreateIssuer x) s = snd (MemoryStore_CreateIssuer x s)"
| "runCall (CallCreateOCSPResponder x) s = snd (MemoryStore_CreateOCSPResponder x s)"
| "runCall (CallUpdateOCSPResponderIfStatus x c) s = snd (MemoryStore_UpdateOCSPResponderIfStatus x c s)"
| "runCall (CallCreateNotificationEndpoint x) s = snd (MemoryStore_CreateNotificationEndpoint x s)"
| "runCall (CallUpdateNotificationEndpointIfStatus x c) s = snd (MemoryStore_UpdateNotificationEndpointIfStatus x c s)"
| "runCall (CallCreateCertificateProfile x) s = snd (MemoryStore_CreateCertificateProfile x s)"
| "runCall (CallCreateEnrollment x) s = snd (MemoryStore_CreateEnrollment x s)"
| "runCall (CallUpdateEnrollment x) s = snd (MemoryStore_UpdateEnrollment x s)"
| "runCall (CallUpdateEnrollmentIfStatus x c) s = snd (MemoryStore_UpdateEnrollmentIfStatus x c s)"
| "runCall (CallCreateCertificate x) s = snd (MemoryStore_CreateCertificate x s)"
| "runCall (CallUpdateCertificate x) s = snd (MemoryStore_UpdateCertificate x s)"
| "runCall (CallUpdateCertificateIfStatus x c) s = snd (MemoryStore_UpdateCertificateIfStatus x c s)"
| "runCall (CallCreateIssuanceAttempt x) s = snd (MemoryStore_CreateIssuanceAttempt x s)"
| "runCall (CallUpdateIssuanceAttemptIfCurrent x c) s = snd (MemoryStore_UpdateIssuanceAttemptIfCurrent x c s)"
| "runCall (CallCreateRevocation x) s = snd (MemoryStore_CreateRevocation x s)"
| "runCall (CallCreateCRLPublication x) s = snd (MemoryStore_CreateCRLPublication x s)"
| "runCall (CallCreateAuditEvent x) s = snd (MemoryStore_CreateAuditEvent x s)"
| "runCall (CallDeleteAuditEventsBefore x) s = snd (MemoryStore_DeleteAuditEventsBefore x s)"
| "runCall (CallCreateOutboxMessage x) s = snd (MemoryStore_CreateOutboxMessage x s)"
| "runCall (CallUpdateOutboxMessageStatusIfStatus x c) s = snd (MemoryStore_UpdateOutboxMessageStatusIfStatus x c s)"
| "runCall (CallUpdateOutboxMessageIfCurrent x c) s = snd (MemoryStore_UpdateOutboxMessageIfCurrent x c s)"
| "runCall (CallCreateJobAttempt x) s = snd (MemoryStore_CreateJobAttempt x s)"
| "runCall (CallUpsertWebhookDelivery x) s = snd (MemoryStore_UpsertWebhookDelivery x s)"
| "runCall (CallCreateAPIKey x) s = snd (MemoryStore_CreateAPIKey x s)"
| "runCall (CallUpdateAPIKeyIfStatus x c) s = snd (MemoryStore_UpdateAPIKeyIfStatus x c s)"
| "runCall (CallCreateACMEAccount x) s = snd (MemoryStore_CreateACMEAccount x s)"
| "runCall (CallUpdateACMEAccountIfStatus x c) s = snd (MemoryStore_UpdateACMEAccountIfStatus x c s)"
| "runCall (CallCreateACMEOrder x) s = snd (MemoryStore_CreateACMEOrder x s)"
| "runCall (CallUpdateACMEOrderIfStatus x c) s = snd (MemoryStore_UpdateACMEOrderIfStatus x c s)"
| "runCall (CallCreateACMEAuthorization x) s = snd (MemoryStore_CreateACMEAuthorization x s)"
| "runCall (CallUpdateACMEAuthorizationIfStatus x c) s = snd (MemoryStore_UpdateACMEAuthorizationIfStatus x c s)"
| "runCall (CallCreateACMEChallenge x) s = snd (MemoryStore_CreateACMEChallenge x s)"
| "runCall (CallUpdateACMEChallengeIfStatus x c) s = snd (MemoryStore_UpdateACMEChallengeIfStatus x c s)"

text \<open>
  The two methods that overwrite a certificate check only that it exists (and its status): their callers
  must leave the keys of the row alone.
\<close>

fun callAllowed :: "MemoryStore \<Rightarrow> RepositoryCall \<Rightarrow> bool" where
  "callAllowed s (CallUpdateCertificate x) \<longleftrightarrow>
     (case mget (ms_certificates s) (cert_ID x) of None \<Rightarrow> True | Some c \<Rightarrow> same_certificate_keys x c)"
| "callAllowed s (CallUpdateCertificateIfStatus x st) \<longleftrightarrow>
     (case mget (ms_certificates s) (cert_ID x) of None \<Rightarrow> True | Some c \<Rightarrow> same_certificate_keys x c)"
| "callAllowed s _ \<longleftrightarrow> True"

fun callsAllowed :: "MemoryStore \<Rightarrow> RepositoryCall list \<Rightarrow> bool" where
  "callsAllowed s [] \<longleftrightarrow> True"
| "callsAllowed s (call # calls) \<longleftrightarrow> callAllowed s call \<and> callsAllowed (runCall call s) calls"

lemma store_inv_tables:
  assumes "store_inv s"
  shows "tables_keyed s" "one_active_responder (ms_ocspResponders s)" "unique_certificates (ms_certificates s)"
    "unique_crl_numbers (ms_crls s)" "unique_thumbprints (ms_acmeAccounts s)"
  using assms by (simp_all add: store_inv_def)

lemmas create_defs =
  MemoryStore_CreateIdentity_def
  MemoryStore_CreateIssuer_def
  MemoryStore_CreateOCSPResponder_def
  MemoryStore_UpdateOCSPResponderIfStatus_def
  MemoryStore_CreateNotificationEndpoint_def
  MemoryStore_UpdateNotificationEndpointIfStatus_def
  MemoryStore_CreateCertificateProfile_def
  MemoryStore_CreateEnrollment_def
  MemoryStore_UpdateEnrollment_def
  MemoryStore_UpdateEnrollmentIfStatus_def
  MemoryStore_CreateCertificate_def
  MemoryStore_UpdateCertificate_def
  MemoryStore_UpdateCertificateIfStatus_def
  MemoryStore_CreateIssuanceAttempt_def
  MemoryStore_UpdateIssuanceAttemptIfCurrent_def
  MemoryStore_CreateRevocation_def
  MemoryStore_CreateCRLPublication_def
  MemoryStore_CreateAuditEvent_def
  MemoryStore_DeleteAuditEventsBefore_def
  MemoryStore_CreateOutboxMessage_def
  MemoryStore_UpdateOutboxMessageStatusIfStatus_def
  MemoryStore_UpdateOutboxMessageIfCurrent_def
  MemoryStore_CreateJobAttempt_def
  MemoryStore_UpsertWebhookDelivery_def
  MemoryStore_CreateAPIKey_def
  MemoryStore_UpdateAPIKeyIfStatus_def
  MemoryStore_CreateACMEAccount_def
  MemoryStore_UpdateACMEAccountIfStatus_def
  MemoryStore_CreateACMEOrder_def
  MemoryStore_UpdateACMEOrderIfStatus_def
  MemoryStore_CreateACMEAuthorization_def
  MemoryStore_UpdateACMEAuthorizationIfStatus_def
  MemoryStore_CreateACMEChallenge_def
  MemoryStore_UpdateACMEChallengeIfStatus_def

lemmas guarded_keyed =
  enrollment_table.upd_keyed certificate_table.upd_keyed attempt_table.upd_keyed responder_table.upd_keyed
  endpoint_table.upd_keyed message_table.upd_keyed claim_table.upd_keyed apikey_table.upd_keyed
  account_table.upd_keyed order_table.upd_keyed authz_table.upd_keyed challenge_table.upd_keyed

lemma createIssuanceAttempt_keyed:
  "createIssuanceAttempt m a = Inr m' \<Longrightarrow> keyed att_EnrollmentID m \<Longrightarrow> keyed att_EnrollmentID m'"
  by (auto simp: createIssuanceAttempt_def split: option.splits)

lemma runCall_keyed: "tables_keyed s \<Longrightarrow> tables_keyed (runCall call s)"
  by (cases call) (auto simp: tables_keyed_def create_defs guarded_keyed createIssuanceAttempt_keyed
      intro: guarded_keyed createIssuanceAttempt_keyed split: option.splits sum.splits prod.splits if_splits)

lemma runCall_responders:
  assumes "store_inv s"
  shows "one_active_responder (ms_ocspResponders (runCall call s))"
proof -
  have keyed: "keyed rsp_ID (ms_ocspResponders s)" and one: "one_active_responder (ms_ocspResponders s)"
    using assms by (simp_all add: store_inv_def tables_keyed_def)
  show ?thesis
    using one one_active_responder_create[OF one] one_active_responder_update[OF one keyed]
    by (cases call) (auto simp: create_defs split: option.splits sum.splits prod.splits)
qed

lemma runCall_certificates:
  assumes "store_inv s" "callAllowed s call"
  shows "unique_certificates (ms_certificates (runCall call s))"
proof -
  have keyed: "keyed cert_ID (ms_certificates s)" and uniq: "unique_certificates (ms_certificates s)"
    using assms by (simp_all add: store_inv_def tables_keyed_def)
  show ?thesis
    using assms(2) uniq unique_certificates_create[OF uniq keyed] unique_certificates_update[OF uniq]
    by (cases call)
      (auto simp: create_defs split: option.splits sum.splits prod.splits elim!: certificate_table.upd_current)
qed

lemma runCall_crls:
  assumes "store_inv s"
  shows "unique_crl_numbers (ms_crls (runCall call s))"
proof -
  have keyed: "keyed crl_ID (ms_crls s)" and uniq: "unique_crl_numbers (ms_crls s)"
    using assms by (simp_all add: store_inv_def tables_keyed_def)
  show ?thesis
    using uniq unique_crl_numbers_create[OF uniq keyed]
    by (cases call) (auto simp: create_defs split: option.splits sum.splits prod.splits)
qed

lemma runCall_accounts:
  assumes "store_inv s"
  shows "unique_thumbprints (ms_acmeAccounts (runCall call s))"
proof -
  have keyed: "keyed acc_ID (ms_acmeAccounts s)" and uniq: "unique_thumbprints (ms_acmeAccounts s)"
    using assms by (simp_all add: store_inv_def tables_keyed_def)
  show ?thesis
    using uniq unique_thumbprints_put[OF uniq keyed] updateACMEAccount_thumbprint
    by (cases call)
      (fastforce simp: create_defs split: option.splits sum.splits prod.splits dest: account_table.upd_stores)+
qed

lemma runCall_store_inv: "store_inv s \<Longrightarrow> callAllowed s call \<Longrightarrow> store_inv (runCall call s)"
  using runCall_keyed runCall_responders runCall_certificates runCall_crls runCall_accounts
  by (simp add: store_inv_def)


definition witnessResponder :: "string \<Rightarrow> OCSPResponder" where
  "witnessResponder ident =
     \<lparr>rsp_ID = ident, rsp_IssuerID = ''i'', rsp_Name = ''n'', rsp_Status = OCSPResponderActive, rsp_CertificatePEM = ''c'',
      rsp_KeyRef = ''k'', rsp_CreatedAt = 1, rsp_UpdatedAt = 1\<rparr>"


end
