(* ===== verification/Lifecycle.thy ===== *)
theory Lifecycle
  imports AuditTrail StoreInvariant
begin

text \<open>
  The state machines of \<^verbatim>\<open>docs/reference/state-transitions.md\<close> as the abstract specification of the
  service. For every kind of row there is the relation on its status (\<open>enrollmentNext\<close>, ...), the
  part of the row that never changes (\<open>enrollmentCore\<close>, ...) and the step they allow; a store \<open>evolves\<close>
  into another when every row of the first is still there and has only taken such steps, the
  registers (identities, issuers, profiles, revocations, CRLs, job attempts) have only grown. Every
  operation of the service is proved to make the store evolve; the step relations are the contract, the
  operations the implementation.

  The machines differ from the document where the code does: an attempt may go from \<open>signed\<close> to
  \<open>failed\<close>, a failed delivery goes back to \<open>pending\<close>, and a challenge may go straight from \<open>pending\<close> to
  \<open>valid\<close>.
\<close>

section \<open>Tables of rows that take steps\<close>

definition table_evolves :: "('v \<Rightarrow> 'v \<Rightarrow> bool) \<Rightarrow> 'v gomap \<Rightarrow> 'v gomap \<Rightarrow> bool" where
  "table_evolves step m m' \<longleftrightarrow>
     (\<forall>k v. mget m k = Some v \<longrightarrow> (\<exists>v'. mget m' k = Some v' \<and> step\<^sup>*\<^sup>* v v'))"

lemma table_evolves_refl [simp, intro]: "table_evolves step m m"
  by (auto simp: table_evolves_def)

lemma table_evolves_trans:
  "table_evolves step m m' \<Longrightarrow> table_evolves step m' m'' \<Longrightarrow> table_evolves step m m''"
  unfolding table_evolves_def by (meson rtranclp_trans)

lemma table_evolves_mput:
  assumes "\<And>v. mget m k = Some v \<Longrightarrow> step v v'"
  shows "table_evolves step m (mput k v' m)"
  using assms by (auto simp: table_evolves_def mget_mput)

lemma table_evolves_fresh: "mget m k = None \<Longrightarrow> table_evolves step m (mput k v' m)"
  by (rule table_evolves_mput) simp

lemma table_evolves_keyed_mput:
  assumes "keyed key m" "mget m i = Some v" "step v v'" "key v = k"
  shows "table_evolves step m (mput k v' m)"
  using assms by (intro table_evolves_mput) (auto simp: keyed_def)

text \<open>A row replaced by one that took a step.\<close>

lemma put_step:
  assumes "keyed key m" "mget m i = Some v" "step v v'" "key v' = key v"
  shows "table_evolves step m (mput (key v) v' m)" "keyed key (mput (key v) v' m)"
    "dom (mget (mput (key v) v' m)) = dom (mget m)"
proof -
  have i: "key v = i" using assms(1,2) by (simp add: keyed_def)
  show "table_evolves step m (mput (key v) v' m)"
    using assms by (rule_tac table_evolves_keyed_mput) auto
  show "keyed key (mput (key v) v' m)" using assms by auto
  show "dom (mget (mput (key v) v' m)) = dom (mget m)"
    using assms(2) unfolding i by (auto simp: mget_mput split: if_splits)
qed

lemma table_evolves_get:
  assumes "table_evolves step m m'" "mget m k = Some v"
  obtains v' where "mget m' k = Some v'" "step\<^sup>*\<^sup>* v v'"
  using assms by (auto simp: table_evolves_def)

text \<open>A function that every step preserves is preserved by evolution.\<close>

lemma rtranclp_preserves:
  assumes "r\<^sup>*\<^sup>* a b" "\<And>x y. r x y \<Longrightarrow> f x = f y"
  shows "f a = f b"
  using assms(1) by (induction) (use assms(2) in auto)

section \<open>The machines\<close>

fun enrollmentNext :: "EnrollmentStatus \<Rightarrow> EnrollmentStatus \<Rightarrow> bool" where
  "enrollmentNext EnrollmentPending EnrollmentApproved \<longleftrightarrow> True"
| "enrollmentNext EnrollmentPending EnrollmentRejected \<longleftrightarrow> True"
| "enrollmentNext EnrollmentApproved EnrollmentIssued \<longleftrightarrow> True"
| "enrollmentNext _ _ \<longleftrightarrow> False"

definition enrollmentCore :: "Enrollment \<Rightarrow> Enrollment" where
  "enrollmentCore x = x\<lparr>enr_Status := EnrollmentStatusOther [], enr_ApprovedBy := [], enr_ApprovedAt := time_zero, enr_UpdatedAt := time_zero\<rparr>"

definition enrollmentStep :: "Enrollment \<Rightarrow> Enrollment \<Rightarrow> bool" where
  "enrollmentStep x y \<longleftrightarrow>
     enrollmentCore x = enrollmentCore y \<and> (enr_Status x = enr_Status y \<or> enrollmentNext (enr_Status x) (enr_Status y))"

fun certificateNext :: "CertificateStatus \<Rightarrow> CertificateStatus \<Rightarrow> bool" where
  "certificateNext CertificateValid CertificateSuspended \<longleftrightarrow> True"
| "certificateNext CertificateSuspended CertificateValid \<longleftrightarrow> True"
| "certificateNext CertificateValid CertificateRevoked \<longleftrightarrow> True"
| "certificateNext CertificateSuspended CertificateRevoked \<longleftrightarrow> True"
| "certificateNext CertificateValid CertificateExpired \<longleftrightarrow> True"
| "certificateNext CertificateSuspended CertificateExpired \<longleftrightarrow> True"
| "certificateNext _ _ \<longleftrightarrow> False"

definition certificateCore :: "Certificate \<Rightarrow> Certificate" where
  "certificateCore x = x\<lparr>cert_Status := CertificateStatusOther [], cert_RenewalNotifiedAt := time_zero, cert_UpdatedAt := time_zero\<rparr>"

definition certificateStep :: "Certificate \<Rightarrow> Certificate \<Rightarrow> bool" where
  "certificateStep x y \<longleftrightarrow>
     certificateCore x = certificateCore y \<and> (cert_Status x = cert_Status y \<or> certificateNext (cert_Status x) (cert_Status y))"

fun responderNext :: "OCSPResponderStatus \<Rightarrow> OCSPResponderStatus \<Rightarrow> bool" where
  "responderNext OCSPResponderActive OCSPResponderDisabled \<longleftrightarrow> True"
| "responderNext _ _ \<longleftrightarrow> False"

definition responderCore :: "OCSPResponder \<Rightarrow> OCSPResponder" where
  "responderCore x = x\<lparr>rsp_Status := OCSPResponderStatusOther [], rsp_UpdatedAt := time_zero\<rparr>"

definition responderStep :: "OCSPResponder \<Rightarrow> OCSPResponder \<Rightarrow> bool" where
  "responderStep x y \<longleftrightarrow>
     responderCore x = responderCore y \<and> (rsp_Status x = rsp_Status y \<or> responderNext (rsp_Status x) (rsp_Status y))"

fun endpointNext :: "NotificationEndpointStatus \<Rightarrow> NotificationEndpointStatus \<Rightarrow> bool" where
  "endpointNext NotificationEndpointActive NotificationEndpointDisabled \<longleftrightarrow> True"
| "endpointNext _ _ \<longleftrightarrow> False"

definition endpointCore :: "NotificationEndpoint \<Rightarrow> NotificationEndpoint" where
  "endpointCore x = x\<lparr>ep_Status := NotificationEndpointStatusOther [], ep_UpdatedAt := time_zero\<rparr>"

definition endpointStep :: "NotificationEndpoint \<Rightarrow> NotificationEndpoint \<Rightarrow> bool" where
  "endpointStep x y \<longleftrightarrow>
     endpointCore x = endpointCore y \<and> (ep_Status x = ep_Status y \<or> endpointNext (ep_Status x) (ep_Status y))"

fun messageNext :: "OutboxMessageStatus \<Rightarrow> OutboxMessageStatus \<Rightarrow> bool" where
  "messageNext OutboxPending OutboxProcessing \<longleftrightarrow> True"
| "messageNext OutboxProcessing OutboxPending \<longleftrightarrow> True"
| "messageNext OutboxProcessing OutboxCompleted \<longleftrightarrow> True"
| "messageNext OutboxProcessing OutboxDeadLetter \<longleftrightarrow> True"
| "messageNext OutboxFailed OutboxPending \<longleftrightarrow> True"
| "messageNext OutboxDeadLetter OutboxPending \<longleftrightarrow> True"
| "messageNext _ _ \<longleftrightarrow> False"

definition messageCore :: "OutboxMessage \<Rightarrow> OutboxMessage" where
  "messageCore x = x\<lparr>msg_Status := OutboxMessageStatusOther [], msg_AvailableAt := time_zero, msg_ProcessingDeadlineAt := time_zero, msg_AttemptCount := 0, msg_MaxAttempts := 0, msg_LastError := [], msg_UpdatedAt := time_zero\<rparr>"

definition messageStep :: "OutboxMessage \<Rightarrow> OutboxMessage \<Rightarrow> bool" where
  "messageStep x y \<longleftrightarrow>
     messageCore x = messageCore y \<and> (msg_Status x = msg_Status y \<or> messageNext (msg_Status x) (msg_Status y))"

fun apikeyNext :: "APIKeyStatus \<Rightarrow> APIKeyStatus \<Rightarrow> bool" where
  "apikeyNext APIKeyActive APIKeyDisabled \<longleftrightarrow> True"
| "apikeyNext _ _ \<longleftrightarrow> False"

definition apikeyCore :: "APIKey \<Rightarrow> APIKey" where
  "apikeyCore x = x\<lparr>key_Status := APIKeyStatusOther [], key_LastUsedAt := time_zero, key_UpdatedAt := time_zero\<rparr>"

definition apikeyStep :: "APIKey \<Rightarrow> APIKey \<Rightarrow> bool" where
  "apikeyStep x y \<longleftrightarrow>
     apikeyCore x = apikeyCore y \<and> (key_Status x = key_Status y \<or> apikeyNext (key_Status x) (key_Status y))"

fun accountNext :: "ACMEAccountStatus \<Rightarrow> ACMEAccountStatus \<Rightarrow> bool" where
  "accountNext ACMEAccountValid ACMEAccountDeactivated \<longleftrightarrow> True"
| "accountNext _ _ \<longleftrightarrow> False"

definition accountCore :: "ACMEAccount \<Rightarrow> ACMEAccount" where
  "accountCore x = x\<lparr>acc_Status := ACMEAccountStatusOther [], acc_Contacts := [], acc_KeyThumbprint := [], acc_KeyJWKJSON := [], acc_UpdatedAt := time_zero\<rparr>"

definition accountStep :: "ACMEAccount \<Rightarrow> ACMEAccount \<Rightarrow> bool" where
  "accountStep x y \<longleftrightarrow>
     accountCore x = accountCore y \<and> (acc_Status x = acc_Status y \<or> accountNext (acc_Status x) (acc_Status y))"

fun orderNext :: "ACMEOrderStatus \<Rightarrow> ACMEOrderStatus \<Rightarrow> bool" where
  "orderNext ACMEOrderPending ACMEOrderReady \<longleftrightarrow> True"
| "orderNext ACMEOrderReady ACMEOrderValid \<longleftrightarrow> True"
| "orderNext ACMEOrderReady ACMEOrderInvalid \<longleftrightarrow> True"
| "orderNext _ _ \<longleftrightarrow> False"

definition orderCore :: "ACMEOrder \<Rightarrow> ACMEOrder" where
  "orderCore x = x\<lparr>ord_Status := ACMEOrderStatusOther [], ord_CSRPEM := [], ord_RequestedSubject := [], ord_EnrollmentID := [], ord_CertificateID := [], ord_UpdatedAt := time_zero\<rparr>"

definition orderStep :: "ACMEOrder \<Rightarrow> ACMEOrder \<Rightarrow> bool" where
  "orderStep x y \<longleftrightarrow>
     orderCore x = orderCore y \<and> (ord_Status x = ord_Status y \<or> orderNext (ord_Status x) (ord_Status y))"

fun authzNext :: "ACMEAuthorizationStatus \<Rightarrow> ACMEAuthorizationStatus \<Rightarrow> bool" where
  "authzNext ACMEAuthorizationPending ACMEAuthorizationValid \<longleftrightarrow> True"
| "authzNext _ _ \<longleftrightarrow> False"

definition authzCore :: "ACMEAuthorization \<Rightarrow> ACMEAuthorization" where
  "authzCore x = x\<lparr>authz_Status := ACMEAuthorizationStatusOther [], authz_ValidationReuseExpiresAt := time_zero, authz_UpdatedAt := time_zero\<rparr>"

definition authzStep :: "ACMEAuthorization \<Rightarrow> ACMEAuthorization \<Rightarrow> bool" where
  "authzStep x y \<longleftrightarrow>
     authzCore x = authzCore y \<and> (authz_Status x = authz_Status y \<or> authzNext (authz_Status x) (authz_Status y))"

fun challengeNext :: "ACMEChallengeStatus \<Rightarrow> ACMEChallengeStatus \<Rightarrow> bool" where
  "challengeNext ACMEChallengePending ACMEChallengeProcessing \<longleftrightarrow> True"
| "challengeNext ACMEChallengePending ACMEChallengeValid \<longleftrightarrow> True"
| "challengeNext ACMEChallengeProcessing ACMEChallengeValid \<longleftrightarrow> True"
| "challengeNext _ _ \<longleftrightarrow> False"

definition challengeCore :: "ACMEChallenge \<Rightarrow> ACMEChallenge" where
  "challengeCore x = x\<lparr>chal_Status := ACMEChallengeStatusOther [], chal_ValidatedAt := time_zero, chal_UpdatedAt := time_zero\<rparr>"

definition challengeStep :: "ACMEChallenge \<Rightarrow> ACMEChallenge \<Rightarrow> bool" where
  "challengeStep x y \<longleftrightarrow>
     challengeCore x = challengeCore y \<and> (chal_Status x = chal_Status y \<or> challengeNext (chal_Status x) (chal_Status y))"

text \<open>
  An attempt: a signing attempt may be claimed again after its lease, and a signed one is
  finalized or marked failed. A finalized attempt never changes again.
\<close>

fun attemptNext :: "IssuanceAttemptStatus \<Rightarrow> IssuanceAttemptStatus \<Rightarrow> bool" where
  "attemptNext IssuanceAttemptSigning IssuanceAttemptSigning \<longleftrightarrow> True"
| "attemptNext IssuanceAttemptSigning IssuanceAttemptSigned \<longleftrightarrow> True"
| "attemptNext IssuanceAttemptSigned IssuanceAttemptFinalized \<longleftrightarrow> True"
| "attemptNext IssuanceAttemptSigned IssuanceAttemptFailed \<longleftrightarrow> True"
| "attemptNext IssuanceAttemptFailed IssuanceAttemptSigning \<longleftrightarrow> True"
| "attemptNext _ _ \<longleftrightarrow> False"

text \<open>What the step to \<open>finalized\<close> must not change: the signed material.\<close>

definition attemptMaterial :: "IssuanceAttempt \<Rightarrow> string \<times> string \<times> string \<times> string \<times> time \<times> time" where
  "attemptMaterial a =
     (att_CertificateID a, att_CertificatePEM a, att_SerialNumber a, att_Subject a, att_NotBefore a, att_NotAfter a)"

definition attemptStep :: "IssuanceAttempt \<Rightarrow> IssuanceAttempt \<Rightarrow> bool" where
  "attemptStep x y \<longleftrightarrow>
     att_EnrollmentID x = att_EnrollmentID y \<and> att_CreatedAt x = att_CreatedAt y \<and>
     attemptNext (att_Status x) (att_Status y) \<and>
     (att_Status y = IssuanceAttemptFinalized \<longrightarrow> attemptMaterial x = attemptMaterial y)"

section \<open>Evolution of the store\<close>

definition evolves :: "MemoryStore \<Rightarrow> MemoryStore \<Rightarrow> bool" where
  "evolves s s' \<longleftrightarrow>
     table_evolves (\<lambda>_ _. False) (ms_identities s) (ms_identities s') \<and>
     table_evolves (\<lambda>_ _. False) (ms_issuers s) (ms_issuers s') \<and>
     table_evolves (\<lambda>_ _. False) (ms_profiles s) (ms_profiles s') \<and>
     table_evolves (\<lambda>_ _. False) (ms_revocations s) (ms_revocations s') \<and>
     table_evolves (\<lambda>_ _. False) (ms_crls s) (ms_crls s') \<and>
     table_evolves (\<lambda>_ _. False) (ms_jobAttempts s) (ms_jobAttempts s') \<and>
     table_evolves enrollmentStep (ms_enrollments s) (ms_enrollments s') \<and>
     table_evolves certificateStep (ms_certificates s) (ms_certificates s') \<and>
     table_evolves responderStep (ms_ocspResponders s) (ms_ocspResponders s') \<and>
     table_evolves endpointStep (ms_notifications s) (ms_notifications s') \<and>
     table_evolves messageStep (ms_outbox s) (ms_outbox s') \<and>
     table_evolves apikeyStep (ms_apiKeys s) (ms_apiKeys s') \<and>
     table_evolves accountStep (ms_acmeAccounts s) (ms_acmeAccounts s') \<and>
     table_evolves orderStep (ms_acmeOrders s) (ms_acmeOrders s') \<and>
     table_evolves authzStep (ms_acmeAuthzs s) (ms_acmeAuthzs s') \<and>
     table_evolves challengeStep (ms_acmeChallenges s) (ms_acmeChallenges s') \<and>
     table_evolves attemptStep (ms_issuanceAttempts s) (ms_issuanceAttempts s')"

lemma evolves_refl [simp, intro]: "evolves s s"
  by (simp add: evolves_def)

lemma evolves_trans: "evolves s s' \<Longrightarrow> evolves s' s'' \<Longrightarrow> evolves s s''"
  unfolding evolves_def by (blast intro: table_evolves_trans)

lemma evolves_audit [simp]: "evolves s (s'\<lparr>ms_auditEvents := es\<rparr>) = evolves s s'"
  "evolves (s\<lparr>ms_auditEvents := es\<rparr>) s' = evolves s s'"
  by (simp_all add: evolves_def)

lemmas step_defs =
  enrollmentStep_def enrollmentCore_def
  certificateStep_def certificateCore_def
  responderStep_def responderCore_def
  endpointStep_def endpointCore_def
  messageStep_def messageCore_def
  apikeyStep_def apikeyCore_def
  accountStep_def accountCore_def
  orderStep_def orderCore_def
  authzStep_def authzCore_def
  challengeStep_def challengeCore_def

section \<open>Fresh identifiers\<close>

text \<open>
  The identifier generator returns a new string at every call (a random UUID): no two calls return
  the same one, and no identifier it has yet to return is in use. \<open>used_ids\<close> collects what is in use: the
  keys of the tables. (The certificate identifiers planned in issuance attempts are the business of
  theory \<open>Issuance\<close>.)
\<close>

definition used_ids :: "MemoryStore \<Rightarrow> string set" where
  "used_ids s =
     dom (mget (ms_identities s)) \<union> dom (mget (ms_issuers s)) \<union> dom (mget (ms_ocspResponders s)) \<union>
     dom (mget (ms_notifications s)) \<union> dom (mget (ms_profiles s)) \<union> dom (mget (ms_enrollments s)) \<union>
     dom (mget (ms_certificates s)) \<union> dom (mget (ms_revocations s)) \<union> dom (mget (ms_crls s)) \<union>
     dom (mget (ms_outbox s)) \<union> dom (mget (ms_jobAttempts s)) \<union> dom (mget (ms_apiKeys s)) \<union>
     dom (mget (ms_acmeAccounts s)) \<union> dom (mget (ms_acmeOrders s)) \<union> dom (mget (ms_acmeAuthzs s)) \<union>
     dom (mget (ms_acmeChallenges s))"

definition ids_fresh :: "Service \<Rightarrow> world \<Rightarrow> bool" where
  "ids_fresh svc w \<longleftrightarrow>
     inj (svc_idgen svc) \<and> (\<forall>n \<ge> w_ids w. svc_idgen svc n \<notin> used_ids (w_repo w) \<and> svc_idgen svc n \<noteq> [])"

lemma ids_freshD:
  assumes "ids_fresh svc w"
  shows "svc_idgen svc i = svc_idgen svc j \<longleftrightarrow> i = j"
    and "w_ids w \<le> n \<Longrightarrow> svc_idgen svc n \<notin> used_ids (w_repo w)"
    and "w_ids w \<le> n \<Longrightarrow> svc_idgen svc n \<noteq> []"
  using assms by (auto simp: ids_fresh_def inj_eq)

text \<open>A later world with the same repository, or one that uses only identifiers handed out meanwhile.\<close>

lemma ids_fresh_mono:
  assumes "ids_fresh svc w" "w_ids w \<le> w_ids w'"
    and "used_ids (w_repo w') \<subseteq> used_ids (w_repo w) \<union> svc_idgen svc ` {w_ids w..<w_ids w'}"
  shows "ids_fresh svc w'"
  unfolding ids_fresh_def
proof (intro conjI allI impI)
  show inj: "inj (svc_idgen svc)" using assms(1) by (simp add: ids_fresh_def)
  fix n assume n: "w_ids w' \<le> n"
  then have "svc_idgen svc n \<notin> used_ids (w_repo w)"
    using assms(1,2) by (simp add: ids_fresh_def)
  moreover have "svc_idgen svc n \<notin> svc_idgen svc ` {w_ids w..<w_ids w'}"
    using inj n by (auto simp: inj_eq)
  ultimately show "svc_idgen svc n \<notin> used_ids (w_repo w')"
    using assms(3) by blast
  show "svc_idgen svc n \<noteq> []"
    using assms(1,2) n by (simp add: ids_fresh_def)
qed

lemma finite_dom_mget: "finite (dom (mget m))"
proof -
  have "mget m = map_of (mentries m)" by (rule ext) (rule mget_mentries)
  then show ?thesis by (simp add: finite_dom_map_of)
qed

lemma dom_mput: "dom (mget (mput k v m)) = insert k (dom (mget m))"
  by (auto simp: mget_mput)

lemma insert_dom: "mget m k = Some v \<Longrightarrow> insert k (dom (mget m)) = dom (mget m)"
  by blast

section \<open>Sound worlds and the operations that keep them\<close>

definition sound :: "Service \<Rightarrow> world \<Rightarrow> bool" where
  "sound svc w \<longleftrightarrow> store_inv (w_repo w) \<and> ids_fresh svc w"

text \<open>\<open>advances svc m\<close>: from a sound world, whatever \<open>m\<close> returns, the store has evolved and is sound.\<close>

definition advance :: "Service \<Rightarrow> world \<Rightarrow> world \<Rightarrow> bool" where
  "advance svc w w' \<longleftrightarrow> sound svc w' \<and> evolves (w_repo w) (w_repo w') \<and> w_ids w \<le> w_ids w'"

definition advances :: "Service \<Rightarrow> 'a svc \<Rightarrow> bool" where
  "advances svc m \<longleftrightarrow> (\<forall>w. sound svc w \<longrightarrow> advance svc w (snd (m w)))"

named_theorems advances_rules \<open>syntax-directed rules for \<open>advances\<close>\<close>

lemma advance_trans: "advance svc w w' \<Longrightarrow> advance svc w' w'' \<Longrightarrow> advance svc w w''"
  unfolding advance_def by (meson evolves_trans order_trans)

lemma advance_refl: "sound svc w \<Longrightarrow> advance svc w w"
  by (simp add: advance_def)

lemma advanceI:
  assumes "sound svc w" "store_inv (w_repo w')" "evolves (w_repo w) (w_repo w')" "w_ids w \<le> w_ids w'"
    and "used_ids (w_repo w') \<subseteq> used_ids (w_repo w) \<union> svc_idgen svc ` {w_ids w..<w_ids w'}"
  shows "advance svc w w'"
  using assms ids_fresh_mono by (auto simp: advance_def sound_def)

lemma advance_unused:
  assumes "sound svc w" "store_inv (w_repo w')" "evolves (w_repo w) (w_repo w')" "w_ids w \<le> w_ids w'"
    and "\<And>n. w_ids w' \<le> n \<Longrightarrow> svc_idgen svc n \<notin> used_ids (w_repo w')"
  shows "advance svc w w'"
  using assms by (auto simp: advance_def sound_def ids_fresh_def)

lemma advance_same_repo:
  "sound svc w \<Longrightarrow> w_repo w' = w_repo w \<Longrightarrow> w_ids w \<le> w_ids w' \<Longrightarrow> advance svc w w'"
  by (rule advanceI) (auto simp: sound_def)

lemma advancesI:
  assumes "\<And>w r w'. sound svc w \<Longrightarrow> m w = (r, w') \<Longrightarrow> advance svc w w'"
  shows "advances svc m"
  unfolding advances_def using assms by (metis prod.collapse)

lemma advancesD: "advances svc m \<Longrightarrow> sound svc w \<Longrightarrow> m w = (r, w') \<Longrightarrow> advance svc w w'"
  unfolding advances_def by (metis snd_conv)

lemma advances_bind [advances_rules]:
  assumes "advances svc m" "\<And>x. advances svc (f x)"
  shows "advances svc (bindM m f)"
proof (rule advancesI)
  fix w r w'
  assume s: "sound svc w" and run: "bindM m f w = (r, w')"
  obtain r1 w1 where m: "m w = (r1, w1)" by (cases "m w")
  then have a: "advance svc w w1" using assms(1) s advancesD by blast
  show "advance svc w w'"
  proof (cases r1)
    case (Inl e)
    then show ?thesis using run m a by (simp add: bindM_def)
  next
    case (Inr x)
    then have "f x w1 = (r, w')" using run m by (simp add: bindM_def)
    then show ?thesis using a assms(2) advance_trans advancesD by (metis advance_def)
  qed
qed

lemma advances_then [advances_rules]:
  "advances svc m \<Longrightarrow> advances svc k \<Longrightarrow> advances svc (thenM m k)"
  unfolding thenM_def by (rule advances_bind)

lemma advances_unchanged:
  assumes "\<And>w. w_repo (snd (m w)) = w_repo w \<and> w_ids w \<le> w_ids (snd (m w))"
  shows "advances svc m"
proof (rule advancesI)
  fix w r w'
  assume "sound svc w" "m w = (r, w')"
  then show "advance svc w w'" using assms[of w] by (intro advance_same_repo) simp_all
qed

lemma advances_simple [advances_rules]:
  "advances svc (returnM x)" "advances svc (throwM e)" "advances svc (liftE r)"
  "advances svc (Now s)" "advances svc (NewID s)" "advances svc (callExt g)"
  by (rule advances_unchanged, simp add: prog_simps)+

lemma advances_failIf [advances_rules]: "advances svc k \<Longrightarrow> advances svc (failIf b e k)"
  by (simp add: failIf_def advances_simple)

lemma advances_attempt [advances_rules]: "advances svc m \<Longrightarrow> advances svc (attemptM m)"
  unfolding advances_def attemptM_def by (auto split: prod.splits)

lemma advances_if [advances_rules]: "advances svc m \<Longrightarrow> advances svc m' \<Longrightarrow> advances svc (if b then m else m')"
  by simp

lemma advances_case_sum [advances_rules]:
  "(\<And>e. advances svc (f e)) \<Longrightarrow> (\<And>x. advances svc (g x)) \<Longrightarrow> advances svc (case r of Inl e \<Rightarrow> f e | Inr x \<Rightarrow> g x)"
  by (cases r) simp_all

lemma advances_case_option [advances_rules]:
  "advances svc m \<Longrightarrow> (\<And>x. advances svc (g x)) \<Longrightarrow> advances svc (case r of None \<Rightarrow> m | Some x \<Rightarrow> g x)"
  by (cases r) simp_all

lemma advances_case_prod [advances_rules]:
  "(\<And>x y. advances svc (g x y)) \<Longrightarrow> advances svc (case r of (x, y) \<Rightarrow> g x y)"
  by (cases r) simp

lemma advances_let [advances_rules]: "(\<And>x. advances svc (f x)) \<Longrightarrow> advances svc (let x = v in f x)"
  by simp

lemma advances_forM [advances_rules]: "(\<And>x. advances svc (f x)) \<Longrightarrow> advances svc (forM xs f)"
  by (induction xs) (simp_all add: advances_simple advances_then)

lemma advances_foldM [advances_rules]: "(\<And>x a. advances svc (f x a)) \<Longrightarrow> advances svc (foldM f xs acc)"
  by (induction xs arbitrary: acc) (simp_all add: advances_simple advances_bind)

text \<open>A read of the repository.\<close>

lemma advances_read: "(\<And>s. snd (m s) = s) \<Longrightarrow> advances svc (onRepo m)"
  by (rule advances_unchanged) (simp add: prog_simps split: prod.split, metis snd_conv)

text \<open>A transaction either commits what its body did or leaves the store alone.\<close>

lemma advances_WithinTx [advances_rules]:
  assumes "advances svc m"
  shows "advances svc (MemoryStore_WithinTx m)"
proof (rule advancesI)
  fix w r w'
  assume s: "sound svc w" and run: "MemoryStore_WithinTx m w = (r, w')"
  obtain r1 w1 where m: "m w = (r1, w1)" by (cases "m w")
  then have a: "advance svc w w1" using assms s advancesD by blast
  show "advance svc w w'"
  proof (cases r1)
    case (Inl e)
    then have "w' = w1\<lparr>w_repo := w_repo w\<rparr>" using run m by (simp add: run_WithinTx)
    then show ?thesis using s a by (intro advance_same_repo) (auto simp: advance_def)
  next
    case (Inr x)
    then show ?thesis using run m a by (simp add: run_WithinTx)
  qed
qed

section \<open>Failed calls change nothing\<close>

text \<open>
  \<open>quiet\<close>: the store is never written. \<open>clean\<close>: the store is not written when an error is returned. The
  third predicate only says that identifiers are never handed back.
\<close>

definition grows :: "'a svc \<Rightarrow> bool" where
  "grows m \<longleftrightarrow> (\<forall>w. w_ids w \<le> w_ids (snd (m w)))"

definition quiet :: "'a svc \<Rightarrow> bool" where
  "quiet m \<longleftrightarrow> grows m \<and> (\<forall>w. w_repo (snd (m w)) = w_repo w)"

definition clean :: "'a svc \<Rightarrow> bool" where
  "clean m \<longleftrightarrow> grows m \<and> (\<forall>w. isl (fst (m w)) \<longrightarrow> w_repo (snd (m w)) = w_repo w)"

named_theorems clean_rules \<open>syntax-directed rules for \<open>clean\<close>, \<open>quiet\<close> and \<open>grows\<close>\<close>

lemma cleanD: "clean m \<Longrightarrow> m w = (Inl e, w') \<Longrightarrow> w_repo w' = w_repo w"
  "clean m \<Longrightarrow> m w = (r, w') \<Longrightarrow> w_ids w \<le> w_ids w'"
  unfolding clean_def grows_def by (metis fst_conv snd_conv sum.disc(1))+

lemma advances_clean:
  assumes "clean m" "\<And>w x w'. sound svc w \<Longrightarrow> m w = (Inr x, w') \<Longrightarrow> advance svc w w'"
  shows "advances svc m"
proof (rule advancesI)
  fix w r w'
  assume "sound svc w" "m w = (r, w')"
  then show "advance svc w w'"
    using assms cleanD by (cases r) (blast intro: advance_same_repo)+
qed

lemma quiet_clean: "quiet m \<Longrightarrow> clean m"
  by (simp add: quiet_def clean_def)

lemma quiet_advances: "quiet m \<Longrightarrow> advances svc m"
  by (rule advances_unchanged) (simp add: quiet_def grows_def)

lemma grows_bind:
  assumes "grows m" "\<And>x. grows (f x)"
  shows "grows (bindM m f)"
  unfolding grows_def bindM_def
proof
  fix w
  obtain r w1 where m: "m w = (r, w1)" by (cases "m w")
  then have "w_ids w \<le> w_ids w1" using assms(1) unfolding grows_def by (metis snd_conv)
  moreover have "w_ids w1 \<le> w_ids (snd (f x w1))" for x using assms(2) by (simp add: grows_def)
  ultimately show "w_ids w \<le> w_ids (snd (case m w of (Inl e, s') \<Rightarrow> (Inl e, s') | (Inr x, s') \<Rightarrow> f x s'))"
    using m by (auto split: sum.split intro: order_trans)
qed

lemma quiet_bind [clean_rules]: "quiet m \<Longrightarrow> (\<And>x. quiet (f x)) \<Longrightarrow> quiet (bindM m f)"
  unfolding quiet_def by (auto simp: grows_bind) (auto simp: bindM_def split: prod.split sum.split, metis snd_conv, metis snd_conv)

lemma clean_bind:
  assumes "quiet m" "\<And>x. clean (f x)"
  shows "clean (bindM m f)"
  unfolding clean_def
proof (intro conjI allI impI)
  show "grows (bindM m f)" using assms by (intro grows_bind) (auto simp: clean_def quiet_def)
  fix w
  assume e: "isl (fst (bindM m f w))"
  obtain r w1 where m: "m w = (r, w1)" by (cases "m w")
  then have w1: "w_repo w1 = w_repo w" using assms(1) unfolding quiet_def by (metis snd_conv)
  show "w_repo (snd (bindM m f w)) = w_repo w"
    using e m w1 assms(2) unfolding clean_def bindM_def by (cases r) auto
qed

lemma clean_bind_return: "clean m \<Longrightarrow> clean (bindM m (\<lambda>x. returnM (f x)))"
  unfolding clean_def by (auto simp: grows_bind grows_def bindM_def split: prod.split sum.split)
    (metis fst_conv snd_conv sum.disc(1))+

lemma clean_then: "quiet m \<Longrightarrow> clean k \<Longrightarrow> clean (thenM m k)"
  unfolding thenM_def by (rule clean_bind)

lemma clean_then_return: "clean m \<Longrightarrow> clean (thenM m (returnM x))"
  unfolding thenM_def by (rule clean_bind_return)

lemma grows_then: "grows m \<Longrightarrow> grows k \<Longrightarrow> grows (thenM m k)"
  unfolding thenM_def by (rule grows_bind)

lemma quiet_then [clean_rules]: "quiet m \<Longrightarrow> quiet k \<Longrightarrow> quiet (thenM m k)"
  unfolding thenM_def by (rule quiet_bind)

lemma quiet_simple [clean_rules]:
  "quiet (returnM x)" "quiet (throwM e)" "quiet (liftE r)" "quiet (Now s)" "quiet (NewID s)" "quiet (callExt g)"
  by (simp_all add: quiet_def grows_def prog_simps)

lemma grows_simple [clean_rules]:
  "grows (returnM x)" "grows (throwM e)" "grows (liftE r)" "grows (Now s)" "grows (NewID s)" "grows (callExt g)"
  "grows (onRepo p)" "grows (createAuditEvent s c a b d i f h)" "grows (createOutboxMessage s b f h)"
  by (simp_all add: grows_def prog_simps split: prod.split)

lemma clean_simple [clean_rules]: "clean (returnM x)" "clean (throwM e)" "clean (liftE r)"
  by (simp_all add: quiet_clean quiet_simple)

lemma clean_tx [clean_rules]: "grows m \<Longrightarrow> clean (MemoryStore_WithinTx m)"
  unfolding clean_def grows_def by (auto simp: run_WithinTx split: prod.split sum.split) (metis snd_conv)+

lemma clean_failIf [clean_rules]: "clean k \<Longrightarrow> clean (failIf b e k)" "quiet k \<Longrightarrow> quiet (failIf b e k)"
  "grows k \<Longrightarrow> grows (failIf b e k)"
  by (simp_all add: failIf_def clean_simple quiet_simple grows_simple)

lemma clean_attempt [clean_rules]: "quiet m \<Longrightarrow> quiet (attemptM m)" "grows m \<Longrightarrow> grows (attemptM m)"
  unfolding quiet_def grows_def attemptM_def by (auto split: prod.split) (metis snd_conv)+

lemma clean_if [clean_rules]:
  "clean m \<Longrightarrow> clean m' \<Longrightarrow> clean (if b then m else m')"
  "quiet m \<Longrightarrow> quiet m' \<Longrightarrow> quiet (if b then m else m')"
  "grows m \<Longrightarrow> grows m' \<Longrightarrow> grows (if b then m else m')"
  by simp_all

lemma clean_case_sum [clean_rules]:
  "(\<And>e. clean (f e)) \<Longrightarrow> (\<And>x. clean (g x)) \<Longrightarrow> clean (case r of Inl e \<Rightarrow> f e | Inr x \<Rightarrow> g x)"
  "(\<And>e. quiet (f e)) \<Longrightarrow> (\<And>x. quiet (g x)) \<Longrightarrow> quiet (case r of Inl e \<Rightarrow> f e | Inr x \<Rightarrow> g x)"
  "(\<And>e. grows (f e)) \<Longrightarrow> (\<And>x. grows (g x)) \<Longrightarrow> grows (case r of Inl e \<Rightarrow> f e | Inr x \<Rightarrow> g x)"
  by (cases r; simp)+

lemma clean_case_option [clean_rules]:
  "clean f \<Longrightarrow> (\<And>x. clean (g x)) \<Longrightarrow> clean (case opt of None \<Rightarrow> f | Some x \<Rightarrow> g x)"
  "quiet f \<Longrightarrow> (\<And>x. quiet (g x)) \<Longrightarrow> quiet (case opt of None \<Rightarrow> f | Some x \<Rightarrow> g x)"
  "grows f \<Longrightarrow> (\<And>x. grows (g x)) \<Longrightarrow> grows (case opt of None \<Rightarrow> f | Some x \<Rightarrow> g x)"
  by (cases opt; simp)+

lemma clean_case_prod [clean_rules]:
  "(\<And>x y. clean (h x y)) \<Longrightarrow> clean (case p of (x, y) \<Rightarrow> h x y)"
  "(\<And>x y. quiet (h x y)) \<Longrightarrow> quiet (case p of (x, y) \<Rightarrow> h x y)"
  "(\<And>x y. grows (h x y)) \<Longrightarrow> grows (case p of (x, y) \<Rightarrow> h x y)"
  by (cases p; simp)+

lemma clean_let [clean_rules]:
  "(\<And>x. clean (h x)) \<Longrightarrow> clean (let x = v in h x)"
  "(\<And>x. quiet (h x)) \<Longrightarrow> quiet (let x = v in h x)"
  "(\<And>x. grows (h x)) \<Longrightarrow> grows (let x = v in h x)"
  by simp_all

lemma clean_loops [clean_rules]:
  "(\<And>x. quiet (f x)) \<Longrightarrow> quiet (forM xs f)" "(\<And>x. grows (f x)) \<Longrightarrow> grows (forM xs f)"
  "(\<And>x a. quiet (g x a)) \<Longrightarrow> quiet (foldM g xs acc)" "(\<And>x a. grows (g x a)) \<Longrightarrow> grows (foldM g xs acc)"
  by (induction xs arbitrary: acc) (simp_all add: quiet_simple quiet_then quiet_bind grows_simple grows_then grows_bind)

lemmas [clean_rules] = grows_bind grows_then clean_bind clean_then clean_bind_return clean_then_return

text \<open>The reading methods of the repository.\<close>

lemma quiet_read: "(\<And>s. snd (m s) = s) \<Longrightarrow> quiet (onRepo m)"
  unfolding quiet_def grows_def by (simp add: prog_simps split: prod.split) (metis snd_conv)

lemma quiet_reads [clean_rules]:
  "quiet (onRepo (MemoryStore_GetIdentity a1))" "quiet (onRepo (memoryTx_GetIdentity a1))"
  "quiet (onRepo (MemoryStore_ListIdentities))" "quiet (onRepo (memoryTx_ListIdentities))"
  "quiet (onRepo (MemoryStore_GetIssuer a3))" "quiet (onRepo (memoryTx_GetIssuer a3))"
  "quiet (onRepo (MemoryStore_ListIssuers))" "quiet (onRepo (memoryTx_ListIssuers))"
  "quiet (onRepo (MemoryStore_GetOCSPResponder a5))" "quiet (onRepo (memoryTx_GetOCSPResponder a5))"
  "quiet (onRepo (MemoryStore_ListOCSPRespondersByIssuer a6))" "quiet (onRepo (memoryTx_ListOCSPRespondersByIssuer a6))"
  "quiet (onRepo (MemoryStore_GetActiveOCSPResponderByIssuer a7))" "quiet (onRepo (memoryTx_GetActiveOCSPResponderByIssuer a7))"
  "quiet (onRepo (MemoryStore_GetNotificationEndpoint a8))" "quiet (onRepo (memoryTx_GetNotificationEndpoint a8))"
  "quiet (onRepo (MemoryStore_ListNotificationEndpoints))" "quiet (onRepo (memoryTx_ListNotificationEndpoints))"
  "quiet (onRepo (MemoryStore_GetCertificateProfile a10))" "quiet (onRepo (memoryTx_GetCertificateProfile a10))"
  "quiet (onRepo (MemoryStore_ListCertificateProfiles))" "quiet (onRepo (memoryTx_ListCertificateProfiles))"
  "quiet (onRepo (MemoryStore_GetEnrollment a12))" "quiet (onRepo (memoryTx_GetEnrollment a12))"
  "quiet (onRepo (MemoryStore_ListEnrollments))" "quiet (onRepo (memoryTx_ListEnrollments))"
  "quiet (onRepo (MemoryStore_GetCertificate a14))" "quiet (onRepo (memoryTx_GetCertificate a14))"
  "quiet (onRepo (MemoryStore_GetCertificateByEnrollmentID a15))" "quiet (onRepo (memoryTx_GetCertificateByEnrollmentID a15))"
  "quiet (onRepo (MemoryStore_ListCertificates))" "quiet (onRepo (memoryTx_ListCertificates))"
  "quiet (onRepo (MemoryStore_ListCertificateInventory a17))" "quiet (onRepo (memoryTx_ListCertificateInventory a17))"
  "quiet (onRepo (MemoryStore_ListCertificatesExpiringWithin a18 b18 c18 d18))" "quiet (onRepo (memoryTx_ListCertificatesExpiringWithin a18 b18 c18 d18))"
  "quiet (onRepo (MemoryStore_ListCertificatesForExpirationScan a19 b19 c19))" "quiet (onRepo (memoryTx_ListCertificatesForExpirationScan a19 b19 c19))"
  "quiet (onRepo (MemoryStore_GetIssuanceAttempt a20))" "quiet (onRepo (memoryTx_GetIssuanceAttempt a20))"
  "quiet (onRepo (MemoryStore_ListRevocationsByIssuer a21))" "quiet (onRepo (memoryTx_ListRevocationsByIssuer a21))"
  "quiet (onRepo (MemoryStore_GetCRLPublication a22))" "quiet (onRepo (memoryTx_GetCRLPublication a22))"
  "quiet (onRepo (MemoryStore_GetLatestCRLPublicationByIssuer a23))" "quiet (onRepo (memoryTx_GetLatestCRLPublicationByIssuer a23))"
  "quiet (onRepo (MemoryStore_ListCRLPublicationsByIssuer a24))" "quiet (onRepo (memoryTx_ListCRLPublicationsByIssuer a24))"
  "quiet (onRepo (MemoryStore_ListAuditEvents))" "quiet (onRepo (memoryTx_ListAuditEvents))"
  "quiet (onRepo (MemoryStore_ListAuditEventsQuery a26))" "quiet (onRepo (memoryTx_ListAuditEventsQuery a26))"
  "quiet (onRepo (MemoryStore_GetOutboxMessage a27))" "quiet (onRepo (memoryTx_GetOutboxMessage a27))"
  "quiet (onRepo (MemoryStore_ListOutboxMessages a28))" "quiet (onRepo (memoryTx_ListOutboxMessages a28))"
  "quiet (onRepo (MemoryStore_ListDueOutboxMessages a29 b29))" "quiet (onRepo (memoryTx_ListDueOutboxMessages a29 b29))"
  "quiet (onRepo (MemoryStore_ListJobAttemptsByOutboxMessage a30))" "quiet (onRepo (memoryTx_ListJobAttemptsByOutboxMessage a30))"
  "quiet (onRepo (MemoryStore_GetWebhookDelivery a31 b31))" "quiet (onRepo (memoryTx_GetWebhookDelivery a31 b31))"
  "quiet (onRepo (MemoryStore_GetAPIKey a32))" "quiet (onRepo (memoryTx_GetAPIKey a32))"
  "quiet (onRepo (MemoryStore_GetAPIKeyByTokenHash a33))" "quiet (onRepo (memoryTx_GetAPIKeyByTokenHash a33))"
  "quiet (onRepo (MemoryStore_ListAPIKeys))" "quiet (onRepo (memoryTx_ListAPIKeys))"
  "quiet (onRepo (MemoryStore_GetACMEAccount a35))" "quiet (onRepo (memoryTx_GetACMEAccount a35))"
  "quiet (onRepo (MemoryStore_ListACMEAccounts))" "quiet (onRepo (memoryTx_ListACMEAccounts))"
  "quiet (onRepo (MemoryStore_GetACMEOrder a37))" "quiet (onRepo (memoryTx_GetACMEOrder a37))"
  "quiet (onRepo (MemoryStore_ListACMEOrdersByAccount a38))" "quiet (onRepo (memoryTx_ListACMEOrdersByAccount a38))"
  "quiet (onRepo (MemoryStore_GetACMEAuthorization a39))" "quiet (onRepo (memoryTx_GetACMEAuthorization a39))"
  "quiet (onRepo (MemoryStore_ListACMEAuthorizationsByOrder a40))" "quiet (onRepo (memoryTx_ListACMEAuthorizationsByOrder a40))"
  "quiet (onRepo (MemoryStore_GetACMEChallenge a41))" "quiet (onRepo (memoryTx_GetACMEChallenge a41))"
  "quiet (onRepo (MemoryStore_ListACMEChallengesByAuthorization a42))" "quiet (onRepo (memoryTx_ListACMEChallengesByAuthorization a42))"
  by (simp_all add: quiet_read tx_agree MemoryStore_GetIdentity_def MemoryStore_ListIdentities_def MemoryStore_GetIssuer_def MemoryStore_ListIssuers_def MemoryStore_GetOCSPResponder_def MemoryStore_ListOCSPRespondersByIssuer_def MemoryStore_GetActiveOCSPResponderByIssuer_def MemoryStore_GetNotificationEndpoint_def MemoryStore_ListNotificationEndpoints_def MemoryStore_GetCertificateProfile_def MemoryStore_ListCertificateProfiles_def MemoryStore_GetEnrollment_def MemoryStore_ListEnrollments_def MemoryStore_GetCertificate_def MemoryStore_GetCertificateByEnrollmentID_def MemoryStore_ListCertificates_def MemoryStore_ListCertificateInventory_def MemoryStore_ListCertificatesExpiringWithin_def MemoryStore_ListCertificatesForExpirationScan_def MemoryStore_GetIssuanceAttempt_def MemoryStore_ListRevocationsByIssuer_def MemoryStore_GetCRLPublication_def MemoryStore_GetLatestCRLPublicationByIssuer_def MemoryStore_ListCRLPublicationsByIssuer_def MemoryStore_ListAuditEvents_def MemoryStore_ListAuditEventsQuery_def MemoryStore_GetOutboxMessage_def MemoryStore_ListOutboxMessages_def MemoryStore_ListDueOutboxMessages_def MemoryStore_ListJobAttemptsByOutboxMessage_def MemoryStore_GetWebhookDelivery_def MemoryStore_GetAPIKey_def MemoryStore_GetAPIKeyByTokenHash_def MemoryStore_ListAPIKeys_def MemoryStore_GetACMEAccount_def MemoryStore_ListACMEAccounts_def MemoryStore_GetACMEOrder_def MemoryStore_ListACMEOrdersByAccount_def MemoryStore_GetACMEAuthorization_def MemoryStore_ListACMEAuthorizationsByOrder_def MemoryStore_GetACMEChallenge_def MemoryStore_ListACMEChallengesByAuthorization_def)

lemmas [advances_rules] = quiet_reads[THEN quiet_advances]

section \<open>Successful runs\<close>

text \<open>
  Inversion of a run that returned no error, one equation per combinator and repository method: the
  simplifier turns a successful run of an operation into the facts it went through.
\<close>

named_theorems inr_simps \<open>successful runs, taken apart\<close>

lemma bindM_Inr [inr_simps]:
  "bindM m f w = (Inr x, w') \<longleftrightarrow> (\<exists>y w1. m w = (Inr y, w1) \<and> f y w1 = (Inr x, w'))"
  by (auto simp: bindM_def split: prod.splits sum.splits)

lemma thenM_Inr [inr_simps]:
  "thenM m k w = (Inr x, w') \<longleftrightarrow> (\<exists>y w1. m w = (Inr y, w1) \<and> k w1 = (Inr x, w'))"
  by (simp add: thenM_def bindM_Inr)

lemma basic_Inr [inr_simps]:
  "failIf b e k w = (Inr x, w') \<longleftrightarrow> \<not> b \<and> k w = (Inr x, w')"
  "returnM y w = (Inr x, w') \<longleftrightarrow> x = y \<and> w' = w"
  "throwM e w = (Inr x, w') \<longleftrightarrow> False"
  "liftE q w = (Inr x, w') \<longleftrightarrow> q = Inr x \<and> w' = w"
  "attemptM m w = (Inr r, w') \<longleftrightarrow> m w = (r, w')"
  by (auto simp: failIf_def attemptM_def split: prod.splits)

lemma calls_Inr [inr_simps]:
  "Now svc w = (Inr x, w') \<longleftrightarrow> x = svc_clock svc (w_clock w) \<and> w' = w\<lparr>w_clock := Suc (w_clock w)\<rparr>"
  "NewID svc w = (Inr y, w') \<longleftrightarrow> y = svc_idgen svc (w_ids w) \<and> w' = w\<lparr>w_ids := Suc (w_ids w)\<rparr>"
  "callExt f w = (q, w') \<longleftrightarrow> q = f (w_ext w) \<and> w' = w\<lparr>w_ext := Suc (w_ext w)\<rparr>"
  by (auto simp: prog_simps)

lemma tx_Inr [inr_simps]:
  "MemoryStore_WithinTx m w = (Inr x, w') \<longleftrightarrow> m w = (Inr x, w')"
  by (auto simp: run_WithinTx split: prod.splits sum.splits)

lemma onRepo_Inr [inr_simps]:
  "onRepo p w = (Inr x, w') \<longleftrightarrow> (\<exists>s'. p (w_repo w) = (Inr x, s') \<and> w' = w\<lparr>w_repo := s'\<rparr>)"
  by (auto simp: run_onRepo split: prod.splits)

lemma onRepo_pure [inr_simps]:
  "onRepo (\<lambda>s. (f s, s)) w = (r, w') \<longleftrightarrow> r = f (w_repo w) \<and> w' = w"
  by (auto simp: run_onRepo)

lemma if_Inr [inr_simps]:
  "(if b then m else k) w = (Inr x, w') \<longleftrightarrow> (b \<and> m w = (Inr x, w')) \<or> (\<not> b \<and> k w = (Inr x, w'))"
  by simp

lemma case_sum_Inr [inr_simps]:
  "(case r of Inl e \<Rightarrow> f e | Inr y \<Rightarrow> g y) w = (Inr x, w') \<longleftrightarrow>
     (\<exists>e. r = Inl e \<and> f e w = (Inr x, w')) \<or> (\<exists>y. r = Inr y \<and> g y w = (Inr x, w'))"
  by (cases r) auto

lemma events_Inr [inr_simps]:
  "createAuditEvent svc ctx actor action resourceType resourceID createdAt flds w = (Inr u, w') \<longleftrightarrow>
     w' = w\<lparr>w_ids := Suc (w_ids w), w_repo := (w_repo w)\<lparr>ms_auditEvents := ms_auditEvents (w_repo w) @
        [auditEventFor svc ctx (svc_idgen svc (w_ids w)) actor action resourceType resourceID createdAt flds]\<rparr>\<rparr>"
  "createOutboxMessage svc messageType createdAt flds w = (Inr u, w') \<longleftrightarrow>
     w' = w\<lparr>w_ids := Suc (w_ids w), w_repo := (w_repo w)\<lparr>ms_outbox :=
        mput (svc_idgen svc (w_ids w)) (outboxMessageFor (svc_idgen svc (w_ids w)) messageType createdAt flds)
          (ms_outbox (w_repo w))\<rparr>\<rparr>"
  by (auto simp: run_createAuditEvent run_createOutboxMessage)

lemma get_Inr [inr_simps]:
  "MemoryStore_GetIdentity i s = (Inr vIdentity, s') \<longleftrightarrow> mget (ms_identities s) i = Some vIdentity \<and> s' = s"
  "MemoryStore_GetIssuer i s = (Inr vIssuer, s') \<longleftrightarrow> mget (ms_issuers s) i = Some vIssuer \<and> s' = s"
  "MemoryStore_GetOCSPResponder i s = (Inr vOCSPResponder, s') \<longleftrightarrow> mget (ms_ocspResponders s) i = Some vOCSPResponder \<and> s' = s"
  "MemoryStore_GetNotificationEndpoint i s = (Inr vNotificationEndpoint, s') \<longleftrightarrow> mget (ms_notifications s) i = Some vNotificationEndpoint \<and> s' = s"
  "MemoryStore_GetCertificateProfile i s = (Inr vCertificateProfile, s') \<longleftrightarrow> mget (ms_profiles s) i = Some vCertificateProfile \<and> s' = s"
  "MemoryStore_GetEnrollment i s = (Inr vEnrollment, s') \<longleftrightarrow> mget (ms_enrollments s) i = Some vEnrollment \<and> s' = s"
  "MemoryStore_GetCertificate i s = (Inr vCertificate, s') \<longleftrightarrow> mget (ms_certificates s) i = Some vCertificate \<and> s' = s"
  "MemoryStore_GetIssuanceAttempt i s = (Inr vIssuanceAttempt, s') \<longleftrightarrow> mget (ms_issuanceAttempts s) i = Some vIssuanceAttempt \<and> s' = s"
  "MemoryStore_GetCRLPublication i s = (Inr vCRLPublication, s') \<longleftrightarrow> mget (ms_crls s) i = Some vCRLPublication \<and> s' = s"
  "MemoryStore_GetOutboxMessage i s = (Inr vOutboxMessage, s') \<longleftrightarrow> mget (ms_outbox s) i = Some vOutboxMessage \<and> s' = s"
  "MemoryStore_GetAPIKey i s = (Inr vAPIKey, s') \<longleftrightarrow> mget (ms_apiKeys s) i = Some vAPIKey \<and> s' = s"
  "MemoryStore_GetACMEAccount i s = (Inr vACMEAccount, s') \<longleftrightarrow> mget (ms_acmeAccounts s) i = Some vACMEAccount \<and> s' = s"
  "MemoryStore_GetACMEOrder i s = (Inr vACMEOrder, s') \<longleftrightarrow> mget (ms_acmeOrders s) i = Some vACMEOrder \<and> s' = s"
  "MemoryStore_GetACMEAuthorization i s = (Inr vACMEAuthorization, s') \<longleftrightarrow> mget (ms_acmeAuthzs s) i = Some vACMEAuthorization \<and> s' = s"
  "MemoryStore_GetACMEChallenge i s = (Inr vACMEChallenge, s') \<longleftrightarrow> mget (ms_acmeChallenges s) i = Some vACMEChallenge \<and> s' = s"
  by (auto simp: getIssuanceAttempt_def MemoryStore_GetIdentity_def MemoryStore_GetIssuer_def MemoryStore_GetOCSPResponder_def MemoryStore_GetNotificationEndpoint_def MemoryStore_GetCertificateProfile_def MemoryStore_GetEnrollment_def MemoryStore_GetCertificate_def MemoryStore_GetIssuanceAttempt_def MemoryStore_GetCRLPublication_def MemoryStore_GetOutboxMessage_def MemoryStore_GetAPIKey_def MemoryStore_GetACMEAccount_def MemoryStore_GetACMEOrder_def MemoryStore_GetACMEAuthorization_def MemoryStore_GetACMEChallenge_def split: option.splits)

text \<open>The guarded writes: the row replaced and the one that replaces it.\<close>

lemma update_Inr [inr_simps]:
  "MemoryStore_UpdateEnrollmentIfStatus v_UpdateEnrollmentIfStatus c_UpdateEnrollmentIfStatus s = (Inr u, s') \<longleftrightarrow>
     (\<exists>m. updateEnrollmentIfStatus (ms_enrollments s) v_UpdateEnrollmentIfStatus c_UpdateEnrollmentIfStatus = Inr m \<and> s' = s\<lparr>ms_enrollments := m\<rparr>)"
  "MemoryStore_UpdateCertificateIfStatus v_UpdateCertificateIfStatus c_UpdateCertificateIfStatus s = (Inr u, s') \<longleftrightarrow>
     (\<exists>m. updateCertificateIfStatus (ms_certificates s) v_UpdateCertificateIfStatus c_UpdateCertificateIfStatus = Inr m \<and> s' = s\<lparr>ms_certificates := m\<rparr>)"
  "MemoryStore_UpdateIssuanceAttemptIfCurrent v_UpdateIssuanceAttemptIfCurrent c_UpdateIssuanceAttemptIfCurrent s = (Inr u, s') \<longleftrightarrow>
     (\<exists>m. updateIssuanceAttemptIfCurrent (ms_issuanceAttempts s) v_UpdateIssuanceAttemptIfCurrent c_UpdateIssuanceAttemptIfCurrent = Inr m \<and> s' = s\<lparr>ms_issuanceAttempts := m\<rparr>)"
  "MemoryStore_UpdateOCSPResponderIfStatus v_UpdateOCSPResponderIfStatus c_UpdateOCSPResponderIfStatus s = (Inr u, s') \<longleftrightarrow>
     (\<exists>m. updateOCSPResponderIfStatus (ms_ocspResponders s) v_UpdateOCSPResponderIfStatus c_UpdateOCSPResponderIfStatus = Inr m \<and> s' = s\<lparr>ms_ocspResponders := m\<rparr>)"
  "MemoryStore_UpdateNotificationEndpointIfStatus v_UpdateNotificationEndpointIfStatus c_UpdateNotificationEndpointIfStatus s = (Inr u, s') \<longleftrightarrow>
     (\<exists>m. updateNotificationEndpointIfStatus (ms_notifications s) v_UpdateNotificationEndpointIfStatus c_UpdateNotificationEndpointIfStatus = Inr m \<and> s' = s\<lparr>ms_notifications := m\<rparr>)"
  "MemoryStore_UpdateOutboxMessageStatusIfStatus v_UpdateOutboxMessageStatusIfStatus c_UpdateOutboxMessageStatusIfStatus s = (Inr u, s') \<longleftrightarrow>
     (\<exists>m. updateOutboxMessageStatusIfStatus (ms_outbox s) v_UpdateOutboxMessageStatusIfStatus c_UpdateOutboxMessageStatusIfStatus = Inr m \<and> s' = s\<lparr>ms_outbox := m\<rparr>)"
  "MemoryStore_UpdateOutboxMessageIfCurrent v_UpdateOutboxMessageIfCurrent c_UpdateOutboxMessageIfCurrent s = (Inr u, s') \<longleftrightarrow>
     (\<exists>m. updateOutboxMessageIfCurrent (ms_outbox s) v_UpdateOutboxMessageIfCurrent c_UpdateOutboxMessageIfCurrent = Inr m \<and> s' = s\<lparr>ms_outbox := m\<rparr>)"
  "MemoryStore_UpdateAPIKeyIfStatus v_UpdateAPIKeyIfStatus c_UpdateAPIKeyIfStatus s = (Inr u, s') \<longleftrightarrow>
     (\<exists>m. updateAPIKeyIfStatus (ms_apiKeys s) v_UpdateAPIKeyIfStatus c_UpdateAPIKeyIfStatus = Inr m \<and> s' = s\<lparr>ms_apiKeys := m\<rparr>)"
  "MemoryStore_UpdateACMEAccountIfStatus v_UpdateACMEAccountIfStatus c_UpdateACMEAccountIfStatus s = (Inr u, s') \<longleftrightarrow>
     (\<exists>m. updateACMEAccountIfStatus (ms_acmeAccounts s) v_UpdateACMEAccountIfStatus c_UpdateACMEAccountIfStatus = Inr m \<and> s' = s\<lparr>ms_acmeAccounts := m\<rparr>)"
  "MemoryStore_UpdateACMEOrderIfStatus v_UpdateACMEOrderIfStatus c_UpdateACMEOrderIfStatus s = (Inr u, s') \<longleftrightarrow>
     (\<exists>m. updateACMEOrderIfStatus (ms_acmeOrders s) v_UpdateACMEOrderIfStatus c_UpdateACMEOrderIfStatus = Inr m \<and> s' = s\<lparr>ms_acmeOrders := m\<rparr>)"
  "MemoryStore_UpdateACMEAuthorizationIfStatus v_UpdateACMEAuthorizationIfStatus c_UpdateACMEAuthorizationIfStatus s = (Inr u, s') \<longleftrightarrow>
     (\<exists>m. updateACMEAuthorizationIfStatus (ms_acmeAuthzs s) v_UpdateACMEAuthorizationIfStatus c_UpdateACMEAuthorizationIfStatus = Inr m \<and> s' = s\<lparr>ms_acmeAuthzs := m\<rparr>)"
  "MemoryStore_UpdateACMEChallengeIfStatus v_UpdateACMEChallengeIfStatus c_UpdateACMEChallengeIfStatus s = (Inr u, s') \<longleftrightarrow>
     (\<exists>m. updateACMEChallengeIfStatus (ms_acmeChallenges s) v_UpdateACMEChallengeIfStatus c_UpdateACMEChallengeIfStatus = Inr m \<and> s' = s\<lparr>ms_acmeChallenges := m\<rparr>)"
  "MemoryStore_CreateIssuanceAttempt v_CreateIssuanceAttempt s = (Inr u, s') \<longleftrightarrow>
     (\<exists>m. createIssuanceAttempt (ms_issuanceAttempts s) v_CreateIssuanceAttempt = Inr m \<and> s' = s\<lparr>ms_issuanceAttempts := m\<rparr>)"
  by (auto simp: MemoryStore_UpdateEnrollmentIfStatus_def MemoryStore_UpdateCertificateIfStatus_def MemoryStore_UpdateIssuanceAttemptIfCurrent_def MemoryStore_UpdateOCSPResponderIfStatus_def MemoryStore_UpdateNotificationEndpointIfStatus_def MemoryStore_UpdateOutboxMessageStatusIfStatus_def MemoryStore_UpdateOutboxMessageIfCurrent_def MemoryStore_UpdateAPIKeyIfStatus_def MemoryStore_UpdateACMEAccountIfStatus_def MemoryStore_UpdateACMEOrderIfStatus_def MemoryStore_UpdateACMEAuthorizationIfStatus_def MemoryStore_UpdateACMEChallengeIfStatus_def MemoryStore_CreateIssuanceAttempt_def split: sum.splits)

lemma create_Inr [inr_simps]:
  "MemoryStore_CreateIdentity vIdentity s = (Inr u, s') \<longleftrightarrow> s' = s\<lparr>ms_identities := mput (idn_ID vIdentity) vIdentity (ms_identities s)\<rparr>"
  "MemoryStore_CreateIssuer vIssuer s = (Inr u, s') \<longleftrightarrow> s' = s\<lparr>ms_issuers := mput (iss_ID vIssuer) vIssuer (ms_issuers s)\<rparr>"
  "MemoryStore_CreateNotificationEndpoint vNotificationEndpoint s = (Inr u, s') \<longleftrightarrow> s' = s\<lparr>ms_notifications := mput (ep_ID vNotificationEndpoint) vNotificationEndpoint (ms_notifications s)\<rparr>"
  "MemoryStore_CreateCertificateProfile vCertificateProfile s = (Inr u, s') \<longleftrightarrow> s' = s\<lparr>ms_profiles := mput (prof_ID vCertificateProfile) vCertificateProfile (ms_profiles s)\<rparr>"
  "MemoryStore_CreateEnrollment vEnrollment s = (Inr u, s') \<longleftrightarrow> s' = s\<lparr>ms_enrollments := mput (enr_ID vEnrollment) vEnrollment (ms_enrollments s)\<rparr>"
  "MemoryStore_CreateRevocation vRevocation s = (Inr u, s') \<longleftrightarrow> s' = s\<lparr>ms_revocations := mput (rev_ID vRevocation) vRevocation (ms_revocations s)\<rparr>"
  "MemoryStore_CreateOutboxMessage vOutboxMessage s = (Inr u, s') \<longleftrightarrow> s' = s\<lparr>ms_outbox := mput (msg_ID vOutboxMessage) vOutboxMessage (ms_outbox s)\<rparr>"
  "MemoryStore_CreateJobAttempt vJobAttempt s = (Inr u, s') \<longleftrightarrow> s' = s\<lparr>ms_jobAttempts := mput (job_ID vJobAttempt) vJobAttempt (ms_jobAttempts s)\<rparr>"
  "MemoryStore_CreateAPIKey vAPIKey s = (Inr u, s') \<longleftrightarrow> s' = s\<lparr>ms_apiKeys := mput (key_ID vAPIKey) vAPIKey (ms_apiKeys s)\<rparr>"
  "MemoryStore_CreateACMEOrder vACMEOrder s = (Inr u, s') \<longleftrightarrow> s' = s\<lparr>ms_acmeOrders := mput (ord_ID vACMEOrder) vACMEOrder (ms_acmeOrders s)\<rparr>"
  "MemoryStore_CreateACMEAuthorization vACMEAuthorization s = (Inr u, s') \<longleftrightarrow> s' = s\<lparr>ms_acmeAuthzs := mput (authz_ID vACMEAuthorization) vACMEAuthorization (ms_acmeAuthzs s)\<rparr>"
  "MemoryStore_CreateACMEChallenge vACMEChallenge s = (Inr u, s') \<longleftrightarrow> s' = s\<lparr>ms_acmeChallenges := mput (chal_ID vACMEChallenge) vACMEChallenge (ms_acmeChallenges s)\<rparr>"
  "MemoryStore_CreateCertificate vCertificate s = (Inr u, s') \<longleftrightarrow>
     ensureCertificateFinalizationKeysAvailable (ms_certificates s) vCertificate = Inr () \<and> s' = s\<lparr>ms_certificates := mput (cert_ID vCertificate) vCertificate (ms_certificates s)\<rparr>"
  "MemoryStore_CreateCRLPublication vCRLPublication s = (Inr u, s') \<longleftrightarrow>
     ensureCRLPublicationNumberAvailable (ms_crls s) vCRLPublication = Inr () \<and> s' = s\<lparr>ms_crls := mput (crl_ID vCRLPublication) vCRLPublication (ms_crls s)\<rparr>"
  "MemoryStore_CreateACMEAccount vACMEAccount s = (Inr u, s') \<longleftrightarrow>
     ensureACMEAccountThumbprintAvailable (ms_acmeAccounts s) vACMEAccount = Inr () \<and> s' = s\<lparr>ms_acmeAccounts := mput (acc_ID vACMEAccount) vACMEAccount (ms_acmeAccounts s)\<rparr>"
  "MemoryStore_CreateOCSPResponder r s = (Inr u, s') \<longleftrightarrow>
     (rsp_Status r = OCSPResponderActive \<longrightarrow> isl (activeOCSPResponderByIssuer (ms_ocspResponders s) (rsp_IssuerID r))) \<and>
     s' = s\<lparr>ms_ocspResponders := mput (rsp_ID r) r (ms_ocspResponders s)\<rparr>"
  by (auto simp: MemoryStore_CreateIdentity_def MemoryStore_CreateIssuer_def MemoryStore_CreateNotificationEndpoint_def MemoryStore_CreateCertificateProfile_def MemoryStore_CreateEnrollment_def MemoryStore_CreateRevocation_def MemoryStore_CreateOutboxMessage_def MemoryStore_CreateJobAttempt_def MemoryStore_CreateAPIKey_def MemoryStore_CreateACMEOrder_def MemoryStore_CreateACMEAuthorization_def MemoryStore_CreateACMEChallenge_def MemoryStore_CreateCertificate_def MemoryStore_CreateCRLPublication_def MemoryStore_CreateACMEAccount_def MemoryStore_CreateOCSPResponder_def split: sum.splits)

lemmas [inr_simps] = tx_agree

text \<open>What a guarded write says of the row it replaced.\<close>

lemma guarded_Inr [inr_simps]:
  "updateEnrollmentIfStatus m v c = Inr m' \<longleftrightarrow>
     (\<exists>v0. mget m (enr_ID v) = Some v0 \<and> enr_Status v0 = c) \<and> m' = mput (enr_ID v) v m"
  "updateCertificateIfStatus n x d = Inr n' \<longleftrightarrow>
     (\<exists>v0. mget n (cert_ID x) = Some v0 \<and> cert_Status v0 = d) \<and> n' = mput (cert_ID x) x n"
  by (auto simp: updateEnrollmentIfStatus_def updateCertificateIfStatus_def split: option.splits if_splits)

text \<open>The same for the tables whose writes have further guards; one direction is enough.\<close>

lemmas guarded_D =
  responder_table.upd_D endpoint_table.upd_D message_table.upd_D claim_table.upd_D apikey_table.upd_D
  account_table.upd_D order_table.upd_D authz_table.upd_D challenge_table.upd_D attempt_table.upd_D

section \<open>Writing one table\<close>

text \<open>
  One rule per table and obligation: what a new version of the table must satisfy for the store to
  have evolved, to be sound, and to use known identifiers only.
\<close>

named_theorems update_rules \<open>obligations of a table update\<close>

lemma evolves_update [update_rules]:
  "evolves s s' \<Longrightarrow> table_evolves (\<lambda>_ _. False) (ms_identities s) midentities \<Longrightarrow> evolves s (s'\<lparr>ms_identities := midentities\<rparr>)"
  "evolves s s' \<Longrightarrow> table_evolves (\<lambda>_ _. False) (ms_issuers s) missuers \<Longrightarrow> evolves s (s'\<lparr>ms_issuers := missuers\<rparr>)"
  "evolves s s' \<Longrightarrow> table_evolves (\<lambda>_ _. False) (ms_profiles s) mprofiles \<Longrightarrow> evolves s (s'\<lparr>ms_profiles := mprofiles\<rparr>)"
  "evolves s s' \<Longrightarrow> table_evolves (\<lambda>_ _. False) (ms_revocations s) mrevocations \<Longrightarrow> evolves s (s'\<lparr>ms_revocations := mrevocations\<rparr>)"
  "evolves s s' \<Longrightarrow> table_evolves (\<lambda>_ _. False) (ms_crls s) mcrls \<Longrightarrow> evolves s (s'\<lparr>ms_crls := mcrls\<rparr>)"
  "evolves s s' \<Longrightarrow> table_evolves (\<lambda>_ _. False) (ms_jobAttempts s) mjobAttempts \<Longrightarrow> evolves s (s'\<lparr>ms_jobAttempts := mjobAttempts\<rparr>)"
  "evolves s s' \<Longrightarrow> table_evolves enrollmentStep (ms_enrollments s) menrollments \<Longrightarrow> evolves s (s'\<lparr>ms_enrollments := menrollments\<rparr>)"
  "evolves s s' \<Longrightarrow> table_evolves certificateStep (ms_certificates s) mcertificates \<Longrightarrow> evolves s (s'\<lparr>ms_certificates := mcertificates\<rparr>)"
  "evolves s s' \<Longrightarrow> table_evolves responderStep (ms_ocspResponders s) mocspResponders \<Longrightarrow> evolves s (s'\<lparr>ms_ocspResponders := mocspResponders\<rparr>)"
  "evolves s s' \<Longrightarrow> table_evolves endpointStep (ms_notifications s) mnotifications \<Longrightarrow> evolves s (s'\<lparr>ms_notifications := mnotifications\<rparr>)"
  "evolves s s' \<Longrightarrow> table_evolves messageStep (ms_outbox s) moutbox \<Longrightarrow> evolves s (s'\<lparr>ms_outbox := moutbox\<rparr>)"
  "evolves s s' \<Longrightarrow> table_evolves apikeyStep (ms_apiKeys s) mapiKeys \<Longrightarrow> evolves s (s'\<lparr>ms_apiKeys := mapiKeys\<rparr>)"
  "evolves s s' \<Longrightarrow> table_evolves accountStep (ms_acmeAccounts s) macmeAccounts \<Longrightarrow> evolves s (s'\<lparr>ms_acmeAccounts := macmeAccounts\<rparr>)"
  "evolves s s' \<Longrightarrow> table_evolves orderStep (ms_acmeOrders s) macmeOrders \<Longrightarrow> evolves s (s'\<lparr>ms_acmeOrders := macmeOrders\<rparr>)"
  "evolves s s' \<Longrightarrow> table_evolves authzStep (ms_acmeAuthzs s) macmeAuthzs \<Longrightarrow> evolves s (s'\<lparr>ms_acmeAuthzs := macmeAuthzs\<rparr>)"
  "evolves s s' \<Longrightarrow> table_evolves challengeStep (ms_acmeChallenges s) macmeChallenges \<Longrightarrow> evolves s (s'\<lparr>ms_acmeChallenges := macmeChallenges\<rparr>)"
  "evolves s s' \<Longrightarrow> table_evolves attemptStep (ms_issuanceAttempts s) missuanceAttempts \<Longrightarrow> evolves s (s'\<lparr>ms_issuanceAttempts := missuanceAttempts\<rparr>)"
  "evolves s s' \<Longrightarrow> evolves s (s'\<lparr>ms_auditEvents := es\<rparr>)" "evolves s s' \<Longrightarrow> evolves s (s'\<lparr>ms_webhookDeliveries := ds\<rparr>)"
  by (simp_all add: evolves_def)

lemma store_inv_update [update_rules]:
  "store_inv s \<Longrightarrow> keyed idn_ID midentities \<Longrightarrow> store_inv (s\<lparr>ms_identities := midentities\<rparr>)"
  "store_inv s \<Longrightarrow> keyed iss_ID missuers \<Longrightarrow> store_inv (s\<lparr>ms_issuers := missuers\<rparr>)"
  "store_inv s \<Longrightarrow> keyed prof_ID mprofiles \<Longrightarrow> store_inv (s\<lparr>ms_profiles := mprofiles\<rparr>)"
  "store_inv s \<Longrightarrow> keyed rev_ID mrevocations \<Longrightarrow> store_inv (s\<lparr>ms_revocations := mrevocations\<rparr>)"
  "store_inv s \<Longrightarrow> keyed crl_ID mcrls \<Longrightarrow> unique_crl_numbers mcrls \<Longrightarrow> store_inv (s\<lparr>ms_crls := mcrls\<rparr>)"
  "store_inv s \<Longrightarrow> keyed job_ID mjobAttempts \<Longrightarrow> store_inv (s\<lparr>ms_jobAttempts := mjobAttempts\<rparr>)"
  "store_inv s \<Longrightarrow> keyed enr_ID menrollments \<Longrightarrow> store_inv (s\<lparr>ms_enrollments := menrollments\<rparr>)"
  "store_inv s \<Longrightarrow> keyed cert_ID mcertificates \<Longrightarrow> unique_certificates mcertificates \<Longrightarrow> store_inv (s\<lparr>ms_certificates := mcertificates\<rparr>)"
  "store_inv s \<Longrightarrow> keyed rsp_ID mocspResponders \<Longrightarrow> one_active_responder mocspResponders \<Longrightarrow> store_inv (s\<lparr>ms_ocspResponders := mocspResponders\<rparr>)"
  "store_inv s \<Longrightarrow> keyed ep_ID mnotifications \<Longrightarrow> store_inv (s\<lparr>ms_notifications := mnotifications\<rparr>)"
  "store_inv s \<Longrightarrow> keyed msg_ID moutbox \<Longrightarrow> store_inv (s\<lparr>ms_outbox := moutbox\<rparr>)"
  "store_inv s \<Longrightarrow> keyed key_ID mapiKeys \<Longrightarrow> store_inv (s\<lparr>ms_apiKeys := mapiKeys\<rparr>)"
  "store_inv s \<Longrightarrow> keyed acc_ID macmeAccounts \<Longrightarrow> unique_thumbprints macmeAccounts \<Longrightarrow> store_inv (s\<lparr>ms_acmeAccounts := macmeAccounts\<rparr>)"
  "store_inv s \<Longrightarrow> keyed ord_ID macmeOrders \<Longrightarrow> store_inv (s\<lparr>ms_acmeOrders := macmeOrders\<rparr>)"
  "store_inv s \<Longrightarrow> keyed authz_ID macmeAuthzs \<Longrightarrow> store_inv (s\<lparr>ms_acmeAuthzs := macmeAuthzs\<rparr>)"
  "store_inv s \<Longrightarrow> keyed chal_ID macmeChallenges \<Longrightarrow> store_inv (s\<lparr>ms_acmeChallenges := macmeChallenges\<rparr>)"
  "store_inv s \<Longrightarrow> keyed att_EnrollmentID missuanceAttempts \<Longrightarrow> store_inv (s\<lparr>ms_issuanceAttempts := missuanceAttempts\<rparr>)"
  "store_inv s \<Longrightarrow> store_inv (s\<lparr>ms_auditEvents := es\<rparr>)"
  "store_inv s \<Longrightarrow> keyed (\<lambda>d. webhookDeliveryKey (whd_OutboxMessageID d) (whd_EndpointID d)) ds \<Longrightarrow>
     store_inv (s\<lparr>ms_webhookDeliveries := ds\<rparr>)"
  by (simp_all add: store_inv_def tables_keyed_def)

lemma used_ids_update [update_rules]:
  "used_ids s \<subseteq> U \<Longrightarrow> dom (mget midentities) \<subseteq> U \<Longrightarrow> used_ids (s\<lparr>ms_identities := midentities\<rparr>) \<subseteq> U"
  "used_ids s \<subseteq> U \<Longrightarrow> dom (mget missuers) \<subseteq> U \<Longrightarrow> used_ids (s\<lparr>ms_issuers := missuers\<rparr>) \<subseteq> U"
  "used_ids s \<subseteq> U \<Longrightarrow> dom (mget mprofiles) \<subseteq> U \<Longrightarrow> used_ids (s\<lparr>ms_profiles := mprofiles\<rparr>) \<subseteq> U"
  "used_ids s \<subseteq> U \<Longrightarrow> dom (mget mrevocations) \<subseteq> U \<Longrightarrow> used_ids (s\<lparr>ms_revocations := mrevocations\<rparr>) \<subseteq> U"
  "used_ids s \<subseteq> U \<Longrightarrow> dom (mget mcrls) \<subseteq> U \<Longrightarrow> used_ids (s\<lparr>ms_crls := mcrls\<rparr>) \<subseteq> U"
  "used_ids s \<subseteq> U \<Longrightarrow> dom (mget mjobAttempts) \<subseteq> U \<Longrightarrow> used_ids (s\<lparr>ms_jobAttempts := mjobAttempts\<rparr>) \<subseteq> U"
  "used_ids s \<subseteq> U \<Longrightarrow> dom (mget menrollments) \<subseteq> U \<Longrightarrow> used_ids (s\<lparr>ms_enrollments := menrollments\<rparr>) \<subseteq> U"
  "used_ids s \<subseteq> U \<Longrightarrow> dom (mget mcertificates) \<subseteq> U \<Longrightarrow> used_ids (s\<lparr>ms_certificates := mcertificates\<rparr>) \<subseteq> U"
  "used_ids s \<subseteq> U \<Longrightarrow> dom (mget mocspResponders) \<subseteq> U \<Longrightarrow> used_ids (s\<lparr>ms_ocspResponders := mocspResponders\<rparr>) \<subseteq> U"
  "used_ids s \<subseteq> U \<Longrightarrow> dom (mget mnotifications) \<subseteq> U \<Longrightarrow> used_ids (s\<lparr>ms_notifications := mnotifications\<rparr>) \<subseteq> U"
  "used_ids s \<subseteq> U \<Longrightarrow> dom (mget moutbox) \<subseteq> U \<Longrightarrow> used_ids (s\<lparr>ms_outbox := moutbox\<rparr>) \<subseteq> U"
  "used_ids s \<subseteq> U \<Longrightarrow> dom (mget mapiKeys) \<subseteq> U \<Longrightarrow> used_ids (s\<lparr>ms_apiKeys := mapiKeys\<rparr>) \<subseteq> U"
  "used_ids s \<subseteq> U \<Longrightarrow> dom (mget macmeAccounts) \<subseteq> U \<Longrightarrow> used_ids (s\<lparr>ms_acmeAccounts := macmeAccounts\<rparr>) \<subseteq> U"
  "used_ids s \<subseteq> U \<Longrightarrow> dom (mget macmeOrders) \<subseteq> U \<Longrightarrow> used_ids (s\<lparr>ms_acmeOrders := macmeOrders\<rparr>) \<subseteq> U"
  "used_ids s \<subseteq> U \<Longrightarrow> dom (mget macmeAuthzs) \<subseteq> U \<Longrightarrow> used_ids (s\<lparr>ms_acmeAuthzs := macmeAuthzs\<rparr>) \<subseteq> U"
  "used_ids s \<subseteq> U \<Longrightarrow> dom (mget macmeChallenges) \<subseteq> U \<Longrightarrow> used_ids (s\<lparr>ms_acmeChallenges := macmeChallenges\<rparr>) \<subseteq> U"
  "used_ids s \<subseteq> U \<Longrightarrow> used_ids (s\<lparr>ms_issuanceAttempts := missuanceAttempts\<rparr>) \<subseteq> U"
  "used_ids s \<subseteq> U \<Longrightarrow> used_ids (s\<lparr>ms_auditEvents := es\<rparr>) \<subseteq> U"
  "used_ids s \<subseteq> U \<Longrightarrow> used_ids (s\<lparr>ms_webhookDeliveries := ds\<rparr>) \<subseteq> U"
  by (auto simp: used_ids_def)

lemma dom_used:
  "dom (mget (ms_identities s)) \<subseteq> used_ids s"
  "dom (mget (ms_issuers s)) \<subseteq> used_ids s"
  "dom (mget (ms_profiles s)) \<subseteq> used_ids s"
  "dom (mget (ms_revocations s)) \<subseteq> used_ids s"
  "dom (mget (ms_crls s)) \<subseteq> used_ids s"
  "dom (mget (ms_jobAttempts s)) \<subseteq> used_ids s"
  "dom (mget (ms_enrollments s)) \<subseteq> used_ids s"
  "dom (mget (ms_certificates s)) \<subseteq> used_ids s"
  "dom (mget (ms_ocspResponders s)) \<subseteq> used_ids s"
  "dom (mget (ms_notifications s)) \<subseteq> used_ids s"
  "dom (mget (ms_outbox s)) \<subseteq> used_ids s"
  "dom (mget (ms_apiKeys s)) \<subseteq> used_ids s"
  "dom (mget (ms_acmeAccounts s)) \<subseteq> used_ids s"
  "dom (mget (ms_acmeOrders s)) \<subseteq> used_ids s"
  "dom (mget (ms_acmeAuthzs s)) \<subseteq> used_ids s"
  "dom (mget (ms_acmeChallenges s)) \<subseteq> used_ids s"
  by (auto simp: used_ids_def)

lemma sound_keyed:
  assumes "sound svc w"
  shows
    "keyed idn_ID (ms_identities (w_repo w))"
    "keyed iss_ID (ms_issuers (w_repo w))"
    "keyed prof_ID (ms_profiles (w_repo w))"
    "keyed rev_ID (ms_revocations (w_repo w))"
    "keyed crl_ID (ms_crls (w_repo w))"
    "keyed job_ID (ms_jobAttempts (w_repo w))"
    "keyed enr_ID (ms_enrollments (w_repo w))"
    "keyed cert_ID (ms_certificates (w_repo w))"
    "keyed rsp_ID (ms_ocspResponders (w_repo w))"
    "keyed ep_ID (ms_notifications (w_repo w))"
    "keyed msg_ID (ms_outbox (w_repo w))"
    "keyed key_ID (ms_apiKeys (w_repo w))"
    "keyed acc_ID (ms_acmeAccounts (w_repo w))"
    "keyed ord_ID (ms_acmeOrders (w_repo w))"
    "keyed authz_ID (ms_acmeAuthzs (w_repo w))"
    "keyed chal_ID (ms_acmeChallenges (w_repo w))"
    "keyed att_EnrollmentID (ms_issuanceAttempts (w_repo w))"
  using assms by (simp_all add: sound_def store_inv_def tables_keyed_def)

text \<open>A new identifier is no key of any table.\<close>

lemma sound_new:
  assumes "sound svc w" "w_ids w \<le> n"
  shows
    "mget (ms_identities (w_repo w)) (svc_idgen svc n) = None"
    "mget (ms_issuers (w_repo w)) (svc_idgen svc n) = None"
    "mget (ms_profiles (w_repo w)) (svc_idgen svc n) = None"
    "mget (ms_revocations (w_repo w)) (svc_idgen svc n) = None"
    "mget (ms_crls (w_repo w)) (svc_idgen svc n) = None"
    "mget (ms_jobAttempts (w_repo w)) (svc_idgen svc n) = None"
    "mget (ms_enrollments (w_repo w)) (svc_idgen svc n) = None"
    "mget (ms_certificates (w_repo w)) (svc_idgen svc n) = None"
    "mget (ms_ocspResponders (w_repo w)) (svc_idgen svc n) = None"
    "mget (ms_notifications (w_repo w)) (svc_idgen svc n) = None"
    "mget (ms_outbox (w_repo w)) (svc_idgen svc n) = None"
    "mget (ms_apiKeys (w_repo w)) (svc_idgen svc n) = None"
    "mget (ms_acmeAccounts (w_repo w)) (svc_idgen svc n) = None"
    "mget (ms_acmeOrders (w_repo w)) (svc_idgen svc n) = None"
    "mget (ms_acmeAuthzs (w_repo w)) (svc_idgen svc n) = None"
    "mget (ms_acmeChallenges (w_repo w)) (svc_idgen svc n) = None"
  using ids_freshD(2)[of svc w n] assms by (auto simp: sound_def used_ids_def)

text \<open>The obligations of a new row and of a row that took a step.\<close>

lemma dom_put: "dom (mget m) \<subseteq> U \<Longrightarrow> k \<in> U \<Longrightarrow> dom (mget (mput k v m)) \<subseteq> U"
  by (simp add: dom_mput)

lemma new_id_used: "w_ids w \<le> n \<Longrightarrow> n < N \<Longrightarrow> svc_idgen svc n \<in> A \<union> svc_idgen svc ` {w_ids w..<N}"
  by simp

lemma table_known: "mget m k = Some v \<Longrightarrow> dom (mget m) \<subseteq> U \<Longrightarrow> k \<in> U"
  by blast

lemma subset_used: "A \<subseteq> B \<Longrightarrow> A \<subseteq> B \<union> C"
  by blast

lemma sound_store_inv: "sound svc w \<Longrightarrow> store_inv (w_repo w)"
  by (simp add: sound_def)

text \<open>The identifiers handed out between two counts.\<close>

definition new_ids :: "Service \<Rightarrow> nat \<Rightarrow> nat \<Rightarrow> string set" where
  "new_ids svc a b = svc_idgen svc ` {a..<b}"

lemma new_ids_mem [simp]: "a \<le> n \<Longrightarrow> n < b \<Longrightarrow> svc_idgen svc n \<in> new_ids svc a b"
  by (simp add: new_ids_def)

lemma advance_by_updates:
  assumes "sound svc w" "w_repo w' = s'" "w_ids w' = n" "w_ids w \<le> n"
    and "evolves (w_repo w) s'" "store_inv s'"
    and "used_ids s' \<subseteq> used_ids (w_repo w) \<union> new_ids svc (w_ids w) n"
  shows "advance svc w w'"
  using assms by (intro advanceI) (auto simp: new_ids_def)

lemma dom_used_subset:
  "sound svc w \<Longrightarrow> dom (mget (ms_identities (w_repo w))) \<subseteq> used_ids (w_repo w) \<union> B"
  "sound svc w \<Longrightarrow> dom (mget (ms_issuers (w_repo w))) \<subseteq> used_ids (w_repo w) \<union> B"
  "sound svc w \<Longrightarrow> dom (mget (ms_profiles (w_repo w))) \<subseteq> used_ids (w_repo w) \<union> B"
  "sound svc w \<Longrightarrow> dom (mget (ms_revocations (w_repo w))) \<subseteq> used_ids (w_repo w) \<union> B"
  "sound svc w \<Longrightarrow> dom (mget (ms_crls (w_repo w))) \<subseteq> used_ids (w_repo w) \<union> B"
  "sound svc w \<Longrightarrow> dom (mget (ms_jobAttempts (w_repo w))) \<subseteq> used_ids (w_repo w) \<union> B"
  "sound svc w \<Longrightarrow> dom (mget (ms_enrollments (w_repo w))) \<subseteq> used_ids (w_repo w) \<union> B"
  "sound svc w \<Longrightarrow> dom (mget (ms_certificates (w_repo w))) \<subseteq> used_ids (w_repo w) \<union> B"
  "sound svc w \<Longrightarrow> dom (mget (ms_ocspResponders (w_repo w))) \<subseteq> used_ids (w_repo w) \<union> B"
  "sound svc w \<Longrightarrow> dom (mget (ms_notifications (w_repo w))) \<subseteq> used_ids (w_repo w) \<union> B"
  "sound svc w \<Longrightarrow> dom (mget (ms_outbox (w_repo w))) \<subseteq> used_ids (w_repo w) \<union> B"
  "sound svc w \<Longrightarrow> dom (mget (ms_apiKeys (w_repo w))) \<subseteq> used_ids (w_repo w) \<union> B"
  "sound svc w \<Longrightarrow> dom (mget (ms_acmeAccounts (w_repo w))) \<subseteq> used_ids (w_repo w) \<union> B"
  "sound svc w \<Longrightarrow> dom (mget (ms_acmeOrders (w_repo w))) \<subseteq> used_ids (w_repo w) \<union> B"
  "sound svc w \<Longrightarrow> dom (mget (ms_acmeAuthzs (w_repo w))) \<subseteq> used_ids (w_repo w) \<union> B"
  "sound svc w \<Longrightarrow> dom (mget (ms_acmeChallenges (w_repo w))) \<subseteq> used_ids (w_repo w) \<union> B"
  by (auto simp: used_ids_def)

text \<open>The same on the world a run ends in.\<close>

lemma advance_to:
  assumes "sound svc w" "w_ids w \<le> n" "evolves (w_repo w) s'" "store_inv s'"
    and "used_ids s' \<subseteq> used_ids (w_repo w) \<union> new_ids svc (w_ids w) n"
  shows "advance svc w (w\<lparr>w_ids := n, w_repo := s'\<rparr>)"
    "advance svc w (w\<lparr>w_clock := c, w_ids := n, w_repo := s'\<rparr>)"
    "advance svc w (w\<lparr>w_clock := c, w_ext := x, w_ids := n, w_repo := s'\<rparr>)"
    "n = w_ids w \<Longrightarrow> advance svc w (w\<lparr>w_clock := c, w_repo := s'\<rparr>)"
  using assms by (auto intro!: advance_by_updates)

text \<open>The rows that are in use keep their identifiers.\<close>

lemma row_used:
  "sound svc w \<Longrightarrow> mget (ms_identities (w_repo w)) k = Some videntities \<Longrightarrow> k \<in> used_ids (w_repo w)"
  "sound svc w \<Longrightarrow> mget (ms_issuers (w_repo w)) k = Some vissuers \<Longrightarrow> k \<in> used_ids (w_repo w)"
  "sound svc w \<Longrightarrow> mget (ms_profiles (w_repo w)) k = Some vprofiles \<Longrightarrow> k \<in> used_ids (w_repo w)"
  "sound svc w \<Longrightarrow> mget (ms_revocations (w_repo w)) k = Some vrevocations \<Longrightarrow> k \<in> used_ids (w_repo w)"
  "sound svc w \<Longrightarrow> mget (ms_crls (w_repo w)) k = Some vcrls \<Longrightarrow> k \<in> used_ids (w_repo w)"
  "sound svc w \<Longrightarrow> mget (ms_jobAttempts (w_repo w)) k = Some vjobAttempts \<Longrightarrow> k \<in> used_ids (w_repo w)"
  "sound svc w \<Longrightarrow> mget (ms_enrollments (w_repo w)) k = Some venrollments \<Longrightarrow> k \<in> used_ids (w_repo w)"
  "sound svc w \<Longrightarrow> mget (ms_certificates (w_repo w)) k = Some vcertificates \<Longrightarrow> k \<in> used_ids (w_repo w)"
  "sound svc w \<Longrightarrow> mget (ms_ocspResponders (w_repo w)) k = Some vocspResponders \<Longrightarrow> k \<in> used_ids (w_repo w)"
  "sound svc w \<Longrightarrow> mget (ms_notifications (w_repo w)) k = Some vnotifications \<Longrightarrow> k \<in> used_ids (w_repo w)"
  "sound svc w \<Longrightarrow> mget (ms_outbox (w_repo w)) k = Some voutbox \<Longrightarrow> k \<in> used_ids (w_repo w)"
  "sound svc w \<Longrightarrow> mget (ms_apiKeys (w_repo w)) k = Some vapiKeys \<Longrightarrow> k \<in> used_ids (w_repo w)"
  "sound svc w \<Longrightarrow> mget (ms_acmeAccounts (w_repo w)) k = Some vacmeAccounts \<Longrightarrow> k \<in> used_ids (w_repo w)"
  "sound svc w \<Longrightarrow> mget (ms_acmeOrders (w_repo w)) k = Some vacmeOrders \<Longrightarrow> k \<in> used_ids (w_repo w)"
  "sound svc w \<Longrightarrow> mget (ms_acmeAuthzs (w_repo w)) k = Some vacmeAuthzs \<Longrightarrow> k \<in> used_ids (w_repo w)"
  "sound svc w \<Longrightarrow> mget (ms_acmeChallenges (w_repo w)) k = Some vacmeChallenges \<Longrightarrow> k \<in> used_ids (w_repo w)"
  by (auto simp: used_ids_def)

text \<open>A step of one row, by table.\<close>

lemmas put_enrollments = put_step[where key = enr_ID and step = enrollmentStep, OF sound_keyed(7)]
lemmas put_certificates = put_step[where key = cert_ID and step = certificateStep, OF sound_keyed(8)]
lemmas put_ocspResponders = put_step[where key = rsp_ID and step = responderStep, OF sound_keyed(9)]
lemmas put_notifications = put_step[where key = ep_ID and step = endpointStep, OF sound_keyed(10)]
lemmas put_outbox = put_step[where key = msg_ID and step = messageStep, OF sound_keyed(11)]
lemmas put_apiKeys = put_step[where key = key_ID and step = apikeyStep, OF sound_keyed(12)]
lemmas put_acmeAccounts = put_step[where key = acc_ID and step = accountStep, OF sound_keyed(13)]
lemmas put_acmeOrders = put_step[where key = ord_ID and step = orderStep, OF sound_keyed(14)]
lemmas put_acmeAuthzs = put_step[where key = authz_ID and step = authzStep, OF sound_keyed(15)]
lemmas put_acmeChallenges = put_step[where key = chal_ID and step = challengeStep, OF sound_keyed(16)]
lemmas put_issuanceAttempts = put_step[where key = att_EnrollmentID and step = attemptStep, OF sound_keyed(17)]

text \<open>The clauses of the store invariant beyond the keys.\<close>

lemma sound_clauses:
  assumes "sound svc w"
  shows "one_active_responder (ms_ocspResponders (w_repo w))" "unique_certificates (ms_certificates (w_repo w))"
    "unique_crl_numbers (ms_crls (w_repo w))" "unique_thumbprints (ms_acmeAccounts (w_repo w))"
  using assms by (simp_all add: sound_def store_inv_def)

text \<open>What the leaves of such a proof need of a sound world.\<close>

lemmas sound_facts = sound_keyed sound_new sound_store_inv dom_used_subset

end
