(* ===== verification/Issuance.thy ===== *)
theory Issuance
  imports Policy Lifecycle
begin

text \<open>
  Issuance of certificates: \<^verbatim>\<open>IssueCertificate\<close>, \<^verbatim>\<open>claimIssuanceAttempt\<close>, \<^verbatim>\<open>persistSignedIssuanceAttempt\<close>,
  \<^verbatim>\<open>finalizeSignedIssuanceAttempt\<close> and the issuance audit of \<^verbatim>\<open>internal/lifecycle/service.go\<close>.

  Between its transactions an issuing node holds a copy of the attempt it claimed or signed, while other
  nodes may work on the same enrollment. The invariant \<open>issuance_ok svc H w\<close> therefore speaks of the
  stored rows and of a set \<open>H\<close> of held copies: certificates, issued enrollments and finalized attempts
  correspond one to one, and the identifiers planned in attempts are never shared. Each of the three
  transactions keeps it for every \<open>H\<close>, so it holds however the transactions of several nodes interleave.
\<close>

section \<open>Operations\<close>

definition defaultIssuanceSigningLease :: duration where
  "defaultIssuanceSigningLease = 5 * Minute"

definition newAttempt :: "string \<Rightarrow> time \<Rightarrow> IssuanceAttempt" where
  "newAttempt enrollmentID now =
     \<lparr>att_EnrollmentID = enrollmentID, att_Status = IssuanceAttemptSigning,
      att_LeaseExpiresAt = now + defaultIssuanceSigningLease, att_CertificateID = [], att_CertificatePEM = [],
      att_SerialNumber = [], att_Subject = [], att_NotBefore = time_zero, att_NotAfter = time_zero,
      att_SigningStartedAt = now, att_SignedAt = time_zero, att_FinalizedAt = time_zero, att_LastError = [],
      att_CreatedAt = now, att_UpdatedAt = now\<rparr>"

definition reclaimedAttempt :: "IssuanceAttempt \<Rightarrow> time \<Rightarrow> IssuanceAttempt" where
  "reclaimedAttempt current now = current\<lparr>att_Status := IssuanceAttemptSigning,
     att_LeaseExpiresAt := now + defaultIssuanceSigningLease, att_SigningStartedAt := now,
     att_LastError := [], att_UpdatedAt := now\<rparr>"

text \<open>What \<^verbatim>\<open>switch current.Status\<close> decides about an attempt found in the store.\<close>

datatype claimDecision = KeepAttempt | RefuseClaim | TakeOver

definition claimDecisionFor :: "IssuanceAttempt \<Rightarrow> time \<Rightarrow> claimDecision" where
  "claimDecisionFor current now =
     (case att_Status current of
        IssuanceAttemptSigned \<Rightarrow> KeepAttempt
      | IssuanceAttemptFinalized \<Rightarrow> KeepAttempt
      | IssuanceAttemptSigning \<Rightarrow> (if att_LeaseExpiresAt current > now then RefuseClaim else TakeOver)
      | IssuanceAttemptFailed \<Rightarrow> TakeOver
      | _ \<Rightarrow> RefuseClaim)"

definition claimIssuanceAttempt :: "string \<Rightarrow> time \<Rightarrow> (IssuanceAttempt \<times> bool) svc" where
  "claimIssuanceAttempt enrollmentID now =
     MemoryStore_WithinTx (
       bindM (attemptM (onRepo (memoryTx_GetIssuanceAttempt enrollmentID))) (\<lambda>r.
       case r of
         Inl err \<Rightarrow>
           if errors_Is err ErrIssuanceAttemptNotFound then
             thenM (onRepo (memoryTx_CreateIssuanceAttempt (newAttempt enrollmentID now)))
               (returnM (newAttempt enrollmentID now, True))
           else throwM err
       | Inr current \<Rightarrow>
           (case claimDecisionFor current now of
              KeepAttempt \<Rightarrow> returnM (current, False)
            | RefuseClaim \<Rightarrow> throwM ErrInvalidTransition
            | TakeOver \<Rightarrow>
                thenM (onRepo (memoryTx_UpdateIssuanceAttemptIfCurrent (reclaimedAttempt current now) current))
                  (returnM (reclaimedAttempt current now, True)))) )"

definition signedAttempt :: "IssuanceAttempt \<Rightarrow> string \<Rightarrow> IssueResult \<Rightarrow> time \<Rightarrow> IssuanceAttempt" where
  "signedAttempt current ident res now = current\<lparr>att_Status := IssuanceAttemptSigned,
     att_LeaseExpiresAt := time_zero, att_CertificateID := ident, att_CertificatePEM := irs_CertificatePEM res,
     att_SerialNumber := irs_SerialNumber res, att_Subject := irs_Subject res,
     att_NotBefore := irs_NotBefore res, att_NotAfter := irs_NotAfter res, att_SignedAt := now,
     att_LastError := [], att_UpdatedAt := now\<rparr>"

definition persistSignedIssuanceAttempt :: "Service \<Rightarrow> IssuanceAttempt \<Rightarrow> IssueResult \<Rightarrow> time \<Rightarrow> IssuanceAttempt svc" where
  "persistSignedIssuanceAttempt svc current res now =
     bindM (NewID svc) (\<lambda>ident.
     let signed = signedAttempt current ident res now in
     thenM (MemoryStore_WithinTx (onRepo (memoryTx_UpdateIssuanceAttemptIfCurrent signed current)))
       (returnM signed))"

definition certificateFor :: "Enrollment \<Rightarrow> IssuanceAttempt \<Rightarrow> time \<Rightarrow> Certificate" where
  "certificateFor currentEnrollment currentAttempt now =
     \<lparr>cert_ID = att_CertificateID currentAttempt, cert_IdentityID = enr_IdentityID currentEnrollment,
      cert_IssuerID = enr_IssuerID currentEnrollment, cert_EnrollmentID = enr_ID currentEnrollment,
      cert_CertificateProfileID = enr_CertificateProfileID currentEnrollment,
      cert_SerialNumber = att_SerialNumber currentAttempt, cert_Subject = att_Subject currentAttempt,
      cert_DNSNames = copySlice (enr_RequestedDNSNames currentEnrollment),
      cert_IPAddresses = copySlice (enr_RequestedIPAddresses currentEnrollment),
      cert_NotBefore = att_NotBefore currentAttempt, cert_NotAfter = att_NotAfter currentAttempt,
      cert_Status = CertificateValid, cert_CertificatePEM = att_CertificatePEM currentAttempt,
      cert_RenewalNotifiedAt = time_zero, cert_CreatedAt = now, cert_UpdatedAt = now\<rparr>"

definition finalizedAttempt :: "IssuanceAttempt \<Rightarrow> time \<Rightarrow> IssuanceAttempt" where
  "finalizedAttempt currentAttempt now = currentAttempt\<lparr>att_Status := IssuanceAttemptFinalized,
     att_FinalizedAt := now, att_UpdatedAt := now\<rparr>"

definition finalizeTx :: "string \<Rightarrow> IssuanceAttempt \<Rightarrow> time \<Rightarrow> Certificate svc" where
  "finalizeTx enrollmentID attempt now =
     MemoryStore_WithinTx (
       bindM (onRepo (memoryTx_GetEnrollment enrollmentID)) (\<lambda>currentEnrollment.
       if enr_Status currentEnrollment = EnrollmentIssued
       then onRepo (memoryTx_GetCertificateByEnrollmentID enrollmentID)
       else failIf (enr_Status currentEnrollment \<noteq> EnrollmentApproved) ErrInvalidTransition
      (bindM (onRepo (memoryTx_GetIssuanceAttempt enrollmentID)) (\<lambda>currentAttempt.
       failIf (att_Status currentAttempt \<noteq> IssuanceAttemptSigned \<or>
               att_CertificateID currentAttempt \<noteq> att_CertificateID attempt \<or>
               att_SerialNumber currentAttempt \<noteq> att_SerialNumber attempt) ErrInvalidTransition
      (let issuedEnrollment = currentEnrollment\<lparr>enr_Status := EnrollmentIssued, enr_UpdatedAt := now\<rparr>;
           certificate = certificateFor currentEnrollment currentAttempt now in
       thenM (onRepo (memoryTx_UpdateEnrollmentIfStatus issuedEnrollment EnrollmentApproved))
      (thenM (onRepo (memoryTx_CreateCertificate certificate))
      (thenM (onRepo (memoryTx_UpdateIssuanceAttemptIfCurrent (finalizedAttempt currentAttempt now) currentAttempt))
        (returnM certificate))))))) )"

definition failedAttempt :: "IssuanceAttempt \<Rightarrow> error \<Rightarrow> time \<Rightarrow> IssuanceAttempt" where
  "failedAttempt attempt err now =
     attempt\<lparr>att_Status := IssuanceAttemptFailed, att_LastError := error_text err, att_UpdatedAt := now\<rparr>"

text \<open>What follows a refused finalization: another node's certificate, or the attempt marked failed.\<close>

definition markFailed :: "string \<Rightarrow> IssuanceAttempt \<Rightarrow> time \<Rightarrow> error \<Rightarrow> Certificate svc" where
  "markFailed enrollmentID attempt now err =
     bindM (attemptM (onRepo (MemoryStore_GetCertificateByEnrollmentID enrollmentID))) (\<lambda>r.
       case r of
         Inr existing \<Rightarrow> returnM existing
       | Inl lookupErr \<Rightarrow>
           failIf (\<not> errors_Is lookupErr ErrCertificateNotFound) lookupErr
          (thenM (MemoryStore_WithinTx (onRepo (memoryTx_UpdateIssuanceAttemptIfCurrent (failedAttempt attempt err now) attempt)))
             (throwM err)))"

definition finalizeSignedIssuanceAttempt :: "string \<Rightarrow> IssuanceAttempt \<Rightarrow> time \<Rightarrow> Certificate svc" where
  "finalizeSignedIssuanceAttempt enrollmentID attempt now =
     (if att_Status attempt = IssuanceAttemptFinalized
      then onRepo (MemoryStore_GetCertificateByEnrollmentID enrollmentID)
      else failIf (att_Status attempt \<noteq> IssuanceAttemptSigned) ErrInvalidTransition
       (bindM (attemptM (finalizeTx enrollmentID attempt now)) (\<lambda>r.
        case r of
          Inr certificate \<Rightarrow> returnM certificate
        | Inl err \<Rightarrow>
            if errors_Is err ErrInvalidTransition then markFailed enrollmentID attempt now err else throwM err)))"

definition certificateAuditFields :: "Certificate \<Rightarrow> json gomap" where
  "certificateAuditFields certificate =
     auditFields [''identity_id'', cert_IdentityID certificate, ''issuer_id'', cert_IssuerID certificate,
       ''enrollment_id'', cert_EnrollmentID certificate, ''certificate_id'', cert_ID certificate,
       ''serial_number'', cert_SerialNumber certificate, ''profile_id'', cert_CertificateProfileID certificate]"

definition isIssuedEvent :: "AuditEvent \<Rightarrow> string \<Rightarrow> bool" where
  "isIssuedEvent event certificateID \<longleftrightarrow>
     aud_Action event = ''certificate.issued'' \<and> aud_ResourceType event = ''certificate'' \<and> aud_ResourceID event = certificateID"

definition ensureCertificateIssuedAuditEvent :: "Service \<Rightarrow> Context \<Rightarrow> string \<Rightarrow> Certificate \<Rightarrow> time \<Rightarrow> unit svc" where
  "ensureCertificateIssuedAuditEvent svc ctx actor certificate now =
     bindM (onRepo MemoryStore_ListAuditEvents) (\<lambda>events.
       if \<exists>event \<in> set events. isIssuedEvent event (cert_ID certificate) then returnM ()
       else MemoryStore_WithinTx (createAuditEvent svc ctx actor ''certificate.issued'' ''certificate''
         (cert_ID certificate) now (certificateAuditFields certificate)))"

fun repairLoop :: "Service \<Rightarrow> Context \<Rightarrow> string \<Rightarrow> time \<Rightarrow> Certificate list \<Rightarrow> string list \<Rightarrow> int \<Rightarrow> int svc" where
  "repairLoop svc ctx actor now [] audited repaired = returnM repaired"
| "repairLoop svc ctx actor now (certificate # rest) audited repaired =
     (if cert_ID certificate \<in> set audited then repairLoop svc ctx actor now rest audited repaired
      else thenM (ensureCertificateIssuedAuditEvent svc ctx actor certificate now)
        (repairLoop svc ctx actor now rest (cert_ID certificate # audited) (repaired + 1)))"

definition Service_RepairMissingIssuanceAuditEvents :: "Service \<Rightarrow> Context \<Rightarrow> string \<Rightarrow> int svc" where
  "Service_RepairMissingIssuanceAuditEvents svc ctx actor =
     bindM (onRepo MemoryStore_ListCertificates) (\<lambda>certificates.
     bindM (onRepo MemoryStore_ListAuditEvents) (\<lambda>events.
     let audited = map aud_ResourceID (filter (\<lambda>event. aud_Action event = ''certificate.issued'' \<and>
           aud_ResourceType event = ''certificate'') events) in
     bindM (Now svc) (\<lambda>now. repairLoop svc ctx actor now certificates audited 0)))"

definition issueRequestFor :: "Enrollment \<Rightarrow> Issuer \<Rightarrow> CertificateProfile \<Rightarrow> time \<Rightarrow> IssueRequest" where
  "issueRequestFor enrollment issuer profile now =
     \<lparr>irq_CSRPEM = enr_CSRPEM enrollment, irq_IssuerCertificatePEM = iss_CertificatePEM issuer,
      irq_IssuerKeyRef = iss_KeyRef issuer, irq_AIAURL = iss_AIAURL issuer,
      irq_CRLDistributionPoints = copySlice (iss_CRLDistributionPoints issuer),
      irq_Subject = enr_RequestedSubject enrollment, irq_DNSNames = copySlice (enr_RequestedDNSNames enrollment),
      irq_IPAddresses = copySlice (enr_RequestedIPAddresses enrollment), irq_NotBefore = now,
      irq_NotAfter = enr_RequestedNotAfter enrollment, irq_SignatureAlgorithm = profileSignatureAlgorithm profile,
      irq_ProfileID = prof_ID profile, irq_BasicConstraintsCritical = bc_Critical (prof_BasicConstraints profile),
      irq_BasicConstraintsCA = bc_CA (prof_BasicConstraints profile),
      irq_BasicConstraintsMaxPathLen = bc_MaxPathLen (prof_BasicConstraints profile),
      irq_KeyUsageCritical = slp_Critical (prof_KeyUsage profile),
      irq_KeyUsage = copySlice (slp_Values (prof_KeyUsage profile)),
      irq_ExtendedKeyUsageCritical = slp_Critical (prof_ExtendedKeyUsage profile),
      irq_ExtendedKeyUsage = copySlice (slp_Values (prof_ExtendedKeyUsage profile)),
      irq_SubjectKeyIdentifier = prof_SubjectKeyIdentifier profile,
      irq_AuthorityKeyIdentifier = prof_AuthorityKeyIdentifier profile\<rparr>"

text \<open>The case of an enrollment that is already issued.\<close>

definition reissuedResult :: "Service \<Rightarrow> Context \<Rightarrow> string \<Rightarrow> string \<Rightarrow> Certificate svc" where
  "reissuedResult svc ctx actor enrollmentID =
     bindM (attemptM (onRepo (MemoryStore_GetCertificateByEnrollmentID enrollmentID))) (\<lambda>r.
       case r of
         Inr certificate \<Rightarrow>
           bindM (Now svc) (\<lambda>now.
           thenM (ensureCertificateIssuedAuditEvent svc ctx actor certificate now) (returnM certificate))
       | Inl err \<Rightarrow>
           if \<not> errors_Is err ErrCertificateNotFound then throwM err else throwM ErrInvalidTransition)"

text \<open>The checks before signing; the result is what the signer is asked for.\<close>

definition issueProfile :: "string \<Rightarrow> CertificateProfile svc" where
  "issueProfile profileID =
     (if profileID \<noteq> [] then onRepo (MemoryStore_GetCertificateProfile profileID) else returnM zero_CertificateProfile)"

definition zero_CSRInfo :: CSRInfo where
  "zero_CSRInfo = \<lparr>csr_Subject = [], csr_DNSNames = [], csr_IPAddresses = [], csr_PublicKeyAlgorithm = [],
     csr_PublicKeySizeBits = 0, csr_SignatureAlgorithm = [], csr_ExtensionOIDs = []\<rparr>"

definition issueCSRInfo :: "Service \<Rightarrow> CertificateProfile \<Rightarrow> string \<Rightarrow> CSRInfo svc" where
  "issueCSRInfo svc profile csrPEM =
     (if profileRequiresCSRPolicy profile then
        bindM (attemptM (callExt (\<lambda>n. ci_InspectCSR (svc_issuer svc) n csrPEM))) (\<lambda>r.
          case r of Inl err \<Rightarrow> throwM (mapCSRInspectError err) | Inr csrInfo \<Rightarrow> returnM csrInfo)
      else returnM zero_CSRInfo)"

definition prepareIssue :: "Service \<Rightarrow> Enrollment \<Rightarrow> (IssueRequest \<times> time) svc" where
  "prepareIssue svc enrollment =
     bindM (onRepo (MemoryStore_GetIssuer (enr_IssuerID enrollment))) (\<lambda>issuer.
     bindM (onRepo (MemoryStore_GetIdentity (enr_IdentityID enrollment))) (\<lambda>identity.
     failIf (svc_productionPolicy svc \<and> length (identityCompletenessWarnings identity) > 0) ErrInvalidRequest
    (bindM (issueProfile (enr_CertificateProfileID enrollment)) (\<lambda>profile.
     bindM (Now svc) (\<lambda>now.
     bindM (issueCSRInfo svc profile (enr_CSRPEM enrollment)) (\<lambda>csrInfo.
     thenM (liftE (validateEnrollmentProfilePolicy (enrollmentProfilePolicyRequest enrollment) profile csrInfo now))
    (thenM (liftE (validateEnrollmentIdentityPolicy (enrollmentProfilePolicyRequest enrollment) identity))
      (returnM (issueRequestFor enrollment issuer profile now, now)))))))))"

text \<open>\<^verbatim>\<open>s.issuer.Issue\<close> followed by \<^verbatim>\<open>persistSignedIssuanceAttempt\<close>.\<close>

definition signAttempt :: "Service \<Rightarrow> IssueRequest \<Rightarrow> IssuanceAttempt \<Rightarrow> time \<Rightarrow> IssuanceAttempt svc" where
  "signAttempt svc req attempt now =
     bindM (attemptM (callExt (\<lambda>n. ci_Issue (svc_issuer svc) n req))) (\<lambda>r.
       case r of
         Inl err \<Rightarrow> throwM (mapIssueError err)
       | Inr res \<Rightarrow> persistSignedIssuanceAttempt svc attempt res now)"

definition issueApproved :: "Service \<Rightarrow> Context \<Rightarrow> string \<Rightarrow> string \<Rightarrow> Enrollment \<Rightarrow> Certificate svc" where
  "issueApproved svc ctx actor enrollmentID enrollment =
     bindM (prepareIssue svc enrollment) (\<lambda>(req, now).
     bindM (claimIssuanceAttempt enrollmentID now) (\<lambda>(claimed, shouldSign).
     bindM (if shouldSign then signAttempt svc req claimed now else returnM claimed) (\<lambda>attempt.
     bindM (finalizeSignedIssuanceAttempt enrollmentID attempt now) (\<lambda>certificate.
     thenM (ensureCertificateIssuedAuditEvent svc ctx actor certificate now)
       (returnM certificate)))))"

text \<open>The mutex held by the whole method only orders the calls of one process.\<close>

definition Service_IssueCertificate :: "Service \<Rightarrow> Context \<Rightarrow> string \<Rightarrow> string \<Rightarrow> Certificate svc" where
  "Service_IssueCertificate svc ctx actor enrollmentID =
     failIf (isBlank enrollmentID) ErrInvalidRequest
    (bindM (onRepo (MemoryStore_GetEnrollment enrollmentID)) (\<lambda>enrollment.
     if enr_Status enrollment = EnrollmentIssued then reissuedResult svc ctx actor enrollmentID
     else failIf (enr_Status enrollment \<noteq> EnrollmentApproved) ErrInvalidTransition
       (issueApproved svc ctx actor enrollmentID enrollment)))"

section \<open>The issuance invariant\<close>

text \<open>What a certificate takes from its enrollment and its attempt.\<close>

definition certificateOf :: "Enrollment \<Rightarrow> IssuanceAttempt \<Rightarrow> Certificate \<Rightarrow> bool" where
  "certificateOf e a c \<longleftrightarrow>
     cert_IdentityID c = enr_IdentityID e \<and> cert_IssuerID c = enr_IssuerID e \<and> cert_EnrollmentID c = enr_ID e \<and>
     cert_CertificateProfileID c = enr_CertificateProfileID e \<and> cert_DNSNames c = enr_RequestedDNSNames e \<and>
     cert_IPAddresses c = enr_RequestedIPAddresses e \<and> cert_ID c = att_CertificateID a \<and>
     cert_SerialNumber c = att_SerialNumber a \<and> cert_CertificatePEM c = att_CertificatePEM a \<and>
     cert_Subject c = att_Subject a \<and> cert_NotBefore c = att_NotBefore a \<and> cert_NotAfter c = att_NotAfter a"

text \<open>The stored attempts and the held ones.\<close>

definition attemptPool :: "IssuanceAttempt set \<Rightarrow> IssuanceAttempt gomap \<Rightarrow> IssuanceAttempt set" where
  "attemptPool H atts = ran (mget atts) \<union> H"

text \<open>\<open>F\<close> is the set of identifiers the generator has not handed out yet.\<close>

definition attempts_ok :: "string set \<Rightarrow> IssuanceAttempt set \<Rightarrow> IssuanceAttempt gomap \<Rightarrow> bool" where
  "attempts_ok F H atts \<longleftrightarrow>
     (\<forall>a \<in> attemptPool H atts. \<forall>a' \<in> attemptPool H atts.
        att_CertificateID a \<noteq> [] \<longrightarrow> att_CertificateID a = att_CertificateID a' \<longrightarrow> att_EnrollmentID a = att_EnrollmentID a') \<and>
     (\<forall>a \<in> attemptPool H atts. att_CertificateID a \<notin> F) \<and>
     (\<forall>a \<in> attemptPool H atts. att_Status a = IssuanceAttemptSigned \<longrightarrow> att_CertificateID a \<noteq> []) \<and>
     (\<forall>a \<in> attemptPool H atts. \<exists>a'. mget atts (att_EnrollmentID a) = Some a' \<and> att_CreatedAt a' = att_CreatedAt a)"

definition issued_ok :: "Enrollment gomap \<Rightarrow> IssuanceAttempt gomap \<Rightarrow> Certificate gomap \<Rightarrow> bool" where
  "issued_ok enrs atts certs \<longleftrightarrow>
     (\<forall>k c. mget certs k = Some c \<longrightarrow>
        (\<exists>a. mget atts (cert_EnrollmentID c) = Some a \<and> att_Status a = IssuanceAttemptFinalized \<and> att_CertificateID a = k)) \<and>
     (\<forall>k a. mget atts k = Some a \<longrightarrow> att_Status a = IssuanceAttemptFinalized \<longrightarrow>
        (\<exists>e c. mget enrs k = Some e \<and> enr_Status e = EnrollmentIssued \<and>
           mget certs (att_CertificateID a) = Some c \<and> certificateOf e a c)) \<and>
     (\<forall>k e. mget enrs k = Some e \<longrightarrow> enr_Status e = EnrollmentIssued \<longrightarrow>
        (\<exists>a. mget atts k = Some a \<and> att_Status a = IssuanceAttemptFinalized))"

definition futureIDs :: "Service \<Rightarrow> nat \<Rightarrow> string set" where
  "futureIDs svc n = svc_idgen svc ` {n..}"

definition issuance_ok :: "Service \<Rightarrow> IssuanceAttempt set \<Rightarrow> world \<Rightarrow> bool" where
  "issuance_ok svc H w \<longleftrightarrow>
     attempts_ok (futureIDs svc (w_ids w)) H (ms_issuanceAttempts (w_repo w)) \<and>
     issued_ok (ms_enrollments (w_repo w)) (ms_issuanceAttempts (w_repo w)) (ms_certificates (w_repo w))"

lemma attempts_ok_mono: "attempts_ok F H atts \<Longrightarrow> F' \<subseteq> F \<Longrightarrow> H' \<subseteq> H \<Longrightarrow> attempts_ok F' H' atts"
  unfolding attempts_ok_def attemptPool_def by blast

lemma futureIDs_mono: "m \<le> n \<Longrightarrow> futureIDs svc n \<subseteq> futureIDs svc m"
  by (auto simp: futureIDs_def)

lemma issuance_ok_less: "issuance_ok svc H w \<Longrightarrow> H' \<subseteq> H \<Longrightarrow> issuance_ok svc H' w"
  unfolding issuance_ok_def using attempts_ok_mono by blast

lemma attempts_okD:
  assumes "attempts_ok F H atts" "a \<in> attemptPool H atts"
  shows "a' \<in> attemptPool H atts \<Longrightarrow> att_CertificateID a \<noteq> [] \<Longrightarrow> att_CertificateID a = att_CertificateID a' \<Longrightarrow>
      att_EnrollmentID a = att_EnrollmentID a'"
    and "att_CertificateID a \<notin> F"
    and "att_Status a = IssuanceAttemptSigned \<Longrightarrow> att_CertificateID a \<noteq> []"
    and "\<exists>a'. mget atts (att_EnrollmentID a) = Some a' \<and> att_CreatedAt a' = att_CreatedAt a"
  using assms unfolding attempts_ok_def by blast+

lemma pool_stored: "mget atts k = Some a \<Longrightarrow> a \<in> attemptPool H atts"
  by (auto simp: attemptPool_def ran_def)

lemma issued_okD:
  assumes "issued_ok enrs atts certs"
  shows "mget certs k = Some c \<Longrightarrow>
      \<exists>a. mget atts (cert_EnrollmentID c) = Some a \<and> att_Status a = IssuanceAttemptFinalized \<and> att_CertificateID a = k"
    and "mget atts k = Some a \<Longrightarrow> att_Status a = IssuanceAttemptFinalized \<Longrightarrow>
      \<exists>e c. mget enrs k = Some e \<and> enr_Status e = EnrollmentIssued \<and> mget certs (att_CertificateID a) = Some c \<and> certificateOf e a c"
    and "mget enrs k = Some e \<Longrightarrow> enr_Status e = EnrollmentIssued \<Longrightarrow>
      \<exists>a. mget atts k = Some a \<and> att_Status a = IssuanceAttemptFinalized"
  using assms unfolding issued_ok_def by (blast, blast, blast)

text \<open>A new version of one attempt that shares its identifier with nobody.\<close>

lemma attempts_ok_put:
  assumes ok: "attempts_ok F H atts"
    and old: "\<And>a0. mget atts (att_EnrollmentID a) = Some a0 \<Longrightarrow> att_CreatedAt a0 = att_CreatedAt a"
    and own: "\<And>b. b \<in> attemptPool H atts \<Longrightarrow> att_CertificateID a \<noteq> [] \<Longrightarrow> att_CertificateID b = att_CertificateID a \<Longrightarrow>
      att_EnrollmentID b = att_EnrollmentID a"
    and "att_CertificateID a \<notin> F" "att_Status a = IssuanceAttemptSigned \<Longrightarrow> att_CertificateID a \<noteq> []"
  shows "attempts_ok F (insert a H) (mput (att_EnrollmentID a) a atts)"
proof -
  have pool: "attemptPool (insert a H) (mput (att_EnrollmentID a) a atts) \<subseteq> insert a (attemptPool H atts)"
    by (auto simp: attemptPool_def ran_def mget_mput split: if_splits)
  have created: "\<exists>a'. mget (mput (att_EnrollmentID a) a atts) (att_EnrollmentID b) = Some a' \<and> att_CreatedAt a' = att_CreatedAt b"
    if "b \<in> insert a (attemptPool H atts)" for b
  proof (cases "att_EnrollmentID b = att_EnrollmentID a")
    case True
    then show ?thesis
      using that attempts_okD(4)[OF ok, of b] old by (auto simp: mget_mput)
  next
    case False
    then show ?thesis
      using that attempts_okD(4)[OF ok, of b] by (auto simp: mget_mput)
  qed
  show ?thesis
    unfolding attempts_ok_def
  proof (intro conjI ballI impI)
    fix b b' assume b: "b \<in> attemptPool (insert a H) (mput (att_EnrollmentID a) a atts)"
      "b' \<in> attemptPool (insert a H) (mput (att_EnrollmentID a) a atts)"
      and eq: "att_CertificateID b \<noteq> []" "att_CertificateID b = att_CertificateID b'"
    then have "b \<in> insert a (attemptPool H atts)" "b' \<in> insert a (attemptPool H atts)" using pool by blast+
    then consider "b = a" "b' = a" | "b = a" "b' \<in> attemptPool H atts" | "b \<in> attemptPool H atts" "b' = a"
      | "b \<in> attemptPool H atts" "b' \<in> attemptPool H atts" by blast
    then show "att_EnrollmentID b = att_EnrollmentID b'"
    proof cases
      case 2
      then show ?thesis using own[OF 2(2)] eq by metis
    next
      case 3
      then show ?thesis using own[OF 3(1)] eq by metis
    next
      case 4
      then show ?thesis using attempts_okD(1)[OF ok 4] eq by metis
    qed simp
  next
    fix b assume "b \<in> attemptPool (insert a H) (mput (att_EnrollmentID a) a atts)"
    then have b: "b \<in> insert a (attemptPool H atts)" using pool by blast
    show "att_CertificateID b \<notin> F" using b assms(4) attempts_okD(2)[OF ok, of b] by auto
    show "\<exists>a'. mget (mput (att_EnrollmentID a) a atts) (att_EnrollmentID b) = Some a' \<and> att_CreatedAt a' = att_CreatedAt b"
      using created[OF b] .
    show "att_CertificateID b \<noteq> []" if "att_Status b = IssuanceAttemptSigned"
      using b that assms(5) attempts_okD(3)[OF ok, of b] by auto
  qed
qed

text \<open>Work on an attempt that is not finalized does not concern the issued certificates.\<close>

lemma issued_ok_put:
  assumes "issued_ok enrs atts certs" "att_Status a \<noteq> IssuanceAttemptFinalized"
    and "\<And>a0. mget atts k = Some a0 \<Longrightarrow> att_Status a0 \<noteq> IssuanceAttemptFinalized"
  shows "issued_ok enrs (mput k a atts) certs"
  unfolding issued_ok_def
proof (intro conjI allI impI)
  fix j c assume "mget certs j = Some c"
  from issued_okD(1)[OF assms(1) this] show "\<exists>a'. mget (mput k a atts) (cert_EnrollmentID c) = Some a' \<and>
      att_Status a' = IssuanceAttemptFinalized \<and> att_CertificateID a' = j"
    using assms(3) by (auto simp: mget_mput)
next
  fix j b assume "mget (mput k a atts) j = Some b" "att_Status b = IssuanceAttemptFinalized"
  then show "\<exists>e c. mget enrs j = Some e \<and> enr_Status e = EnrollmentIssued \<and> mget certs (att_CertificateID b) = Some c \<and> certificateOf e b c"
    using issued_okD(2)[OF assms(1)] assms(2) by (auto simp: mget_mput split: if_splits)
next
  fix j e assume "mget enrs j = Some e" "enr_Status e = EnrollmentIssued"
  from issued_okD(3)[OF assms(1) this] show "\<exists>b. mget (mput k a atts) j = Some b \<and> att_Status b = IssuanceAttemptFinalized"
    using assms(3) by (auto simp: mget_mput)
qed

text \<open>The identifier of a signed attempt is not the identifier of a certificate.\<close>

lemma signed_id_new:
  assumes "attempts_ok F H atts" "issued_ok enrs atts certs" "keyed att_EnrollmentID atts"
    and "mget atts k = Some a" "att_Status a = IssuanceAttemptSigned"
  shows "mget certs (att_CertificateID a) = None"
proof (rule ccontr)
  assume "mget certs (att_CertificateID a) \<noteq> None"
  then obtain c where "mget certs (att_CertificateID a) = Some c" by blast
  from issued_okD(1)[OF assms(2) this] obtain a' where
    a': "mget atts (cert_EnrollmentID c) = Some a'" "att_Status a' = IssuanceAttemptFinalized"
      "att_CertificateID a' = att_CertificateID a" by blast
  then have "att_EnrollmentID a' = att_EnrollmentID a"
    using attempts_okD(1)[OF assms(1) pool_stored[OF a'(1)] pool_stored[OF assms(4)]]
      attempts_okD(3)[OF assms(1) pool_stored[OF assms(4)] assms(5)] by auto
  then have "a' = a" using a'(1) assms(3,4) by (metis keyedD option.inject)
  then show False using a'(2) assms(5) by simp
qed

lemma issued_ok_finalize:
  assumes ok: "issued_ok enrs atts certs"
    and e: "mget enrs k = Some e" "enr_Status e = EnrollmentApproved" "enr_ID e = k"
    and a: "mget atts k = Some a" "att_Status a = IssuanceAttemptSigned"
    and new: "mget certs (att_CertificateID a) = None"
  shows "issued_ok (mput k (e\<lparr>enr_Status := EnrollmentIssued, enr_UpdatedAt := t\<rparr>) enrs)
     (mput k (finalizedAttempt a t) atts) (mput (att_CertificateID a) (certificateFor e a t) certs)"
proof -
  let ?e = "e\<lparr>enr_Status := EnrollmentIssued, enr_UpdatedAt := t\<rparr>" and ?a = "finalizedAttempt a t"
  let ?c = "certificateFor e a t"
  have of: "certificateOf ?e ?a ?c" "cert_EnrollmentID ?c = k" "att_Status ?a = IssuanceAttemptFinalized"
    "att_CertificateID ?a = att_CertificateID a"
    using e(3) by (simp_all add: certificateOf_def finalizedAttempt_def certificateFor_def)
  have other: "cert_EnrollmentID c \<noteq> k" if "mget certs j = Some c" for j c
    using issued_okD(1)[OF ok that] a by auto
  have fresh: "att_CertificateID b \<noteq> att_CertificateID a" if "mget atts j = Some b" "att_Status b = IssuanceAttemptFinalized" for j b
    using issued_okD(2)[OF ok that] new by auto
  show ?thesis
    unfolding issued_ok_def
  proof (intro conjI allI impI)
    fix j c assume "mget (mput (att_CertificateID a) ?c certs) j = Some c"
    then show "\<exists>b. mget (mput k ?a atts) (cert_EnrollmentID c) = Some b \<and> att_Status b = IssuanceAttemptFinalized \<and> att_CertificateID b = j"
      using of issued_okD(1)[OF ok, of j c] other[of j c] by (auto simp: mget_mput split: if_splits)
  next
    fix j b assume "mget (mput k ?a atts) j = Some b" "att_Status b = IssuanceAttemptFinalized"
    then show "\<exists>e' c. mget (mput k ?e enrs) j = Some e' \<and> enr_Status e' = EnrollmentIssued \<and>
        mget (mput (att_CertificateID a) ?c certs) (att_CertificateID b) = Some c \<and> certificateOf e' b c"
      using of issued_okD(2)[OF ok, of j b] fresh[of j b] by (cases "j = k") (auto simp: mget_mput)
  next
    fix j e' assume "mget (mput k ?e enrs) j = Some e'" "enr_Status e' = EnrollmentIssued"
    then show "\<exists>b. mget (mput k ?a atts) j = Some b \<and> att_Status b = IssuanceAttemptFinalized"
      using of issued_okD(3)[OF ok, of j e'] by (cases "j = k") (auto simp: mget_mput)
  qed
qed

section \<open>The three transactions keep the invariant\<close>

text \<open>Writing one attempt that is not finalized over one that is not, or over none.\<close>

definition putAttempt :: "IssuanceAttempt \<Rightarrow> world \<Rightarrow> world" where
  "putAttempt a w = w\<lparr>w_repo := (w_repo w)\<lparr>ms_issuanceAttempts := mput (att_EnrollmentID a) a (ms_issuanceAttempts (w_repo w))\<rparr>\<rparr>"

lemma putAttempt_keeps:
  assumes s: "sound svc w" and ok: "issuance_ok svc H w" and n: "w_ids w \<le> n"
    and old: "\<And>a0. mget (ms_issuanceAttempts (w_repo w)) (att_EnrollmentID a) = Some a0 \<Longrightarrow>
      attemptStep a0 a \<and> att_Status a0 \<noteq> IssuanceAttemptFinalized"
    and st: "att_Status a \<noteq> IssuanceAttemptFinalized"
    and own: "\<And>b. b \<in> attemptPool H (ms_issuanceAttempts (w_repo w)) \<Longrightarrow> att_CertificateID a \<noteq> [] \<Longrightarrow>
      att_CertificateID b = att_CertificateID a \<Longrightarrow> att_EnrollmentID b = att_EnrollmentID a"
    and fresh: "att_CertificateID a \<notin> futureIDs svc n"
    and named: "att_Status a = IssuanceAttemptSigned \<Longrightarrow> att_CertificateID a \<noteq> []"
  shows "advance svc w (putAttempt a (w\<lparr>w_ids := n\<rparr>))" "issuance_ok svc (insert a H) (putAttempt a (w\<lparr>w_ids := n\<rparr>))"
proof -
  have "table_evolves attemptStep (ms_issuanceAttempts (w_repo w))
      (mput (att_EnrollmentID a) a (ms_issuanceAttempts (w_repo w)))"
    using old by (intro table_evolves_mput) blast
  then show "advance svc w (putAttempt a (w\<lparr>w_ids := n\<rparr>))"
    unfolding putAttempt_def using n by (simp, intro advance_to[OF s] update_rules) (simp_all add: sound_facts[OF s])
  have "attempts_ok (futureIDs svc n) H (ms_issuanceAttempts (w_repo w))"
    using ok futureIDs_mono[OF n] by (auto simp: issuance_ok_def intro: attempts_ok_mono)
  then have "attempts_ok (futureIDs svc n) (insert a H) (mput (att_EnrollmentID a) a (ms_issuanceAttempts (w_repo w)))"
    using old own fresh named by (intro attempts_ok_put) (auto simp: attemptStep_def)
  moreover have "issued_ok (ms_enrollments (w_repo w)) (mput (att_EnrollmentID a) a (ms_issuanceAttempts (w_repo w)))
      (ms_certificates (w_repo w))"
    using ok old st by (intro issued_ok_put) (auto simp: issuance_ok_def)
  ultimately show "issuance_ok svc (insert a H) (putAttempt a (w\<lparr>w_ids := n\<rparr>))"
    by (simp add: issuance_ok_def putAttempt_def)
qed

lemma create_attempt_Inr:
  "createIssuanceAttempt atts a = Inr atts' \<longleftrightarrow>
     mget atts (att_EnrollmentID a) = None \<and> atts' = mput (att_EnrollmentID a) a atts"
  by (auto simp: createIssuanceAttempt_def split: option.splits)

lemma get_attempt:
  "MemoryStore_GetIssuanceAttempt i s = (r, s') \<longleftrightarrow>
     r = (case mget (ms_issuanceAttempts s) i of None \<Rightarrow> Inl ErrIssuanceAttemptNotFound | Some a \<Rightarrow> Inr a) \<and> s' = s"
  by (auto simp: MemoryStore_GetIssuanceAttempt_def getIssuanceAttempt_def split: option.splits)

lemma onRepo_run: "onRepo p w = (r, w') \<longleftrightarrow> (\<exists>s'. p (w_repo w) = (r, s') \<and> w' = w\<lparr>w_repo := s'\<rparr>)"
  by (auto simp: run_onRepo split: prod.splits)

lemma pool_insert: "mget atts k = Some a \<Longrightarrow> attemptPool (insert a H) atts = attemptPool H atts"
  by (auto simp: attemptPool_def ran_def)

lemma attempts_ok_insert: "mget atts k = Some a \<Longrightarrow> attempts_ok F (insert a H) atts = attempts_ok F H atts"
  unfolding attempts_ok_def by (simp only: pool_insert)

text \<open>The ways a claim can succeed.\<close>

lemma claim_Inr:
  assumes "claimIssuanceAttempt enrollmentID now w = (Inr (a, shouldSign), w')"
  shows "(shouldSign \<and> mget (ms_issuanceAttempts (w_repo w)) enrollmentID = None \<and>
            a = newAttempt enrollmentID now \<and> w' = putAttempt a w) \<or>
         (\<exists>current. shouldSign \<and> mget (ms_issuanceAttempts (w_repo w)) enrollmentID = Some current \<and>
            claimDecisionFor current now = TakeOver \<and> a = reclaimedAttempt current now \<and> w' = putAttempt a w) \<or>
         (\<not> shouldSign \<and> mget (ms_issuanceAttempts (w_repo w)) enrollmentID = Some a \<and>
            claimDecisionFor a now = KeepAttempt \<and> w' = w)"
  using assms
  by (auto simp: claimIssuanceAttempt_def inr_simps get_attempt onRepo_run create_attempt_Inr putAttempt_def
      newAttempt_def split: option.splits claimDecision.splits dest!: guarded_D)

lemma takeOver_status:
  "claimDecisionFor current now = TakeOver \<Longrightarrow>
     att_Status current = IssuanceAttemptSigning \<and> att_LeaseExpiresAt current \<le> now \<or> att_Status current = IssuanceAttemptFailed"
  by (auto simp: claimDecisionFor_def split: IssuanceAttemptStatus.splits if_splits)

lemma futureIDs_mem: "ids_fresh svc w \<Longrightarrow> svc_idgen svc n \<in> futureIDs svc m \<longleftrightarrow> m \<le> n"
  by (auto simp: futureIDs_def ids_freshD(1))

lemma Nil_no_future: "ids_fresh svc w \<Longrightarrow> [] \<notin> futureIDs svc (w_ids w)"
  using ids_freshD(3) by (force simp: futureIDs_def)

lemma claim_keeps:
  assumes s: "sound svc w" and ok: "issuance_ok svc H w"
    and run: "claimIssuanceAttempt enrollmentID now w = (Inr (a, shouldSign), w')"
  shows "advance svc w w' \<and> issuance_ok svc (insert a H) w' \<and> att_EnrollmentID a = enrollmentID"
proof -
  have upd: "w\<lparr>w_ids := w_ids w\<rparr> = w" by simp
  have fresh: "ids_fresh svc w" and keyed: "keyed att_EnrollmentID (ms_issuanceAttempts (w_repo w))"
    using s sound_keyed(17)[OF s] by (simp_all add: sound_def)
  have ok': "attempts_ok (futureIDs svc (w_ids w)) H (ms_issuanceAttempts (w_repo w))"
    using ok by (simp add: issuance_ok_def)
  from claim_Inr[OF run] show ?thesis
  proof (elim disjE exE conjE, goal_cases new take keep)
    case new
    note new = new(2-4)
    have "advance svc w (putAttempt a (w\<lparr>w_ids := w_ids w\<rparr>)) \<and> issuance_ok svc (insert a H) (putAttempt a (w\<lparr>w_ids := w_ids w\<rparr>))"
      by (intro conjI putAttempt_keeps[OF s ok]) (use new Nil_no_future[OF fresh] in \<open>auto simp: newAttempt_def\<close>)
    then show ?thesis using new by (simp add: newAttempt_def)
  next
    case (take current)
    note take = take(2-5)
    have i: "att_EnrollmentID current = enrollmentID" using keyedD[OF keyed take(1)] .
    note cur = attempts_okD[OF ok' pool_stored[OF take(1)]]
    have "attemptStep current a"
      using takeOver_status[OF take(2)] take(3) by (auto simp: attemptStep_def reclaimedAttempt_def)
    moreover have "att_EnrollmentID a = enrollmentID" "att_CertificateID a = att_CertificateID current"
        "att_Status a = IssuanceAttemptSigning" using take(3) i by (simp_all add: reclaimedAttempt_def)
    moreover have "att_EnrollmentID b = enrollmentID" if "b \<in> attemptPool H (ms_issuanceAttempts (w_repo w))"
        "att_CertificateID current \<noteq> []" "att_CertificateID b = att_CertificateID current" for b
      using cur(1)[OF that(1,2)] that(3) i by simp
    ultimately have "advance svc w (putAttempt a (w\<lparr>w_ids := w_ids w\<rparr>)) \<and> issuance_ok svc (insert a H) (putAttempt a (w\<lparr>w_ids := w_ids w\<rparr>))"
      using take(1) cur(2) takeOver_status[OF take(2)] by (intro conjI putAttempt_keeps[OF s ok]) auto
    then show ?thesis using take i by (simp add: reclaimedAttempt_def)
  next
    case keep
    note keep = keep(2,4)
    have "issuance_ok svc (insert a H) w"
      using ok attempts_ok_insert[OF keep(1)] by (simp add: issuance_ok_def)
    then show ?thesis
      using keep(2) advance_refl[OF s] keyedD[OF keyed keep(1)] by simp
  qed
qed

section \<open>Programs that keep the invariant\<close>

text \<open>
  \<open>issues svc H m K Q\<close>: run with the attempts \<open>H\<close> held somewhere, \<open>m\<close> advances the world and keeps the
  invariant whatever it returns; when it returns \<open>x\<close>, the attempts \<open>K x\<close> may be held as well and \<open>Q x\<close>
  holds.
\<close>

definition issues ::
  "Service \<Rightarrow> IssuanceAttempt set \<Rightarrow> 'a svc \<Rightarrow> ('a \<Rightarrow> IssuanceAttempt set) \<Rightarrow> ('a \<Rightarrow> bool) \<Rightarrow> bool" where
  "issues svc H m K Q \<longleftrightarrow>
     (\<forall>w r w'. sound svc w \<longrightarrow> issuance_ok svc H w \<longrightarrow> m w = (r, w') \<longrightarrow>
        advance svc w w' \<and> issuance_ok svc (H \<union> (case r of Inr x \<Rightarrow> K x | Inl _ \<Rightarrow> {})) w' \<and>
        (case r of Inr x \<Rightarrow> Q x | Inl _ \<Rightarrow> True))"

lemma issuesD:
  assumes "issues svc H m K Q" "sound svc w" "issuance_ok svc H w" "m w = (r, w')"
  shows "advance svc w w'" "sound svc w'" "issuance_ok svc H w'"
    "r = Inr x \<Longrightarrow> issuance_ok svc (H \<union> K x) w'" "r = Inr x \<Longrightarrow> Q x"
proof -
  have a: "advance svc w w' \<and> issuance_ok svc (H \<union> (case r of Inr x \<Rightarrow> K x | Inl _ \<Rightarrow> {})) w' \<and>
      (case r of Inr x \<Rightarrow> Q x | Inl _ \<Rightarrow> True)"
    using assms unfolding issues_def by blast
  then show "advance svc w w'" "sound svc w'" by (simp_all add: advance_def)
  show "issuance_ok svc H w'" using a by (blast intro: issuance_ok_less)
  show "r = Inr x \<Longrightarrow> issuance_ok svc (H \<union> K x) w'" "r = Inr x \<Longrightarrow> Q x" using a by simp_all
qed

lemma issuesI:
  assumes "\<And>w e w'. sound svc w \<Longrightarrow> issuance_ok svc H w \<Longrightarrow> m w = (Inl e, w') \<Longrightarrow> advance svc w w' \<and> issuance_ok svc H w'"
    and "\<And>w x w'. sound svc w \<Longrightarrow> issuance_ok svc H w \<Longrightarrow> m w = (Inr x, w') \<Longrightarrow>
      advance svc w w' \<and> issuance_ok svc (H \<union> K x) w' \<and> Q x"
  shows "issues svc H m K Q"
  unfolding issues_def
proof (intro allI impI)
  fix w r w' assume "sound svc w" "issuance_ok svc H w" "m w = (r, w')"
  then show "advance svc w w' \<and> issuance_ok svc (H \<union> (case r of Inr x \<Rightarrow> K x | Inl _ \<Rightarrow> {})) w' \<and>
      (case r of Inr x \<Rightarrow> Q x | Inl _ \<Rightarrow> True)"
    using assms by (cases r) simp_all
qed

lemma issuance_ok_ids:
  "issuance_ok svc H w \<Longrightarrow> w_repo w' = w_repo w \<Longrightarrow> w_ids w \<le> w_ids w' \<Longrightarrow> issuance_ok svc H w'"
  by (auto simp: issuance_ok_def intro: attempts_ok_mono[OF _ futureIDs_mono subset_refl])

lemma clean_issues:
  assumes "clean m"
    and "\<And>w x w'. sound svc w \<Longrightarrow> issuance_ok svc H w \<Longrightarrow> m w = (Inr x, w') \<Longrightarrow>
      advance svc w w' \<and> issuance_ok svc (H \<union> K x) w' \<and> Q x"
  shows "issues svc H m K Q"
proof (rule issuesI)
  fix w e w' assume "sound svc w" "issuance_ok svc H w" "m w = (Inl e, w')"
  then show "advance svc w w' \<and> issuance_ok svc H w'"
    using cleanD[OF assms(1)] by (meson advance_same_repo issuance_ok_ids)
qed (use assms(2) in blast)

lemma quiet_issues:
  assumes "quiet m" "\<And>w x w'. m w = (Inr x, w') \<Longrightarrow> Q x"
  shows "issues svc H m (\<lambda>_. {}) Q"
proof (rule clean_issues[OF quiet_clean[OF assms(1)]])
  fix w x w' assume "sound svc w" "issuance_ok svc H w" and run: "m w = (Inr x, w')"
  moreover have "w_repo w' = w_repo w" "w_ids w \<le> w_ids w'"
    using assms(1) run unfolding quiet_def grows_def by (metis snd_conv)+
  ultimately show "advance svc w w' \<and> issuance_ok svc (H \<union> {}) w' \<and> Q x"
    using assms(2)[OF run] advance_same_repo issuance_ok_ids by simp
qed

lemma issues_bind:
  assumes "issues svc H m K Q" "\<And>x. Q x \<Longrightarrow> issues svc (H \<union> K x) (f x) K' Q'"
  shows "issues svc H (bindM m f) K' Q'"
proof (rule issuesI)
  fix w assume s: "sound svc w" and ok: "issuance_ok svc H w"
  obtain r1 w1 where m: "m w = (r1, w1)" by (cases "m w")
  note d = issuesD[OF assms(1) s ok m]
  {
    fix e w' assume "bindM m f w = (Inl e, w')"
    then consider "r1 = Inl e" "w' = w1" | x where "r1 = Inr x" "f x w1 = (Inl e, w')"
      using m by (cases r1) (auto simp: bindM_def)
    then show "advance svc w w' \<and> issuance_ok svc H w'"
    proof cases
      case (2 x)
      note d2 = issuesD[OF assms(2)[OF d(5)[OF 2(1)]] d(2) d(4)[OF 2(1)] 2(2)]
      then show ?thesis using d(1) advance_trans issuance_ok_less by blast
    qed (use d in simp)
  next
    fix y w' assume "bindM m f w = (Inr y, w')"
    then obtain x where x: "r1 = Inr x" "f x w1 = (Inr y, w')"
      using m by (cases r1) (auto simp: bindM_def)
    note d2 = issuesD[OF assms(2)[OF d(5)[OF x(1)]] d(2) d(4)[OF x(1)] x(2)]
    have "H \<union> K' y \<subseteq> H \<union> K x \<union> K' y" by blast
    then show "advance svc w w' \<and> issuance_ok svc (H \<union> K' y) w' \<and> Q' y"
      using d(1) d2(1) d2(4,5)[OF refl] advance_trans issuance_ok_less by blast
  }
qed

lemma issues_then: "issues svc H m K Q \<Longrightarrow> (\<And>x. issues svc (H \<union> K x) k K' Q') \<Longrightarrow> issues svc H (thenM m k) K' Q'"
  unfolding thenM_def by (rule issues_bind)

lemma issues_weaken:
  assumes "issues svc H m K Q" "\<And>x. K' x \<subseteq> K x" "\<And>x. Q x \<Longrightarrow> Q' x"
  shows "issues svc H m K' Q'"
proof (rule issuesI)
  fix w x w' assume a: "sound svc w" "issuance_ok svc H w" "m w = (Inr x, w')"
  have "H \<union> K' x \<subseteq> H \<union> K x" using assms(2) by blast
  then have "issuance_ok svc (H \<union> K' x) w'"
    by (rule issuance_ok_less[OF issuesD(4)[OF assms(1) a refl]])
  then show "advance svc w w' \<and> issuance_ok svc (H \<union> K' x) w' \<and> Q' x"
    using issuesD(1)[OF assms(1) a] assms(3)[OF issuesD(5)[OF assms(1) a refl]] by simp
next
  fix w e w' assume a: "sound svc w" "issuance_ok svc H w" "m w = (Inl e, w')"
  show "advance svc w w' \<and> issuance_ok svc H w'" using issuesD(1,3)[OF assms(1) a] by simp
qed

lemma issues_attempt:
  assumes "issues svc H m K Q"
  shows "issues svc H (attemptM m) (\<lambda>_. {}) (\<lambda>_. True)"
proof (rule issuesI)
  fix w r w' assume a: "sound svc w" "issuance_ok svc H w" and "attemptM m w = (Inr r, w')"
  then have "m w = (r, w')" by (simp add: basic_Inr)
  then show "advance svc w w' \<and> issuance_ok svc (H \<union> {}) w' \<and> True"
    using issuesD(1,3)[OF assms a] by simp
qed (auto simp: attemptM_def split: prod.splits)

lemma issues_throw: "issues svc H (throwM e) K Q"
  by (rule issuesI) (simp_all add: advance_refl)

lemma issues_return: "K x \<subseteq> H \<Longrightarrow> Q x \<Longrightarrow> issues svc H (returnM x) K Q"
  by (rule issuesI) (simp_all add: advance_refl Un_absorb2)

lemma quiet_issues': "quiet m \<Longrightarrow> issues svc H m (\<lambda>_. {}) (\<lambda>_. True)"
  by (rule quiet_issues) simp_all

lemma claim_clean: "clean (claimIssuanceAttempt enrollmentID now)"
  unfolding claimIssuanceAttempt_def by (intro clean_tx clean_rules) (auto intro!: clean_rules split: claimDecision.splits)

lemma claim_issues:
  "issues svc H (claimIssuanceAttempt enrollmentID now) (\<lambda>(a, _). {a})
     (\<lambda>(a, shouldSign). att_EnrollmentID a = enrollmentID \<and> (shouldSign \<longrightarrow> att_Status a = IssuanceAttemptSigning))"
proof (rule clean_issues[OF claim_clean])
  fix w x w'
  assume a: "sound svc w" "issuance_ok svc H w" and run: "claimIssuanceAttempt enrollmentID now w = (Inr x, w')"
  obtain a shouldSign where x: "x = (a, shouldSign)" by (cases x)
  note run = run[unfolded x]
  have "shouldSign \<longrightarrow> att_Status a = IssuanceAttemptSigning"
    using claim_Inr[OF run] by (auto simp: newAttempt_def reclaimedAttempt_def)
  then show "advance svc w w' \<and> issuance_ok svc (H \<union> (case x of (a, _) \<Rightarrow> {a})) w' \<and>
      (case x of (a, shouldSign) \<Rightarrow> att_EnrollmentID a = enrollmentID \<and> (shouldSign \<longrightarrow> att_Status a = IssuanceAttemptSigning))"
    using claim_keeps[OF a run] x by simp
qed

lemma persist_clean: "clean (persistSignedIssuanceAttempt svc current res now)"
  unfolding persistSignedIssuanceAttempt_def by (intro clean_rules)

text \<open>The stored row a held attempt may still replace.\<close>

lemma held_current:
  assumes ok: "issuance_ok svc H w" and held: "current \<in> H"
    and upd: "updateIssuanceAttemptIfCurrent (ms_issuanceAttempts (w_repo w)) a current = Inr m"
    and same: "att_EnrollmentID a = att_EnrollmentID current"
  obtains a0 where "mget (ms_issuanceAttempts (w_repo w)) (att_EnrollmentID a) = Some a0"
    "att_Status a0 = att_Status current" "att_CreatedAt a0 = att_CreatedAt current"
    "m = mput (att_EnrollmentID a) a (ms_issuanceAttempts (w_repo w))"
proof -
  have "attempts_ok (futureIDs svc (w_ids w)) H (ms_issuanceAttempts (w_repo w))"
    "current \<in> attemptPool H (ms_issuanceAttempts (w_repo w))"
    using ok held by (simp_all add: attemptPool_def issuance_ok_def)
  from attempts_okD(4)[OF this] show thesis
    using attempt_table.upd_D[OF upd] same that by auto
qed

lemma persist_issues:
  assumes held: "current \<in> H" and st: "att_Status current = IssuanceAttemptSigning"
  shows "issues svc H (persistSignedIssuanceAttempt svc current res now) (\<lambda>a. {a})
     (\<lambda>a. att_EnrollmentID a = att_EnrollmentID current \<and> att_Status a = IssuanceAttemptSigned)"
proof (rule clean_issues[OF persist_clean])
  fix w x w'
  assume s: "sound svc w" and ok: "issuance_ok svc H w"
    and run: "persistSignedIssuanceAttempt svc current res now w = (Inr x, w')"
  let ?id = "svc_idgen svc (w_ids w)"
  have x: "x = signedAttempt current ?id res now"
    and upd: "\<exists>m. updateIssuanceAttemptIfCurrent (ms_issuanceAttempts (w_repo w)) x current = Inr m \<and>
      w' = w\<lparr>w_ids := Suc (w_ids w), w_repo := (w_repo w)\<lparr>ms_issuanceAttempts := m\<rparr>\<rparr>"
    using run by (auto simp: persistSignedIssuanceAttempt_def inr_simps Let_def)
  have xs: "att_EnrollmentID x = att_EnrollmentID current" "att_Status x = IssuanceAttemptSigned"
    "att_CertificateID x = ?id" "att_CreatedAt x = att_CreatedAt current"
    by (simp_all add: x signedAttempt_def)
  from upd obtain m where m: "updateIssuanceAttemptIfCurrent (ms_issuanceAttempts (w_repo w)) x current = Inr m"
    and w': "w' = w\<lparr>w_ids := Suc (w_ids w), w_repo := (w_repo w)\<lparr>ms_issuanceAttempts := m\<rparr>\<rparr>" by blast
  obtain a0 where a0: "mget (ms_issuanceAttempts (w_repo w)) (att_EnrollmentID x) = Some a0"
    "att_Status a0 = att_Status current" "att_CreatedAt a0 = att_CreatedAt current"
    and m': "m = mput (att_EnrollmentID x) x (ms_issuanceAttempts (w_repo w))"
    by (rule held_current[OF ok held m xs(1)])
  have fresh: "ids_fresh svc w" using s by (simp add: sound_def)
  have "att_EnrollmentID a0 = att_EnrollmentID x" using keyedD[OF sound_keyed(17)[OF s] a0(1)] .
  then have step: "attemptStep a0 x" using a0 xs st by (simp add: attemptStep_def)
  have own: "att_CertificateID b \<noteq> ?id" if "b \<in> attemptPool H (ms_issuanceAttempts (w_repo w))" for b
    using attempts_okD(2)[OF _ that] ok futureIDs_mem[OF fresh, of "w_ids w" "w_ids w"] by (auto simp: issuance_ok_def)
  have "advance svc w (putAttempt x (w\<lparr>w_ids := Suc (w_ids w)\<rparr>)) \<and>
      issuance_ok svc (insert x H) (putAttempt x (w\<lparr>w_ids := Suc (w_ids w)\<rparr>))"
    by (intro conjI putAttempt_keeps[OF s ok])
      (use a0 step st xs own ids_freshD(3)[OF fresh] futureIDs_mem[OF fresh, of "w_ids w"] in auto)
  moreover have "putAttempt x (w\<lparr>w_ids := Suc (w_ids w)\<rparr>) = w'" by (simp add: putAttempt_def w' m')
  ultimately show "advance svc w w' \<and> issuance_ok svc (H \<union> {x}) w' \<and>
      att_EnrollmentID x = att_EnrollmentID current \<and> att_Status x = IssuanceAttemptSigned"
    using xs by simp
qed

text \<open>What a successful finalization did.\<close>

definition finalizedWorld :: "Enrollment \<Rightarrow> IssuanceAttempt \<Rightarrow> time \<Rightarrow> world \<Rightarrow> world" where
  "finalizedWorld e a now w = w\<lparr>w_repo := (w_repo w)\<lparr>
     ms_enrollments := mput (enr_ID e) (e\<lparr>enr_Status := EnrollmentIssued, enr_UpdatedAt := now\<rparr>) (ms_enrollments (w_repo w)),
     ms_certificates := mput (att_CertificateID a) (certificateFor e a now) (ms_certificates (w_repo w)),
     ms_issuanceAttempts := mput (att_EnrollmentID a) (finalizedAttempt a now) (ms_issuanceAttempts (w_repo w))\<rparr>\<rparr>"

lemma finalized_simps [simp]:
  "cert_ID (certificateFor e a now) = att_CertificateID a"
  "att_EnrollmentID (finalizedAttempt a now) = att_EnrollmentID a"
  by (simp_all add: certificateFor_def finalizedAttempt_def)

lemma get_by_enrollment:
  "MemoryStore_GetCertificateByEnrollmentID i s = (r, s') \<longleftrightarrow> r = certificateByEnrollmentID (ms_certificates s) i \<and> s' = s"
  by (auto simp: MemoryStore_GetCertificateByEnrollmentID_def)

lemma finalizeTx_Inr:
  assumes "finalizeTx enrollmentID attempt now w = (Inr c, w')"
  shows "(\<exists>e. mget (ms_enrollments (w_repo w)) enrollmentID = Some e \<and> enr_Status e = EnrollmentIssued \<and>
            certificateByEnrollmentID (ms_certificates (w_repo w)) enrollmentID = Inr c \<and> w' = w) \<or>
         (\<exists>e a. mget (ms_enrollments (w_repo w)) enrollmentID = Some e \<and> enr_Status e = EnrollmentApproved \<and>
            mget (ms_issuanceAttempts (w_repo w)) enrollmentID = Some a \<and> att_Status a = IssuanceAttemptSigned \<and>
            att_CertificateID a = att_CertificateID attempt \<and> att_SerialNumber a = att_SerialNumber attempt \<and>
            ensureCertificateFinalizationKeysAvailable (ms_certificates (w_repo w)) c = Inr () \<and>
            c = certificateFor e a now \<and> w' = finalizedWorld e a now w)"
  using assms
  apply (simp add: finalizeTx_def inr_simps Let_def get_by_enrollment)
  apply (elim exE conjE disjE)
   apply (rule disjI1, simp)
  apply (rule disjI2)
  apply (drule attempt_table.upd_D)
  apply (elim exE conjE)
  subgoal for e a
    by (intro exI[of _ e] conjI exI[of _ a]) (simp_all add: finalizedWorld_def)
  done

lemma finalizeTx_clean: "clean (finalizeTx enrollmentID attempt now)"
  unfolding finalizeTx_def by (intro clean_rules)

lemma finalizedWorld_advance:
  assumes s: "sound svc w" and ok: "issuance_ok svc H w"
    and e: "mget (ms_enrollments (w_repo w)) k = Some e" "enr_Status e = EnrollmentApproved"
    and a: "mget (ms_issuanceAttempts (w_repo w)) k = Some a" "att_Status a = IssuanceAttemptSigned"
    and keys: "ensureCertificateFinalizationKeysAvailable (ms_certificates (w_repo w)) (certificateFor e a t) = Inr ()"
  shows "advance svc w (finalizedWorld e a t w)"
proof (rule advance_unused[OF s])
  let ?e = "e\<lparr>enr_Status := EnrollmentIssued, enr_UpdatedAt := t\<rparr>" and ?c = "certificateFor e a t"
  have ok': "attempts_ok (futureIDs svc (w_ids w)) H (ms_issuanceAttempts (w_repo w))"
    "issued_ok (ms_enrollments (w_repo w)) (ms_issuanceAttempts (w_repo w)) (ms_certificates (w_repo w))"
    using ok by (simp_all add: issuance_ok_def)
  have new: "mget (ms_certificates (w_repo w)) (att_CertificateID a) = None"
    using signed_id_new[OF ok' sound_keyed(17)[OF s] a] .
  have "enrollmentStep e ?e" "enr_ID ?e = enr_ID e" using e(2) by (simp_all add: step_defs)
  note pe = put_enrollments[OF s e(1) this]
  have "attemptStep a (finalizedAttempt a t)" "att_EnrollmentID (finalizedAttempt a t) = att_EnrollmentID a"
    using a(2) by (simp_all add: attemptStep_def attemptMaterial_def finalizedAttempt_def)
  note pa = put_issuanceAttempts[OF s a(1) this]
  have id: "cert_ID ?c = att_CertificateID a" by (simp add: certificateFor_def)
  have uniq: "unique_certificates (mput (att_CertificateID a) ?c (ms_certificates (w_repo w)))"
    using unique_certificates_create[OF sound_clauses(2)[OF s] sound_keyed(8)[OF s] keys] id by simp
  show "store_inv (w_repo (finalizedWorld e a t w))"
    unfolding finalizedWorld_def
    by (simp, intro update_rules) (simp_all add: sound_facts[OF s] pe pa uniq id)
  show "evolves (w_repo w) (w_repo (finalizedWorld e a t w))"
    unfolding finalizedWorld_def
    by (simp, intro update_rules) (simp_all add: pe pa table_evolves_fresh new)
  show "w_ids w \<le> w_ids (finalizedWorld e a t w)" by (simp add: finalizedWorld_def)
  have "enr_ID e \<in> used_ids (w_repo w)"
    using e(1) keyedD[OF sound_keyed(7)[OF s] e(1)] row_used(7)[OF s e(1)] by simp
  then have ids: "used_ids (w_repo (finalizedWorld e a t w)) \<subseteq> insert (att_CertificateID a) (used_ids (w_repo w))"
    unfolding finalizedWorld_def
    by (simp, intro update_rules) (simp_all add: pe dom_mput subset_insertI2[OF dom_used(7)] subset_insertI2[OF dom_used(8)] subset_insertI)
  show "svc_idgen svc n \<notin> used_ids (w_repo (finalizedWorld e a t w))" if "w_ids (finalizedWorld e a t w) \<le> n" for n
  proof -
    have n: "w_ids w \<le> n" using that by (simp add: finalizedWorld_def)
    then have "svc_idgen svc n \<noteq> att_CertificateID a"
      using attempts_okD(2)[OF ok'(1) pool_stored[OF a(1)]] by (metis atLeast_iff futureIDs_def image_eqI)
    moreover have "svc_idgen svc n \<notin> used_ids (w_repo w)" using ids_freshD(2)[OF _ n] s by (simp add: sound_def)
    ultimately show ?thesis using ids by blast
  qed
qed

lemma finalizedWorld_ok:
  assumes s: "sound svc w" and ok: "issuance_ok svc H w"
    and e: "mget (ms_enrollments (w_repo w)) k = Some e" "enr_Status e = EnrollmentApproved"
    and a: "mget (ms_issuanceAttempts (w_repo w)) k = Some a" "att_Status a = IssuanceAttemptSigned"
  shows "issuance_ok svc H (finalizedWorld e a t w)"
proof -
  have ok': "attempts_ok (futureIDs svc (w_ids w)) H (ms_issuanceAttempts (w_repo w))"
    "issued_ok (ms_enrollments (w_repo w)) (ms_issuanceAttempts (w_repo w)) (ms_certificates (w_repo w))"
    using ok by (simp_all add: issuance_ok_def)
  note pool = attempts_okD[OF ok'(1) pool_stored[OF a(1)]]
  have k: "enr_ID e = k" "att_EnrollmentID a = k"
    using keyedD[OF sound_keyed(7)[OF s] e(1)] keyedD[OF sound_keyed(17)[OF s] a(1)] .
  have f: "att_EnrollmentID (finalizedAttempt a t) = k" "att_CertificateID (finalizedAttempt a t) = att_CertificateID a"
    "att_CreatedAt (finalizedAttempt a t) = att_CreatedAt a" "att_Status (finalizedAttempt a t) \<noteq> IssuanceAttemptSigned"
    using k by (simp_all add: finalizedAttempt_def)
  have own: "att_EnrollmentID b = k" if "b \<in> attemptPool H (ms_issuanceAttempts (w_repo w))"
      "att_CertificateID a \<noteq> []" "att_CertificateID b = att_CertificateID a" for b
    using pool(1)[OF that(1,2)] that(3) k by simp
  have "attempts_ok (futureIDs svc (w_ids w)) (insert (finalizedAttempt a t) H)
      (mput (att_EnrollmentID (finalizedAttempt a t)) (finalizedAttempt a t) (ms_issuanceAttempts (w_repo w)))"
    by (rule attempts_ok_put[OF ok'(1)]) (use a f own pool(2) in auto)
  then have "attempts_ok (futureIDs svc (w_ids w)) H (mput k (finalizedAttempt a t) (ms_issuanceAttempts (w_repo w)))"
    using f(1) by (auto intro: attempts_ok_mono)
  moreover have "mget (ms_certificates (w_repo w)) (att_CertificateID a) = None"
    using signed_id_new[OF ok' sound_keyed(17)[OF s] a] .
  ultimately show ?thesis
    using issued_ok_finalize[OF ok'(2) e k(1) a] k by (simp add: issuance_ok_def finalizedWorld_def)
qed

lemma finalizeTx_issues: "issues svc H (finalizeTx enrollmentID attempt now) (\<lambda>_. {}) (\<lambda>_. True)"
proof (rule clean_issues[OF finalizeTx_clean])
  fix w c w'
  assume s: "sound svc w" and ok: "issuance_ok svc H w" and run: "finalizeTx enrollmentID attempt now w = (Inr c, w')"
  from finalizeTx_Inr[OF run] show "advance svc w w' \<and> issuance_ok svc (H \<union> {}) w' \<and> True"
  proof (elim disjE exE conjE, goal_cases issued approved)
    case (issued e)
    then show ?case using advance_refl[OF s] ok by simp
  next
    case (approved e a)
    then show ?case
      using finalizedWorld_advance[OF s ok, of enrollmentID e a now] finalizedWorld_ok[OF s ok, of enrollmentID e a now] by simp
  qed
qed

lemma byEnrollment_quiet: "quiet (onRepo (MemoryStore_GetCertificateByEnrollmentID i))"
  by (intro clean_rules)

lemma failedUpdate_issues:
  assumes held: "attempt \<in> H" and st: "att_Status attempt = IssuanceAttemptSigned"
  shows "issues svc H (MemoryStore_WithinTx (onRepo (memoryTx_UpdateIssuanceAttemptIfCurrent (failedAttempt attempt err now) attempt))) (\<lambda>_. {}) (\<lambda>_. True)"
proof (rule clean_issues)
  let ?failed = "failedAttempt attempt err now"
  show "clean (MemoryStore_WithinTx (onRepo (memoryTx_UpdateIssuanceAttemptIfCurrent ?failed attempt)))"
    by (intro clean_rules)
  fix w x w'
  assume s: "sound svc w" and ok: "issuance_ok svc H w"
    and run: "MemoryStore_WithinTx (onRepo (memoryTx_UpdateIssuanceAttemptIfCurrent ?failed attempt)) w = (Inr x, w')"
  have f: "att_EnrollmentID ?failed = att_EnrollmentID attempt" "att_Status ?failed = IssuanceAttemptFailed"
    "att_CertificateID ?failed = att_CertificateID attempt" "att_CreatedAt ?failed = att_CreatedAt attempt"
    by (simp_all add: failedAttempt_def)
  obtain m where m: "updateIssuanceAttemptIfCurrent (ms_issuanceAttempts (w_repo w)) ?failed attempt = Inr m"
    and w': "w' = w\<lparr>w_repo := (w_repo w)\<lparr>ms_issuanceAttempts := m\<rparr>\<rparr>"
    using run by (auto simp: inr_simps)
  obtain a0 where a0: "mget (ms_issuanceAttempts (w_repo w)) (att_EnrollmentID ?failed) = Some a0"
    "att_Status a0 = att_Status attempt" "att_CreatedAt a0 = att_CreatedAt attempt"
    and m': "m = mput (att_EnrollmentID ?failed) ?failed (ms_issuanceAttempts (w_repo w))"
    by (rule held_current[OF ok held m f(1)])
  have "attempts_ok (futureIDs svc (w_ids w)) H (ms_issuanceAttempts (w_repo w))"
    "attempt \<in> attemptPool H (ms_issuanceAttempts (w_repo w))"
    using ok held by (simp_all add: attemptPool_def issuance_ok_def)
  note pool = attempts_okD[OF this]
  have "att_EnrollmentID a0 = att_EnrollmentID ?failed" using keyedD[OF sound_keyed(17)[OF s] a0(1)] .
  then have step: "attemptStep a0 ?failed" using a0 f st by (simp add: attemptStep_def)
  have own: "att_EnrollmentID b = att_EnrollmentID attempt" if "b \<in> attemptPool H (ms_issuanceAttempts (w_repo w))"
      "att_CertificateID attempt \<noteq> []" "att_CertificateID b = att_CertificateID attempt" for b
    using pool(1)[OF that(1,2)] that(3) by simp
  have "advance svc w (putAttempt ?failed (w\<lparr>w_ids := w_ids w\<rparr>)) \<and>
      issuance_ok svc (insert ?failed H) (putAttempt ?failed (w\<lparr>w_ids := w_ids w\<rparr>))"
    by (intro conjI putAttempt_keeps[OF s ok]) (use a0 step st f own pool(2) in auto)
  moreover have "putAttempt ?failed (w\<lparr>w_ids := w_ids w\<rparr>) = w'" by (simp add: putAttempt_def w' m')
  ultimately show "advance svc w w' \<and> issuance_ok svc (H \<union> {}) w' \<and> True"
    using issuance_ok_less by auto
qed

lemma markFailed_issues:
  assumes "attempt \<in> H" "att_Status attempt = IssuanceAttemptSigned"
  shows "issues svc H (markFailed enrollmentID attempt now err) (\<lambda>_. {}) (\<lambda>_. True)"
  unfolding markFailed_def
proof (rule issues_bind[OF quiet_issues'])
  fix r
  show "issues svc (H \<union> {}) (case r of
      Inl lookupErr \<Rightarrow> failIf (\<not> errors_Is lookupErr ErrCertificateNotFound) lookupErr
        (thenM (MemoryStore_WithinTx (onRepo (memoryTx_UpdateIssuanceAttemptIfCurrent (failedAttempt attempt err now) attempt))) (throwM err))
    | Inr existing \<Rightarrow> returnM existing) (\<lambda>_. {}) (\<lambda>_. True)"
  proof (cases r)
    case (Inl e)
    show ?thesis
      unfolding Inl failIf_def by (simp add: issues_throw issues_then[OF failedUpdate_issues[OF assms] issues_throw])
  qed (auto intro!: quiet_issues' clean_rules)
qed (intro clean_rules)

lemma finalize_issues:
  assumes "attempt \<in> H"
  shows "issues svc H (finalizeSignedIssuanceAttempt enrollmentID attempt now) (\<lambda>_. {}) (\<lambda>_. True)"
proof (cases "att_Status attempt = IssuanceAttemptFinalized \<or> att_Status attempt \<noteq> IssuanceAttemptSigned")
  case True
  then show ?thesis
    by (auto simp: finalizeSignedIssuanceAttempt_def failIf_def intro!: quiet_issues' clean_rules)
next
  case False
  have "issues svc (H \<union> {}) (case r of
      Inl err \<Rightarrow> if errors_Is err ErrInvalidTransition then markFailed enrollmentID attempt now err else throwM err
    | Inr certificate \<Rightarrow> returnM certificate) (\<lambda>_. {}) (\<lambda>_. True)" for r
    using False assms by (cases r) (simp_all add: markFailed_issues issues_throw issues_return)
  then show ?thesis
    unfolding finalizeSignedIssuanceAttempt_def using False
    by (simp add: failIf_def) (rule issues_bind[OF issues_attempt[OF finalizeTx_issues]], simp)
qed

lemma prepareIssue_quiet: "quiet (prepareIssue svc enrollment)"
  unfolding prepareIssue_def issueProfile_def issueCSRInfo_def by (intro clean_rules)

lemma sign_issues:
  assumes "current \<in> H" "att_Status current = IssuanceAttemptSigning"
  shows "issues svc H (signAttempt svc req current now) (\<lambda>a. {a})
     (\<lambda>a. att_EnrollmentID a = att_EnrollmentID current \<and> att_Status a = IssuanceAttemptSigned)"
  unfolding signAttempt_def
proof (rule issues_bind[OF quiet_issues'])
  fix r
  show "issues svc (H \<union> {}) (case r of Inl err \<Rightarrow> throwM (mapIssueError err)
      | Inr res \<Rightarrow> persistSignedIssuanceAttempt svc current res now) (\<lambda>a. {a})
     (\<lambda>a. att_EnrollmentID a = att_EnrollmentID current \<and> att_Status a = IssuanceAttemptSigned)"
    using assms by (cases r) (simp_all add: issues_throw persist_issues)
qed (intro clean_rules)

end
