(* ===== verification/Frames.thy ===== *)
theory Frames
  imports Issuance
begin

text \<open>
  Operations that have nothing to do with issuance: they write neither attempts nor new certificates and
  issue no enrollment (\<open>untouched\<close>). Such an operation keeps the issuance invariant whatever attempts other
  nodes hold. Such properties are proved along the structure of a program: the locale \<open>frame_relation\<close>
  has the rules for every reflexive and transitive relation on stores.
\<close>

section \<open>Frame relations\<close>

text \<open>
  \<open>preserves R m\<close>: whatever \<open>m\<close> returns, the store before and the store after are related by \<open>R\<close>. For a
  reflexive and transitive \<open>R\<close> this follows from the structure of a program.
\<close>

definition preserves :: "(MemoryStore \<Rightarrow> MemoryStore \<Rightarrow> bool) \<Rightarrow> 'a svc \<Rightarrow> bool" where
  "preserves R m \<longleftrightarrow> (\<forall>w. R (w_repo w) (w_repo (snd (m w))))"

named_theorems frame_rules \<open>syntax-directed rules for \<open>preserves\<close>\<close>

lemma preservesD: "preserves R m \<Longrightarrow> m w = (r, w') \<Longrightarrow> R (w_repo w) (w_repo w')"
  unfolding preserves_def by (metis snd_conv)

locale frame_relation =
  fixes R :: "MemoryStore \<Rightarrow> MemoryStore \<Rightarrow> bool"
  assumes R_refl: "R s s" and R_trans: "R s s' \<Longrightarrow> R s' s'' \<Longrightarrow> R s s''"
begin

lemma frame_quiet: "quiet m \<Longrightarrow> preserves R m"
  by (simp add: quiet_def preserves_def R_refl)

lemma frame_bind [frame_rules]:
  assumes "preserves R m" "\<And>x. preserves R (f x)"
  shows "preserves R (bindM m f)"
  unfolding preserves_def bindM_def
proof
  fix w
  obtain r w1 where m: "m w = (r, w1)" by (cases "m w")
  then have "R (w_repo w) (w_repo w1)" using assms(1) preservesD by blast
  moreover have "R (w_repo w1) (w_repo (snd (f x w1)))" for x using assms(2) by (simp add: preserves_def)
  ultimately show "R (w_repo w) (w_repo (snd (case m w of (Inl e, s') \<Rightarrow> (Inl e, s') | (Inr x, s') \<Rightarrow> f x s')))"
    using m by (auto split: sum.split intro: R_trans)
qed

lemma frame_then [frame_rules]: "preserves R m \<Longrightarrow> preserves R k \<Longrightarrow> preserves R (thenM m k)"
  unfolding thenM_def by (rule frame_bind)

lemma frame_simple [frame_rules]:
  "preserves R (returnM x)" "preserves R (throwM e)" "preserves R (liftE r)" "preserves R (Now s)"
  "preserves R (NewID s)" "preserves R (callExt g)"
  by (intro frame_quiet clean_rules)+

lemma frame_structure [frame_rules]:
  "(\<not> b \<Longrightarrow> preserves R k) \<Longrightarrow> preserves R (failIf b e k)"
  "preserves R m \<Longrightarrow> preserves R (attemptM m)"
  "(b \<Longrightarrow> preserves R m) \<Longrightarrow> (\<not> b \<Longrightarrow> preserves R m') \<Longrightarrow> preserves R (if b then m else m')"
  "(\<And>e. preserves R (f e)) \<Longrightarrow> (\<And>x. preserves R (g x)) \<Longrightarrow> preserves R (case r of Inl e \<Rightarrow> f e | Inr x \<Rightarrow> g x)"
  "preserves R m \<Longrightarrow> (\<And>x. preserves R (g x)) \<Longrightarrow> preserves R (case opt of None \<Rightarrow> m | Some x \<Rightarrow> g x)"
  "(\<And>x y. preserves R (h x y)) \<Longrightarrow> preserves R (case p of (x, y) \<Rightarrow> h x y)"
  "(\<And>x. preserves R (g x)) \<Longrightarrow> preserves R (let x = v in g x)"
  by (auto simp: failIf_def frame_simple attemptM_def preserves_def Let_def R_refl split: prod.split sum.split option.split)
    (metis snd_conv)

lemma frame_loops [frame_rules]:
  "(\<And>x. preserves R (f x)) \<Longrightarrow> preserves R (forM xs f)" "(\<And>x a. preserves R (g x a)) \<Longrightarrow> preserves R (foldM g ys acc)"
  by (induction xs, simp_all add: frame_simple frame_then)
    (induction ys arbitrary: acc, simp_all add: frame_simple frame_bind)

lemma frame_tx [frame_rules]: "preserves R m \<Longrightarrow> preserves R (MemoryStore_WithinTx m)"
  unfolding preserves_def by (auto simp: run_WithinTx R_refl split: prod.split sum.split) (metis snd_conv)

lemmas frame_reads [frame_rules] = quiet_reads[THEN frame_quiet]

lemma frame_onRepo: "(\<And>s. R s (snd (p s))) \<Longrightarrow> preserves R (onRepo p)"
  by (simp add: preserves_def run_onRepo split: prod.split) (metis snd_conv)

end

section \<open>Operations that leave issuance alone\<close>

definition issuedIn :: "MemoryStore \<Rightarrow> string \<Rightarrow> bool" where
  "issuedIn s k \<longleftrightarrow> (\<exists>e. mget (ms_enrollments s) k = Some e \<and> enr_Status e = EnrollmentIssued)"

definition untouched :: "MemoryStore \<Rightarrow> MemoryStore \<Rightarrow> bool" where
  "untouched s s' \<longleftrightarrow> ms_issuanceAttempts s' = ms_issuanceAttempts s \<and>
     dom (mget (ms_certificates s')) = dom (mget (ms_certificates s)) \<and> (\<forall>k. issuedIn s' k \<longleftrightarrow> issuedIn s k)"

lemma untouched_refl [simp]: "untouched s s"
  by (simp add: untouched_def)

lemma untouched_trans: "untouched s s' \<Longrightarrow> untouched s' s'' \<Longrightarrow> untouched s s''"
  by (simp add: untouched_def)

lemma cores_kept:
  assumes "evolves s s'"
  shows "mget (ms_enrollments s) k = Some e \<Longrightarrow> \<exists>e'. mget (ms_enrollments s') k = Some e' \<and> enrollmentCore e' = enrollmentCore e"
    and "mget (ms_certificates s) k = Some c \<Longrightarrow> \<exists>c'. mget (ms_certificates s') k = Some c' \<and> certificateCore c' = certificateCore c"
proof -
  have t: "table_evolves enrollmentStep (ms_enrollments s) (ms_enrollments s')"
    "table_evolves certificateStep (ms_certificates s) (ms_certificates s')"
    using assms by (simp_all add: evolves_def)
  show "\<exists>e'. mget (ms_enrollments s') k = Some e' \<and> enrollmentCore e' = enrollmentCore e" if "mget (ms_enrollments s) k = Some e"
    by (rule table_evolves_get[OF t(1) that]) (metis enrollmentStep_def rtranclp_preserves)
  show "\<exists>c'. mget (ms_certificates s') k = Some c' \<and> certificateCore c' = certificateCore c" if "mget (ms_certificates s) k = Some c"
    by (rule table_evolves_get[OF t(2) that]) (metis certificateStep_def rtranclp_preserves)
qed

lemma core_fields:
  "enr_IdentityID (enrollmentCore e) = enr_IdentityID e" "enr_IssuerID (enrollmentCore e) = enr_IssuerID e"
  "enr_ID (enrollmentCore e) = enr_ID e" "enr_CertificateProfileID (enrollmentCore e) = enr_CertificateProfileID e"
  "enr_RequestedDNSNames (enrollmentCore e) = enr_RequestedDNSNames e"
  "enr_RequestedIPAddresses (enrollmentCore e) = enr_RequestedIPAddresses e"
  "cert_IdentityID (certificateCore c) = cert_IdentityID c" "cert_IssuerID (certificateCore c) = cert_IssuerID c"
  "cert_EnrollmentID (certificateCore c) = cert_EnrollmentID c"
  "cert_CertificateProfileID (certificateCore c) = cert_CertificateProfileID c"
  "cert_DNSNames (certificateCore c) = cert_DNSNames c" "cert_IPAddresses (certificateCore c) = cert_IPAddresses c"
  "cert_ID (certificateCore c) = cert_ID c" "cert_SerialNumber (certificateCore c) = cert_SerialNumber c"
  "cert_CertificatePEM (certificateCore c) = cert_CertificatePEM c" "cert_Subject (certificateCore c) = cert_Subject c"
  "cert_NotBefore (certificateCore c) = cert_NotBefore c" "cert_NotAfter (certificateCore c) = cert_NotAfter c"
  by (simp_all add: enrollmentCore_def certificateCore_def)

lemma certificateOf_core: "certificateOf e a c = certificateOf (enrollmentCore e) a (certificateCore c)"
  by (simp add: certificateOf_def core_fields)

lemma certificateCore_enrollment: "certificateCore c' = certificateCore c \<Longrightarrow> cert_EnrollmentID c' = cert_EnrollmentID c"
  by (metis core_fields(9))

lemma untouched_ok:
  assumes ok: "issued_ok (ms_enrollments s) (ms_issuanceAttempts s) (ms_certificates s)"
    and ev: "evolves s s'" and un: "untouched s s'"
  shows "issued_ok (ms_enrollments s') (ms_issuanceAttempts s') (ms_certificates s')"
  unfolding issued_ok_def
proof (intro conjI allI impI)
  have atts: "ms_issuanceAttempts s' = ms_issuanceAttempts s" using un by (simp add: untouched_def)
  fix k c' assume c': "mget (ms_certificates s') k = Some c'"
  then obtain c where c: "mget (ms_certificates s) k = Some c" using un unfolding untouched_def by blast
  have "cert_EnrollmentID c' = cert_EnrollmentID c"
    using cores_kept(2)[OF ev c] c' by (auto intro: certificateCore_enrollment)
  then show "\<exists>a. mget (ms_issuanceAttempts s') (cert_EnrollmentID c') = Some a \<and>
      att_Status a = IssuanceAttemptFinalized \<and> att_CertificateID a = k"
    using issued_okD(1)[OF ok c] atts by simp
next
  have atts: "ms_issuanceAttempts s' = ms_issuanceAttempts s" using un by (simp add: untouched_def)
  fix k a assume a: "mget (ms_issuanceAttempts s') k = Some a" "att_Status a = IssuanceAttemptFinalized"
  then obtain e c where e: "mget (ms_enrollments s) k = Some e" "enr_Status e = EnrollmentIssued"
    and c: "mget (ms_certificates s) (att_CertificateID a) = Some c" "certificateOf e a c"
    using issued_okD(2)[OF ok] atts by force
  obtain e' c' where e': "mget (ms_enrollments s') k = Some e'" "enrollmentCore e' = enrollmentCore e"
    and c': "mget (ms_certificates s') (att_CertificateID a) = Some c'" "certificateCore c' = certificateCore c"
    using cores_kept(1)[OF ev e(1)] cores_kept(2)[OF ev c(1)] by blast
  moreover have "issuedIn s' k" using e un by (auto simp: untouched_def issuedIn_def)
  then have "enr_Status e' = EnrollmentIssued" using e'(1) by (simp add: issuedIn_def)
  ultimately show "\<exists>e c. mget (ms_enrollments s') k = Some e \<and> enr_Status e = EnrollmentIssued \<and>
      mget (ms_certificates s') (att_CertificateID a) = Some c \<and> certificateOf e a c"
    using certificateOf_core[of e' a c'] certificateOf_core[of e a c] c(2) by auto
next
  fix k e' assume "mget (ms_enrollments s') k = Some e'" "enr_Status e' = EnrollmentIssued"
  then have "issuedIn s k" using un by (auto simp: untouched_def issuedIn_def)
  then show "\<exists>a. mget (ms_issuanceAttempts s') k = Some a \<and> att_Status a = IssuanceAttemptFinalized"
    using issued_okD(3)[OF ok] un by (auto simp: untouched_def issuedIn_def)
qed

lemma untouched_issuance_ok:
  assumes "issuance_ok svc H w" "advance svc w w'" "untouched (w_repo w) (w_repo w')"
  shows "issuance_ok svc H w'"
proof -
  have "evolves (w_repo w) (w_repo w')" "w_ids w \<le> w_ids w'" using assms(2) by (simp_all add: advance_def)
  moreover have "ms_issuanceAttempts (w_repo w') = ms_issuanceAttempts (w_repo w)" using assms(3) by (simp add: untouched_def)
  ultimately show ?thesis
    using assms(1) untouched_ok[OF _ _ assms(3)] attempts_ok_mono[OF _ futureIDs_mono subset_refl, of svc "w_ids w" H _ "w_ids w'"]
    by (simp add: issuance_ok_def)
qed

lemma advances_issues:
  assumes "advances svc m" "\<And>w r w'. sound svc w \<Longrightarrow> m w = (r, w') \<Longrightarrow> untouched (w_repo w) (w_repo w')"
  shows "issues svc H m (\<lambda>_. {}) (\<lambda>_. True)"
proof (rule issuesI)
  fix w e w' assume a: "sound svc w" "issuance_ok svc H w" "m w = (Inl e, w')"
  show "advance svc w w' \<and> issuance_ok svc H w'"
    using advancesD[OF assms(1) a(1,3)] untouched_issuance_ok[OF a(2)] assms(2)[OF a(1,3)] by blast
next
  fix w x w' assume a: "sound svc w" "issuance_ok svc H w" "m w = (Inr x, w')"
  show "advance svc w w' \<and> issuance_ok svc (H \<union> {}) w' \<and> True"
    using advancesD[OF assms(1) a(1,3)] untouched_issuance_ok[OF a(2)] assms(2)[OF a(1,3)] by auto
qed

text \<open>Programs that never touch issuance.\<close>

interpretation issuance_frame: frame_relation untouched
  by unfold_locales (simp, rule untouched_trans)

lemma steady_issues: "advances svc m \<Longrightarrow> preserves untouched m \<Longrightarrow> issues svc H m (\<lambda>_. {}) (\<lambda>_. True)"
  by (rule advances_issues) (auto dest: preservesD)

lemma untouched_tables [simp]:
  "ms_issuanceAttempts s' = ms_issuanceAttempts s \<Longrightarrow> ms_certificates s' = ms_certificates s \<Longrightarrow>
   ms_enrollments s' = ms_enrollments s \<Longrightarrow> untouched s s'"
  by (simp add: untouched_def issuedIn_def)

lemma untouched_writes [frame_rules]:
  "preserves untouched (onRepo (memoryTx_CreateIdentity v0))" "preserves untouched (onRepo (MemoryStore_CreateIdentity v0))"
  "preserves untouched (onRepo (memoryTx_CreateIssuer v1))" "preserves untouched (onRepo (MemoryStore_CreateIssuer v1))"
  "preserves untouched (onRepo (memoryTx_CreateOCSPResponder v2))" "preserves untouched (onRepo (MemoryStore_CreateOCSPResponder v2))"
  "preserves untouched (onRepo (memoryTx_CreateNotificationEndpoint v3))" "preserves untouched (onRepo (MemoryStore_CreateNotificationEndpoint v3))"
  "preserves untouched (onRepo (memoryTx_CreateCertificateProfile v4))" "preserves untouched (onRepo (MemoryStore_CreateCertificateProfile v4))"
  "preserves untouched (onRepo (memoryTx_CreateRevocation v5))" "preserves untouched (onRepo (MemoryStore_CreateRevocation v5))"
  "preserves untouched (onRepo (memoryTx_CreateCRLPublication v6))" "preserves untouched (onRepo (MemoryStore_CreateCRLPublication v6))"
  "preserves untouched (onRepo (memoryTx_CreateAuditEvent v7))" "preserves untouched (onRepo (MemoryStore_CreateAuditEvent v7))"
  "preserves untouched (onRepo (memoryTx_CreateOutboxMessage v8))" "preserves untouched (onRepo (MemoryStore_CreateOutboxMessage v8))"
  "preserves untouched (onRepo (memoryTx_CreateJobAttempt v9))" "preserves untouched (onRepo (MemoryStore_CreateJobAttempt v9))"
  "preserves untouched (onRepo (memoryTx_UpsertWebhookDelivery v10))" "preserves untouched (onRepo (MemoryStore_UpsertWebhookDelivery v10))"
  "preserves untouched (onRepo (memoryTx_CreateAPIKey v11))" "preserves untouched (onRepo (MemoryStore_CreateAPIKey v11))"
  "preserves untouched (onRepo (memoryTx_CreateACMEAccount v12))" "preserves untouched (onRepo (MemoryStore_CreateACMEAccount v12))"
  "preserves untouched (onRepo (memoryTx_CreateACMEOrder v13))" "preserves untouched (onRepo (MemoryStore_CreateACMEOrder v13))"
  "preserves untouched (onRepo (memoryTx_CreateACMEAuthorization v14))" "preserves untouched (onRepo (MemoryStore_CreateACMEAuthorization v14))"
  "preserves untouched (onRepo (memoryTx_CreateACMEChallenge v15))" "preserves untouched (onRepo (MemoryStore_CreateACMEChallenge v15))"
  "preserves untouched (onRepo (memoryTx_DeleteAuditEventsBefore v16))" "preserves untouched (onRepo (MemoryStore_DeleteAuditEventsBefore v16))"
  "preserves untouched (onRepo (memoryTx_UpdateOCSPResponderIfStatus u0 c0))" "preserves untouched (onRepo (MemoryStore_UpdateOCSPResponderIfStatus u0 c0))"
  "preserves untouched (onRepo (memoryTx_UpdateNotificationEndpointIfStatus u1 c1))" "preserves untouched (onRepo (MemoryStore_UpdateNotificationEndpointIfStatus u1 c1))"
  "preserves untouched (onRepo (memoryTx_UpdateOutboxMessageStatusIfStatus u2 c2))" "preserves untouched (onRepo (MemoryStore_UpdateOutboxMessageStatusIfStatus u2 c2))"
  "preserves untouched (onRepo (memoryTx_UpdateOutboxMessageIfCurrent u3 c3))" "preserves untouched (onRepo (MemoryStore_UpdateOutboxMessageIfCurrent u3 c3))"
  "preserves untouched (onRepo (memoryTx_UpdateAPIKeyIfStatus u4 c4))" "preserves untouched (onRepo (MemoryStore_UpdateAPIKeyIfStatus u4 c4))"
  "preserves untouched (onRepo (memoryTx_UpdateACMEAccountIfStatus u5 c5))" "preserves untouched (onRepo (MemoryStore_UpdateACMEAccountIfStatus u5 c5))"
  "preserves untouched (onRepo (memoryTx_UpdateACMEOrderIfStatus u6 c6))" "preserves untouched (onRepo (MemoryStore_UpdateACMEOrderIfStatus u6 c6))"
  "preserves untouched (onRepo (memoryTx_UpdateACMEAuthorizationIfStatus u7 c7))" "preserves untouched (onRepo (MemoryStore_UpdateACMEAuthorizationIfStatus u7 c7))"
  "preserves untouched (onRepo (memoryTx_UpdateACMEChallengeIfStatus u8 c8))" "preserves untouched (onRepo (MemoryStore_UpdateACMEChallengeIfStatus u8 c8))"
  by (rule issuance_frame.frame_onRepo, simp add: tx_agree MemoryStore_CreateIdentity_def MemoryStore_CreateIssuer_def MemoryStore_CreateOCSPResponder_def MemoryStore_CreateNotificationEndpoint_def MemoryStore_CreateCertificateProfile_def MemoryStore_CreateRevocation_def MemoryStore_CreateCRLPublication_def MemoryStore_CreateAuditEvent_def MemoryStore_CreateOutboxMessage_def MemoryStore_CreateJobAttempt_def MemoryStore_UpsertWebhookDelivery_def MemoryStore_CreateAPIKey_def MemoryStore_CreateACMEAccount_def MemoryStore_CreateACMEOrder_def MemoryStore_CreateACMEAuthorization_def MemoryStore_CreateACMEChallenge_def MemoryStore_DeleteAuditEventsBefore_def MemoryStore_UpdateOCSPResponderIfStatus_def MemoryStore_UpdateNotificationEndpointIfStatus_def MemoryStore_UpdateOutboxMessageStatusIfStatus_def MemoryStore_UpdateOutboxMessageIfCurrent_def MemoryStore_UpdateAPIKeyIfStatus_def MemoryStore_UpdateACMEAccountIfStatus_def MemoryStore_UpdateACMEOrderIfStatus_def MemoryStore_UpdateACMEAuthorizationIfStatus_def MemoryStore_UpdateACMEChallengeIfStatus_def split: sum.split option.split prod.split)+

lemma untouched_events [frame_rules]:
  "preserves untouched (createAuditEvent svc ctx actor action rt ri t flds)" "preserves untouched (createOutboxMessage svc mt t flds)"
  by (simp_all add: preserves_def run_createAuditEvent run_createOutboxMessage)

text \<open>The guarded writes of enrollments and certificates that issue nothing.\<close>

lemma untouched_updateEnrollment [frame_rules]:
  assumes "c \<noteq> EnrollmentIssued" "enr_Status e \<noteq> EnrollmentIssued"
  shows "preserves untouched (onRepo (memoryTx_UpdateEnrollmentIfStatus e c))"
proof (rule issuance_frame.frame_onRepo)
  fix s
  show "untouched s (snd (memoryTx_UpdateEnrollmentIfStatus e c s))"
    using assms by (auto simp: tx_agree MemoryStore_UpdateEnrollmentIfStatus_def untouched_def issuedIn_def mget_mput
        updateEnrollmentIfStatus_def split: sum.split option.splits if_splits)
qed

lemma untouched_updateCertificate [frame_rules]: "preserves untouched (onRepo (memoryTx_UpdateCertificateIfStatus v c))"
proof (rule issuance_frame.frame_onRepo)
  fix s
  show "untouched s (snd (memoryTx_UpdateCertificateIfStatus v c s))"
    by (auto simp: tx_agree MemoryStore_UpdateCertificateIfStatus_def untouched_def issuedIn_def mget_mput
        updateCertificateIfStatus_def split: sum.split option.splits if_splits)
qed

section \<open>The audit trail only grows\<close>

definition audit_appends :: "MemoryStore \<Rightarrow> MemoryStore \<Rightarrow> bool" where
  "audit_appends s s' \<longleftrightarrow> (\<exists>es. ms_auditEvents s' = ms_auditEvents s @ es)"

lemma audit_appends_same [simp]: "ms_auditEvents s' = ms_auditEvents s \<Longrightarrow> audit_appends s s'"
  by (simp add: audit_appends_def)

lemma audit_appends_event [simp]: "audit_appends s (s\<lparr>ms_auditEvents := ms_auditEvents s @ es\<rparr>)"
  by (simp add: audit_appends_def)

interpretation audit_frame: frame_relation audit_appends
  by unfold_locales (auto simp: audit_appends_def)

lemma audit_writes [frame_rules]:
  "preserves audit_appends (onRepo (memoryTx_CreateIdentity v0))" "preserves audit_appends (onRepo (MemoryStore_CreateIdentity v0))"
  "preserves audit_appends (onRepo (memoryTx_CreateIssuer v1))" "preserves audit_appends (onRepo (MemoryStore_CreateIssuer v1))"
  "preserves audit_appends (onRepo (memoryTx_CreateOCSPResponder v2))" "preserves audit_appends (onRepo (MemoryStore_CreateOCSPResponder v2))"
  "preserves audit_appends (onRepo (memoryTx_CreateNotificationEndpoint v3))" "preserves audit_appends (onRepo (MemoryStore_CreateNotificationEndpoint v3))"
  "preserves audit_appends (onRepo (memoryTx_CreateCertificateProfile v4))" "preserves audit_appends (onRepo (MemoryStore_CreateCertificateProfile v4))"
  "preserves audit_appends (onRepo (memoryTx_CreateRevocation v5))" "preserves audit_appends (onRepo (MemoryStore_CreateRevocation v5))"
  "preserves audit_appends (onRepo (memoryTx_CreateCRLPublication v6))" "preserves audit_appends (onRepo (MemoryStore_CreateCRLPublication v6))"
  "preserves audit_appends (onRepo (memoryTx_CreateOutboxMessage v7))" "preserves audit_appends (onRepo (MemoryStore_CreateOutboxMessage v7))"
  "preserves audit_appends (onRepo (memoryTx_CreateJobAttempt v8))" "preserves audit_appends (onRepo (MemoryStore_CreateJobAttempt v8))"
  "preserves audit_appends (onRepo (memoryTx_UpsertWebhookDelivery v9))" "preserves audit_appends (onRepo (MemoryStore_UpsertWebhookDelivery v9))"
  "preserves audit_appends (onRepo (memoryTx_CreateAPIKey v10))" "preserves audit_appends (onRepo (MemoryStore_CreateAPIKey v10))"
  "preserves audit_appends (onRepo (memoryTx_CreateACMEAccount v11))" "preserves audit_appends (onRepo (MemoryStore_CreateACMEAccount v11))"
  "preserves audit_appends (onRepo (memoryTx_CreateACMEOrder v12))" "preserves audit_appends (onRepo (MemoryStore_CreateACMEOrder v12))"
  "preserves audit_appends (onRepo (memoryTx_CreateACMEAuthorization v13))" "preserves audit_appends (onRepo (MemoryStore_CreateACMEAuthorization v13))"
  "preserves audit_appends (onRepo (memoryTx_CreateACMEChallenge v14))" "preserves audit_appends (onRepo (MemoryStore_CreateACMEChallenge v14))"
  "preserves audit_appends (onRepo (memoryTx_CreateEnrollment v15))" "preserves audit_appends (onRepo (MemoryStore_CreateEnrollment v15))"
  "preserves audit_appends (onRepo (memoryTx_CreateCertificate v16))" "preserves audit_appends (onRepo (MemoryStore_CreateCertificate v16))"
  "preserves audit_appends (onRepo (memoryTx_CreateIssuanceAttempt v17))" "preserves audit_appends (onRepo (MemoryStore_CreateIssuanceAttempt v17))"
  "preserves audit_appends (onRepo (memoryTx_CreateAuditEvent v18))" "preserves audit_appends (onRepo (MemoryStore_CreateAuditEvent v18))"
  "preserves audit_appends (onRepo (memoryTx_UpdateOCSPResponderIfStatus u0 c0))" "preserves audit_appends (onRepo (MemoryStore_UpdateOCSPResponderIfStatus u0 c0))"
  "preserves audit_appends (onRepo (memoryTx_UpdateNotificationEndpointIfStatus u1 c1))" "preserves audit_appends (onRepo (MemoryStore_UpdateNotificationEndpointIfStatus u1 c1))"
  "preserves audit_appends (onRepo (memoryTx_UpdateOutboxMessageStatusIfStatus u2 c2))" "preserves audit_appends (onRepo (MemoryStore_UpdateOutboxMessageStatusIfStatus u2 c2))"
  "preserves audit_appends (onRepo (memoryTx_UpdateOutboxMessageIfCurrent u3 c3))" "preserves audit_appends (onRepo (MemoryStore_UpdateOutboxMessageIfCurrent u3 c3))"
  "preserves audit_appends (onRepo (memoryTx_UpdateAPIKeyIfStatus u4 c4))" "preserves audit_appends (onRepo (MemoryStore_UpdateAPIKeyIfStatus u4 c4))"
  "preserves audit_appends (onRepo (memoryTx_UpdateACMEAccountIfStatus u5 c5))" "preserves audit_appends (onRepo (MemoryStore_UpdateACMEAccountIfStatus u5 c5))"
  "preserves audit_appends (onRepo (memoryTx_UpdateACMEOrderIfStatus u6 c6))" "preserves audit_appends (onRepo (MemoryStore_UpdateACMEOrderIfStatus u6 c6))"
  "preserves audit_appends (onRepo (memoryTx_UpdateACMEAuthorizationIfStatus u7 c7))" "preserves audit_appends (onRepo (MemoryStore_UpdateACMEAuthorizationIfStatus u7 c7))"
  "preserves audit_appends (onRepo (memoryTx_UpdateACMEChallengeIfStatus u8 c8))" "preserves audit_appends (onRepo (MemoryStore_UpdateACMEChallengeIfStatus u8 c8))"
  "preserves audit_appends (onRepo (memoryTx_UpdateEnrollmentIfStatus u9 c9))" "preserves audit_appends (onRepo (MemoryStore_UpdateEnrollmentIfStatus u9 c9))"
  "preserves audit_appends (onRepo (memoryTx_UpdateCertificateIfStatus u10 c10))" "preserves audit_appends (onRepo (MemoryStore_UpdateCertificateIfStatus u10 c10))"
  "preserves audit_appends (onRepo (memoryTx_UpdateIssuanceAttemptIfCurrent u11 c11))" "preserves audit_appends (onRepo (MemoryStore_UpdateIssuanceAttemptIfCurrent u11 c11))"
  by (rule audit_frame.frame_onRepo, simp add: tx_agree MemoryStore_CreateIdentity_def MemoryStore_CreateIssuer_def MemoryStore_CreateOCSPResponder_def MemoryStore_CreateNotificationEndpoint_def MemoryStore_CreateCertificateProfile_def MemoryStore_CreateRevocation_def MemoryStore_CreateCRLPublication_def MemoryStore_CreateOutboxMessage_def MemoryStore_CreateJobAttempt_def MemoryStore_UpsertWebhookDelivery_def MemoryStore_CreateAPIKey_def MemoryStore_CreateACMEAccount_def MemoryStore_CreateACMEOrder_def MemoryStore_CreateACMEAuthorization_def MemoryStore_CreateACMEChallenge_def MemoryStore_CreateEnrollment_def MemoryStore_CreateCertificate_def MemoryStore_CreateIssuanceAttempt_def MemoryStore_CreateAuditEvent_def MemoryStore_UpdateOCSPResponderIfStatus_def MemoryStore_UpdateNotificationEndpointIfStatus_def MemoryStore_UpdateOutboxMessageStatusIfStatus_def MemoryStore_UpdateOutboxMessageIfCurrent_def MemoryStore_UpdateAPIKeyIfStatus_def MemoryStore_UpdateACMEAccountIfStatus_def MemoryStore_UpdateACMEOrderIfStatus_def MemoryStore_UpdateACMEAuthorizationIfStatus_def MemoryStore_UpdateACMEChallengeIfStatus_def MemoryStore_UpdateEnrollmentIfStatus_def MemoryStore_UpdateCertificateIfStatus_def MemoryStore_UpdateIssuanceAttemptIfCurrent_def split: sum.split option.split prod.split)+

lemma audit_events [frame_rules]:
  "preserves audit_appends (createAuditEvent svc ctx actor action rt ri t flds)"
  "preserves audit_appends (createOutboxMessage svc mt t flds)"
  by (simp_all add: preserves_def run_createAuditEvent run_createOutboxMessage)

section \<open>Operations that revoke nothing\<close>

definition revokedIn :: "MemoryStore \<Rightarrow> string \<Rightarrow> bool" where
  "revokedIn s k \<longleftrightarrow> (\<exists>c. mget (ms_certificates s) k = Some c \<and> cert_Status c = CertificateRevoked)"

definition revocations_kept :: "MemoryStore \<Rightarrow> MemoryStore \<Rightarrow> bool" where
  "revocations_kept s s' \<longleftrightarrow> ms_revocations s' = ms_revocations s \<and> (\<forall>k. revokedIn s' k \<longleftrightarrow> revokedIn s k)"

lemma revocations_kept_same [simp]:
  "ms_revocations s' = ms_revocations s \<Longrightarrow> ms_certificates s' = ms_certificates s \<Longrightarrow> revocations_kept s s'"
  by (simp add: revocations_kept_def revokedIn_def)

interpretation revocation_frame: frame_relation revocations_kept
  by unfold_locales (auto simp: revocations_kept_def)

lemma revocation_writes [frame_rules]:
  "preserves revocations_kept (onRepo (memoryTx_CreateIdentity v0))" "preserves revocations_kept (onRepo (MemoryStore_CreateIdentity v0))"
  "preserves revocations_kept (onRepo (memoryTx_CreateIssuer v1))" "preserves revocations_kept (onRepo (MemoryStore_CreateIssuer v1))"
  "preserves revocations_kept (onRepo (memoryTx_CreateOCSPResponder v2))" "preserves revocations_kept (onRepo (MemoryStore_CreateOCSPResponder v2))"
  "preserves revocations_kept (onRepo (memoryTx_CreateNotificationEndpoint v3))" "preserves revocations_kept (onRepo (MemoryStore_CreateNotificationEndpoint v3))"
  "preserves revocations_kept (onRepo (memoryTx_CreateCertificateProfile v4))" "preserves revocations_kept (onRepo (MemoryStore_CreateCertificateProfile v4))"
  "preserves revocations_kept (onRepo (memoryTx_CreateCRLPublication v5))" "preserves revocations_kept (onRepo (MemoryStore_CreateCRLPublication v5))"
  "preserves revocations_kept (onRepo (memoryTx_CreateOutboxMessage v6))" "preserves revocations_kept (onRepo (MemoryStore_CreateOutboxMessage v6))"
  "preserves revocations_kept (onRepo (memoryTx_CreateJobAttempt v7))" "preserves revocations_kept (onRepo (MemoryStore_CreateJobAttempt v7))"
  "preserves revocations_kept (onRepo (memoryTx_UpsertWebhookDelivery v8))" "preserves revocations_kept (onRepo (MemoryStore_UpsertWebhookDelivery v8))"
  "preserves revocations_kept (onRepo (memoryTx_CreateAPIKey v9))" "preserves revocations_kept (onRepo (MemoryStore_CreateAPIKey v9))"
  "preserves revocations_kept (onRepo (memoryTx_CreateACMEAccount v10))" "preserves revocations_kept (onRepo (MemoryStore_CreateACMEAccount v10))"
  "preserves revocations_kept (onRepo (memoryTx_CreateACMEOrder v11))" "preserves revocations_kept (onRepo (MemoryStore_CreateACMEOrder v11))"
  "preserves revocations_kept (onRepo (memoryTx_CreateACMEAuthorization v12))" "preserves revocations_kept (onRepo (MemoryStore_CreateACMEAuthorization v12))"
  "preserves revocations_kept (onRepo (memoryTx_CreateACMEChallenge v13))" "preserves revocations_kept (onRepo (MemoryStore_CreateACMEChallenge v13))"
  "preserves revocations_kept (onRepo (memoryTx_CreateEnrollment v14))" "preserves revocations_kept (onRepo (MemoryStore_CreateEnrollment v14))"
  "preserves revocations_kept (onRepo (memoryTx_CreateIssuanceAttempt v15))" "preserves revocations_kept (onRepo (MemoryStore_CreateIssuanceAttempt v15))"
  "preserves revocations_kept (onRepo (memoryTx_CreateAuditEvent v16))" "preserves revocations_kept (onRepo (MemoryStore_CreateAuditEvent v16))"
  "preserves revocations_kept (onRepo (memoryTx_DeleteAuditEventsBefore v17))" "preserves revocations_kept (onRepo (MemoryStore_DeleteAuditEventsBefore v17))"
  "preserves revocations_kept (onRepo (memoryTx_UpdateOCSPResponderIfStatus u0 c0))" "preserves revocations_kept (onRepo (MemoryStore_UpdateOCSPResponderIfStatus u0 c0))"
  "preserves revocations_kept (onRepo (memoryTx_UpdateNotificationEndpointIfStatus u1 c1))" "preserves revocations_kept (onRepo (MemoryStore_UpdateNotificationEndpointIfStatus u1 c1))"
  "preserves revocations_kept (onRepo (memoryTx_UpdateOutboxMessageStatusIfStatus u2 c2))" "preserves revocations_kept (onRepo (MemoryStore_UpdateOutboxMessageStatusIfStatus u2 c2))"
  "preserves revocations_kept (onRepo (memoryTx_UpdateOutboxMessageIfCurrent u3 c3))" "preserves revocations_kept (onRepo (MemoryStore_UpdateOutboxMessageIfCurrent u3 c3))"
  "preserves revocations_kept (onRepo (memoryTx_UpdateAPIKeyIfStatus u4 c4))" "preserves revocations_kept (onRepo (MemoryStore_UpdateAPIKeyIfStatus u4 c4))"
  "preserves revocations_kept (onRepo (memoryTx_UpdateACMEAccountIfStatus u5 c5))" "preserves revocations_kept (onRepo (MemoryStore_UpdateACMEAccountIfStatus u5 c5))"
  "preserves revocations_kept (onRepo (memoryTx_UpdateACMEOrderIfStatus u6 c6))" "preserves revocations_kept (onRepo (MemoryStore_UpdateACMEOrderIfStatus u6 c6))"
  "preserves revocations_kept (onRepo (memoryTx_UpdateACMEAuthorizationIfStatus u7 c7))" "preserves revocations_kept (onRepo (MemoryStore_UpdateACMEAuthorizationIfStatus u7 c7))"
  "preserves revocations_kept (onRepo (memoryTx_UpdateACMEChallengeIfStatus u8 c8))" "preserves revocations_kept (onRepo (MemoryStore_UpdateACMEChallengeIfStatus u8 c8))"
  "preserves revocations_kept (onRepo (memoryTx_UpdateEnrollmentIfStatus u9 c9))" "preserves revocations_kept (onRepo (MemoryStore_UpdateEnrollmentIfStatus u9 c9))"
  "preserves revocations_kept (onRepo (memoryTx_UpdateIssuanceAttemptIfCurrent u10 c10))" "preserves revocations_kept (onRepo (MemoryStore_UpdateIssuanceAttemptIfCurrent u10 c10))"
  by (rule revocation_frame.frame_onRepo, simp add: tx_agree MemoryStore_CreateIdentity_def MemoryStore_CreateIssuer_def MemoryStore_CreateOCSPResponder_def MemoryStore_CreateNotificationEndpoint_def MemoryStore_CreateCertificateProfile_def MemoryStore_CreateCRLPublication_def MemoryStore_CreateOutboxMessage_def MemoryStore_CreateJobAttempt_def MemoryStore_UpsertWebhookDelivery_def MemoryStore_CreateAPIKey_def MemoryStore_CreateACMEAccount_def MemoryStore_CreateACMEOrder_def MemoryStore_CreateACMEAuthorization_def MemoryStore_CreateACMEChallenge_def MemoryStore_CreateEnrollment_def MemoryStore_CreateIssuanceAttempt_def MemoryStore_CreateAuditEvent_def MemoryStore_DeleteAuditEventsBefore_def MemoryStore_UpdateOCSPResponderIfStatus_def MemoryStore_UpdateNotificationEndpointIfStatus_def MemoryStore_UpdateOutboxMessageStatusIfStatus_def MemoryStore_UpdateOutboxMessageIfCurrent_def MemoryStore_UpdateAPIKeyIfStatus_def MemoryStore_UpdateACMEAccountIfStatus_def MemoryStore_UpdateACMEOrderIfStatus_def MemoryStore_UpdateACMEAuthorizationIfStatus_def MemoryStore_UpdateACMEChallengeIfStatus_def MemoryStore_UpdateEnrollmentIfStatus_def MemoryStore_UpdateIssuanceAttemptIfCurrent_def split: sum.split option.split prod.split)+

lemma revocation_events [frame_rules]:
  "preserves revocations_kept (createAuditEvent svc ctx actor action rt ri t flds)"
  "preserves revocations_kept (createOutboxMessage svc mt t flds)"
  by (simp_all add: preserves_def run_createAuditEvent run_createOutboxMessage)

lemma revocation_updateCertificate [frame_rules]:
  assumes "cert_Status v \<noteq> CertificateRevoked" "c \<noteq> CertificateRevoked"
  shows "preserves revocations_kept (onRepo (memoryTx_UpdateCertificateIfStatus v c))"
proof (rule revocation_frame.frame_onRepo)
  fix s
  show "revocations_kept s (snd (memoryTx_UpdateCertificateIfStatus v c s))"
    using assms by (auto simp: tx_agree MemoryStore_UpdateCertificateIfStatus_def revocations_kept_def revokedIn_def mget_mput
        updateCertificateIfStatus_def split: sum.split option.splits if_splits)
qed

section \<open>Event writers\<close>

lemma events_advances [advances_rules]:
  "advances svc (createAuditEvent svc ctx actor action rt ri t flds)" "advances svc (createOutboxMessage svc mt t flds)"
proof -
  show "advances svc (createAuditEvent svc ctx actor action rt ri t flds)"
  proof (rule advancesI)
    fix w r w' assume s: "sound svc w" and run: "createAuditEvent svc ctx actor action rt ri t flds w = (r, w')"
    from run show "advance svc w w'"
      by (clarsimp simp: run_createAuditEvent) (intro advance_to[OF s] update_rules; simp add: sound_facts[OF s])
  qed
  show "advances svc (createOutboxMessage svc mt t flds)"
  proof (rule advancesI)
    fix w r w' assume s: "sound svc w" and run: "createOutboxMessage svc mt t flds w = (r, w')"
    from run show "advance svc w w'"
      by (clarsimp simp: run_createOutboxMessage) (intro advance_to[OF s] update_rules;
        simp add: sound_facts[OF s] table_evolves_fresh dom_mput outboxMessageFor_def)
  qed
qed

section \<open>Issuing a certificate\<close>

lemma ensureAudit_advances [advances_rules]: "advances svc (ensureCertificateIssuedAuditEvent svc ctx actor c now)"
  unfolding ensureCertificateIssuedAuditEvent_def by (intro advances_rules)

lemma ensureAudit_frames [frame_rules]:
  "preserves untouched (ensureCertificateIssuedAuditEvent svc ctx actor c now)"
  "preserves audit_appends (ensureCertificateIssuedAuditEvent svc ctx actor c now)"
  "preserves revocations_kept (ensureCertificateIssuedAuditEvent svc ctx actor c now)"
  unfolding ensureCertificateIssuedAuditEvent_def by (intro frame_rules)+

lemmas ensureAudit_issues = steady_issues[OF ensureAudit_advances ensureAudit_frames(1)]

lemma repairLoop_advances [advances_rules]: "advances svc (repairLoop svc ctx actor now cs audited n)"
  by (induction cs arbitrary: audited n) (auto intro!: advances_rules)

lemma repairLoop_frames [frame_rules]:
  "preserves untouched (repairLoop svc ctx actor now cs audited n)"
  "preserves audit_appends (repairLoop svc ctx actor now cs audited n)"
  "preserves revocations_kept (repairLoop svc ctx actor now cs audited n)"
  by (induction cs arbitrary: audited n) (auto intro!: frame_rules)

lemma RepairMissingIssuanceAuditEvents_advances [advances_rules]:
  "advances svc (Service_RepairMissingIssuanceAuditEvents svc ctx actor)"
  unfolding Service_RepairMissingIssuanceAuditEvents_def by (intro advances_rules)

lemma RepairMissingIssuanceAuditEvents_frames [frame_rules]:
  "preserves untouched (Service_RepairMissingIssuanceAuditEvents svc ctx actor)"
  "preserves audit_appends (Service_RepairMissingIssuanceAuditEvents svc ctx actor)"
  "preserves revocations_kept (Service_RepairMissingIssuanceAuditEvents svc ctx actor)"
  unfolding Service_RepairMissingIssuanceAuditEvents_def by (intro frame_rules)+

lemma reissued_issues: "issues svc H (reissuedResult svc ctx actor enrollmentID) (\<lambda>_. {}) (\<lambda>_. True)"
  unfolding reissuedResult_def by (rule steady_issues) (intro advances_rules frame_rules)+

lemma issueApproved_issues: "issues svc H (issueApproved svc ctx actor enrollmentID e) (\<lambda>_. {}) (\<lambda>_. True)"
  unfolding issueApproved_def
proof (rule issues_bind[OF quiet_issues'[OF prepareIssue_quiet]], clarify)
  fix req now
  show "issues svc (H \<union> {}) (bindM (claimIssuanceAttempt enrollmentID now) (\<lambda>(claimed, shouldSign).
     bindM (if shouldSign then signAttempt svc req claimed now else returnM claimed) (\<lambda>attempt.
     bindM (finalizeSignedIssuanceAttempt enrollmentID attempt now) (\<lambda>certificate.
     thenM (ensureCertificateIssuedAuditEvent svc ctx actor certificate now) (returnM certificate))))) (\<lambda>_. {}) (\<lambda>_. True)"
  proof (rule issues_bind[OF claim_issues])
    fix p :: "IssuanceAttempt \<times> bool"
    obtain a shouldSign where p: "p = (a, shouldSign)" by (cases p)
    assume "case p of (a, shouldSign) \<Rightarrow> att_EnrollmentID a = enrollmentID \<and> (shouldSign \<longrightarrow> att_Status a = IssuanceAttemptSigning)"
    then have st: "shouldSign \<longrightarrow> att_Status a = IssuanceAttemptSigning" by (simp add: p)
    let ?H = "H \<union> {} \<union> (case p of (a, _) \<Rightarrow> {a})"
    have sign: "issues svc ?H (if shouldSign then signAttempt svc req a now else returnM a) (\<lambda>b. {b}) (\<lambda>_. True)"
      using st by (auto simp: p intro!: issues_return intro: issues_weaken[OF sign_issues])
    show "issues svc ?H (case p of (claimed, shouldSign) \<Rightarrow>
       bindM (if shouldSign then signAttempt svc req claimed now else returnM claimed) (\<lambda>attempt.
       bindM (finalizeSignedIssuanceAttempt enrollmentID attempt now) (\<lambda>certificate.
       thenM (ensureCertificateIssuedAuditEvent svc ctx actor certificate now) (returnM certificate)))) (\<lambda>_. {}) (\<lambda>_. True)"
      unfolding p prod.case
      by (rule issues_bind[OF sign[unfolded p prod.case]], rule issues_bind[OF finalize_issues], simp,
          rule issues_then[OF ensureAudit_issues], rule issues_return) simp_all
  qed
qed

lemma IssueCertificate_issues: "issues svc H (Service_IssueCertificate svc ctx actor enrollmentID) (\<lambda>_. {}) (\<lambda>_. True)"
proof -
  have "issues svc H (bindM (onRepo (MemoryStore_GetEnrollment enrollmentID)) (\<lambda>enrollment.
     if enr_Status enrollment = EnrollmentIssued then reissuedResult svc ctx actor enrollmentID
     else failIf (enr_Status enrollment \<noteq> EnrollmentApproved) ErrInvalidTransition
       (issueApproved svc ctx actor enrollmentID enrollment))) (\<lambda>_. {}) (\<lambda>_. True)"
    by (rule issues_bind[OF quiet_issues'])
      (simp_all add: failIf_def issues_throw reissued_issues issueApproved_issues quiet_reads)
  then show ?thesis
    unfolding Service_IssueCertificate_def by (simp add: failIf_def issues_throw)
qed

lemma claim_frames [frame_rules]:
  "preserves audit_appends (claimIssuanceAttempt enrollmentID now)"
  "preserves revocations_kept (claimIssuanceAttempt enrollmentID now)"
  unfolding claimIssuanceAttempt_def
  by (intro frame_rules; auto intro!: frame_rules split: claimDecision.split)+

lemma sign_frames [frame_rules]:
  "preserves audit_appends (signAttempt svc req attempt now)"
  "preserves revocations_kept (signAttempt svc req attempt now)"
  unfolding signAttempt_def persistSignedIssuanceAttempt_def by (intro frame_rules)+

lemma finalize_audit [frame_rules]:
  "preserves audit_appends (finalizeSignedIssuanceAttempt enrollmentID attempt now)"
  unfolding finalizeSignedIssuanceAttempt_def finalizeTx_def markFailed_def by (intro frame_rules)

lemma finalize_revocations:
  assumes s: "sound svc w" and ok: "issuance_ok svc H w"
    and run: "finalizeSignedIssuanceAttempt enrollmentID attempt now w = (r, w')"
  shows "revocations_kept (w_repo w) (w_repo w')"
proof -
  have mark: "preserves revocations_kept (markFailed enrollmentID attempt now err)" for err
    unfolding markFailed_def by (intro frame_rules)
  have tx: "revocations_kept (w_repo w) (w_repo w1)" if tx: "finalizeTx enrollmentID attempt now w = (r1, w1)" for r1 w1
  proof (cases r1)
    case (Inl e)
    then show ?thesis using cleanD(1)[OF finalizeTx_clean] tx by simp
  next
    case (Inr c)
    from finalizeTx_Inr[OF tx[unfolded Inr]] show ?thesis
    proof (elim disjE exE conjE, goal_cases issued approved)
      case (approved e a)
      have "mget (ms_certificates (w_repo w)) (att_CertificateID a) = None"
        using signed_id_new[OF _ _ sound_keyed(17)[OF s] approved(3,4)] ok by (auto simp: issuance_ok_def)
      then show ?case
        unfolding approved(9) by (auto simp: finalizedWorld_def revocations_kept_def revokedIn_def mget_mput certificateFor_def)
    qed simp
  qed
  obtain r1 w1 where t: "finalizeTx enrollmentID attempt now w = (r1, w1)" by (cases "finalizeTx enrollmentID attempt now w")
  show ?thesis
    using run tx[OF t] preservesD[OF mark] revocation_frame.R_trans
    by (auto simp: finalizeSignedIssuanceAttempt_def prog_simps t get_by_enrollment MemoryStore_GetCertificateByEnrollmentID_def
        revocation_frame.R_refl split: if_splits sum.splits)
qed

end
