(* ===== verification/Revocation.thy ===== *)
theory Revocation
  imports Frames
begin

text \<open>
  What happens to certificates after they are issued: revocation, suspension and resumption, the
  expiration scan and the publication of CRLs (\<^verbatim>\<open>revokeCertificate\<close>, \<^verbatim>\<open>transitionCertificateStatus\<close>,
  \<^verbatim>\<open>ScanCertificateExpirations\<close>, \<^verbatim>\<open>PublishCRL\<close> of \<^verbatim>\<open>internal/lifecycle/service.go\<close>).

  The invariant \<open>revocation_ok\<close> says that the revocation records and the revoked certificates correspond
  one to one; it makes the list a CRL is built from complete and free of duplicates.
\<close>

section \<open>Revocation, suspension, resumption\<close>

definition canRevokeCertificateStatus :: "CertificateStatus \<Rightarrow> bool \<Rightarrow> bool" where
  "canRevokeCertificateStatus status force =
     (if status = CertificateValid then True else force \<and> status = CertificateSuspended)"

definition newRevocation :: "string \<Rightarrow> Certificate \<Rightarrow> RevocationReason \<Rightarrow> string \<Rightarrow> time \<Rightarrow> Revocation" where
  "newRevocation ident certificate reason actor now =
     \<lparr>rev_ID = ident, rev_CertificateID = cert_ID certificate, rev_Reason = reason, rev_RevokedBy = actor,
      rev_RevokedAt = now, rev_CreatedAt = now\<rparr>"

definition revocationAuditFields :: "Certificate \<Rightarrow> RevocationReason \<Rightarrow> json gomap" where
  "revocationAuditFields certificate reason =
     auditFields [''identity_id'', cert_IdentityID certificate, ''issuer_id'', cert_IssuerID certificate,
       ''enrollment_id'', cert_EnrollmentID certificate, ''certificate_id'', cert_ID certificate,
       ''serial_number'', cert_SerialNumber certificate, ''profile_id'', cert_CertificateProfileID certificate,
       ''revocation_reason'', str_RevocationReason reason]"

definition revokeFields :: "Certificate \<Rightarrow> Certificate \<Rightarrow> RevocationReason \<Rightarrow> json gomap" where
  "revokeFields current certificate reason =
     addStatusTransition (revocationAuditFields certificate reason)
       (str_CertificateStatus (cert_Status current)) (str_CertificateStatus (cert_Status certificate))"

definition revokeAction :: "bool \<Rightarrow> string" where
  "revokeAction force = (if force then ''certificate.force_revoked'' else ''certificate.revoked'')"

definition revokeCertificate :: "Service \<Rightarrow> Context \<Rightarrow> string \<Rightarrow> string \<Rightarrow> RevocationReason \<Rightarrow> bool \<Rightarrow> Certificate svc" where
  "revokeCertificate svc ctx actor certificateID reason force =
     failIf (isBlank certificateID \<or> \<not> isValidRevocationReason reason) ErrInvalidRequest
    (bindM (Now svc) (\<lambda>now.
     MemoryStore_WithinTx (
       bindM (onRepo (memoryTx_GetCertificate certificateID)) (\<lambda>current.
       failIf (\<not> canRevokeCertificateStatus (cert_Status current) force) ErrInvalidTransition
      (let currentStatus = cert_Status current;
           certificate = current\<lparr>cert_Status := CertificateRevoked, cert_UpdatedAt := now\<rparr>;
           action = revokeAction force;
           flds = revokeFields current certificate reason in
       thenM (onRepo (memoryTx_UpdateCertificateIfStatus certificate currentStatus))
      (bindM (NewID svc) (\<lambda>ident.
       thenM (onRepo (memoryTx_CreateRevocation (newRevocation ident certificate reason actor now)))
      (thenM (createAuditEvent svc ctx actor action ''certificate'' (cert_ID certificate) now flds)
      (thenM (createOutboxMessage svc action now flds)
        (returnM certificate))))))) )))"

definition Service_RevokeCertificate :: "Service \<Rightarrow> Context \<Rightarrow> string \<Rightarrow> string \<Rightarrow> RevocationReason \<Rightarrow> Certificate svc" where
  "Service_RevokeCertificate svc ctx actor certificateID reason = revokeCertificate svc ctx actor certificateID reason False"

definition Service_ForceRevokeCertificate :: "Service \<Rightarrow> Context \<Rightarrow> string \<Rightarrow> string \<Rightarrow> RevocationReason \<Rightarrow> Certificate svc" where
  "Service_ForceRevokeCertificate svc ctx actor certificateID reason = revokeCertificate svc ctx actor certificateID reason True"

definition transitionFields :: "Certificate \<Rightarrow> CertificateStatus \<Rightarrow> CertificateStatus \<Rightarrow> json gomap" where
  "transitionFields certificate currentStatus nextStatus =
     addStatusTransition (certificateAuditFields certificate)
       (str_CertificateStatus currentStatus) (str_CertificateStatus nextStatus)"

definition transitionCertificateStatus ::
  "Service \<Rightarrow> Context \<Rightarrow> string \<Rightarrow> string \<Rightarrow> CertificateStatus \<Rightarrow> CertificateStatus \<Rightarrow> string \<Rightarrow> Certificate svc" where
  "transitionCertificateStatus svc ctx actor certificateID currentStatus nextStatus action =
     bindM (Now svc) (\<lambda>now.
     MemoryStore_WithinTx (
       bindM (onRepo (memoryTx_GetCertificate certificateID)) (\<lambda>current.
       failIf (cert_Status current \<noteq> currentStatus) ErrInvalidTransition
      (let certificate = current\<lparr>cert_Status := nextStatus, cert_UpdatedAt := now\<rparr>;
           flds = transitionFields certificate currentStatus nextStatus in
       thenM (onRepo (memoryTx_UpdateCertificateIfStatus certificate currentStatus))
      (thenM (createAuditEvent svc ctx actor action ''certificate'' (cert_ID certificate) now flds)
      (thenM (createOutboxMessage svc action now flds)
        (returnM certificate))))) ))"

definition Service_SuspendCertificate :: "Service \<Rightarrow> Context \<Rightarrow> string \<Rightarrow> string \<Rightarrow> Certificate svc" where
  "Service_SuspendCertificate svc ctx actor certificateID =
     failIf (isBlank certificateID) ErrInvalidRequest
       (transitionCertificateStatus svc ctx actor certificateID CertificateValid CertificateSuspended ''certificate.suspended'')"

definition Service_ResumeCertificate :: "Service \<Rightarrow> Context \<Rightarrow> string \<Rightarrow> string \<Rightarrow> Certificate svc" where
  "Service_ResumeCertificate svc ctx actor certificateID =
     failIf (isBlank certificateID) ErrInvalidRequest
       (transitionCertificateStatus svc ctx actor certificateID CertificateSuspended CertificateValid ''certificate.resumed'')"

section \<open>The expiration scan\<close>

definition certificateIsExpiredCandidate :: "Certificate \<Rightarrow> time \<Rightarrow> bool" where
  "certificateIsExpiredCandidate certificate now \<longleftrightarrow>
     (cert_Status certificate = CertificateValid \<or> cert_Status certificate = CertificateSuspended) \<and>
     \<not> cert_NotAfter certificate > now"

definition certificateNeedsRenewalWarning :: "Certificate \<Rightarrow> time \<Rightarrow> time \<Rightarrow> bool" where
  "certificateNeedsRenewalWarning certificate now warningBefore \<longleftrightarrow>
     cert_Status certificate = CertificateValid \<and> cert_NotAfter certificate > now \<and>
     \<not> cert_NotAfter certificate > warningBefore \<and> IsZero (cert_RenewalNotifiedAt certificate)"

text \<open>
  One certificate of the scan, in the two cases of the \<^verbatim>\<open>switch\<close>; the result says whether the row was
  written. A refused write (\<^verbatim>\<open>ErrInvalidTransition\<close>) is the \<^verbatim>\<open>continue\<close> of the loop.
\<close>

definition scanWrite :: "Service \<Rightarrow> Context \<Rightarrow> string \<Rightarrow> time \<Rightarrow> duration \<Rightarrow> Certificate \<Rightarrow> CertificateStatus \<Rightarrow> string \<Rightarrow> bool svc" where
  "scanWrite svc ctx actor now warningWindow updated currentStatus action =
     bindM (attemptM (onRepo (memoryTx_UpdateCertificateIfStatus updated currentStatus))) (\<lambda>r.
       case r of
         Inl err \<Rightarrow> if errors_Is err ErrInvalidTransition then returnM False else throwM err
       | Inr _ \<Rightarrow>
           (let flds = certificateExpirationAuditFields svc updated warningWindow in
            thenM (createAuditEvent svc ctx actor action ''certificate'' (cert_ID updated) now flds)
           (thenM (createOutboxMessage svc action now flds)
             (returnM True))))"

definition expiredAt :: "time \<Rightarrow> Certificate \<Rightarrow> Certificate" where
  "expiredAt now certificate = certificate\<lparr>cert_Status := CertificateExpired, cert_UpdatedAt := now\<rparr>"

definition warnedAt :: "time \<Rightarrow> Certificate \<Rightarrow> Certificate" where
  "warnedAt now certificate = certificate\<lparr>cert_RenewalNotifiedAt := now, cert_UpdatedAt := now\<rparr>"

fun scanLoop :: "Service \<Rightarrow> Context \<Rightarrow> string \<Rightarrow> time \<Rightarrow> duration \<Rightarrow> Certificate list \<Rightarrow>
    CertificateExpirationScanResult \<Rightarrow> CertificateExpirationScanResult svc" where
  "scanLoop svc ctx actor now warningWindow [] res = returnM res"
| "scanLoop svc ctx actor now warningWindow (certificate # rest) res =
     (if certificateIsExpiredCandidate certificate now then
        bindM (scanWrite svc ctx actor now warningWindow (expiredAt now certificate) (cert_Status certificate) ''certificate.expired'') (\<lambda>written.
        scanLoop svc ctx actor now warningWindow rest
          (if written then res\<lparr>scs_Expired := scs_Expired res @ [expiredAt now certificate]\<rparr> else res))
      else if certificateNeedsRenewalWarning certificate now (now + warningWindow) then
        bindM (scanWrite svc ctx actor now warningWindow (warnedAt now certificate) CertificateValid ''certificate.expiration_warning'') (\<lambda>written.
        scanLoop svc ctx actor now warningWindow rest
          (if written then res\<lparr>scs_ExpirationWarnings := scs_ExpirationWarnings res @ [warnedAt now certificate]\<rparr> else res))
      else scanLoop svc ctx actor now warningWindow rest res)"

definition Service_ScanCertificateExpirations ::
  "Service \<Rightarrow> Context \<Rightarrow> string \<Rightarrow> ScanCertificateExpirationsRequest \<Rightarrow> CertificateExpirationScanResult svc" where
  "Service_ScanCertificateExpirations svc ctx actor req =
     failIf (scr_WarningWindow req < 0 \<or> scr_Limit req \<le> 0) ErrInvalidRequest
    (bindM (Now svc) (\<lambda>now.
     MemoryStore_WithinTx (
       bindM (onRepo (memoryTx_ListCertificatesForExpirationScan now (now + scr_WarningWindow req) (scr_Limit req))) (\<lambda>candidates.
       scanLoop svc ctx actor now (scr_WarningWindow req) candidates \<lparr>scs_Expired = [], scs_ExpirationWarnings = []\<rparr>) )))"

section \<open>CRL publication\<close>

definition revokedCertificateOf :: "RevokedCertificateEntry \<Rightarrow> RevokedCertificate" where
  "revokedCertificateOf entry =
     \<lparr>rvk_SerialNumber = rce_SerialNumber entry, rvk_RevokedAt = rce_RevokedAt entry,
      rvk_Reason = str_RevocationReason (rce_Reason entry)\<rparr>"

definition newCRLPublication :: "string \<Rightarrow> PublishCRLRequest \<Rightarrow> int \<Rightarrow> string \<Rightarrow> time \<Rightarrow> CRLPublication" where
  "newCRLPublication ident req crlNumber crlPEM now =
     \<lparr>crl_ID = ident, crl_IssuerID = pcr_IssuerID req, crl_DistributionPoint = pcr_DistributionPoint req,
      crl_CRLNumber = crlNumber, crl_ThisUpdate = now, crl_NextUpdate = pcr_NextUpdate req,
      crl_Status = CRLPublicationPublished, crl_CRLPEM = crlPEM, crl_CreatedAt = now, crl_UpdatedAt = now\<rparr>"

definition crlAuditFields :: "CRLPublication \<Rightarrow> json gomap" where
  "crlAuditFields publication =
     mput ''crl_number'' (JInt (crl_CRLNumber publication))
    (mput ''distribution_point'' (JString (crl_DistributionPoint publication))
    (mput ''crl_publication_id'' (JString (crl_ID publication))
    (mput ''issuer_id'' (JString (crl_IssuerID publication)) mempty)))"

text \<open>What the signer is asked for.\<close>

definition crlRequestFor :: "Issuer \<Rightarrow> RevokedCertificateEntry list \<Rightarrow> int \<Rightarrow> time \<Rightarrow> time \<Rightarrow> GenerateCRLRequest" where
  "crlRequestFor issuer entries crlNumber now nextUpdate =
     \<lparr>gcq_IssuerCertificatePEM = iss_CertificatePEM issuer, gcq_IssuerKeyRef = iss_KeyRef issuer,
      gcq_CRLNumber = crlNumber, gcq_ThisUpdate = now, gcq_NextUpdate = nextUpdate,
      gcq_RevokedCertificates = map revokedCertificateOf entries\<rparr>"

definition publishTx :: "Service \<Rightarrow> Context \<Rightarrow> string \<Rightarrow> PublishCRLRequest \<Rightarrow> CRLPublication \<Rightarrow> time \<Rightarrow> unit svc" where
  "publishTx svc ctx actor req publication now =
     MemoryStore_WithinTx (
       thenM (onRepo (memoryTx_GetIssuer (pcr_IssuerID req)))
      (thenM (onRepo (memoryTx_CreateCRLPublication publication))
        (createAuditEvent svc ctx actor ''crl.published'' ''crl_publication'' (crl_ID publication) now
          (crlAuditFields publication))) )"

definition Service_PublishCRL :: "Service \<Rightarrow> Context \<Rightarrow> string \<Rightarrow> PublishCRLRequest \<Rightarrow> CRLPublication svc" where
  "Service_PublishCRL svc ctx actor req =
     bindM (Now svc) (\<lambda>now.
     thenM (liftE (validatePublishCRLRequest req now))
    (bindM (onRepo (MemoryStore_GetIssuer (pcr_IssuerID req))) (\<lambda>issuer.
     bindM (onRepo (MemoryStore_ListRevocationsByIssuer (pcr_IssuerID req))) (\<lambda>entries.
     bindM (onRepo (MemoryStore_ListCRLPublicationsByIssuer (pcr_IssuerID req))) (\<lambda>existing.
     let crlNumber = nextCRLNumber existing (pcr_DistributionPoint req) in
     bindM (attemptM (callExt (\<lambda>n. ci_GenerateCRL (svc_issuer svc) n
         (crlRequestFor issuer entries crlNumber now (pcr_NextUpdate req))))) (\<lambda>r.
     case r of
       Inl err \<Rightarrow> throwM (mapCRLError err)
     | Inr res \<Rightarrow>
         bindM (NewID svc) (\<lambda>ident.
         let publication = newCRLPublication ident req crlNumber (gcr_CRLPEM res) now in
         thenM (publishTx svc ctx actor req publication now)
           (returnM publication))))))))"

section \<open>Failures change nothing\<close>

lemma revoke_clean: "clean (revokeCertificate svc ctx actor certificateID reason force)"
  unfolding revokeCertificate_def by (intro clean_rules)

lemma transition_clean: "clean (transitionCertificateStatus svc ctx actor certificateID c n action)"
  unfolding transitionCertificateStatus_def by (intro clean_rules)

lemma scanLoop_grows [clean_rules]: "grows (scanLoop svc ctx actor now win cs res)"
  by (induction cs arbitrary: res) (auto simp: scanWrite_def intro!: clean_rules)

lemma scan_clean: "clean (Service_ScanCertificateExpirations svc ctx actor req)"
  unfolding Service_ScanCertificateExpirations_def by (intro clean_rules)

lemma publishTx_clean: "clean (publishTx svc ctx actor req publication now)"
  unfolding publishTx_def by (intro clean_rules)

lemma publish_clean: "clean (Service_PublishCRL svc ctx actor req)"
  unfolding Service_PublishCRL_def by (intro clean_rules publishTx_clean)

section \<open>Frames\<close>

lemma revoke_frames [frame_rules]:
  "preserves untouched (revokeCertificate svc ctx actor certificateID reason force)"
  "preserves audit_appends (revokeCertificate svc ctx actor certificateID reason force)"
  unfolding revokeCertificate_def by (intro frame_rules)+

lemma transition_frames [frame_rules]:
  "preserves untouched (transitionCertificateStatus svc ctx actor certificateID c n action)"
  "preserves audit_appends (transitionCertificateStatus svc ctx actor certificateID c n action)"
  "c \<noteq> CertificateRevoked \<Longrightarrow> n \<noteq> CertificateRevoked \<Longrightarrow>
     preserves revocations_kept (transitionCertificateStatus svc ctx actor certificateID c n action)"
  unfolding transitionCertificateStatus_def Let_def by (intro frame_rules; simp)+

lemma scanLoop_frames [frame_rules]:
  "preserves untouched (scanLoop svc ctx actor now win cs res)"
  "preserves audit_appends (scanLoop svc ctx actor now win cs res)"
  "preserves revocations_kept (scanLoop svc ctx actor now win cs res)"
proof (induction cs arbitrary: res)
  case (Cons c cs)
  {
    case 1 then show ?case using Cons by (auto simp: scanWrite_def intro!: frame_rules)
  next
    case 2 then show ?case using Cons by (auto simp: scanWrite_def intro!: frame_rules)
  next
    case 3 then show ?case using Cons
      by (auto simp: scanWrite_def expiredAt_def warnedAt_def certificateIsExpiredCandidate_def
          certificateNeedsRenewalWarning_def intro!: frame_rules)
  }
qed (auto intro!: frame_rules)

lemma scan_frames [frame_rules]:
  "preserves untouched (Service_ScanCertificateExpirations svc ctx actor req)"
  "preserves audit_appends (Service_ScanCertificateExpirations svc ctx actor req)"
  "preserves revocations_kept (Service_ScanCertificateExpirations svc ctx actor req)"
  unfolding Service_ScanCertificateExpirations_def by (intro frame_rules)+

lemma publish_frames [frame_rules]:
  "preserves untouched (Service_PublishCRL svc ctx actor req)"
  "preserves audit_appends (Service_PublishCRL svc ctx actor req)"
  "preserves revocations_kept (Service_PublishCRL svc ctx actor req)"
  unfolding Service_PublishCRL_def publishTx_def by (intro frame_rules)+

section \<open>The operations follow the state machines\<close>

text \<open>A certificate replaced by one that took a step.\<close>

lemma certificate_put:
  assumes s: "sound svc w" and get: "mget (ms_certificates (w_repo w)) k = Some c" and step: "certificateStep c c'"
    and keys: "same_certificate_keys c' c"
  shows "table_evolves certificateStep (ms_certificates (w_repo w)) (mput (cert_ID c) c' (ms_certificates (w_repo w)))"
    "keyed cert_ID (mput (cert_ID c) c' (ms_certificates (w_repo w)))"
    "dom (mget (mput (cert_ID c) c' (ms_certificates (w_repo w)))) = dom (mget (ms_certificates (w_repo w)))"
    "unique_certificates (mput (cert_ID c) c' (ms_certificates (w_repo w)))" "cert_ID c \<in> used_ids (w_repo w)"
proof -
  show "cert_ID c \<in> used_ids (w_repo w)" using row_used(8)[OF s get] keyedD[OF sound_keyed(8)[OF s] get] by simp
  have id: "cert_ID c' = cert_ID c" using keys by (simp add: same_certificate_keys_def)
  note put = put_certificates[OF s get step id]
  show "table_evolves certificateStep (ms_certificates (w_repo w)) (mput (cert_ID c) c' (ms_certificates (w_repo w)))"
    "keyed cert_ID (mput (cert_ID c) c' (ms_certificates (w_repo w)))"
    "dom (mget (mput (cert_ID c) c' (ms_certificates (w_repo w)))) = dom (mget (ms_certificates (w_repo w)))"
    by (simp_all add: put)
  have "mget (ms_certificates (w_repo w)) (cert_ID c') = Some c"
    using keyedD[OF sound_keyed(8)[OF s] get] get id by simp
  then show "unique_certificates (mput (cert_ID c) c' (ms_certificates (w_repo w)))"
    using unique_certificates_update[OF sound_clauses(2)[OF s], of c' c] keys id by simp
qed

lemma newRevocation_id [simp]: "rev_ID (newRevocation ident c reason actor now) = ident"
  "rev_CertificateID (newRevocation ident c reason actor now) = cert_ID c"
  by (simp_all add: newRevocation_def)

lemma outboxMessageFor_id [simp]: "msg_ID (outboxMessageFor ident mt t flds) = ident"
  by (simp add: outboxMessageFor_def)

lemma revoke_effect:
  assumes "revokeCertificate svc ctx actor certificateID reason force w = (Inr c, w')"
  obtains c0 where "mget (ms_certificates (w_repo w)) certificateID = Some c0"
    "canRevokeCertificateStatus (cert_Status c0) force" "isValidRevocationReason reason"
    "c = c0\<lparr>cert_Status := CertificateRevoked, cert_UpdatedAt := svc_clock svc (w_clock w)\<rparr>"
    "w_repo w' = (w_repo w)\<lparr>ms_certificates := mput (cert_ID c0) c (ms_certificates (w_repo w)),
       ms_revocations := mput (svc_idgen svc (w_ids w))
         (newRevocation (svc_idgen svc (w_ids w)) c reason actor (svc_clock svc (w_clock w))) (ms_revocations (w_repo w)),
       ms_auditEvents := ms_auditEvents (w_repo w) @ [auditEventFor svc ctx (svc_idgen svc (Suc (w_ids w))) actor
         (revokeAction force) ''certificate'' (cert_ID c0) (svc_clock svc (w_clock w)) (revokeFields c0 c reason)],
       ms_outbox := mput (svc_idgen svc (Suc (Suc (w_ids w)))) (outboxMessageFor (svc_idgen svc (Suc (Suc (w_ids w))))
         (revokeAction force) (svc_clock svc (w_clock w)) (revokeFields c0 c reason)) (ms_outbox (w_repo w))\<rparr>"
    "w_ids w' = Suc (Suc (Suc (w_ids w)))"
  using assms
  by (clarsimp simp: revokeCertificate_def inr_simps Let_def revokeFields_def newRevocation_id)

lemma revoke_advances [advances_rules]: "advances svc (revokeCertificate svc ctx actor certificateID reason force)"
proof (rule advances_clean[OF revoke_clean])
  fix w c w'
  assume s: "sound svc w" and run: "revokeCertificate svc ctx actor certificateID reason force w = (Inr c, w')"
  from run show "advance svc w w'"
  proof (rule revoke_effect, goal_cases)
    case (1 c0)
    have "certificateStep c0 c" "same_certificate_keys c c0"
      using 1(2,4) by (auto simp: step_defs canRevokeCertificateStatus_def same_certificate_keys_def split: if_splits)
    note put = certificate_put[OF s 1(1) this]
    show ?case
      by (intro advance_by_updates[OF s 1(5) 1(6)] update_rules)
        (simp_all add: put sound_facts[OF s] table_evolves_fresh dom_mput)
  qed
qed

lemma transition_effect:
  assumes "transitionCertificateStatus svc ctx actor certificateID cur nxt action w = (Inr c, w')"
  obtains c0 where "mget (ms_certificates (w_repo w)) certificateID = Some c0" "cert_Status c0 = cur"
    "c = c0\<lparr>cert_Status := nxt, cert_UpdatedAt := svc_clock svc (w_clock w)\<rparr>"
    "w_repo w' = (w_repo w)\<lparr>ms_certificates := mput (cert_ID c0) c (ms_certificates (w_repo w)),
       ms_auditEvents := ms_auditEvents (w_repo w) @ [auditEventFor svc ctx (svc_idgen svc (w_ids w)) actor
         action ''certificate'' (cert_ID c0) (svc_clock svc (w_clock w)) (transitionFields c cur nxt)],
       ms_outbox := mput (svc_idgen svc (Suc (w_ids w))) (outboxMessageFor (svc_idgen svc (Suc (w_ids w)))
         action (svc_clock svc (w_clock w)) (transitionFields c cur nxt)) (ms_outbox (w_repo w))\<rparr>"
    "w_ids w' = Suc (Suc (w_ids w))"
  using assms
  by (clarsimp simp: transitionCertificateStatus_def inr_simps Let_def)

lemma transition_advances:
  assumes "certificateNext cur nxt"
  shows "advances svc (transitionCertificateStatus svc ctx actor certificateID cur nxt action)"
proof (rule advances_clean[OF transition_clean])
  fix w c w'
  assume s: "sound svc w" and run: "transitionCertificateStatus svc ctx actor certificateID cur nxt action w = (Inr c, w')"
  from run show "advance svc w w'"
  proof (rule transition_effect, goal_cases)
    case (1 c0)
    have "certificateStep c0 c" "same_certificate_keys c c0"
      using 1(2,3) assms by (simp_all add: step_defs same_certificate_keys_def)
    note put = certificate_put[OF s 1(1) this]
    show ?case
      by (intro advance_by_updates[OF s 1(4) 1(5)] update_rules)
        (simp_all add: put sound_facts[OF s] table_evolves_fresh dom_mput)
  qed
qed

lemma Suspend_Resume_advances [advances_rules]:
  "advances svc (Service_SuspendCertificate svc ctx actor certificateID)"
  "advances svc (Service_ResumeCertificate svc ctx actor certificateID)"
  unfolding Service_SuspendCertificate_def Service_ResumeCertificate_def
  by (intro advances_rules transition_advances; simp)+

lemma Revoke_advances [advances_rules]:
  "advances svc (Service_RevokeCertificate svc ctx actor certificateID reason)"
  "advances svc (Service_ForceRevokeCertificate svc ctx actor certificateID reason)"
  unfolding Service_RevokeCertificate_def Service_ForceRevokeCertificate_def by (rule revoke_advances)+

lemma publishTx_advance:
  assumes s: "sound svc w" and n: "w_ids w < n" and id: "crl_ID p = svc_idgen svc (w_ids w)"
    and run: "publishTx svc ctx actor req p now (w\<lparr>w_clock := t, w_ext := x, w_ids := Suc (w_ids w)\<rparr>) = (Inr u, w')"
  shows "advance svc w w'"
proof -
  have uniq: "unique_crl_numbers (mput (crl_ID p) p (ms_crls (w_repo w)))"
    if "ensureCRLPublicationNumberAvailable (ms_crls (w_repo w)) p = Inr ()"
    using unique_crl_numbers_create[OF sound_clauses(3)[OF s] sound_keyed(5)[OF s] that] .
  from run show ?thesis
    using uniq by (clarsimp simp: publishTx_def inr_simps)
      (intro advance_to[OF s] update_rules; simp add: sound_facts[OF s] table_evolves_fresh dom_mput id)
qed

lemma PublishCRL_prepared:
  assumes "Service_PublishCRL svc ctx actor req w = (Inr p, w')"
  shows "\<exists>issuer res. validatePublishCRLRequest req (svc_clock svc (w_clock w)) = Inr () \<and>
     mget (ms_issuers (w_repo w)) (pcr_IssuerID req) = Some issuer \<and>
     ci_GenerateCRL (svc_issuer svc) (w_ext w) (crlRequestFor issuer
       (listRevocationsByIssuer (ms_certificates (w_repo w)) (ms_revocations (w_repo w)) (pcr_IssuerID req))
       (nextCRLNumber (listCRLPublicationsByIssuer (ms_crls (w_repo w)) (pcr_IssuerID req)) (pcr_DistributionPoint req))
       (svc_clock svc (w_clock w)) (pcr_NextUpdate req)) = Inr res \<and>
     p = newCRLPublication (svc_idgen svc (w_ids w)) req
       (nextCRLNumber (listCRLPublicationsByIssuer (ms_crls (w_repo w)) (pcr_IssuerID req)) (pcr_DistributionPoint req))
       (gcr_CRLPEM res) (svc_clock svc (w_clock w)) \<and>
     publishTx svc ctx actor req p (svc_clock svc (w_clock w))
       (w\<lparr>w_clock := Suc (w_clock w), w_ext := Suc (w_ext w), w_ids := Suc (w_ids w)\<rparr>) = (Inr (), w')"
  using assms
  by (clarsimp simp: Service_PublishCRL_def inr_simps Let_def MemoryStore_ListRevocationsByIssuer_def
      MemoryStore_ListCRLPublicationsByIssuer_def)

lemma PublishCRL_advances [advances_rules]: "advances svc (Service_PublishCRL svc ctx actor req)"
proof (rule advances_clean[OF publish_clean])
  fix w p w'
  assume s: "sound svc w" and run: "Service_PublishCRL svc ctx actor req w = (Inr p, w')"
  from PublishCRL_prepared[OF run] show "advance svc w w'"
    using publishTx_advance[OF s, of "Suc (w_ids w)" p] by (auto simp: newCRLPublication_def)
qed


section \<open>What a scan does\<close>

text \<open>What the scan makes of one certificate.\<close>

definition scanned :: "time \<Rightarrow> time \<Rightarrow> Certificate \<Rightarrow> Certificate" where
  "scanned now warningBefore c =
     (if certificateIsExpiredCandidate c now then expiredAt now c
      else if certificateNeedsRenewalWarning c now warningBefore then warnedAt now c else c)"

lemma scanned_keys: "same_certificate_keys (expiredAt now c) c" "same_certificate_keys (warnedAt now c) c"
  by (simp_all add: same_certificate_keys_def expiredAt_def warnedAt_def)

lemma scanned_steps:
  "certificateIsExpiredCandidate c now \<Longrightarrow> certificateStep c (expiredAt now c)" "certificateStep c (warnedAt now c)"
  by (auto simp: step_defs expiredAt_def warnedAt_def certificateIsExpiredCandidate_def)

lemma scanWrite_current:
  assumes s: "sound svc w" and get: "mget (ms_certificates (w_repo w)) (cert_ID c) = Some c"
    and step: "certificateStep c u" and keys: "same_certificate_keys u c"
  shows "\<exists>w'. scanWrite svc ctx actor now win u (cert_Status c) action w = (Inr True, w') \<and> advance svc w w' \<and>
     ms_certificates (w_repo w') = mput (cert_ID c) u (ms_certificates (w_repo w))"
proof -
  have id: "cert_ID u = cert_ID c" using keys by (simp add: same_certificate_keys_def)
  note put = certificate_put[OF s get step keys]
  show ?thesis
    by (simp add: scanWrite_def prog_simps run_onRepo tx_agree MemoryStore_UpdateCertificateIfStatus_def
        updateCertificateIfStatus_def id get run_createAuditEvent run_createOutboxMessage Let_def)
      (intro advance_to[OF s] update_rules; simp add: put sound_facts[OF s] table_evolves_fresh dom_mput)
qed

text \<open>The result of a scan of the candidates \<open>cs\<close>, after \<open>res\<close>.\<close>

definition scanResult :: "time \<Rightarrow> time \<Rightarrow> CertificateExpirationScanResult \<Rightarrow> Certificate list \<Rightarrow> CertificateExpirationScanResult" where
  "scanResult now warningBefore res cs =
     res\<lparr>scs_Expired := scs_Expired res @ map (expiredAt now) (filter (\<lambda>c. certificateIsExpiredCandidate c now) cs),
      scs_ExpirationWarnings := scs_ExpirationWarnings res @
        map (warnedAt now) (filter (\<lambda>c. certificateNeedsRenewalWarning c now warningBefore) cs)\<rparr>"

lemma scanResult_Nil [simp]: "scanResult now before res [] = res"
  by (simp add: scanResult_def)

lemma scanResult_Cons: "scanResult now before res (c # cs) = scanResult now before (scanResult now before res [c]) cs"
  by (simp add: scanResult_def)

lemma scan_cases_exclusive: "certificateIsExpiredCandidate c now \<Longrightarrow> \<not> certificateNeedsRenewalWarning c now before"
  by (simp add: certificateIsExpiredCandidate_def certificateNeedsRenewalWarning_def)

lemma scanLoop_candidate:
  assumes s: "sound svc w" and get: "mget (ms_certificates (w_repo w)) (cert_ID c) = Some c"
  shows "\<exists>w'. (\<forall>cs. scanLoop svc ctx actor now win (c # cs) res w =
       scanLoop svc ctx actor now win cs (scanResult now (now + win) res [c]) w') \<and> advance svc w w' \<and>
     (\<forall>k. mget (ms_certificates (w_repo w')) k =
        (if k = cert_ID c then Some (scanned now (now + win) c) else mget (ms_certificates (w_repo w)) k))"
proof -
  consider (expired) "certificateIsExpiredCandidate c now"
    | (warned) "\<not> certificateIsExpiredCandidate c now" "certificateNeedsRenewalWarning c now (now + win)"
    | (neither) "\<not> certificateIsExpiredCandidate c now" "\<not> certificateNeedsRenewalWarning c now (now + win)"
    by blast
  then show ?thesis
  proof cases
    case expired
    from scanWrite_current[OF s get scanned_steps(1)[OF expired] scanned_keys(1)] obtain w1 where
      "scanWrite svc ctx actor now win (expiredAt now c) (cert_Status c) ''certificate.expired'' w = (Inr True, w1)"
      "advance svc w w1" "ms_certificates (w_repo w1) = mput (cert_ID c) (expiredAt now c) (ms_certificates (w_repo w))" by blast
    then show ?thesis using expired scan_cases_exclusive
      by (intro exI[of _ w1]) (simp add: scanned_def scanResult_def prog_simps mget_mput)
  next
    case warned
    then have "cert_Status c = CertificateValid" by (simp add: certificateNeedsRenewalWarning_def)
    with scanWrite_current[OF s get scanned_steps(2) scanned_keys(2)] obtain w1 where
      "scanWrite svc ctx actor now win (warnedAt now c) CertificateValid ''certificate.expiration_warning'' w = (Inr True, w1)"
      "advance svc w w1" "ms_certificates (w_repo w1) = mput (cert_ID c) (warnedAt now c) (ms_certificates (w_repo w))" by metis
    then show ?thesis using warned
      by (intro exI[of _ w1]) (simp add: scanned_def scanResult_def prog_simps mget_mput)
  next
    case neither
    then show ?thesis using get s by (intro exI[of _ w]) (simp add: scanned_def scanResult_def advance_refl)
  qed
qed

text \<open>The loop on candidates that are rows of the store: every one is written, nothing else is.\<close>

lemma scanLoop_run:
  assumes "sound svc w" "\<And>c. c \<in> set cs \<Longrightarrow> mget (ms_certificates (w_repo w)) (cert_ID c) = Some c"
    and "distinct (map cert_ID cs)"
  shows "\<exists>w'. scanLoop svc ctx actor now win cs res w = (Inr (scanResult now (now + win) res cs), w') \<and> advance svc w w' \<and>
     (\<forall>k. mget (ms_certificates (w_repo w')) k =
        (if k \<in> cert_ID ` set cs then map_option (scanned now (now + win)) (mget (ms_certificates (w_repo w)) k)
         else mget (ms_certificates (w_repo w)) k))"
  using assms
proof (induction cs arbitrary: res w)
  case Nil
  then show ?case by (simp add: advance_refl)
next
  case (Cons c cs)
  have get: "mget (ms_certificates (w_repo w)) (cert_ID c) = Some c"
    and rest: "\<And>d. d \<in> set cs \<Longrightarrow> mget (ms_certificates (w_repo w)) (cert_ID d) = Some d"
    and other: "cert_ID c \<notin> cert_ID ` set cs" and dist: "distinct (map cert_ID cs)"
    using Cons.prems by auto
  from scanLoop_candidate[OF Cons.prems(1) get] obtain w1 where
    run: "scanLoop svc ctx actor now win (c # cs) res w = scanLoop svc ctx actor now win cs (scanResult now (now + win) res [c]) w1"
    and a: "advance svc w w1" and m: "\<And>k. mget (ms_certificates (w_repo w1)) k =
      (if k = cert_ID c then Some (scanned now (now + win) c) else mget (ms_certificates (w_repo w)) k)"
    by blast
  have "mget (ms_certificates (w_repo w1)) (cert_ID d) = Some d" if "d \<in> set cs" for d
    using rest[OF that] other that by (metis m imageI)
  moreover have "sound svc w1" using a by (simp add: advance_def)
  ultimately obtain w' where
    w': "scanLoop svc ctx actor now win cs (scanResult now (now + win) res [c]) w1 =
      (Inr (scanResult now (now + win) (scanResult now (now + win) res [c]) cs), w')" "advance svc w1 w'"
    and tbl: "\<And>k. mget (ms_certificates (w_repo w')) k =
      (if k \<in> cert_ID ` set cs then map_option (scanned now (now + win)) (mget (ms_certificates (w_repo w1)) k)
       else mget (ms_certificates (w_repo w1)) k)"
    using Cons.IH[of w1 "scanResult now (now + win) res [c]"] dist by blast
  have "mget (ms_certificates (w_repo w')) k =
      (if k \<in> cert_ID ` set (c # cs) then map_option (scanned now (now + win)) (mget (ms_certificates (w_repo w)) k)
       else mget (ms_certificates (w_repo w)) k)" for k
    using other get by (auto simp: tbl m)
  then show ?case
    using w'(1) advance_trans[OF a w'(2)] unfolding run scanResult_Cons[of _ _ _ c cs] by blast
qed

lemma scan_list_rows:
  assumes "sound svc w"
  shows "c \<in> set (listCertificatesForExpirationScan (ms_certificates (w_repo w)) now before limit) \<Longrightarrow>
      mget (ms_certificates (w_repo w)) (cert_ID c) = Some c \<and> certificateNeedsExpirationScan c now before"
    and "distinct (map cert_ID (listCertificatesForExpirationScan (ms_certificates (w_repo w)) now before limit))"
proof -
  let ?all = "sort_by notAfterThenID (filter (\<lambda>c. certificateNeedsExpirationScan c now before) (mvals (ms_certificates (w_repo w))))"
  have k: "keyed cert_ID (ms_certificates (w_repo w))" by (rule sound_keyed(8)[OF assms])
  show "mget (ms_certificates (w_repo w)) (cert_ID c) = Some c \<and> certificateNeedsExpirationScan c now before"
    if "c \<in> set (listCertificatesForExpirationScan (ms_certificates (w_repo w)) now before limit)"
    using that list_scan.in_listing[of c now before] keyedD[OF k]
    by (auto simp: listCertificatesForExpirationScan_take dest!: in_set_takeD)
  have "distinct ?all" by (rule list_scan.listing_distinct[OF k])
  moreover have "inj_on cert_ID (set ?all)" by (rule inj_on_subset[OF keyed_inj[OF k]]) auto
  ultimately show "distinct (map cert_ID (listCertificatesForExpirationScan (ms_certificates (w_repo w)) now before limit))"
    by (simp add: listCertificatesForExpirationScan_take take_map[symmetric] distinct_map)
qed

lemma scan_run:
  fixes svc w req
  defines "now \<equiv> svc_clock svc (w_clock w)"
  defines "due \<equiv> listCertificatesForExpirationScan (ms_certificates (w_repo w)) now (now + scr_WarningWindow req) (scr_Limit req)"
  assumes s: "sound svc w" and ok: "0 \<le> scr_WarningWindow req" "0 < scr_Limit req"
  shows "\<exists>w'. Service_ScanCertificateExpirations svc ctx actor req w =
       (Inr (scanResult now (now + scr_WarningWindow req) \<lparr>scs_Expired = [], scs_ExpirationWarnings = []\<rparr> due), w') \<and>
     advance svc w w' \<and>
     (\<forall>k. mget (ms_certificates (w_repo w')) k =
        (if k \<in> cert_ID ` set due then map_option (scanned now (now + scr_WarningWindow req)) (mget (ms_certificates (w_repo w)) k)
         else mget (ms_certificates (w_repo w)) k))"
proof -
  let ?w = "w\<lparr>w_clock := Suc (w_clock w)\<rparr>"
  have a: "advance svc w ?w" using s by (intro advance_same_repo) simp_all
  then have s1: "sound svc ?w" by (simp add: advance_def)
  have rows: "mget (ms_certificates (w_repo ?w)) (cert_ID c) = Some c" if "c \<in> set due" for c
    using scan_list_rows(1)[OF s] that by (simp add: due_def)
  have dist: "distinct (map cert_ID due)" using scan_list_rows(2)[OF s] by (simp add: due_def)
  from scanLoop_run[OF s1 rows dist, of ctx actor now "scr_WarningWindow req" "\<lparr>scs_Expired = [], scs_ExpirationWarnings = []\<rparr>"]
  obtain w' where
    loop: "scanLoop svc ctx actor now (scr_WarningWindow req) due \<lparr>scs_Expired = [], scs_ExpirationWarnings = []\<rparr> ?w =
      (Inr (scanResult now (now + scr_WarningWindow req) \<lparr>scs_Expired = [], scs_ExpirationWarnings = []\<rparr> due), w')"
    and a': "advance svc ?w w'" and tbl: "\<forall>k. mget (ms_certificates (w_repo w')) k =
      (if k \<in> cert_ID ` set due then map_option (scanned now (now + scr_WarningWindow req)) (mget (ms_certificates (w_repo ?w)) k)
       else mget (ms_certificates (w_repo ?w)) k)" by blast
  have "Service_ScanCertificateExpirations svc ctx actor req w =
      (Inr (scanResult now (now + scr_WarningWindow req) \<lparr>scs_Expired = [], scs_ExpirationWarnings = []\<rparr> due), w')"
    using ok loop unfolding due_def now_def
    by (simp add: Service_ScanCertificateExpirations_def prog_simps run_WithinTx run_onRepo tx_agree
        MemoryStore_ListCertificatesForExpirationScan_def)
  then show ?thesis using advance_trans[OF a a'] tbl by auto
qed

lemma scan_advances [advances_rules]: "advances svc (Service_ScanCertificateExpirations svc ctx actor req)"
proof (rule advances_clean[OF scan_clean])
  fix w r w'
  assume s: "sound svc w" and run: "Service_ScanCertificateExpirations svc ctx actor req w = (Inr r, w')"
  then have "0 \<le> scr_WarningWindow req" "0 < scr_Limit req"
    by (auto simp: Service_ScanCertificateExpirations_def failIf_def split: if_splits)
  from scan_run[OF s this, of ctx actor] run show "advance svc w w'" by auto
qed

text \<open>The rows a scan still has to look at, and the bound under which one scan reaches all of them.\<close>

lemma scan_list_all:
  assumes "mget m k = Some c" "certificateNeedsExpirationScan c now before"
    and "length (filter (\<lambda>c. certificateNeedsExpirationScan c now before) (mvals m)) \<le> nat limit"
  shows "c \<in> set (listCertificatesForExpirationScan m now before limit)"
  using assms list_scan.in_listing[of c now before m] by (auto simp: listCertificatesForExpirationScan_take)

lemma scanned_not_due: "now \<noteq> 0 \<Longrightarrow> \<not> certificateNeedsExpirationScan (scanned now before c) now before"
  by (auto simp: certificateNeedsExpirationScan_def scanned_def expiredAt_def warnedAt_def IsZero_def
      certificateIsExpiredCandidate_def certificateNeedsRenewalWarning_def)

section \<open>Revocation records and revoked certificates\<close>

definition revocation_ok :: "MemoryStore \<Rightarrow> bool" where
  "revocation_ok s \<longleftrightarrow>
     (\<forall>j r. mget (ms_revocations s) j = Some r \<longrightarrow> revokedIn s (rev_CertificateID r)) \<and>
     (\<forall>k. revokedIn s k \<longrightarrow> (\<exists>j r. mget (ms_revocations s) j = Some r \<and> rev_CertificateID r = k)) \<and>
     (\<forall>i j r r'. mget (ms_revocations s) i = Some r \<longrightarrow> mget (ms_revocations s) j = Some r' \<longrightarrow>
        rev_CertificateID r = rev_CertificateID r' \<longrightarrow> i = j)"

lemma revocation_okD:
  assumes "revocation_ok s"
  shows "mget (ms_revocations s) j = Some r \<Longrightarrow> revokedIn s (rev_CertificateID r)"
    and "revokedIn s k \<Longrightarrow> \<exists>j r. mget (ms_revocations s) j = Some r \<and> rev_CertificateID r = k"
    and "mget (ms_revocations s) i = Some r \<Longrightarrow> mget (ms_revocations s) j = Some r' \<Longrightarrow>
      rev_CertificateID r = rev_CertificateID r' \<Longrightarrow> i = j"
  using assms unfolding revocation_ok_def by blast+

lemma revocation_ok_New: "revocation_ok NewMemoryStore"
  by (simp add: revocation_ok_def NewMemoryStore_def revokedIn_def)

lemma revocation_ok_kept: "revocation_ok s \<Longrightarrow> revocations_kept s s' \<Longrightarrow> revocation_ok s'"
  by (simp add: revocation_ok_def revocations_kept_def)

lemma revocation_ok_revoke:
  assumes ok: "revocation_ok s" and get: "mget (ms_certificates s) k = Some c0" and st: "cert_Status c0 \<noteq> CertificateRevoked"
    and new: "mget (ms_revocations s) j = None" "rev_CertificateID r = k" and c: "cert_Status c = CertificateRevoked"
    and tables: "ms_certificates s' = mput k c (ms_certificates s)" "ms_revocations s' = mput j r (ms_revocations s)"
  shows "revocation_ok s'"
proof -
  have rev: "revokedIn s' i \<longleftrightarrow> revokedIn s i \<or> i = k" for i
    using get st c by (auto simp: revokedIn_def tables mget_mput)
  have none: "rev_CertificateID r' \<noteq> k" if "mget (ms_revocations s) i = Some r'" for i r'
    using revocation_okD(1)[OF ok that] get st by (auto simp: revokedIn_def)
  show ?thesis
    unfolding revocation_ok_def rev tables
  proof (intro conjI allI impI)
    fix i
    assume "revokedIn s i \<or> i = k"
    then consider "i = k" | j' r' where "mget (ms_revocations s) j' = Some r'" "rev_CertificateID r' = i"
      using revocation_okD(2)[OF ok] by blast
    then show "\<exists>j' r'. mget (mput j r (ms_revocations s)) j' = Some r' \<and> rev_CertificateID r' = i"
      using new by cases (metis mget_mput, metis mget_mput option.distinct(1))
  qed (use new none revocation_okD(1)[OF ok] revocation_okD(3)[OF ok] in \<open>auto simp: mget_mput split: if_splits\<close>)
qed

lemma revoke_revocation_ok:
  assumes "sound svc w" "revocation_ok (w_repo w)" "revokeCertificate svc ctx actor certificateID reason force w = (r, w')"
  shows "revocation_ok (w_repo w')"
proof (cases r)
  case (Inl e)
  then show ?thesis using cleanD[OF revoke_clean] assms(2,3) by metis
next
  case (Inr c)
  from assms(3)[unfolded Inr] show ?thesis
  proof (rule revoke_effect, goal_cases)
    case (1 c0)
    have "cert_ID c0 = certificateID" using keyedD[OF sound_keyed(8)[OF assms(1)] 1(1)] .
    then show ?case
      using 1 sound_new(4)[OF assms(1)]
      by (intro revocation_ok_revoke[OF assms(2) 1(1)]) (auto simp: canRevokeCertificateStatus_def)
  qed
qed

section \<open>The list a CRL is built from\<close>

lemma revokedEntries_filter:
  "revokedEntries certs i rs = map (\<lambda>r. let c = the (mget certs (rev_CertificateID r)) in
      \<lparr>rce_CertificateID = cert_ID c, rce_SerialNumber = cert_SerialNumber c, rce_RevokedAt = rev_RevokedAt r, rce_Reason = rev_Reason r\<rparr>)
    (filter (\<lambda>r. \<exists>c. mget certs (rev_CertificateID r) = Some c \<and> cert_IssuerID c = i \<and> cert_Status c = CertificateRevoked) rs)"
  by (induction rs) (auto split: option.split)

lemma listRevocations_exact:
  fixes i :: string
  assumes s: "sound svc w" and ok: "revocation_ok (w_repo w)"
  defines "certs \<equiv> ms_certificates (w_repo w)"
  defines "entries \<equiv> listRevocationsByIssuer certs (ms_revocations (w_repo w)) i"
  shows "distinct (map rce_CertificateID entries)"
    and "k \<in> rce_CertificateID ` set entries \<longleftrightarrow>
      (\<exists>c. mget certs k = Some c \<and> cert_IssuerID c = i \<and> cert_Status c = CertificateRevoked)"
proof -
  let ?P = "\<lambda>r. \<exists>c. mget certs (rev_CertificateID r) = Some c \<and> cert_IssuerID c = i \<and> cert_Status c = CertificateRevoked"
  have idc: "cert_ID c = k" if "mget certs k = Some c" for k c
    using keyedD[OF sound_keyed(8)[OF s]] that by (simp add: certs_def)
  have ids: "map rce_CertificateID entries = map rev_CertificateID (filter ?P (mvals (ms_revocations (w_repo w))))"
    unfolding entries_def listRevocationsByIssuer_def revokedEntries_filter by (auto simp: idc Let_def)
  have "distinct (mvals (ms_revocations (w_repo w)))" by (rule keyed_distinct_vals[OF sound_keyed(4)[OF s]])
  moreover have "inj_on rev_CertificateID (set (mvals (ms_revocations (w_repo w))))"
  proof (rule inj_onI, unfold in_mvals_iff, elim exE)
    fix r r' i j
    assume "rev_CertificateID r = rev_CertificateID r'" "mget (ms_revocations (w_repo w)) i = Some r"
      "mget (ms_revocations (w_repo w)) j = Some r'"
    then show "r = r'" using revocation_okD(3)[OF ok, of i r j r'] by simp
  qed
  ultimately show "distinct (map rce_CertificateID entries)"
    unfolding ids by (auto simp: distinct_map intro: inj_on_subset)
  have "k \<in> rce_CertificateID ` set entries \<longleftrightarrow> k \<in> set (map rev_CertificateID (filter ?P (mvals (ms_revocations (w_repo w)))))"
    unfolding ids[symmetric] by simp
  also have "\<dots> \<longleftrightarrow> (\<exists>c. mget certs k = Some c \<and> cert_IssuerID c = i \<and> cert_Status c = CertificateRevoked)"
    using revocation_okD(2)[OF ok, of k] by (auto simp: in_mvals_iff revokedIn_def certs_def image_iff)
  finally show "k \<in> rce_CertificateID ` set entries \<longleftrightarrow>
      (\<exists>c. mget certs k = Some c \<and> cert_IssuerID c = i \<and> cert_Status c = CertificateRevoked)" .
qed

text \<open>The number of the next CRL is larger than every one already published at the distribution point.\<close>

lemma nextCRLNumber_greater:
  assumes "\<And>p. p \<in> set ps \<Longrightarrow> crl_CRLNumber p < 2 ^ 63 - 1" "q \<in> set ps" "crl_DistributionPoint q = dp"
  shows "crl_CRLNumber q < nextCRLNumber ps dp"
proof -
  let ?m = "maxCRLNumber ps dp 0"
  have ge: "0 \<le> ?m" "crl_CRLNumber q \<le> ?m" using maxCRLNumber_ge[of 0 ps dp] assms by auto
  have "?m < 2 ^ 63 - 1" using maxCRLNumber_mem[of ps dp 0]
  proof (elim disjE bexE conjE)
    fix p assume "p \<in> set ps" "crl_CRLNumber p = ?m"
    then show ?thesis using assms(1)[of p] by simp
  qed simp
  then show ?thesis using ge by (simp add: nextCRLNumber_def i64_small)
qed

lemma publishTx_stored:
  assumes "publishTx svc ctx actor req p now w = (Inr u, w')"
  shows "ms_crls (w_repo w') = mput (crl_ID p) p (ms_crls (w_repo w))"
  using assms by (clarsimp simp: publishTx_def inr_simps)

section \<open>Properties\<close>


text \<open>A scan whose limit covers the candidates treats every certificate.\<close>

lemma scan_covers:
  fixes svc w req
  defines "now \<equiv> svc_clock svc (w_clock w)"
  defines "before \<equiv> now + scr_WarningWindow req"
  assumes "sound svc w" and "0 \<le> scr_WarningWindow req" and "0 < scr_Limit req"
    and "length (filter (\<lambda>c. certificateNeedsExpirationScan c now before) (mvals (ms_certificates (w_repo w)))) \<le> nat (scr_Limit req)"
  shows "\<exists>res w'. Service_ScanCertificateExpirations svc ctx actor req w = (Inr res, w') \<and> advance svc w w' \<and>
     (\<forall>k. mget (ms_certificates (w_repo w')) k = map_option (scanned now before) (mget (ms_certificates (w_repo w)) k))"
proof -
  let ?due = "listCertificatesForExpirationScan (ms_certificates (w_repo w)) now before (scr_Limit req)"
  from scan_run[OF assms(3-5), of ctx actor, folded now_def before_def] obtain res w' where
    run: "Service_ScanCertificateExpirations svc ctx actor req w = (Inr res, w')" "advance svc w w'" and
    tbl: "\<And>k. mget (ms_certificates (w_repo w')) k = (if k \<in> cert_ID ` set ?due
       then map_option (scanned now before) (mget (ms_certificates (w_repo w)) k) else mget (ms_certificates (w_repo w)) k)"
    by blast
  have same: "scanned now before c = c" if "\<not> certificateNeedsExpirationScan c now before" for c
    using that by (auto simp: scanned_def certificateNeedsExpirationScan_def certificateIsExpiredCandidate_def
        certificateNeedsRenewalWarning_def split: if_splits)
  have new: "mget (ms_certificates (w_repo w')) k = map_option (scanned now before) (mget (ms_certificates (w_repo w)) k)" for k
  proof (cases "mget (ms_certificates (w_repo w)) k")
    case (Some c)
    then have "k \<in> cert_ID ` set ?due" if "certificateNeedsExpirationScan c now before"
      using scan_list_all[OF Some that assms(6)] keyedD[OF sound_keyed(8)[OF assms(3)] Some] by auto
    then show ?thesis using same[of c] by (cases "certificateNeedsExpirationScan c now before") (auto simp: tbl Some)
  qed (simp add: tbl)
  then show ?thesis using run by blast
qed

text \<open>
  The expiration scan never fails on a valid request; it returns exactly the listed certificates
  that are past their end or inside the warning window, and when the limit covers every due certificate
  nothing is left to do: no certificate of the resulting store is due at the same instant.
\<close>

theorem scan_leaves_nothing_due:
  fixes svc w req
  defines "now \<equiv> svc_clock svc (w_clock w)"
  defines "before \<equiv> now + scr_WarningWindow req"
  assumes "sound svc w" and "0 \<le> scr_WarningWindow req" and "now \<noteq> 0"
    and "0 < scr_Limit req"
    and "length (filter (\<lambda>c. certificateNeedsExpirationScan c now before) (mvals (ms_certificates (w_repo w)))) \<le> nat (scr_Limit req)"
  shows "\<exists>res w'. Service_ScanCertificateExpirations svc ctx actor req w = (Inr res, w') \<and>
     (\<forall>k c. mget (ms_certificates (w_repo w)) k = Some c \<longrightarrow>
        mget (ms_certificates (w_repo w')) k = Some (scanned now before c)) \<and>
     (\<forall>k c. mget (ms_certificates (w_repo w')) k = Some c \<longrightarrow> \<not> certificateNeedsExpirationScan c now before)"
proof -
  obtain res w' where run: "Service_ScanCertificateExpirations svc ctx actor req w = (Inr res, w')"
    and new: "\<And>k. mget (ms_certificates (w_repo w')) k = map_option (scanned now before) (mget (ms_certificates (w_repo w)) k)"
    using scan_covers[OF assms(3,4,6), of ctx actor] assms(7) unfolding now_def before_def by blast
  then show ?thesis using scanned_not_due[OF assms(5)] by (intro exI[of _ res] exI[of _ w']) auto
qed

end
