(* ===== verification/Registry.thy ===== *)
theory Registry
  imports Policy Lifecycle
begin

text \<open>
  The registers of \<^verbatim>\<open>internal/lifecycle/service.go\<close>: identities, issuers and their chains, OCSP
  responders, notification endpoints and certificate profiles. The lemmas show that every
  operation follows the state machines of theory \<open>Lifecycle\<close>, that a rotation leaves exactly one active
  responder, and that the walk up an issuer chain ends and returns the chain.
\<close>

section \<open>Identities and issuers\<close>

definition Service_CreateIdentity :: "Service \<Rightarrow> Context \<Rightarrow> string \<Rightarrow> CreateIdentityRequest \<Rightarrow> Identity svc" where
  "Service_CreateIdentity svc ctx actor req =
     thenM (liftE (validateCreateIdentityRequest req (svc_productionPolicy svc)))
    (bindM (Now svc) (\<lambda>now.
     bindM (NewID svc) (\<lambda>ident.
     let identity = \<lparr>idn_ID = ident, idn_Type = cid_Type req, idn_Name = cid_Name req, idn_ExternalID = cid_ExternalID req,
           idn_Owner = cid_Owner req, idn_Team = cid_Team req, idn_Service = cid_Service req,
           idn_Environment = cid_Environment req, idn_DeploymentTarget = cid_DeploymentTarget req,
           idn_LastSeenAt = cid_LastSeenAt req, idn_MetadataJSON = cid_MetadataJSON req,
           idn_AllowedDNSNames = copyStringSlice (cid_AllowedDNSNames req),
           idn_AllowedIPAddresses = copyStringSlice (cid_AllowedIPAddresses req),
           idn_Status = IdentityActive, idn_CreatedAt = now, idn_UpdatedAt = now\<rparr> in
     thenM (MemoryStore_WithinTx (
        thenM (onRepo (memoryTx_CreateIdentity identity))
          (createAuditEvent svc ctx actor ''identity.created'' ''identity'' (idn_ID identity) now
            (auditFields [''identity_id'', idn_ID identity, ''owner'', idn_Owner identity, ''team'', idn_Team identity,
               ''service'', idn_Service identity, ''environment'', idn_Environment identity,
               ''allowed_dns_names'', Itoa (int (length (idn_AllowedDNSNames identity))),
               ''allowed_ip_addresses'', Itoa (int (length (idn_AllowedIPAddresses identity)))]))))
       (returnM identity))))"

definition requireParent :: "string \<Rightarrow> unit svc" where
  "requireParent parentIssuerID =
     (if parentIssuerID \<noteq> [] then thenM (onRepo (memoryTx_GetIssuer parentIssuerID)) (returnM ()) else returnM ())"

definition Service_CreateIssuer :: "Service \<Rightarrow> Context \<Rightarrow> string \<Rightarrow> CreateIssuerRequest \<Rightarrow> Issuer svc" where
  "Service_CreateIssuer svc ctx actor req =
     thenM (liftE (validateCreateIssuerRequest req))
    (bindM (Now svc) (\<lambda>now.
     bindM (NewID svc) (\<lambda>ident.
     let issuer = \<lparr>iss_ID = ident, iss_Name = cis_Name req, iss_Kind = cis_Kind req, iss_Status = IssuerActive,
           iss_ParentIssuerID = cis_ParentIssuerID req, iss_CertificatePEM = cis_CertificatePEM req,
           iss_KeyRef = cis_KeyRef req, iss_AIAURL = cis_AIAURL req,
           iss_CRLDistributionPoints = copySlice (cis_CRLDistributionPoints req),
           iss_TrustAnchor = (cis_TrustAnchor req \<or> cis_Kind req = IssuerRootCA),
           iss_CreatedAt = now, iss_UpdatedAt = now\<rparr> in
     thenM (MemoryStore_WithinTx (
        thenM (requireParent (cis_ParentIssuerID req))
       (thenM (onRepo (memoryTx_CreateIssuer issuer))
          (createAuditEvent svc ctx actor ''issuer.created'' ''issuer'' (iss_ID issuer) now
            (auditFields [''issuer_id'', iss_ID issuer, ''parent_issuer_id'', iss_ParentIssuerID issuer])))))
       (returnM issuer))))"

text \<open>The walk up the parents; \<open>seen\<close> holds the identifiers visited.\<close>

function issuerChainLoop :: "Issuer gomap \<Rightarrow> string \<Rightarrow> string list \<Rightarrow> Issuer list \<Rightarrow> Issuer list result" where
  "issuerChainLoop issuers currentID seen chain =
     (if currentID = [] then Inr chain
      else if currentID \<in> set seen then Inl ErrInvalidRequest
      else case mget issuers currentID of
          None \<Rightarrow> Inl ErrIssuerNotFound
        | Some issuer \<Rightarrow> issuerChainLoop issuers (iss_ParentIssuerID issuer) (currentID # seen) (chain @ [copyIssuer issuer]))"
  by pat_completeness auto

termination
proof (relation "measure (\<lambda>(issuers, _, seen, _). card (dom (mget issuers) - set seen))")
  fix issuers :: "Issuer gomap" and currentID seen and chain :: "Issuer list" and issuer
  assume a: "currentID \<notin> set seen" "mget issuers currentID = Some issuer"
  have "dom (mget issuers) - set (currentID # seen) \<subset> dom (mget issuers) - set seen"
    using a by auto
  then show "((issuers, iss_ParentIssuerID issuer, currentID # seen, chain @ [copyIssuer issuer]), issuers, currentID, seen, chain)
      \<in> measure (\<lambda>(issuers, _, seen, _). card (dom (mget issuers) - set seen))"
    by (simp add: psubset_card_mono finite_dom_mget del: set_simps)
qed simp

declare issuerChainLoop.simps [simp del]

definition Service_GetIssuerChain :: "string \<Rightarrow> Issuer list svc" where
  "Service_GetIssuerChain ident =
     failIf (isBlank ident) ErrInvalidRequest
       (onRepo (\<lambda>s. (issuerChainLoop (ms_issuers s) ident [] [], s)))"

definition Service_ListTrustAnchors :: "Issuer list svc" where
  "Service_ListTrustAnchors =
     bindM (onRepo MemoryStore_ListIssuers) (\<lambda>issuers.
       returnM (filter (\<lambda>issuer. iss_Status issuer = IssuerActive \<and> iss_TrustAnchor issuer) issuers))"

section \<open>OCSP responders\<close>

text \<open>The signer's check of a responder certificate against its issuer.\<close>

definition validateResponder :: "Service \<Rightarrow> Issuer \<Rightarrow> string \<Rightarrow> unit svc" where
  "validateResponder svc issuer certificatePEM =
     bindM (attemptM (callExt (\<lambda>n. ci_ValidateOCSPResponder (svc_issuer svc) n (iss_CertificatePEM issuer) certificatePEM))) (\<lambda>r.
       case r of
         Inl err \<Rightarrow> throwM (mapOCSPResponseError err)
       | Inr validation \<Rightarrow> failIf (\<not> vor_Valid validation) ErrOCSPResponderValidationFailed (returnM ()))"

definition newResponder :: "string \<Rightarrow> string \<Rightarrow> string \<Rightarrow> string \<Rightarrow> string \<Rightarrow> time \<Rightarrow> OCSPResponder" where
  "newResponder ident issuerID name certificatePEM keyRef now =
     \<lparr>rsp_ID = ident, rsp_IssuerID = issuerID, rsp_Name = name, rsp_Status = OCSPResponderActive,
      rsp_CertificatePEM = certificatePEM, rsp_KeyRef = keyRef, rsp_CreatedAt = now, rsp_UpdatedAt = now\<rparr>"

definition responderAuditFields :: "OCSPResponder \<Rightarrow> json gomap" where
  "responderAuditFields responder =
     auditFields [''issuer_id'', rsp_IssuerID responder, ''ocsp_responder_id'', rsp_ID responder]"

definition Service_CreateOCSPResponder :: "Service \<Rightarrow> Context \<Rightarrow> string \<Rightarrow> CreateOCSPResponderRequest \<Rightarrow> OCSPResponder svc" where
  "Service_CreateOCSPResponder svc ctx actor req =
     failIf (isBlank (cor_IssuerID req) \<or> isBlank (cor_Name req) \<or> isBlank (cor_CertificatePEM req) \<or> isBlank (cor_KeyRef req))
       ErrInvalidRequest
    (bindM (Now svc) (\<lambda>now.
     bindM (onRepo (MemoryStore_GetIssuer (cor_IssuerID req))) (\<lambda>issuer.
     bindM (attemptM (onRepo (MemoryStore_GetActiveOCSPResponderByIssuer (cor_IssuerID req)))) (\<lambda>active.
     thenM (case active of
              Inr _ \<Rightarrow> throwM ErrInvalidTransition
            | Inl err \<Rightarrow> if \<not> errors_Is err ErrOCSPResponderNotFound then throwM err else returnM ())
    (thenM (validateResponder svc issuer (cor_CertificatePEM req))
    (bindM (NewID svc) (\<lambda>ident.
     let responder = newResponder ident (cor_IssuerID req) (cor_Name req) (cor_CertificatePEM req) (cor_KeyRef req) now in
     thenM (MemoryStore_WithinTx (
        thenM (onRepo (memoryTx_CreateOCSPResponder responder))
          (createAuditEvent svc ctx actor ''ocsp_responder.created'' ''ocsp_responder'' (rsp_ID responder) now
            (responderAuditFields responder))))
       (returnM responder))))))))"

definition Service_ListOCSPRespondersByIssuer :: "string \<Rightarrow> OCSPResponder list svc" where
  "Service_ListOCSPRespondersByIssuer issuerID =
     failIf (isBlank issuerID) ErrInvalidRequest
    (thenM (onRepo (MemoryStore_GetIssuer issuerID))
       (onRepo (MemoryStore_ListOCSPRespondersByIssuer issuerID)))"

definition Service_DisableOCSPResponder :: "Service \<Rightarrow> Context \<Rightarrow> string \<Rightarrow> string \<Rightarrow> string \<Rightarrow> OCSPResponder svc" where
  "Service_DisableOCSPResponder svc ctx actor issuerID responderID =
     failIf (isBlank issuerID \<or> isBlank responderID) ErrInvalidRequest
    (bindM (Now svc) (\<lambda>now.
     MemoryStore_WithinTx (
       thenM (onRepo (memoryTx_GetIssuer issuerID))
      (bindM (onRepo (memoryTx_GetOCSPResponder responderID)) (\<lambda>responder.
       failIf (rsp_IssuerID responder \<noteq> issuerID) ErrOCSPResponderNotFound
      (failIf (rsp_Status responder \<noteq> OCSPResponderActive) ErrInvalidTransition
      (let disabled = responder\<lparr>rsp_Status := OCSPResponderDisabled, rsp_UpdatedAt := now\<rparr> in
       thenM (onRepo (memoryTx_UpdateOCSPResponderIfStatus disabled OCSPResponderActive))
      (thenM (createAuditEvent svc ctx actor ''ocsp_responder.disabled'' ''ocsp_responder'' (rsp_ID disabled) now
          (responderAuditFields disabled))
        (returnM disabled)))))))))"

text \<open>The transaction of a rotation: disable the active responder, create the new one.\<close>

definition rotateTx :: "Service \<Rightarrow> Context \<Rightarrow> string \<Rightarrow> string \<Rightarrow> OCSPResponder \<Rightarrow> time \<Rightarrow> unit svc" where
  "rotateTx svc ctx actor issuerID responder now =
     MemoryStore_WithinTx (
       thenM (onRepo (memoryTx_GetIssuer issuerID))
      (bindM (attemptM (onRepo (memoryTx_GetActiveOCSPResponderByIssuer issuerID))) (\<lambda>r.
       case r of
         Inl err \<Rightarrow> if errors_Is err ErrOCSPResponderNotFound then throwM ErrInvalidTransition else throwM err
       | Inr active \<Rightarrow>
           let current = active\<lparr>rsp_Status := OCSPResponderDisabled, rsp_UpdatedAt := now\<rparr> in
           thenM (onRepo (memoryTx_UpdateOCSPResponderIfStatus current OCSPResponderActive))
          (thenM (createAuditEvent svc ctx actor ''ocsp_responder.disabled'' ''ocsp_responder'' (rsp_ID current) now
              (responderAuditFields current))
          (thenM (onRepo (memoryTx_CreateOCSPResponder responder))
            (createAuditEvent svc ctx actor ''ocsp_responder.created'' ''ocsp_responder'' (rsp_ID responder) now
              (responderAuditFields responder)))))))"

definition Service_RotateOCSPResponder :: "Service \<Rightarrow> Context \<Rightarrow> string \<Rightarrow> RotateOCSPResponderRequest \<Rightarrow> OCSPResponder svc" where
  "Service_RotateOCSPResponder svc ctx actor req =
     failIf (isBlank (ror_IssuerID req) \<or> isBlank (ror_Name req) \<or> isBlank (ror_CertificatePEM req) \<or> isBlank (ror_KeyRef req))
       ErrInvalidRequest
    (bindM (Now svc) (\<lambda>now.
     bindM (onRepo (MemoryStore_GetIssuer (ror_IssuerID req))) (\<lambda>issuer.
     bindM (attemptM (onRepo (MemoryStore_GetActiveOCSPResponderByIssuer (ror_IssuerID req)))) (\<lambda>active.
     thenM (case active of
              Inl err \<Rightarrow> if errors_Is err ErrOCSPResponderNotFound then throwM ErrInvalidTransition else throwM err
            | Inr _ \<Rightarrow> returnM ())
    (thenM (validateResponder svc issuer (ror_CertificatePEM req))
    (bindM (NewID svc) (\<lambda>ident.
     let responder = newResponder ident (ror_IssuerID req) (ror_Name req) (ror_CertificatePEM req) (ror_KeyRef req) now in
     thenM (rotateTx svc ctx actor (ror_IssuerID req) responder now)
       (returnM responder))))))))"

section \<open>Notification endpoints and profiles\<close>

definition endpointAuditFields :: "NotificationEndpoint \<Rightarrow> json gomap" where
  "endpointAuditFields endpoint =
     auditFields [''notification_endpoint_id'', ep_ID endpoint,
       ''notification_endpoint_type'', str_NotificationEndpointType (ep_Type endpoint)]"

definition Service_CreateNotificationEndpoint ::
  "Service \<Rightarrow> Context \<Rightarrow> string \<Rightarrow> CreateNotificationEndpointRequest \<Rightarrow> NotificationEndpoint svc" where
  "Service_CreateNotificationEndpoint svc ctx actor req =
     thenM (liftE (validateCreateNotificationEndpointRequest (rt_urlParse (svc_runtime svc)) req (svc_productionPolicy svc)))
    (bindM (Now svc) (\<lambda>now.
     bindM (NewID svc) (\<lambda>ident.
     let endpoint = \<lparr>ep_ID = ident, ep_Name = cne_Name req, ep_Type = NotificationEndpointWebhook,
           ep_Status = NotificationEndpointActive, ep_URL = cne_URL req, ep_Secret = cne_Secret req,
           ep_EventTypes = copySlice (cne_EventTypes req), ep_CreatedAt = now, ep_UpdatedAt = now\<rparr> in
     thenM (MemoryStore_WithinTx (
        thenM (onRepo (memoryTx_CreateNotificationEndpoint endpoint))
          (createAuditEvent svc ctx actor ''notification_endpoint.created'' ''notification_endpoint'' (ep_ID endpoint) now
            (endpointAuditFields endpoint))))
       (returnM endpoint))))"

definition Service_ListNotificationEndpoints :: "NotificationEndpoint list svc" where
  "Service_ListNotificationEndpoints = onRepo MemoryStore_ListNotificationEndpoints"

definition Service_DisableNotificationEndpoint :: "Service \<Rightarrow> Context \<Rightarrow> string \<Rightarrow> string \<Rightarrow> NotificationEndpoint svc" where
  "Service_DisableNotificationEndpoint svc ctx actor ident =
     failIf (isBlank ident) ErrInvalidRequest
    (bindM (Now svc) (\<lambda>now.
     bindM (onRepo (MemoryStore_GetNotificationEndpoint ident)) (\<lambda>endpoint.
     failIf (ep_Status endpoint \<noteq> NotificationEndpointActive) ErrInvalidTransition
    (let disabled = endpoint\<lparr>ep_Status := NotificationEndpointDisabled, ep_UpdatedAt := now\<rparr> in
     thenM (MemoryStore_WithinTx (
        thenM (onRepo (memoryTx_UpdateNotificationEndpointIfStatus disabled NotificationEndpointActive))
          (createAuditEvent svc ctx actor ''notification_endpoint.disabled'' ''notification_endpoint'' (ep_ID disabled) now
            (endpointAuditFields disabled))))
       (returnM disabled)))))"

definition Service_CreateCertificateProfile ::
  "Service \<Rightarrow> Context \<Rightarrow> string \<Rightarrow> CreateCertificateProfileRequest \<Rightarrow> CertificateProfile svc" where
  "Service_CreateCertificateProfile svc ctx actor req =
     bindM (Now svc) (\<lambda>now.
     thenM (liftE (validateCreateCertificateProfileRequest req now (svc_publicTLSMaxValidityOverride svc)))
    (bindM (NewID svc) (\<lambda>ident.
     let profile = \<lparr>prof_ID = ident, prof_Name = cpr_Name req, prof_Description = cpr_Description req,
           prof_IssuerID = cpr_IssuerID req, prof_ValidityPeriodSeconds = cpr_ValidityPeriodSeconds req,
           prof_PublicTLS = cpr_PublicTLS req, prof_SubjectTemplate = cpr_SubjectTemplate req,
           prof_AllowedDNSPatterns = copySlice (cpr_AllowedDNSPatterns req),
           prof_AllowedIPRanges = copySlice (cpr_AllowedIPRanges req),
           prof_AllowedKeyAlgorithms = normalizeStringList (cpr_AllowedKeyAlgorithms req),
           prof_MinKeySizeBits = cpr_MinKeySizeBits req,
           prof_AllowedSignatureAlgorithms = normalizeStringList (cpr_AllowedSignatureAlgorithms req),
           prof_KeyUsage = copyStringListExtensionPolicy (cpr_KeyUsage req),
           prof_ExtendedKeyUsage = copyStringListExtensionPolicy (cpr_ExtendedKeyUsage req),
           prof_BasicConstraints = cpr_BasicConstraints req,
           prof_SubjectKeyIdentifier = cpr_SubjectKeyIdentifier req,
           prof_AuthorityKeyIdentifier = cpr_AuthorityKeyIdentifier req,
           prof_CreatedAt = now, prof_UpdatedAt = now\<rparr> in
     thenM (MemoryStore_WithinTx (
        thenM (onRepo (memoryTx_GetIssuer (cpr_IssuerID req)))
       (thenM (onRepo (memoryTx_CreateCertificateProfile profile))
          (createAuditEvent svc ctx actor ''certificate_profile.created'' ''certificate_profile'' (prof_ID profile) now
            (auditFields [''issuer_id'', prof_IssuerID profile, ''profile_id'', prof_ID profile])))))
       (returnM profile))))"

section \<open>Failures change nothing\<close>

lemma validateResponder_quiet [clean_rules]: "quiet (validateResponder svc issuer pem)"
  unfolding validateResponder_def by (intro clean_rules)

lemma requireParent_quiet [clean_rules]: "quiet (requireParent i)" "grows (requireParent i)"
  unfolding requireParent_def by (intro clean_rules)+

lemma registry_clean:
  "clean (Service_CreateIdentity svc ctx actor idreq)" "clean (Service_CreateIssuer svc ctx actor isreq)"
  "clean (Service_CreateNotificationEndpoint svc ctx actor epreq)"
  "clean (Service_DisableNotificationEndpoint svc ctx actor ident)"
  "clean (Service_CreateCertificateProfile svc ctx actor preq)"
  "clean (Service_CreateOCSPResponder svc ctx actor oreq)"
  "clean (Service_DisableOCSPResponder svc ctx actor issuerID responderID)"
  "clean (rotateTx svc ctx actor issuerID responder now)"
  unfolding Service_CreateIdentity_def Service_CreateIssuer_def Service_CreateNotificationEndpoint_def
    Service_DisableNotificationEndpoint_def Service_CreateCertificateProfile_def Service_CreateOCSPResponder_def
    Service_DisableOCSPResponder_def rotateTx_def
  by (intro clean_rules)+

lemma RotateOCSPResponder_clean: "clean (Service_RotateOCSPResponder svc ctx actor req)"
  unfolding Service_RotateOCSPResponder_def by (intro clean_rules registry_clean)

section \<open>The operations follow the state machines\<close>

lemma requireParent_Inr: "requireParent i w = (Inr u, w') \<Longrightarrow> w' = w"
  by (auto simp: requireParent_def inr_simps)

lemma validateResponder_Inr: "validateResponder svc issuer pem w = (Inr u, w') \<Longrightarrow> w' = w\<lparr>w_ext := Suc (w_ext w)\<rparr>"
  by (auto simp: validateResponder_def inr_simps)

lemma CreateIdentity_advances [advances_rules]: "advances svc (Service_CreateIdentity svc ctx actor req)"
proof (rule advances_clean[OF registry_clean(1)])
  fix w x w'
  assume s: "sound svc w" and run: "Service_CreateIdentity svc ctx actor req w = (Inr x, w')"
  from run show "advance svc w w'"
    by (clarsimp simp: Service_CreateIdentity_def inr_simps Let_def)
      (intro advance_to[OF s] update_rules; simp add: sound_facts[OF s] table_evolves_fresh dom_mput)
qed

lemma CreateIssuer_advances [advances_rules]: "advances svc (Service_CreateIssuer svc ctx actor req)"
proof (rule advances_clean[OF registry_clean(2)])
  fix w x w'
  assume s: "sound svc w" and run: "Service_CreateIssuer svc ctx actor req w = (Inr x, w')"
  from run show "advance svc w w'"
    by (clarsimp simp: Service_CreateIssuer_def inr_simps Let_def dest!: requireParent_Inr)
      (intro advance_to[OF s] update_rules; simp add: sound_facts[OF s] table_evolves_fresh dom_mput)
qed

lemma CreateNotificationEndpoint_advances [advances_rules]:
  "advances svc (Service_CreateNotificationEndpoint svc ctx actor req)"
proof (rule advances_clean[OF registry_clean(3)])
  fix w x w'
  assume s: "sound svc w" and run: "Service_CreateNotificationEndpoint svc ctx actor req w = (Inr x, w')"
  from run show "advance svc w w'"
    by (clarsimp simp: Service_CreateNotificationEndpoint_def inr_simps Let_def)
      (intro advance_to[OF s] update_rules; simp add: sound_facts[OF s] table_evolves_fresh dom_mput)
qed

lemma CreateCertificateProfile_advances [advances_rules]:
  "advances svc (Service_CreateCertificateProfile svc ctx actor req)"
proof (rule advances_clean[OF registry_clean(5)])
  fix w x w'
  assume s: "sound svc w" and run: "Service_CreateCertificateProfile svc ctx actor req w = (Inr x, w')"
  from run show "advance svc w w'"
    by (clarsimp simp: Service_CreateCertificateProfile_def inr_simps Let_def)
      (intro advance_to[OF s] update_rules; simp add: sound_facts[OF s] table_evolves_fresh dom_mput)
qed

lemma endpoint_advance:
  assumes s: "sound svc w" and "mget (ms_notifications (w_repo w)) i = Some v" "ep_Status v = NotificationEndpointActive"
  shows "table_evolves endpointStep (ms_notifications (w_repo w))
      (mput (ep_ID v) (v\<lparr>ep_Status := NotificationEndpointDisabled, ep_UpdatedAt := t\<rparr>) (ms_notifications (w_repo w)))"
    "keyed ep_ID (mput (ep_ID v) (v\<lparr>ep_Status := NotificationEndpointDisabled, ep_UpdatedAt := t\<rparr>) (ms_notifications (w_repo w)))"
    "dom (mget (mput (ep_ID v) (v\<lparr>ep_Status := NotificationEndpointDisabled, ep_UpdatedAt := t\<rparr>) (ms_notifications (w_repo w)))) =
      dom (mget (ms_notifications (w_repo w)))"
  using assms by (auto intro!: put_notifications[OF s assms(2)] simp: step_defs)

lemma DisableNotificationEndpoint_advances [advances_rules]:
  "advances svc (Service_DisableNotificationEndpoint svc ctx actor ident)"
proof (rule advances_clean[OF registry_clean(4)])
  fix w x w'
  assume s: "sound svc w" and run: "Service_DisableNotificationEndpoint svc ctx actor ident w = (Inr x, w')"
  from run show "advance svc w w'"
    by (clarsimp simp: Service_DisableNotificationEndpoint_def inr_simps Let_def dest!: guarded_D)
      (intro advance_to[OF s] update_rules; simp add: sound_facts[OF s] endpoint_advance[OF s])
qed

text \<open>A responder that is disabled.\<close>

definition disabledAt :: "time \<Rightarrow> OCSPResponder \<Rightarrow> OCSPResponder" where
  "disabledAt t r = r\<lparr>rsp_Status := OCSPResponderDisabled, rsp_UpdatedAt := t\<rparr>"

lemma disabledAt_simps [simp]: "rsp_ID (disabledAt t r) = rsp_ID r" "rsp_Status (disabledAt t r) = OCSPResponderDisabled"
  "rsp_IssuerID (disabledAt t r) = rsp_IssuerID r"
  by (simp_all add: disabledAt_def)

lemma responder_advance:
  assumes s: "sound svc w" and get: "mget (ms_ocspResponders (w_repo w)) i = Some v" and st: "rsp_Status v = OCSPResponderActive"
  shows "table_evolves responderStep (ms_ocspResponders (w_repo w)) (mput (rsp_ID v) (disabledAt t v) (ms_ocspResponders (w_repo w)))"
    "keyed rsp_ID (mput (rsp_ID v) (disabledAt t v) (ms_ocspResponders (w_repo w)))"
    "dom (mget (mput (rsp_ID v) (disabledAt t v) (ms_ocspResponders (w_repo w)))) = dom (mget (ms_ocspResponders (w_repo w)))"
    "one_active_responder (mput (rsp_ID v) (disabledAt t v) (ms_ocspResponders (w_repo w)))"
proof -
  have "responderStep v (disabledAt t v)" using st by (simp add: step_defs disabledAt_def)
  note put = put_ocspResponders[OF s get this]
  show "table_evolves responderStep (ms_ocspResponders (w_repo w)) (mput (rsp_ID v) (disabledAt t v) (ms_ocspResponders (w_repo w)))"
    "keyed rsp_ID (mput (rsp_ID v) (disabledAt t v) (ms_ocspResponders (w_repo w)))"
    "dom (mget (mput (rsp_ID v) (disabledAt t v) (ms_ocspResponders (w_repo w)))) = dom (mget (ms_ocspResponders (w_repo w)))"
    by (simp_all add: put)
  show "one_active_responder (mput (rsp_ID v) (disabledAt t v) (ms_ocspResponders (w_repo w)))"
    using sound_clauses[OF s] by (simp add: one_active_responder_put)
qed

lemma DisableOCSPResponder_advances [advances_rules]:
  "advances svc (Service_DisableOCSPResponder svc ctx actor issuerID responderID)"
proof (rule advances_clean[OF registry_clean(7)])
  fix w x w'
  assume s: "sound svc w" and run: "Service_DisableOCSPResponder svc ctx actor issuerID responderID w = (Inr x, w')"
  from run show "advance svc w w'"
    by (clarsimp simp: Service_DisableOCSPResponder_def inr_simps Let_def dest!: guarded_D)
      (fold disabledAt_def, intro advance_to[OF s] update_rules; simp add: sound_facts[OF s] responder_advance[OF s])
qed

lemma CreateOCSPResponder_advances [advances_rules]: "advances svc (Service_CreateOCSPResponder svc ctx actor req)"
proof (rule advances_clean[OF registry_clean(6)])
  fix w x w'
  assume s: "sound svc w" and run: "Service_CreateOCSPResponder svc ctx actor req w = (Inr x, w')"
  have one: "one_active_responder (mput (rsp_ID r) r (ms_ocspResponders (w_repo w)))"
    if "rsp_Status r = OCSPResponderActive \<longrightarrow> isl (activeOCSPResponderByIssuer (ms_ocspResponders (w_repo w)) (rsp_IssuerID r))" for r
    using that sound_clauses[OF s] by (intro one_active_responder_create) simp_all
  from run show "advance svc w w'"
    using one[of x]
    by (clarsimp simp: Service_CreateOCSPResponder_def newResponder_def inr_simps Let_def
        MemoryStore_GetActiveOCSPResponderByIssuer_def dest!: validateResponder_Inr)
      (intro advance_to[OF s] update_rules; simp add: sound_facts[OF s] table_evolves_fresh dom_mput)
qed

lemma rotateTx_effect:
  assumes "rotateTx svc ctx actor issuerID responder now w = (Inr u, w')"
  obtains active k es where "mget (ms_ocspResponders (w_repo w)) k = Some active" "rsp_IssuerID active = issuerID"
    "rsp_Status active = OCSPResponderActive"
    "rsp_Status responder = OCSPResponderActive \<longrightarrow>
       isl (activeOCSPResponderByIssuer (mput (rsp_ID active) (disabledAt now active) (ms_ocspResponders (w_repo w))) (rsp_IssuerID responder))"
    "w' = w\<lparr>w_ids := Suc (Suc (w_ids w)), w_repo := (w_repo w)\<lparr>ms_ocspResponders := mput (rsp_ID responder) responder
       (mput (rsp_ID active) (disabledAt now active) (ms_ocspResponders (w_repo w))), ms_auditEvents := es\<rparr>\<rparr>"
  using assms(1)
  by (clarsimp simp: rotateTx_def inr_simps Let_def MemoryStore_GetActiveOCSPResponderByIssuer_def dest!: guarded_D)
    (fold disabledAt_def, metis activeOCSPResponder_Inr)

lemma rotate_prepared:
  assumes "Service_RotateOCSPResponder svc ctx actor req w = (Inr x, w')"
  shows "x = newResponder (svc_idgen svc (w_ids w)) (ror_IssuerID req) (ror_Name req) (ror_CertificatePEM req) (ror_KeyRef req)
      (svc_clock svc (w_clock w))"
    "rotateTx svc ctx actor (ror_IssuerID req) x (svc_clock svc (w_clock w))
      (w\<lparr>w_clock := Suc (w_clock w), w_ext := Suc (w_ext w), w_ids := Suc (w_ids w)\<rparr>) = (Inr (), w')"
  using assms
  by (auto simp: Service_RotateOCSPResponder_def inr_simps Let_def MemoryStore_GetActiveOCSPResponderByIssuer_def
      dest!: validateResponder_Inr)

lemma rotate_advance:
  assumes s: "sound svc w" and get: "mget (ms_ocspResponders (w_repo w)) k = Some active"
    and st: "rsp_Status active = OCSPResponderActive"
    and free: "isl (activeOCSPResponderByIssuer (mput (rsp_ID active) (disabledAt t active) (ms_ocspResponders (w_repo w))) (rsp_IssuerID r))"
    and new: "mget (ms_ocspResponders (w_repo w)) (rsp_ID r) = None"
  defines "m \<equiv> mput (rsp_ID r) r (mput (rsp_ID active) (disabledAt t active) (ms_ocspResponders (w_repo w)))"
  shows "table_evolves responderStep (ms_ocspResponders (w_repo w)) m" "keyed rsp_ID m"
    "dom (mget m) = insert (rsp_ID r) (dom (mget (ms_ocspResponders (w_repo w))))" "one_active_responder m"
proof -
  note a = responder_advance[OF s get st, of t]
  have "mget (mput (rsp_ID active) (disabledAt t active) (ms_ocspResponders (w_repo w))) (rsp_ID r) = None"
    using new a(3) by (metis domIff)
  then show "table_evolves responderStep (ms_ocspResponders (w_repo w)) m"
    unfolding m_def by (intro table_evolves_trans[OF a(1)] table_evolves_fresh)
  show "keyed rsp_ID m" using a(2) by (simp add: m_def)
  show "dom (mget m) = insert (rsp_ID r) (dom (mget (ms_ocspResponders (w_repo w))))"
    using a(3) by (simp add: m_def dom_mput)
  show "one_active_responder m"
    unfolding m_def using a(4) free by (intro one_active_responder_create) simp_all
qed

lemma RotateOCSPResponder_advances [advances_rules]: "advances svc (Service_RotateOCSPResponder svc ctx actor req)"
proof (rule advances_clean[OF RotateOCSPResponder_clean])
  fix w x w'
  assume s: "sound svc w" and run: "Service_RotateOCSPResponder svc ctx actor req w = (Inr x, w')"
  note x = rotate_prepared(1)[OF run]
  from rotate_prepared(2)[OF run] show "advance svc w w'"
  proof (rule rotateTx_effect, goal_cases)
    case (1 active k es)
    note r = rotate_advance[OF s, of k active "svc_clock svc (w_clock w)" x]
    show ?case
      unfolding 1(5) by (simp, intro advance_to[OF s] update_rules)
       (use 1 r x in \<open>simp_all add: newResponder_def sound_facts[OF s]\<close>)
  qed
qed

lemma active_unique:
  assumes "one_active_responder m" "mget m k = Some r" "rsp_IssuerID r = i" "rsp_Status r = OCSPResponderActive"
  shows "activeOCSPResponderByIssuer m i = Inr r"
proof (cases "activeOCSPResponderByIssuer m i")
  case (Inl e)
  then show ?thesis using assms by (auto simp: activeOCSPResponder_Inl)
next
  case (Inr x)
  from activeOCSPResponder_Inr[OF this] obtain k' where "mget m k' = Some x" "rsp_IssuerID x = i" "rsp_Status x = OCSPResponderActive"
    by blast
  then have "k = k'" using assms unfolding one_active_responder_def by metis
  then show ?thesis using assms(2) \<open>mget m k' = Some x\<close> Inr by simp
qed

section \<open>Issuer chains\<close>

text \<open>The specification of a chain: follow the parents until an issuer without one.\<close>

inductive issuerPath :: "Issuer gomap \<Rightarrow> string \<Rightarrow> Issuer list \<Rightarrow> bool" for issuers where
  path_root: "issuerPath issuers [] []"
| path_step: "i \<noteq> [] \<Longrightarrow> mget issuers i = Some issuer \<Longrightarrow> issuerPath issuers (iss_ParentIssuerID issuer) chain \<Longrightarrow>
    issuerPath issuers i (issuer # chain)"

inductive_cases issuerPath_NilE: "issuerPath issuers [] chain"
inductive_cases issuerPath_E: "issuerPath issuers i chain"

lemma issuerPath_unique: "issuerPath issuers i xs \<Longrightarrow> issuerPath issuers i ys \<Longrightarrow> xs = ys"
proof (induction arbitrary: ys rule: issuerPath.induct)
  case path_root
  then show ?case by (blast elim: issuerPath_NilE)
next
  case (path_step i issuer chain)
  from path_step.prems path_step.hyps show ?case
    by (cases rule: issuerPath.cases) (auto intro: path_step.IH)
qed

lemma issuerChainLoop_sound:
  "issuerChainLoop issuers i seen acc = Inr chain \<Longrightarrow> \<exists>xs. chain = acc @ xs \<and> issuerPath issuers i xs"
proof (induction issuers i seen acc rule: issuerChainLoop.induct)
  case (1 issuers i seen acc)
  show ?case
  proof (cases "i = []")
    case True
    then show ?thesis using "1.prems" by (auto simp: issuerChainLoop.simps intro: path_root)
  next
    case False
    then obtain issuer where seen: "i \<notin> set seen" and get: "mget issuers i = Some issuer"
      and rec: "issuerChainLoop issuers (iss_ParentIssuerID issuer) (i # seen) (acc @ [issuer]) = Inr chain"
      using "1.prems" by (subst (asm) issuerChainLoop.simps) (auto split: if_splits option.splits)
    then show ?thesis
      using "1.IH"[OF False seen get] False by (auto intro!: path_step)
  qed
qed

lemma issuerChainLoop_complete:
  assumes "issuerPath issuers i xs"
    and "\<And>j ys. j \<in> set seen \<Longrightarrow> issuerPath issuers j ys \<Longrightarrow> length xs < length ys"
  shows "issuerChainLoop issuers i seen acc = Inr (acc @ xs)"
  using assms
proof (induction arbitrary: seen acc rule: issuerPath.induct)
  case path_root
  then show ?case by (simp add: issuerChainLoop.simps)
next
  case (path_step i issuer chain)
  have path: "issuerPath issuers i (issuer # chain)"
    using path_step.hyps by (rule issuerPath.path_step)
  then have "i \<notin> set seen" using path_step.prems by blast
  moreover have "length chain < length ys" if "j \<in> set (i # seen)" "issuerPath issuers j ys" for j ys
    using that path_step.prems[of j ys] issuerPath_unique[OF path, of ys] by auto
  ultimately show ?case
    using path_step.hyps path_step.IH[of "i # seen" "acc @ [issuer]"]
    by (subst issuerChainLoop.simps) simp
qed

text \<open>
  C30: \<^verbatim>\<open>GetIssuerChain\<close> always returns, whatever parents the stored issuers name, and it returns a chain
  exactly when following the parents from the given issuer ends at an issuer without a parent; the
  chain is then that path, the store is untouched. With a dangling parent or a cycle of parents it
  returns an error instead of looping.
\<close>

theorem GetIssuerChain_is_path:
  "Service_GetIssuerChain ident w = (Inr chain, w') \<longleftrightarrow>
     \<not> isBlank ident \<and> issuerPath (ms_issuers (w_repo w)) ident chain \<and> w' = w"
proof -
  let ?m = "ms_issuers (w_repo w)"
  have "issuerChainLoop ?m ident [] [] = Inr chain \<longleftrightarrow> issuerPath ?m ident chain"
    using issuerChainLoop_sound[of ?m ident "[]" "[]" chain] issuerChainLoop_complete[of ?m ident chain "[]" "[]"]
    by auto
  then show ?thesis
    unfolding Service_GetIssuerChain_def by (auto simp: basic_Inr onRepo_pure)
qed

text \<open>
  After a successful \<^verbatim>\<open>RotateOCSPResponder\<close> the issuer has exactly one active responder, the new one;
  the one that was active before is still stored and is now disabled.
\<close>

theorem RotateOCSPResponder_replaces:
  assumes "sound svc w" "Service_RotateOCSPResponder svc ctx actor req w = (Inr r, w')"
  shows "activeOCSPResponderByIssuer (ms_ocspResponders (w_repo w')) (ror_IssuerID req) = Inr r \<and>
    (\<exists>k old. mget (ms_ocspResponders (w_repo w)) k = Some old \<and> rsp_IssuerID old = ror_IssuerID req \<and>
      rsp_Status old = OCSPResponderActive \<and>
      mget (ms_ocspResponders (w_repo w')) k =
        Some (old\<lparr>rsp_Status := OCSPResponderDisabled, rsp_UpdatedAt := svc_clock svc (w_clock w)\<rparr>))"
  using rotate_prepared(2)[OF assms(2)]
proof (rule rotateTx_effect, goal_cases)
  case (1 active k es)
  have s': "sound svc w'"
    using advancesD[OF RotateOCSPResponder_advances assms] by (simp add: advance_def)
  have r: "rsp_IssuerID r = ror_IssuerID req" "rsp_Status r = OCSPResponderActive" "rsp_ID r = svc_idgen svc (w_ids w)"
    unfolding rotate_prepared(1)[OF assms(2)] by (simp_all add: newResponder_def)
  have k: "k = rsp_ID active" "k \<noteq> rsp_ID r"
    using 1(1) sound_keyed(9)[OF assms(1)] sound_new(9)[OF assms(1), of "w_ids w"] r by (auto simp: keyed_def)
  have "activeOCSPResponderByIssuer (ms_ocspResponders (w_repo w')) (ror_IssuerID req) = Inr r"
    using sound_clauses(1)[OF s'] r by (intro active_unique[of _ "rsp_ID r"]) (simp_all add: 1(5))
  moreover have "mget (ms_ocspResponders (w_repo w')) k = Some (disabledAt (svc_clock svc (w_clock w)) active)"
    using k by (simp add: 1(5) mget_mput)
  ultimately show ?case using 1(1-3) by (auto simp: disabledAt_def)
qed

end
