(* ===== verification/Outbox.thy ===== *)
theory Outbox
  imports Frames "HOL-Library.Word"
begin

text \<open>
  The outbox: the dispatcher that delivers messages (\<^verbatim>\<open>internal/lifecycle/outbox_dispatcher.go\<close>), the registry
  of handlers (\<^verbatim>\<open>outbox_handler.go\<close>), the webhook handler (\<^verbatim>\<open>webhook_handler.go\<close>) and the operations that put
  a dead letter back (\<^verbatim>\<open>RetryOutboxMessage\<close>, \<^verbatim>\<open>ReplayDeadLetterOutboxMessages\<close>).

  A dispatcher shares the clock and the identifier generator of the service \<open>svc\<close>; its handler is a program of
  its own, given as a parameter.
\<close>

unbundle bit_operations_syntax

section \<open>Retry delays\<close>

definition defaultOutboxProcessingLease :: duration where
  "defaultOutboxProcessingLease = 10 * Minute"

definition outboxRetryDelays :: "duration list" where
  "outboxRetryDelays = [Minute, 5 * Minute, 15 * Minute, Hour]"

definition effectiveOutboxMaxAttempts :: "OutboxMessage \<Rightarrow> int" where
  "effectiveOutboxMaxAttempts message =
     (if msg_MaxAttempts message > 0 then msg_MaxAttempts message else defaultOutboxMaxAttempts)"

definition outboxRetryDelayForAttempt :: "int \<Rightarrow> duration" where
  "outboxRetryDelayForAttempt attemptCount =
     (if attemptCount \<le> 1 then outboxRetryDelays ! 0
      else
        let index = attemptCount - 1;
            index = (if index \<ge> int (length outboxRetryDelays) then int (length outboxRetryDelays) - 1 else index)
        in outboxRetryDelays ! nat index)"

text \<open>\<^verbatim>\<open>hash/fnv\<close>'s 64-bit FNV-1a and \<^verbatim>\<open>binary.LittleEndian.PutUint64\<close>.\<close>

definition fnv64a :: "64 word list \<Rightarrow> 64 word" where
  "fnv64a bytes = fold (\<lambda>b h. (h XOR b) * 1099511628211) bytes 14695981039346656037"

definition littleEndian64 :: "64 word \<Rightarrow> 64 word list" where
  "littleEndian64 v = map (\<lambda>i. drop_bit (8 * i) v AND 255) [0..<8]"

definition outboxRetryDelayForMessage :: "OutboxMessage \<Rightarrow> duration" where
  "outboxRetryDelayForMessage message =
     (let base = outboxRetryDelayForAttempt (msg_AttemptCount message);
          jitterMax = base div 10
      in if jitterMax \<le> 0 then base
         else
           let hash = fnv64a (map of_char (msg_ID message) @ littleEndian64 (of_int (msg_AttemptCount message)))
           in base + int (unat (hash mod of_int (jitterMax + 1))))"

section \<open>The dispatcher\<close>

definition recoveredMessage :: "OutboxMessage \<Rightarrow> time \<Rightarrow> OutboxMessage" where
  "recoveredMessage message now =
     message\<lparr>msg_Status := OutboxPending, msg_ProcessingDeadlineAt := time_zero, msg_UpdatedAt := now\<rparr>"

definition claimedMessage :: "OutboxMessage \<Rightarrow> time \<Rightarrow> OutboxMessage" where
  "claimedMessage message now =
     message\<lparr>msg_Status := OutboxProcessing, msg_ProcessingDeadlineAt := now + defaultOutboxProcessingLease, msg_UpdatedAt := now\<rparr>"

text \<open>A guarded write whose refusal means that another dispatcher was faster.\<close>

definition tryUpdate :: "OutboxMessage \<Rightarrow> OutboxMessage \<Rightarrow> bool svc" where
  "tryUpdate message current =
     bindM (attemptM (onRepo (MemoryStore_UpdateOutboxMessageIfCurrent message current))) (\<lambda>r.
       case r of
         Inl err \<Rightarrow>
           if errors_Is err ErrInvalidTransition \<or> errors_Is err ErrOutboxMessageNotFound then returnM False else throwM err
       | Inr _ \<Rightarrow> returnM True)"

definition OutboxDispatcher_claim :: "Service \<Rightarrow> OutboxMessage \<Rightarrow> OutboxMessage option svc" where
  "OutboxDispatcher_claim svc message =
     (if msg_Status message \<noteq> OutboxPending \<and> msg_Status message \<noteq> OutboxProcessing then returnM None
      else
        bindM (Now svc) (\<lambda>now.
        bindM (if msg_Status message = OutboxProcessing then
                 bindM (tryUpdate (recoveredMessage message now) message) (\<lambda>ok.
                   returnM (if ok then Some (recoveredMessage message now) else None))
               else returnM (Some message)) (\<lambda>ready.
        case ready of
          None \<Rightarrow> returnM None
        | Some current \<Rightarrow>
            bindM (tryUpdate (claimedMessage current now) current) (\<lambda>ok.
              returnM (if ok then Some (claimedMessage current now) else None)))))"

definition finishedMessage :: "OutboxMessage \<Rightarrow> OutboxMessageStatus \<Rightarrow> time \<Rightarrow> OutboxMessage" where
  "finishedMessage message status finishedAt =
     message\<lparr>msg_Status := status, msg_ProcessingDeadlineAt := time_zero, msg_UpdatedAt := finishedAt\<rparr>"

definition OutboxDispatcher_finish :: "OutboxMessage \<Rightarrow> OutboxMessageStatus \<Rightarrow> JobAttempt \<Rightarrow> unit svc" where
  "OutboxDispatcher_finish message status attempt =
     MemoryStore_WithinTx (
       thenM (onRepo (memoryTx_UpdateOutboxMessageIfCurrent (finishedMessage message status (job_FinishedAt attempt)) message))
         (onRepo (memoryTx_CreateJobAttempt attempt)) )"

text \<open>What the answer of the handler makes of the claimed message: the message, its next status, the status and the error of the attempt.\<close>

definition deliveryOutcome ::
  "OutboxMessage \<Rightarrow> unit result \<Rightarrow> time \<Rightarrow> OutboxMessage \<times> OutboxMessageStatus \<times> JobAttemptStatus \<times> string" where
  "deliveryOutcome claimed handlerResult finishedAt =
     (case handlerResult of
        Inl handlerErr \<Rightarrow>
          (let errorMessage = error_text handlerErr;
               counted = claimed\<lparr>msg_AttemptCount := i64 (msg_AttemptCount claimed + 1)\<rparr>;
               failed = counted\<lparr>msg_MaxAttempts := effectiveOutboxMaxAttempts counted, msg_LastError := errorMessage\<rparr>
           in if msg_AttemptCount failed \<ge> msg_MaxAttempts failed
              then (failed, OutboxDeadLetter, JobAttemptFailed, errorMessage)
              else (failed\<lparr>msg_AvailableAt := finishedAt + outboxRetryDelayForMessage failed\<rparr>, OutboxPending, JobAttemptFailed, errorMessage))
      | Inr _ \<Rightarrow> (claimed\<lparr>msg_LastError := []\<rparr>, OutboxCompleted, JobAttemptSucceeded, []))"

definition deliverClaimed :: "Service \<Rightarrow> (OutboxMessage \<Rightarrow> unit svc) \<Rightarrow> OutboxMessage \<Rightarrow> unit svc" where
  "deliverClaimed svc handler claimed =
     bindM (Now svc) (\<lambda>startedAt.
     bindM (attemptM (handler claimed)) (\<lambda>handlerResult.
     bindM (Now svc) (\<lambda>finishedAt.
     case deliveryOutcome claimed handlerResult finishedAt of (message, nextStatus, attemptStatus, errorMessage) \<Rightarrow>
     bindM (NewID svc) (\<lambda>ident.
       OutboxDispatcher_finish message nextStatus
         \<lparr>job_ID = ident, job_OutboxMessageID = msg_ID message, job_Status = attemptStatus, job_Error = errorMessage,
          job_StartedAt = startedAt, job_FinishedAt = finishedAt, job_CreatedAt = finishedAt\<rparr>))))"

text \<open>
  The loop returns the number of messages processed and the error that ended it, as \<^verbatim>\<open>RunOnce\<close> does.
\<close>

fun dispatchLoop ::
  "Service \<Rightarrow> (OutboxMessage \<Rightarrow> unit svc) \<Rightarrow> OutboxMessage list \<Rightarrow> int \<Rightarrow> (int \<times> error option) svc" where
  "dispatchLoop svc handler [] processed = returnM (processed, None)"
| "dispatchLoop svc handler (message # rest) processed =
     bindM (attemptM (OutboxDispatcher_claim svc message)) (\<lambda>r.
     case r of
       Inl err \<Rightarrow> returnM (processed, Some err)
     | Inr None \<Rightarrow> dispatchLoop svc handler rest processed
     | Inr (Some claimed) \<Rightarrow>
         bindM (attemptM (deliverClaimed svc handler claimed)) (\<lambda>outcome.
         case outcome of
           Inl err \<Rightarrow> returnM (processed, Some err)
         | Inr _ \<Rightarrow> dispatchLoop svc handler rest (processed + 1)))"

definition OutboxDispatcher_RunOnce :: "Service \<Rightarrow> (OutboxMessage \<Rightarrow> unit svc) \<Rightarrow> int \<Rightarrow> (int \<times> error option) svc" where
  "OutboxDispatcher_RunOnce svc handler limit =
     bindM (Now svc) (\<lambda>now.
     bindM (attemptM (onRepo (MemoryStore_ListDueOutboxMessages now limit))) (\<lambda>r.
     case r of
       Inl err \<Rightarrow> returnM (0, Some err)
     | Inr messages \<Rightarrow> dispatchLoop svc handler messages 0))"

section \<open>Handlers\<close>

definition ErrOutboxHandlerNotFound :: error where
  "ErrOutboxHandlerNotFound = ErrExternal ''outbox handler not found''"

definition NewOutboxHandlerRegistry :: "(OutboxMessage \<Rightarrow> unit svc) gomap \<Rightarrow> (OutboxMessage \<Rightarrow> unit svc) gomap" where
  "NewOutboxHandlerRegistry handlers = mclone (\<lambda>handler. handler) handlers"

definition OutboxHandlerRegistry_HandleOutboxMessage ::
  "(OutboxMessage \<Rightarrow> unit svc) gomap \<Rightarrow> OutboxMessage \<Rightarrow> unit svc" where
  "OutboxHandlerRegistry_HandleOutboxMessage handlers message =
     (case mget handlers (msg_Type message) of
        None \<Rightarrow> throwM (ErrWrap ErrOutboxHandlerNotFound (ErrExternal (msg_Type message)))
      | Some handler \<Rightarrow> handler message)"

definition NoopOutboxHandler :: "OutboxMessage \<Rightarrow> unit svc" where
  "NoopOutboxHandler message = returnM ()"

definition lifecycleEventTypes :: "string list" where
  "lifecycleEventTypes =
     [''certificate.suspended'', ''certificate.resumed'', ''certificate.renewal_requested'', ''certificate.reissue_requested'',
      ''certificate.expiration_warning'', ''certificate.expired'', ''certificate.revoked'', ''certificate.force_revoked'']"

definition NewLifecycleOutboxHandler :: "OutboxMessage \<Rightarrow> unit svc" where
  "NewLifecycleOutboxHandler =
     OutboxHandlerRegistry_HandleOutboxMessage (NewOutboxHandlerRegistry
       (fold (\<lambda>messageType m. mput messageType NoopOutboxHandler m) lifecycleEventTypes mempty))"

definition NewLifecycleOutboxHandlerWithWebhook :: "(OutboxMessage \<Rightarrow> unit svc) option \<Rightarrow> OutboxMessage \<Rightarrow> unit svc" where
  "NewLifecycleOutboxHandlerWithWebhook webhook =
     (case webhook of
        None \<Rightarrow> NewLifecycleOutboxHandler
      | Some handler \<Rightarrow>
          OutboxHandlerRegistry_HandleOutboxMessage (NewOutboxHandlerRegistry
            (fold (\<lambda>messageType m. mput messageType handler m) lifecycleEventTypes mempty)))"

section \<open>Webhooks\<close>

text \<open>
  The HTTP request the handler sends; building it and sending it is the client's business
  (\<^verbatim>\<open>http.NewRequestWithContext\<close>, \<^verbatim>\<open>http.Client.Do\<close>), whose answer is a status code with its text or an error.
\<close>

record webhookRequest =
  wrq_URL :: string
  wrq_Header :: "(string \<times> string) list"
  wrq_Body :: string

type_synonym httpClient = "nat \<Rightarrow> webhookRequest \<Rightarrow> (int \<times> string) result"

definition webhookEndpointMatches :: "NotificationEndpoint \<Rightarrow> string \<Rightarrow> bool" where
  "webhookEndpointMatches endpoint eventType =
     (if ep_Type endpoint \<noteq> NotificationEndpointWebhook \<or> ep_Status endpoint \<noteq> NotificationEndpointActive then False
      else if length (ep_EventTypes endpoint) = 0 then True
      else eventType \<in> set (ep_EventTypes endpoint))"

definition signWebhookPayload :: "Service \<Rightarrow> string \<Rightarrow> string \<Rightarrow> string \<Rightarrow> string" where
  "signWebhookPayload svc secret timestamp data =
     ''sha256='' @ rt_hmacSha256hex (svc_runtime svc) secret (timestamp @ ''.'' @ data)"

text \<open>\<^verbatim>\<open>json.Marshal\<close> of \<^verbatim>\<open>webhookDeliveryRequest\<close>: the fields in the order of the struct.\<close>

definition webhookBody :: "Service \<Rightarrow> OutboxMessage \<Rightarrow> string \<Rightarrow> string" where
  "webhookBody svc message payload =
     CHR ''{'' # join_comma
       [json_string ''schema_version'' @ '':1'', json_string ''outbox_message_id'' @ CHR '':'' # json_string (msg_ID message),
        json_string ''event_type'' @ CHR '':'' # json_string (msg_Type message), json_string ''payload'' @ CHR '':'' # payload,
        json_string ''created_at'' @ CHR '':'' # json_string (rt_rfc3339nano (svc_runtime svc) (msg_CreatedAt message))] @ ''}''"

definition webhookRequestFor :: "Service \<Rightarrow> NotificationEndpoint \<Rightarrow> OutboxMessage \<Rightarrow> string \<Rightarrow> time \<Rightarrow> webhookRequest" where
  "webhookRequestFor svc endpoint message data now =
     (let timestamp = rt_rfc3339 (svc_runtime svc) now in
      \<lparr>wrq_URL = ep_URL endpoint,
       wrq_Header = [(''Content-Type'', ''application/json''), (''X-Modern-PKI-Event'', msg_Type message),
           (''X-Modern-PKI-Delivery'', msg_ID message), (''X-Modern-PKI-Timestamp'', timestamp)] @
         (if ep_Secret endpoint \<noteq> [] then [(''X-Modern-PKI-Signature'', signWebhookPayload svc (ep_Secret endpoint) timestamp data)] else []),
       wrq_Body = data\<rparr>)"

definition postWebhook :: "Service \<Rightarrow> httpClient \<Rightarrow> NotificationEndpoint \<Rightarrow> OutboxMessage \<Rightarrow> string \<Rightarrow> unit svc" where
  "postWebhook svc client endpoint message data =
     bindM (Now svc) (\<lambda>now.
     bindM (callExt (\<lambda>n. client n (webhookRequestFor svc endpoint message data now))) (\<lambda>(statusCode, status).
       failIf (statusCode < 200 \<or> statusCode \<ge> 300) (ErrExternal (''webhook delivery failed: '' @ status))
         (returnM ())))"

definition newDelivery ::
  "OutboxMessage \<Rightarrow> NotificationEndpoint \<Rightarrow> WebhookDelivery \<Rightarrow> JobAttemptStatus \<Rightarrow> string \<Rightarrow> time \<Rightarrow> WebhookDelivery" where
  "newDelivery message endpoint current status lastError now =
     \<lparr>whd_OutboxMessageID = msg_ID message, whd_EndpointID = ep_ID endpoint, whd_Status = status,
      whd_AttemptCount = i64 (whd_AttemptCount current + 1), whd_LastError = lastError, whd_LastAttemptedAt = now,
      whd_CreatedAt = (if IsZero (whd_CreatedAt current) then now else whd_CreatedAt current), whd_UpdatedAt = now\<rparr>"

definition recordWebhookDelivery ::
  "Service \<Rightarrow> OutboxMessage \<Rightarrow> NotificationEndpoint \<Rightarrow> WebhookDelivery \<Rightarrow> JobAttemptStatus \<Rightarrow> string \<Rightarrow> unit svc" where
  "recordWebhookDelivery svc message endpoint current status lastError =
     bindM (Now svc) (\<lambda>now. onRepo (MemoryStore_UpsertWebhookDelivery (newDelivery message endpoint current status lastError now)))"

text \<open>The current delivery record, the zero record when there is none.\<close>

definition currentDelivery :: "OutboxMessage \<Rightarrow> NotificationEndpoint \<Rightarrow> WebhookDelivery svc" where
  "currentDelivery message endpoint =
     bindM (attemptM (onRepo (MemoryStore_GetWebhookDelivery (msg_ID message) (ep_ID endpoint)))) (\<lambda>r.
       case r of
         Inl err \<Rightarrow> if errors_Is err ErrWebhookDeliveryNotFound then returnM zero_WebhookDelivery else throwM err
       | Inr delivery \<Rightarrow> returnM delivery)"

definition deliverTo :: "Service \<Rightarrow> httpClient \<Rightarrow> OutboxMessage \<Rightarrow> string \<Rightarrow> NotificationEndpoint \<Rightarrow> unit svc" where
  "deliverTo svc client message data endpoint =
     (if \<not> webhookEndpointMatches endpoint (msg_Type message) then returnM ()
      else
        bindM (currentDelivery message endpoint) (\<lambda>delivery.
        if whd_Status delivery = JobAttemptSucceeded then returnM ()
        else
          bindM (attemptM (postWebhook svc client endpoint message data)) (\<lambda>r.
          case r of
            Inl err \<Rightarrow>
              thenM (recordWebhookDelivery svc message endpoint delivery JobAttemptFailed (error_text err)) (throwM err)
          | Inr _ \<Rightarrow> recordWebhookDelivery svc message endpoint delivery JobAttemptSucceeded [])))"

definition WebhookOutboxHandler_HandleOutboxMessage :: "Service \<Rightarrow> httpClient \<Rightarrow> OutboxMessage \<Rightarrow> unit svc" where
  "WebhookOutboxHandler_HandleOutboxMessage svc client message =
     bindM (onRepo MemoryStore_ListNotificationEndpoints) (\<lambda>endpoints.
     case rt_jsonObject (svc_runtime svc) (msg_PayloadJSON message) of
       Inl err \<Rightarrow> throwM (ErrWrap (ErrExternal ''decode outbox payload'') err)
     | Inr payload \<Rightarrow> forM endpoints (deliverTo svc client message (webhookBody svc message payload)))"

section \<open>Dead letters\<close>

definition outboxMessageForReplay :: "OutboxMessage \<Rightarrow> time \<Rightarrow> OutboxMessage" where
  "outboxMessageForReplay message now =
     message\<lparr>msg_Status := OutboxPending, msg_AvailableAt := now, msg_ProcessingDeadlineAt := time_zero, msg_AttemptCount := 0,
       msg_MaxAttempts := (if msg_MaxAttempts message \<le> 0 then defaultOutboxMaxAttempts else msg_MaxAttempts message),
       msg_LastError := [], msg_UpdatedAt := now\<rparr>"

definition Service_ListOutboxMessages :: "OutboxMessageStatus \<Rightarrow> OutboxMessage list svc" where
  "Service_ListOutboxMessages status =
     failIf (str_OutboxMessageStatus status \<noteq> [] \<and> \<not> isValidOutboxMessageStatus status) ErrInvalidRequest
       (onRepo (MemoryStore_ListOutboxMessages status))"

definition Service_RetryOutboxMessage :: "Service \<Rightarrow> Context \<Rightarrow> string \<Rightarrow> string \<Rightarrow> OutboxMessage svc" where
  "Service_RetryOutboxMessage svc ctx actor ident =
     failIf (isBlank ident) ErrInvalidRequest
    (bindM (Now svc) (\<lambda>now.
     bindM (onRepo (MemoryStore_GetOutboxMessage ident)) (\<lambda>current.
     failIf (msg_Status current \<noteq> OutboxDeadLetter \<and> msg_Status current \<noteq> OutboxFailed) ErrInvalidTransition
    (let message = outboxMessageForReplay current now in
     thenM (MemoryStore_WithinTx (
       thenM (onRepo (memoryTx_UpdateOutboxMessageStatusIfStatus message (msg_Status current)))
         (createAuditEvent svc ctx actor ''outbox.retry_requested'' ''outbox_message'' (msg_ID message) now
           (auditFields [''outbox_message_id'', msg_ID message, ''outbox_message_type'', msg_Type message])) ))
       (returnM message)))))"

text \<open>
  The loop of the bulk replay: it stops when \<open>limit\<close> messages have been replayed. (The slice is
  allocated with capacity \<^verbatim>\<open>req.Limit\<close> beforehand; Go refuses a capacity it cannot allocate with a panic.)
\<close>

fun replayLoop :: "ReplayDeadLetterOutboxRequest \<Rightarrow> time \<Rightarrow> OutboxMessage list \<Rightarrow> OutboxMessage list \<Rightarrow> OutboxMessage list svc" where
  "replayLoop req now [] replayed = returnM replayed"
| "replayLoop req now (message # rest) replayed =
     (if int (length replayed) \<ge> rdl_Limit req then returnM replayed
      else if msg_Type message \<noteq> rdl_EventType req \<or> msg_CreatedAt message < rdl_CreatedFrom req \<or>
              msg_CreatedAt message > rdl_CreatedTo req
      then replayLoop req now rest replayed
      else
        thenM (onRepo (memoryTx_UpdateOutboxMessageStatusIfStatus (outboxMessageForReplay message now) OutboxDeadLetter))
          (replayLoop req now rest (replayed @ [outboxMessageForReplay message now])))"

definition Service_ReplayDeadLetterOutboxMessages ::
  "Service \<Rightarrow> Context \<Rightarrow> string \<Rightarrow> ReplayDeadLetterOutboxRequest \<Rightarrow> OutboxMessage list svc" where
  "Service_ReplayDeadLetterOutboxMessages svc ctx actor req =
     failIf (isBlank (rdl_EventType req) \<or> IsZero (rdl_CreatedFrom req) \<or> IsZero (rdl_CreatedTo req) \<or>
             rdl_CreatedTo req < rdl_CreatedFrom req \<or> rdl_Limit req \<le> 0) ErrInvalidRequest
    (bindM (Now svc) (\<lambda>now.
     MemoryStore_WithinTx (
       bindM (onRepo (memoryTx_ListOutboxMessages OutboxDeadLetter)) (\<lambda>messages.
       bindM (replayLoop req now messages []) (\<lambda>replayed.
       bindM (NewID svc) (\<lambda>ident.
       thenM (createAuditEvent svc ctx actor ''outbox.bulk_replay_requested'' ''outbox_messages'' ident now
         (auditFields [''outbox_message_type'', rdl_EventType req,
           ''created_from'', rt_rfc3339nano (svc_runtime svc) (rdl_CreatedFrom req),
           ''created_to'', rt_rfc3339nano (svc_runtime svc) (rdl_CreatedTo req),
           ''limit'', Itoa (rdl_Limit req), ''replayed_count'', Itoa (int (length replayed))]))
         (returnM replayed)))) )))"

section \<open>Delays\<close>

lemma outboxRetryDelay_cases:
  "outboxRetryDelayForAttempt n =
     (if n \<le> 1 then Minute else if n = 2 then 5 * Minute else if n = 3 then 15 * Minute else Hour)"
proof -
  have "n \<le> 1 \<or> n = 2 \<or> n = 3 \<or> 4 \<le> n" by linarith
  then show ?thesis
    by (elim disjE) (simp_all add: outboxRetryDelayForAttempt_def outboxRetryDelays_def nth_Cons')
qed

lemma unat_mod_less:
  fixes h :: "64 word"
  assumes "0 < k" "k < 2 ^ 64"
  shows "0 \<le> int (unat (h mod of_int k)) \<and> int (unat (h mod of_int k)) < k"
proof -
  have "uint (of_int k :: 64 word) = k" using assms by (simp add: uint_word_of_int)
  then have "uint (h mod of_int k) = uint h mod k" by (simp add: uint_mod)
  then show ?thesis using assms by simp
qed

lemma outboxRetryDelay_range:
  "outboxRetryDelayForAttempt (msg_AttemptCount m) \<le> outboxRetryDelayForMessage m \<and>
   outboxRetryDelayForMessage m \<le> outboxRetryDelayForAttempt (msg_AttemptCount m) + outboxRetryDelayForAttempt (msg_AttemptCount m) div 10 \<and>
   Minute \<le> outboxRetryDelayForMessage m \<and> outboxRetryDelayForMessage m \<le> 66 * Minute"
proof -
  let ?base = "outboxRetryDelayForAttempt (msg_AttemptCount m)"
  have base: "Minute \<le> ?base" "?base \<le> 60 * Minute" "?base div 10 \<le> 6 * Minute" "0 < ?base div 10" "?base div 10 + 1 < 2 ^ 64"
    by (simp_all add: outboxRetryDelay_cases Hour_def Minute_def Second_def)
  define j where "j = int (unat (fnv64a (map of_char (msg_ID m) @ littleEndian64 (of_int (msg_AttemptCount m))) mod
    of_int (?base div 10 + 1)))"
  have "0 \<le> j \<and> j < ?base div 10 + 1"
    unfolding j_def by (rule unat_mod_less) (use base in simp_all)
  moreover have "outboxRetryDelayForMessage m = ?base + j"
    unfolding outboxRetryDelayForMessage_def Let_def j_def using base(4) by (subst if_not_P) simp_all
  ultimately show ?thesis using base by linarith
qed

lemma outboxRetryDelay_le: "outboxRetryDelayForAttempt (msg_AttemptCount m) \<le> outboxRetryDelayForMessage m"
  using outboxRetryDelay_range by blast

text \<open>
  The delay before the next delivery of a message is the one of the schedule (1, 5, 15 and then 60
  minutes) plus a jitter of at most a tenth of it.
\<close>

theorem outboxRetryDelay_bounds:
  "outboxRetryDelayForAttempt (msg_AttemptCount m) \<le> outboxRetryDelayForMessage m \<and>
   outboxRetryDelayForMessage m \<le> outboxRetryDelayForAttempt (msg_AttemptCount m) + outboxRetryDelayForAttempt (msg_AttemptCount m) div 10 \<and>
   Minute \<le> outboxRetryDelayForMessage m \<and> outboxRetryDelayForMessage m \<le> 66 * Minute"
  by (rule outboxRetryDelay_range)

section \<open>The dispatcher follows the message machine\<close>

text \<open>A message read before: the stored row has the same identity and content.\<close>

definition knownMessage :: "MemoryStore \<Rightarrow> OutboxMessage \<Rightarrow> bool" where
  "knownMessage s m \<longleftrightarrow> (\<exists>stored. mget (ms_outbox s) (msg_ID m) = Some stored \<and> messageCore stored = messageCore m)"

lemma messageCore_id: "messageCore a = messageCore b \<Longrightarrow> msg_ID a = msg_ID b"
proof -
  assume "messageCore a = messageCore b"
  moreover have "msg_ID (messageCore x) = msg_ID x" for x by (simp add: messageCore_def)
  ultimately show ?thesis by metis
qed

lemma known_evolves:
  assumes "evolves s s'" "knownMessage s m"
  shows "knownMessage s' m"
proof -
  obtain v where v: "mget (ms_outbox s) (msg_ID m) = Some v" "messageCore v = messageCore m"
    using assms(2) by (auto simp: knownMessage_def)
  have t: "table_evolves messageStep (ms_outbox s) (ms_outbox s')" using assms(1) by (simp add: evolves_def)
  then obtain v' where v': "mget (ms_outbox s') (msg_ID m) = Some v'" "messageStep\<^sup>*\<^sup>* v v'"
    using v(1) by (rule table_evolves_get)
  have "messageCore v = messageCore v'" by (rule rtranclp_preserves[OF v'(2)]) (simp add: messageStep_def)
  then show ?thesis using v v' by (auto simp: knownMessage_def)
qed

lemma known_advance: "advance svc w w' \<Longrightarrow> knownMessage (w_repo w) m \<Longrightarrow> knownMessage (w_repo w') m"
  by (rule known_evolves) (simp_all add: advance_def)

lemma known_core: "messageCore m' = messageCore m \<Longrightarrow> knownMessage s m' = knownMessage s m"
  by (auto simp: knownMessage_def dest: messageCore_id)

lemma message_cores [simp]:
  "messageCore (recoveredMessage m t) = messageCore m" "messageCore (claimedMessage m t) = messageCore m"
  "messageCore (finishedMessage m st t) = messageCore m"
  by (simp_all add: messageCore_def recoveredMessage_def claimedMessage_def finishedMessage_def)

text \<open>A write accepted against a message read before is a step of the machine.\<close>

lemma guarded_message:
  assumes s: "sound svc w" and known: "knownMessage (w_repo w) c" and core: "messageCore m = messageCore c"
    and step: "messageNext (msg_Status c) (msg_Status m)"
    and upd: "updateOutboxMessageIfCurrent (ms_outbox (w_repo w)) m c = Inr t"
  shows "t = mput (msg_ID m) m (ms_outbox (w_repo w))" "table_evolves messageStep (ms_outbox (w_repo w)) t" "keyed msg_ID t"
    "dom (mget t) = dom (mget (ms_outbox (w_repo w)))"
proof -
  have id: "msg_ID m = msg_ID c" using core by (rule messageCore_id)
  obtain v where v: "mget (ms_outbox (w_repo w)) (msg_ID m) = Some v" "messageCore v = messageCore c"
    using known id by (auto simp: knownMessage_def)
  obtain v0 where v0: "mget (ms_outbox (w_repo w)) (msg_ID m) = Some v0"
    "(msg_Status v0, msg_ProcessingDeadlineAt v0, msg_UpdatedAt v0) = (msg_Status c, msg_ProcessingDeadlineAt c, msg_UpdatedAt c)"
    and t: "t = mput (msg_ID m) m (ms_outbox (w_repo w))"
    using claim_table.upd_D[OF upd] by blast
  have st: "msg_Status v = msg_Status c" using v0 v(1) by simp
  have vid: "msg_ID v = msg_ID m" using messageCore_id[OF v(2)] id by simp
  have "messageStep v m" using v(2) core st step by (simp add: messageStep_def)
  from put_outbox[OF s v(1) this vid[symmetric]] show "table_evolves messageStep (ms_outbox (w_repo w)) t" "keyed msg_ID t"
    "dom (mget t) = dom (mget (ms_outbox (w_repo w)))" "t = mput (msg_ID m) m (ms_outbox (w_repo w))"
    by (simp_all add: t vid)
qed

lemma tryUpdate_run:
  assumes s: "sound svc w" and known: "knownMessage (w_repo w) c" and core: "messageCore m = messageCore c"
    and step: "messageNext (msg_Status c) (msg_Status m)"
    and run: "tryUpdate m c w = (r, w')"
  shows "advance svc w w' \<and> ((r = Inr False \<and> w' = w) \<or>
     (r = Inr True \<and> updateOutboxMessageIfCurrent (ms_outbox (w_repo w)) m c = Inr (ms_outbox (w_repo w')) \<and>
      w' = w\<lparr>w_repo := (w_repo w)\<lparr>ms_outbox := mput (msg_ID m) m (ms_outbox (w_repo w))\<rparr>\<rparr>))"
proof (cases "updateOutboxMessageIfCurrent (ms_outbox (w_repo w)) m c")
  case (Inl e)
  then have "e = ErrInvalidTransition \<or> e = ErrOutboxMessageNotFound"
    by (auto simp: updateOutboxMessageIfCurrent_def split: option.splits if_splits)
  then show ?thesis using run Inl s
    by (auto simp: tryUpdate_def prog_simps run_onRepo MemoryStore_UpdateOutboxMessageIfCurrent_def advance_refl split: if_splits)
next
  case (Inr t)
  note g = guarded_message[OF s known core step Inr]
  have run': "r = Inr True" "w' = w\<lparr>w_repo := (w_repo w)\<lparr>ms_outbox := t\<rparr>\<rparr>"
    using run Inr by (auto simp: tryUpdate_def prog_simps run_onRepo MemoryStore_UpdateOutboxMessageIfCurrent_def)
  have "advance svc w w'"
    by (rule advance_by_updates[OF s, of _ "(w_repo w)\<lparr>ms_outbox := t\<rparr>" "w_ids w"])
      (intro update_rules | simp add: run'(2) g(2-4) sound_facts[OF s])+
  then show ?thesis using run' g(1) Inr by simp
qed

lemma message_status [simp]:
  "msg_Status (recoveredMessage m t) = OutboxPending" "msg_Status (claimedMessage m t) = OutboxProcessing"
  "msg_Status (finishedMessage m st t) = st" "msg_ID (claimedMessage m t) = msg_ID m" "msg_ID (recoveredMessage m t) = msg_ID m"
  "msg_ID (finishedMessage m st t) = msg_ID m" "msg_UpdatedAt (claimedMessage m t) = t"
  "msg_ProcessingDeadlineAt (claimedMessage m t) = t + defaultOutboxProcessingLease"
  by (simp_all add: recoveredMessage_def claimedMessage_def finishedMessage_def)

definition claimedAs :: "MemoryStore \<Rightarrow> OutboxMessage \<Rightarrow> time \<Rightarrow> OutboxMessage \<Rightarrow> bool" where
  "claimedAs s m now c \<longleftrightarrow> messageCore c = messageCore m \<and> msg_Status c = OutboxProcessing \<and> msg_UpdatedAt c = now \<and>
     msg_ProcessingDeadlineAt c = now + defaultOutboxProcessingLease \<and> mget (ms_outbox s) (msg_ID m) = Some c"

lemma claim_pending:
  assumes a: "advance svc w w1" and k: "knownMessage (w_repo w1) p" and p: "messageCore p = messageCore m" "msg_Status p = OutboxPending"
    and run: "bindM (tryUpdate (claimedMessage p now) p) (\<lambda>ok. returnM (if ok then Some (claimedMessage p now) else None)) w1 = (r, w')"
  shows "advance svc w w' \<and> (r = Inr None \<or> (\<exists>c. r = Inr (Some c) \<and> claimedAs (w_repo w') m now c))"
proof -
  have s1: "sound svc w1" using a by (simp add: advance_def)
  obtain r2 w2 where u: "tryUpdate (claimedMessage p now) p w1 = (r2, w2)" by (cases "tryUpdate (claimedMessage p now) p w1")
  have "advance svc w1 w2 \<and> ((r2 = Inr False \<and> w2 = w1) \<or> (r2 = Inr True \<and>
      updateOutboxMessageIfCurrent (ms_outbox (w_repo w1)) (claimedMessage p now) p = Inr (ms_outbox (w_repo w2)) \<and>
      w2 = w1\<lparr>w_repo := (w_repo w1)\<lparr>ms_outbox := mput (msg_ID (claimedMessage p now)) (claimedMessage p now) (ms_outbox (w_repo w1))\<rparr>\<rparr>))"
    by (rule tryUpdate_run[OF s1 k _ _ u]) (simp_all add: p)
  then have t: "advance svc w w2" and d: "(r2 = Inr False \<and> w2 = w1) \<or> (r2 = Inr True \<and>
      ms_outbox (w_repo w2) = mput (msg_ID m) (claimedMessage p now) (ms_outbox (w_repo w1)))"
    using advance_trans[OF a] messageCore_id[OF p(1)] by auto
  from d show ?thesis
  proof (elim disjE conjE)
    assume "r2 = Inr False"
    then show ?thesis using run t by (simp add: run_bindM u)
  next
    assume d: "r2 = Inr True" "ms_outbox (w_repo w2) = mput (msg_ID m) (claimedMessage p now) (ms_outbox (w_repo w1))"
    then have "r = Inr (Some (claimedMessage p now))" "w' = w2" using run by (simp_all add: run_bindM u)
    then show ?thesis using t d p(1) by (simp add: claimedAs_def mget_mput)
  qed
qed

text \<open>
  The two ways a claim ends: refused, or the message now stands in the store as claimed. When it was
  refused half way, a message whose lease had run out is pending again.
\<close>

lemma claim_run:
  assumes s: "sound svc w" and known: "knownMessage (w_repo w) m" and run: "OutboxDispatcher_claim svc m w = (r, w')"
  shows "advance svc w w' \<and> (r = Inr None \<or> (\<exists>c. r = Inr (Some c) \<and> claimedAs (w_repo w') m (svc_clock svc (w_clock w)) c))"
proof -
  let ?now = "svc_clock svc (w_clock w)" and ?w = "w\<lparr>w_clock := Suc (w_clock w)\<rparr>"
  have a0: "advance svc w ?w" and k0: "knownMessage (w_repo ?w) m" using s known by (auto intro: advance_same_repo)
  have s0: "sound svc ?w" using a0 by (simp add: advance_def)
  consider "msg_Status m = OutboxPending" | "msg_Status m = OutboxProcessing"
    | "msg_Status m \<noteq> OutboxPending" "msg_Status m \<noteq> OutboxProcessing" by blast
  then show ?thesis
  proof cases
    case 1
    then have "bindM (tryUpdate (claimedMessage m ?now) m) (\<lambda>ok. returnM (if ok then Some (claimedMessage m ?now) else None)) ?w = (r, w')"
      using run by (simp add: OutboxDispatcher_claim_def run_bindM[of "Now svc"] run_Now) (simp add: run_bindM[of "returnM _"])
    then show ?thesis by (rule claim_pending[OF a0 k0 refl 1])
  next
    case 2
    obtain r1 w1 where u: "tryUpdate (recoveredMessage m ?now) m ?w = (r1, w1)" by (cases "tryUpdate (recoveredMessage m ?now) m ?w")
    have t: "advance svc ?w w1 \<and> (r1 = Inr False \<or> r1 = Inr True)"
      using tryUpdate_run[OF s0 k0 _ _ u] 2 by auto
    have a1: "advance svc w w1" using t advance_trans[OF a0] by blast
    have k1: "knownMessage (w_repo w1) (recoveredMessage m ?now)"
      using known_advance[OF a1 known] known_core[of "recoveredMessage m ?now" m] by simp
    from t show ?thesis
    proof (elim conjE disjE)
      assume "r1 = Inr False"
      then show ?thesis using run a1 u 2 by (simp add: OutboxDispatcher_claim_def prog_simps)
    next
      assume "r1 = Inr True"
      then have "bindM (tryUpdate (claimedMessage (recoveredMessage m ?now) ?now) (recoveredMessage m ?now))
          (\<lambda>ok. returnM (if ok then Some (claimedMessage (recoveredMessage m ?now) ?now) else None)) w1 = (r, w')"
        using run u 2 by (simp add: OutboxDispatcher_claim_def prog_simps)
      then show ?thesis by (rule claim_pending[OF a1 k1, rotated -1]) simp_all
    qed
  next
    case 3
    then show ?thesis using run s by (simp add: OutboxDispatcher_claim_def advance_refl)
  qed
qed

text \<open>What the handler's answer does to the message: its identity and content stay.\<close>

lemma deliveryOutcome_step:
  assumes "deliveryOutcome c res t = (m, st, ast, err)"
  shows "messageCore m = messageCore c" "msg_Status m = msg_Status c" "msg_UpdatedAt m = msg_UpdatedAt c"
    "msg_ProcessingDeadlineAt m = msg_ProcessingDeadlineAt c" "messageNext OutboxProcessing st"
  using assms by (auto simp: deliveryOutcome_def Let_def messageCore_def split: sum.splits if_splits)

lemma dispatcherFinish_run:
  assumes s: "sound svc w" and known: "knownMessage (w_repo w) m" and st: "msg_Status m = OutboxProcessing" "messageNext OutboxProcessing status"
    and n: "w_ids w < n" and id: "job_ID j = svc_idgen svc (w_ids w)"
    and run: "OutboxDispatcher_finish m status j (w\<lparr>w_ids := n\<rparr>) = (r, w')"
  shows "advance svc w w' \<and> (r = Inr () \<longrightarrow>
     mget (ms_outbox (w_repo w')) (msg_ID m) = Some (finishedMessage m status (job_FinishedAt j)) \<and>
     mget (ms_jobAttempts (w_repo w')) (job_ID j) = Some j)"
proof (cases "updateOutboxMessageIfCurrent (ms_outbox (w_repo w)) (finishedMessage m status (job_FinishedAt j)) m")
  case (Inl e)
  then have "w_repo w' = w_repo w" "w_ids w' = n" "r = Inl e" using run
    by (auto simp: OutboxDispatcher_finish_def prog_simps run_WithinTx run_onRepo tx_agree MemoryStore_UpdateOutboxMessageIfCurrent_def)
  then show ?thesis using s n by (auto intro: advance_same_repo)
next
  case (Inr t)
  note g = guarded_message[OF s known _ _ Inr, simplified st, simplified, OF st(2)]
  have r: "r = Inr ()" and w': "w' = w\<lparr>w_ids := n, w_repo := (w_repo w)\<lparr>ms_outbox := t,
      ms_jobAttempts := mput (job_ID j) j (ms_jobAttempts (w_repo w))\<rparr>\<rparr>"
    using run Inr by (auto simp: OutboxDispatcher_finish_def prog_simps run_WithinTx run_onRepo tx_agree
        MemoryStore_UpdateOutboxMessageIfCurrent_def MemoryStore_CreateJobAttempt_def)
  have "advance svc w w'"
    unfolding w' using n
    by (intro advance_to[OF s] update_rules; simp add: g(2-4) sound_facts[OF s] id table_evolves_fresh dom_mput)
  then show ?thesis by (simp add: w' g(1) mget_mput)
qed

lemma advance_clock: "sound svc w \<Longrightarrow> advance svc w (w\<lparr>w_clock := n\<rparr>)"
  by (rule advance_same_repo) simp_all

lemma deliver_run:
  assumes s: "sound svc w" and known: "knownMessage (w_repo w) c" and st: "msg_Status c = OutboxProcessing"
    and h: "advances svc (handler c)" and run: "deliverClaimed svc handler c w = (r, w')"
  shows "advance svc w w' \<and> (r = Inr () \<longrightarrow> (\<exists>res w1 m status ast err j.
     handler c (w\<lparr>w_clock := Suc (w_clock w)\<rparr>) = (res, w1) \<and>
     deliveryOutcome c res (svc_clock svc (w_clock w1)) = (m, status, ast, err) \<and>
     mget (ms_outbox (w_repo w')) (msg_ID c) = Some (finishedMessage m status (svc_clock svc (w_clock w1))) \<and>
     mget (ms_jobAttempts (w_repo w')) (job_ID j) = Some j \<and> job_OutboxMessageID j = msg_ID c \<and> job_Status j = ast \<and> job_Error j = err))"
proof -
  let ?w = "w\<lparr>w_clock := Suc (w_clock w)\<rparr>"
  have a0: "advance svc w ?w" using s by (intro advance_same_repo) simp_all
  then have s0: "sound svc ?w" by (simp add: advance_def)
  obtain res w1 where hr: "handler c ?w = (res, w1)" by (cases "handler c ?w")
  have a1: "advance svc w w1" using advance_trans[OF a0 advancesD[OF h s0 hr]] .
  let ?t = "svc_clock svc (w_clock w1)" and ?w1 = "w1\<lparr>w_clock := Suc (w_clock w1)\<rparr>"
  obtain m status ast err where out: "deliveryOutcome c res ?t = (m, status, ast, err)" by (cases "deliveryOutcome c res ?t")
  note step = deliveryOutcome_step[OF out]
  let ?j = "\<lparr>job_ID = svc_idgen svc (w_ids w1), job_OutboxMessageID = msg_ID m, job_Status = ast, job_Error = err,
     job_StartedAt = svc_clock svc (w_clock w), job_FinishedAt = ?t, job_CreatedAt = ?t\<rparr>"
  have fin: "OutboxDispatcher_finish m status ?j (?w1\<lparr>w_ids := Suc (w_ids w1)\<rparr>) = (r, w')"
    using run by (simp add: deliverClaimed_def prog_simps hr out)
  have a2: "advance svc w ?w1"
    by (rule advance_trans[OF a1 advance_clock]) (use a1 in \<open>simp add: advance_def\<close>)
  have k: "knownMessage (w_repo ?w1) m"
    using known_advance[OF a1 known] known_core[OF step(1)] by simp
  have "advance svc ?w1 w' \<and> (r = Inr () \<longrightarrow>
     mget (ms_outbox (w_repo w')) (msg_ID m) = Some (finishedMessage m status (job_FinishedAt ?j)) \<and>
     mget (ms_jobAttempts (w_repo w')) (job_ID ?j) = Some ?j)"
    by (rule dispatcherFinish_run[OF _ k _ step(5) _ _ fin]) (use a2 st step(2) in \<open>simp_all add: advance_def\<close>)
  then show ?thesis
    using advance_trans[OF a2] hr out messageCore_id[OF step(1)]
    by (auto intro!: exI[of _ res] exI[of _ w1] exI[of _ m] exI[of _ status] exI[of _ ast] exI[of _ err] exI[of _ ?j])
qed

lemma dispatchLoop_advance:
  assumes h: "\<And>m. advances svc (handler m)"
  shows "sound svc w \<Longrightarrow> (\<And>m. m \<in> set ms \<Longrightarrow> knownMessage (w_repo w) m) \<Longrightarrow>
     dispatchLoop svc handler ms processed w = (r, w') \<Longrightarrow> advance svc w w'"
proof (induction ms arbitrary: w processed)
  case Nil
  then show ?case by (simp add: advance_refl)
next
  case (Cons m ms)
  obtain r1 w1 where c: "OutboxDispatcher_claim svc m w = (r1, w1)" by (cases "OutboxDispatcher_claim svc m w")
  have cr: "advance svc w w1 \<and> (r1 = Inr None \<or> (\<exists>c. r1 = Inr (Some c) \<and> claimedAs (w_repo w1) m (svc_clock svc (w_clock w)) c))"
    by (rule claim_run[OF Cons.prems(1) _ c]) (simp add: Cons.prems(2))
  have rest: "advance svc w w'" if "advance svc w w2" "dispatchLoop svc handler ms q w2 = (r, w')" for w2 q
    using Cons.IH[OF _ _ that(2)] that(1) Cons.prems(2) known_advance[OF that(1)] advance_trans[OF that(1)]
    by (simp add: advance_def)
  from cr show ?case
  proof (elim conjE disjE exE)
    assume "r1 = Inr None" "advance svc w w1"
    then show ?thesis using Cons.prems(3) rest[of w1] by (simp add: prog_simps c)
  next
    fix d assume d: "r1 = Inr (Some d)" "claimedAs (w_repo w1) m (svc_clock svc (w_clock w)) d" and a: "advance svc w w1"
    have "msg_ID d = msg_ID m" using d(2) messageCore_id[of d m] by (simp add: claimedAs_def)
    then have k: "knownMessage (w_repo w1) d" "msg_Status d = OutboxProcessing"
      using d(2) by (auto simp: claimedAs_def knownMessage_def)
    obtain r2 w2 where del: "deliverClaimed svc handler d w1 = (r2, w2)" by (cases "deliverClaimed svc handler d w1")
    have "advance svc w w2"
      using deliver_run[OF _ k h del] a advance_trans[OF a] by (simp add: advance_def)
    then show ?thesis using Cons.prems(3) rest[of w2] d(1) by (auto simp: prog_simps c del split: sum.splits)
  qed
qed

lemma due_known:
  assumes "sound svc w" "m \<in> set (listDueOutboxMessages (ms_outbox (w_repo w)) now limit)"
  shows "mget (ms_outbox (w_repo w)) (msg_ID m) = Some m \<and> outboxMessageDue m now"
proof -
  obtain k where k: "mget (ms_outbox (w_repo w)) k = Some m" and due: "outboxMessageDue m now"
    using assms(2) list_due.in_listing[of m now "ms_outbox (w_repo w)"] unfolding listDueOutboxMessages_take
    by (blast dest: in_set_takeD)
  then show ?thesis using keyedD[OF sound_keyed(11)[OF assms(1)] k] by simp
qed

lemma RunOnce_advances:
  assumes h: "\<And>m. advances svc (handler m)"
  shows "advances svc (OutboxDispatcher_RunOnce svc handler limit)"
proof (rule advancesI)
  fix w r w'
  assume s: "sound svc w" and run: "OutboxDispatcher_RunOnce svc handler limit w = (r, w')"
  let ?w = "w\<lparr>w_clock := Suc (w_clock w)\<rparr>"
  have a: "advance svc w ?w" using s by (intro advance_same_repo) simp_all
  have "dispatchLoop svc handler (listDueOutboxMessages (ms_outbox (w_repo w)) (svc_clock svc (w_clock w)) limit) 0 ?w = (r, w')"
    using run by (simp add: OutboxDispatcher_RunOnce_def prog_simps run_onRepo MemoryStore_ListDueOutboxMessages_def)
  then have "advance svc ?w w'"
    using due_known[OF s] a by (intro dispatchLoop_advance[OF h]) (auto simp: advance_def knownMessage_def)
  then show "advance svc w w'" by (rule advance_trans[OF a])
qed

section \<open>Properties of the dispatcher\<close>

lemma tryUpdate_refused:
  assumes "mget (ms_outbox (w_repo w)) (msg_ID m) = Some v"
    and "(msg_Status v, msg_ProcessingDeadlineAt v, msg_UpdatedAt v) \<noteq> (msg_Status c, msg_ProcessingDeadlineAt c, msg_UpdatedAt c)"
  shows "tryUpdate m c w = (Inr False, w)"
  using claim_table.upd_stale[OF assms]
  by (simp add: tryUpdate_def prog_simps run_onRepo MemoryStore_UpdateOutboxMessageIfCurrent_def)

lemma claim_of_claimed:
  assumes c: "claimedAs s m now c" and w: "w_repo w = s"
    and st: "msg_Status m = OutboxPending \<or> msg_Status m = OutboxProcessing \<and> msg_ProcessingDeadlineAt m \<le> now"
  shows "OutboxDispatcher_claim svc m w = (Inr None, w\<lparr>w_clock := Suc (w_clock w)\<rparr>)"
proof -
  have get: "mget (ms_outbox s) (msg_ID m) = Some c" using c by (simp add: claimedAs_def)
  have ne: "(msg_Status c, msg_ProcessingDeadlineAt c, msg_UpdatedAt c) \<noteq> (msg_Status m, msg_ProcessingDeadlineAt m, msg_UpdatedAt m)"
    using c st by (auto simp: claimedAs_def defaultOutboxProcessingLease_def Minute_def Second_def)
  have "tryUpdate p m (w\<lparr>w_clock := k\<rparr>) = (Inr False, w\<lparr>w_clock := k\<rparr>)" if "msg_ID p = msg_ID m" for p k
    by (rule tryUpdate_refused[OF _ ne]) (simp add: w get that)
  then show ?thesis using st by (auto simp: OutboxDispatcher_claim_def prog_simps)
qed

text \<open>
  Of two dispatchers that found the same due message, one delivers it: once a dispatcher has claimed
  it, a claim of the same message by any other one is declined and changes nothing, and the message is not
  due again before its lease is over.
\<close>

theorem outbox_claim_exclusive:
  assumes "sound svc w" and "knownMessage (w_repo w) m" and "outboxMessageDue m (svc_clock svc (w_clock w))"
    and "OutboxDispatcher_claim svc m w = (Inr (Some c), w')" and "w_repo w'' = w_repo w'"
  shows "OutboxDispatcher_claim svc' m w'' = (Inr None, w''\<lparr>w_clock := Suc (w_clock w'')\<rparr>) \<and>
     mget (ms_outbox (w_repo w'')) (msg_ID m) = Some c \<and>
     (\<forall>t < svc_clock svc (w_clock w) + defaultOutboxProcessingLease. \<not> outboxMessageDue c t)"
proof -
  have c: "claimedAs (w_repo w') m (svc_clock svc (w_clock w)) c" using claim_run[OF assms(1,2,4)] by simp
  moreover have "msg_Status m = OutboxPending \<or> msg_Status m = OutboxProcessing \<and> msg_ProcessingDeadlineAt m \<le> svc_clock svc (w_clock w)"
    using assms(3) by (auto simp: outboxMessageDue_def split: OutboxMessageStatus.splits)
  ultimately show ?thesis
    using claim_of_claimed[OF c assms(5)] assms(5) by (simp add: claimedAs_def outboxMessageDue_def)
qed


text \<open>A series of failed deliveries of one message: claimed at \<open>t\<close>, failed at \<open>t'\<close> with \<open>err\<close>.\<close>

definition failedDelivery :: "time \<times> time \<times> error \<Rightarrow> OutboxMessage \<Rightarrow> OutboxMessage" where
  "failedDelivery f m = (case f of (t, t', err) \<Rightarrow>
     (case deliveryOutcome (claimedMessage m t) (Inl err) t' of (m', status, _, _) \<Rightarrow> finishedMessage m' status t'))"

lemma failedDelivery_fields:
  assumes "0 \<le> msg_AttemptCount m" "msg_AttemptCount m < 2 ^ 63 - 1"
  shows "msg_AttemptCount (failedDelivery f m) = msg_AttemptCount m + 1"
    "effectiveOutboxMaxAttempts (failedDelivery f m) = effectiveOutboxMaxAttempts m"
    "msg_Status (failedDelivery f m) =
       (if effectiveOutboxMaxAttempts m \<le> msg_AttemptCount m + 1 then OutboxDeadLetter else OutboxPending)"
  using assms
  by (auto simp: failedDelivery_def deliveryOutcome_def Let_def claimedMessage_def finishedMessage_def effectiveOutboxMaxAttempts_def
      i64_small defaultOutboxMaxAttempts_def split: prod.splits if_splits)


section \<open>Retry and replay\<close>

lemma replay_fields [simp]:
  "msg_ID (outboxMessageForReplay m now) = msg_ID m" "msg_Status (outboxMessageForReplay m now) = OutboxPending"
  "messageCore (outboxMessageForReplay m now) = messageCore m"
  by (simp_all add: outboxMessageForReplay_def messageCore_def)

lemma replay_put:
  assumes s: "sound svc w" and get: "mget (ms_outbox (w_repo w)) k = Some m"
    and st: "msg_Status m = OutboxDeadLetter \<or> msg_Status m = OutboxFailed"
  shows "table_evolves messageStep (ms_outbox (w_repo w)) (mput (msg_ID m) (outboxMessageForReplay m now) (ms_outbox (w_repo w)))"
    "keyed msg_ID (mput (msg_ID m) (outboxMessageForReplay m now) (ms_outbox (w_repo w)))"
    "dom (mget (mput (msg_ID m) (outboxMessageForReplay m now) (ms_outbox (w_repo w)))) = dom (mget (ms_outbox (w_repo w)))"
proof -
  have "messageStep m (outboxMessageForReplay m now)" using st by (auto simp: messageStep_def)
  from put_outbox[OF s get this] show
    "table_evolves messageStep (ms_outbox (w_repo w)) (mput (msg_ID m) (outboxMessageForReplay m now) (ms_outbox (w_repo w)))"
    "keyed msg_ID (mput (msg_ID m) (outboxMessageForReplay m now) (ms_outbox (w_repo w)))"
    "dom (mget (mput (msg_ID m) (outboxMessageForReplay m now) (ms_outbox (w_repo w)))) = dom (mget (ms_outbox (w_repo w)))"
    by simp_all
qed

lemma retry_clean: "clean (Service_RetryOutboxMessage svc ctx actor ident)"
  unfolding Service_RetryOutboxMessage_def by (intro clean_rules)

lemma Retry_advances [advances_rules]: "advances svc (Service_RetryOutboxMessage svc ctx actor ident)"
proof (rule advances_clean[OF retry_clean])
  fix w m w'
  assume s: "sound svc w" and run: "Service_RetryOutboxMessage svc ctx actor ident w = (Inr m, w')"
  from run show "advance svc w w'"
  proof (clarsimp simp: Service_RetryOutboxMessage_def inr_simps Let_def dest!: guarded_D, goal_cases)
    case (1 v0 v)
    note put = replay_put[OF s 1(2)]
    show ?case using 1
      by (intro advance_to[OF s] update_rules; simp add: put sound_facts[OF s])
  qed
qed

text \<open>The dead letters a bulk replay selects.\<close>

definition replayable :: "ReplayDeadLetterOutboxRequest \<Rightarrow> OutboxMessage \<Rightarrow> bool" where
  "replayable req m \<longleftrightarrow> msg_Type m = rdl_EventType req \<and> rdl_CreatedFrom req \<le> msg_CreatedAt m \<and> msg_CreatedAt m \<le> rdl_CreatedTo req"

lemma replay_write:
  assumes s: "sound svc w" and get: "mget (ms_outbox (w_repo w)) (msg_ID m) = Some m" and st: "msg_Status m = OutboxDeadLetter"
  shows "\<exists>w'. onRepo (memoryTx_UpdateOutboxMessageStatusIfStatus (outboxMessageForReplay m now) OutboxDeadLetter) w = (Inr (), w') \<and>
     advance svc w w' \<and> ms_outbox (w_repo w') = mput (msg_ID m) (outboxMessageForReplay m now) (ms_outbox (w_repo w))"
proof -
  note put = replay_put[OF s get]
  let ?w = "w\<lparr>w_repo := (w_repo w)\<lparr>ms_outbox := mput (msg_ID m) (outboxMessageForReplay m now) (ms_outbox (w_repo w))\<rparr>\<rparr>"
  have "advance svc w ?w"
    by (rule advance_by_updates[OF s, of _ "w_repo ?w" "w_ids w"])
      (intro update_rules | simp add: put st sound_facts[OF s])+
  then show ?thesis
    by (intro exI[of _ ?w]) (simp add: run_onRepo tx_agree MemoryStore_UpdateOutboxMessageStatusIfStatus_def
        updateOutboxMessageStatusIfStatus_def get st)
qed

lemma replayLoop_run:
  assumes "sound svc w" "\<And>m. m \<in> set ms \<Longrightarrow> mget (ms_outbox (w_repo w)) (msg_ID m) = Some m \<and> msg_Status m = OutboxDeadLetter"
    and "distinct (map msg_ID ms)" and "int (length replayed) \<le> rdl_Limit req"
  shows "\<exists>w'. replayLoop req now ms replayed w = (Inr (replayed @ map (\<lambda>m. outboxMessageForReplay m now)
       (take (nat (rdl_Limit req) - length replayed) (filter (replayable req) ms))), w') \<and> advance svc w w' \<and>
     (\<forall>k. mget (ms_outbox (w_repo w')) k =
        (if k \<in> msg_ID ` set (take (nat (rdl_Limit req) - length replayed) (filter (replayable req) ms))
         then map_option (\<lambda>m. outboxMessageForReplay m now) (mget (ms_outbox (w_repo w)) k) else mget (ms_outbox (w_repo w)) k))"
  using assms
proof (induction ms arbitrary: w replayed)
  case Nil
  then show ?case by (simp add: advance_refl)
next
  case (Cons m ms)
  let ?n = "nat (rdl_Limit req) - length replayed"
  consider (full) "rdl_Limit req \<le> int (length replayed)" | (skip) "int (length replayed) < rdl_Limit req" "\<not> replayable req m"
    | (hit) "int (length replayed) < rdl_Limit req" "replayable req m" by linarith
  then show ?case
  proof cases
    case full
    then show ?thesis using Cons.prems(1) by (simp add: advance_refl)
  next
    case skip
    then have "replayLoop req now (m # ms) replayed w = replayLoop req now ms replayed w"
      by (auto simp: replayable_def)
    then show ?thesis using Cons.IH[of w replayed] Cons.prems skip(2) by simp
  next
    case hit
    have get: "mget (ms_outbox (w_repo w)) (msg_ID m) = Some m" "msg_Status m = OutboxDeadLetter" using Cons.prems(2) by simp_all
    from replay_write[OF Cons.prems(1) get, of now] obtain w1 where
      u: "onRepo (memoryTx_UpdateOutboxMessageStatusIfStatus (outboxMessageForReplay m now) OutboxDeadLetter) w = (Inr (), w1)"
      and a: "advance svc w w1" and t: "ms_outbox (w_repo w1) = mput (msg_ID m) (outboxMessageForReplay m now) (ms_outbox (w_repo w))"
      by blast
    have run: "replayLoop req now (m # ms) replayed w = replayLoop req now ms (replayed @ [outboxMessageForReplay m now]) w1"
      using hit by (auto simp: replayable_def run_thenM u)
    have other: "msg_ID m \<notin> msg_ID ` set ms" using Cons.prems(3) by simp
    have "mget (ms_outbox (w_repo w1)) (msg_ID d) = Some d \<and> msg_Status d = OutboxDeadLetter" if "d \<in> set ms" for d
      using Cons.prems(2)[of d] that other by (auto simp: t mget_mput rev_image_eqI)
    moreover have "sound svc w1" using a by (simp add: advance_def)
    ultimately obtain w' where
      w': "replayLoop req now ms (replayed @ [outboxMessageForReplay m now]) w1 = (Inr ((replayed @ [outboxMessageForReplay m now]) @
        map (\<lambda>m. outboxMessageForReplay m now) (take (?n - 1) (filter (replayable req) ms))), w')" "advance svc w1 w'"
      and tbl: "\<And>k. mget (ms_outbox (w_repo w')) k = (if k \<in> msg_ID ` set (take (?n - 1) (filter (replayable req) ms))
         then map_option (\<lambda>m. outboxMessageForReplay m now) (mget (ms_outbox (w_repo w1)) k) else mget (ms_outbox (w_repo w1)) k)"
      using Cons.IH[of w1 "replayed @ [outboxMessageForReplay m now]"] Cons.prems(3) hit(1) by auto
    have tk: "take ?n (filter (replayable req) (m # ms)) = m # take (?n - 1) (filter (replayable req) ms)"
      using hit by (simp add: take_Cons')
    have "msg_ID m \<notin> msg_ID ` set (take (?n - 1) (filter (replayable req) ms))"
      using other by (auto dest!: in_set_takeD)
    then have "mget (ms_outbox (w_repo w')) k = (if k \<in> msg_ID ` set (take ?n (filter (replayable req) (m # ms)))
         then map_option (\<lambda>m. outboxMessageForReplay m now) (mget (ms_outbox (w_repo w)) k) else mget (ms_outbox (w_repo w)) k)" for k
      unfolding tk using get(1) by (auto simp: tbl t mget_mput)
    then show ?thesis
      using w'(1) advance_trans[OF a w'(2)] unfolding run tk by (intro exI[of _ w']) simp
  qed
qed

lemma dead_letters_rows:
  assumes "sound svc w"
  shows "m \<in> set (listOutboxMessages (ms_outbox (w_repo w)) OutboxDeadLetter) \<Longrightarrow>
      mget (ms_outbox (w_repo w)) (msg_ID m) = Some m \<and> msg_Status m = OutboxDeadLetter"
    and "distinct (map msg_ID (listOutboxMessages (ms_outbox (w_repo w)) OutboxDeadLetter))"
proof -
  have k: "keyed msg_ID (ms_outbox (w_repo w))" by (rule sound_keyed(11)[OF assms])
  show "mget (ms_outbox (w_repo w)) (msg_ID m) = Some m \<and> msg_Status m = OutboxDeadLetter"
    if "m \<in> set (listOutboxMessages (ms_outbox (w_repo w)) OutboxDeadLetter)"
    using that keyedD[OF k] by (auto simp: listOutboxMessages_def in_mvals_iff)
  have "distinct (listOutboxMessages (ms_outbox (w_repo w)) OutboxDeadLetter)" by (rule list_messages.listing_distinct[OF k])
  moreover have "inj_on msg_ID (set (listOutboxMessages (ms_outbox (w_repo w)) OutboxDeadLetter))"
    by (rule inj_on_subset[OF keyed_inj[OF k]]) (auto simp: listOutboxMessages_def)
  ultimately show "distinct (map msg_ID (listOutboxMessages (ms_outbox (w_repo w)) OutboxDeadLetter))" by (simp add: distinct_map)
qed

definition replayRequest_ok :: "ReplayDeadLetterOutboxRequest \<Rightarrow> bool" where
  "replayRequest_ok req \<longleftrightarrow> \<not> isBlank (rdl_EventType req) \<and> rdl_CreatedFrom req \<noteq> 0 \<and> rdl_CreatedTo req \<noteq> 0 \<and>
     rdl_CreatedFrom req \<le> rdl_CreatedTo req \<and> 0 < rdl_Limit req"

definition replaySelection :: "MemoryStore \<Rightarrow> ReplayDeadLetterOutboxRequest \<Rightarrow> OutboxMessage list" where
  "replaySelection s req = take (nat (rdl_Limit req)) (filter (replayable req) (listOutboxMessages (ms_outbox s) OutboxDeadLetter))"

lemma replay_run:
  fixes svc w req
  defines "now \<equiv> svc_clock svc (w_clock w)"
  assumes s: "sound svc w" and ok: "replayRequest_ok req"
  shows "\<exists>w'. Service_ReplayDeadLetterOutboxMessages svc ctx actor req w =
       (Inr (map (\<lambda>m. outboxMessageForReplay m now) (replaySelection (w_repo w) req)), w') \<and> advance svc w w' \<and>
     (\<forall>k. mget (ms_outbox (w_repo w')) k = (if k \<in> msg_ID ` set (replaySelection (w_repo w) req)
        then map_option (\<lambda>m. outboxMessageForReplay m now) (mget (ms_outbox (w_repo w)) k) else mget (ms_outbox (w_repo w)) k))"
proof -
  let ?w = "w\<lparr>w_clock := Suc (w_clock w)\<rparr>" and ?ms = "listOutboxMessages (ms_outbox (w_repo w)) OutboxDeadLetter"
  have a: "advance svc w ?w" by (rule advance_clock[OF s])
  then have s1: "sound svc ?w" by (simp add: advance_def)
  have rows: "mget (ms_outbox (w_repo ?w)) (msg_ID m) = Some m \<and> msg_Status m = OutboxDeadLetter" if "m \<in> set ?ms" for m
    using dead_letters_rows(1)[OF s that] by simp
  obtain w1 where
    loop: "replayLoop req now ?ms [] ?w = (Inr (map (\<lambda>m. outboxMessageForReplay m now) (replaySelection (w_repo w) req)), w1)"
    and a1: "advance svc ?w w1" and tbl: "\<And>k. mget (ms_outbox (w_repo w1)) k = (if k \<in> msg_ID ` set (replaySelection (w_repo w) req)
        then map_option (\<lambda>m. outboxMessageForReplay m now) (mget (ms_outbox (w_repo w)) k) else mget (ms_outbox (w_repo w)) k)"
    using replayLoop_run[OF s1 rows dead_letters_rows(2)[OF s], of "[]" req now] ok
    by (auto simp: replayRequest_ok_def replaySelection_def)
  have s2: "sound svc w1" using a1 by (simp add: advance_def)
  define flds where "flds = auditFields [''outbox_message_type'', rdl_EventType req,
    ''created_from'', rt_rfc3339nano (svc_runtime svc) (rdl_CreatedFrom req),
    ''created_to'', rt_rfc3339nano (svc_runtime svc) (rdl_CreatedTo req), ''limit'', Itoa (rdl_Limit req),
    ''replayed_count'', Itoa (int (length (replaySelection (w_repo w) req)))]"
  let ?w1 = "w1\<lparr>w_ids := Suc (w_ids w1)\<rparr>"
  have a2: "advance svc w1 ?w1" using s2 by (intro advance_same_repo) simp_all
  obtain w2 where ev: "createAuditEvent svc ctx actor ''outbox.bulk_replay_requested'' ''outbox_messages'' (svc_idgen svc (w_ids w1)) now flds ?w1 = (Inr (), w2)"
    and out: "ms_outbox (w_repo w2) = ms_outbox (w_repo w1)" by (simp add: run_createAuditEvent)
  have "advance svc ?w1 w2" using advancesD[OF events_advances(1) _ ev] a2 by (simp add: advance_def)
  then have adv: "advance svc w w2" using a a1 a2 by (blast intro: advance_trans)
  have "Service_ReplayDeadLetterOutboxMessages svc ctx actor req w =
      (Inr (map (\<lambda>m. outboxMessageForReplay m now) (replaySelection (w_repo w) req)), w2)"
    using ok loop ev unfolding now_def flds_def
    by (simp add: Service_ReplayDeadLetterOutboxMessages_def replayRequest_ok_def IsZero_def prog_simps run_WithinTx run_onRepo
        tx_agree MemoryStore_ListOutboxMessages_def)
  then show ?thesis using adv tbl out by auto
qed

text \<open>
  A valid bulk replay never fails; it puts back exactly the oldest dead letters of the event type and
  period, at most as many as the limit, with a fresh attempt count, and leaves every other message alone.
\<close>

theorem replay_exact:
  assumes "sound svc w" and "replayRequest_ok req"
  shows "\<exists>w'. Service_ReplayDeadLetterOutboxMessages svc ctx actor req w =
       (Inr (map (\<lambda>m. outboxMessageForReplay m (svc_clock svc (w_clock w))) (replaySelection (w_repo w) req)), w') \<and>
     (\<forall>k. mget (ms_outbox (w_repo w')) k = (if k \<in> msg_ID ` set (replaySelection (w_repo w) req)
        then map_option (\<lambda>m. outboxMessageForReplay m (svc_clock svc (w_clock w))) (mget (ms_outbox (w_repo w)) k)
        else mget (ms_outbox (w_repo w)) k))"
  using replay_run[OF assms] by blast

lemma replayLoop_grows [clean_rules]: "grows (replayLoop req now ms replayed)"
  by (induction ms arbitrary: replayed) (auto intro!: clean_rules)

lemma replay_clean: "clean (Service_ReplayDeadLetterOutboxMessages svc ctx actor req)"
  unfolding Service_ReplayDeadLetterOutboxMessages_def by (intro clean_rules)

lemma Replay_advances [advances_rules]: "advances svc (Service_ReplayDeadLetterOutboxMessages svc ctx actor req)"
proof (rule advances_clean[OF replay_clean])
  fix w r w'
  assume s: "sound svc w" and run: "Service_ReplayDeadLetterOutboxMessages svc ctx actor req w = (Inr r, w')"
  then have "replayRequest_ok req"
    by (auto simp: Service_ReplayDeadLetterOutboxMessages_def failIf_def replayRequest_ok_def IsZero_def not_less split: if_splits)
  from replay_run[OF s this, of ctx actor] run show "advance svc w w'" by auto
qed

section \<open>Frames\<close>

lemma retry_replay_frames [frame_rules]:
  "preserves untouched (Service_RetryOutboxMessage svc ctx actor ident)"
  "preserves audit_appends (Service_RetryOutboxMessage svc ctx actor ident)"
  "preserves revocations_kept (Service_RetryOutboxMessage svc ctx actor ident)"
  unfolding Service_RetryOutboxMessage_def by (intro frame_rules)+

lemma replayLoop_frames [frame_rules]:
  "preserves untouched (replayLoop req now ms replayed)" "preserves audit_appends (replayLoop req now ms replayed)"
  "preserves revocations_kept (replayLoop req now ms replayed)"
  by (induction ms arbitrary: replayed) (auto intro!: frame_rules)

lemma replay_frames [frame_rules]:
  "preserves untouched (Service_ReplayDeadLetterOutboxMessages svc ctx actor req)"
  "preserves audit_appends (Service_ReplayDeadLetterOutboxMessages svc ctx actor req)"
  "preserves revocations_kept (Service_ReplayDeadLetterOutboxMessages svc ctx actor req)"
  unfolding Service_ReplayDeadLetterOutboxMessages_def by (intro frame_rules)+

lemma dispatchLoop_frames:
  assumes "\<And>m. preserves R (handler m)" "frame_relation R"
    and "\<And>m c. preserves R (onRepo (MemoryStore_UpdateOutboxMessageIfCurrent m c))"
    and "\<And>m c. preserves R (onRepo (memoryTx_UpdateOutboxMessageIfCurrent m c))"
    and "\<And>j. preserves R (onRepo (memoryTx_CreateJobAttempt j))"
  shows "preserves R (dispatchLoop svc handler ms processed)"
proof (induction ms arbitrary: processed)
  case Nil
  then show ?case unfolding dispatchLoop.simps by (rule frame_relation.frame_simple(1)[OF assms(2)])
next
  case (Cons m ms)
  note rules = frame_relation.frame_bind[OF assms(2)] frame_relation.frame_then[OF assms(2)] frame_relation.frame_simple[OF assms(2)]
    frame_relation.frame_structure[OF assms(2)] frame_relation.frame_tx[OF assms(2)] assms
  show ?case
    using Cons
    by (auto simp: OutboxDispatcher_claim_def tryUpdate_def deliverClaimed_def OutboxDispatcher_finish_def intro!: rules split: prod.split)
qed

lemma RunOnce_frames:
  assumes "\<And>m. preserves untouched (handler m)" "\<And>m. preserves audit_appends (handler m)" "\<And>m. preserves revocations_kept (handler m)"
  shows "preserves untouched (OutboxDispatcher_RunOnce svc handler limit)"
    "preserves audit_appends (OutboxDispatcher_RunOnce svc handler limit)"
    "preserves revocations_kept (OutboxDispatcher_RunOnce svc handler limit)"
  unfolding OutboxDispatcher_RunOnce_def
  by (intro frame_rules dispatchLoop_frames issuance_frame.frame_relation_axioms audit_frame.frame_relation_axioms
      revocation_frame.frame_relation_axioms assms)+

section \<open>Webhook deliveries\<close>

lemma upsert_advances [advances_rules]: "advances svc (onRepo (MemoryStore_UpsertWebhookDelivery d))"
proof (rule advancesI)
  fix w r w'
  assume s: "sound svc w" and run: "onRepo (MemoryStore_UpsertWebhookDelivery d) w = (r, w')"
  have k: "keyed (\<lambda>d. webhookDeliveryKey (whd_OutboxMessageID d) (whd_EndpointID d)) (ms_webhookDeliveries (w_repo w))"
    using s by (simp add: sound_def store_inv_def tables_keyed_def)
  have w': "w' = w\<lparr>w_repo := (w_repo w)\<lparr>ms_webhookDeliveries :=
     mput (webhookDeliveryKey (whd_OutboxMessageID d) (whd_EndpointID d)) d (ms_webhookDeliveries (w_repo w))\<rparr>\<rparr>"
    using run by (simp add: run_onRepo MemoryStore_UpsertWebhookDelivery_def)
  show "advance svc w w'"
    by (rule advance_by_updates[OF s, of _ "w_repo w'" "w_ids w"])
      (use sound_store_inv[OF s] k in \<open>simp_all add: w' evolves_def store_inv_def tables_keyed_def used_ids_def\<close>)
qed

lemma deliverTo_advances [advances_rules]: "advances svc (deliverTo svc client m data e)"
  unfolding deliverTo_def currentDelivery_def postWebhook_def recordWebhookDelivery_def by (intro advances_rules)

lemma Webhook_advances [advances_rules]: "advances svc (WebhookOutboxHandler_HandleOutboxMessage svc client m)"
  unfolding WebhookOutboxHandler_HandleOutboxMessage_def by (intro advances_rules)

lemma deliverTo_frames [frame_rules]:
  "preserves untouched (deliverTo svc client m data e)" "preserves audit_appends (deliverTo svc client m data e)"
  "preserves revocations_kept (deliverTo svc client m data e)"
  unfolding deliverTo_def currentDelivery_def postWebhook_def recordWebhookDelivery_def by (intro frame_rules)+

lemma Webhook_frames [frame_rules]:
  "preserves untouched (WebhookOutboxHandler_HandleOutboxMessage svc client m)"
  "preserves audit_appends (WebhookOutboxHandler_HandleOutboxMessage svc client m)"
  "preserves revocations_kept (WebhookOutboxHandler_HandleOutboxMessage svc client m)"
  unfolding WebhookOutboxHandler_HandleOutboxMessage_def by (intro frame_rules)+

definition deliveredTo :: "MemoryStore \<Rightarrow> OutboxMessage \<Rightarrow> NotificationEndpoint \<Rightarrow> bool" where
  "deliveredTo s m e \<longleftrightarrow>
     (\<exists>d. mget (ms_webhookDeliveries s) (webhookDeliveryKey (msg_ID m) (ep_ID e)) = Some d \<and> whd_Status d = JobAttemptSucceeded)"

lemma currentDelivery_run:
  "currentDelivery m e w = (Inr (case mget (ms_webhookDeliveries (w_repo w)) (webhookDeliveryKey (msg_ID m) (ep_ID e)) of
     None \<Rightarrow> zero_WebhookDelivery | Some d \<Rightarrow> d), w)"
  by (simp add: currentDelivery_def prog_simps run_onRepo MemoryStore_GetWebhookDelivery_def getWebhookDelivery_def split: option.split)

lemma deliverTo_delivered: "deliveredTo (w_repo w) m e \<Longrightarrow> deliverTo svc client m data e w = (Inr (), w)"
  by (auto simp: deliverTo_def deliveredTo_def prog_simps currentDelivery_run)

lemma postWebhook_run:
  "postWebhook svc client e m data w = (r, w') \<Longrightarrow> w_repo w' = w_repo w"
  by (auto simp: postWebhook_def prog_simps split: sum.splits prod.splits if_splits)

text \<open>One endpoint: nothing that was delivered is lost, and success means delivered.\<close>

lemma deliverTo_run:
  assumes run: "deliverTo svc client m data e w = (r, w')"
  shows "deliveredTo (w_repo w) m' e' \<Longrightarrow> deliveredTo (w_repo w') m' e'"
    and "r = Inr () \<Longrightarrow> webhookEndpointMatches e (msg_Type m) \<Longrightarrow> deliveredTo (w_repo w') m e"
    and "ms_notifications (w_repo w') = ms_notifications (w_repo w)"
proof -
  let ?k = "webhookDeliveryKey (msg_ID m) (ep_ID e)"
  have "(deliveredTo (w_repo w) m' e' \<longrightarrow> deliveredTo (w_repo w') m' e') \<and>
    (r = Inr () \<longrightarrow> webhookEndpointMatches e (msg_Type m) \<longrightarrow> deliveredTo (w_repo w') m e) \<and>
    ms_notifications (w_repo w') = ms_notifications (w_repo w)"
  proof (cases "webhookEndpointMatches e (msg_Type m) \<and> \<not> deliveredTo (w_repo w) m e")
    case False
    then show ?thesis using run deliverTo_delivered[of w m e svc client data] by (auto simp: deliverTo_def)
  next
    case True
    let ?d = "case mget (ms_webhookDeliveries (w_repo w)) ?k of None \<Rightarrow> zero_WebhookDelivery | Some d \<Rightarrow> d"
    have st: "whd_Status ?d \<noteq> JobAttemptSucceeded"
      using True by (auto simp: deliveredTo_def zero_WebhookDelivery_def split: option.splits)
    obtain p w1 where post: "postWebhook svc client e m data w = (p, w1)" by (cases "postWebhook svc client e m data w")
    have w1: "w_repo w1 = w_repo w" using postWebhook_run[OF post] .
    have key: "webhookDeliveryKey (msg_ID m') (ep_ID e') \<noteq> ?k" if "deliveredTo (w_repo w) m' e'"
      using that True by (auto simp: deliveredTo_def)
    show ?thesis
    proof (cases p)
      case (Inl err)
      then show ?thesis using run True st key
        by (auto simp: deliverTo_def prog_simps currentDelivery_run post recordWebhookDelivery_def run_onRepo w1
            MemoryStore_UpsertWebhookDelivery_def newDelivery_def deliveredTo_def mget_mput)
    next
      case (Inr u)
      then show ?thesis using run True st key
        by (auto simp: deliverTo_def prog_simps currentDelivery_run post recordWebhookDelivery_def run_onRepo w1
            MemoryStore_UpsertWebhookDelivery_def newDelivery_def deliveredTo_def mget_mput)
    qed
  qed
  then show "deliveredTo (w_repo w) m' e' \<Longrightarrow> deliveredTo (w_repo w') m' e'"
    "r = Inr () \<Longrightarrow> webhookEndpointMatches e (msg_Type m) \<Longrightarrow> deliveredTo (w_repo w') m e"
    "ms_notifications (w_repo w') = ms_notifications (w_repo w)" by blast+
qed

lemma deliverAll_run:
  "forM es (deliverTo svc client m data) w = (r, w') \<Longrightarrow>
     (\<forall>m' e'. deliveredTo (w_repo w) m' e' \<longrightarrow> deliveredTo (w_repo w') m' e') \<and>
     ms_notifications (w_repo w') = ms_notifications (w_repo w) \<and>
     (r = Inr () \<longrightarrow> (\<forall>e \<in> set es. webhookEndpointMatches e (msg_Type m) \<longrightarrow> deliveredTo (w_repo w') m e))"
proof (induction es arbitrary: w)
  case (Cons e es)
  obtain r1 w1 where d: "deliverTo svc client m data e w = (r1, w1)" by (cases "deliverTo svc client m data e w")
  note run = deliverTo_run[OF d]
  show ?case
  proof (cases r1)
    case (Inl err)
    then show ?thesis using Cons.prems run by (auto simp: run_thenM d)
  next
    case (Inr u)
    then have rest: "forM es (deliverTo svc client m data) w1 = (r, w')" using Cons.prems by (simp add: run_thenM d)
    then show ?thesis using Cons.IH[OF rest] run Inr by auto
  qed
qed simp

lemma deliverAll_delivered:
  "(\<And>e. e \<in> set es \<Longrightarrow> webhookEndpointMatches e (msg_Type m) \<Longrightarrow> deliveredTo (w_repo w) m e) \<Longrightarrow>
     forM es (deliverTo svc client m data) w = (Inr (), w)"
proof (induction es)
  case (Cons e es)
  have "deliverTo svc client m data e w = (Inr (), w)"
  proof (cases "webhookEndpointMatches e (msg_Type m)")
    case True
    then show ?thesis using Cons.prems[of e] by (intro deliverTo_delivered) simp
  qed (simp add: deliverTo_def)
  then show ?case using Cons by (simp add: run_thenM)
qed simp


end
