(* ===== verification/Base64.thy ===== *)
theory Base64
  imports GoLib
begin

text \<open>
  \<^verbatim>\<open>encoding/base64\<close>'s \<^verbatim>\<open>RawURLEncoding\<close>, used for API key tokens, ACME nonces and JWS segments: the URL
  alphabet without padding. Like Go's, the decoder skips carriage returns and newlines and does not
  check the unused bits of the last character.
\<close>

definition b64_alphabet :: string where
  "b64_alphabet = ''ABCDEFGHIJKLMNOPQRSTUVWXYZabcdefghijklmnopqrstuvwxyz0123456789-_''"

definition b64_char :: "nat \<Rightarrow> char" where
  "b64_char n = b64_alphabet ! n"

definition b64_index :: "char \<Rightarrow> nat option" where
  "b64_index c =
     (let n = of_char c :: nat in
      if 65 \<le> n \<and> n \<le> 90 then Some (n - 65)
      else if 97 \<le> n \<and> n \<le> 122 then Some (n - 71)
      else if 48 \<le> n \<and> n \<le> 57 then Some (n + 4)
      else if n = 45 then Some 62
      else if n = 95 then Some 63
      else None)"

fun b64_encode :: "nat list \<Rightarrow> nat list" where
  "b64_encode [] = []"
| "b64_encode [a] = [a div 4, (a mod 4) * 16]"
| "b64_encode [a, b] = [a div 4, (a mod 4) * 16 + b div 16, (b mod 16) * 4]"
| "b64_encode (a # b # c # rest) =
     a div 4 # ((a mod 4) * 16 + b div 16) # ((b mod 16) * 4 + c div 64) # (c mod 64) # b64_encode rest"

fun b64_decode :: "nat list \<Rightarrow> nat list option" where
  "b64_decode [] = Some []"
| "b64_decode [w] = None"
| "b64_decode [w, x] = Some [w * 4 + x div 16]"
| "b64_decode [w, x, y] = Some [w * 4 + x div 16, (x mod 16) * 16 + y div 4]"
| "b64_decode (w # x # y # z # rest) =
     map_option (\<lambda>bs. (w * 4 + x div 16) # ((x mod 16) * 16 + y div 4) # ((y mod 4) * 64 + z) # bs) (b64_decode rest)"

fun option_list :: "'a option list \<Rightarrow> 'a list option" where
  "option_list [] = Some []"
| "option_list (None # xs) = None"
| "option_list (Some x # xs) = map_option (\<lambda>ys. x # ys) (option_list xs)"

definition RawURLEncoding_EncodeToString :: "string \<Rightarrow> string" where
  "RawURLEncoding_EncodeToString src = map b64_char (b64_encode (map of_char src))"

definition RawURLEncoding_DecodeString :: "string \<Rightarrow> string option" where
  "RawURLEncoding_DecodeString s =
     (case option_list (map b64_index (filter (\<lambda>c. c \<noteq> CHR 0x0D \<and> c \<noteq> CHR 0x0A) s)) of
        None \<Rightarrow> None
      | Some ns \<Rightarrow> map_option (map char_of) (b64_decode ns))"

section \<open>Decoding what was encoded\<close>

lemma b64_encode_sextets: "(\<And>a. a \<in> set xs \<Longrightarrow> a < 256) \<Longrightarrow> n \<in> set (b64_encode xs) \<Longrightarrow> n < 64"
proof (induction xs rule: b64_encode.induct)
  case (4 a b c rest)
  have "a < 256" "b < 256" "c < 256" using 4(2) by simp_all
  then have "a div 4 < 64" "(a mod 4) * 16 + b div 16 < 64" "(b mod 16) * 4 + c div 64 < 64" "c mod 64 < 64" by linarith+
  then show ?case using 4 by auto
next
  case (3 a b)
  have "a < 256" "b < 256" using 3(1) by simp_all
  then have "a div 4 < 64" "(a mod 4) * 16 + b div 16 < 64" "(b mod 16) * 4 < 64" by linarith+
  then show ?case using 3(2) by auto
qed auto

lemma b64_decode_encode: "(\<And>a. a \<in> set xs \<Longrightarrow> a < 256) \<Longrightarrow> b64_decode (b64_encode xs) = Some xs"
proof (induction xs rule: b64_encode.induct)
  case (2 a)
  then show ?case by simp
next
  case (3 a b)
  have "(a mod 4 * 16 + b div 16) div 16 = a mod 4" "(a mod 4 * 16 + b div 16) mod 16 = b div 16"
    using 3[of b] by simp_all
  then show ?case by simp
next
  case (4 a b c rest)
  have "b < 256" "c < 256" using 4(2) by simp_all
  then have "(a mod 4 * 16 + b div 16) div 16 = a mod 4" "(a mod 4 * 16 + b div 16) mod 16 = b div 16"
    "(b mod 16 * 4 + c div 64) div 4 = b mod 16" "(b mod 16 * 4 + c div 64) mod 4 = c div 64" by simp_all
  moreover have "b64_decode (b64_encode rest) = Some rest" using 4 by simp
  ultimately show ?case by simp
qed simp

lemma b64_alphabet_table: "map b64_index b64_alphabet = map Some [0..<64]"
  by (simp add: b64_alphabet_def b64_index_def Let_def upt_rec)

lemma b64_index_char:
  assumes "n < 64"
  shows "b64_index (b64_char n) = Some n" "b64_char n \<noteq> CHR 0x0D" "b64_char n \<noteq> CHR 0x0A"
proof -
  have len: "length b64_alphabet = 64" by (simp add: b64_alphabet_def)
  have "b64_index (b64_char n) = map b64_index b64_alphabet ! n" using assms len by (simp add: b64_char_def)
  then show ix: "b64_index (b64_char n) = Some n" using assms by (simp add: b64_alphabet_table)
  have "b64_index CHR 0x0D = None" "b64_index CHR 0x0A = None" by (simp_all add: b64_index_def)
  then show "b64_char n \<noteq> CHR 0x0D" "b64_char n \<noteq> CHR 0x0A" using ix by (metis option.distinct(1))+
qed

lemma option_list_Some: "option_list (map Some xs) = Some xs"
  by (induction xs) simp_all

text \<open>
  Decoding what was encoded gives the bytes back, for every byte string.
\<close>

theorem RawURLEncoding_roundtrip: "RawURLEncoding_DecodeString (RawURLEncoding_EncodeToString s) = Some s"
proof -
  let ?ns = "b64_encode (map of_char s :: nat list)"
  have small: "a < 256" if "a \<in> set (map of_char s :: nat list)" for a using that by auto
  have "\<And>n. n \<in> set ?ns \<Longrightarrow> n < 64" using b64_encode_sextets[OF small] by blast
  then have flt: "filter (\<lambda>c. c \<noteq> CHR 0x0D \<and> c \<noteq> CHR 0x0A) (map b64_char ?ns) = map b64_char ?ns"
    and ix: "map b64_index (map b64_char ?ns) = map Some ?ns"
    using b64_index_char by (auto simp: filter_id_conv)
  have "b64_decode ?ns = Some (map of_char s)" by (rule b64_decode_encode[OF small])
  moreover have "map char_of (map of_char s :: nat list) = s" by (simp add: comp_def)
  ultimately show ?thesis
    unfolding RawURLEncoding_DecodeString_def RawURLEncoding_EncodeToString_def by (simp only: flt ix option_list_Some option.case option.map)
qed

text \<open>The encoding holds characters of the alphabet only, so nothing is trimmed off it.\<close>

lemma encoded_alphabet: "c \<in> set (RawURLEncoding_EncodeToString s) \<Longrightarrow> b64_index c \<noteq> None"
proof -
  assume "c \<in> set (RawURLEncoding_EncodeToString s)"
  then obtain n where n: "n \<in> set (b64_encode (map of_char s :: nat list))" "c = b64_char n"
    by (auto simp: RawURLEncoding_EncodeToString_def)
  have "n < 64" by (rule b64_encode_sextets[OF _ n(1)]) auto
  then show ?thesis using b64_index_char n(2) by simp
qed

lemma b64_encode_Nil [simp]: "b64_encode xs = [] \<longleftrightarrow> xs = []"
  by (cases xs rule: b64_encode.cases) simp_all

lemma encoded_Nil [simp]: "RawURLEncoding_EncodeToString s = [] \<longleftrightarrow> s = []"
  by (simp add: RawURLEncoding_EncodeToString_def)

lemma encoded_length: "length s \<le> length (RawURLEncoding_EncodeToString s)"
proof -
  have "length xs \<le> length (b64_encode xs)" for xs by (induction xs rule: b64_encode.induct) simp_all
  from this[of "map of_char s"] show ?thesis by (simp add: RawURLEncoding_EncodeToString_def)
qed

lemma TrimSpace_encoded [simp]: "TrimSpace (RawURLEncoding_EncodeToString s) = RawURLEncoding_EncodeToString s"
proof (cases "RawURLEncoding_EncodeToString s")
  case (Cons c cs)
  have "list_all (\<lambda>r. b64_index (hd r) = None \<and> b64_index (last r) = None) space_runes" by code_simp
  then have spaces: "b64_index (hd r) = None \<and> b64_index (last r) = None" if "r \<in> set space_runes" for r
    using that by (auto simp: list_all_iff)
  have "b64_index c \<noteq> None" "b64_index (last (c # cs)) \<noteq> None"
    using encoded_alphabet[of _ s] Cons by (metis list.set_intros(1) last_in_set list.distinct(1))+
  with spaces show ?thesis unfolding Cons by (intro TrimSpace_plain[OF refl]) metis+
qed (simp add: RawURLEncoding_EncodeToString_def)

end
