(* ===== verification/ApiKeys.thy ===== *)
theory ApiKeys
  imports Frames Base64
begin

text \<open>
  API keys: hashing and fingerprints, authentication, creation, disabling and rotation
  (\<^verbatim>\<open>AuthenticateAPIKey\<close>, \<^verbatim>\<open>EnsureAPIKey\<close>, \<^verbatim>\<open>CreateAPIKey\<close>, \<^verbatim>\<open>DisableAPIKey\<close>, \<^verbatim>\<open>RotateAPIKey\<close> of
  \<^verbatim>\<open>internal/lifecycle/service.go\<close>). A token is never stored, only its hash: \<open>sha256:\<close> or, with a pepper,
  \<open>hmac-sha256:\<close>.
\<close>

section \<open>Hashes\<close>

definition HashAPIKeyToken :: "Runtime \<Rightarrow> string \<Rightarrow> string" where
  "HashAPIKeyToken rt token = ''sha256:'' @ rt_sha256hex rt token"

definition HashAPIKeyTokenWithPepper :: "Runtime \<Rightarrow> string \<Rightarrow> string \<Rightarrow> string" where
  "HashAPIKeyTokenWithPepper rt token pepper =
     (let pepper = TrimSpace pepper in
      if pepper = [] then HashAPIKeyToken rt token
      else ''hmac-sha256:'' @ rt_hmacSha256hex rt pepper token)"

definition APIKeyTokenFingerprint :: "string \<Rightarrow> string" where
  "APIKeyTokenFingerprint tokenHash =
     (case Cut tokenHash CHR '':'' of (algorithm, hash, ok) \<Rightarrow>
        if \<not> ok \<or> algorithm = [] \<or> hash = [] then []
        else algorithm @ '':'' @ (if length hash > 16 then take 16 hash else hash))"

definition hashAPIKeyToken :: "Service \<Rightarrow> string \<Rightarrow> string" where
  "hashAPIKeyToken svc token = HashAPIKeyTokenWithPepper (svc_runtime svc) token (svc_apiKeyPepper svc)"

definition getAPIKeyByToken :: "Service \<Rightarrow> string \<Rightarrow> APIKey svc" where
  "getAPIKeyByToken svc token =
     (let legacy = onRepo (MemoryStore_GetAPIKeyByTokenHash (HashAPIKeyToken (svc_runtime svc) token)) in
      if TrimSpace (svc_apiKeyPepper svc) \<noteq> [] then
        bindM (attemptM (onRepo (MemoryStore_GetAPIKeyByTokenHash (hashAPIKeyToken svc token)))) (\<lambda>r.
          case r of
            Inr key \<Rightarrow> returnM key
          | Inl err \<Rightarrow> if errors_Is err ErrAPIKeyNotFound then legacy else throwM err)
      else legacy)"

section \<open>Operations\<close>

definition Service_AuthenticateAPIKey :: "Service \<Rightarrow> string \<Rightarrow> APIKey svc" where
  "Service_AuthenticateAPIKey svc rawToken =
     (let token = TrimSpace rawToken in
      failIf (token = []) ErrUnauthorized
     (bindM (attemptM (getAPIKeyByToken svc token)) (\<lambda>r.
      case r of
        Inl err \<Rightarrow> if errors_Is err ErrAPIKeyNotFound then throwM ErrUnauthorized else throwM err
      | Inr key \<Rightarrow>
          failIf (key_Status key \<noteq> APIKeyActive \<or> TrimSpace (key_Actor key) = []) ErrUnauthorized
         (failIf (length (key_Scopes key) = 0) ErrUnauthorized
         (bindM (Now svc) (\<lambda>now.
          failIf (\<not> IsZero (key_ExpiresAt key) \<and> \<not> key_ExpiresAt key > now) ErrUnauthorized
         (let used = key\<lparr>key_LastUsedAt := now, key_UpdatedAt := now\<rparr> in
          bindM (attemptM (onRepo (MemoryStore_UpdateAPIKeyIfStatus used APIKeyActive))) (\<lambda>u.
          case u of
            Inl err \<Rightarrow>
              if errors_Is err ErrAPIKeyNotFound \<or> errors_Is err ErrInvalidTransition then throwM ErrUnauthorized else throwM err
          | Inr _ \<Rightarrow> returnM used))))))))"

fun apiKeyScopesLoop :: "APIKeyScope list \<Rightarrow> APIKeyScope list \<Rightarrow> unit result" where
  "apiKeyScopesLoop [] seen = Inr ()"
| "apiKeyScopesLoop (scope # rest) seen =
     (if scope \<noteq> APIKeyScopeRead \<and> scope \<noteq> APIKeyScopeWrite \<and> scope \<noteq> APIKeyScopeOperator then Inl ErrInvalidRequest
      else if scope \<in> set seen then Inl ErrInvalidRequest
      else apiKeyScopesLoop rest (scope # seen))"

definition validateAPIKeyScopes :: "APIKeyScope list \<Rightarrow> unit result" where
  "validateAPIKeyScopes scopes = (if length scopes = 0 then Inl ErrInvalidRequest else apiKeyScopesLoop scopes [])"

definition generateAPIKeyToken :: "Service \<Rightarrow> string svc" where
  "generateAPIKeyToken svc =
     bindM (callExt (\<lambda>n. rt_randBytes (svc_runtime svc) n 32)) (\<lambda>raw. returnM (RawURLEncoding_EncodeToString raw))"

definition apiKeyScopesToStrings :: "APIKeyScope list \<Rightarrow> string list" where
  "apiKeyScopesToStrings scopes = map str_APIKeyScope scopes"

definition apiKeyAuditFields :: "APIKey \<Rightarrow> json gomap" where
  "apiKeyAuditFields key =
     mput ''api_key_scopes'' (JList (map JString (apiKeyScopesToStrings (key_Scopes key))))
       (auditFields [''api_key_id'', key_ID key, ''api_key_name'', key_Name key, ''api_key_actor'', key_Actor key])"

definition newAPIKey ::
  "string \<Rightarrow> string \<Rightarrow> string \<Rightarrow> string \<Rightarrow> APIKeyScope list \<Rightarrow> time \<Rightarrow> time \<Rightarrow> APIKey" where
  "newAPIKey ident name tokenHash actor scopes expiresAt now =
     \<lparr>key_ID = ident, key_Name = name, key_TokenHash = tokenHash, key_Status = APIKeyActive, key_Actor = actor,
      key_Scopes = copySlice scopes, key_ExpiresAt = expiresAt, key_LastUsedAt = time_zero, key_CreatedAt = now, key_UpdatedAt = now\<rparr>"

text \<open>What is required of a key that already has the bootstrap token.\<close>

definition existingKeyUsable :: "APIKey \<Rightarrow> unit result" where
  "existingKeyUsable existing =
     (if key_Status existing \<noteq> APIKeyActive \<or> TrimSpace (key_Actor existing) = [] \<or> length (key_Scopes existing) = 0
      then Inl ErrInvalidTransition
      else case validateAPIKeyScopes (key_Scopes existing) of
             Inl err \<Rightarrow> Inl err
           | Inr _ \<Rightarrow> if APIKeyScopeOperator \<in> set (key_Scopes existing) then Inr () else Inl ErrInvalidTransition)"

definition Service_EnsureAPIKey :: "Service \<Rightarrow> Context \<Rightarrow> string \<Rightarrow> EnsureAPIKeyRequest \<Rightarrow> APIKey svc" where
  "Service_EnsureAPIKey svc ctx actor req =
     failIf (TrimSpace (ekr_Name req) = [] \<or> TrimSpace (ekr_Token req) = [] \<or> TrimSpace (ekr_Actor req) = []) ErrInvalidRequest
    (let scopes = (if length (ekr_Scopes req) = 0 then [APIKeyScopeOperator] else ekr_Scopes req) in
     thenM (liftE (validateAPIKeyScopes scopes))
    (let tokenHash = hashAPIKeyToken svc (ekr_Token req) in
     bindM (attemptM (getAPIKeyByToken svc (ekr_Token req))) (\<lambda>r.
     case r of
       Inr existing \<Rightarrow> thenM (liftE (existingKeyUsable existing)) (returnM existing)
     | Inl err \<Rightarrow>
         failIf (\<not> errors_Is err ErrAPIKeyNotFound) err
        (bindM (Now svc) (\<lambda>now.
         bindM (NewID svc) (\<lambda>ident.
         let key = newAPIKey ident (TrimSpace (ekr_Name req)) tokenHash (TrimSpace (ekr_Actor req)) scopes time_zero now in
         thenM (MemoryStore_WithinTx (
           thenM (onRepo (memoryTx_CreateAPIKey key))
             (createAuditEvent svc ctx actor ''api_key.created'' ''api_key'' (key_ID key) now
               (auditFields [''api_key_id'', key_ID key, ''api_key_name'', key_Name key, ''api_key_actor'', key_Actor key])) ))
           (returnM key)))))))"

definition Service_CreateAPIKey :: "Service \<Rightarrow> Context \<Rightarrow> string \<Rightarrow> CreateAPIKeyRequest \<Rightarrow> CreateAPIKeyResult svc" where
  "Service_CreateAPIKey svc ctx actor req =
     failIf (TrimSpace (ckr_Name req) = [] \<or> TrimSpace (ckr_Actor req) = [] \<or> length (ckr_Scopes req) = 0) ErrInvalidRequest
    (thenM (liftE (validateAPIKeyScopes (ckr_Scopes req)))
    (bindM (Now svc) (\<lambda>now.
     failIf (\<not> IsZero (ckr_ExpiresAt req) \<and> \<not> ckr_ExpiresAt req > now) ErrInvalidRequest
    (bindM (generateAPIKeyToken svc) (\<lambda>token.
     bindM (NewID svc) (\<lambda>ident.
     let key = newAPIKey ident (TrimSpace (ckr_Name req)) (hashAPIKeyToken svc token) (TrimSpace (ckr_Actor req))
           (ckr_Scopes req) (ckr_ExpiresAt req) now in
     thenM (MemoryStore_WithinTx (
       thenM (onRepo (memoryTx_CreateAPIKey key))
         (createAuditEvent svc ctx actor ''api_key.created'' ''api_key'' (key_ID key) now (apiKeyAuditFields key)) ))
       (returnM \<lparr>cks_Key = key, cks_Token = token\<rparr>)))))))"

definition Service_ListAPIKeys :: "APIKey list svc" where
  "Service_ListAPIKeys = onRepo MemoryStore_ListAPIKeys"

definition Service_DisableAPIKey :: "Service \<Rightarrow> Context \<Rightarrow> string \<Rightarrow> string \<Rightarrow> APIKey svc" where
  "Service_DisableAPIKey svc ctx actor ident =
     failIf (isBlank ident) ErrInvalidRequest
    (bindM (Now svc) (\<lambda>now.
     MemoryStore_WithinTx (
       bindM (onRepo (memoryTx_GetAPIKey ident)) (\<lambda>current.
       failIf (key_Status current \<noteq> APIKeyActive) ErrInvalidTransition
      (let key = current\<lparr>key_Status := APIKeyDisabled, key_UpdatedAt := now\<rparr>;
           flds = addStatusTransition (apiKeyAuditFields key) (str_APIKeyStatus APIKeyActive) (str_APIKeyStatus (key_Status key)) in
       thenM (onRepo (memoryTx_UpdateAPIKeyIfStatus key APIKeyActive))
      (thenM (createAuditEvent svc ctx actor ''api_key.disabled'' ''api_key'' (key_ID key) now flds)
        (returnM key)))) )))"

text \<open>The fields of the audit event of a rotation.\<close>

definition rotationFields :: "APIKey \<Rightarrow> APIKey \<Rightarrow> APIKeyStatus \<Rightarrow> json gomap" where
  "rotationFields newKey oldKey oldStatus =
     mput ''rotated_from_api_key_id'' (JString (key_ID oldKey))
       (addStatusTransition (apiKeyAuditFields newKey) (str_APIKeyStatus oldStatus) (str_APIKeyStatus (key_Status newKey)))"

definition Service_RotateAPIKey :: "Service \<Rightarrow> Context \<Rightarrow> string \<Rightarrow> string \<Rightarrow> CreateAPIKeyResult svc" where
  "Service_RotateAPIKey svc ctx actor ident =
     failIf (isBlank ident) ErrInvalidRequest
    (bindM (generateAPIKeyToken svc) (\<lambda>token.
     bindM (Now svc) (\<lambda>now.
     MemoryStore_WithinTx (
       bindM (onRepo (memoryTx_GetAPIKey ident)) (\<lambda>current.
       failIf (key_Status current \<noteq> APIKeyActive \<or> \<not> IsZero (key_ExpiresAt current) \<and> \<not> key_ExpiresAt current > now) ErrInvalidTransition
      (let oldStatus = key_Status current;
           oldKey = current\<lparr>key_Status := APIKeyDisabled, key_UpdatedAt := now\<rparr> in
       thenM (onRepo (memoryTx_UpdateAPIKeyIfStatus oldKey APIKeyActive))
      (bindM (NewID svc) (\<lambda>newIdent.
       let newKey = newAPIKey newIdent (key_Name oldKey) (hashAPIKeyToken svc token) (key_Actor oldKey) (key_Scopes oldKey)
             (key_ExpiresAt oldKey) now in
       thenM (onRepo (memoryTx_CreateAPIKey newKey))
      (thenM (createAuditEvent svc ctx actor ''api_key.rotated'' ''api_key'' (key_ID newKey) now (rotationFields newKey oldKey oldStatus))
        (returnM \<lparr>cks_Key = newKey, cks_Token = token\<rparr>)))))) ))))"

section \<open>Looking a token up\<close>

text \<open>The hashes a token may be stored under, in the order they are tried.\<close>

definition tokenHashes :: "Service \<Rightarrow> string \<Rightarrow> string list" where
  "tokenHashes svc token =
     (if TrimSpace (svc_apiKeyPepper svc) \<noteq> [] then [hashAPIKeyToken svc token] else []) @ [HashAPIKeyToken (svc_runtime svc) token]"

lemma byTokenHash_Inr: "apiKeyByTokenHash m h = Inr key \<Longrightarrow> \<exists>k. mget m k = Some key \<and> key_TokenHash key = h"
  by (auto simp: apiKeyByTokenHash_def find_Some_iff in_mvals_iff split: option.splits dest!: nth_mem)

lemma byTokenHash_Inl:
  "apiKeyByTokenHash m h = Inl e \<longleftrightarrow> e = ErrAPIKeyNotFound \<and> (\<forall>k v. mget m k = Some v \<longrightarrow> key_TokenHash v \<noteq> h)"
  by (auto simp: apiKeyByTokenHash_def find_None_iff find_Some_iff in_mvals_iff split: option.splits dest!: nth_mem) metis

lemma getAPIKeyByToken_run:
  "getAPIKeyByToken svc token w =
     ((if TrimSpace (svc_apiKeyPepper svc) \<noteq> [] \<and> (\<exists>k v. mget (ms_apiKeys (w_repo w)) k = Some v \<and> key_TokenHash v = hashAPIKeyToken svc token)
       then apiKeyByTokenHash (ms_apiKeys (w_repo w)) (hashAPIKeyToken svc token)
       else apiKeyByTokenHash (ms_apiKeys (w_repo w)) (HashAPIKeyToken (svc_runtime svc) token)), w)"
proof (cases "apiKeyByTokenHash (ms_apiKeys (w_repo w)) (hashAPIKeyToken svc token)")
  case (Inl e)
  then show ?thesis using Inl[unfolded byTokenHash_Inl]
    by (auto simp: getAPIKeyByToken_def Let_def prog_simps run_onRepo MemoryStore_GetAPIKeyByTokenHash_def)
next
  case (Inr key)
  then show ?thesis using byTokenHash_Inr[OF Inr]
    by (auto simp: getAPIKeyByToken_def Let_def prog_simps run_onRepo MemoryStore_GetAPIKeyByTokenHash_def)
qed

lemma getAPIKeyByToken_Inr:
  assumes "getAPIKeyByToken svc token w = (Inr key, w')"
  shows "w' = w \<and> (\<exists>k. mget (ms_apiKeys (w_repo w)) k = Some key) \<and> key_TokenHash key \<in> set (tokenHashes svc token)"
  using assms byTokenHash_Inr by (auto simp: getAPIKeyByToken_run tokenHashes_def hashAPIKeyToken_def split: if_splits)

lemma getAPIKeyByToken_Inl:
  assumes "getAPIKeyByToken svc token w = (Inl e, w')"
  shows "e = ErrAPIKeyNotFound \<and> w' = w"
  using assms by (auto simp: getAPIKeyByToken_run byTokenHash_Inl split: if_splits)

lemma getAPIKeyByToken_quiet [clean_rules]: "quiet (getAPIKeyByToken svc token)"
  by (simp add: quiet_def grows_def getAPIKeyByToken_run)

section \<open>Authentication\<close>

definition usableKey :: "APIKey \<Rightarrow> time \<Rightarrow> bool" where
  "usableKey key now \<longleftrightarrow> key_Status key = APIKeyActive \<and> \<not> isBlank (key_Actor key) \<and> key_Scopes key \<noteq> [] \<and>
     (key_ExpiresAt key = 0 \<or> now < key_ExpiresAt key)"

definition usedAt :: "time \<Rightarrow> APIKey \<Rightarrow> APIKey" where
  "usedAt now key = key\<lparr>key_LastUsedAt := now, key_UpdatedAt := now\<rparr>"

lemma usedAt_id [simp]: "key_ID (usedAt now key) = key_ID key"
  by (simp add: usedAt_def)

text \<open>With a key found in the store, authentication is decided by the key alone.\<close>

lemma authenticate_found:
  assumes s: "sound svc w" and tok: "\<not> isBlank token"
    and get: "getAPIKeyByToken svc (TrimSpace token) w = (Inr key, w)"
  defines "now \<equiv> svc_clock svc (w_clock w)"
  shows "\<exists>w'. Service_AuthenticateAPIKey svc token w =
       (if usableKey key now then Inr (usedAt now key) else Inl ErrUnauthorized, w') \<and>
     w_repo w' = (if usableKey key now then (w_repo w)\<lparr>ms_apiKeys := mput (key_ID key) (usedAt now key) (ms_apiKeys (w_repo w))\<rparr> else w_repo w) \<and>
     w_ids w' = w_ids w"
proof -
  obtain k where k: "mget (ms_apiKeys (w_repo w)) k = Some key" using getAPIKeyByToken_Inr[OF get] by blast
  then have "mget (ms_apiKeys (w_repo w)) (key_ID key) = Some key" using keyedD[OF sound_keyed(12)[OF s] k] by simp
  then show ?thesis
    using tok get
    by (auto simp: Service_AuthenticateAPIKey_def prog_simps Let_def isBlank_def usableKey_def IsZero_def usedAt_def now_def not_less run_onRepo
        MemoryStore_UpdateAPIKeyIfStatus_def updateAPIKeyIfStatus_def)
qed

lemma authenticate_unknown:
  assumes "\<And>key. getAPIKeyByToken svc (TrimSpace token) w \<noteq> (Inr key, w)"
  shows "Service_AuthenticateAPIKey svc token w = (Inl ErrUnauthorized, w)"
proof -
  obtain r w1 where g: "getAPIKeyByToken svc (TrimSpace token) w = (r, w1)" by (cases "getAPIKeyByToken svc (TrimSpace token) w")
  then obtain e where "r = Inl e" "e = ErrAPIKeyNotFound" "w1 = w"
    using assms getAPIKeyByToken_Inr getAPIKeyByToken_Inl by (cases r) blast+
  then show ?thesis using g by (simp add: Service_AuthenticateAPIKey_def prog_simps Let_def)
qed

lemma authenticate_cases:
  assumes s: "sound svc w" and run: "Service_AuthenticateAPIKey svc token w = (r, w')"
  shows "(r = Inl ErrUnauthorized \<and> w_repo w' = w_repo w \<and> w_ids w' = w_ids w) \<or>
     (\<exists>key. r = Inr (usedAt (svc_clock svc (w_clock w)) key) \<and> usableKey key (svc_clock svc (w_clock w)) \<and>
        mget (ms_apiKeys (w_repo w)) (key_ID key) = Some key \<and> key_TokenHash key \<in> set (tokenHashes svc (TrimSpace token)) \<and>
        w_repo w' = (w_repo w)\<lparr>ms_apiKeys := mput (key_ID key) (usedAt (svc_clock svc (w_clock w)) key) (ms_apiKeys (w_repo w))\<rparr> \<and>
        w_ids w' = w_ids w)"
proof (cases "isBlank token")
  case True
  then show ?thesis using run by (auto simp: Service_AuthenticateAPIKey_def prog_simps Let_def isBlank_def)
next
  case tok: False
  show ?thesis
  proof (cases "\<exists>key. getAPIKeyByToken svc (TrimSpace token) w = (Inr key, w)")
    case False
    then show ?thesis using authenticate_unknown[of svc token w] run by auto
  next
    case True
    then obtain key where g: "getAPIKeyByToken svc (TrimSpace token) w = (Inr key, w)" by blast
    obtain k where k: "mget (ms_apiKeys (w_repo w)) k = Some key" and h: "key_TokenHash key \<in> set (tokenHashes svc (TrimSpace token))"
      using getAPIKeyByToken_Inr[OF g] by blast
    have "mget (ms_apiKeys (w_repo w)) (key_ID key) = Some key" using keyedD[OF sound_keyed(12)[OF s] k] k by simp
    then show ?thesis
      using authenticate_found[OF s tok g] run h
      by (cases "usableKey key (svc_clock svc (w_clock w))") (simp, intro disjI2 exI[of _ key], simp, simp)
  qed
qed


lemma Authenticate_advances [advances_rules]: "advances svc (Service_AuthenticateAPIKey svc token)"
proof (rule advancesI)
  fix w r w'
  assume s: "sound svc w" and run: "Service_AuthenticateAPIKey svc token w = (r, w')"
  from authenticate_cases[OF this] show "advance svc w w'"
  proof (elim disjE exE conjE, goal_cases)
    case 1
    then show ?case using s by (auto intro: advance_same_repo)
  next
    case (2 key)
    have "apikeyStep key (usedAt (svc_clock svc (w_clock w)) key)" by (simp add: usedAt_def step_defs)
    note put = put_apiKeys[OF s 2(3) this]
    show ?case
      by (intro advance_by_updates[OF s 2(5) 2(6)] update_rules) (simp_all add: put sound_facts[OF s])
  qed
qed

section \<open>The other operations follow the key machine\<close>

lemma keys_clean:
  "clean (Service_EnsureAPIKey svc ctx actor ereq)" "clean (Service_CreateAPIKey svc ctx actor creq)"
  "clean (Service_DisableAPIKey svc ctx actor ident)" "clean (Service_RotateAPIKey svc ctx actor ident)"
  unfolding Service_EnsureAPIKey_def Service_CreateAPIKey_def Service_DisableAPIKey_def Service_RotateAPIKey_def generateAPIKeyToken_def
  by (intro clean_rules)+

lemma newAPIKey_fields [simp]:
  "key_ID (newAPIKey i n h a sc e t) = i" "key_TokenHash (newAPIKey i n h a sc e t) = h" "key_Status (newAPIKey i n h a sc e t) = APIKeyActive"
  "key_Actor (newAPIKey i n h a sc e t) = a" "key_Scopes (newAPIKey i n h a sc e t) = sc" "key_ExpiresAt (newAPIKey i n h a sc e t) = e"
  "key_Name (newAPIKey i n h a sc e t) = n"
  by (simp_all add: newAPIKey_def copySlice_def)

lemma generateToken_Inr [inr_simps]:
  "generateAPIKeyToken svc w = (Inr token, w') \<longleftrightarrow>
     (\<exists>raw. rt_randBytes (svc_runtime svc) (w_ext w) 32 = Inr raw \<and> token = RawURLEncoding_EncodeToString raw \<and> w' = w\<lparr>w_ext := Suc (w_ext w)\<rparr>)"
  by (auto simp: generateAPIKeyToken_def prog_simps split: sum.splits)

lemma create_effect:
  assumes "Service_CreateAPIKey svc ctx actor req w = (Inr res, w')"
  obtains raw where "rt_randBytes (svc_runtime svc) (w_ext w) 32 = Inr raw"
    "cks_Token res = RawURLEncoding_EncodeToString raw"
    "cks_Key res = newAPIKey (svc_idgen svc (w_ids w)) (TrimSpace (ckr_Name req)) (hashAPIKeyToken svc (cks_Token res))
       (TrimSpace (ckr_Actor req)) (ckr_Scopes req) (ckr_ExpiresAt req) (svc_clock svc (w_clock w))"
    "TrimSpace (ckr_Actor req) \<noteq> []" "validateAPIKeyScopes (ckr_Scopes req) = Inr ()"
    "w_repo w' = (w_repo w)\<lparr>ms_apiKeys := mput (svc_idgen svc (w_ids w)) (cks_Key res) (ms_apiKeys (w_repo w)),
       ms_auditEvents := ms_auditEvents (w_repo w) @ [auditEventFor svc ctx (svc_idgen svc (Suc (w_ids w))) actor ''api_key.created''
         ''api_key'' (svc_idgen svc (w_ids w)) (svc_clock svc (w_clock w)) (apiKeyAuditFields (cks_Key res))]\<rparr>"
    "w_ids w' = Suc (Suc (w_ids w))"
  using assms by (clarsimp simp: Service_CreateAPIKey_def inr_simps Let_def)

lemma Create_advances [advances_rules]: "advances svc (Service_CreateAPIKey svc ctx actor req)"
proof (rule advances_clean[OF keys_clean(2)])
  fix w res w'
  assume s: "sound svc w" and run: "Service_CreateAPIKey svc ctx actor req w = (Inr res, w')"
  from run show "advance svc w w'"
  proof (rule create_effect, goal_cases)
    case (1 raw)
    then show ?case
      by (intro advance_by_updates[OF s 1(6) 1(7)] update_rules) (simp_all add: sound_facts[OF s] table_evolves_fresh dom_mput)
  qed
qed

lemma disable_step: "key_Status k0 = APIKeyActive \<Longrightarrow> apikeyStep k0 (k0\<lparr>key_Status := APIKeyDisabled, key_UpdatedAt := t\<rparr>)"
  by (simp add: step_defs)

lemma updateAPIKey_Inr:
  "updateAPIKeyIfStatus m v c = Inr m' \<longleftrightarrow> (\<exists>v0. mget m (key_ID v) = Some v0 \<and> key_Status v0 = c) \<and> m' = mput (key_ID v) v m"
  by (auto simp: updateAPIKeyIfStatus_def split: option.splits if_splits)

lemma disable_effect:
  assumes "Service_DisableAPIKey svc ctx actor ident w = (Inr k, w')"
  obtains k0 where "mget (ms_apiKeys (w_repo w)) ident = Some k0" "key_Status k0 = APIKeyActive"
    "k = k0\<lparr>key_Status := APIKeyDisabled, key_UpdatedAt := svc_clock svc (w_clock w)\<rparr>"
    "w_repo w' = (w_repo w)\<lparr>ms_apiKeys := mput (key_ID k0) k (ms_apiKeys (w_repo w)),
       ms_auditEvents := ms_auditEvents (w_repo w) @ [auditEventFor svc ctx (svc_idgen svc (w_ids w)) actor ''api_key.disabled''
         ''api_key'' (key_ID k0) (svc_clock svc (w_clock w)) (addStatusTransition (apiKeyAuditFields k) (str_APIKeyStatus APIKeyActive)
           (str_APIKeyStatus APIKeyDisabled))]\<rparr>"
    "w_ids w' = Suc (w_ids w)"
  using assms by (clarsimp simp: Service_DisableAPIKey_def inr_simps updateAPIKey_Inr Let_def)

lemma Disable_advances [advances_rules]: "advances svc (Service_DisableAPIKey svc ctx actor ident)"
proof (rule advances_clean[OF keys_clean(3)])
  fix w k w'
  assume s: "sound svc w" and run: "Service_DisableAPIKey svc ctx actor ident w = (Inr k, w')"
  from run show "advance svc w w'"
  proof (rule disable_effect, goal_cases)
    case (1 k0)
    note put = put_apiKeys[OF s 1(1) disable_step[OF 1(2), of "svc_clock svc (w_clock w)"]]
    show ?case
      by (intro advance_by_updates[OF s 1(4) 1(5)] update_rules) (simp_all add: 1(3) put sound_facts[OF s])
  qed
qed

lemma rotate_effect:
  assumes "Service_RotateAPIKey svc ctx actor ident w = (Inr res, w')"
  obtains raw k0 where "rt_randBytes (svc_runtime svc) (w_ext w) 32 = Inr raw" "cks_Token res = RawURLEncoding_EncodeToString raw"
    "mget (ms_apiKeys (w_repo w)) ident = Some k0" "key_Status k0 = APIKeyActive"
    "key_ExpiresAt k0 = 0 \<or> svc_clock svc (w_clock w) < key_ExpiresAt k0"
    "cks_Key res = newAPIKey (svc_idgen svc (w_ids w)) (key_Name k0) (hashAPIKeyToken svc (cks_Token res)) (key_Actor k0) (key_Scopes k0)
       (key_ExpiresAt k0) (svc_clock svc (w_clock w))"
    "w_repo w' = (w_repo w)\<lparr>ms_apiKeys := mput (svc_idgen svc (w_ids w)) (cks_Key res)
         (mput (key_ID k0) (k0\<lparr>key_Status := APIKeyDisabled, key_UpdatedAt := svc_clock svc (w_clock w)\<rparr>) (ms_apiKeys (w_repo w))),
       ms_auditEvents := ms_auditEvents (w_repo w) @ [auditEventFor svc ctx (svc_idgen svc (Suc (w_ids w))) actor ''api_key.rotated''
         ''api_key'' (svc_idgen svc (w_ids w)) (svc_clock svc (w_clock w))
         (rotationFields (cks_Key res) (k0\<lparr>key_Status := APIKeyDisabled, key_UpdatedAt := svc_clock svc (w_clock w)\<rparr>) APIKeyActive)]\<rparr>"
    "w_ids w' = Suc (Suc (w_ids w))"
proof -
  note result = that
  have "thesis" if hyp: "Service_RotateAPIKey svc ctx actor ident w = (Inr res, w')"
    using hyp by (clarsimp simp: Service_RotateAPIKey_def inr_simps updateAPIKey_Inr Let_def)
      (rule result, simp_all add: IsZero_def)
  then show thesis using assms by blast
qed

lemma Rotate_advances [advances_rules]: "advances svc (Service_RotateAPIKey svc ctx actor ident)"
proof (rule advances_clean[OF keys_clean(4)])
  fix w res w'
  assume s: "sound svc w" and run: "Service_RotateAPIKey svc ctx actor ident w = (Inr res, w')"
  from run show "advance svc w w'"
  proof (rule rotate_effect, goal_cases)
    case (1 raw k0)
    let ?old = "k0\<lparr>key_Status := APIKeyDisabled, key_UpdatedAt := svc_clock svc (w_clock w)\<rparr>"
    note put = put_apiKeys[OF s 1(3) disable_step[OF 1(4), of "svc_clock svc (w_clock w)"]]
    have new: "key_ID (cks_Key res) = svc_idgen svc (w_ids w)" by (subst 1(6)) simp
    have "svc_idgen svc (w_ids w) \<notin> dom (mget (mput (key_ID k0) ?old (ms_apiKeys (w_repo w))))"
      using sound_new(12)[OF s order_refl] unfolding put(3)[simplified] by (simp add: domIff)
    then have "table_evolves apikeyStep (ms_apiKeys (w_repo w))
        (mput (svc_idgen svc (w_ids w)) (cks_Key res) (mput (key_ID k0) ?old (ms_apiKeys (w_repo w))))"
      by (intro table_evolves_trans[OF put(1)[simplified] table_evolves_fresh]) (simp add: domIff)
    moreover have "key_ID k0 \<in> used_ids (w_repo w)"
      using dom_used(12)[of "w_repo w"] 1(3) keyedD[OF sound_keyed(12)[OF s] 1(3)] by auto
    ultimately show ?case
      by (intro advance_by_updates[OF s 1(7) 1(8)] update_rules) (simp_all add: put sound_facts[OF s] dom_mput new)
  qed
qed

lemma ensure_effect:
  assumes "Service_EnsureAPIKey svc ctx actor req w = (Inr k, w')"
  obtains (existing) i where "w_repo w' = w_repo w" "w_ids w' = w_ids w" "mget (ms_apiKeys (w_repo w)) i = Some k"
      "existingKeyUsable k = Inr ()"
  | (created) scopes where "k = newAPIKey (svc_idgen svc (w_ids w)) (TrimSpace (ekr_Name req)) (hashAPIKeyToken svc (ekr_Token req))
        (TrimSpace (ekr_Actor req)) scopes 0 (svc_clock svc (w_clock w))" "validateAPIKeyScopes scopes = Inr ()"
      "w_repo w' = (w_repo w)\<lparr>ms_apiKeys := mput (svc_idgen svc (w_ids w)) k (ms_apiKeys (w_repo w)),
         ms_auditEvents := ms_auditEvents (w_repo w) @ [auditEventFor svc ctx (svc_idgen svc (Suc (w_ids w))) actor ''api_key.created''
           ''api_key'' (svc_idgen svc (w_ids w)) (svc_clock svc (w_clock w))
           (auditFields [''api_key_id'', key_ID k, ''api_key_name'', key_Name k, ''api_key_actor'', key_Actor k])]\<rparr>"
      "w_ids w' = Suc (Suc (w_ids w))"
proof -
  let ?scopes = "if length (ekr_Scopes req) = 0 then [APIKeyScopeOperator] else ekr_Scopes req"
  obtain r where g: "getAPIKeyByToken svc (ekr_Token req) w = (r, w)" by (simp add: getAPIKeyByToken_run)
  have v: "validateAPIKeyScopes ?scopes = Inr ()"
    using assms by (auto simp: Service_EnsureAPIKey_def Let_def prog_simps split: sum.splits if_splits)
  show ?thesis
  proof (cases r)
    case (Inl err)
    then have "err = ErrAPIKeyNotFound" using getAPIKeyByToken_Inl[of svc "ekr_Token req" w err w] g by blast
    then show ?thesis
      using created[OF _ v] assms Inl g v
      by (clarsimp simp: Service_EnsureAPIKey_def Let_def prog_simps run_WithinTx run_onRepo tx_agree MemoryStore_CreateAPIKey_def
          run_createAuditEvent split: if_splits)
  next
    case (Inr key)
    have run: "(case existingKeyUsable key of Inl e \<Rightarrow> (Inl e, w) | Inr x \<Rightarrow> returnM key w) = (Inr k, w')"
      using assms g v Inr by (simp add: Service_EnsureAPIKey_def Let_def prog_simps split: if_splits)
    moreover obtain i where "mget (ms_apiKeys (w_repo w)) i = Some key"
      using getAPIKeyByToken_Inr[of svc "ekr_Token req" w key w] g Inr by blast
    ultimately show ?thesis using existing[of i] by (auto simp: prog_simps split: sum.splits)
  qed
qed

lemma Ensure_advances [advances_rules]: "advances svc (Service_EnsureAPIKey svc ctx actor req)"
proof (rule advances_clean[OF keys_clean(1)])
  fix w k w'
  assume s: "sound svc w" and run: "Service_EnsureAPIKey svc ctx actor req w = (Inr k, w')"
  from run show "advance svc w w'"
  proof (cases rule: ensure_effect)
    case (existing i)
    then show ?thesis using s by (auto intro: advance_same_repo)
  next
    case (created scopes)
    show ?thesis
      by (intro advance_by_updates[OF s created(3) created(4)] update_rules)
        (simp_all add: created(1) sound_facts[OF s] table_evolves_fresh dom_mput)
  qed
qed

section \<open>Frames\<close>

lemma getAPIKeyByToken_frames [frame_rules]:
  "preserves untouched (getAPIKeyByToken svc token)" "preserves audit_appends (getAPIKeyByToken svc token)"
  "preserves revocations_kept (getAPIKeyByToken svc token)"
  unfolding getAPIKeyByToken_def Let_def by (intro frame_rules)+

lemma key_frames [frame_rules]:
  "preserves untouched (Service_AuthenticateAPIKey svc token)" "preserves audit_appends (Service_AuthenticateAPIKey svc token)"
  "preserves revocations_kept (Service_AuthenticateAPIKey svc token)"
  "preserves untouched (Service_EnsureAPIKey svc ctx actor ereq)" "preserves audit_appends (Service_EnsureAPIKey svc ctx actor ereq)"
  "preserves revocations_kept (Service_EnsureAPIKey svc ctx actor ereq)"
  "preserves untouched (Service_CreateAPIKey svc ctx actor creq)" "preserves audit_appends (Service_CreateAPIKey svc ctx actor creq)"
  "preserves revocations_kept (Service_CreateAPIKey svc ctx actor creq)"
  "preserves untouched (Service_DisableAPIKey svc ctx actor ident)" "preserves audit_appends (Service_DisableAPIKey svc ctx actor ident)"
  "preserves revocations_kept (Service_DisableAPIKey svc ctx actor ident)"
  "preserves untouched (Service_RotateAPIKey svc ctx actor ident)" "preserves audit_appends (Service_RotateAPIKey svc ctx actor ident)"
  "preserves revocations_kept (Service_RotateAPIKey svc ctx actor ident)"
  unfolding Service_AuthenticateAPIKey_def Service_EnsureAPIKey_def Service_CreateAPIKey_def Service_DisableAPIKey_def
    Service_RotateAPIKey_def generateAPIKeyToken_def
  by (intro frame_rules)+

section \<open>From creation to revocation\<close>

lemma byTokenHash_unique:
  assumes "mget m i = Some key" "key_TokenHash key = h" "\<And>k v. mget m k = Some v \<Longrightarrow> key_TokenHash v = h \<Longrightarrow> v = key"
  shows "apiKeyByTokenHash m h = Inr key"
  using assms byTokenHash_Inr[of m h] byTokenHash_Inl[of m h] by (cases "apiKeyByTokenHash m h") (blast, metis)

lemma token_found:
  assumes "mget (ms_apiKeys (w_repo w)) i = Some key" "key_TokenHash key = hashAPIKeyToken svc token"
    and "\<And>k v. mget (ms_apiKeys (w_repo w)) k = Some v \<Longrightarrow> key_TokenHash v = hashAPIKeyToken svc token \<Longrightarrow> v = key"
  shows "getAPIKeyByToken svc token w = (Inr key, w)"
proof -
  have "apiKeyByTokenHash (ms_apiKeys (w_repo w)) (hashAPIKeyToken svc token) = Inr key"
    using assms by (rule byTokenHash_unique)
  moreover have "TrimSpace (svc_apiKeyPepper svc) = [] \<Longrightarrow> hashAPIKeyToken svc token = HashAPIKeyToken (svc_runtime svc) token"
    by (simp add: hashAPIKeyToken_def HashAPIKeyTokenWithPepper_def)
  ultimately show ?thesis using assms(1,2) by (auto simp: getAPIKeyByToken_run)
qed

lemma validScopes_nonempty: "validateAPIKeyScopes scopes = Inr () \<Longrightarrow> scopes \<noteq> []"
  by (auto simp: validateAPIKeyScopes_def)

text \<open>A key stored under the hash of a generated token is the one the token authenticates as.\<close>

lemma generated_token_accepted:
  assumes s: "sound svc w" and raw: "raw \<noteq> []" and row: "mget (ms_apiKeys (w_repo w)) i = Some key"
    and hash: "key_TokenHash key = hashAPIKeyToken svc (RawURLEncoding_EncodeToString raw)"
    and unique: "\<And>k v. mget (ms_apiKeys (w_repo w)) k = Some v \<Longrightarrow> key_TokenHash v = key_TokenHash key \<Longrightarrow> v = key"
    and usable: "usableKey key (svc_clock svc (w_clock w))"
  shows "\<exists>w'. Service_AuthenticateAPIKey svc (RawURLEncoding_EncodeToString raw) w = (Inr (usedAt (svc_clock svc (w_clock w)) key), w')"
proof -
  have "\<not> isBlank (RawURLEncoding_EncodeToString raw)" using raw by (simp add: isBlank_def)
  moreover have "getAPIKeyByToken svc (TrimSpace (RawURLEncoding_EncodeToString raw)) w = (Inr key, w)"
    using token_found[OF row hash] unique hash by simp
  ultimately show ?thesis using authenticate_found[OF s] usable by force
qed

text \<open>
  C36: the token handed out with a new key authenticates as that key. The hypotheses on the
  environment are that \<^verbatim>\<open>rand.Read\<close> fills its buffer, that no stored key already has the hash of the new
  token, and that the key has not expired when it is used.
\<close>

theorem created_key_authenticates:
  assumes "sound svc w" "Service_CreateAPIKey svc ctx actor req w = (Inr res, w')"
    and "\<And>n raw. rt_randBytes (svc_runtime svc) n 32 = Inr raw \<Longrightarrow> length raw = 32"
    and "\<And>k v. mget (ms_apiKeys (w_repo w)) k = Some v \<Longrightarrow> key_TokenHash v \<noteq> hashAPIKeyToken svc (cks_Token res)"
    and "ckr_ExpiresAt req = 0 \<or> svc_clock svc (w_clock w') < ckr_ExpiresAt req"
  shows "\<exists>w''. Service_AuthenticateAPIKey svc (cks_Token res) w' = (Inr (usedAt (svc_clock svc (w_clock w')) (cks_Key res)), w'')"
  using assms(2)
proof (rule create_effect, goal_cases)
  case (1 raw)
  have s': "sound svc w'" using advancesD[OF Create_advances assms(1,2)] by (simp add: advance_def)
  have raw: "raw \<noteq> []" using assms(3)[OF 1(1)] by auto
  have key: "key_TokenHash (cks_Key res) = hashAPIKeyToken svc (cks_Token res)" "usableKey (cks_Key res) (svc_clock svc (w_clock w'))"
    using 1(4,5) assms(5) by (subst 1(3), simp add: usableKey_def isBlank_def validScopes_nonempty)+
  have row: "mget (ms_apiKeys (w_repo w')) (svc_idgen svc (w_ids w)) = Some (cks_Key res)" by (simp add: 1(6))
  have unique: "v = cks_Key res" if "mget (ms_apiKeys (w_repo w')) k = Some v" "key_TokenHash v = key_TokenHash (cks_Key res)" for k v
    using that assms(4)[of k v] by (simp add: 1(6) key mget_mput split: if_splits)
  show ?case
    unfolding 1(2) by (rule generated_token_accepted[OF s' raw row _ unique key(2)]) (use key(1) 1(2) in simp_all)
qed

text \<open>An active key is never found again under a disabled identifier.\<close>

lemma apikeyStep_disabled: "apikeyStep\<^sup>*\<^sup>* k k' \<Longrightarrow> key_Status k = APIKeyDisabled \<Longrightarrow> key_Status k' = APIKeyDisabled"
  by (induction rule: rtranclp_induct) (auto simp: apikeyStep_def elim: apikeyNext.elims)

text \<open>
  Disabling a key revokes its token for good. In every later state, a token whose hashes only the
  disabled key has is answered with \<^verbatim>\<open>ErrUnauthorized\<close>.
\<close>

theorem disabled_key_rejected:
  assumes "sound svc w" "Service_DisableAPIKey svc ctx actor ident w = (Inr k, w')"
    and later: "sound svc w''" "evolves (w_repo w') (w_repo w'')"
    and only: "\<And>i key. mget (ms_apiKeys (w_repo w'')) i = Some key \<Longrightarrow> key_TokenHash key \<in> set (tokenHashes svc (TrimSpace token)) \<Longrightarrow> i = ident"
  shows "fst (Service_AuthenticateAPIKey svc token w'') = Inl ErrUnauthorized"
  using assms(2)
proof (rule disable_effect, goal_cases)
  case (1 k0)
  have "key_ID k0 = ident" using keyedD[OF sound_keyed(12)[OF assms(1)] 1(1)] .
  then have row: "mget (ms_apiKeys (w_repo w')) ident = Some k" by (simp add: 1(4))
  have "table_evolves apikeyStep (ms_apiKeys (w_repo w')) (ms_apiKeys (w_repo w''))" using later(2) by (simp add: evolves_def)
  from table_evolves_get[OF this row] obtain k2 where k2: "mget (ms_apiKeys (w_repo w'')) ident = Some k2" "apikeyStep\<^sup>*\<^sup>* k k2" .
  have dis: "key_Status k2 = APIKeyDisabled" by (rule apikeyStep_disabled[OF k2(2)]) (simp add: 1(3))
  obtain r w3 where run: "Service_AuthenticateAPIKey svc token w'' = (r, w3)" by (cases "Service_AuthenticateAPIKey svc token w''")
  from authenticate_cases[OF later(1) run] show ?case
  proof (elim disjE exE conjE, goal_cases)
    case 1
    then show ?case using run by simp
  next
    case (2 key)
    then have "key_ID key = ident" using only by blast
    then show ?case using 2(2,3) k2(1) dis by (simp add: usableKey_def)
  qed
qed

text \<open>
  Rotation hands the key over. The old row is disabled, and the new token authenticates as a new
  key with the same name, actor, scopes and expiry (under the hypotheses of the previous property on
  the environment).
\<close>

theorem rotated_key_hands_over:
  assumes "sound svc w" "Service_RotateAPIKey svc ctx actor ident w = (Inr res, w')"
    and "\<And>n raw. rt_randBytes (svc_runtime svc) n 32 = Inr raw \<Longrightarrow> length raw = 32"
    and "\<And>k v. mget (ms_apiKeys (w_repo w)) k = Some v \<Longrightarrow> key_TokenHash v \<noteq> hashAPIKeyToken svc (cks_Token res)"
    and "usableKey (cks_Key res) (svc_clock svc (w_clock w'))"
  shows "(\<exists>old. mget (ms_apiKeys (w_repo w)) ident = Some old \<and> key_Status old = APIKeyActive \<and>
       map_option key_Status (mget (ms_apiKeys (w_repo w')) ident) = Some APIKeyDisabled \<and>
       key_Name (cks_Key res) = key_Name old \<and> key_Actor (cks_Key res) = key_Actor old \<and> key_Scopes (cks_Key res) = key_Scopes old \<and>
       key_ExpiresAt (cks_Key res) = key_ExpiresAt old) \<and>
     (\<exists>w''. Service_AuthenticateAPIKey svc (cks_Token res) w' = (Inr (usedAt (svc_clock svc (w_clock w')) (cks_Key res)), w''))"
  using assms(2)
proof (rule rotate_effect, goal_cases)
    case (1 raw k0)
  have s': "sound svc w'" using advancesD[OF Rotate_advances assms(1,2)] by (simp add: advance_def)
  have raw: "raw \<noteq> []" using assms(3)[OF 1(1)] by auto
  have old: "key_ID k0 = ident" using keyedD[OF sound_keyed(12)[OF assms(1)] 1(3)] .
  have "ident \<noteq> svc_idgen svc (w_ids w)" using 1(3) sound_new(12)[OF assms(1) order_refl] by auto
  then have handed: "map_option key_Status (mget (ms_apiKeys (w_repo w')) ident) = Some APIKeyDisabled"
    by (simp add: 1(7) old mget_mput)
  have same: "key_Name (cks_Key res) = key_Name k0" "key_Actor (cks_Key res) = key_Actor k0" "key_Scopes (cks_Key res) = key_Scopes k0"
    "key_ExpiresAt (cks_Key res) = key_ExpiresAt k0" by (subst 1(6), simp)+
  have key: "key_TokenHash (cks_Key res) = hashAPIKeyToken svc (cks_Token res)" by (subst 1(6)) simp
  have row: "mget (ms_apiKeys (w_repo w')) (svc_idgen svc (w_ids w)) = Some (cks_Key res)" by (simp add: 1(7))
  have unique: "v = cks_Key res" if "mget (ms_apiKeys (w_repo w')) k = Some v" "key_TokenHash v = key_TokenHash (cks_Key res)" for k v
    using that assms(4)[of k v] assms(4)[OF 1(3)] by (auto simp: 1(7) key mget_mput split: if_splits)
  have "\<exists>w''. Service_AuthenticateAPIKey svc (cks_Token res) w' = (Inr (usedAt (svc_clock svc (w_clock w')) (cks_Key res)), w'')"
    unfolding 1(2) by (rule generated_token_accepted[OF s' raw row _ unique assms(5)]) (use key(1) 1(2) in simp_all)
  with 1(3,4) handed same show ?case by blast
qed

text \<open>
  A bootstrap token with surrounding space makes a key nobody can use. \<^verbatim>\<open>EnsureAPIKey\<close> stores the hash
  of the token as given while authentication hashes the trimmed token, so the call reports success
  and the token it was given is rejected (as long as the hashes of the two differ).
\<close>

theorem untrimmed_bootstrap_token_rejected:
  assumes "sound svc w" "Service_EnsureAPIKey svc ctx actor req w = (Inr k, w')"
    and "ms_apiKeys (w_repo w) = mempty"
    and "hashAPIKeyToken svc (ekr_Token req) \<notin> set (tokenHashes svc (TrimSpace (ekr_Token req)))"
  shows "fst (Service_AuthenticateAPIKey svc (ekr_Token req) w') = Inl ErrUnauthorized"
  using assms(2)
proof (cases rule: ensure_effect)
  case (existing i)
  then show ?thesis using assms(3) by simp
next
  case (created scopes)
  have s': "sound svc w'" using advancesD[OF Ensure_advances assms(1,2)] by (simp add: advance_def)
  obtain r w3 where run: "Service_AuthenticateAPIKey svc (ekr_Token req) w' = (r, w3)" by (cases "Service_AuthenticateAPIKey svc (ekr_Token req) w'")
  have "key = k" if "mget (ms_apiKeys (w_repo w')) i = Some key" for i key
    using that assms(3) by (simp add: created(3) mget_mput split: if_splits)
  moreover have "key_TokenHash k = hashAPIKeyToken svc (ekr_Token req)" by (simp add: created(1))
  ultimately show ?thesis
    using authenticate_cases[OF s' run] run assms(4) by auto
qed

end
