(* ===== verification/Queries.thy ===== *)
theory Queries
  imports Revocation Registry Outbox ApiKeys "HOL-Library.Product_Lexorder"
begin

text \<open>
  The read side of the service (\<^verbatim>\<open>internal/lifecycle/service.go\<close>): plain lookups, filtered and paged
  lists, the certificate inventory, the expiry objective and the latest CRL. The repository is the in-memory store,
  which has none of the optional query interfaces, so the lists take the branch that filters in the service.
\<close>

section \<open>Options and results\<close>

record IdentityListOptions =
  ilo_Owner :: string
  ilo_Team :: string
  ilo_Service :: string
  ilo_Environment :: string
  ilo_Sort :: string
  ilo_Limit :: int
  ilo_Offset :: int

record EnrollmentListOptions =
  elo_IdentityID :: string
  elo_IssuerID :: string
  elo_ProfileID :: string
  elo_Status :: EnrollmentStatus
  elo_Sort :: string
  elo_Limit :: int
  elo_Offset :: int

record CertificateListOptions =
  clo_Owner :: string
  clo_Team :: string
  clo_Service :: string
  clo_Environment :: string
  clo_IssuerID :: string
  clo_ProfileID :: string
  clo_SAN :: string
  clo_RevocationState :: string
  clo_RenewalState :: string
  clo_ExpiresWithinDays :: int
  clo_Sort :: string
  clo_Limit :: int
  clo_Offset :: int

record OutboxMessageListOptions =
  olo_Status :: OutboxMessageStatus
  olo_Type :: string
  olo_CreatedFrom :: time
  olo_CreatedTo :: time
  olo_Sort :: string
  olo_Limit :: int
  olo_Offset :: int

record CertificateInventoryOptions =
  cio_Owner :: string
  cio_Team :: string
  cio_Service :: string
  cio_Environment :: string
  cio_IssuerID :: string
  cio_ProfileID :: string
  cio_RevocationState :: string
  cio_Limit :: int
  cio_Offset :: int

record CertificateInventoryEntry =
  cie_CertificateID :: string
  cie_Owner :: string
  cie_Team :: string
  cie_Service :: string
  cie_Environment :: string
  cie_DeploymentTarget :: string
  cie_IssuerID :: string
  cie_ProfileID :: string
  cie_IssuerKeyRef :: string
  cie_RevocationState :: string
  cie_LastSeenAt :: time
  cie_CompletenessWarnings :: "string list"

record ExpirySLO =
  eslo_WindowDays :: int
  eslo_UnhandledCount :: int
  eslo_UnhandledIDs :: "string list"
  eslo_OK :: bool

section \<open>Lookups\<close>

definition Service_ListIdentities :: "Identity list svc" where
  "Service_ListIdentities = onRepo MemoryStore_ListIdentities"

definition Service_ListIssuers :: "Issuer list svc" where
  "Service_ListIssuers = onRepo MemoryStore_ListIssuers"

definition Service_GetIdentity :: "string \<Rightarrow> Identity svc" where
  "Service_GetIdentity ident = onRepo (MemoryStore_GetIdentity ident)"

definition Service_ListCertificateProfiles :: "CertificateProfile list svc" where
  "Service_ListCertificateProfiles = onRepo MemoryStore_ListCertificateProfiles"

definition Service_GetCertificateProfile :: "string \<Rightarrow> CertificateProfile svc" where
  "Service_GetCertificateProfile ident = onRepo (MemoryStore_GetCertificateProfile ident)"

definition Service_ListEnrollments :: "Enrollment list svc" where
  "Service_ListEnrollments = onRepo MemoryStore_ListEnrollments"

definition Service_GetEnrollment :: "string \<Rightarrow> Enrollment svc" where
  "Service_GetEnrollment ident = onRepo (MemoryStore_GetEnrollment ident)"

definition Service_ListCertificates :: "Certificate list svc" where
  "Service_ListCertificates = onRepo MemoryStore_ListCertificates"

definition Service_GetCertificate :: "string \<Rightarrow> Certificate svc" where
  "Service_GetCertificate ident = onRepo (MemoryStore_GetCertificate ident)"

definition Service_ListAuditEvents :: "AuditEvent list svc" where
  "Service_ListAuditEvents = onRepo MemoryStore_ListAuditEvents"

definition Service_GetCRLPublication :: "string \<Rightarrow> CRLPublication svc" where
  "Service_GetCRLPublication ident = failIf (isBlank ident) ErrInvalidRequest (onRepo (MemoryStore_GetCRLPublication ident))"

definition Service_GetLatestCRLPublication :: "string \<Rightarrow> CRLPublication svc" where
  "Service_GetLatestCRLPublication issuerID =
     failIf (isBlank issuerID) ErrInvalidRequest (onRepo (MemoryStore_GetLatestCRLPublicationByIssuer issuerID))"

definition Service_GetLatestCRLPublicationForDistributionPoint :: "string \<Rightarrow> string \<Rightarrow> CRLPublication svc" where
  "Service_GetLatestCRLPublicationForDistributionPoint issuerID distributionPoint =
     failIf (isBlank issuerID \<or> isBlank distributionPoint) ErrInvalidRequest
      (bindM (onRepo (MemoryStore_ListCRLPublicationsByIssuer issuerID)) (\<lambda>publications.
        liftE (latestCRLPublication publications distributionPoint)))"

section \<open>Filtered lists\<close>

text \<open>The result of a list is \<open>None\<close> when the slice expression of its page panics.\<close>

definition identityMatches :: "IdentityListOptions \<Rightarrow> Identity \<Rightarrow> bool" where
  "identityMatches opts identity =
     (if ilo_Owner opts \<noteq> [] \<and> idn_Owner identity \<noteq> ilo_Owner opts then False
      else if ilo_Team opts \<noteq> [] \<and> idn_Team identity \<noteq> ilo_Team opts then False
      else if ilo_Service opts \<noteq> [] \<and> idn_Service identity \<noteq> ilo_Service opts then False
      else if ilo_Environment opts \<noteq> [] \<and> idn_Environment identity \<noteq> ilo_Environment opts then False
      else True)"

definition Service_ListIdentitiesQuery :: "IdentityListOptions \<Rightarrow> Identity list option svc" where
  "Service_ListIdentitiesQuery opts =
     thenM (liftE (validateListOptions (ilo_Sort opts) (ilo_Limit opts) (ilo_Offset opts)))
    (bindM (onRepo MemoryStore_ListIdentities) (\<lambda>identities.
      returnM (sortAndPage (filter (identityMatches opts) identities) (ilo_Sort opts) (ilo_Limit opts) (ilo_Offset opts)
        (createdThenID idn_CreatedAt idn_ID))))"

definition enrollmentMatches :: "EnrollmentListOptions \<Rightarrow> Enrollment \<Rightarrow> bool" where
  "enrollmentMatches opts enrollment =
     (if elo_IdentityID opts \<noteq> [] \<and> enr_IdentityID enrollment \<noteq> elo_IdentityID opts then False
      else if elo_IssuerID opts \<noteq> [] \<and> enr_IssuerID enrollment \<noteq> elo_IssuerID opts then False
      else if elo_ProfileID opts \<noteq> [] \<and> enr_CertificateProfileID enrollment \<noteq> elo_ProfileID opts then False
      else if str_EnrollmentStatus (elo_Status opts) \<noteq> [] \<and> enr_Status enrollment \<noteq> elo_Status opts then False
      else True)"

definition Service_ListEnrollmentsQuery :: "EnrollmentListOptions \<Rightarrow> Enrollment list option svc" where
  "Service_ListEnrollmentsQuery opts =
     thenM (liftE (validateListOptions (elo_Sort opts) (elo_Limit opts) (elo_Offset opts)))
    (failIf (str_EnrollmentStatus (elo_Status opts) \<noteq> [] \<and> \<not> isValidEnrollmentStatus (elo_Status opts)) ErrInvalidRequest
    (bindM (onRepo MemoryStore_ListEnrollments) (\<lambda>enrollments.
      returnM (sortAndPage (filter (enrollmentMatches opts) enrollments) (elo_Sort opts) (elo_Limit opts) (elo_Offset opts)
        (createdThenID enr_CreatedAt enr_ID)))))"

definition messageMatches :: "OutboxMessageListOptions \<Rightarrow> OutboxMessage \<Rightarrow> bool" where
  "messageMatches opts message =
     (if olo_Type opts \<noteq> [] \<and> msg_Type message \<noteq> olo_Type opts then False
      else if \<not> IsZero (olo_CreatedFrom opts) \<and> msg_CreatedAt message < olo_CreatedFrom opts then False
      else if \<not> IsZero (olo_CreatedTo opts) \<and> msg_CreatedAt message > olo_CreatedTo opts then False
      else True)"

definition Service_ListOutboxMessagesQuery :: "OutboxMessageListOptions \<Rightarrow> OutboxMessage list option svc" where
  "Service_ListOutboxMessagesQuery opts =
     thenM (liftE (validateListOptions (olo_Sort opts) (olo_Limit opts) (olo_Offset opts)))
    (failIf (str_OutboxMessageStatus (olo_Status opts) \<noteq> [] \<and> \<not> isValidOutboxMessageStatus (olo_Status opts)) ErrInvalidRequest
    (bindM (onRepo (MemoryStore_ListOutboxMessages (olo_Status opts))) (\<lambda>messages.
      returnM (sortAndPage (filter (messageMatches opts) messages) (olo_Sort opts) (olo_Limit opts) (olo_Offset opts)
        (createdThenID msg_CreatedAt msg_ID)))))"

section \<open>Certificates\<close>

text \<open>The identities by identifier, or nothing when no filter asks for them.\<close>

definition identityFilterLookup :: "CertificateListOptions \<Rightarrow> Identity gomap option svc" where
  "identityFilterLookup opts =
     (if clo_Owner opts = [] \<and> clo_Team opts = [] \<and> clo_Service opts = [] \<and> clo_Environment opts = [] then returnM None
      else bindM (onRepo MemoryStore_ListIdentities) (\<lambda>identities.
        returnM (Some (fold (\<lambda>identity byID. mput (idn_ID identity) identity byID) identities mempty))))"

definition identityMatchesCertificateFilters :: "Identity \<Rightarrow> CertificateListOptions \<Rightarrow> bool" where
  "identityMatchesCertificateFilters identity opts =
     (if clo_Owner opts \<noteq> [] \<and> idn_Owner identity \<noteq> clo_Owner opts then False
      else if clo_Team opts \<noteq> [] \<and> idn_Team identity \<noteq> clo_Team opts then False
      else if clo_Service opts \<noteq> [] \<and> idn_Service identity \<noteq> clo_Service opts then False
      else if clo_Environment opts \<noteq> [] \<and> idn_Environment identity \<noteq> clo_Environment opts then False
      else True)"

definition certificateMatches :: "CertificateListOptions \<Rightarrow> Identity gomap option \<Rightarrow> time \<Rightarrow> Certificate \<Rightarrow> bool" where
  "certificateMatches opts identityByID now certificate =
     (let cutoff = now + clo_ExpiresWithinDays opts * 24 * Hour in
      if clo_IssuerID opts \<noteq> [] \<and> cert_IssuerID certificate \<noteq> clo_IssuerID opts then False
      else if clo_ProfileID opts \<noteq> [] \<and> cert_CertificateProfileID certificate \<noteq> clo_ProfileID opts then False
      else if clo_SAN opts \<noteq> [] \<and> \<not> certificateHasSAN certificate (clo_SAN opts) then False
      else if clo_RevocationState opts \<noteq> [] \<and> str_CertificateStatus (cert_Status certificate) \<noteq> clo_RevocationState opts then False
      else if clo_RenewalState opts = ''notified'' \<and> IsZero (cert_RenewalNotifiedAt certificate) then False
      else if clo_RenewalState opts = ''unnotified'' \<and> \<not> IsZero (cert_RenewalNotifiedAt certificate) then False
      else if clo_ExpiresWithinDays opts \<noteq> 0 \<and>
          (cert_Status certificate \<noteq> CertificateValid \<or> cert_NotAfter certificate < now \<or> cert_NotAfter certificate > cutoff) then False
      else case identityByID of
          None \<Rightarrow> True
        | Some byID \<Rightarrow> (case mget byID (cert_IdentityID certificate) of
            None \<Rightarrow> False | Some identity \<Rightarrow> identityMatchesCertificateFilters identity opts))"

definition Service_ListCertificatesQuery :: "Service \<Rightarrow> CertificateListOptions \<Rightarrow> Certificate list option svc" where
  "Service_ListCertificatesQuery svc opts =
     thenM (liftE (validateListOptions (clo_Sort opts) (clo_Limit opts) (clo_Offset opts)))
    (failIf (clo_RevocationState opts \<noteq> [] \<and> \<not> isValidCertificateStatus (clo_RevocationState opts)) ErrInvalidRequest
    (failIf (clo_RenewalState opts \<noteq> [] \<and> clo_RenewalState opts \<noteq> ''notified'' \<and> clo_RenewalState opts \<noteq> ''unnotified'') ErrInvalidRequest
    (failIf (clo_ExpiresWithinDays opts \<noteq> 0 \<and> \<not> isAllowedExpiryWindowDays (clo_ExpiresWithinDays opts)) ErrInvalidRequest
    (bindM (onRepo MemoryStore_ListCertificates) (\<lambda>certificates.
     bindM (identityFilterLookup opts) (\<lambda>identityByID.
     bindM (Now svc) (\<lambda>now.
      returnM (sortAndPage (filter (certificateMatches opts identityByID now) certificates) (clo_Sort opts) (clo_Limit opts) (clo_Offset opts)
        (createdThenID cert_CreatedAt cert_ID)))))))))"

definition Service_ListCertificatesExpiringWithin :: "Service \<Rightarrow> int \<Rightarrow> int \<Rightarrow> int \<Rightarrow> Certificate list svc" where
  "Service_ListCertificatesExpiringWithin svc days limit offset =
     failIf (\<not> isAllowedExpiryWindowDays days) ErrInvalidRequest
    (failIf (limit < 0 \<or> offset < 0) ErrInvalidRequest
    (bindM (Now svc) (\<lambda>now.
      onRepo (MemoryStore_ListCertificatesExpiringWithin now (now + days * 24 * Hour) limit offset))))"

definition inventoryEntry :: "CertificateInventoryRecord \<Rightarrow> CertificateInventoryEntry" where
  "inventoryEntry record =
     (let certificate = cir_Certificate record; identity = cir_Identity record; issuer = cir_Issuer record in
      \<lparr>cie_CertificateID = cert_ID certificate, cie_Owner = idn_Owner identity, cie_Team = idn_Team identity, cie_Service = idn_Service identity,
       cie_Environment = idn_Environment identity, cie_DeploymentTarget = idn_DeploymentTarget identity, cie_IssuerID = cert_IssuerID certificate,
       cie_ProfileID = cert_CertificateProfileID certificate, cie_IssuerKeyRef = iss_KeyRef issuer,
       cie_RevocationState = str_CertificateStatus (cert_Status certificate), cie_LastSeenAt = idn_LastSeenAt identity,
       cie_CompletenessWarnings = identityCompletenessWarnings identity\<rparr>)"

definition Service_ListCertificateInventory :: "CertificateInventoryOptions \<Rightarrow> CertificateInventoryEntry list svc" where
  "Service_ListCertificateInventory opts =
     failIf (cio_Limit opts < 0 \<or> cio_Offset opts < 0) ErrInvalidRequest
    (bindM (onRepo (MemoryStore_ListCertificateInventory
        \<lparr>cif_Owner = cio_Owner opts, cif_Team = cio_Team opts, cif_Service = cio_Service opts, cif_Environment = cio_Environment opts,
         cif_IssuerID = cio_IssuerID opts, cif_ProfileID = cio_ProfileID opts, cif_RevocationState = cio_RevocationState opts,
         cif_Limit = cio_Limit opts, cif_Offset = cio_Offset opts\<rparr>)) (\<lambda>records.
      returnM (map inventoryEntry records)))"

definition unhandled :: "time \<Rightarrow> Certificate \<Rightarrow> bool" where
  "unhandled now certificate \<longleftrightarrow>
     (cert_Status certificate = CertificateValid \<or> cert_Status certificate = CertificateSuspended) \<and>
     cert_NotAfter certificate > now \<and> \<not> cert_NotAfter certificate > now + 14 * 24 * Hour \<and> IsZero (cert_RenewalNotifiedAt certificate)"

definition Service_ExpirySLO :: "Service \<Rightarrow> ExpirySLO svc" where
  "Service_ExpirySLO svc =
     bindM (onRepo MemoryStore_ListCertificates) (\<lambda>certificates.
     bindM (Now svc) (\<lambda>now.
      let ids = map cert_ID (filter (unhandled now) certificates) in
      returnM \<lparr>eslo_WindowDays = 14, eslo_UnhandledCount = int (length ids), eslo_UnhandledIDs = ids, eslo_OK = (length ids = 0)\<rparr>))"

section \<open>What a list contains\<close>

text \<open>A certificate that the options ask for, as a condition on the store.\<close>

definition certificateSelected :: "MemoryStore \<Rightarrow> CertificateListOptions \<Rightarrow> time \<Rightarrow> Certificate \<Rightarrow> bool" where
  "certificateSelected s opts now c \<longleftrightarrow>
     (clo_IssuerID opts = [] \<or> cert_IssuerID c = clo_IssuerID opts) \<and>
     (clo_ProfileID opts = [] \<or> cert_CertificateProfileID c = clo_ProfileID opts) \<and>
     (clo_SAN opts = [] \<or> clo_SAN opts \<in> set (cert_DNSNames c) \<union> set (cert_IPAddresses c)) \<and>
     (clo_RevocationState opts = [] \<or> str_CertificateStatus (cert_Status c) = clo_RevocationState opts) \<and>
     (clo_RenewalState opts = ''notified'' \<longrightarrow> cert_RenewalNotifiedAt c \<noteq> 0) \<and>
     (clo_RenewalState opts = ''unnotified'' \<longrightarrow> cert_RenewalNotifiedAt c = 0) \<and>
     (clo_ExpiresWithinDays opts \<noteq> 0 \<longrightarrow> cert_Status c = CertificateValid \<and> now \<le> cert_NotAfter c \<and>
        cert_NotAfter c \<le> now + clo_ExpiresWithinDays opts * 24 * Hour) \<and>
     (clo_Owner opts = [] \<and> clo_Team opts = [] \<and> clo_Service opts = [] \<and> clo_Environment opts = [] \<or>
        (\<exists>i. mget (ms_identities s) (cert_IdentityID c) = Some i \<and> (clo_Owner opts = [] \<or> idn_Owner i = clo_Owner opts) \<and>
           (clo_Team opts = [] \<or> idn_Team i = clo_Team opts) \<and> (clo_Service opts = [] \<or> idn_Service i = clo_Service opts) \<and>
           (clo_Environment opts = [] \<or> idn_Environment i = clo_Environment opts)))"

lemma byID_get:
  assumes "keyed idn_ID m"
  shows "mget (fold (\<lambda>identity byID. mput (idn_ID identity) identity byID) (mvals m) mempty) k = mget m k"
proof -
  have step: "(mget (fold (\<lambda>identity byID. mput (idn_ID identity) identity byID) xs m0) k = Some v \<longrightarrow>
       v \<in> set xs \<and> idn_ID v = k \<or> mget m0 k = Some v) \<and>
     ((\<exists>x \<in> set xs. idn_ID x = k) \<or> mget m0 k \<noteq> None \<longrightarrow> mget (fold (\<lambda>identity byID. mput (idn_ID identity) identity byID) xs m0) k \<noteq> None)"
    for xs m0 v
    by (induction xs arbitrary: m0) (force simp: mget_mput split: if_splits)+
  let ?t = "fold (\<lambda>identity byID. mput (idn_ID identity) identity byID) (mvals m) mempty"
  have get: "mget m k = Some v" if "mget ?t k = Some v" for v
    using step[of "mvals m" mempty v] that assms by (auto simp: in_mvals_iff keyed_def)
  show ?thesis
  proof (cases "mget m k")
    case None
    then show ?thesis using get by (cases "mget ?t k") auto
  next
    case (Some i)
    then have "i \<in> set (mvals m)" "idn_ID i = k" using assms by (auto simp: in_mvals_iff keyed_def)
    then have "mget ?t k \<noteq> None" using step[of "mvals m" mempty i] by blast
    then show ?thesis using get Some by auto
  qed
qed

lemma else_conj: "(if b then False else r) \<longleftrightarrow> \<not> b \<and> r"
  by simp

lemma certificateMatches_iff:
  assumes "keyed idn_ID (ms_identities s)"
    and "t = (if clo_Owner opts = [] \<and> clo_Team opts = [] \<and> clo_Service opts = [] \<and> clo_Environment opts = [] then None
      else Some (fold (\<lambda>identity byID. mput (idn_ID identity) identity byID) (mvals (ms_identities s)) mempty))"
  shows "certificateMatches opts t now c \<longleftrightarrow> certificateSelected s opts now c"
proof -
  have owner: "(case t of None \<Rightarrow> True | Some byID \<Rightarrow> (case mget byID (cert_IdentityID c) of
        None \<Rightarrow> False | Some identity \<Rightarrow> identityMatchesCertificateFilters identity opts)) \<longleftrightarrow>
     clo_Owner opts = [] \<and> clo_Team opts = [] \<and> clo_Service opts = [] \<and> clo_Environment opts = [] \<or>
        (\<exists>i. mget (ms_identities s) (cert_IdentityID c) = Some i \<and> identityMatchesCertificateFilters i opts)"
    by (cases "mget (ms_identities s) (cert_IdentityID c)") (simp_all add: assms(2) byID_get[OF assms(1)], blast)
  have match: "identityMatchesCertificateFilters i opts \<longleftrightarrow> (clo_Owner opts = [] \<or> idn_Owner i = clo_Owner opts) \<and>
      (clo_Team opts = [] \<or> idn_Team i = clo_Team opts) \<and> (clo_Service opts = [] \<or> idn_Service i = clo_Service opts) \<and>
      (clo_Environment opts = [] \<or> idn_Environment i = clo_Environment opts)" for i
    unfolding identityMatchesCertificateFilters_def else_conj by blast
  have san: "certificateHasSAN c n \<longleftrightarrow> n \<in> set (cert_DNSNames c) \<union> set (cert_IPAddresses c)" for n by (auto simp: certificateHasSAN_def)
  show ?thesis
    unfolding certificateMatches_def certificateSelected_def Let_def else_conj owner
    unfolding match san IsZero_def by (simp only: not_less de_Morgan_conj de_Morgan_disj not_not imp_conv_disj)
qed

lemma created_order: "createdThenID created ident a b \<longleftrightarrow> (created a, ident a) < (created b, ident b)"
  by (auto simp: createdThenID_def less_prod_def')

lemma set_insort_by: "set (insort_by lt x ys) = insert x (set ys)"
  by (induction ys) auto

lemma created_sorted: "sorted (map (\<lambda>c. (created c, ident c)) (sort_by (createdThenID created ident) xs))"
  by (rule sort_by_sorted) (rule created_order)

lemma created_sorted_down:
  "sorted (rev (map (\<lambda>c. (created c, ident c)) (sort_by (\<lambda>a b. createdThenID created ident b a) xs)))"
proof -
  let ?key = "\<lambda>c. (created c, ident c)"
  have insort: "sorted_wrt (\<lambda>a b. ?key b \<le> ?key a) ys \<Longrightarrow> sorted_wrt (\<lambda>a b. ?key b \<le> ?key a) (insort_by (\<lambda>a b. createdThenID created ident b a) x ys)" for x ys
    by (induction ys) (auto simp: created_order not_less set_insort_by)
  have "sorted_wrt (\<lambda>a b. ?key b \<le> ?key a) (sort_by (\<lambda>a b. createdThenID created ident b a) xs)"
    by (induction xs) (simp, simp only: sort_by.simps insort)
  then show ?thesis by (simp only: sorted_wrt_rev sorted_wrt_map)
qed

lemma lookup_run:
  "identityFilterLookup opts w = (Inr (if clo_Owner opts = [] \<and> clo_Team opts = [] \<and> clo_Service opts = [] \<and> clo_Environment opts = [] then None
      else Some (fold (\<lambda>identity byID. mput (idn_ID identity) identity byID) (mvals (ms_identities (w_repo w))) mempty)), w)"
  by (simp add: identityFilterLookup_def prog_simps run_onRepo MemoryStore_ListIdentities_def)

text \<open>
  \<^verbatim>\<open>ListCertificatesQuery\<close> returns the page asked for of the certificates the options select, each once, sorted by
  the time of creation and the identifier, in the direction asked for; it changes nothing.
\<close>

theorem ListCertificatesQuery_exact:
  assumes "sound svc w" and "Service_ListCertificatesQuery svc opts w = (Inr r, w')" and "clo_Offset opts + clo_Limit opts < 2 ^ 63"
  shows "w_repo w' = w_repo w \<and> (\<exists>cs. r = Some (pageOf cs (clo_Limit opts) (clo_Offset opts)) \<and> distinct cs \<and>
     set cs = {c. (\<exists>k. mget (ms_certificates (w_repo w)) k = Some c) \<and> certificateSelected (w_repo w) opts (svc_clock svc (w_clock w)) c} \<and>
     sorted (map (\<lambda>c. (cert_CreatedAt c, cert_ID c)) (if clo_Sort opts = ''desc'' then rev cs else cs)))"
proof -
  let ?t = "if clo_Owner opts = [] \<and> clo_Team opts = [] \<and> clo_Service opts = [] \<and> clo_Environment opts = [] then None
      else Some (fold (\<lambda>identity byID. mput (idn_ID identity) identity byID) (mvals (ms_identities (w_repo w))) mempty)"
  let ?m = "filter (certificateMatches opts ?t (svc_clock svc (w_clock w))) (mvals (ms_certificates (w_repo w)))"
  let ?lt = "createdThenID cert_CreatedAt cert_ID"
  let ?cs = "sort_by (if clo_Sort opts = ''desc'' then (\<lambda>a b. ?lt b a) else ?lt) ?m"
  have valid: "0 \<le> clo_Limit opts" "0 \<le> clo_Offset opts"
    using assms(2) by (auto simp: Service_ListCertificatesQuery_def validateListOptions_def prog_simps split: if_splits)
  have res: "r = sortAndPage ?m (clo_Sort opts) (clo_Limit opts) (clo_Offset opts) ?lt" "w_repo w' = w_repo w"
    using assms(2)
    by (auto simp: Service_ListCertificatesQuery_def lookup_run MemoryStore_ListCertificates_def inr_simps split del: if_split)
  have page: "r = Some (pageOf ?cs (clo_Limit opts) (clo_Offset opts))"
    unfolding res(1) by (rule sortAndPage_value[OF valid(2,1) assms(3)])
  have "set ?cs = {c. (\<exists>k. mget (ms_certificates (w_repo w)) k = Some c) \<and> certificateSelected (w_repo w) opts (svc_clock svc (w_clock w)) c}"
    using certificateMatches_iff[OF sound_keyed(1)[OF assms(1)] refl] by (auto simp: in_mvals_iff)
  moreover have "distinct ?cs"
    by (rule mset_eq_imp_distinct_iff[OF mset_sort_by, THEN iffD2]) (rule distinct_filter[OF keyed_distinct_vals(1)[OF sound_keyed(8)[OF assms(1)]]])
  moreover have "sorted (map (\<lambda>c. (cert_CreatedAt c, cert_ID c)) (if clo_Sort opts = ''desc'' then rev ?cs else ?cs))"
    using created_sorted[of cert_CreatedAt cert_ID ?m] created_sorted_down[of cert_CreatedAt cert_ID ?m] by (simp add: rev_map)
  ultimately show ?thesis using res(2) page by blast
qed

section \<open>The expiry objective after a scan\<close>

lemma scanned_unhandled:
  assumes "now \<noteq> 0" and "now \<le> later" and "later + 14 * 24 * Hour \<le> before"
  shows "unhandled later (scanned now before c) \<longleftrightarrow> cert_Status c = CertificateSuspended \<and> unhandled later c"
  using assms by (auto simp: unhandled_def scanned_def expiredAt_def warnedAt_def IsZero_def certificateIsExpiredCandidate_def
      certificateNeedsRenewalWarning_def)

lemma scanned_ID: "cert_ID (scanned now before c) = cert_ID c"
  by (simp add: scanned_def expiredAt_def warnedAt_def)

lemma ExpirySLO_run:
  "Service_ExpirySLO svc w = (Inr (let ids = map cert_ID (filter (unhandled (svc_clock svc (w_clock w))) (mvals (ms_certificates (w_repo w))))
     in \<lparr>eslo_WindowDays = 14, eslo_UnhandledCount = int (length ids), eslo_UnhandledIDs = ids, eslo_OK = (length ids = 0)\<rparr>), w\<lparr>w_clock := Suc (w_clock w)\<rparr>)"
  by (simp add: Service_ExpirySLO_def MemoryStore_ListCertificates_def prog_simps run_onRepo run_Now Let_def)

text \<open>
  C31: after an expiration scan whose window still covers the fourteen days that follow the report, the expiry objective reports exactly the
  suspended certificates that end inside the fourteen days and were never notified: the scan settles every valid one, and no
  scan settles a suspended one.
\<close>

theorem scan_settles_slo:
  fixes svc w req
  defines "now \<equiv> svc_clock svc (w_clock w)"
  assumes "sound svc w" and "0 < scr_Limit req" and "now \<noteq> 0" and "0 \<le> scr_WarningWindow req"
    and "length (filter (\<lambda>c. certificateNeedsExpirationScan c now (now + scr_WarningWindow req)) (mvals (ms_certificates (w_repo w))))
           \<le> nat (scr_Limit req)"
  shows "\<exists>res w' slo w''. Service_ScanCertificateExpirations svc ctx actor req w = (Inr res, w') \<and>
     Service_ExpirySLO svc w' = (Inr slo, w'') \<and>
     (now \<le> svc_clock svc (w_clock w') \<longrightarrow> svc_clock svc (w_clock w') + 14 * 24 * Hour \<le> now + scr_WarningWindow req \<longrightarrow>
      set (eslo_UnhandledIDs slo) = {cert_ID c |k c. mget (ms_certificates (w_repo w)) k = Some c \<and> cert_Status c = CertificateSuspended \<and>
        unhandled (svc_clock svc (w_clock w')) c}) \<and>
     (eslo_OK slo \<longleftrightarrow> eslo_UnhandledIDs slo = [])"
proof -
  let ?before = "now + scr_WarningWindow req"
  obtain res w' where run: "Service_ScanCertificateExpirations svc ctx actor req w = (Inr res, w')" "advance svc w w'"
    and new: "\<And>k. mget (ms_certificates (w_repo w')) k = map_option (scanned now ?before) (mget (ms_certificates (w_repo w)) k)"
    using scan_covers[OF assms(2,5,3), of ctx actor] assms(6) unfolding now_def by blast
  let ?later = "svc_clock svc (w_clock w')"
  have "cert_ID ` {c. (\<exists>k. mget (ms_certificates (w_repo w')) k = Some c) \<and> unhandled ?later c} =
      {cert_ID c |k c. mget (ms_certificates (w_repo w)) k = Some c \<and> cert_Status c = CertificateSuspended \<and> unhandled ?later c}"
    if "now \<le> ?later" "?later + 14 * 24 * Hour \<le> ?before"
    using new scanned_unhandled[OF assms(4) that] by (force simp: scanned_ID image_iff)
  moreover have "set (filter P (mvals m)) = {c. (\<exists>k. mget m k = Some c) \<and> P c}" for P and m :: "Certificate gomap"
    by (auto simp: in_mvals_iff)
  ultimately show ?thesis using run(1) ExpirySLO_run[of svc w'] by (auto simp: Let_def)
qed

end
