(* ===== verification/Enrollments.thy ===== *)
theory Enrollments
  imports Policy Lifecycle
begin

text \<open>
  Enrollments: \<^verbatim>\<open>CreateEnrollment\<close>, renewal and reissue, \<^verbatim>\<open>ApproveEnrollment\<close> and \<^verbatim>\<open>RejectEnrollment\<close> of
  \<^verbatim>\<open>internal/lifecycle/service.go\<close>. A method is \<open>Service_<Method> svc ctx actor ...\<close>; the part of it that runs
  inside \<^verbatim>\<open>WithinTx\<close> is the argument of \<open>MemoryStore_WithinTx\<close>. Metric recording
  (\<^verbatim>\<open>observeSigner\<close>) has no effect on results and is left out.

  The lemmas are the effects: what the store looks like after a call that succeeded, and that a
  failed call leaves it as it was.
\<close>

section \<open>Operations\<close>

definition createReqProfile :: "string \<Rightarrow> string \<Rightarrow> CertificateProfile svc" where
  "createReqProfile profileID issuerID =
     (if profileID \<noteq> [] then
        bindM (onRepo (MemoryStore_GetCertificateProfile profileID)) (\<lambda>profile.
        failIf (prof_IssuerID profile \<noteq> issuerID) ErrInvalidRequest (returnM profile))
      else returnM zero_CertificateProfile)"

definition inspectCSR :: "Service \<Rightarrow> string \<Rightarrow> CSRInfo svc" where
  "inspectCSR svc csrPEM =
     bindM (attemptM (callExt (\<lambda>n. ci_InspectCSR (svc_issuer svc) n csrPEM))) (\<lambda>r.
       case r of Inl err \<Rightarrow> throwM (mapCSRInspectError err) | Inr csrInfo \<Rightarrow> returnM csrInfo)"

definition enrollmentAuditFields :: "Enrollment \<Rightarrow> json gomap" where
  "enrollmentAuditFields enrollment =
     auditFields [''identity_id'', enr_IdentityID enrollment, ''issuer_id'', enr_IssuerID enrollment,
       ''enrollment_id'', enr_ID enrollment, ''profile_id'', enr_CertificateProfileID enrollment]"

text \<open>The enrollment both creating operations build from a request and the names of its CSR.\<close>

definition newEnrollment :: "string \<Rightarrow> CreateEnrollmentRequest \<Rightarrow> CSRInfo \<Rightarrow> time \<Rightarrow> Enrollment" where
  "newEnrollment ident req csrInfo now =
     \<lparr>enr_ID = ident, enr_IdentityID = cer_IdentityID req, enr_IssuerID = cer_IssuerID req,
      enr_CertificateProfileID = cer_CertificateProfileID req, enr_CSRPEM = cer_CSRPEM req,
      enr_Status = EnrollmentPending, enr_RequestedSubject = cer_RequestedSubject req,
      enr_RequestedDNSNames = copySlice (cer_RequestedDNSNames req),
      enr_RequestedIPAddresses = copySlice (cer_RequestedIPAddresses req),
      enr_CSRDNSNames = copySlice (csr_DNSNames csrInfo), enr_CSRIPAddresses = copySlice (csr_IPAddresses csrInfo),
      enr_RequestedNotAfter = cer_RequestedNotAfter req, enr_ApprovedBy = [], enr_ApprovedAt = time_zero,
      enr_CreatedAt = now, enr_UpdatedAt = now\<rparr>"

definition Service_CreateEnrollment :: "Service \<Rightarrow> Context \<Rightarrow> string \<Rightarrow> CreateEnrollmentRequest \<Rightarrow> Enrollment svc" where
  "Service_CreateEnrollment svc ctx actor req =
     bindM (Now svc) (\<lambda>now.
     thenM (liftE (validateCreateEnrollmentRequest req now))
    (bindM (onRepo (MemoryStore_GetIdentity (cer_IdentityID req))) (\<lambda>identity.
     thenM (onRepo (MemoryStore_GetIssuer (cer_IssuerID req)))
    (bindM (createReqProfile (cer_CertificateProfileID req) (cer_IssuerID req)) (\<lambda>profile.
     bindM (inspectCSR svc (cer_CSRPEM req)) (\<lambda>csrInfo.
     failIf (\<not> sameStringSet (cer_RequestedDNSNames req) (csr_DNSNames csrInfo) \<or>
             \<not> sameStringSet (cer_RequestedIPAddresses req) (csr_IPAddresses csrInfo)) ErrInvalidRequest
    (thenM (liftE (validateEnrollmentProfilePolicy req profile csrInfo now))
    (thenM (liftE (validateEnrollmentIdentityPolicy req identity))
    (bindM (NewID svc) (\<lambda>ident.
     let enrollment = newEnrollment ident req csrInfo now in
     thenM (MemoryStore_WithinTx (thenM (onRepo (memoryTx_GetIdentity (cer_IdentityID req)))
        (thenM (onRepo (memoryTx_GetIssuer (cer_IssuerID req)))
        (thenM (onRepo (memoryTx_CreateEnrollment enrollment))
          (createAuditEvent svc ctx actor ''enrollment.created'' ''enrollment'' (enr_ID enrollment) now
            (enrollmentAuditFields enrollment))))))
       (returnM enrollment)))))))))))"

definition replacementAuditFields :: "Enrollment \<Rightarrow> Certificate \<Rightarrow> json gomap" where
  "replacementAuditFields enrollment currentCertificate =
     auditFields [''identity_id'', enr_IdentityID enrollment, ''issuer_id'', enr_IssuerID enrollment,
       ''enrollment_id'', enr_ID enrollment, ''certificate_id'', cert_ID currentCertificate,
       ''serial_number'', cert_SerialNumber currentCertificate,
       ''profile_id'', enr_CertificateProfileID enrollment]"

text \<open>The request for a replacement: everything but the key and the end of validity comes from the certificate.\<close>

definition replacementRequest :: "Certificate \<Rightarrow> string \<Rightarrow> time \<Rightarrow> CreateEnrollmentRequest" where
  "replacementRequest certificate csrPEM requestedNotAfter =
     \<lparr>cer_IdentityID = cert_IdentityID certificate, cer_IssuerID = cert_IssuerID certificate,
      cer_CertificateProfileID = cert_CertificateProfileID certificate, cer_CSRPEM = csrPEM,
      cer_RequestedSubject = cert_Subject certificate,
      cer_RequestedDNSNames = copySlice (cert_DNSNames certificate),
      cer_RequestedIPAddresses = copySlice (cert_IPAddresses certificate),
      cer_RequestedNotAfter = requestedNotAfter\<rparr>"

text \<open>The profile check repeated inside the transaction.\<close>

definition recheckProfile :: "string \<Rightarrow> string \<Rightarrow> unit svc" where
  "recheckProfile profileID issuerID =
     (if profileID \<noteq> [] then
        bindM (onRepo (memoryTx_GetCertificateProfile profileID)) (\<lambda>profile.
        failIf (prof_IssuerID profile \<noteq> issuerID) ErrInvalidRequest (returnM ()))
      else returnM ())"

definition replacementTx ::
  "Service \<Rightarrow> Context \<Rightarrow> string \<Rightarrow> string \<Rightarrow> Enrollment \<Rightarrow> time \<Rightarrow> string \<Rightarrow> unit svc" where
  "replacementTx svc ctx actor certificateID enrollment now action =
     MemoryStore_WithinTx (bindM (onRepo (memoryTx_GetCertificate certificateID)) (\<lambda>currentCertificate.
         failIf (cert_Status currentCertificate \<noteq> CertificateValid) ErrInvalidTransition
        (thenM (onRepo (memoryTx_GetIdentity (enr_IdentityID enrollment)))
        (thenM (onRepo (memoryTx_GetIssuer (enr_IssuerID enrollment)))
        (thenM (recheckProfile (enr_CertificateProfileID enrollment) (enr_IssuerID enrollment))
        (thenM (onRepo (memoryTx_CreateEnrollment enrollment))
        (let flds = replacementAuditFields enrollment currentCertificate in
         thenM (createAuditEvent svc ctx actor action ''enrollment'' (enr_ID enrollment) now flds)
           (createOutboxMessage svc action now flds))))))))"

definition createCertificateReplacementEnrollment ::
  "Service \<Rightarrow> Context \<Rightarrow> string \<Rightarrow> string \<Rightarrow> string \<Rightarrow> time \<Rightarrow> string \<Rightarrow> Enrollment svc" where
  "createCertificateReplacementEnrollment svc ctx actor certificateID csrPEM requestedNotAfter action =
     failIf (isBlank certificateID) ErrInvalidRequest
    (bindM (onRepo (MemoryStore_GetCertificate certificateID)) (\<lambda>certificate.
     failIf (cert_Status certificate \<noteq> CertificateValid) ErrInvalidTransition
    (let createReq = replacementRequest certificate csrPEM requestedNotAfter in
     bindM (Now svc) (\<lambda>now.
     thenM (liftE (validateCreateEnrollmentRequest createReq now))
    (bindM (inspectCSR svc (cer_CSRPEM createReq)) (\<lambda>csrInfo.
     failIf (\<not> sameStringSet (cer_RequestedDNSNames createReq) (csr_DNSNames csrInfo) \<or>
             \<not> sameStringSet (cer_RequestedIPAddresses createReq) (csr_IPAddresses csrInfo)) ErrInvalidRequest
    (bindM (createReqProfile (cer_CertificateProfileID createReq) (cer_IssuerID createReq)) (\<lambda>profile.
     thenM (liftE (validateEnrollmentProfilePolicy createReq profile csrInfo now))
    (bindM (onRepo (MemoryStore_GetIdentity (cer_IdentityID createReq))) (\<lambda>identity.
     thenM (liftE (validateEnrollmentIdentityPolicy createReq identity))
    (bindM (NewID svc) (\<lambda>ident.
     let enrollment = newEnrollment ident createReq csrInfo now in
     thenM (replacementTx svc ctx actor certificateID enrollment now action)
       (returnM enrollment)))))))))))))"

definition Service_RenewCertificate ::
  "Service \<Rightarrow> Context \<Rightarrow> string \<Rightarrow> string \<Rightarrow> RenewCertificateRequest \<Rightarrow> Enrollment svc" where
  "Service_RenewCertificate svc ctx actor certificateID req =
     createCertificateReplacementEnrollment svc ctx actor certificateID (rcr_CSRPEM req) (rcr_RequestedNotAfter req)
       ''certificate.renewal_requested''"

definition Service_ReissueCertificate ::
  "Service \<Rightarrow> Context \<Rightarrow> string \<Rightarrow> string \<Rightarrow> ReissueCertificateRequest \<Rightarrow> Enrollment svc" where
  "Service_ReissueCertificate svc ctx actor certificateID req =
     failIf (isBlank certificateID) ErrInvalidRequest
    (bindM (onRepo (MemoryStore_GetCertificate certificateID)) (\<lambda>certificate.
     createCertificateReplacementEnrollment svc ctx actor certificateID (rir_CSRPEM req) (cert_NotAfter certificate)
       ''certificate.reissue_requested''))"

definition Service_ApproveEnrollment :: "Service \<Rightarrow> Context \<Rightarrow> string \<Rightarrow> string \<Rightarrow> Enrollment svc" where
  "Service_ApproveEnrollment svc ctx actor ident =
     failIf (isBlank ident) ErrInvalidRequest
    (bindM (Now svc) (\<lambda>now.
     MemoryStore_WithinTx
      (bindM (onRepo (memoryTx_GetEnrollment ident)) (\<lambda>enrollment.
       failIf (enr_Status enrollment \<noteq> EnrollmentPending) ErrInvalidTransition
      (let approved = enrollment\<lparr>enr_Status := EnrollmentApproved, enr_ApprovedBy := actor,
             enr_ApprovedAt := now, enr_UpdatedAt := now\<rparr> in
       thenM (onRepo (memoryTx_UpdateEnrollmentIfStatus approved EnrollmentPending))
      (thenM (createAuditEvent svc ctx actor ''enrollment.approved'' ''enrollment'' (enr_ID approved) now
          (addStatusTransition (enrollmentAuditFields approved)
            (str_EnrollmentStatus EnrollmentPending) (str_EnrollmentStatus (enr_Status approved))))
        (returnM approved)))))))"

definition Service_RejectEnrollment :: "Service \<Rightarrow> Context \<Rightarrow> string \<Rightarrow> string \<Rightarrow> Enrollment svc" where
  "Service_RejectEnrollment svc ctx actor ident =
     failIf (isBlank ident) ErrInvalidRequest
    (bindM (Now svc) (\<lambda>now.
     MemoryStore_WithinTx
      (bindM (onRepo (memoryTx_GetEnrollment ident)) (\<lambda>enrollment.
       failIf (enr_Status enrollment \<noteq> EnrollmentPending) ErrInvalidTransition
      (let rejected = enrollment\<lparr>enr_Status := EnrollmentRejected, enr_UpdatedAt := now\<rparr> in
       thenM (onRepo (memoryTx_UpdateEnrollmentIfStatus rejected EnrollmentPending))
      (thenM (createAuditEvent svc ctx actor ''enrollment.rejected'' ''enrollment'' (enr_ID rejected) now
          (addStatusTransition (enrollmentAuditFields rejected)
            (str_EnrollmentStatus EnrollmentPending) (str_EnrollmentStatus (enr_Status rejected))))
        (returnM rejected)))))))"

section \<open>Failures change nothing\<close>

lemma createReqProfile_quiet [clean_rules]: "quiet (createReqProfile profileID issuerID)"
  unfolding createReqProfile_def by (intro clean_rules)

lemma inspectCSR_quiet [clean_rules]: "quiet (inspectCSR svc csrPEM)"
  unfolding inspectCSR_def by (intro clean_rules)

lemma recheckProfile_quiet [clean_rules]: "quiet (recheckProfile profileID issuerID)"
  unfolding recheckProfile_def by (intro clean_rules)

lemma recheckProfile_grows [clean_rules]: "grows (recheckProfile profileID issuerID)"
  using recheckProfile_quiet by (simp add: quiet_def)

lemma CreateEnrollment_clean: "clean (Service_CreateEnrollment svc ctx actor req)"
  unfolding Service_CreateEnrollment_def by (intro clean_rules)

lemma replacementTx_clean: "clean (replacementTx svc ctx actor certificateID enrollment now action)"
  unfolding replacementTx_def by (intro clean_rules)

lemma replacement_clean:
  "clean (createCertificateReplacementEnrollment svc ctx actor certificateID csrPEM requestedNotAfter action)"
  unfolding createCertificateReplacementEnrollment_def by (intro clean_rules replacementTx_clean)

lemma RenewCertificate_clean: "clean (Service_RenewCertificate svc ctx actor certificateID rreq)"
  unfolding Service_RenewCertificate_def by (rule replacement_clean)

lemma ReissueCertificate_clean: "clean (Service_ReissueCertificate svc ctx actor certificateID ireq)"
  unfolding Service_ReissueCertificate_def by (intro clean_rules replacement_clean)

lemma ApproveEnrollment_clean: "clean (Service_ApproveEnrollment svc ctx actor ident)"
  unfolding Service_ApproveEnrollment_def by (intro clean_rules)

lemma RejectEnrollment_clean: "clean (Service_RejectEnrollment svc ctx actor ident)"
  unfolding Service_RejectEnrollment_def by (intro clean_rules)

section \<open>Effects\<close>

lemmas enrollment_store_defs =
  MemoryStore_GetEnrollment_def MemoryStore_UpdateEnrollmentIfStatus_def MemoryStore_CreateEnrollment_def
  MemoryStore_GetIdentity_def MemoryStore_GetIssuer_def MemoryStore_GetCertificateProfile_def
  MemoryStore_GetCertificate_def updateEnrollmentIfStatus_def

lemma createReqProfile_state: "createReqProfile profileID issuerID w = (r, w') \<Longrightarrow> w' = w"
  by (auto simp: createReqProfile_def prog_simps enrollment_store_defs split: if_splits option.splits)

text \<open>The profile a request names, the zero profile when it names none.\<close>

definition profileFor :: "MemoryStore \<Rightarrow> string \<Rightarrow> CertificateProfile option" where
  "profileFor s profileID =
     (if profileID = [] then Some zero_CertificateProfile else mget (ms_profiles s) profileID)"

lemma replacementRequest_simps [simp]:
  "cer_IdentityID (replacementRequest c csr t) = cert_IdentityID c"
  "cer_IssuerID (replacementRequest c csr t) = cert_IssuerID c"
  "cer_CertificateProfileID (replacementRequest c csr t) = cert_CertificateProfileID c"
  "cer_CSRPEM (replacementRequest c csr t) = csr" "cer_RequestedSubject (replacementRequest c csr t) = cert_Subject c"
  "cer_RequestedDNSNames (replacementRequest c csr t) = cert_DNSNames c"
  "cer_RequestedIPAddresses (replacementRequest c csr t) = cert_IPAddresses c"
  "cer_RequestedNotAfter (replacementRequest c csr t) = t"
  by (simp_all add: replacementRequest_def)

lemma createReqProfile_Inr:
  "createReqProfile profileID issuerID w = (Inr profile, w') \<Longrightarrow>
     w' = w \<and> profileFor (w_repo w) profileID = Some profile \<and> (profileID \<noteq> [] \<longrightarrow> prof_IssuerID profile = issuerID)"
  by (auto simp: createReqProfile_def profileFor_def prog_simps enrollment_store_defs split: if_splits option.splits)

lemma recheckProfile_Inr:
  "recheckProfile profileID issuerID w = (Inr u, w') \<Longrightarrow> w' = w"
  by (auto simp: recheckProfile_def inr_simps)

lemma inspectCSR_Inr:
  "inspectCSR svc csr w = (Inr csrInfo, w') \<Longrightarrow>
     ci_InspectCSR (svc_issuer svc) (w_ext w) csr = Inr csrInfo \<and> w' = w\<lparr>w_ext := Suc (w_ext w)\<rparr>"
  by (auto simp: inspectCSR_def prog_simps split: sum.splits)

lemma CreateEnrollment_effect:
  assumes "Service_CreateEnrollment svc ctx actor req w = (Inr enrollment, w')"
  obtains identity issuer profile csrInfo where
    "mget (ms_identities (w_repo w)) (cer_IdentityID req) = Some identity"
    and "mget (ms_issuers (w_repo w)) (cer_IssuerID req) = Some issuer"
    and "profileFor (w_repo w) (cer_CertificateProfileID req) = Some profile"
    and "cer_CertificateProfileID req \<noteq> [] \<longrightarrow> prof_IssuerID profile = cer_IssuerID req"
    and "ci_InspectCSR (svc_issuer svc) (w_ext w) (cer_CSRPEM req) = Inr csrInfo"
    and "sameStringSet (cer_RequestedDNSNames req) (csr_DNSNames csrInfo)"
    and "sameStringSet (cer_RequestedIPAddresses req) (csr_IPAddresses csrInfo)"
    and "validateCreateEnrollmentRequest req (svc_clock svc (w_clock w)) = Inr ()"
    and "validateEnrollmentProfilePolicy req profile csrInfo (svc_clock svc (w_clock w)) = Inr ()"
    and "validateEnrollmentIdentityPolicy req identity = Inr ()"
    and "enrollment = newEnrollment (svc_idgen svc (w_ids w)) req csrInfo (svc_clock svc (w_clock w))"
    and "w_repo w' = (w_repo w)\<lparr>ms_enrollments := mput (enr_ID enrollment) enrollment (ms_enrollments (w_repo w)),
      ms_auditEvents := ms_auditEvents (w_repo w) @ [auditEventFor svc ctx (svc_idgen svc (Suc (w_ids w))) actor
        ''enrollment.created'' ''enrollment'' (enr_ID enrollment) (svc_clock svc (w_clock w))
        (enrollmentAuditFields enrollment)]\<rparr>"
    and "w_ids w' = Suc (Suc (w_ids w))"
  using assms(1)
  by (clarsimp simp: Service_CreateEnrollment_def inr_simps Let_def
      dest!: createReqProfile_Inr inspectCSR_Inr recheckProfile_Inr)


lemma replacementTx_Inr:
  "replacementTx svc ctx actor certificateID enrollment now action w = (Inr u, w') \<Longrightarrow>
     \<exists>certificate. mget (ms_certificates (w_repo w)) certificateID = Some certificate \<and>
       cert_Status certificate = CertificateValid \<and>
       w' = w\<lparr>w_ids := Suc (Suc (w_ids w)),
         w_repo := (w_repo w)\<lparr>ms_enrollments := mput (enr_ID enrollment) enrollment (ms_enrollments (w_repo w)),
           ms_auditEvents := ms_auditEvents (w_repo w) @ [auditEventFor svc ctx (svc_idgen svc (w_ids w)) actor
             action ''enrollment'' (enr_ID enrollment) now (replacementAuditFields enrollment certificate)],
           ms_outbox := mput (svc_idgen svc (Suc (w_ids w)))
             (outboxMessageFor (svc_idgen svc (Suc (w_ids w))) action now
               (replacementAuditFields enrollment certificate)) (ms_outbox (w_repo w))\<rparr>\<rparr>"
  by (auto simp: replacementTx_def inr_simps Let_def dest!: recheckProfile_Inr)

lemma replacement_prepared:
  assumes "createCertificateReplacementEnrollment svc ctx actor certificateID csrPEM notAfter action w = (Inr enrollment, w')"
  shows "\<exists>certificate csrInfo.
    mget (ms_certificates (w_repo w)) certificateID = Some certificate \<and>
    cert_Status certificate = CertificateValid \<and>
    ci_InspectCSR (svc_issuer svc) (w_ext w) csrPEM = Inr csrInfo \<and>
    sameStringSet (cert_DNSNames certificate) (csr_DNSNames csrInfo) \<and>
    sameStringSet (cert_IPAddresses certificate) (csr_IPAddresses csrInfo) \<and>
    enrollment = newEnrollment (svc_idgen svc (w_ids w)) (replacementRequest certificate csrPEM notAfter)
       csrInfo (svc_clock svc (w_clock w)) \<and>
    replacementTx svc ctx actor certificateID enrollment (svc_clock svc (w_clock w)) action
      (w\<lparr>w_clock := Suc (w_clock w), w_ext := Suc (w_ext w), w_ids := Suc (w_ids w)\<rparr>) = (Inr (), w')"
  using assms
  by (clarsimp simp: createCertificateReplacementEnrollment_def inr_simps Let_def
      dest!: createReqProfile_Inr inspectCSR_Inr)

lemma replacement_effect:
  assumes "createCertificateReplacementEnrollment svc ctx actor certificateID csrPEM notAfter action w = (Inr enrollment, w')"
  obtains certificate csrInfo flds where
    "mget (ms_certificates (w_repo w)) certificateID = Some certificate"
    and "cert_Status certificate = CertificateValid"
    and "sameStringSet (cert_DNSNames certificate) (csr_DNSNames csrInfo)"
    and "sameStringSet (cert_IPAddresses certificate) (csr_IPAddresses csrInfo)"
    and "enrollment = newEnrollment (svc_idgen svc (w_ids w)) (replacementRequest certificate csrPEM notAfter)
       csrInfo (svc_clock svc (w_clock w))"
    and "w_repo w' = (w_repo w)\<lparr>ms_enrollments := mput (enr_ID enrollment) enrollment (ms_enrollments (w_repo w)),
      ms_auditEvents := ms_auditEvents (w_repo w) @ [auditEventFor svc ctx (svc_idgen svc (Suc (w_ids w))) actor
        action ''enrollment'' (enr_ID enrollment) (svc_clock svc (w_clock w)) flds],
      ms_outbox := mput (svc_idgen svc (Suc (Suc (w_ids w))))
        (outboxMessageFor (svc_idgen svc (Suc (Suc (w_ids w)))) action (svc_clock svc (w_clock w)) flds)
        (ms_outbox (w_repo w))\<rparr>"
    and "w_ids w' = Suc (Suc (Suc (w_ids w)))"
proof -
  let ?w1 = "w\<lparr>w_clock := Suc (w_clock w), w_ext := Suc (w_ext w), w_ids := Suc (w_ids w)\<rparr>"
  obtain certificate csrInfo where facts: "mget (ms_certificates (w_repo w)) certificateID = Some certificate"
      "cert_Status certificate = CertificateValid"
      "sameStringSet (cert_DNSNames certificate) (csr_DNSNames csrInfo)"
      "sameStringSet (cert_IPAddresses certificate) (csr_IPAddresses csrInfo)"
      "enrollment = newEnrollment (svc_idgen svc (w_ids w)) (replacementRequest certificate csrPEM notAfter)
         csrInfo (svc_clock svc (w_clock w))"
    and tx: "replacementTx svc ctx actor certificateID enrollment (svc_clock svc (w_clock w)) action ?w1 = (Inr (), w')"
    using replacement_prepared[OF assms] by blast
  show thesis
    using replacementTx_Inr[OF tx] by (elim exE conjE) (rule that[OF facts], simp_all)
qed

lemma ApproveEnrollment_effect:
  assumes "Service_ApproveEnrollment svc ctx actor ident w = (Inr enrollment, w')"
  obtains before where "mget (ms_enrollments (w_repo w)) ident = Some before"
    and "enr_Status before = EnrollmentPending"
    and "enrollment = before\<lparr>enr_Status := EnrollmentApproved, enr_ApprovedBy := actor,
           enr_ApprovedAt := svc_clock svc (w_clock w), enr_UpdatedAt := svc_clock svc (w_clock w)\<rparr>"
    and "w_repo w' = (w_repo w)\<lparr>ms_enrollments := mput (enr_ID before) enrollment (ms_enrollments (w_repo w)),
           ms_auditEvents := ms_auditEvents (w_repo w) @
             [auditEventFor svc ctx (svc_idgen svc (w_ids w)) actor ''enrollment.approved'' ''enrollment'' (enr_ID before)
               (svc_clock svc (w_clock w)) (addStatusTransition (enrollmentAuditFields enrollment) ''pending'' ''approved'')]\<rparr>"
    and "w_ids w' = Suc (w_ids w)"
  using assms(1) by (auto simp: Service_ApproveEnrollment_def inr_simps Let_def)

lemma RejectEnrollment_effect:
  assumes "Service_RejectEnrollment svc ctx actor ident w = (Inr enrollment, w')"
  obtains before where "mget (ms_enrollments (w_repo w)) ident = Some before"
    and "enr_Status before = EnrollmentPending"
    and "enrollment = before\<lparr>enr_Status := EnrollmentRejected, enr_UpdatedAt := svc_clock svc (w_clock w)\<rparr>"
    and "w_repo w' = (w_repo w)\<lparr>ms_enrollments := mput (enr_ID before) enrollment (ms_enrollments (w_repo w)),
           ms_auditEvents := ms_auditEvents (w_repo w) @
             [auditEventFor svc ctx (svc_idgen svc (w_ids w)) actor ''enrollment.rejected'' ''enrollment'' (enr_ID before)
               (svc_clock svc (w_clock w)) (addStatusTransition (enrollmentAuditFields enrollment) ''pending'' ''rejected'')]\<rparr>"
    and "w_ids w' = Suc (w_ids w)"
  using assms(1) by (auto simp: Service_RejectEnrollment_def inr_simps Let_def)

section \<open>The operations follow the state machines\<close>

lemma CreateEnrollment_advances [advances_rules]: "advances svc (Service_CreateEnrollment svc ctx actor req)"
proof (rule advances_clean[OF CreateEnrollment_clean])
  fix w e w'
  assume s: "sound svc w" and run: "Service_CreateEnrollment svc ctx actor req w = (Inr e, w')"
  from run show "advance svc w w'"
  proof (rule CreateEnrollment_effect, goal_cases)
    case (1 identity issuer profile csrInfo)
    from 1(11) show ?case
      by (intro advance_by_updates[OF s 1(12) 1(13)] update_rules)
        (simp_all add: newEnrollment_def sound_facts[OF s] table_evolves_fresh dom_mput)
  qed
qed

lemma replacement_advances:
  "advances svc (createCertificateReplacementEnrollment svc ctx actor certificateID csrPEM notAfter action)"
proof (rule advances_clean[OF replacement_clean])
  fix w e w'
  assume s: "sound svc w"
    and run: "createCertificateReplacementEnrollment svc ctx actor certificateID csrPEM notAfter action w = (Inr e, w')"
  from run show "advance svc w w'"
  proof (rule replacement_effect, goal_cases)
    case (1 certificate csrInfo flds)
    from 1(5) show ?case
      by (intro advance_by_updates[OF s 1(6) 1(7)] update_rules)
        (simp_all add: newEnrollment_def outboxMessageFor_def sound_facts[OF s] table_evolves_fresh dom_mput)
  qed
qed

lemma RenewCertificate_advances [advances_rules]: "advances svc (Service_RenewCertificate svc ctx actor certificateID rreq)"
  unfolding Service_RenewCertificate_def by (rule replacement_advances)

lemma ReissueCertificate_advances [advances_rules]: "advances svc (Service_ReissueCertificate svc ctx actor certificateID ireq)"
  unfolding Service_ReissueCertificate_def by (intro advances_rules replacement_advances)

lemma ApproveEnrollment_advances [advances_rules]: "advances svc (Service_ApproveEnrollment svc ctx actor ident)"
proof (rule advances_clean[OF ApproveEnrollment_clean])
  fix w e w'
  assume s: "sound svc w" and run: "Service_ApproveEnrollment svc ctx actor ident w = (Inr e, w')"
  from run show "advance svc w w'"
  proof (rule ApproveEnrollment_effect, goal_cases)
    case (1 before)
    from 1(2,3) have "enrollmentStep before e" "enr_ID e = enr_ID before"
      by (simp_all add: step_defs)
    note put = put_enrollments[OF s 1(1) this]
    show ?case
      by (intro advance_by_updates[OF s 1(4) 1(5)] update_rules) (simp_all add: put sound_facts[OF s])
  qed
qed

lemma RejectEnrollment_advances [advances_rules]: "advances svc (Service_RejectEnrollment svc ctx actor ident)"
proof (rule advances_clean[OF RejectEnrollment_clean])
  fix w e w'
  assume s: "sound svc w" and run: "Service_RejectEnrollment svc ctx actor ident w = (Inr e, w')"
  from run show "advance svc w w'"
  proof (rule RejectEnrollment_effect, goal_cases)
    case (1 before)
    from 1(2,3) have "enrollmentStep before e" "enr_ID e = enr_ID before"
      by (simp_all add: step_defs)
    note put = put_enrollments[OF s 1(1) this]
    show ?case
      by (intro advance_by_updates[OF s 1(4) 1(5)] update_rules) (simp_all add: put sound_facts[OF s])
  qed
qed

end
