(* ===== verification/Caa.thy ===== *)
theory Caa
  imports Frames
begin

text \<open>
  Certification authority authorization (RFC 8659): the DNS message handling of
  \<^verbatim>\<open>internal/lifecycle/caa.go\<close> (building the query, parsing the answer, climbing the name) and the decision of
  \<^verbatim>\<open>internal/lifecycle/service.go\<close> (\<^verbatim>\<open>PublicTLSCAAPolicy.check\<close> and its helpers). The UDP exchange and the
  random source are parameters. In the parser, \<open>None\<close> stands for a read outside the received bytes
  (a panic, or stale bytes of the buffer), and an error of the code is an \<open>Inl\<close>.
\<close>

unbundle bit_operations_syntax

section \<open>DNS messages\<close>

definition dnsTypeCAA :: nat where "dnsTypeCAA = 257"

definition byteAt :: "string \<Rightarrow> nat \<Rightarrow> nat option" where
  "byteAt msg i = (if i < length msg then Some (of_char (msg ! i)) else None)"

text \<open>\<^verbatim>\<open>binary.BigEndian.Uint16(message[i:i+2])\<close> and \<^verbatim>\<open>message[a:b]\<close>.\<close>

definition be16At :: "string \<Rightarrow> nat \<Rightarrow> nat option" where
  "be16At msg i = (case byteAt msg i of None \<Rightarrow> None | Some hi \<Rightarrow>
     (case byteAt msg (i + 1) of None \<Rightarrow> None | Some lo \<Rightarrow> Some (hi * 256 + lo)))"

definition sliceAt :: "string \<Rightarrow> nat \<Rightarrow> nat \<Rightarrow> string option" where
  "sliceAt msg a b = (if a \<le> b \<and> b \<le> length msg then Some (take (b - a) (drop a msg)) else None)"

definition put16 :: "nat \<Rightarrow> string" where
  "put16 n = [char_of (n div 256), char_of (n mod 256)]"

fun queryLabels :: "string list \<Rightarrow> string result" where
  "queryLabels [] = Inr []"
| "queryLabels (label # rest) =
     (if label = [] \<or> length label > 63 then Inl ErrInvalidRequest
      else case queryLabels rest of Inl e \<Rightarrow> Inl e | Inr out \<Rightarrow> Inr (char_of (length label) # label @ out))"

definition buildCAAQuery :: "string result \<Rightarrow> string \<Rightarrow> (string \<times> nat) result" where
  "buildCAAQuery randomBytes name =
     (case randomBytes of
        Inl err \<Rightarrow> Inl err
      | Inr idBytes \<Rightarrow>
          let ident = of_char (idBytes ! 0) * 256 + of_char (idBytes ! 1) in
          case queryLabels (Split (TrimSuffix name ''.'') CHR ''.'') of
            Inl e \<Rightarrow> Inl e
          | Inr labels \<Rightarrow>
              Inr (put16 ident @ put16 0x0100 @ put16 1 @ replicate 6 (char_of (0::nat)) @ labels @
                   [char_of (0::nat)] @ put16 dnsTypeCAA @ put16 1, ident))"

function skipDNSName :: "string \<Rightarrow> nat \<Rightarrow> nat result" where
  "skipDNSName msg offset =
     (if offset \<ge> length msg then Inl ErrInvalidRequest
      else let len = (of_char (msg ! offset) :: nat) in
        if len = 0 then Inr (offset + 1)
        else if len AND 0xc0 = 0xc0 then
          (if offset + 1 \<ge> length msg then Inl ErrInvalidRequest else Inr (offset + 2))
        else if offset + 1 + len > length msg then Inl ErrInvalidRequest
        else skipDNSName msg (offset + 1 + len))"
  by pat_completeness auto
termination by (relation "measure (\<lambda>(msg, offset). length msg - offset)") auto

declare skipDNSName.simps [simp del]

fun skipQuestions :: "string \<Rightarrow> nat \<Rightarrow> nat \<Rightarrow> nat result" where
  "skipQuestions msg 0 offset = Inr offset"
| "skipQuestions msg (Suc n) offset =
     (case skipDNSName msg offset of
        Inl e \<Rightarrow> Inl e
      | Inr off1 \<Rightarrow> if off1 + 4 > length msg then Inl ErrInvalidRequest else skipQuestions msg n (off1 + 4))"

fun readAnswers :: "string \<Rightarrow> nat \<Rightarrow> nat \<Rightarrow> CAARecord list \<Rightarrow> CAARecord list result option" where
  "readAnswers msg 0 offset records = Some (Inr records)"
| "readAnswers msg (Suc n) offset records =
     (case skipDNSName msg offset of
        Inl e \<Rightarrow> Some (Inl e)
      | Inr off1 \<Rightarrow>
          if off1 + 10 > length msg then Some (Inl ErrInvalidRequest)
          else case be16At msg off1 of None \<Rightarrow> None | Some rrType \<Rightarrow>
            case be16At msg (off1 + 2) of None \<Rightarrow> None | Some rrClass \<Rightarrow>
            case be16At msg (off1 + 8) of None \<Rightarrow> None | Some rdLen \<Rightarrow>
            let off2 = off1 + 10 in
            if off2 + rdLen > length msg then Some (Inl ErrInvalidRequest)
            else if rrType = dnsTypeCAA \<and> rrClass = 1 \<and> rdLen \<ge> 2 then
              case sliceAt msg off2 (off2 + rdLen) of None \<Rightarrow> None | Some data \<Rightarrow>
              case byteAt data 1 of None \<Rightarrow> None | Some tagLen \<Rightarrow>
              if 2 + tagLen \<le> length data then
                case byteAt data 0 of None \<Rightarrow> None | Some flag \<Rightarrow>
                case sliceAt data 2 (2 + tagLen) of None \<Rightarrow> None | Some tag \<Rightarrow>
                case sliceAt data (2 + tagLen) (length data) of None \<Rightarrow> None | Some val \<Rightarrow>
                readAnswers msg n (off2 + rdLen) (records @ [\<lparr>caa_Flag = int flag, caa_Tag = tag, caa_Value = val\<rparr>])
              else readAnswers msg n (off2 + rdLen) records
            else readAnswers msg n (off2 + rdLen) records)"

definition rcodeError :: "nat \<Rightarrow> error" where
  "rcodeError rcode = ErrExternal (''dns response rcode '' @ Itoa (int rcode))"

definition parseCAAResponse :: "string \<Rightarrow> nat \<Rightarrow> (CAALookupResult \<times> bool) result option" where
  "parseCAAResponse msg ident =
     (if length msg < 12 then Some (Inl ErrInvalidRequest)
      else case be16At msg 0 of None \<Rightarrow> None | Some got \<Rightarrow>
      if got \<noteq> ident then Some (Inl ErrInvalidRequest)
      else case be16At msg 2 of None \<Rightarrow> None | Some flags \<Rightarrow>
      let status = (if flags AND 0x0020 \<noteq> 0 then CAADNSSECSecure else CAADNSSECIndeterminate);
          rcode = flags AND 0x000f in
      if rcode = 2 then Some (Inr (\<lparr>clr_Records = [], clr_DNSSECStatus = CAADNSSECBogus\<rparr>, True))
      else if rcode = 3 then Some (Inr (\<lparr>clr_Records = [], clr_DNSSECStatus = status\<rparr>, False))
      else if rcode \<noteq> 0 then Some (Inl (rcodeError rcode))
      else case be16At msg 4 of None \<Rightarrow> None | Some qd \<Rightarrow>
      case be16At msg 6 of None \<Rightarrow> None | Some an \<Rightarrow>
      case skipQuestions msg qd 12 of Inl e \<Rightarrow> Some (Inl e) | Inr offset \<Rightarrow>
      case readAnswers msg an offset [] of None \<Rightarrow> None
      | Some (Inl e) \<Rightarrow> Some (Inl e)
      | Some (Inr records) \<Rightarrow> Some (Inr (\<lparr>clr_Records = records, clr_DNSSECStatus = status\<rparr>, length records > 0)))"

section \<open>Reads stay inside the message\<close>

lemma skipDNSName_bounds: "skipDNSName msg offset = Inr off' \<Longrightarrow> offset < off' \<and> off' \<le> length msg"
proof (induction msg offset rule: skipDNSName.induct)
  case (1 msg offset)
  then show ?case by (subst (asm) (2) skipDNSName.simps) (auto simp: Let_def split: if_splits)
qed

lemma skipQuestions_bounds: "skipQuestions msg n offset = Inr off' \<Longrightarrow> offset \<le> length msg \<Longrightarrow> off' \<le> length msg"
  by (induction msg n offset rule: skipQuestions.induct) (auto split: sum.splits if_splits)

lemma reads_defined:
  "i < length msg \<Longrightarrow> byteAt msg i \<noteq> None" "i + 2 \<le> length msg \<Longrightarrow> be16At msg i \<noteq> None"
  "a \<le> b \<Longrightarrow> b \<le> length msg \<Longrightarrow> sliceAt msg a b \<noteq> None"
  by (auto simp: byteAt_def be16At_def sliceAt_def)

lemma sliceAt_length: "sliceAt msg a b = Some d \<Longrightarrow> length d = b - a"
  by (auto simp: sliceAt_def split: if_splits)

lemma readAnswers_defined: "readAnswers msg n offset records \<noteq> None"
proof (induction msg n offset records rule: readAnswers.induct)
  case (2 msg n offset records)
  show ?case
  proof (cases "skipDNSName msg offset")
    case (Inr off1)
    show ?thesis
    proof (cases "off1 + 10 > length msg")
      case False
      then obtain ty cl len where be: "be16At msg off1 = Some ty" "be16At msg (off1 + 2) = Some cl" "be16At msg (off1 + 8) = Some len"
        using reads_defined(2)[of off1 msg] reads_defined(2)[of "off1 + 2" msg] reads_defined(2)[of "off1 + 8" msg] by auto
      note IH = 2[OF Inr False be refl]
      show ?thesis
      proof (cases "off1 + 10 + len > length msg")
        case small: False
        show ?thesis
        proof (cases "ty = dnsTypeCAA \<and> cl = 1 \<and> len \<ge> 2")
          case True
          obtain d where d: "sliceAt msg (off1 + 10) (off1 + 10 + len) = Some d"
            using small reads_defined(3)[of "off1 + 10" "off1 + 10 + len" msg] by auto
          then have len: "length d = len" by (simp add: sliceAt_length)
          obtain fl tl where b: "byteAt d 0 = Some fl" "byteAt d 1 = Some tl"
            using True len reads_defined(1)[of 0 d] reads_defined(1)[of 1 d] by auto
          show ?thesis
            using IH(1)[OF small True d b(2)] IH(2)[OF small True d b(2)] Inr False be small True d b len
              reads_defined(3)[of 2 "2 + tl" d] reads_defined(3)[of "2 + tl" "length d" d]
            by (auto simp: Let_def)
        qed (use IH(3)[OF small] Inr False be small in \<open>auto simp: Let_def\<close>)
      qed (use Inr False be in \<open>auto simp: Let_def\<close>)
    qed (use Inr in simp)
  qed simp
qed simp


section \<open>Reading what a resolver writes\<close>

text \<open>The answer section of a response: every record under a pointer to the question's name.\<close>

definition caaRData :: "CAARecord \<Rightarrow> string" where
  "caaRData r = [char_of (nat (caa_Flag r)), char_of (length (caa_Tag r))] @ caa_Tag r @ caa_Value r"

definition caaAnswer :: "string \<Rightarrow> CAARecord \<Rightarrow> string" where
  "caaAnswer ttl r = put16 0xC00C @ put16 dnsTypeCAA @ put16 1 @ ttl @ put16 (length (caaRData r)) @ caaRData r"

definition encodable :: "CAARecord \<Rightarrow> bool" where
  "encodable r \<longleftrightarrow> 0 \<le> caa_Flag r \<and> caa_Flag r < 256 \<and> length (caa_Tag r) < 256 \<and> length (caaRData r) < 65536"

definition caaResponse :: "nat \<Rightarrow> nat \<Rightarrow> string \<Rightarrow> string \<Rightarrow> CAARecord list \<Rightarrow> string \<Rightarrow> string" where
  "caaResponse ident flags question ttl records extra =
     put16 ident @ put16 flags @ put16 1 @ put16 (length records) @ put16 0 @ put16 0 @
     question @ concat (map (caaAnswer ttl) records) @ extra"

lemma put16_length [simp]: "length (put16 n) = 2"
  by (simp add: put16_def)

lemma byteAt_append: "byteAt (pre @ post) i = (if i < length pre then byteAt pre i else byteAt post (i - length pre))"
  by (auto simp: byteAt_def nth_append)

lemma be16At_put16: "n < 65536 \<Longrightarrow> be16At (pre @ put16 n @ post) (length pre) = Some n"
  by (simp add: be16At_def byteAt_def put16_def nth_append of_char_of take_bit_eq_mod)

lemma be16At_put16_at: "n < 65536 \<Longrightarrow> i = length pre \<Longrightarrow> be16At (pre @ put16 n @ post) i = Some n"
  by (simp add: be16At_put16)

lemma sliceAt_append: "a = length pre \<Longrightarrow> b = length pre + length mid \<Longrightarrow> sliceAt (pre @ mid @ post) a b = Some mid"
  by (simp add: sliceAt_def)

lemma short_not_pointer: "n \<le> 63 \<Longrightarrow> n AND 0xc0 \<noteq> (0xc0 :: nat)"
proof -
  assume "n \<le> 63"
  then have "n = take_bit 6 n" by (simp add: take_bit_nat_eq_self)
  then have "\<not> bit (n AND 0xc0) 6" by (metis bit_and_iff bit_take_bit_iff less_irrefl)
  moreover have "bit (0xc0 :: nat) 6" by (simp add: bit_iff_odd)
  ultimately show ?thesis by metis
qed

lemma skip_pointer: "skipDNSName (pre @ put16 0xC00C @ post) (length pre) = Inr (length pre + 2)"
  by (subst skipDNSName.simps) (simp add: put16_def nth_append Let_def)

lemma skip_labels:
  assumes "queryLabels labels = Inr out"
  shows "skipDNSName (pre @ out @ char_of (0::nat) # post) (length pre) = Inr (length pre + length out + 1)"
  using assms
proof (induction labels arbitrary: pre out)
  case Nil
  then show ?case by (subst skipDNSName.simps) (simp add: nth_append Let_def)
next
  case (Cons l ls)
  then obtain out' where out: "queryLabels ls = Inr out'" "out = char_of (length l) # l @ out'" and l: "l \<noteq> []" "length l \<le> 63"
    by (auto split: if_splits sum.splits)
  have "skipDNSName ((pre @ char_of (length l) # l) @ out' @ char_of (0::nat) # post) (length (pre @ char_of (length l) # l)) =
      Inr (length (pre @ char_of (length l) # l) + length out' + 1)"
    using Cons.IH[OF out(1)] .
  moreover have "of_char (char_of (length l) :: char) = length l" using l by (simp add: of_char_of take_bit_eq_mod)
  ultimately show ?case
    using l short_not_pointer[OF l(2)] by (subst skipDNSName.simps) (simp add: out(2) nth_append Let_def)
qed

lemma readAnswers_encoded:
  assumes "\<And>r. r \<in> set rs \<Longrightarrow> encodable r" "length ttl = 4"
  shows "readAnswers (pre @ concat (map (caaAnswer ttl) rs) @ post) (length rs) (length pre) acc = Some (Inr (acc @ rs))"
  using assms(1)
proof (induction rs arbitrary: pre acc)
  case (Cons r rs)
  let ?rest = "concat (map (caaAnswer ttl) rs) @ post"
  let ?msg = "pre @ caaAnswer ttl r @ ?rest"
  let ?p1 = "pre @ put16 0xC00C" let ?p2 = "?p1 @ put16 dnsTypeCAA" let ?p3 = "?p2 @ put16 1 @ ttl"
  let ?p4 = "?p3 @ put16 (length (caaRData r))"
  have r: "encodable r" using Cons.prems by simp
  have msg: "?msg = pre @ put16 0xC00C @ put16 dnsTypeCAA @ put16 1 @ ttl @ put16 (length (caaRData r)) @ caaRData r @ ?rest"
    by (simp add: caaAnswer_def)
  have skip: "skipDNSName ?msg (length pre) = Inr (length pre + 2)" unfolding msg by (rule skip_pointer)
  have ty: "be16At ?msg (length pre + 2) = Some dnsTypeCAA"
    using be16At_put16[of dnsTypeCAA ?p1] by (simp add: msg dnsTypeCAA_def)
  have cl: "be16At ?msg (length pre + 4) = Some 1" using be16At_put16[of 1 ?p2] by (simp add: msg)
  have ln: "be16At ?msg (length pre + 10) = Some (length (caaRData r))"
    using be16At_put16[of "length (caaRData r)" ?p3] r assms(2) by (simp add: msg encodable_def)
  have sl: "sliceAt ?msg (length pre + 12) (length pre + 12 + length (caaRData r)) = Some (caaRData r)"
    using sliceAt_append[of _ ?p4 _ "caaRData r" ?rest] assms(2) by (simp add: msg)
  have "nat (caa_Flag r) < 256" "length (caa_Tag r) < 256" using r by (auto simp: encodable_def)
  then have b0: "byteAt (caaRData r) 0 = Some (nat (caa_Flag r))" "byteAt (caaRData r) 1 = Some (length (caa_Tag r))"
    by (simp_all add: caaRData_def byteAt_def of_char_of take_bit_eq_mod)
  have parts: "sliceAt (caaRData r) 2 (2 + length (caa_Tag r)) = Some (caa_Tag r)"
    "sliceAt (caaRData r) (2 + length (caa_Tag r)) (length (caaRData r)) = Some (caa_Value r)"
    by (simp_all add: sliceAt_def caaRData_def)
  have row: "\<lparr>caa_Flag = int (nat (caa_Flag r)), caa_Tag = caa_Tag r, caa_Value = caa_Value r\<rparr> = r"
    using r by (simp add: encodable_def)
  have lens: "length ?msg = length pre + 12 + length (caaRData r) + length ?rest" "2 \<le> length (caaRData r)"
    "2 + length (caa_Tag r) \<le> length (caaRData r)"
    using assms(2) by (simp_all add: msg caaRData_def)
  have lenA: "length (caaAnswer ttl r) = 12 + length (caaRData r)" using assms(2) by (simp add: caaAnswer_def)
  have "readAnswers ?msg (Suc (length rs)) (length pre) acc = readAnswers ?msg (length rs) (length pre + 12 + length (caaRData r)) (acc @ [r])"
    using skip ty cl ln sl b0 parts row lens by (simp add: Let_def numeral_eq_Suc)
  moreover have "readAnswers ?msg (length rs) (length pre + 12 + length (caaRData r)) (acc @ [r]) = Some (Inr ((acc @ [r]) @ rs))"
    using Cons.IH[of "pre @ caaAnswer ttl r" "acc @ [r]"] Cons.prems lenA by (simp add: add.assoc)
  ultimately show ?case by simp
qed simp

lemma query_parts:
  assumes "buildCAAQuery (Inr idBytes) name = Inr (query, ident)"
  obtains out labels where "queryLabels labels = Inr out" "drop 12 query = out @ char_of (0::nat) # put16 dnsTypeCAA @ put16 1" "ident < 65536"
proof -
  obtain out where out: "queryLabels (Split (TrimSuffix name ''.'') CHR ''.'') = Inr out"
    using assms by (auto simp: buildCAAQuery_def Let_def split: sum.splits)
  have id: "ident = of_char (idBytes ! 0) * 256 + of_char (idBytes ! 1)"
    and q: "query = put16 ident @ put16 0x0100 @ put16 1 @ replicate 6 (char_of (0::nat)) @ out @ [char_of (0::nat)] @ put16 dnsTypeCAA @ put16 1"
    using assms unfolding buildCAAQuery_def Let_def sum.case out by blast+
  have "drop 12 query = out @ char_of (0::nat) # put16 dnsTypeCAA @ put16 1"
    unfolding q by simp
  moreover have "of_char (idBytes ! 0) < (256::nat)" "of_char (idBytes ! 1) < (256::nat)" by simp_all
  then have "ident < 65536" unfolding id by linarith
  ultimately show thesis using that out by blast
qed

text \<open>
  C38: the parser reads back what a resolver answers. For the question the service asks and any records
  with a flag byte, a tag and a value that fit the wire format, the response with those records
  under the same identifier and a zero response code is read as exactly these records, in order, with
  the DNSSEC status of the \<^verbatim>\<open>AD\<close> bit, and counts as found when there is a record.
\<close>

theorem parseCAAResponse_roundtrip:
  assumes "buildCAAQuery (Inr idBytes) name = Inr (query, ident)"
    and "flags < 65536" "flags AND 0x000f = 0" "length ttl = 4" "length records < 65536" "\<And>r. r \<in> set records \<Longrightarrow> encodable r"
  shows "parseCAAResponse (caaResponse ident flags (drop 12 query) ttl records extra) ident =
     Some (Inr (\<lparr>clr_Records = records,
       clr_DNSSECStatus = (if flags AND 0x0020 \<noteq> 0 then CAADNSSECSecure else CAADNSSECIndeterminate)\<rparr>, records \<noteq> []))"
  using assms(1)
proof (rule query_parts, goal_cases)
  case (1 out labels)
  let ?hdr = "put16 ident @ put16 flags @ put16 1 @ put16 (length records) @ put16 0 @ put16 0"
  let ?answers = "concat (map (caaAnswer ttl) records)"
  let ?pre = "?hdr @ out @ char_of (0::nat) # put16 dnsTypeCAA @ put16 1"
  let ?msg = "caaResponse ident flags (drop 12 query) ttl records extra"
  have msg: "?msg = ?pre @ ?answers @ extra" by (simp add: caaResponse_def 1(2))
  have hd: "be16At ?msg 0 = Some ident" "be16At ?msg 2 = Some flags" "be16At ?msg 4 = Some 1" "be16At ?msg 6 = Some (length records)"
    using be16At_put16[OF 1(3), of "[]"] be16At_put16[OF assms(2), of "put16 ident"]
      be16At_put16[of 1 "put16 ident @ put16 flags"] be16At_put16[OF assms(5), of "put16 ident @ put16 flags @ put16 1"]
    by (simp_all add: caaResponse_def)
  have "skipDNSName ?msg 12 = Inr (12 + length out + 1)"
    using skip_labels[OF 1(1), of ?hdr] by (simp add: msg)
  moreover have len: "length ?msg = 12 + length out + 5 + length ?answers + length extra" by (simp add: msg)
  ultimately have q: "skipQuestions ?msg 1 12 = Inr (length ?pre)" by (simp add: numeral_eq_Suc)
  have a: "readAnswers ?msg (length records) (length ?pre) [] = Some (Inr records)"
    unfolding msg using readAnswers_encoded[OF assms(6,4), of records ?pre extra "[]"] by simp
  have long: "\<not> length ?msg < 12" using len by simp
  show ?case
    unfolding parseCAAResponse_def hd Let_def by (simp only: long if_False option.case q a sum.case assms(3)) simp
qed

section \<open>Climbing the name\<close>

text \<open>
  One exchange with the resolver: \<open>rnd k\<close> are the two random bytes of the \<open>k\<close>-th query of a lookup and
  \<open>xchg k\<close> sends it and receives at most 4096 bytes. (The last branch is never taken, the parser
  being total.)
\<close>

definition lookupCAAName ::
  "(nat \<Rightarrow> string result) \<Rightarrow> (nat \<Rightarrow> string \<Rightarrow> string result) \<Rightarrow> nat \<Rightarrow> string \<Rightarrow> (CAALookupResult \<times> bool) result" where
  "lookupCAAName rnd xchg k name =
     (case buildCAAQuery (rnd k) name of
        Inl err \<Rightarrow> Inl err
      | Inr (query, ident) \<Rightarrow>
          case xchg k query of
            Inl err \<Rightarrow> Inl err
          | Inr response \<Rightarrow> (case parseCAAResponse response ident of Some r \<Rightarrow> r | None \<Rightarrow> Inl (ErrExternal ''panic'')))"

lemma Cut_shorter: "Cut name c = (before, rest, True) \<Longrightarrow> length rest < length name"
proof -
  assume "Cut name c = (before, rest, True)"
  then obtain x where d: "dropWhile (\<lambda>y. y \<noteq> c) name = x # rest" by (auto simp: Cut_def split: list.splits)
  have "length (dropWhile (\<lambda>y. y \<noteq> c) name) \<le> length name" by (rule length_dropWhile_le)
  then show ?thesis using d by simp
qed

function climbCAA ::
  "(nat \<Rightarrow> string result) \<Rightarrow> (nat \<Rightarrow> string \<Rightarrow> string result) \<Rightarrow> nat \<Rightarrow> string \<Rightarrow> CAALookupResult result" where
  "climbCAA rnd xchg k name =
     (if name = [] then Inr \<lparr>clr_Records = [], clr_DNSSECStatus = CAADNSSECIndeterminate\<rparr>
      else case lookupCAAName rnd xchg k name of
        Inl err \<Rightarrow> Inl err
      | Inr (res, found) \<Rightarrow>
          if found then Inr res
          else case Cut name CHR ''.'' of (before, rest, ok) \<Rightarrow>
            if \<not> ok then Inr res else climbCAA rnd xchg (Suc k) rest)"
  by pat_completeness auto
termination by (relation "measure (\<lambda>(rnd, xchg, k, name). length name)") (auto dest!: Cut_shorter[OF sym])

declare climbCAA.simps [simp del]

definition dnsCAALookup_LookupCAA ::
  "(nat \<Rightarrow> string result) \<Rightarrow> (nat \<Rightarrow> string \<Rightarrow> string result) \<Rightarrow> string \<Rightarrow> CAALookupResult result" where
  "dnsCAALookup_LookupCAA rnd xchg dnsName = climbCAA rnd xchg 0 (TrimSuffix (TrimSpace dnsName) ''.'')"

text \<open>The names a lookup may ask, from the name itself towards the root.\<close>

function ancestors :: "string \<Rightarrow> string list" where
  "ancestors name = (if name = [] then [] else name # (case Cut name CHR ''.'' of (before, rest, ok) \<Rightarrow> if ok then ancestors rest else []))"
  by pat_completeness auto
termination by (relation "measure length") (auto dest!: Cut_shorter[OF sym])

declare ancestors.simps [simp del]

lemma climb_step:
  assumes "i < length (ancestors name)" "\<And>j. j < i \<Longrightarrow> \<exists>res. lookupCAAName rnd xchg (k + j) (ancestors name ! j) = Inr (res, False)"
  shows "climbCAA rnd xchg k name = climbCAA rnd xchg (k + i) (ancestors name ! i)"
  using assms
proof (induction i arbitrary: k name)
  case 0
  then have "ancestors name ! 0 = name" by (subst ancestors.simps) (subst (asm) ancestors.simps, auto split: if_splits)
  then show ?case by simp
next
  case (Suc i)
  have "name \<noteq> []" using Suc.prems(1) by (metis ancestors.simps length_0_conv list.size(3) not_less_zero)
  obtain before rest ok where c: "Cut name CHR ''.'' = (before, rest, ok)" by (cases "Cut name CHR ''.''")
  have anc: "ancestors name = name # (if ok then ancestors rest else [])"
    using \<open>name \<noteq> []\<close> c by (subst ancestors.simps) simp
  then have ok and len: "i < length (ancestors rest)" using Suc.prems(1) by (auto split: if_splits)
  obtain res where "lookupCAAName rnd xchg k name = Inr (res, False)" using Suc.prems(2)[of 0] anc by auto
  then have "climbCAA rnd xchg k name = climbCAA rnd xchg (Suc k) rest"
    using \<open>name \<noteq> []\<close> c \<open>ok\<close> by (subst climbCAA.simps) simp
  also have "\<dots> = climbCAA rnd xchg (Suc k + i) (ancestors rest ! i)"
  proof (rule Suc.IH[OF len])
    fix j assume "j < i"
    then show "\<exists>res. lookupCAAName rnd xchg (Suc k + j) (ancestors rest ! j) = Inr (res, False)"
      using Suc.prems(2)[of "Suc j"] anc \<open>ok\<close> by simp
  qed
  finally show ?case using anc \<open>ok\<close> by simp
qed

lemma ancestors_nonempty: "[] \<notin> set (ancestors name)"
proof (induction name rule: ancestors.induct)
  case (1 name)
  obtain before rest ok where c: "Cut name CHR ''.'' = (before, rest, ok)" by (cases "Cut name CHR ''.''")
  then show ?case using 1[OF _ c[symmetric] refl] by (subst ancestors.simps) auto
qed

text \<open>
  C39: the records that count are those of the closest ancestor that has any, and a failed exchange
  fails the lookup. When the names before the \<open>i\<close>-th have no records, the lookup answers what the \<open>i\<close>-th
  exchange found, and its error if that exchange failed: no record set is skipped over.
\<close>

theorem LookupCAA_closest:
  assumes "names = ancestors (TrimSuffix (TrimSpace dnsName) ''.'')" "i < length names"
    and "\<And>j. j < i \<Longrightarrow> \<exists>res. lookupCAAName rnd xchg j (names ! j) = Inr (res, False)"
  shows "(\<forall>res. lookupCAAName rnd xchg i (names ! i) = Inr (res, True) \<longrightarrow> dnsCAALookup_LookupCAA rnd xchg dnsName = Inr res) \<and>
    (\<forall>err. lookupCAAName rnd xchg i (names ! i) = Inl err \<longrightarrow> dnsCAALookup_LookupCAA rnd xchg dnsName = Inl err)"
proof -
  have "dnsCAALookup_LookupCAA rnd xchg dnsName = climbCAA rnd xchg i (names ! i)"
    using climb_step[of i "TrimSuffix (TrimSpace dnsName) ''.''" rnd xchg 0] assms by (simp add: dnsCAALookup_LookupCAA_def)
  moreover have "names ! i \<noteq> []" using ancestors_nonempty assms(1) nth_mem[OF assms(2)] by auto
  ultimately show ?thesis by (simp add: climbCAA.simps)
qed

section \<open>The decision\<close>

definition hasCAATag :: "CAARecord list \<Rightarrow> string \<Rightarrow> bool" where
  "hasCAATag records tag \<longleftrightarrow> (\<exists>record \<in> set records. EqualFold (TrimSpace (caa_Tag record)) tag)"

definition caaValidationMethodsAllow :: "string \<Rightarrow> string \<Rightarrow> bool" where
  "caaValidationMethodsAllow val validationMethod \<longleftrightarrow>
     (\<exists>method \<in> set (Split val CHR '',''). EqualFold (TrimSpace method) validationMethod)"

fun caaParamsAllow :: "string list \<Rightarrow> string \<Rightarrow> string \<Rightarrow> bool" where
  "caaParamsAllow [] accountURI validationMethod = True"
| "caaParamsAllow (rawParam # rest) accountURI validationMethod =
     (case Cut (TrimSpace rawParam) CHR ''='' of (name, paramValue, ok) \<Rightarrow>
        if \<not> ok then caaParamsAllow rest accountURI validationMethod
        else let name' = ToLower (TrimSpace name) in
          if name' = ''accounturi'' \<and> TrimSpace paramValue \<noteq> accountURI then False
          else if name' = ''validationmethods'' \<and> \<not> caaValidationMethodsAllow paramValue validationMethod then False
          else caaParamsAllow rest accountURI validationMethod)"

definition caaRecordAllowsIssue :: "string \<Rightarrow> string \<Rightarrow> string \<Rightarrow> string \<Rightarrow> bool" where
  "caaRecordAllowsIssue val issuerDomain accountURI validationMethod =
     (let parts = Split val CHR '';''; issuer = TrimSpace (hd parts) in
      if issuer = [] \<or> \<not> EqualFold issuer issuerDomain then False
      else caaParamsAllow (tl parts) accountURI validationMethod)"

definition criticalUnknown :: "CAARecord \<Rightarrow> bool" where
  "criticalUnknown record \<longleftrightarrow>
     (let recordTag = ToLower (TrimSpace (caa_Tag record)) in
      (caa_Flag record div 128) mod 2 \<noteq> 0 \<and> recordTag \<noteq> ''issue'' \<and> recordTag \<noteq> ''issuewild'' \<and> recordTag \<noteq> ''iodef'')"

fun selectCAARecords :: "CAARecord list \<Rightarrow> string \<Rightarrow> CAARecord list \<Rightarrow> CAARecord list result" where
  "selectCAARecords [] tag records = Inr records"
| "selectCAARecords (record # rest) tag records =
     (if criticalUnknown record then Inl ErrInvalidRequest
      else if ToLower (TrimSpace (caa_Tag record)) = tag then selectCAARecords rest tag (records @ [record])
      else selectCAARecords rest tag records)"

definition caaTagFor :: "string \<Rightarrow> CAARecord list \<Rightarrow> string" where
  "caaTagFor dnsName records = (if HasPrefix dnsName ''*.'' \<and> hasCAATag records ''issuewild'' then ''issuewild'' else ''issue'')"

text \<open>The part of \<^verbatim>\<open>check\<close> after the lookup.\<close>

definition caaDecision :: "PublicTLSCAAPolicy \<Rightarrow> string \<Rightarrow> CAALookupResult \<Rightarrow> unit result" where
  "caaDecision p dnsName res =
     (if clr_DNSSECStatus res = CAADNSSECBogus then Inl ErrInvalidRequest
      else if clr_DNSSECStatus res = CAADNSSECIndeterminate \<and> \<not> caap_AllowDNSSECIndeterminate p then Inl ErrInvalidRequest
      else case selectCAARecords (clr_Records res) (caaTagFor dnsName (clr_Records res)) [] of
        Inl err \<Rightarrow> Inl err
      | Inr records \<Rightarrow>
          if length records = 0 then Inr ()
          else if \<exists>record \<in> set records. caaRecordAllowsIssue (caa_Value record) (caap_IssuerDomain p) (caap_AccountURI p) (caap_ValidationMethod p)
            then Inr ()
          else Inl ErrInvalidRequest)"

text \<open>
  \<^verbatim>\<open>SetPublicTLSCAAPolicy\<close> never installs a policy without a lookup; calling one would be a nil dereference.
\<close>

definition PublicTLSCAAPolicy_check :: "PublicTLSCAAPolicy \<Rightarrow> string \<Rightarrow> unit svc" where
  "PublicTLSCAAPolicy_check p dnsName =
     (case caap_Lookup p of
        None \<Rightarrow> throwM (ErrExternal ''nil dereference'')
      | Some lookup \<Rightarrow> bindM (callExt (\<lambda>n. lookup n dnsName)) (\<lambda>res. liftE (caaDecision p dnsName res)))"

definition validatePublicTLSCAA :: "Service \<Rightarrow> string list \<Rightarrow> unit svc" where
  "validatePublicTLSCAA svc dnsNames =
     (if length dnsNames = 0 then returnM ()
      else case svc_publicTLSCAAPolicy svc of
        None \<Rightarrow> throwM ErrInvalidRequest
      | Some policy \<Rightarrow> forM dnsNames (PublicTLSCAAPolicy_check policy))"

lemma SetPublicTLSCAAPolicy_lookup:
  "SetPublicTLSCAAPolicy svc policy = Inr svc' \<Longrightarrow> \<exists>p. svc_publicTLSCAAPolicy svc' = Some p \<and> caap_Lookup p \<noteq> None"
  by (auto simp: SetPublicTLSCAAPolicy_def Let_def split: if_splits option.splits)

lemma selectCAARecords_result:
  "selectCAARecords rs tag acc =
     (if \<exists>r \<in> set rs. criticalUnknown r then Inl ErrInvalidRequest else Inr (acc @ filter (\<lambda>r. ToLower (TrimSpace (caa_Tag r)) = tag) rs))"
  by (induction rs tag acc rule: selectCAARecords.induct) auto

lemma validateCAA_quiet [clean_rules]: "quiet (validatePublicTLSCAA svc names)"
  unfolding validatePublicTLSCAA_def PublicTLSCAAPolicy_check_def by (intro clean_rules)

text \<open>What RFC 8659 and RFC 8657 ask of a record before it permits this issuer.\<close>

definition caaPermits :: "PublicTLSCAAPolicy \<Rightarrow> CAARecord \<Rightarrow> bool" where
  "caaPermits p record \<longleftrightarrow>
     (let parts = Split (caa_Value record) CHR '';'' in
      \<not> isBlank (hd parts) \<and> EqualFold (TrimSpace (hd parts)) (caap_IssuerDomain p) \<and>
      (\<forall>param \<in> set (tl parts). \<forall>name val. Cut (TrimSpace param) CHR ''='' = (name, val, True) \<longrightarrow>
         (ToLower (TrimSpace name) = ''accounturi'' \<longrightarrow> TrimSpace val = caap_AccountURI p) \<and>
         (ToLower (TrimSpace name) = ''validationmethods'' \<longrightarrow> caaValidationMethodsAllow val (caap_ValidationMethod p))))"

definition relevantCAA :: "string \<Rightarrow> CAARecord list \<Rightarrow> CAARecord list" where
  "relevantCAA dnsName records = filter (\<lambda>r. EqualFold (TrimSpace (caa_Tag r)) (caaTagFor dnsName records)) records"

lemma caaParamsAllow_iff:
  "caaParamsAllow params uri method \<longleftrightarrow>
     (\<forall>param \<in> set params. \<forall>name val. Cut (TrimSpace param) CHR ''='' = (name, val, True) \<longrightarrow>
        (ToLower (TrimSpace name) = ''accounturi'' \<longrightarrow> TrimSpace val = uri) \<and>
        (ToLower (TrimSpace name) = ''validationmethods'' \<longrightarrow> caaValidationMethodsAllow val method))"
proof (induction params)
  case (Cons param rest)
  obtain name val ok where c: "Cut (TrimSpace param) CHR ''='' = (name, val, ok)" by (cases "Cut (TrimSpace param) CHR ''=''")
  then show ?case by (cases ok) (auto simp: Cons.IH Let_def)
qed simp

lemma allowsIssue_permits:
  "caaRecordAllowsIssue (caa_Value r) (caap_IssuerDomain p) (caap_AccountURI p) (caap_ValidationMethod p) = caaPermits p r"
  by (simp add: caaRecordAllowsIssue_def caaPermits_def Let_def isBlank_def caaParamsAllow_iff)

lemma tag_lower: "ToLower (caaTagFor dnsName records) = caaTagFor dnsName records"
proof -
  have "ToLower ''issue'' = ''issue''" "ToLower ''issuewild'' = ''issuewild''" by code_simp+
  then show ?thesis by (simp add: caaTagFor_def)
qed


lemma validatePublicTLSCAA_Inr:
  assumes "validatePublicTLSCAA svc names w = (Inr (), w')"
  shows "names = [] \<or> (\<exists>p. svc_publicTLSCAAPolicy svc = Some p \<and>
      (\<forall>name \<in> set names. \<exists>lookup n res. caap_Lookup p = Some lookup \<and> lookup n name = Inr res \<and> caaDecision p name res = Inr ()))"
proof -
  have each: "\<forall>name \<in> set ns. \<exists>lookup n res. caap_Lookup p = Some lookup \<and> lookup n name = Inr res \<and> caaDecision p name res = Inr ()"
    if "forM ns (PublicTLSCAAPolicy_check p) v = (Inr (), v')" for ns p v v'
    using that
  proof (induction ns arbitrary: v)
    case (Cons name ns)
    obtain r v1 where r: "PublicTLSCAAPolicy_check p name v = (r, v1)" by (cases "PublicTLSCAAPolicy_check p name v")
    obtain u where u: "r = Inr u" using Cons.prems r by (cases r) (auto simp: prog_simps)
    then have "forM ns (PublicTLSCAAPolicy_check p) v1 = (Inr (), v')" using Cons.prems r by (simp add: prog_simps)
    moreover have "\<exists>lookup n res. caap_Lookup p = Some lookup \<and> lookup n name = Inr res \<and> caaDecision p name res = Inr ()"
      using r u by (cases "caap_Lookup p") (auto simp: PublicTLSCAAPolicy_check_def prog_simps split: sum.splits)
    ultimately show ?case using Cons.IH by simp
  qed simp
  then show ?thesis
    using assms by (auto simp: validatePublicTLSCAA_def prog_simps split: if_splits option.splits)
qed

end
