(* ===== verification/Issuing.thy ===== *)
theory Issuing
  imports Frames
begin

text \<open>
  What \<^verbatim>\<open>IssueCertificate\<close> delivers. The theorems rest on the issuance invariant: a call that returns a
  certificate leaves it in the store, tied to its enrollment and to the attempt that was signed; a second
  call returns the same one; a claim keeps every other node out until its lease is over and a claim that
  lost its lease can write nothing.
\<close>

section \<open>The certificate of an enrollment\<close>

lemma byEnrollment_Inr:
  assumes "certificateByEnrollmentID m i = Inr c"
  shows "\<exists>k. mget m k = Some c \<and> cert_EnrollmentID c = i"
  using assms by (auto simp: certificateByEnrollmentID_def find_Some_iff in_mvals_iff split: option.splits dest!: nth_mem)

lemma byEnrollment_unique:
  assumes u: "unique_certificates m" and get: "mget m k = Some c" "cert_EnrollmentID c = i" and i: "i \<noteq> []"
  shows "certificateByEnrollmentID m i = Inr c"
proof (cases "certificateByEnrollmentID m i")
  case (Inl e)
  then show ?thesis
    using get mget_in_mvals[OF get(1)] by (auto simp: certificateByEnrollmentID_def find_None_iff split: option.splits)
next
  case (Inr d)
  then obtain j where "mget m j = Some d" "cert_EnrollmentID d = i" using byEnrollment_Inr by blast
  then have "j = k" using u get i unfolding unique_certificates_def certs_conflict_def by metis
  then show ?thesis using Inr get \<open>mget m j = Some d\<close> by simp
qed

text \<open>What the invariant says of a certificate found by its enrollment.\<close>

definition delivered :: "MemoryStore \<Rightarrow> string \<Rightarrow> Certificate \<Rightarrow> bool" where
  "delivered s i c \<longleftrightarrow> mget (ms_certificates s) (cert_ID c) = Some c \<and> cert_EnrollmentID c = i \<and>
     (\<exists>e a. mget (ms_enrollments s) i = Some e \<and> enr_Status e = EnrollmentIssued \<and>
        mget (ms_issuanceAttempts s) i = Some a \<and> att_Status a = IssuanceAttemptFinalized \<and> certificateOf e a c)"

lemma byEnrollment_delivered:
  assumes s: "sound svc w" and ok: "issuance_ok svc H w" and c: "certificateByEnrollmentID (ms_certificates (w_repo w)) i = Inr c"
  shows "delivered (w_repo w) i c"
proof -
  have iok: "issued_ok (ms_enrollments (w_repo w)) (ms_issuanceAttempts (w_repo w)) (ms_certificates (w_repo w))"
    using ok by (simp add: issuance_ok_def)
  obtain k where k: "mget (ms_certificates (w_repo w)) k = Some c" "cert_EnrollmentID c = i" using byEnrollment_Inr[OF c] by blast
  then have id: "cert_ID c = k" using keyedD[OF sound_keyed(8)[OF s]] by blast
  obtain a where a: "mget (ms_issuanceAttempts (w_repo w)) i = Some a" "att_Status a = IssuanceAttemptFinalized" "att_CertificateID a = k"
    using issued_okD(1)[OF iok k(1)] k(2) by blast
  obtain e c' where "mget (ms_enrollments (w_repo w)) i = Some e" "enr_Status e = EnrollmentIssued"
    "mget (ms_certificates (w_repo w)) k = Some c'" "certificateOf e a c'"
    using issued_okD(2)[OF iok a(1,2)] a(3) by blast
  then show ?thesis using a k id by (auto simp: delivered_def)
qed

section \<open>What finalization returns\<close>

lemma finalizeTx_returns:
  assumes s: "sound svc w" and ok: "issuance_ok svc H w" and i: "enrollmentID \<noteq> []"
    and run: "finalizeTx enrollmentID attempt now w = (Inr c, w')"
  shows "certificateByEnrollmentID (ms_certificates (w_repo w')) enrollmentID = Inr c"
proof -
  have s': "sound svc w'" using issuesD(2)[OF finalizeTx_issues s ok run] .
  from finalizeTx_Inr[OF run] show ?thesis
  proof (elim disjE exE conjE, goal_cases issued approved)
    case (approved e a)
    have "enr_ID e = enrollmentID" using keyedD[OF sound_keyed(7)[OF s] approved(1)] .
    then show ?case
      using i by (intro byEnrollment_unique[OF sound_clauses(2)[OF s'], of "att_CertificateID a"])
        (simp_all add: approved(8,9) finalizedWorld_def certificateFor_def mget_mput)
  qed simp
qed

lemma markFailed_returns:
  "markFailed enrollmentID attempt now err w = (Inr c, w') \<Longrightarrow>
     certificateByEnrollmentID (ms_certificates (w_repo w')) enrollmentID = Inr c"
  by (auto simp: markFailed_def prog_simps run_onRepo MemoryStore_GetCertificateByEnrollmentID_def
      split: sum.splits if_splits prod.splits)

lemma finalize_returns:
  assumes s: "sound svc w" and ok: "issuance_ok svc H w" and i: "enrollmentID \<noteq> []"
    and run: "finalizeSignedIssuanceAttempt enrollmentID attempt now w = (Inr c, w')"
  shows "certificateByEnrollmentID (ms_certificates (w_repo w')) enrollmentID = Inr c"
  using run finalizeTx_returns[OF s ok i, of attempt now] markFailed_returns[of enrollmentID attempt now]
  by (auto simp: finalizeSignedIssuanceAttempt_def prog_simps run_onRepo MemoryStore_GetCertificateByEnrollmentID_def
      split: sum.splits if_splits prod.splits)

section \<open>The audit event\<close>

definition issueAudited :: "MemoryStore \<Rightarrow> string \<Rightarrow> bool" where
  "issueAudited s i \<longleftrightarrow> (\<exists>event \<in> set (ms_auditEvents s). isIssuedEvent event i)"

lemma ensureAudit_run:
  assumes "ensureCertificateIssuedAuditEvent svc ctx actor c now w = (r, w')"
  shows "r = Inr ()" "issueAudited (w_repo w') (cert_ID c)" "ms_certificates (w_repo w') = ms_certificates (w_repo w)"
    "ms_enrollments (w_repo w') = ms_enrollments (w_repo w)" "ms_issuanceAttempts (w_repo w') = ms_issuanceAttempts (w_repo w)"
    "issueAudited (w_repo w) (cert_ID c) \<Longrightarrow> w' = w"
  using assms
  by (auto simp: ensureCertificateIssuedAuditEvent_def prog_simps run_onRepo run_WithinTx MemoryStore_ListAuditEvents_def
      run_createAuditEvent issueAudited_def isIssuedEvent_def auditEventFor_def split: if_splits)

section \<open>Issuing\<close>

lemma blank_Nil: "isBlank []"
  by code_simp

text \<open>The last three steps: a certificate in the store, found by its enrollment, and audited.\<close>

lemma finish_run:
  assumes s: "sound svc w" and ok: "issuance_ok svc H w" and i: "enrollmentID \<noteq> []" and held: "attempt \<in> H"
    and run: "bindM (finalizeSignedIssuanceAttempt enrollmentID attempt now) (\<lambda>certificate.
      thenM (ensureCertificateIssuedAuditEvent svc ctx actor certificate now) (returnM certificate)) w = (Inr c, w')"
  shows "delivered (w_repo w') enrollmentID c \<and> issueAudited (w_repo w') (cert_ID c)"
proof -
  obtain w1 where fin: "finalizeSignedIssuanceAttempt enrollmentID attempt now w = (Inr c, w1)"
    and aud: "ensureCertificateIssuedAuditEvent svc ctx actor c now w1 = (Inr (), w')"
    using run by (auto simp: prog_simps split: prod.splits sum.splits)
  have "sound svc w1" "issuance_ok svc H w1" using issuesD(2,3)[OF finalize_issues[OF held] s ok fin] by blast+
  then have "delivered (w_repo w1) enrollmentID c"
    using byEnrollment_delivered finalize_returns[OF s ok i fin] by blast
  then show ?thesis using ensureAudit_run[OF aud] by (simp add: delivered_def)
qed

lemma reissued_run:
  assumes "reissuedResult svc ctx actor enrollmentID w = (Inr c, w')"
  shows "certificateByEnrollmentID (ms_certificates (w_repo w)) enrollmentID = Inr c"
    "ensureCertificateIssuedAuditEvent svc ctx actor c (svc_clock svc (w_clock w)) (w\<lparr>w_clock := Suc (w_clock w)\<rparr>) = (Inr (), w')"
  using assms by (auto simp: reissuedResult_def prog_simps run_onRepo MemoryStore_GetCertificateByEnrollmentID_def
      split: sum.splits if_splits prod.splits)

lemma issueApproved_run:
  assumes s: "sound svc w" and ok: "issuance_ok svc H w" and i: "enrollmentID \<noteq> []"
    and run: "issueApproved svc ctx actor enrollmentID e w = (Inr c, w')"
  shows "delivered (w_repo w') enrollmentID c \<and> issueAudited (w_repo w') (cert_ID c)"
proof -
  obtain req now w1 where prep: "prepareIssue svc e w = (Inr (req, now), w1)"
    and run1: "bindM (claimIssuanceAttempt enrollmentID now) (\<lambda>(claimed, shouldSign).
     bindM (if shouldSign then signAttempt svc req claimed now else returnM claimed) (\<lambda>attempt.
     bindM (finalizeSignedIssuanceAttempt enrollmentID attempt now) (\<lambda>certificate.
     thenM (ensureCertificateIssuedAuditEvent svc ctx actor certificate now) (returnM certificate)))) w1 = (Inr c, w')"
    using run by (auto simp: issueApproved_def run_bindM split: prod.splits sum.splits)
  note s1 = issuesD(2,3)[OF quiet_issues'[OF prepareIssue_quiet] s ok prep]
  obtain a shouldSign w2 where claim: "claimIssuanceAttempt enrollmentID now w1 = (Inr (a, shouldSign), w2)"
    and run2: "bindM (if shouldSign then signAttempt svc req a now else returnM a) (\<lambda>attempt.
     bindM (finalizeSignedIssuanceAttempt enrollmentID attempt now) (\<lambda>certificate.
     thenM (ensureCertificateIssuedAuditEvent svc ctx actor certificate now) (returnM certificate))) w2 = (Inr c, w')"
    using run1 by (auto simp: run_bindM[of "claimIssuanceAttempt enrollmentID now"] split: prod.splits sum.splits)
  have ok2: "issuance_ok svc (insert a H) w2" and s2: "sound svc w2"
    using issuesD(2)[OF claim_issues s1 claim] issuesD(4)[OF claim_issues s1 claim] by auto
  have st: "att_Status a = IssuanceAttemptSigning" if shouldSign
    using issuesD(5)[OF claim_issues s1 claim] that by simp
  obtain b w3 where sign: "(if shouldSign then signAttempt svc req a now else returnM a) w2 = (Inr b, w3)"
    and run3: "bindM (finalizeSignedIssuanceAttempt enrollmentID b now) (\<lambda>certificate.
     thenM (ensureCertificateIssuedAuditEvent svc ctx actor certificate now) (returnM certificate)) w3 = (Inr c, w')"
    using run2 by (auto simp: run_bindM[of "if shouldSign then signAttempt svc req a now else returnM a"] split: prod.splits sum.splits)
  have "sound svc w3 \<and> issuance_ok svc (insert b (insert a H)) w3"
  proof (cases shouldSign)
    case True
    then show ?thesis
      using sign issuesD(2)[OF sign_issues[of a "insert a H"] s2 ok2] issuesD(4)[OF sign_issues[of a "insert a H"] s2 ok2] st by auto
  qed (use sign s2 ok2 in simp)
  then show ?thesis using finish_run[OF _ _ i _ run3] by blast
qed

lemma issue_delivers:
  assumes "sound svc w" and "issuance_ok svc H w"
    and "Service_IssueCertificate svc ctx actor enrollmentID w = (Inr c, w')"
  shows "delivered (w_repo w') enrollmentID c \<and> issueAudited (w_repo w') (cert_ID c)"
proof -
  have i: "enrollmentID \<noteq> []" using assms(3) blank_Nil by (auto simp: Service_IssueCertificate_def run_failIf)
  obtain e where "mget (ms_enrollments (w_repo w)) enrollmentID = Some e"
    and "enr_Status e = EnrollmentIssued \<and> reissuedResult svc ctx actor enrollmentID w = (Inr c, w') \<or>
      issueApproved svc ctx actor enrollmentID e w = (Inr c, w')"
    using assms(3)
    by (auto simp: Service_IssueCertificate_def prog_simps run_onRepo MemoryStore_GetEnrollment_def split: option.splits if_splits)
  then show ?thesis
  proof (elim disjE conjE)
    assume "reissuedResult svc ctx actor enrollmentID w = (Inr c, w')"
    note r = reissued_run[OF this]
    have "delivered (w_repo w) enrollmentID c" using byEnrollment_delivered[OF assms(1,2) r(1)] .
    then show ?thesis using ensureAudit_run[OF r(2)] by (simp add: delivered_def)
  next
    assume "issueApproved svc ctx actor enrollmentID e w = (Inr c, w')"
    then show ?thesis by (rule issueApproved_run[OF assms(1,2) i])
  qed
qed

text \<open>
  C1: when \<^verbatim>\<open>IssueCertificate\<close> returns a certificate, whatever attempts other nodes hold, that certificate
  is the stored one of the enrollment, the enrollment is issued, its attempt is finalized, the
  certificate takes its subject, names and serial number from the two, and its issuance is in the
  audit trail.
\<close>

theorem IssueCertificate_delivers:
  assumes "sound svc w" and "issuance_ok svc H w"
    and "Service_IssueCertificate svc ctx actor enrollmentID w = (Inr c, w')"
  shows "delivered (w_repo w') enrollmentID c \<and> issueAudited (w_repo w') (cert_ID c)"
  using assms by (rule issue_delivers)

text \<open>A delivered and audited certificate is returned again and nothing is signed or written.\<close>

lemma delivered_again:
  assumes s: "sound svc w" and d: "delivered (w_repo w) enrollmentID c" and a: "issueAudited (w_repo w) (cert_ID c)"
    and i: "\<not> isBlank enrollmentID"
  shows "Service_IssueCertificate svc ctx actor enrollmentID w = (Inr c, w\<lparr>w_clock := Suc (w_clock w)\<rparr>)"
proof -
  have "enrollmentID \<noteq> []" using i blank_Nil by auto
  then have found: "certificateByEnrollmentID (ms_certificates (w_repo w)) enrollmentID = Inr c"
    using d by (intro byEnrollment_unique[OF sound_clauses(2)[OF s], of "cert_ID c"]) (auto simp: delivered_def)
  obtain e where e: "mget (ms_enrollments (w_repo w)) enrollmentID = Some e" "enr_Status e = EnrollmentIssued"
    using d by (auto simp: delivered_def)
  let ?w = "w\<lparr>w_clock := Suc (w_clock w)\<rparr>"
  obtain r w1 where ens: "ensureCertificateIssuedAuditEvent svc ctx actor c (svc_clock svc (w_clock w)) ?w = (r, w1)"
    by (cases "ensureCertificateIssuedAuditEvent svc ctx actor c (svc_clock svc (w_clock w)) ?w")
  then have "r = Inr ()" "w1 = ?w" using ensureAudit_run(1)[OF ens] ensureAudit_run(6)[OF ens] a by simp_all
  then show ?thesis
    using ens by (simp add: Service_IssueCertificate_def prog_simps run_onRepo MemoryStore_GetEnrollment_def i e reissuedResult_def
        MemoryStore_GetCertificateByEnrollmentID_def found)
qed

text \<open>
  C2: issuing is idempotent: once \<^verbatim>\<open>IssueCertificate\<close> has returned a certificate, every further call for
  the enrollment returns the same one and only reads the clock: nothing is signed again and the store
  does not change.
\<close>

theorem IssueCertificate_idempotent:
  assumes "sound svc w" and "issuance_ok svc H w"
    and "Service_IssueCertificate svc ctx actor enrollmentID w = (Inr c, w')"
  shows "Service_IssueCertificate svc ctx' actor' enrollmentID w' = (Inr c, w'\<lparr>w_clock := Suc (w_clock w')\<rparr>)"
proof -
  have "\<not> isBlank enrollmentID" using assms(3) by (auto simp: Service_IssueCertificate_def run_failIf)
  moreover have "delivered (w_repo w') enrollmentID c" "issueAudited (w_repo w') (cert_ID c)"
    using issue_delivers[OF assms] by simp_all
  ultimately show ?thesis
    using delivered_again issuesD(2)[OF IssueCertificate_issues assms] by blast
qed

section \<open>Claims and leases\<close>

lemma claim_stored:
  assumes "claimIssuanceAttempt enrollmentID now w = (Inr (a, True), w')"
  shows "att_EnrollmentID a = enrollmentID \<or> keyed att_EnrollmentID (ms_issuanceAttempts (w_repo w)) \<longrightarrow>
      att_EnrollmentID a = enrollmentID"
    "w' = putAttempt a w" "att_Status a = IssuanceAttemptSigning" "att_UpdatedAt a = now"
    "att_LeaseExpiresAt a = now + defaultIssuanceSigningLease"
  using claim_Inr[OF assms] by (auto simp: newAttempt_def reclaimedAttempt_def keyed_def)

lemma get_attempt_run: "MemoryStore_GetIssuanceAttempt i s =
    (case mget (ms_issuanceAttempts s) i of None \<Rightarrow> Inl ErrIssuanceAttemptNotFound | Some a \<Rightarrow> Inr a, s)"
  using get_attempt[of i s] by (metis prod.collapse)

lemma claim_refused:
  assumes "mget (ms_issuanceAttempts (w_repo w)) enrollmentID = Some a" "claimDecisionFor a now = RefuseClaim"
  shows "claimIssuanceAttempt enrollmentID now w = (Inl ErrInvalidTransition, w)"
  using assms by (simp add: claimIssuanceAttempt_def prog_simps run_WithinTx run_onRepo tx_agree get_attempt_run)

lemma persist_refused:
  assumes "mget (ms_issuanceAttempts (w_repo w)) (att_EnrollmentID a) = Some b"
    and "(att_Status b, att_LeaseExpiresAt b, att_UpdatedAt b) \<noteq> (att_Status a, att_LeaseExpiresAt a, att_UpdatedAt a)"
  shows "persistSignedIssuanceAttempt svc a res t w = (Inl ErrInvalidTransition, w\<lparr>w_ids := Suc (w_ids w)\<rparr>)"
proof -
  have "updateIssuanceAttemptIfCurrent (ms_issuanceAttempts (w_repo w)) (signedAttempt a ident res t) a = Inl ErrInvalidTransition" for ident
    using assms by (intro attempt_table.upd_stale[of _ _ b]) (simp_all add: signedAttempt_def)
  then show ?thesis
    by (simp add: persistSignedIssuanceAttempt_def Let_def prog_simps run_WithinTx run_onRepo tx_agree MemoryStore_UpdateIssuanceAttemptIfCurrent_def)
qed

text \<open>
  C3: a claim keeps every other node out until its lease is over: after a successful claim to sign, a claim
  of the same enrollment at any instant before the end of the lease is refused and changes nothing.
\<close>

theorem claim_exclusive:
  assumes "sound svc w" and "claimIssuanceAttempt enrollmentID now w = (Inr (a, True), w')"
    and "w_repo w'' = w_repo w'" and "now' < now + defaultIssuanceSigningLease"
  shows "claimIssuanceAttempt enrollmentID now' w'' = (Inl ErrInvalidTransition, w'')"
proof (rule claim_refused)
  note c = claim_stored[OF assms(2)]
  have id: "att_EnrollmentID a = enrollmentID" using c(1) sound_keyed(17)[OF assms(1)] by blast
  show "mget (ms_issuanceAttempts (w_repo w'')) enrollmentID = Some a"
    by (simp add: assms(3) c(2) putAttempt_def mget_mput id)
  show "claimDecisionFor a now' = RefuseClaim"
    using assms(4) c(3,5) by (simp add: claimDecisionFor_def)
qed

text \<open>
  C4: a node that lost its lease can store nothing: when its attempt has been claimed again after the lease,
  the signed material it brings back is refused and the store does not change, whatever the signer returned.
\<close>

theorem stale_claim_fenced:
  assumes "sound svc w" and "claimIssuanceAttempt enrollmentID now w = (Inr (a, True), w1)"
    and "sound svc w2" and "now + defaultIssuanceSigningLease \<le> now'"
    and "claimIssuanceAttempt enrollmentID now' w2 = (Inr (b, True), w3)"
    and "w_repo w4 = w_repo w3"
  shows "persistSignedIssuanceAttempt svc' a res t w4 = (Inl ErrInvalidTransition, w4\<lparr>w_ids := Suc (w_ids w4)\<rparr>)"
proof (rule persist_refused)
  note ca = claim_stored[OF assms(2)] and cb = claim_stored[OF assms(5)]
  have id: "att_EnrollmentID a = enrollmentID" "att_EnrollmentID b = enrollmentID"
    using ca(1) cb(1) sound_keyed(17)[OF assms(1)] sound_keyed(17)[OF assms(3)] by blast+
  show "mget (ms_issuanceAttempts (w_repo w4)) (att_EnrollmentID a) = Some b"
    by (simp add: assms(6) cb(2) putAttempt_def mget_mput id)
  show "(att_Status b, att_LeaseExpiresAt b, att_UpdatedAt b) \<noteq> (att_Status a, att_LeaseExpiresAt a, att_UpdatedAt a)"
    using assms(4) ca(4) cb(4) by (simp add: defaultIssuanceSigningLease_def Minute_def Second_def)
qed

section \<open>Recovery from a signed attempt\<close>

definition withSigner :: "(nat \<Rightarrow> IssueRequest \<Rightarrow> IssueResult result) \<Rightarrow> Service \<Rightarrow> Service" where
  "withSigner f svc = svc\<lparr>svc_issuer := (svc_issuer svc)\<lparr>ci_Issue := f\<rparr>\<rparr>"

lemma withSigner_sel [simp]:
  "svc_clock (withSigner f svc) = svc_clock svc" "svc_idgen (withSigner f svc) = svc_idgen svc"
  "svc_productionPolicy (withSigner f svc) = svc_productionPolicy svc" "svc_runtime (withSigner f svc) = svc_runtime svc"
  "ci_InspectCSR (svc_issuer (withSigner f svc)) = ci_InspectCSR (svc_issuer svc)"
  by (simp_all add: withSigner_def)

lemma withSigner_prepare: "prepareIssue (withSigner f svc) e = prepareIssue svc e"
  unfolding prepareIssue_def issueCSRInfo_def Now_def withSigner_sel ..

lemma withSigner_metadata: "auditMetadata (withSigner f svc) = auditMetadata svc"
proof -
  have same: "auditRequestFields (withSigner f svc) = auditRequestFields svc"
    unfolding fun_eq_iff auditRequestFields_def withSigner_sel by blast
  show ?thesis by (intro ext) (simp only: auditMetadata_def same)
qed

lemma withSigner_audit: "ensureCertificateIssuedAuditEvent (withSigner f svc) ctx actor c now = ensureCertificateIssuedAuditEvent svc ctx actor c now"
  unfolding ensureCertificateIssuedAuditEvent_def createAuditEvent_def createAuditEventWithResult_def NewID_def
    auditMetadataJSON_def withSigner_sel withSigner_metadata ..

lemma claim_signed:
  assumes "mget (ms_issuanceAttempts (w_repo w)) enrollmentID = Some a" "att_Status a = IssuanceAttemptSigned"
  shows "claimIssuanceAttempt enrollmentID now w = (Inr (a, False), w)"
  using assms by (simp add: claimIssuanceAttempt_def prog_simps run_WithinTx run_onRepo tx_agree get_attempt_run claimDecisionFor_def)

text \<open>With a signed attempt in the store, the rest of the call is its finalization: no signer is asked.\<close>

lemma issueApproved_signed:
  assumes a: "mget (ms_issuanceAttempts (w_repo w)) enrollmentID = Some a" "att_Status a = IssuanceAttemptSigned"
  shows "issueApproved svc ctx actor enrollmentID e w =
     bindM (prepareIssue svc e) (\<lambda>(req, now). bindM (finalizeSignedIssuanceAttempt enrollmentID a now) (\<lambda>certificate.
       thenM (ensureCertificateIssuedAuditEvent svc ctx actor certificate now) (returnM certificate))) w"
proof (cases "prepareIssue svc e w")
  case (Pair r w1)
  have "w_repo w1 = w_repo w" using prepareIssue_quiet Pair unfolding quiet_def by (metis snd_conv)
  then have "claimIssuanceAttempt enrollmentID now w1 = (Inr (a, False), w1)" for now
    using claim_signed[of w1] a by simp
  then show ?thesis using Pair by (simp add: issueApproved_def run_bindM split: sum.split prod.split)
qed

lemma finalize_signed_material:
  assumes e: "mget (ms_enrollments (w_repo w)) enrollmentID = Some e" "enr_Status e = EnrollmentApproved"
    and none: "certificateByEnrollmentID (ms_certificates (w_repo w)) enrollmentID = Inl ErrCertificateNotFound"
    and a: "mget (ms_issuanceAttempts (w_repo w)) enrollmentID = Some a" "att_Status a = IssuanceAttemptSigned"
    and run: "finalizeSignedIssuanceAttempt enrollmentID a now w = (Inr c, w')"
  shows "c = certificateFor e a now"
proof -
  have "markFailed enrollmentID a now err w1 \<noteq> (Inr c, w')" if "w_repo w1 = w_repo w" for err w1
    using none that by (auto simp: markFailed_def prog_simps run_onRepo MemoryStore_GetCertificateByEnrollmentID_def split: prod.splits sum.splits)
  moreover have "c = certificateFor e a now" if "finalizeTx enrollmentID a now w = (Inr c, w1)" for w1
    using finalizeTx_Inr[OF that] e a by auto
  ultimately show ?thesis
    using run a(2) cleanD[OF finalizeTx_clean]
    by (auto simp: finalizeSignedIssuanceAttempt_def prog_simps split: prod.splits sum.splits if_splits)
qed

text \<open>
  C20: a node that crashed between signing and finalizing loses nothing: when the attempt of an approved
  enrollment holds signed material, \<^verbatim>\<open>IssueCertificate\<close> behaves the same with any signer (it never asks
  it), and the certificate it returns is made of that material.
\<close>

theorem signed_attempt_recovered:
  assumes "sound svc w" and "issuance_ok svc H w"
    and "mget (ms_enrollments (w_repo w)) enrollmentID = Some e" and "enr_Status e = EnrollmentApproved"
    and "mget (ms_issuanceAttempts (w_repo w)) enrollmentID = Some a" and "att_Status a = IssuanceAttemptSigned"
  shows "Service_IssueCertificate (withSigner f svc) ctx actor enrollmentID w = Service_IssueCertificate svc ctx actor enrollmentID w \<and>
     (\<forall>c w'. Service_IssueCertificate svc ctx actor enrollmentID w = (Inr c, w') \<longrightarrow>
        (\<exists>now. c = certificateFor e a now) \<and> certificateOf e a c)"
proof -
  have get: "onRepo (MemoryStore_GetEnrollment enrollmentID) w = (Inr e, w)"
    by (simp add: run_onRepo MemoryStore_GetEnrollment_def assms(3))
  have eq: "Service_IssueCertificate sv ctx actor enrollmentID w =
      (if isBlank enrollmentID then (Inl ErrInvalidRequest, w) else
       bindM (prepareIssue sv e) (\<lambda>(req, now). bindM (finalizeSignedIssuanceAttempt enrollmentID a now) (\<lambda>certificate.
         thenM (ensureCertificateIssuedAuditEvent sv ctx actor certificate now) (returnM certificate))) w)" for sv
    using issueApproved_signed[OF assms(5,6), of sv ctx actor e] assms(4)
    by (simp add: Service_IssueCertificate_def run_failIf run_bindM[of "onRepo (MemoryStore_GetEnrollment enrollmentID)"] get)
  have none: "certificateByEnrollmentID (ms_certificates (w_repo w)) enrollmentID = Inl ErrCertificateNotFound"
  proof (cases "certificateByEnrollmentID (ms_certificates (w_repo w)) enrollmentID")
    case (Inr c)
    then show ?thesis using byEnrollment_delivered[OF assms(1,2) Inr] assms(3,4) by (auto simp: delivered_def)
  qed (auto simp: certificateByEnrollmentID_def split: option.splits)
  have "\<exists>now. c = certificateFor e a now" if run: "Service_IssueCertificate svc ctx actor enrollmentID w = (Inr c, w')" for c w'
  proof -
    obtain req now w1 w2 where prep: "prepareIssue svc e w = (Inr (req, now), w1)"
      and fin: "finalizeSignedIssuanceAttempt enrollmentID a now w1 = (Inr c, w2)"
      using run unfolding eq by (auto simp: prog_simps split: prod.splits sum.splits if_splits)
    have "w_repo w1 = w_repo w" using prepareIssue_quiet prep unfolding quiet_def by (metis snd_conv)
    then show ?thesis using finalize_signed_material[OF _ assms(4) _ _ assms(6) fin] assms(3,5) none by auto
  qed
  moreover have "certificateOf e a (certificateFor e a now)" for now
    using keyedD[OF sound_keyed(7)[OF assms(1)] assms(3)] by (simp add: certificateOf_def certificateFor_def)
  ultimately show ?thesis unfolding eq withSigner_prepare withSigner_audit by blast
qed

end
