(* ===== verification/Acme.thy ===== *)
theory Acme
  imports Enrollments Caa Issuing
begin

text \<open>
  ACME (RFC 8555) in the lifecycle service: accounts, orders with their authorizations and HTTP-01
  challenges, validation, and finalization, which runs the enrollment and issuance operations
  (\<^verbatim>\<open>CreateACMEAccount\<close> to \<^verbatim>\<open>FinalizeACMEOrder\<close> and their helpers in \<^verbatim>\<open>internal/lifecycle/service.go\<close>). The
  verifier that fetches the key authorization is a parameter of the service.
\<close>

section \<open>Accounts\<close>

definition newACMEAccount :: "string \<Rightarrow> CreateACMEAccountRequest \<Rightarrow> time \<Rightarrow> ACMEAccount" where
  "newACMEAccount ident req now =
     \<lparr>acc_ID = ident, acc_Contacts = copySlice (car_Contacts req), acc_Status = ACMEAccountValid,
      acc_TermsOfServiceAgreed = car_TermsOfServiceAgreed req, acc_KeyThumbprint = TrimSpace (car_KeyThumbprint req),
      acc_KeyJWKJSON = TrimSpace (car_KeyJWKJSON req), acc_CreatedAt = now, acc_UpdatedAt = now\<rparr>"

definition createACMEAccount :: "Service \<Rightarrow> Context \<Rightarrow> string \<Rightarrow> CreateACMEAccountRequest \<Rightarrow> ACMEAccount svc" where
  "createACMEAccount svc ctx actor req =
     bindM (Now svc) (\<lambda>now.
     bindM (NewID svc) (\<lambda>ident.
     let account = newACMEAccount ident req now in
     thenM (MemoryStore_WithinTx (
         thenM (onRepo (memoryTx_CreateACMEAccount account))
           (createAuditEvent svc ctx actor ''acme.account.created'' ''acme_account'' (acc_ID account) now
             (auditFields [''acme_account_id'', acc_ID account])) ))
       (returnM account) ))"

definition Service_CreateACMEAccount :: "Service \<Rightarrow> Context \<Rightarrow> string \<Rightarrow> CreateACMEAccountRequest \<Rightarrow> ACMEAccount svc" where
  "Service_CreateACMEAccount svc ctx actor req =
     thenM (liftE (validateCreateACMEAccountRequest req)) (createACMEAccount svc ctx actor req)"

definition Service_CreateOrGetACMEAccount ::
  "Service \<Rightarrow> Context \<Rightarrow> string \<Rightarrow> CreateACMEAccountRequest \<Rightarrow> CreateACMEAccountResult svc" where
  "Service_CreateOrGetACMEAccount svc ctx actor req =
     thenM (liftE (validateCreateACMEAccountRequest req)) (
     let keyThumbprint = TrimSpace (car_KeyThumbprint req);
         create = bindM (createACMEAccount svc ctx actor req) (\<lambda>account. returnM \<lparr>cas_Account = account, cas_Created = True\<rparr>) in
     if keyThumbprint \<noteq> [] then
       bindM (onRepo MemoryStore_ListACMEAccounts) (\<lambda>accounts.
       case find (\<lambda>account. acc_KeyThumbprint account = keyThumbprint) accounts of
         Some account \<Rightarrow> returnM \<lparr>cas_Account = account, cas_Created = False\<rparr>
       | None \<Rightarrow> create)
     else create )"

definition updatedAccount :: "UpdateACMEAccountRequest \<Rightarrow> time \<Rightarrow> ACMEAccount \<Rightarrow> ACMEAccount" where
  "updatedAccount req now account0 =
     (let account1 = (if uar_UpdateContacts req then account0\<lparr>acc_Contacts := copySlice (uar_Contacts req)\<rparr> else account0);
          account2 = (if uar_Deactivate req then account1\<lparr>acc_Status := ACMEAccountDeactivated\<rparr> else account1) in
      account2\<lparr>acc_UpdatedAt := now\<rparr>)"

definition Service_UpdateACMEAccount ::
  "Service \<Rightarrow> Context \<Rightarrow> string \<Rightarrow> string \<Rightarrow> UpdateACMEAccountRequest \<Rightarrow> ACMEAccount svc" where
  "Service_UpdateACMEAccount svc ctx actor accountID req =
     failIf (isBlank accountID \<or> \<not> uar_UpdateContacts req \<and> \<not> uar_Deactivate req) ErrInvalidRequest
    (bindM (Now svc) (\<lambda>now.
     MemoryStore_WithinTx (
       bindM (onRepo (memoryTx_GetACMEAccount accountID)) (\<lambda>account0.
       failIf (acc_Status account0 = ACMEAccountDeactivated) ErrACMEAccountDeactivated
      (failIf (acc_Status account0 \<noteq> ACMEAccountValid) ErrInvalidTransition
      (let account = updatedAccount req now account0 in
       thenM (onRepo (memoryTx_UpdateACMEAccountIfStatus account ACMEAccountValid))
      (thenM (createAuditEvent svc ctx actor
          (if uar_Deactivate req then ''acme.account.deactivated'' else ''acme.account.updated'') ''acme_account'' (acc_ID account) now
          (auditFields [''acme_account_id'', acc_ID account]))
        (returnM account) )))) ) ))"

definition rekeyedAccount :: "UpdateACMEAccountKeyRequest \<Rightarrow> time \<Rightarrow> ACMEAccount \<Rightarrow> ACMEAccount" where
  "rekeyedAccount req now account0 =
     account0\<lparr>acc_KeyThumbprint := TrimSpace (ukr_KeyThumbprint req), acc_KeyJWKJSON := TrimSpace (ukr_KeyJWKJSON req), acc_UpdatedAt := now\<rparr>"

definition Service_UpdateACMEAccountKey ::
  "Service \<Rightarrow> Context \<Rightarrow> string \<Rightarrow> string \<Rightarrow> UpdateACMEAccountKeyRequest \<Rightarrow> ACMEAccount svc" where
  "Service_UpdateACMEAccountKey svc ctx actor accountID req =
     failIf (isBlank accountID \<or> isBlank (ukr_KeyThumbprint req) \<or> isBlank (ukr_KeyJWKJSON req)) ErrInvalidRequest
    (bindM (Now svc) (\<lambda>now.
     MemoryStore_WithinTx (
       bindM (onRepo (memoryTx_GetACMEAccount accountID)) (\<lambda>account0.
       failIf (acc_Status account0 = ACMEAccountDeactivated) ErrACMEAccountDeactivated
      (failIf (acc_Status account0 \<noteq> ACMEAccountValid) ErrInvalidTransition
      (let account = rekeyedAccount req now account0 in
       thenM (onRepo (memoryTx_UpdateACMEAccountIfStatus account ACMEAccountValid))
      (thenM (createAuditEvent svc ctx actor ''acme.account.key_updated'' ''acme_account'' (acc_ID account) now
          (auditFields [''acme_account_id'', acc_ID account]))
        (returnM account) )))) ) ))"

section \<open>Orders\<close>

definition defaultACMEAuthorizationLifetime :: duration where
  "defaultACMEAuthorizationLifetime = 24 * Hour"

definition newAuthorization :: "string \<Rightarrow> string \<Rightarrow> string \<Rightarrow> string \<Rightarrow> time \<Rightarrow> ACMEAuthorization" where
  "newAuthorization ident orderID identifierType identifierValue now =
     \<lparr>authz_ID = ident, authz_OrderID = orderID, authz_IdentifierType = identifierType, authz_IdentifierValue = identifierValue,
      authz_Status = ACMEAuthorizationPending, authz_ExpiresAt = now + defaultACMEAuthorizationLifetime,
      authz_ValidationReuseExpiresAt = time_zero, authz_CreatedAt = now, authz_UpdatedAt = now\<rparr>"

definition newChallenge :: "string \<Rightarrow> string \<Rightarrow> ACMEChallengeType \<Rightarrow> string \<Rightarrow> time \<Rightarrow> ACMEChallenge" where
  "newChallenge ident authorizationID challengeType token now =
     \<lparr>chal_ID = ident, chal_AuthorizationID = authorizationID, chal_Type = challengeType, chal_Token = token,
      chal_Status = ACMEChallengePending, chal_ValidatedAt = time_zero, chal_CreatedAt = now, chal_UpdatedAt = now\<rparr>"

definition createACMEAuthorization ::
  "Service \<Rightarrow> string \<Rightarrow> string \<Rightarrow> string \<Rightarrow> ACMEChallengeType \<Rightarrow> time \<Rightarrow> unit svc" where
  "createACMEAuthorization svc orderID identifierType identifierValue challengeType now =
     bindM (NewID svc) (\<lambda>ident.
     let authorization = newAuthorization ident orderID identifierType identifierValue now in
     thenM (onRepo (memoryTx_CreateACMEAuthorization authorization))
    (bindM (NewID svc) (\<lambda>challengeID.
     bindM (NewID svc) (\<lambda>token.
     onRepo (memoryTx_CreateACMEChallenge (newChallenge challengeID (authz_ID authorization) challengeType token now)) ))))"

definition createACMEAuthorizations :: "Service \<Rightarrow> ACMEOrder \<Rightarrow> time \<Rightarrow> unit svc" where
  "createACMEAuthorizations svc order now =
     thenM (forM (ord_RequestedDNSNames order) (\<lambda>dnsName.
        createACMEAuthorization svc (ord_ID order) ''dns'' dnsName ACMEChallengeHTTP01 now))
       (forM (ord_RequestedIPAddresses order) (\<lambda>ipAddress.
        createACMEAuthorization svc (ord_ID order) ''ip'' ipAddress ACMEChallengeHTTP01 now))"

definition newACMEOrder :: "string \<Rightarrow> CreateACMEOrderRequest \<Rightarrow> time \<Rightarrow> ACMEOrder" where
  "newACMEOrder ident req now =
     \<lparr>ord_ID = ident, ord_AccountID = cao_AccountID req, ord_IdentityID = cao_IdentityID req, ord_IssuerID = cao_IssuerID req,
      ord_CertificateProfileID = cao_CertificateProfileID req, ord_Status = ACMEOrderPending,
      ord_CSRPEM = [], ord_RequestedSubject = [],
      ord_RequestedDNSNames = copySlice (cao_RequestedDNSNames req), ord_RequestedIPAddresses = copySlice (cao_RequestedIPAddresses req),
      ord_RequestedNotAfter = cao_RequestedNotAfter req, ord_EnrollmentID = [], ord_CertificateID = [], ord_ExpiresAt = now + defaultACMEAuthorizationLifetime, ord_CreatedAt = now, ord_UpdatedAt = now\<rparr>"

definition orderPolicyRequest :: "CreateACMEOrderRequest \<Rightarrow> CreateEnrollmentRequest" where
  "orderPolicyRequest req =
     \<lparr>cer_IdentityID = cao_IdentityID req, cer_IssuerID = cao_IssuerID req, cer_CertificateProfileID = cao_CertificateProfileID req,
      cer_CSRPEM = [], cer_RequestedSubject = [], cer_RequestedDNSNames = cao_RequestedDNSNames req,
      cer_RequestedIPAddresses = cao_RequestedIPAddresses req, cer_RequestedNotAfter = cao_RequestedNotAfter req\<rparr>"

definition orderCAACheck :: "Service \<Rightarrow> CreateACMEOrderRequest \<Rightarrow> unit svc" where
  "orderCAACheck svc req =
     (if cao_CertificateProfileID req \<noteq> [] then
        bindM (onRepo (MemoryStore_GetCertificateProfile (cao_CertificateProfileID req))) (\<lambda>profile.
        if prof_PublicTLS profile then validatePublicTLSCAA svc (cao_RequestedDNSNames req) else returnM ())
      else returnM ())"

definition requireProfile :: "string \<Rightarrow> unit svc" where
  "requireProfile profileID =
     (if profileID \<noteq> [] then thenM (onRepo (memoryTx_GetCertificateProfile profileID)) (returnM ()) else returnM ())"

definition Service_CreateACMEOrder :: "Service \<Rightarrow> Context \<Rightarrow> string \<Rightarrow> CreateACMEOrderRequest \<Rightarrow> ACMEOrder svc" where
  "Service_CreateACMEOrder svc ctx actor req =
     bindM (Now svc) (\<lambda>now.
     thenM (liftE (validateCreateACMEOrderRequest req now))
    (thenM (orderCAACheck svc req)
    (bindM (NewID svc) (\<lambda>ident.
     let order = newACMEOrder ident req now in
     thenM (MemoryStore_WithinTx (
       bindM (onRepo (memoryTx_GetACMEAccount (cao_AccountID req))) (\<lambda>account.
       failIf (acc_Status account = ACMEAccountDeactivated) ErrACMEAccountDeactivated
      (failIf (acc_Status account \<noteq> ACMEAccountValid) ErrInvalidRequest
      (bindM (onRepo (memoryTx_GetIdentity (cao_IdentityID req))) (\<lambda>identity.
       thenM (liftE (validateEnrollmentIdentityPolicy (orderPolicyRequest req) identity))
      (thenM (onRepo (memoryTx_GetIssuer (cao_IssuerID req)))
      (thenM (requireProfile (cao_CertificateProfileID req))
      (thenM (onRepo (memoryTx_CreateACMEOrder order))
      (thenM (createACMEAuthorizations svc order now)
        (createAuditEvent svc ctx actor ''acme.order.created'' ''acme_order'' (ord_ID order) now
          (auditFields [''acme_account_id'', ord_AccountID order, ''acme_order_id'', ord_ID order,
            ''identity_id'', ord_IdentityID order, ''issuer_id'', ord_IssuerID order, ''profile_id'', ord_CertificateProfileID order]))
        )))))))) ))
       (returnM order) ))))"

section \<open>Challenges\<close>

definition acmeExpired :: "time \<Rightarrow> time \<Rightarrow> bool" where
  "acmeExpired expiresAt now \<longleftrightarrow> \<not> IsZero expiresAt \<and> \<not> expiresAt > now"

record acmeHTTP01ValidationContext =
  avc_Challenge :: ACMEChallenge
  avc_IdentifierValue :: string
  avc_KeyAuthorization :: string

definition validationContext :: "Service \<Rightarrow> string \<Rightarrow> acmeHTTP01ValidationContext svc" where
  "validationContext svc challengeID =
     failIf (isBlank challengeID) ErrInvalidRequest
    (bindM (onRepo (MemoryStore_GetACMEChallenge challengeID)) (\<lambda>challenge.
     failIf (chal_Type challenge \<noteq> ACMEChallengeHTTP01 \<or>
        chal_Status challenge \<noteq> ACMEChallengePending \<and> chal_Status challenge \<noteq> ACMEChallengeProcessing) ErrInvalidTransition
    (bindM (onRepo (MemoryStore_GetACMEAuthorization (chal_AuthorizationID challenge))) (\<lambda>authorization.
     failIf (authz_Status authorization \<noteq> ACMEAuthorizationPending) ErrInvalidTransition
    (bindM (onRepo (MemoryStore_GetACMEOrder (authz_OrderID authorization))) (\<lambda>order.
     failIf (ord_Status order \<noteq> ACMEOrderPending) ErrInvalidTransition
    (bindM (Now svc) (\<lambda>now.
     failIf (acmeExpired (ord_ExpiresAt order) now \<or> acmeExpired (authz_ExpiresAt authorization) now) ErrInvalidTransition
    (bindM (onRepo (MemoryStore_GetACMEAccount (ord_AccountID order))) (\<lambda>account.
     failIf (acc_Status account = ACMEAccountDeactivated) ErrACMEAccountDeactivated
    (failIf (acc_Status account \<noteq> ACMEAccountValid \<or> acc_KeyThumbprint account = []) ErrInvalidRequest
      (returnM \<lparr>avc_Challenge = challenge, avc_IdentifierValue = authz_IdentifierValue authorization,
        avc_KeyAuthorization = chal_Token challenge @ ''.'' @ acc_KeyThumbprint account\<rparr>) )))))))))))"

definition challengeAuditFields :: "ACMEChallenge \<Rightarrow> ACMEAuthorization \<Rightarrow> json gomap" where
  "challengeAuditFields challenge authorization =
     auditFields [''acme_challenge_id'', chal_ID challenge, ''acme_authorization_id'', authz_ID authorization,
       ''acme_order_id'', authz_OrderID authorization]"

definition openChallenge :: "ACMEChallenge \<Rightarrow> bool" where
  "openChallenge challenge \<longleftrightarrow> chal_Status challenge = ACMEChallengePending \<or> chal_Status challenge = ACMEChallengeProcessing"

definition markACMEChallengeProcessing :: "Service \<Rightarrow> Context \<Rightarrow> string \<Rightarrow> string \<Rightarrow> ACMEChallenge svc" where
  "markACMEChallengeProcessing svc ctx actor challengeID =
     bindM (Now svc) (\<lambda>now.
     MemoryStore_WithinTx (
       bindM (onRepo (memoryTx_GetACMEChallenge challengeID)) (\<lambda>current.
       failIf (\<not> openChallenge current) ErrInvalidTransition
      (bindM (onRepo (memoryTx_GetACMEAuthorization (chal_AuthorizationID current))) (\<lambda>authorization.
       failIf (authz_Status authorization \<noteq> ACMEAuthorizationPending) ErrInvalidTransition
      (let challenge = current\<lparr>chal_Status := ACMEChallengeProcessing, chal_UpdatedAt := now\<rparr> in
       thenM (onRepo (memoryTx_UpdateACMEChallengeIfStatus challenge (chal_Status current)))
      (thenM (createAuditEvent svc ctx actor ''acme.challenge.processing'' ''acme_challenge'' (chal_ID challenge) now
          (challengeAuditFields challenge authorization))
        (returnM challenge) ))))) ) )"

definition promoteACMEOrderIfReady :: "ACMEOrder \<Rightarrow> time \<Rightarrow> unit svc" where
  "promoteACMEOrderIfReady order now =
     (if ord_Status order \<noteq> ACMEOrderPending then returnM ()
      else bindM (onRepo (memoryTx_ListACMEAuthorizationsByOrder (ord_ID order))) (\<lambda>authorizations.
        if \<exists>authorization \<in> set authorizations. authz_Status authorization \<noteq> ACMEAuthorizationValid then returnM ()
        else onRepo (memoryTx_UpdateACMEOrderIfStatus (order\<lparr>ord_Status := ACMEOrderReady, ord_UpdatedAt := now\<rparr>) ACMEOrderPending)))"

definition validatedAuthorization :: "ACMEAuthorization \<Rightarrow> time \<Rightarrow> ACMEAuthorization" where
  "validatedAuthorization authorization now =
     authorization\<lparr>authz_Status := ACMEAuthorizationValid,
       authz_ValidationReuseExpiresAt := now + publicTLSValidationReuseCeiling now, authz_UpdatedAt := now\<rparr>"

definition promoteACMEAuthorizationIfReady :: "ACMEAuthorization \<Rightarrow> time \<Rightarrow> unit svc" where
  "promoteACMEAuthorizationIfReady authorization now =
     bindM (onRepo (memoryTx_ListACMEChallengesByAuthorization (authz_ID authorization))) (\<lambda>challenges.
     if \<exists>challenge \<in> set challenges. chal_Status challenge \<noteq> ACMEChallengeValid then returnM ()
     else thenM (onRepo (memoryTx_UpdateACMEAuthorizationIfStatus (validatedAuthorization authorization now) ACMEAuthorizationPending))
       (bindM (onRepo (memoryTx_GetACMEOrder (authz_OrderID authorization))) (\<lambda>order.
        promoteACMEOrderIfReady order now)))"

definition Service_CompleteACMEChallenge :: "Service \<Rightarrow> Context \<Rightarrow> string \<Rightarrow> string \<Rightarrow> ACMEChallenge svc" where
  "Service_CompleteACMEChallenge svc ctx actor challengeID =
     failIf (isBlank challengeID) ErrInvalidRequest
    (bindM (Now svc) (\<lambda>now.
     MemoryStore_WithinTx (
       bindM (onRepo (memoryTx_GetACMEChallenge challengeID)) (\<lambda>current.
       failIf (\<not> openChallenge current) ErrInvalidTransition
      (bindM (onRepo (memoryTx_GetACMEAuthorization (chal_AuthorizationID current))) (\<lambda>authorization.
       failIf (authz_Status authorization \<noteq> ACMEAuthorizationPending) ErrInvalidTransition
      (let challenge = current\<lparr>chal_Status := ACMEChallengeValid, chal_ValidatedAt := now, chal_UpdatedAt := now\<rparr> in
       thenM (onRepo (memoryTx_UpdateACMEChallengeIfStatus challenge (chal_Status current)))
      (thenM (promoteACMEAuthorizationIfReady authorization now)
      (thenM (createAuditEvent svc ctx actor ''acme.challenge.completed'' ''acme_challenge'' (chal_ID challenge) now
          (challengeAuditFields challenge authorization))
        (returnM challenge) )))))) ) ))"

definition Service_ValidateACMEHTTP01Challenge :: "Service \<Rightarrow> Context \<Rightarrow> string \<Rightarrow> string \<Rightarrow> ACMEChallenge svc" where
  "Service_ValidateACMEHTTP01Challenge svc ctx actor challengeID =
     bindM (validationContext svc challengeID) (\<lambda>validation.
     bindM (attemptM (callExt (\<lambda>n. svc_acmeHTTP01Verifier svc n (avc_IdentifierValue validation)
         (chal_Token (avc_Challenge validation)) (avc_KeyAuthorization validation)))) (\<lambda>r.
     case r of
       Inl _ \<Rightarrow> markACMEChallengeProcessing svc ctx actor (chal_ID (avc_Challenge validation))
     | Inr _ \<Rightarrow> Service_CompleteACMEChallenge svc ctx actor challengeID ))"

definition Service_PollACMEAuthorization :: "Service \<Rightarrow> Context \<Rightarrow> string \<Rightarrow> string \<Rightarrow> ACMEAuthorization svc" where
  "Service_PollACMEAuthorization svc ctx actor authorizationID =
     failIf (isBlank authorizationID) ErrInvalidRequest
    (bindM (onRepo (MemoryStore_GetACMEAuthorization authorizationID)) (\<lambda>authorization.
     if authz_Status authorization \<noteq> ACMEAuthorizationPending then returnM authorization
     else bindM (onRepo (MemoryStore_ListACMEChallengesByAuthorization authorizationID)) (\<lambda>challenges.
       thenM (forM challenges (\<lambda>challenge.
           if chal_Type challenge = ACMEChallengeHTTP01 \<and> chal_Status challenge = ACMEChallengeProcessing
           then thenM (Service_ValidateACMEHTTP01Challenge svc ctx actor (chal_ID challenge)) (returnM ()) else returnM ()))
         (onRepo (MemoryStore_GetACMEAuthorization authorizationID)) ) ))"

section \<open>Finalization\<close>

definition invalidateACMEOrder :: "Service \<Rightarrow> Context \<Rightarrow> string \<Rightarrow> ACMEOrder \<Rightarrow> unit svc" where
  "invalidateACMEOrder svc ctx actor order0 =
     bindM (Now svc) (\<lambda>now.
     let order = order0\<lparr>ord_Status := ACMEOrderInvalid, ord_UpdatedAt := now\<rparr> in
     MemoryStore_WithinTx (
       thenM (onRepo (memoryTx_UpdateACMEOrderIfStatus order ACMEOrderReady))
         (createAuditEvent svc ctx actor ''acme.order.invalid'' ''acme_order'' (ord_ID order) now
           (auditFields [''acme_account_id'', ord_AccountID order, ''acme_order_id'', ord_ID order])) ) )"

definition validateACMEPublicTLSValidationEvidence :: "ACMEOrder \<Rightarrow> time \<Rightarrow> unit svc" where
  "validateACMEPublicTLSValidationEvidence order now =
     (if ord_CertificateProfileID order = [] then returnM ()
      else bindM (onRepo (MemoryStore_GetCertificateProfile (ord_CertificateProfileID order))) (\<lambda>profile.
        if \<not> prof_PublicTLS profile then returnM ()
        else bindM (onRepo (MemoryStore_ListACMEAuthorizationsByOrder (ord_ID order))) (\<lambda>authorizations.
          failIf (\<exists>authorization \<in> set authorizations. authz_Status authorization \<noteq> ACMEAuthorizationValid \<or>
              acmeExpired (authz_ValidationReuseExpiresAt authorization) now \<or> IsZero (authz_ValidationReuseExpiresAt authorization))
            ErrInvalidTransition (returnM ()) ) ))"

definition orderEnrollmentRequest :: "ACMEOrder \<Rightarrow> FinalizeACMEOrderRequest \<Rightarrow> CreateEnrollmentRequest" where
  "orderEnrollmentRequest order req =
     \<lparr>cer_IdentityID = ord_IdentityID order, cer_IssuerID = ord_IssuerID order, cer_CertificateProfileID = ord_CertificateProfileID order,
      cer_CSRPEM = fao_CSRPEM req, cer_RequestedSubject = fao_RequestedSubject req,
      cer_RequestedDNSNames = copySlice (ord_RequestedDNSNames order), cer_RequestedIPAddresses = copySlice (ord_RequestedIPAddresses order),
      cer_RequestedNotAfter = ord_RequestedNotAfter order\<rparr>"

definition finalizedOrder :: "ACMEOrder \<Rightarrow> FinalizeACMEOrderRequest \<Rightarrow> string \<Rightarrow> string \<Rightarrow> time \<Rightarrow> ACMEOrder" where
  "finalizedOrder order req enrollmentID certificateID now =
     order\<lparr>ord_CSRPEM := fao_CSRPEM req, ord_RequestedSubject := fao_RequestedSubject req, ord_EnrollmentID := enrollmentID,
       ord_CertificateID := certificateID, ord_Status := ACMEOrderValid, ord_UpdatedAt := now\<rparr>"

text \<open>Finalization of an order that is ready and has not expired: enrollment, approval, issuance, then the order itself.\<close>

definition issueACMEOrder :: "Service \<Rightarrow> Context \<Rightarrow> string \<Rightarrow> ACMEOrder \<Rightarrow> FinalizeACMEOrderRequest \<Rightarrow> ACMEOrder svc" where
  "issueACMEOrder svc ctx actor order0 req =
     bindM (Service_CreateEnrollment svc ctx actor (orderEnrollmentRequest order0 req)) (\<lambda>enrollment.
     thenM (Service_ApproveEnrollment svc ctx actor (enr_ID enrollment))
    (bindM (Service_IssueCertificate svc ctx actor (enr_ID enrollment)) (\<lambda>certificate.
     bindM (Now svc) (\<lambda>now.
     let order = finalizedOrder order0 req (enr_ID enrollment) (cert_ID certificate) now in
     thenM (MemoryStore_WithinTx (onRepo (memoryTx_UpdateACMEOrderIfStatus order ACMEOrderReady)))
    (thenM (MemoryStore_WithinTx (createAuditEvent svc ctx actor ''acme.order.finalized'' ''acme_order'' (ord_ID order) now
        (auditFields [''acme_account_id'', ord_AccountID order, ''acme_order_id'', ord_ID order,
          ''enrollment_id'', enr_ID enrollment, ''certificate_id'', cert_ID certificate])))
      (returnM order) )))))"

definition Service_FinalizeACMEOrder ::
  "Service \<Rightarrow> Context \<Rightarrow> string \<Rightarrow> string \<Rightarrow> FinalizeACMEOrderRequest \<Rightarrow> ACMEOrder svc" where
  "Service_FinalizeACMEOrder svc ctx actor orderID req =
     failIf (isBlank orderID \<or> isBlank (fao_CSRPEM req) \<or> isBlank (fao_RequestedSubject req)) ErrInvalidRequest
    (bindM (onRepo (MemoryStore_GetACMEOrder orderID)) (\<lambda>order.
     if ord_Status order = ACMEOrderValid then returnM order
     else failIf (ord_Status order \<noteq> ACMEOrderReady) ErrInvalidTransition
    (bindM (Now svc) (\<lambda>now.
     if acmeExpired (ord_ExpiresAt order) now
     then thenM (invalidateACMEOrder svc ctx actor order) (throwM ErrInvalidTransition)
     else bindM (Now svc) (\<lambda>now2.
       thenM (validateACMEPublicTLSValidationEvidence order now2) (issueACMEOrder svc ctx actor order req) ) ))))"

section \<open>Reading\<close>

definition Service_GetACMEOrder :: "string \<Rightarrow> ACMEOrder svc" where
  "Service_GetACMEOrder ident = failIf (isBlank ident) ErrInvalidRequest (onRepo (MemoryStore_GetACMEOrder ident))"

definition Service_ListACMEAccounts :: "ACMEAccount list svc" where
  "Service_ListACMEAccounts = onRepo MemoryStore_ListACMEAccounts"

definition Service_GetACMEAccount :: "string \<Rightarrow> ACMEAccount svc" where
  "Service_GetACMEAccount ident = failIf (isBlank ident) ErrInvalidRequest (onRepo (MemoryStore_GetACMEAccount ident))"

definition Service_ListACMEOrdersByAccount :: "string \<Rightarrow> ACMEOrder list svc" where
  "Service_ListACMEOrdersByAccount accountID =
     failIf (isBlank accountID) ErrInvalidRequest (onRepo (MemoryStore_ListACMEOrdersByAccount accountID))"

definition Service_ListACMEAuthorizations :: "string \<Rightarrow> ACMEAuthorization list svc" where
  "Service_ListACMEAuthorizations orderID =
     failIf (isBlank orderID) ErrInvalidRequest
      (thenM (onRepo (MemoryStore_GetACMEOrder orderID)) (onRepo (MemoryStore_ListACMEAuthorizationsByOrder orderID)))"

definition Service_GetACMEAuthorization :: "string \<Rightarrow> ACMEAuthorization svc" where
  "Service_GetACMEAuthorization ident = failIf (isBlank ident) ErrInvalidRequest (onRepo (MemoryStore_GetACMEAuthorization ident))"

definition Service_ListACMEChallenges :: "string \<Rightarrow> ACMEChallenge list svc" where
  "Service_ListACMEChallenges authorizationID =
     failIf (isBlank authorizationID) ErrInvalidRequest
      (thenM (onRepo (MemoryStore_GetACMEAuthorization authorizationID))
        (onRepo (MemoryStore_ListACMEChallengesByAuthorization authorizationID)))"

definition Service_GetACMEChallenge :: "string \<Rightarrow> ACMEChallenge svc" where
  "Service_GetACMEChallenge ident = failIf (isBlank ident) ErrInvalidRequest (onRepo (MemoryStore_GetACMEChallenge ident))"

lemma advance_sound: "advance svc w w' \<Longrightarrow> sound svc w'"
  by (simp add: advance_def)

section \<open>Failed calls change nothing\<close>

lemma promote_grows [clean_rules]: "grows (promoteACMEAuthorizationIfReady authorization now)"
  unfolding promoteACMEAuthorizationIfReady_def promoteACMEOrderIfReady_def by (intro clean_rules)

lemma createAuthorizations_grows [clean_rules]: "grows (createACMEAuthorizations svc order now)"
  unfolding createACMEAuthorizations_def createACMEAuthorization_def by (intro clean_rules)

lemma requireProfile_quiet [clean_rules]: "quiet (requireProfile profileID)" "grows (requireProfile profileID)"
  unfolding requireProfile_def by (intro clean_rules)+

lemma requireProfile_Inr [inr_simps]:
  "requireProfile profileID w = (Inr u, w') \<longleftrightarrow> w' = w \<and> (profileID = [] \<or> profileID \<in> dom (mget (ms_profiles (w_repo w))))"
  by (auto simp: requireProfile_def inr_simps domIff)

lemma orderCAACheck_quiet [clean_rules]: "quiet (orderCAACheck svc req)"
  unfolding orderCAACheck_def by (intro clean_rules)

lemma validationContext_quiet [clean_rules]: "quiet (validationContext svc challengeID)"
  unfolding validationContext_def by (intro clean_rules)

lemma evidence_quiet [clean_rules]: "quiet (validateACMEPublicTLSValidationEvidence order now)"
  unfolding validateACMEPublicTLSValidationEvidence_def by (intro clean_rules)

lemma acme_clean [clean_rules]:
  "clean (createACMEAccount svc ctx actor creq)" "clean (Service_UpdateACMEAccount svc ctx actor accountID ureq)"
  "clean (Service_UpdateACMEAccountKey svc ctx actor accountID kreq)" "clean (Service_CreateACMEOrder svc ctx actor oreq)"
  "clean (markACMEChallengeProcessing svc ctx actor challengeID)" "clean (Service_CompleteACMEChallenge svc ctx actor challengeID)"
  "clean (invalidateACMEOrder svc ctx actor order)"
  unfolding createACMEAccount_def Service_UpdateACMEAccount_def Service_UpdateACMEAccountKey_def Service_CreateACMEOrder_def
    markACMEChallengeProcessing_def Service_CompleteACMEChallenge_def invalidateACMEOrder_def
  by (intro clean_rules)+

section \<open>Accounts follow their machine\<close>

lemma newACMEAccount_id [simp]: "acc_ID (newACMEAccount i req t) = i"
  by (simp add: newACMEAccount_def)

lemma createAccount_effect:
  assumes "createACMEAccount svc ctx actor req w = (Inr a, w')"
  obtains "a = newACMEAccount (svc_idgen svc (w_ids w)) req (svc_clock svc (w_clock w))"
    "ensureACMEAccountThumbprintAvailable (ms_acmeAccounts (w_repo w)) a = Inr ()"
    "w_repo w' = (w_repo w)\<lparr>ms_acmeAccounts := mput (acc_ID a) a (ms_acmeAccounts (w_repo w)),
       ms_auditEvents := ms_auditEvents (w_repo w) @ [auditEventFor svc ctx (svc_idgen svc (Suc (w_ids w))) actor ''acme.account.created''
         ''acme_account'' (acc_ID a) (svc_clock svc (w_clock w)) (auditFields [''acme_account_id'', acc_ID a])]\<rparr>"
    "w_ids w' = Suc (Suc (w_ids w))"
  using assms by (clarsimp simp: createACMEAccount_def inr_simps Let_def)

lemma createAccount_advances [advances_rules]: "advances svc (createACMEAccount svc ctx actor req)"
proof (rule advances_clean[OF acme_clean(1)])
  fix w a w'
  assume s: "sound svc w" and run: "createACMEAccount svc ctx actor req w = (Inr a, w')"
  from run show "advance svc w w'"
  proof (rule createAccount_effect, goal_cases)
    case 1
    have id: "acc_ID a = svc_idgen svc (w_ids w)" by (simp add: 1(1))
    note u = unique_thumbprints_put[OF sound_clauses(4)[OF s] sound_keyed(13)[OF s] 1(2)]
    show ?case
      by (intro advance_by_updates[OF s 1(3) 1(4)] update_rules) (simp_all add: u[unfolded id] id sound_facts[OF s] table_evolves_fresh dom_mput)
  qed
qed

lemma account_advances [advances_rules]:
  "advances svc (Service_CreateACMEAccount svc ctx actor req)" "advances svc (Service_CreateOrGetACMEAccount svc ctx actor req)"
  unfolding Service_CreateACMEAccount_def Service_CreateOrGetACMEAccount_def Let_def by (intro advances_rules)+

lemma updateACMEAccount_Inr:
  "updateACMEAccountIfStatus m v c = Inr m' \<longleftrightarrow> (\<exists>v0. mget m (acc_ID v) = Some v0 \<and> acc_Status v0 = c) \<and>
     ensureACMEAccountThumbprintAvailable m v = Inr () \<and> m' = mput (acc_ID v) v m"
  by (auto simp: updateACMEAccountIfStatus_def split: option.splits if_splits sum.splits)

lemma rekeyedAccount_step: "acc_ID (rekeyedAccount req now a) = acc_ID a" "accountStep a (rekeyedAccount req now a)"
  by (simp_all add: rekeyedAccount_def step_defs)

lemma updatedAccount_step:
  "acc_ID (updatedAccount req now a) = acc_ID a" "acc_Status a = ACMEAccountValid \<Longrightarrow> accountStep a (updatedAccount req now a)"
  by (auto simp: updatedAccount_def step_defs Let_def)

text \<open>An account row replaced by one that took a step, with an audit event, is an advance.\<close>

lemma account_put_advance:
  assumes s: "sound svc w" and get: "mget (ms_acmeAccounts (w_repo w)) i = Some a0" and step: "accountStep a0 a" "acc_ID a = acc_ID a0"
    and free: "ensureACMEAccountThumbprintAvailable (ms_acmeAccounts (w_repo w)) a = Inr ()"
    and repo: "w_repo w' = (w_repo w)\<lparr>ms_acmeAccounts := mput (acc_ID a) a (ms_acmeAccounts (w_repo w)), ms_auditEvents := es\<rparr>"
    and ids: "w_ids w' = Suc (w_ids w)"
  shows "advance svc w w'"
proof -
  note put = put_acmeAccounts[OF s get step]
  note u = unique_thumbprints_put[OF sound_clauses(4)[OF s] sound_keyed(13)[OF s] free]
  show ?thesis
    by (intro advance_by_updates[OF s repo ids] update_rules) (simp_all add: u[unfolded step(2)] step(2) put sound_facts[OF s])
qed

lemma UpdateACMEAccount_advances [advances_rules]: "advances svc (Service_UpdateACMEAccount svc ctx actor accountID req)"
proof (rule advances_clean[OF acme_clean(2)])
  fix w a w'
  assume s: "sound svc w" and run: "Service_UpdateACMEAccount svc ctx actor accountID req w = (Inr a, w')"
  from run show "advance svc w w'"
    by (clarsimp simp: Service_UpdateACMEAccount_def inr_simps updateACMEAccount_Inr Let_def split del: if_split)
      (rule account_put_advance[OF s], assumption, rule updatedAccount_step(2), simp_all add: updatedAccount_step(1))
qed

lemma UpdateACMEAccountKey_advances [advances_rules]: "advances svc (Service_UpdateACMEAccountKey svc ctx actor accountID req)"
proof (rule advances_clean[OF acme_clean(3)])
  fix w a w'
  assume s: "sound svc w" and run: "Service_UpdateACMEAccountKey svc ctx actor accountID req w = (Inr a, w')"
  from run show "advance svc w w'"
    by (clarsimp simp: Service_UpdateACMEAccountKey_def inr_simps updateACMEAccount_Inr Let_def)
      (rule account_put_advance[OF s], assumption, rule rekeyedAccount_step(2), simp_all add: rekeyedAccount_step(1))
qed

section \<open>What an order that left \<open>pending\<close> has behind it\<close>

text \<open>
  \<open>acme_validated\<close>: the authorizations of an order that is no longer pending are all valid, and the
  challenges of a valid authorization are all valid. \<open>acme_complete\<close>: every name of an order has its
  authorization, and every authorization an HTTP-01 challenge. Together they say that nothing leaves
  \<open>pending\<close> before each of its names has been validated.
\<close>

definition hasAuthz :: "MemoryStore \<Rightarrow> string \<Rightarrow> string \<Rightarrow> string \<Rightarrow> bool" where
  "hasAuthz s orderID ty val \<longleftrightarrow>
     (\<exists>i a. mget (ms_acmeAuthzs s) i = Some a \<and> authz_OrderID a = orderID \<and> authz_IdentifierType a = ty \<and> authz_IdentifierValue a = val)"

definition hasChallenge :: "MemoryStore \<Rightarrow> string \<Rightarrow> bool" where
  "hasChallenge s i \<longleftrightarrow>
     (\<exists>k c. mget (ms_acmeChallenges s) k = Some c \<and> chal_AuthorizationID c = i \<and> chal_Type c = ACMEChallengeHTTP01)"

definition acme_validated :: "MemoryStore \<Rightarrow> bool" where
  "acme_validated s \<longleftrightarrow>
     (\<forall>k r i a. mget (ms_acmeOrders s) k = Some r \<and> ord_Status r \<noteq> ACMEOrderPending \<and> mget (ms_acmeAuthzs s) i = Some a \<and>
        authz_OrderID a = k \<longrightarrow> authz_Status a = ACMEAuthorizationValid) \<and>
     (\<forall>i a k c. mget (ms_acmeAuthzs s) i = Some a \<and> authz_Status a = ACMEAuthorizationValid \<and> mget (ms_acmeChallenges s) k = Some c \<and>
        chal_AuthorizationID c = i \<longrightarrow> chal_Status c = ACMEChallengeValid)"

definition orderCovered :: "MemoryStore \<Rightarrow> ACMEOrder \<Rightarrow> bool" where
  "orderCovered s r \<longleftrightarrow> (\<forall>n \<in> set (ord_RequestedDNSNames r). hasAuthz s (ord_ID r) ''dns'' n) \<and>
     (\<forall>n \<in> set (ord_RequestedIPAddresses r). hasAuthz s (ord_ID r) ''ip'' n)"

definition authzsChallenged :: "MemoryStore \<Rightarrow> bool" where
  "authzsChallenged s \<longleftrightarrow> (\<forall>i a. mget (ms_acmeAuthzs s) i = Some a \<longrightarrow> hasChallenge s i)"

definition acme_ok :: "MemoryStore \<Rightarrow> bool" where
  "acme_ok s \<longleftrightarrow> acme_validated s \<and> authzsChallenged s \<and> (\<forall>k r. mget (ms_acmeOrders s) k = Some r \<longrightarrow> orderCovered s r)"

lemma acme_validatedD:
  assumes "acme_validated s"
  shows "mget (ms_acmeOrders s) k = Some r \<Longrightarrow> ord_Status r \<noteq> ACMEOrderPending \<Longrightarrow> mget (ms_acmeAuthzs s) i = Some a \<Longrightarrow>
      authz_OrderID a = k \<Longrightarrow> authz_Status a = ACMEAuthorizationValid"
    and "mget (ms_acmeAuthzs s) i = Some a \<Longrightarrow> authz_Status a = ACMEAuthorizationValid \<Longrightarrow> mget (ms_acmeChallenges s) k' = Some c \<Longrightarrow>
      chal_AuthorizationID c = i \<Longrightarrow> chal_Status c = ACMEChallengeValid"
  using assms unfolding acme_validated_def by blast+

text \<open>Rows keep what they are about, so what is covered stays covered.\<close>

lemma order_core: "orderCore r = orderCore r' \<Longrightarrow> ord_ID r = ord_ID r' \<and> ord_RequestedDNSNames r = ord_RequestedDNSNames r' \<and>
     ord_RequestedIPAddresses r = ord_RequestedIPAddresses r'"
  by (cases r; cases r') (simp add: orderCore_def)

lemma authz_core: "authzCore a = authzCore a' \<Longrightarrow> authz_ID a = authz_ID a' \<and> authz_OrderID a = authz_OrderID a' \<and>
     authz_IdentifierType a = authz_IdentifierType a' \<and> authz_IdentifierValue a = authz_IdentifierValue a'"
  by (cases a; cases a') (simp add: authzCore_def)

lemma challenge_core:
  "challengeCore c = challengeCore c' \<Longrightarrow> chal_ID c = chal_ID c' \<and> chal_AuthorizationID c = chal_AuthorizationID c' \<and> chal_Type c = chal_Type c'"
  by (cases c; cases c') (simp add: challengeCore_def)

lemma acme_rows_kept:
  assumes "evolves s s'"
  shows "mget (ms_acmeOrders s) k = Some r \<Longrightarrow> \<exists>r'. mget (ms_acmeOrders s') k = Some r' \<and> orderCore r = orderCore r'"
    and "mget (ms_acmeAuthzs s) i = Some a \<Longrightarrow> \<exists>a'. mget (ms_acmeAuthzs s') i = Some a' \<and> authzCore a = authzCore a'"
    and "mget (ms_acmeChallenges s) j = Some c \<Longrightarrow> \<exists>c'. mget (ms_acmeChallenges s') j = Some c' \<and> challengeCore c = challengeCore c'"
proof -
  have t: "table_evolves orderStep (ms_acmeOrders s) (ms_acmeOrders s')" "table_evolves authzStep (ms_acmeAuthzs s) (ms_acmeAuthzs s')"
    "table_evolves challengeStep (ms_acmeChallenges s) (ms_acmeChallenges s')"
    using assms by (simp_all add: evolves_def)
  show "\<exists>r'. mget (ms_acmeOrders s') k = Some r' \<and> orderCore r = orderCore r'" if "mget (ms_acmeOrders s) k = Some r"
    by (rule table_evolves_get[OF t(1) that]) (metis orderStep_def rtranclp_preserves)
  show "\<exists>a'. mget (ms_acmeAuthzs s') i = Some a' \<and> authzCore a = authzCore a'" if "mget (ms_acmeAuthzs s) i = Some a"
    by (rule table_evolves_get[OF t(2) that]) (metis authzStep_def rtranclp_preserves)
  show "\<exists>c'. mget (ms_acmeChallenges s') j = Some c' \<and> challengeCore c = challengeCore c'" if "mget (ms_acmeChallenges s) j = Some c"
    by (rule table_evolves_get[OF t(3) that]) (metis challengeStep_def rtranclp_preserves)
qed

lemma hasAuthz_evolves:
  assumes "evolves s s'" "hasAuthz s r ty v"
  shows "hasAuthz s' r ty v"
proof -
  obtain i a where a: "mget (ms_acmeAuthzs s) i = Some a" "authz_OrderID a = r" "authz_IdentifierType a = ty" "authz_IdentifierValue a = v"
    using assms(2) by (auto simp: hasAuthz_def)
  obtain a' where "mget (ms_acmeAuthzs s') i = Some a'" "authzCore a = authzCore a'" using acme_rows_kept(2)[OF assms(1) a(1)] by blast
  then show ?thesis using a authz_core[of a a'] by (auto simp: hasAuthz_def)
qed

lemma hasChallenge_evolves:
  assumes "evolves s s'" "hasChallenge s i"
  shows "hasChallenge s' i"
proof -
  obtain k c where c: "mget (ms_acmeChallenges s) k = Some c" "chal_AuthorizationID c = i" "chal_Type c = ACMEChallengeHTTP01"
    using assms(2) by (auto simp: hasChallenge_def)
  obtain c' where "mget (ms_acmeChallenges s') k = Some c'" "challengeCore c = challengeCore c'" using acme_rows_kept(3)[OF assms(1) c(1)] by blast
  then show ?thesis using c challenge_core[of c c'] by (auto simp: hasChallenge_def)
qed

lemma orderCovered_evolves: "evolves s s' \<Longrightarrow> orderCovered s r \<Longrightarrow> orderCore r = orderCore r' \<Longrightarrow> orderCovered s' r'"
  unfolding orderCovered_def by (drule order_core) (auto intro: hasAuthz_evolves)

section \<open>Creating an order\<close>

lemma run_createAuthorization:
  "createACMEAuthorization svc r ty v ct now w =
     (Inr (), w\<lparr>w_ids := Suc (Suc (Suc (w_ids w))), w_repo := (w_repo w)\<lparr>
        ms_acmeAuthzs := mput (svc_idgen svc (w_ids w)) (newAuthorization (svc_idgen svc (w_ids w)) r ty v now) (ms_acmeAuthzs (w_repo w)),
        ms_acmeChallenges := mput (svc_idgen svc (Suc (w_ids w)))
          (newChallenge (svc_idgen svc (Suc (w_ids w))) (svc_idgen svc (w_ids w)) ct (svc_idgen svc (Suc (Suc (w_ids w)))) now)
          (ms_acmeChallenges (w_repo w))\<rparr>\<rparr>)"
  by (simp add: createACMEAuthorization_def prog_simps run_onRepo tx_agree MemoryStore_CreateACMEAuthorization_def
      MemoryStore_CreateACMEChallenge_def Let_def newAuthorization_def newChallenge_def)

lemma createAuthorization_advances [advances_rules]: "advances svc (createACMEAuthorization svc r ty v ct now)"
proof (rule advancesI)
  fix w u w'
  assume s: "sound svc w" and run: "createACMEAuthorization svc r ty v ct now w = (u, w')"
  from run show "advance svc w w'"
    by (clarsimp simp: run_createAuthorization) (intro advance_to[OF s] update_rules;
        simp add: sound_facts[OF s] table_evolves_fresh dom_mput newAuthorization_def newChallenge_def)
qed

lemma createAuthorizations_advances [advances_rules]: "advances svc (createACMEAuthorizations svc order now)"
  unfolding createACMEAuthorizations_def by (intro advances_rules)

definition orderBeingBuilt :: "Service \<Rightarrow> ACMEOrder gomap \<Rightarrow> world \<Rightarrow> bool" where
  "orderBeingBuilt svc orders w \<longleftrightarrow>
     sound svc w \<and> acme_validated (w_repo w) \<and> authzsChallenged (w_repo w) \<and> ms_acmeOrders (w_repo w) = orders"

lemma createAuthorization_ok:
  assumes b: "orderBeingBuilt svc orders w" and ord: "mget orders r = Some row" "ord_Status row = ACMEOrderPending"
    and run: "createACMEAuthorization svc r ty val ACMEChallengeHTTP01 now w = (u, w')"
  shows "orderBeingBuilt svc orders w'" "hasAuthz (w_repo w') r ty val" "advance svc w w'"
proof -
  let ?i = "svc_idgen svc (w_ids w)" let ?j = "svc_idgen svc (Suc (w_ids w))"
  have s: "sound svc w" and v: "acme_validated (w_repo w)" and c: "authzsChallenged (w_repo w)" and o: "ms_acmeOrders (w_repo w) = orders"
    using b by (simp_all add: orderBeingBuilt_def)
  show adv: "advance svc w w'" using advancesD[OF createAuthorization_advances s run] .
  have w': "w' = w\<lparr>w_ids := Suc (Suc (Suc (w_ids w))), w_repo := (w_repo w)\<lparr>
        ms_acmeAuthzs := mput ?i (newAuthorization ?i r ty val now) (ms_acmeAuthzs (w_repo w)),
        ms_acmeChallenges := mput ?j (newChallenge ?j ?i ACMEChallengeHTTP01 (svc_idgen svc (Suc (Suc (w_ids w)))) now)
          (ms_acmeChallenges (w_repo w))\<rparr>\<rparr>"
    using run by (simp add: run_createAuthorization)
  show has: "hasAuthz (w_repo w') r ty val"
    unfolding w' hasAuthz_def by (auto simp: newAuthorization_def intro!: exI[of _ ?i])
  have "hasChallenge (w_repo w') ?i"
    unfolding w' hasChallenge_def by (auto simp: newChallenge_def intro!: exI[of _ ?j])
  moreover have "hasChallenge (w_repo w') k" if "mget (ms_acmeAuthzs (w_repo w)) k = Some a" for k a
    using hasChallenge_evolves c that adv unfolding authzsChallenged_def advance_def by blast
  ultimately have "authzsChallenged (w_repo w')"
    unfolding authzsChallenged_def by (auto simp: w' mget_mput split: if_splits)
  moreover have "acme_validated (w_repo w')"
    unfolding acme_validated_def
  proof (intro conjI allI impI; elim conjE)
    fix k q i a
    assume "mget (ms_acmeOrders (w_repo w')) k = Some q" "ord_Status q \<noteq> ACMEOrderPending"
      "mget (ms_acmeAuthzs (w_repo w')) i = Some a" "authz_OrderID a = k"
    then show "authz_Status a = ACMEAuthorizationValid"
      using ord acme_validatedD(1)[OF v, of k q i a] by (auto simp: w' o newAuthorization_def mget_mput split: if_splits)
  next
    fix i a k q
    assume "mget (ms_acmeAuthzs (w_repo w')) i = Some a" "authz_Status a = ACMEAuthorizationValid"
      "mget (ms_acmeChallenges (w_repo w')) k = Some q" "chal_AuthorizationID q = i"
    then show "chal_Status q = ACMEChallengeValid"
      using acme_validatedD(2)[OF v, of i a k q] by (auto simp: w' newAuthorization_def newChallenge_def mget_mput split: if_splits)
  qed
  ultimately show "orderBeingBuilt svc orders w'" using adv o by (simp add: orderBeingBuilt_def advance_def w')
qed

lemma authorizationLoop_ok:
  assumes "orderBeingBuilt svc orders w" "mget orders r = Some row" "ord_Status row = ACMEOrderPending"
    and "forM names (\<lambda>n. createACMEAuthorization svc r ty n ACMEChallengeHTTP01 now) w = (u, w')"
  shows "orderBeingBuilt svc orders w' \<and> evolves (w_repo w) (w_repo w') \<and> (\<forall>n \<in> set names. hasAuthz (w_repo w') r ty n)"
  using assms(1,4)
proof (induction names arbitrary: w)
  case (Cons n names)
  obtain w1 where r1: "createACMEAuthorization svc r ty n ACMEChallengeHTTP01 now w = (Inr (), w1)" by (simp add: run_createAuthorization)
  then have rest: "forM names (\<lambda>n. createACMEAuthorization svc r ty n ACMEChallengeHTTP01 now) w1 = (u, w')"
    using Cons.prems(2) by (simp add: prog_simps)
  note step = createAuthorization_ok[OF Cons.prems(1) assms(2,3) r1]
  note IH = Cons.IH[OF step(1) rest]
  have "evolves (w_repo w) (w_repo w1)" using step(3) by (simp add: advance_def)
  then show ?case using IH step(2) hasAuthz_evolves evolves_trans by auto
qed (simp add: prog_simps)

lemma createAuthorizations_ok:
  assumes "orderBeingBuilt svc orders w" "mget orders (ord_ID order) = Some order" "ord_Status order = ACMEOrderPending"
    and "createACMEAuthorizations svc order now w = (u, w')"
  shows "orderBeingBuilt svc orders w'" "evolves (w_repo w) (w_repo w')" "orderCovered (w_repo w') order"
proof -
  let ?dns = "forM (ord_RequestedDNSNames order) (\<lambda>n. createACMEAuthorization svc (ord_ID order) ''dns'' n ACMEChallengeHTTP01 now)"
  let ?ips = "forM (ord_RequestedIPAddresses order) (\<lambda>n. createACMEAuthorization svc (ord_ID order) ''ip'' n ACMEChallengeHTTP01 now)"
  obtain q w1 where d: "?dns w = (q, w1)" by (cases "?dns w")
  have "\<exists>v. fst (forM ns (\<lambda>n. createACMEAuthorization svc (ord_ID order) ty n ACMEChallengeHTTP01 now) w0) = Inr v" for ns ty w0
    by (induction ns arbitrary: w0) (simp_all add: prog_simps run_createAuthorization)
  then obtain v where "q = Inr v" using d by (metis fst_conv)
  then have i: "?ips w1 = (u, w')" using assms(4) d by (simp add: createACMEAuthorizations_def prog_simps)
  note first = authorizationLoop_ok[OF assms(1-3) d]
  note second = authorizationLoop_ok[OF conjunct1[OF first] assms(2,3) i]
  show "orderBeingBuilt svc orders w'" "evolves (w_repo w) (w_repo w')" using first second evolves_trans by blast+
  show "orderCovered (w_repo w') order" using first second hasAuthz_evolves by (auto simp: orderCovered_def)
qed

lemma newACMEOrder_fields [simp]:
  "ord_ID (newACMEOrder i req t) = i" "ord_Status (newACMEOrder i req t) = ACMEOrderPending"
  "ord_RequestedDNSNames (newACMEOrder i req t) = cao_RequestedDNSNames req" "ord_RequestedIPAddresses (newACMEOrder i req t) = cao_RequestedIPAddresses req"
  by (simp_all add: newACMEOrder_def copySlice_def)

lemma createOrder_effect:
  assumes "Service_CreateACMEOrder svc ctx actor req w = (Inr order, w')"
  obtains w0 w1 w2 es now where "orderCAACheck svc req (w\<lparr>w_clock := Suc (w_clock w)\<rparr>) = (Inr (), w0)"
    "order = newACMEOrder (svc_idgen svc (w_ids w0)) req now"
    "w1 = w0\<lparr>w_ids := Suc (w_ids w0), w_repo := (w_repo w0)\<lparr>ms_acmeOrders := mput (ord_ID order) order (ms_acmeOrders (w_repo w0))\<rparr>\<rparr>"
    "createACMEAuthorizations svc order now w1 = (Inr (), w2)"
    "w_repo w' = (w_repo w2)\<lparr>ms_auditEvents := es\<rparr>" "w_ids w' = Suc (w_ids w2)"
    "map_option acc_Status (mget (ms_acmeAccounts (w_repo w0)) (cao_AccountID req)) = Some ACMEAccountValid"
    "\<exists>identity. mget (ms_identities (w_repo w0)) (cao_IdentityID req) = Some identity \<and>
       validateEnrollmentIdentityPolicy (orderPolicyRequest req) identity = Inr ()"
proof -
  note result = that
  have thesis if hyp: "Service_CreateACMEOrder svc ctx actor req w = (Inr order, w')"
    using hyp by (clarsimp simp: Service_CreateACMEOrder_def inr_simps Let_def) (rule result, assumption, simp_all)
  then show thesis using assms by blast
qed

lemma acme_ok_ids [simp]: "acme_ok (s\<lparr>ms_auditEvents := es\<rparr>) = acme_ok s"
  by (simp add: acme_ok_def acme_validated_def authzsChallenged_def orderCovered_def hasAuthz_def hasChallenge_def)

lemma createOrder_ok:
  assumes s: "sound svc w" and ok: "acme_ok (w_repo w)" and run: "Service_CreateACMEOrder svc ctx actor req w = (Inr order, w')"
  shows "advance svc w w'" "acme_ok (w_repo w')" "mget (ms_acmeOrders (w_repo w')) (ord_ID order) = Some order"
proof -
  from run have "advance svc w w' \<and> acme_ok (w_repo w') \<and> mget (ms_acmeOrders (w_repo w')) (ord_ID order) = Some order"
  proof (rule createOrder_effect, goal_cases)
    case (1 w0 w1 w2 es now)
    have q: "w_repo w0 = w_repo w" "w_ids w \<le> w_ids w0"
      using orderCAACheck_quiet[of svc req] 1(1) unfolding quiet_def grows_def
      by (metis snd_conv select_convs(1) world.select_convs world.surjective world.update_convs(2))+
    have s0: "sound svc w0" using advance_same_repo[OF s q] by (simp add: advance_def)
    have new: "mget (ms_acmeOrders (w_repo w0)) (svc_idgen svc (w_ids w0)) = None" using sound_new(14)[OF s0 order_refl] by simp
    have a1: "advance svc w0 w1"
      unfolding 1(2,3) by (intro advance_to[OF s0] update_rules; simp add: sound_facts[OF s0] table_evolves_fresh dom_mput)
    have ok0: "acme_validated (w_repo w0)" "authzsChallenged (w_repo w0)" using ok q by (simp_all add: acme_ok_def)
    have b1: "orderBeingBuilt svc (ms_acmeOrders (w_repo w1)) w1"
      using a1 ok0 by (auto simp: orderBeingBuilt_def advance_def acme_validated_def authzsChallenged_def hasChallenge_def 1(2,3) mget_mput)
    have row: "mget (ms_acmeOrders (w_repo w1)) (ord_ID order) = Some order" by (simp add: 1(3))
    note b2 = createAuthorizations_ok[OF b1 row _ 1(4)]
    have st: "ord_Status order = ACMEOrderPending" by (simp add: 1(2))
    have a2: "advance svc w1 w2" using advancesD[OF createAuthorizations_advances _ 1(4)] a1 by (simp add: advance_def)
    have s2: "sound svc w2" using a2 by (simp add: advance_def)
    have "advance svc w2 w'"
      by (rule advance_by_updates[OF s2 1(5) 1(6)]; (intro update_rules)?; simp add: sound_facts[OF s2])
    then have adv: "advance svc w w'" using advance_trans a1 a2 advance_same_repo[OF s q] by blast
    have o2: "ms_acmeOrders (w_repo w2) = mput (ord_ID order) order (ms_acmeOrders (w_repo w0))"
      using b2(1)[OF st] by (simp add: orderBeingBuilt_def 1(3))
    have "orderCovered (w_repo w2) r" if "mget (ms_acmeOrders (w_repo w2)) k = Some r" for k r
    proof (cases "k = ord_ID order")
      case True
      then show ?thesis using that b2(3)[OF st] by (simp add: o2)
    next
      case False
      then have "mget (ms_acmeOrders (w_repo w)) k = Some r" using that q by (simp add: o2 mget_mput)
      then have "orderCovered (w_repo w) r" using ok by (simp add: acme_ok_def)
      moreover have "evolves (w_repo w) (w_repo w2)" using a1 a2 q evolves_trans by (auto simp: advance_def)
      ultimately show ?thesis using orderCovered_evolves by blast
    qed
    then have "acme_ok (w_repo w2)" using b2(1)[OF st] by (simp add: acme_ok_def orderBeingBuilt_def)
    then show ?case using adv by (simp add: 1(5) o2)
  qed
  then show "advance svc w w'" "acme_ok (w_repo w')" "mget (ms_acmeOrders (w_repo w')) (ord_ID order) = Some order" by simp_all
qed

section \<open>Challenges, authorizations and orders\<close>

lemma acme_update_Inr:
  "updateACMEOrderIfStatus m r c = Inr m' \<longleftrightarrow> (\<exists>v0. mget m (ord_ID r) = Some v0 \<and> ord_Status v0 = c) \<and> m' = mput (ord_ID r) r m"
  "updateACMEAuthorizationIfStatus n a d = Inr n' \<longleftrightarrow> (\<exists>v0. mget n (authz_ID a) = Some v0 \<and> authz_Status v0 = d) \<and> n' = mput (authz_ID a) a n"
  "updateACMEChallengeIfStatus p q e = Inr p' \<longleftrightarrow> (\<exists>v0. mget p (chal_ID q) = Some v0 \<and> chal_Status v0 = e) \<and> p' = mput (chal_ID q) q p"
  by (auto simp: updateACMEOrderIfStatus_def updateACMEAuthorizationIfStatus_def updateACMEChallengeIfStatus_def split: option.splits if_splits)

lemma acme_lists:
  "c \<in> set (listACMEChallengesByAuthorization m i) \<longleftrightarrow> (\<exists>k. mget m k = Some c \<and> chal_AuthorizationID c = i)"
  "a \<in> set (listACMEAuthorizationsByOrder n r) \<longleftrightarrow> (\<exists>k. mget n k = Some a \<and> authz_OrderID a = r)"
  by (auto simp: listACMEChallengesByAuthorization_def listACMEAuthorizationsByOrder_def in_mvals_iff)

lemma acme_ok_steps:
  assumes ok: "acme_ok s" and ev: "evolves s s'"
    and dom: "dom (mget (ms_acmeOrders s')) = dom (mget (ms_acmeOrders s))" "dom (mget (ms_acmeAuthzs s')) = dom (mget (ms_acmeAuthzs s))"
    and v: "acme_validated s'"
  shows "acme_ok s'"
proof -
  have "orderCovered s' r'" if "mget (ms_acmeOrders s') k = Some r'" for k r'
  proof -
    have "k \<in> dom (mget (ms_acmeOrders s))" using that unfolding dom(1)[symmetric] by (rule domI)
    then obtain r where r: "mget (ms_acmeOrders s) k = Some r" unfolding dom_def by blast
    then obtain r2 where "mget (ms_acmeOrders s') k = Some r2" "orderCore r = orderCore r2" using acme_rows_kept(1)[OF ev] by blast
    then have "orderCore r = orderCore r'" using that by simp
    moreover have "orderCovered s r" using ok r by (simp add: acme_ok_def)
    ultimately show ?thesis by (metis orderCovered_evolves[OF ev])
  qed
  moreover have "hasChallenge s' i" if "mget (ms_acmeAuthzs s') i = Some a'" for i a'
  proof -
    have "i \<in> dom (mget (ms_acmeAuthzs s))" using that unfolding dom(2)[symmetric] by (rule domI)
    then have "hasChallenge s i" using ok by (auto simp: acme_ok_def authzsChallenged_def)
    then show ?thesis by (rule hasChallenge_evolves[OF ev])
  qed
  then have "authzsChallenged s'" by (auto simp: authzsChallenged_def)
  ultimately show ?thesis using v by (simp add: acme_ok_def)
qed

text \<open>One row of each table replaced.\<close>

lemma order_put_ok:
  assumes s: "sound svc w" and ok: "acme_ok (w_repo w)" and get: "mget (ms_acmeOrders (w_repo w)) k = Some r" and step: "orderStep r r'"
    and ready: "ord_Status r' = ACMEOrderPending \<or>
      (\<forall>i a. mget (ms_acmeAuthzs (w_repo w)) i = Some a \<and> authz_OrderID a = k \<longrightarrow> authz_Status a = ACMEAuthorizationValid)"
    and w': "w_repo w' = (w_repo w)\<lparr>ms_acmeOrders := mput k r' (ms_acmeOrders (w_repo w))\<rparr>" "w_ids w' = w_ids w"
  shows "advance svc w w'" "acme_ok (w_repo w')"
proof -
  have core: "orderCore r = orderCore r'" using step by (simp add: orderStep_def)
  have id: "ord_ID r = k" "ord_ID r' = ord_ID r" using keyedD[OF sound_keyed(14)[OF s] get] order_core[OF core] by simp_all
  note put = put_acmeOrders[OF s get step id(2), unfolded id(1)]
  show adv: "advance svc w w'" by (intro advance_by_updates[OF s w'] update_rules) (simp_all add: put sound_facts[OF s])
  have v: "acme_validated (w_repo w)" using ok by (simp add: acme_ok_def)
  have "acme_validated (w_repo w')"
    unfolding acme_validated_def w'(1) using ready acme_validatedD[OF v] by (auto simp: mget_mput split: if_splits)
  then show "acme_ok (w_repo w')"
    using acme_ok_steps[OF ok] adv put(3) by (simp add: advance_def w'(1))
qed

lemma authz_put_ok:
  assumes s: "sound svc w" and ok: "acme_ok (w_repo w)" and get: "mget (ms_acmeAuthzs (w_repo w)) k = Some a" and step: "authzStep a a'"
    and valid: "authz_Status a' = ACMEAuthorizationValid"
      "\<And>i c. mget (ms_acmeChallenges (w_repo w)) i = Some c \<Longrightarrow> chal_AuthorizationID c = k \<Longrightarrow> chal_Status c = ACMEChallengeValid"
    and w': "w_repo w' = (w_repo w)\<lparr>ms_acmeAuthzs := mput k a' (ms_acmeAuthzs (w_repo w))\<rparr>" "w_ids w' = w_ids w"
  shows "advance svc w w'" "acme_ok (w_repo w')"
proof -
  have core: "authzCore a = authzCore a'" using step by (simp add: authzStep_def)
  have id: "authz_ID a = k" "authz_ID a' = authz_ID a" "authz_OrderID a' = authz_OrderID a"
    using keyedD[OF sound_keyed(15)[OF s] get] authz_core[OF core] by simp_all
  note put = put_acmeAuthzs[OF s get step id(2), unfolded id(1)]
  show adv: "advance svc w w'" by (intro advance_by_updates[OF s w'] update_rules) (simp_all add: put sound_facts[OF s])
  have v: "acme_validated (w_repo w)" using ok by (simp add: acme_ok_def)
  have "acme_validated (w_repo w')"
    unfolding acme_validated_def w'(1) using valid acme_validatedD[OF v] by (auto simp: mget_mput split: if_splits)
  then show "acme_ok (w_repo w')"
    using acme_ok_steps[OF ok] adv put(3) by (simp add: advance_def w'(1))
qed

lemma challenge_put_ok:
  assumes s: "sound svc w" and ok: "acme_ok (w_repo w)" and get: "mget (ms_acmeChallenges (w_repo w)) k = Some c" and step: "challengeStep c c'"
    and open_: "chal_Status c' = ACMEChallengeValid \<or>
      (\<exists>a. mget (ms_acmeAuthzs (w_repo w)) (chal_AuthorizationID c) = Some a \<and> authz_Status a \<noteq> ACMEAuthorizationValid)"
    and w': "w_repo w' = (w_repo w)\<lparr>ms_acmeChallenges := mput k c' (ms_acmeChallenges (w_repo w))\<rparr>" "w_ids w' = w_ids w"
  shows "advance svc w w'" "acme_ok (w_repo w')"
proof -
  have core: "challengeCore c = challengeCore c'" using step by (simp add: challengeStep_def)
  have id: "chal_ID c = k" "chal_ID c' = chal_ID c" "chal_AuthorizationID c' = chal_AuthorizationID c"
    using keyedD[OF sound_keyed(16)[OF s] get] challenge_core[OF core] by simp_all
  note put = put_acmeChallenges[OF s get step id(2), unfolded id(1)]
  show adv: "advance svc w w'" by (intro advance_by_updates[OF s w'] update_rules) (simp_all add: put sound_facts[OF s])
  have v: "acme_validated (w_repo w)" using ok by (simp add: acme_ok_def)
  have "acme_validated (w_repo w')"
    unfolding acme_validated_def w'(1) using open_ id(3) acme_validatedD[OF v] by (auto simp: mget_mput split: if_splits)
  then show "acme_ok (w_repo w')"
    using acme_ok_steps[OF ok] adv put(3) by (simp add: advance_def w'(1))
qed

text \<open>Promotion: an order becomes ready when its authorizations are all valid, an authorization valid when its challenges are.\<close>

lemma promoteOrder_ok:
  assumes s: "sound svc w" and ok: "acme_ok (w_repo w)" and get: "mget (ms_acmeOrders (w_repo w)) k = Some r"
    and run: "promoteACMEOrderIfReady r now w = (u, w')"
  shows "advance svc w w' \<and> acme_ok (w_repo w')"
proof -
  have id: "ord_ID r = k" using keyedD[OF sound_keyed(14)[OF s] get] .
  let ?authzs = "listACMEAuthorizationsByOrder (ms_acmeAuthzs (w_repo w)) k"
  let ?w1 = "w\<lparr>w_repo := (w_repo w)\<lparr>ms_acmeOrders := mput k (r\<lparr>ord_Status := ACMEOrderReady, ord_UpdatedAt := now\<rparr>) (ms_acmeOrders (w_repo w))\<rparr>\<rparr>"
  have lst: "onRepo (memoryTx_ListACMEAuthorizationsByOrder k) w = (Inr ?authzs, w)"
    by (simp add: run_onRepo tx_agree MemoryStore_ListACMEAuthorizationsByOrder_def)
  show ?thesis
  proof (cases "ord_Status r = ACMEOrderPending \<and> (\<forall>a \<in> set ?authzs. authz_Status a = ACMEAuthorizationValid)")
    case False
    then have "w' = w" using run by (auto simp: promoteACMEOrderIfReady_def id run_bindM lst split: if_splits)
    then show ?thesis using s ok by (simp add: advance_refl)
  next
    case True
    have "onRepo (memoryTx_UpdateACMEOrderIfStatus (r\<lparr>ord_Status := ACMEOrderReady, ord_UpdatedAt := now\<rparr>) ACMEOrderPending) w = (Inr (), ?w1)"
      using get True id by (simp add: run_onRepo tx_agree MemoryStore_UpdateACMEOrderIfStatus_def updateACMEOrderIfStatus_def)
    then have w': "w' = ?w1" using run True by (simp add: promoteACMEOrderIfReady_def id run_bindM lst)
    have step: "orderStep r (r\<lparr>ord_Status := ACMEOrderReady, ord_UpdatedAt := now\<rparr>)" using True by (simp add: step_defs)
    have "\<forall>i a. mget (ms_acmeAuthzs (w_repo w)) i = Some a \<and> authz_OrderID a = k \<longrightarrow> authz_Status a = ACMEAuthorizationValid"
      using True by (auto simp: acme_lists)
    note put = order_put_ok[OF s ok get step disjI2[OF this]]
    show ?thesis unfolding w' by (intro conjI; rule put; simp)
  qed
qed

lemma validatedAuthorization_fields:
  "authz_ID (validatedAuthorization a now) = authz_ID a" "authz_Status (validatedAuthorization a now) = ACMEAuthorizationValid"
  "authz_Status a = ACMEAuthorizationPending \<Longrightarrow> authzStep a (validatedAuthorization a now)"
  by (simp_all add: validatedAuthorization_def step_defs)

lemma promoteAuthz_ok:
  assumes s: "sound svc w" and ok: "acme_ok (w_repo w)" and get: "mget (ms_acmeAuthzs (w_repo w)) k = Some a"
    and pending: "authz_Status a = ACMEAuthorizationPending" and run: "promoteACMEAuthorizationIfReady a now w = (u, w')"
  shows "advance svc w w' \<and> acme_ok (w_repo w')"
proof -
  have id: "authz_ID a = k" using keyedD[OF sound_keyed(15)[OF s] get] .
  let ?chals = "listACMEChallengesByAuthorization (ms_acmeChallenges (w_repo w)) k"
  let ?w1 = "w\<lparr>w_repo := (w_repo w)\<lparr>ms_acmeAuthzs := mput k (validatedAuthorization a now) (ms_acmeAuthzs (w_repo w))\<rparr>\<rparr>"
  show ?thesis
  proof (cases "\<forall>c \<in> set ?chals. chal_Status c = ACMEChallengeValid")
    case False
    then have "w' = w" using run id
      by (auto simp: promoteACMEAuthorizationIfReady_def prog_simps run_onRepo tx_agree MemoryStore_ListACMEChallengesByAuthorization_def)
    then show ?thesis using s ok by (simp add: advance_refl)
  next
    case True
    have valid: "chal_Status c = ACMEChallengeValid" if "mget (ms_acmeChallenges (w_repo w)) i = Some c" "chal_AuthorizationID c = k" for i c
      using True that by (auto simp: acme_lists)
    have put: "advance svc w ?w1" "acme_ok (w_repo ?w1)"
      by (rule authz_put_ok[OF s ok get validatedAuthorization_fields(3)[OF pending] validatedAuthorization_fields(2) valid]; simp)+
    have upd: "onRepo (memoryTx_UpdateACMEAuthorizationIfStatus (validatedAuthorization a now) ACMEAuthorizationPending) w = (Inr (), ?w1)"
      using get pending id by (simp add: run_onRepo tx_agree MemoryStore_UpdateACMEAuthorizationIfStatus_def updateACMEAuthorizationIfStatus_def
          validatedAuthorization_fields)
    have lst: "onRepo (memoryTx_ListACMEChallengesByAuthorization k) w = (Inr ?chals, w)"
      by (simp add: run_onRepo tx_agree MemoryStore_ListACMEChallengesByAuthorization_def)
    have rest: "bindM (onRepo (memoryTx_GetACMEOrder (authz_OrderID a))) (\<lambda>r. promoteACMEOrderIfReady r now) ?w1 = (u, w')"
      using run True unfolding promoteACMEAuthorizationIfReady_def id run_bindM[of "onRepo (memoryTx_ListACMEChallengesByAuthorization k)"] lst
      by (simp add: run_thenM upd)
    show ?thesis
    proof (cases "mget (ms_acmeOrders (w_repo ?w1)) (authz_OrderID a)")
      case None
      then have "w' = ?w1" using rest by (simp add: prog_simps run_onRepo tx_agree MemoryStore_GetACMEOrder_def)
      then show ?thesis using put by simp
    next
      case (Some r)
      then have "promoteACMEOrderIfReady r now ?w1 = (u, w')"
        using rest by (simp add: run_bindM run_onRepo tx_agree MemoryStore_GetACMEOrder_def)
      then have "advance svc ?w1 w' \<and> acme_ok (w_repo w')"
        by (rule promoteOrder_ok[OF advance_sound[OF put(1)] put(2) Some])
      then show ?thesis using advance_trans[OF put(1)] by blast
    qed
  qed
qed

lemma audited_ok:
  assumes "sound svc w" "acme_ok (w_repo w)"
  shows "advance svc w (w\<lparr>w_ids := Suc (w_ids w), w_repo := (w_repo w)\<lparr>ms_auditEvents := es\<rparr>\<rparr>)"
    and "acme_ok (w_repo (w\<lparr>w_ids := Suc (w_ids w), w_repo := (w_repo w)\<lparr>ms_auditEvents := es\<rparr>\<rparr>))"
  by (intro advance_to[OF assms(1)] update_rules; simp add: sound_facts[OF assms(1)]) (simp add: assms(2))

definition acmeStep :: "Service \<Rightarrow> world \<Rightarrow> world \<Rightarrow> bool" where
  "acmeStep svc w w' \<longleftrightarrow> sound svc w \<and> acme_ok (w_repo w) \<longrightarrow> advance svc w w' \<and> acme_ok (w_repo w')"

lemma acmeStep_trans: "acmeStep svc w w' \<Longrightarrow> acmeStep svc w' w'' \<Longrightarrow> acmeStep svc w w''"
  unfolding acmeStep_def using advance_trans advance_sound by blast

lemma acmeStep_same: "w_repo w' = w_repo w \<Longrightarrow> w_ids w \<le> w_ids w' \<Longrightarrow> acmeStep svc w w'"
  by (simp add: acmeStep_def advance_same_repo)

lemma acmeStep_audit: "acmeStep svc w (w\<lparr>w_ids := Suc (w_ids w), w_repo := (w_repo w)\<lparr>ms_auditEvents := es\<rparr>\<rparr>)"
  using audited_ok by (simp add: acmeStep_def)

lemma acmeStep_clean: "clean m \<Longrightarrow> (\<And>x. m w = (Inr x, w') \<Longrightarrow> acmeStep svc w w') \<Longrightarrow> m w = (r, w') \<Longrightarrow> acmeStep svc w w'"
  by (cases r) (auto dest: cleanD intro: acmeStep_same)

definition completedChallenge :: "ACMEChallenge \<Rightarrow> time \<Rightarrow> ACMEChallenge" where
  "completedChallenge c now = c\<lparr>chal_Status := ACMEChallengeValid, chal_ValidatedAt := now, chal_UpdatedAt := now\<rparr>"

lemma challengeStep_open:
  "openChallenge c \<Longrightarrow> challengeStep c (completedChallenge c now)"
  "openChallenge c \<Longrightarrow> challengeStep c (c\<lparr>chal_Status := ACMEChallengeProcessing, chal_UpdatedAt := now\<rparr>)"
  by (auto simp: openChallenge_def completedChallenge_def step_defs)

lemma complete_effect:
  assumes "Service_CompleteACMEChallenge svc ctx actor challengeID w = (Inr c, w')"
  obtains c0 a w2 es where "mget (ms_acmeChallenges (w_repo w)) challengeID = Some c0" "openChallenge c0"
    "mget (ms_acmeAuthzs (w_repo w)) (chal_AuthorizationID c0) = Some a" "authz_Status a = ACMEAuthorizationPending"
    "c = completedChallenge c0 (svc_clock svc (w_clock w))"
    "promoteACMEAuthorizationIfReady a (svc_clock svc (w_clock w)) (w\<lparr>w_clock := Suc (w_clock w), w_repo := (w_repo w)\<lparr>
       ms_acmeChallenges := mput (chal_ID c0) c (ms_acmeChallenges (w_repo w))\<rparr>\<rparr>) = (Inr (), w2)"
    "w' = w2\<lparr>w_ids := Suc (w_ids w2), w_repo := (w_repo w2)\<lparr>ms_auditEvents := es\<rparr>\<rparr>"
proof -
  note result = that
  have thesis if hyp: "Service_CompleteACMEChallenge svc ctx actor challengeID w = (Inr c, w')"
    using hyp by (clarsimp simp: Service_CompleteACMEChallenge_def inr_simps acme_update_Inr Let_def)
      (rule result, assumption+, simp_all add: completedChallenge_def)
  then show thesis using assms by blast
qed

lemma CompleteACMEChallenge_ok:
  assumes "Service_CompleteACMEChallenge svc ctx actor challengeID w = (r, w')"
  shows "acmeStep svc w w'"
proof (rule acmeStep_clean[OF acme_clean(6) _ assms])
  fix c assume run: "Service_CompleteACMEChallenge svc ctx actor challengeID w = (Inr c, w')"
  from run show "acmeStep svc w w'"
  proof (rule complete_effect, goal_cases)
    case (1 c0 a w2 es)
    let ?w1 = "w\<lparr>w_clock := Suc (w_clock w), w_repo := (w_repo w)\<lparr>ms_acmeChallenges := mput (chal_ID c0) c (ms_acmeChallenges (w_repo w))\<rparr>\<rparr>"
    have "acmeStep svc w w2"
      unfolding acmeStep_def
    proof (intro impI, elim conjE)
      assume s: "sound svc w" and ok: "acme_ok (w_repo w)"
      have id: "chal_ID c0 = challengeID" using keyedD[OF sound_keyed(16)[OF s] 1(1)] .
      have st: "chal_Status c = ACMEChallengeValid" by (simp add: 1(5) completedChallenge_def)
      note put = challenge_put_ok[OF s ok 1(1) challengeStep_open(1)[OF 1(2), of "svc_clock svc (w_clock w)", folded 1(5)] disjI1[OF st], of ?w1]
      have p: "advance svc w ?w1" "acme_ok (w_repo ?w1)" by (rule put; simp add: id)+
      have get: "mget (ms_acmeAuthzs (w_repo ?w1)) (chal_AuthorizationID c0) = Some a" using 1(3) by simp
      from promoteAuthz_ok[OF advance_sound[OF p(1)] p(2) get 1(4) 1(6)] show "advance svc w w2 \<and> acme_ok (w_repo w2)"
        using advance_trans[OF p(1)] by blast
    qed
    then show ?case unfolding 1(7) by (rule acmeStep_trans[OF _ acmeStep_audit])
  qed
qed

lemma markProcessing_ok:
  assumes "markACMEChallengeProcessing svc ctx actor challengeID w = (r, w')"
  shows "acmeStep svc w w'"
proof (rule acmeStep_clean[OF acme_clean(5) _ assms])
  fix c assume run: "markACMEChallengeProcessing svc ctx actor challengeID w = (Inr c, w')"
  from run show "acmeStep svc w w'"
  proof (clarsimp simp: markACMEChallengeProcessing_def inr_simps acme_update_Inr Let_def, goal_cases)
    case (1 c0 a v0)
    let ?c = "c0\<lparr>chal_Status := ACMEChallengeProcessing, chal_UpdatedAt := svc_clock svc (w_clock w)\<rparr>"
    let ?w1 = "w\<lparr>w_clock := Suc (w_clock w), w_repo := (w_repo w)\<lparr>ms_acmeChallenges := mput (chal_ID c0) ?c (ms_acmeChallenges (w_repo w))\<rparr>\<rparr>"
    have "acmeStep svc w ?w1"
      unfolding acmeStep_def
    proof (intro impI, elim conjE)
      assume s: "sound svc w" and ok: "acme_ok (w_repo w)"
      have id: "chal_ID c0 = challengeID" using keyedD[OF sound_keyed(16)[OF s] 1(1)] .
      have "\<exists>a. mget (ms_acmeAuthzs (w_repo w)) (chal_AuthorizationID c0) = Some a \<and> authz_Status a \<noteq> ACMEAuthorizationValid"
        using 1(3,4) by simp
      note put = challenge_put_ok[OF s ok 1(1) challengeStep_open(2)[OF 1(2)] disjI2[OF this], of ?w1]
      show "advance svc w ?w1 \<and> acme_ok (w_repo ?w1)" by (intro conjI; rule put; simp add: id)
    qed
    from acmeStep_trans[OF this acmeStep_audit] show ?case by simp
  qed
qed

text \<open>\<open>acmes m\<close>: every run of \<open>m\<close> is such a step.\<close>

definition acmes :: "Service \<Rightarrow> 'a svc \<Rightarrow> bool" where
  "acmes svc m \<longleftrightarrow> (\<forall>w. acmeStep svc w (snd (m w)))"

lemma acmesI: "(\<And>w r w'. m w = (r, w') \<Longrightarrow> acmeStep svc w w') \<Longrightarrow> acmes svc m"
  unfolding acmes_def by (metis prod.collapse)

lemma acmesD: "acmes svc m \<Longrightarrow> m w = (r, w') \<Longrightarrow> acmeStep svc w w'"
  unfolding acmes_def by (metis snd_conv)

named_theorems acme_rules \<open>syntax-directed rules for \<open>acmes\<close>\<close>

lemma acmes_bind [acme_rules]:
  assumes "acmes svc m" "\<And>x. acmes svc (f x)"
  shows "acmes svc (bindM m f)"
proof (rule acmesI)
  fix w r w'
  assume run: "bindM m f w = (r, w')"
  obtain q w1 where m: "m w = (q, w1)" by (cases "m w")
  then have first: "acmeStep svc w w1" by (rule acmesD[OF assms(1)])
  show "acmeStep svc w w'"
  proof (cases q)
    case (Inl e)
    then show ?thesis using run m first by (simp add: run_bindM)
  next
    case (Inr x)
    then have "f x w1 = (r, w')" using run m by (simp add: run_bindM)
    then show ?thesis by (rule acmeStep_trans[OF first acmesD[OF assms(2)]])
  qed
qed

lemma acmes_then [acme_rules]: "acmes svc m \<Longrightarrow> acmes svc k \<Longrightarrow> acmes svc (thenM m k)"
  unfolding thenM_def by (rule acmes_bind)

lemma acmes_quiet: "quiet m \<Longrightarrow> acmes svc m"
  unfolding acmes_def quiet_def grows_def by (auto intro: acmeStep_same)

lemma acmes_simple [acme_rules]:
  "acmes svc (returnM x)" "acmes svc (throwM e)" "acmes svc (liftE q)" "acmes svc (Now svc')" "acmes svc (NewID svc')" "acmes svc (callExt g)"
  by (rule acmes_quiet, intro clean_rules)+

lemma acmes_structure [acme_rules]:
  "acmes svc k \<Longrightarrow> acmes svc (failIf b e k)" "acmes svc m \<Longrightarrow> acmes svc m' \<Longrightarrow> acmes svc (if b then m else m')"
  "(\<And>e. acmes svc (f e)) \<Longrightarrow> (\<And>x. acmes svc (h x)) \<Longrightarrow> acmes svc (case q' of Inl e \<Rightarrow> f e | Inr x \<Rightarrow> h x)"
  by (simp_all add: failIf_def acmes_simple split: sum.split)

lemma acmes_attempt [acme_rules]: "acmes svc k \<Longrightarrow> acmes svc (attemptM k)"
  by (rule acmesI) (auto simp: run_attemptM split: prod.splits dest: acmesD)

lemma acmes_forM [acme_rules]: "(\<And>x. acmes svc (f x)) \<Longrightarrow> acmes svc (forM xs f)"
  by (induction xs) (auto intro: acme_rules)

lemmas acmes_reads [acme_rules] = quiet_reads[THEN acmes_quiet]

lemma invalidateOrder_ok:
  assumes "mget (ms_acmeOrders (w_repo w)) k = Some r0" and "invalidateACMEOrder svc ctx actor r0 w = (q, w')"
  shows "acmeStep svc w w'"
proof (rule acmeStep_clean[OF acme_clean(7) _ assms(2)])
  fix u assume "invalidateACMEOrder svc ctx actor r0 w = (Inr u, w')"
  then show "acmeStep svc w w'"
  proof (clarsimp simp: invalidateACMEOrder_def inr_simps acme_update_Inr Let_def, goal_cases)
    case (1 v0)
    let ?r = "r0\<lparr>ord_Status := ACMEOrderInvalid, ord_UpdatedAt := svc_clock svc (w_clock w)\<rparr>"
    let ?w1 = "w\<lparr>w_clock := Suc (w_clock w), w_repo := (w_repo w)\<lparr>ms_acmeOrders := mput (ord_ID r0) ?r (ms_acmeOrders (w_repo w))\<rparr>\<rparr>"
    have "acmeStep svc w ?w1"
      unfolding acmeStep_def
    proof (intro impI, elim conjE)
      assume s: "sound svc w" and ok: "acme_ok (w_repo w)"
      have id: "ord_ID r0 = k" using keyedD[OF sound_keyed(14)[OF s] assms(1)] .
      then have ready: "ord_Status r0 = ACMEOrderReady" using 1(1-3) assms(1) by simp
      then have step: "orderStep r0 ?r" by (simp add: step_defs)
      have "\<forall>i a. mget (ms_acmeAuthzs (w_repo w)) i = Some a \<and> authz_OrderID a = k \<longrightarrow> authz_Status a = ACMEAuthorizationValid"
        using ok ready assms(1) by (auto simp: acme_ok_def dest: acme_validatedD(1))
      note put = order_put_ok[OF s ok assms(1) step disjI2[OF this], of ?w1]
      show "advance svc w ?w1 \<and> acme_ok (w_repo ?w1)" by (intro conjI; rule put; simp add: id)
    qed
    from acmeStep_trans[OF this acmeStep_audit] show ?case by simp
  qed
qed

lemma challenges_acmes [acme_rules]:
  "acmes svc (Service_CompleteACMEChallenge svc ctx actor challengeID)" "acmes svc (markACMEChallengeProcessing svc ctx actor challengeID)"
  "acmes svc (validationContext svc challengeID)"
  by (rule acmesI, erule CompleteACMEChallenge_ok) (rule acmesI, erule markProcessing_ok, rule acmes_quiet[OF validationContext_quiet])

lemma ValidateACMEHTTP01Challenge_acmes [acme_rules]: "acmes svc (Service_ValidateACMEHTTP01Challenge svc ctx actor challengeID)"
  unfolding Service_ValidateACMEHTTP01Challenge_def by (intro acme_rules)

lemma PollACMEAuthorization_acmes [acme_rules]: "acmes svc (Service_PollACMEAuthorization svc ctx actor authorizationID)"
  unfolding Service_PollACMEAuthorization_def by (intro acme_rules)

lemma CreateACMEOrder_acmes [acme_rules]: "acmes svc (Service_CreateACMEOrder svc ctx actor req)"
proof (rule acmesI, rule acmeStep_clean[OF acme_clean(4)])
  fix w r w' x
  assume "Service_CreateACMEOrder svc ctx actor req w = (Inr x, w')"
  then show "acmeStep svc w w'" unfolding acmeStep_def using createOrder_ok(1,2) by blast
qed

section \<open>Operations that leave orders alone\<close>

definition acme_kept :: "MemoryStore \<Rightarrow> MemoryStore \<Rightarrow> bool" where
  "acme_kept s s' \<longleftrightarrow> ms_acmeOrders s' = ms_acmeOrders s \<and> ms_acmeAuthzs s' = ms_acmeAuthzs s \<and> ms_acmeChallenges s' = ms_acmeChallenges s"

interpretation acme_frame: frame_relation acme_kept
  by unfold_locales (simp_all add: acme_kept_def)

lemma acme_kept_writes [frame_rules]:
  "preserves acme_kept (onRepo (memoryTx_CreateIdentity v0))" "preserves acme_kept (onRepo (MemoryStore_CreateIdentity v0))"
  "preserves acme_kept (onRepo (memoryTx_CreateIssuer v1))" "preserves acme_kept (onRepo (MemoryStore_CreateIssuer v1))"
  "preserves acme_kept (onRepo (memoryTx_CreateOCSPResponder v2))" "preserves acme_kept (onRepo (MemoryStore_CreateOCSPResponder v2))"
  "preserves acme_kept (onRepo (memoryTx_CreateNotificationEndpoint v3))" "preserves acme_kept (onRepo (MemoryStore_CreateNotificationEndpoint v3))"
  "preserves acme_kept (onRepo (memoryTx_CreateCertificateProfile v4))" "preserves acme_kept (onRepo (MemoryStore_CreateCertificateProfile v4))"
  "preserves acme_kept (onRepo (memoryTx_CreateRevocation v5))" "preserves acme_kept (onRepo (MemoryStore_CreateRevocation v5))"
  "preserves acme_kept (onRepo (memoryTx_CreateCRLPublication v6))" "preserves acme_kept (onRepo (MemoryStore_CreateCRLPublication v6))"
  "preserves acme_kept (onRepo (memoryTx_CreateOutboxMessage v7))" "preserves acme_kept (onRepo (MemoryStore_CreateOutboxMessage v7))"
  "preserves acme_kept (onRepo (memoryTx_CreateJobAttempt v8))" "preserves acme_kept (onRepo (MemoryStore_CreateJobAttempt v8))"
  "preserves acme_kept (onRepo (memoryTx_UpsertWebhookDelivery v9))" "preserves acme_kept (onRepo (MemoryStore_UpsertWebhookDelivery v9))"
  "preserves acme_kept (onRepo (memoryTx_CreateAPIKey v10))" "preserves acme_kept (onRepo (MemoryStore_CreateAPIKey v10))"
  "preserves acme_kept (onRepo (memoryTx_CreateACMEAccount v11))" "preserves acme_kept (onRepo (MemoryStore_CreateACMEAccount v11))"
  "preserves acme_kept (onRepo (memoryTx_CreateEnrollment v15))" "preserves acme_kept (onRepo (MemoryStore_CreateEnrollment v15))"
  "preserves acme_kept (onRepo (memoryTx_CreateCertificate v16))" "preserves acme_kept (onRepo (MemoryStore_CreateCertificate v16))"
  "preserves acme_kept (onRepo (memoryTx_CreateIssuanceAttempt v17))" "preserves acme_kept (onRepo (MemoryStore_CreateIssuanceAttempt v17))"
  "preserves acme_kept (onRepo (memoryTx_CreateAuditEvent v18))" "preserves acme_kept (onRepo (MemoryStore_CreateAuditEvent v18))"
  "preserves acme_kept (onRepo (memoryTx_UpdateOCSPResponderIfStatus u0 c0))" "preserves acme_kept (onRepo (MemoryStore_UpdateOCSPResponderIfStatus u0 c0))"
  "preserves acme_kept (onRepo (memoryTx_UpdateNotificationEndpointIfStatus u1 c1))" "preserves acme_kept (onRepo (MemoryStore_UpdateNotificationEndpointIfStatus u1 c1))"
  "preserves acme_kept (onRepo (memoryTx_UpdateOutboxMessageStatusIfStatus u2 c2))" "preserves acme_kept (onRepo (MemoryStore_UpdateOutboxMessageStatusIfStatus u2 c2))"
  "preserves acme_kept (onRepo (memoryTx_UpdateOutboxMessageIfCurrent u3 c3))" "preserves acme_kept (onRepo (MemoryStore_UpdateOutboxMessageIfCurrent u3 c3))"
  "preserves acme_kept (onRepo (memoryTx_UpdateAPIKeyIfStatus u4 c4))" "preserves acme_kept (onRepo (MemoryStore_UpdateAPIKeyIfStatus u4 c4))"
  "preserves acme_kept (onRepo (memoryTx_UpdateACMEAccountIfStatus u5 c5))" "preserves acme_kept (onRepo (MemoryStore_UpdateACMEAccountIfStatus u5 c5))"
  "preserves acme_kept (onRepo (memoryTx_UpdateEnrollmentIfStatus u9 c9))" "preserves acme_kept (onRepo (MemoryStore_UpdateEnrollmentIfStatus u9 c9))"
  "preserves acme_kept (onRepo (memoryTx_UpdateCertificateIfStatus u10 c10))" "preserves acme_kept (onRepo (MemoryStore_UpdateCertificateIfStatus u10 c10))"
  "preserves acme_kept (onRepo (memoryTx_UpdateIssuanceAttemptIfCurrent u11 c11))" "preserves acme_kept (onRepo (MemoryStore_UpdateIssuanceAttemptIfCurrent u11 c11))"
  "preserves acme_kept (onRepo (memoryTx_DeleteAuditEventsBefore v19))" "preserves acme_kept (onRepo (MemoryStore_DeleteAuditEventsBefore v19))"
  by (rule acme_frame.frame_onRepo, simp add: acme_kept_def tx_agree MemoryStore_CreateIdentity_def MemoryStore_CreateIssuer_def MemoryStore_CreateOCSPResponder_def MemoryStore_CreateNotificationEndpoint_def MemoryStore_CreateCertificateProfile_def MemoryStore_CreateRevocation_def MemoryStore_CreateCRLPublication_def MemoryStore_CreateOutboxMessage_def MemoryStore_CreateJobAttempt_def MemoryStore_UpsertWebhookDelivery_def MemoryStore_CreateAPIKey_def MemoryStore_CreateACMEAccount_def MemoryStore_CreateEnrollment_def MemoryStore_CreateCertificate_def MemoryStore_CreateIssuanceAttempt_def MemoryStore_CreateAuditEvent_def MemoryStore_UpdateOCSPResponderIfStatus_def MemoryStore_UpdateNotificationEndpointIfStatus_def MemoryStore_UpdateOutboxMessageStatusIfStatus_def MemoryStore_UpdateOutboxMessageIfCurrent_def MemoryStore_UpdateAPIKeyIfStatus_def MemoryStore_UpdateACMEAccountIfStatus_def MemoryStore_UpdateEnrollmentIfStatus_def MemoryStore_UpdateCertificateIfStatus_def MemoryStore_UpdateIssuanceAttemptIfCurrent_def MemoryStore_DeleteAuditEventsBefore_def split: sum.split option.split prod.split)+

lemma acme_kept_events [frame_rules]:
  "preserves acme_kept (createAuditEvent svc ctx actor action rt ri t flds)" "preserves acme_kept (createOutboxMessage svc mt t flds)"
  by (simp_all add: preserves_def run_createAuditEvent run_createOutboxMessage acme_kept_def)

lemma acme_kept_ok:
  assumes "acme_kept s s'" "acme_ok s"
  shows "acme_ok s'"
proof -
  have same: "ms_acmeOrders s' = ms_acmeOrders s" "ms_acmeAuthzs s' = ms_acmeAuthzs s" "ms_acmeChallenges s' = ms_acmeChallenges s"
    using assms(1) by (simp_all add: acme_kept_def)
  show ?thesis
    using assms(2) unfolding acme_ok_def acme_validated_def authzsChallenged_def orderCovered_def hasAuthz_def hasChallenge_def same .
qed

lemma kept_acmes: "advances svc m \<Longrightarrow> preserves acme_kept m \<Longrightarrow> acmes svc m"
  by (rule acmesI) (auto simp: acmeStep_def dest: advancesD preservesD intro: acme_kept_ok)

lemma account_acme_kept [frame_rules]:
  "preserves acme_kept (Service_CreateACMEAccount svc ctx actor creq)" "preserves acme_kept (Service_CreateOrGetACMEAccount svc ctx actor creq)"
  "preserves acme_kept (Service_UpdateACMEAccount svc ctx actor accountID ureq)" "preserves acme_kept (Service_UpdateACMEAccountKey svc ctx actor accountID kreq)"
  unfolding Service_CreateACMEAccount_def Service_CreateOrGetACMEAccount_def createACMEAccount_def Service_UpdateACMEAccount_def
    Service_UpdateACMEAccountKey_def Let_def
  by (intro frame_rules)+

lemma enrollment_acme_kept [frame_rules]:
  "preserves acme_kept (Service_CreateEnrollment svc ctx actor ereq)" "preserves acme_kept (Service_ApproveEnrollment svc ctx actor ident)"
  unfolding Service_CreateEnrollment_def Service_ApproveEnrollment_def createReqProfile_def inspectCSR_def by (intro frame_rules)+

lemma issue_acme_kept [frame_rules]: "preserves acme_kept (Service_IssueCertificate svc ctx actor ident)"
proof -
  have [frame_rules]: "preserves acme_kept (claimIssuanceAttempt i now)" for i now
    unfolding claimIssuanceAttempt_def by (intro frame_rules; auto intro!: frame_rules split: claimDecision.split)
  show ?thesis
    unfolding Service_IssueCertificate_def reissuedResult_def issueApproved_def signAttempt_def persistSignedIssuanceAttempt_def
      finalizeSignedIssuanceAttempt_def finalizeTx_def markFailed_def ensureCertificateIssuedAuditEvent_def
    by (intro frame_rules acme_frame.frame_quiet[OF prepareIssue_quiet])
qed

end
