(* ===== verification/HttpTypes.thy ===== *)
theory HttpTypes
  imports Queries Acme
begin

text \<open>
  The request and response structs of the HTTP interface (\<^verbatim>\<open>internal/httpapi/server.go\<close>, \<^verbatim>\<open>internal/httpapi/acme.go\<close>) and the functions that
  copy the service's rows into responses. The tags that name the JSON members are not part of the model: a body is a value of these
  types, and its reading is a parameter of the server (see \<^verbatim>\<open>Http\<close>). The field \<^verbatim>\<open>JWK any\<close> of the protected header is the text of the member, if there is one;
  the pointer \<^verbatim>\<open>Contact *[]string\<close> is an option.
\<close>

section \<open>Requests\<close>

record createIdentityRequest =
  hid_Type :: IdentityType
  hid_Name :: string
  hid_ExternalID :: string
  hid_Owner :: string
  hid_Team :: string
  hid_Service :: string
  hid_Environment :: string
  hid_DeploymentTarget :: string
  hid_LastSeenAt :: time
  hid_MetadataJSON :: string
  hid_AllowedDNSNames :: "string list"
  hid_AllowedIPAddresses :: "string list"

record createIssuerRequest =
  his_Name :: string
  his_Kind :: IssuerKind
  his_ParentIssuerID :: string
  his_CertificatePEM :: string
  his_KeyRef :: string
  his_AIAURL :: string
  his_CRLDistributionPoints :: "string list"
  his_TrustAnchor :: bool

record createOCSPResponderRequest =
  hor_Name :: string
  hor_CertificatePEM :: string
  hor_KeyRef :: string

record createNotificationEndpointRequest =
  hne_Name :: string
  hne_URL :: string
  hne_Secret :: string
  hne_EventTypes :: "string list"

record replayDeadLetterOutboxRequest =
  hrd_EventType :: string
  hrd_CreatedFrom :: time
  hrd_CreatedTo :: time
  hrd_Limit :: int

record pruneAuditEventsRequest =
  hpa_Before :: time

record createCertificateProfileRequest =
  hcp_Name :: string
  hcp_Description :: string
  hcp_IssuerID :: string
  hcp_ValidityPeriodSeconds :: int
  hcp_PublicTLS :: bool
  hcp_SubjectTemplate :: string
  hcp_AllowedDNSPatterns :: "string list"
  hcp_AllowedIPRanges :: "string list"
  hcp_AllowedKeyAlgorithms :: "string list"
  hcp_MinKeySizeBits :: int
  hcp_AllowedSignatureAlgorithms :: "string list"
  hcp_KeyUsage :: StringListExtensionPolicy
  hcp_ExtendedKeyUsage :: StringListExtensionPolicy
  hcp_BasicConstraints :: BasicConstraintsPolicy
  hcp_SubjectKeyIdentifier :: bool
  hcp_AuthorityKeyIdentifier :: bool

record createEnrollmentRequest =
  hen_IdentityID :: string
  hen_IssuerID :: string
  hen_CertificateProfileID :: string
  hen_CSRPEM :: string
  hen_RequestedSubject :: string
  hen_RequestedDNSNames :: "string list"
  hen_RequestedIPAddresses :: "string list"
  hen_RequestedNotAfter :: time

record issueCertificateRequest =
  hic_EnrollmentID :: string

record revokeCertificateRequest =
  hrv_Reason :: RevocationReason
  hrv_Force :: bool

record renewCertificateRequest =
  hrn_CSRPEM :: string
  hrn_RequestedNotAfter :: time

record reissueCertificateRequest =
  hri_CSRPEM :: string

record scanCertificateExpirationsRequest =
  hsc_WarningWindowSeconds :: int
  hsc_Limit :: int

record createAPIKeyRequest =
  hak_Name :: string
  hak_Actor :: string
  hak_Scopes :: "APIKeyScope list"
  hak_ExpiresAt :: time

record publishCRLRequest =
  hpc_IssuerID :: string
  hpc_DistributionPoint :: string
  hpc_NextUpdate :: time

record createACMEAccountRequest =
  haa_Contacts :: "string list"
  haa_TermsOfServiceAgreed :: bool

record createACMEOrderRequest =
  hao_AccountID :: string
  hao_IdentityID :: string
  hao_IssuerID :: string
  hao_CertificateProfileID :: string
  hao_RequestedDNSNames :: "string list"
  hao_RequestedIPAddresses :: "string list"
  hao_RequestedNotAfter :: time

record finalizeACMEOrderRequest =
  hfo_CSRPEM :: string
  hfo_CSR :: string
  hfo_RequestedSubject :: string

record acmeRevokeCertificateRequest =
  har_CertificateID :: string
  har_Reason :: RevocationReason

record acmeJWSRequest =
  jws_Protected :: string
  jws_Payload :: string
  jws_Signature :: string

record acmeJWK =
  jwk_KTY :: string
  jwk_CRV :: string
  jwk_X :: string
  jwk_Y :: string
  jwk_N :: string
  jwk_E :: string

record acmeJWSResult =
  jwr_Payload :: string
  jwr_AccountID :: string
  jwr_KeyThumbprint :: string
  jwr_KeyJWKJSON :: string

record acmeKeyChangeJWSResult =
  kcr_Account :: string
  kcr_OldKey :: acmeJWK
  kcr_NewKeyThumbprint :: string
  kcr_NewKeyJWKJSON :: string

record acmeProtectedHeader =
  aph_Alg :: string
  aph_Nonce :: string
  aph_URL :: string
  aph_KID :: string
  aph_JWK :: "string option"

record acmeNewAccountRequest =
  ana_Contact :: "string list"
  ana_TermsOfServiceAgreed :: bool

record acmeUpdateAccountRequest =
  aua_Contact :: "string list option"
  aua_Status :: string

record acmeKeyChangeRequest =
  akc_Account :: string
  akc_OldKey :: acmeJWK

record acmeIdentifierRequest =
  aid_Type :: string
  aid_Value :: string

record acmeNewOrderRequest =
  ano_AccountID :: string
  ano_IdentityID :: string
  ano_IssuerID :: string
  ano_CertificateProfileID :: string
  ano_Identifiers :: "acmeIdentifierRequest list"
  ano_NotAfter :: time

section \<open>Responses\<close>

record identityResponse =
  ridn_ID :: string
  ridn_Type :: IdentityType
  ridn_Name :: string
  ridn_ExternalID :: string
  ridn_Owner :: string
  ridn_Team :: string
  ridn_Service :: string
  ridn_Environment :: string
  ridn_DeploymentTarget :: string
  ridn_LastSeenAt :: time
  ridn_MetadataJSON :: string
  ridn_AllowedDNSNames :: "string list"
  ridn_AllowedIPAddresses :: "string list"
  ridn_Status :: IdentityStatus
  ridn_CreatedAt :: time
  ridn_UpdatedAt :: time

record issuerResponse =
  riss_ID :: string
  riss_Name :: string
  riss_Kind :: IssuerKind
  riss_Status :: IssuerStatus
  riss_ParentIssuerID :: string
  riss_CertificatePEM :: string
  riss_KeyRef :: string
  riss_AIAURL :: string
  riss_CRLDistributionPoints :: "string list"
  riss_TrustAnchor :: bool
  riss_CreatedAt :: time
  riss_UpdatedAt :: time

record ocspResponderResponse =
  rrsp_ID :: string
  rrsp_IssuerID :: string
  rrsp_Name :: string
  rrsp_Status :: OCSPResponderStatus
  rrsp_CertificatePEM :: string
  rrsp_KeyRef :: string
  rrsp_CreatedAt :: time
  rrsp_UpdatedAt :: time

record notificationEndpointResponse =
  rep_ID :: string
  rep_Name :: string
  rep_Type :: NotificationEndpointType
  rep_Status :: NotificationEndpointStatus
  rep_URL :: string
  rep_EventTypes :: "string list"
  rep_CreatedAt :: time
  rep_UpdatedAt :: time

record outboxMessageResponse =
  rmsg_ID :: string
  rmsg_Type :: string
  rmsg_PayloadJSON :: string
  rmsg_Status :: OutboxMessageStatus
  rmsg_AvailableAt :: time
  rmsg_AttemptCount :: int
  rmsg_MaxAttempts :: int
  rmsg_LastError :: string
  rmsg_CreatedAt :: time
  rmsg_UpdatedAt :: time

record replayDeadLetterOutboxResponse =
  rrdl_ReplayedCount :: int
  rrdl_MessageIDs :: "string list"

record certificateInventoryEntryResponse =
  rcie_CertificateID :: string
  rcie_Owner :: string
  rcie_Team :: string
  rcie_Service :: string
  rcie_Environment :: string
  rcie_DeploymentTarget :: string
  rcie_IssuerID :: string
  rcie_ProfileID :: string
  rcie_IssuerKeyRef :: string
  rcie_RevocationState :: string
  rcie_LastSeenAt :: time
  rcie_CompletenessWarnings :: "string list"

record expirySLOResponse =
  rslo_WindowDays :: int
  rslo_UnhandledCount :: int
  rslo_UnhandledIDs :: "string list"
  rslo_OK :: bool

record apiKeyResponse =
  rkey_ID :: string
  rkey_Name :: string
  rkey_Actor :: string
  rkey_Status :: APIKeyStatus
  rkey_Scopes :: "APIKeyScope list"
  rkey_ExpiresAt :: time
  rkey_LastUsedAt :: time
  rkey_TokenFingerprint :: string
  rkey_Token :: string
  rkey_TokenHash :: string
  rkey_CreatedAt :: time
  rkey_UpdatedAt :: time

record acmeAccountResponse =
  racc_ID :: string
  racc_Contacts :: "string list"
  racc_Status :: ACMEAccountStatus
  racc_TermsOfServiceAgreed :: bool
  racc_CreatedAt :: time
  racc_UpdatedAt :: time

record acmeOrderResponse =
  rord_ID :: string
  rord_AccountID :: string
  rord_IdentityID :: string
  rord_IssuerID :: string
  rord_CertificateProfileID :: string
  rord_Status :: ACMEOrderStatus
  rord_CSRPEM :: string
  rord_RequestedSubject :: string
  rord_RequestedDNSNames :: "string list"
  rord_RequestedIPAddresses :: "string list"
  rord_RequestedNotAfter :: time
  rord_EnrollmentID :: string
  rord_CertificateID :: string
  rord_ExpiresAt :: time
  rord_CreatedAt :: time
  rord_UpdatedAt :: time

record acmeAuthorizationResponse =
  rauz_ID :: string
  rauz_OrderID :: string
  rauz_IdentifierType :: string
  rauz_IdentifierValue :: string
  rauz_Status :: ACMEAuthorizationStatus
  rauz_ExpiresAt :: time
  rauz_ValidationReuseExpiresAt :: time
  rauz_CreatedAt :: time
  rauz_UpdatedAt :: time

record acmeChallengeResponse =
  rchl_ID :: string
  rchl_AuthorizationID :: string
  rchl_Type :: ACMEChallengeType
  rchl_Token :: string
  rchl_Status :: ACMEChallengeStatus
  rchl_ValidatedAt :: time
  rchl_CreatedAt :: time
  rchl_UpdatedAt :: time

record acmeProtocolIdentifierResponse =
  pid_Type :: string
  pid_Value :: string

record acmeProtocolChallengeResponse =
  pchl_ID :: string
  pchl_Type :: string
  pchl_URL :: string
  pchl_Token :: string
  pchl_Status :: string

record acmeProtocolAccountResponse =
  pacc_ID :: string
  pacc_Status :: string
  pacc_Contact :: "string list"
  pacc_Location :: string

record acmeProtocolOrderResponse =
  pord_ID :: string
  pord_Status :: string
  pord_URL :: string
  pord_Identifiers :: "acmeProtocolIdentifierResponse list"
  pord_Authorizations :: "string list"
  pord_Finalize :: string
  pord_Certificate :: string
  pord_Expires :: time

record acmeProtocolAuthorizationResponse =
  pauz_ID :: string
  pauz_Status :: string
  pauz_Identifier :: acmeProtocolIdentifierResponse
  pauz_Challenges :: "acmeProtocolChallengeResponse list"
  pauz_Expires :: time

record certificateProfileResponse =
  rprof_ID :: string
  rprof_Name :: string
  rprof_Description :: string
  rprof_IssuerID :: string
  rprof_ValidityPeriodSeconds :: int
  rprof_PublicTLS :: bool
  rprof_SubjectTemplate :: string
  rprof_AllowedDNSPatterns :: "string list"
  rprof_AllowedIPRanges :: "string list"
  rprof_AllowedKeyAlgorithms :: "string list"
  rprof_MinKeySizeBits :: int
  rprof_AllowedSignatureAlgorithms :: "string list"
  rprof_KeyUsage :: StringListExtensionPolicy
  rprof_ExtendedKeyUsage :: StringListExtensionPolicy
  rprof_BasicConstraints :: BasicConstraintsPolicy
  rprof_SubjectKeyIdentifier :: bool
  rprof_AuthorityKeyIdentifier :: bool
  rprof_CreatedAt :: time
  rprof_UpdatedAt :: time

record enrollmentResponse =
  renr_ID :: string
  renr_IdentityID :: string
  renr_IssuerID :: string
  renr_CertificateProfileID :: string
  renr_CSRPEM :: string
  renr_Status :: EnrollmentStatus
  renr_RequestedSubject :: string
  renr_RequestedDNSNames :: "string list"
  renr_RequestedIPAddresses :: "string list"
  renr_CSRDNSNames :: "string list"
  renr_CSRIPAddresses :: "string list"
  renr_RequestedNotAfter :: time
  renr_ApprovedBy :: string
  renr_ApprovedAt :: time
  renr_CreatedAt :: time
  renr_UpdatedAt :: time

record certificateResponse =
  rcert_ID :: string
  rcert_IdentityID :: string
  rcert_IssuerID :: string
  rcert_EnrollmentID :: string
  rcert_CertificateProfileID :: string
  rcert_SerialNumber :: string
  rcert_Subject :: string
  rcert_DNSNames :: "string list"
  rcert_IPAddresses :: "string list"
  rcert_NotBefore :: time
  rcert_NotAfter :: time
  rcert_Status :: CertificateStatus
  rcert_CertificatePEM :: string
  rcert_RenewalNotifiedAt :: time
  rcert_CreatedAt :: time
  rcert_UpdatedAt :: time

record certificateExpirationScanResponse =
  rscan_Expired :: "certificateResponse list"
  rscan_ExpirationWarnings :: "certificateResponse list"

record crlPublicationResponse =
  rcrl_ID :: string
  rcrl_IssuerID :: string
  rcrl_DistributionPoint :: string
  rcrl_CRLNumber :: int
  rcrl_ThisUpdate :: time
  rcrl_NextUpdate :: time
  rcrl_Status :: CRLPublicationStatus
  rcrl_CRLPEM :: string
  rcrl_CreatedAt :: time
  rcrl_UpdatedAt :: time

record auditEventResponse =
  raud_ID :: string
  raud_Actor :: string
  raud_Action :: string
  raud_ResourceType :: string
  raud_ResourceID :: string
  raud_MetadataJSON :: string
  raud_CreatedAt :: time

record repairIssuanceAuditEventsResponse =
  rrep_RepairedCount :: int

record pruneAuditEventsResponse =
  rpru_DeletedCount :: int

record acmeProblem =
  prb_Type :: string
  prb_Title :: string
  prb_Status :: int
  prb_Detail :: string

section \<open>Responses from rows\<close>

definition toIdentityResponse :: "Identity \<Rightarrow> identityResponse" where
  "toIdentityResponse identity =
     \<lparr>ridn_ID = idn_ID identity, ridn_Type = idn_Type identity, ridn_Name = idn_Name identity, ridn_ExternalID = idn_ExternalID identity,
      ridn_Owner = idn_Owner identity, ridn_Team = idn_Team identity, ridn_Service = idn_Service identity,
      ridn_Environment = idn_Environment identity, ridn_DeploymentTarget = idn_DeploymentTarget identity, ridn_LastSeenAt = idn_LastSeenAt identity,
      ridn_MetadataJSON = idn_MetadataJSON identity, ridn_AllowedDNSNames = idn_AllowedDNSNames identity,
      ridn_AllowedIPAddresses = idn_AllowedIPAddresses identity, ridn_Status = idn_Status identity, ridn_CreatedAt = idn_CreatedAt identity,
      ridn_UpdatedAt = idn_UpdatedAt identity\<rparr>"

definition toIdentityResponses :: "Identity list \<Rightarrow> identityResponse list" where
  "toIdentityResponses identities = map toIdentityResponse identities"

definition toIssuerResponse :: "Issuer \<Rightarrow> issuerResponse" where
  "toIssuerResponse issuer =
     \<lparr>riss_ID = iss_ID issuer, riss_Name = iss_Name issuer, riss_Kind = iss_Kind issuer, riss_Status = iss_Status issuer,
      riss_ParentIssuerID = iss_ParentIssuerID issuer, riss_CertificatePEM = iss_CertificatePEM issuer, riss_KeyRef = iss_KeyRef issuer,
      riss_AIAURL = iss_AIAURL issuer, riss_CRLDistributionPoints = iss_CRLDistributionPoints issuer, riss_TrustAnchor = iss_TrustAnchor issuer,
      riss_CreatedAt = iss_CreatedAt issuer, riss_UpdatedAt = iss_UpdatedAt issuer\<rparr>"

definition toIssuerResponses :: "Issuer list \<Rightarrow> issuerResponse list" where
  "toIssuerResponses issuers = map toIssuerResponse issuers"

definition toOCSPResponderResponse :: "OCSPResponder \<Rightarrow> ocspResponderResponse" where
  "toOCSPResponderResponse responder =
     \<lparr>rrsp_ID = rsp_ID responder, rrsp_IssuerID = rsp_IssuerID responder, rrsp_Name = rsp_Name responder, rrsp_Status = rsp_Status responder,
      rrsp_CertificatePEM = rsp_CertificatePEM responder, rrsp_KeyRef = rsp_KeyRef responder, rrsp_CreatedAt = rsp_CreatedAt responder,
      rrsp_UpdatedAt = rsp_UpdatedAt responder\<rparr>"

definition toOCSPResponderResponses :: "OCSPResponder list \<Rightarrow> ocspResponderResponse list" where
  "toOCSPResponderResponses responders = map toOCSPResponderResponse responders"

definition toNotificationEndpointResponse :: "NotificationEndpoint \<Rightarrow> notificationEndpointResponse" where
  "toNotificationEndpointResponse endpoint =
     \<lparr>rep_ID = ep_ID endpoint, rep_Name = ep_Name endpoint, rep_Type = ep_Type endpoint, rep_Status = ep_Status endpoint,
      rep_URL = ep_URL endpoint, rep_EventTypes = ep_EventTypes endpoint, rep_CreatedAt = ep_CreatedAt endpoint,
      rep_UpdatedAt = ep_UpdatedAt endpoint\<rparr>"

definition toNotificationEndpointResponses :: "NotificationEndpoint list \<Rightarrow> notificationEndpointResponse list" where
  "toNotificationEndpointResponses endpoints = map toNotificationEndpointResponse endpoints"

definition toOutboxMessageResponse :: "OutboxMessage \<Rightarrow> outboxMessageResponse" where
  "toOutboxMessageResponse message =
     \<lparr>rmsg_ID = msg_ID message, rmsg_Type = msg_Type message, rmsg_PayloadJSON = msg_PayloadJSON message, rmsg_Status = msg_Status message,
      rmsg_AvailableAt = msg_AvailableAt message, rmsg_AttemptCount = msg_AttemptCount message, rmsg_MaxAttempts = msg_MaxAttempts message,
      rmsg_LastError = msg_LastError message, rmsg_CreatedAt = msg_CreatedAt message, rmsg_UpdatedAt = msg_UpdatedAt message\<rparr>"

definition toOutboxMessageResponses :: "OutboxMessage list \<Rightarrow> outboxMessageResponse list" where
  "toOutboxMessageResponses messages = map toOutboxMessageResponse messages"

definition toCertificateInventoryResponse :: "CertificateInventoryEntry \<Rightarrow> certificateInventoryEntryResponse" where
  "toCertificateInventoryResponse entry =
     \<lparr>rcie_CertificateID = cie_CertificateID entry, rcie_Owner = cie_Owner entry, rcie_Team = cie_Team entry,
      rcie_Service = cie_Service entry, rcie_Environment = cie_Environment entry, rcie_DeploymentTarget = cie_DeploymentTarget entry,
      rcie_IssuerID = cie_IssuerID entry, rcie_ProfileID = cie_ProfileID entry, rcie_IssuerKeyRef = cie_IssuerKeyRef entry,
      rcie_RevocationState = cie_RevocationState entry, rcie_LastSeenAt = cie_LastSeenAt entry,
      rcie_CompletenessWarnings = cie_CompletenessWarnings entry\<rparr>"

definition toCertificateInventoryResponses :: "CertificateInventoryEntry list \<Rightarrow> certificateInventoryEntryResponse list" where
  "toCertificateInventoryResponses entries = map toCertificateInventoryResponse entries"

definition toExpirySLOResponse :: "ExpirySLO \<Rightarrow> expirySLOResponse" where
  "toExpirySLOResponse slo =
     \<lparr>rslo_WindowDays = eslo_WindowDays slo, rslo_UnhandledCount = eslo_UnhandledCount slo, rslo_UnhandledIDs = eslo_UnhandledIDs slo,
      rslo_OK = eslo_OK slo\<rparr>"

definition toAPIKeyResponse :: "APIKey \<Rightarrow> apiKeyResponse" where
  "toAPIKeyResponse key =
     \<lparr>rkey_ID = key_ID key, rkey_Name = key_Name key, rkey_Actor = key_Actor key, rkey_Status = key_Status key, rkey_Scopes = key_Scopes key,
      rkey_ExpiresAt = key_ExpiresAt key, rkey_LastUsedAt = key_LastUsedAt key, rkey_TokenFingerprint = APIKeyTokenFingerprint (key_TokenHash key),
      rkey_Token = [], rkey_TokenHash = [], rkey_CreatedAt = key_CreatedAt key, rkey_UpdatedAt = key_UpdatedAt key\<rparr>"

definition toAPIKeyResponses :: "APIKey list \<Rightarrow> apiKeyResponse list" where
  "toAPIKeyResponses keys = map toAPIKeyResponse keys"

definition toCertificateProfileResponse :: "CertificateProfile \<Rightarrow> certificateProfileResponse" where
  "toCertificateProfileResponse profile =
     \<lparr>rprof_ID = prof_ID profile, rprof_Name = prof_Name profile, rprof_Description = prof_Description profile,
      rprof_IssuerID = prof_IssuerID profile, rprof_ValidityPeriodSeconds = prof_ValidityPeriodSeconds profile,
      rprof_PublicTLS = prof_PublicTLS profile, rprof_SubjectTemplate = prof_SubjectTemplate profile,
      rprof_AllowedDNSPatterns = prof_AllowedDNSPatterns profile, rprof_AllowedIPRanges = prof_AllowedIPRanges profile,
      rprof_AllowedKeyAlgorithms = prof_AllowedKeyAlgorithms profile, rprof_MinKeySizeBits = prof_MinKeySizeBits profile,
      rprof_AllowedSignatureAlgorithms = prof_AllowedSignatureAlgorithms profile, rprof_KeyUsage = prof_KeyUsage profile,
      rprof_ExtendedKeyUsage = prof_ExtendedKeyUsage profile, rprof_BasicConstraints = prof_BasicConstraints profile,
      rprof_SubjectKeyIdentifier = prof_SubjectKeyIdentifier profile, rprof_AuthorityKeyIdentifier = prof_AuthorityKeyIdentifier profile,
      rprof_CreatedAt = prof_CreatedAt profile, rprof_UpdatedAt = prof_UpdatedAt profile\<rparr>"

definition toCertificateProfileResponses :: "CertificateProfile list \<Rightarrow> certificateProfileResponse list" where
  "toCertificateProfileResponses profiles = map toCertificateProfileResponse profiles"

definition toEnrollmentResponse :: "Enrollment \<Rightarrow> enrollmentResponse" where
  "toEnrollmentResponse enrollment =
     \<lparr>renr_ID = enr_ID enrollment, renr_IdentityID = enr_IdentityID enrollment, renr_IssuerID = enr_IssuerID enrollment,
      renr_CertificateProfileID = enr_CertificateProfileID enrollment, renr_CSRPEM = enr_CSRPEM enrollment, renr_Status = enr_Status enrollment,
      renr_RequestedSubject = enr_RequestedSubject enrollment, renr_RequestedDNSNames = enr_RequestedDNSNames enrollment,
      renr_RequestedIPAddresses = enr_RequestedIPAddresses enrollment, renr_CSRDNSNames = enr_CSRDNSNames enrollment,
      renr_CSRIPAddresses = enr_CSRIPAddresses enrollment, renr_RequestedNotAfter = enr_RequestedNotAfter enrollment,
      renr_ApprovedBy = enr_ApprovedBy enrollment, renr_ApprovedAt = enr_ApprovedAt enrollment, renr_CreatedAt = enr_CreatedAt enrollment,
      renr_UpdatedAt = enr_UpdatedAt enrollment\<rparr>"

definition toEnrollmentResponses :: "Enrollment list \<Rightarrow> enrollmentResponse list" where
  "toEnrollmentResponses enrollments = map toEnrollmentResponse enrollments"

definition toCertificateResponse :: "Certificate \<Rightarrow> certificateResponse" where
  "toCertificateResponse certificate =
     \<lparr>rcert_ID = cert_ID certificate, rcert_IdentityID = cert_IdentityID certificate, rcert_IssuerID = cert_IssuerID certificate,
      rcert_EnrollmentID = cert_EnrollmentID certificate, rcert_CertificateProfileID = cert_CertificateProfileID certificate,
      rcert_SerialNumber = cert_SerialNumber certificate, rcert_Subject = cert_Subject certificate, rcert_DNSNames = cert_DNSNames certificate,
      rcert_IPAddresses = cert_IPAddresses certificate, rcert_NotBefore = cert_NotBefore certificate, rcert_NotAfter = cert_NotAfter certificate,
      rcert_Status = cert_Status certificate, rcert_CertificatePEM = cert_CertificatePEM certificate,
      rcert_RenewalNotifiedAt = cert_RenewalNotifiedAt certificate, rcert_CreatedAt = cert_CreatedAt certificate,
      rcert_UpdatedAt = cert_UpdatedAt certificate\<rparr>"

definition toCertificateResponses :: "Certificate list \<Rightarrow> certificateResponse list" where
  "toCertificateResponses certificates = map toCertificateResponse certificates"

definition toCRLPublicationResponse :: "CRLPublication \<Rightarrow> crlPublicationResponse" where
  "toCRLPublicationResponse publication =
     \<lparr>rcrl_ID = crl_ID publication, rcrl_IssuerID = crl_IssuerID publication, rcrl_DistributionPoint = crl_DistributionPoint publication,
      rcrl_CRLNumber = crl_CRLNumber publication, rcrl_ThisUpdate = crl_ThisUpdate publication, rcrl_NextUpdate = crl_NextUpdate publication,
      rcrl_Status = crl_Status publication, rcrl_CRLPEM = crl_CRLPEM publication, rcrl_CreatedAt = crl_CreatedAt publication,
      rcrl_UpdatedAt = crl_UpdatedAt publication\<rparr>"

definition toAuditEventResponse :: "AuditEvent \<Rightarrow> auditEventResponse" where
  "toAuditEventResponse event =
     \<lparr>raud_ID = aud_ID event, raud_Actor = aud_Actor event, raud_Action = aud_Action event, raud_ResourceType = aud_ResourceType event,
      raud_ResourceID = aud_ResourceID event, raud_MetadataJSON = aud_MetadataJSON event, raud_CreatedAt = aud_CreatedAt event\<rparr>"

definition toAuditEventResponses :: "AuditEvent list \<Rightarrow> auditEventResponse list" where
  "toAuditEventResponses events = map toAuditEventResponse events"

definition toACMEAccountResponse :: "ACMEAccount \<Rightarrow> acmeAccountResponse" where
  "toACMEAccountResponse account =
     \<lparr>racc_ID = acc_ID account, racc_Contacts = acc_Contacts account, racc_Status = acc_Status account,
      racc_TermsOfServiceAgreed = acc_TermsOfServiceAgreed account, racc_CreatedAt = acc_CreatedAt account,
      racc_UpdatedAt = acc_UpdatedAt account\<rparr>"

definition toACMEAccountResponses :: "ACMEAccount list \<Rightarrow> acmeAccountResponse list" where
  "toACMEAccountResponses accounts = map toACMEAccountResponse accounts"

definition toACMEOrderResponse :: "ACMEOrder \<Rightarrow> acmeOrderResponse" where
  "toACMEOrderResponse order =
     \<lparr>rord_ID = ord_ID order, rord_AccountID = ord_AccountID order, rord_IdentityID = ord_IdentityID order,
      rord_IssuerID = ord_IssuerID order, rord_CertificateProfileID = ord_CertificateProfileID order, rord_Status = ord_Status order,
      rord_CSRPEM = ord_CSRPEM order, rord_RequestedSubject = ord_RequestedSubject order, rord_RequestedDNSNames = ord_RequestedDNSNames order,
      rord_RequestedIPAddresses = ord_RequestedIPAddresses order, rord_RequestedNotAfter = ord_RequestedNotAfter order,
      rord_EnrollmentID = ord_EnrollmentID order, rord_CertificateID = ord_CertificateID order, rord_ExpiresAt = ord_ExpiresAt order,
      rord_CreatedAt = ord_CreatedAt order, rord_UpdatedAt = ord_UpdatedAt order\<rparr>"

definition toACMEOrderResponses :: "ACMEOrder list \<Rightarrow> acmeOrderResponse list" where
  "toACMEOrderResponses orders = map toACMEOrderResponse orders"

definition toACMEAuthorizationResponse :: "ACMEAuthorization \<Rightarrow> acmeAuthorizationResponse" where
  "toACMEAuthorizationResponse authorization =
     \<lparr>rauz_ID = authz_ID authorization, rauz_OrderID = authz_OrderID authorization, rauz_IdentifierType = authz_IdentifierType authorization,
      rauz_IdentifierValue = authz_IdentifierValue authorization, rauz_Status = authz_Status authorization,
      rauz_ExpiresAt = authz_ExpiresAt authorization, rauz_ValidationReuseExpiresAt = authz_ValidationReuseExpiresAt authorization,
      rauz_CreatedAt = authz_CreatedAt authorization, rauz_UpdatedAt = authz_UpdatedAt authorization\<rparr>"

definition toACMEAuthorizationResponses :: "ACMEAuthorization list \<Rightarrow> acmeAuthorizationResponse list" where
  "toACMEAuthorizationResponses authorizations = map toACMEAuthorizationResponse authorizations"

definition toACMEChallengeResponse :: "ACMEChallenge \<Rightarrow> acmeChallengeResponse" where
  "toACMEChallengeResponse challenge =
     \<lparr>rchl_ID = chal_ID challenge, rchl_AuthorizationID = chal_AuthorizationID challenge, rchl_Type = chal_Type challenge,
      rchl_Token = chal_Token challenge, rchl_Status = chal_Status challenge, rchl_ValidatedAt = chal_ValidatedAt challenge,
      rchl_CreatedAt = chal_CreatedAt challenge, rchl_UpdatedAt = chal_UpdatedAt challenge\<rparr>"

definition toACMEChallengeResponses :: "ACMEChallenge list \<Rightarrow> acmeChallengeResponse list" where
  "toACMEChallengeResponses challenges = map toACMEChallengeResponse challenges"

definition toAPIKeyResponseWithToken :: "APIKey \<Rightarrow> string \<Rightarrow> apiKeyResponse" where
  "toAPIKeyResponseWithToken key token = (toAPIKeyResponse key)\<lparr>rkey_Token := token\<rparr>"

definition toReplayDeadLetterOutboxResponse :: "OutboxMessage list \<Rightarrow> replayDeadLetterOutboxResponse" where
  "toReplayDeadLetterOutboxResponse replayedMessages =
     (let ids = map msg_ID replayedMessages in \<lparr>rrdl_ReplayedCount = int (length ids), rrdl_MessageIDs = ids\<rparr>)"

definition toCertificateExpirationScanResponse :: "CertificateExpirationScanResult \<Rightarrow> certificateExpirationScanResponse" where
  "toCertificateExpirationScanResponse result =
     \<lparr>rscan_Expired = toCertificateResponses (scs_Expired result),
      rscan_ExpirationWarnings = toCertificateResponses (scs_ExpirationWarnings result)\<rparr>"

end
