(* ===== verification/Nonces.thy ===== *)
theory Nonces
  imports Lifecycle
begin

text \<open>
  The anti-replay nonces of the ACME interface: the in-memory store of \<^verbatim>\<open>internal/httpapi/acme.go\<close>
  (\<^verbatim>\<open>acmeMemoryNonceStore\<close>) and the SQL store of \<^verbatim>\<open>internal/httpapi/nonce_sql.go\<close> behind the interface
  \<^verbatim>\<open>ACMENonceStore\<close>. The abstract store is the set of nonces that would be accepted at an instant; the locale
  \<open>nonce_store\<close> states what an implementation promises about that set, and the single use of a nonce is proved once
  from it. The mutex makes each method one step. \<open>evictOldestLocked\<close> loops until the map is small enough, which never
  happens for a negative bound, so it is a partial function whose value \<open>None\<close> is a call that does not return.
\<close>

section \<open>The in-memory store\<close>

record acmeStoredNonce =
  asn_IssuedAt :: time
  asn_ExpiresAt :: time

record acmeMemoryNonceStore =
  ans_nonces :: "acmeStoredNonce gomap"
  ans_maxSize :: int

definition defaultACMENonceTTL :: duration where
  "defaultACMENonceTTL = 10 * Minute"

definition defaultACMENonceCacheSize :: int where
  "defaultACMENonceCacheSize = 1024"

definition newACMEMemoryNonceStore :: "int \<Rightarrow> acmeMemoryNonceStore" where
  "newACMEMemoryNonceStore maxSize = \<lparr>ans_nonces = mempty, ans_maxSize = maxSize\<rparr>"

definition removeExpiredLocked :: "time \<Rightarrow> acmeStoredNonce gomap \<Rightarrow> acmeStoredNonce gomap" where
  "removeExpiredLocked now nonces =
     fold (\<lambda>(nonce, stored) m. if \<not> asn_ExpiresAt stored > now then mdel nonce m else m) (mentries nonces) nonces"

text \<open>The inner loop of \<^verbatim>\<open>evictOldestLocked\<close>, with its two local variables.\<close>

fun oldestLoop :: "(string \<times> acmeStoredNonce) list \<Rightarrow> string \<Rightarrow> time \<Rightarrow> string" where
  "oldestLoop [] oldestNonce oldestIssuedAt = oldestNonce"
| "oldestLoop ((nonce, stored) # rest) oldestNonce oldestIssuedAt =
     (if oldestNonce = [] \<or> asn_IssuedAt stored < oldestIssuedAt then oldestLoop rest nonce (asn_IssuedAt stored)
      else oldestLoop rest oldestNonce oldestIssuedAt)"

partial_function (option) evictOldestLocked :: "int \<Rightarrow> acmeStoredNonce gomap \<Rightarrow> acmeStoredNonce gomap option" where
  "evictOldestLocked maxSize nonces =
     (if int (length (mentries nonces)) > maxSize then evictOldestLocked maxSize (mdel (oldestLoop (mentries nonces) [] time_zero) nonces) else Some nonces)"

text \<open>\<^verbatim>\<open>Issue\<close> and \<^verbatim>\<open>Consume\<close>; \<open>ctxErr\<close> is the error of the context when the call begins.\<close>

definition acmeMemoryNonceStore_Issue ::
  "acmeMemoryNonceStore \<Rightarrow> error option \<Rightarrow> string \<Rightarrow> time \<Rightarrow> time \<Rightarrow> (unit result \<times> acmeMemoryNonceStore) option" where
  "acmeMemoryNonceStore_Issue s ctxErr nonce issuedAt expiresAt =
     (case ctxErr of
        Some err \<Rightarrow> Some (Inl err, s)
      | None \<Rightarrow>
          map_option (\<lambda>nonces. (Inr (), s\<lparr>ans_nonces := mput nonce \<lparr>asn_IssuedAt = issuedAt, asn_ExpiresAt = expiresAt\<rparr> nonces\<rparr>))
            (evictOldestLocked (ans_maxSize s - 1) (removeExpiredLocked issuedAt (ans_nonces s))))"

definition acmeMemoryNonceStore_Consume ::
  "acmeMemoryNonceStore \<Rightarrow> error option \<Rightarrow> string \<Rightarrow> time \<Rightarrow> bool result \<times> acmeMemoryNonceStore" where
  "acmeMemoryNonceStore_Consume s ctxErr nonce now =
     (case ctxErr of
        Some err \<Rightarrow> (Inl err, s)
      | None \<Rightarrow>
          let nonces = removeExpiredLocked now (ans_nonces s) in
          (case mget nonces nonce of
             None \<Rightarrow> (Inr False, s\<lparr>ans_nonces := nonces\<rparr>)
           | Some _ \<Rightarrow> (Inr True, s\<lparr>ans_nonces := mdel nonce nonces\<rparr>)))"

definition acmeNonceExpired :: "time \<Rightarrow> time \<Rightarrow> bool" where
  "acmeNonceExpired issuedAt now \<longleftrightarrow> \<not> issuedAt + defaultACMENonceTTL > now"

section \<open>Sizes of maps\<close>

lemma size_mentries: "length (mentries m) = card (dom (mget m))"
proof -
  have "dom (mget m) = fst ` set (mentries m)"
    by (auto simp: in_mentries_iff[symmetric] image_iff split: prod.splits) force
  then show ?thesis using distinct_card[OF distinct_mentries, of m] by simp
qed

lemma dom_mdel: "dom (mget (mdel k m)) = dom (mget m) - {k}"
  by (auto simp: mget_mdel split: if_splits)

lemma mget_removeExpired:
  "mget (removeExpiredLocked now m) k = (case mget m k of None \<Rightarrow> None | Some n \<Rightarrow> if asn_ExpiresAt n > now then Some n else None)"
proof -
  let ?step = "\<lambda>(nonce, stored) m. if \<not> asn_ExpiresAt stored > now then mdel nonce m else m"
  have loop: "mget (fold ?step xs m0) k = (if \<exists>v. (k, v) \<in> set xs \<and> \<not> asn_ExpiresAt v > now then None else mget m0 k)"
    for xs :: "(string \<times> acmeStoredNonce) list" and m0
    by (induction xs arbitrary: m0) (auto simp: mget_mdel)
  show ?thesis unfolding removeExpiredLocked_def loop by (auto simp: in_mentries_iff split: option.splits)
qed

text \<open>The loop finds an entry that was issued first, provided the empty string is not a nonce.\<close>

lemma oldestLoop_first:
  assumes "oldest \<noteq> []" "\<forall>p \<in> set xs. fst p \<noteq> []"
  shows "\<exists>v. (oldestLoop xs oldest (asn_IssuedAt v0), v) \<in> insert (oldest, v0) (set xs) \<and>
     asn_IssuedAt v \<le> asn_IssuedAt v0 \<and> (\<forall>p \<in> set xs. asn_IssuedAt v \<le> asn_IssuedAt (snd p))"
  using assms
proof (induction xs arbitrary: oldest v0)
  case (Cons x xs)
  obtain j u where x: "x = (j, u)" by (cases x)
  show ?case
  proof (cases "asn_IssuedAt u < asn_IssuedAt v0")
    case True
    then obtain v where "(oldestLoop xs j (asn_IssuedAt u), v) \<in> insert (j, u) (set xs)" "asn_IssuedAt v \<le> asn_IssuedAt u"
        "\<forall>p \<in> set xs. asn_IssuedAt v \<le> asn_IssuedAt (snd p)"
      using Cons.IH[of j u] Cons.prems(2) x by auto
    then show ?thesis using True x by (intro exI[of _ v]) auto
  next
    case False
    then obtain v where "(oldestLoop xs oldest (asn_IssuedAt v0), v) \<in> insert (oldest, v0) (set xs)" "asn_IssuedAt v \<le> asn_IssuedAt v0"
        "\<forall>p \<in> set xs. asn_IssuedAt v \<le> asn_IssuedAt (snd p)"
      using Cons.IH[of oldest v0] Cons.prems by auto
    then show ?thesis using False Cons.prems(1) x by (intro exI[of _ v]) auto
  qed
qed auto

lemma oldestNonce_correct:
  assumes "mentries m \<noteq> []" "mget m [] = None"
  obtains v where "mget m (oldestLoop (mentries m) [] time_zero) = Some v"
    "\<And>k u. mget m k = Some u \<Longrightarrow> asn_IssuedAt v \<le> asn_IssuedAt u"
proof -
  obtain k v xs where es: "mentries m = (k, v) # xs" using assms(1) by (cases "mentries m") auto
  have "\<forall>p \<in> set (mentries m). fst p \<noteq> []" using assms(2) by (auto simp: in_mentries_iff)
  then obtain u where "(oldestLoop (mentries m) [] time_zero, u) \<in> set (mentries m)" "\<forall>p \<in> set (mentries m). asn_IssuedAt u \<le> asn_IssuedAt (snd p)"
    using oldestLoop_first[of k xs v] by (auto simp: es)
  then show ?thesis by (intro that[of u]) (auto simp: in_mentries_iff[symmetric])
qed

text \<open>Eviction returns for every bound that is not negative, and removes the entries issued first.\<close>

lemma evict_returns:
  assumes "0 \<le> maxSize" "mget m [] = None"
  shows "\<exists>m'. evictOldestLocked maxSize m = Some m' \<and> int (length (mentries m')) \<le> maxSize \<and> mget m' \<subseteq>\<^sub>m mget m \<and>
     (\<forall>k v. mget m k = Some v \<longrightarrow> mget m' k \<noteq> Some v \<longrightarrow>
        maxSize < int (card {j. \<exists>u. mget m j = Some u \<and> asn_IssuedAt v \<le> asn_IssuedAt u}))"
  using assms
proof (induction "length (mentries m)" arbitrary: m rule: less_induct)
  case less
  show ?case
  proof (cases "int (length (mentries m)) > maxSize")
    case False
    then show ?thesis by (subst evictOldestLocked.simps) auto
  next
    case True
    then have ne: "mentries m \<noteq> []" using less.prems(1) by auto
    let ?o = "oldestLoop (mentries m) [] time_zero"
    obtain v0 where v0: "mget m ?o = Some v0" and least: "\<And>k u. mget m k = Some u \<Longrightarrow> asn_IssuedAt v0 \<le> asn_IssuedAt u"
      using oldestNonce_correct[OF ne less.prems(2)] by blast
    have sub: "mget (mdel ?o m) \<subseteq>\<^sub>m mget m" by (auto simp: map_le_def mget_mdel split: if_splits)
    have fin: "finite {j. \<exists>u. mget m j = Some u \<and> P u}" for P
      by (rule finite_subset[OF _ finite_dom_mget[of m]]) auto
    have "length (mentries (mdel ?o m)) < length (mentries m)"
      unfolding size_mentries dom_mdel using v0 by (intro psubset_card_mono finite_dom_mget) auto
    moreover have "mget (mdel ?o m) [] = None" using less.prems(2) by (simp add: mget_mdel)
    ultimately obtain m' where m': "evictOldestLocked maxSize (mdel ?o m) = Some m'" "int (length (mentries m')) \<le> maxSize" "mget m' \<subseteq>\<^sub>m mget (mdel ?o m)"
      and gone: "\<And>k v. mget (mdel ?o m) k = Some v \<Longrightarrow> mget m' k \<noteq> Some v \<Longrightarrow>
        maxSize < int (card {j. \<exists>u. mget (mdel ?o m) j = Some u \<and> asn_IssuedAt v \<le> asn_IssuedAt u})"
      using less.hyps[of "mdel ?o m"] less.prems(1) by blast
    have "evictOldestLocked maxSize m = Some m'" using True m'(1) by (subst evictOldestLocked.simps) simp
    moreover have "maxSize < int (card {j. \<exists>u. mget m j = Some u \<and> asn_IssuedAt v \<le> asn_IssuedAt u})"
      if k: "mget m k = Some v" "mget m' k \<noteq> Some v" for k v
    proof (cases "k = ?o")
      case True
      then have "{j. \<exists>u. mget m j = Some u \<and> asn_IssuedAt v \<le> asn_IssuedAt u} = dom (mget m)" using k(1) v0 least by auto
      then show ?thesis using \<open>int (length (mentries m)) > maxSize\<close> by (simp add: size_mentries)
    next
      case False
      then have "maxSize < int (card {j. \<exists>u. mget (mdel ?o m) j = Some u \<and> asn_IssuedAt v \<le> asn_IssuedAt u})"
        using gone[of k v] k by (simp add: mget_mdel)
      also have "\<dots> \<le> int (card {j. \<exists>u. mget m j = Some u \<and> asn_IssuedAt v \<le> asn_IssuedAt u})"
        unfolding of_nat_le_iff by (rule card_mono[OF fin]) (auto simp: mget_mdel split: if_splits)
      finally show ?thesis .
    qed
    ultimately show ?thesis using m' sub map_le_trans by blast
  qed
qed

section \<open>The interface\<close>

text \<open>
  What the server may rely on: a nonce is accepted exactly when it is live, it is not live afterwards, only \<^verbatim>\<open>Issue\<close> makes a nonce live,
  and the passing of time makes none live. \<open>ok\<close> is the invariant of the implementation. A call that fails changes nothing that is live.
\<close>

locale nonce_store =
  fixes ok :: "'s \<Rightarrow> bool" and live :: "'s \<Rightarrow> time \<Rightarrow> string set"
    and issue :: "'s \<Rightarrow> error option \<Rightarrow> string \<Rightarrow> time \<Rightarrow> time \<Rightarrow> (unit result \<times> 's) option"
    and consume :: "'s \<Rightarrow> error option \<Rightarrow> string \<Rightarrow> time \<Rightarrow> bool result \<times> 's"
  assumes live_fades: "ok s \<Longrightarrow> t \<le> t' \<Longrightarrow> live s t' \<subseteq> live s t"
    and issue_returns: "ok s \<Longrightarrow> n \<noteq> [] \<Longrightarrow> \<exists>r s'. issue s err n t e = Some (r, s') \<and> ok s'"
    and issue_live: "ok s \<Longrightarrow> n \<noteq> [] \<Longrightarrow> issue s err n t e = Some (r, s') \<Longrightarrow> t \<le> t' \<Longrightarrow>
        live s' t' \<subseteq> live s t' \<union> (if r = Inr () \<and> t' < e then {n} else {})"
    and issued_live: "ok s \<Longrightarrow> n \<noteq> [] \<Longrightarrow> issue s err n t e = Some (Inr (), s') \<Longrightarrow> t \<le> t' \<Longrightarrow> t' < e \<Longrightarrow> n \<in> live s' t'"
    and consume_ok: "ok s \<Longrightarrow> consume s err n t = (q, s') \<Longrightarrow> ok s'"
    and consume_accepts: "ok s \<Longrightarrow> consume s err n t = (Inr b, s') \<Longrightarrow> b \<longleftrightarrow> n \<in> live s t"
    and consume_live: "ok s \<Longrightarrow> consume s err n t = (q, s') \<Longrightarrow> t \<le> t' \<Longrightarrow>
        live s' t' = live s t' - (if q = Inr True then {n} else {})"

text \<open>A trace of calls, and what it did with one nonce.\<close>

datatype nonceCall = IssueCall "error option" string time time | ConsumeCall "error option" string time

fun callTime :: "nonceCall \<Rightarrow> time" where
  "callTime (IssueCall err n t e) = t"
| "callTime (ConsumeCall err n t) = t"

fun callNonce :: "nonceCall \<Rightarrow> string" where
  "callNonce (IssueCall err n t e) = n"
| "callNonce (ConsumeCall err n t) = n"

definition issuesOf :: "string \<Rightarrow> nonceCall list \<Rightarrow> nat" where
  "issuesOf n calls = length (filter (\<lambda>c. case c of IssueCall err m t e \<Rightarrow> m = n | ConsumeCall err m t \<Rightarrow> False) calls)"

text \<open>The number of times a nonce is accepted in a run of an implementation.\<close>

fun acceptedOf ::
  "('s \<Rightarrow> error option \<Rightarrow> string \<Rightarrow> time \<Rightarrow> time \<Rightarrow> (unit result \<times> 's) option) \<Rightarrow>
   ('s \<Rightarrow> error option \<Rightarrow> string \<Rightarrow> time \<Rightarrow> bool result \<times> 's) \<Rightarrow> string \<Rightarrow> nonceCall list \<Rightarrow> 's \<Rightarrow> nat" where
  "acceptedOf issue consume n [] s = 0"
| "acceptedOf issue consume n (IssueCall err m t e # calls) s =
     (case issue s err m t e of None \<Rightarrow> 0 | Some (r, s') \<Rightarrow> acceptedOf issue consume n calls s')"
| "acceptedOf issue consume n (ConsumeCall err m t # calls) s =
     (case consume s err m t of (r, s') \<Rightarrow> (if m = n \<and> r = Inr True then 1 else 0) + acceptedOf issue consume n calls s')"

context nonce_store
begin

text \<open>A nonce is accepted at most once for each time it was issued.\<close>

lemma accepted_at_most_issued:
  assumes "ok s" "sorted (map callTime calls)" "\<forall>c \<in> set calls. callNonce c \<noteq> []" "\<forall>c \<in> set calls. t0 \<le> callTime c"
  shows "acceptedOf issue consume n calls s \<le> issuesOf n calls + (if n \<in> live s t0 then 1 else 0)"
  using assms
proof (induction calls arbitrary: s t0)
  case (Cons c calls)
  note IH = Cons.IH[of _ "callTime c"]
  have later: "\<forall>d \<in> set calls. callTime c \<le> callTime d" "sorted (map callTime calls)" using Cons.prems(2) by auto
  have live: "live s (callTime c) \<subseteq> live s t0" using live_fades[OF Cons.prems(1)] Cons.prems(4) by simp
  show ?case
  proof (cases c)
    case (IssueCall err m t e)
    then have m: "m \<noteq> []" using Cons.prems(3) by simp
    obtain r s' where run: "issue s err m t e = Some (r, s')" "ok s'" using issue_returns[OF Cons.prems(1) m] by blast
    have "n \<in> live s' t \<Longrightarrow> n \<in> live s t0 \<or> m = n"
      using issue_live[OF Cons.prems(1) m run(1), of t] live IssueCall by (auto split: if_splits)
    then show ?thesis using IH[of s'] run later Cons.prems(3) IssueCall by (auto simp: issuesOf_def split: if_splits)
  next
    case (ConsumeCall err m t)
    obtain r s' where run: "consume s err m t = (r, s')" by (cases "consume s err m t")
    have "r = Inr True \<Longrightarrow> m \<in> live s t" using consume_accepts[OF Cons.prems(1)] run by blast
    moreover have "live s' t = live s t - (if r = Inr True then {m} else {})" using consume_live[OF Cons.prems(1) run] by simp
    ultimately show ?thesis
      using IH[of s'] consume_ok[OF Cons.prems(1) run] run later live Cons.prems(3) ConsumeCall by (auto simp: issuesOf_def split: if_splits)
  qed
qed (simp add: issuesOf_def)

end

section \<open>The in-memory store keeps the contract\<close>

definition memoryLive :: "acmeMemoryNonceStore \<Rightarrow> time \<Rightarrow> string set" where
  "memoryLive s now = {n. \<exists>v. mget (ans_nonces s) n = Some v \<and> asn_ExpiresAt v > now}"

definition memoryOk :: "acmeMemoryNonceStore \<Rightarrow> bool" where
  "memoryOk s \<longleftrightarrow> 0 < ans_maxSize s \<and> mget (ans_nonces s) [] = None \<and> int (length (mentries (ans_nonces s))) \<le> ans_maxSize s"

lemma memory_Issue_cases:
  assumes "memoryOk s" "n \<noteq> []"
  obtains (cancelled) err where "ctxErr = Some err" "acmeMemoryNonceStore_Issue s ctxErr n t e = Some (Inl err, s)"
  | (stored) m where "ctxErr = None"
      "acmeMemoryNonceStore_Issue s ctxErr n t e = Some (Inr (), s\<lparr>ans_nonces := mput n \<lparr>asn_IssuedAt = t, asn_ExpiresAt = e\<rparr> m\<rparr>)"
      "int (length (mentries m)) \<le> ans_maxSize s - 1" "\<And>k v. mget m k = Some v \<Longrightarrow> mget (ans_nonces s) k = Some v \<and> asn_ExpiresAt v > t"
      "\<And>k v. mget (ans_nonces s) k = Some v \<Longrightarrow> asn_ExpiresAt v > t \<Longrightarrow> mget m k \<noteq> Some v \<Longrightarrow>
        ans_maxSize s \<le> int (card {j. \<exists>u. mget (ans_nonces s) j = Some u \<and> asn_IssuedAt v \<le> asn_IssuedAt u})"
proof (cases ctxErr)
  case (Some err)
  then show ?thesis using cancelled by (simp add: acmeMemoryNonceStore_Issue_def)
next
  case None
  let ?m0 = "removeExpiredLocked t (ans_nonces s)"
  have le: "mget ?m0 \<subseteq>\<^sub>m mget (ans_nonces s)" by (auto simp: map_le_def mget_removeExpired split: option.splits if_splits)
  have "mget ?m0 [] = None" using assms(1) by (simp add: mget_removeExpired memoryOk_def)
  then obtain m where m: "evictOldestLocked (ans_maxSize s - 1) ?m0 = Some m" "int (length (mentries m)) \<le> ans_maxSize s - 1" "mget m \<subseteq>\<^sub>m mget ?m0"
    and gone: "\<And>k v. mget ?m0 k = Some v \<Longrightarrow> mget m k \<noteq> Some v \<Longrightarrow>
        ans_maxSize s - 1 < int (card {j. \<exists>u. mget ?m0 j = Some u \<and> asn_IssuedAt v \<le> asn_IssuedAt u})"
    using evict_returns[of "ans_maxSize s - 1" ?m0] assms(1) by (auto simp: memoryOk_def)
  have mono: "card {j. \<exists>u. mget ?m0 j = Some u \<and> P u} \<le> card {j. \<exists>u. mget (ans_nonces s) j = Some u \<and> P u}" for P
    using le by (intro card_mono finite_subset[OF _ finite_dom_mget[of "ans_nonces s"]]) (auto simp: map_le_def dom_def)
  have "ans_maxSize s \<le> int (card {j. \<exists>u. mget (ans_nonces s) j = Some u \<and> asn_IssuedAt v \<le> asn_IssuedAt u})"
    if "mget (ans_nonces s) k = Some v" "asn_ExpiresAt v > t" "mget m k \<noteq> Some v" for k v
    using gone[of k v] that mget_removeExpired[of t "ans_nonces s" k] mono[of "\<lambda>u. asn_IssuedAt v \<le> asn_IssuedAt u"] by fastforce
  moreover have "mget (ans_nonces s) k = Some v \<and> asn_ExpiresAt v > t" if "mget m k = Some v" for k v
  proof -
    have "mget ?m0 k = Some v" using m(3) that by (force simp: map_le_def)
    then show ?thesis by (simp add: mget_removeExpired split: option.splits if_splits)
  qed
  ultimately show ?thesis using stored[of m] None m(1,2) by (simp add: acmeMemoryNonceStore_Issue_def)
qed

interpretation memory_nonces: nonce_store memoryOk memoryLive acmeMemoryNonceStore_Issue acmeMemoryNonceStore_Consume
proof
  fix s :: acmeMemoryNonceStore and t t' e :: time and n :: string and err and s'
  assume ok: "memoryOk s"
  show "t \<le> t' \<Longrightarrow> memoryLive s t' \<subseteq> memoryLive s t" by (force simp: memoryLive_def)
  assume n: "n \<noteq> []"
  have size: "int (length (mentries (mput n v m))) \<le> int (length (mentries m)) + 1" for m and v :: acmeStoredNonce
    unfolding size_mentries dom_mput by (simp add: card_insert_if finite_dom_mget)
  show "\<exists>r s'. acmeMemoryNonceStore_Issue s err n t e = Some (r, s') \<and> memoryOk s'"
    using ok n
  proof (cases rule: memory_Issue_cases[where t = t and e = e and ctxErr = err])
    case (stored m)
    have "mget m [] = None" using stored(4) ok by (cases "mget m []") (auto simp: memoryOk_def)
    then show ?thesis using stored(2,3) ok n size[of "\<lparr>asn_IssuedAt = t, asn_ExpiresAt = e\<rparr>" m]
      by (auto simp: memoryOk_def mget_mput)
  qed (use ok in auto)
  fix r
  assume run: "acmeMemoryNonceStore_Issue s err n t e = Some (r, s')" and t: "t \<le> t'"
  show "memoryLive s' t' \<subseteq> memoryLive s t' \<union> (if r = Inr () \<and> t' < e then {n} else {})"
    using ok n
  proof (cases rule: memory_Issue_cases[where t = t and e = e and ctxErr = err])
    case (stored m)
    then show ?thesis using run stored(4) by (fastforce simp: memoryLive_def mget_mput split: if_splits)
  qed (use run in auto)
next
  fix s :: acmeMemoryNonceStore and t t' e :: time and n :: string and err and s'
  assume ok: "memoryOk s" "n \<noteq> []" "acmeMemoryNonceStore_Issue s err n t e = Some (Inr (), s')" "t \<le> t'" "t' < e"
  then show "n \<in> memoryLive s' t'"
    by (cases rule: memory_Issue_cases[where t = t and e = e and ctxErr = err, OF ok(1,2)]) (auto simp: memoryLive_def)
next
  fix s :: acmeMemoryNonceStore and t t' :: time and n :: string and err q s'
  assume ok: "memoryOk s" and run: "acmeMemoryNonceStore_Consume s err n t = (q, s')"
  have del: "length (mentries (mdel n m)) \<le> length (mentries m)" for m :: "acmeStoredNonce gomap"
    unfolding size_mentries dom_mdel by (rule card_mono[OF finite_dom_mget]) auto
  have rem: "length (mentries (removeExpiredLocked t m)) \<le> length (mentries m)" for m
    unfolding size_mentries by (rule card_mono[OF finite_dom_mget]) (auto simp: mget_removeExpired split: option.splits if_splits)
  show "memoryOk s'" using run ok del[of "removeExpiredLocked t (ans_nonces s)"] rem[of "ans_nonces s"]
    by (auto simp: acmeMemoryNonceStore_Consume_def memoryOk_def Let_def mget_mdel mget_removeExpired split: option.splits if_splits)
  show "memoryLive s' t' = memoryLive s t' - (if q = Inr True then {n} else {})" if "t \<le> t'"
    using run that by (auto simp: acmeMemoryNonceStore_Consume_def memoryLive_def Let_def mget_mdel mget_removeExpired split: option.splits if_splits)
next
  fix s :: acmeMemoryNonceStore and t :: time and n :: string and err b s'
  assume "acmeMemoryNonceStore_Consume s err n t = (Inr b, s')"
  then show "b \<longleftrightarrow> n \<in> memoryLive s t"
    by (auto simp: acmeMemoryNonceStore_Consume_def memoryLive_def Let_def mget_removeExpired split: option.splits if_splits)
qed

section \<open>The SQL store\<close>

text \<open>
  \<^verbatim>\<open>SQLACMENonceStore\<close> sends two kinds of statements to a database. The database is a parameter: \<open>exec n text args db\<close> is
  \<^verbatim>\<open>db.ExecContext\<close> as the \<open>n\<close>-th call answers it, with the number of rows it affected. What the statements of the store do to the
  table of nonces is the hypothesis of the locale \<open>nonce_table\<close>; a call may fail at any time, and then changes nothing.
\<close>

datatype sqlArg = ArgText string | ArgTime time

type_synonym 'db exec = "error option \<Rightarrow> string \<Rightarrow> sqlArg list \<Rightarrow> 'db \<Rightarrow> int result \<times> 'db"

fun replaceQuestionPlaceholders :: "string \<Rightarrow> nat \<Rightarrow> string" where
  "replaceQuestionPlaceholders [] index = []"
| "replaceQuestionPlaceholders (r # rest) index =
     (if r = CHR ''?'' then (CHR ''$'' # Itoa (int (Suc index))) @ replaceQuestionPlaceholders rest (Suc index)
      else r # replaceQuestionPlaceholders rest index)"

definition SQLACMENonceStore_query :: "string \<Rightarrow> string \<Rightarrow> string" where
  "SQLACMENonceStore_query driver query = (if driver = ''sqlite'' then query else replaceQuestionPlaceholders query 0)"

definition pruneStatement :: string where
  "pruneStatement = ''DELETE FROM acme_nonces WHERE expires_at <= ?''"

definition insertStatement :: string where
  "insertStatement = CHR 0x0A # ''INSERT INTO acme_nonces (nonce, issued_at, expires_at)'' @ CHR 0x0A # ''VALUES (?, ?, ?)'' @ [CHR 0x0A]"

definition consumeStatement :: string where
  "consumeStatement = CHR 0x0A # ''DELETE FROM acme_nonces'' @ CHR 0x0A # ''WHERE nonce = ? AND expires_at > ?'' @ [CHR 0x0A]"

definition SQLACMENonceStore_Issue :: "'db exec \<Rightarrow> string \<Rightarrow> 'db \<Rightarrow> error option \<Rightarrow> string \<Rightarrow> time \<Rightarrow> time \<Rightarrow> unit result \<times> 'db" where
  "SQLACMENonceStore_Issue exec driver db ctxErr nonce issuedAt expiresAt =
     (case exec ctxErr (SQLACMENonceStore_query driver pruneStatement) [ArgTime issuedAt] db of
        (Inl err, db') \<Rightarrow> (Inl err, db')
      | (Inr _, db') \<Rightarrow>
          (case exec ctxErr (SQLACMENonceStore_query driver insertStatement) [ArgText nonce, ArgTime issuedAt, ArgTime expiresAt] db' of
             (Inl err, db'') \<Rightarrow> (Inl err, db'')
           | (Inr _, db'') \<Rightarrow> (Inr (), db'')))"

definition SQLACMENonceStore_Consume :: "'db exec \<Rightarrow> string \<Rightarrow> 'db \<Rightarrow> error option \<Rightarrow> string \<Rightarrow> time \<Rightarrow> bool result \<times> 'db" where
  "SQLACMENonceStore_Consume exec driver db ctxErr nonce now =
     (case exec ctxErr (SQLACMENonceStore_query driver consumeStatement) [ArgText nonce, ArgTime now] db of
        (Inl err, db') \<Rightarrow> (Inl err, db')
      | (Inr rows, db') \<Rightarrow> (Inr (rows = 1), db'))"

text \<open>The numbered placeholders are the question marks, in order.\<close>

locale nonce_table =
  fixes exec :: "'db exec" and driver :: string and rows :: "'db \<Rightarrow> acmeStoredNonce gomap"
  assumes failed: "exec err text args db = (Inl e, db') \<Longrightarrow> rows db' = rows db"
    and prune: "exec err (SQLACMENonceStore_query driver pruneStatement) [ArgTime now] db = (Inr c, db') \<Longrightarrow>
        mget (rows db') k = (case mget (rows db) k of None \<Rightarrow> None | Some v \<Rightarrow> if asn_ExpiresAt v \<le> now then None else Some v)"
    and insertion: "exec err (SQLACMENonceStore_query driver insertStatement) [ArgText n, ArgTime t, ArgTime e1] db = (Inr c, db') \<Longrightarrow>
        mget (rows db) n = None \<and> mget (rows db') k = (if k = n then Some \<lparr>asn_IssuedAt = t, asn_ExpiresAt = e1\<rparr> else mget (rows db) k)"
    and consumption: "exec err (SQLACMENonceStore_query driver consumeStatement) [ArgText n, ArgTime now] db = (Inr c, db') \<Longrightarrow>
        (c = 1 \<longleftrightarrow> (\<exists>v. mget (rows db) n = Some v \<and> asn_ExpiresAt v > now)) \<and>
        mget (rows db') k = (if k = n \<and> (\<exists>v. mget (rows db) n = Some v \<and> asn_ExpiresAt v > now) then None else mget (rows db) k)"

text \<open>The rows of a table that would be accepted, and the SQL store in the shape of the interface.\<close>

definition tableLive :: "('db \<Rightarrow> acmeStoredNonce gomap) \<Rightarrow> 'db \<Rightarrow> time \<Rightarrow> string set" where
  "tableLive rows db now = {n. \<exists>v. mget (rows db) n = Some v \<and> asn_ExpiresAt v > now}"

definition tableIssue :: "'db exec \<Rightarrow> string \<Rightarrow> 'db \<Rightarrow> error option \<Rightarrow> string \<Rightarrow> time \<Rightarrow> time \<Rightarrow> (unit result \<times> 'db) option" where
  "tableIssue exec driver db err n t e = Some (SQLACMENonceStore_Issue exec driver db err n t e)"

context nonce_table
begin

lemma Issue_rows:
  assumes "SQLACMENonceStore_Issue exec driver db err n t e = (r, db')"
  shows "r = Inr () \<Longrightarrow> mget (rows db') k = (if k = n then Some \<lparr>asn_IssuedAt = t, asn_ExpiresAt = e\<rparr>
      else case mget (rows db) k of None \<Rightarrow> None | Some v \<Rightarrow> if asn_ExpiresAt v \<le> t then None else Some v)"
    and "r = Inl er \<Longrightarrow> mget (rows db') k = mget (rows db) k \<or> (\<exists>v. mget (rows db) k = Some v \<and> asn_ExpiresAt v \<le> t \<and> mget (rows db') k = None)"
proof -
  obtain r1 db1 where e1: "exec err (SQLACMENonceStore_query driver pruneStatement) [ArgTime t] db = (r1, db1)" by force
  obtain r2 db2 where e2: "exec err (SQLACMENonceStore_query driver insertStatement) [ArgText n, ArgTime t, ArgTime e] db1 = (r2, db2)" by force
  show "mget (rows db') k = (if k = n then Some \<lparr>asn_IssuedAt = t, asn_ExpiresAt = e\<rparr>
      else case mget (rows db) k of None \<Rightarrow> None | Some v \<Rightarrow> if asn_ExpiresAt v \<le> t then None else Some v)" if "r = Inr ()"
    using assms that e1 e2 prune[of err t db _ db1 k] insertion[of err n t e db1 _ db2 k]
    by (cases r1; cases r2) (auto simp: SQLACMENonceStore_Issue_def)
  show "mget (rows db') k = mget (rows db) k \<or> (\<exists>v. mget (rows db) k = Some v \<and> asn_ExpiresAt v \<le> t \<and> mget (rows db') k = None)" if "r = Inl er"
  proof (cases r1)
    case (Inl x)
    then show ?thesis using assms that e1 failed[OF e1[unfolded Inl]] by (auto simp: SQLACMENonceStore_Issue_def)
  next
    case (Inr c)
    then have "rows db' = rows db1" using assms that e1 e2 failed[of err _ _ db1 _ db2] by (cases r2) (auto simp: SQLACMENonceStore_Issue_def)
    then show ?thesis using prune[OF e1[unfolded Inr], of k] by (auto split: option.splits)
  qed
qed

lemma Consume_rows:
  assumes "SQLACMENonceStore_Consume exec driver db err n t = (r, db')"
  shows "r = Inr b \<Longrightarrow> (b \<longleftrightarrow> (\<exists>v. mget (rows db) n = Some v \<and> asn_ExpiresAt v > t))"
    and "mget (rows db') k = (if k = n \<and> r = Inr True then None else mget (rows db) k)"
proof -
  obtain r1 db1 where e1: "exec err (SQLACMENonceStore_query driver consumeStatement) [ArgText n, ArgTime t] db = (r1, db1)" by force
  show "r = Inr b \<Longrightarrow> (b \<longleftrightarrow> (\<exists>v. mget (rows db) n = Some v \<and> asn_ExpiresAt v > t))"
    using assms e1 consumption[of err n t db _ db1] by (cases r1) (auto simp: SQLACMENonceStore_Consume_def)
  show "mget (rows db') k = (if k = n \<and> r = Inr True then None else mget (rows db) k)"
    using assms e1 consumption[of err n t db _ db1 k] failed[of err _ _ db _ db1] by (cases r1) (auto simp: SQLACMENonceStore_Consume_def)
qed

end

sublocale nonce_table < sql_nonces: nonce_store "\<lambda>_. True" "tableLive rows" "tableIssue exec driver" "SQLACMENonceStore_Consume exec driver"
proof
  fix db db' :: 'db and t t' e :: time and n :: string and err r
  show "t \<le> t' \<Longrightarrow> tableLive rows db t' \<subseteq> tableLive rows db t" by (force simp: tableLive_def)
  show "\<exists>r db'. tableIssue exec driver db err n t e = Some (r, db') \<and> True" by (simp add: tableIssue_def prod_eq_iff)
  assume "tableIssue exec driver db err n t e = Some (r, db')" and t: "t \<le> t'"
  then have run: "SQLACMENonceStore_Issue exec driver db err n t e = (r, db')" by (simp add: tableIssue_def)
  show "tableLive rows db' t' \<subseteq> tableLive rows db t' \<union> (if r = Inr () \<and> t' < e then {n} else {})"
  proof
    fix k assume "k \<in> tableLive rows db' t'"
    then show "k \<in> tableLive rows db t' \<union> (if r = Inr () \<and> t' < e then {n} else {})"
      using Issue_rows(1)[OF run, of k] Issue_rows(2)[OF run, of _ k] by (cases r) (auto simp: tableLive_def split: if_splits option.splits)
  qed
next
  fix db db' :: 'db and t t' e :: time and n :: string and err
  assume "tableIssue exec driver db err n t e = Some (Inr (), db')" "t \<le> t'" "t' < e"
  then show "n \<in> tableLive rows db' t'" using Issue_rows(1)[of db err n t e "Inr ()" db' n] by (simp add: tableIssue_def tableLive_def)
next
  fix db db' :: 'db and t t' :: time and n :: string and err q
  assume run: "SQLACMENonceStore_Consume exec driver db err n t = (q, db')" and t: "t \<le> t'"
  then show "tableLive rows db' t' = tableLive rows db t' - (if q = Inr True then {n} else {})"
    using Consume_rows(2)[OF run] by (auto simp: tableLive_def)
qed (use Consume_rows(1) in \<open>auto simp: tableLive_def\<close>)

context nonce_table
begin

lemmas table_single_use = sql_nonces.accepted_at_most_issued

end

section \<open>A table that does what the statements say\<close>

text \<open>The hypotheses on the database can be met: a map that reads the statements of the store.\<close>

definition tableExec :: "string \<Rightarrow> acmeStoredNonce gomap exec" where
  "tableExec driver err text args db =
     (case err of
        Some e \<Rightarrow> (Inl e, db)
      | None \<Rightarrow>
          (case args of
             [ArgTime now] \<Rightarrow>
               if text = SQLACMENonceStore_query driver pruneStatement then (Inr 0, removeExpiredLocked now db) else (Inl ErrInvalidRequest, db)
           | [ArgText n, ArgTime now] \<Rightarrow>
               if text = SQLACMENonceStore_query driver consumeStatement then
                 (case mget db n of
                    None \<Rightarrow> (Inr 0, db)
                  | Some v \<Rightarrow> if asn_ExpiresAt v > now then (Inr 1, mdel n db) else (Inr 0, db))
               else (Inl ErrInvalidRequest, db)
           | [ArgText n, ArgTime t, ArgTime e] \<Rightarrow>
               if text = SQLACMENonceStore_query driver insertStatement \<and> mget db n = None
               then (Inr 1, mput n \<lparr>asn_IssuedAt = t, asn_ExpiresAt = e\<rparr> db) else (Inl ErrStorageFailure, db)
           | _ \<Rightarrow> (Inl ErrInvalidRequest, db)))"

interpretation plain_table: nonce_table "tableExec driver" driver "\<lambda>db. db"
proof
  fix err e stmt args and db db' :: "acmeStoredNonce gomap"
  assume "tableExec driver err stmt args db = (Inl e, db')"
  then show "db' = db"
    by (auto simp: tableExec_def split: option.splits list.splits sqlArg.splits if_splits)
next
  fix err c and now :: time and db db' :: "acmeStoredNonce gomap" and k
  assume "tableExec driver err (SQLACMENonceStore_query driver pruneStatement) [ArgTime now] db = (Inr c, db')"
  then show "mget db' k = (case mget db k of None \<Rightarrow> None | Some v \<Rightarrow> if asn_ExpiresAt v \<le> now then None else Some v)"
    by (auto simp: tableExec_def mget_removeExpired split: option.splits)
next
  fix err c n and t e1 :: time and db db' :: "acmeStoredNonce gomap" and k
  assume "tableExec driver err (SQLACMENonceStore_query driver insertStatement) [ArgText n, ArgTime t, ArgTime e1] db = (Inr c, db')"
  then show "mget db n = None \<and> mget db' k = (if k = n then Some \<lparr>asn_IssuedAt = t, asn_ExpiresAt = e1\<rparr> else mget db k)"
    by (auto simp: tableExec_def mget_mput split: option.splits if_splits)
next
  fix err c n and now :: time and db db' :: "acmeStoredNonce gomap" and k
  assume "tableExec driver err (SQLACMENonceStore_query driver consumeStatement) [ArgText n, ArgTime now] db = (Inr c, db')"
  then show "(c = 1 \<longleftrightarrow> (\<exists>v. mget db n = Some v \<and> asn_ExpiresAt v > now)) \<and>
      mget db' k = (if k = n \<and> (\<exists>v. mget db n = Some v \<and> asn_ExpiresAt v > now) then None else mget db k)"
    by (auto simp: tableExec_def mget_mdel split: option.splits if_splits)
qed

text \<open>The store after a run of calls.\<close>

fun afterCalls :: "nonceCall list \<Rightarrow> acmeMemoryNonceStore \<Rightarrow> acmeMemoryNonceStore option" where
  "afterCalls [] s = Some s"
| "afterCalls (IssueCall err n t e # calls) s =
     (case acmeMemoryNonceStore_Issue s err n t e of None \<Rightarrow> None | Some (r, s') \<Rightarrow> afterCalls calls s')"
| "afterCalls (ConsumeCall err n t # calls) s = afterCalls calls (snd (acmeMemoryNonceStore_Consume s err n t))"

fun isIssue :: "nonceCall \<Rightarrow> bool" where
  "isIssue (IssueCall err n t e) \<longleftrightarrow> True"
| "isIssue (ConsumeCall err n t) \<longleftrightarrow> False"

lemma calls_keep_young:
  assumes "memoryOk s" "mget (ans_nonces s) n = Some v" "\<forall>c \<in> set calls. callNonce c \<notin> {[], n} \<and> callTime c < asn_ExpiresAt v"
    and "int (card {j. \<exists>u. mget (ans_nonces s) j = Some u \<and> asn_IssuedAt v \<le> asn_IssuedAt u} + length (filter isIssue calls)) \<le> ans_maxSize s"
  shows "\<exists>s'. afterCalls calls s = Some s' \<and> mget (ans_nonces s') n = Some v"
  using assms
proof (induction calls arbitrary: s)
  case (Cons c calls)
  let ?young = "\<lambda>s. {j. \<exists>u. mget (ans_nonces s) j = Some u \<and> asn_IssuedAt v \<le> asn_IssuedAt u}"
  have fin: "finite (?young s)" for s by (rule finite_subset[OF _ finite_dom_mget[of "ans_nonces s"]]) auto
  show ?case
  proof (cases c)
    case (IssueCall err m t e)
    then have m: "m \<noteq> []" "m \<noteq> n" "t < asn_ExpiresAt v" using Cons.prems(3) by auto
    obtain r s1 where run: "acmeMemoryNonceStore_Issue s err m t e = Some (r, s1)" "memoryOk s1"
      using memory_nonces.issue_returns[OF Cons.prems(1) m(1)] by blast
    have "mget (ans_nonces s1) n = Some v \<and> card (?young s1) \<le> Suc (card (?young s)) \<and> ans_maxSize s1 = ans_maxSize s"
      using Cons.prems(1) m(1)
    proof (cases rule: memory_Issue_cases[where ctxErr = err and t = t and e = e])
      case (stored mm)
      have s1: "s1 = s\<lparr>ans_nonces := mput m \<lparr>asn_IssuedAt = t, asn_ExpiresAt = e\<rparr> mm\<rparr>" using run(1) stored(2) by simp
      have "mget mm n = Some v" using stored(5)[OF Cons.prems(2) m(3)] Cons.prems(4) IssueCall by force
      moreover have "?young s1 \<subseteq> insert m (?young s)" using stored(4) by (auto simp: s1 mget_mput split: if_splits)
      then have "card (?young s1) \<le> card (insert m (?young s))" using fin by (intro card_mono) auto
      then have "card (?young s1) \<le> Suc (card (?young s))" using fin[of s] by (simp add: card_insert_if split: if_splits)
      ultimately show ?thesis using m(2) by (simp add: s1 mget_mput)
    qed (use run Cons.prems(2) in simp)
    then show ?thesis using Cons.IH[OF run(2)] run(1) Cons.prems(3,4) IssueCall by simp
  next
    case (ConsumeCall err m t)
    obtain q s1 where run: "acmeMemoryNonceStore_Consume s err m t = (q, s1)" by force
    have m: "m \<noteq> n" "t < asn_ExpiresAt v" using Cons.prems(3) ConsumeCall by auto
    have "mget (ans_nonces s1) n = Some v" "\<And>k u. mget (ans_nonces s1) k = Some u \<Longrightarrow> mget (ans_nonces s) k = Some u" "ans_maxSize s1 = ans_maxSize s"
      using run m Cons.prems(2)
      by (auto simp: acmeMemoryNonceStore_Consume_def Let_def mget_mdel mget_removeExpired split: option.splits if_splits)
    moreover from this(2) have "card (?young s1) \<le> card (?young s)" using fin by (intro card_mono) auto
    ultimately show ?thesis
      using Cons.IH[of s1] memory_nonces.consume_ok[OF Cons.prems(1) run] run Cons.prems(3,4) ConsumeCall by simp
  qed
qed simp

section \<open>Properties\<close>

text \<open>
  C24: the in-memory nonce store implements a set of live nonces. \<^verbatim>\<open>Consume\<close> accepts exactly the live nonces and removes the one it accepts,
  whatever the later instant at which the set is observed. \<^verbatim>\<open>Issue\<close> returns, makes the new nonce live until it expires and adds nothing else;
  a live nonce is lost only when the store is full of nonces issued no earlier than it. At most \<^verbatim>\<open>maxSize\<close> nonces are ever held.
\<close>

theorem memory_nonces_refine_set:
  assumes "memoryOk s" and "n \<noteq> []" and "t \<le> t'"
  shows "\<exists>s' s''. acmeMemoryNonceStore_Consume s None m t = (Inr (m \<in> memoryLive s t), s') \<and> memoryOk s' \<and>
      memoryLive s' t' = memoryLive s t' - {m} \<and>
      acmeMemoryNonceStore_Issue s None n t e = Some (Inr (), s'') \<and> memoryOk s'' \<and>
      memoryLive s'' t' \<subseteq> memoryLive s t' \<union> (if t' < e then {n} else {}) \<and> (t' < e \<longrightarrow> n \<in> memoryLive s'' t') \<and>
      (\<forall>k v. mget (ans_nonces s) k = Some v \<longrightarrow> k \<noteq> n \<longrightarrow> asn_ExpiresAt v > t' \<longrightarrow> k \<notin> memoryLive s'' t' \<longrightarrow>
         ans_maxSize s \<le> int (card {j. \<exists>u. mget (ans_nonces s) j = Some u \<and> asn_IssuedAt v \<le> asn_IssuedAt u}))"
proof -
  obtain q s' where c: "acmeMemoryNonceStore_Consume s None m t = (q, s')" by force
  then obtain b where b: "q = Inr b" by (auto simp: acmeMemoryNonceStore_Consume_def Let_def split: option.splits)
  note consume = memory_nonces.consume_accepts[OF assms(1) c[unfolded b]] memory_nonces.consume_ok[OF assms(1) c]
    memory_nonces.consume_live[OF assms(1) c assms(3)]
  have left: "memoryLive s' t' = memoryLive s t' - {m}"
    using consume(1,3) memory_nonces.live_fades[OF assms(1,3)] by (auto simp: b split: if_splits)
  obtain r s'' where i: "acmeMemoryNonceStore_Issue s None n t e = Some (r, s'')" "memoryOk s''"
    using memory_nonces.issue_returns[OF assms(1,2)] by blast
  have full: "r = Inr () \<and> (\<forall>k v. mget (ans_nonces s) k = Some v \<longrightarrow> k \<noteq> n \<longrightarrow> asn_ExpiresAt v > t' \<longrightarrow> k \<notin> memoryLive s'' t' \<longrightarrow>
       ans_maxSize s \<le> int (card {j. \<exists>u. mget (ans_nonces s) j = Some u \<and> asn_IssuedAt v \<le> asn_IssuedAt u}))"
    using assms(1,2)
  proof (cases rule: memory_Issue_cases[where ctxErr = None and t = t and e = e])
    case (stored mm)
    have "s'' = s\<lparr>ans_nonces := mput n \<lparr>asn_IssuedAt = t, asn_ExpiresAt = e\<rparr> mm\<rparr>" "r = Inr ()" using i(1) stored(2) by auto
    then show ?thesis using stored(5) assms(3) by (fastforce simp: memoryLive_def mget_mput)
  qed simp
  have "memoryLive s'' t' \<subseteq> memoryLive s t' \<union> (if t' < e then {n} else {})"
    using memory_nonces.issue_live[OF assms(1,2) i(1) assms(3)] full by simp
  moreover have "t' < e \<longrightarrow> n \<in> memoryLive s'' t'" using memory_nonces.issued_live[OF assms(1,2) _ assms(3)] i(1) full by blast
  moreover have "acmeMemoryNonceStore_Consume s None m t = (Inr (m \<in> memoryLive s t), s')" using c b consume(1) by simp
  ultimately show ?thesis using left full i consume(2) by blast
qed

text \<open>
  C25: in every run of calls, with clocks that do not go back, a nonce is accepted at most once for each time it was issued; both stores,
  the in-memory one and the one over a database whose statements do what they say.
\<close>

theorem nonce_single_use:
  assumes "nonce_table exec driver rows" and "\<forall>k. mget (rows db) k = None" and "0 < maxSize"
    and "sorted (map callTime calls)" and "\<forall>c \<in> set calls. callNonce c \<noteq> []"
  shows "acceptedOf acmeMemoryNonceStore_Issue acmeMemoryNonceStore_Consume n calls (newACMEMemoryNonceStore maxSize) \<le> issuesOf n calls \<and>
    acceptedOf (tableIssue exec driver) (SQLACMENonceStore_Consume exec driver) n calls db \<le> issuesOf n calls"
proof -
  obtain t0 where t0: "\<forall>c \<in> set calls. t0 \<le> callTime c"
    by (rule that[of "Min (callTime ` set calls)"]) simp
  note sql = nonce_table.table_single_use[OF assms(1) TrueI assms(4,5) t0, of n db]
  have "memoryOk (newACMEMemoryNonceStore maxSize)" using assms(3) by (simp add: memoryOk_def newACMEMemoryNonceStore_def mentries_mempty)
  note mem = memory_nonces.accepted_at_most_issued[OF this assms(4,5) t0, of n]
  show ?thesis using sql mem assms(2) by (simp add: tableLive_def memoryLive_def newACMEMemoryNonceStore_def)
qed

text \<open>
  A nonce is not lost early. When every nonce in the store is older, a nonce that has been issued is accepted at any time before it
  expires, as long as it has not been used and fewer than \<^verbatim>\<open>maxSize\<close> other nonces have been issued since.
\<close>

theorem nonce_survives:
  assumes "memoryOk s" and "n \<noteq> []" and "\<forall>k u. mget (ans_nonces s) k = Some u \<longrightarrow> asn_IssuedAt u < t"
    and "acmeMemoryNonceStore_Issue s None n t e = Some (r, s1)"
    and "\<forall>c \<in> set calls. callNonce c \<notin> {[], n} \<and> callTime c < e" and "int (length (filter isIssue calls)) < ans_maxSize s" and "t' < e"
  shows "\<exists>s2 s3. afterCalls calls s1 = Some s2 \<and> acmeMemoryNonceStore_Consume s2 None n t' = (Inr True, s3)"
proof -
  let ?v = "\<lparr>asn_IssuedAt = t, asn_ExpiresAt = e\<rparr>"
  have ok: "memoryOk s1" using memory_nonces.issue_returns[OF assms(1,2)] assms(4) by (metis option.inject prod.inject)
  have "mget (ans_nonces s1) n = Some ?v \<and> ans_maxSize s1 = ans_maxSize s \<and>
      {j. \<exists>u. mget (ans_nonces s1) j = Some u \<and> asn_IssuedAt ?v \<le> asn_IssuedAt u} = {n}"
    using assms(1,2)
  proof (cases rule: memory_Issue_cases[where ctxErr = None and t = t and e = e])
    case (stored m)
    have s1: "s1 = s\<lparr>ans_nonces := mput n ?v m\<rparr>" using assms(4) stored(2) by simp
    have "asn_IssuedAt u < t" if "mget m j = Some u" for j u using stored(4)[OF that] assms(3) by blast
    then show ?thesis by (fastforce simp: s1 mget_mput split: if_splits)
  qed simp
  moreover from this have "int (card {j. \<exists>u. mget (ans_nonces s1) j = Some u \<and> asn_IssuedAt ?v \<le> asn_IssuedAt u} + length (filter isIssue calls)) \<le> ans_maxSize s1"
    using assms(6) by simp
  ultimately obtain s2 where "afterCalls calls s1 = Some s2" "mget (ans_nonces s2) n = Some ?v"
    using calls_keep_young[OF ok, of n ?v calls] assms(5) by auto
  then show ?thesis using assms(7) by (simp add: acmeMemoryNonceStore_Consume_def Let_def mget_removeExpired)
qed

end
