(* ===== verification/Http.thy ===== *)
theory Http
  imports HttpTypes Nonces
begin

unbundle bit_operations_syntax

text \<open>
  The HTTP side of the service: requests and responses, the configuration and the state of the \<^verbatim>\<open>Server\<close> of
  \<^verbatim>\<open>internal/httpapi/server.go\<close>, authentication and scopes, the ACME rate limit, client addresses, query parameters, the
  mapping of errors to responses, and the request counters of \<^verbatim>\<open>internal/httpapi/metrics.go\<close>.

  \<^item> A request carries its decoded path segments; \<open>URLPath\<close> is \<^verbatim>\<open>r.URL.Path\<close>, and \<open>rq_Clean\<close> says whether the multiplexer would serve the
    path as it is or redirect to its cleaned form. Header and query lookups are by the name written in the code, first value only.
  \<^item> Reading a JSON body is a parameter (\<open>Codec\<close>): a \<open>decoder\<close> reads one value of a type from the front of a stream, refusing unknown
    members, and returns what is left; the \<open>umj_\<close> functions are \<^verbatim>\<open>json.Unmarshal\<close>. Signature checks, SHA-256, the P-256
    curve, CSR parsing and time parsing are parameters too (\<open>Crypto\<close>).
  \<^item> The state is the world of the service, the nonces, the rate buckets, the counters and how often \<^verbatim>\<open>time.Now\<close> has been read.
    A handler is a function of the state that returns a response, or none when it panics: \<^verbatim>\<open>net/http\<close> then drops the connection.
\<close>

section \<open>Requests and responses\<close>

record Request =
  rq_Method :: string
  rq_Segments :: "string list"
  rq_Clean :: bool
  rq_RequestURI :: string
  rq_Host :: string
  rq_RemoteAddr :: string
  rq_Header :: "string gomap"
  rq_Query :: "string gomap"
  rq_Body :: string
  rq_BodyBroken :: bool
  rq_CtxErr :: "error option"
  rq_PathValues :: "string gomap"
  rq_Actor :: "string option"
  rq_Context :: Context

definition getString :: "string gomap \<Rightarrow> string \<Rightarrow> string" where
  "getString m k = (case mget m k of None \<Rightarrow> [] | Some v \<Rightarrow> v)"

definition Header_Get :: "Request \<Rightarrow> string \<Rightarrow> string" where
  "Header_Get r k = getString (rq_Header r) k"

definition Query_Get :: "Request \<Rightarrow> string \<Rightarrow> string" where
  "Query_Get r k = getString (rq_Query r) k"

definition PathValue :: "Request \<Rightarrow> string \<Rightarrow> string" where
  "PathValue r k = getString (rq_PathValues r) k"

definition URLPath :: "Request \<Rightarrow> string" where
  "URLPath r = concat (map (\<lambda>s. CHR ''/'' # s) (rq_Segments r))"

datatype Body =
    BNone
  | BText string
  | BError string
  | BDirectory "(string \<times> string) list"
  | BVars "int gomap" "int gomap"
  | BIdentity identityResponse
  | BIssuer issuerResponse
  | BOCSPResponder ocspResponderResponse
  | BNotificationEndpoint notificationEndpointResponse
  | BOutboxMessage outboxMessageResponse
  | BAPIKey apiKeyResponse
  | BCertificateProfile certificateProfileResponse
  | BEnrollment enrollmentResponse
  | BCertificate certificateResponse
  | BCRLPublication crlPublicationResponse
  | BACMEAccount acmeAccountResponse
  | BACMEOrder acmeOrderResponse
  | BACMEChallenge acmeChallengeResponse
  | BExpirySLO expirySLOResponse
  | BReplay replayDeadLetterOutboxResponse
  | BScan certificateExpirationScanResponse
  | BPruned pruneAuditEventsResponse
  | BRepaired repairIssuanceAuditEventsResponse
  | BProtocolAccount acmeProtocolAccountResponse
  | BProtocolOrder acmeProtocolOrderResponse
  | BProtocolAuthorization acmeProtocolAuthorizationResponse
  | BProtocolChallenge acmeProtocolChallengeResponse
  | BProblem acmeProblem
  | BIdentities "identityResponse list"
  | BIssuers "issuerResponse list"
  | BOCSPResponders "ocspResponderResponse list"
  | BNotificationEndpoints "notificationEndpointResponse list"
  | BOutboxMessages "outboxMessageResponse list"
  | BAPIKeys "apiKeyResponse list"
  | BCertificateProfiles "certificateProfileResponse list"
  | BEnrollments "enrollmentResponse list"
  | BCertificates "certificateResponse list"
  | BInventory "certificateInventoryEntryResponse list"
  | BAuditEvents "auditEventResponse list"
  | BACMEAccounts "acmeAccountResponse list"
  | BACMEAuthorizations "acmeAuthorizationResponse list"
  | BACMEChallenges "acmeChallengeResponse list"

record Response =
  rs_Status :: int
  rs_Header :: "string gomap"
  rs_Body :: Body

section \<open>Configuration and state\<close>

text \<open>\<^verbatim>\<open>json.Decoder.Decode\<close> with unknown fields disallowed: the value at the front of the stream and the rest of it.\<close>

type_synonym 'a decoder = "string \<Rightarrow> ('a \<times> string) option"

record Codec =
  cdc_createIdentityRequest :: "createIdentityRequest decoder"
  cdc_createIssuerRequest :: "createIssuerRequest decoder"
  cdc_createOCSPResponderRequest :: "createOCSPResponderRequest decoder"
  cdc_createNotificationEndpointRequest :: "createNotificationEndpointRequest decoder"
  cdc_replayDeadLetterOutboxRequest :: "replayDeadLetterOutboxRequest decoder"
  cdc_createAPIKeyRequest :: "createAPIKeyRequest decoder"
  cdc_createCertificateProfileRequest :: "createCertificateProfileRequest decoder"
  cdc_createEnrollmentRequest :: "createEnrollmentRequest decoder"
  cdc_issueCertificateRequest :: "issueCertificateRequest decoder"
  cdc_scanCertificateExpirationsRequest :: "scanCertificateExpirationsRequest decoder"
  cdc_revokeCertificateRequest :: "revokeCertificateRequest decoder"
  cdc_renewCertificateRequest :: "renewCertificateRequest decoder"
  cdc_reissueCertificateRequest :: "reissueCertificateRequest decoder"
  cdc_publishCRLRequest :: "publishCRLRequest decoder"
  cdc_pruneAuditEventsRequest :: "pruneAuditEventsRequest decoder"
  cdc_createACMEAccountRequest :: "createACMEAccountRequest decoder"
  cdc_createACMEOrderRequest :: "createACMEOrderRequest decoder"
  cdc_finalizeACMEOrderRequest :: "finalizeACMEOrderRequest decoder"
  cdc_acmeJWSRequest :: "acmeJWSRequest decoder"
  umj_acmeProtectedHeader :: "string \<Rightarrow> acmeProtectedHeader option"
  umj_acmeJWK :: "string \<Rightarrow> acmeJWK option"
  umj_acmeNewAccountRequest :: "string \<Rightarrow> acmeNewAccountRequest option"
  umj_acmeUpdateAccountRequest :: "string \<Rightarrow> acmeUpdateAccountRequest option"
  umj_acmeKeyChangeRequest :: "string \<Rightarrow> acmeKeyChangeRequest option"
  umj_acmeJWSRequest :: "string \<Rightarrow> acmeJWSRequest option"
  umj_acmeNewOrderRequest :: "string \<Rightarrow> acmeNewOrderRequest option"
  umj_finalizeACMEOrderRequest :: "string \<Rightarrow> finalizeACMEOrderRequest option"
  umj_acmeRevokeCertificateRequest :: "string \<Rightarrow> acmeRevokeCertificateRequest option"

record Crypto =
  cr_sha256 :: "string \<Rightarrow> string"
  cr_p256OnCurve :: "int \<Rightarrow> int \<Rightarrow> bool"
  cr_ecdsaVerify :: "int \<Rightarrow> int \<Rightarrow> string \<Rightarrow> int \<Rightarrow> int \<Rightarrow> bool"
  cr_rsaVerify :: "int \<Rightarrow> int \<Rightarrow> string \<Rightarrow> string \<Rightarrow> bool"
  cr_ed25519Verify :: "string \<Rightarrow> string \<Rightarrow> string \<Rightarrow> bool"
  cr_csrSubject :: "string \<Rightarrow> string option"
  cr_pemCSR :: "string \<Rightarrow> string"
  cr_URLEncodingDecode :: "string \<Rightarrow> string option"
  cr_parseRFC3339 :: "string \<Rightarrow> time option"

record AuthConfig =
  auth_Mode :: string
  auth_TrustedProxies :: "Prefix list"

record ACMEConfig =
  acme_DefaultIdentityID :: string
  acme_DefaultIssuerID :: string
  acme_DefaultCertificateProfileID :: string
  acme_DefaultValidityPeriod :: duration
  acme_RateLimit :: int
  acme_RateLimitWindow :: duration

record acmeRateBucket =
  arb_Count :: int
  arb_ResetAt :: time

record Server =
  sv_service :: Service
  sv_auth :: AuthConfig
  sv_acme :: ACMEConfig
  sv_codec :: Codec
  sv_crypto :: Crypto
  sv_now :: "nat \<Rightarrow> time"

record httpState =
  hs_world :: world
  hs_nonces :: acmeMemoryNonceStore
  hs_rates :: "acmeRateBucket gomap"
  hs_requests :: "int gomap"
  hs_events :: "int gomap"
  hs_clock :: nat

type_synonym 'a http = "(error, httpState, 'a) prog"

definition defaultJSONBodyLimit :: nat where "defaultJSONBodyLimit = 2 ^ 20"
definition defaultOCSPBodyLimit :: nat where "defaultOCSPBodyLimit = 2 ^ 14"
definition defaultACMERateLimit :: int where "defaultACMERateLimit = 120"
definition defaultACMERateWindow :: duration where "defaultACMERateWindow = Minute"
definition acmeRetryAfterSeconds :: string where "acmeRetryAfterSeconds = ''5''"

text \<open>\<^verbatim>\<open>NewWithAuthAndACME\<close> without a nonce store of its own: the defaults it fills in and the state it starts with.\<close>

definition NewWithAuthAndACME :: "Service \<Rightarrow> AuthConfig \<Rightarrow> ACMEConfig \<Rightarrow> Codec \<Rightarrow> Crypto \<Rightarrow> (nat \<Rightarrow> time) \<Rightarrow> Server" where
  "NewWithAuthAndACME service auth acme codec crypto clock =
     (let auth' = (if auth_Mode auth = [] then auth\<lparr>auth_Mode := ''dev''\<rparr> else auth);
          acme1 = (if acme_RateLimit acme \<le> 0 then acme\<lparr>acme_RateLimit := defaultACMERateLimit\<rparr> else acme);
          acme2 = (if acme_RateLimitWindow acme1 \<le> 0 then acme1\<lparr>acme_RateLimitWindow := defaultACMERateWindow\<rparr> else acme1) in
      \<lparr>sv_service = service, sv_auth = auth', sv_acme = acme2, sv_codec = codec, sv_crypto = crypto, sv_now = clock\<rparr>)"

definition initialState :: "world \<Rightarrow> httpState" where
  "initialState w = \<lparr>hs_world = w, hs_nonces = newACMEMemoryNonceStore defaultACMENonceCacheSize, hs_rates = mempty, hs_requests = mempty,
     hs_events = mempty, hs_clock = 0\<rparr>"

text \<open>A call of the service, a reading of \<^verbatim>\<open>time.Now\<close>, and the two kinds of result of a handler.\<close>

definition onService :: "'a svc \<Rightarrow> 'a http" where
  "onService m = (\<lambda>s. case m (hs_world s) of (r, w') \<Rightarrow> (r, s\<lparr>hs_world := w'\<rparr>))"

definition timeNow :: "Server \<Rightarrow> time http" where
  "timeNow sv = (\<lambda>s. (Inr (sv_now sv (hs_clock s)), s\<lparr>hs_clock := Suc (hs_clock s)\<rparr>))"

definition writeJSON :: "int \<Rightarrow> Body \<Rightarrow> Response" where
  "writeJSON status body = \<lparr>rs_Status = status, rs_Header = mput ''Content-Type'' ''application/json'' mempty, rs_Body = body\<rparr>"

definition reply :: "int \<Rightarrow> Body \<Rightarrow> Response option http" where
  "reply status body = returnM (Some (writeJSON status body))"

section \<open>Reading a body\<close>

definition requestBodyLimit :: "Request \<Rightarrow> nat" where
  "requestBodyLimit r = (if rq_Method r = ''POST'' \<and> URLPath r = ''/ocsp'' then defaultOCSPBodyLimit else defaultJSONBodyLimit)"

definition jsonBlank :: "string \<Rightarrow> bool" where
  "jsonBlank s \<longleftrightarrow> list_all (\<lambda>c. c = CHR 0x20 \<or> c = CHR 0x09 \<or> c = CHR 0x0A \<or> c = CHR 0x0D) s"

text \<open>
  \<^verbatim>\<open>decodeJSON\<close>: one value, then the end of the stream. A body over the limit of \<^verbatim>\<open>MaxBytesReader\<close>, or one whose transfer breaks off, never
  yields the end of the stream, so the second \<^verbatim>\<open>Decode\<close> refuses it whatever the first one read.
\<close>

definition decodeJSON :: "Request \<Rightarrow> 'a decoder \<Rightarrow> 'a result" where
  "decodeJSON r dec =
     (if rq_BodyBroken r \<or> length (rq_Body r) > requestBodyLimit r then Inl ErrInvalidRequest
      else case dec (rq_Body r) of
          None \<Rightarrow> Inl ErrInvalidRequest
        | Some (v, rest) \<Rightarrow> if jsonBlank rest then Inr v else Inl ErrInvalidRequest)"

text \<open>\<^verbatim>\<open>io.ReadAll(r.Body)\<close>\<close>

definition readAll :: "Request \<Rightarrow> string result" where
  "readAll r = (if rq_BodyBroken r \<or> length (rq_Body r) > requestBodyLimit r then Inl ErrInvalidRequest else Inr (rq_Body r))"

section \<open>Query parameters\<close>

text \<open>\<^verbatim>\<open>strconv.Atoi\<close>\<close>

definition Atoi :: "string \<Rightarrow> int option" where
  "Atoi s =
     (let neg = (s \<noteq> [] \<and> hd s = CHR ''-''); digits = (if s \<noteq> [] \<and> (hd s = CHR ''-'' \<or> hd s = CHR ''+'') then tl s else s);
          n = int (decimal digits) in
      if digits = [] \<or> \<not> list_all isDigit digits then None
      else if neg then (if n \<le> 2 ^ 63 then Some (- n) else None)
      else if n < 2 ^ 63 then Some n else None)"

definition paginationFromQuery :: "Request \<Rightarrow> (int \<times> int) result" where
  "paginationFromQuery r =
     (let rawLimit = Query_Get r ''limit''; rawOffset = Query_Get r ''offset'';
          limit = (if rawLimit = [] then Inr 0
            else case Atoi rawLimit of None \<Rightarrow> Inl ErrInvalidRequest | Some parsed \<Rightarrow> if parsed < 1 then Inl ErrInvalidRequest else Inr parsed) in
      case limit of
        Inl err \<Rightarrow> Inl err
      | Inr limit \<Rightarrow>
          if rawOffset = [] then Inr (limit, 0)
          else if limit = 0 then Inl ErrInvalidRequest
          else case Atoi rawOffset of
              None \<Rightarrow> Inl ErrInvalidRequest
            | Some parsed \<Rightarrow> if parsed < 0 then Inl ErrInvalidRequest else Inr (limit, parsed))"

text \<open>A string of the query as a value of a string type of the domain.\<close>

definition toEnrollmentStatus :: "string \<Rightarrow> EnrollmentStatus" where
  "toEnrollmentStatus s =
     (if s = ''pending'' then EnrollmentPending else if s = ''approved'' then EnrollmentApproved else if s = ''rejected'' then EnrollmentRejected
      else if s = ''issued'' then EnrollmentIssued else if s = ''canceled'' then EnrollmentCanceled else EnrollmentStatusOther s)"

definition toOutboxMessageStatus :: "string \<Rightarrow> OutboxMessageStatus" where
  "toOutboxMessageStatus s =
     (if s = ''pending'' then OutboxPending else if s = ''processing'' then OutboxProcessing else if s = ''completed'' then OutboxCompleted
      else if s = ''failed'' then OutboxFailed else if s = ''dead_letter'' then OutboxDeadLetter else OutboxMessageStatusOther s)"

definition identityListOptionsFromQuery :: "Request \<Rightarrow> IdentityListOptions result" where
  "identityListOptionsFromQuery r =
     (case paginationFromQuery r of
        Inl err \<Rightarrow> Inl err
      | Inr (limit, offset) \<Rightarrow>
          Inr \<lparr>ilo_Owner = Query_Get r ''owner'', ilo_Team = Query_Get r ''team'', ilo_Service = Query_Get r ''service'',
            ilo_Environment = Query_Get r ''environment'', ilo_Sort = Query_Get r ''sort'', ilo_Limit = limit, ilo_Offset = offset\<rparr>)"

definition enrollmentListOptionsFromQuery :: "Request \<Rightarrow> EnrollmentListOptions result" where
  "enrollmentListOptionsFromQuery r =
     (case paginationFromQuery r of
        Inl err \<Rightarrow> Inl err
      | Inr (limit, offset) \<Rightarrow>
          Inr \<lparr>elo_IdentityID = Query_Get r ''identity_id'', elo_IssuerID = Query_Get r ''issuer_id'', elo_ProfileID = Query_Get r ''profile_id'',
            elo_Status = toEnrollmentStatus (Query_Get r ''status''), elo_Sort = Query_Get r ''sort'', elo_Limit = limit, elo_Offset = offset\<rparr>)"

definition certificateListOptionsFromQuery :: "Request \<Rightarrow> CertificateListOptions result" where
  "certificateListOptionsFromQuery r =
     (case paginationFromQuery r of
        Inl err \<Rightarrow> Inl err
      | Inr (limit, offset) \<Rightarrow>
          let opts = \<lparr>clo_Owner = Query_Get r ''owner'', clo_Team = Query_Get r ''team'', clo_Service = Query_Get r ''service'',
                clo_Environment = Query_Get r ''environment'', clo_IssuerID = Query_Get r ''issuer_id'', clo_ProfileID = Query_Get r ''profile_id'',
                clo_SAN = Query_Get r ''san'', clo_RevocationState = Query_Get r ''revocation_state'', clo_RenewalState = Query_Get r ''renewal_state'',
                clo_ExpiresWithinDays = 0, clo_Sort = Query_Get r ''sort'', clo_Limit = limit, clo_Offset = offset\<rparr>;
              raw = Query_Get r ''expires_within_days'' in
          if raw = [] then Inr opts
          else case Atoi raw of None \<Rightarrow> Inl ErrInvalidRequest | Some days \<Rightarrow> Inr (opts\<lparr>clo_ExpiresWithinDays := days\<rparr>))"

text \<open>An optional instant of the query: \<^verbatim>\<open>time.Parse(time.RFC3339, raw)\<close>.\<close>

definition timeFromQuery :: "Server \<Rightarrow> Request \<Rightarrow> string \<Rightarrow> time result" where
  "timeFromQuery sv r k =
     (let raw = Query_Get r k in
      if raw = [] then Inr time_zero
      else case cr_parseRFC3339 (sv_crypto sv) raw of None \<Rightarrow> Inl ErrInvalidRequest | Some t \<Rightarrow> Inr t)"

definition outboxMessageListOptionsFromQuery :: "Server \<Rightarrow> Request \<Rightarrow> OutboxMessageListOptions result" where
  "outboxMessageListOptionsFromQuery sv r =
     (case paginationFromQuery r of
        Inl err \<Rightarrow> Inl err
      | Inr (limit, offset) \<Rightarrow>
          (case timeFromQuery sv r ''from'' of
             Inl err \<Rightarrow> Inl err
           | Inr from \<Rightarrow>
               (case timeFromQuery sv r ''to'' of
                  Inl err \<Rightarrow> Inl err
                | Inr upTo \<Rightarrow>
                    Inr \<lparr>olo_Status = toOutboxMessageStatus (Query_Get r ''status''), olo_Type = Query_Get r ''type'', olo_CreatedFrom = from,
                      olo_CreatedTo = upTo, olo_Sort = Query_Get r ''sort'', olo_Limit = limit, olo_Offset = offset\<rparr>)))"

definition certificateInventoryOptionsFromQuery :: "Request \<Rightarrow> CertificateInventoryOptions result" where
  "certificateInventoryOptionsFromQuery r =
     (case paginationFromQuery r of
        Inl err \<Rightarrow> Inl err
      | Inr (limit, offset) \<Rightarrow>
          Inr \<lparr>cio_Owner = Query_Get r ''owner'', cio_Team = Query_Get r ''team'', cio_Service = Query_Get r ''service'',
            cio_Environment = Query_Get r ''environment'', cio_IssuerID = Query_Get r ''issuer_id'', cio_ProfileID = Query_Get r ''profile_id'',
            cio_RevocationState = Query_Get r ''revocation_state'', cio_Limit = limit, cio_Offset = offset\<rparr>)"

definition auditEventQueryFromRequest :: "Server \<Rightarrow> Request \<Rightarrow> AuditEventQuery result" where
  "auditEventQueryFromRequest sv r =
     (case paginationFromQuery r of
        Inl err \<Rightarrow> Inl err
      | Inr (limit, offset) \<Rightarrow>
          let order = (if Query_Get r ''sort'' = [] then ''asc'' else Query_Get r ''sort'') in
          if order \<noteq> ''asc'' \<and> order \<noteq> ''desc'' then Inl ErrInvalidRequest
          else
            (case timeFromQuery sv r ''from'' of
               Inl err \<Rightarrow> Inl err
             | Inr from \<Rightarrow>
                 (case timeFromQuery sv r ''to'' of
                    Inl err \<Rightarrow> Inl err
                  | Inr upTo \<Rightarrow>
                      Inr \<lparr>aq_Actor = Query_Get r ''actor'', aq_Action = Query_Get r ''action'', aq_ResourceType = Query_Get r ''resource_type'',
                        aq_ResourceID = Query_Get r ''resource_id'', aq_CreatedFrom = from, aq_CreatedTo = upTo, aq_Sort = order,
                        aq_Limit = limit, aq_Offset = offset\<rparr>)))"

section \<open>Client addresses\<close>

text \<open>\<^verbatim>\<open>net.SplitHostPort\<close>, the host only.\<close>

definition SplitHostPort :: "string \<Rightarrow> string option" where
  "SplitHostPort hostport =
     (if CHR '':'' \<notin> set hostport then None
      else
        let i = length hostport - length (takeWhile (\<lambda>c. c \<noteq> CHR '':'') (rev hostport)) - 1 in
        if hd hostport = CHR ''['' then
          (if CHR '']'' \<notin> set hostport then None
           else
             let host = takeWhile (\<lambda>c. c \<noteq> CHR '']'') (tl hostport); close = length host + 1 in
             if close + 1 \<noteq> i then None
             else if CHR ''['' \<in> set (tl hostport) \<or> CHR '']'' \<in> set (drop (close + 1) hostport) then None
             else Some host)
        else
          let host = take i hostport in
          if CHR '':'' \<in> set host \<or> CHR ''['' \<in> set hostport \<or> CHR '']'' \<in> set hostport then None else Some host)"

text \<open>\<^verbatim>\<open>netip.Addr.String\<close> of an address that is not an IPv4-mapped one: the longest run of at least two zero groups is left out.\<close>

fun hexDigits :: "nat \<Rightarrow> string" where
  "hexDigits n = (if n < 16 then [hex_digit n] else hexDigits (n div 16) @ [hex_digit (n mod 16)])"

declare hexDigits.simps [simp del]

fun joinWith :: "char \<Rightarrow> string list \<Rightarrow> string" where
  "joinWith c [] = []"
| "joinWith c [x] = x"
| "joinWith c (x # xs) = x @ c # joinWith c xs"

definition zeroRun :: "nat list \<Rightarrow> nat \<times> nat" where
  "zeroRun groups =
     fold (\<lambda>i (start, len). let z = length (takeWhile (\<lambda>g. g = 0) (drop i groups)) in if z \<ge> 2 \<and> z > len then (i, z) else (start, len)) [0..<8] (255, 0)"

definition v6Text :: "nat list \<Rightarrow> string" where
  "v6Text groups =
     (let (start, len) = zeroRun groups in
      if len = 0 then joinWith CHR '':'' (map hexDigits groups)
      else joinWith CHR '':'' (map hexDigits (take start groups)) @ ''::'' @ joinWith CHR '':'' (map hexDigits (drop (start + len) groups)))"

fun addrString :: "Addr \<Rightarrow> string" where
  "addrString AddrInvalid = ''invalid IP''"
| "addrString (V4 v) = joinWith CHR ''.'' (map (\<lambda>i. nat_digits (unat (drop_bit (24 - 8 * i) v AND 0xff))) [0..<4])"
| "addrString (V6 v z) =
     v6Text (map (\<lambda>i. unat (drop_bit (112 - 16 * i) v AND 0xffff)) [0..<8]) @ (if z = [] then [] else CHR ''%'' # z)"

definition remoteAddrTrusted :: "string \<Rightarrow> Prefix list \<Rightarrow> bool" where
  "remoteAddrTrusted host trustedProxies =
     (case ParseAddr (TrimSpace host) of
        None \<Rightarrow> False
      | Some addr \<Rightarrow> list_ex (\<lambda>prefix. prefixContains prefix (Unmap addr)) trustedProxies)"

definition forwardedClientIP :: "string \<Rightarrow> string" where
  "forwardedClientIP forwardedFor =
     (let clientIP = TrimSpace (hd (Split forwardedFor CHR '','')) in
      if clientIP = [] then []
      else case ParseAddr clientIP of None \<Rightarrow> [] | Some addr \<Rightarrow> addrString (Unmap addr))"

definition requestClientIP :: "Request \<Rightarrow> Prefix list \<Rightarrow> string" where
  "requestClientIP r trustedProxies =
     (case SplitHostPort (rq_RemoteAddr r) of
        None \<Rightarrow> rq_RemoteAddr r
      | Some host \<Rightarrow>
          if trustedProxies \<noteq> [] \<and> remoteAddrTrusted host trustedProxies \<and> forwardedClientIP (Header_Get r ''X-Forwarded-For'') \<noteq> []
          then forwardedClientIP (Header_Get r ''X-Forwarded-For'') else host)"

section \<open>Authentication and scopes\<close>

definition requestActor :: "Request \<Rightarrow> string" where
  "requestActor r =
     (case rq_Actor r of
        Some actor \<Rightarrow> if actor \<noteq> [] then actor else if Header_Get r ''X-Actor'' = [] then ''anonymous'' else Header_Get r ''X-Actor''
      | None \<Rightarrow> if Header_Get r ''X-Actor'' = [] then ''anonymous'' else Header_Get r ''X-Actor'')"

definition bearerToken :: "string \<Rightarrow> string \<times> bool" where
  "bearerToken header =
     (if \<not> HasPrefix header ''Bearer '' then ([], False)
      else let token = TrimSpace (TrimPrefix header ''Bearer '') in (token, token \<noteq> []))"

definition isPublicACMEProtocolEndpoint :: "string \<Rightarrow> string \<Rightarrow> bool" where
  "isPublicACMEProtocolEndpoint method path =
     (if method = ''GET'' \<and> path = ''/acme/directory'' then True
      else if (method = ''HEAD'' \<or> method = ''GET'') \<and> path = ''/acme/new-nonce'' then True
      else if method = ''POST'' \<and>
          (path = ''/acme/new-account'' \<or> path = ''/acme/new-order'' \<or> path = ''/acme/key-change'' \<or> path = ''/acme/revoke-cert'') then True
      else if method = ''POST'' \<and> HasPrefix path ''/acme/account/'' then True
      else if method = ''GET'' \<and> (HasPrefix path ''/acme/order/'' \<or> HasPrefix path ''/acme/authz/'') then True
      else if method = ''POST'' \<and> (HasPrefix path ''/acme/order/'' \<or> HasPrefix path ''/acme/authz/'' \<or>
          HasPrefix path ''/acme/challenge/'' \<or> HasPrefix path ''/acme/cert/'') then True
      else if method = ''GET'' \<and> HasPrefix path ''/acme/cert/'' then True
      else False)"

text \<open>\<^verbatim>\<open>strings.Trim(path, "/")\<close>\<close>

definition trimSlashes :: "string \<Rightarrow> string" where
  "trimSlashes s = rev (dropWhile (\<lambda>c. c = CHR ''/'') (rev (dropWhile (\<lambda>c. c = CHR ''/'') s)))"

definition isPublicEndpoint :: "string \<Rightarrow> string \<Rightarrow> bool" where
  "isPublicEndpoint method path =
     (if method = ''POST'' \<and> path = ''/ocsp'' then True
      else if isPublicACMEProtocolEndpoint method path then True
      else if method = ''GET'' \<and> HasPrefix path ''/crls/'' \<and> length (TrimPrefix path ''/crls/'') > 0 then True
      else if method \<noteq> ''GET'' \<or> \<not> HasPrefix path ''/issuers/'' \<or> \<not> HasSuffix path ''/crl'' then False
      else case Split (trimSlashes path) CHR ''/'' of
          [a, b, c] \<Rightarrow> a = ''issuers'' \<and> b \<noteq> [] \<and> c = ''crl''
        | _ \<Rightarrow> False)"

datatype requiredScope = requiredScopeRead | requiredScopeWrite | requiredScopeOperator

fun str_requiredScope :: "requiredScope \<Rightarrow> string" where
  "str_requiredScope requiredScopeRead = ''read''"
| "str_requiredScope requiredScopeWrite = ''write''"
| "str_requiredScope requiredScopeOperator = ''operator''"

definition requiredScopeForRequest :: "string \<Rightarrow> string \<Rightarrow> requiredScope" where
  "requiredScopeForRequest method path =
     (if HasPrefix path ''/api-keys'' \<or> HasPrefix path ''/outbox/'' \<or> HasPrefix path ''/audit-events'' \<or> HasPrefix path ''/operator/''
      then requiredScopeOperator
      else if method = ''POST'' \<and> path = ''/certificates/expiration-scan'' then requiredScopeOperator
      else if method = ''GET'' then requiredScopeRead
      else requiredScopeWrite)"

fun scopesAllow :: "APIKeyScope list \<Rightarrow> requiredScope \<Rightarrow> bool" where
  "scopesAllow [] required \<longleftrightarrow> False"
| "scopesAllow (scope # scopes) required =
     (if scope = APIKeyScopeOperator then True
      else if required = requiredScopeRead \<and> scope = APIKeyScopeWrite then True
      else if str_APIKeyScope scope = str_requiredScope required then True
      else scopesAllow scopes required)"

definition apiKeyAllowsScope :: "APIKey \<Rightarrow> requiredScope \<Rightarrow> bool" where
  "apiKeyAllowsScope key required \<longleftrightarrow> scopesAllow (key_Scopes key) required"

definition withActor :: "string \<Rightarrow> Request \<Rightarrow> Request" where
  "withActor actor r = r\<lparr>rq_Actor := Some actor\<rparr>"

definition withAPIKey :: "APIKey \<Rightarrow> Request \<Rightarrow> Request" where
  "withAPIKey key r =
     r\<lparr>rq_Context := (rq_Context r)\<lparr>ctx_apiKey := Some \<lparr>akm_ID = key_ID key, akm_Name = key_Name key, akm_Actor = key_Actor key,
       akm_Fingerprint = APIKeyTokenFingerprint (key_TokenHash key), akm_Scopes = key_Scopes key\<rparr>\<rparr>\<rparr>"

text \<open>The context of the authenticated request; the context that accompanies an error is replaced by its caller and left out.\<close>

definition authenticateRequest :: "Server \<Rightarrow> Request \<Rightarrow> Request http" where
  "authenticateRequest sv r =
     (let mode = auth_Mode (sv_auth sv) in
      if mode = ''dev'' \<or> mode = [] then returnM (withActor (requestActor r) r)
      else if mode = ''api_key'' then
        (if isPublicEndpoint (rq_Method r) (URLPath r) then returnM (withActor ''public'' r)
         else
           let (token, ok) = bearerToken (Header_Get r ''Authorization'') in
           failIf (\<not> ok) ErrUnauthorized
          (bindM (onService (Service_AuthenticateAPIKey (sv_service sv) token)) (\<lambda>key.
           failIf (\<not> apiKeyAllowsScope key (requiredScopeForRequest (rq_Method r) (URLPath r))) ErrForbidden
            (returnM (withAPIKey key (withActor (key_Actor key) r))))))
      else throwM ErrUnauthorized)"

section \<open>The rate limit of the ACME interface\<close>

definition isRateLimitedACMEProtocolEndpoint :: "string \<Rightarrow> string \<Rightarrow> bool" where
  "isRateLimitedACMEProtocolEndpoint method path \<longleftrightarrow>
     method = ''POST'' \<and>
     (path = ''/acme/new-account'' \<or> path = ''/acme/new-order'' \<or> path = ''/acme/key-change'' \<or> HasPrefix path ''/acme/challenge/'' \<or>
      HasPrefix path ''/acme/order/'' \<and> HasSuffix path ''/finalize'')"

definition acmeRateLimitClass :: "string \<Rightarrow> string" where
  "acmeRateLimitClass path =
     (if path = ''/acme/new-account'' then ''account''
      else if path = ''/acme/new-order'' then ''order''
      else if path = ''/acme/key-change'' then ''account''
      else if HasPrefix path ''/acme/challenge/'' then ''challenge''
      else if HasPrefix path ''/acme/order/'' \<and> HasSuffix path ''/finalize'' then ''finalize''
      else path)"

definition addCount :: "string \<Rightarrow> int gomap \<Rightarrow> int gomap" where
  "addCount k m = mput k (i64 ((case mget m k of None \<Rightarrow> 0 | Some n \<Rightarrow> n) + 1)) m"

definition RecordHTTPRequest :: "string \<Rightarrow> int \<Rightarrow> httpState \<Rightarrow> httpState" where
  "RecordHTTPRequest boundary status s =
     s\<lparr>hs_requests := addCount ((if boundary = [] then ''unknown'' else boundary) @ '':'' @ Itoa status) (hs_requests s)\<rparr>"

definition RecordEvent :: "string \<Rightarrow> httpState \<Rightarrow> httpState" where
  "RecordEvent key s = s\<lparr>hs_events := addCount key (hs_events s)\<rparr>"

definition rateKey :: "Server \<Rightarrow> Request \<Rightarrow> string" where
  "rateKey sv r = requestClientIP r (auth_TrustedProxies (sv_auth sv)) @ '' '' @ acmeRateLimitClass (URLPath r)"

definition checkACMERateLimit :: "Server \<Rightarrow> Request \<Rightarrow> unit http" where
  "checkACMERateLimit sv r =
     (if \<not> isRateLimitedACMEProtocolEndpoint (rq_Method r) (URLPath r) then returnM ()
      else bindM (timeNow sv) (\<lambda>now s.
        let key = rateKey sv r;
            stored = (case mget (hs_rates s) key of None \<Rightarrow> \<lparr>arb_Count = 0, arb_ResetAt = time_zero\<rparr> | Some b \<Rightarrow> b);
            bucket = (if IsZero (arb_ResetAt stored) \<or> \<not> arb_ResetAt stored > now
              then \<lparr>arb_Count = 0, arb_ResetAt = now + acme_RateLimitWindow (sv_acme sv)\<rparr> else stored) in
        if arb_Count bucket \<ge> acme_RateLimit (sv_acme sv)
        then (Inl ErrRateLimited, RecordEvent (''rate_limit:acme_'' @ acmeRateLimitClass (URLPath r)) (s\<lparr>hs_rates := mput key bucket (hs_rates s)\<rparr>))
        else (Inr (), s\<lparr>hs_rates := mput key (bucket\<lparr>arb_Count := arb_Count bucket + 1\<rparr>) (hs_rates s)\<rparr>)))"

section \<open>Errors as responses\<close>

definition statusForError :: "error \<Rightarrow> int" where
  "statusForError err =
     (if errors_Is err ErrACMEBadNonce then 400
      else if errors_Is err ErrInvalidRequest then 400
      else if errors_Is err ErrUnsupportedMediaType then 415
      else if errors_Is err ErrUnauthorized then 401
      else if errors_Is err ErrForbidden then 403
      else if errors_Is err ErrRateLimited then 429
      else if errors_Is err ErrACMEAccountDeactivated then 401
      else if errors_Is err ErrInvalidTransition then 409
      else if errors_Is err ErrIdentityNotFound \<or> errors_Is err ErrIssuerNotFound \<or> errors_Is err ErrOCSPResponderNotFound \<or>
          errors_Is err ErrNotificationEndpointNotFound \<or> errors_Is err ErrCertificateProfileNotFound \<or> errors_Is err ErrEnrollmentNotFound \<or>
          errors_Is err ErrCertificateNotFound \<or> errors_Is err ErrCRLPublicationNotFound \<or> errors_Is err ErrOutboxMessageNotFound \<or>
          errors_Is err ErrAPIKeyNotFound \<or> errors_Is err ErrACMEAccountNotFound \<or> errors_Is err ErrACMEOrderNotFound \<or>
          errors_Is err ErrACMEAuthorizationNotFound \<or> errors_Is err ErrACMEChallengeNotFound then 404
      else if errors_Is err ErrCSRParseFailed then 422
      else if errors_Is err ErrCertificateIssuanceFailed then 502
      else if errors_Is err ErrCRLGenerationFailed then 502
      else if errors_Is err ErrOCSPDecodeFailed then 400
      else if errors_Is err ErrOCSPResponderValidationFailed then 422
      else if errors_Is err ErrOCSPResponseFailed then 502
      else 500)"

fun firstIs :: "error \<Rightarrow> error list \<Rightarrow> error option" where
  "firstIs err [] = None"
| "firstIs err (e # es) = (if errors_Is err e then Some e else firstIs err es)"

text \<open>The sentinels in the order of the switch of \<^verbatim>\<open>publicErrorMessage\<close>, after \<^verbatim>\<open>errACMEBadNonce\<close>.\<close>

definition publicErrors :: "error list" where
  "publicErrors =
     [ErrInvalidRequest, ErrUnsupportedMediaType, ErrUnauthorized, ErrForbidden, ErrRateLimited, ErrInvalidTransition, ErrIdentityNotFound,
      ErrIssuerNotFound, ErrOCSPResponderNotFound, ErrNotificationEndpointNotFound, ErrCertificateProfileNotFound, ErrEnrollmentNotFound,
      ErrCertificateNotFound, ErrCRLPublicationNotFound, ErrOutboxMessageNotFound, ErrAPIKeyNotFound, ErrACMEAccountNotFound,
      ErrACMEAccountDeactivated, ErrACMEOrderNotFound, ErrACMEAuthorizationNotFound, ErrACMEChallengeNotFound, ErrCSRParseFailed,
      ErrCertificateIssuanceFailed, ErrCRLGenerationFailed, ErrOCSPDecodeFailed, ErrOCSPResponderValidationFailed, ErrOCSPResponseFailed,
      ErrStorageFailure]"

definition publicErrorMessage :: "error \<Rightarrow> string" where
  "publicErrorMessage err =
     (if errors_Is err ErrACMEBadNonce then error_text ErrInvalidRequest
      else case firstIs err publicErrors of Some e \<Rightarrow> error_text e | None \<Rightarrow> ''internal server error'')"

definition acmeProblemType :: "error \<Rightarrow> string" where
  "acmeProblemType err =
     (if errors_Is err ErrACMEBadNonce then ''urn:ietf:params:acme:error:badNonce''
      else if errors_Is err ErrRateLimited then ''urn:ietf:params:acme:error:rateLimited''
      else if errors_Is err ErrACMEAccountDeactivated then ''urn:ietf:params:acme:error:unauthorized''
      else if errors_Is err ErrUnauthorized \<or> errors_Is err ErrForbidden then ''urn:ietf:params:acme:error:unauthorized''
      else ''urn:ietf:params:acme:error:malformed'')"

text \<open>\<^verbatim>\<open>http.StatusText\<close> on the statuses of \<open>statusForError\<close>.\<close>

definition StatusText :: "int \<Rightarrow> string" where
  "StatusText status =
     (if status = 400 then ''Bad Request'' else if status = 401 then ''Unauthorized'' else if status = 403 then ''Forbidden''
      else if status = 404 then ''Not Found'' else if status = 409 then ''Conflict'' else if status = 415 then ''Unsupported Media Type''
      else if status = 422 then ''Unprocessable Entity'' else if status = 429 then ''Too Many Requests''
      else if status = 500 then ''Internal Server Error'' else if status = 502 then ''Bad Gateway'' else [])"

definition requestBaseURL :: "Request \<Rightarrow> string" where
  "requestBaseURL r =
     (let scheme = Header_Get r ''X-Forwarded-Proto'' in (if scheme = [] then ''http'' else scheme) @ ''://'' @ rq_Host r)"

definition requestAbsoluteURL :: "Request \<Rightarrow> string" where
  "requestAbsoluteURL r = requestBaseURL r @ rq_RequestURI r"

definition acmeDirectoryLink :: "Request \<Rightarrow> string" where
  "acmeDirectoryLink r = ''<'' @ requestBaseURL r @ ''/acme/directory>;rel='' @ [CHR 0x22] @ ''index'' @ [CHR 0x22]"

text \<open>
  The nonce store behind the server. \<^verbatim>\<open>Issue\<close> returns whenever the capacity is positive (\<open>memory_nonces.issue_returns\<close>), which
  \<open>newACMEMemoryNonceStore\<close> of the server guarantees; the last branch is never taken.
\<close>

definition storeNonce :: "Server \<Rightarrow> Request \<Rightarrow> string \<Rightarrow> time \<Rightarrow> unit http" where
  "storeNonce sv r nonce now =
     (\<lambda>s. case acmeMemoryNonceStore_Issue (hs_nonces s) (rq_CtxErr r) nonce now (now + defaultACMENonceTTL) of
        Some (res, nonces) \<Rightarrow> (res, s\<lparr>hs_nonces := nonces\<rparr>)
      | None \<Rightarrow> (Inr (), s))"

definition issueACMENonce :: "Server \<Rightarrow> Request \<Rightarrow> string http" where
  "issueACMENonce sv r =
     bindM (onService (callExt (\<lambda>n. rt_randBytes (svc_runtime (sv_service sv)) n 32))) (\<lambda>raw.
     let nonce = RawURLEncoding_EncodeToString raw in
     bindM (timeNow sv) (\<lambda>now.
     thenM (storeNonce sv r nonce now) (returnM nonce)))"

definition consumeACMENonce :: "Server \<Rightarrow> Request \<Rightarrow> string \<Rightarrow> bool http" where
  "consumeACMENonce sv r nonce =
     bindM (timeNow sv) (\<lambda>now s.
       case acmeMemoryNonceStore_Consume (hs_nonces s) (rq_CtxErr r) nonce now of
         (Inl err, nonces) \<Rightarrow> (Inr False, s\<lparr>hs_nonces := nonces\<rparr>)
       | (Inr ok, nonces) \<Rightarrow> (Inr ok, s\<lparr>hs_nonces := nonces\<rparr>))"

text \<open>A fresh nonce in the header when one could be issued.\<close>

definition replayNonceHeader :: "Server \<Rightarrow> Request \<Rightarrow> string gomap http" where
  "replayNonceHeader sv r =
     bindM (attemptM (issueACMENonce sv r)) (\<lambda>res.
       returnM (case res of Inl _ \<Rightarrow> mempty | Inr nonce \<Rightarrow> mput ''Replay-Nonce'' nonce mempty))"

definition writeACMEProblem :: "Server \<Rightarrow> Request \<Rightarrow> int \<Rightarrow> error \<Rightarrow> Response http" where
  "writeACMEProblem sv r status err =
     bindM (replayNonceHeader sv r) (\<lambda>h.
       let h1 = mput ''Link'' (acmeDirectoryLink r) h;
           h2 = (if errors_Is err ErrRateLimited then mput ''Retry-After'' (Itoa (acme_RateLimitWindow (sv_acme sv) div Second)) h1 else h1);
           h3 = mput ''Content-Type'' ''application/problem+json'' h2 in
       returnM \<lparr>rs_Status = status, rs_Header = h3,
         rs_Body = BProblem \<lparr>prb_Type = acmeProblemType err, prb_Title = StatusText status, prb_Status = status, prb_Detail = publicErrorMessage err\<rparr>\<rparr>)"

definition writeError :: "Server \<Rightarrow> Request \<Rightarrow> error \<Rightarrow> Response http" where
  "writeError sv r err =
     (let status = statusForError err in
      thenM (attemptM (onService (Service_RecordAPIFailure (sv_service sv) (rq_Context r) (requestActor r)
        \<lparr>afr_Method = rq_Method r, afr_Path = URLPath r, afr_StatusCode = status, afr_Err = err\<rparr>)))
      (if isPublicACMEProtocolEndpoint (rq_Method r) (URLPath r) then writeACMEProblem sv r status err
       else returnM (writeJSON status (BError (publicErrorMessage err)))))"

text \<open>
  A handler: its errors go to \<^verbatim>\<open>writeError\<close>. \<open>writeError\<close> itself has no error return.
\<close>

definition handled :: "Server \<Rightarrow> Request \<Rightarrow> Response option http \<Rightarrow> Response option http" where
  "handled sv r m =
     bindM (attemptM m) (\<lambda>res. case res of Inl err \<Rightarrow> bindM (writeError sv r err) (\<lambda>resp. returnM (Some resp)) | Inr resp \<Rightarrow> returnM resp)"

definition writeACMEJSON :: "Server \<Rightarrow> Request \<Rightarrow> string gomap \<Rightarrow> int \<Rightarrow> Body \<Rightarrow> Response option http" where
  "writeACMEJSON sv r header status body =
     bindM (attemptM (issueACMENonce sv r)) (\<lambda>res.
       let h = (case res of Inl _ \<Rightarrow> header | Inr nonce \<Rightarrow> mput ''Replay-Nonce'' nonce header) in
       returnM (Some \<lparr>rs_Status = status, rs_Header = mput ''Content-Type'' ''application/json'' (mput ''Link'' (acmeDirectoryLink r) h), rs_Body = body\<rparr>))"

end
