(* ===== verification/CoreCli.thy ===== *)
theory CoreCli
  imports Lifecycle
begin

text \<open>
  The adapter to the signer (\<^verbatim>\<open>internal/corecli/runner.go\<close>): every operation writes its request to a temporary file, runs
  \<^verbatim>\<open>modern-pki-core\<close> as a child process and reads the answer back. The operating system is a parameter (\<open>Host\<close>): where
  a temporary file is created, whether a write, a close, an opening or a removal fails, and what the child process does to the files.
  Each of its functions takes the number of system calls made before, so that it may answer differently every time. \<open>CoreCodec\<close> holds
  \<^verbatim>\<open>encoding/json\<close> on the types that cross the boundary; the two requests the adapter lays out itself (for CRLs and
  OCSP responses) are rendered here. Closing a file that was only read has no effect and is left out.
\<close>

section \<open>The operating system\<close>

record osState =
  os_files :: "string gomap"
  os_calls :: nat

type_synonym 'a os = "(error, osState, 'a) prog"

record ChildResult =
  chd_Err :: "error option"
  chd_Stdout :: string
  chd_Stderr :: string
  chd_Files :: "string gomap"

record Host =
  hst_CreateTemp :: "nat \<Rightarrow> string gomap \<Rightarrow> string \<Rightarrow> string result"
  hst_Write :: "nat \<Rightarrow> string \<Rightarrow> string \<Rightarrow> string \<times> error option"
  hst_Close :: "nat \<Rightarrow> string \<Rightarrow> error option"
  hst_Run :: "nat \<Rightarrow> string \<Rightarrow> string list \<Rightarrow> string gomap \<Rightarrow> ChildResult"
  hst_ReadError :: "nat \<Rightarrow> string \<Rightarrow> error option"
  hst_NotExist :: "string \<Rightarrow> error"
  hst_RemoveError :: "nat \<Rightarrow> string \<Rightarrow> error option"

definition wrapErr :: "string \<Rightarrow> error \<Rightarrow> error" where
  "wrapErr what err = ErrWrap (ErrExternal what) err"

definition tick :: "osState \<Rightarrow> osState" where
  "tick s = s\<lparr>os_calls := Suc (os_calls s)\<rparr>"

text \<open>\<^verbatim>\<open>os.CreateTemp\<close> makes an empty file.\<close>

definition os_CreateTemp :: "Host \<Rightarrow> string \<Rightarrow> string \<Rightarrow> string os" where
  "os_CreateTemp h what pattern = (\<lambda>s.
     case hst_CreateTemp h (os_calls s) (os_files s) pattern of
       Inl err \<Rightarrow> (Inl (wrapErr what err), tick s)
     | Inr path \<Rightarrow> (Inr path, (tick s)\<lparr>os_files := mput path [] (os_files s)\<rparr>))"

text \<open>A write that fails may have stored a part of the data.\<close>

definition os_Write :: "Host \<Rightarrow> string \<Rightarrow> string \<Rightarrow> string \<Rightarrow> unit os" where
  "os_Write h what path data = (\<lambda>s.
     case hst_Write h (os_calls s) path data of
       (stored, err) \<Rightarrow>
         (case err of None \<Rightarrow> Inr () | Some e \<Rightarrow> Inl (wrapErr what e), (tick s)\<lparr>os_files := mput path stored (os_files s)\<rparr>))"

definition os_Close :: "Host \<Rightarrow> string \<Rightarrow> string \<Rightarrow> unit os" where
  "os_Close h what path = (\<lambda>s. (case hst_Close h (os_calls s) path of None \<Rightarrow> Inr () | Some e \<Rightarrow> Inl (wrapErr what e), tick s))"

text \<open>\<^verbatim>\<open>os.Open\<close> followed by reading to the end, and \<^verbatim>\<open>os.ReadFile\<close>.\<close>

definition os_ReadFile :: "Host \<Rightarrow> string \<Rightarrow> string \<Rightarrow> string os" where
  "os_ReadFile h what path = (\<lambda>s.
     (case hst_ReadError h (os_calls s) path of
        Some e \<Rightarrow> Inl (wrapErr what e)
      | None \<Rightarrow> (case mget (os_files s) path of None \<Rightarrow> Inl (wrapErr what (hst_NotExist h path)) | Some data \<Rightarrow> Inr data), tick s))"

text \<open>\<^verbatim>\<open>defer os.Remove(path)\<close>: the body runs, then the file goes, whatever the body returned. The error of the removal is dropped.\<close>

definition os_Remove :: "Host \<Rightarrow> string \<Rightarrow> osState \<Rightarrow> osState" where
  "os_Remove h path s =
     (case hst_RemoveError h (os_calls s) path of None \<Rightarrow> (tick s)\<lparr>os_files := mdel path (os_files s)\<rparr> | Some _ \<Rightarrow> tick s)"

definition deferRemove :: "Host \<Rightarrow> string \<Rightarrow> 'a os \<Rightarrow> 'a os" where
  "deferRemove h path body = (\<lambda>s. case body s of (r, s') \<Rightarrow> (r, os_Remove h path s'))"

section \<open>Errors of the child process\<close>

record commandErrorPayload =
  cep_Code :: string
  cep_Message :: string
  cep_OpenSSLErrors :: "string list"

record CommandError =
  cme_Code :: string
  cme_Message :: string
  cme_OpenSSLErrors :: "string list"
  cme_Err :: "error option"

fun Join :: "string list \<Rightarrow> string \<Rightarrow> string" where
  "Join [] sep = []"
| "Join [x] sep = x"
| "Join (x # xs) sep = x @ sep @ Join xs sep"

definition CommandError_Error :: "CommandError \<Rightarrow> string" where
  "CommandError_Error e =
     (let prefix = ''modern-pki-core command failed'';
          detail0 = cme_Code e;
          detail1 = (if cme_Message e \<noteq> [] then (if detail0 \<noteq> [] then detail0 @ '': '' else detail0) @ cme_Message e else detail0) in
      if detail1 = [] then
        (case cme_Err e of None \<Rightarrow> prefix | Some err \<Rightarrow> prefix @ '': '' @ error_text err)
      else
        let detail = (if cme_OpenSSLErrors e \<noteq> [] then detail1 @ '': '' @ Join (cme_OpenSSLErrors e) ''; '' else detail1) in
        case cme_Err e of
          None \<Rightarrow> prefix @ '': '' @ detail
        | Some err \<Rightarrow> prefix @ '': '' @ detail @ '': '' @ error_text err)"

record CoreCodec =
  cc_IssueRequest :: "IssueRequest \<Rightarrow> string result"
  cc_CSRInfo :: "string \<Rightarrow> CSRInfo result"
  cc_IssueResult :: "string \<Rightarrow> IssueResult result"
  cc_GenerateCRLResult :: "string \<Rightarrow> GenerateCRLResult result"
  cc_OCSPRequestInfo :: "string \<Rightarrow> OCSPRequestInfo result"
  cc_OCSPIssuerInfo :: "string \<Rightarrow> OCSPIssuerInfo result"
  cc_ValidateOCSPResponderResult :: "string \<Rightarrow> ValidateOCSPResponderResult result"
  cc_commandErrorPayload :: "string \<Rightarrow> commandErrorPayload option"
  cc_rfc3339 :: "time \<Rightarrow> string"

definition commandError :: "CoreCodec \<Rightarrow> error \<Rightarrow> string \<Rightarrow> CommandError" where
  "commandError cc err stderr0 =
     (let stderr = TrimSpace stderr0 in
      if stderr = [] then \<lparr>cme_Code = [], cme_Message = [], cme_OpenSSLErrors = [], cme_Err = Some err\<rparr>
      else case cc_commandErrorPayload cc stderr of
          Some payload \<Rightarrow>
            if cep_Code payload \<noteq> [] \<or> cep_Message payload \<noteq> []
            then \<lparr>cme_Code = cep_Code payload, cme_Message = cep_Message payload, cme_OpenSSLErrors = cep_OpenSSLErrors payload, cme_Err = Some err\<rparr>
            else \<lparr>cme_Code = [], cme_Message = stderr, cme_OpenSSLErrors = [], cme_Err = Some err\<rparr>
        | None \<Rightarrow> \<lparr>cme_Code = [], cme_Message = stderr, cme_OpenSSLErrors = [], cme_Err = Some err\<rparr>)"

text \<open>The error value of the service's model keeps the code and the text.\<close>

definition asError :: "CommandError \<Rightarrow> error" where
  "asError e = ErrCommand (cme_Code e) (CommandError_Error e)"

section \<open>Request files\<close>

record crlFileRequest =
  cfr_IssuerCertificatePEM :: string
  cfr_IssuerKeyRef :: string
  cfr_CRLNumber :: int
  cfr_ThisUpdate :: string
  cfr_NextUpdate :: string
  cfr_RevokedSerialNumbers :: "string list"
  cfr_RevokedAtTimes :: "string list"
  cfr_RevocationReasons :: "string list"

record ocspResponseFileRequest =
  ofr_IssuerCertificatePEM :: string
  ofr_IssuerKeyRef :: string
  ofr_ThisUpdate :: string
  ofr_NextUpdate :: string
  ofr_SerialNumbers :: "string list"
  ofr_HashAlgorithms :: "string list"
  ofr_IssuerNameHashes :: "string list"
  ofr_IssuerKeyHashes :: "string list"
  ofr_Statuses :: "string list"
  ofr_RevokedAtTimes :: "string list"
  ofr_RevocationReasons :: "string list"

definition coreTime :: "CoreCodec \<Rightarrow> time \<Rightarrow> string" where
  "coreTime cc value = cc_rfc3339 cc (value - value mod Second)"

text \<open>The bodies of the two loops that fill the parallel lists.\<close>

definition addRevoked :: "CoreCodec \<Rightarrow> RevokedCertificate \<Rightarrow> crlFileRequest \<Rightarrow> crlFileRequest" where
  "addRevoked cc revoked f =
     f\<lparr>cfr_RevokedSerialNumbers := cfr_RevokedSerialNumbers f @ [rvk_SerialNumber revoked],
       cfr_RevokedAtTimes := cfr_RevokedAtTimes f @ [coreTime cc (rvk_RevokedAt revoked)],
       cfr_RevocationReasons := cfr_RevocationReasons f @ [rvk_Reason revoked]\<rparr>"

definition addStatus :: "CoreCodec \<Rightarrow> OCSPCertificateStatus \<Rightarrow> ocspResponseFileRequest \<Rightarrow> ocspResponseFileRequest" where
  "addStatus cc c f =
     f\<lparr>ofr_SerialNumbers := ofr_SerialNumbers f @ [ocs_SerialNumber c], ofr_HashAlgorithms := ofr_HashAlgorithms f @ [ocs_HashAlgorithm c],
       ofr_IssuerNameHashes := ofr_IssuerNameHashes f @ [ocs_IssuerNameHash c], ofr_IssuerKeyHashes := ofr_IssuerKeyHashes f @ [ocs_IssuerKeyHash c],
       ofr_Statuses := ofr_Statuses f @ [ocs_Status c], ofr_RevokedAtTimes := ofr_RevokedAtTimes f @ [coreTime cc (ocs_RevokedAt c)],
       ofr_RevocationReasons := ofr_RevocationReasons f @ [ocs_RevocationReason c]\<rparr>"

definition crlFileOf :: "CoreCodec \<Rightarrow> GenerateCRLRequest \<Rightarrow> crlFileRequest" where
  "crlFileOf cc req =
     fold (addRevoked cc) (gcq_RevokedCertificates req)
       \<lparr>cfr_IssuerCertificatePEM = gcq_IssuerCertificatePEM req, cfr_IssuerKeyRef = gcq_IssuerKeyRef req, cfr_CRLNumber = gcq_CRLNumber req,
        cfr_ThisUpdate = coreTime cc (gcq_ThisUpdate req), cfr_NextUpdate = coreTime cc (gcq_NextUpdate req),
        cfr_RevokedSerialNumbers = [], cfr_RevokedAtTimes = [], cfr_RevocationReasons = []\<rparr>"

definition ocspFileOf :: "CoreCodec \<Rightarrow> GenerateOCSPResponseRequest \<Rightarrow> ocspResponseFileRequest" where
  "ocspFileOf cc req =
     fold (addStatus cc) (goq_Certificates req)
       \<lparr>ofr_IssuerCertificatePEM = goq_IssuerCertificatePEM req, ofr_IssuerKeyRef = goq_IssuerKeyRef req,
        ofr_ThisUpdate = coreTime cc (goq_ThisUpdate req), ofr_NextUpdate = coreTime cc (goq_NextUpdate req),
        ofr_SerialNumbers = [], ofr_HashAlgorithms = [], ofr_IssuerNameHashes = [], ofr_IssuerKeyHashes = [], ofr_Statuses = [],
        ofr_RevokedAtTimes = [], ofr_RevocationReasons = []\<rparr>"

text \<open>\<^verbatim>\<open>json.Encoder.Encode\<close>: the fields in the order of the struct, then a newline. The slices were made, so an empty one is \<^verbatim>\<open>[]\<close>.\<close>

definition jstrings :: "string list \<Rightarrow> json" where
  "jstrings xs = JList (map JString xs)"

definition encodeCRLFile :: "crlFileRequest \<Rightarrow> string" where
  "encodeCRLFile f =
     json_marshal (JObject
       [(''issuer_certificate_pem'', JString (cfr_IssuerCertificatePEM f)), (''issuer_key_ref'', JString (cfr_IssuerKeyRef f)),
        (''crl_number'', JInt (cfr_CRLNumber f)), (''this_update'', JString (cfr_ThisUpdate f)), (''next_update'', JString (cfr_NextUpdate f)),
        (''revoked_serial_numbers'', jstrings (cfr_RevokedSerialNumbers f)), (''revoked_at_times'', jstrings (cfr_RevokedAtTimes f)),
        (''revocation_reasons'', jstrings (cfr_RevocationReasons f))]) @ [CHR 0x0A]"

definition encodeOCSPFile :: "ocspResponseFileRequest \<Rightarrow> string" where
  "encodeOCSPFile f =
     json_marshal (JObject
       [(''issuer_certificate_pem'', JString (ofr_IssuerCertificatePEM f)), (''issuer_key_ref'', JString (ofr_IssuerKeyRef f)),
        (''this_update'', JString (ofr_ThisUpdate f)), (''next_update'', JString (ofr_NextUpdate f)),
        (''serial_numbers'', jstrings (ofr_SerialNumbers f)), (''hash_algorithms'', jstrings (ofr_HashAlgorithms f)),
        (''issuer_name_hashes'', jstrings (ofr_IssuerNameHashes f)), (''issuer_key_hashes'', jstrings (ofr_IssuerKeyHashes f)),
        (''statuses'', jstrings (ofr_Statuses f)), (''revoked_at_times'', jstrings (ofr_RevokedAtTimes f)),
        (''revocation_reasons'', jstrings (ofr_RevocationReasons f))]) @ [CHR 0x0A]"

section \<open>Running the core\<close>

record Runner =
  run_Bin :: string

text \<open>A temporary file with the given contents. A value that cannot be encoded writes nothing and fails like a write.\<close>

definition inputFile :: "Host \<Rightarrow> string \<Rightarrow> string \<Rightarrow> string \<Rightarrow> string \<Rightarrow> string result \<Rightarrow> (string \<Rightarrow> 'a os) \<Rightarrow> 'a os" where
  "inputFile h pattern createMsg writeMsg closeMsg content body =
     bindM (os_CreateTemp h createMsg pattern) (\<lambda>path.
     deferRemove h path
       (bindM (attemptM (case content of Inl err \<Rightarrow> throwM (wrapErr writeMsg err) | Inr data \<Rightarrow> os_Write h writeMsg path data)) (\<lambda>written.
        case written of
          Inl err \<Rightarrow> thenM (attemptM (os_Close h [] path)) (throwM err)
        | Inr _ \<Rightarrow> thenM (os_Close h closeMsg path) (body path))))"

text \<open>An empty temporary file for the answer.\<close>

definition outputFile :: "Host \<Rightarrow> string \<Rightarrow> string \<Rightarrow> string \<Rightarrow> (string \<Rightarrow> 'a os) \<Rightarrow> 'a os" where
  "outputFile h pattern createMsg closeMsg body =
     bindM (os_CreateTemp h createMsg pattern) (\<lambda>path. deferRemove h path (thenM (os_Close h closeMsg path) (body path)))"

definition coreBin :: "Runner \<Rightarrow> string" where
  "coreBin r = (if run_Bin r = [] then ''modern-pki-core'' else run_Bin r)"

text \<open>\<^verbatim>\<open>cmd.Run()\<close>: the standard output of a child that succeeded.\<close>

definition runCore :: "Host \<Rightarrow> CoreCodec \<Rightarrow> Runner \<Rightarrow> string list \<Rightarrow> string os" where
  "runCore h cc r args = (\<lambda>s.
     let res = hst_Run h (os_calls s) (coreBin r) args (os_files s) in
     (case chd_Err res of None \<Rightarrow> Inr (chd_Stdout res) | Some err \<Rightarrow> Inl (asError (commandError cc err (chd_Stderr res))),
      (tick s)\<lparr>os_files := chd_Files res\<rparr>))"

definition decodeResult :: "string \<Rightarrow> (string \<Rightarrow> 'a result) \<Rightarrow> string \<Rightarrow> 'a os" where
  "decodeResult what dec data = (case dec data of Inl err \<Rightarrow> throwM (wrapErr what err) | Inr v \<Rightarrow> returnM v)"

definition Runner_InspectCSR :: "Host \<Rightarrow> CoreCodec \<Rightarrow> Runner \<Rightarrow> string \<Rightarrow> CSRInfo os" where
  "Runner_InspectCSR h cc r csrPEM =
     inputFile h ''modern-pki-core-csr-*.pem'' ''create csr temp file'' ''write csr temp file'' ''close csr temp file'' (Inr csrPEM) (\<lambda>csrPath.
     bindM (runCore h cc r [''csr'', ''inspect'', ''--in'', csrPath, ''--out'', ''json'']) (\<lambda>stdout.
     decodeResult ''decode csr info'' (cc_CSRInfo cc) stdout))"

definition Runner_Issue :: "Host \<Rightarrow> CoreCodec \<Rightarrow> Runner \<Rightarrow> IssueRequest \<Rightarrow> IssueResult os" where
  "Runner_Issue h cc r req =
     inputFile h ''modern-pki-core-issue-request-*.json'' ''create issue request temp file'' ''write issue request'' ''close issue request''
       (cc_IssueRequest cc req) (\<lambda>requestPath.
     outputFile h ''modern-pki-core-issue-result-*.json'' ''create issue result temp file'' ''close issue result temp file'' (\<lambda>resultPath.
     thenM (runCore h cc r [''cert'', ''issue'', ''--request'', requestPath, ''--out'', resultPath])
    (bindM (os_ReadFile h ''open issue result'' resultPath) (decodeResult ''decode issue result'' (cc_IssueResult cc)))))"

definition Runner_GenerateCRL :: "Host \<Rightarrow> CoreCodec \<Rightarrow> Runner \<Rightarrow> GenerateCRLRequest \<Rightarrow> GenerateCRLResult os" where
  "Runner_GenerateCRL h cc r req =
     inputFile h ''modern-pki-core-crl-request-*.json'' ''create crl request temp file'' ''write crl request'' ''close crl request''
       (Inr (encodeCRLFile (crlFileOf cc req))) (\<lambda>requestPath.
     outputFile h ''modern-pki-core-crl-result-*.json'' ''create crl result temp file'' ''close crl result temp file'' (\<lambda>resultPath.
     thenM (runCore h cc r [''crl'', ''generate'', ''--request'', requestPath, ''--out'', resultPath])
    (bindM (os_ReadFile h ''open crl result'' resultPath) (decodeResult ''decode crl result'' (cc_GenerateCRLResult cc)))))"

definition Runner_InspectOCSP :: "Host \<Rightarrow> CoreCodec \<Rightarrow> Runner \<Rightarrow> string \<Rightarrow> OCSPRequestInfo os" where
  "Runner_InspectOCSP h cc r requestDER =
     inputFile h ''modern-pki-core-ocsp-request-*.der'' ''create ocsp request temp file'' ''write ocsp request'' ''close ocsp request''
       (Inr requestDER) (\<lambda>requestPath.
     outputFile h ''modern-pki-core-ocsp-info-*.json'' ''create ocsp info temp file'' ''close ocsp info temp file'' (\<lambda>resultPath.
     thenM (runCore h cc r [''ocsp'', ''inspect'', ''--in'', requestPath, ''--out'', resultPath])
    (bindM (os_ReadFile h ''open ocsp info'' resultPath) (decodeResult ''decode ocsp info'' (cc_OCSPRequestInfo cc)))))"

definition Runner_InspectOCSPIssuer :: "Host \<Rightarrow> CoreCodec \<Rightarrow> Runner \<Rightarrow> string \<Rightarrow> string \<Rightarrow> OCSPIssuerInfo os" where
  "Runner_InspectOCSPIssuer h cc r issuerCertificatePEM hashAlgorithm =
     inputFile h ''modern-pki-core-ocsp-issuer-*.pem'' ''create ocsp issuer temp file'' ''write ocsp issuer'' ''close ocsp issuer''
       (Inr issuerCertificatePEM) (\<lambda>issuerPath.
     outputFile h ''modern-pki-core-ocsp-issuer-info-*.json'' ''create ocsp issuer info temp file'' ''close ocsp issuer info temp file'' (\<lambda>resultPath.
     thenM (runCore h cc r [''ocsp'', ''inspect-issuer'', ''--issuer'', issuerPath, ''--out'', resultPath, ''--hash'',
         if hashAlgorithm = [] then ''sha1'' else hashAlgorithm])
    (bindM (os_ReadFile h ''open ocsp issuer info'' resultPath) (decodeResult ''decode ocsp issuer info'' (cc_OCSPIssuerInfo cc)))))"

definition Runner_ValidateOCSPResponder :: "Host \<Rightarrow> CoreCodec \<Rightarrow> Runner \<Rightarrow> string \<Rightarrow> string \<Rightarrow> ValidateOCSPResponderResult os" where
  "Runner_ValidateOCSPResponder h cc r issuerCertificatePEM responderCertificatePEM =
     inputFile h ''modern-pki-core-ocsp-issuer-*.pem'' ''create ocsp issuer temp file'' ''write ocsp issuer'' ''close ocsp issuer''
       (Inr issuerCertificatePEM) (\<lambda>issuerPath.
     inputFile h ''modern-pki-core-ocsp-responder-*.pem'' ''create ocsp responder temp file'' ''write ocsp responder'' ''close ocsp responder''
       (Inr responderCertificatePEM) (\<lambda>responderPath.
     outputFile h ''modern-pki-core-ocsp-responder-validation-*.json'' ''create ocsp responder validation temp file''
       ''close ocsp responder validation temp file'' (\<lambda>resultPath.
     thenM (runCore h cc r [''ocsp'', ''validate-responder'', ''--issuer'', issuerPath, ''--responder'', responderPath, ''--out'', resultPath])
    (bindM (os_ReadFile h ''open ocsp responder validation'' resultPath)
       (decodeResult ''decode ocsp responder validation'' (cc_ValidateOCSPResponderResult cc))))))"

definition Runner_GenerateOCSPResponse :: "Host \<Rightarrow> CoreCodec \<Rightarrow> Runner \<Rightarrow> GenerateOCSPResponseRequest \<Rightarrow> GenerateOCSPResponseResult os" where
  "Runner_GenerateOCSPResponse h cc r req =
     inputFile h ''modern-pki-core-ocsp-request-*.der'' ''create ocsp request temp file'' ''write ocsp request der'' ''close ocsp request der''
       (Inr (goq_RequestDER req)) (\<lambda>requestDERPath.
     inputFile h ''modern-pki-core-ocsp-response-request-*.json'' ''create ocsp response request temp file'' ''write ocsp response request''
       ''close ocsp response request'' (Inr (encodeOCSPFile (ocspFileOf cc req))) (\<lambda>requestPath.
     outputFile h ''modern-pki-core-ocsp-response-*.der'' ''create ocsp response temp file'' ''close ocsp response temp file'' (\<lambda>responsePath.
     thenM (runCore h cc r [''ocsp'', ''respond'', ''--in'', requestDERPath, ''--request'', requestPath, ''--out'', responsePath])
    (bindM (os_ReadFile h ''read ocsp response'' responsePath) (\<lambda>responseDER. returnM \<lparr>gor_ResponseDER = responseDER\<rparr>)))))"

section \<open>Nothing is left behind\<close>

text \<open>
  The file the core is told to write: the value of \<^verbatim>\<open>--out\<close> among the options that follow the two words of the command; inspecting a CSR
  prints to the standard output instead.
\<close>

fun optionValue :: "string \<Rightarrow> string list \<Rightarrow> string option" where
  "optionValue name (k # v # rest) = (if k = name then Some v else optionValue name rest)"
| "optionValue name _ = None"

definition childWrites :: "string list \<Rightarrow> string set" where
  "childWrites args =
     (if take 2 args = [''csr'', ''inspect''] then {} else set_option (optionValue ''--out'' (drop 2 args)))"

text \<open>
  A host that behaves as documented: a temporary file is new, a write without an error has stored everything, removing a temporary file
  succeeds, and the core writes nothing but its output file.
\<close>

definition tidyHost :: "Host \<Rightarrow> bool" where
  "tidyHost h \<longleftrightarrow>
     (\<forall>n fs pattern path. hst_CreateTemp h n fs pattern = Inr path \<longrightarrow> mget fs path = None) \<and>
     (\<forall>n path data stored. hst_Write h n path data = (stored, None) \<longrightarrow> stored = data) \<and>
     (\<forall>n path. hst_RemoveError h n path = None) \<and>
     (\<forall>n bin args fs p. p \<notin> childWrites args \<longrightarrow> mget (chd_Files (hst_Run h n bin args fs)) p = mget fs p)"

lemma tidyHostD:
  assumes "tidyHost h"
  shows "hst_CreateTemp h n fs pattern = Inr path \<Longrightarrow> mget fs path = None" and "hst_RemoveError h n path = None"
    and "p \<notin> childWrites args \<Longrightarrow> mget (chd_Files (hst_Run h n bin args fs)) p = mget fs p"
    and "hst_Write h n path data = (stored, None) \<Longrightarrow> stored = data"
  using assms unfolding tidyHost_def by blast+

text \<open>\<open>leaves P m\<close>: outside \<open>P\<close> the files are the same after \<open>m\<close>, whatever it returned.\<close>

definition leaves :: "string set \<Rightarrow> 'a os \<Rightarrow> bool" where
  "leaves P m \<longleftrightarrow> (\<forall>s p. p \<notin> P \<longrightarrow> mget (os_files (snd (m s))) p = mget (os_files s) p)"

named_theorems leaves_rules \<open>programs that leave other files alone\<close>

lemma leavesD: "leaves P m \<Longrightarrow> m s = (r, s') \<Longrightarrow> p \<notin> P \<Longrightarrow> mget (os_files s') p = mget (os_files s) p"
  unfolding leaves_def by (metis snd_conv)

lemma leaves_bind [leaves_rules]: "leaves P m \<Longrightarrow> (\<And>x. leaves P (f x)) \<Longrightarrow> leaves P (bindM m f)"
  by (auto simp: leaves_def bindM_def dest: leavesD split: prod.split sum.split) (metis snd_conv)+

lemma leaves_then [leaves_rules]: "leaves P m \<Longrightarrow> leaves P k \<Longrightarrow> leaves P (thenM m k)"
  unfolding thenM_def by (rule leaves_bind)

lemma leaves_basic [leaves_rules]: "leaves P (throwM e)" "leaves P (returnM x)" "leaves P (os_Close h what path)"
  "leaves P (os_ReadFile h what path)" "leaves P (decodeResult what dec data)"
  by (auto simp: leaves_def os_Close_def os_ReadFile_def decodeResult_def tick_def split: sum.split)

lemma leaves_attempt [leaves_rules]: "leaves P m \<Longrightarrow> leaves P (attemptM m)"
  by (auto simp: leaves_def attemptM_def split: prod.split) (metis snd_conv)

lemma leaves_Write: "path \<in> P \<Longrightarrow> leaves P (os_Write h what path data)"
  by (auto simp: leaves_def os_Write_def tick_def mget_mput split: prod.split option.split)

lemma leaves_runCore [leaves_rules]: "tidyHost h \<Longrightarrow> childWrites args \<subseteq> P \<Longrightarrow> leaves P (runCore h cc r args)"
  by (auto simp: leaves_def runCore_def tick_def Let_def intro!: tidyHostD(3))

text \<open>A temporary file is there for its body only.\<close>

lemma leaves_temp:
  assumes h: "tidyHost h" and body: "\<And>path. leaves (insert path P) (body path)"
  shows "leaves P (bindM (os_CreateTemp h what pattern) (\<lambda>path. deferRemove h path (body path)))"
  unfolding leaves_def
proof (intro allI impI)
  fix s p
  assume p: "p \<notin> P"
  show "mget (os_files (snd (bindM (os_CreateTemp h what pattern) (\<lambda>path. deferRemove h path (body path)) s))) p = mget (os_files s) p"
  proof (cases "hst_CreateTemp h (os_calls s) (os_files s) pattern")
    case (Inl e)
    then show ?thesis by (simp add: bindM_def os_CreateTemp_def tick_def)
  next
    case (Inr path)
    let ?s1 = "(tick s)\<lparr>os_files := mput path [] (os_files s)\<rparr>"
    obtain r s2 where run: "body path ?s1 = (r, s2)" by fastforce
    have new: "mget (os_files s) path = None" using tidyHostD(1)[OF h Inr] .
    have "mget (os_files s2) p = mget (os_files s) p" if "p \<noteq> path"
      using leavesD[OF body run, of p] p that by (simp add: mget_mput tick_def)
    then show ?thesis using new
      by (cases "p = path") (simp_all add: bindM_def os_CreateTemp_def Inr deferRemove_def run os_Remove_def tidyHostD(2)[OF h] mget_mdel)
  qed
qed

lemma leaves_outputFile [leaves_rules]:
  "tidyHost h \<Longrightarrow> (\<And>path. leaves (insert path P) (body path)) \<Longrightarrow> leaves P (outputFile h pattern createMsg closeMsg body)"
  unfolding outputFile_def by (rule leaves_temp) (auto intro!: leaves_rules)

lemma leaves_inputFile [leaves_rules]:
  "tidyHost h \<Longrightarrow> (\<And>path. leaves (insert path P) (body path)) \<Longrightarrow> leaves P (inputFile h pattern createMsg writeMsg closeMsg content body)"
  unfolding inputFile_def
  by (rule leaves_temp) (auto intro!: leaves_rules leaves_Write split: sum.split)

text \<open>
  C23: whatever an operation of the adapter returns, also when a file cannot be written, the core fails or its answer cannot be read, no file is different
  afterwards: the requests, which hold key references and certificate data, and the answers are gone.
\<close>

theorem Runner_leaves_no_files:
  assumes "tidyHost h"
  shows "leaves {} (Runner_InspectCSR h cc r csrPEM) \<and> leaves {} (Runner_Issue h cc r issueReq) \<and>
    leaves {} (Runner_GenerateCRL h cc r crlReq) \<and> leaves {} (Runner_InspectOCSP h cc r requestDER) \<and>
    leaves {} (Runner_InspectOCSPIssuer h cc r issuerPEM hashAlgorithm) \<and>
    leaves {} (Runner_ValidateOCSPResponder h cc r issuerPEM responderPEM) \<and> leaves {} (Runner_GenerateOCSPResponse h cc r ocspReq)"
  unfolding Runner_InspectCSR_def Runner_Issue_def Runner_GenerateCRL_def Runner_InspectOCSP_def Runner_InspectOCSPIssuer_def
    Runner_ValidateOCSPResponder_def Runner_GenerateOCSPResponse_def
  by (intro conjI leaves_rules assms; simp add: childWrites_def)

section \<open>The answer is the core's\<close>

text \<open>
  The core was run with the arguments \<open>args\<close> on files that held the requests \<open>inputs\<close>, succeeded, and left \<open>out\<close> in the file \<open>resultPath\<close>.
\<close>

definition coreAnswered :: "Host \<Rightarrow> Runner \<Rightarrow> string list \<Rightarrow> (string \<times> string) list \<Rightarrow> string \<Rightarrow> string \<Rightarrow> bool" where
  "coreAnswered h r args inputs resultPath out \<longleftrightarrow>
     (\<exists>n fs. (\<forall>(path, data) \<in> set inputs. mget fs path = Some data) \<and>
        chd_Err (hst_Run h n (coreBin r) args fs) = None \<and> mget (chd_Files (hst_Run h n (coreBin r) args fs)) resultPath = Some out)"

lemma temp_Inr:
  assumes "bindM (os_CreateTemp h what pattern) (\<lambda>path. deferRemove h path (body path)) s = (Inr x, s')"
  obtains path s1 s2 where "hst_CreateTemp h (os_calls s) (os_files s) pattern = Inr path" "os_files s1 = mput path [] (os_files s)"
    "body path s1 = (Inr x, s2)"
proof (cases "hst_CreateTemp h (os_calls s) (os_files s) pattern")
  case (Inr path)
  let ?s1 = "(tick s)\<lparr>os_files := mput path [] (os_files s)\<rparr>"
  obtain s2 where "body path ?s1 = (Inr x, s2)"
    using assms by (auto simp: bindM_Inr os_CreateTemp_def Inr deferRemove_def split: prod.splits)
  then show ?thesis by (intro that[of path ?s1 s2] Inr) simp_all
qed (use assms in \<open>auto simp: bindM_Inr os_CreateTemp_def\<close>)

lemma keeps_files_Inr:
  "os_Close h what path s = (Inr x, s') \<Longrightarrow> os_files s' = os_files s"
  "os_ReadFile h what path s = (Inr data, s') \<Longrightarrow> mget (os_files s) path = Some data \<and> os_files s' = os_files s"
  by (auto simp: os_Close_def os_ReadFile_def tick_def split: option.splits)

lemma inputFile_Inr:
  assumes h: "tidyHost h" and run: "inputFile h pattern m1 m2 m3 content body s = (Inr x, s')"
  obtains path data s1 s2 where "content = Inr data" "mget (os_files s) path = None" "os_files s1 = mput path data (mput path [] (os_files s))"
    "body path s1 = (Inr x, s2)"
proof -
  obtain path t1 t2 where new: "hst_CreateTemp h (os_calls s) (os_files s) pattern = Inr path" and t1: "os_files t1 = mput path [] (os_files s)"
    and b: "bindM (attemptM (case content of Inl err \<Rightarrow> throwM (wrapErr m2 err) | Inr data \<Rightarrow> os_Write h m2 path data)) (\<lambda>written.
        case written of Inl err \<Rightarrow> thenM (attemptM (os_Close h [] path)) (throwM err) | Inr _ \<Rightarrow> thenM (os_Close h m3 path) (body path)) t1 = (Inr x, t2)"
    using run unfolding inputFile_def by (rule temp_Inr) blast
  obtain data where data: "content = Inr data" using b by (cases content) (auto simp: inr_simps)
  obtain u v where w: "os_Write h m2 path data t1 = (Inr u, v)" and c: "thenM (os_Close h m3 path) (body path) v = (Inr x, t2)"
    using b by (auto simp: data inr_simps split: sum.splits)
  have v: "os_files v = mput path data (os_files t1)"
    using w by (auto simp: os_Write_def split: prod.splits option.splits dest: tidyHostD(4)[OF h])
  obtain y s1 where "os_Close h m3 path v = (Inr y, s1)" "body path s1 = (Inr x, t2)" using c by (auto simp: inr_simps)
  then show ?thesis using that[OF data tidyHostD(1)[OF h new]] keeps_files_Inr(1) v t1 by metis
qed

lemma outputFile_Inr:
  assumes h: "tidyHost h" and run: "outputFile h pattern m1 m2 body s = (Inr x, s')"
  obtains path s1 s2 where "mget (os_files s) path = None" "os_files s1 = mput path [] (os_files s)" "body path s1 = (Inr x, s2)"
proof -
  obtain path t1 t2 where new: "hst_CreateTemp h (os_calls s) (os_files s) pattern = Inr path" and t1: "os_files t1 = mput path [] (os_files s)"
    and b: "thenM (os_Close h m2 path) (body path) t1 = (Inr x, t2)"
    using run unfolding outputFile_def by (rule temp_Inr) blast
  obtain y s1 where "os_Close h m2 path t1 = (Inr y, s1)" "body path s1 = (Inr x, t2)" using b by (auto simp: inr_simps)
  then show ?thesis using that[OF tidyHostD(1)[OF h new]] keeps_files_Inr(1) t1 by metis
qed

lemma runCore_Inr:
  "thenM (runCore h cc r args) (bindM (os_ReadFile h m path) use) s = (Inr x, s') \<Longrightarrow> (\<And>p d. (p, d) \<in> set inputs \<Longrightarrow> mget (os_files s) p = Some d) \<Longrightarrow>
     \<exists>out s1 s2. coreAnswered h r args inputs path out \<and> use out s1 = (Inr x, s2)"
  by (auto simp: inr_simps runCore_def coreAnswered_def Let_def split: option.splits dest!: keeps_files_Inr(2)) blast

text \<open>The common shape: one request file, one answer.\<close>

lemma oneRequest_genuine:
  assumes h: "tidyHost h"
    and run: "inputFile h p1 m1 m2 m3 content (\<lambda>requestPath. outputFile h p2 m4 m5 (\<lambda>resultPath.
       thenM (runCore h cc r (args requestPath resultPath)) (bindM (os_ReadFile h m6 resultPath) (decodeResult m7 dec)))) s = (Inr x, s')"
  shows "\<exists>data requestPath resultPath out. content = Inr data \<and>
    coreAnswered h r (args requestPath resultPath) [(requestPath, data)] resultPath out \<and> dec out = Inr x"
  using h run
proof (rule inputFile_Inr)
  fix path data s1 s2
  assume data: "content = Inr data" and s1: "os_files s1 = mput path data (mput path [] (os_files s))"
    and body: "outputFile h p2 m4 m5 (\<lambda>resultPath.
       thenM (runCore h cc r (args path resultPath)) (bindM (os_ReadFile h m6 resultPath) (decodeResult m7 dec))) s1 = (Inr x, s2)"
  show ?thesis
    using h body
  proof (rule outputFile_Inr)
    fix out t1 t2
    assume new: "mget (os_files s1) out = None" and t1: "os_files t1 = mput out [] (os_files s1)"
      and core: "thenM (runCore h cc r (args path out)) (bindM (os_ReadFile h m6 out) (decodeResult m7 dec)) t1 = (Inr x, t2)"
    have "mget (os_files t1) path = Some data" using new by (auto simp: t1 s1 mget_mput)
    then show ?thesis using runCore_Inr[OF core, of "[(path, data)]"] data
      by (fastforce simp: decodeResult_def inr_simps split: sum.splits)
  qed
qed

lemma crlFileOf_fields:
  "cfr_IssuerKeyRef (crlFileOf cc req) = gcq_IssuerKeyRef req" "cfr_IssuerCertificatePEM (crlFileOf cc req) = gcq_IssuerCertificatePEM req"
  "cfr_CRLNumber (crlFileOf cc req) = gcq_CRLNumber req"
  "cfr_RevokedSerialNumbers (crlFileOf cc req) = map rvk_SerialNumber (gcq_RevokedCertificates req)"
  "cfr_RevokedAtTimes (crlFileOf cc req) = map (coreTime cc \<circ> rvk_RevokedAt) (gcq_RevokedCertificates req)"
  "cfr_RevocationReasons (crlFileOf cc req) = map rvk_Reason (gcq_RevokedCertificates req)"
proof -
  have [simp]: "fold (addRevoked cc) rs f = f\<lparr>cfr_RevokedSerialNumbers := cfr_RevokedSerialNumbers f @ map rvk_SerialNumber rs,
      cfr_RevokedAtTimes := cfr_RevokedAtTimes f @ map (coreTime cc \<circ> rvk_RevokedAt) rs,
      cfr_RevocationReasons := cfr_RevocationReasons f @ map rvk_Reason rs\<rparr>" for rs f
    by (induction rs arbitrary: f) (simp_all add: addRevoked_def)
  show "cfr_IssuerKeyRef (crlFileOf cc req) = gcq_IssuerKeyRef req" "cfr_IssuerCertificatePEM (crlFileOf cc req) = gcq_IssuerCertificatePEM req"
    "cfr_CRLNumber (crlFileOf cc req) = gcq_CRLNumber req"
    "cfr_RevokedSerialNumbers (crlFileOf cc req) = map rvk_SerialNumber (gcq_RevokedCertificates req)"
    "cfr_RevokedAtTimes (crlFileOf cc req) = map (coreTime cc \<circ> rvk_RevokedAt) (gcq_RevokedCertificates req)"
    "cfr_RevocationReasons (crlFileOf cc req) = map rvk_Reason (gcq_RevokedCertificates req)"
    by (simp_all add: crlFileOf_def)
qed

text \<open>
  A certificate the adapter returns was written by the core, in a run that succeeded, for exactly the request of the caller.
\<close>

lemma Runner_Issue_genuine:
  assumes "tidyHost h" and "Runner_Issue h cc r req s = (Inr res, s')"
  shows "\<exists>data requestPath resultPath out. cc_IssueRequest cc req = Inr data \<and>
    coreAnswered h r [''cert'', ''issue'', ''--request'', requestPath, ''--out'', resultPath] [(requestPath, data)] resultPath out \<and>
    cc_IssueResult cc out = Inr res"
  using oneRequest_genuine[OF assms(1) assms(2)[unfolded Runner_Issue_def]] .


section \<open>A host\<close>

text \<open>A host on which every call succeeds and the core answers every request with the text \<^verbatim>\<open>crl\<close>; a temporary file is named by its pattern.\<close>

definition demoHost :: Host where
  "demoHost =
     \<lparr>hst_CreateTemp = (\<lambda>n fs pattern. if mget fs pattern = None then Inr pattern else Inl (ErrExternal ''file exists'')),
      hst_Write = (\<lambda>n path data. (data, None)), hst_Close = (\<lambda>n path. None),
      hst_Run = (\<lambda>n bin args fs. \<lparr>chd_Err = None, chd_Stdout = [], chd_Stderr = [],
        chd_Files = (if take 2 args = [''csr'', ''inspect''] then fs else case optionValue ''--out'' (drop 2 args) of None \<Rightarrow> fs | Some path \<Rightarrow> mput path ''crl'' fs)\<rparr>),
      hst_ReadError = (\<lambda>n path. None), hst_NotExist = (\<lambda>path. ErrExternal path), hst_RemoveError = (\<lambda>n path. None)\<rparr>"

definition demoCoreCodec :: CoreCodec where
  "demoCoreCodec =
     \<lparr>cc_IssueRequest = (\<lambda>_. Inr []), cc_CSRInfo = (\<lambda>_. Inl ErrInvalidRequest), cc_IssueResult = (\<lambda>_. Inl ErrInvalidRequest),
      cc_GenerateCRLResult = (\<lambda>data. Inr \<lparr>gcr_CRLPEM = data\<rparr>), cc_OCSPRequestInfo = (\<lambda>_. Inl ErrInvalidRequest),
      cc_OCSPIssuerInfo = (\<lambda>_. Inl ErrInvalidRequest), cc_ValidateOCSPResponderResult = (\<lambda>_. Inl ErrInvalidRequest),
      cc_commandErrorPayload = (\<lambda>_. None), cc_rfc3339 = (\<lambda>_. [])\<rparr>"

definition demoCRLRequest :: GenerateCRLRequest where
  "demoCRLRequest =
     \<lparr>gcq_IssuerCertificatePEM = ''pem'', gcq_IssuerKeyRef = ''key'', gcq_CRLNumber = 7, gcq_ThisUpdate = 0, gcq_NextUpdate = 0,
      gcq_RevokedCertificates = [\<lparr>rvk_SerialNumber = ''01'', rvk_RevokedAt = 0, rvk_Reason = ''superseded''\<rparr>]\<rparr>"

lemma demo_host_tidy: "tidyHost demoHost"
  unfolding tidyHost_def by (auto simp: demoHost_def childWrites_def mget_mput split: if_splits option.splits)

lemma demo_crl_run:
  "fst (Runner_GenerateCRL demoHost demoCoreCodec \<lparr>run_Bin = []\<rparr> demoCRLRequest \<lparr>os_files = mempty, os_calls = 0\<rparr>) = Inr \<lparr>gcr_CRLPEM = ''crl''\<rparr>"
  by (simp add: Runner_GenerateCRL_def inputFile_def outputFile_def os_CreateTemp_def os_Write_def os_Close_def os_ReadFile_def deferRemove_def runCore_def
      decodeResult_def demoHost_def demoCoreCodec_def prog_simps tick_def mget_mput Let_def)

theorem Runner_leaves_no_files_witness: "leaves {} (Runner_GenerateCRL demoHost demoCoreCodec \<lparr>run_Bin = []\<rparr> demoCRLRequest)"
  using Runner_leaves_no_files[OF demo_host_tidy] by blast


end
