(* ===== verification/Http01.thy ===== *)
theory Http01
  imports Service
begin

text \<open>
  The HTTP-01 verifier of \<^verbatim>\<open>internal/lifecycle/service.go\<close> (\<^verbatim>\<open>NewACMEHTTP01Verifier\<close>, \<^verbatim>\<open>acmeHTTP01ChallengeURL\<close>): which URL is fetched for a
  challenge and which answer is accepted. The HTTP client is a parameter: \<open>fetch guarded n u\<close> is the answer to the \<open>n\<close>-th request when it is for \<open>u\<close>, where
  \<open>guarded\<close> says whether the client dials and follows redirects through the guard of \<^verbatim>\<open>Netip\<close>.
\<close>

section \<open>URLs\<close>

text \<open>\<^verbatim>\<open>u.Hostname()\<close>: the host without a port of digits and without the brackets of an IPv6 address.\<close>

definition urlHostname :: "string \<Rightarrow> string" where
  "urlHostname hostport =
     (let port = rev (takeWhile (\<lambda>c. c \<noteq> CHR '':'') (rev hostport));
          host = (if CHR '':'' \<in> set hostport \<and> list_all isDigit port then take (length hostport - length port - 1) hostport else hostport) in
      if HasPrefix host ''['' \<and> HasSuffix host '']'' then butlast (tl host) else host)"

definition TrimRightSlashes :: "string \<Rightarrow> string" where
  "TrimRightSlashes s = rev (dropWhile (\<lambda>c. c = CHR ''/'') (rev s))"

definition acmeHTTP01ChallengeURL :: "URL option \<Rightarrow> string \<Rightarrow> string \<Rightarrow> URL" where
  "acmeHTTP01ChallengeURL baseURL identifier token =
     (let challengePath = ''/.well-known/acme-challenge/'' @ token in
      case baseURL of
        None \<Rightarrow> \<lparr>url_Scheme = ''http'', url_Host = identifier, url_Hostname = urlHostname identifier, url_HasUser = False, url_Path = challengePath\<rparr>
      | Some challengeURL \<Rightarrow> challengeURL\<lparr>url_Path := TrimRightSlashes (url_Path challengeURL) @ challengePath\<rparr>)"

section \<open>The verifier\<close>

text \<open>An answer: the status, the bytes of the body, and the error the transfer ends with, if it is not the end of the stream.\<close>

record FetchAnswer =
  fan_Status :: int
  fan_Body :: string
  fan_ReadErr :: "error option"

type_synonym fetcher = "bool \<Rightarrow> nat \<Rightarrow> URL \<Rightarrow> FetchAnswer result"

text \<open>\<^verbatim>\<open>io.ReadAll(io.LimitReader(body, 4096))\<close>: what comes after the limit, an error included, is not seen.\<close>

definition readLimited :: "FetchAnswer \<Rightarrow> string result" where
  "readLimited answer =
     (case fan_ReadErr answer of
        Some err \<Rightarrow> if length (fan_Body answer) < 4096 then Inl err else Inr (take 4096 (fan_Body answer))
      | None \<Rightarrow> Inr (take 4096 (fan_Body answer)))"

definition verifyHTTP01 :: "fetcher \<Rightarrow> URL option \<Rightarrow> nat \<Rightarrow> string \<Rightarrow> string \<Rightarrow> string \<Rightarrow> unit result" where
  "verifyHTTP01 fetch baseURL n identifier token keyAuthorization =
     (let challengeURL = acmeHTTP01ChallengeURL baseURL identifier token in
      case (if baseURL = None then validateACMEHTTP01FetchURL (Some challengeURL) else Inr ()) of
        Inl err \<Rightarrow> Inl err
      | Inr _ \<Rightarrow>
          (case fetch (baseURL = None) n challengeURL of
             Inl err \<Rightarrow> Inl err
           | Inr res \<Rightarrow>
               if fan_Status res \<noteq> 200 then Inl ErrInvalidRequest
               else case readLimited res of
                   Inl err \<Rightarrow> Inl err
                 | Inr body \<Rightarrow> if TrimSpace body \<noteq> keyAuthorization then Inl ErrInvalidRequest else Inr ()))"

text \<open>The error of \<^verbatim>\<open>url.Parse\<close>, whose text nothing depends on, is represented by the name of the operation.\<close>

definition NewACMEHTTP01Verifier ::
  "Runtime \<Rightarrow> fetcher \<Rightarrow> string \<Rightarrow> (nat \<Rightarrow> string \<Rightarrow> string \<Rightarrow> string \<Rightarrow> unit result) result" where
  "NewACMEHTTP01Verifier rt fetch overrideBaseURL0 =
     (let overrideBaseURL = TrimSpace overrideBaseURL0 in
      if overrideBaseURL = [] then Inr (verifyHTTP01 fetch None)
      else case rt_urlParse rt overrideBaseURL of
          None \<Rightarrow> Inl (ErrExternal ''parse url'')
        | Some parsed \<Rightarrow>
            if \<not> acmeHTTP01AllowedScheme (url_Scheme parsed) then Inl (ErrExternal ''scheme must be http or https'')
            else if url_Host parsed = [] then Inl (ErrExternal ''host is required'')
            else Inr (verifyHTTP01 fetch (Some parsed)))"

section \<open>What is accepted\<close>


text \<open>A verifier on a client that serves one challenge.\<close>

definition demoFetch :: fetcher where
  "demoFetch guarded n u =
     (if guarded \<and> url_Host u = ''edge.example.test'' \<and> url_Path u = ''/.well-known/acme-challenge/tok''
      then Inr \<lparr>fan_Status = 200, fan_Body = ''auth'' @ [CHR 0x0A], fan_ReadErr = None\<rparr> else Inl (ErrExternal ''no route to host''))"


end
