(* ===== verification/Config.thy ===== *)
theory Config
  imports Http CoreCli Http01
begin

text \<open>
  The configuration of the process (\<^verbatim>\<open>cmd/modern-pki-service/main.go\<close>): the environment variables, their defaults and the checks on them. The
  environment is a function from names to values, the empty string standing for a variable that is not set, as for \<^verbatim>\<open>os.Getenv\<close>. \<open>Library\<close> holds
  \<^verbatim>\<open>time.ParseDuration\<close>, the rendering of durations and quoted strings, \<^verbatim>\<open>net.SplitHostPort\<close>, and the error values of \<^verbatim>\<open>strconv\<close> and \<^verbatim>\<open>net/netip\<close>.
\<close>

section \<open>Results\<close>

definition bindR :: "'a result \<Rightarrow> ('a \<Rightarrow> 'b result) \<Rightarrow> 'b result" where
  "bindR r f = (case r of Inl err \<Rightarrow> Inl err | Inr x \<Rightarrow> f x)"

lemma bindR_Inr: "bindR r f = Inr y \<longleftrightarrow> (\<exists>x. r = Inr x \<and> f x = Inr y)"
  by (simp add: bindR_def split: sum.split)

lemma bindR_simps [simp]: "bindR (Inr x) f = f x" "bindR (Inl e) f = Inl e"
  by (simp_all add: bindR_def)

definition wrapR :: "string \<Rightarrow> 'a result \<Rightarrow> 'a result" where
  "wrapR what r = (case r of Inl err \<Rightarrow> Inl (wrapErr what err) | Inr x \<Rightarrow> Inr x)"

lemma wrapR_Inr [simp]: "wrapR what r = Inr y \<longleftrightarrow> r = Inr y"
  by (simp add: wrapR_def split: sum.split)

section \<open>The library\<close>

type_synonym Env = "string \<Rightarrow> string"

record Library =
  lib_ParseDuration :: "string \<Rightarrow> duration result"
  lib_durationString :: "duration \<Rightarrow> string"
  lib_Quote :: "string \<Rightarrow> string"
  lib_numError :: "string \<Rightarrow> string \<Rightarrow> error"
  lib_netipError :: "string \<Rightarrow> error"
  lib_SplitHostPort :: "string \<Rightarrow> (string \<times> string) option"

definition ParseBool :: "string \<Rightarrow> bool option" where
  "ParseBool s =
     (if s \<in> {''1'', ''t'', ''T'', ''TRUE'', ''true'', ''True''} then Some True
      else if s \<in> {''0'', ''f'', ''F'', ''FALSE'', ''false'', ''False''} then Some False else None)"

definition envOrDefault :: "Env \<Rightarrow> string \<Rightarrow> string \<Rightarrow> string" where
  "envOrDefault env name fallback = (let value = env name in if value = [] then fallback else value)"

definition parseBoolEnv :: "Library \<Rightarrow> Env \<Rightarrow> string \<Rightarrow> bool \<Rightarrow> bool result" where
  "parseBoolEnv lib env name fallback =
     (let value = env name in
      if value = [] then Inr fallback
      else case ParseBool value of None \<Rightarrow> Inl (wrapErr name (lib_numError lib ''ParseBool'' value)) | Some parsed \<Rightarrow> Inr parsed)"

definition parseDurationEnv :: "Library \<Rightarrow> Env \<Rightarrow> string \<Rightarrow> duration \<Rightarrow> duration result" where
  "parseDurationEnv lib env name fallback =
     (let value = env name in
      if value = [] then Inr fallback
      else bindR (wrapR name (lib_ParseDuration lib value)) (\<lambda>parsed.
        if parsed \<le> 0 then Inl (ErrExternal (name @ '' must be positive'')) else Inr parsed))"

definition parseNonNegativeDurationEnv :: "Library \<Rightarrow> Env \<Rightarrow> string \<Rightarrow> duration \<Rightarrow> duration result" where
  "parseNonNegativeDurationEnv lib env name fallback =
     (let value = env name in
      if value = [] then Inr fallback
      else bindR (wrapR name (lib_ParseDuration lib value)) (\<lambda>parsed.
        if parsed < 0 then Inl (ErrExternal (name @ '' must be non-negative'')) else Inr parsed))"

definition parsePositiveIntEnv :: "Library \<Rightarrow> Env \<Rightarrow> string \<Rightarrow> int \<Rightarrow> int result" where
  "parsePositiveIntEnv lib env name fallback =
     (let value = env name in
      if value = [] then Inr fallback
      else case Atoi value of
          None \<Rightarrow> Inl (wrapErr name (lib_numError lib ''Atoi'' value))
        | Some parsed \<Rightarrow> if parsed \<le> 0 then Inl (ErrExternal (name @ '' must be positive'')) else Inr parsed)"

section \<open>Constants and configuration records\<close>

definition defaultAddr :: string where "defaultAddr = '':8080''"
definition defaultDBDriver :: string where "defaultDBDriver = ''sqlite''"
definition defaultDBDSN :: string where "defaultDBDSN = ''modern-pki.db''"
definition defaultCoreBin :: string where "defaultCoreBin = ''modern-pki-core''"
definition defaultOutboxEnabled :: bool where "defaultOutboxEnabled = True"
definition defaultOutboxInterval :: duration where "defaultOutboxInterval = 5 * Second"
definition defaultOutboxBatchSize :: int where "defaultOutboxBatchSize = 10"
definition defaultExpirationScanEnabled :: bool where "defaultExpirationScanEnabled = False"
definition defaultExpirationScanInterval :: duration where "defaultExpirationScanInterval = Hour"
definition defaultExpirationScanWarningWindow :: duration where "defaultExpirationScanWarningWindow = 30 * 24 * Hour"
definition defaultExpirationScanBatchSize :: int where "defaultExpirationScanBatchSize = 100"
definition defaultBootstrapAPIKeyName :: string where "defaultBootstrapAPIKeyName = ''bootstrap''"
definition defaultBootstrapAPIKeyActor :: string where "defaultBootstrapAPIKeyActor = ''bootstrap''"
definition defaultACMESmokeValidity :: duration where "defaultACMESmokeValidity = 24 * Hour"
definition defaultACMESmokeIssuerKeyRef :: string where "defaultACMESmokeIssuerKeyRef = ''.tmp/acme-smoke/acme-smoke-issuer.key''"
definition productionEnv :: string where "productionEnv = ''production''"
definition minProductionBootstrapKeyLength :: nat where "minProductionBootstrapKeyLength = 32"

record outboxConfig =
  obc_Enabled :: bool
  obc_Interval :: duration
  obc_BatchSize :: int

record expirationScanConfig =
  esc_Enabled :: bool
  esc_Interval :: duration
  esc_WarningWindow :: duration
  esc_BatchSize :: int

record acmeHTTP01VerifierConfig =
  avc_BaseURL :: string

record acmeDefaultsConfig =
  adc_BootstrapDefaults :: bool
  adc_ValidityPeriod :: duration
  adc_IssuerKeyRef :: string

record acmeNonceConfig =
  anc_Store :: string

record publicTLSConfig =
  ptc_MaxValidity :: duration
  ptc_CAAIssuerDomain :: string
  ptc_CAAAccountURI :: string
  ptc_CAAValidationMethod :: string
  ptc_CAAResolver :: string
  ptc_CAALookupTimeout :: duration
  ptc_AllowDNSSECIndeterminate :: bool

record authConfig =
  atc_HTTP :: AuthConfig
  atc_BootstrapAPIKey :: string
  atc_BootstrapAPIKeyName :: string
  atc_BootstrapAPIKeyActor :: string
  atc_APIKeyPepper :: string

section \<open>Authentication\<close>

definition isProductionEnv :: "string \<Rightarrow> bool" where
  "isProductionEnv env = EqualFold (TrimSpace env) productionEnv"

text \<open>\<^verbatim>\<open>main.go\<close> has its own copy of \<^verbatim>\<open>isSingleRepeatedRune\<close>, with the text of the one in \<^verbatim>\<open>Policy\<close>.\<close>

definition isWeakProductionSecret :: "string \<Rightarrow> bool" where
  "isWeakProductionSecret token =
     (let trimmed = TrimSpace token in
      if length trimmed < minProductionBootstrapKeyLength then True
      else if isSingleRepeatedRune trimmed then True
      else ToLower trimmed \<in> set
        [''change-me'', ''changeme'', ''bootstrap'', ''bootstrap-token'', ''password'', ''secret'', ''admin'', ''modern-pki'', ''modern-pki-bootstrap''])"

definition isWeakProductionBootstrapAPIKey :: "string \<Rightarrow> bool" where
  "isWeakProductionBootstrapAPIKey token = isWeakProductionSecret token"

definition goQuoted :: "string \<Rightarrow> string" where
  "goQuoted s = CHR 0x22 # s @ [CHR 0x22]"

definition validateProductionAuthConfig :: "string \<Rightarrow> string \<Rightarrow> string \<Rightarrow> string \<Rightarrow> unit result" where
  "validateProductionAuthConfig env mode bootstrapAPIKey apiKeyPepper =
     (if \<not> isProductionEnv env then Inr ()
      else if mode = ''dev'' then Inl (ErrExternal (''MODERN_PKI_ENV=production requires MODERN_PKI_AUTH_MODE='' @ goQuoted ''api_key''))
      else if isWeakProductionSecret apiKeyPepper then
        Inl (ErrExternal ''MODERN_PKI_API_KEY_PEPPER must be at least 32 characters and not a common default in production'')
      else if bootstrapAPIKey \<noteq> [] \<and> isWeakProductionBootstrapAPIKey bootstrapAPIKey then
        Inl (ErrExternal ''MODERN_PKI_BOOTSTRAP_API_KEY must be at least 32 characters and not a common default in production'')
      else Inr ())"

text \<open>\<^verbatim>\<open>netip.PrefixFrom\<close> drops a zone.\<close>

fun PrefixFrom :: "Addr \<Rightarrow> nat \<Rightarrow> Prefix" where
  "PrefixFrom (V6 a zone) bits = Prefix (V6 a []) bits"
| "PrefixFrom addr bits = Prefix addr bits"

definition parseTrustedProxy :: "Library \<Rightarrow> string \<Rightarrow> Prefix result" where
  "parseTrustedProxy lib value =
     (if Contains value ''/'' then (case ParsePrefix value of None \<Rightarrow> Inl (lib_netipError lib value) | Some prefix \<Rightarrow> Inr prefix)
      else case ParseAddr value of
          None \<Rightarrow> Inl (lib_netipError lib value)
        | Some addr0 \<Rightarrow> let addr = Unmap addr0 in Inr (PrefixFrom addr (BitLen addr)))"

fun trustedProxiesLoop :: "Library \<Rightarrow> string \<Rightarrow> string list \<Rightarrow> Prefix list \<Rightarrow> Prefix list result" where
  "trustedProxiesLoop lib name [] proxies = Inr proxies"
| "trustedProxiesLoop lib name (value0 # values) proxies =
     (let value = TrimSpace value0 in
      if value = [] then trustedProxiesLoop lib name values proxies
      else case parseTrustedProxy lib value of
          Inl err \<Rightarrow> Inl (wrapErr (name @ '' contains invalid proxy '' @ lib_Quote lib value) err)
        | Inr prefix \<Rightarrow> trustedProxiesLoop lib name values (proxies @ [prefix]))"

definition parseTrustedProxiesEnv :: "Library \<Rightarrow> Env \<Rightarrow> string \<Rightarrow> Prefix list result" where
  "parseTrustedProxiesEnv lib env name =
     (let raw = TrimSpace (env name) in
      if raw = [] then Inr [] else trustedProxiesLoop lib name (Split raw CHR '','') [])"

definition loadAuthConfig :: "Library \<Rightarrow> Env \<Rightarrow> authConfig result" where
  "loadAuthConfig lib env =
     (let mode = TrimSpace (envOrDefault env ''MODERN_PKI_AUTH_MODE'' ''dev'') in
      if mode \<noteq> ''dev'' \<and> mode \<noteq> ''api_key''
      then Inl (ErrExternal (''MODERN_PKI_AUTH_MODE must be '' @ goQuoted ''dev'' @ '' or '' @ goQuoted ''api_key''))
      else
        let bootstrapAPIKey = env ''MODERN_PKI_BOOTSTRAP_API_KEY''; apiKeyPepper = env ''MODERN_PKI_API_KEY_PEPPER'' in
        bindR (parseTrustedProxiesEnv lib env ''MODERN_PKI_TRUSTED_PROXIES'') (\<lambda>trustedProxies.
        bindR (validateProductionAuthConfig (env ''MODERN_PKI_ENV'') mode bootstrapAPIKey apiKeyPepper) (\<lambda>_.
        Inr \<lparr>atc_HTTP = \<lparr>auth_Mode = mode, auth_TrustedProxies = trustedProxies\<rparr>, atc_BootstrapAPIKey = bootstrapAPIKey,
             atc_BootstrapAPIKeyName = envOrDefault env ''MODERN_PKI_BOOTSTRAP_API_KEY_NAME'' defaultBootstrapAPIKeyName,
             atc_BootstrapAPIKeyActor = envOrDefault env ''MODERN_PKI_BOOTSTRAP_API_KEY_ACTOR'' defaultBootstrapAPIKeyActor,
             atc_APIKeyPepper = TrimSpace apiKeyPepper\<rparr>)))"

section \<open>Workers, public TLS and ACME\<close>

definition loadOutboxConfig :: "Library \<Rightarrow> Env \<Rightarrow> outboxConfig result" where
  "loadOutboxConfig lib env =
     bindR (parseBoolEnv lib env ''MODERN_PKI_OUTBOX_ENABLED'' defaultOutboxEnabled) (\<lambda>enabled.
     bindR (parseDurationEnv lib env ''MODERN_PKI_OUTBOX_INTERVAL'' defaultOutboxInterval) (\<lambda>interval.
     bindR (parsePositiveIntEnv lib env ''MODERN_PKI_OUTBOX_BATCH_SIZE'' defaultOutboxBatchSize) (\<lambda>batchSize.
     Inr \<lparr>obc_Enabled = enabled, obc_Interval = interval, obc_BatchSize = batchSize\<rparr>)))"

definition loadExpirationScanConfig :: "Library \<Rightarrow> Env \<Rightarrow> expirationScanConfig result" where
  "loadExpirationScanConfig lib env =
     bindR (parseBoolEnv lib env ''MODERN_PKI_EXPIRATION_SCAN_ENABLED'' defaultExpirationScanEnabled) (\<lambda>enabled.
     bindR (parseDurationEnv lib env ''MODERN_PKI_EXPIRATION_SCAN_INTERVAL'' defaultExpirationScanInterval) (\<lambda>interval.
     bindR (parseNonNegativeDurationEnv lib env ''MODERN_PKI_EXPIRATION_WARNING_WINDOW'' defaultExpirationScanWarningWindow) (\<lambda>warningWindow.
     bindR (parsePositiveIntEnv lib env ''MODERN_PKI_EXPIRATION_SCAN_BATCH_SIZE'' defaultExpirationScanBatchSize) (\<lambda>batchSize.
     Inr \<lparr>esc_Enabled = enabled, esc_Interval = interval, esc_WarningWindow = warningWindow, esc_BatchSize = batchSize\<rparr>))))"

text \<open>An optional positive duration, with its own text for a value that is not positive.\<close>

definition optionalDuration :: "Library \<Rightarrow> string \<Rightarrow> string \<Rightarrow> duration \<Rightarrow> duration result" where
  "optionalDuration lib name value fallback =
     (if value = [] then Inr fallback
      else bindR (wrapR name (lib_ParseDuration lib value)) (\<lambda>d. if d \<le> 0 then Inl (ErrExternal (name @ '' must be positive'')) else Inr d))"

definition loadPublicTLSConfig :: "Library \<Rightarrow> Env \<Rightarrow> publicTLSConfig result" where
  "loadPublicTLSConfig lib env =
     (let cfg = \<lparr>ptc_MaxValidity = 0, ptc_CAAIssuerDomain = TrimSpace (env ''MODERN_PKI_PUBLIC_TLS_CAA_ISSUER_DOMAIN''),
            ptc_CAAAccountURI = TrimSpace (env ''MODERN_PKI_PUBLIC_TLS_CAA_ACCOUNT_URI''),
            ptc_CAAValidationMethod = TrimSpace (envOrDefault env ''MODERN_PKI_PUBLIC_TLS_CAA_VALIDATION_METHOD'' (str_ACMEChallengeType ACMEChallengeHTTP01)),
            ptc_CAAResolver = TrimSpace (env ''MODERN_PKI_PUBLIC_TLS_CAA_RESOLVER''), ptc_CAALookupTimeout = 5 * Second,
            ptc_AllowDNSSECIndeterminate = False\<rparr> in
      bindR (optionalDuration lib ''MODERN_PKI_PUBLIC_TLS_MAX_VALIDITY'' (TrimSpace (env ''MODERN_PKI_PUBLIC_TLS_MAX_VALIDITY'')) (ptc_MaxValidity cfg)) (\<lambda>maxValidity.
      bindR (optionalDuration lib ''MODERN_PKI_PUBLIC_TLS_CAA_LOOKUP_TIMEOUT'' (TrimSpace (env ''MODERN_PKI_PUBLIC_TLS_CAA_LOOKUP_TIMEOUT''))
          (ptc_CAALookupTimeout cfg)) (\<lambda>timeout.
      bindR (parseBoolEnv lib env ''MODERN_PKI_PUBLIC_TLS_CAA_ALLOW_DNSSEC_INDETERMINATE'' False) (\<lambda>allowIndeterminate.
      if ptc_CAAIssuerDomain cfg \<noteq> [] \<and> (ptc_CAAResolver cfg = [] \<or> ptc_CAAValidationMethod cfg = [])
      then Inl (ErrExternal (''MODERN_PKI_PUBLIC_TLS_CAA_RESOLVER and MODERN_PKI_PUBLIC_TLS_CAA_VALIDATION_METHOD are required when '' @
             ''MODERN_PKI_PUBLIC_TLS_CAA_ISSUER_DOMAIN is set''))
      else Inr (cfg\<lparr>ptc_MaxValidity := maxValidity, ptc_CAALookupTimeout := timeout, ptc_AllowDNSSECIndeterminate := allowIndeterminate\<rparr>)))))"

definition loadACMEHTTP01VerifierConfig :: "Runtime \<Rightarrow> fetcher \<Rightarrow> Env \<Rightarrow> acmeHTTP01VerifierConfig result" where
  "loadACMEHTTP01VerifierConfig rt fetch env =
     (let baseURL = TrimSpace (env ''MODERN_PKI_ACME_HTTP01_BASE_URL'') in
      if baseURL \<noteq> [] then
        bindR (wrapR ''MODERN_PKI_ACME_HTTP01_BASE_URL'' (NewACMEHTTP01Verifier rt fetch baseURL)) (\<lambda>_. Inr \<lparr>avc_BaseURL = baseURL\<rparr>)
      else Inr \<lparr>avc_BaseURL = baseURL\<rparr>)"

definition loadACMEDefaultsConfig :: "Library \<Rightarrow> Env \<Rightarrow> acmeDefaultsConfig result" where
  "loadACMEDefaultsConfig lib env =
     bindR (parseBoolEnv lib env ''MODERN_PKI_ACME_BOOTSTRAP_DEFAULTS'' False) (\<lambda>bootstrap.
     bindR (parseDurationEnv lib env ''MODERN_PKI_ACME_DEFAULT_VALIDITY'' defaultACMESmokeValidity) (\<lambda>validity.
     Inr \<lparr>adc_BootstrapDefaults = bootstrap, adc_ValidityPeriod = validity,
          adc_IssuerKeyRef = envOrDefault env ''MODERN_PKI_ACME_BOOTSTRAP_ISSUER_KEY_REF'' defaultACMESmokeIssuerKeyRef\<rparr>))"

definition loadACMENonceConfig :: "Env \<Rightarrow> acmeNonceConfig result" where
  "loadACMENonceConfig env =
     (let store = TrimSpace (envOrDefault env ''MODERN_PKI_ACME_NONCE_STORE'' ''memory'') in
      if store \<noteq> ''memory'' \<and> store \<noteq> ''sql'' then Inl (ErrExternal ''MODERN_PKI_ACME_NONCE_STORE must be memory or sql'')
      else if isProductionEnv (env ''MODERN_PKI_ENV'') \<and> store \<noteq> ''sql''
      then Inl (ErrExternal ''MODERN_PKI_ACME_NONCE_STORE must be sql when MODERN_PKI_ENV=production'')
      else Inr \<lparr>anc_Store = store\<rparr>)"

section \<open>What a configuration that loads satisfies\<close>

text \<open>
  The list of common defaults never decides: each of them is shorter than the required length, so a secret is weak exactly when it is short or one
  repeated character.
\<close>

lemma weak_secret_iff:
  "isWeakProductionSecret token \<longleftrightarrow> length (TrimSpace token) < 32 \<or> isSingleRepeatedRune (TrimSpace token)"
proof -
  have "length (ToLower s) = length s" for s by (simp add: ToLower_def)
  then have "ToLower s \<notin> set [''change-me'', ''changeme'', ''bootstrap'', ''bootstrap-token'', ''password'', ''secret'', ''admin'', ''modern-pki'',
      ''modern-pki-bootstrap'']" if "\<not> length s < 32" for s using that by (auto dest: arg_cong[of _ _ length])
  then show ?thesis by (auto simp: isWeakProductionSecret_def minProductionBootstrapKeyLength_def Let_def)
qed

lemma parseDurationEnv_pos: "parseDurationEnv lib env name fallback = Inr d \<Longrightarrow> 0 < fallback \<Longrightarrow> 0 < d"
  by (auto simp: parseDurationEnv_def Let_def bindR_Inr split: if_splits)

lemma parsePositiveIntEnv_pos: "parsePositiveIntEnv lib env name fallback = Inr n \<Longrightarrow> 0 < fallback \<Longrightarrow> 0 < n"
  by (auto simp: parsePositiveIntEnv_def Let_def split: if_splits option.splits)

text \<open>
  The intervals the tickers are made with are positive (\<^verbatim>\<open>time.NewTicker\<close> panics otherwise), and so are the batch sizes the dispatcher and the scan are called with.
\<close>

lemma worker_configs_positive:
  "loadOutboxConfig lib env = Inr cfg \<Longrightarrow> 0 < obc_Interval cfg \<and> 0 < obc_BatchSize cfg"
  "loadExpirationScanConfig lib env = Inr sc \<Longrightarrow> 0 < esc_Interval sc \<and> 0 \<le> esc_WarningWindow sc \<and> 0 < esc_BatchSize sc"
  by (auto simp: loadOutboxConfig_def loadExpirationScanConfig_def bindR_Inr parseNonNegativeDurationEnv_def Let_def defaultOutboxInterval_def
      defaultOutboxBatchSize_def defaultExpirationScanInterval_def defaultExpirationScanBatchSize_def defaultExpirationScanWarningWindow_def
      Second_def Minute_def Hour_def dest!: parseDurationEnv_pos parsePositiveIntEnv_pos split: if_splits)

lemma production_auth:
  assumes "isProductionEnv (env ''MODERN_PKI_ENV'')" and "loadAuthConfig lib env = Inr cfg"
  shows "auth_Mode (atc_HTTP cfg) = ''api_key''" and "\<not> isWeakProductionSecret (env ''MODERN_PKI_API_KEY_PEPPER'')"
    and "atc_APIKeyPepper cfg = TrimSpace (env ''MODERN_PKI_API_KEY_PEPPER'')"
    and "atc_BootstrapAPIKey cfg \<noteq> [] \<Longrightarrow> \<not> isWeakProductionSecret (atc_BootstrapAPIKey cfg)"
  using assms by (auto simp: loadAuthConfig_def validateProductionAuthConfig_def isWeakProductionBootstrapAPIKey_def Let_def bindR_Inr split: if_splits)

lemma production_nonces:
  "isProductionEnv (env ''MODERN_PKI_ENV'') \<Longrightarrow> loadACMENonceConfig env = Inr cfg \<Longrightarrow> anc_Store cfg = ''sql''"
  by (auto simp: loadACMENonceConfig_def Let_def split: if_splits)

end
