(* ===== verification/AcmeHttp.thy ===== *)
theory AcmeHttp
  imports Http
begin

text \<open>
  The ACME protocol over HTTP (\<^verbatim>\<open>internal/httpapi/acme.go\<close>): signed requests (\<^verbatim>\<open>decodeACMEJWS\<close>, \<^verbatim>\<open>decodeACMEKeyChangeJWS\<close>),
  JSON web keys and their thumbprints, the checks that an object belongs to the signing account, and the handlers of the
  protocol and of the operator's view of it.
\<close>

section \<open>Keys\<close>

definition isSupportedACMEJWSAlg :: "string \<Rightarrow> bool" where
  "isSupportedACMEJWSAlg alg \<longleftrightarrow> alg = ''ES256'' \<or> alg = ''RS256'' \<or> alg = ''EdDSA''"

definition isValidACMEECJWK :: "acmeJWK \<Rightarrow> bool" where
  "isValidACMEECJWK jwk \<longleftrightarrow>
     jwk_KTY jwk = ''EC'' \<and> jwk_CRV jwk = ''P-256'' \<and> jwk_X jwk \<noteq> [] \<and> jwk_Y jwk \<noteq> [] \<and> jwk_N jwk = [] \<and> jwk_E jwk = []"

definition isValidACMERSAJWK :: "acmeJWK \<Rightarrow> bool" where
  "isValidACMERSAJWK jwk \<longleftrightarrow>
     jwk_KTY jwk = ''RSA'' \<and> jwk_N jwk \<noteq> [] \<and> jwk_E jwk \<noteq> [] \<and> jwk_CRV jwk = [] \<and> jwk_X jwk = [] \<and> jwk_Y jwk = []"

definition isValidACMEOKPJWK :: "acmeJWK \<Rightarrow> bool" where
  "isValidACMEOKPJWK jwk \<longleftrightarrow>
     jwk_KTY jwk = ''OKP'' \<and> jwk_CRV jwk = ''Ed25519'' \<and> jwk_X jwk \<noteq> [] \<and> jwk_Y jwk = [] \<and> jwk_N jwk = [] \<and> jwk_E jwk = []"

text \<open>\<^verbatim>\<open>new(big.Int).SetBytes\<close>: unsigned, most significant byte first.\<close>

definition SetBytes :: "string \<Rightarrow> int" where
  "SetBytes bytes = foldl (\<lambda>acc c. acc * 256 + int (of_char c)) 0 bytes"

definition decodeSegment :: "string \<Rightarrow> string result" where
  "decodeSegment s = (case RawURLEncoding_DecodeString s of None \<Rightarrow> Inl ErrInvalidRequest | Some b \<Rightarrow> Inr b)"

definition acmeECJWKPublicKey :: "Crypto \<Rightarrow> acmeJWK \<Rightarrow> (int \<times> int) result" where
  "acmeECJWKPublicKey cr jwk =
     (if \<not> isValidACMEECJWK jwk then Inl ErrInvalidRequest
      else case decodeSegment (jwk_X jwk) of
          Inl err \<Rightarrow> Inl err
        | Inr xBytes \<Rightarrow>
            (case decodeSegment (jwk_Y jwk) of
               Inl err \<Rightarrow> Inl err
             | Inr yBytes \<Rightarrow>
                 let x = SetBytes xBytes; y = SetBytes yBytes in
                 if \<not> cr_p256OnCurve cr x y then Inl ErrInvalidRequest else Inr (x, y)))"

definition acmeRSAJWKPublicKey :: "acmeJWK \<Rightarrow> (int \<times> int) result" where
  "acmeRSAJWKPublicKey jwk =
     (if \<not> isValidACMERSAJWK jwk then Inl ErrInvalidRequest
      else case decodeSegment (jwk_N jwk) of
          Inl err \<Rightarrow> Inl err
        | Inr nBytes \<Rightarrow>
            (case decodeSegment (jwk_E jwk) of
               Inl err \<Rightarrow> Inl err
             | Inr eBytes \<Rightarrow>
                 let n = SetBytes nBytes; e = SetBytes eBytes in
                 if n \<le> 0 \<or> \<not> e < 2 ^ 63 \<or> e \<le> 1 then Inl ErrInvalidRequest else Inr (n, e)))"

definition acmeOKPJWKPublicKey :: "acmeJWK \<Rightarrow> string result" where
  "acmeOKPJWKPublicKey jwk =
     (if \<not> isValidACMEOKPJWK jwk then Inl ErrInvalidRequest
      else case decodeSegment (jwk_X jwk) of
          Inl err \<Rightarrow> Inl err
        | Inr xBytes \<Rightarrow> if length xBytes \<noteq> 32 then Inl ErrInvalidRequest else Inr xBytes)"

text \<open>A member of the canonical JSON text.\<close>

definition quoted :: "string \<Rightarrow> string \<Rightarrow> string" where
  "quoted k v = [CHR 0x22] @ k @ [CHR 0x22] @ '':'' @ [CHR 0x22] @ v @ [CHR 0x22]"

definition canonicalACMEJWKJSON :: "Crypto \<Rightarrow> acmeJWK \<Rightarrow> string result" where
  "canonicalACMEJWKJSON cr jwk =
     (if jwk_KTY jwk = ''EC'' then
        (case acmeECJWKPublicKey cr jwk of
           Inl err \<Rightarrow> Inl err
         | Inr _ \<Rightarrow> Inr (''{'' @ quoted ''crv'' (jwk_CRV jwk) @ '','' @ quoted ''kty'' (jwk_KTY jwk) @ '','' @ quoted ''x'' (jwk_X jwk) @ '','' @
             quoted ''y'' (jwk_Y jwk) @ ''}''))
      else if jwk_KTY jwk = ''RSA'' then
        (case acmeRSAJWKPublicKey jwk of
           Inl err \<Rightarrow> Inl err
         | Inr _ \<Rightarrow> Inr (''{'' @ quoted ''e'' (jwk_E jwk) @ '','' @ quoted ''kty'' (jwk_KTY jwk) @ '','' @ quoted ''n'' (jwk_N jwk) @ ''}''))
      else if jwk_KTY jwk = ''OKP'' then
        (case acmeOKPJWKPublicKey jwk of
           Inl err \<Rightarrow> Inl err
         | Inr _ \<Rightarrow> Inr (''{'' @ quoted ''crv'' (jwk_CRV jwk) @ '','' @ quoted ''kty'' (jwk_KTY jwk) @ '','' @ quoted ''x'' (jwk_X jwk) @ ''}''))
      else Inl ErrInvalidRequest)"

definition acmeJWKThumbprint :: "Crypto \<Rightarrow> acmeJWK \<Rightarrow> string result" where
  "acmeJWKThumbprint cr jwk =
     (case canonicalACMEJWKJSON cr jwk of
        Inl err \<Rightarrow> Inl err
      | Inr canonical \<Rightarrow> Inr (RawURLEncoding_EncodeToString (cr_sha256 cr canonical)))"

text \<open>The member \<^verbatim>\<open>jwk\<close> of the header, marshalled again and read as a key.\<close>

definition acmeJWKFromProtected :: "Codec \<Rightarrow> string option \<Rightarrow> acmeJWK result" where
  "acmeJWKFromProtected codec value =
     (case value of
        None \<Rightarrow> Inl ErrInvalidRequest
      | Some encoded \<Rightarrow>
          (case umj_acmeJWK codec encoded of
             None \<Rightarrow> Inl ErrInvalidRequest
           | Some jwk \<Rightarrow> if isValidACMEECJWK jwk \<or> isValidACMERSAJWK jwk \<or> isValidACMEOKPJWK jwk then Inr jwk else Inl ErrInvalidRequest))"

definition verifyACMEJWS :: "Crypto \<Rightarrow> string \<Rightarrow> acmeJWK \<Rightarrow> string \<Rightarrow> string \<Rightarrow> unit result" where
  "verifyACMEJWS cr alg jwk signingInput signatureB64 =
     (case decodeSegment signatureB64 of
        Inl err \<Rightarrow> Inl err
      | Inr signature \<Rightarrow>
          let sum = cr_sha256 cr signingInput in
          if alg = ''ES256'' then
            (case acmeECJWKPublicKey cr jwk of
               Inl err \<Rightarrow> Inl err
             | Inr (x, y) \<Rightarrow>
                 if length signature \<noteq> 64 then Inl ErrInvalidRequest
                 else if \<not> cr_ecdsaVerify cr x y sum (SetBytes (take 32 signature)) (SetBytes (drop 32 signature)) then Inl ErrInvalidRequest
                 else Inr ())
          else if alg = ''RS256'' then
            (case acmeRSAJWKPublicKey jwk of
               Inl err \<Rightarrow> Inl err
             | Inr (n, e) \<Rightarrow> if \<not> cr_rsaVerify cr n e sum signature then Inl ErrInvalidRequest else Inr ())
          else if alg = ''EdDSA'' then
            (case acmeOKPJWKPublicKey jwk of
               Inl err \<Rightarrow> Inl err
             | Inr key \<Rightarrow> if \<not> cr_ed25519Verify cr key signingInput signature then Inl ErrInvalidRequest else Inr ())
          else Inl ErrInvalidRequest)"

section \<open>Signed requests\<close>

definition acmeAccountIDFromKID :: "Runtime \<Rightarrow> string \<Rightarrow> string result" where
  "acmeAccountIDFromKID rt kid =
     (case rt_urlParse rt kid of
        None \<Rightarrow> Inl (ErrExternal ''parse'')
      | Some parsed \<Rightarrow>
          (case Split (trimSlashes (url_Path parsed)) CHR ''/'' of
             [a, b, c] \<Rightarrow> if a \<noteq> ''acme'' \<or> b \<noteq> ''account'' \<or> c = [] then Inl ErrInvalidRequest else Inr c
           | _ \<Rightarrow> Inl ErrInvalidRequest))"

text \<open>A failure reported as an invalid request, whatever it was.\<close>

definition asInvalid :: "'a result \<Rightarrow> 'a result" where
  "asInvalid r = (case r of Inl _ \<Rightarrow> Inl ErrInvalidRequest | Inr v \<Rightarrow> Inr v)"

definition unmarshal :: "(string \<Rightarrow> 'a option) \<Rightarrow> string \<Rightarrow> 'a result" where
  "unmarshal f s = (case f s of None \<Rightarrow> Inl ErrInvalidRequest | Some v \<Rightarrow> Inr v)"

text \<open>The key a request is signed with: the key of the account named by \<^verbatim>\<open>kid\<close>, or the key in the header.\<close>

definition signingKey :: "Server \<Rightarrow> Request \<Rightarrow> acmeProtectedHeader \<Rightarrow> string \<Rightarrow> (acmeJWK \<times> acmeJWSResult) http" where
  "signingKey sv r protected payload =
     (if aph_KID protected \<noteq> [] then
        failIf (\<not> HasPrefix (aph_KID protected) (requestBaseURL r @ ''/acme/account/'')) ErrInvalidRequest
       (bindM (liftE (asInvalid (acmeAccountIDFromKID (svc_runtime (sv_service sv)) (aph_KID protected)))) (\<lambda>accountID.
        bindM (onService (Service_GetACMEAccount accountID)) (\<lambda>account.
        failIf (acc_KeyJWKJSON account = [] \<or> acc_KeyThumbprint account = []) ErrInvalidRequest
       (bindM (liftE (unmarshal (umj_acmeJWK (sv_codec sv)) (acc_KeyJWKJSON account))) (\<lambda>jwk.
        returnM (jwk, \<lparr>jwr_Payload = payload, jwr_AccountID = acc_ID account, jwr_KeyThumbprint = acc_KeyThumbprint account,
          jwr_KeyJWKJSON = acc_KeyJWKJSON account\<rparr>))))))
      else
        bindM (liftE (asInvalid (acmeJWKFromProtected (sv_codec sv) (aph_JWK protected)))) (\<lambda>jwk.
        bindM (liftE (asInvalid (canonicalACMEJWKJSON (sv_crypto sv) jwk))) (\<lambda>keyJSON.
        bindM (liftE (asInvalid (acmeJWKThumbprint (sv_crypto sv) jwk))) (\<lambda>thumbprint.
        returnM (jwk, \<lparr>jwr_Payload = payload, jwr_AccountID = [], jwr_KeyThumbprint = thumbprint, jwr_KeyJWKJSON = keyJSON\<rparr>)))))"

definition decodeACMEJWS :: "Server \<Rightarrow> Request \<Rightarrow> acmeJWSResult http" where
  "decodeACMEJWS sv r =
     (let contentType = Header_Get r ''Content-Type'' in
      failIf (contentType \<noteq> [] \<and> \<not> HasPrefix contentType ''application/jose+json'') ErrUnsupportedMediaType
     (bindM (liftE (decodeJSON r (cdc_acmeJWSRequest (sv_codec sv)))) (\<lambda>req.
      failIf (jws_Protected req = [] \<or> jws_Signature req = []) ErrInvalidRequest
     (bindM (liftE (decodeSegment (jws_Protected req))) (\<lambda>protectedBytes.
      bindM (liftE (unmarshal (umj_acmeProtectedHeader (sv_codec sv)) protectedBytes)) (\<lambda>protected.
      failIf (\<not> isSupportedACMEJWSAlg (aph_Alg protected) \<or> aph_Nonce protected = [] \<or> aph_URL protected = [] \<or>
          aph_URL protected \<noteq> requestAbsoluteURL r) ErrInvalidRequest
     (failIf ((aph_KID protected = []) = (aph_JWK protected = None)) ErrInvalidRequest
     (bindM (consumeACMENonce sv r (aph_Nonce protected)) (\<lambda>ok.
      failIf (\<not> ok) ErrACMEBadNonce
     (bindM (liftE (decodeSegment (jws_Payload req))) (\<lambda>payload.
      bindM (signingKey sv r protected payload) (\<lambda>(jwk, res).
      thenM (liftE (asInvalid (verifyACMEJWS (sv_crypto sv) (aph_Alg protected) jwk (jws_Protected req @ ''.'' @ jws_Payload req) (jws_Signature req))))
        (returnM res)))))))))))))"

definition decodeACMEKeyChangeJWS :: "Server \<Rightarrow> Request \<Rightarrow> string \<Rightarrow> acmeKeyChangeJWSResult result" where
  "decodeACMEKeyChangeJWS sv r payload =
     fst (bindM (liftE (unmarshal (umj_acmeJWSRequest (sv_codec sv)) payload)) (\<lambda>req.
      failIf (jws_Protected req = [] \<or> jws_Payload req = [] \<or> jws_Signature req = []) ErrInvalidRequest
     (bindM (liftE (decodeSegment (jws_Protected req))) (\<lambda>protectedBytes.
      bindM (liftE (unmarshal (umj_acmeProtectedHeader (sv_codec sv)) protectedBytes)) (\<lambda>protected.
      failIf (\<not> isSupportedACMEJWSAlg (aph_Alg protected) \<or> aph_URL protected \<noteq> requestBaseURL r @ ''/acme/key-change'' \<or>
          aph_KID protected \<noteq> [] \<or> aph_JWK protected = None) ErrInvalidRequest
     (bindM (liftE (asInvalid (acmeJWKFromProtected (sv_codec sv) (aph_JWK protected)))) (\<lambda>jwk.
      thenM (liftE (asInvalid (verifyACMEJWS (sv_crypto sv) (aph_Alg protected) jwk (jws_Protected req @ ''.'' @ jws_Payload req) (jws_Signature req))))
     (bindM (liftE (decodeSegment (jws_Payload req))) (\<lambda>innerPayload.
      bindM (liftE (unmarshal (umj_acmeKeyChangeRequest (sv_codec sv)) innerPayload)) (\<lambda>change.
      failIf (akc_Account change = []) ErrInvalidRequest
     (bindM (liftE (asInvalid (canonicalACMEJWKJSON (sv_crypto sv) jwk))) (\<lambda>keyJSON.
      bindM (liftE (asInvalid (acmeJWKThumbprint (sv_crypto sv) jwk))) (\<lambda>thumbprint.
      returnM \<lparr>kcr_Account = akc_Account change, kcr_OldKey = akc_OldKey change, kcr_NewKeyThumbprint = thumbprint,
        kcr_NewKeyJWKJSON = keyJSON\<rparr>)))))))))))) ())"

section \<open>Objects of an account\<close>

definition requireACMEOrderAccount :: "string \<Rightarrow> string \<Rightarrow> unit svc" where
  "requireACMEOrderAccount orderID accountID =
     failIf (accountID = []) ErrInvalidRequest
    (bindM (Service_GetACMEAccount accountID) (\<lambda>account.
     failIf (acc_Status account = ACMEAccountDeactivated) ErrACMEAccountDeactivated
    (failIf (acc_Status account \<noteq> ACMEAccountValid) ErrInvalidRequest
    (bindM (Service_GetACMEOrder orderID) (\<lambda>order.
     failIf (ord_AccountID order \<noteq> accountID) ErrInvalidRequest (returnM ()))))))"

definition requireACMEAuthorizationAccount :: "string \<Rightarrow> string \<Rightarrow> unit svc" where
  "requireACMEAuthorizationAccount authorizationID accountID =
     failIf (accountID = []) ErrInvalidRequest
    (bindM (Service_GetACMEAuthorization authorizationID) (\<lambda>authorization.
     requireACMEOrderAccount (authz_OrderID authorization) accountID))"

definition requireACMEChallengeAccount :: "string \<Rightarrow> string \<Rightarrow> unit svc" where
  "requireACMEChallengeAccount challengeID accountID =
     failIf (accountID = []) ErrInvalidRequest
    (bindM (Service_GetACMEChallenge challengeID) (\<lambda>challenge.
     bindM (Service_GetACMEAuthorization (chal_AuthorizationID challenge)) (\<lambda>authorization.
     requireACMEOrderAccount (authz_OrderID authorization) accountID)))"

definition requireACMECertificateAccount :: "string \<Rightarrow> string \<Rightarrow> unit svc" where
  "requireACMECertificateAccount certificateID accountID =
     failIf (certificateID = [] \<or> accountID = []) ErrInvalidRequest
    (bindM (Service_ListACMEOrdersByAccount accountID) (\<lambda>orders.
     if list_ex (\<lambda>order. ord_CertificateID order = certificateID) orders then returnM () else throwM ErrForbidden))"

fun acmeOrderIdentifiers :: "acmeIdentifierRequest list \<Rightarrow> string list \<Rightarrow> string list \<Rightarrow> (string list \<times> string list) result" where
  "acmeOrderIdentifiers [] dnsNames ipAddresses = Inr (dnsNames, ipAddresses)"
| "acmeOrderIdentifiers (identifier # identifiers) dnsNames ipAddresses =
     (if TrimSpace (aid_Value identifier) = [] then Inl ErrInvalidRequest
      else if aid_Type identifier = ''dns'' then acmeOrderIdentifiers identifiers (dnsNames @ [aid_Value identifier]) ipAddresses
      else if aid_Type identifier = ''ip'' then acmeOrderIdentifiers identifiers dnsNames (ipAddresses @ [aid_Value identifier])
      else Inl ErrInvalidRequest)"

section \<open>Protocol objects\<close>

definition toACMEProtocolAccount :: "Request \<Rightarrow> ACMEAccount \<Rightarrow> acmeProtocolAccountResponse" where
  "toACMEProtocolAccount r account =
     \<lparr>pacc_ID = acc_ID account, pacc_Status = str_ACMEAccountStatus (acc_Status account), pacc_Contact = acc_Contacts account,
      pacc_Location = requestBaseURL r @ ''/acme/account/'' @ acc_ID account\<rparr>"

definition acmeProtocolOrderIdentifiers :: "ACMEOrder \<Rightarrow> acmeProtocolIdentifierResponse list" where
  "acmeProtocolOrderIdentifiers order =
     map (\<lambda>name. \<lparr>pid_Type = ''dns'', pid_Value = name\<rparr>) (ord_RequestedDNSNames order) @
     map (\<lambda>address. \<lparr>pid_Type = ''ip'', pid_Value = address\<rparr>) (ord_RequestedIPAddresses order)"

definition toACMEProtocolOrder :: "Request \<Rightarrow> ACMEOrder \<Rightarrow> acmeProtocolOrderResponse http" where
  "toACMEProtocolOrder r order =
     bindM (onService (Service_ListACMEAuthorizations (ord_ID order))) (\<lambda>authorizations.
     let baseURL = requestBaseURL r in
     returnM \<lparr>pord_ID = ord_ID order, pord_Status = str_ACMEOrderStatus (ord_Status order), pord_URL = baseURL @ ''/acme/order/'' @ ord_ID order,
       pord_Identifiers = acmeProtocolOrderIdentifiers order,
       pord_Authorizations = map (\<lambda>authorization. baseURL @ ''/acme/authz/'' @ authz_ID authorization) authorizations,
       pord_Finalize = baseURL @ ''/acme/order/'' @ ord_ID order @ ''/finalize'',
       pord_Certificate = (if ord_CertificateID order \<noteq> [] then baseURL @ ''/acme/cert/'' @ ord_CertificateID order else []),
       pord_Expires = ord_ExpiresAt order\<rparr>)"

definition toACMEProtocolChallenge :: "Request \<Rightarrow> ACMEChallenge \<Rightarrow> acmeProtocolChallengeResponse" where
  "toACMEProtocolChallenge r challenge =
     \<lparr>pchl_ID = chal_ID challenge, pchl_Type = str_ACMEChallengeType (chal_Type challenge),
      pchl_URL = requestBaseURL r @ ''/acme/challenge/'' @ chal_ID challenge, pchl_Token = chal_Token challenge,
      pchl_Status = str_ACMEChallengeStatus (chal_Status challenge)\<rparr>"

definition toACMEProtocolAuthorization :: "Request \<Rightarrow> ACMEAuthorization \<Rightarrow> acmeProtocolAuthorizationResponse http" where
  "toACMEProtocolAuthorization r authorization =
     bindM (onService (Service_ListACMEChallenges (authz_ID authorization))) (\<lambda>challenges.
     returnM \<lparr>pauz_ID = authz_ID authorization, pauz_Status = str_ACMEAuthorizationStatus (authz_Status authorization),
       pauz_Identifier = \<lparr>pid_Type = authz_IdentifierType authorization, pid_Value = authz_IdentifierValue authorization\<rparr>,
       pauz_Challenges = map (toACMEProtocolChallenge r) challenges, pauz_Expires = authz_ExpiresAt authorization\<rparr>)"

definition acmeAuthorizationHasProcessingChallenge :: "acmeProtocolAuthorizationResponse \<Rightarrow> bool" where
  "acmeAuthorizationHasProcessingChallenge authorization \<longleftrightarrow>
     list_ex (\<lambda>challenge. pchl_Status challenge = str_ACMEChallengeStatus ACMEChallengeProcessing) (pauz_Challenges authorization)"

text \<open>\<^verbatim>\<open>strings.TrimRight(block, "\r\n")\<close> and the separator between blocks.\<close>

definition acmeAppendCertificateChainBlock :: "string \<Rightarrow> string \<Rightarrow> string" where
  "acmeAppendCertificateChainBlock built block =
     (let normalized = rev (dropWhile (\<lambda>c. c = CHR 0x0D \<or> c = CHR 0x0A) (rev block)) in
      if normalized = [] then built
      else (if built \<noteq> [] then built @ [CHR 0x0A] else built) @ normalized)"

definition acmeCertificateChainPEM :: "string \<Rightarrow> string svc" where
  "acmeCertificateChainPEM certificateID =
     bindM (Service_GetCertificate certificateID) (\<lambda>certificate.
     bindM (Service_GetIssuerChain (cert_IssuerID certificate)) (\<lambda>chain.
     let built = foldl acmeAppendCertificateChainBlock [] (cert_CertificatePEM certificate # map iss_CertificatePEM chain) in
     returnM (if built \<noteq> [] then built @ [CHR 0x0A] else built)))"

definition decodeACMECSR :: "Crypto \<Rightarrow> string \<Rightarrow> string option" where
  "decodeACMECSR cr encoded = (case RawURLEncoding_DecodeString encoded of Some der \<Rightarrow> Some der | None \<Rightarrow> cr_URLEncodingDecode cr encoded)"

definition normalizeACMEFinalizeRequest :: "Crypto \<Rightarrow> finalizeACMEOrderRequest \<Rightarrow> (string \<times> string) result" where
  "normalizeACMEFinalizeRequest cr req =
     (if TrimSpace (hfo_CSRPEM req) \<noteq> [] then Inr (hfo_CSRPEM req, hfo_RequestedSubject req)
      else if TrimSpace (hfo_CSR req) = [] then Inl ErrInvalidRequest
      else case decodeACMECSR cr (hfo_CSR req) of
          None \<Rightarrow> Inl ErrInvalidRequest
        | Some der \<Rightarrow>
            (case cr_csrSubject cr der of
               None \<Rightarrow> Inl ErrInvalidRequest
             | Some csrSubject \<Rightarrow>
                 let subject = (if TrimSpace (hfo_RequestedSubject req) = [] then csrSubject else hfo_RequestedSubject req) in
                 if TrimSpace subject = [] then Inl ErrInvalidRequest else Inr (cr_pemCSR cr der, subject)))"

section \<open>Handlers of the protocol\<close>

definition acmeDirectory :: "Server \<Rightarrow> Request \<Rightarrow> Response option http" where
  "acmeDirectory sv r =
     (let baseURL = requestBaseURL r in
      reply 200 (BDirectory [(''newNonce'', baseURL @ ''/acme/new-nonce''), (''newAccount'', baseURL @ ''/acme/new-account''),
        (''newOrder'', baseURL @ ''/acme/new-order''), (''keyChange'', baseURL @ ''/acme/key-change''),
        (''revokeCert'', baseURL @ ''/acme/revoke-cert'')]))"

definition acmeNewNonce :: "Server \<Rightarrow> Request \<Rightarrow> Response option http" where
  "acmeNewNonce sv r = handled sv r
     (bindM (issueACMENonce sv r) (\<lambda>nonce.
      returnM (Some \<lparr>rs_Status = 200,
        rs_Header = mput ''Cache-Control'' ''no-store'' (mput ''Link'' (acmeDirectoryLink r) (mput ''Replay-Nonce'' nonce mempty)),
        rs_Body = BNone\<rparr>)))"

definition acmeNewAccount :: "Server \<Rightarrow> Request \<Rightarrow> Response option http" where
  "acmeNewAccount sv r = handled sv r
     (bindM (decodeACMEJWS sv r) (\<lambda>jws.
      bindM (liftE (unmarshal (umj_acmeNewAccountRequest (sv_codec sv)) (jwr_Payload jws))) (\<lambda>req.
      bindM (onService (Service_CreateOrGetACMEAccount (sv_service sv) (rq_Context r) (requestActor r)
        \<lparr>car_Contacts = ana_Contact req, car_TermsOfServiceAgreed = ana_TermsOfServiceAgreed req, car_KeyThumbprint = jwr_KeyThumbprint jws,
         car_KeyJWKJSON = jwr_KeyJWKJSON jws\<rparr>)) (\<lambda>result.
      let response = toACMEProtocolAccount r (cas_Account result) in
      writeACMEJSON sv r (mput ''Location'' (pacc_Location response) mempty) (if cas_Created result then 201 else 200)
        (BProtocolAccount response)))))"

definition acmeUpdateAccount :: "Server \<Rightarrow> Request \<Rightarrow> Response option http" where
  "acmeUpdateAccount sv r = handled sv r
     (bindM (decodeACMEJWS sv r) (\<lambda>jws.
      let accountID = PathValue r ''id'' in
      failIf (jwr_AccountID jws = [] \<or> jwr_AccountID jws \<noteq> accountID) ErrInvalidRequest
     (bindM (liftE (unmarshal (umj_acmeUpdateAccountRequest (sv_codec sv)) (jwr_Payload jws))) (\<lambda>req.
      failIf (aua_Status req \<noteq> [] \<and> aua_Status req \<noteq> str_ACMEAccountStatus ACMEAccountDeactivated) ErrInvalidRequest
     (bindM (onService (Service_UpdateACMEAccount (sv_service sv) (rq_Context r) (requestActor r) accountID
        \<lparr>uar_Contacts = (case aua_Contact req of None \<Rightarrow> [] | Some contacts \<Rightarrow> contacts), uar_UpdateContacts = (aua_Contact req \<noteq> None),
         uar_Deactivate = (aua_Status req \<noteq> [])\<rparr>)) (\<lambda>account.
      writeACMEJSON sv r mempty 200 (BProtocolAccount (toACMEProtocolAccount r account))))))))"

definition acmeKeyChange :: "Server \<Rightarrow> Request \<Rightarrow> Response option http" where
  "acmeKeyChange sv r = handled sv r
     (bindM (decodeACMEJWS sv r) (\<lambda>jws.
      failIf (jwr_AccountID jws = []) ErrInvalidRequest
     (bindM (onService (Service_GetACMEAccount (jwr_AccountID jws))) (\<lambda>account.
      failIf (acc_KeyJWKJSON account = []) ErrInvalidRequest
     (bindM (liftE (decodeACMEKeyChangeJWS sv r (jwr_Payload jws))) (\<lambda>inner.
      failIf (kcr_Account inner \<noteq> requestBaseURL r @ ''/acme/account/'' @ acc_ID account) ErrInvalidRequest
     (bindM (liftE (asInvalid (canonicalACMEJWKJSON (sv_crypto sv) (kcr_OldKey inner)))) (\<lambda>oldKeyJSON.
      failIf (oldKeyJSON \<noteq> acc_KeyJWKJSON account) ErrInvalidRequest
     (bindM (onService (Service_UpdateACMEAccountKey (sv_service sv) (rq_Context r) (requestActor r) (acc_ID account)
        \<lparr>ukr_KeyThumbprint = kcr_NewKeyThumbprint inner, ukr_KeyJWKJSON = kcr_NewKeyJWKJSON inner\<rparr>)) (\<lambda>updated.
      writeACMEJSON sv r mempty 200 (BProtocolAccount (toACMEProtocolAccount r updated))))))))))))"

text \<open>The request of a new order with the defaults of the server filled in.\<close>

definition orderDefaults :: "ACMEConfig \<Rightarrow> acmeJWSResult \<Rightarrow> acmeNewOrderRequest \<Rightarrow> acmeNewOrderRequest" where
  "orderDefaults acme jws req =
     req\<lparr>ano_AccountID := (if ano_AccountID req = [] then jwr_AccountID jws else ano_AccountID req),
       ano_IdentityID := (if ano_IdentityID req = [] then acme_DefaultIdentityID acme else ano_IdentityID req),
       ano_IssuerID := (if ano_IssuerID req = [] then acme_DefaultIssuerID acme else ano_IssuerID req),
       ano_CertificateProfileID := (if ano_CertificateProfileID req = [] then acme_DefaultCertificateProfileID acme else ano_CertificateProfileID req)\<rparr>"

definition orderNotAfter :: "Server \<Rightarrow> acmeNewOrderRequest \<Rightarrow> time http" where
  "orderNotAfter sv req =
     (if IsZero (ano_NotAfter req) \<and> acme_DefaultValidityPeriod (sv_acme sv) > 0
      then bindM (timeNow sv) (\<lambda>now. returnM (now + acme_DefaultValidityPeriod (sv_acme sv)))
      else returnM (ano_NotAfter req))"

definition acmeNewOrder :: "Server \<Rightarrow> Request \<Rightarrow> Response option http" where
  "acmeNewOrder sv r = handled sv r
     (bindM (decodeACMEJWS sv r) (\<lambda>jws.
      bindM (liftE (unmarshal (umj_acmeNewOrderRequest (sv_codec sv)) (jwr_Payload jws))) (\<lambda>req0.
      failIf (jwr_AccountID jws = []) ErrInvalidRequest
     (let req = orderDefaults (sv_acme sv) jws req0 in
      bindM (orderNotAfter sv req) (\<lambda>notAfter.
      failIf (ano_AccountID req \<noteq> jwr_AccountID jws) ErrInvalidRequest
     (bindM (liftE (acmeOrderIdentifiers (ano_Identifiers req) [] [])) (\<lambda>(dnsNames, ipAddresses).
      bindM (onService (Service_CreateACMEOrder (sv_service sv) (rq_Context r) (requestActor r)
        \<lparr>cao_AccountID = ano_AccountID req, cao_IdentityID = ano_IdentityID req, cao_IssuerID = ano_IssuerID req,
         cao_CertificateProfileID = ano_CertificateProfileID req, cao_RequestedDNSNames = dnsNames, cao_RequestedIPAddresses = ipAddresses,
         cao_RequestedNotAfter = notAfter\<rparr>)) (\<lambda>order.
      bindM (toACMEProtocolOrder r order) (\<lambda>response.
      writeACMEJSON sv r (mput ''Location'' (pord_URL response) mempty) 201 (BProtocolOrder response))))))))))"

definition acmeGetOrder :: "Server \<Rightarrow> Request \<Rightarrow> Response option http" where
  "acmeGetOrder sv r = handled sv r
     (bindM (onService (Service_GetACMEOrder (PathValue r ''id''))) (\<lambda>order.
      bindM (toACMEProtocolOrder r order) (\<lambda>response. reply 200 (BProtocolOrder response))))"

definition acmePostAsGetOrder :: "Server \<Rightarrow> Request \<Rightarrow> Response option http" where
  "acmePostAsGetOrder sv r = handled sv r
     (bindM (decodeACMEJWS sv r) (\<lambda>jws.
      failIf (jwr_Payload jws \<noteq> []) ErrInvalidRequest
     (thenM (onService (requireACMEOrderAccount (PathValue r ''id'') (jwr_AccountID jws)))
     (bindM (onService (Service_GetACMEOrder (PathValue r ''id''))) (\<lambda>order.
      bindM (toACMEProtocolOrder r order) (\<lambda>response. writeACMEJSON sv r mempty 200 (BProtocolOrder response)))))))"

definition retryAfter :: "acmeProtocolAuthorizationResponse \<Rightarrow> string gomap \<Rightarrow> string gomap" where
  "retryAfter response header =
     (if acmeAuthorizationHasProcessingChallenge response then mput ''Retry-After'' acmeRetryAfterSeconds header else header)"

definition acmeGetAuthorization :: "Server \<Rightarrow> Request \<Rightarrow> Response option http" where
  "acmeGetAuthorization sv r = handled sv r
     (bindM (onService (Service_PollACMEAuthorization (sv_service sv) (rq_Context r) (requestActor r) (PathValue r ''id''))) (\<lambda>authorization.
      bindM (toACMEProtocolAuthorization r authorization) (\<lambda>response.
      returnM (Some \<lparr>rs_Status = 200, rs_Header = mput ''Content-Type'' ''application/json'' (retryAfter response mempty),
        rs_Body = BProtocolAuthorization response\<rparr>))))"

definition acmePostAsGetAuthorization :: "Server \<Rightarrow> Request \<Rightarrow> Response option http" where
  "acmePostAsGetAuthorization sv r = handled sv r
     (bindM (decodeACMEJWS sv r) (\<lambda>jws.
      failIf (jwr_Payload jws \<noteq> []) ErrInvalidRequest
     (thenM (onService (requireACMEAuthorizationAccount (PathValue r ''id'') (jwr_AccountID jws)))
     (bindM (onService (Service_PollACMEAuthorization (sv_service sv) (rq_Context r) (requestActor r) (PathValue r ''id''))) (\<lambda>authorization.
      bindM (toACMEProtocolAuthorization r authorization) (\<lambda>response.
      writeACMEJSON sv r (retryAfter response mempty) 200 (BProtocolAuthorization response)))))))"

definition acmeCompleteChallenge :: "Server \<Rightarrow> Request \<Rightarrow> Response option http" where
  "acmeCompleteChallenge sv r = handled sv r
     (bindM (decodeACMEJWS sv r) (\<lambda>jws.
      thenM (onService (requireACMEChallengeAccount (PathValue r ''id'') (jwr_AccountID jws)))
     (bindM (onService (Service_ValidateACMEHTTP01Challenge (sv_service sv) (rq_Context r) (requestActor r) (PathValue r ''id''))) (\<lambda>challenge.
      writeACMEJSON sv r
        (if chal_Status challenge = ACMEChallengeProcessing then mput ''Retry-After'' acmeRetryAfterSeconds mempty else mempty) 200
        (BProtocolChallenge (toACMEProtocolChallenge r challenge))))))"

definition acmeFinalizeOrder :: "Server \<Rightarrow> Request \<Rightarrow> Response option http" where
  "acmeFinalizeOrder sv r = handled sv r
     (bindM (decodeACMEJWS sv r) (\<lambda>jws.
      bindM (liftE (unmarshal (umj_finalizeACMEOrderRequest (sv_codec sv)) (jwr_Payload jws))) (\<lambda>req.
      thenM (onService (requireACMEOrderAccount (PathValue r ''id'') (jwr_AccountID jws)))
     (bindM (liftE (normalizeACMEFinalizeRequest (sv_crypto sv) req)) (\<lambda>(csrPEM, requestedSubject).
      bindM (onService (Service_FinalizeACMEOrder (sv_service sv) (rq_Context r) (requestActor r) (PathValue r ''id'')
        \<lparr>fao_CSRPEM = csrPEM, fao_RequestedSubject = requestedSubject\<rparr>)) (\<lambda>order.
      bindM (toACMEProtocolOrder r order) (\<lambda>response. writeACMEJSON sv r mempty 200 (BProtocolOrder response))))))))"

definition acmeRevokeCertificate :: "Server \<Rightarrow> Request \<Rightarrow> Response option http" where
  "acmeRevokeCertificate sv r = handled sv r
     (bindM (decodeACMEJWS sv r) (\<lambda>jws.
      bindM (liftE (unmarshal (umj_acmeRevokeCertificateRequest (sv_codec sv)) (jwr_Payload jws))) (\<lambda>req.
      failIf (har_CertificateID req = [] \<or> str_RevocationReason (har_Reason req) = []) ErrInvalidRequest
     (thenM (onService (requireACMECertificateAccount (har_CertificateID req) (jwr_AccountID jws)))
     (thenM (onService (Service_RevokeCertificate (sv_service sv) (rq_Context r) (requestActor r) (har_CertificateID req) (har_Reason req)))
      (writeACMEJSON sv r mempty 200 (BDirectory [])))))))"

definition acmeGetCertificate :: "Server \<Rightarrow> Request \<Rightarrow> Response option http" where
  "acmeGetCertificate sv r = handled sv r
     (bindM (onService (acmeCertificateChainPEM (PathValue r ''id''))) (\<lambda>chainPEM.
      returnM (Some \<lparr>rs_Status = 200, rs_Header = mput ''Content-Type'' ''application/pem-certificate-chain'' mempty, rs_Body = BText chainPEM\<rparr>)))"

definition acmePostAsGetCertificate :: "Server \<Rightarrow> Request \<Rightarrow> Response option http" where
  "acmePostAsGetCertificate sv r = handled sv r
     (bindM (decodeACMEJWS sv r) (\<lambda>jws.
      failIf (jwr_Payload jws \<noteq> []) ErrInvalidRequest
     (thenM (onService (requireACMECertificateAccount (PathValue r ''id'') (jwr_AccountID jws)))
     (bindM (onService (acmeCertificateChainPEM (PathValue r ''id''))) (\<lambda>chainPEM.
      bindM (replayNonceHeader sv r) (\<lambda>h.
      returnM (Some \<lparr>rs_Status = 200,
        rs_Header = mput ''Content-Type'' ''application/pem-certificate-chain'' (mput ''Link'' (acmeDirectoryLink r) h), rs_Body = BText chainPEM\<rparr>)))))))"

section \<open>The operator's view\<close>

definition createACMEAccountHandler :: "Server \<Rightarrow> Request \<Rightarrow> Response option http" where
  "createACMEAccountHandler sv r = handled sv r
     (bindM (liftE (decodeJSON r (cdc_createACMEAccountRequest (sv_codec sv)))) (\<lambda>req.
      bindM (onService (Service_CreateACMEAccount (sv_service sv) (rq_Context r) (requestActor r)
        \<lparr>car_Contacts = haa_Contacts req, car_TermsOfServiceAgreed = haa_TermsOfServiceAgreed req, car_KeyThumbprint = [], car_KeyJWKJSON = []\<rparr>)) (\<lambda>account.
      reply 201 (BACMEAccount (toACMEAccountResponse account)))))"

definition listACMEAccounts :: "Server \<Rightarrow> Request \<Rightarrow> Response option http" where
  "listACMEAccounts sv r = handled sv r
     (bindM (onService Service_ListACMEAccounts) (\<lambda>accounts. reply 200 (BACMEAccounts (toACMEAccountResponses accounts))))"

definition createACMEOrderHandler :: "Server \<Rightarrow> Request \<Rightarrow> Response option http" where
  "createACMEOrderHandler sv r = handled sv r
     (bindM (liftE (decodeJSON r (cdc_createACMEOrderRequest (sv_codec sv)))) (\<lambda>req.
      bindM (onService (Service_CreateACMEOrder (sv_service sv) (rq_Context r) (requestActor r)
        \<lparr>cao_AccountID = hao_AccountID req, cao_IdentityID = hao_IdentityID req, cao_IssuerID = hao_IssuerID req,
         cao_CertificateProfileID = hao_CertificateProfileID req, cao_RequestedDNSNames = hao_RequestedDNSNames req,
         cao_RequestedIPAddresses = hao_RequestedIPAddresses req, cao_RequestedNotAfter = hao_RequestedNotAfter req\<rparr>)) (\<lambda>order.
      reply 201 (BACMEOrder (toACMEOrderResponse order)))))"

definition getACMEOrder :: "Server \<Rightarrow> Request \<Rightarrow> Response option http" where
  "getACMEOrder sv r = handled sv r
     (bindM (onService (Service_GetACMEOrder (PathValue r ''id''))) (\<lambda>order. reply 200 (BACMEOrder (toACMEOrderResponse order))))"

definition listACMEAuthorizations :: "Server \<Rightarrow> Request \<Rightarrow> Response option http" where
  "listACMEAuthorizations sv r = handled sv r
     (bindM (onService (Service_ListACMEAuthorizations (PathValue r ''id''))) (\<lambda>authorizations.
      reply 200 (BACMEAuthorizations (toACMEAuthorizationResponses authorizations))))"

definition listACMEChallenges :: "Server \<Rightarrow> Request \<Rightarrow> Response option http" where
  "listACMEChallenges sv r = handled sv r
     (bindM (onService (Service_ListACMEChallenges (PathValue r ''id''))) (\<lambda>challenges.
      reply 200 (BACMEChallenges (toACMEChallengeResponses challenges))))"

definition completeACMEChallenge :: "Server \<Rightarrow> Request \<Rightarrow> Response option http" where
  "completeACMEChallenge sv r = handled sv r
     (bindM (onService (Service_CompleteACMEChallenge (sv_service sv) (rq_Context r) (requestActor r) (PathValue r ''id''))) (\<lambda>challenge.
      reply 200 (BACMEChallenge (toACMEChallengeResponse challenge))))"

definition finalizeACMEOrder :: "Server \<Rightarrow> Request \<Rightarrow> Response option http" where
  "finalizeACMEOrder sv r = handled sv r
     (bindM (liftE (decodeJSON r (cdc_finalizeACMEOrderRequest (sv_codec sv)))) (\<lambda>req.
      bindM (onService (Service_FinalizeACMEOrder (sv_service sv) (rq_Context r) (requestActor r) (PathValue r ''id'')
        \<lparr>fao_CSRPEM = hfo_CSRPEM req, fao_RequestedSubject = hfo_RequestedSubject req\<rparr>)) (\<lambda>order.
      reply 200 (BACMEOrder (toACMEOrderResponse order)))))"

end
