(* ===== verification/Ocsp.thy ===== *)
theory Ocsp
  imports Revocation Registry
begin

text \<open>
  OCSP responses: the status of the certificates a request asks about and the answer of
  \<^verbatim>\<open>RespondOCSP\<close> (\<^verbatim>\<open>internal/lifecycle/service.go\<close>). Decoding the request and signing the response is the
  business of the signer, a parameter of the service.
\<close>

section \<open>Keys and statuses\<close>

definition normalizeOCSPHashAlgorithm :: "string \<Rightarrow> string" where
  "normalizeOCSPHashAlgorithm hashAlgorithm =
     (let normalized = ToLower (filter (\<lambda>c. c \<noteq> CHR ''_'') (filter (\<lambda>c. c \<noteq> CHR ''-'') hashAlgorithm)) in
      if normalized = [] then ''sha1'' else normalized)"

definition ocspIssuerHashKey :: "string \<Rightarrow> string \<Rightarrow> string \<Rightarrow> string" where
  "ocspIssuerHashKey hashAlgorithm nameHash keyHash =
     normalizeOCSPHashAlgorithm hashAlgorithm @ [CHR 0x00] @ nameHash @ [CHR 0x00] @ keyHash"

definition ocspIssuerSerialKey :: "string \<Rightarrow> string \<Rightarrow> string" where
  "ocspIssuerSerialKey issuerID serialNumber = issuerID @ [CHR 0x00] @ serialNumber"

definition ocspStatusForID :: "OCSPCertificateID \<Rightarrow> string \<Rightarrow> OCSPCertificateStatus" where
  "ocspStatusForID ident status =
     \<lparr>ocs_SerialNumber = oci_SerialNumber ident, ocs_Status = status, ocs_RevokedAt = time_zero, ocs_RevocationReason = [],
      ocs_HashAlgorithm = normalizeOCSPHashAlgorithm (oci_HashAlgorithm ident), ocs_IssuerNameHash = oci_IssuerNameHash ident,
      ocs_IssuerKeyHash = oci_IssuerKeyHash ident\<rparr>"

definition unknownOCSPStatus :: "OCSPCertificateID \<Rightarrow> OCSPCertificateStatus" where
  "unknownOCSPStatus ident = ocspStatusForID ident ''unknown''"

definition revokedOCSPStatus :: "OCSPCertificateID \<Rightarrow> Certificate \<Rightarrow> RevokedCertificateEntry list \<Rightarrow> OCSPCertificateStatus" where
  "revokedOCSPStatus ident certificate revocations =
     (let status = ocspStatusForID ident ''revoked'' in
      case find (\<lambda>revocation. rce_SerialNumber revocation = cert_SerialNumber certificate) revocations of
        Some revocation \<Rightarrow> status\<lparr>ocs_RevokedAt := rce_RevokedAt revocation, ocs_RevocationReason := str_RevocationReason (rce_Reason revocation)\<rparr>
      | None \<Rightarrow> status)"

fun hashAlgorithmLoop :: "OCSPCertificateID list \<Rightarrow> string list \<Rightarrow> string list" where
  "hashAlgorithmLoop [] algorithms = algorithms"
| "hashAlgorithmLoop (ident # rest) algorithms =
     (let algorithm = normalizeOCSPHashAlgorithm (oci_HashAlgorithm ident) in
      hashAlgorithmLoop rest (if algorithm \<in> set algorithms then algorithms else algorithms @ [algorithm]))"

definition ocspHashAlgorithms :: "OCSPCertificateID list \<Rightarrow> string list" where
  "ocspHashAlgorithms ids = (let algorithms = hashAlgorithmLoop ids [] in if length algorithms = 0 then [''sha1''] else algorithms)"

definition firstOCSPSerial :: "OCSPCertificateID list \<Rightarrow> string" where
  "firstOCSPSerial ids = (if length ids = 0 then [] else oci_SerialNumber (ids ! 0))"

definition firstOCSPStatus :: "OCSPCertificateStatus list \<Rightarrow> string" where
  "firstOCSPStatus statuses = (if length statuses = 0 then [] else ocs_Status (statuses ! 0))"

text \<open>The entry of one certificate in the audit event; the object has its keys in the order of insertion.\<close>

definition ocspAuditEntry :: "Service \<Rightarrow> OCSPCertificateID \<Rightarrow> OCSPCertificateStatus option \<Rightarrow> json" where
  "ocspAuditEntry svc ident status =
     JObject ([(''serial_number'', JString (oci_SerialNumber ident)), (''issuer_name_hash'', JString (oci_IssuerNameHash ident)),
         (''issuer_key_hash'', JString (oci_IssuerKeyHash ident)),
         (''hash_algorithm'', JString (normalizeOCSPHashAlgorithm (oci_HashAlgorithm ident)))] @
       (case status of
          None \<Rightarrow> []
        | Some st \<Rightarrow>
            [(''status'', JString (ocs_Status st))] @
            (if ocs_RevocationReason st \<noteq> [] then [(''reason'', JString (ocs_RevocationReason st))] else []) @
            (if \<not> IsZero (ocs_RevokedAt st) then [(''revoked_at'', JString (rt_rfc3339 (svc_runtime svc) (ocs_RevokedAt st)))] else [])))"

definition ocspAuditCertificates :: "Service \<Rightarrow> OCSPCertificateID list \<Rightarrow> OCSPCertificateStatus list \<Rightarrow> json list" where
  "ocspAuditCertificates svc ids statuses =
     map (\<lambda>i. ocspAuditEntry svc (ids ! i) (if i < length statuses then Some (statuses ! i) else None)) [0..<length ids]"

section \<open>Looking certificates up\<close>

fun inspectIssuer :: "Service \<Rightarrow> Issuer \<Rightarrow> string list \<Rightarrow> Issuer gomap \<Rightarrow> Issuer gomap svc" where
  "inspectIssuer svc issuer [] byHash = returnM byHash"
| "inspectIssuer svc issuer (hashAlgorithm # rest) byHash =
     bindM (attemptM (callExt (\<lambda>n. ci_InspectOCSPIssuer (svc_issuer svc) n (iss_CertificatePEM issuer) hashAlgorithm))) (\<lambda>r.
     case r of
       Inl err \<Rightarrow> throwM (mapOCSPDecodeError err)
     | Inr info \<Rightarrow> inspectIssuer svc issuer rest
         (mput (ocspIssuerHashKey hashAlgorithm (oii_IssuerNameHash info) (oii_IssuerKeyHash info)) issuer byHash))"

definition ocspIssuersByHash :: "Service \<Rightarrow> OCSPCertificateID list \<Rightarrow> Issuer gomap svc" where
  "ocspIssuersByHash svc ids =
     bindM (onRepo MemoryStore_ListIssuers) (\<lambda>issuers.
     let hashAlgorithms = ocspHashAlgorithms ids in
     foldM (\<lambda>issuer byHash. if iss_Status issuer \<noteq> IssuerActive then returnM byHash else inspectIssuer svc issuer hashAlgorithms byHash)
       issuers mempty)"

fun serialIndex :: "Certificate list \<Rightarrow> Certificate gomap \<Rightarrow> Certificate gomap" where
  "serialIndex [] index = index"
| "serialIndex (certificate # rest) index =
     (let key = ocspIssuerSerialKey (cert_IssuerID certificate) (cert_SerialNumber certificate) in
      serialIndex rest (if mget index key = None then mput key certificate index else index))"

text \<open>The revocations of an issuer, listed once per request.\<close>

definition cachedRevocations :: "string \<Rightarrow> RevokedCertificateEntry list gomap \<Rightarrow> (RevokedCertificateEntry list \<times> RevokedCertificateEntry list gomap) svc" where
  "cachedRevocations issuerID cache =
     (case mget cache issuerID of
        Some revocations \<Rightarrow> returnM (revocations, cache)
      | None \<Rightarrow> bindM (onRepo (MemoryStore_ListRevocationsByIssuer issuerID)) (\<lambda>revocations.
          returnM (revocations, mput issuerID revocations cache)))"

fun ocspStatusLoop ::
  "Issuer gomap \<Rightarrow> Certificate gomap \<Rightarrow> OCSPCertificateID list \<Rightarrow> OCSPCertificateStatus list \<Rightarrow> string \<Rightarrow>
   RevokedCertificateEntry list gomap \<Rightarrow> (OCSPCertificateStatus list \<times> string) svc" where
  "ocspStatusLoop issuersByHash byIssuerSerial [] statuses issuerID0 cache = returnM (statuses, issuerID0)"
| "ocspStatusLoop issuersByHash byIssuerSerial (ident # rest) statuses issuerID0 cache =
     (case mget issuersByHash (ocspIssuerHashKey (oci_HashAlgorithm ident) (oci_IssuerNameHash ident) (oci_IssuerKeyHash ident)) of
        None \<Rightarrow> ocspStatusLoop issuersByHash byIssuerSerial rest (statuses @ [unknownOCSPStatus ident]) issuerID0 cache
      | Some issuer \<Rightarrow>
          let issuerID = (if issuerID0 = [] then iss_ID issuer else issuerID0) in
          failIf (issuerID \<noteq> iss_ID issuer) ErrInvalidRequest
         (case mget byIssuerSerial (ocspIssuerSerialKey (iss_ID issuer) (oci_SerialNumber ident)) of
            None \<Rightarrow> ocspStatusLoop issuersByHash byIssuerSerial rest (statuses @ [unknownOCSPStatus ident]) issuerID cache
          | Some certificate \<Rightarrow>
              if cert_Status certificate = CertificateValid then
                ocspStatusLoop issuersByHash byIssuerSerial rest (statuses @ [ocspStatusForID ident ''good'']) issuerID cache
              else if cert_Status certificate = CertificateRevoked then
                bindM (cachedRevocations (cert_IssuerID certificate) cache) (\<lambda>(revocations, cache').
                  ocspStatusLoop issuersByHash byIssuerSerial rest (statuses @ [revokedOCSPStatus ident certificate revocations]) issuerID cache')
              else ocspStatusLoop issuersByHash byIssuerSerial rest (statuses @ [unknownOCSPStatus ident]) issuerID cache))"

definition ocspCertificateStatuses :: "Service \<Rightarrow> OCSPCertificateID list \<Rightarrow> (OCSPCertificateStatus list \<times> string) svc" where
  "ocspCertificateStatuses svc ids =
     bindM (ocspIssuersByHash svc ids) (\<lambda>issuersByHash.
     bindM (onRepo MemoryStore_ListCertificates) (\<lambda>certificates.
       ocspStatusLoop issuersByHash (serialIndex certificates mempty) ids [] [] mempty))"

section \<open>The response\<close>

definition ocspSignerForIssuer :: "Issuer \<Rightarrow> ocspSigner svc" where
  "ocspSignerForIssuer issuer =
     bindM (attemptM (onRepo (MemoryStore_GetActiveOCSPResponderByIssuer (iss_ID issuer)))) (\<lambda>r.
     case r of
       Inr responder \<Rightarrow> returnM \<lparr>sgn_CertificatePEM = rsp_CertificatePEM responder, sgn_KeyRef = rsp_KeyRef responder,
         sgn_ResponderMode = ''delegated'', sgn_ResponderID = rsp_ID responder\<rparr>
     | Inl err \<Rightarrow>
         if errors_Is err ErrOCSPResponderNotFound then
           returnM \<lparr>sgn_CertificatePEM = iss_CertificatePEM issuer, sgn_KeyRef = iss_KeyRef issuer,
             sgn_ResponderMode = ''issuer_direct'', sgn_ResponderID = []\<rparr>
         else throwM err)"

definition ocspResponseRequest :: "string \<Rightarrow> ocspSigner \<Rightarrow> time \<Rightarrow> OCSPCertificateStatus list \<Rightarrow> GenerateOCSPResponseRequest" where
  "ocspResponseRequest requestDER signer now statuses =
     \<lparr>goq_RequestDER = copySlice requestDER, goq_IssuerCertificatePEM = sgn_CertificatePEM signer, goq_IssuerKeyRef = sgn_KeyRef signer,
      goq_ThisUpdate = now, goq_NextUpdate = now + Hour, goq_Certificates = statuses\<rparr>"

definition ocspAuditFields ::
  "Service \<Rightarrow> string \<Rightarrow> OCSPRequestInfo \<Rightarrow> OCSPCertificateStatus list \<Rightarrow> ocspSigner \<Rightarrow> json gomap" where
  "ocspAuditFields svc issuerID info statuses signer =
     (let flds =
        mput ''responder_mode'' (JString (sgn_ResponderMode signer))
       (mput ''certificates'' (JList (ocspAuditCertificates svc (ori_Certificates info) statuses))
       (mput ''first_certificate_status'' (JString (firstOCSPStatus statuses))
       (mput ''first_serial_number'' (JString (firstOCSPSerial (ori_Certificates info)))
       (mput ''nonce_present'' (JBool (ori_HasNonce info))
       (mput ''response_status'' (JString ''successful'')
       (mput ''requested_cert_count'' (JInt (int (length (ori_Certificates info))))
       (mput ''issuer_id'' (JString issuerID)
       (mput ''request_type'' (JString ''ocsp'') mempty)))))))) in
      if sgn_ResponderID signer \<noteq> [] then mput ''responder_id'' (JString (sgn_ResponderID signer)) flds else flds)"

definition Service_RespondOCSP :: "Service \<Rightarrow> Context \<Rightarrow> string \<Rightarrow> string \<Rightarrow> OCSPResponse svc" where
  "Service_RespondOCSP svc ctx actor requestDER =
     failIf (length requestDER = 0) ErrInvalidRequest
    (bindM (Now svc) (\<lambda>now.
     bindM (attemptM (callExt (\<lambda>n. ci_InspectOCSP (svc_issuer svc) n requestDER))) (\<lambda>inspected.
     case inspected of
       Inl err \<Rightarrow> throwM (mapOCSPDecodeError err)
     | Inr info \<Rightarrow>
         failIf (length (ori_Certificates info) = 0) ErrInvalidRequest
        (bindM (ocspCertificateStatuses svc (ori_Certificates info)) (\<lambda>(statuses, issuerID).
         failIf (issuerID = []) ErrInvalidRequest
        (bindM (onRepo (MemoryStore_GetIssuer issuerID)) (\<lambda>issuer.
         bindM (ocspSignerForIssuer issuer) (\<lambda>signer.
         bindM (attemptM (callExt (\<lambda>n. ci_GenerateOCSPResponse (svc_issuer svc) n (ocspResponseRequest requestDER signer now statuses)))) (\<lambda>generated.
         case generated of
           Inl err \<Rightarrow> throwM (mapOCSPResponseError err)
         | Inr res \<Rightarrow>
             thenM (MemoryStore_WithinTx (
               bindM (NewID svc) (\<lambda>ident.
                 createAuditEvent svc ctx actor ''ocsp.requested'' ''ocsp'' ident now (ocspAuditFields svc issuerID info statuses signer)) ))
               (returnM \<lparr>orp_ResponseDER = gor_ResponseDER res\<rparr>) )))))))))"

section \<open>Reading leaves the store alone\<close>

lemma inspectIssuer_quiet [clean_rules]: "quiet (inspectIssuer svc issuer algs byHash)"
  by (induction algs arbitrary: byHash) (auto intro!: clean_rules)

lemma issuersByHash_quiet [clean_rules]: "quiet (ocspIssuersByHash svc ids)"
  unfolding ocspIssuersByHash_def by (intro clean_rules)

lemma cachedRevocations_quiet [clean_rules]: "quiet (cachedRevocations i cache)"
  unfolding cachedRevocations_def by (intro clean_rules)

lemma statusLoop_quiet [clean_rules]: "quiet (ocspStatusLoop byHash bySerial ids statuses i cache)"
  by (induction ids arbitrary: statuses i cache) (auto simp: Let_def intro!: clean_rules split: option.split prod.split)

lemma statuses_quiet [clean_rules]: "quiet (ocspCertificateStatuses svc ids)"
  unfolding ocspCertificateStatuses_def by (intro clean_rules)

lemma ocspSigner_quiet [clean_rules]: "quiet (ocspSignerForIssuer issuer)"
  unfolding ocspSignerForIssuer_def by (intro clean_rules)

lemma RespondOCSP_clean: "clean (Service_RespondOCSP svc ctx actor der)"
  unfolding Service_RespondOCSP_def by (intro clean_rules)

section \<open>The certificate a request means\<close>

definition noNul :: "string \<Rightarrow> bool" where
  "noNul s \<longleftrightarrow> CHR 0x00 \<notin> set s"

lemma serialKey_inj:
  assumes "noNul i" "noNul i'"
  shows "ocspIssuerSerialKey i s = ocspIssuerSerialKey i' s' \<longleftrightarrow> i = i' \<and> s = s'"
proof -
  have "takeWhile (\<lambda>c. c \<noteq> CHR 0x00) (j @ CHR 0x00 # t) = j" "dropWhile (\<lambda>c. c \<noteq> CHR 0x00) (j @ CHR 0x00 # t) = CHR 0x00 # t"
    if "noNul j" for j t
    using that by (induction j) (auto simp: noNul_def)
  then show ?thesis using assms unfolding ocspIssuerSerialKey_def by (metis append_Cons append_Nil list.inject)
qed

lemma serialIndex_get:
  "mget (serialIndex cs index) key = (case mget index key of
     Some c \<Rightarrow> Some c | None \<Rightarrow> find (\<lambda>c. ocspIssuerSerialKey (cert_IssuerID c) (cert_SerialNumber c) = key) cs)"
  by (induction cs index rule: serialIndex.induct) (auto simp: Let_def mget_mput split: option.split)

definition certificateNamed :: "MemoryStore \<Rightarrow> string \<Rightarrow> string \<Rightarrow> Certificate \<Rightarrow> bool" where
  "certificateNamed s issuerID serial c \<longleftrightarrow>
     (\<exists>k. mget (ms_certificates s) k = Some c) \<and> cert_IssuerID c = issuerID \<and> cert_SerialNumber c = serial"

definition plainIssuerIDs :: "MemoryStore \<Rightarrow> bool" where
  "plainIssuerIDs s \<longleftrightarrow> (\<forall>k i. mget (ms_issuers s) k = Some i \<longrightarrow> noNul (iss_ID i)) \<and>
     (\<forall>k c. mget (ms_certificates s) k = Some c \<longrightarrow> noNul (cert_IssuerID c))"

lemma serialIndex_named:
  assumes "plainIssuerIDs s" "noNul i"
  shows "(case mget (serialIndex (mvals (ms_certificates s)) mempty) (ocspIssuerSerialKey i serial) of
      None \<Rightarrow> \<nexists>c. certificateNamed s i serial c | Some c \<Rightarrow> certificateNamed s i serial c)"
proof -
  have key: "ocspIssuerSerialKey (cert_IssuerID c) (cert_SerialNumber c) = ocspIssuerSerialKey i serial \<longleftrightarrow>
      cert_IssuerID c = i \<and> cert_SerialNumber c = serial" if "c \<in> set (mvals (ms_certificates s))" for c
    using that assms by (intro serialKey_inj) (auto simp: in_mvals_iff plainIssuerIDs_def)
  show ?thesis
  proof (cases "find (\<lambda>c. ocspIssuerSerialKey (cert_IssuerID c) (cert_SerialNumber c) = ocspIssuerSerialKey i serial) (mvals (ms_certificates s))")
    case None
    then have "\<nexists>c. certificateNamed s i serial c" using key by (auto simp: find_None_iff certificateNamed_def in_mvals_iff)
    then show ?thesis using None by (simp add: serialIndex_get)
  next
    case (Some c)
    then have "c \<in> set (mvals (ms_certificates s))" "ocspIssuerSerialKey (cert_IssuerID c) (cert_SerialNumber c) = ocspIssuerSerialKey i serial"
      by (auto simp: find_Some_iff)
    then show ?thesis using key Some by (auto simp: serialIndex_get certificateNamed_def in_mvals_iff)
  qed
qed

lemma named_unique:
  assumes "unique_certificates (ms_certificates s)" "certificateNamed s i serial c" "certificateNamed s i serial c'" "i \<noteq> []" "serial \<noteq> []"
  shows "c' = c"
  using assms unfolding certificateNamed_def unique_certificates_def certs_conflict_def by (metis option.inject)

section \<open>The statuses\<close>

text \<open>The status of one certificate, from the issuers by hash and the store.\<close>

definition ocspIssuerOf :: "Issuer gomap \<Rightarrow> OCSPCertificateID \<Rightarrow> Issuer option" where
  "ocspIssuerOf byHash ident = mget byHash (ocspIssuerHashKey (oci_HashAlgorithm ident) (oci_IssuerNameHash ident) (oci_IssuerKeyHash ident))"

definition ocspStatusOf :: "MemoryStore \<Rightarrow> Issuer gomap \<Rightarrow> OCSPCertificateID \<Rightarrow> OCSPCertificateStatus" where
  "ocspStatusOf s byHash ident =
     (case ocspIssuerOf byHash ident of
        None \<Rightarrow> unknownOCSPStatus ident
      | Some issuer \<Rightarrow>
          (case mget (serialIndex (mvals (ms_certificates s)) mempty) (ocspIssuerSerialKey (iss_ID issuer) (oci_SerialNumber ident)) of
             None \<Rightarrow> unknownOCSPStatus ident
           | Some c \<Rightarrow>
               if cert_Status c = CertificateValid then ocspStatusForID ident ''good''
               else if cert_Status c = CertificateRevoked then
                 revokedOCSPStatus ident c (listRevocationsByIssuer (ms_certificates s) (ms_revocations s) (cert_IssuerID c))
               else unknownOCSPStatus ident))"

definition cacheCorrect :: "MemoryStore \<Rightarrow> RevokedCertificateEntry list gomap \<Rightarrow> bool" where
  "cacheCorrect s cache \<longleftrightarrow> (\<forall>i rs. mget cache i = Some rs \<longrightarrow> rs = listRevocationsByIssuer (ms_certificates s) (ms_revocations s) i)"

lemma cachedRevocations_run:
  assumes "cacheCorrect (w_repo w) cache"
  shows "\<exists>cache'. cachedRevocations i cache w = (Inr (listRevocationsByIssuer (ms_certificates (w_repo w)) (ms_revocations (w_repo w)) i, cache'), w) \<and>
    cacheCorrect (w_repo w) cache'"
  using assms by (cases "mget cache i")
    (auto simp: cachedRevocations_def cacheCorrect_def prog_simps run_onRepo MemoryStore_ListRevocationsByIssuer_def mget_mput)

lemma statusLoop_run:
  assumes "cacheCorrect (w_repo w) cache"
    and "ocspStatusLoop byHash (serialIndex (mvals (ms_certificates (w_repo w))) mempty) ids sts i0 cache w = (Inr (statuses, i), w')"
  shows "w' = w \<and> statuses = sts @ map (ocspStatusOf (w_repo w) byHash) ids \<and> (i0 \<noteq> [] \<longrightarrow> i = i0) \<and>
     (i \<noteq> i0 \<longrightarrow> (\<exists>ident issuer. ident \<in> set ids \<and> ocspIssuerOf byHash ident = Some issuer \<and> i = iss_ID issuer)) \<and>
     (\<forall>ident issuer. ident \<in> set ids \<and> ocspIssuerOf byHash ident = Some issuer \<and> iss_ID issuer \<noteq> [] \<longrightarrow> iss_ID issuer = i)"
  using assms
proof (induction ids arbitrary: sts i0 cache)
  case (Cons ident ids)
  let ?loop = "\<lambda>sts i0 cache. ocspStatusLoop byHash (serialIndex (mvals (ms_certificates (w_repo w))) mempty) ids sts i0 cache w = (Inr (statuses, i), w')"
  show ?case
  proof (cases "ocspIssuerOf byHash ident")
    case None
    then have "?loop (sts @ [unknownOCSPStatus ident]) i0 cache" using Cons.prems(2) by (simp add: ocspIssuerOf_def)
    from Cons.IH[OF Cons.prems(1) this] None show ?thesis by (auto simp: ocspStatusOf_def)
  next
    case (Some issuer)
    let ?i = "if i0 = [] then iss_ID issuer else i0"
    have same: "?i = iss_ID issuer" using Cons.prems(2) Some by (auto simp: ocspIssuerOf_def prog_simps split: if_splits)
    have "\<exists>cache'. cacheCorrect (w_repo w) cache' \<and> ?loop (sts @ [ocspStatusOf (w_repo w) byHash ident]) ?i cache'"
    proof (cases "mget (serialIndex (mvals (ms_certificates (w_repo w))) mempty) (ocspIssuerSerialKey (iss_ID issuer) (oci_SerialNumber ident))")
      case None
      then show ?thesis using Cons.prems Some same by (auto simp: ocspIssuerOf_def prog_simps ocspStatusOf_def Let_def)
    next
      case c: (Some c)
      show ?thesis
      proof (cases "cert_Status c = CertificateRevoked")
        case True
        obtain cache' where "cachedRevocations (cert_IssuerID c) cache w =
            (Inr (listRevocationsByIssuer (ms_certificates (w_repo w)) (ms_revocations (w_repo w)) (cert_IssuerID c), cache'), w)"
          "cacheCorrect (w_repo w) cache'" using cachedRevocations_run[OF Cons.prems(1)] by blast
        then show ?thesis using Cons.prems(2) Some same c True
          by (intro exI[of _ cache']) (simp add: ocspIssuerOf_def run_failIf run_bindM ocspStatusOf_def Let_def)
      next
        case False
        then show ?thesis using Cons.prems Some same c
          by (intro exI[of _ cache]) (simp add: ocspIssuerOf_def run_failIf ocspStatusOf_def Let_def split: if_splits)
      qed
    qed
    then obtain cache' where c: "cacheCorrect (w_repo w) cache'" "?loop (sts @ [ocspStatusOf (w_repo w) byHash ident]) ?i cache'" by blast
    have IH: "w' = w \<and> statuses = sts @ map (ocspStatusOf (w_repo w) byHash) (ident # ids)" "iss_ID issuer \<noteq> [] \<Longrightarrow> i = iss_ID issuer"
      "i \<noteq> iss_ID issuer \<Longrightarrow> \<exists>d issuer. d \<in> set ids \<and> ocspIssuerOf byHash d = Some issuer \<and> i = iss_ID issuer"
      "\<And>d issuer. d \<in> set ids \<Longrightarrow> ocspIssuerOf byHash d = Some issuer \<Longrightarrow> iss_ID issuer \<noteq> [] \<Longrightarrow> iss_ID issuer = i"
      using Cons.IH[OF c] unfolding same by auto
    have "i0 \<noteq> [] \<Longrightarrow> i0 = iss_ID issuer" using same by simp
    then show ?thesis using IH Some by (metis list.set_intros set_ConsD option.inject)
  qed
qed (auto simp: prog_simps)

text \<open>The issuers by hash are active issuers of the store.\<close>

text \<open>The signer named the issuer by this key when it was asked for the hashes under this algorithm.\<close>

definition issuerNamed :: "Service \<Rightarrow> Issuer \<Rightarrow> string \<Rightarrow> string \<Rightarrow> bool" where
  "issuerNamed svc issuer algorithm key \<longleftrightarrow>
     (\<exists>n info. ci_InspectOCSPIssuer (svc_issuer svc) n (iss_CertificatePEM issuer) algorithm = Inr info \<and>
        key = ocspIssuerHashKey algorithm (oii_IssuerNameHash info) (oii_IssuerKeyHash info))"

lemma inspectIssuer_get:
  assumes "inspectIssuer svc issuer algs byHash w = (Inr m, w')"
  shows "mget m key = Some v \<Longrightarrow> v = issuer \<and> (\<exists>alg \<in> set algs. issuerNamed svc issuer alg key) \<or> mget byHash key = Some v"
    and "mget byHash key \<noteq> None \<Longrightarrow> mget m key \<noteq> None"
    and "alg \<in> set algs \<Longrightarrow> \<exists>key'. issuerNamed svc issuer alg key' \<and> mget m key' \<noteq> None"
proof -
  have "(mget m key = Some v \<longrightarrow> v = issuer \<and> (\<exists>alg \<in> set algs. issuerNamed svc issuer alg key) \<or> mget byHash key = Some v) \<and>
    (\<forall>key. mget byHash key \<noteq> None \<longrightarrow> mget m key \<noteq> None) \<and>
    (alg \<in> set algs \<longrightarrow> (\<exists>key'. issuerNamed svc issuer alg key' \<and> mget m key' \<noteq> None))" (is "?P algs byHash")
    using assms
  proof (induction algs arbitrary: byHash w)
    case (Cons a algs)
    obtain info w1 where info: "ci_InspectOCSPIssuer (svc_issuer svc) (w_ext w) (iss_CertificatePEM issuer) a = Inr info"
      and rest: "inspectIssuer svc issuer algs (mput (ocspIssuerHashKey a (oii_IssuerNameHash info) (oii_IssuerKeyHash info)) issuer byHash) w1 = (Inr m, w')"
      using Cons.prems by (cases "ci_InspectOCSPIssuer (svc_issuer svc) (w_ext w) (iss_CertificatePEM issuer) a") (simp_all add: prog_simps)
    let ?key = "ocspIssuerHashKey a (oii_IssuerNameHash info) (oii_IssuerKeyHash info)"
    have named: "issuerNamed svc issuer a ?key" using info by (auto simp: issuerNamed_def)
    note IH = Cons.IH[OF rest]
    have later: "mget m k \<noteq> None" if "mget (mput ?key issuer byHash) k \<noteq> None" for k using IH that by blast
    have kept: "\<forall>k. mget byHash k \<noteq> None \<longrightarrow> mget m k \<noteq> None" using later by (auto simp: mget_mput)
    moreover have "mget m ?key \<noteq> None" by (rule later) simp
    ultimately show ?case using IH named by (auto simp: mget_mput split: if_splits)
  qed (auto simp: prog_simps)
  then show "mget m key = Some v \<Longrightarrow> v = issuer \<and> (\<exists>alg \<in> set algs. issuerNamed svc issuer alg key) \<or> mget byHash key = Some v"
    and "mget byHash key \<noteq> None \<Longrightarrow> mget m key \<noteq> None"
    and "alg \<in> set algs \<Longrightarrow> \<exists>key'. issuerNamed svc issuer alg key' \<and> mget m key' \<noteq> None"
    by blast+
qed

lemma issuerFold_get:
  assumes "foldM (\<lambda>issuer byHash. if iss_Status issuer \<noteq> IssuerActive then returnM byHash else inspectIssuer svc issuer algs byHash) issuers m0 w = (Inr m, w')"
  shows "(mget m key = Some v \<longrightarrow> mget m0 key = Some v \<or> v \<in> set issuers \<and> iss_Status v = IssuerActive \<and> (\<exists>alg \<in> set algs. issuerNamed svc v alg key)) \<and>
    (\<forall>key. mget m0 key \<noteq> None \<longrightarrow> mget m key \<noteq> None) \<and>
    (u \<in> set issuers \<and> iss_Status u = IssuerActive \<and> alg \<in> set algs \<longrightarrow> (\<exists>key'. issuerNamed svc u alg key' \<and> mget m key' \<noteq> None))"
  using assms
proof (induction issuers arbitrary: m0 w)
  case (Cons x xs)
  let ?f = "\<lambda>issuer byHash. if iss_Status issuer \<noteq> IssuerActive then returnM byHash else inspectIssuer svc issuer algs byHash"
  obtain r w1 where f: "?f x m0 w = (r, w1)" by (cases "?f x m0 w")
  then obtain m1 where m1: "?f x m0 w = (Inr m1, w1)" "foldM ?f xs m1 w1 = (Inr m, w')"
    using Cons.prems by (cases r) (simp_all add: run_bindM)
  note IH = Cons.IH[OF m1(2)]
  show ?case
  proof (cases "iss_Status x = IssuerActive")
    case False
    then have "m1 = m0" using m1(1) by (simp add: prog_simps)
    then show ?thesis using IH False by auto
  next
    case True
    then have run: "inspectIssuer svc x algs m0 w = (Inr m1, w1)" using m1(1) by simp
    note one = inspectIssuer_get[OF run]
    show ?thesis using IH one(1)[of key v] one(2) one(3)[of alg] True by (metis list.set_intros(1,2) set_ConsD)
  qed
qed (auto simp: prog_simps)

lemma hashAlgorithms_all:
  assumes "ident \<in> set ids"
  shows "normalizeOCSPHashAlgorithm (oci_HashAlgorithm ident) \<in> set (ocspHashAlgorithms ids)"
proof -
  have "set (hashAlgorithmLoop ids algs) = set algs \<union> (\<lambda>i. normalizeOCSPHashAlgorithm (oci_HashAlgorithm i)) ` set ids" for algs
    by (induction ids arbitrary: algs) (auto simp: Let_def)
  then have "normalizeOCSPHashAlgorithm (oci_HashAlgorithm ident) \<in> set (hashAlgorithmLoop ids [])" using assms by auto
  then show ?thesis by (auto simp: ocspHashAlgorithms_def Let_def)
qed

definition ocspKeyOf :: "OCSPCertificateID \<Rightarrow> string" where
  "ocspKeyOf ident = ocspIssuerHashKey (oci_HashAlgorithm ident) (oci_IssuerNameHash ident) (oci_IssuerKeyHash ident)"

lemma issuersByHash_active:
  assumes "ocspIssuersByHash svc ids w = (Inr byHash, w')"
  shows "ocspIssuerOf byHash ident = Some issuer \<Longrightarrow>
      iss_Status issuer = IssuerActive \<and> (\<exists>k. mget (ms_issuers (w_repo w)) k = Some issuer) \<and> (\<exists>alg. issuerNamed svc issuer alg (ocspKeyOf ident))"
    and "ocspIssuerOf byHash ident = None \<Longrightarrow> ident \<in> set ids \<Longrightarrow> mget (ms_issuers (w_repo w)) k = Some i \<Longrightarrow> iss_Status i = IssuerActive \<Longrightarrow>
      \<exists>key. issuerNamed svc i (normalizeOCSPHashAlgorithm (oci_HashAlgorithm ident)) key \<and> key \<noteq> ocspKeyOf ident"
proof -
  have run: "foldM (\<lambda>issuer byHash. if iss_Status issuer \<noteq> IssuerActive then returnM byHash else inspectIssuer svc issuer (ocspHashAlgorithms ids) byHash)
      (mvals (ms_issuers (w_repo w))) mempty w = (Inr byHash, w')"
    using assms by (simp add: ocspIssuersByHash_def prog_simps run_onRepo MemoryStore_ListIssuers_def Let_def)
  show "iss_Status issuer = IssuerActive \<and> (\<exists>k. mget (ms_issuers (w_repo w)) k = Some issuer) \<and> (\<exists>alg. issuerNamed svc issuer alg (ocspKeyOf ident))"
    if "ocspIssuerOf byHash ident = Some issuer"
    using issuerFold_get[OF run, of "ocspKeyOf ident" issuer] that by (auto simp: ocspIssuerOf_def ocspKeyOf_def in_mvals_iff)
  show "\<exists>key. issuerNamed svc i (normalizeOCSPHashAlgorithm (oci_HashAlgorithm ident)) key \<and> key \<noteq> ocspKeyOf ident"
    if "ocspIssuerOf byHash ident = None" "ident \<in> set ids" "mget (ms_issuers (w_repo w)) k = Some i" "iss_Status i = IssuerActive"
  proof -
    note h = that
    obtain key where "issuerNamed svc i (normalizeOCSPHashAlgorithm (oci_HashAlgorithm ident)) key" "mget byHash key \<noteq> None"
      using issuerFold_get[OF run] hashAlgorithms_all[OF h(2)] h(3,4) in_mvals_iff by metis
    then show ?thesis using h(1) by (auto simp: ocspIssuerOf_def ocspKeyOf_def)
  qed
qed

lemma statuses_run:
  assumes "ocspCertificateStatuses svc ids w = (Inr (statuses, i), w')"
  obtains byHash w1 where "ocspIssuersByHash svc ids w = (Inr byHash, w1)" "w_repo w1 = w_repo w" "w' = w1"
    "statuses = map (ocspStatusOf (w_repo w) byHash) ids"
    "i \<noteq> [] \<Longrightarrow> \<exists>ident issuer. ident \<in> set ids \<and> ocspIssuerOf byHash ident = Some issuer \<and> i = iss_ID issuer"
    "\<And>ident issuer. ident \<in> set ids \<Longrightarrow> ocspIssuerOf byHash ident = Some issuer \<Longrightarrow> iss_ID issuer \<noteq> [] \<Longrightarrow> iss_ID issuer = i"
proof -
  obtain r w1 where b: "ocspIssuersByHash svc ids w = (r, w1)" by (cases "ocspIssuersByHash svc ids w")
  have repo: "w_repo w1 = w_repo w" using issuersByHash_quiet[of svc ids] b unfolding quiet_def by (metis snd_conv)
  obtain byHash where r: "r = Inr byHash" using assms b by (cases r) (auto simp: ocspCertificateStatuses_def run_bindM)
  then have "ocspStatusLoop byHash (serialIndex (mvals (ms_certificates (w_repo w1))) mempty) ids [] [] mempty w1 = (Inr (statuses, i), w')"
    using assms b by (simp add: ocspCertificateStatuses_def run_bindM run_onRepo MemoryStore_ListCertificates_def)
  from statusLoop_run[OF _ this] show thesis
    by (intro that[OF b[unfolded r] repo]) (auto simp: cacheCorrect_def repo)
qed

section \<open>The response tells the truth\<close>

lemma revoked_entry:
  assumes s: "sound svc w" and ok: "revocation_ok (w_repo w)" and get: "mget (ms_certificates (w_repo w)) k = Some c"
    and st: "cert_Status c = CertificateRevoked" and ne: "cert_IssuerID c \<noteq> []" "cert_SerialNumber c \<noteq> []"
  shows "\<exists>j r. mget (ms_revocations (w_repo w)) j = Some r \<and> rev_CertificateID r = cert_ID c \<and>
     revokedOCSPStatus ident c (listRevocationsByIssuer (ms_certificates (w_repo w)) (ms_revocations (w_repo w)) (cert_IssuerID c)) =
       (ocspStatusForID ident ''revoked'')\<lparr>ocs_RevokedAt := rev_RevokedAt r, ocs_RevocationReason := str_RevocationReason (rev_Reason r)\<rparr>"
proof -
  let ?certs = "ms_certificates (w_repo w)" and ?revs = "mvals (ms_revocations (w_repo w))"
  let ?entries = "listRevocationsByIssuer ?certs (ms_revocations (w_repo w)) (cert_IssuerID c)"
  have entries: "e \<in> set ?entries \<longleftrightarrow> (\<exists>r c'. r \<in> set ?revs \<and> mget ?certs (rev_CertificateID r) = Some c' \<and> cert_IssuerID c' = cert_IssuerID c \<and>
      cert_Status c' = CertificateRevoked \<and> e = \<lparr>rce_CertificateID = cert_ID c', rce_SerialNumber = cert_SerialNumber c',
        rce_RevokedAt = rev_RevokedAt r, rce_Reason = rev_Reason r\<rparr>)" for e
    by (auto simp: listRevocationsByIssuer_def revokedEntries_filter Let_def image_iff)
  have id: "cert_ID c = k" using keyedD[OF sound_keyed(8)[OF s] get] .
  have "revokedIn (w_repo w) k" using get st by (auto simp: revokedIn_def)
  then obtain j r where r: "mget (ms_revocations (w_repo w)) j = Some r" "rev_CertificateID r = k" using revocation_okD(2)[OF ok] by blast
  have "\<exists>e \<in> set ?entries. rce_SerialNumber e = cert_SerialNumber c"
    using r get st by (intro bexI[of _ "\<lparr>rce_CertificateID = cert_ID c, rce_SerialNumber = cert_SerialNumber c,
        rce_RevokedAt = rev_RevokedAt r, rce_Reason = rev_Reason r\<rparr>"]) (auto simp: entries in_mvals_iff)
  then obtain e where e: "find (\<lambda>e. rce_SerialNumber e = cert_SerialNumber c) ?entries = Some e"
    by (metis (mono_tags, lifting) find_None_iff option.exhaust)
  then have "e \<in> set ?entries" "rce_SerialNumber e = cert_SerialNumber c" by (auto simp: find_Some_iff)
  then obtain j' r' c' where c': "mget (ms_revocations (w_repo w)) j' = Some r'" "mget ?certs (rev_CertificateID r') = Some c'"
    "cert_IssuerID c' = cert_IssuerID c" "cert_SerialNumber c' = cert_SerialNumber c"
    "rce_RevokedAt e = rev_RevokedAt r'" "rce_Reason e = rev_Reason r'"
    unfolding entries by (auto simp: in_mvals_iff)
  have "rev_CertificateID r' = k"
    using sound_clauses(2)[OF s] get c' ne unfolding unique_certificates_def certs_conflict_def by metis
  then show ?thesis using c' e id by (intro exI[of _ j'] exI[of _ r']) (simp add: revokedOCSPStatus_def)
qed

text \<open>What a status has to say about the certificate of issuer \<open>i\<close> with the serial number asked about.\<close>

definition ocspTruth :: "MemoryStore \<Rightarrow> string \<Rightarrow> OCSPCertificateID \<Rightarrow> OCSPCertificateStatus \<Rightarrow> bool" where
  "ocspTruth s i ident st \<longleftrightarrow>
     ((\<nexists>c. certificateNamed s i (oci_SerialNumber ident) c) \<longrightarrow> st = ocspStatusForID ident ''unknown'') \<and>
     (\<forall>c. certificateNamed s i (oci_SerialNumber ident) c \<longrightarrow>
        (if cert_Status c = CertificateValid then st = ocspStatusForID ident ''good''
         else if cert_Status c = CertificateRevoked then
           \<exists>j r. mget (ms_revocations s) j = Some r \<and> rev_CertificateID r = cert_ID c \<and>
             st = (ocspStatusForID ident ''revoked'')\<lparr>ocs_RevokedAt := rev_RevokedAt r, ocs_RevocationReason := str_RevocationReason (rev_Reason r)\<rparr>
         else st = ocspStatusForID ident ''unknown''))"

lemma statusOf_truth:
  assumes s: "sound svc w" and ok: "revocation_ok (w_repo w)" and plain: "plainIssuerIDs (w_repo w)"
    and issuer: "ocspIssuerOf byHash ident = Some issuer" "noNul (iss_ID issuer)" "iss_ID issuer \<noteq> []" and serial: "oci_SerialNumber ident \<noteq> []"
  shows "ocspTruth (w_repo w) (iss_ID issuer) ident (ocspStatusOf (w_repo w) byHash ident)"
proof (cases "mget (serialIndex (mvals (ms_certificates (w_repo w))) mempty) (ocspIssuerSerialKey (iss_ID issuer) (oci_SerialNumber ident))")
  case None
  then show ?thesis
    using serialIndex_named[OF plain issuer(2), of "oci_SerialNumber ident"] issuer(1)
    by (auto simp: ocspTruth_def ocspStatusOf_def unknownOCSPStatus_def)
next
  case (Some c)
  then have c: "certificateNamed (w_repo w) (iss_ID issuer) (oci_SerialNumber ident) c"
    using serialIndex_named[OF plain issuer(2), of "oci_SerialNumber ident"] by simp
  have only: "c' = c" if "certificateNamed (w_repo w) (iss_ID issuer) (oci_SerialNumber ident) c'" for c'
    using named_unique[OF sound_clauses(2)[OF s] c that issuer(3) serial] .
  obtain k where k: "mget (ms_certificates (w_repo w)) k = Some c" "cert_IssuerID c = iss_ID issuer" "cert_SerialNumber c = oci_SerialNumber ident"
    using c by (auto simp: certificateNamed_def)
  show ?thesis
  proof (cases "cert_Status c = CertificateRevoked")
    case True
    have val: "ocspStatusOf (w_repo w) byHash ident =
        revokedOCSPStatus ident c (listRevocationsByIssuer (ms_certificates (w_repo w)) (ms_revocations (w_repo w)) (cert_IssuerID c))"
      using issuer(1) Some True by (simp add: ocspStatusOf_def)
    have ne: "cert_IssuerID c \<noteq> []" "cert_SerialNumber c \<noteq> []" using k(2,3) issuer(3) serial by simp_all
    have "\<exists>j r. mget (ms_revocations (w_repo w)) j = Some r \<and> rev_CertificateID r = cert_ID c \<and>
        ocspStatusOf (w_repo w) byHash ident =
          (ocspStatusForID ident ''revoked'')\<lparr>ocs_RevokedAt := rev_RevokedAt r, ocs_RevocationReason := str_RevocationReason (rev_Reason r)\<rparr>"
      unfolding val by (rule revoked_entry[OF s ok k(1) True ne])
    then have "\<exists>j r. mget (ms_revocations (w_repo w)) j = Some r \<and> rev_CertificateID r = cert_ID c' \<and>
        ocspStatusOf (w_repo w) byHash ident =
          (ocspStatusForID ident ''revoked'')\<lparr>ocs_RevokedAt := rev_RevokedAt r, ocs_RevocationReason := str_RevocationReason (rev_Reason r)\<rparr>"
      "cert_Status c' = CertificateRevoked" if "certificateNamed (w_repo w) (iss_ID issuer) (oci_SerialNumber ident) c'" for c'
      using only[OF that] True by blast+
    then show ?thesis using c unfolding ocspTruth_def by (metis CertificateStatus.distinct(3))
  next
    case False
    then have val: "ocspStatusOf (w_repo w) byHash ident =
        (if cert_Status c = CertificateValid then ocspStatusForID ident ''good'' else ocspStatusForID ident ''unknown'')"
      using issuer(1) Some by (simp add: ocspStatusOf_def unknownOCSPStatus_def)
    show ?thesis
      unfolding ocspTruth_def val
    proof (intro conjI impI allI)
      fix c' assume "certificateNamed (w_repo w) (iss_ID issuer) (oci_SerialNumber ident) c'"
      then have "c' = c" by (rule only)
      with False show "if cert_Status c' = CertificateValid
          then (if cert_Status c = CertificateValid then ocspStatusForID ident ''good'' else ocspStatusForID ident ''unknown'') = ocspStatusForID ident ''good''
          else if cert_Status c' = CertificateRevoked then
            \<exists>j r. mget (ms_revocations (w_repo w)) j = Some r \<and> rev_CertificateID r = cert_ID c' \<and>
              (if cert_Status c = CertificateValid then ocspStatusForID ident ''good'' else ocspStatusForID ident ''unknown'') =
                (ocspStatusForID ident ''revoked'')\<lparr>ocs_RevokedAt := rev_RevokedAt r, ocs_RevocationReason := str_RevocationReason (rev_Reason r)\<rparr>
          else (if cert_Status c = CertificateValid then ocspStatusForID ident ''good'' else ocspStatusForID ident ''unknown'') = ocspStatusForID ident ''unknown''"
        by simp
    qed (use c in blast)
  qed
qed

lemma signerForIssuer_run:
  "ocspSignerForIssuer issuer w = (Inr (case activeOCSPResponderByIssuer (ms_ocspResponders (w_repo w)) (iss_ID issuer) of
     Inr responder \<Rightarrow> \<lparr>sgn_CertificatePEM = rsp_CertificatePEM responder, sgn_KeyRef = rsp_KeyRef responder,
         sgn_ResponderMode = ''delegated'', sgn_ResponderID = rsp_ID responder\<rparr>
   | Inl _ \<Rightarrow> \<lparr>sgn_CertificatePEM = iss_CertificatePEM issuer, sgn_KeyRef = iss_KeyRef issuer,
             sgn_ResponderMode = ''issuer_direct'', sgn_ResponderID = []\<rparr>), w)"
proof (cases "activeOCSPResponderByIssuer (ms_ocspResponders (w_repo w)) (iss_ID issuer)")
  case (Inl e)
  then have "e = ErrOCSPResponderNotFound" by (simp add: activeOCSPResponder_Inl)
  then show ?thesis using Inl by (simp add: ocspSignerForIssuer_def prog_simps run_onRepo MemoryStore_GetActiveOCSPResponderByIssuer_def)
next
  case (Inr r)
  then show ?thesis by (simp add: ocspSignerForIssuer_def prog_simps run_onRepo MemoryStore_GetActiveOCSPResponderByIssuer_def)
qed

definition ocspSignerOf :: "MemoryStore \<Rightarrow> Issuer \<Rightarrow> ocspSigner" where
  "ocspSignerOf s issuer = (case activeOCSPResponderByIssuer (ms_ocspResponders s) (iss_ID issuer) of
     Inr responder \<Rightarrow> \<lparr>sgn_CertificatePEM = rsp_CertificatePEM responder, sgn_KeyRef = rsp_KeyRef responder,
         sgn_ResponderMode = ''delegated'', sgn_ResponderID = rsp_ID responder\<rparr>
   | Inl _ \<Rightarrow> \<lparr>sgn_CertificatePEM = iss_CertificatePEM issuer, sgn_KeyRef = iss_KeyRef issuer,
             sgn_ResponderMode = ''issuer_direct'', sgn_ResponderID = []\<rparr>)"

lemma RespondOCSP_effect:
  assumes "Service_RespondOCSP svc ctx actor der w = (Inr res, w')"
  obtains info byHash issuer k statuses gen n es where
    "ci_InspectOCSP (svc_issuer svc) (w_ext w) der = Inr info" "ori_Certificates info \<noteq> []"
    "statuses = map (ocspStatusOf (w_repo w) byHash) (ori_Certificates info)"
    "\<And>ident i. ident \<in> set (ori_Certificates info) \<Longrightarrow> ocspIssuerOf byHash ident = Some i \<Longrightarrow> iss_ID i \<noteq> [] \<Longrightarrow> iss_ID i = k"
    "\<And>ident i. ocspIssuerOf byHash ident = Some i \<Longrightarrow>
       iss_Status i = IssuerActive \<and> (\<exists>j. mget (ms_issuers (w_repo w)) j = Some i) \<and> (\<exists>alg. issuerNamed svc i alg (ocspKeyOf ident))"
    "\<And>ident j i. ocspIssuerOf byHash ident = None \<Longrightarrow> ident \<in> set (ori_Certificates info) \<Longrightarrow> mget (ms_issuers (w_repo w)) j = Some i \<Longrightarrow>
       iss_Status i = IssuerActive \<Longrightarrow> \<exists>key. issuerNamed svc i (normalizeOCSPHashAlgorithm (oci_HashAlgorithm ident)) key \<and> key \<noteq> ocspKeyOf ident"
    "k \<noteq> []" "mget (ms_issuers (w_repo w)) k = Some issuer"
    "ci_GenerateOCSPResponse (svc_issuer svc) n (ocspResponseRequest der (ocspSignerOf (w_repo w) issuer) (svc_clock svc (w_clock w)) statuses) = Inr gen"
    "orp_ResponseDER res = gor_ResponseDER gen"
    "w_repo w' = (w_repo w)\<lparr>ms_auditEvents := ms_auditEvents (w_repo w) @ es\<rparr>"
proof -
  note result = that
  have thesis if hyp: "Service_RespondOCSP svc ctx actor der w = (Inr res, w')"
  proof -
    let ?w1 = "w\<lparr>w_clock := Suc (w_clock w)\<rparr>" let ?w2 = "w\<lparr>w_clock := Suc (w_clock w), w_ext := Suc (w_ext w)\<rparr>"
    have der: "der \<noteq> []" using hyp by (auto simp: Service_RespondOCSP_def prog_simps)
    obtain info where info: "ci_InspectOCSP (svc_issuer svc) (w_ext w) der = Inr info" "ori_Certificates info \<noteq> []"
      using hyp by (auto simp: Service_RespondOCSP_def prog_simps split: sum.splits if_splits)
    obtain q w3 where st: "ocspCertificateStatuses svc (ori_Certificates info) ?w2 = (q, w3)" by fastforce
    obtain statuses k where q: "q = Inr (statuses, k)" "k \<noteq> []"
      using hyp info st by (cases q) (auto simp: Service_RespondOCSP_def prog_simps split: if_splits)
    from st[unfolded q(1)] show thesis
    proof (rule statuses_run, goal_cases)
      case (1 byHash w4)
      have repo: "w_repo w3 = w_repo w" using 1(2,3) by simp
      obtain issuer where issuer: "mget (ms_issuers (w_repo w)) k = Some issuer"
        using hyp der info st q repo
        by (cases "mget (ms_issuers (w_repo w)) k") (simp_all add: Service_RespondOCSP_def prog_simps run_onRepo MemoryStore_GetIssuer_def)
      let ?req = "ocspResponseRequest der (ocspSignerOf (w_repo w) issuer) (svc_clock svc (w_clock w)) statuses"
      have run: "(case ci_GenerateOCSPResponse (svc_issuer svc) (w_ext w3) ?req of
            Inl err \<Rightarrow> throwM (mapOCSPResponseError err)
          | Inr gen \<Rightarrow> thenM (MemoryStore_WithinTx (bindM (NewID svc) (\<lambda>ident.
                 createAuditEvent svc ctx actor ''ocsp.requested'' ''ocsp'' ident (svc_clock svc (w_clock w))
                   (ocspAuditFields svc k info statuses (ocspSignerOf (w_repo w) issuer)))))
               (returnM \<lparr>orp_ResponseDER = gor_ResponseDER gen\<rparr>)) (w3\<lparr>w_ext := Suc (w_ext w3)\<rparr>) = (Inr res, w')"
        using hyp der info st q repo issuer
        by (simp add: Service_RespondOCSP_def run_failIf run_bindM run_onRepo run_attemptM run_Now run_callExt MemoryStore_GetIssuer_def signerForIssuer_run
            ocspSignerOf_def[symmetric])
      then obtain gen where gen: "ci_GenerateOCSPResponse (svc_issuer svc) (w_ext w3) ?req = Inr gen"
        by (auto simp: prog_simps split: sum.splits)
      note active = issuersByHash_active[OF 1(1), simplified]
      show ?thesis
        by (rule result[OF info _ _ active q(2) issuer gen]) (use 1 run gen repo in \<open>auto simp: prog_simps run_WithinTx\<close>)
    qed
  qed
  then show thesis using assms by blast
qed

text \<open>
  C15: an OCSP response tells the truth. When \<^verbatim>\<open>RespondOCSP\<close> answers, the response is the one signed with the key of
  the active responder of one issuer (or the key of the issuer when there is none), valid for an hour from now, and its
  statuses are those of the store, in the order of the request. A certificate of an issuer that the signer named with
  the hashes of the request is \<open>good\<close> exactly when the stored certificate of that issuer and serial number is valid,
  \<open>revoked\<close> with the time and the reason of its revocation when it is revoked, and \<open>unknown\<close> otherwise; that
  issuer is the active issuer the response is signed for. A certificate is \<open>unknown\<close> for want of an issuer only when
  the signer named every active issuer by other hashes. Nothing but the audit trail changes.
\<close>

theorem RespondOCSP_truthful:
  assumes "sound svc w" "revocation_ok (w_repo w)" "plainIssuerIDs (w_repo w)"
    and "Service_RespondOCSP svc ctx actor der w = (Inr res, w')"
  shows "\<exists>info issuer issuerOf statuses gen n es.
     ci_InspectOCSP (svc_issuer svc) (w_ext w) der = Inr info \<and> mget (ms_issuers (w_repo w)) (iss_ID issuer) = Some issuer \<and>
     ci_GenerateOCSPResponse (svc_issuer svc) n
       (ocspResponseRequest der (ocspSignerOf (w_repo w) issuer) (svc_clock svc (w_clock w)) (map statuses (ori_Certificates info))) = Inr gen \<and>
     orp_ResponseDER res = gor_ResponseDER gen \<and>
     (\<forall>ident \<in> set (ori_Certificates info). case issuerOf ident of
        None \<Rightarrow> statuses ident = ocspStatusForID ident ''unknown'' \<and>
          (\<forall>j i. mget (ms_issuers (w_repo w)) j = Some i \<and> iss_Status i = IssuerActive \<longrightarrow>
             (\<exists>key. issuerNamed svc i (normalizeOCSPHashAlgorithm (oci_HashAlgorithm ident)) key \<and> key \<noteq> ocspKeyOf ident))
      | Some i \<Rightarrow> iss_Status i = IssuerActive \<and> (\<exists>alg. issuerNamed svc i alg (ocspKeyOf ident)) \<and> (iss_ID i \<noteq> [] \<longrightarrow> i = issuer \<and>
          (oci_SerialNumber ident \<noteq> [] \<longrightarrow> ocspTruth (w_repo w) (iss_ID i) ident (statuses ident)))) \<and>
     w_repo w' = (w_repo w)\<lparr>ms_auditEvents := ms_auditEvents (w_repo w) @ es\<rparr>"
  using assms(4)
proof (rule RespondOCSP_effect, goal_cases)
  case (1 info byHash issuer k statuses gen n es)
  have id: "iss_ID issuer = k" using keyedD[OF sound_keyed(2)[OF assms(1)] 1(8)] .
  have each: "case ocspIssuerOf byHash ident of
        None \<Rightarrow> ocspStatusOf (w_repo w) byHash ident = ocspStatusForID ident ''unknown'' \<and>
          (\<forall>j i. mget (ms_issuers (w_repo w)) j = Some i \<and> iss_Status i = IssuerActive \<longrightarrow>
             (\<exists>key. issuerNamed svc i (normalizeOCSPHashAlgorithm (oci_HashAlgorithm ident)) key \<and> key \<noteq> ocspKeyOf ident))
      | Some i \<Rightarrow> iss_Status i = IssuerActive \<and> (\<exists>alg. issuerNamed svc i alg (ocspKeyOf ident)) \<and> (iss_ID i \<noteq> [] \<longrightarrow> i = issuer \<and>
          (oci_SerialNumber ident \<noteq> [] \<longrightarrow> ocspTruth (w_repo w) (iss_ID i) ident (ocspStatusOf (w_repo w) byHash ident)))"
    if mem: "ident \<in> set (ori_Certificates info)" for ident
  proof (cases "ocspIssuerOf byHash ident")
    case None
    then show ?thesis using 1(6)[OF None mem] by (auto simp: ocspStatusOf_def unknownOCSPStatus_def)
  next
    case (Some i)
    obtain j where j: "mget (ms_issuers (w_repo w)) j = Some i" "iss_Status i = IssuerActive" "\<exists>alg. issuerNamed svc i alg (ocspKeyOf ident)"
      using 1(5)[OF Some] by blast
    have ij: "iss_ID i = j" using keyedD[OF sound_keyed(2)[OF assms(1)] j(1)] .
    have plain: "noNul (iss_ID i)" using assms(3) j(1) by (auto simp: plainIssuerIDs_def)
    have "i = issuer" if "iss_ID i \<noteq> []" using 1(4)[OF mem Some that] j(1) ij 1(8) by simp
    then show ?thesis using Some j(2,3) statusOf_truth[OF assms(1-3) Some plain] by simp
  qed
  then show ?case
    using 1 id by (intro exI[of _ info] exI[of _ issuer] exI[of _ "ocspIssuerOf byHash"] exI[of _ "ocspStatusOf (w_repo w) byHash"]
        exI[of _ gen] exI[of _ n] exI[of _ es]) blast
qed

lemma RespondOCSP_advances [advances_rules]: "advances svc (Service_RespondOCSP svc ctx actor der)"
  unfolding Service_RespondOCSP_def by (intro advances_rules quiet_advances[OF statuses_quiet] quiet_advances[OF ocspSigner_quiet])

lemma RespondOCSP_frames [frame_rules]:
  "preserves untouched (Service_RespondOCSP svc ctx actor der)" "preserves audit_appends (Service_RespondOCSP svc ctx actor der)"
  "preserves revocations_kept (Service_RespondOCSP svc ctx actor der)"
  unfolding Service_RespondOCSP_def
  by (intro frame_rules issuance_frame.frame_quiet[OF statuses_quiet] issuance_frame.frame_quiet[OF ocspSigner_quiet]
      audit_frame.frame_quiet[OF statuses_quiet] audit_frame.frame_quiet[OF ocspSigner_quiet]
      revocation_frame.frame_quiet[OF statuses_quiet] revocation_frame.frame_quiet[OF ocspSigner_quiet])+

end
