(* ===== verification/System.thy ===== *)
theory System
  imports Acme Ocsp Outbox ApiKeys
begin

text \<open>
  The service as a whole. The invariants of the components (the store, issuance, revocation, ACME) are
  one invariant of the running service, which every operation keeps, and the operations are the steps of a
  transition system: whatever is true of every reachable state is true of the service however its calls
  are interleaved.
\<close>

section \<open>The invariant of the service\<close>

definition sysok :: "Service \<Rightarrow> world \<Rightarrow> bool" where
  "sysok svc w \<longleftrightarrow> sound svc w \<and> issuance_ok svc {} w \<and> revocation_ok (w_repo w) \<and> acme_ok (w_repo w)"

definition serves :: "Service \<Rightarrow> 'a svc \<Rightarrow> bool" where
  "serves svc m \<longleftrightarrow> (\<forall>w. sysok svc w \<longrightarrow> sysok svc (snd (m w)) \<and> advance svc w (snd (m w)))"

named_theorems serves_rules \<open>operations that keep the invariant of the service\<close>

lemma sysok_sound: "sysok svc w \<Longrightarrow> sound svc w"
  by (simp add: sysok_def)

lemma servesD: "serves svc m \<Longrightarrow> sysok svc w \<Longrightarrow> m w = (r, w') \<Longrightarrow> sysok svc w' \<and> advance svc w w'"
  unfolding serves_def by (metis snd_conv)

text \<open>The three parts of the invariant are kept by three kinds of argument.\<close>

lemma servesI:
  assumes "issues svc {} m (\<lambda>_. {}) (\<lambda>_. True)"
    and "\<And>w r w'. sysok svc w \<Longrightarrow> m w = (r, w') \<Longrightarrow> revocation_ok (w_repo w')"
    and "\<And>w r w'. sysok svc w \<Longrightarrow> m w = (r, w') \<Longrightarrow> acme_ok (w_repo w')"
  shows "serves svc m"
  unfolding serves_def
proof (intro allI impI)
  fix w assume ok: "sysok svc w"
  obtain r w' where run: "m w = (r, w')" by (cases "m w")
  note d = issuesD[OF assms(1) _ _ run]
  show "sysok svc (snd (m w)) \<and> advance svc w (snd (m w))"
    using d(1-3) assms(2)[OF ok run] assms(3)[OF ok run] ok run by (simp add: sysok_def)
qed

lemma revocation_frame_ok:
  "preserves revocations_kept m \<Longrightarrow> sysok svc w \<Longrightarrow> m w = (r, w') \<Longrightarrow> revocation_ok (w_repo w')"
  using revocation_ok_kept preservesD unfolding sysok_def by blast

lemma acme_frame_ok:
  "preserves acme_kept m \<Longrightarrow> sysok svc w \<Longrightarrow> m w = (r, w') \<Longrightarrow> acme_ok (w_repo w')"
  using acme_kept_ok preservesD unfolding sysok_def by blast

lemma acmes_ok: "acmes svc m \<Longrightarrow> sysok svc w \<Longrightarrow> m w = (r, w') \<Longrightarrow> acme_ok (w_repo w')"
  using acmesD unfolding sysok_def acmeStep_def by blast

lemma serves_issues:
  "issues svc {} m (\<lambda>_. {}) (\<lambda>_. True) \<Longrightarrow> preserves revocations_kept m \<Longrightarrow> preserves acme_kept m \<Longrightarrow> serves svc m"
  by (rule servesI) (auto intro: revocation_frame_ok acme_frame_ok)

lemma serves_frame:
  "advances svc m \<Longrightarrow> preserves untouched m \<Longrightarrow> preserves revocations_kept m \<Longrightarrow> preserves acme_kept m \<Longrightarrow> serves svc m"
  by (rule serves_issues[OF steady_issues])

text \<open>A step of the ACME machine that leaves issuance and revocation alone.\<close>

lemma acme_step_ok:
  assumes "sysok svc w" "acmeStep svc w w'" "untouched (w_repo w) (w_repo w')" "revocations_kept (w_repo w) (w_repo w')"
  shows "sysok svc w' \<and> advance svc w w'"
proof -
  have a: "advance svc w w'" "acme_ok (w_repo w')" using assms(1,2) by (simp_all add: sysok_def acmeStep_def)
  then have "sound svc w'" by (simp add: advance_def)
  moreover have "issuance_ok svc {} w'" using assms(1,3) untouched_issuance_ok[OF _ a(1)] by (simp add: sysok_def)
  moreover have "revocation_ok (w_repo w')" using assms(1,4) revocation_ok_kept by (auto simp: sysok_def)
  ultimately show ?thesis using a by (simp add: sysok_def)
qed

lemma serves_acme: "acmes svc m \<Longrightarrow> preserves untouched m \<Longrightarrow> preserves revocations_kept m \<Longrightarrow> serves svc m"
  by (simp add: serves_def acmes_def preserves_def acme_step_ok)

lemma serves_quiet: "quiet m \<Longrightarrow> serves svc m"
  by (rule serves_frame)
    (auto intro: quiet_advances issuance_frame.frame_quiet revocation_frame.frame_quiet acme_frame.frame_quiet)

section \<open>Registers\<close>

lemma registry_frames [frame_rules]:
  fixes R :: "MemoryStore \<Rightarrow> MemoryStore \<Rightarrow> bool"
  assumes "R \<in> {untouched, revocations_kept, acme_kept}"
  shows "preserves R (Service_CreateIdentity svc ctx actor r1)" "preserves R (Service_CreateIssuer svc ctx actor r2)"
    "preserves R (Service_CreateOCSPResponder svc ctx actor r3)" "preserves R (Service_DisableOCSPResponder svc ctx actor i1 i2)"
    "preserves R (Service_RotateOCSPResponder svc ctx actor r4)" "preserves R (Service_CreateNotificationEndpoint svc ctx actor r5)"
    "preserves R (Service_DisableNotificationEndpoint svc ctx actor i3)" "preserves R (Service_CreateCertificateProfile svc ctx actor r6)"
  using assms
  unfolding Service_CreateIdentity_def Service_CreateIssuer_def Service_CreateOCSPResponder_def Service_DisableOCSPResponder_def
    Service_RotateOCSPResponder_def Service_CreateNotificationEndpoint_def Service_DisableNotificationEndpoint_def
    Service_CreateCertificateProfile_def rotateTx_def requireParent_def validateResponder_def
  by (elim insertE; simp only: empty_iff; intro frame_rules)+

lemma registry_serves [serves_rules]:
  "serves svc (Service_CreateIdentity svc ctx actor r1)" "serves svc (Service_CreateIssuer svc ctx actor r2)"
  "serves svc (Service_CreateOCSPResponder svc ctx actor r3)" "serves svc (Service_DisableOCSPResponder svc ctx actor i1 i2)"
  "serves svc (Service_RotateOCSPResponder svc ctx actor r4)" "serves svc (Service_CreateNotificationEndpoint svc ctx actor r5)"
  "serves svc (Service_DisableNotificationEndpoint svc ctx actor i3)" "serves svc (Service_CreateCertificateProfile svc ctx actor r6)"
  by (rule serves_frame; intro advances_rules registry_frames; simp)+

section \<open>Enrollments\<close>

text \<open>A new enrollment is pending, so nothing that is issued changes.\<close>

lemma pending_untouched:
  assumes s: "sound svc w" and e: "enr_ID e = svc_idgen svc (w_ids w)" "enr_Status e = EnrollmentPending"
    and t: "ms_enrollments s' = mput (enr_ID e) e (ms_enrollments (w_repo w))" "ms_issuanceAttempts s' = ms_issuanceAttempts (w_repo w)"
      "ms_certificates s' = ms_certificates (w_repo w)"
  shows "untouched (w_repo w) s'"
  using t sound_new(7)[OF s] e by (auto simp: untouched_def issuedIn_def mget_mput)

lemma newEnrollment_status [simp]: "enr_Status (newEnrollment i req info now) = EnrollmentPending" "enr_ID (newEnrollment i req info now) = i"
  by (simp_all add: newEnrollment_def)

lemma CreateEnrollment_issues: "issues svc H (Service_CreateEnrollment svc ctx actor req) (\<lambda>_. {}) (\<lambda>_. True)"
proof (rule advances_issues[OF CreateEnrollment_advances])
  fix w r w' assume s: "sound svc w" and run: "Service_CreateEnrollment svc ctx actor req w = (r, w')"
  show "untouched (w_repo w) (w_repo w')"
  proof (cases r)
    case (Inl e)
    then show ?thesis using cleanD(1)[OF CreateEnrollment_clean] run by (metis untouched_refl)
  next
    case (Inr e)
    from run[unfolded Inr] show ?thesis
      by (rule CreateEnrollment_effect) (rule pending_untouched[OF s, of e]; simp)
  qed
qed

lemma replacement_untouched:
  assumes s: "sound svc w" and run: "createCertificateReplacementEnrollment svc ctx actor certificateID csrPEM notAfter action w = (r, w')"
  shows "untouched (w_repo w) (w_repo w')"
proof (cases r)
  case (Inl e)
  then show ?thesis using cleanD(1)[OF replacement_clean] run by (metis untouched_refl)
next
  case (Inr e)
  from run[unfolded Inr] show ?thesis
    by (rule replacement_effect) (rule pending_untouched[OF s, of e]; simp)
qed

lemma replacement_issues:
  "issues svc H (createCertificateReplacementEnrollment svc ctx actor certificateID csrPEM notAfter action) (\<lambda>_. {}) (\<lambda>_. True)"
  by (rule advances_issues[OF replacement_advances replacement_untouched])

lemma replacements_issues:
  "issues svc H (Service_RenewCertificate svc ctx actor certificateID r1) (\<lambda>_. {}) (\<lambda>_. True)"
  "issues svc H (Service_ReissueCertificate svc ctx actor certificateID r2) (\<lambda>_. {}) (\<lambda>_. True)"
proof -
  show "issues svc H (Service_RenewCertificate svc ctx actor certificateID r1) (\<lambda>_. {}) (\<lambda>_. True)"
    unfolding Service_RenewCertificate_def by (rule replacement_issues)
  show "issues svc H (Service_ReissueCertificate svc ctx actor certificateID r2) (\<lambda>_. {}) (\<lambda>_. True)"
  proof (rule advances_issues[OF ReissueCertificate_advances])
    fix w r w' assume s: "sound svc w" and run: "Service_ReissueCertificate svc ctx actor certificateID r2 w = (r, w')"
    then show "untouched (w_repo w) (w_repo w')"
      by (cases "mget (ms_certificates (w_repo w)) certificateID")
        (auto simp: Service_ReissueCertificate_def prog_simps run_onRepo MemoryStore_GetCertificate_def split: if_splits intro: replacement_untouched)
  qed
qed

lemma enrollment_frames [frame_rules]:
  fixes R :: "MemoryStore \<Rightarrow> MemoryStore \<Rightarrow> bool"
  assumes "R \<in> {revocations_kept, acme_kept}"
  shows "preserves R (Service_CreateEnrollment svc ctx actor r1)" "preserves R (Service_RenewCertificate svc ctx actor i1 r2)"
    "preserves R (Service_ReissueCertificate svc ctx actor i2 r3)"
  using assms
  unfolding Service_CreateEnrollment_def Service_RenewCertificate_def Service_ReissueCertificate_def createCertificateReplacementEnrollment_def
    replacementTx_def recheckProfile_def createReqProfile_def inspectCSR_def
  by (elim insertE; simp only: empty_iff; intro frame_rules)+

lemma decision_frames [frame_rules]:
  fixes R :: "MemoryStore \<Rightarrow> MemoryStore \<Rightarrow> bool"
  assumes "R \<in> {untouched, revocations_kept, acme_kept}"
  shows "preserves R (Service_ApproveEnrollment svc ctx actor i)" "preserves R (Service_RejectEnrollment svc ctx actor i)"
  using assms unfolding Service_ApproveEnrollment_def Service_RejectEnrollment_def Let_def
  by (elim insertE; simp only: empty_iff; intro frame_rules; simp)+

lemma enrollment_serves [serves_rules]:
  "serves svc (Service_CreateEnrollment svc ctx actor r1)" "serves svc (Service_RenewCertificate svc ctx actor i1 r2)"
  "serves svc (Service_ReissueCertificate svc ctx actor i2 r3)" "serves svc (Service_ApproveEnrollment svc ctx actor i3)"
  "serves svc (Service_RejectEnrollment svc ctx actor i4)"
  by (rule serves_issues[OF CreateEnrollment_issues] serves_issues[OF replacements_issues(1)] serves_issues[OF replacements_issues(2)] serves_frame;
      intro advances_rules enrollment_frames decision_frames; simp)+

section \<open>Certificates\<close>

lemma certificate_frames [frame_rules]:
  "preserves acme_kept (revokeCertificate svc ctx actor i1 reason force)"
  "preserves acme_kept (transitionCertificateStatus svc ctx actor i2 c n action)"
  "preserves acme_kept (Service_PublishCRL svc ctx actor r1)"
  "preserves acme_kept (Service_RespondOCSP svc ctx actor der)"
  unfolding revokeCertificate_def transitionCertificateStatus_def Service_PublishCRL_def publishTx_def Service_RespondOCSP_def
  by (intro frame_rules acme_frame.frame_quiet[OF statuses_quiet] acme_frame.frame_quiet[OF ocspSigner_quiet])+

lemma scan_acme [frame_rules]: "preserves acme_kept (Service_ScanCertificateExpirations svc ctx actor req)"
proof -
  have "preserves acme_kept (scanLoop svc ctx actor now win cs res)" for now win cs res
    by (induction cs arbitrary: res) (auto simp: scanWrite_def intro!: frame_rules)
  then show ?thesis unfolding Service_ScanCertificateExpirations_def by (intro frame_rules)
qed

lemma repair_acme [frame_rules]: "preserves acme_kept (Service_RepairMissingIssuanceAuditEvents svc ctx actor)"
proof -
  have e: "preserves acme_kept (ensureCertificateIssuedAuditEvent svc ctx actor c now)" for c now
    unfolding ensureCertificateIssuedAuditEvent_def by (intro frame_rules)
  have "preserves acme_kept (repairLoop svc ctx actor now cs audited n)" for now cs audited n
    by (induction cs arbitrary: audited n) (auto intro!: frame_rules e)
  then show ?thesis unfolding Service_RepairMissingIssuanceAuditEvents_def by (intro frame_rules)
qed

text \<open>
  Issuing revokes nothing either, but only in states where the issuance invariant holds: the identifier of the
  certificate that is finalized is then new.
\<close>

definition revokesNothing :: "Service \<Rightarrow> IssuanceAttempt set \<Rightarrow> 'a svc \<Rightarrow> bool" where
  "revokesNothing svc H m \<longleftrightarrow>
     (\<forall>w r w'. sound svc w \<longrightarrow> issuance_ok svc H w \<longrightarrow> m w = (r, w') \<longrightarrow> revocations_kept (w_repo w) (w_repo w'))"

lemma frame_revokesNothing: "preserves revocations_kept m \<Longrightarrow> revokesNothing svc H m"
  unfolding revokesNothing_def using preservesD by blast

lemma revokesNothing_bind:
  assumes "issues svc H m K Q" "revokesNothing svc H m" "\<And>x. Q x \<Longrightarrow> revokesNothing svc (H \<union> K x) (f x)"
  shows "revokesNothing svc H (bindM m f)"
  unfolding revokesNothing_def
proof (intro allI impI)
  fix w r w' assume s: "sound svc w" and ok: "issuance_ok svc H w" and run: "bindM m f w = (r, w')"
  obtain q w1 where m: "m w = (q, w1)" by (cases "m w")
  have first: "revocations_kept (w_repo w) (w_repo w1)" using assms(2) s ok m unfolding revokesNothing_def by blast
  note d = issuesD[OF assms(1) s ok m]
  show "revocations_kept (w_repo w) (w_repo w')"
  proof (cases q)
    case (Inl e)
    then show ?thesis using run m first by (simp add: run_bindM)
  next
    case (Inr x)
    then have "f x w1 = (r, w')" using run m by (simp add: run_bindM)
    then have "revocations_kept (w_repo w1) (w_repo w')"
      using assms(3)[of x] d(2) d(4,5)[OF Inr] unfolding revokesNothing_def by blast
    then show ?thesis by (rule revocation_frame.R_trans[OF first])
  qed
qed

lemma issueApproved_revokesNothing: "revokesNothing svc H (issueApproved svc ctx actor enrollmentID e)"
  unfolding issueApproved_def
proof (rule revokesNothing_bind[OF quiet_issues'[OF prepareIssue_quiet] frame_revokesNothing[OF revocation_frame.frame_quiet[OF prepareIssue_quiet]]], clarify)
  fix req now
  show "revokesNothing svc (H \<union> {}) (bindM (claimIssuanceAttempt enrollmentID now) (\<lambda>(claimed, shouldSign).
     bindM (if shouldSign then signAttempt svc req claimed now else returnM claimed) (\<lambda>attempt.
     bindM (finalizeSignedIssuanceAttempt enrollmentID attempt now) (\<lambda>certificate.
     thenM (ensureCertificateIssuedAuditEvent svc ctx actor certificate now) (returnM certificate)))))"
  proof (rule revokesNothing_bind[OF claim_issues frame_revokesNothing[OF claim_frames(2)]])
    fix p :: "IssuanceAttempt \<times> bool"
    obtain a shouldSign where p: "p = (a, shouldSign)" by (cases p)
    assume "case p of (a, shouldSign) \<Rightarrow> att_EnrollmentID a = enrollmentID \<and> (shouldSign \<longrightarrow> att_Status a = IssuanceAttemptSigning)"
    then have st: "shouldSign \<longrightarrow> att_Status a = IssuanceAttemptSigning" by (simp add: p)
    let ?H = "H \<union> {} \<union> (case p of (a, _) \<Rightarrow> {a})"
    have sign: "issues svc ?H (if shouldSign then signAttempt svc req a now else returnM a) (\<lambda>b. {b}) (\<lambda>_. True)"
      using st by (auto simp: p intro!: issues_return intro: issues_weaken[OF sign_issues])
    have frame: "preserves revocations_kept (if shouldSign then signAttempt svc req a now else returnM a)" by (intro frame_rules)
    have fin: "revokesNothing svc H' (finalizeSignedIssuanceAttempt enrollmentID b now)" for H' b
      unfolding revokesNothing_def using finalize_revocations by blast
    have audit: "revokesNothing svc H' (thenM (ensureCertificateIssuedAuditEvent svc ctx actor c now) (returnM c))" for H' c
      by (rule frame_revokesNothing) (intro frame_rules)
    show "revokesNothing svc ?H (case p of (claimed, shouldSign) \<Rightarrow>
       bindM (if shouldSign then signAttempt svc req claimed now else returnM claimed) (\<lambda>attempt.
       bindM (finalizeSignedIssuanceAttempt enrollmentID attempt now) (\<lambda>certificate.
       thenM (ensureCertificateIssuedAuditEvent svc ctx actor certificate now) (returnM certificate))))"
      unfolding p prod.case
      by (rule revokesNothing_bind[OF sign[unfolded p prod.case] frame_revokesNothing[OF frame]],
          rule revokesNothing_bind[OF finalize_issues fin audit], simp)
  qed
qed

lemma IssueCertificate_revokesNothing: "revokesNothing svc H (Service_IssueCertificate svc ctx actor enrollmentID)"
proof -
  have re: "revokesNothing svc H (reissuedResult svc ctx actor enrollmentID)" for H
    unfolding reissuedResult_def by (rule frame_revokesNothing) (intro frame_rules)
  have er: "revokesNothing svc H (throwM e)" for H and e :: error by (rule frame_revokesNothing) (intro frame_rules)
  have "revokesNothing svc H (bindM (onRepo (MemoryStore_GetEnrollment enrollmentID)) (\<lambda>enrollment.
     if enr_Status enrollment = EnrollmentIssued then reissuedResult svc ctx actor enrollmentID
     else failIf (enr_Status enrollment \<noteq> EnrollmentApproved) ErrInvalidTransition
       (issueApproved svc ctx actor enrollmentID enrollment)))"
    by (rule revokesNothing_bind[OF quiet_issues']) (simp_all add: failIf_def re er issueApproved_revokesNothing quiet_reads frame_revokesNothing frame_rules)
  then show ?thesis unfolding Service_IssueCertificate_def by (simp add: failIf_def er)
qed

lemma revoke_serves: "serves svc (revokeCertificate svc ctx actor i reason force)"
proof (rule servesI)
  show "revocation_ok (w_repo w')" if "sysok svc w" "revokeCertificate svc ctx actor i reason force w = (r, w')" for w r w'
    using that revoke_revocation_ok unfolding sysok_def by blast
  show "acme_ok (w_repo w')" if "sysok svc w" "revokeCertificate svc ctx actor i reason force w = (r, w')" for w r w'
    using that by (rule acme_frame_ok[OF certificate_frames(1)])
qed (rule steady_issues[OF revoke_advances revoke_frames(1)])

lemma status_frames [frame_rules]:
  fixes R :: "MemoryStore \<Rightarrow> MemoryStore \<Rightarrow> bool"
  assumes "R \<in> {untouched, revocations_kept, acme_kept}"
  shows "preserves R (Service_SuspendCertificate svc ctx actor i)" "preserves R (Service_ResumeCertificate svc ctx actor i)"
  using assms unfolding Service_SuspendCertificate_def Service_ResumeCertificate_def
  by (elim insertE; simp only: empty_iff; intro frame_rules; simp)+

lemma certificate_serves [serves_rules]:
  "serves svc (Service_IssueCertificate svc ctx actor i1)" "serves svc (Service_RepairMissingIssuanceAuditEvents svc ctx actor)"
  "serves svc (Service_RevokeCertificate svc ctx actor i2 reason)" "serves svc (Service_ForceRevokeCertificate svc ctx actor i3 reason)"
  "serves svc (Service_SuspendCertificate svc ctx actor i4)" "serves svc (Service_ResumeCertificate svc ctx actor i5)"
  "serves svc (Service_ScanCertificateExpirations svc ctx actor r1)" "serves svc (Service_PublishCRL svc ctx actor r2)"
  "serves svc (Service_RespondOCSP svc ctx actor der)"
proof -
  show "serves svc (Service_IssueCertificate svc ctx actor i1)"
    using IssueCertificate_revokesNothing[of svc "{}" ctx actor i1] revocation_ok_kept
    by (intro servesI[OF IssueCertificate_issues] acme_frame_ok[OF issue_acme_kept]) (auto simp: revokesNothing_def sysok_def)
  show "serves svc (Service_RevokeCertificate svc ctx actor i2 reason)" "serves svc (Service_ForceRevokeCertificate svc ctx actor i3 reason)"
    unfolding Service_RevokeCertificate_def Service_ForceRevokeCertificate_def by (rule revoke_serves)+
qed (rule serves_frame; (intro advances_rules RepairMissingIssuanceAuditEvents_advances)?;
     (intro status_frames frame_rules)?; simp)+

section \<open>Audit trail, outbox and keys\<close>

lemma audit_only_advance:
  assumes "sound svc w" "w_repo w' = (w_repo w)\<lparr>ms_auditEvents := es\<rparr>" "w_ids w \<le> w_ids w'"
  shows "advance svc w w'"
proof (rule advance_unused[OF assms(1) _ _ assms(3)])
  show "store_inv (w_repo w')" unfolding assms(2) by (intro update_rules) (simp add: sound_facts[OF assms(1)])
  show "evolves (w_repo w) (w_repo w')" by (simp add: assms(2))
  show "svc_idgen svc n \<notin> used_ids (w_repo w')" if "w_ids w' \<le> n" for n
    using assms that by (simp add: sound_def ids_fresh_def used_ids_def)
qed

lemma audit_ops_advances [advances_rules]:
  "advances svc (onRepo (memoryTx_DeleteAuditEventsBefore before))"
  "advances svc (createAuditEventWithResult svc ctx actor action rt ri t flds res code)"
proof -
  show "advances svc (onRepo (memoryTx_DeleteAuditEventsBefore before))"
  proof (rule advancesI)
    fix w r w' assume s: "sound svc w" and run: "onRepo (memoryTx_DeleteAuditEventsBefore before) w = (r, w')"
    from run have "\<exists>es. w_repo w' = (w_repo w)\<lparr>ms_auditEvents := es\<rparr> \<and> w_ids w \<le> w_ids w'"
      by (auto simp: run_onRepo tx_agree MemoryStore_DeleteAuditEventsBefore_def split: prod.splits)
    then show "advance svc w w'" using audit_only_advance[OF s] by blast
  qed
  show "advances svc (createAuditEventWithResult svc ctx actor action rt ri t flds res code)"
  proof (rule advancesI)
    fix w r w' assume s: "sound svc w" and run: "createAuditEventWithResult svc ctx actor action rt ri t flds res code w = (r, w')"
    from run have "\<exists>es. w_repo w' = (w_repo w)\<lparr>ms_auditEvents := es\<rparr> \<and> w_ids w \<le> w_ids w'"
      by (auto simp: createAuditEventWithResult_def prog_simps run_onRepo tx_agree MemoryStore_CreateAuditEvent_def)
    then show "advance svc w w'" using audit_only_advance[OF s] by blast
  qed
qed

lemma audit_result_frames [frame_rules]:
  "preserves untouched (createAuditEventWithResult svc ctx actor action rt ri t flds res code)"
  "preserves revocations_kept (createAuditEventWithResult svc ctx actor action rt ri t flds res code)"
  "preserves acme_kept (createAuditEventWithResult svc ctx actor action rt ri t flds res code)"
  unfolding createAuditEventWithResult_def by (intro frame_rules)+

lemma audit_serves [serves_rules]:
  "serves svc (Service_RecordAPIFailure svc ctx actor r1)" "serves svc (Service_PruneAuditEventsBefore svc ctx actor before)"
  unfolding Service_RecordAPIFailure_def Service_PruneAuditEventsBefore_def Let_def
  by (rule serves_frame; intro advances_rules frame_rules)+

lemma outbox_acme_frames [frame_rules]:
  "preserves acme_kept (Service_RetryOutboxMessage svc ctx actor i1)"
  "preserves acme_kept (Service_ReplayDeadLetterOutboxMessages svc ctx actor r1)"
  "preserves acme_kept (WebhookOutboxHandler_HandleOutboxMessage svc client m)"
proof -
  have "preserves acme_kept (replayLoop r1 now ms replayed)" for now ms replayed
    by (induction ms arbitrary: replayed) (auto intro!: frame_rules)
  then show "preserves acme_kept (Service_ReplayDeadLetterOutboxMessages svc ctx actor r1)"
    unfolding Service_ReplayDeadLetterOutboxMessages_def by (intro frame_rules)
  show "preserves acme_kept (Service_RetryOutboxMessage svc ctx actor i1)"
    unfolding Service_RetryOutboxMessage_def by (intro frame_rules)
  show "preserves acme_kept (WebhookOutboxHandler_HandleOutboxMessage svc client m)"
    unfolding WebhookOutboxHandler_HandleOutboxMessage_def deliverTo_def currentDelivery_def postWebhook_def recordWebhookDelivery_def
    by (intro frame_rules)
qed

lemma outbox_serves [serves_rules]:
  "serves svc (Service_RetryOutboxMessage svc ctx actor i1)" "serves svc (Service_ReplayDeadLetterOutboxMessages svc ctx actor r1)"
  by (rule serves_frame; intro advances_rules frame_rules)+

text \<open>The handler of the dispatcher is the webhook handler, or does nothing.\<close>

definition outboxHandler :: "Service \<Rightarrow> httpClient option \<Rightarrow> OutboxMessage \<Rightarrow> unit svc" where
  "outboxHandler svc client = NewLifecycleOutboxHandlerWithWebhook
     (case client of None \<Rightarrow> None | Some c \<Rightarrow> Some (WebhookOutboxHandler_HandleOutboxMessage svc c))"

lemma handler_cases:
  "outboxHandler svc client m \<in> {NoopOutboxHandler m, throwM (ErrWrap ErrOutboxHandlerNotFound (ErrExternal (msg_Type m)))} \<union>
     {WebhookOutboxHandler_HandleOutboxMessage svc c m | c. client = Some c}"
proof -
  have get: "mget (fold (\<lambda>t m. mput t h m) ts m0) k = (if k \<in> set ts then Some h else mget m0 k)"
    for ts :: "string list" and h :: "OutboxMessage \<Rightarrow> unit svc" and m0 k
    by (induction ts arbitrary: m0) (auto simp: mget_mput)
  show ?thesis
    by (auto simp: outboxHandler_def NewLifecycleOutboxHandlerWithWebhook_def NewLifecycleOutboxHandler_def NewOutboxHandlerRegistry_def
        OutboxHandlerRegistry_HandleOutboxMessage_def mclone_id get split: option.split)
qed

lemma handler_steady:
  "advances svc (outboxHandler svc client m)" "preserves untouched (outboxHandler svc client m)" "preserves audit_appends (outboxHandler svc client m)"
  "preserves revocations_kept (outboxHandler svc client m)" "preserves acme_kept (outboxHandler svc client m)"
  using handler_cases[of svc client m] unfolding NoopOutboxHandler_def
  by (auto intro: advances_rules frame_rules)

lemma dispatcher_serves [serves_rules]: "serves svc (OutboxDispatcher_RunOnce svc (outboxHandler svc client) limit)"
proof (rule serves_frame)
  show "preserves acme_kept (OutboxDispatcher_RunOnce svc (outboxHandler svc client) limit)"
    unfolding OutboxDispatcher_RunOnce_def
    by (intro frame_rules dispatchLoop_frames acme_frame.frame_relation_axioms handler_steady)
qed (intro RunOnce_advances RunOnce_frames handler_steady)+

lemma key_acme_frames [frame_rules]:
  "preserves acme_kept (Service_AuthenticateAPIKey svc token)" "preserves acme_kept (Service_EnsureAPIKey svc ctx actor r1)"
  "preserves acme_kept (Service_CreateAPIKey svc ctx actor r2)" "preserves acme_kept (Service_DisableAPIKey svc ctx actor i1)"
  "preserves acme_kept (Service_RotateAPIKey svc ctx actor i2)"
  unfolding Service_AuthenticateAPIKey_def Service_EnsureAPIKey_def Service_CreateAPIKey_def Service_DisableAPIKey_def Service_RotateAPIKey_def
    getAPIKeyByToken_def generateAPIKeyToken_def Let_def
  by (intro frame_rules)+

lemma key_serves [serves_rules]:
  "serves svc (Service_AuthenticateAPIKey svc token)" "serves svc (Service_EnsureAPIKey svc ctx actor r1)"
  "serves svc (Service_CreateAPIKey svc ctx actor r2)" "serves svc (Service_DisableAPIKey svc ctx actor i1)"
  "serves svc (Service_RotateAPIKey svc ctx actor i2)"
  by (rule serves_frame; intro advances_rules frame_rules)+

section \<open>ACME\<close>

lemma acme_frames [frame_rules]:
  fixes R :: "MemoryStore \<Rightarrow> MemoryStore \<Rightarrow> bool"
  assumes "R \<in> {untouched, revocations_kept}"
  shows "preserves R (Service_CreateACMEAccount svc ctx actor r1)" "preserves R (Service_CreateOrGetACMEAccount svc ctx actor r2)"
    "preserves R (Service_UpdateACMEAccount svc ctx actor i1 r3)" "preserves R (Service_UpdateACMEAccountKey svc ctx actor i2 r4)"
    "preserves R (Service_CreateACMEOrder svc ctx actor r5)" "preserves R (Service_CompleteACMEChallenge svc ctx actor i3)"
    "preserves R (Service_ValidateACMEHTTP01Challenge svc ctx actor i4)" "preserves R (Service_PollACMEAuthorization svc ctx actor i5)"
    "preserves R (invalidateACMEOrder svc ctx actor order)"
  using assms
  unfolding Service_CreateACMEAccount_def Service_CreateOrGetACMEAccount_def createACMEAccount_def Service_UpdateACMEAccount_def
    Service_UpdateACMEAccountKey_def Service_CreateACMEOrder_def orderCAACheck_def validatePublicTLSCAA_def PublicTLSCAAPolicy_check_def
    requireProfile_def createACMEAuthorizations_def createACMEAuthorization_def Service_CompleteACMEChallenge_def promoteACMEAuthorizationIfReady_def
    promoteACMEOrderIfReady_def Service_ValidateACMEHTTP01Challenge_def markACMEChallengeProcessing_def validationContext_def
    Service_PollACMEAuthorization_def invalidateACMEOrder_def Let_def
  by (elim insertE; simp only: empty_iff; intro frame_rules)+

lemma acme_serves [serves_rules]:
  "serves svc (Service_CreateACMEAccount svc ctx actor r1)" "serves svc (Service_CreateOrGetACMEAccount svc ctx actor r2)"
  "serves svc (Service_UpdateACMEAccount svc ctx actor i1 r3)" "serves svc (Service_UpdateACMEAccountKey svc ctx actor i2 r4)"
  "serves svc (Service_CreateACMEOrder svc ctx actor r5)" "serves svc (Service_CompleteACMEChallenge svc ctx actor i3)"
  "serves svc (Service_ValidateACMEHTTP01Challenge svc ctx actor i4)" "serves svc (Service_PollACMEAuthorization svc ctx actor i5)"
  by (rule serves_acme; (rule kept_acmes, intro advances_rules, intro frame_rules)?; (intro acme_rules)?; (intro acme_frames)?; simp)+

subsection \<open>Finalization\<close>

text \<open>Enrollment, approval and issuance are served and leave the order alone, so the order is still the one that was read.\<close>

definition serves_at :: "Service \<Rightarrow> world \<Rightarrow> 'a svc \<Rightarrow> bool" where
  "serves_at svc w m \<longleftrightarrow> (sysok svc w \<longrightarrow> sysok svc (snd (m w)) \<and> advance svc w (snd (m w)))"

lemma serves_atI: "serves svc m \<Longrightarrow> serves_at svc w m"
  by (simp add: serves_def serves_at_def)

lemma serves_at_simple: "serves_at svc w (returnM x)" "serves_at svc w (throwM e)" "serves_at svc w m \<Longrightarrow> serves_at svc w (failIf b e' m)"
  by (simp_all add: serves_at_def failIf_def sysok_def advance_refl)

lemma serves_at_bind:
  assumes "serves_at svc w m" "preserves acme_kept m"
    and "\<And>x w1. acme_kept (w_repo w) (w_repo w1) \<Longrightarrow> m w = (Inr x, w1) \<Longrightarrow> serves_at svc w1 (f x)"
  shows "serves_at svc w (bindM m f)"
proof -
  obtain q w1 where m: "m w = (q, w1)" by (cases "m w")
  then show ?thesis
    using assms(1) assms(3)[OF preservesD[OF assms(2) m]]
    by (cases q) (auto simp: serves_at_def run_bindM dest: advance_trans)
qed

lemma serves_at_fail: "serves_at svc w m \<Longrightarrow> serves_at svc w (bindM m (\<lambda>_. throwM e))"
  by (auto simp: serves_at_def run_bindM split: prod.split sum.split)

lemma serves_at_quiet:
  assumes "quiet m" "\<And>x w1. acme_kept (w_repo w) (w_repo w1) \<Longrightarrow> m w = (Inr x, w1) \<Longrightarrow> serves_at svc w1 (f x)"
  shows "serves_at svc w (bindM m f)"
  by (rule serves_at_bind[OF serves_atI[OF serves_quiet[OF assms(1)]] acme_frame.frame_quiet[OF assms(1)] assms(2)])

definition recordFinalizedOrder :: "Service \<Rightarrow> Context \<Rightarrow> string \<Rightarrow> ACMEOrder \<Rightarrow> string \<Rightarrow> string \<Rightarrow> time \<Rightarrow> ACMEOrder svc" where
  "recordFinalizedOrder svc ctx actor order enrollmentID certificateID now =
     thenM (MemoryStore_WithinTx (onRepo (memoryTx_UpdateACMEOrderIfStatus order ACMEOrderReady)))
    (thenM (MemoryStore_WithinTx (createAuditEvent svc ctx actor ''acme.order.finalized'' ''acme_order'' (ord_ID order) now
        (auditFields [''acme_account_id'', ord_AccountID order, ''acme_order_id'', ord_ID order,
          ''enrollment_id'', enrollmentID, ''certificate_id'', certificateID])))
      (returnM order))"

lemma recordFinalized_ok:
  assumes get: "mget (ms_acmeOrders (w_repo w)) k = Some r0"
    and run: "recordFinalizedOrder svc ctx actor (finalizedOrder r0 req e c now) e c now w = (q, w')"
  shows "acmeStep svc w w'"
proof -
  let ?r = "finalizedOrder r0 req e c now"
  let ?w1 = "w\<lparr>w_repo := (w_repo w)\<lparr>ms_acmeOrders := mput (ord_ID r0) ?r (ms_acmeOrders (w_repo w))\<rparr>\<rparr>"
  have r [simp]: "ord_ID ?r = ord_ID r0" "ord_Status ?r = ACMEOrderValid" by (simp_all add: finalizedOrder_def)
  have first: "acmeStep svc w ?w1" if old: "mget (ms_acmeOrders (w_repo w)) (ord_ID r0) = Some v0" "ord_Status v0 = ACMEOrderReady" for v0
    unfolding acmeStep_def
  proof (intro impI, elim conjE)
    assume s: "sound svc w" and ok: "acme_ok (w_repo w)"
    have id: "ord_ID r0 = k" using keyedD[OF sound_keyed(14)[OF s] get] .
    then have ready: "ord_Status r0 = ACMEOrderReady" using old get by simp
    then have step: "orderStep r0 ?r" by (simp add: step_defs finalizedOrder_def)
    have "\<forall>i a. mget (ms_acmeAuthzs (w_repo w)) i = Some a \<and> authz_OrderID a = k \<longrightarrow> authz_Status a = ACMEAuthorizationValid"
      using ok ready get by (auto simp: acme_ok_def dest: acme_validatedD(1))
    note put = order_put_ok[OF s ok get step disjI2[OF this], of ?w1]
    show "advance svc w ?w1 \<and> acme_ok (w_repo ?w1)" by (intro conjI; rule put; simp add: id)
  qed
  show ?thesis
  proof (cases "updateACMEOrderIfStatus (ms_acmeOrders (w_repo w)) ?r ACMEOrderReady")
    case (Inl x)
    then have "w' = w" using run
      by (simp add: recordFinalizedOrder_def prog_simps run_WithinTx run_onRepo tx_agree MemoryStore_UpdateACMEOrderIfStatus_def)
    then show ?thesis by (simp add: acmeStep_same)
  next
    case (Inr t)
    then obtain v0 where "mget (ms_acmeOrders (w_repo w)) (ord_ID r0) = Some v0" "ord_Status v0 = ACMEOrderReady"
      and t: "t = mput (ord_ID r0) ?r (ms_acmeOrders (w_repo w))" by (auto simp: acme_update_Inr)
    from first[OF this(1,2)] have "acmeStep svc w ?w1" .
    moreover have "\<exists>es. w' = ?w1\<lparr>w_ids := Suc (w_ids ?w1), w_repo := (w_repo ?w1)\<lparr>ms_auditEvents := es\<rparr>\<rparr>"
      using run Inr
      by (auto simp: t recordFinalizedOrder_def prog_simps run_WithinTx run_onRepo tx_agree MemoryStore_UpdateACMEOrderIfStatus_def run_createAuditEvent)
    ultimately show ?thesis using acmeStep_trans acmeStep_audit by blast
  qed
qed

lemma issueACMEOrder_eq:
  "issueACMEOrder svc ctx actor order0 req =
     bindM (Service_CreateEnrollment svc ctx actor (orderEnrollmentRequest order0 req)) (\<lambda>enrollment.
     bindM (Service_ApproveEnrollment svc ctx actor (enr_ID enrollment)) (\<lambda>_.
     bindM (Service_IssueCertificate svc ctx actor (enr_ID enrollment)) (\<lambda>certificate.
     bindM (Now svc) (\<lambda>now.
     recordFinalizedOrder svc ctx actor (finalizedOrder order0 req (enr_ID enrollment) (cert_ID certificate) now)
       (enr_ID enrollment) (cert_ID certificate) now))))"
  by (simp add: issueACMEOrder_def thenM_def Let_def recordFinalizedOrder_def)

lemma record_frames:
  "preserves untouched (recordFinalizedOrder svc ctx actor r e c now)" "preserves revocations_kept (recordFinalizedOrder svc ctx actor r e c now)"
  unfolding recordFinalizedOrder_def by (intro frame_rules)+

lemma issueACMEOrder_serves:
  assumes "mget (ms_acmeOrders (w_repo w)) k = Some r0"
  shows "serves_at svc w (issueACMEOrder svc ctx actor r0 req)"
  unfolding issueACMEOrder_eq
proof (intro serves_at_bind[OF serves_atI[OF enrollment_serves(1)] enrollment_acme_kept(1)]
    serves_at_bind[OF serves_atI[OF enrollment_serves(4)] enrollment_acme_kept(2)]
    serves_at_bind[OF serves_atI[OF certificate_serves(1)] issue_acme_kept] serves_at_quiet[OF quiet_simple(4)])
  fix enrollment :: Enrollment and c :: Certificate and now :: time and w1 w2 w3 w4 :: world
  assume kept: "acme_kept (w_repo w) (w_repo w1)" "acme_kept (w_repo w1) (w_repo w2)" "acme_kept (w_repo w2) (w_repo w3)" "acme_kept (w_repo w3) (w_repo w4)"
  let ?m = "recordFinalizedOrder svc ctx actor (finalizedOrder r0 req (enr_ID enrollment) (cert_ID c) now) (enr_ID enrollment) (cert_ID c) now"
  have get: "mget (ms_acmeOrders (w_repo w4)) k = Some r0" using assms kept by (simp add: acme_kept_def)
  obtain q w' where run: "?m w4 = (q, w')" by (cases "?m w4")
  show "serves_at svc w4 ?m"
    unfolding serves_at_def run snd_conv
    using acme_step_ok recordFinalized_ok[OF get run] preservesD[OF record_frames(1) run] preservesD[OF record_frames(2) run] by blast
qed

lemma invalidateOrder_serves:
  assumes "mget (ms_acmeOrders (w_repo w)) k = Some r0"
  shows "serves_at svc w (invalidateACMEOrder svc ctx actor r0)"
proof -
  obtain q w' where run: "invalidateACMEOrder svc ctx actor r0 w = (q, w')" by (cases "invalidateACMEOrder svc ctx actor r0 w")
  have "untouched (w_repo w) (w_repo w')" "revocations_kept (w_repo w) (w_repo w')"
    by (rule preservesD[OF acme_frames(9) run]; simp)+
  then show ?thesis
    unfolding serves_at_def run snd_conv using acme_step_ok invalidateOrder_ok[OF assms run] by blast
qed

lemma Finalize_serves [serves_rules]: "serves svc (Service_FinalizeACMEOrder svc ctx actor orderID req)"
proof -
  have "serves_at svc w (Service_FinalizeACMEOrder svc ctx actor orderID req)" for w
    unfolding Service_FinalizeACMEOrder_def thenM_def
  proof (rule serves_at_simple(3), rule serves_at_quiet)
    fix r0 w1
    assume "onRepo (MemoryStore_GetACMEOrder orderID) w = (Inr r0, w1)"
    then have get: "mget (ms_acmeOrders (w_repo w1)) orderID = Some r0"
      by (auto simp: run_onRepo MemoryStore_GetACMEOrder_def split: option.splits)
    show "serves_at svc w1 (if ord_Status r0 = ACMEOrderValid then returnM r0
       else failIf (ord_Status r0 \<noteq> ACMEOrderReady) ErrInvalidTransition
        (bindM (Now svc) (\<lambda>now.
          if acmeExpired (ord_ExpiresAt r0) now then bindM (invalidateACMEOrder svc ctx actor r0) (\<lambda>_. throwM ErrInvalidTransition)
          else bindM (Now svc) (\<lambda>now2.
            bindM (validateACMEPublicTLSValidationEvidence r0 now2) (\<lambda>_. issueACMEOrder svc ctx actor r0 req)))))"
    proof -
      have expired: "serves_at svc w2 (bindM (invalidateACMEOrder svc ctx actor r0) (\<lambda>_. throwM ErrInvalidTransition :: ACMEOrder svc))"
        and issue: "serves_at svc w2 (issueACMEOrder svc ctx actor r0 req)" if "mget (ms_acmeOrders (w_repo w2)) orderID = Some r0" for w2
        using serves_at_fail[OF invalidateOrder_serves[OF that]] issueACMEOrder_serves[OF that] by auto
      have evidence: "serves_at svc w2 (bindM (validateACMEPublicTLSValidationEvidence r0 t) (\<lambda>_. issueACMEOrder svc ctx actor r0 req))"
        if "mget (ms_acmeOrders (w_repo w2)) orderID = Some r0" for w2 t
        using that issue by (auto intro!: serves_at_quiet evidence_quiet simp: acme_kept_def)
      show ?thesis
        using expired evidence by (auto intro!: serves_at_simple serves_at_quiet[OF quiet_simple(4)] simp: get acme_kept_def split: if_splits)
    qed
  qed (rule quiet_reads)
  then show ?thesis by (simp add: serves_def serves_at_def)
qed

end
