(* ===== verification/Steps.thy ===== *)
theory Steps
  imports System
begin

text \<open>
  The running service as a state machine: one step is one call of an operation of the service, by any
  caller and with any arguments, a lookup, which changes no row, or one run of the outbox dispatcher. What holds in every reachable state
  holds whatever calls the service has answered, including the calls that failed.
\<close>

section \<open>Steps\<close>

inductive serviceStep :: "Service \<Rightarrow> world \<Rightarrow> world \<Rightarrow> bool" for svc :: Service where
  stepCreateIdentity: "serviceStep svc w (snd (Service_CreateIdentity svc ctx actor r1 w))"
| stepCreateIssuer: "serviceStep svc w (snd (Service_CreateIssuer svc ctx actor r2 w))"
| stepCreateOCSPResponder: "serviceStep svc w (snd (Service_CreateOCSPResponder svc ctx actor r3 w))"
| stepDisableOCSPResponder: "serviceStep svc w (snd (Service_DisableOCSPResponder svc ctx actor i1 i2 w))"
| stepRotateOCSPResponder: "serviceStep svc w (snd (Service_RotateOCSPResponder svc ctx actor r4 w))"
| stepCreateNotificationEndpoint: "serviceStep svc w (snd (Service_CreateNotificationEndpoint svc ctx actor r5 w))"
| stepDisableNotificationEndpoint: "serviceStep svc w (snd (Service_DisableNotificationEndpoint svc ctx actor i1 w))"
| stepCreateCertificateProfile: "serviceStep svc w (snd (Service_CreateCertificateProfile svc ctx actor r6 w))"
| stepCreateEnrollment: "serviceStep svc w (snd (Service_CreateEnrollment svc ctx actor r7 w))"
| stepRenewCertificate: "serviceStep svc w (snd (Service_RenewCertificate svc ctx actor i1 r8 w))"
| stepReissueCertificate: "serviceStep svc w (snd (Service_ReissueCertificate svc ctx actor i1 r9 w))"
| stepApproveEnrollment: "serviceStep svc w (snd (Service_ApproveEnrollment svc ctx actor i1 w))"
| stepRejectEnrollment: "serviceStep svc w (snd (Service_RejectEnrollment svc ctx actor i1 w))"
| stepIssueCertificate: "serviceStep svc w (snd (Service_IssueCertificate svc ctx actor i1 w))"
| stepRepairAudit: "serviceStep svc w (snd (Service_RepairMissingIssuanceAuditEvents svc ctx actor w))"
| stepRevokeCertificate: "serviceStep svc w (snd (Service_RevokeCertificate svc ctx actor i1 reason w))"
| stepForceRevokeCertificate: "serviceStep svc w (snd (Service_ForceRevokeCertificate svc ctx actor i1 reason w))"
| stepSuspendCertificate: "serviceStep svc w (snd (Service_SuspendCertificate svc ctx actor i1 w))"
| stepResumeCertificate: "serviceStep svc w (snd (Service_ResumeCertificate svc ctx actor i1 w))"
| stepScanExpirations: "serviceStep svc w (snd (Service_ScanCertificateExpirations svc ctx actor r10 w))"
| stepPublishCRL: "serviceStep svc w (snd (Service_PublishCRL svc ctx actor r11 w))"
| stepRespondOCSP: "serviceStep svc w (snd (Service_RespondOCSP svc ctx actor der w))"
| stepRecordAPIFailure: "serviceStep svc w (snd (Service_RecordAPIFailure svc ctx actor r12 w))"
| stepPruneAudit: "serviceStep svc w (snd (Service_PruneAuditEventsBefore svc ctx actor before w))"
| stepRetryOutbox: "serviceStep svc w (snd (Service_RetryOutboxMessage svc ctx actor i1 w))"
| stepReplayDeadLetters: "serviceStep svc w (snd (Service_ReplayDeadLetterOutboxMessages svc ctx actor r13 w))"
| stepDispatchOutbox: "serviceStep svc w (snd (OutboxDispatcher_RunOnce svc (outboxHandler svc client) limit w))"
| stepAuthenticateAPIKey: "serviceStep svc w (snd (Service_AuthenticateAPIKey svc token w))"
| stepEnsureAPIKey: "serviceStep svc w (snd (Service_EnsureAPIKey svc ctx actor r14 w))"
| stepCreateAPIKey: "serviceStep svc w (snd (Service_CreateAPIKey svc ctx actor r15 w))"
| stepDisableAPIKey: "serviceStep svc w (snd (Service_DisableAPIKey svc ctx actor i1 w))"
| stepRotateAPIKey: "serviceStep svc w (snd (Service_RotateAPIKey svc ctx actor i1 w))"
| stepCreateACMEAccount: "serviceStep svc w (snd (Service_CreateACMEAccount svc ctx actor r16 w))"
| stepCreateOrGetACMEAccount: "serviceStep svc w (snd (Service_CreateOrGetACMEAccount svc ctx actor r16 w))"
| stepUpdateACMEAccount: "serviceStep svc w (snd (Service_UpdateACMEAccount svc ctx actor i1 r17 w))"
| stepUpdateACMEAccountKey: "serviceStep svc w (snd (Service_UpdateACMEAccountKey svc ctx actor i1 r18 w))"
| stepCreateACMEOrder: "serviceStep svc w (snd (Service_CreateACMEOrder svc ctx actor r19 w))"
| stepCompleteACMEChallenge: "serviceStep svc w (snd (Service_CompleteACMEChallenge svc ctx actor i1 w))"
| stepValidateChallenge: "serviceStep svc w (snd (Service_ValidateACMEHTTP01Challenge svc ctx actor i1 w))"
| stepPollACMEAuthorization: "serviceStep svc w (snd (Service_PollACMEAuthorization svc ctx actor i1 w))"
| stepFinalizeACMEOrder: "serviceStep svc w (snd (Service_FinalizeACMEOrder svc ctx actor i1 r20 w))"
| stepQuery: "w_repo w' = w_repo w \<Longrightarrow> w_ids w \<le> w_ids w' \<Longrightarrow> serviceStep svc w w'"

definition initial :: "Service \<Rightarrow> world \<Rightarrow> bool" where
  "initial svc w \<longleftrightarrow> w_repo w = NewMemoryStore \<and> inj (svc_idgen svc) \<and> (\<forall>n. svc_idgen svc n \<noteq> [])"

inductive serviceRun :: "Service \<Rightarrow> world \<Rightarrow> world \<Rightarrow> bool" for svc :: Service where
  runIdle: "serviceRun svc w w"
| runStep: "serviceRun svc w w' \<Longrightarrow> serviceStep svc w' w'' \<Longrightarrow> serviceRun svc w w''"

section \<open>The invariant of reachable states\<close>

lemma query_ok:
  assumes "w_repo w' = w_repo w" "w_ids w \<le> w_ids w'" "sysok svc w"
  shows "sysok svc w' \<and> advance svc w w'"
proof -
  have "quiet (\<lambda>v. (Inr () :: error + unit, if v = w then w' else v))" using assms(1,2) by (simp add: quiet_def grows_def)
  from servesD[OF serves_quiet[OF this] assms(3)] show ?thesis by simp
qed

lemma step_ok:
  assumes "serviceStep svc w w'" "sysok svc w"
  shows "sysok svc w' \<and> advance svc w w'"
  using assms(1)
proof (cases rule: serviceStep.cases)
  case stepQuery
  then show ?thesis using query_ok assms(2) by blast
qed (use serves_rules assms(2) in \<open>auto simp: serves_def\<close>)

lemma run_ok:
  assumes "serviceRun svc w w'" "sysok svc w"
  shows "sysok svc w' \<and> advance svc w w'"
  using assms
proof induction
  case (runIdle w)
  then show ?case by (simp add: sysok_def advance_refl)
next
  case (runStep w w' w'')
  then show ?case using step_ok advance_trans by blast
qed

lemma empty_ok:
  assumes "initial svc w"
  shows "sysok svc w"
proof -
  have t [simp]: "mget (ms_acmeOrders NewMemoryStore) = Map.empty" "mget (ms_acmeAuthzs NewMemoryStore) = Map.empty" "mget (ms_acmeChallenges NewMemoryStore) = Map.empty"
    "mget (ms_enrollments NewMemoryStore) = Map.empty" "mget (ms_issuanceAttempts NewMemoryStore) = Map.empty"
    "mget (ms_certificates NewMemoryStore) = Map.empty" "mget (ms_revocations NewMemoryStore) = Map.empty"
    by (auto simp: NewMemoryStore_def)
  have [simp]: "used_ids NewMemoryStore = {}" by (simp add: used_ids_def NewMemoryStore_def dom_def)
  have "sound svc w" using assms by (simp add: initial_def sound_def ids_fresh_def store_inv_New)
  moreover have "issuance_ok svc {} w" using assms by (simp add: initial_def issuance_ok_def attempts_ok_def attemptPool_def issued_ok_def)
  moreover have "revocation_ok (w_repo w)" using assms by (simp add: initial_def revocation_ok_def revokedIn_def)
  moreover have "acme_ok (w_repo w)" using assms by (simp add: initial_def acme_ok_def acme_validated_def authzsChallenged_def)
  ultimately show ?thesis by (simp add: sysok_def)
qed

lemma reachable_ok: "initial svc w0 \<Longrightarrow> serviceRun svc w0 w \<Longrightarrow> sysok svc w"
  using run_ok empty_ok by blast

section \<open>What is true in every reachable state\<close>

text \<open>A name of an order is validated when a valid authorization of the order stands for it and an HTTP-01 challenge of it has been met.\<close>

definition validatedName :: "MemoryStore \<Rightarrow> string \<Rightarrow> string \<Rightarrow> string \<Rightarrow> bool" where
  "validatedName s orderID ty name \<longleftrightarrow>
     (\<exists>k a. mget (ms_acmeAuthzs s) k = Some a \<and> authz_OrderID a = orderID \<and> authz_IdentifierType a = ty \<and> authz_IdentifierValue a = name \<and>
        authz_Status a = ACMEAuthorizationValid \<and>
        (\<exists>j c. mget (ms_acmeChallenges s) j = Some c \<and> chal_AuthorizationID c = k \<and> chal_Type c = ACMEChallengeHTTP01 \<and> chal_Status c = ACMEChallengeValid))"

definition orderValidated :: "MemoryStore \<Rightarrow> ACMEOrder \<Rightarrow> bool" where
  "orderValidated s order \<longleftrightarrow> (\<forall>n \<in> set (ord_RequestedDNSNames order). validatedName s (ord_ID order) ''dns'' n) \<and>
     (\<forall>n \<in> set (ord_RequestedIPAddresses order). validatedName s (ord_ID order) ''ip'' n)"

lemma left_pending_validated:
  assumes ok: "sysok svc w" and get: "mget (ms_acmeOrders (w_repo w)) i = Some order" and st: "ord_Status order \<noteq> ACMEOrderPending"
  shows "orderValidated (w_repo w) order"
proof -
  have id: "ord_ID order = i" using keyedD[OF sound_keyed(14)[OF sysok_sound[OF ok]] get] .
  have v: "acme_validated (w_repo w)" and ch: "authzsChallenged (w_repo w)" and cov: "orderCovered (w_repo w) order"
    using ok get by (simp_all add: sysok_def acme_ok_def)
  have "validatedName (w_repo w) i ty n" if has: "hasAuthz (w_repo w) i ty n" for ty n
  proof -
    obtain k a where a: "mget (ms_acmeAuthzs (w_repo w)) k = Some a" "authz_OrderID a = i" "authz_IdentifierType a = ty" "authz_IdentifierValue a = n"
      using has by (auto simp: hasAuthz_def)
    have valid: "authz_Status a = ACMEAuthorizationValid" by (rule acme_validatedD(1)[OF v get st a(1,2)])
    obtain j c where "mget (ms_acmeChallenges (w_repo w)) j = Some c" "chal_AuthorizationID c = k" "chal_Type c = ACMEChallengeHTTP01"
      using ch a(1) by (auto simp: authzsChallenged_def hasChallenge_def)
    moreover have "chal_Status c = ACMEChallengeValid" using acme_validatedD(2)[OF v a(1) valid calculation(1,2)] .
    ultimately show ?thesis unfolding validatedName_def using a valid by blast
  qed
  then show ?thesis using cov by (simp add: orderCovered_def orderValidated_def id)
qed

text \<open>
  C5: in every state the service can reach, each name of an ACME order that is no longer pending (ready, valid or
  invalid) is covered by a valid authorization of that order with a met HTTP-01 challenge.
\<close>

theorem order_names_validated:
  assumes "initial svc w0" and "serviceRun svc w0 w"
    and "mget (ms_acmeOrders (w_repo w)) i = Some order" and "ord_Status order \<noteq> ACMEOrderPending"
  shows "orderValidated (w_repo w) order"
  using left_pending_validated[OF reachable_ok[OF assms(1,2)] assms(3,4)] .

lemma issued_once:
  assumes ok: "sysok svc w"
  shows "mget (ms_enrollments (w_repo w)) i = Some e \<Longrightarrow> enr_Status e = EnrollmentIssued \<Longrightarrow>
      \<exists>!k. \<exists>c. mget (ms_certificates (w_repo w)) k = Some c \<and> cert_EnrollmentID c = i"
    and "mget (ms_certificates (w_repo w)) k = Some c \<Longrightarrow> \<exists>e. mget (ms_enrollments (w_repo w)) (cert_EnrollmentID c) = Some e \<and>
      enr_Status e = EnrollmentIssued \<and> cert_IdentityID c = enr_IdentityID e \<and> cert_IssuerID c = enr_IssuerID e \<and>
      cert_DNSNames c = enr_RequestedDNSNames e \<and> cert_IPAddresses c = enr_RequestedIPAddresses e"
proof -
  have iok: "issued_ok (ms_enrollments (w_repo w)) (ms_issuanceAttempts (w_repo w)) (ms_certificates (w_repo w))"
    using ok by (simp add: sysok_def issuance_ok_def)
  note d = issued_okD[OF iok]
  show "\<exists>e. mget (ms_enrollments (w_repo w)) (cert_EnrollmentID c) = Some e \<and> enr_Status e = EnrollmentIssued \<and>
      cert_IdentityID c = enr_IdentityID e \<and> cert_IssuerID c = enr_IssuerID e \<and>
      cert_DNSNames c = enr_RequestedDNSNames e \<and> cert_IPAddresses c = enr_RequestedIPAddresses e"
    if c: "mget (ms_certificates (w_repo w)) k = Some c" for k c
  proof -
    obtain a where a: "mget (ms_issuanceAttempts (w_repo w)) (cert_EnrollmentID c) = Some a" "att_Status a = IssuanceAttemptFinalized" "att_CertificateID a = k"
      using d(1)[OF c] by blast
    obtain e c' where e: "mget (ms_enrollments (w_repo w)) (cert_EnrollmentID c) = Some e" "enr_Status e = EnrollmentIssued"
      and c': "mget (ms_certificates (w_repo w)) (att_CertificateID a) = Some c'" "certificateOf e a c'"
      using d(2)[OF a(1,2)] by blast
    have "c' = c" using c c'(1) a(3) by simp
    then show ?thesis using e c'(2) by (auto simp: certificateOf_def)
  qed
  assume e: "mget (ms_enrollments (w_repo w)) i = Some e" and st: "enr_Status e = EnrollmentIssued"
  obtain a where a: "mget (ms_issuanceAttempts (w_repo w)) i = Some a" "att_Status a = IssuanceAttemptFinalized" using d(3)[OF e st] by blast
  have id: "enr_ID e = i" using keyedD[OF sound_keyed(7)[OF sysok_sound[OF ok]] e] .
  obtain c where c: "mget (ms_certificates (w_repo w)) (att_CertificateID a) = Some c" "cert_EnrollmentID c = i"
    using d(2)[OF a] e id by (auto simp: certificateOf_def)
  show "\<exists>!k. \<exists>c. mget (ms_certificates (w_repo w)) k = Some c \<and> cert_EnrollmentID c = i"
  proof (rule ex1I[of _ "att_CertificateID a"])
    fix k assume "\<exists>c. mget (ms_certificates (w_repo w)) k = Some c \<and> cert_EnrollmentID c = i"
    then show "k = att_CertificateID a" using d(1) a(1) by fastforce
  qed (use c in blast)
qed

text \<open>
  C6: in every reachable state an enrollment is issued exactly when one certificate, and only one, was made from
  it, and every certificate has the identity, issuer and names that were approved in its enrollment.
\<close>

theorem issued_exactly_once:
  assumes "initial svc w0" and "serviceRun svc w0 w"
  shows "(\<forall>i e. mget (ms_enrollments (w_repo w)) i = Some e \<longrightarrow>
      (enr_Status e = EnrollmentIssued \<longleftrightarrow> (\<exists>!k. \<exists>c. mget (ms_certificates (w_repo w)) k = Some c \<and> cert_EnrollmentID c = i))) \<and>
    (\<forall>k c. mget (ms_certificates (w_repo w)) k = Some c \<longrightarrow> (\<exists>e. mget (ms_enrollments (w_repo w)) (cert_EnrollmentID c) = Some e \<and>
      cert_IdentityID c = enr_IdentityID e \<and> cert_IssuerID c = enr_IssuerID e \<and>
      cert_DNSNames c = enr_RequestedDNSNames e \<and> cert_IPAddresses c = enr_RequestedIPAddresses e))"
proof -
  note once = issued_once[OF reachable_ok[OF assms]]
  have "enr_Status e = EnrollmentIssued"
    if e: "mget (ms_enrollments (w_repo w)) i = Some e" and k: "\<exists>!k. \<exists>c. mget (ms_certificates (w_repo w)) k = Some c \<and> cert_EnrollmentID c = i" for i e
  proof -
    obtain k c where "mget (ms_certificates (w_repo w)) k = Some c" "cert_EnrollmentID c = i" using k by blast
    then show ?thesis using once(2) e by fastforce
  qed
  then show ?thesis using once by blast
qed

text \<open>Rows keep their identity along a run, and final states are final.\<close>

lemma evolves_rows:
  assumes "evolves s s'"
  shows "mget (ms_certificates s) k = Some c \<Longrightarrow> \<exists>c'. mget (ms_certificates s') k = Some c' \<and> certificateStep\<^sup>*\<^sup>* c c'"
    and "mget (ms_enrollments s) i = Some e \<Longrightarrow> \<exists>e'. mget (ms_enrollments s') i = Some e' \<and> enrollmentStep\<^sup>*\<^sup>* e e'"
proof -
  have "table_evolves certificateStep (ms_certificates s) (ms_certificates s')" "table_evolves enrollmentStep (ms_enrollments s) (ms_enrollments s')"
    using assms by (simp_all add: evolves_def)
  then show "mget (ms_certificates s) k = Some c \<Longrightarrow> \<exists>c'. mget (ms_certificates s') k = Some c' \<and> certificateStep\<^sup>*\<^sup>* c c'"
    and "mget (ms_enrollments s) i = Some e \<Longrightarrow> \<exists>e'. mget (ms_enrollments s') i = Some e' \<and> enrollmentStep\<^sup>*\<^sup>* e e'"
    by (simp_all add: table_evolves_def)
qed

lemma run_rows:
  assumes "serviceRun svc w w'" "sysok svc w"
  shows "evolves (w_repo w) (w_repo w')"
  using run_ok[OF assms] by (simp add: advance_def)

lemma certificate_steps: "certificateStep\<^sup>*\<^sup>* c c' \<Longrightarrow> certificateCore c' = certificateCore c \<and> (cert_Status c = CertificateRevoked \<longrightarrow> cert_Status c' = CertificateRevoked)"
  by (induction rule: rtranclp_induct) (auto simp: certificateStep_def)

lemma rejected_steps: "enrollmentStep\<^sup>*\<^sup>* e e' \<Longrightarrow> enr_Status e = EnrollmentRejected \<Longrightarrow> enr_Status e' = EnrollmentRejected"
  by (induction rule: rtranclp_induct) (auto simp: enrollmentStep_def)

text \<open>
  C7: in every reachable state a certificate is revoked exactly when there is one revocation of it, and only one;
  and once it is revoked, it stays revoked, with the same names, serial number and validity, whatever the
  service is asked to do later.
\<close>

theorem revoked_for_good:
  assumes "initial svc w0" and "serviceRun svc w0 w" and "mget (ms_certificates (w_repo w)) k = Some c"
  shows "(cert_Status c = CertificateRevoked \<longleftrightarrow> (\<exists>!j. \<exists>r. mget (ms_revocations (w_repo w)) j = Some r \<and> rev_CertificateID r = k)) \<and>
    (\<forall>w'. cert_Status c = CertificateRevoked \<and> serviceRun svc w w' \<longrightarrow>
       (\<exists>c'. mget (ms_certificates (w_repo w')) k = Some c' \<and> cert_Status c' = CertificateRevoked \<and> certificateCore c' = certificateCore c))"
proof -
  have ok: "sysok svc w" by (rule reachable_ok[OF assms(1,2)])
  note d = revocation_okD[of "w_repo w"]
  have rok: "revocation_ok (w_repo w)" using ok by (simp add: sysok_def)
  have "cert_Status c = CertificateRevoked \<longleftrightarrow> revokedIn (w_repo w) k" using assms(3) by (simp add: revokedIn_def)
  also have "\<dots> \<longleftrightarrow> (\<exists>!j. \<exists>r. mget (ms_revocations (w_repo w)) j = Some r \<and> rev_CertificateID r = k)"
    using rok unfolding revocation_ok_def by blast
  finally show ?thesis using evolves_rows(1)[OF run_rows[OF _ ok] assms(3)] certificate_steps by blast
qed

text \<open>
  C19: once an enrollment has been rejected, no certificate is ever made from it.
\<close>

theorem rejected_never_issued:
  assumes "initial svc w0" and "serviceRun svc w0 w" and "mget (ms_enrollments (w_repo w)) i = Some e"
    and "enr_Status e = EnrollmentRejected" and "serviceRun svc w w'"
  shows "\<not> (\<exists>k c. mget (ms_certificates (w_repo w')) k = Some c \<and> cert_EnrollmentID c = i)"
proof -
  have ok: "sysok svc w" by (rule reachable_ok[OF assms(1,2)])
  obtain e' where "mget (ms_enrollments (w_repo w')) i = Some e'" "enr_Status e' = EnrollmentRejected"
    using evolves_rows(2)[OF run_rows[OF assms(5) ok] assms(3)] rejected_steps assms(4) by blast
  moreover have "sysok svc w'" using run_ok[OF assms(5) ok] by simp
  ultimately show ?thesis using issued_once(2)[of svc w'] by fastforce
qed

section \<open>Finalization of an order\<close>

text \<open>What the run of the last part of the finalization did.\<close>

lemma record_run:
  assumes "recordFinalizedOrder svc ctx actor r e c now w = (Inr order, w')"
  shows "order = r" "\<exists>ev. w_repo w' = (w_repo w)\<lparr>ms_acmeOrders := mput (ord_ID r) r (ms_acmeOrders (w_repo w)), ms_auditEvents := ms_auditEvents (w_repo w) @ [ev]\<rparr>"
  using assms unfolding recordFinalizedOrder_def by (auto simp: inr_simps acme_update_Inr)

lemma issueACMEOrder_run:
  assumes "issueACMEOrder svc ctx actor r0 req w = (Inr order, w')"
  obtains e w1 e' w2 c w3 where "Service_CreateEnrollment svc ctx actor (orderEnrollmentRequest r0 req) w = (Inr e, w1)"
    "Service_ApproveEnrollment svc ctx actor (enr_ID e) w1 = (Inr e', w2)" "Service_IssueCertificate svc ctx actor (enr_ID e) w2 = (Inr c, w3)"
    "order = finalizedOrder r0 req (enr_ID e) (cert_ID c) (svc_clock svc (w_clock w3))"
    "\<exists>ev. w_repo w' = (w_repo w3)\<lparr>ms_acmeOrders := mput (ord_ID r0) order (ms_acmeOrders (w_repo w3)), ms_auditEvents := ms_auditEvents (w_repo w3) @ [ev]\<rparr>"
proof -
  have id: "ord_ID (finalizedOrder r0 req i j t) = ord_ID r0" for i j t by (simp add: finalizedOrder_def)
  obtain e w1 e' w2 c w3 where runs: "Service_CreateEnrollment svc ctx actor (orderEnrollmentRequest r0 req) w = (Inr e, w1)"
    "Service_ApproveEnrollment svc ctx actor (enr_ID e) w1 = (Inr e', w2)" "Service_IssueCertificate svc ctx actor (enr_ID e) w2 = (Inr c, w3)"
    "bindM (Now svc) (\<lambda>now. recordFinalizedOrder svc ctx actor (finalizedOrder r0 req (enr_ID e) (cert_ID c) now) (enr_ID e) (cert_ID c) now) w3 = (Inr order, w')"
    using assms unfolding issueACMEOrder_eq bindM_Inr[of "Service_CreateEnrollment _ _ _ _"] bindM_Inr[of "Service_ApproveEnrollment _ _ _ _"]
      bindM_Inr[of "Service_IssueCertificate _ _ _ _"] by blast
  from runs(4) have "recordFinalizedOrder svc ctx actor (finalizedOrder r0 req (enr_ID e) (cert_ID c) (svc_clock svc (w_clock w3))) (enr_ID e) (cert_ID c)
      (svc_clock svc (w_clock w3)) (w3\<lparr>w_clock := Suc (w_clock w3)\<rparr>) = (Inr order, w')" by (simp add: bindM_Inr calls_Inr)
  note rec = record_run[OF this, unfolded id]
  show thesis using that[OF runs(1-3)] rec by simp
qed

text \<open>The certificate made for an order has what the order asked for.\<close>

lemma ordered_certificate:
  assumes ok: "sysok svc w" and e: "Service_CreateEnrollment svc ctx actor (orderEnrollmentRequest r0 req) w = (Inr e, w1)"
    and a: "Service_ApproveEnrollment svc ctx actor (enr_ID e) w1 = (Inr e', w2)"
    and c: "Service_IssueCertificate svc ctx actor (enr_ID e) w2 = (Inr c, w3)"
  shows "delivered (w_repo w3) (enr_ID e) c \<and> issueAudited (w_repo w3) (cert_ID c) \<and> cert_DNSNames c = ord_RequestedDNSNames r0 \<and>
    cert_IPAddresses c = ord_RequestedIPAddresses r0 \<and> cert_IdentityID c = ord_IdentityID r0 \<and> cert_IssuerID c = ord_IssuerID r0 \<and>
    cert_CertificateProfileID c = ord_CertificateProfileID r0"
proof -
  have ok1: "sysok svc w1" using servesD[OF enrollment_serves(1) ok e] by simp
  have ok2: "sysok svc w2" using servesD[OF enrollment_serves(4) ok1 a] by simp
  have d: "delivered (w_repo w3) (enr_ID e) c \<and> issueAudited (w_repo w3) (cert_ID c)"
    using issue_delivers[OF _ _ c] ok2 by (auto simp: sysok_def)
  have "evolves (w_repo w1) (w_repo w3)"
    using servesD[OF enrollment_serves(4) ok1 a] servesD[OF certificate_serves(1) ok2 c] evolves_trans by (auto simp: advance_def)
  moreover have row: "mget (ms_enrollments (w_repo w1)) (enr_ID e) = Some e" using e by (rule CreateEnrollment_effect) simp
  ultimately obtain e3 where e3: "mget (ms_enrollments (w_repo w3)) (enr_ID e) = Some e3" "enrollmentStep\<^sup>*\<^sup>* e e3"
    using evolves_rows(2) by blast
  have core: "enrollmentCore e3 = enrollmentCore e" using e3(2) by (induction rule: rtranclp_induct) (auto simp: enrollmentStep_def)
  then have same: "enr_IdentityID e3 = enr_IdentityID e \<and> enr_IssuerID e3 = enr_IssuerID e \<and> enr_CertificateProfileID e3 = enr_CertificateProfileID e \<and>
      enr_RequestedDNSNames e3 = enr_RequestedDNSNames e \<and> enr_RequestedIPAddresses e3 = enr_RequestedIPAddresses e"
    by (cases e; cases e3) (simp add: enrollmentCore_def)
  have "\<exists>t i info. e = newEnrollment i (orderEnrollmentRequest r0 req) info t" using e by (rule CreateEnrollment_effect) blast
  then have "enr_IdentityID e = ord_IdentityID r0 \<and> enr_IssuerID e = ord_IssuerID r0 \<and> enr_CertificateProfileID e = ord_CertificateProfileID r0 \<and>
      enr_RequestedDNSNames e = ord_RequestedDNSNames r0 \<and> enr_RequestedIPAddresses e = ord_RequestedIPAddresses r0"
    by (auto simp: newEnrollment_def orderEnrollmentRequest_def)
  then show ?thesis using d e3(1) same by (auto simp: delivered_def certificateOf_def)
qed

text \<open>
  C14: when \<^verbatim>\<open>FinalizeACMEOrder\<close> succeeds on an order that was ready, the stored order is valid and names a
  certificate that is stored, issued from the enrollment of the order and audited, with exactly the identity, issuer,
  profile, DNS names and addresses of the order; every one of these names has been validated.
\<close>

theorem FinalizeACMEOrder_delivers:
  assumes "sysok svc w" and "Service_FinalizeACMEOrder svc ctx actor orderID req w = (Inr order, w')"
    and "mget (ms_acmeOrders (w_repo w)) orderID = Some r0" and "ord_Status r0 = ACMEOrderReady"
  shows "mget (ms_acmeOrders (w_repo w')) orderID = Some order \<and> ord_Status order = ACMEOrderValid \<and> orderValidated (w_repo w') order \<and>
    (\<exists>c. cert_ID c = ord_CertificateID order \<and> delivered (w_repo w') (ord_EnrollmentID order) c \<and> issueAudited (w_repo w') (cert_ID c) \<and>
      cert_DNSNames c = ord_RequestedDNSNames r0 \<and> cert_IPAddresses c = ord_RequestedIPAddresses r0 \<and>
      cert_IdentityID c = ord_IdentityID r0 \<and> cert_IssuerID c = ord_IssuerID r0 \<and> cert_CertificateProfileID c = ord_CertificateProfileID r0)"
proof -
  note ok' = servesD[OF Finalize_serves assms(1,2)]
  have id: "ord_ID r0 = orderID" using keyedD[OF sound_keyed(14)[OF sysok_sound[OF assms(1)]] assms(3)] .
  let ?w = "w\<lparr>w_clock := Suc (Suc (w_clock w))\<rparr>"
  obtain w0 where w0: "validateACMEPublicTLSValidationEvidence r0 (svc_clock svc (Suc (w_clock w))) ?w = (Inr (), w0)"
    "issueACMEOrder svc ctx actor r0 req w0 = (Inr order, w')"
    using assms(2-4)
    by (auto simp: Service_FinalizeACMEOrder_def inr_simps MemoryStore_GetACMEOrder_def split: if_splits option.splits)
  have "sysok svc ?w" using acme_step_ok[OF assms(1) acmeStep_same, of ?w] by (simp add: untouched_refl revocation_frame.R_refl)
  then have ok0: "sysok svc w0" using servesD[OF serves_quiet[OF evidence_quiet] _ w0(1)] by blast
  obtain e w1 e' w2 c w3 ev where runs: "Service_CreateEnrollment svc ctx actor (orderEnrollmentRequest r0 req) w0 = (Inr e, w1)"
    "Service_ApproveEnrollment svc ctx actor (enr_ID e) w1 = (Inr e', w2)" "Service_IssueCertificate svc ctx actor (enr_ID e) w2 = (Inr c, w3)"
    and o: "order = finalizedOrder r0 req (enr_ID e) (cert_ID c) (svc_clock svc (w_clock w3))"
    and s: "w_repo w' = (w_repo w3)\<lparr>ms_acmeOrders := mput orderID order (ms_acmeOrders (w_repo w3)), ms_auditEvents := ms_auditEvents (w_repo w3) @ [ev]\<rparr>"
    using issueACMEOrder_run[OF w0(2)] unfolding id by metis
  note c = ordered_certificate[OF ok0 runs]
  have get: "mget (ms_acmeOrders (w_repo w')) orderID = Some order" by (simp add: s)
  have st: "ord_Status order = ACMEOrderValid" by (simp add: o finalizedOrder_def)
  then have "orderValidated (w_repo w') order" using left_pending_validated[OF conjunct1[OF ok'] get] by simp
  then show ?thesis using get st c by (auto simp: o finalizedOrder_def s delivered_def issueAudited_def)
qed

section \<open>Validation of a challenge\<close>

lemma validationContext_run:
  assumes "validationContext svc challengeID w = (Inr v, w')"
  shows "\<exists>a r acc. mget (ms_acmeChallenges (w_repo w)) challengeID = Some (avc_Challenge v) \<and> chal_Type (avc_Challenge v) = ACMEChallengeHTTP01 \<and>
    mget (ms_acmeAuthzs (w_repo w)) (chal_AuthorizationID (avc_Challenge v)) = Some a \<and> authz_Status a = ACMEAuthorizationPending \<and>
    mget (ms_acmeOrders (w_repo w)) (authz_OrderID a) = Some r \<and> ord_Status r = ACMEOrderPending \<and>
    mget (ms_acmeAccounts (w_repo w)) (ord_AccountID r) = Some acc \<and> acc_Status acc = ACMEAccountValid \<and>
    avc_IdentifierValue v = authz_IdentifierValue a \<and> avc_KeyAuthorization v = chal_Token (avc_Challenge v) @ ''.'' @ acc_KeyThumbprint acc"
    "w_ext w' = w_ext w"
  using assms unfolding validationContext_def by (auto simp: inr_simps)


section \<open>Orders for public names\<close>

text \<open>
  C18: \<^verbatim>\<open>CreateACMEOrder\<close> stores a pending order only for a valid account, only for names the identity may have, with an
  authorization for every name, and, under a public TLS profile, only when a CAA lookup of every name permits the issuer.
\<close>

theorem CreateACMEOrder_permitted:
  assumes "sysok svc w" and "Service_CreateACMEOrder svc ctx actor req w = (Inr order, w')"
  shows "mget (ms_acmeOrders (w_repo w')) (ord_ID order) = Some order \<and> ord_Status order = ACMEOrderPending \<and> orderCovered (w_repo w') order \<and>
    ord_RequestedDNSNames order = cao_RequestedDNSNames req \<and> ord_RequestedIPAddresses order = cao_RequestedIPAddresses req \<and>
    map_option acc_Status (mget (ms_acmeAccounts (w_repo w)) (cao_AccountID req)) = Some ACMEAccountValid \<and>
    (\<exists>identity. mget (ms_identities (w_repo w)) (cao_IdentityID req) = Some identity \<and>
       validateEnrollmentIdentityPolicy (orderPolicyRequest req) identity = Inr ()) \<and>
    (\<forall>profile name. cao_CertificateProfileID req \<noteq> [] \<and> mget (ms_profiles (w_repo w)) (cao_CertificateProfileID req) = Some profile \<and> prof_PublicTLS profile \<and>
       name \<in> set (cao_RequestedDNSNames req) \<longrightarrow>
       (\<exists>p lookup n res. svc_publicTLSCAAPolicy svc = Some p \<and> caap_Lookup p = Some lookup \<and> lookup n name = Inr res \<and> caaDecision p name res = Inr ()))"
proof -
  have s: "sound svc w" and ok: "acme_ok (w_repo w)" using assms(1) by (simp_all add: sysok_def)
  note made = createOrder_ok[OF s ok assms(2)]
  from assms(2) show ?thesis
  proof (rule createOrder_effect, goal_cases)
    case (1 w0 w1 w2 es now)
    have q: "w_repo w0 = w_repo w" using orderCAACheck_quiet[of svc req] 1(1) by (simp add: quiet_def) (metis snd_conv world.select_convs(1) world.surjective world.update_convs(2))
    have "\<exists>p lookup n res. svc_publicTLSCAAPolicy svc = Some p \<and> caap_Lookup p = Some lookup \<and> lookup n name = Inr res \<and> caaDecision p name res = Inr ()"
      if "cao_CertificateProfileID req \<noteq> []" "mget (ms_profiles (w_repo w)) (cao_CertificateProfileID req) = Some profile" "prof_PublicTLS profile"
        "name \<in> set (cao_RequestedDNSNames req)" for profile name
    proof -
      have "validatePublicTLSCAA svc (cao_RequestedDNSNames req) (w\<lparr>w_clock := Suc (w_clock w)\<rparr>) = (Inr (), w0)"
        using 1(1) that(1-3) by (auto simp: orderCAACheck_def inr_simps)
      from validatePublicTLSCAA_Inr[OF this] show ?thesis using that(4) by (cases "cao_RequestedDNSNames req") auto
    qed
    moreover have "orderCovered (w_repo w') order" using made(2,3) by (simp add: acme_ok_def)
    ultimately show ?case using made(3) 1(2,7,8) q by auto
  qed
qed

end
