(* ===== verification/HttpServer.thy ===== *)
theory HttpServer
  imports AcmeHttp Steps
begin

text \<open>
  The server of \<^verbatim>\<open>internal/httpapi/server.go\<close>: one definition per handler, the table of routes, and \<^verbatim>\<open>ServeHTTP\<close>, which authenticates a
  request, applies the rate limit, serves the route and counts the request. \<^verbatim>\<open>http.ServeMux\<close> is modelled on the patterns the
  server registers: a pattern matches a request with its method (\<^verbatim>\<open>GET\<close> also serves \<^verbatim>\<open>HEAD\<close>) and a path of as many segments, a wildcard
  stands for one non-empty segment; no two patterns match the same request but the two of \<^verbatim>\<open>new-nonce\<close>, which share a handler (\<open>routes_disjoint\<close> in \<^verbatim>\<open>HttpAccess\<close>), so their order plays no role.
\<close>

section \<open>Handlers\<close>

definition createIdentity :: "Server \<Rightarrow> Request \<Rightarrow> Response option http" where
  "createIdentity sv r = handled sv r
     (bindM (liftE (decodeJSON r (cdc_createIdentityRequest (sv_codec sv)))) (\<lambda>req.
      bindM (onService (Service_CreateIdentity (sv_service sv) (rq_Context r) (requestActor r)
        \<lparr>cid_Type = hid_Type req, cid_Name = hid_Name req, cid_ExternalID = hid_ExternalID req, cid_Owner = hid_Owner req, cid_Team = hid_Team req,
         cid_Service = hid_Service req, cid_Environment = hid_Environment req, cid_DeploymentTarget = hid_DeploymentTarget req,
         cid_LastSeenAt = hid_LastSeenAt req, cid_MetadataJSON = hid_MetadataJSON req, cid_AllowedDNSNames = hid_AllowedDNSNames req,
         cid_AllowedIPAddresses = hid_AllowedIPAddresses req\<rparr>)) (\<lambda>identity.
      reply 201 (BIdentity (toIdentityResponse identity)))))"

text \<open>A list whose page cannot be cut out of the slice makes the handler panic.\<close>

definition replyList :: "('a list \<Rightarrow> Body) \<Rightarrow> 'a list option \<Rightarrow> Response option http" where
  "replyList body items = (case items of None \<Rightarrow> returnM None | Some xs \<Rightarrow> reply 200 (body xs))"

definition listIdentities :: "Server \<Rightarrow> Request \<Rightarrow> Response option http" where
  "listIdentities sv r = handled sv r
     (bindM (liftE (identityListOptionsFromQuery r)) (\<lambda>opts.
      bindM (onService (Service_ListIdentitiesQuery opts)) (replyList (\<lambda>identities. BIdentities (toIdentityResponses identities)))))"

definition getIdentity :: "Server \<Rightarrow> Request \<Rightarrow> Response option http" where
  "getIdentity sv r = handled sv r
     (bindM (onService (Service_GetIdentity (PathValue r ''id''))) (\<lambda>identity. reply 200 (BIdentity (toIdentityResponse identity))))"

definition createIssuer :: "Server \<Rightarrow> Request \<Rightarrow> Response option http" where
  "createIssuer sv r = handled sv r
     (bindM (liftE (decodeJSON r (cdc_createIssuerRequest (sv_codec sv)))) (\<lambda>req.
      bindM (onService (Service_CreateIssuer (sv_service sv) (rq_Context r) (requestActor r)
        \<lparr>cis_Name = his_Name req, cis_Kind = his_Kind req, cis_ParentIssuerID = his_ParentIssuerID req, cis_CertificatePEM = his_CertificatePEM req,
         cis_KeyRef = his_KeyRef req, cis_AIAURL = his_AIAURL req, cis_CRLDistributionPoints = his_CRLDistributionPoints req,
         cis_TrustAnchor = his_TrustAnchor req\<rparr>)) (\<lambda>issuer.
      reply 201 (BIssuer (toIssuerResponse issuer)))))"

definition getIssuerChain :: "Server \<Rightarrow> Request \<Rightarrow> Response option http" where
  "getIssuerChain sv r = handled sv r
     (bindM (onService (Service_GetIssuerChain (PathValue r ''id''))) (\<lambda>chain. reply 200 (BIssuers (toIssuerResponses chain))))"

definition createOCSPResponder :: "Server \<Rightarrow> Request \<Rightarrow> Response option http" where
  "createOCSPResponder sv r = handled sv r
     (bindM (liftE (decodeJSON r (cdc_createOCSPResponderRequest (sv_codec sv)))) (\<lambda>req.
      bindM (onService (Service_CreateOCSPResponder (sv_service sv) (rq_Context r) (requestActor r)
        \<lparr>cor_IssuerID = PathValue r ''id'', cor_Name = hor_Name req, cor_CertificatePEM = hor_CertificatePEM req, cor_KeyRef = hor_KeyRef req\<rparr>)) (\<lambda>responder.
      reply 201 (BOCSPResponder (toOCSPResponderResponse responder)))))"

definition listOCSPResponders :: "Server \<Rightarrow> Request \<Rightarrow> Response option http" where
  "listOCSPResponders sv r = handled sv r
     (bindM (onService (Service_ListOCSPRespondersByIssuer (PathValue r ''id''))) (\<lambda>responders.
      reply 200 (BOCSPResponders (toOCSPResponderResponses responders))))"

definition disableOCSPResponder :: "Server \<Rightarrow> Request \<Rightarrow> Response option http" where
  "disableOCSPResponder sv r = handled sv r
     (bindM (onService (Service_DisableOCSPResponder (sv_service sv) (rq_Context r) (requestActor r) (PathValue r ''id'') (PathValue r ''responderID''))) (\<lambda>responder.
      reply 200 (BOCSPResponder (toOCSPResponderResponse responder))))"

definition rotateOCSPResponder :: "Server \<Rightarrow> Request \<Rightarrow> Response option http" where
  "rotateOCSPResponder sv r = handled sv r
     (bindM (liftE (decodeJSON r (cdc_createOCSPResponderRequest (sv_codec sv)))) (\<lambda>req.
      bindM (onService (Service_RotateOCSPResponder (sv_service sv) (rq_Context r) (requestActor r)
        \<lparr>ror_IssuerID = PathValue r ''id'', ror_Name = hor_Name req, ror_CertificatePEM = hor_CertificatePEM req, ror_KeyRef = hor_KeyRef req\<rparr>)) (\<lambda>responder.
      reply 201 (BOCSPResponder (toOCSPResponderResponse responder)))))"

definition createNotificationEndpoint :: "Server \<Rightarrow> Request \<Rightarrow> Response option http" where
  "createNotificationEndpoint sv r = handled sv r
     (bindM (liftE (decodeJSON r (cdc_createNotificationEndpointRequest (sv_codec sv)))) (\<lambda>req.
      bindM (onService (Service_CreateNotificationEndpoint (sv_service sv) (rq_Context r) (requestActor r)
        \<lparr>cne_Name = hne_Name req, cne_URL = hne_URL req, cne_Secret = hne_Secret req, cne_EventTypes = hne_EventTypes req\<rparr>)) (\<lambda>endpoint.
      reply 201 (BNotificationEndpoint (toNotificationEndpointResponse endpoint)))))"

definition listNotificationEndpoints :: "Server \<Rightarrow> Request \<Rightarrow> Response option http" where
  "listNotificationEndpoints sv r = handled sv r
     (bindM (onService Service_ListNotificationEndpoints) (\<lambda>endpoints.
      reply 200 (BNotificationEndpoints (toNotificationEndpointResponses endpoints))))"

definition disableNotificationEndpoint :: "Server \<Rightarrow> Request \<Rightarrow> Response option http" where
  "disableNotificationEndpoint sv r = handled sv r
     (bindM (onService (Service_DisableNotificationEndpoint (sv_service sv) (rq_Context r) (requestActor r) (PathValue r ''id''))) (\<lambda>endpoint.
      reply 200 (BNotificationEndpoint (toNotificationEndpointResponse endpoint))))"

definition listOutboxMessages :: "Server \<Rightarrow> Request \<Rightarrow> Response option http" where
  "listOutboxMessages sv r = handled sv r
     (bindM (liftE (outboxMessageListOptionsFromQuery sv r)) (\<lambda>opts.
      bindM (onService (Service_ListOutboxMessagesQuery opts)) (replyList (\<lambda>messages. BOutboxMessages (toOutboxMessageResponses messages)))))"

definition retryOutboxMessage :: "Server \<Rightarrow> Request \<Rightarrow> Response option http" where
  "retryOutboxMessage sv r = handled sv r
     (bindM (onService (Service_RetryOutboxMessage (sv_service sv) (rq_Context r) (requestActor r) (PathValue r ''id''))) (\<lambda>message.
      reply 200 (BOutboxMessage (toOutboxMessageResponse message))))"

definition replayDeadLetterOutboxMessages :: "Server \<Rightarrow> Request \<Rightarrow> Response option http" where
  "replayDeadLetterOutboxMessages sv r = handled sv r
     (bindM (liftE (decodeJSON r (cdc_replayDeadLetterOutboxRequest (sv_codec sv)))) (\<lambda>req.
      bindM (onService (Service_ReplayDeadLetterOutboxMessages (sv_service sv) (rq_Context r) (requestActor r)
        \<lparr>rdl_EventType = hrd_EventType req, rdl_CreatedFrom = hrd_CreatedFrom req, rdl_CreatedTo = hrd_CreatedTo req, rdl_Limit = hrd_Limit req\<rparr>)) (\<lambda>replayed.
      reply 200 (BReplay (toReplayDeadLetterOutboxResponse replayed)))))"

definition createAPIKey :: "Server \<Rightarrow> Request \<Rightarrow> Response option http" where
  "createAPIKey sv r = handled sv r
     (bindM (liftE (decodeJSON r (cdc_createAPIKeyRequest (sv_codec sv)))) (\<lambda>req.
      bindM (onService (Service_CreateAPIKey (sv_service sv) (rq_Context r) (requestActor r)
        \<lparr>ckr_Name = hak_Name req, ckr_Actor = hak_Actor req, ckr_Scopes = hak_Scopes req, ckr_ExpiresAt = hak_ExpiresAt req\<rparr>)) (\<lambda>result.
      reply 201 (BAPIKey (toAPIKeyResponseWithToken (cks_Key result) (cks_Token result))))))"

definition listAPIKeys :: "Server \<Rightarrow> Request \<Rightarrow> Response option http" where
  "listAPIKeys sv r = handled sv r
     (bindM (onService Service_ListAPIKeys) (\<lambda>keys. reply 200 (BAPIKeys (toAPIKeyResponses keys))))"

definition disableAPIKey :: "Server \<Rightarrow> Request \<Rightarrow> Response option http" where
  "disableAPIKey sv r = handled sv r
     (bindM (onService (Service_DisableAPIKey (sv_service sv) (rq_Context r) (requestActor r) (PathValue r ''id''))) (\<lambda>key.
      reply 200 (BAPIKey (toAPIKeyResponse key))))"

definition rotateAPIKey :: "Server \<Rightarrow> Request \<Rightarrow> Response option http" where
  "rotateAPIKey sv r = handled sv r
     (bindM (onService (Service_RotateAPIKey (sv_service sv) (rq_Context r) (requestActor r) (PathValue r ''id''))) (\<lambda>result.
      reply 201 (BAPIKey (toAPIKeyResponseWithToken (cks_Key result) (cks_Token result)))))"

definition createCertificateProfile :: "Server \<Rightarrow> Request \<Rightarrow> Response option http" where
  "createCertificateProfile sv r = handled sv r
     (bindM (liftE (decodeJSON r (cdc_createCertificateProfileRequest (sv_codec sv)))) (\<lambda>req.
      bindM (onService (Service_CreateCertificateProfile (sv_service sv) (rq_Context r) (requestActor r)
        \<lparr>cpr_Name = hcp_Name req, cpr_Description = hcp_Description req, cpr_IssuerID = hcp_IssuerID req,
         cpr_ValidityPeriodSeconds = hcp_ValidityPeriodSeconds req, cpr_PublicTLS = hcp_PublicTLS req, cpr_SubjectTemplate = hcp_SubjectTemplate req,
         cpr_AllowedDNSPatterns = hcp_AllowedDNSPatterns req, cpr_AllowedIPRanges = hcp_AllowedIPRanges req,
         cpr_AllowedKeyAlgorithms = hcp_AllowedKeyAlgorithms req, cpr_MinKeySizeBits = hcp_MinKeySizeBits req,
         cpr_AllowedSignatureAlgorithms = hcp_AllowedSignatureAlgorithms req, cpr_KeyUsage = hcp_KeyUsage req,
         cpr_ExtendedKeyUsage = hcp_ExtendedKeyUsage req, cpr_BasicConstraints = hcp_BasicConstraints req,
         cpr_SubjectKeyIdentifier = hcp_SubjectKeyIdentifier req, cpr_AuthorityKeyIdentifier = hcp_AuthorityKeyIdentifier req\<rparr>)) (\<lambda>profile.
      reply 201 (BCertificateProfile (toCertificateProfileResponse profile)))))"

definition listCertificateProfiles :: "Server \<Rightarrow> Request \<Rightarrow> Response option http" where
  "listCertificateProfiles sv r = handled sv r
     (bindM (onService Service_ListCertificateProfiles) (\<lambda>profiles.
      reply 200 (BCertificateProfiles (toCertificateProfileResponses profiles))))"

definition getCertificateProfile :: "Server \<Rightarrow> Request \<Rightarrow> Response option http" where
  "getCertificateProfile sv r = handled sv r
     (bindM (onService (Service_GetCertificateProfile (PathValue r ''id''))) (\<lambda>profile.
      reply 200 (BCertificateProfile (toCertificateProfileResponse profile))))"

definition createEnrollment :: "Server \<Rightarrow> Request \<Rightarrow> Response option http" where
  "createEnrollment sv r = handled sv r
     (bindM (liftE (decodeJSON r (cdc_createEnrollmentRequest (sv_codec sv)))) (\<lambda>req.
      bindM (onService (Service_CreateEnrollment (sv_service sv) (rq_Context r) (requestActor r)
        \<lparr>cer_IdentityID = hen_IdentityID req, cer_IssuerID = hen_IssuerID req, cer_CertificateProfileID = hen_CertificateProfileID req,
         cer_CSRPEM = hen_CSRPEM req, cer_RequestedSubject = hen_RequestedSubject req, cer_RequestedDNSNames = hen_RequestedDNSNames req,
         cer_RequestedIPAddresses = hen_RequestedIPAddresses req, cer_RequestedNotAfter = hen_RequestedNotAfter req\<rparr>)) (\<lambda>enrollment.
      reply 201 (BEnrollment (toEnrollmentResponse enrollment)))))"

definition listEnrollments :: "Server \<Rightarrow> Request \<Rightarrow> Response option http" where
  "listEnrollments sv r = handled sv r
     (bindM (liftE (enrollmentListOptionsFromQuery r)) (\<lambda>opts.
      bindM (onService (Service_ListEnrollmentsQuery opts)) (replyList (\<lambda>enrollments. BEnrollments (toEnrollmentResponses enrollments)))))"

definition getEnrollment :: "Server \<Rightarrow> Request \<Rightarrow> Response option http" where
  "getEnrollment sv r = handled sv r
     (bindM (onService (Service_GetEnrollment (PathValue r ''id''))) (\<lambda>enrollment. reply 200 (BEnrollment (toEnrollmentResponse enrollment))))"

definition approveEnrollment :: "Server \<Rightarrow> Request \<Rightarrow> Response option http" where
  "approveEnrollment sv r = handled sv r
     (bindM (onService (Service_ApproveEnrollment (sv_service sv) (rq_Context r) (requestActor r) (PathValue r ''id''))) (\<lambda>enrollment.
      reply 200 (BEnrollment (toEnrollmentResponse enrollment))))"

definition rejectEnrollment :: "Server \<Rightarrow> Request \<Rightarrow> Response option http" where
  "rejectEnrollment sv r = handled sv r
     (bindM (onService (Service_RejectEnrollment (sv_service sv) (rq_Context r) (requestActor r) (PathValue r ''id''))) (\<lambda>enrollment.
      reply 200 (BEnrollment (toEnrollmentResponse enrollment))))"

definition issueCertificate :: "Server \<Rightarrow> Request \<Rightarrow> Response option http" where
  "issueCertificate sv r = handled sv r
     (bindM (liftE (decodeJSON r (cdc_issueCertificateRequest (sv_codec sv)))) (\<lambda>req.
      bindM (onService (Service_IssueCertificate (sv_service sv) (rq_Context r) (requestActor r) (hic_EnrollmentID req))) (\<lambda>certificate.
      reply 201 (BCertificate (toCertificateResponse certificate)))))"

definition listCertificates :: "Server \<Rightarrow> Request \<Rightarrow> Response option http" where
  "listCertificates sv r = handled sv r
     (bindM (liftE (certificateListOptionsFromQuery r)) (\<lambda>opts.
      bindM (onService (Service_ListCertificatesQuery (sv_service sv) opts)) (replyList (\<lambda>certificates. BCertificates (toCertificateResponses certificates)))))"

definition listCertificateInventory :: "Server \<Rightarrow> Request \<Rightarrow> Response option http" where
  "listCertificateInventory sv r = handled sv r
     (bindM (liftE (certificateInventoryOptionsFromQuery r)) (\<lambda>opts.
      bindM (onService (Service_ListCertificateInventory opts)) (\<lambda>entries. reply 200 (BInventory (toCertificateInventoryResponses entries)))))"

definition getExpirySLO :: "Server \<Rightarrow> Request \<Rightarrow> Response option http" where
  "getExpirySLO sv r = handled sv r
     (bindM (onService (Service_ExpirySLO (sv_service sv))) (\<lambda>slo. reply 200 (BExpirySLO (toExpirySLOResponse slo))))"

text \<open>\<^verbatim>\<open>time.Duration(req.WarningWindowSeconds) * time.Second\<close> wraps around.\<close>

definition scanCertificateExpirations :: "Server \<Rightarrow> Request \<Rightarrow> Response option http" where
  "scanCertificateExpirations sv r = handled sv r
     (bindM (liftE (decodeJSON r (cdc_scanCertificateExpirationsRequest (sv_codec sv)))) (\<lambda>req.
      bindM (onService (Service_ScanCertificateExpirations (sv_service sv) (rq_Context r) (requestActor r)
        \<lparr>scr_WarningWindow = i64 (hsc_WarningWindowSeconds req * Second), scr_Limit = hsc_Limit req\<rparr>)) (\<lambda>result.
      reply 200 (BScan (toCertificateExpirationScanResponse result)))))"

definition getCertificate :: "Server \<Rightarrow> Request \<Rightarrow> Response option http" where
  "getCertificate sv r = handled sv r
     (bindM (onService (Service_GetCertificate (PathValue r ''id''))) (\<lambda>certificate.
      reply 200 (BCertificate (toCertificateResponse certificate))))"

definition revokeCertificateHandler :: "Server \<Rightarrow> Request \<Rightarrow> Response option http" where
  "revokeCertificateHandler sv r = handled sv r
     (bindM (liftE (decodeJSON r (cdc_revokeCertificateRequest (sv_codec sv)))) (\<lambda>req.
      bindM (onService (if hrv_Force req
          then Service_ForceRevokeCertificate (sv_service sv) (rq_Context r) (requestActor r) (PathValue r ''id'') (hrv_Reason req)
          else Service_RevokeCertificate (sv_service sv) (rq_Context r) (requestActor r) (PathValue r ''id'') (hrv_Reason req))) (\<lambda>certificate.
      reply 200 (BCertificate (toCertificateResponse certificate)))))"

definition suspendCertificate :: "Server \<Rightarrow> Request \<Rightarrow> Response option http" where
  "suspendCertificate sv r = handled sv r
     (bindM (onService (Service_SuspendCertificate (sv_service sv) (rq_Context r) (requestActor r) (PathValue r ''id''))) (\<lambda>certificate.
      reply 200 (BCertificate (toCertificateResponse certificate))))"

definition resumeCertificate :: "Server \<Rightarrow> Request \<Rightarrow> Response option http" where
  "resumeCertificate sv r = handled sv r
     (bindM (onService (Service_ResumeCertificate (sv_service sv) (rq_Context r) (requestActor r) (PathValue r ''id''))) (\<lambda>certificate.
      reply 200 (BCertificate (toCertificateResponse certificate))))"

definition renewCertificate :: "Server \<Rightarrow> Request \<Rightarrow> Response option http" where
  "renewCertificate sv r = handled sv r
     (bindM (liftE (decodeJSON r (cdc_renewCertificateRequest (sv_codec sv)))) (\<lambda>req.
      bindM (onService (Service_RenewCertificate (sv_service sv) (rq_Context r) (requestActor r) (PathValue r ''id'')
        \<lparr>rcr_CSRPEM = hrn_CSRPEM req, rcr_RequestedNotAfter = hrn_RequestedNotAfter req\<rparr>)) (\<lambda>enrollment.
      reply 201 (BEnrollment (toEnrollmentResponse enrollment)))))"

definition reissueCertificate :: "Server \<Rightarrow> Request \<Rightarrow> Response option http" where
  "reissueCertificate sv r = handled sv r
     (bindM (liftE (decodeJSON r (cdc_reissueCertificateRequest (sv_codec sv)))) (\<lambda>req.
      bindM (onService (Service_ReissueCertificate (sv_service sv) (rq_Context r) (requestActor r) (PathValue r ''id'')
        \<lparr>rir_CSRPEM = hri_CSRPEM req\<rparr>)) (\<lambda>enrollment.
      reply 201 (BEnrollment (toEnrollmentResponse enrollment)))))"

definition publishCRL :: "Server \<Rightarrow> Request \<Rightarrow> Response option http" where
  "publishCRL sv r = handled sv r
     (bindM (liftE (decodeJSON r (cdc_publishCRLRequest (sv_codec sv)))) (\<lambda>req.
      bindM (onService (Service_PublishCRL (sv_service sv) (rq_Context r) (requestActor r)
        \<lparr>pcr_IssuerID = hpc_IssuerID req, pcr_DistributionPoint = hpc_DistributionPoint req, pcr_NextUpdate = hpc_NextUpdate req\<rparr>)) (\<lambda>publication.
      reply 201 (BCRLPublication (toCRLPublicationResponse publication)))))"

definition getCRLPublication :: "Server \<Rightarrow> Request \<Rightarrow> Response option http" where
  "getCRLPublication sv r = handled sv r
     (bindM (onService (Service_GetCRLPublication (PathValue r ''id''))) (\<lambda>publication.
      reply 200 (BCRLPublication (toCRLPublicationResponse publication))))"

definition getLatestIssuerCRL :: "Server \<Rightarrow> Request \<Rightarrow> Response option http" where
  "getLatestIssuerCRL sv r = handled sv r
     (let distributionPoint = Query_Get r ''distribution_point'' in
      bindM (onService (if distributionPoint = [] then Service_GetLatestCRLPublication (PathValue r ''id'')
          else Service_GetLatestCRLPublicationForDistributionPoint (PathValue r ''id'') distributionPoint)) (\<lambda>publication.
      returnM (Some \<lparr>rs_Status = 200, rs_Header = mput ''Content-Type'' ''application/x-pem-file'' mempty, rs_Body = BText (crl_CRLPEM publication)\<rparr>)))"

definition respondOCSP :: "Server \<Rightarrow> Request \<Rightarrow> Response option http" where
  "respondOCSP sv r = handled sv r
     (failIf (Header_Get r ''Content-Type'' \<noteq> ''application/ocsp-request'') ErrUnsupportedMediaType
     (bindM (liftE (readAll r)) (\<lambda>requestDER.
      bindM (onService (Service_RespondOCSP (sv_service sv) (rq_Context r) (requestActor r) requestDER)) (\<lambda>response.
      returnM (Some \<lparr>rs_Status = 200, rs_Header = mput ''Content-Type'' ''application/ocsp-response'' mempty,
        rs_Body = BText (orp_ResponseDER response)\<rparr>)))))"

definition listAuditEvents :: "Server \<Rightarrow> Request \<Rightarrow> Response option http" where
  "listAuditEvents sv r = handled sv r
     (bindM (liftE (auditEventQueryFromRequest sv r)) (\<lambda>query.
      bindM (onService (Service_ListAuditEventsQuery query)) (\<lambda>events. reply 200 (BAuditEvents (toAuditEventResponses events)))))"

definition pruneAuditEvents :: "Server \<Rightarrow> Request \<Rightarrow> Response option http" where
  "pruneAuditEvents sv r = handled sv r
     (bindM (liftE (decodeJSON r (cdc_pruneAuditEventsRequest (sv_codec sv)))) (\<lambda>req.
      bindM (onService (Service_PruneAuditEventsBefore (sv_service sv) (rq_Context r) (requestActor r) (hpa_Before req))) (\<lambda>deleted.
      reply 200 (BPruned \<lparr>rpru_DeletedCount = deleted\<rparr>))))"

definition repairIssuanceAuditEvents :: "Server \<Rightarrow> Request \<Rightarrow> Response option http" where
  "repairIssuanceAuditEvents sv r = handled sv r
     (bindM (onService (Service_RepairMissingIssuanceAuditEvents (sv_service sv) (rq_Context r) (requestActor r))) (\<lambda>repaired.
      reply 200 (BRepaired \<lparr>rrep_RepairedCount = repaired\<rparr>)))"

definition listTrustAnchors :: "Server \<Rightarrow> Request \<Rightarrow> Response option http" where
  "listTrustAnchors sv r = handled sv r
     (bindM (onService Service_ListTrustAnchors) (\<lambda>anchors. reply 200 (BIssuers (toIssuerResponses anchors))))"

text \<open>\<^verbatim>\<open>expvar.Handler()\<close>: the counters of the process, of which the request counters are modelled.\<close>

definition debugVars :: "Server \<Rightarrow> Request \<Rightarrow> Response option http" where
  "debugVars sv r =
     (\<lambda>s. (Inr (Some \<lparr>rs_Status = 200, rs_Header = mput ''Content-Type'' ''application/json; charset=utf-8'' mempty,
        rs_Body = BVars (hs_requests s) (hs_events s)\<rparr>), s))"

section \<open>Routes\<close>

datatype Seg = Lit string | Wild string

type_synonym Handler = "Request \<Rightarrow> Response option http"

definition routes :: "Server \<Rightarrow> (string \<times> Seg list \<times> Handler) list" where
  "routes sv =
     [(''GET'', [Lit ''debug'', Lit ''vars''], debugVars sv),
      (''POST'', [Lit ''identities''], createIdentity sv),
      (''GET'', [Lit ''identities''], listIdentities sv),
      (''GET'', [Lit ''identities'', Wild ''id''], getIdentity sv),
      (''POST'', [Lit ''issuers''], createIssuer sv),
      (''GET'', [Lit ''issuers'', Wild ''id'', Lit ''chain''], getIssuerChain sv),
      (''POST'', [Lit ''issuers'', Wild ''id'', Lit ''ocsp-responders''], createOCSPResponder sv),
      (''GET'', [Lit ''issuers'', Wild ''id'', Lit ''ocsp-responders''], listOCSPResponders sv),
      (''POST'', [Lit ''issuers'', Wild ''id'', Lit ''ocsp-responders'', Lit ''rotate''], rotateOCSPResponder sv),
      (''POST'', [Lit ''issuers'', Wild ''id'', Lit ''ocsp-responders'', Wild ''responderID'', Lit ''disable''], disableOCSPResponder sv),
      (''POST'', [Lit ''notification-endpoints''], createNotificationEndpoint sv),
      (''GET'', [Lit ''notification-endpoints''], listNotificationEndpoints sv),
      (''POST'', [Lit ''notification-endpoints'', Wild ''id'', Lit ''disable''], disableNotificationEndpoint sv),
      (''GET'', [Lit ''outbox'', Lit ''messages''], listOutboxMessages sv),
      (''POST'', [Lit ''outbox'', Lit ''messages'', Lit ''dead-letter'', Lit ''replay''], replayDeadLetterOutboxMessages sv),
      (''POST'', [Lit ''outbox'', Lit ''messages'', Wild ''id'', Lit ''retry''], retryOutboxMessage sv),
      (''GET'', [Lit ''operator'', Lit ''certificate-inventory''], listCertificateInventory sv),
      (''GET'', [Lit ''operator'', Lit ''expiry-slo''], getExpirySLO sv),
      (''POST'', [Lit ''api-keys''], createAPIKey sv),
      (''GET'', [Lit ''api-keys''], listAPIKeys sv),
      (''POST'', [Lit ''api-keys'', Wild ''id'', Lit ''rotate''], rotateAPIKey sv),
      (''POST'', [Lit ''api-keys'', Wild ''id'', Lit ''disable''], disableAPIKey sv),
      (''POST'', [Lit ''acme'', Lit ''accounts''], createACMEAccountHandler sv),
      (''GET'', [Lit ''acme'', Lit ''accounts''], listACMEAccounts sv),
      (''POST'', [Lit ''acme'', Lit ''orders''], createACMEOrderHandler sv),
      (''GET'', [Lit ''acme'', Lit ''orders'', Wild ''id''], getACMEOrder sv),
      (''GET'', [Lit ''acme'', Lit ''orders'', Wild ''id'', Lit ''authorizations''], listACMEAuthorizations sv),
      (''POST'', [Lit ''acme'', Lit ''orders'', Wild ''id'', Lit ''finalize''], finalizeACMEOrder sv),
      (''GET'', [Lit ''acme'', Lit ''authorizations'', Wild ''id'', Lit ''challenges''], listACMEChallenges sv),
      (''POST'', [Lit ''acme'', Lit ''challenges'', Wild ''id'', Lit ''complete''], completeACMEChallenge sv),
      (''GET'', [Lit ''acme'', Lit ''directory''], acmeDirectory sv),
      (''HEAD'', [Lit ''acme'', Lit ''new-nonce''], acmeNewNonce sv),
      (''GET'', [Lit ''acme'', Lit ''new-nonce''], acmeNewNonce sv),
      (''POST'', [Lit ''acme'', Lit ''new-account''], acmeNewAccount sv),
      (''POST'', [Lit ''acme'', Lit ''account'', Wild ''id''], acmeUpdateAccount sv),
      (''POST'', [Lit ''acme'', Lit ''new-order''], acmeNewOrder sv),
      (''POST'', [Lit ''acme'', Lit ''key-change''], acmeKeyChange sv),
      (''GET'', [Lit ''acme'', Lit ''order'', Wild ''id''], acmeGetOrder sv),
      (''POST'', [Lit ''acme'', Lit ''order'', Wild ''id''], acmePostAsGetOrder sv),
      (''GET'', [Lit ''acme'', Lit ''authz'', Wild ''id''], acmeGetAuthorization sv),
      (''POST'', [Lit ''acme'', Lit ''authz'', Wild ''id''], acmePostAsGetAuthorization sv),
      (''POST'', [Lit ''acme'', Lit ''challenge'', Wild ''id''], acmeCompleteChallenge sv),
      (''POST'', [Lit ''acme'', Lit ''order'', Wild ''id'', Lit ''finalize''], acmeFinalizeOrder sv),
      (''POST'', [Lit ''acme'', Lit ''revoke-cert''], acmeRevokeCertificate sv),
      (''GET'', [Lit ''acme'', Lit ''cert'', Wild ''id''], acmeGetCertificate sv),
      (''POST'', [Lit ''acme'', Lit ''cert'', Wild ''id''], acmePostAsGetCertificate sv),
      (''POST'', [Lit ''certificate-profiles''], createCertificateProfile sv),
      (''GET'', [Lit ''certificate-profiles''], listCertificateProfiles sv),
      (''GET'', [Lit ''certificate-profiles'', Wild ''id''], getCertificateProfile sv),
      (''POST'', [Lit ''enrollments''], createEnrollment sv),
      (''GET'', [Lit ''enrollments''], listEnrollments sv),
      (''GET'', [Lit ''enrollments'', Wild ''id''], getEnrollment sv),
      (''POST'', [Lit ''enrollments'', Wild ''id'', Lit ''approve''], approveEnrollment sv),
      (''POST'', [Lit ''enrollments'', Wild ''id'', Lit ''reject''], rejectEnrollment sv),
      (''POST'', [Lit ''certificates''], issueCertificate sv),
      (''GET'', [Lit ''certificates''], listCertificates sv),
      (''POST'', [Lit ''certificates'', Lit ''expiration-scan''], scanCertificateExpirations sv),
      (''GET'', [Lit ''certificates'', Wild ''id''], getCertificate sv),
      (''POST'', [Lit ''certificates'', Wild ''id'', Lit ''revoke''], revokeCertificateHandler sv),
      (''POST'', [Lit ''certificates'', Wild ''id'', Lit ''suspend''], suspendCertificate sv),
      (''POST'', [Lit ''certificates'', Wild ''id'', Lit ''resume''], resumeCertificate sv),
      (''POST'', [Lit ''certificates'', Wild ''id'', Lit ''renew''], renewCertificate sv),
      (''POST'', [Lit ''certificates'', Wild ''id'', Lit ''reissue''], reissueCertificate sv),
      (''POST'', [Lit ''crls''], publishCRL sv),
      (''GET'', [Lit ''crls'', Wild ''id''], getCRLPublication sv),
      (''GET'', [Lit ''issuers'', Wild ''id'', Lit ''crl''], getLatestIssuerCRL sv),
      (''POST'', [Lit ''ocsp''], respondOCSP sv),
      (''GET'', [Lit ''audit-events''], listAuditEvents sv),
      (''POST'', [Lit ''audit-events'', Lit ''retention'', Lit ''prune''], pruneAuditEvents sv),
      (''POST'', [Lit ''audit-events'', Lit ''repair'', Lit ''issuance''], repairIssuanceAuditEvents sv),
      (''GET'', [Lit ''trust'', Lit ''anchors''], listTrustAnchors sv)]"

fun matchSegs :: "Seg list \<Rightarrow> string list \<Rightarrow> string gomap \<Rightarrow> string gomap option" where
  "matchSegs [] [] values = Some values"
| "matchSegs (Lit l # ps) (s # ss) values = (if s = l then matchSegs ps ss values else None)"
| "matchSegs (Wild n # ps) (s # ss) values = (if s \<noteq> [] then matchSegs ps ss (mput n s values) else None)"
| "matchSegs _ _ values = None"

definition methodMatches :: "string \<Rightarrow> string \<Rightarrow> bool" where
  "methodMatches registered method \<longleftrightarrow> registered = method \<or> registered = ''GET'' \<and> method = ''HEAD''"

definition routeFor :: "Server \<Rightarrow> Request \<Rightarrow> (string \<times> Seg list \<times> Handler) option" where
  "routeFor sv r =
     find (\<lambda>(method, pattern, handler). methodMatches method (rq_Method r) \<and> matchSegs pattern (rq_Segments r) mempty \<noteq> None) (routes sv)"

text \<open>\<^verbatim>\<open>http.ServeMux\<close>: a redirect to the cleaned path, the handler of the route, or the library's answers 405 and 404.\<close>

definition plainStatus :: "int \<Rightarrow> Response option http" where
  "plainStatus status = returnM (Some \<lparr>rs_Status = status, rs_Header = mempty, rs_Body = BNone\<rparr>)"

definition serveMux :: "Server \<Rightarrow> Request \<Rightarrow> Response option http" where
  "serveMux sv r =
     (if \<not> rq_Clean r then plainStatus 301
      else case routeFor sv r of
          Some (method, pattern, handler) \<Rightarrow>
            (case matchSegs pattern (rq_Segments r) mempty of
               Some values \<Rightarrow> handler (r\<lparr>rq_PathValues := values\<rparr>)
             | None \<Rightarrow> plainStatus 404)
        | None \<Rightarrow>
            plainStatus (if list_ex (\<lambda>(method, pattern, handler). matchSegs pattern (rq_Segments r) mempty \<noteq> None) (routes sv) then 405 else 404))"

section \<open>Serving a request\<close>

definition requestMetricBoundary :: "string \<Rightarrow> string" where
  "requestMetricBoundary path =
     (if path = ''/debug/vars'' then ''observability''
      else if HasPrefix path ''/identities'' then ''identity''
      else if HasPrefix path ''/issuers/'' \<and> Contains path ''/ocsp-responders'' then ''ocsp_responder''
      else if HasPrefix path ''/issuers/'' \<and> HasSuffix path ''/crl'' then ''crl''
      else if HasPrefix path ''/issuers'' then ''issuer''
      else if HasPrefix path ''/certificate-profiles'' then ''profile''
      else if HasPrefix path ''/enrollments'' then ''enrollment''
      else if path = ''/certificates'' then ''issuance''
      else if Contains path ''/revoke'' then ''revocation''
      else if Contains path ''/renew'' then ''renewal''
      else if Contains path ''/reissue'' then ''reissue''
      else if Contains path ''/suspend'' \<or> Contains path ''/resume'' then ''suspension''
      else if HasPrefix path ''/certificates/expiration-scan'' then ''expiration_scan''
      else if HasPrefix path ''/certificates'' then ''certificate''
      else if HasPrefix path ''/crls'' then ''crl''
      else if path = ''/ocsp'' then ''ocsp''
      else if HasPrefix path ''/acme'' then ''acme''
      else if HasPrefix path ''/notification-endpoints'' then ''webhook''
      else if HasPrefix path ''/outbox'' then ''outbox''
      else if HasPrefix path ''/api-keys'' then ''auth''
      else if HasPrefix path ''/audit-events'' then ''audit''
      else if HasPrefix path ''/operator'' then ''operator''
      else ''http'')"

definition requestIDForRequest :: "Server \<Rightarrow> Request \<Rightarrow> string http" where
  "requestIDForRequest sv r =
     (let requestID = TrimSpace (Header_Get r ''X-Request-ID'') in
      if requestID \<noteq> [] then returnM requestID
      else bindM (attemptM (onService (callExt (\<lambda>n. rt_randBytes (svc_runtime (sv_service sv)) n 16)))) (\<lambda>res.
        case res of
          Inl _ \<Rightarrow> bindM (timeNow sv) (\<lambda>now. returnM (''req-'' @ Itoa (now - unix_time 0)))
        | Inr raw \<Rightarrow> returnM (''req-'' @ RawURLEncoding_EncodeToString raw)))"

definition withAuditRequest :: "Server \<Rightarrow> string \<Rightarrow> time \<Rightarrow> Request \<Rightarrow> Request" where
  "withAuditRequest sv requestID startedAt r =
     r\<lparr>rq_Context := (rq_Context r)\<lparr>ctx_auditRequest := Some \<lparr>arm_RequestID = requestID, arm_Traceparent = TrimSpace (Header_Get r ''Traceparent''),
       arm_ClientIP = requestClientIP r (auth_TrustedProxies (sv_auth sv)), arm_UserAgent = TrimSpace (Header_Get r ''User-Agent''),
       arm_AuthMethod = auth_Mode (sv_auth sv), arm_StartedAt = startedAt\<rparr>\<rparr>\<rparr>"

text \<open>The deferred counter and the request identifier every response carries; a panicking handler has written no status.\<close>

definition finishRequest :: "string \<Rightarrow> string \<Rightarrow> Response option \<Rightarrow> Response option http" where
  "finishRequest requestID boundary resp =
     (\<lambda>s. (Inr (map_option (\<lambda>res. res\<lparr>rs_Header := mput ''X-Request-ID'' requestID (rs_Header res)\<rparr>) resp),
        RecordHTTPRequest boundary (case resp of None \<Rightarrow> 200 | Some res \<Rightarrow> rs_Status res) s))"

definition countEvent :: "string \<Rightarrow> unit http" where
  "countEvent key = (\<lambda>s. (Inr (), RecordEvent key s))"

definition ServeHTTP :: "Server \<Rightarrow> Request \<Rightarrow> Response option http" where
  "ServeHTTP sv r0 =
     bindM (requestIDForRequest sv r0) (\<lambda>requestID.
     bindM (timeNow sv) (\<lambda>startedAt.
     let r = withAuditRequest sv requestID startedAt r0 in
     bindM (attemptM (authenticateRequest sv r)) (\<lambda>auth.
     case auth of
       Inl err \<Rightarrow>
         thenM (countEvent ''auth:failure'')
        (bindM (writeError sv (withActor ''anonymous'' r) err) (\<lambda>resp. finishRequest requestID ''auth'' (Some resp)))
     | Inr authenticated \<Rightarrow>
         bindM (attemptM (checkACMERateLimit sv authenticated)) (\<lambda>limited.
         case limited of
           Inl err \<Rightarrow> bindM (writeError sv authenticated err) (\<lambda>resp. finishRequest requestID ''rate_limit'' (Some resp))
         | Inr _ \<Rightarrow>
             bindM (serveMux sv authenticated) (\<lambda>resp. finishRequest requestID (requestMetricBoundary (URLPath authenticated)) resp)))))"

end
