(* ===== verification/HttpRuns.thy ===== *)
theory HttpRuns
  imports HttpServer
begin

text \<open>
  The HTTP server on top of the service: serving a request is a run of the service's state machine (\<^verbatim>\<open>Steps\<close>), so whatever is
  true of every reachable state of the service is true of a server that has answered any sequence of requests, well formed or not.
\<close>

section \<open>Runs of the service\<close>

named_theorems runs_rules \<open>syntax-directed rules for \<open>runs\<close>\<close>

lemma run_trans:
  assumes "serviceRun svc w' w''" "serviceRun svc w w'"
  shows "serviceRun svc w w''"
  using assms by (induction rule: serviceRun.induct) (auto intro: serviceRun.intros)

lemma run_single: "serviceStep svc w w' \<Longrightarrow> serviceRun svc w w'"
  by (rule runStep[OF runIdle])

definition runs :: "Server \<Rightarrow> 'a http \<Rightarrow> bool" where
  "runs sv m \<longleftrightarrow> (\<forall>s. serviceRun (sv_service sv) (hs_world s) (hs_world (snd (m s))))"

text \<open>Programs that do not touch the service.\<close>

lemma runs_idle: "(\<And>s. hs_world (snd (m s)) = hs_world s) \<Longrightarrow> runs sv m"
  by (simp add: runs_def runIdle)

lemma runs_simple [runs_rules]: "runs sv (returnM x)" "runs sv (throwM e)" "runs sv (liftE r)" "runs sv (timeNow sv')"
  "runs sv (reply status body)" "runs sv (plainStatus status)" "runs sv (finishRequest i b resp)" "runs sv (countEvent key)" "runs sv (debugVars sv' r')"
  by (rule runs_idle; simp add: timeNow_def reply_def plainStatus_def finishRequest_def countEvent_def debugVars_def RecordHTTPRequest_def RecordEvent_def)+

lemma runs_bind [runs_rules]: "runs sv m \<Longrightarrow> (\<And>x. runs sv (f x)) \<Longrightarrow> runs sv (bindM m f)"
  unfolding runs_def
proof
  fix s
  assume m: "\<forall>s. serviceRun (sv_service sv) (hs_world s) (hs_world (snd (m s)))"
    and f: "\<And>x. \<forall>s. serviceRun (sv_service sv) (hs_world s) (hs_world (snd (f x s)))"
  obtain r s1 where run: "m s = (r, s1)" by (cases "m s")
  have first: "serviceRun (sv_service sv) (hs_world s) (hs_world s1)" using m run by (metis snd_conv)
  show "serviceRun (sv_service sv) (hs_world s) (hs_world (snd (bindM m f s)))"
  proof (cases r)
    case (Inl e)
    then show ?thesis using first run by (simp add: bindM_def)
  next
    case (Inr x)
    then show ?thesis using run_trans[OF f[THEN spec, of s1 x] first] run by (simp add: bindM_def)
  qed
qed

lemma runs_then [runs_rules]: "runs sv m \<Longrightarrow> runs sv k \<Longrightarrow> runs sv (thenM m k)"
  unfolding thenM_def by (rule runs_bind)

lemma runs_failIf [runs_rules]: "runs sv k \<Longrightarrow> runs sv (failIf b e k)"
  by (simp add: failIf_def runs_simple)

lemma runs_attempt [runs_rules]: "runs sv m \<Longrightarrow> runs sv (attemptM m)"
  by (auto simp: runs_def attemptM_def split: prod.splits) (metis snd_conv)

lemma runs_if [runs_rules]: "runs sv m \<Longrightarrow> runs sv m' \<Longrightarrow> runs sv (if b then m else m')"
  by simp

lemma runs_case_sum [runs_rules]:
  "(\<And>e. runs sv (f e)) \<Longrightarrow> (\<And>x. runs sv (g x)) \<Longrightarrow> runs sv (case r of Inl e \<Rightarrow> f e | Inr x \<Rightarrow> g x)"
  by (cases r) simp_all

lemma runs_case_option [runs_rules]:
  "runs sv f \<Longrightarrow> (\<And>x. runs sv (g x)) \<Longrightarrow> runs sv (case opt of None \<Rightarrow> f | Some x \<Rightarrow> g x)"
  by (cases opt) simp_all

lemma runs_case_prod [runs_rules]: "(\<And>x y. runs sv (h x y)) \<Longrightarrow> runs sv (case p of (x, y) \<Rightarrow> h x y)"
  by (cases p) simp

lemma runs_let [runs_rules]: "(\<And>x. runs sv (h x)) \<Longrightarrow> runs sv (let x = v in h x)"
  by simp

lemma runs_replyList [runs_rules]: "runs sv (replyList body items)"
  unfolding replyList_def by (intro runs_rules)

text \<open>Calls of the service: a step, or a lookup.\<close>

lemma runs_onService: "(\<And>w. serviceRun (sv_service sv) w (snd (m w))) \<Longrightarrow> runs sv (onService m)"
  by (auto simp: runs_def onService_def split: prod.splits) (metis snd_conv)

lemma runs_step: "(\<And>w. serviceStep (sv_service sv) w (snd (m w))) \<Longrightarrow> runs sv (onService m)"
  by (rule runs_onService) (rule run_single)

lemma runs_quiet: "quiet m \<Longrightarrow> runs sv (onService m)"
  by (rule runs_step) (auto simp: quiet_def grows_def intro: serviceStep.stepQuery)

lemma runs_onService_if [runs_rules]: "runs sv (onService m) \<Longrightarrow> runs sv (onService m') \<Longrightarrow> runs sv (onService (if b then m else m'))"
  by simp

lemma reads_quiet:
  "quiet Service_ListIdentities" "quiet (Service_GetIdentity i)" "quiet Service_ListCertificateProfiles" "quiet (Service_GetCertificateProfile i)"
  "quiet (Service_GetEnrollment i)" "quiet (Service_GetCertificate i)" "quiet (Service_GetCRLPublication i)" "quiet (Service_GetLatestCRLPublication i)"
  "quiet (Service_GetLatestCRLPublicationForDistributionPoint i d)" "quiet (Service_ListIdentitiesQuery o1)" "quiet (Service_ListEnrollmentsQuery o2)"
  "quiet (Service_ListOutboxMessagesQuery o3)" "quiet (Service_ListCertificatesQuery svc o4)" "quiet (Service_ListCertificateInventory o5)"
  "quiet (Service_ExpirySLO svc)" "quiet (Service_ListAuditEventsQuery o6)" "quiet (Service_GetIssuerChain i)" "quiet Service_ListTrustAnchors"
  "quiet (Service_ListOCSPRespondersByIssuer i)" "quiet Service_ListNotificationEndpoints" "quiet Service_ListAPIKeys"
  "quiet (Service_GetACMEOrder i)" "quiet Service_ListACMEAccounts" "quiet (Service_GetACMEAccount i)" "quiet (Service_ListACMEOrdersByAccount i)"
  "quiet (Service_ListACMEAuthorizations i)" "quiet (Service_GetACMEAuthorization i)" "quiet (Service_ListACMEChallenges i)" "quiet (Service_GetACMEChallenge i)"
  unfolding Service_ListIdentities_def Service_GetIdentity_def Service_ListCertificateProfiles_def Service_GetCertificateProfile_def
    Service_GetEnrollment_def Service_GetCertificate_def Service_GetCRLPublication_def Service_GetLatestCRLPublication_def
    Service_GetLatestCRLPublicationForDistributionPoint_def Service_ListIdentitiesQuery_def Service_ListEnrollmentsQuery_def
    Service_ListOutboxMessagesQuery_def Service_ListCertificatesQuery_def Service_ListCertificateInventory_def Service_ExpirySLO_def
    Service_ListAuditEventsQuery_def Service_GetIssuerChain_def Service_ListTrustAnchors_def Service_ListOCSPRespondersByIssuer_def
    Service_ListNotificationEndpoints_def Service_ListAPIKeys_def Service_GetACMEOrder_def Service_ListACMEAccounts_def Service_GetACMEAccount_def
    Service_ListACMEOrdersByAccount_def Service_ListACMEAuthorizations_def Service_GetACMEAuthorization_def Service_ListACMEChallenges_def
    Service_GetACMEChallenge_def identityFilterLookup_def
  by (intro clean_rules quiet_read | simp; fail)+

lemma requires_quiet:
  "quiet (requireACMEOrderAccount i j)" "quiet (requireACMEAuthorizationAccount i j)" "quiet (requireACMEChallengeAccount i j)"
  "quiet (requireACMECertificateAccount i j)" "quiet (acmeCertificateChainPEM i)"
  unfolding requireACMEOrderAccount_def requireACMEAuthorizationAccount_def requireACMEChallengeAccount_def requireACMECertificateAccount_def
    acmeCertificateChainPEM_def
  by (intro clean_rules reads_quiet)+

lemmas runs_reads [runs_rules] = reads_quiet[THEN runs_quiet] requires_quiet[THEN runs_quiet] quiet_simple(6)[THEN runs_quiet]

lemmas runs_steps [runs_rules] =
  runs_step[OF stepCreateIdentity] runs_step[OF stepCreateIssuer] runs_step[OF stepCreateOCSPResponder] runs_step[OF stepDisableOCSPResponder]
  runs_step[OF stepRotateOCSPResponder] runs_step[OF stepCreateNotificationEndpoint] runs_step[OF stepDisableNotificationEndpoint]
  runs_step[OF stepCreateCertificateProfile] runs_step[OF stepCreateEnrollment] runs_step[OF stepRenewCertificate] runs_step[OF stepReissueCertificate]
  runs_step[OF stepApproveEnrollment] runs_step[OF stepRejectEnrollment] runs_step[OF stepIssueCertificate] runs_step[OF stepRepairAudit]
  runs_step[OF stepRevokeCertificate] runs_step[OF stepForceRevokeCertificate] runs_step[OF stepSuspendCertificate] runs_step[OF stepResumeCertificate]
  runs_step[OF stepScanExpirations] runs_step[OF stepPublishCRL] runs_step[OF stepRespondOCSP] runs_step[OF stepRecordAPIFailure]
  runs_step[OF stepPruneAudit] runs_step[OF stepRetryOutbox] runs_step[OF stepReplayDeadLetters] runs_step[OF stepAuthenticateAPIKey]
  runs_step[OF stepCreateAPIKey] runs_step[OF stepDisableAPIKey] runs_step[OF stepRotateAPIKey] runs_step[OF stepCreateACMEAccount]
  runs_step[OF stepCreateOrGetACMEAccount] runs_step[OF stepUpdateACMEAccount] runs_step[OF stepUpdateACMEAccountKey] runs_step[OF stepCreateACMEOrder]
  runs_step[OF stepCompleteACMEChallenge] runs_step[OF stepValidateChallenge] runs_step[OF stepPollACMEAuthorization] runs_step[OF stepFinalizeACMEOrder]

section \<open>Serving is running\<close>

lemma runs_nonces [runs_rules]:
  "runs sv (issueACMENonce sv r)" "runs sv (consumeACMENonce sv r n)" "runs sv (replayNonceHeader sv r)"
proof -
  have store: "runs sv (storeNonce sv r n t)" for n t
    by (rule runs_idle) (auto simp: storeNonce_def split: option.split prod.split)
  show issue: "runs sv (issueACMENonce sv r)" unfolding issueACMENonce_def by (intro runs_rules store)
  show "runs sv (consumeACMENonce sv r n)"
    by (rule runs_idle) (auto simp: consumeACMENonce_def timeNow_def bindM_def split: prod.split sum.split)
  show "runs sv (replayNonceHeader sv r)" unfolding replayNonceHeader_def by (intro runs_rules issue)
qed

lemma runs_writes [runs_rules]:
  "runs sv (writeError sv r e)" "runs sv (writeACMEJSON sv r h status body)" "runs sv m \<Longrightarrow> runs sv (handled sv r m)"
proof -
  have problem: "runs sv (writeACMEProblem sv r status e)" for status e unfolding writeACMEProblem_def by (intro runs_rules)
  show err: "runs sv (writeError sv r e)" for e unfolding writeError_def by (intro runs_rules problem)
  show "runs sv (writeACMEJSON sv r h status body)" unfolding writeACMEJSON_def by (intro runs_rules)
  show "runs sv m \<Longrightarrow> runs sv (handled sv r m)" unfolding handled_def by (intro runs_rules err)
qed

lemma runs_jws [runs_rules]: "runs sv (decodeACMEJWS sv r)"
proof -
  have "runs sv (signingKey sv r p payload)" for p payload unfolding signingKey_def by (intro runs_rules)
  then show ?thesis unfolding decodeACMEJWS_def by (intro runs_rules)
qed

lemma runs_protocol [runs_rules]: "runs sv (toACMEProtocolOrder r o1)" "runs sv (toACMEProtocolAuthorization r a1)" "runs sv (orderNotAfter sv req)"
  unfolding toACMEProtocolOrder_def toACMEProtocolAuthorization_def orderNotAfter_def by (intro runs_rules)+

lemma runs_registers [runs_rules]:
  "runs sv (createIdentity sv r)" "runs sv (listIdentities sv r)" "runs sv (getIdentity sv r)" "runs sv (createIssuer sv r)"
  "runs sv (getIssuerChain sv r)" "runs sv (createOCSPResponder sv r)" "runs sv (listOCSPResponders sv r)" "runs sv (disableOCSPResponder sv r)"
  "runs sv (rotateOCSPResponder sv r)" "runs sv (createNotificationEndpoint sv r)" "runs sv (listNotificationEndpoints sv r)"
  "runs sv (disableNotificationEndpoint sv r)" "runs sv (listOutboxMessages sv r)" "runs sv (retryOutboxMessage sv r)"
  "runs sv (replayDeadLetterOutboxMessages sv r)" "runs sv (createAPIKey sv r)" "runs sv (listAPIKeys sv r)" "runs sv (disableAPIKey sv r)"
  "runs sv (rotateAPIKey sv r)" "runs sv (createCertificateProfile sv r)" "runs sv (listCertificateProfiles sv r)"
  "runs sv (getCertificateProfile sv r)" "runs sv (createEnrollment sv r)"
  unfolding createIdentity_def listIdentities_def getIdentity_def createIssuer_def getIssuerChain_def createOCSPResponder_def listOCSPResponders_def
    disableOCSPResponder_def rotateOCSPResponder_def createNotificationEndpoint_def listNotificationEndpoints_def disableNotificationEndpoint_def
    listOutboxMessages_def retryOutboxMessage_def replayDeadLetterOutboxMessages_def createAPIKey_def listAPIKeys_def disableAPIKey_def
    rotateAPIKey_def createCertificateProfile_def listCertificateProfiles_def getCertificateProfile_def createEnrollment_def
  by (intro runs_rules)+

lemma runs_certificates [runs_rules]:
  "runs sv (listEnrollments sv r)" "runs sv (getEnrollment sv r)" "runs sv (approveEnrollment sv r)" "runs sv (rejectEnrollment sv r)"
  "runs sv (issueCertificate sv r)" "runs sv (listCertificates sv r)" "runs sv (listCertificateInventory sv r)" "runs sv (getExpirySLO sv r)"
  "runs sv (scanCertificateExpirations sv r)" "runs sv (getCertificate sv r)" "runs sv (revokeCertificateHandler sv r)"
  "runs sv (suspendCertificate sv r)" "runs sv (resumeCertificate sv r)" "runs sv (renewCertificate sv r)" "runs sv (reissueCertificate sv r)"
  "runs sv (publishCRL sv r)" "runs sv (getCRLPublication sv r)" "runs sv (getLatestIssuerCRL sv r)" "runs sv (respondOCSP sv r)"
  "runs sv (listAuditEvents sv r)" "runs sv (pruneAuditEvents sv r)" "runs sv (repairIssuanceAuditEvents sv r)" "runs sv (listTrustAnchors sv r)"
  unfolding listEnrollments_def getEnrollment_def approveEnrollment_def rejectEnrollment_def issueCertificate_def listCertificates_def
    listCertificateInventory_def getExpirySLO_def scanCertificateExpirations_def getCertificate_def revokeCertificateHandler_def
    suspendCertificate_def resumeCertificate_def renewCertificate_def reissueCertificate_def publishCRL_def getCRLPublication_def
    getLatestIssuerCRL_def respondOCSP_def listAuditEvents_def pruneAuditEvents_def repairIssuanceAuditEvents_def listTrustAnchors_def
  by (intro runs_rules)+

lemma runs_acme [runs_rules]:
  "runs sv (acmeDirectory sv r)" "runs sv (acmeNewNonce sv r)" "runs sv (acmeNewAccount sv r)" "runs sv (acmeUpdateAccount sv r)"
  "runs sv (acmeKeyChange sv r)" "runs sv (acmeNewOrder sv r)" "runs sv (acmeGetOrder sv r)" "runs sv (acmePostAsGetOrder sv r)"
  "runs sv (acmeGetAuthorization sv r)" "runs sv (acmePostAsGetAuthorization sv r)" "runs sv (acmeCompleteChallenge sv r)"
  "runs sv (acmeFinalizeOrder sv r)" "runs sv (acmeRevokeCertificate sv r)" "runs sv (acmeGetCertificate sv r)"
  "runs sv (acmePostAsGetCertificate sv r)" "runs sv (createACMEAccountHandler sv r)" "runs sv (listACMEAccounts sv r)"
  "runs sv (createACMEOrderHandler sv r)" "runs sv (getACMEOrder sv r)" "runs sv (listACMEAuthorizations sv r)" "runs sv (listACMEChallenges sv r)"
  "runs sv (completeACMEChallenge sv r)" "runs sv (finalizeACMEOrder sv r)"
  unfolding acmeDirectory_def acmeNewNonce_def acmeNewAccount_def acmeUpdateAccount_def acmeKeyChange_def acmeNewOrder_def acmeGetOrder_def
    acmePostAsGetOrder_def acmeGetAuthorization_def acmePostAsGetAuthorization_def acmeCompleteChallenge_def acmeFinalizeOrder_def
    acmeRevokeCertificate_def acmeGetCertificate_def acmePostAsGetCertificate_def createACMEAccountHandler_def listACMEAccounts_def
    createACMEOrderHandler_def getACMEOrder_def listACMEAuthorizations_def listACMEChallenges_def completeACMEChallenge_def finalizeACMEOrder_def
  by (intro runs_rules)+

lemma route_runs:
  assumes "(method, pattern, handler) \<in> set (routes sv)"
  shows "runs sv (handler r)"
  using assms unfolding routes_def by (auto intro: runs_rules)

lemma runs_serveMux [runs_rules]: "runs sv (serveMux sv r)"
  unfolding serveMux_def
  by (auto intro!: runs_rules route_runs split: option.split simp: routeFor_def find_Some_iff dest!: nth_mem)

lemma runs_gate [runs_rules]: "runs sv (requestIDForRequest sv r)" "runs sv (authenticateRequest sv r)" "runs sv (checkACMERateLimit sv r)"
proof -
  show "runs sv (requestIDForRequest sv r)" unfolding requestIDForRequest_def by (intro runs_rules)
  show "runs sv (authenticateRequest sv r)" unfolding authenticateRequest_def by (intro runs_rules)
  show "runs sv (checkACMERateLimit sv r)"
    by (rule runs_idle) (simp add: checkACMERateLimit_def timeNow_def bindM_def RecordEvent_def Let_def)
qed

lemma runs_ServeHTTP: "runs sv (ServeHTTP sv r)"
  unfolding ServeHTTP_def by (intro runs_rules)

section \<open>Sequences of requests\<close>

text \<open>A server answers requests one after the other; \<open>answers\<close> are its responses, \<open>afterRequests\<close> is the state it ends in.\<close>

primrec afterRequests :: "Server \<Rightarrow> Request list \<Rightarrow> httpState \<Rightarrow> httpState" where
  "afterRequests sv [] s = s"
| "afterRequests sv (r # rs) s = afterRequests sv rs (snd (ServeHTTP sv r s))"

primrec answers :: "Server \<Rightarrow> Request list \<Rightarrow> httpState \<Rightarrow> Response option result list" where
  "answers sv [] s = []"
| "answers sv (r # rs) s = fst (ServeHTTP sv r s) # answers sv rs (snd (ServeHTTP sv r s))"

lemma requests_run: "serviceRun (sv_service sv) (hs_world s) (hs_world (afterRequests sv rs s))"
  by (induction rs arbitrary: s) (auto intro: runIdle run_trans runs_ServeHTTP[unfolded runs_def, rule_format])

lemma afterRequests_append: "afterRequests sv (rs @ qs) s = afterRequests sv qs (afterRequests sv rs s)"
  by (induction rs arbitrary: s) simp_all

text \<open>
  Serving requests refines the state machine of the service: whatever the requests are, the server moves the service only by runs of its
  operations. So on a server that started on an empty store, after any requests, the invariant of the service holds, every ACME order that left
  pending has each of its names validated, and a certificate once revoked is still revoked after any further requests.
\<close>

theorem requests_refine_service:
  assumes "initial (sv_service sv) w" and s: "s = afterRequests sv rs (initialState w)"
  shows "serviceRun (sv_service sv) w (hs_world s) \<and>
    (\<forall>i order. mget (ms_acmeOrders (w_repo (hs_world s))) i = Some order \<and> ord_Status order \<noteq> ACMEOrderPending \<longrightarrow>
       orderValidated (w_repo (hs_world s)) order) \<and>
    (\<forall>k c qs. mget (ms_certificates (w_repo (hs_world s))) k = Some c \<and> cert_Status c = CertificateRevoked \<longrightarrow>
       (\<exists>c'. mget (ms_certificates (w_repo (hs_world (afterRequests sv qs s)))) k = Some c' \<and> cert_Status c' = CertificateRevoked))"
proof -
  have run: "serviceRun (sv_service sv) w (hs_world s)"
    using requests_run[of sv "initialState w" rs] by (simp add: initialState_def s)
  have ok: "sysok (sv_service sv) (hs_world s)" by (rule reachable_ok[OF assms(1) run])
  show ?thesis using run left_pending_validated[OF ok] evolves_rows(1)[OF run_rows[OF requests_run ok]] certificate_steps by blast
qed

end
