(* ===== verification/Workers.thy ===== *)
theory Workers
  imports HttpRuns
begin

text \<open>
  The background workers (\<^verbatim>\<open>internal/lifecycle/outbox_worker.go\<close>, \<^verbatim>\<open>internal/lifecycle/expiration_scan_worker.go\<close>) and the process they share with the
  HTTP server. A worker works once when it starts and once at every tick, logs errors and goes on; the ticks and the cancellation of the
  context are a list of events. The process interleaves ticks of both workers with requests in any order.
\<close>

section \<open>Workers\<close>

text \<open>What a worker changes: the service's world and the log.\<close>

record workerState =
  wk_world :: world
  wk_log :: "string list"

definition logf :: "string \<Rightarrow> workerState \<Rightarrow> workerState" where
  "logf line s = s\<lparr>wk_log := wk_log s @ [line]\<rparr>"

record OutboxWorker =
  ow_runner :: "int \<Rightarrow> (int \<times> error option) svc"
  ow_interval :: duration
  ow_batch :: int

definition OutboxWorker_runOnce :: "OutboxWorker \<Rightarrow> workerState \<Rightarrow> workerState" where
  "OutboxWorker_runOnce w s =
     (case ow_runner w (ow_batch w) (wk_world s) of
        (res, world) \<Rightarrow>
          let s' = s\<lparr>wk_world := world\<rparr> in
          case res of
            Inl err \<Rightarrow> logf (''outbox worker: '' @ error_text err) s'
          | Inr (_, Some err) \<Rightarrow> logf (''outbox worker: '' @ error_text err) s'
          | Inr (_, None) \<Rightarrow> s')"

record ExpirationScanWorker =
  esw_scanner :: "string \<Rightarrow> ScanCertificateExpirationsRequest \<Rightarrow> CertificateExpirationScanResult svc"
  esw_interval :: duration
  esw_warningWindow :: duration
  esw_batchSize :: int

definition expirationScanWorkerActor :: string where
  "expirationScanWorkerActor = ''system:expiration-scan-worker''"

definition ExpirationScanWorker_runOnce :: "ExpirationScanWorker \<Rightarrow> workerState \<Rightarrow> workerState" where
  "ExpirationScanWorker_runOnce w s =
     (case esw_scanner w expirationScanWorkerActor \<lparr>scr_WarningWindow = esw_warningWindow w, scr_Limit = esw_batchSize w\<rparr> (wk_world s) of
        (Inl err, world) \<Rightarrow> logf (''expiration scan worker: '' @ error_text err) (s\<lparr>wk_world := world\<rparr>)
      | (Inr result, world) \<Rightarrow>
          logf (''expiration scan worker: expired='' @ Itoa (int (length (scs_Expired result))) @ '' expiration_warnings='' @
            Itoa (int (length (scs_ExpirationWarnings result)))) (s\<lparr>wk_world := world\<rparr>))"

text \<open>
  The loop of \<^verbatim>\<open>runWithTicks\<close>, the same in both workers: \<^verbatim>\<open>select\<close> takes a tick or the end of the context, whichever the list says; at the end of the list the worker is waiting.
\<close>

datatype workerEvent = Tick | CtxDone

fun tickLoop :: "(workerState \<Rightarrow> workerState) \<Rightarrow> workerEvent list \<Rightarrow> workerState \<Rightarrow> workerState" where
  "tickLoop runOnce [] s = s"
| "tickLoop runOnce (CtxDone # events) s = s"
| "tickLoop runOnce (Tick # events) s = tickLoop runOnce events (runOnce s)"

definition OutboxWorker_runWithTicks :: "OutboxWorker \<Rightarrow> workerEvent list \<Rightarrow> workerState \<Rightarrow> workerState" where
  "OutboxWorker_runWithTicks w events s = tickLoop (OutboxWorker_runOnce w) events (OutboxWorker_runOnce w s)"

definition ExpirationScanWorker_runWithTicks :: "ExpirationScanWorker \<Rightarrow> workerEvent list \<Rightarrow> workerState \<Rightarrow> workerState" where
  "ExpirationScanWorker_runWithTicks w events s = tickLoop (ExpirationScanWorker_runOnce w) events (ExpirationScanWorker_runOnce w s)"

text \<open>The workers \<^verbatim>\<open>main\<close> starts: on the dispatcher and on the scan of the service, outside any request.\<close>

definition backgroundContext :: Context where
  "backgroundContext = \<lparr>ctx_auditRequest = None, ctx_apiKey = None\<rparr>"

definition NewOutboxWorker :: "Service \<Rightarrow> httpClient \<Rightarrow> duration \<Rightarrow> int \<Rightarrow> OutboxWorker" where
  "NewOutboxWorker svc client interval batch =
     \<lparr>ow_runner = OutboxDispatcher_RunOnce svc (outboxHandler svc (Some client)), ow_interval = interval, ow_batch = batch\<rparr>"

definition NewExpirationScanWorker :: "Service \<Rightarrow> duration \<Rightarrow> duration \<Rightarrow> int \<Rightarrow> ExpirationScanWorker" where
  "NewExpirationScanWorker svc interval warningWindow batchSize =
     \<lparr>esw_scanner = Service_ScanCertificateExpirations svc backgroundContext, esw_interval = interval,
      esw_warningWindow = warningWindow, esw_batchSize = batchSize\<rparr>"

section \<open>Workers are runs of the service\<close>

lemma OutboxWorker_runOnce_world:
  "wk_world (OutboxWorker_runOnce w s) = snd (ow_runner w (ow_batch w) (wk_world s))"
  by (auto simp: OutboxWorker_runOnce_def logf_def Let_def split: prod.split sum.split option.split)

lemma ExpirationScanWorker_runOnce_world:
  "wk_world (ExpirationScanWorker_runOnce w s) =
     snd (esw_scanner w expirationScanWorkerActor \<lparr>scr_WarningWindow = esw_warningWindow w, scr_Limit = esw_batchSize w\<rparr> (wk_world s))"
  by (auto simp: ExpirationScanWorker_runOnce_def logf_def split: prod.split sum.split)

lemma runOnce_steps:
  "serviceRun svc (wk_world s) (wk_world (OutboxWorker_runOnce (NewOutboxWorker svc client interval batch) s))"
  "serviceRun svc (wk_world s) (wk_world (ExpirationScanWorker_runOnce (NewExpirationScanWorker svc interval window batch) s))"
  unfolding OutboxWorker_runOnce_world ExpirationScanWorker_runOnce_world NewOutboxWorker_def NewExpirationScanWorker_def
  by (auto intro: runStep[OF runIdle] stepDispatchOutbox stepScanExpirations)

lemma tickLoop_runs:
  "(\<And>s. serviceRun svc (wk_world s) (wk_world (runOnce s))) \<Longrightarrow> serviceRun svc (wk_world s) (wk_world (tickLoop runOnce events s))"
  by (induction runOnce events s rule: tickLoop.induct) (auto intro: runIdle run_trans)

lemma startAndTicks_runs:
  assumes "\<And>s. serviceRun svc (wk_world s) (wk_world (runOnce s))"
  shows "serviceRun svc (wk_world s) (wk_world (tickLoop runOnce events (runOnce s)))"
  by (rule run_trans[OF tickLoop_runs]) (rule assms)+

lemma workers_run:
  "serviceRun svc (wk_world s) (wk_world (OutboxWorker_runWithTicks (NewOutboxWorker svc client interval batch) events s))"
  "serviceRun svc (wk_world s) (wk_world (ExpirationScanWorker_runWithTicks (NewExpirationScanWorker svc interval window batch) events s))"
  unfolding OutboxWorker_runWithTicks_def ExpirationScanWorker_runWithTicks_def by (rule startAndTicks_runs, rule runOnce_steps)+

text \<open>A worker never gives up: a failed round is logged and the next tick works again, so without cancellation there are as many rounds as ticks and one more.\<close>

lemma tickLoop_ticks: "tickLoop runOnce (replicate n Tick) s = (runOnce ^^ n) s"
  by (induction n arbitrary: s) (simp_all add: funpow_swap1)

section \<open>The process\<close>

text \<open>A handler of requests and the two workers on one service; \<open>None\<close> is a worker that is not started.\<close>

record processState =
  ps_http :: httpState
  ps_log :: "string list"

datatype processEvent = Serve Request | OutboxTick | ScanTick

definition onWorker :: "(workerState \<Rightarrow> workerState) \<Rightarrow> processState \<Rightarrow> processState" where
  "onWorker f s =
     (let t = f \<lparr>wk_world = hs_world (ps_http s), wk_log = ps_log s\<rparr> in
      s\<lparr>ps_http := (ps_http s)\<lparr>hs_world := wk_world t\<rparr>, ps_log := wk_log t\<rparr>)"

fun processStep ::
  "(Request \<Rightarrow> Response option http) \<Rightarrow> OutboxWorker option \<Rightarrow> ExpirationScanWorker option \<Rightarrow> processEvent \<Rightarrow> processState \<Rightarrow> processState" where
  "processStep handler ow ew (Serve r) s = s\<lparr>ps_http := snd (handler r (ps_http s))\<rparr>"
| "processStep handler ow ew OutboxTick s = (case ow of None \<Rightarrow> s | Some w \<Rightarrow> onWorker (OutboxWorker_runOnce w) s)"
| "processStep handler ow ew ScanTick s = (case ew of None \<Rightarrow> s | Some w \<Rightarrow> onWorker (ExpirationScanWorker_runOnce w) s)"

definition processRun ::
  "(Request \<Rightarrow> Response option http) \<Rightarrow> OutboxWorker option \<Rightarrow> ExpirationScanWorker option \<Rightarrow> processEvent list \<Rightarrow> processState \<Rightarrow> processState" where
  "processRun handler ow ew events s = fold (processStep handler ow ew) events s"

definition workersOf :: "Service \<Rightarrow> OutboxWorker option \<Rightarrow> ExpirationScanWorker option \<Rightarrow> bool" where
  "workersOf svc ow ew \<longleftrightarrow>
     (\<forall>w. ow = Some w \<longrightarrow> (\<exists>client interval batch. w = NewOutboxWorker svc client interval batch)) \<and>
     (\<forall>w. ew = Some w \<longrightarrow> (\<exists>interval window batch. w = NewExpirationScanWorker svc interval window batch))"

lemma processStep_runs:
  assumes "workersOf (sv_service sv) ow ew" and "\<And>r. runs sv (handler r)"
  shows "serviceRun (sv_service sv) (hs_world (ps_http s)) (hs_world (ps_http (processStep handler ow ew event s)))"
proof (cases event)
  case (Serve r)
  then show ?thesis using assms(2)[of r] by (simp add: runs_def)
next
  case OutboxTick
  then show ?thesis using assms(1)
    by (auto simp: onWorker_def Let_def workersOf_def runIdle split: option.split intro!: runOnce_steps(1)[where s = "\<lparr>wk_world = _, wk_log = _\<rparr>", simplified])
next
  case ScanTick
  then show ?thesis using assms(1)
    by (auto simp: onWorker_def Let_def workersOf_def runIdle split: option.split intro!: runOnce_steps(2)[where s = "\<lparr>wk_world = _, wk_log = _\<rparr>", simplified])
qed

lemma processRun_runs:
  assumes "workersOf (sv_service sv) ow ew" and "\<And>r. runs sv (handler r)"
  shows "serviceRun (sv_service sv) (hs_world (ps_http s)) (hs_world (ps_http (processRun handler ow ew events s)))"
proof -
  have step: "serviceRun (sv_service sv) (hs_world (ps_http s)) (hs_world (ps_http (processStep handler ow ew event s)))" for event s
    using assms by (rule processStep_runs)
  show ?thesis unfolding processRun_def by (induction events arbitrary: s) (auto intro: runIdle run_trans[OF _ step])
qed

end
