(* ===== verification/HttpAnswers.thy ===== *)
theory HttpAnswers
  imports HttpServer
begin

text \<open>
  What the server says: every request is answered or its connection dropped by a panic, an answer with data has status 200 or 201, and an error
  discloses one of the fixed texts of \<^verbatim>\<open>publicErrorMessage\<close> and never the text of a wrapped error.
\<close>

section \<open>Answers that disclose no error text\<close>

definition publicTexts :: "string set" where
  "publicTexts = insert ''internal server error'' (error_text ` set publicErrors)"

definition errorStatuses :: "int set" where
  "errorStatuses = {400, 401, 403, 404, 409, 415, 422, 429, 500, 502}"

fun isErrorBody :: "Body \<Rightarrow> bool" where
  "isErrorBody (BError m) = True"
| "isErrorBody (BProblem p) = True"
| "isErrorBody b = False"

fun errorBodyOk :: "int \<Rightarrow> string option \<Rightarrow> Body \<Rightarrow> bool" where
  "errorBodyOk status contentType (BError m) \<longleftrightarrow> contentType = Some ''application/json'' \<and> m \<in> publicTexts"
| "errorBodyOk status contentType (BProblem p) \<longleftrightarrow> contentType = Some ''application/problem+json'' \<and> prb_Status p = status \<and> prb_Detail p \<in> publicTexts"
| "errorBodyOk status contentType b \<longleftrightarrow> False"

text \<open>Data with a success, an error body with an error status, or one of the bare answers of the multiplexer.\<close>

definition disclosed :: "Response \<Rightarrow> bool" where
  "disclosed resp \<longleftrightarrow>
     rs_Status resp \<in> {200, 201} \<and> \<not> isErrorBody (rs_Body resp) \<or>
     rs_Status resp \<in> errorStatuses \<and> errorBodyOk (rs_Status resp) (mget (rs_Header resp) ''Content-Type'') (rs_Body resp) \<or>
     rs_Status resp \<in> {301, 404, 405} \<and> rs_Body resp = BNone"

lemma publicErrorMessage_public: "publicErrorMessage err \<in> publicTexts"
proof -
  have "e \<in> set es" if "firstIs err es = Some e" for e es using that by (induction es) (auto split: if_splits)
  then show ?thesis by (auto simp: publicErrorMessage_def publicTexts_def publicErrors_def split: option.split)
qed

lemma statusForError_range: "statusForError err \<in> errorStatuses"
  by (simp add: statusForError_def errorStatuses_def)

section \<open>Rules\<close>

named_theorems shape_rules \<open>syntax-directed rules for the answers of handlers\<close>

definition shaped :: "Response option http \<Rightarrow> bool" where
  "shaped m \<longleftrightarrow> (\<forall>s resp. fst (m s) = Inr (Some resp) \<longrightarrow> disclosed resp)"

definition answering :: "'a http \<Rightarrow> bool" where
  "answering m \<longleftrightarrow> (\<forall>s. \<exists>x. fst (m s) = Inr x)"

lemma shaped_bind [shape_rules]: "(\<And>x. shaped (f x)) \<Longrightarrow> shaped (bindM m f)"
  by (auto simp: shaped_def bindM_def split: prod.splits sum.splits)

lemma shaped_then [shape_rules]: "shaped k \<Longrightarrow> shaped (thenM m k)"
  unfolding thenM_def by (rule shaped_bind)

lemma shaped_control [shape_rules]:
  "shaped (throwM e)" "shaped k \<Longrightarrow> shaped (failIf b e k)" "shaped m \<Longrightarrow> shaped m' \<Longrightarrow> shaped (if b then m else m')"
  "(\<And>x. shaped (h x)) \<Longrightarrow> shaped (let x = v in h x)" "shaped (returnM None)"
  by (auto simp: shaped_def failIf_def)

lemma shaped_case_prod [shape_rules]: "(\<And>x y. shaped (h2 x y)) \<Longrightarrow> shaped (case p of (x, y) \<Rightarrow> h2 x y)"
  by (cases p) simp

lemma shaped_return [shape_rules]: "disclosed resp \<Longrightarrow> shaped (returnM (Some resp))"
  by (simp add: shaped_def)

lemma shaped_reply [shape_rules]: "status \<in> {200, 201} \<Longrightarrow> \<not> isErrorBody body \<Longrightarrow> shaped (reply status body)"
  by (auto simp: reply_def writeJSON_def disclosed_def shaped_def)

lemma shaped_replyList [shape_rules]: "(\<And>xs. \<not> isErrorBody (body xs)) \<Longrightarrow> shaped (replyList body items)"
  by (auto simp: replyList_def intro!: shape_rules split: option.split)

lemma shaped_writeACMEJSON [shape_rules]: "status \<in> {200, 201} \<Longrightarrow> \<not> isErrorBody body \<Longrightarrow> shaped (writeACMEJSON sv r h status body)"
  unfolding writeACMEJSON_def by (intro shape_rules) (auto simp: disclosed_def)

lemma answering_rules [shape_rules]:
  "answering (returnM x)" "answering (attemptM m1)" "answering m \<Longrightarrow> (\<And>x. answering (f x)) \<Longrightarrow> answering (bindM m f)"
  "answering m \<Longrightarrow> answering k \<Longrightarrow> answering (thenM m k)" "answering m' \<Longrightarrow> answering m'' \<Longrightarrow> answering (if b then m' else m'')"
  "(\<And>x. answering (h x)) \<Longrightarrow> answering (let x = v in h x)" "answering (timeNow sv)" "answering (finishRequest i b' ans)" "answering (countEvent key)"
  by (auto simp: answering_def attemptM_def bindM_def thenM_def timeNow_def finishRequest_def countEvent_def split: prod.splits sum.splits)
    (metis fst_conv sum.distinct(1))+

lemma answering_case_sum [shape_rules]:
  "(\<And>e. answering (f e)) \<Longrightarrow> (\<And>x. answering (g x)) \<Longrightarrow> answering (case res of Inl e \<Rightarrow> f e | Inr x \<Rightarrow> g x)"
  by (cases res) simp_all

section \<open>Errors\<close>

lemma writeError_answering [shape_rules]: "answering (writeError sv r err)"
proof -
  have "answering (replayNonceHeader sv r)" unfolding replayNonceHeader_def by (intro shape_rules)
  then show ?thesis unfolding writeError_def writeACMEProblem_def by (intro shape_rules)
qed

lemma writeError_disclosed:
  assumes "fst (writeError sv r err s) = Inr resp"
  shows "disclosed resp \<and> rs_Status resp = statusForError err"
proof -
  have problem: "disclosed resp' \<and> rs_Status resp' = statusForError err"
    if "fst (writeACMEProblem sv r (statusForError err) err s') = Inr resp'" for resp' s'
    using that statusForError_range[of err] publicErrorMessage_public[of err]
    by (auto simp: writeACMEProblem_def bindM_def disclosed_def Let_def split: prod.splits sum.splits)
  have plain: "disclosed (writeJSON (statusForError err) (BError (publicErrorMessage err))) \<and> rs_Status (writeJSON (statusForError err) b) = statusForError err" for b
    using statusForError_range[of err] publicErrorMessage_public[of err] by (simp add: writeJSON_def disclosed_def)
  show ?thesis using assms problem plain
    by (auto simp: writeError_def Let_def thenM_def bindM_def split: prod.splits sum.splits if_splits)
qed

lemma shaped_writeError: "shaped (bindM (writeError sv r err) (\<lambda>resp. returnM (Some resp)))"
  using writeError_disclosed by (auto simp: shaped_def bindM_def split: prod.splits sum.splits) (metis fst_conv)

lemma shaped_handled [shape_rules]:
  assumes "shaped m"
  shows "shaped (handled sv r m)"
  unfolding shaped_def
proof (intro allI impI)
  fix s resp
  assume run: "fst (handled sv r m s) = Inr (Some resp)"
  obtain res s1 where m: "m s = (res, s1)" by (cases "m s")
  show "disclosed resp"
  proof (cases res)
    case (Inl err)
    then have "fst (bindM (writeError sv r err) (\<lambda>resp. returnM (Some resp)) s1) = Inr (Some resp)"
      using run m by (simp add: handled_def bindM_def attemptM_def)
    then show ?thesis using shaped_writeError[unfolded shaped_def] by blast
  next
    case (Inr ans)
    then show ?thesis using run m assms[unfolded shaped_def, rule_format, of s resp] by (simp add: handled_def bindM_def attemptM_def)
  qed
qed

lemma answering_handled [shape_rules]: "answering (handled sv r m)"
  unfolding handled_def by (intro shape_rules)

section \<open>Handlers\<close>

lemma shaped_registers [shape_rules]:
  "shaped (createIdentity sv r)" "shaped (listIdentities sv r)" "shaped (getIdentity sv r)" "shaped (createIssuer sv r)"
  "shaped (getIssuerChain sv r)" "shaped (createOCSPResponder sv r)" "shaped (listOCSPResponders sv r)" "shaped (disableOCSPResponder sv r)"
  "shaped (rotateOCSPResponder sv r)" "shaped (createNotificationEndpoint sv r)" "shaped (listNotificationEndpoints sv r)"
  "shaped (disableNotificationEndpoint sv r)" "shaped (listOutboxMessages sv r)" "shaped (retryOutboxMessage sv r)"
  "shaped (replayDeadLetterOutboxMessages sv r)" "shaped (createAPIKey sv r)" "shaped (listAPIKeys sv r)" "shaped (disableAPIKey sv r)"
  "shaped (rotateAPIKey sv r)" "shaped (createCertificateProfile sv r)" "shaped (listCertificateProfiles sv r)" "shaped (getCertificateProfile sv r)"
  "shaped (createEnrollment sv r)"
  unfolding createIdentity_def listIdentities_def getIdentity_def createIssuer_def getIssuerChain_def createOCSPResponder_def listOCSPResponders_def
    disableOCSPResponder_def rotateOCSPResponder_def createNotificationEndpoint_def listNotificationEndpoints_def disableNotificationEndpoint_def
    listOutboxMessages_def retryOutboxMessage_def replayDeadLetterOutboxMessages_def createAPIKey_def listAPIKeys_def disableAPIKey_def
    rotateAPIKey_def createCertificateProfile_def listCertificateProfiles_def getCertificateProfile_def createEnrollment_def
  by ((intro shape_rules; simp add: disclosed_def))+

lemma shaped_certificates [shape_rules]:
  "shaped (listEnrollments sv r)" "shaped (getEnrollment sv r)" "shaped (approveEnrollment sv r)" "shaped (rejectEnrollment sv r)"
  "shaped (issueCertificate sv r)" "shaped (listCertificates sv r)" "shaped (listCertificateInventory sv r)" "shaped (getExpirySLO sv r)"
  "shaped (scanCertificateExpirations sv r)" "shaped (getCertificate sv r)" "shaped (revokeCertificateHandler sv r)"
  "shaped (suspendCertificate sv r)" "shaped (resumeCertificate sv r)" "shaped (renewCertificate sv r)" "shaped (reissueCertificate sv r)"
  "shaped (publishCRL sv r)" "shaped (getCRLPublication sv r)" "shaped (getLatestIssuerCRL sv r)" "shaped (respondOCSP sv r)"
  "shaped (listAuditEvents sv r)" "shaped (pruneAuditEvents sv r)" "shaped (repairIssuanceAuditEvents sv r)" "shaped (listTrustAnchors sv r)"
  unfolding listEnrollments_def getEnrollment_def approveEnrollment_def rejectEnrollment_def issueCertificate_def listCertificates_def
    listCertificateInventory_def getExpirySLO_def scanCertificateExpirations_def getCertificate_def revokeCertificateHandler_def
    suspendCertificate_def resumeCertificate_def renewCertificate_def reissueCertificate_def publishCRL_def getCRLPublication_def
    getLatestIssuerCRL_def respondOCSP_def listAuditEvents_def pruneAuditEvents_def repairIssuanceAuditEvents_def listTrustAnchors_def
  by ((intro shape_rules; simp add: disclosed_def))+

lemma shaped_acme [shape_rules]:
  "shaped (acmeDirectory sv r)" "shaped (acmeNewNonce sv r)" "shaped (acmeNewAccount sv r)" "shaped (acmeUpdateAccount sv r)"
  "shaped (acmeKeyChange sv r)" "shaped (acmeNewOrder sv r)" "shaped (acmeGetOrder sv r)" "shaped (acmePostAsGetOrder sv r)"
  "shaped (acmeGetAuthorization sv r)" "shaped (acmePostAsGetAuthorization sv r)" "shaped (acmeCompleteChallenge sv r)"
  "shaped (acmeFinalizeOrder sv r)" "shaped (acmeRevokeCertificate sv r)" "shaped (acmeGetCertificate sv r)" "shaped (acmePostAsGetCertificate sv r)"
  "shaped (createACMEAccountHandler sv r)" "shaped (listACMEAccounts sv r)" "shaped (createACMEOrderHandler sv r)" "shaped (getACMEOrder sv r)"
  "shaped (listACMEAuthorizations sv r)" "shaped (listACMEChallenges sv r)" "shaped (completeACMEChallenge sv r)" "shaped (finalizeACMEOrder sv r)"
  unfolding acmeDirectory_def acmeNewNonce_def acmeNewAccount_def acmeUpdateAccount_def acmeKeyChange_def acmeNewOrder_def acmeGetOrder_def
    acmePostAsGetOrder_def acmeGetAuthorization_def acmePostAsGetAuthorization_def acmeCompleteChallenge_def acmeFinalizeOrder_def
    acmeRevokeCertificate_def acmeGetCertificate_def acmePostAsGetCertificate_def createACMEAccountHandler_def listACMEAccounts_def
    createACMEOrderHandler_def getACMEOrder_def listACMEAuthorizations_def listACMEChallenges_def completeACMEChallenge_def finalizeACMEOrder_def
  by ((intro shape_rules; simp add: disclosed_def))+

lemma answering_registers [shape_rules]:
  "answering (createIdentity sv r)" "answering (listIdentities sv r)" "answering (getIdentity sv r)" "answering (createIssuer sv r)"
  "answering (getIssuerChain sv r)" "answering (createOCSPResponder sv r)" "answering (listOCSPResponders sv r)" "answering (disableOCSPResponder sv r)"
  "answering (rotateOCSPResponder sv r)" "answering (createNotificationEndpoint sv r)" "answering (listNotificationEndpoints sv r)"
  "answering (disableNotificationEndpoint sv r)" "answering (listOutboxMessages sv r)" "answering (retryOutboxMessage sv r)"
  "answering (replayDeadLetterOutboxMessages sv r)" "answering (createAPIKey sv r)" "answering (listAPIKeys sv r)" "answering (disableAPIKey sv r)"
  "answering (rotateAPIKey sv r)" "answering (createCertificateProfile sv r)" "answering (listCertificateProfiles sv r)" "answering (getCertificateProfile sv r)"
  "answering (createEnrollment sv r)"
  unfolding createIdentity_def listIdentities_def getIdentity_def createIssuer_def getIssuerChain_def createOCSPResponder_def listOCSPResponders_def
    disableOCSPResponder_def rotateOCSPResponder_def createNotificationEndpoint_def listNotificationEndpoints_def disableNotificationEndpoint_def
    listOutboxMessages_def retryOutboxMessage_def replayDeadLetterOutboxMessages_def createAPIKey_def listAPIKeys_def disableAPIKey_def
    rotateAPIKey_def createCertificateProfile_def listCertificateProfiles_def getCertificateProfile_def createEnrollment_def
  by (intro shape_rules)+

lemma answering_certificates [shape_rules]:
  "answering (listEnrollments sv r)" "answering (getEnrollment sv r)" "answering (approveEnrollment sv r)" "answering (rejectEnrollment sv r)"
  "answering (issueCertificate sv r)" "answering (listCertificates sv r)" "answering (listCertificateInventory sv r)" "answering (getExpirySLO sv r)"
  "answering (scanCertificateExpirations sv r)" "answering (getCertificate sv r)" "answering (revokeCertificateHandler sv r)"
  "answering (suspendCertificate sv r)" "answering (resumeCertificate sv r)" "answering (renewCertificate sv r)" "answering (reissueCertificate sv r)"
  "answering (publishCRL sv r)" "answering (getCRLPublication sv r)" "answering (getLatestIssuerCRL sv r)" "answering (respondOCSP sv r)"
  "answering (listAuditEvents sv r)" "answering (pruneAuditEvents sv r)" "answering (repairIssuanceAuditEvents sv r)" "answering (listTrustAnchors sv r)"
  unfolding listEnrollments_def getEnrollment_def approveEnrollment_def rejectEnrollment_def issueCertificate_def listCertificates_def
    listCertificateInventory_def getExpirySLO_def scanCertificateExpirations_def getCertificate_def revokeCertificateHandler_def
    suspendCertificate_def resumeCertificate_def renewCertificate_def reissueCertificate_def publishCRL_def getCRLPublication_def
    getLatestIssuerCRL_def respondOCSP_def listAuditEvents_def pruneAuditEvents_def repairIssuanceAuditEvents_def listTrustAnchors_def
  by (intro shape_rules)+

lemma answering_acme [shape_rules]:
  "answering (acmeNewNonce sv r)" "answering (acmeNewAccount sv r)" "answering (acmeUpdateAccount sv r)" "answering (acmeKeyChange sv r)"
  "answering (acmeNewOrder sv r)" "answering (acmeGetOrder sv r)" "answering (acmePostAsGetOrder sv r)" "answering (acmeGetAuthorization sv r)"
  "answering (acmePostAsGetAuthorization sv r)" "answering (acmeCompleteChallenge sv r)" "answering (acmeFinalizeOrder sv r)"
  "answering (acmeRevokeCertificate sv r)" "answering (acmeGetCertificate sv r)" "answering (acmePostAsGetCertificate sv r)"
  "answering (createACMEAccountHandler sv r)" "answering (listACMEAccounts sv r)" "answering (createACMEOrderHandler sv r)" "answering (getACMEOrder sv r)"
  "answering (listACMEAuthorizations sv r)" "answering (listACMEChallenges sv r)" "answering (completeACMEChallenge sv r)" "answering (finalizeACMEOrder sv r)"
  unfolding acmeNewNonce_def acmeNewAccount_def acmeUpdateAccount_def acmeKeyChange_def acmeNewOrder_def acmeGetOrder_def acmePostAsGetOrder_def
    acmeGetAuthorization_def acmePostAsGetAuthorization_def acmeCompleteChallenge_def acmeFinalizeOrder_def acmeRevokeCertificate_def
    acmeGetCertificate_def acmePostAsGetCertificate_def createACMEAccountHandler_def listACMEAccounts_def createACMEOrderHandler_def getACMEOrder_def
    listACMEAuthorizations_def listACMEChallenges_def completeACMEChallenge_def finalizeACMEOrder_def
  by (intro shape_rules)+

lemma route_answers:
  assumes "(method, pattern, handler) \<in> set (routes sv)"
  shows "shaped (handler r) \<and> answering (handler r)"
proof -
  have "shaped (debugVars sv r)" "answering (debugVars sv r)" "answering (acmeDirectory sv r)"
    by (auto simp: debugVars_def shaped_def answering_def disclosed_def acmeDirectory_def reply_def Let_def)
  with assms show ?thesis unfolding routes_def by (auto intro: shape_rules)
qed

lemma serveMux_answers: "shaped (serveMux sv r)" "answering (serveMux sv r)"
proof -
  have plain: "shaped (plainStatus status)" "answering (plainStatus status)" if "status \<in> {301, 404, 405}" for status
    using that by (auto simp: plainStatus_def shaped_def answering_def disclosed_def)
  have route: "shaped (h q) \<and> answering (h q)" if "routeFor sv r = Some (m, p, h)" for m p h q
    using that route_answers[of m p h sv q] by (auto simp: routeFor_def find_Some_iff dest!: nth_mem)
  show "shaped (serveMux sv r)" "answering (serveMux sv r)"
    unfolding serveMux_def using plain route by (auto split: option.split)
qed

text \<open>The request identifier is added to whatever answer there is.\<close>

definition finished :: "Response option http \<Rightarrow> bool" where
  "finished m \<longleftrightarrow> (\<forall>s resp. fst (m s) = Inr (Some resp) \<longrightarrow> disclosed resp \<and> mget (rs_Header resp) ''X-Request-ID'' \<noteq> None)"

lemma finished_bind: "(\<And>x. finished (f x)) \<Longrightarrow> finished (bindM m f)" "finished k \<Longrightarrow> finished (thenM m k)"
  by (auto simp: finished_def bindM_def thenM_def split: prod.splits sum.splits)

lemma finished_case_sum: "(\<And>e. finished (f e)) \<Longrightarrow> (\<And>x. finished (g x)) \<Longrightarrow> finished (case res of Inl e \<Rightarrow> f e | Inr x \<Rightarrow> g x)"
  by (cases res) simp_all

lemma finished_finishRequest: "(\<And>resp. ans = Some resp \<Longrightarrow> disclosed resp) \<Longrightarrow> finished (finishRequest i b ans)"
  by (auto simp: finished_def finishRequest_def disclosed_def)

lemma finished_served:
  assumes "shaped m"
  shows "finished (bindM m (\<lambda>ans. finishRequest i b ans))"
  unfolding finished_def
proof (intro allI impI)
  fix s resp
  assume run: "fst (bindM m (\<lambda>ans. finishRequest i b ans) s) = Inr (Some resp)"
  obtain ans s1 where m: "m s = (Inr ans, s1)" using run by (cases "m s"; cases "fst (m s)") (auto simp: bindM_def)
  then have "finished (finishRequest i b ans)"
    using assms[unfolded shaped_def, rule_format, of s] by (intro finished_finishRequest) simp
  then show "disclosed resp \<and> mget (rs_Header resp) ''X-Request-ID'' \<noteq> None"
    using run m by (simp add: finished_def bindM_def)
qed

lemma finished_refused: "finished (bindM (writeError sv r err) (\<lambda>resp. finishRequest i b (Some resp)))"
proof -
  have "bindM (writeError sv r err) (\<lambda>resp. finishRequest i b (Some resp)) =
      bindM (bindM (writeError sv r err) (\<lambda>resp. returnM (Some resp))) (\<lambda>ans. finishRequest i b ans)"
    by (rule ext) (simp add: bindM_def split: prod.splits sum.splits)
  then show ?thesis using finished_served[OF shaped_writeError] by simp
qed

text \<open>
  C26: the server answers every request, or drops the connection when a handler panics; it never fails otherwise. Every answer carries the
  request identifier; data comes only with status 200 or 201; an error comes with one of the ten error statuses, as JSON or, on the
  ACME endpoints, as a problem document with that status, and its text is one of the fixed public texts, so that no wrapped error is disclosed.
\<close>

theorem answers_disclose_no_errors:
  "\<exists>ans. fst (ServeHTTP sv r s) = Inr ans \<and>
     (case ans of None \<Rightarrow> True | Some resp \<Rightarrow> disclosed resp \<and> mget (rs_Header resp) ''X-Request-ID'' \<noteq> None)"
proof -
  have total: "answering (ServeHTTP sv r)"
    unfolding ServeHTTP_def requestIDForRequest_def by (intro shape_rules serveMux_answers)
  have "finished (ServeHTTP sv r)"
    unfolding ServeHTTP_def Let_def by (intro finished_bind finished_case_sum finished_refused finished_served serveMux_answers)
  then show ?thesis using total[unfolded answering_def, rule_format, of s] by (auto simp: finished_def split: option.split)
qed

end
