(* ===== verification/HttpAccess.thy ===== *)
theory HttpAccess
  imports HttpAnswers
begin

text \<open>
  Who may call what: which routes are open to everybody and which need the operator scope, and what a request without a usable API key gets.
\<close>

section \<open>Routes and scopes\<close>

definition publicPatterns :: "(string \<times> Seg list) list" where
  "publicPatterns =
     [(''POST'', [Lit ''ocsp'']), (''GET'', [Lit ''crls'', Wild ''id'']), (''GET'', [Lit ''issuers'', Wild ''id'', Lit ''crl'']),
      (''GET'', [Lit ''acme'', Lit ''directory'']), (''HEAD'', [Lit ''acme'', Lit ''new-nonce'']), (''GET'', [Lit ''acme'', Lit ''new-nonce'']),
      (''POST'', [Lit ''acme'', Lit ''new-account'']), (''POST'', [Lit ''acme'', Lit ''new-order'']), (''POST'', [Lit ''acme'', Lit ''key-change'']),
      (''POST'', [Lit ''acme'', Lit ''revoke-cert'']), (''POST'', [Lit ''acme'', Lit ''account'', Wild ''id'']),
      (''GET'', [Lit ''acme'', Lit ''order'', Wild ''id'']), (''POST'', [Lit ''acme'', Lit ''order'', Wild ''id'']),
      (''POST'', [Lit ''acme'', Lit ''order'', Wild ''id'', Lit ''finalize'']), (''GET'', [Lit ''acme'', Lit ''authz'', Wild ''id'']),
      (''POST'', [Lit ''acme'', Lit ''authz'', Wild ''id'']), (''POST'', [Lit ''acme'', Lit ''challenge'', Wild ''id'']),
      (''GET'', [Lit ''acme'', Lit ''cert'', Wild ''id'']), (''POST'', [Lit ''acme'', Lit ''cert'', Wild ''id''])]"

definition operatorPatterns :: "Seg list list" where
  "operatorPatterns =
     [[Lit ''api-keys''], [Lit ''api-keys'', Wild ''id'', Lit ''rotate''], [Lit ''api-keys'', Wild ''id'', Lit ''disable''],
      [Lit ''outbox'', Lit ''messages''], [Lit ''outbox'', Lit ''messages'', Lit ''dead-letter'', Lit ''replay''],
      [Lit ''outbox'', Lit ''messages'', Wild ''id'', Lit ''retry''], [Lit ''operator'', Lit ''certificate-inventory''],
      [Lit ''operator'', Lit ''expiry-slo''], [Lit ''certificates'', Lit ''expiration-scan''], [Lit ''audit-events''],
      [Lit ''audit-events'', Lit ''retention'', Lit ''prune''], [Lit ''audit-events'', Lit ''repair'', Lit ''issuance'']]"

fun fits :: "Seg list \<Rightarrow> string list \<Rightarrow> bool" where
  "fits [] segs \<longleftrightarrow> segs = []"
| "fits (Lit l # ps) segs \<longleftrightarrow> (\<exists>ss. segs = l # ss \<and> fits ps ss)"
| "fits (Wild n # ps) segs \<longleftrightarrow> (\<exists>x ss. x \<noteq> [] \<and> segs = x # ss \<and> fits ps ss)"

lemma matchSegs_fits: "fits ps segs \<longleftrightarrow> matchSegs ps segs v \<noteq> None"
proof (induction ps arbitrary: segs v)
  case Nil
  then show ?case by (cases segs) simp_all
next
  case (Cons p ps)
  then show ?case by (cases p; cases segs) simp_all
qed

lemma fits_empty: "fits ps segs \<Longrightarrow> segs = [] \<longleftrightarrow> ps = []"
  by (cases ps; cases "hd ps") auto

text \<open>Paths by their segments.\<close>

definition pathOf :: "string list \<Rightarrow> string" where
  "pathOf segs = concat (map ((#) CHR ''/'') segs)"

lemma pathOf_simps [simp]: "pathOf [] = []" "pathOf (l # ss) = CHR ''/'' # l @ pathOf ss" "pathOf ss = [] \<longleftrightarrow> ss = []"
  by (simp_all add: pathOf_def)

lemma URLPath_pathOf: "URLPath r = pathOf (rq_Segments r)"
  by (simp add: URLPath_def pathOf_def)

definition unslashed :: "string \<Rightarrow> bool" where
  "unslashed l \<longleftrightarrow> CHR ''/'' \<notin> set l"

lemma HasPrefix_Cons: "HasPrefix (c # s) (d # p) \<longleftrightarrow> c = d \<and> HasPrefix s p" "\<not> HasPrefix [] (d # p)"
  by (auto simp: HasPrefix_def)

lemma HasPrefix_mono: "HasPrefix s p \<Longrightarrow> HasPrefix p q \<Longrightarrow> HasPrefix s q"
  by (auto simp: HasPrefix_append)

lemma seg_prefix:
  assumes "unslashed a" "unslashed l"
  shows "HasPrefix (l @ pathOf ss) (a @ CHR ''/'' # q) \<longleftrightarrow> l = a \<and> HasPrefix (pathOf ss) (CHR ''/'' # q)"
  using assms
proof (induction a arbitrary: l)
  case Nil
  then show ?case by (cases l; cases ss) (auto simp: HasPrefix_Cons unslashed_def)
next
  case (Cons c a)
  then show ?case by (cases l; cases ss) (auto simp: HasPrefix_Cons unslashed_def)
qed

lemma seg_eq:
  assumes "unslashed a" "unslashed l"
  shows "l @ pathOf ss = a \<longleftrightarrow> l = a \<and> ss = []"
  using assms by (cases ss) (auto simp: unslashed_def)

lemma seg_last: "HasPrefix (pathOf ss) ''/'' \<longleftrightarrow> ss \<noteq> []"
  by (cases ss) (simp_all add: HasPrefix_Cons)

lemma routed:
  assumes "routeFor sv r = Some (method, pattern, handler)"
  shows "(method, pattern, handler) \<in> set (routes sv) \<and> methodMatches method (rq_Method r) \<and> fits pattern (rq_Segments r)"
  using assms unfolding matchSegs_fits[of _ _ mempty] by (auto simp: routeFor_def find_Some_iff dest!: nth_mem)

text \<open>The open paths of the ACME protocol: the second segment and what follows decide.\<close>

definition acmeOpen :: "string \<Rightarrow> string \<Rightarrow> bool \<Rightarrow> bool" where
  "acmeOpen method l longer \<longleftrightarrow>
     (if longer then l \<in> {''order'', ''authz'', ''cert''} \<and> (method = ''GET'' \<or> method = ''POST'') \<or> l \<in> {''account'', ''challenge''} \<and> method = ''POST''
      else l = ''directory'' \<and> method = ''GET'' \<or> l = ''new-nonce'' \<and> (method = ''HEAD'' \<or> method = ''GET'') \<or>
        l \<in> {''new-account'', ''new-order'', ''key-change'', ''revoke-cert''} \<and> method = ''POST'')"

lemma acme_disjuncts:
  "isPublicACMEProtocolEndpoint method path \<longleftrightarrow>
     method = ''GET'' \<and> path = ''/acme/directory'' \<or> (method = ''HEAD'' \<or> method = ''GET'') \<and> path = ''/acme/new-nonce'' \<or>
     method = ''POST'' \<and> (path = ''/acme/new-account'' \<or> path = ''/acme/new-order'' \<or> path = ''/acme/key-change'' \<or> path = ''/acme/revoke-cert'') \<or>
     method = ''POST'' \<and> HasPrefix path ''/acme/account/'' \<or>
     method = ''GET'' \<and> (HasPrefix path ''/acme/order/'' \<or> HasPrefix path ''/acme/authz/'') \<or>
     method = ''POST'' \<and> (HasPrefix path ''/acme/order/'' \<or> HasPrefix path ''/acme/authz/'' \<or> HasPrefix path ''/acme/challenge/'' \<or> HasPrefix path ''/acme/cert/'') \<or>
     method = ''GET'' \<and> HasPrefix path ''/acme/cert/''"
  unfolding isPublicACMEProtocolEndpoint_def by argo

lemma acme_open:
  assumes l: "unslashed l"
  shows "isPublicACMEProtocolEndpoint method (pathOf (''acme'' # l # ss)) \<longleftrightarrow> acmeOpen method l (ss \<noteq> [])"
proof -
  define path where "path = pathOf (''acme'' # l # ss)"
  have eq: "path = ''/acme/'' @ a \<longleftrightarrow> l = a \<and> ss = []" if "unslashed a" for a
    using seg_eq[OF that l] by (simp add: path_def)
  have pre: "HasPrefix path (''/acme/'' @ a @ ''/'') \<longleftrightarrow> l = a \<and> ss \<noteq> []" if "unslashed a" for a
    using seg_prefix[OF that l, of ss "[]"] by (simp add: HasPrefix_Cons seg_last path_def)
  note lits = eq[of "''directory''"] eq[of "''new-nonce''"] eq[of "''new-account''"] eq[of "''new-order''"] eq[of "''key-change''"] eq[of "''revoke-cert''"]
    pre[of "''account''"] pre[of "''order''"] pre[of "''authz''"] pre[of "''challenge''"] pre[of "''cert''"]
  show ?thesis unfolding path_def[symmetric] acme_disjuncts lits[simplified unslashed_def, simplified] acmeOpen_def
    by (cases "ss = []") (simp_all only: simp_thms if_True if_False insert_iff empty_iff, argo+)
qed

lemma acme_closed:
  assumes l: "unslashed l" "l \<noteq> ''acme''"
  shows "\<not> isPublicACMEProtocolEndpoint method (pathOf (l # ss))"
proof -
  define path where "path = pathOf (l # ss)"
  have a: "unslashed ''acme''" by (simp add: unslashed_def)
  have pre: "\<not> HasPrefix path (''/acme/'' @ q)" for q
    using seg_prefix[OF a l(1), of ss q] l(2) by (simp add: HasPrefix_Cons path_def)
  have eq: "path \<noteq> ''/acme/'' @ q" for q
    using pre[of q] by (auto simp: HasPrefix_append)
  note lits = eq[of "''directory''"] eq[of "''new-nonce''"] eq[of "''new-account''"] eq[of "''new-order''"] eq[of "''key-change''"] eq[of "''revoke-cert''"]
    pre[of "''account/''"] pre[of "''order/''"] pre[of "''authz/''"] pre[of "''challenge/''"] pre[of "''cert/''"]
  show ?thesis unfolding path_def[symmetric] acme_disjuncts by (simp only: lits[simplified] simp_thms)
qed

text \<open>The other open paths.\<close>

lemma other_open:
  assumes l: "unslashed l" and pub: "isPublicEndpoint method (pathOf (l # ss))" and no: "\<not> isPublicACMEProtocolEndpoint method (pathOf (l # ss))"
  shows "method = ''POST'' \<and> l = ''ocsp'' \<and> ss = [] \<or> method = ''GET'' \<and> l = ''crls'' \<and> ss \<noteq> [] \<or>
    method = ''GET'' \<and> l = ''issuers'' \<and> HasSuffix (pathOf (l # ss)) ''/crl''"
proof -
  have a: "unslashed ''ocsp''" "unslashed ''crls''" "unslashed ''issuers''" by (simp_all add: unslashed_def)
  have pre: "HasPrefix (CHR ''/'' # l @ pathOf ss) (CHR ''/'' # q @ ''/'') \<longleftrightarrow> l = q \<and> ss \<noteq> []" if "unslashed q" for q
    using seg_prefix[OF that l, of ss "[]"] by (simp add: HasPrefix_Cons seg_last)
  have eq: "CHR ''/'' # l @ pathOf ss = CHR ''/'' # q \<longleftrightarrow> l = q \<and> ss = []" if "unslashed q" for q
    using seg_eq[OF that l] by simp
  show ?thesis using pub no pre[OF a(2)] pre[OF a(3)] eq[OF a(1)]
    by (auto simp: isPublicEndpoint_def split: if_splits)
qed

text \<open>The table without its handlers.\<close>

definition patterns :: "(string \<times> Seg list) list" where
  "patterns = map (\<lambda>(method, pattern, handler). (method, pattern)) (routes undefined)"

lemma patterns_eq: "map (\<lambda>(method, pattern, handler). (method, pattern)) (routes sv) = patterns"
  by (simp add: patterns_def routes_def)

lemma in_patterns: "(method, pattern, handler) \<in> set (routes sv) \<Longrightarrow> (method, pattern) \<in> set patterns"
  unfolding patterns_eq[of sv, symmetric] by force

lemmas patterns_list = patterns_def[unfolded routes_def, simplified]

lemma patterns_literal_all: "list_all (\<lambda>(method, pattern). case pattern of Lit l # ps \<Rightarrow> unslashed l | _ \<Rightarrow> False) patterns"
  by (simp add: patterns_list unslashed_def)

lemma patterns_acme_all:
  "list_all (\<lambda>(method, pattern). case pattern of Lit l # ps \<Rightarrow> l = ''acme'' \<longrightarrow>
     (case ps of Lit l' # qs \<Rightarrow> unslashed l' \<and> (\<forall>m. methodMatches method m \<and> acmeOpen m l' (qs \<noteq> []) \<longrightarrow> (m, pattern) \<in> set publicPatterns) | _ \<Rightarrow> False)
     | _ \<Rightarrow> False) patterns"
  by (auto simp: patterns_list unslashed_def acmeOpen_def methodMatches_def publicPatterns_def)

lemma patterns_literal: "(method, pattern) \<in> set patterns \<Longrightarrow> \<exists>l ps. pattern = Lit l # ps \<and> unslashed l"
  using bspec[OF patterns_literal_all[unfolded list_all_iff], of "(method, pattern)"] by (simp split: list.splits Seg.splits)

lemma patterns_acme:
  assumes "(method, Lit ''acme'' # ps) \<in> set patterns"
  shows "\<exists>l qs. ps = Lit l # qs \<and> unslashed l \<and>
    (\<forall>m. methodMatches method m \<and> acmeOpen m l (qs \<noteq> []) \<longrightarrow> (m, Lit ''acme'' # ps) \<in> set publicPatterns)"
  using bspec[OF patterns_acme_all[unfolded list_all_iff] assms] by (simp split: list.splits Seg.splits)

lemma patterns_other:
  assumes "(method, pattern) \<in> set patterns"
  shows "pattern = Lit ''ocsp'' # ps \<Longrightarrow> pattern = [Lit ''ocsp'']"
    "pattern = Lit ''crls'' # ps \<Longrightarrow> methodMatches method ''GET'' \<Longrightarrow> pattern = [Lit ''crls'', Wild ''id'']"
    "pattern = Lit ''issuers'' # ps \<Longrightarrow> methodMatches method ''GET'' \<Longrightarrow> fits pattern segs \<Longrightarrow> HasSuffix (pathOf segs) ''/crl'' \<Longrightarrow>
       pattern = [Lit ''issuers'', Wild ''id'', Lit ''crl'']"
  using assms unfolding patterns_list
  by (auto simp: methodMatches_def HasSuffix_def HasPrefix_Cons)

lemma public_route:
  assumes row: "(method, pattern) \<in> set patterns" and m: "methodMatches method (rq_Method r)" and fit: "fits pattern (rq_Segments r)"
    and pub: "isPublicEndpoint (rq_Method r) (URLPath r)"
  shows "(rq_Method r, pattern) \<in> set publicPatterns"
proof -
  obtain l ps where p: "pattern = Lit l # ps" and l: "unslashed l"
    using patterns_literal[OF row] by blast
  obtain ss where segs: "rq_Segments r = l # ss" and rest: "fits ps ss" using fit p by auto
  note path = URLPath_pathOf[of r, unfolded segs]
  show ?thesis
  proof (cases "isPublicACMEProtocolEndpoint (rq_Method r) (URLPath r)")
    case True
    have acme: "l = ''acme''" using acme_closed[OF l] True path by metis
    then obtain l' qs where q: "ps = Lit l' # qs" and l': "unslashed l'"
      and listed: "\<And>m. methodMatches method m \<Longrightarrow> acmeOpen m l' (qs \<noteq> []) \<Longrightarrow> (m, pattern) \<in> set publicPatterns"
      using patterns_acme[of _ ps] row p by blast
    obtain ss' where s': "ss = l' # ss'" "fits qs ss'" using rest q by auto
    moreover have "ss' = [] \<longleftrightarrow> qs = []" by (rule fits_empty[OF s'(2)])
    ultimately show ?thesis using True path acme acme_open[OF l', of "rq_Method r" ss'] listed[OF m] by simp
  next
    case False
    from other_open[OF l] pub False path
    consider "rq_Method r = ''POST''" "l = ''ocsp''" | "rq_Method r = ''GET''" "l = ''crls''"
      | "rq_Method r = ''GET''" "l = ''issuers''" "HasSuffix (pathOf (l # ss)) ''/crl''" by metis
    then show ?thesis
    proof cases
      case 1
      then have "pattern = [Lit ''ocsp'']" using patterns_other(1)[OF row] p by simp
      then show ?thesis using 1 by (simp add: publicPatterns_def)
    next
      case 2
      then have "pattern = [Lit ''crls'', Wild ''id'']" using patterns_other(2)[OF row] p m by simp
      then show ?thesis using 2 by (simp add: publicPatterns_def)
    next
      case 3
      then have "pattern = [Lit ''issuers'', Wild ''id'', Lit ''crl'']" using patterns_other(3)[OF row _ _ fit] p m segs by simp
      then show ?thesis using 3 by (simp add: publicPatterns_def)
    qed
  qed
qed

lemma public_rows:
  assumes "(method, pattern) \<in> set publicPatterns"
  shows "(\<exists>l qs. pattern = Lit ''acme'' # Lit l # qs \<and> unslashed l \<and> acmeOpen method l (qs \<noteq> [])) \<or>
    (method, pattern) = (''POST'', [Lit ''ocsp'']) \<or> (method, pattern) = (''GET'', [Lit ''crls'', Wild ''id'']) \<or>
    (method, pattern) = (''GET'', [Lit ''issuers'', Wild ''id'', Lit ''crl''])"
proof -
  have "list_all (\<lambda>(method, pattern). case pattern of Lit a # Lit l # qs \<Rightarrow> a = ''acme'' \<and> unslashed l \<and> acmeOpen method l (qs \<noteq> [])
    | _ \<Rightarrow> (method, pattern) \<in> {(''POST'', [Lit ''ocsp'']), (''GET'', [Lit ''crls'', Wild ''id'']), (''GET'', [Lit ''issuers'', Wild ''id'', Lit ''crl''])}) publicPatterns"
    by (simp add: publicPatterns_def unslashed_def acmeOpen_def)
  from bspec[OF this[unfolded list_all_iff] assms] show ?thesis
    by (cases pattern; cases "hd pattern"; cases "tl pattern"; cases "hd (tl pattern)") auto
qed

lemma public_converse:
  assumes "(rq_Method r, pattern) \<in> set publicPatterns" and fit: "fits pattern (rq_Segments r)" and plain: "list_all unslashed (rq_Segments r)"
  shows "isPublicEndpoint (rq_Method r) (URLPath r)"
proof -
  have split: "Split (x @ CHR ''/'' # y) CHR ''/'' = x # Split y CHR ''/''" if "unslashed x" for x y
    using that by (induction x) (auto simp: unslashed_def)
  have crl: "isPublicEndpoint ''GET'' (pathOf [''issuers'', x, ''crl''])" if "x \<noteq> []" "unslashed x" for x
    using that split[of "''issuers''"] split[OF that(2), of "''crl''"]
    by (simp add: isPublicEndpoint_def HasPrefix_Cons HasSuffix_def trimSlashes_def unslashed_def)
  from public_rows[OF assms(1)] show ?thesis
  proof (elim disjE exE conjE)
    fix l qs assume p: "pattern = Lit ''acme'' # Lit l # qs" "unslashed l" "acmeOpen (rq_Method r) l (qs \<noteq> [])"
    obtain ss where segs: "rq_Segments r = ''acme'' # l # ss" "fits qs ss" using fit p(1) by auto
    have "acmeOpen (rq_Method r) l (ss \<noteq> [])" using p(3) fits_empty[OF segs(2)] by simp
    then show ?thesis using acme_open[OF p(2), of "rq_Method r" ss] by (simp add: URLPath_pathOf segs(1) isPublicEndpoint_def)
  next
    assume "(rq_Method r, pattern) = (''POST'', [Lit ''ocsp''])"
    then show ?thesis using fit by (simp add: URLPath_pathOf isPublicEndpoint_def)
  next
    assume p: "(rq_Method r, pattern) = (''GET'', [Lit ''crls'', Wild ''id''])"
    then show ?thesis using fit by (auto simp: URLPath_pathOf isPublicEndpoint_def HasPrefix_Cons TrimPrefix_def)
  next
    assume "(rq_Method r, pattern) = (''GET'', [Lit ''issuers'', Wild ''id'', Lit ''crl''])"
    then show ?thesis using fit plain crl by (auto simp: URLPath_pathOf)
  qed
qed

lemma operator_route:
  assumes "pattern \<in> set operatorPatterns" "(method, pattern) \<in> set patterns" "methodMatches method (rq_Method r)" "fits pattern (rq_Segments r)"
  shows "requiredScopeForRequest (rq_Method r) (URLPath r) = requiredScopeOperator"
proof -
  have "method = ''POST''" if "pattern = [Lit ''certificates'', Lit ''expiration-scan'']"
    using assms(2) that unfolding patterns_list by auto
  then show ?thesis using assms(1,3,4) unfolding operatorPatterns_def
    by (auto simp: URLPath_pathOf HasPrefix_Cons requiredScopeForRequest_def methodMatches_def)
qed

text \<open>
  C11: whatever segments a request has, also encoded slashes, the check of the path and the choice of the route agree: a request that passes without an
  API key reaches only a route of the OCSP, CRL and ACME protocol interfaces, every such route is open to requests of its method with plain
  segments, the routes for keys, outbox, audit trail, operator reports and the expiration scan need the operator scope, and only
  \<^verbatim>\<open>GET\<close> is satisfied with the read scope.
\<close>

theorem routes_guarded:
  assumes "routeFor sv r = Some (method, pattern, handler)"
  shows "(isPublicEndpoint (rq_Method r) (URLPath r) \<longrightarrow> (rq_Method r, pattern) \<in> set publicPatterns) \<and>
    ((rq_Method r, pattern) \<in> set publicPatterns \<and> list_all unslashed (rq_Segments r) \<longrightarrow> isPublicEndpoint (rq_Method r) (URLPath r)) \<and>
    (pattern \<in> set operatorPatterns \<longrightarrow> requiredScopeForRequest (rq_Method r) (URLPath r) = requiredScopeOperator) \<and>
    (requiredScopeForRequest (rq_Method r) (URLPath r) = requiredScopeRead \<longrightarrow> rq_Method r = ''GET'')"
proof -
  note route = routed[OF assms]
  have row: "(method, pattern) \<in> set patterns" using in_patterns route by blast
  have "requiredScopeForRequest (rq_Method r) (URLPath r) = requiredScopeRead \<Longrightarrow> rq_Method r = ''GET''"
    by (simp add: requiredScopeForRequest_def split: if_splits)
  then show ?thesis using public_route[OF row] public_converse operator_route[OF _ row] route by blast
qed

section \<open>No two routes serve the same request\<close>

text \<open>The only two rows that share requests are those of \<^verbatim>\<open>new-nonce\<close>, which have the same pattern and the same handler.\<close>

fun overlap :: "Seg list \<Rightarrow> Seg list \<Rightarrow> bool" where
  "overlap [] [] \<longleftrightarrow> True"
| "overlap (Lit l # ps) (Lit l' # qs) \<longleftrightarrow> l = l' \<and> overlap ps qs"
| "overlap (Wild n # ps) (q # qs) \<longleftrightarrow> overlap ps qs"
| "overlap (Lit l # ps) (Wild n # qs) \<longleftrightarrow> overlap ps qs"
| "overlap _ _ \<longleftrightarrow> False"

lemma fits_overlap: "fits ps segs \<Longrightarrow> fits qs segs \<Longrightarrow> overlap ps qs"
proof (induction ps qs arbitrary: segs rule: overlap.induct)
  case (3 n ps q qs)
  then show ?case by (cases q) auto
qed (auto dest: fits_empty)

definition apart :: "string \<times> Seg list \<Rightarrow> string \<times> Seg list \<Rightarrow> bool" where
  "apart x y \<longleftrightarrow> snd x = snd y \<and> snd x = [Lit ''acme'', Lit ''new-nonce''] \<or> \<not> overlap (snd x) (snd y) \<or> fst x \<noteq> fst y \<and> fst x \<noteq> ''HEAD'' \<and> fst y \<noteq> ''HEAD''"

lemma patterns_apart: "sorted_wrt apart patterns"
  unfolding patterns_list by code_simp

lemma routes_disjoint:
  assumes "(m, p, h) \<in> set (routes sv)" "(m', p', h') \<in> set (routes sv)" "methodMatches m method" "methodMatches m' method" "fits p segs" "fits p' segs"
  shows "p = p'"
proof -
  have o: "overlap p p'" "overlap p' p" using assms(5,6) fits_overlap by blast+
  have m: "m = m' \<or> m = ''HEAD'' \<or> m' = ''HEAD''" using assms(3,4) by (auto simp: methodMatches_def)
  obtain i j where ij: "i < length patterns" "patterns ! i = (m, p)" "j < length patterns" "patterns ! j = (m', p')"
    using in_patterns[OF assms(1)] in_patterns[OF assms(2)] by (auto simp: in_set_conv_nth)
  have "p = p'" if "i < j" using sorted_wrt_nth_less[OF patterns_apart that ij(3)] ij o m by (auto simp: apart_def)
  moreover have "p = p'" if "j < i" using sorted_wrt_nth_less[OF patterns_apart that ij(1)] ij o m by (auto simp: apart_def)
  moreover have "p = p'" if "i = j" using ij that by simp
  ultimately show ?thesis by (metis linorder_neqE_nat)
qed

section \<open>Requests without a key\<close>

text \<open>A key that lets the request through: stored, usable at that instant, with the hash of the token and the scope the request needs.\<close>

definition admits :: "Server \<Rightarrow> Request \<Rightarrow> world \<Rightarrow> APIKey \<Rightarrow> bool" where
  "admits sv r w key \<longleftrightarrow>
     mget (ms_apiKeys (w_repo w)) (key_ID key) = Some key \<and> usableKey key (svc_clock (sv_service sv) (w_clock w)) \<and>
     key_TokenHash key \<in> set (tokenHashes (sv_service sv) (TrimSpace (fst (bearerToken (Header_Get r ''Authorization''))))) \<and>
     snd (bearerToken (Header_Get r ''Authorization'')) \<and>
     apiKeyAllowsScope key (requiredScopeForRequest (rq_Method r) (URLPath r))"

lemma run_RecordAPIFailure:
  "\<exists>ev. Service_RecordAPIFailure svc ctx actor req w = (Inr (), w\<lparr>w_clock := Suc (w_clock w), w_ids := Suc (Suc (w_ids w)),
     w_repo := (w_repo w)\<lparr>ms_auditEvents := ms_auditEvents (w_repo w) @ [ev]\<rparr>\<rparr>) \<and> aud_Action ev = ''api.request_failed'' \<and>
     aud_Actor ev = orAnonymous actor"
  by (auto simp: Service_RecordAPIFailure_def createAuditEventWithResult_def prog_simps tx_agree MemoryStore_CreateAuditEvent_def Let_def)

text \<open>Nothing but the times of use of one key.\<close>

definition onlyUsed :: "APIKey gomap \<Rightarrow> APIKey gomap \<Rightarrow> bool" where
  "onlyUsed keys keys' \<longleftrightarrow> keys' = keys \<or> (\<exists>key now. mget keys (key_ID key) = Some key \<and> keys' = mput (key_ID key) (usedAt now key) keys)"

lemma authenticate_refuses:
  assumes mode: "auth_Mode (sv_auth sv) = ''api_key''" and closed: "\<not> isPublicEndpoint (rq_Method r) (URLPath r)"
    and s: "sound (sv_service sv) (hs_world s)" and none: "\<And>key. \<not> admits sv r (hs_world s) key"
  shows "\<exists>e keys w'. authenticateRequest sv r s = (Inl e, s\<lparr>hs_world := w'\<rparr>) \<and> (e = ErrUnauthorized \<or> e = ErrForbidden) \<and>
    w_repo w' = (w_repo (hs_world s))\<lparr>ms_apiKeys := keys\<rparr> \<and> onlyUsed (ms_apiKeys (w_repo (hs_world s))) keys"
proof -
  obtain token ok where b: "bearerToken (Header_Get r ''Authorization'') = (token, ok)" by fastforce
  obtain res w1 where run: "Service_AuthenticateAPIKey (sv_service sv) token (hs_world s) = (res, w1)" by fastforce
  have same: "w_repo (hs_world s) = (w_repo (hs_world s))\<lparr>ms_apiKeys := ms_apiKeys (w_repo (hs_world s))\<rparr>" by simp
  show ?thesis
  proof (cases ok)
    case False
    then have "authenticateRequest sv r s = (Inl ErrUnauthorized, s\<lparr>hs_world := hs_world s\<rparr>)"
      by (simp add: authenticateRequest_def mode closed b prog_simps)
    then show ?thesis using same unfolding onlyUsed_def by blast
  next
    case ok: True
    from authenticate_cases[OF s run] show ?thesis
    proof (elim disjE exE conjE)
      assume "res = Inl ErrUnauthorized" "w_repo w1 = w_repo (hs_world s)"
      then have "authenticateRequest sv r s = (Inl ErrUnauthorized, s\<lparr>hs_world := w1\<rparr>)"
        by (simp add: authenticateRequest_def mode closed b ok prog_simps onService_def run)
      then show ?thesis using same \<open>w_repo w1 = _\<close> unfolding onlyUsed_def by metis
    next
      fix key
      let ?now = "svc_clock (sv_service sv) (w_clock (hs_world s))"
      assume key: "res = Inr (usedAt ?now key)" "usableKey key ?now" "mget (ms_apiKeys (w_repo (hs_world s))) (key_ID key) = Some key"
        "key_TokenHash key \<in> set (tokenHashes (sv_service sv) (TrimSpace token))"
        and w1: "w_repo w1 = (w_repo (hs_world s))\<lparr>ms_apiKeys := mput (key_ID key) (usedAt ?now key) (ms_apiKeys (w_repo (hs_world s)))\<rparr>"
      have "\<not> apiKeyAllowsScope key (requiredScopeForRequest (rq_Method r) (URLPath r))" using none[of key] key(2-4) b ok by (simp add: admits_def)
      then have "\<not> apiKeyAllowsScope (usedAt ?now key) (requiredScopeForRequest (rq_Method r) (URLPath r))" by (simp add: apiKeyAllowsScope_def usedAt_def)
      then have "authenticateRequest sv r s = (Inl ErrForbidden, s\<lparr>hs_world := w1\<rparr>)"
        using key(1) by (simp add: authenticateRequest_def mode closed b ok prog_simps onService_def run)
      then show ?thesis using w1 key(3) unfolding onlyUsed_def by blast
    qed
  qed
qed

text \<open>The steps before authentication leave everything it looks at alone.\<close>

lemma request_id_run:
  "\<exists>requestID n k. requestIDForRequest sv r s = (Inr requestID, s\<lparr>hs_world := (hs_world s)\<lparr>w_ext := n\<rparr>, hs_clock := k\<rparr>)"
proof (cases "TrimSpace (Header_Get r ''X-Request-ID'') = []")
  case True
  show ?thesis
  proof (cases "rt_randBytes (svc_runtime (sv_service sv)) (w_ext (hs_world s)) 16")
    case (Inl e)
    then show ?thesis using True by (auto simp: requestIDForRequest_def prog_simps onService_def timeNow_def)
  next
    case (Inr raw)
    have "requestIDForRequest sv r s = (Inr (''req-'' @ RawURLEncoding_EncodeToString raw),
        s\<lparr>hs_world := (hs_world s)\<lparr>w_ext := Suc (w_ext (hs_world s))\<rparr>, hs_clock := hs_clock s\<rparr>)"
      using Inr True by (simp add: requestIDForRequest_def prog_simps onService_def)
    then show ?thesis by blast
  qed
next
  case False
  have "requestIDForRequest sv r s = (Inr (TrimSpace (Header_Get r ''X-Request-ID'')),
      s\<lparr>hs_world := (hs_world s)\<lparr>w_ext := w_ext (hs_world s)\<rparr>, hs_clock := hs_clock s\<rparr>)"
    using False by (simp add: requestIDForRequest_def prog_simps)
  then show ?thesis by blast
qed

lemma refused_answer:
  assumes "\<not> isPublicEndpoint (rq_Method r) (URLPath r)" and "rq_Actor r = Some ''anonymous''"
  shows "\<exists>ev resp. writeError sv r e s = (Inr resp, s\<lparr>hs_world := (hs_world s)\<lparr>w_clock := Suc (w_clock (hs_world s)),
      w_ids := Suc (Suc (w_ids (hs_world s))), w_repo := (w_repo (hs_world s))\<lparr>ms_auditEvents := ms_auditEvents (w_repo (hs_world s)) @ [ev]\<rparr>\<rparr>\<rparr>) \<and>
    aud_Action ev = ''api.request_failed'' \<and> aud_Actor ev = ''anonymous'' \<and> rs_Status resp = statusForError e"
proof -
  have "\<not> isPublicACMEProtocolEndpoint (rq_Method r) (URLPath r)" using assms(1) by (rule contrapos_nn) (simp add: isPublicEndpoint_def)
  moreover have "orAnonymous (requestActor r) = ''anonymous''" using assms(2) by (simp add: requestActor_def orAnonymous_def)
  ultimately show ?thesis
    using run_RecordAPIFailure[of "sv_service sv" "rq_Context r" "requestActor r"
        "\<lparr>afr_Method = rq_Method r, afr_Path = URLPath r, afr_StatusCode = statusForError e, afr_Err = e\<rparr>" "hs_world s"]
    by (auto simp: writeError_def prog_simps onService_def Let_def writeJSON_def)
qed

lemma refused_without_key:
  assumes "auth_Mode (sv_auth sv) = ''api_key''" and "\<not> isPublicEndpoint (rq_Method r) (URLPath r)"
    and "sound (sv_service sv) (hs_world s)" and "\<And>key. \<not> admits sv r (hs_world s) key"
  shows "\<exists>resp s' keys ev. ServeHTTP sv r s = (Inr (Some resp), s') \<and> rs_Status resp \<in> {401, 403} \<and>
    w_repo (hs_world s') = (w_repo (hs_world s))\<lparr>ms_apiKeys := keys, ms_auditEvents := ms_auditEvents (w_repo (hs_world s)) @ [ev]\<rparr> \<and>
    onlyUsed (ms_apiKeys (w_repo (hs_world s))) keys \<and> aud_Action ev = ''api.request_failed'' \<and> aud_Actor ev = ''anonymous'' \<and>
    hs_nonces s' = hs_nonces s \<and> hs_rates s' = hs_rates s"
proof -
  obtain requestID n k where id: "requestIDForRequest sv r s = (Inr requestID, s\<lparr>hs_world := (hs_world s)\<lparr>w_ext := n\<rparr>, hs_clock := k\<rparr>)"
    using request_id_run by blast
  define s1 where "s1 = s\<lparr>hs_world := (hs_world s)\<lparr>w_ext := n\<rparr>, hs_clock := Suc k\<rparr>"
  define r1 where "r1 = withAuditRequest sv requestID (sv_now sv k) r"
  have same: "rq_Method r1 = rq_Method r" "URLPath r1 = URLPath r" "\<And>h. Header_Get r1 h = Header_Get r h"
    by (simp_all add: r1_def withAuditRequest_def URLPath_def Header_Get_def)
  have "sound (sv_service sv) (hs_world s1)" using assms(3) by (simp add: s1_def sound_def ids_fresh_def)
  moreover have "\<not> admits sv r1 (hs_world s1) key" for key using assms(4)[of key] by (simp add: admits_def same s1_def)
  ultimately obtain e keys w' where auth: "authenticateRequest sv r1 s1 = (Inl e, s1\<lparr>hs_world := w'\<rparr>)" "e = ErrUnauthorized \<or> e = ErrForbidden"
    "w_repo w' = (w_repo (hs_world s))\<lparr>ms_apiKeys := keys\<rparr>" "onlyUsed (ms_apiKeys (w_repo (hs_world s))) keys"
    using authenticate_refuses[OF assms(1), of r1 s1] assms(2) same by (auto simp: s1_def)
  define s2 where "s2 = RecordEvent ''auth:failure'' (s1\<lparr>hs_world := w'\<rparr>)"
  have "\<not> isPublicEndpoint (rq_Method (withActor ''anonymous'' r1)) (URLPath (withActor ''anonymous'' r1))" "rq_Actor (withActor ''anonymous'' r1) = Some ''anonymous''"
    using assms(2) by (simp_all add: withActor_def URLPath_def r1_def withAuditRequest_def)
  from refused_answer[OF this, of sv e s2] obtain ev resp where err: "writeError sv (withActor ''anonymous'' r1) e s2 = (Inr resp, s2\<lparr>hs_world := (hs_world s2)\<lparr>w_clock := Suc (w_clock (hs_world s2)),
      w_ids := Suc (Suc (w_ids (hs_world s2))), w_repo := (w_repo (hs_world s2))\<lparr>ms_auditEvents := ms_auditEvents (w_repo (hs_world s2)) @ [ev]\<rparr>\<rparr>\<rparr>)"
    "aud_Action ev = ''api.request_failed''" "aud_Actor ev = ''anonymous''" "rs_Status resp = statusForError e" by blast
  have "ServeHTTP sv r s = finishRequest requestID ''auth'' (Some resp) (s2\<lparr>hs_world := (hs_world s2)\<lparr>w_clock := Suc (w_clock (hs_world s2)),
      w_ids := Suc (Suc (w_ids (hs_world s2))), w_repo := (w_repo (hs_world s2))\<lparr>ms_auditEvents := ms_auditEvents (w_repo (hs_world s2)) @ [ev]\<rparr>\<rparr>\<rparr>)"
    using auth(1) err(1) by (simp add: ServeHTTP_def run_bindM id timeNow_def Let_def r1_def[symmetric] s1_def run_attemptM run_thenM countEvent_def s2_def)
  moreover have "statusForError e \<in> {401, 403}" using auth(2) by (auto simp: statusForError_def)
  ultimately show ?thesis using auth(3,4) err(2-4) by (auto simp: finishRequest_def RecordHTTPRequest_def s2_def RecordEvent_def s1_def)
qed


end
