(* ===== verification/Startup.thy ===== *)
theory Startup
  imports Config Workers HttpAccess
begin

text \<open>
  The process (\<^verbatim>\<open>cmd/modern-pki-service/main.go\<close>): start-up from the environment, the bootstrap of an API key and of ACME defaults, the operational
  endpoints and the readiness check in front of the server, the structured log and the shutdown. \<open>Platform\<close> holds what the process is
  given by the operating system and the libraries: the environment's \<open>Library\<close>, the host the core runs on, clocks, the DNS exchange, the database's answers at start-up, and the
  key material functions. The repository is the in-memory implementation of the interface; \<^verbatim>\<open>log.Fatalf\<close> is an error result that carries the text of the stage.
\<close>

section \<open>The signer\<close>

text \<open>
  The runner of the core as the signer of the service. The \<open>n\<close>-th external call of the service finds the files \<open>fs\<close>, which every operation of the runner
  leaves as they were (shown in \<^verbatim>\<open>CoreCli\<close>), and makes its system calls, fewer than 32, from number \<open>32 * n\<close> on.
\<close>

definition hostAt :: "string gomap \<Rightarrow> nat \<Rightarrow> osState" where
  "hostAt fs n = \<lparr>os_files = fs, os_calls = 32 * n\<rparr>"

definition runnerIssuer :: "Host \<Rightarrow> CoreCodec \<Rightarrow> Runner \<Rightarrow> string gomap \<Rightarrow> CertificateIssuer" where
  "runnerIssuer h cc r fs =
     \<lparr>ci_Issue = (\<lambda>n req. fst (Runner_Issue h cc r req (hostAt fs n))), ci_InspectCSR = (\<lambda>n csr. fst (Runner_InspectCSR h cc r csr (hostAt fs n))),
      ci_GenerateCRL = (\<lambda>n req. fst (Runner_GenerateCRL h cc r req (hostAt fs n))),
      ci_InspectOCSPIssuer = (\<lambda>n pem alg. fst (Runner_InspectOCSPIssuer h cc r pem alg (hostAt fs n))),
      ci_ValidateOCSPResponder = (\<lambda>n pem rpem. fst (Runner_ValidateOCSPResponder h cc r pem rpem (hostAt fs n))),
      ci_InspectOCSP = (\<lambda>n der. fst (Runner_InspectOCSP h cc r der (hostAt fs n))),
      ci_GenerateOCSPResponse = (\<lambda>n req. fst (Runner_GenerateOCSPResponse h cc r req (hostAt fs n)))\<rparr>"

section \<open>The platform\<close>

record SmokeTemplate =
  smt_SerialNumber :: int
  smt_CommonName :: string
  smt_NotBefore :: time
  smt_NotAfter :: time
  smt_KeyUsage :: "string list"
  smt_IsCA :: bool
  smt_MaxPathLen :: int

text \<open>Key material: keys, certificates and encodings are opaque texts.\<close>

record Material =
  mat_Now :: time
  mat_GenerateKey :: "string result"
  mat_RandInt :: "int \<Rightarrow> int result"
  mat_CreateCertificate :: "SmokeTemplate \<Rightarrow> string \<Rightarrow> string result"
  mat_MarshalPKCS8 :: "string \<Rightarrow> string result"
  mat_Dir :: "string \<Rightarrow> string"
  mat_MkdirAll :: "string \<Rightarrow> unit result"
  mat_PEM :: "string \<Rightarrow> string \<Rightarrow> string"
  mat_WriteFile :: "string \<Rightarrow> string \<Rightarrow> unit result"

record Platform =
  pf_Library :: Library
  pf_Runtime :: Runtime
  pf_Host :: Host
  pf_CoreCodec :: CoreCodec
  pf_files :: "string gomap"
  pf_fetch :: fetcher
  pf_client :: httpClient
  pf_clock :: "nat \<Rightarrow> time"
  pf_idgen :: "nat \<Rightarrow> string"
  pf_now :: "nat \<Rightarrow> time"
  pf_startedAt :: time
  pf_Codec :: Codec
  pf_Crypto :: Crypto
  pf_caaRandom :: "nat \<Rightarrow> nat \<Rightarrow> string result"
  pf_caaExchange :: "string \<Rightarrow> duration \<Rightarrow> nat \<Rightarrow> nat \<Rightarrow> string \<Rightarrow> string result"
  pf_openDB :: "string \<Rightarrow> string \<Rightarrow> unit result"
  pf_migrate :: "string \<Rightarrow> string \<Rightarrow> unit result"
  pf_Material :: Material
  pf_readyDB :: "nat \<Rightarrow> unit result"
  pf_Stat :: "nat \<Rightarrow> string \<Rightarrow> unit result"
  pf_LookPath :: "nat \<Rightarrow> string \<Rightarrow> unit result"
  pf_OpenFile :: "nat \<Rightarrow> string \<Rightarrow> unit result"

section \<open>The structured log\<close>

definition isSecretLogField :: "string \<Rightarrow> bool" where
  "isSecretLogField key0 =
     (let key = ToLower key0 in
      Contains key ''secret'' \<or> Contains key ''token'' \<or> Contains key ''password'' \<or> Contains key ''pepper'' \<or> Contains key ''private_key'')"

definition addLogField :: "string \<times> json \<Rightarrow> json gomap \<Rightarrow> json gomap" where
  "addLogField = (\<lambda>(key, value) rec. if isSecretLogField key then mput key (JString ''[redacted]'') rec else mput key value rec)"

definition logRecord :: "string \<Rightarrow> (string \<times> json) list \<Rightarrow> json gomap" where
  "logRecord event flds =
     fold addLogField flds (mput ''event'' (JString event) mempty)"

definition logStructured :: "string \<Rightarrow> (string \<times> json) list \<Rightarrow> string" where
  "logStructured event flds = marshal_map (logRecord event flds)"

section \<open>Construction of the service\<close>

definition NewService :: "Platform \<Rightarrow> string \<Rightarrow> (nat \<Rightarrow> string \<Rightarrow> string \<Rightarrow> string \<Rightarrow> unit result) \<Rightarrow> string \<Rightarrow> Service" where
  "NewService p bin verifier pepper =
     \<lparr>svc_issuer = runnerIssuer (pf_Host p) (pf_CoreCodec p) \<lparr>run_Bin = bin\<rparr> (pf_files p), svc_clock = pf_clock p, svc_idgen = pf_idgen p,
      svc_acmeHTTP01Verifier = verifier, svc_apiKeyPepper = TrimSpace pepper, svc_productionPolicy = False, svc_publicTLSMaxValidityOverride = 0,
      svc_publicTLSCAAPolicy = None, svc_runtime = pf_Runtime p\<rparr>"

definition JoinHostPort :: "string \<Rightarrow> string \<Rightarrow> string" where
  "JoinHostPort host port = (if CHR '':'' \<in> set host then CHR ''['' # host @ '']:'' @ port else host @ '':'' @ port)"

definition NewDNSCAALookup :: "Platform \<Rightarrow> string \<Rightarrow> duration \<Rightarrow> (nat \<Rightarrow> string \<Rightarrow> CAALookupResult result) result" where
  "NewDNSCAALookup p resolver0 timeout =
     (let trimmed = TrimSpace resolver0 in
      if trimmed = [] \<or> timeout \<le> 0 then Inl ErrInvalidRequest
      else
        let resolver = (case lib_SplitHostPort (pf_Library p) trimmed of None \<Rightarrow> JoinHostPort trimmed ''53'' | Some _ \<Rightarrow> trimmed) in
        Inr (\<lambda>n dnsName. dnsCAALookup_LookupCAA (pf_caaRandom p n) (pf_caaExchange p resolver timeout n) dnsName))"

definition applyMaxValidity :: "publicTLSConfig \<Rightarrow> Service \<Rightarrow> Service result" where
  "applyMaxValidity cfg svc =
     (if ptc_MaxValidity cfg > 0 then wrapR ''set public TLS max validity'' (SetPublicTLSMaxValidity svc (ptc_MaxValidity cfg)) else Inr svc)"

definition applyCAAPolicy :: "Platform \<Rightarrow> publicTLSConfig \<Rightarrow> Service \<Rightarrow> Service result" where
  "applyCAAPolicy p cfg svc =
     (if ptc_CAAIssuerDomain cfg \<noteq> [] then
        bindR (wrapR ''create public TLS CAA lookup'' (NewDNSCAALookup p (ptc_CAAResolver cfg) (ptc_CAALookupTimeout cfg))) (\<lambda>lookup.
        wrapR ''set public TLS CAA policy'' (SetPublicTLSCAAPolicy svc
          \<lparr>caap_IssuerDomain = ptc_CAAIssuerDomain cfg, caap_AccountURI = ptc_CAAAccountURI cfg, caap_ValidationMethod = ptc_CAAValidationMethod cfg,
           caap_AllowDNSSECIndeterminate = ptc_AllowDNSSECIndeterminate cfg, caap_Lookup = Some lookup\<rparr>))
      else Inr svc)"

definition buildService :: "Platform \<Rightarrow> Env \<Rightarrow> string \<Rightarrow> authConfig \<Rightarrow> acmeHTTP01VerifierConfig \<Rightarrow> publicTLSConfig \<Rightarrow> Service result" where
  "buildService p env bin authCfg verifierCfg publicTLSCfg =
     bindR (wrapR ''create ACME HTTP-01 verifier'' (NewACMEHTTP01Verifier (pf_Runtime p) (pf_fetch p) (avc_BaseURL verifierCfg))) (\<lambda>verifier.
     let svc0 = NewService p bin verifier (atc_APIKeyPepper authCfg);
         svc1 = (if isProductionEnv (env ''MODERN_PKI_ENV'') then EnableProductionPolicy svc0 else svc0) in
     bindR (applyMaxValidity publicTLSCfg svc1) (applyCAAPolicy p publicTLSCfg))"

section \<open>Bootstrap\<close>

definition ensureACMESmokeIssuerMaterial :: "Material \<Rightarrow> string \<Rightarrow> (string \<times> string) result" where
  "ensureACMESmokeIssuerMaterial mat issuerKeyRef =
     (if TrimSpace issuerKeyRef = [] then Inl (ErrExternal ''MODERN_PKI_ACME_BOOTSTRAP_ISSUER_KEY_REF must not be empty'')
      else
        bindR (wrapR ''generate ACME smoke issuer key'' (mat_GenerateKey mat)) (\<lambda>key.
        bindR (wrapR ''generate ACME smoke issuer serial'' (mat_RandInt mat (2 ^ 128))) (\<lambda>serial.
        let template = \<lparr>smt_SerialNumber = serial, smt_CommonName = ''modern-pki ACME Smoke CA'', smt_NotBefore = mat_Now mat - 5 * Minute,
              smt_NotAfter = mat_Now mat + 365 * 24 * Hour, smt_KeyUsage = [''cert_sign'', ''crl_sign''], smt_IsCA = True, smt_MaxPathLen = 0\<rparr> in
        bindR (wrapR ''create ACME smoke issuer certificate'' (mat_CreateCertificate mat template key)) (\<lambda>certDER.
        bindR (wrapR ''marshal ACME smoke issuer key'' (mat_MarshalPKCS8 mat key)) (\<lambda>keyDER.
        let keyDir = mat_Dir mat issuerKeyRef in
        bindR (if keyDir \<noteq> ''.'' then wrapR ''create ACME smoke issuer key dir'' (mat_MkdirAll mat keyDir) else Inr ()) (\<lambda>_.
        bindR (wrapR ''write ACME smoke issuer key'' (mat_WriteFile mat issuerKeyRef (mat_PEM mat ''PRIVATE KEY'' keyDER))) (\<lambda>_.
        Inr (mat_PEM mat ''CERTIFICATE'' certDER, issuerKeyRef))))))))"

definition smokeIdentity :: CreateIdentityRequest where
  "smokeIdentity =
     \<lparr>cid_Type = IdentityMachine, cid_Name = ''acme-smoke-edge-01'', cid_ExternalID = ''acme-smoke-edge-01'', cid_Owner = ''platform'', cid_Team = [],
      cid_Service = [], cid_Environment = [], cid_DeploymentTarget = [], cid_LastSeenAt = time_zero,
      cid_MetadataJSON = ''{'' @ goQuoted ''team'' @ '':'' @ goQuoted ''platform'' @ '','' @ goQuoted ''service'' @ '':'' @ goQuoted ''acme-smoke'' @ '','' @
        goQuoted ''environment'' @ '':'' @ goQuoted ''local'' @ '','' @ goQuoted ''deployment_target'' @ '':'' @ goQuoted ''local'' @ ''}'',
      cid_AllowedDNSNames = [], cid_AllowedIPAddresses = []\<rparr>"

definition smokeProfile :: "string \<Rightarrow> duration \<Rightarrow> CreateCertificateProfileRequest" where
  "smokeProfile issuerID validity =
     \<lparr>cpr_Name = ''acme-smoke-profile'', cpr_Description = [], cpr_IssuerID = issuerID, cpr_ValidityPeriodSeconds = durationSeconds validity,
      cpr_PublicTLS = False, cpr_SubjectTemplate = [], cpr_AllowedDNSPatterns = [''*.example.test''], cpr_AllowedIPRanges = [''127.0.0.0/8''],
      cpr_AllowedKeyAlgorithms = [], cpr_MinKeySizeBits = 0, cpr_AllowedSignatureAlgorithms = [], cpr_KeyUsage = zero_StringListExtensionPolicy,
      cpr_ExtendedKeyUsage = zero_StringListExtensionPolicy, cpr_BasicConstraints = zero_BasicConstraintsPolicy, cpr_SubjectKeyIdentifier = False,
      cpr_AuthorityKeyIdentifier = False\<rparr>"

definition emptyACMEConfig :: ACMEConfig where
  "emptyACMEConfig = \<lparr>acme_DefaultIdentityID = [], acme_DefaultIssuerID = [], acme_DefaultCertificateProfileID = [], acme_DefaultValidityPeriod = 0,
     acme_RateLimit = 0, acme_RateLimitWindow = 0\<rparr>"

definition bootstrapACMEDefaults :: "Platform \<Rightarrow> Service \<Rightarrow> duration \<Rightarrow> string \<Rightarrow> ACMEConfig svc" where
  "bootstrapACMEDefaults p svc validity issuerKeyRef0 =
     bindM (liftE (ensureACMESmokeIssuerMaterial (pf_Material p) issuerKeyRef0)) (\<lambda>(issuerCertificatePEM, issuerKeyRef).
     bindM (Service_CreateIdentity svc backgroundContext ''system'' smokeIdentity) (\<lambda>identity.
     bindM (Service_CreateIssuer svc backgroundContext ''system''
       \<lparr>cis_Name = ''acme-smoke-issuer'', cis_Kind = IssuerIntermediateCA, cis_ParentIssuerID = [], cis_CertificatePEM = issuerCertificatePEM,
        cis_KeyRef = issuerKeyRef, cis_AIAURL = [], cis_CRLDistributionPoints = [], cis_TrustAnchor = False\<rparr>) (\<lambda>issuer.
     bindM (Service_CreateCertificateProfile svc backgroundContext ''system'' (smokeProfile (iss_ID issuer) validity)) (\<lambda>profile.
     returnM (emptyACMEConfig\<lparr>acme_DefaultIdentityID := idn_ID identity, acme_DefaultIssuerID := iss_ID issuer,
       acme_DefaultCertificateProfileID := prof_ID profile, acme_DefaultValidityPeriod := validity\<rparr>)))))"

text \<open>\<^verbatim>\<open>log.Fatalf\<close> on the error of a program.\<close>

definition fatalM :: "string \<Rightarrow> 'a svc \<Rightarrow> 'a svc" where
  "fatalM what m = (\<lambda>w. case m w of (r, w') \<Rightarrow> (wrapR what r, w'))"

definition bootstrapAPIKey :: "Service \<Rightarrow> authConfig \<Rightarrow> string list svc" where
  "bootstrapAPIKey svc cfg =
     (if atc_BootstrapAPIKey cfg \<noteq> [] then
        bindM (fatalM ''bootstrap api key'' (Service_EnsureAPIKey svc backgroundContext ''system''
          \<lparr>ekr_Name = atc_BootstrapAPIKeyName cfg, ekr_Token = atc_BootstrapAPIKey cfg, ekr_Actor = atc_BootstrapAPIKeyActor cfg, ekr_Scopes = []\<rparr>)) (\<lambda>key.
        returnM [logStructured ''bootstrap_api_key.ready'' [(''id'', JString (key_ID key)), (''name'', JString (key_Name key)), (''actor'', JString (key_Actor key))]])
      else returnM [])"

definition bootstrapACME :: "Platform \<Rightarrow> Service \<Rightarrow> acmeDefaultsConfig \<Rightarrow> (ACMEConfig \<times> string list) svc" where
  "bootstrapACME p svc cfg =
     (if adc_BootstrapDefaults cfg then
        bindM (fatalM ''bootstrap ACME defaults'' (bootstrapACMEDefaults p svc (adc_ValidityPeriod cfg) (adc_IssuerKeyRef cfg))) (\<lambda>acme.
        returnM (acme, [logStructured ''acme_defaults.ready'' [(''identity_id'', JString (acme_DefaultIdentityID acme)),
          (''issuer_id'', JString (acme_DefaultIssuerID acme)), (''profile_id'', JString (acme_DefaultCertificateProfileID acme)),
          (''validity'', JString (lib_durationString (pf_Library p) (acme_DefaultValidityPeriod acme)))]]))
      else returnM (emptyACMEConfig, []))"

section \<open>Start-up\<close>

record Process =
  pr_Addr :: string
  pr_Server :: Server
  pr_NonceStore :: string
  pr_OutboxWorker :: "OutboxWorker option"
  pr_ScanWorker :: "ExpirationScanWorker option"
  pr_Log :: "string list"

definition startOutboxWorker :: "Platform \<Rightarrow> Service \<Rightarrow> outboxConfig \<Rightarrow> OutboxWorker option \<times> string list" where
  "startOutboxWorker p svc cfg =
     (if obc_Enabled cfg then
        (Some (NewOutboxWorker svc (pf_client p) (obc_Interval cfg) (obc_BatchSize cfg)),
         [logStructured ''outbox_worker.enabled'' [(''interval'', JString (lib_durationString (pf_Library p) (obc_Interval cfg))), (''batch'', JInt (obc_BatchSize cfg))]])
      else (None, []))"

definition startScanWorker :: "Platform \<Rightarrow> Service \<Rightarrow> expirationScanConfig \<Rightarrow> ExpirationScanWorker option \<times> string list" where
  "startScanWorker p svc cfg =
     (if esc_Enabled cfg then
        (Some (NewExpirationScanWorker svc (esc_Interval cfg) (esc_WarningWindow cfg) (esc_BatchSize cfg)),
         [logStructured ''expiration_scan_worker.enabled'' [(''interval'', JString (lib_durationString (pf_Library p) (esc_Interval cfg))),
           (''warning_window'', JString (lib_durationString (pf_Library p) (esc_WarningWindow cfg))), (''batch'', JInt (esc_BatchSize cfg))]])
      else (None, []))"

text \<open>\<^verbatim>\<open>main\<close>, up to the listener: the configuration is read in the order of the source, so the first bad variable is the one that is reported.\<close>

definition main :: "Platform \<Rightarrow> Env \<Rightarrow> Process svc" where
  "main p env =
     (let lib = pf_Library p; addr = envOrDefault env ''MODERN_PKI_ADDR'' defaultAddr; dbDriver = envOrDefault env ''MODERN_PKI_DB_DRIVER'' defaultDBDriver;
          dbDSN = envOrDefault env ''MODERN_PKI_DB_DSN'' defaultDBDSN; bin = envOrDefault env ''MODERN_PKI_CORE_BIN'' defaultCoreBin in
      bindM (liftE (wrapR ''load auth config'' (loadAuthConfig lib env))) (\<lambda>authCfg.
      bindM (liftE (wrapR ''load outbox config'' (loadOutboxConfig lib env))) (\<lambda>outboxCfg.
      bindM (liftE (wrapR ''load expiration scan config'' (loadExpirationScanConfig lib env))) (\<lambda>scanCfg.
      bindM (liftE (wrapR ''load ACME HTTP-01 verifier config'' (loadACMEHTTP01VerifierConfig (pf_Runtime p) (pf_fetch p) env))) (\<lambda>verifierCfg.
      bindM (liftE (wrapR ''load ACME defaults config'' (loadACMEDefaultsConfig lib env))) (\<lambda>acmeDefaultsCfg.
      bindM (liftE (wrapR ''load ACME nonce config'' (loadACMENonceConfig env))) (\<lambda>nonceCfg.
      bindM (liftE (wrapR ''load public TLS config'' (loadPublicTLSConfig lib env))) (\<lambda>publicTLSCfg.
      thenM (liftE (wrapR ''open database'' (pf_openDB p dbDriver dbDSN)))
     (thenM (liftE (wrapR ''apply database migration'' (pf_migrate p dbDriver dbDSN)))
     (bindM (liftE (buildService p env bin authCfg verifierCfg publicTLSCfg)) (\<lambda>svc.
      bindM (bootstrapAPIKey svc authCfg) (\<lambda>keyLog.
      bindM (bootstrapACME p svc acmeDefaultsCfg) (\<lambda>(acme, acmeLog).
      let server = NewWithAuthAndACME svc (atc_HTTP authCfg) acme (pf_Codec p) (pf_Crypto p) (pf_now p);
          (outboxWorker, outboxLog) = startOutboxWorker p svc outboxCfg; (scanWorker, scanLog) = startScanWorker p svc scanCfg in
      returnM \<lparr>pr_Addr = addr, pr_Server = server, pr_NonceStore = anc_Store nonceCfg, pr_OutboxWorker = outboxWorker, pr_ScanWorker = scanWorker,
        pr_Log = (if avc_BaseURL verifierCfg \<noteq> [] then [logStructured ''acme_http01_override.enabled'' [(''base_url'', JString (avc_BaseURL verifierCfg))]] else []) @
          keyLog @ acmeLog @ (if anc_Store nonceCfg = ''sql'' then [logStructured ''acme_nonce_store.enabled'' [(''store'', JString ''sql'')]] else []) @
          outboxLog @ scanLog @ [logStructured ''service.listening'' [(''addr'', JString addr)]]\<rparr>)))))))))))))"

section \<open>Readiness\<close>

definition checkCoreCLIAvailable :: "Platform \<Rightarrow> string \<Rightarrow> unit svc" where
  "checkCoreCLIAvailable p bin0 =
     (let bin = (if TrimSpace bin0 = [] then defaultCoreBin else bin0) in
      if CHR ''/'' \<in> set bin \<or> CHR 0x5C \<in> set bin then fatalM ''core CLI unavailable'' (callExt (\<lambda>n. pf_Stat p n bin))
      else fatalM ''core CLI unavailable'' (callExt (\<lambda>n. pf_LookPath p n bin)))"

definition checkReadableKeyRef :: "Platform \<Rightarrow> string \<Rightarrow> unit svc" where
  "checkReadableKeyRef p keyRef = callExt (\<lambda>n. pf_OpenFile p n keyRef)"

text \<open>The bodies of the two loops of \<^verbatim>\<open>checkActiveKeyRefs\<close>.\<close>

definition checkResponderKeyRef :: "Platform \<Rightarrow> OCSPResponder \<Rightarrow> unit svc" where
  "checkResponderKeyRef p responder =
     (if rsp_Status responder \<noteq> OCSPResponderActive then returnM ()
      else fatalM ''ocsp responder key ref unavailable'' (checkReadableKeyRef p (rsp_KeyRef responder)))"

definition checkIssuerKeyRefs :: "Platform \<Rightarrow> (nat \<Rightarrow> unit result) \<Rightarrow> Issuer \<Rightarrow> unit svc" where
  "checkIssuerKeyRefs p ctxErr issuer =
     thenM (callExt ctxErr)
    (if iss_Status issuer \<noteq> IssuerActive then returnM ()
     else
       thenM (fatalM ''issuer key ref unavailable'' (checkReadableKeyRef p (iss_KeyRef issuer)))
      (bindM (onRepo (MemoryStore_ListOCSPRespondersByIssuer (iss_ID issuer))) (\<lambda>responders. forM responders (checkResponderKeyRef p))))"

definition checkActiveKeyRefs :: "Platform \<Rightarrow> (nat \<Rightarrow> unit result) \<Rightarrow> unit svc" where
  "checkActiveKeyRefs p ctxErr = bindM (onRepo MemoryStore_ListIssuers) (\<lambda>issuers. forM issuers (checkIssuerKeyRefs p ctxErr))"

definition newServiceReadinessCheck :: "Platform \<Rightarrow> string \<Rightarrow> (nat \<Rightarrow> unit result) \<Rightarrow> unit svc" where
  "newServiceReadinessCheck p bin ctxErr =
     thenM (callExt (pf_readyDB p)) (thenM (checkCoreCLIAvailable p bin) (checkActiveKeyRefs p ctxErr))"

section \<open>Operation metrics\<close>

text \<open>\<^verbatim>\<open>observability.ObserveOperation\<close>: the count and the total latency, in milliseconds, of an operation by its outcome.\<close>

record operationMetrics =
  opm_total :: "int gomap"
  opm_latencyMS :: "int gomap"

definition ObserveOperation :: "string \<Rightarrow> string \<Rightarrow> int \<Rightarrow> error option \<Rightarrow> operationMetrics \<Rightarrow> operationMetrics" where
  "ObserveOperation boundary operation elapsedMS err m =
     (let status = (if err \<noteq> None then ''error'' else ''success''); key = boundary @ '':'' @ operation @ '':'' @ status in
      m\<lparr>opm_total := addCount key (opm_total m),
        opm_latencyMS := mput key (i64 ((case mget (opm_latencyMS m) key of None \<Rightarrow> 0 | Some n \<Rightarrow> n) + elapsedMS)) (opm_latencyMS m)\<rparr>)"

definition expvarIntValue :: "int option \<Rightarrow> int" where
  "expvarIntValue value = (case value of None \<Rightarrow> 0 | Some n \<Rightarrow> n)"

definition OperationMetricValue :: "operationMetrics \<Rightarrow> string \<Rightarrow> int" where
  "OperationMetricValue m key = expvarIntValue (mget (opm_total m) key)"

definition observeOperation :: "(nat \<Rightarrow> int) \<Rightarrow> string \<Rightarrow> string \<Rightarrow> unit result \<Rightarrow> nat \<Rightarrow> operationMetrics \<Rightarrow> unit result \<times> operationMetrics" where
  "observeOperation elapsedMS boundary operation res n m =
     (res, ObserveOperation boundary operation (elapsedMS n) (case res of Inl err \<Rightarrow> Some err | Inr _ \<Rightarrow> None) m)"

text \<open>Observing an operation passes its result on and counts it once, under its own outcome.\<close>

lemma observeOperation_counts:
  assumes "observeOperation elapsedMS boundary operation res n m = (res', m')" and "OperationMetricValue m key < 2 ^ 63 - 1" and "- (2 ^ 63) \<le> OperationMetricValue m key"
  shows "res' = res \<and> OperationMetricValue m' key = OperationMetricValue m key +
    (if key = boundary @ '':'' @ operation @ '':'' @ (if isl res then ''error'' else ''success'') then 1 else 0)"
proof -
  have "OperationMetricValue m' key = (if key = boundary @ '':'' @ operation @ '':'' @ (if isl res then ''error'' else ''success'')
      then i64 (OperationMetricValue m key + 1) else OperationMetricValue m key)"
    using assms(1) by (cases res) (auto simp: observeOperation_def ObserveOperation_def OperationMetricValue_def expvarIntValue_def addCount_def mget_mput Let_def)
  then show ?thesis using assms by (auto simp: observeOperation_def i64_small)
qed

section \<open>Operational endpoints\<close>

record operationalConfig =
  opc_Version :: string
  opc_Commit :: string
  opc_BuildTime :: string
  opc_StartedAt :: time
  opc_Ready :: "unit svc option"

definition withOperationalDefaults :: "time \<Rightarrow> operationalConfig \<Rightarrow> operationalConfig" where
  "withOperationalDefaults now cfg =
     \<lparr>opc_Version = (if opc_Version cfg = [] then ''dev'' else opc_Version cfg), opc_Commit = (if opc_Commit cfg = [] then ''unknown'' else opc_Commit cfg),
      opc_BuildTime = (if opc_BuildTime cfg = [] then ''unknown'' else opc_BuildTime cfg),
      opc_StartedAt = (if IsZero (opc_StartedAt cfg) then now else opc_StartedAt cfg),
      opc_Ready = (case opc_Ready cfg of None \<Rightarrow> Some (returnM ()) | Some m \<Rightarrow> Some m)\<rparr>"

text \<open>A JSON object of strings, its members in the order of their names.\<close>

definition writeOperationalJSON :: "int \<Rightarrow> (string \<times> string) list \<Rightarrow> Response option http" where
  "writeOperationalJSON status value = reply status (BDirectory value)"

definition operationalGet :: "Request \<Rightarrow> string \<Rightarrow> bool" where
  "operationalGet r name \<longleftrightarrow> methodMatches ''GET'' (rq_Method r) \<and> rq_Segments r = [name]"

definition newOperationalHandler :: "Runtime \<Rightarrow> time \<Rightarrow> operationalConfig \<Rightarrow> (Request \<Rightarrow> Response option http) \<Rightarrow> Request \<Rightarrow> Response option http" where
  "newOperationalHandler rt now cfg0 next r =
     (let cfg = withOperationalDefaults now cfg0 in
      if \<not> rq_Clean r then plainStatus 301
      else if operationalGet r ''healthz'' then
        writeOperationalJSON 200 [(''started_at'', rt_rfc3339nano rt (opc_StartedAt cfg)), (''status'', ''ok'')]
      else if operationalGet r ''readyz'' then
        bindM (attemptM (onService (case opc_Ready cfg of None \<Rightarrow> returnM () | Some m \<Rightarrow> m))) (\<lambda>ready.
        case ready of
          Inl _ \<Rightarrow> writeOperationalJSON 503 [(''error'', ''readiness check failed''), (''status'', ''not_ready'')]
        | Inr _ \<Rightarrow> writeOperationalJSON 200 [(''status'', ''ok'')])
      else if operationalGet r ''version'' then
        writeOperationalJSON 200 [(''build_time'', opc_BuildTime cfg), (''commit'', opc_Commit cfg), (''service'', ''modern-pki-service''), (''version'', opc_Version cfg)]
      else next r)"

text \<open>The handler the process listens with.\<close>

definition processHandler :: "Platform \<Rightarrow> Env \<Rightarrow> operationalConfig \<Rightarrow> Process \<Rightarrow> Request \<Rightarrow> Response option http" where
  "processHandler p env cfg proc r =
     newOperationalHandler (pf_Runtime p) (pf_startedAt p)
       (cfg\<lparr>opc_StartedAt := pf_startedAt p,
         opc_Ready := Some (newServiceReadinessCheck p (envOrDefault env ''MODERN_PKI_CORE_BIN'' defaultCoreBin)
           (\<lambda>n. case rq_CtxErr r of None \<Rightarrow> Inr () | Some e \<Rightarrow> Inl e))\<rparr>)
       (ServeHTTP (pr_Server proc)) r"

section \<open>Listening and shutting down\<close>

record httpServer =
  hsv_Addr :: string
  hsv_ReadHeaderTimeout :: duration
  hsv_ReadTimeout :: duration
  hsv_WriteTimeout :: duration
  hsv_IdleTimeout :: duration
  hsv_MaxHeaderBytes :: int

definition newHTTPServer :: "string \<Rightarrow> httpServer" where
  "newHTTPServer addr = \<lparr>hsv_Addr = addr, hsv_ReadHeaderTimeout = 5 * Second, hsv_ReadTimeout = 15 * Second, hsv_WriteTimeout = 30 * Second,
     hsv_IdleTimeout = 60 * Second, hsv_MaxHeaderBytes = 2 ^ 20\<rparr>"

text \<open>What the two \<^verbatim>\<open>select\<close> statements may see: the server ends by itself, or a signal comes first, and then the server ends or the time for it runs out.\<close>

datatype afterShutdown = ServeEnded "error option" | ShutdownTimedOut error

datatype serverFate = EndedAlone "error option" | Signalled "error option" afterShutdown

definition ErrServerClosed :: error where
  "ErrServerClosed = ErrExternal ''http: Server closed''"

definition serveResult :: "error option \<Rightarrow> error option" where
  "serveResult err = (case err of Some e \<Rightarrow> if errors_Is e ErrServerClosed then None else Some e | None \<Rightarrow> None)"

fun runServerUntilShutdown :: "serverFate \<Rightarrow> error option" where
  "runServerUntilShutdown (EndedAlone err) = serveResult err"
| "runServerUntilShutdown (Signalled (Some err) rest) = Some err"
| "runServerUntilShutdown (Signalled None (ServeEnded err)) = serveResult err"
| "runServerUntilShutdown (Signalled None (ShutdownTimedOut err)) = Some err"

section \<open>The log\<close>

text \<open>A field whose name looks like a secret never shows its value.\<close>

lemma logRecord_redacts:
  assumes "isSecretLogField k"
  shows "mget (logRecord event flds) k \<in> {None, Some (JString ''[redacted]'')}"
proof -
  define hidden where "hidden m \<longleftrightarrow> mget m k \<in> {None, Some (JString ''[redacted]'')}" for m
  have "hidden m \<Longrightarrow> hidden (addLogField x m)" for x m using assms by (auto simp: hidden_def addLogField_def mget_mput split: prod.split)
  then have "hidden m \<Longrightarrow> hidden (fold addLogField flds m)" for m by (induction flds arbitrary: m) simp_all
  moreover have "\<not> isSecretLogField ''event''" by code_simp
  ultimately show ?thesis using assms unfolding logRecord_def hidden_def by (metis insertI1 mget_mempty mget_mput)
qed

section \<open>Readiness\<close>

text \<open>The readiness check reads the store and changes nothing in it.\<close>

lemma fatalM_quiet [clean_rules]: "quiet m \<Longrightarrow> quiet (fatalM what m)"
  by (auto simp: quiet_def fatalM_def grows_def split: prod.splits) (metis snd_conv)+

lemma checks_quiet [clean_rules]: "quiet (checkResponderKeyRef p responder)" "quiet (checkIssuerKeyRefs p ctxErr issuer)"
  unfolding checkIssuerKeyRefs_def checkResponderKeyRef_def checkReadableKeyRef_def by (intro clean_rules)+

lemma readiness_quiet: "quiet (newServiceReadinessCheck p bin ctxErr)"
  unfolding newServiceReadinessCheck_def checkCoreCLIAvailable_def checkActiveKeyRefs_def Let_def by (intro clean_rules)

text \<open>A loop over checks that depend on the store alone succeeds when every one of them does.\<close>

lemma forM_checks:
  assumes "\<And>x. quiet (f x)" and "\<And>x w w'. w_repo w = w_repo w' \<Longrightarrow> fst (f x w) = Inr () \<longleftrightarrow> fst (f x w') = Inr ()"
  shows "fst (forM xs f w) = Inr () \<longleftrightarrow> (\<forall>x \<in> set xs. fst (f x w) = Inr ())"
proof (induction xs arbitrary: w)
  case (Cons x xs)
  have same: "w_repo (snd (f x w)) = w_repo w" using assms(1) by (simp add: quiet_def)
  have "fst (forM (x # xs) f w) = Inr () \<longleftrightarrow> fst (f x w) = Inr () \<and> fst (forM xs f (snd (f x w))) = Inr ()"
    by (auto simp: run_thenM split: prod.splits sum.splits)
  then show ?case using assms(2)[OF same] by (simp add: Cons.IH)
qed simp

text \<open>
  When files do not come and go during the check, the key references pass exactly when the key file of every active issuer and of every active OCSP responder of
  such an issuer can be opened.
\<close>

lemma checkActiveKeyRefs_iff:
  assumes files: "\<And>n k. pf_OpenFile p n k = (if k \<in> readable then Inr () else Inl (err k))"
  shows "fst (checkActiveKeyRefs p (\<lambda>n. Inr ()) w) = Inr () \<longleftrightarrow>
    (\<forall>issuer \<in> set (mvals (ms_issuers (w_repo w))). iss_Status issuer = IssuerActive \<longrightarrow> iss_KeyRef issuer \<in> readable \<and>
       (\<forall>responder \<in> set (listOCSPRespondersByIssuer (ms_ocspResponders (w_repo w)) (iss_ID issuer)).
          rsp_Status responder = OCSPResponderActive \<longrightarrow> rsp_KeyRef responder \<in> readable))"
proof -
  have r: "fst (checkResponderKeyRef p x v) = Inr () \<longleftrightarrow> (rsp_Status x = OCSPResponderActive \<longrightarrow> rsp_KeyRef x \<in> readable)" for x v
    by (simp add: checkResponderKeyRef_def fatalM_def checkReadableKeyRef_def callExt_def files wrapR_def)
  have rs: "fst (forM xs (checkResponderKeyRef p) v) = Inr () \<longleftrightarrow> (\<forall>x \<in> set xs. rsp_Status x = OCSPResponderActive \<longrightarrow> rsp_KeyRef x \<in> readable)" for xs v
    by (subst forM_checks) (simp_all add: checks_quiet r)
  have i: "fst (checkIssuerKeyRefs p (\<lambda>n. Inr ()) x v) = Inr () \<longleftrightarrow> (iss_Status x = IssuerActive \<longrightarrow> iss_KeyRef x \<in> readable \<and>
       (\<forall>responder \<in> set (listOCSPRespondersByIssuer (ms_ocspResponders (w_repo v)) (iss_ID x)).
          rsp_Status responder = OCSPResponderActive \<longrightarrow> rsp_KeyRef responder \<in> readable))" for x v
    using rs by (simp add: checkIssuerKeyRefs_def run_thenM run_bindM fatalM_def checkReadableKeyRef_def callExt_def files wrapR_def run_onRepo
        MemoryStore_ListOCSPRespondersByIssuer_def)
  have "fst (forM xs (checkIssuerKeyRefs p (\<lambda>n. Inr ())) w) = Inr () \<longleftrightarrow> (\<forall>x \<in> set xs. fst (checkIssuerKeyRefs p (\<lambda>n. Inr ()) x w) = Inr ())" for xs
    by (subst forM_checks) (simp_all add: checks_quiet i)
  then show ?thesis using i
    by (simp add: checkActiveKeyRefs_def run_bindM run_onRepo MemoryStore_ListIssuers_def copyIssuer_def)
qed

section \<open>From start-up to the running process\<close>

lemma fatalM_Inr: "fatalM what m w = (Inr x, w') \<longleftrightarrow> m w = (Inr x, w')"
  by (auto simp: fatalM_def split: prod.splits)

text \<open>What a start-up that succeeds went through.\<close>

lemma main_Inr:
  assumes "main p env w = (Inr proc, w')"
  obtains authCfg outboxCfg scanCfg verifierCfg acmeDefaultsCfg nonceCfg publicTLSCfg svc keyLog acmeRes w1 where
    "loadAuthConfig (pf_Library p) env = Inr authCfg" "loadACMENonceConfig env = Inr nonceCfg"
    "buildService p env (envOrDefault env ''MODERN_PKI_CORE_BIN'' defaultCoreBin) authCfg verifierCfg publicTLSCfg = Inr svc"
    "bootstrapAPIKey svc authCfg w = (Inr keyLog, w1)" "bootstrapACME p svc acmeDefaultsCfg w1 = (Inr acmeRes, w')"
    "pr_Server proc = NewWithAuthAndACME svc (atc_HTTP authCfg) (fst acmeRes) (pf_Codec p) (pf_Crypto p) (pf_now p)" "pr_NonceStore proc = anc_Store nonceCfg"
    "pr_OutboxWorker proc = fst (startOutboxWorker p svc outboxCfg)" "pr_ScanWorker proc = fst (startScanWorker p svc scanCfg)"
  using assms by (clarsimp simp: main_def Let_def inr_simps case_prod_beta)

lemma built_service:
  assumes "buildService p env bin authCfg verifierCfg publicTLSCfg = Inr svc"
  shows "svc_apiKeyPepper svc = TrimSpace (atc_APIKeyPepper authCfg)" "svc_productionPolicy svc = isProductionEnv (env ''MODERN_PKI_ENV'')"
    "svc_idgen svc = pf_idgen p" "svc_clock svc = pf_clock p" "svc_runtime svc = pf_Runtime p"
  using assms by (auto simp: buildService_def bindR_Inr applyMaxValidity_def applyCAAPolicy_def SetPublicTLSMaxValidity_def SetPublicTLSCAAPolicy_def
      EnableProductionPolicy_def NewService_def Let_def split: if_splits)

lemma server_fields [simp]:
  "sv_service (NewWithAuthAndACME svc auth acme codec crypto clock) = svc"
  "auth_Mode auth \<noteq> [] \<Longrightarrow> sv_auth (NewWithAuthAndACME svc auth acme codec crypto clock) = auth"
  by (simp_all add: NewWithAuthAndACME_def Let_def)

text \<open>Start-up moves the service by its own operations only.\<close>

lemma bootstrap_runs:
  "bootstrapAPIKey svc cfg w = (Inr keyLog, w') \<Longrightarrow> serviceRun svc w w'"
  "bootstrapACME p svc acfg w = (Inr x, w') \<Longrightarrow> serviceRun svc w w'"
proof -
  assume "bootstrapAPIKey svc cfg w = (Inr keyLog, w')"
  then show "serviceRun svc w w'"
    by (auto simp: bootstrapAPIKey_def inr_simps fatalM_Inr runIdle split: if_splits)
      (metis runIdle runStep snd_conv stepEnsureAPIKey)
next
  assume run: "bootstrapACME p svc acfg w = (Inr x, w')"
  show "serviceRun svc w w'"
  proof (cases "adc_BootstrapDefaults acfg")
    case False
    then show ?thesis using run by (simp add: bootstrapACME_def runIdle)
  next
    case True
    then obtain rq1 rq2 rq3 i1 i2 i3 w1 w2 where "Service_CreateIdentity svc backgroundContext ''system'' rq1 w = (Inr i1, w1)"
      "Service_CreateIssuer svc backgroundContext ''system'' rq2 w1 = (Inr i2, w2)"
      "Service_CreateCertificateProfile svc backgroundContext ''system'' rq3 w2 = (Inr i3, w')"
      using run by (auto simp: bootstrapACME_def bootstrapACMEDefaults_def inr_simps fatalM_Inr split: prod.splits)
    then show ?thesis by (metis runIdle runStep snd_conv stepCreateIdentity stepCreateIssuer stepCreateCertificateProfile)
  qed
qed

lemma started:
  assumes "main p env w = (Inr proc, w')"
  shows "serviceRun (sv_service (pr_Server proc)) w w'" "workersOf (sv_service (pr_Server proc)) (pr_OutboxWorker proc) (pr_ScanWorker proc)"
    "svc_idgen (sv_service (pr_Server proc)) = pf_idgen p"
  using assms
proof (atomize (full), cases rule: main_Inr, goal_cases)
  case (1 authCfg outboxCfg scanCfg verifierCfg acmeDefaultsCfg nonceCfg publicTLSCfg svc keyLog acmeRes w1)
  then show ?case using run_trans[OF bootstrap_runs(2) bootstrap_runs(1)] built_service(3)
    by (auto simp: workersOf_def startOutboxWorker_def startScanWorker_def)
qed

lemma operational_runs:
  assumes "\<And>m. opc_Ready cfg = Some m \<Longrightarrow> quiet m" and "\<And>r. runs sv (next r)"
  shows "runs sv (newOperationalHandler rt now cfg next r)"
proof -
  have "quiet (case opc_Ready (withOperationalDefaults now cfg) of None \<Rightarrow> returnM () | Some m \<Rightarrow> m)"
    using assms(1) by (auto simp: withOperationalDefaults_def split: option.split intro!: clean_rules)
  then have "runs sv (onService (case opc_Ready (withOperationalDefaults now cfg) of None \<Rightarrow> returnM () | Some m \<Rightarrow> m))"
    by (rule runs_quiet)
  then show ?thesis unfolding newOperationalHandler_def writeOperationalJSON_def Let_def by (intro runs_rules assms(2))
qed

lemma handler_runs: "runs (pr_Server proc) (processHandler p env cfg proc r)"
  unfolding processHandler_def by (rule operational_runs) (auto intro: readiness_quiet runs_ServeHTTP)


section \<open>Production\<close>

lemma operational_refuses:
  assumes "\<And>name. name \<in> {''healthz'', ''readyz'', ''version''} \<Longrightarrow> \<not> operationalGet r name"
    and "\<exists>resp s'. ServeHTTP (pr_Server proc) r s = (Inr (Some resp), s') \<and> rs_Status resp \<in> {401, 403}"
  shows "\<exists>resp s'. processHandler p env cfg proc r s = (Inr (Some resp), s') \<and> rs_Status resp \<in> {301, 401, 403}"
  using assms by (auto simp: processHandler_def newOperationalHandler_def plainStatus_def Let_def)


end
