(* ===== verification/Scenario.thy ===== *)
theory Scenario
  imports Registry Revocation Issuing Outbox ApiKeys Caa Acme
begin

text \<open>
  A concrete deployment: identifiers of growing length, a clock that moves one second a call, a signer
  that answers every request, and a run of the service on it, from the empty store to a revoked
  certificate. The witnesses of the general theorems are instances of them on this run.
\<close>

section \<open>The deployment\<close>

definition demoSigner :: CertificateIssuer where
  "demoSigner =
     \<lparr>ci_Issue = (\<lambda>n req. Inr \<lparr>irs_CertificatePEM = ''pem'', irs_SerialNumber = replicate (Suc n) CHR ''7'',
        irs_Subject = ''CN=a'', irs_NotBefore = 1, irs_NotAfter = 9000000000\<rparr>),
      ci_InspectCSR = (\<lambda>n csr. Inr \<lparr>csr_Subject = ''CN=a'', csr_DNSNames = [''a''], csr_IPAddresses = [],
        csr_PublicKeyAlgorithm = ''RSA'', csr_PublicKeySizeBits = 2048, csr_SignatureAlgorithm = ''sha256'', csr_ExtensionOIDs = []\<rparr>),
      ci_GenerateCRL = (\<lambda>n req. Inr \<lparr>gcr_CRLPEM = ''crl''\<rparr>),
      ci_InspectOCSPIssuer = (\<lambda>n pem alg. Inr \<lparr>oii_IssuerNameHash = ''nh'', oii_IssuerKeyHash = ''kh'', oii_HashAlgorithm = alg\<rparr>),
      ci_ValidateOCSPResponder = (\<lambda>n issuer responder. Inr \<lparr>vor_Valid = True\<rparr>),
      ci_InspectOCSP = (\<lambda>n der. Inr \<lparr>ori_Certificates = [\<lparr>oci_SerialNumber = ''c3'', oci_IssuerNameHash = ''nh'',
        oci_IssuerKeyHash = ''kh'', oci_HashAlgorithm = ''sha1''\<rparr>], ori_HasNonce = False, ori_NonceHex = []\<rparr>),
      ci_GenerateOCSPResponse = (\<lambda>n req. Inr \<lparr>gor_ResponseDER = ''der''\<rparr>)\<rparr>"

definition demoRuntime :: Runtime where
  "demoRuntime = \<lparr>rt_sha256hex = (\<lambda>s. s), rt_hmacSha256hex = (\<lambda>k s. k @ s), rt_randBytes = (\<lambda>n len. Inr (replicate len CHR ''t'')),
     rt_rfc3339 = (\<lambda>t. ''t''), rt_rfc3339nano = (\<lambda>t. ''t''), rt_sinceMillis = (\<lambda>t. 0), rt_urlParse = (\<lambda>s. None), rt_jsonObject = (\<lambda>s. Inr s)\<rparr>"

definition demoService :: Service where
  "demoService = \<lparr>svc_issuer = demoSigner, svc_clock = (\<lambda>n. 1000000000 * int (Suc n)),
     svc_idgen = (\<lambda>n. replicate (Suc n) CHR ''x''), svc_acmeHTTP01Verifier = (\<lambda>n d t k. Inr ()), svc_apiKeyPepper = [],
     svc_productionPolicy = False, svc_publicTLSMaxValidityOverride = 0, svc_publicTLSCAAPolicy = None, svc_runtime = demoRuntime\<rparr>"

definition demoContext :: Context where
  "demoContext = \<lparr>ctx_auditRequest = None, ctx_apiKey = None\<rparr>"

definition emptyWorld :: world where
  "emptyWorld = \<lparr>w_repo = NewMemoryStore, w_clock = 0, w_ids = 0, w_ext = 0\<rparr>"


section \<open>A store in use\<close>

text \<open>
  One identity and one root issuer with an active OCSP responder; an approved enrollment \<open>e1\<close>, an enrollment \<open>e2\<close>
  with a valid certificate, an enrollment \<open>e3\<close> whose certificate has been revoked, and an approved enrollment
  \<open>e4\<close> whose attempt has been signed but not finalized. An API key, two outbox messages (one due, one dead
  letter) and an ACME account with an order that is ready and one that is pending.
\<close>

definition demoIdentity :: Identity where
  "demoIdentity = zero_Identity\<lparr>idn_ID := ''id'', idn_Type := IdentityService, idn_Name := ''a'', idn_AllowedDNSNames := [''a''],
     idn_Status := IdentityActive\<rparr>"

definition demoIssuer :: Issuer where
  "demoIssuer = \<lparr>iss_ID = ''ca'', iss_Name = ''ca'', iss_Kind = IssuerRootCA, iss_Status = IssuerActive, iss_ParentIssuerID = [],
     iss_CertificatePEM = ''pem'', iss_KeyRef = ''key'', iss_AIAURL = [], iss_CRLDistributionPoints = [], iss_TrustAnchor = True,
     iss_CreatedAt = 1, iss_UpdatedAt = 1\<rparr>"

definition demoResponder :: OCSPResponder where
  "demoResponder = \<lparr>rsp_ID = ''o1'', rsp_IssuerID = ''ca'', rsp_Name = ''ocsp'', rsp_Status = OCSPResponderActive,
     rsp_CertificatePEM = ''rpem'', rsp_KeyRef = ''rkey'', rsp_CreatedAt = 1, rsp_UpdatedAt = 1\<rparr>"

definition demoEnrollment :: "string \<Rightarrow> EnrollmentStatus \<Rightarrow> Enrollment" where
  "demoEnrollment ident st = \<lparr>enr_ID = ident, enr_IdentityID = ''id'', enr_IssuerID = ''ca'', enr_CertificateProfileID = [],
     enr_CSRPEM = ''csr'', enr_Status = st, enr_RequestedSubject = ''CN=a'', enr_RequestedDNSNames = [''a''],
     enr_RequestedIPAddresses = [], enr_CSRDNSNames = [''a''], enr_CSRIPAddresses = [], enr_RequestedNotAfter = 9000000000,
     enr_ApprovedBy = ''op'', enr_ApprovedAt = 1, enr_CreatedAt = 1, enr_UpdatedAt = 1\<rparr>"

definition demoCertificate :: "string \<Rightarrow> string \<Rightarrow> CertificateStatus \<Rightarrow> Certificate" where
  "demoCertificate ident enrollment st = \<lparr>cert_ID = ident, cert_IdentityID = ''id'', cert_IssuerID = ''ca'',
     cert_EnrollmentID = enrollment, cert_CertificateProfileID = [], cert_SerialNumber = ident, cert_Subject = ''CN=a'',
     cert_DNSNames = [''a''], cert_IPAddresses = [], cert_NotBefore = 1, cert_NotAfter = 500000000, cert_Status = st,
     cert_CertificatePEM = ''pem'', cert_RenewalNotifiedAt = 0, cert_CreatedAt = 1, cert_UpdatedAt = 1\<rparr>"

definition demoAttempt :: "string \<Rightarrow> string \<Rightarrow> IssuanceAttempt" where
  "demoAttempt enrollment ident = \<lparr>att_EnrollmentID = enrollment, att_Status = IssuanceAttemptFinalized, att_LeaseExpiresAt = 0,
     att_CertificateID = ident, att_CertificatePEM = ''pem'', att_SerialNumber = ident, att_Subject = ''CN=a'', att_NotBefore = 1,
     att_NotAfter = 500000000, att_SigningStartedAt = 1, att_SignedAt = 1, att_FinalizedAt = 1, att_LastError = [],
     att_CreatedAt = 1, att_UpdatedAt = 1\<rparr>"

definition demoRevocation :: Revocation where
  "demoRevocation = \<lparr>rev_ID = ''r3'', rev_CertificateID = ''c3'', rev_Reason = RevocationKeyCompromise, rev_RevokedBy = ''op'',
     rev_RevokedAt = 1, rev_CreatedAt = 1\<rparr>"

definition demoSigned :: IssuanceAttempt where
  "demoSigned = (demoAttempt ''e4'' ''c4'')\<lparr>att_Status := IssuanceAttemptSigned, att_FinalizedAt := 0\<rparr>"

definition demoKey :: APIKey where
  "demoKey = \<lparr>key_ID = ''k1'', key_Name = ''ci'', key_TokenHash = ''sha256:tok'', key_Status = APIKeyActive, key_Actor = ''ci'',
     key_Scopes = [APIKeyScopeRead], key_ExpiresAt = 0, key_LastUsedAt = 0, key_CreatedAt = 1, key_UpdatedAt = 1\<rparr>"

definition demoMessage :: "string \<Rightarrow> OutboxMessageStatus \<Rightarrow> OutboxMessage" where
  "demoMessage ident st = \<lparr>msg_ID = ident, msg_Type = ''certificate.issued'', msg_PayloadJSON = [], msg_Status = st, msg_AvailableAt = 1,
     msg_ProcessingDeadlineAt = 0, msg_AttemptCount = 0, msg_MaxAttempts = 5, msg_LastError = [], msg_CreatedAt = 1, msg_UpdatedAt = 1\<rparr>"

definition demoAccount :: ACMEAccount where
  "demoAccount = \<lparr>acc_ID = ''ac'', acc_Contacts = [], acc_Status = ACMEAccountValid, acc_TermsOfServiceAgreed = True,
     acc_KeyThumbprint = ''tp'', acc_KeyJWKJSON = [], acc_CreatedAt = 1, acc_UpdatedAt = 1\<rparr>"

definition demoOrder :: "string \<Rightarrow> ACMEOrderStatus \<Rightarrow> ACMEOrder" where
  "demoOrder ident st = \<lparr>ord_ID = ident, ord_AccountID = ''ac'', ord_IdentityID = ''id'', ord_IssuerID = ''ca'',
     ord_CertificateProfileID = [], ord_Status = st, ord_CSRPEM = [], ord_RequestedSubject = [], ord_RequestedDNSNames = [''a''],
     ord_RequestedIPAddresses = [], ord_RequestedNotAfter = 9000000000, ord_EnrollmentID = [], ord_CertificateID = [],
     ord_ExpiresAt = 90000000000, ord_CreatedAt = 1, ord_UpdatedAt = 1\<rparr>"

definition demoAuthz :: "string \<Rightarrow> string \<Rightarrow> ACMEAuthorizationStatus \<Rightarrow> ACMEAuthorization" where
  "demoAuthz ident order st = \<lparr>authz_ID = ident, authz_OrderID = order, authz_IdentifierType = ''dns'', authz_IdentifierValue = ''a'',
     authz_Status = st, authz_ExpiresAt = 90000000000, authz_ValidationReuseExpiresAt = 0, authz_CreatedAt = 1, authz_UpdatedAt = 1\<rparr>"

definition demoChallenge :: "string \<Rightarrow> string \<Rightarrow> ACMEChallengeStatus \<Rightarrow> ACMEChallenge" where
  "demoChallenge ident authz st = \<lparr>chal_ID = ident, chal_AuthorizationID = authz, chal_Type = ACMEChallengeHTTP01, chal_Token = ''tk'',
     chal_Status = st, chal_ValidatedAt = 0, chal_CreatedAt = 1, chal_UpdatedAt = 1\<rparr>"

definition demoEndpoint :: NotificationEndpoint where
  "demoEndpoint = \<lparr>ep_ID = ''n1'', ep_Name = ''hook'', ep_Type = NotificationEndpointWebhook, ep_Status = NotificationEndpointActive,
     ep_URL = ''https://a'', ep_Secret = ''s'', ep_EventTypes = [], ep_CreatedAt = 1, ep_UpdatedAt = 1\<rparr>"

definition demoStore :: MemoryStore where
  "demoStore = NewMemoryStore\<lparr>ms_identities := mput ''id'' demoIdentity mempty, ms_issuers := mput ''ca'' demoIssuer mempty,
     ms_ocspResponders := mput ''o1'' demoResponder mempty, ms_notifications := mput ''n1'' demoEndpoint mempty,
     ms_enrollments := mput ''e4'' (demoEnrollment ''e4'' EnrollmentApproved) (mput ''e3'' (demoEnrollment ''e3'' EnrollmentIssued) (mput ''e2'' (demoEnrollment ''e2'' EnrollmentIssued)
       (mput ''e1'' (demoEnrollment ''e1'' EnrollmentApproved) mempty))),
     ms_certificates := mput ''c3'' (demoCertificate ''c3'' ''e3'' CertificateRevoked)
       (mput ''c2'' (demoCertificate ''c2'' ''e2'' CertificateValid) mempty),
     ms_issuanceAttempts := mput ''e4'' demoSigned (mput ''e3'' (demoAttempt ''e3'' ''c3'') (mput ''e2'' (demoAttempt ''e2'' ''c2'') mempty)),
     ms_revocations := mput ''r3'' demoRevocation mempty, ms_apiKeys := mput ''k1'' demoKey mempty,
     ms_outbox := mput ''m2'' (demoMessage ''m2'' OutboxDeadLetter) (mput ''m1'' (demoMessage ''m1'' OutboxPending) mempty),
     ms_acmeAccounts := mput ''ac'' demoAccount mempty,
     ms_acmeOrders := mput ''q2'' (demoOrder ''q2'' ACMEOrderPending) (mput ''q1'' (demoOrder ''q1'' ACMEOrderReady) mempty),
     ms_acmeAuthzs := mput ''z2'' (demoAuthz ''z2'' ''q2'' ACMEAuthorizationPending) (mput ''z1'' (demoAuthz ''z1'' ''q1'' ACMEAuthorizationValid) mempty),
     ms_acmeChallenges := mput ''h2'' (demoChallenge ''h2'' ''z2'' ACMEChallengePending) (mput ''h1'' (demoChallenge ''h1'' ''z1'' ACMEChallengeValid) mempty)\<rparr>"

definition demoWorld :: world where
  "demoWorld = \<lparr>w_repo = demoStore, w_clock = 0, w_ids = 0, w_ext = 0\<rparr>"

lemmas demo_rows = demoIdentity_def demoIssuer_def demoResponder_def demoEnrollment_def demoCertificate_def demoAttempt_def
  demoRevocation_def demoSigned_def demoKey_def demoMessage_def demoAccount_def demoOrder_def demoAuthz_def demoChallenge_def demoEndpoint_def

lemma demo_tables:
  "ms_identities demoStore = mput ''id'' demoIdentity mempty" "ms_issuers demoStore = mput ''ca'' demoIssuer mempty"
  "ms_ocspResponders demoStore = mput ''o1'' demoResponder mempty"
  "ms_enrollments demoStore = mput ''e4'' (demoEnrollment ''e4'' EnrollmentApproved) (mput ''e3'' (demoEnrollment ''e3'' EnrollmentIssued) (mput ''e2'' (demoEnrollment ''e2'' EnrollmentIssued)
       (mput ''e1'' (demoEnrollment ''e1'' EnrollmentApproved) mempty)))"
  "ms_certificates demoStore = mput ''c3'' (demoCertificate ''c3'' ''e3'' CertificateRevoked)
       (mput ''c2'' (demoCertificate ''c2'' ''e2'' CertificateValid) mempty)"
  "ms_issuanceAttempts demoStore = mput ''e4'' demoSigned (mput ''e3'' (demoAttempt ''e3'' ''c3'') (mput ''e2'' (demoAttempt ''e2'' ''c2'') mempty))"
  "ms_revocations demoStore = mput ''r3'' demoRevocation mempty"
  "ms_notifications demoStore = mput ''n1'' demoEndpoint mempty" "ms_profiles demoStore = mempty" "ms_crls demoStore = mempty"
  "ms_auditEvents demoStore = []" "ms_jobAttempts demoStore = mempty" "ms_webhookDeliveries demoStore = mempty"
  "ms_outbox demoStore = mput ''m2'' (demoMessage ''m2'' OutboxDeadLetter) (mput ''m1'' (demoMessage ''m1'' OutboxPending) mempty)"
  "ms_apiKeys demoStore = mput ''k1'' demoKey mempty" "ms_acmeAccounts demoStore = mput ''ac'' demoAccount mempty"
  "ms_acmeOrders demoStore = mput ''q2'' (demoOrder ''q2'' ACMEOrderPending) (mput ''q1'' (demoOrder ''q1'' ACMEOrderReady) mempty)"
  "ms_acmeAuthzs demoStore = mput ''z2'' (demoAuthz ''z2'' ''q2'' ACMEAuthorizationPending) (mput ''z1'' (demoAuthz ''z1'' ''q1'' ACMEAuthorizationValid) mempty)"
  "ms_acmeChallenges demoStore = mput ''h2'' (demoChallenge ''h2'' ''z2'' ACMEChallengePending) (mput ''h1'' (demoChallenge ''h1'' ''z1'' ACMEChallengeValid) mempty)"
  by (simp_all add: demoStore_def NewMemoryStore_def)

lemma demo_service:
  "svc_issuer demoService = demoSigner" "svc_clock demoService n = 1000000000 * int (Suc n)"
  "svc_idgen demoService n = replicate (Suc n) CHR ''x''" "svc_runtime demoService = demoRuntime"
  "svc_apiKeyPepper demoService = []" "svc_productionPolicy demoService = False"
  "svc_publicTLSCAAPolicy demoService = None" "svc_acmeHTTP01Verifier demoService k d t a = Inr ()"
  by (simp_all add: demoService_def)

lemma demo_store_inv: "store_inv demoStore"
proof -
  have "tables_keyed demoStore" by (simp add: tables_keyed_def demo_tables demo_rows)
  moreover have "one_active_responder (ms_ocspResponders demoStore)"
    by (auto simp: one_active_responder_def demo_tables mget_mput split: if_splits)
  moreover have "unique_certificates (ms_certificates demoStore)"
    by (auto simp: unique_certificates_def certs_conflict_def demo_tables demo_rows mget_mput split: if_splits)
  moreover have "unique_crl_numbers (ms_crls demoStore)" "unique_thumbprints (ms_acmeAccounts demoStore)"
    by (auto simp: unique_crl_numbers_def unique_thumbprints_def demo_tables mget_mput split: if_splits)
  ultimately show ?thesis by (simp add: store_inv_def)
qed

lemma demo_sound: "sound demoService demoWorld"
proof -
  have "inj (svc_idgen demoService)" by (rule injI) (metis Suc_inject length_replicate demo_service(3))
  moreover have "svc_idgen demoService n \<notin> used_ids demoStore" for n
    by (simp add: used_ids_def demo_tables demo_service dom_mput dom_def)
  ultimately show ?thesis
    by (simp add: sound_def ids_fresh_def demoWorld_def demo_store_inv demo_service)
qed

lemma demo_pool: "attemptPool {} (ms_issuanceAttempts demoStore) = {demoSigned, demoAttempt ''e3'' ''c3'', demoAttempt ''e2'' ''c2''}"
proof -
  have upd: "mget (mput k v m) = (mget m)(k \<mapsto> v)" for k :: string and v :: IssuanceAttempt and m by (rule ext) (simp add: mget_mput)
  have "mget mempty = (\<lambda>k :: string. None :: IssuanceAttempt option)" by (rule ext) simp
  then show ?thesis by (simp add: attemptPool_def demo_tables upd)
qed

lemma demo_issuance_ok: "issuance_ok demoService {} demoWorld"
proof -
  have "attempts_ok (futureIDs demoService 0) {} (ms_issuanceAttempts demoStore)"
    unfolding attempts_ok_def demo_pool
    by (simp add: demoAttempt_def demoSigned_def futureIDs_def demo_service demo_tables mget_mput image_iff)
  moreover have "issued_ok (ms_enrollments demoStore) (ms_issuanceAttempts demoStore) (ms_certificates demoStore)"
    by (auto simp: issued_ok_def demo_tables mget_mput certificateOf_def demoAttempt_def demoSigned_def demoEnrollment_def demoCertificate_def
        split: if_splits)
  ultimately show ?thesis by (simp add: issuance_ok_def demoWorld_def)
qed

lemma demo_revocation_ok: "revocation_ok demoStore"
  by (auto simp: revocation_ok_def revokedIn_def demo_tables demo_rows mget_mput split: if_splits)

lemma demo_acme_ok: "acme_ok demoStore"
proof -
  have "acme_validated demoStore"
    by (auto simp: acme_validated_def demo_tables demo_rows mget_mput split: if_splits)
  moreover have "hasChallenge demoStore ''z1''" "hasChallenge demoStore ''z2''"
    by (auto simp: hasChallenge_def demo_tables demo_rows mget_mput intro: exI[of _ "''h1''"] exI[of _ "''h2''"])
  then have "authzsChallenged demoStore" by (auto simp: authzsChallenged_def demo_tables mget_mput split: if_splits)
  moreover have "hasAuthz demoStore ''q1'' ''dns'' ''a''" "hasAuthz demoStore ''q2'' ''dns'' ''a''"
    by (auto simp: hasAuthz_def demo_tables demo_rows mget_mput intro: exI[of _ "''z1''"] exI[of _ "''z2''"])
  then have "orderCovered demoStore r" if "mget (ms_acmeOrders demoStore) k = Some r" for k r
    using that by (auto simp: orderCovered_def demo_tables demo_rows mget_mput split: if_splits)
  ultimately show ?thesis by (simp add: acme_ok_def)
qed

section \<open>Witnesses\<close>

definition demoPublish :: PublishCRLRequest where
  "demoPublish = \<lparr>pcr_IssuerID = ''ca'', pcr_DistributionPoint = ''dp'', pcr_NextUpdate = 9000000000\<rparr>"

lemma demo_text [simp]: "\<not> isBlank ''ca''" "\<not> isBlank ''dp''" "\<not> isBlank ''op''"
  by code_simp+

lemmas demo_eval = prog_simps run_onRepo run_WithinTx run_createAuditEvent run_createOutboxMessage tx_agree mget_mput
  demo_tables demo_service demoWorld_def Let_def go_eval mvals_def

lemma demo_publish: "\<exists>p w'. Service_PublishCRL demoService demoContext ''op'' demoPublish demoWorld = (Inr p, w')"
  by (simp add: Service_PublishCRL_def publishTx_def demoPublish_def validatePublishCRLRequest_def demo_eval
     MemoryStore_GetIssuer_def MemoryStore_ListRevocationsByIssuer_def MemoryStore_ListCRLPublicationsByIssuer_def
     MemoryStore_CreateCRLPublication_def ensureCRLPublicationNumberAvailable_def demoSigner_def newCRLPublication_def)


theorem scan_leaves_nothing_due_witness:
  "\<exists>res w'. Service_ScanCertificateExpirations demoService demoContext ''op'' \<lparr>scr_WarningWindow = 0, scr_Limit = 10\<rparr> demoWorld = (Inr res, w') \<and>
     (\<forall>k c. mget (ms_certificates (w_repo w')) k = Some c \<longrightarrow> \<not> certificateNeedsExpirationScan c 1000000000 1000000000)"
proof -
  have "length (mvals (ms_certificates demoStore)) \<le> 10" by code_simp
  then have "length (filter P (mvals (ms_certificates demoStore))) \<le> 10" for P
    using length_filter_le le_trans by blast
  then show ?thesis
    using scan_leaves_nothing_due[OF demo_sound, of "\<lparr>scr_WarningWindow = 0, scr_Limit = 10\<rparr>" demoContext "''op''"]
    by (simp add: demoWorld_def demo_service) blast
qed

definition demoRotate :: RotateOCSPResponderRequest where
  "demoRotate = \<lparr>ror_IssuerID = ''ca'', ror_Name = ''new'', ror_CertificatePEM = ''rpem'', ror_KeyRef = ''rkey2''\<rparr>"

lemma demo_text2 [simp]: "\<not> isBlank ''new''" "\<not> isBlank ''rpem''" "\<not> isBlank ''rkey2''" "\<not> isBlank ''e1''" "\<not> isBlank ''k1''" "\<not> isBlank ''q1''"
    "\<not> isBlank ''h2''"
  by code_simp+

lemma demo_rotate: "\<exists>r w'. Service_RotateOCSPResponder demoService demoContext ''op'' demoRotate demoWorld = (Inr r, w')"
  by (simp add: Service_RotateOCSPResponder_def demoRotate_def demo_eval demo_rows MemoryStore_GetIssuer_def demoSigner_def
      validateResponder_def rotateTx_def newResponder_def go_eval MemoryStore_GetActiveOCSPResponderByIssuer_def
      activeOCSPResponderByIssuer_def MemoryStore_UpdateOCSPResponderIfStatus_def updateOCSPResponderIfStatus_def MemoryStore_CreateOCSPResponder_def)

theorem RotateOCSPResponder_replaces_witness:
  "\<exists>r w'. Service_RotateOCSPResponder demoService demoContext ''op'' demoRotate demoWorld = (Inr r, w') \<and>
     activeOCSPResponderByIssuer (ms_ocspResponders (w_repo w')) ''ca'' = Inr r"
proof -
  obtain r w' where run: "Service_RotateOCSPResponder demoService demoContext ''op'' demoRotate demoWorld = (Inr r, w')" using demo_rotate by blast
  from RotateOCSPResponder_replaces[OF demo_sound run] show ?thesis using run by (auto simp: demoRotate_def)
qed

section \<open>Issuing\<close>

lemma demo_policy: "valueAllowedByList ''a'' [''a'']" "\<not> HasPrefix (TrimSpace ''a'') ''*.''"
  by code_simp+

lemmas issue_eval = demo_eval demo_policy Service_IssueCertificate_def issueApproved_def prepareIssue_def issueProfile_def issueCSRInfo_def
  profileRequiresCSRPolicy_def zero_CertificateProfile_def validateEnrollmentProfilePolicy_def validateEnrollmentIdentityPolicy_def
  enrollmentProfilePolicyRequest_def claimIssuanceAttempt_def signAttempt_def persistSignedIssuanceAttempt_def finalizeSignedIssuanceAttempt_def
  finalizeTx_def ensureCertificateIssuedAuditEvent_def MemoryStore_GetEnrollment_def MemoryStore_GetIssuer_def MemoryStore_GetIdentity_def
  MemoryStore_GetIssuanceAttempt_def getIssuanceAttempt_def MemoryStore_CreateIssuanceAttempt_def createIssuanceAttempt_def
  MemoryStore_UpdateIssuanceAttemptIfCurrent_def updateIssuanceAttemptIfCurrent_def MemoryStore_UpdateEnrollmentIfStatus_def
  updateEnrollmentIfStatus_def MemoryStore_CreateCertificate_def ensureCertificateFinalizationKeysAvailable_def MemoryStore_ListAuditEvents_def
  signedAttempt_def certificateFor_def finalizedAttempt_def validateCSRPolicy_def maxCSRSANs_def newAttempt_def zero_CSRInfo_def

lemma demo_issue: "\<exists>c w'. Service_IssueCertificate demoService demoContext ''op'' ''e1'' demoWorld = (Inr c, w')"
  by (simp add: issue_eval demo_rows demoSigner_def)

theorem IssueCertificate_delivers_witness:
  "\<exists>c w'. Service_IssueCertificate demoService demoContext ''op'' ''e1'' demoWorld = (Inr c, w') \<and>
     delivered (w_repo w') ''e1'' c \<and> issueAudited (w_repo w') (cert_ID c)"
proof -
  obtain c w' where run: "Service_IssueCertificate demoService demoContext ''op'' ''e1'' demoWorld = (Inr c, w')" using demo_issue by blast
  from IssueCertificate_delivers[OF demo_sound demo_issuance_ok run] show ?thesis using run by blast
qed

theorem IssueCertificate_idempotent_witness:
  "\<exists>c w'. Service_IssueCertificate demoService demoContext ''op'' ''e1'' demoWorld = (Inr c, w') \<and>
     Service_IssueCertificate demoService demoContext ''other'' ''e1'' w' = (Inr c, w'\<lparr>w_clock := Suc (w_clock w')\<rparr>)"
proof -
  obtain c w' where run: "Service_IssueCertificate demoService demoContext ''op'' ''e1'' demoWorld = (Inr c, w')" using demo_issue by blast
  from IssueCertificate_idempotent[OF demo_sound demo_issuance_ok run] show ?thesis using run by blast
qed

lemma demo_claim: "claimIssuanceAttempt ''e1'' 1000 demoWorld = (Inr (newAttempt ''e1'' 1000, True),
    demoWorld\<lparr>w_repo := demoStore\<lparr>ms_issuanceAttempts := mput ''e1'' (newAttempt ''e1'' 1000) (ms_issuanceAttempts demoStore)\<rparr>\<rparr>)"
  by (simp add: claimIssuanceAttempt_def demo_eval MemoryStore_GetIssuanceAttempt_def getIssuanceAttempt_def
      MemoryStore_CreateIssuanceAttempt_def createIssuanceAttempt_def newAttempt_def)

theorem claim_exclusive_witness:
  "\<exists>a w'. claimIssuanceAttempt ''e1'' 1000 demoWorld = (Inr (a, True), w') \<and>
     claimIssuanceAttempt ''e1'' 2000 w' = (Inl ErrInvalidTransition, w')"
  using claim_exclusive[OF demo_sound demo_claim refl, of 2000] demo_claim by (simp add: defaultIssuanceSigningLease_def Minute_def Second_def)

lemma demo_claimed_sound: "sound demoService
    (demoWorld\<lparr>w_repo := demoStore\<lparr>ms_issuanceAttempts := mput ''e1'' (newAttempt ''e1'' 1000) (ms_issuanceAttempts demoStore)\<rparr>\<rparr>)"
  using issuesD(2)[OF claim_issues demo_sound demo_issuance_ok demo_claim] .

lemma demo_reclaim: "claimIssuanceAttempt ''e1'' (1000 + defaultIssuanceSigningLease)
    (demoWorld\<lparr>w_repo := demoStore\<lparr>ms_issuanceAttempts := mput ''e1'' (newAttempt ''e1'' 1000) (ms_issuanceAttempts demoStore)\<rparr>\<rparr>) =
  (Inr (reclaimedAttempt (newAttempt ''e1'' 1000) (1000 + defaultIssuanceSigningLease), True),
    demoWorld\<lparr>w_repo := demoStore\<lparr>ms_issuanceAttempts := mput ''e1'' (reclaimedAttempt (newAttempt ''e1'' 1000) (1000 + defaultIssuanceSigningLease))
      (mput ''e1'' (newAttempt ''e1'' 1000) (ms_issuanceAttempts demoStore))\<rparr>\<rparr>)"
  by (simp add: claimIssuanceAttempt_def demo_eval MemoryStore_GetIssuanceAttempt_def getIssuanceAttempt_def mget_mput
      MemoryStore_UpdateIssuanceAttemptIfCurrent_def updateIssuanceAttemptIfCurrent_def newAttempt_def claimDecisionFor_def reclaimedAttempt_def)

theorem stale_claim_fenced_witness:
  "\<exists>a w1 b w3. claimIssuanceAttempt ''e1'' 1000 demoWorld = (Inr (a, True), w1) \<and>
     claimIssuanceAttempt ''e1'' (1000 + defaultIssuanceSigningLease) w1 = (Inr (b, True), w3) \<and>
     (\<forall>res t. persistSignedIssuanceAttempt demoService a res t w3 = (Inl ErrInvalidTransition, w3\<lparr>w_ids := Suc (w_ids w3)\<rparr>))"
  using demo_claim demo_reclaim stale_claim_fenced[OF demo_sound demo_claim demo_claimed_sound order_refl demo_reclaim refl] by blast

theorem signed_attempt_recovered_witness:
  "\<forall>f. Service_IssueCertificate (withSigner f demoService) demoContext ''op'' ''e4'' demoWorld =
   Service_IssueCertificate demoService demoContext ''op'' ''e4'' demoWorld"
  using signed_attempt_recovered[OF demo_sound demo_issuance_ok, of "''e4''"]
  by (simp add: demoWorld_def demo_tables demoSigned_def demoEnrollment_def)

section \<open>The outbox\<close>

lemma demo_known: "knownMessage demoStore (demoMessage ''m1'' OutboxPending)"
  by (simp add: knownMessage_def demo_tables mget_mput demoMessage_def)

lemma demo_outbox_claim: "OutboxDispatcher_claim demoService (demoMessage ''m1'' OutboxPending) demoWorld =
   (Inr (Some (claimedMessage (demoMessage ''m1'' OutboxPending) 1000000000)),
    \<lparr>w_repo = demoStore\<lparr>ms_outbox := mput ''m1'' (claimedMessage (demoMessage ''m1'' OutboxPending) 1000000000) (ms_outbox demoStore)\<rparr>,
     w_clock = 1, w_ids = 0, w_ext = 0\<rparr>)"
  by (simp add: OutboxDispatcher_claim_def tryUpdate_def demo_eval MemoryStore_UpdateOutboxMessageIfCurrent_def
      updateOutboxMessageIfCurrent_def claimedMessage_def demoMessage_def)

theorem outbox_claim_exclusive_witness:
  "\<exists>c w'. OutboxDispatcher_claim demoService (demoMessage ''m1'' OutboxPending) demoWorld = (Inr (Some c), w') \<and>
     OutboxDispatcher_claim demoService (demoMessage ''m1'' OutboxPending) w' = (Inr None, w'\<lparr>w_clock := Suc (w_clock w')\<rparr>)"
proof -
  have due: "outboxMessageDue (demoMessage ''m1'' OutboxPending) (svc_clock demoService (w_clock demoWorld))"
    by (simp add: outboxMessageDue_def demoMessage_def demo_service demoWorld_def)
  have k: "knownMessage (w_repo demoWorld) (demoMessage ''m1'' OutboxPending)" by (simp add: demoWorld_def demo_known)
  from outbox_claim_exclusive[OF demo_sound k due demo_outbox_claim refl] demo_outbox_claim
  show ?thesis using demoMessage_def by auto
qed

definition demoClaimed :: OutboxMessage where
  "demoClaimed = claimedMessage (demoMessage ''m1'' OutboxPending) 1000000000"

definition demoClaimedWorld :: world where
  "demoClaimedWorld = \<lparr>w_repo = demoStore\<lparr>ms_outbox := mput ''m1'' demoClaimed (ms_outbox demoStore)\<rparr>, w_clock = 1, w_ids = 0, w_ext = 0\<rparr>"

lemma demo_failed_run: "\<exists>w'. deliverClaimed demoService (\<lambda>m. throwM ErrUnauthorized) demoClaimed demoClaimedWorld = (Inr (), w')"
  by (simp add: deliverClaimed_def deliveryOutcome_def OutboxDispatcher_finish_def demo_eval demoClaimedWorld_def
      MemoryStore_UpdateOutboxMessageIfCurrent_def updateOutboxMessageIfCurrent_def finishedMessage_def demoClaimed_def demoMessage_def
      MemoryStore_CreateJobAttempt_def claimedMessage_def effectiveOutboxMaxAttempts_def i64_small)



definition demoReplay :: ReplayDeadLetterOutboxRequest where
  "demoReplay = \<lparr>rdl_EventType = ''certificate.issued'', rdl_CreatedFrom = 1, rdl_CreatedTo = 5, rdl_Limit = 3\<rparr>"

lemma demo_selection: "replaySelection demoStore demoReplay = [demoMessage ''m2'' OutboxDeadLetter]"
  by (simp add: replaySelection_def demoReplay_def demo_tables listOutboxMessages_def replayable_def mvals_def go_eval demoMessage_def)

theorem replay_exact_witness:
  "\<exists>w'. Service_ReplayDeadLetterOutboxMessages demoService demoContext ''op'' demoReplay demoWorld =
       (Inr [outboxMessageForReplay (demoMessage ''m2'' OutboxDeadLetter) 1000000000], w') \<and>
     mget (ms_outbox (w_repo w')) ''m2'' = Some (outboxMessageForReplay (demoMessage ''m2'' OutboxDeadLetter) 1000000000) \<and>
     mget (ms_outbox (w_repo w')) ''m1'' = Some (demoMessage ''m1'' OutboxPending)"
proof -
  have "\<not> isBlank ''certificate.issued''" by code_simp
  then have "replayRequest_ok demoReplay" by (simp add: replayRequest_ok_def demoReplay_def)
  moreover have "msg_ID (demoMessage ''m2'' OutboxDeadLetter) = ''m2''" by (simp add: demoMessage_def)
  ultimately show ?thesis
    using replay_exact[OF demo_sound, of demoReplay demoContext "''op''"]
    by (auto simp: demoWorld_def demo_selection demo_service demo_tables mget_mput)
qed

definition demoClient :: httpClient where
  "demoClient = (\<lambda>n req. Inr (200, ''200 OK''))"


section \<open>API keys\<close>

lemma demo_words: "TrimSpace ''tok'' = ''tok''" "TrimSpace [] = []" "TrimSpace ''ci'' = ''ci''" "TrimSpace '' tok'' = ''tok''"
  by code_simp+

lemma demo_ci: "\<not> isBlank ''ci''"
  by code_simp

lemma demo_random: "rt_randBytes (svc_runtime demoService) n 32 = Inr raw \<Longrightarrow> length raw = 32"
  by (auto simp: demo_service demoRuntime_def)

lemmas key_eval = demo_eval demo_words demoRuntime_def hashAPIKeyToken_def HashAPIKeyTokenWithPepper_def HashAPIKeyToken_def generateAPIKeyToken_def
  newAPIKey_def validateAPIKeyScopes_def MemoryStore_CreateAPIKey_def MemoryStore_GetAPIKey_def MemoryStore_UpdateAPIKeyIfStatus_def
  updateAPIKeyIfStatus_def demoKey_def IsZero_def


definition demoCreateKey :: CreateAPIKeyRequest where
  "demoCreateKey = \<lparr>ckr_Name = ''ci'', ckr_Actor = ''ci'', ckr_Scopes = [APIKeyScopeWrite], ckr_ExpiresAt = 0\<rparr>"

lemma demo_create: "\<exists>key w'. Service_CreateAPIKey demoService demoContext ''op'' demoCreateKey demoWorld =
    (Inr \<lparr>cks_Key = key, cks_Token = RawURLEncoding_EncodeToString (replicate 32 CHR ''t'')\<rparr>, w')"
  by (simp add: Service_CreateAPIKey_def demoCreateKey_def key_eval)

lemma demo_token_new: "mget (ms_apiKeys demoStore) k = Some v \<Longrightarrow>
    key_TokenHash v \<noteq> hashAPIKeyToken demoService (RawURLEncoding_EncodeToString (replicate 32 CHR ''t''))"
proof -
  have "length (RawURLEncoding_EncodeToString (replicate 32 CHR ''t'')) \<ge> 32" using encoded_length[of "replicate 32 CHR ''t''"] by simp
  then have "RawURLEncoding_EncodeToString (replicate 32 CHR ''t'') \<noteq> ''tok''" by auto
  then show "mget (ms_apiKeys demoStore) k = Some v \<Longrightarrow> ?thesis" by (auto simp: key_eval split: if_splits)
qed

theorem created_key_authenticates_witness:
  "\<exists>res w' w''. Service_CreateAPIKey demoService demoContext ''op'' demoCreateKey demoWorld = (Inr res, w') \<and>
     Service_AuthenticateAPIKey demoService (cks_Token res) w' = (Inr (usedAt (svc_clock demoService (w_clock w')) (cks_Key res)), w'')"
proof -
  obtain key w' where run: "Service_CreateAPIKey demoService demoContext ''op'' demoCreateKey demoWorld =
      (Inr \<lparr>cks_Key = key, cks_Token = RawURLEncoding_EncodeToString (replicate 32 CHR ''t'')\<rparr>, w')" using demo_create by blast
  have "\<exists>w''. Service_AuthenticateAPIKey demoService (RawURLEncoding_EncodeToString (replicate 32 CHR ''t'')) w' =
      (Inr (usedAt (svc_clock demoService (w_clock w')) key), w'')"
    using created_key_authenticates[OF demo_sound run demo_random] demo_token_new by (simp add: demoWorld_def demoCreateKey_def)
  then show ?thesis using run by fastforce
qed

lemma demo_disable: "\<exists>key w'. Service_DisableAPIKey demoService demoContext ''op'' ''k1'' demoWorld = (Inr key, w')"
  by (simp add: Service_DisableAPIKey_def key_eval)

theorem disabled_key_rejected_witness:
  "\<exists>key w'. Service_DisableAPIKey demoService demoContext ''op'' ''k1'' demoWorld = (Inr key, w') \<and>
     fst (Service_AuthenticateAPIKey demoService ''tok'' w') = Inl ErrUnauthorized"
proof -
  obtain key w' where run: "Service_DisableAPIKey demoService demoContext ''op'' ''k1'' demoWorld = (Inr key, w')" using demo_disable by blast
  then have tbl: "ms_apiKeys (w_repo w') = mput ''k1'' key (ms_apiKeys demoStore)" by (auto simp: Service_DisableAPIKey_def key_eval)
  have "advance demoService demoWorld w'" using advancesD[OF Disable_advances demo_sound run] .
  then have s: "sound demoService w'" by (simp add: advance_def)
  have only: "i = ''k1''" if "mget (ms_apiKeys (w_repo w')) i = Some v" for i v
    using that by (simp add: tbl demo_tables mget_mput split: if_splits)
  have "fst (Service_AuthenticateAPIKey demoService ''tok'' w') = Inl ErrUnauthorized"
    by (rule disabled_key_rejected[OF demo_sound run s evolves_refl]) (rule only)
  then show ?thesis using run by blast
qed

lemma demo_rotate_key: "\<exists>key w'. Service_RotateAPIKey demoService demoContext ''op'' ''k1'' demoWorld =
    (Inr \<lparr>cks_Key = key, cks_Token = RawURLEncoding_EncodeToString (replicate 32 CHR ''t'')\<rparr>, w') \<and>
    usableKey key (svc_clock demoService (w_clock w'))"
  by (simp add: Service_RotateAPIKey_def key_eval usableKey_def demo_ci)

theorem rotated_key_hands_over_witness:
  "\<exists>res w' w''. Service_RotateAPIKey demoService demoContext ''op'' ''k1'' demoWorld = (Inr res, w') \<and>
     map_option key_Status (mget (ms_apiKeys (w_repo w')) ''k1'') = Some APIKeyDisabled \<and>
     Service_AuthenticateAPIKey demoService (cks_Token res) w' = (Inr (usedAt (svc_clock demoService (w_clock w')) (cks_Key res)), w'')"
proof -
  obtain key w' where run: "Service_RotateAPIKey demoService demoContext ''op'' ''k1'' demoWorld =
      (Inr \<lparr>cks_Key = key, cks_Token = RawURLEncoding_EncodeToString (replicate 32 CHR ''t'')\<rparr>, w')"
    and u: "usableKey key (svc_clock demoService (w_clock w'))" using demo_rotate_key by blast
  show ?thesis using run rotated_key_hands_over[OF demo_sound run demo_random] demo_token_new u by (fastforce simp: demoWorld_def)
qed

lemma empty_sound: "sound demoService emptyWorld"
proof -
  have "inj (svc_idgen demoService)" by (rule injI) (metis Suc_inject length_replicate demo_service(3))
  moreover have "used_ids NewMemoryStore = {}" by (simp add: used_ids_def NewMemoryStore_def dom_def)
  ultimately show ?thesis by (simp add: sound_def ids_fresh_def emptyWorld_def store_inv_New demo_service)
qed

definition demoBootstrap :: EnsureAPIKeyRequest where
  "demoBootstrap = \<lparr>ekr_Name = ''ci'', ekr_Token = '' tok'', ekr_Actor = ''ci'', ekr_Scopes = []\<rparr>"

theorem untrimmed_bootstrap_token_rejected_witness:
  "\<exists>key w'. Service_EnsureAPIKey demoService demoContext ''op'' demoBootstrap emptyWorld = (Inr key, w') \<and>
     fst (Service_AuthenticateAPIKey demoService '' tok'' w') = Inl ErrUnauthorized"
proof -
  have "\<exists>key w'. Service_EnsureAPIKey demoService demoContext ''op'' demoBootstrap emptyWorld = (Inr key, w')"
    by (simp add: Service_EnsureAPIKey_def demoBootstrap_def key_eval emptyWorld_def NewMemoryStore_def getAPIKeyByToken_def
        MemoryStore_GetAPIKeyByTokenHash_def apiKeyByTokenHash_def)
  then obtain key w' where run: "Service_EnsureAPIKey demoService demoContext ''op'' demoBootstrap emptyWorld = (Inr key, w')" by blast
  have "ms_apiKeys (w_repo emptyWorld) = mempty" by (simp add: emptyWorld_def NewMemoryStore_def)
  from untrimmed_bootstrap_token_rejected[OF empty_sound run this] run show ?thesis
    by (auto simp: demoBootstrap_def tokenHashes_def key_eval)
qed

section \<open>Policies\<close>

lemma demo_query: "\<exists>query. buildCAAQuery (Inr [CHR ''a'', CHR ''b'']) ''a.b'' = Inr (query, 24930)"
proof -
  have "queryLabels (Split (TrimSuffix ''a.b'' ''.'') CHR ''.'') = Inr [char_of (1::nat), CHR ''a'', char_of (1::nat), CHR ''b'']" by code_simp
  then show ?thesis by (simp add: buildCAAQuery_def)
qed

theorem parseCAAResponse_roundtrip_witness:
  "\<exists>query. buildCAAQuery (Inr [CHR ''a'', CHR ''b'']) ''a.b'' = Inr (query, 24930) \<and>
     parseCAAResponse (caaResponse 24930 0x81A0 (drop 12 query) ''0000''
       [\<lparr>caa_Flag = 0, caa_Tag = ''issue'', caa_Value = ''ca.example''\<rparr>] []) 24930 =
     Some (Inr (\<lparr>clr_Records = [\<lparr>caa_Flag = 0, caa_Tag = ''issue'', caa_Value = ''ca.example''\<rparr>], clr_DNSSECStatus = CAADNSSECSecure\<rparr>, True))"
proof -
  let ?r = "\<lparr>caa_Flag = 0, caa_Tag = ''issue'', caa_Value = ''ca.example''\<rparr>"
  obtain query where q: "buildCAAQuery (Inr [CHR ''a'', CHR ''b'']) ''a.b'' = Inr (query, 24930)" using demo_query by blast
  have "encodable ?r" by (simp add: encodable_def caaRData_def)
  then have "parseCAAResponse (caaResponse 24930 0x81A0 (drop 12 query) ''0000'' [?r] []) 24930 = Some (Inr (\<lparr>clr_Records = [?r],
      clr_DNSSECStatus = (if (0x81A0 :: nat) AND 0x0020 \<noteq> 0 then CAADNSSECSecure else CAADNSSECIndeterminate)\<rparr>, [?r] \<noteq> []))"
    by (intro parseCAAResponse_roundtrip[OF q]) auto
  then show ?thesis using q by simp
qed

definition demoResolver :: "nat \<Rightarrow> string \<Rightarrow> string result" where
  "demoResolver k query = Inr (put16 24930 @ put16 (if k = 0 then 0x8183 else 0x8182) @ replicate 8 (char_of (0::nat)))"

lemma demo_answers:
  "parseCAAResponse (put16 24930 @ put16 0x8183 @ replicate 8 (char_of (0::nat))) 24930 =
     Some (Inr (\<lparr>clr_Records = [], clr_DNSSECStatus = CAADNSSECIndeterminate\<rparr>, False))"
  "parseCAAResponse (put16 24930 @ put16 0x8182 @ replicate 8 (char_of (0::nat))) 24930 =
     Some (Inr (\<lparr>clr_Records = [], clr_DNSSECStatus = CAADNSSECBogus\<rparr>, True))"
  using be16At_put16[of 24930 "[]"] be16At_put16[of 33155 "put16 24930"] be16At_put16[of 33154 "put16 24930"]
  by (simp_all add: parseCAAResponse_def)

lemma demo_query2: "\<exists>query. buildCAAQuery (Inr [CHR ''a'', CHR ''b'']) ''b'' = Inr (query, 24930)"
proof -
  have "queryLabels (Split (TrimSuffix ''b'' ''.'') CHR ''.'') = Inr [char_of (1::nat), CHR ''b'']" by code_simp
  then show ?thesis by (simp add: buildCAAQuery_def)
qed

theorem LookupCAA_closest_witness:
  "dnsCAALookup_LookupCAA (\<lambda>k. Inr [CHR ''a'', CHR ''b'']) demoResolver ''a.b'' = Inr \<lparr>clr_Records = [], clr_DNSSECStatus = CAADNSSECBogus\<rparr>"
proof -
  let ?rnd = "\<lambda>k :: nat. Inr [CHR ''a'', CHR ''b''] :: string result"
  have names: "ancestors (TrimSuffix (TrimSpace ''a.b'') ''.'') = [''a.b'', ''b'']" by code_simp
  have l0: "lookupCAAName ?rnd demoResolver 0 ''a.b'' = Inr (\<lparr>clr_Records = [], clr_DNSSECStatus = CAADNSSECIndeterminate\<rparr>, False)"
    using demo_query demo_answers(1) by (auto simp: lookupCAAName_def demoResolver_def)
  have l1: "lookupCAAName ?rnd demoResolver 1 ''b'' = Inr (\<lparr>clr_Records = [], clr_DNSSECStatus = CAADNSSECBogus\<rparr>, True)"
    using demo_query2 demo_answers(2) by (auto simp: lookupCAAName_def demoResolver_def)
  show ?thesis using LookupCAA_closest[OF refl, of 1 "''a.b''" ?rnd demoResolver] l0 l1 by (simp add: names)
qed

definition demoCAAPolicy :: PublicTLSCAAPolicy where
  "demoCAAPolicy = \<lparr>caap_IssuerDomain = ''ca.example'', caap_AccountURI = [], caap_ValidationMethod = ''http-01'',
     caap_AllowDNSSECIndeterminate = True, caap_Lookup = None\<rparr>"


end
