(* ===== verification/Walkthrough.thy ===== *)
theory Walkthrough
  imports Scenario Steps
begin

text \<open>
  A run of the service of \<^verbatim>\<open>Scenario\<close> from the empty store: an identity and an issuer are registered; an
  enrollment is approved, issued and its certificate revoked, another one rejected; an ACME account orders a name
  and meets its challenge. The witnesses of the theorems on reachable states are instances of them on this run.
\<close>

section \<open>The registers\<close>

definition demoNewIdentity :: CreateIdentityRequest where
  "demoNewIdentity = \<lparr>cid_Type = IdentityService, cid_Name = ''a'', cid_ExternalID = [], cid_Owner = ''o'', cid_Team = ''t'', cid_Service = ''s'',
     cid_Environment = ''e'', cid_DeploymentTarget = [], cid_LastSeenAt = 0, cid_MetadataJSON = [], cid_AllowedDNSNames = [''a''], cid_AllowedIPAddresses = []\<rparr>"

definition demoNewIssuer :: CreateIssuerRequest where
  "demoNewIssuer = \<lparr>cis_Name = ''ca'', cis_Kind = IssuerRootCA, cis_ParentIssuerID = [], cis_CertificatePEM = ''pem'', cis_KeyRef = ''key'',
     cis_AIAURL = [], cis_CRLDistributionPoints = [], cis_TrustAnchor = True\<rparr>"

lemma demo_request_fields:
  "cid_Type demoNewIdentity = IdentityService" "cid_Name demoNewIdentity = ''a''" "cid_ExternalID demoNewIdentity = []" "cid_Owner demoNewIdentity = ''o''"
  "cid_Team demoNewIdentity = ''t''" "cid_Service demoNewIdentity = ''s''" "cid_Environment demoNewIdentity = ''e''" "cid_DeploymentTarget demoNewIdentity = []"
  "cid_LastSeenAt demoNewIdentity = 0" "cid_MetadataJSON demoNewIdentity = []" "cid_AllowedDNSNames demoNewIdentity = [''a'']" "cid_AllowedIPAddresses demoNewIdentity = []"
  "cis_Name demoNewIssuer = ''ca''" "cis_Kind demoNewIssuer = IssuerRootCA" "cis_ParentIssuerID demoNewIssuer = []" "cis_CertificatePEM demoNewIssuer = ''pem''"
  "cis_KeyRef demoNewIssuer = ''key''" "cis_AIAURL demoNewIssuer = []" "cis_CRLDistributionPoints demoNewIssuer = []"
  by (simp_all add: demoNewIdentity_def demoNewIssuer_def)

lemma demo_register_requests: "validateCreateIdentityRequest demoNewIdentity False = Inr ()" "validateCreateIssuerRequest demoNewIssuer = Inr ()"
  by code_simp+

definition demoFirstIdentity :: Identity where
  "demoFirstIdentity = \<lparr>idn_ID = ''x'', idn_Type = IdentityService, idn_Name = ''a'', idn_ExternalID = [], idn_Owner = ''o'', idn_Team = ''t'',
     idn_Service = ''s'', idn_Environment = ''e'', idn_DeploymentTarget = [], idn_LastSeenAt = 0, idn_MetadataJSON = [],
     idn_AllowedDNSNames = [''a''], idn_AllowedIPAddresses = [], idn_Status = IdentityActive, idn_CreatedAt = 1000000000, idn_UpdatedAt = 1000000000\<rparr>"

definition demoFirstIssuer :: Issuer where
  "demoFirstIssuer = \<lparr>iss_ID = ''xxx'', iss_Name = ''ca'', iss_Kind = IssuerRootCA, iss_Status = IssuerActive, iss_ParentIssuerID = [],
     iss_CertificatePEM = ''pem'', iss_KeyRef = ''key'', iss_AIAURL = [], iss_CRLDistributionPoints = [], iss_TrustAnchor = True,
     iss_CreatedAt = 2000000000, iss_UpdatedAt = 2000000000\<rparr>"

text \<open>The audit trail of the run, of which only the absence of an issuance event matters.\<close>

definition quietTrail :: "AuditEvent list \<Rightarrow> bool" where
  "quietTrail es \<longleftrightarrow> (\<forall>event \<in> set es. aud_Action event \<noteq> ''certificate.issued'')"

lemma quietTrail_simps [simp]: "quietTrail []" "quietTrail (xs @ ys) \<longleftrightarrow> quietTrail xs \<and> quietTrail ys"
  "quietTrail (auditEventFor svc ctx i actor action rt ri t flds # xs) \<longleftrightarrow> action \<noteq> ''certificate.issued'' \<and> quietTrail xs"
  by (auto simp: quietTrail_def auditEventFor_def)

text \<open>A point of the run: the clock, the number of identifiers given out and the tables that matter.\<close>

definition demoPoint :: "nat \<Rightarrow> nat \<Rightarrow> Enrollment gomap \<Rightarrow> world \<Rightarrow> bool" where
  "demoPoint clock ids enrs w \<longleftrightarrow> w_clock w = clock \<and> w_ids w = ids \<and>
     ms_identities (w_repo w) = mput ''x'' demoFirstIdentity mempty \<and> ms_issuers (w_repo w) = mput ''xxx'' demoFirstIssuer mempty \<and>
     ms_enrollments (w_repo w) = enrs \<and> ms_certificates (w_repo w) = mempty \<and> ms_issuanceAttempts (w_repo w) = mempty \<and>
     ms_acmeAccounts (w_repo w) = mempty \<and> ms_acmeOrders (w_repo w) = mempty \<and> ms_acmeAuthzs (w_repo w) = mempty \<and>
     ms_acmeChallenges (w_repo w) = mempty \<and> quietTrail (ms_auditEvents (w_repo w))"

lemma demo_initial: "initial demoService emptyWorld"
  using empty_sound by (simp add: initial_def sound_def ids_fresh_def emptyWorld_def demo_service)

lemma demo_start: "\<exists>w. serviceRun demoService emptyWorld w \<and> demoPoint 2 4 mempty w"
proof -
  let ?w1 = "snd (Service_CreateIdentity demoService demoContext ''op'' demoNewIdentity emptyWorld)"
  let ?w2 = "snd (Service_CreateIssuer demoService demoContext ''op'' demoNewIssuer ?w1)"
  have "serviceRun demoService emptyWorld ?w2" by (rule runStep[OF runStep[OF runIdle stepCreateIdentity] stepCreateIssuer])
  moreover have "demoPoint 2 4 mempty ?w2"
    by (simp add: Service_CreateIdentity_def Service_CreateIssuer_def demo_register_requests demo_eval emptyWorld_def MemoryStore_CreateIdentity_def
        MemoryStore_CreateIssuer_def requireParent_def demoPoint_def demoFirstIdentity_def demoFirstIssuer_def demo_request_fields NewMemoryStore_def)
  ultimately show ?thesis by blast
qed

section \<open>An enrollment and its certificate\<close>

definition demoNewEnrollment :: CreateEnrollmentRequest where
  "demoNewEnrollment = \<lparr>cer_IdentityID = ''x'', cer_IssuerID = ''xxx'', cer_CertificateProfileID = [], cer_CSRPEM = ''csr'', cer_RequestedSubject = ''CN=a'',
     cer_RequestedDNSNames = [''a''], cer_RequestedIPAddresses = [], cer_RequestedNotAfter = 9000000000\<rparr>"

definition demoFirstEnrollment :: Enrollment where
  "demoFirstEnrollment = \<lparr>enr_ID = ''xxxxx'', enr_IdentityID = ''x'', enr_IssuerID = ''xxx'', enr_CertificateProfileID = [],
     enr_CSRPEM = ''csr'', enr_Status = EnrollmentPending, enr_RequestedSubject = ''CN=a'', enr_RequestedDNSNames = [''a''],
     enr_RequestedIPAddresses = [], enr_CSRDNSNames = [''a''], enr_CSRIPAddresses = [], enr_RequestedNotAfter = 9000000000,
     enr_ApprovedBy = [], enr_ApprovedAt = 0, enr_CreatedAt = 3000000000, enr_UpdatedAt = 3000000000\<rparr>"

lemma demo_enrollment_policy: "validateCreateEnrollmentRequest demoNewEnrollment 3000000000 = Inr ()"
  "sameStringSet [''a''] [''a'']" "sameStringSet [] []" "isBlank ''csr'' = False" "isBlank ''xxxxx'' = False"
  "validateEnrollmentIdentityPolicy demoNewEnrollment demoFirstIdentity = Inr ()"
  by code_simp+

lemma demo_enrollment_fields:
  "cer_IdentityID demoNewEnrollment = ''x''" "cer_IssuerID demoNewEnrollment = ''xxx''" "cer_CertificateProfileID demoNewEnrollment = []"
  "cer_CSRPEM demoNewEnrollment = ''csr''" "cer_RequestedSubject demoNewEnrollment = ''CN=a''" "cer_RequestedDNSNames demoNewEnrollment = [''a'']"
  "cer_RequestedIPAddresses demoNewEnrollment = []" "cer_RequestedNotAfter demoNewEnrollment = 9000000000"
  by (simp_all add: demoNewEnrollment_def)

definition demoCSR :: CSRInfo where
  "demoCSR = \<lparr>csr_Subject = ''CN=a'', csr_DNSNames = [''a''], csr_IPAddresses = [], csr_PublicKeyAlgorithm = ''RSA'', csr_PublicKeySizeBits = 2048,
     csr_SignatureAlgorithm = ''sha256'', csr_ExtensionOIDs = []\<rparr>"

lemma demo_csr: "ci_InspectCSR demoSigner n p = Inr demoCSR" "csr_DNSNames demoCSR = [''a'']" "csr_IPAddresses demoCSR = []"
  "validateEnrollmentProfilePolicy demoNewEnrollment zero_CertificateProfile demoCSR 3000000000 = Inr ()"
proof -
  show "validateEnrollmentProfilePolicy demoNewEnrollment zero_CertificateProfile demoCSR 3000000000 = Inr ()" by code_simp
qed (simp_all add: demoSigner_def demoCSR_def)

lemma demo_ids: "replicate 4 CHR ''x'' = ''xxxx''" "replicate 5 CHR ''x'' = ''xxxxx''" "replicate 6 CHR ''x'' = ''xxxxxx''"
  "replicate 7 CHR ''x'' = ''xxxxxxx''" "replicate 8 CHR ''x'' = ''xxxxxxxx''" "replicate 9 CHR ''x'' = ''xxxxxxxxx''" "replicate 10 CHR ''x'' = ''xxxxxxxxxx''"
  by (simp_all add: numeral_eq_Suc)

lemmas demo_reads = demo_ids MemoryStore_GetIdentity_def MemoryStore_GetIssuer_def MemoryStore_GetEnrollment_def MemoryStore_GetCertificate_def

lemma demo_enroll:
  assumes "demoPoint 2 4 mempty w"
  shows "demoPoint 3 6 (mput ''xxxxx'' demoFirstEnrollment mempty) (snd (Service_CreateEnrollment demoService demoContext ''op'' demoNewEnrollment w))"
  using assms
  by (simp add: Service_CreateEnrollment_def demoPoint_def demo_eval demo_reads demo_enrollment_policy demo_enrollment_fields createReqProfile_def
      demo_csr inspectCSR_def newEnrollment_def demoFirstEnrollment_def MemoryStore_CreateEnrollment_def)

definition demoDecided :: "EnrollmentStatus \<Rightarrow> Enrollment gomap" where
  "demoDecided st = mput ''xxxxx'' (demoFirstEnrollment\<lparr>enr_Status := st,
       enr_ApprovedBy := if st = EnrollmentApproved then ''op'' else [], enr_ApprovedAt := if st = EnrollmentApproved then 4000000000 else 0,
       enr_UpdatedAt := 4000000000\<rparr>) (mput ''xxxxx'' demoFirstEnrollment mempty)"

lemma demo_decide:
  assumes "demoPoint 3 6 (mput ''xxxxx'' demoFirstEnrollment mempty) w"
  shows "demoPoint 4 7 (demoDecided EnrollmentApproved) (snd (Service_ApproveEnrollment demoService demoContext ''op'' ''xxxxx'' w))"
    "demoPoint 4 7 (demoDecided EnrollmentRejected) (snd (Service_RejectEnrollment demoService demoContext ''op'' ''xxxxx'' w))"
  using assms
  by (simp_all add: Service_ApproveEnrollment_def Service_RejectEnrollment_def demoPoint_def demoDecided_def demo_eval demo_reads demo_enrollment_policy
      MemoryStore_UpdateEnrollmentIfStatus_def updateEnrollmentIfStatus_def demoFirstEnrollment_def)

lemma demo_issued:
  assumes "demoPoint 4 7 (demoDecided EnrollmentApproved) w"
  shows "\<exists>c w'. Service_IssueCertificate demoService demoContext ''op'' ''xxxxx'' w = (Inr c, w') \<and> cert_Status c = CertificateValid \<and> cert_ID c = ''xxxxxxxx''"
  using assms
  by (simp add: issue_eval demoPoint_def demoDecided_def demo_reads demo_enrollment_policy demoFirstEnrollment_def demoFirstIdentity_def demoFirstIssuer_def demoSigner_def)

lemma demo_approved: "\<exists>w. serviceRun demoService emptyWorld w \<and> demoPoint 4 7 (demoDecided EnrollmentApproved) w"
proof -
  obtain w2 where w2: "serviceRun demoService emptyWorld w2" "demoPoint 2 4 mempty w2" using demo_start by blast
  note w3 = runStep[OF w2(1) stepCreateEnrollment] demo_enroll[OF w2(2)]
  from runStep[OF w3(1) stepApproveEnrollment] demo_decide(1)[OF w3(2)] show ?thesis by blast
qed

lemma demo_rejected: "\<exists>w. serviceRun demoService emptyWorld w \<and> demoPoint 4 7 (demoDecided EnrollmentRejected) w"
proof -
  obtain w2 where w2: "serviceRun demoService emptyWorld w2" "demoPoint 2 4 mempty w2" using demo_start by blast
  note w3 = runStep[OF w2(1) stepCreateEnrollment] demo_enroll[OF w2(2)]
  from runStep[OF w3(1) stepRejectEnrollment] demo_decide(2)[OF w3(2)] show ?thesis by blast
qed

lemma demo_certified:
  "\<exists>c w. serviceRun demoService emptyWorld w \<and> mget (ms_certificates (w_repo w)) (cert_ID c) = Some c \<and> cert_Status c = CertificateValid \<and> cert_ID c = ''xxxxxxxx''"
proof -
  obtain w where w: "serviceRun demoService emptyWorld w" "demoPoint 4 7 (demoDecided EnrollmentApproved) w" using demo_approved by blast
  obtain c w' where c: "Service_IssueCertificate demoService demoContext ''op'' ''xxxxx'' w = (Inr c, w')" "cert_Status c = CertificateValid" "cert_ID c = ''xxxxxxxx''"
    using demo_issued[OF w(2)] by blast
  have ok: "sysok demoService w" by (rule reachable_ok[OF demo_initial w(1)])
  have "delivered (w_repo w') ''xxxxx'' c" using issue_delivers[OF _ _ c(1)] ok by (auto simp: sysok_def)
  moreover have "serviceRun demoService emptyWorld w'"
    using runStep[OF w(1) stepIssueCertificate[of demoService w demoContext "''op''" "''xxxxx''"]] c(1) by simp
  ultimately show ?thesis using c(2,3) unfolding delivered_def by blast
qed

theorem issued_exactly_once_witness:
  "\<exists>w k c. serviceRun demoService emptyWorld w \<and> mget (ms_certificates (w_repo w)) k = Some c \<and>
     (\<exists>e. mget (ms_enrollments (w_repo w)) (cert_EnrollmentID c) = Some e \<and> cert_DNSNames c = enr_RequestedDNSNames e)"
proof -
  obtain c w where w: "serviceRun demoService emptyWorld w" "mget (ms_certificates (w_repo w)) (cert_ID c) = Some c" using demo_certified by blast
  from issued_exactly_once[OF demo_initial w(1)] w show ?thesis by blast
qed

lemma demo_revoke:
  assumes "mget (ms_certificates (w_repo w)) (cert_ID c) = Some c" "cert_Status c = CertificateValid" "\<not> isBlank (cert_ID c)"
  shows "\<exists>c' w'. Service_RevokeCertificate demoService demoContext ''op'' (cert_ID c) RevocationKeyCompromise w = (Inr c', w') \<and>
    mget (ms_certificates (w_repo w')) (cert_ID c) = Some c' \<and> cert_Status c' = CertificateRevoked"
  using assms
  by (simp add: Service_RevokeCertificate_def revokeCertificate_def demo_eval demo_reads canRevokeCertificateStatus_def
      MemoryStore_UpdateCertificateIfStatus_def updateCertificateIfStatus_def MemoryStore_CreateRevocation_def)

theorem revoked_for_good_witness:
  "\<exists>w w' k c. serviceRun demoService emptyWorld w \<and> mget (ms_certificates (w_repo w)) k = Some c \<and> cert_Status c = CertificateRevoked \<and>
     (\<exists>!j. \<exists>r. mget (ms_revocations (w_repo w)) j = Some r \<and> rev_CertificateID r = k) \<and>
     w' = snd (Service_ResumeCertificate demoService demoContext ''op'' k w) \<and>
     (\<exists>c'. mget (ms_certificates (w_repo w')) k = Some c' \<and> cert_Status c' = CertificateRevoked)"
proof -
  obtain c w0 where w0: "serviceRun demoService emptyWorld w0" "mget (ms_certificates (w_repo w0)) (cert_ID c) = Some c" "cert_Status c = CertificateValid"
    "cert_ID c = ''xxxxxxxx''" using demo_certified by blast
  have "\<not> isBlank (cert_ID c)" unfolding w0(4) by code_simp
  then obtain c' w where c': "Service_RevokeCertificate demoService demoContext ''op'' (cert_ID c) RevocationKeyCompromise w0 = (Inr c', w)"
    "mget (ms_certificates (w_repo w)) (cert_ID c) = Some c'" "cert_Status c' = CertificateRevoked" using demo_revoke[OF w0(2,3)] by blast
  have w: "serviceRun demoService emptyWorld w"
    using runStep[OF w0(1) stepRevokeCertificate[of demoService w0 demoContext "''op''" "cert_ID c" RevocationKeyCompromise]] c'(1) by simp
  note good = revoked_for_good[OF demo_initial w c'(2)]
  have "serviceRun demoService w (snd (Service_ResumeCertificate demoService demoContext ''op'' (cert_ID c) w))"
    by (rule runStep[OF runIdle stepResumeCertificate])
  with good w c'(2,3) show ?thesis by blast
qed

theorem rejected_never_issued_witness:
  "\<exists>w e. serviceRun demoService emptyWorld w \<and> mget (ms_enrollments (w_repo w)) ''xxxxx'' = Some e \<and> enr_Status e = EnrollmentRejected \<and>
     (\<forall>w'. serviceRun demoService w w' \<longrightarrow> \<not> (\<exists>k c. mget (ms_certificates (w_repo w')) k = Some c \<and> cert_EnrollmentID c = ''xxxxx''))"
proof -
  obtain w where w: "serviceRun demoService emptyWorld w" "demoPoint 4 7 (demoDecided EnrollmentRejected) w" using demo_rejected by blast
  obtain e where e: "mget (ms_enrollments (w_repo w)) ''xxxxx'' = Some e" "enr_Status e = EnrollmentRejected"
    using w(2) by (auto simp: demoPoint_def demoDecided_def)
  from rejected_never_issued[OF demo_initial w(1) e] w(1) e show ?thesis by blast
qed

section \<open>An order\<close>

definition demoNewAccount :: CreateACMEAccountRequest where
  "demoNewAccount = \<lparr>car_Contacts = [''mailto:a''], car_TermsOfServiceAgreed = True, car_KeyThumbprint = ''tp'', car_KeyJWKJSON = ''jwk''\<rparr>"

definition demoNewOrder :: CreateACMEOrderRequest where
  "demoNewOrder = \<lparr>cao_AccountID = ''xxxxx'', cao_IdentityID = ''x'', cao_IssuerID = ''xxx'', cao_CertificateProfileID = [],
     cao_RequestedDNSNames = [''a''], cao_RequestedIPAddresses = [], cao_RequestedNotAfter = 9000000000\<rparr>"

lemma demo_order_fields:
  "cao_AccountID demoNewOrder = ''xxxxx''" "cao_IdentityID demoNewOrder = ''x''" "cao_IssuerID demoNewOrder = ''xxx''" "cao_CertificateProfileID demoNewOrder = []"
  "cao_RequestedDNSNames demoNewOrder = [''a'']" "cao_RequestedIPAddresses demoNewOrder = []" "cao_RequestedNotAfter demoNewOrder = 9000000000"
  by (simp_all add: demoNewOrder_def)

lemma demo_order_policy: "validateCreateACMEOrderRequest demoNewOrder 4000000000 = Inr ()"
  "validateEnrollmentIdentityPolicy (orderPolicyRequest demoNewOrder) demoFirstIdentity = Inr ()"
  by code_simp+

definition demoFirstOrder :: ACMEOrder where
  "demoFirstOrder = newACMEOrder ''xxxxxxx'' demoNewOrder 4000000000"

text \<open>A point of the run with an account and the tables of its orders.\<close>

definition demoACME :: "nat \<Rightarrow> nat \<Rightarrow> ACMEOrder gomap \<Rightarrow> ACMEAuthorization gomap \<Rightarrow> ACMEChallenge gomap \<Rightarrow> world \<Rightarrow> bool" where
  "demoACME clock ids ords authzs chals w \<longleftrightarrow> w_clock w = clock \<and> w_ids w = ids \<and>
     ms_identities (w_repo w) = mput ''x'' demoFirstIdentity mempty \<and> ms_issuers (w_repo w) = mput ''xxx'' demoFirstIssuer mempty \<and>
     (\<exists>account. mget (ms_acmeAccounts (w_repo w)) ''xxxxx'' = Some account \<and> acc_Status account = ACMEAccountValid) \<and>
     ms_acmeOrders (w_repo w) = ords \<and> ms_acmeAuthzs (w_repo w) = authzs \<and> ms_acmeChallenges (w_repo w) = chals"

lemma demo_account_policy: "validateCreateACMEAccountRequest demoNewAccount = Inr ()"
  by code_simp

lemma demo_account:
  assumes "demoPoint 2 4 mempty w"
  shows "demoACME 3 6 mempty mempty mempty (snd (Service_CreateACMEAccount demoService demoContext ''op'' demoNewAccount w))"
  using assms
  by (simp add: Service_CreateACMEAccount_def createACMEAccount_def demoPoint_def demoACME_def demo_eval demo_reads demo_account_policy
      MemoryStore_CreateACMEAccount_def ensureACMEAccountThumbprintAvailable_def newACMEAccount_def copyACMEAccount_def)

definition demoFirstAuthz :: ACMEAuthorization where
  "demoFirstAuthz = newAuthorization ''xxxxxxxx'' ''xxxxxxx'' ''dns'' ''a'' 4000000000"

definition demoFirstChallenge :: ACMEChallenge where
  "demoFirstChallenge = newChallenge ''xxxxxxxxx'' ''xxxxxxxx'' ACMEChallengeHTTP01 ''xxxxxxxxxx'' 4000000000"

lemma demo_order:
  assumes "demoACME 3 6 mempty mempty mempty w"
  shows "demoACME 4 11 (mput ''xxxxxxx'' demoFirstOrder mempty) (mput ''xxxxxxxx'' demoFirstAuthz mempty) (mput ''xxxxxxxxx'' demoFirstChallenge mempty)
      (snd (Service_CreateACMEOrder demoService demoContext ''op'' demoNewOrder w))"
    and demo_order_succeeds: "\<exists>order w'. Service_CreateACMEOrder demoService demoContext ''op'' demoNewOrder w = (Inr order, w')"
  using assms
  by (clarsimp simp: Service_CreateACMEOrder_def demoACME_def demo_eval demo_reads demo_order_policy demo_order_fields orderCAACheck_def MemoryStore_GetACMEAccount_def
      MemoryStore_CreateACMEOrder_def copyACMEOrder_def requireProfile_def createACMEAuthorizations_def createACMEAuthorization_def newACMEOrder_def
      MemoryStore_CreateACMEAuthorization_def MemoryStore_CreateACMEChallenge_def demoFirstOrder_def demoFirstAuthz_def demoFirstChallenge_def newAuthorization_def newChallenge_def)+

lemma demo_replaced:
  "(\<exists>c \<in> set (listACMEChallengesByAuthorization (mput k v (mput k v0 mempty)) i). P c) \<longleftrightarrow> chal_AuthorizationID v = i \<and> P v"
  "(\<exists>a \<in> set (listACMEAuthorizationsByOrder (mput k u (mput k u0 mempty)) i). Q a) \<longleftrightarrow> authz_OrderID u = i \<and> Q u"
  by (auto simp: Bex_def acme_lists mget_mput split: if_splits)

lemma demo_first_fields:
  "ord_ID demoFirstOrder = ''xxxxxxx''" "ord_Status demoFirstOrder = ACMEOrderPending"
  "authz_ID demoFirstAuthz = ''xxxxxxxx''" "authz_OrderID demoFirstAuthz = ''xxxxxxx''" "authz_Status demoFirstAuthz = ACMEAuthorizationPending"
  "chal_ID demoFirstChallenge = ''xxxxxxxxx''" "chal_AuthorizationID demoFirstChallenge = ''xxxxxxxx''" "chal_Status demoFirstChallenge = ACMEChallengePending"
  by (simp_all add: demoFirstOrder_def demoFirstAuthz_def demoFirstChallenge_def newACMEOrder_def newAuthorization_def newChallenge_def)

lemma demo_promote:
  assumes "ms_acmeOrders (w_repo w) = mput ''xxxxxxx'' demoFirstOrder mempty" "ms_acmeAuthzs (w_repo w) = mput ''xxxxxxxx'' demoFirstAuthz mempty"
    "ms_acmeChallenges (w_repo w) = mput ''xxxxxxxxx'' c (mput ''xxxxxxxxx'' demoFirstChallenge mempty)" "chal_Status c = ACMEChallengeValid"
  shows "\<exists>w'. promoteACMEAuthorizationIfReady demoFirstAuthz t w = (Inr (), w') \<and>
    map_option ord_Status (mget (ms_acmeOrders (w_repo w')) ''xxxxxxx'') = Some ACMEOrderReady"
proof -
  have v: "authz_ID (validatedAuthorization demoFirstAuthz t) = ''xxxxxxxx''" "authz_Status (validatedAuthorization demoFirstAuthz t) = ACMEAuthorizationValid"
    by (simp_all add: validatedAuthorization_def demo_first_fields)
  show ?thesis
    by (simp add: promoteACMEAuthorizationIfReady_def promoteACMEOrderIfReady_def prog_simps run_onRepo tx_agree assms demo_replaced demo_first_fields v
        MemoryStore_ListACMEChallengesByAuthorization_def MemoryStore_ListACMEAuthorizationsByOrder_def MemoryStore_GetACMEOrder_def
        MemoryStore_UpdateACMEAuthorizationIfStatus_def updateACMEAuthorizationIfStatus_def
        MemoryStore_UpdateACMEOrderIfStatus_def updateACMEOrderIfStatus_def copyACMEOrder_def)
qed

lemma demo_complete:
  assumes "demoACME 4 11 (mput ''xxxxxxx'' demoFirstOrder mempty) (mput ''xxxxxxxx'' demoFirstAuthz mempty) (mput ''xxxxxxxxx'' demoFirstChallenge mempty) w"
  shows "map_option ord_Status (mget (ms_acmeOrders (w_repo (snd (Service_CompleteACMEChallenge demoService demoContext ''op'' ''xxxxxxxxx'' w)))) ''xxxxxxx'') = Some ACMEOrderReady"
proof -
  have t: "ms_acmeOrders (w_repo w) = mput ''xxxxxxx'' demoFirstOrder mempty" "ms_acmeAuthzs (w_repo w) = mput ''xxxxxxxx'' demoFirstAuthz mempty"
    "ms_acmeChallenges (w_repo w) = mput ''xxxxxxxxx'' demoFirstChallenge mempty" using assms by (simp_all add: demoACME_def)
  have b: "\<not> isBlank ''xxxxxxxxx''" by code_simp
  let ?now = "svc_clock demoService (w_clock w)"
  let ?c = "demoFirstChallenge\<lparr>chal_Status := ACMEChallengeValid, chal_ValidatedAt := ?now, chal_UpdatedAt := ?now\<rparr>"
  let ?w1 = "w\<lparr>w_clock := Suc (w_clock w), w_repo := (w_repo w)\<lparr>ms_acmeChallenges := mput ''xxxxxxxxx'' ?c (mput ''xxxxxxxxx'' demoFirstChallenge mempty)\<rparr>\<rparr>"
  obtain w' where p: "promoteACMEAuthorizationIfReady demoFirstAuthz ?now ?w1 = (Inr (), w')"
    and st: "map_option ord_Status (mget (ms_acmeOrders (w_repo w')) ''xxxxxxx'') = Some ACMEOrderReady"
    using demo_promote[of ?w1 ?c ?now] t by auto
  show ?thesis
    by (simp add: p st t b Service_CompleteACMEChallenge_def prog_simps run_onRepo run_WithinTx run_createAuditEvent tx_agree Let_def openChallenge_def demo_first_fields
        MemoryStore_GetACMEChallenge_def MemoryStore_GetACMEAuthorization_def MemoryStore_UpdateACMEChallengeIfStatus_def updateACMEChallengeIfStatus_def)
qed

theorem order_names_validated_witness:
  "\<exists>w order. serviceRun demoService emptyWorld w \<and> mget (ms_acmeOrders (w_repo w)) ''xxxxxxx'' = Some order \<and> ord_Status order = ACMEOrderReady \<and>
     orderValidated (w_repo w) order"
proof -
  obtain w2 where w2: "serviceRun demoService emptyWorld w2" "demoPoint 2 4 mempty w2" using demo_start by blast
  note w3 = runStep[OF w2(1) stepCreateACMEAccount] demo_account[OF w2(2)]
  note w4 = runStep[OF w3(1) stepCreateACMEOrder] demo_order[OF w3(2)]
  obtain order where order: "mget (ms_acmeOrders (w_repo (snd (Service_CompleteACMEChallenge demoService demoContext ''op'' ''xxxxxxxxx''
      (snd (Service_CreateACMEOrder demoService demoContext ''op'' demoNewOrder (snd (Service_CreateACMEAccount demoService demoContext ''op'' demoNewAccount w2)))))))) ''xxxxxxx'' = Some order"
    "ord_Status order = ACMEOrderReady" using demo_complete[OF w4(2)] by (auto simp only: map_option_eq_Some)
  note w5 = runStep[OF w4(1) stepCompleteACMEChallenge]
  from order(2) have "ord_Status order \<noteq> ACMEOrderPending" by simp
  from order_names_validated[OF demo_initial w5 order(1) this] w5 order show ?thesis by blast
qed

section \<open>Finalization, validation and new orders\<close>

lemma demo_ok: "sysok demoService demoWorld"
  using demo_sound demo_issuance_ok demo_revocation_ok demo_acme_ok by (simp add: sysok_def demoWorld_def)

lemma demo_fields:
  "ord_ID (demoOrder i os) = i" "ord_AccountID (demoOrder i os) = ''ac''" "ord_Status (demoOrder i os) = os" "ord_ExpiresAt (demoOrder i os) = 90000000000"
  "authz_ID (demoAuthz j r zs) = j" "authz_OrderID (demoAuthz j r zs) = r" "authz_Status (demoAuthz j r zs) = zs" "authz_ExpiresAt (demoAuthz j r zs) = 90000000000"
  "chal_ID (demoChallenge k z cs) = k" "chal_AuthorizationID (demoChallenge k z cs) = z" "chal_Status (demoChallenge k z cs) = cs"
  "chal_Type (demoChallenge k z cs) = ACMEChallengeHTTP01" "acc_Status demoAccount = ACMEAccountValid" "acc_KeyThumbprint demoAccount = ''tp''"
  by (simp_all add: demo_rows)

lemma promotion_succeeds:
  assumes "mget (ms_acmeAuthzs (w_repo w)) (authz_ID a) = Some a" "authz_Status a = ACMEAuthorizationPending"
    "mget (ms_acmeOrders (w_repo w)) (authz_OrderID a) = Some r" "ord_ID r = authz_OrderID a"
  shows "\<exists>w'. promoteACMEAuthorizationIfReady a t w = (Inr (), w')"
proof -
  have v: "authz_ID (validatedAuthorization a t) = authz_ID a" by (simp add: validatedAuthorization_def)
  show ?thesis
    by (simp add: promoteACMEAuthorizationIfReady_def promoteACMEOrderIfReady_def prog_simps run_onRepo tx_agree assms v
        MemoryStore_ListACMEChallengesByAuthorization_def MemoryStore_ListACMEAuthorizationsByOrder_def MemoryStore_GetACMEOrder_def
        MemoryStore_UpdateACMEAuthorizationIfStatus_def updateACMEAuthorizationIfStatus_def
        MemoryStore_UpdateACMEOrderIfStatus_def updateACMEOrderIfStatus_def)
qed


definition demoFinalize :: FinalizeACMEOrderRequest where
  "demoFinalize = \<lparr>fao_CSRPEM = ''csr'', fao_RequestedSubject = ''CN=a''\<rparr>"

definition demoOrderEnrollment :: CreateEnrollmentRequest where
  "demoOrderEnrollment = \<lparr>cer_IdentityID = ''id'', cer_IssuerID = ''ca'', cer_CertificateProfileID = [], cer_CSRPEM = ''csr'', cer_RequestedSubject = ''CN=a'',
     cer_RequestedDNSNames = [''a''], cer_RequestedIPAddresses = [], cer_RequestedNotAfter = 9000000000\<rparr>"

lemma demo_order_enrollment_fields:
  "cer_IdentityID demoOrderEnrollment = ''id''" "cer_IssuerID demoOrderEnrollment = ''ca''" "cer_CertificateProfileID demoOrderEnrollment = []"
  "cer_CSRPEM demoOrderEnrollment = ''csr''" "cer_RequestedSubject demoOrderEnrollment = ''CN=a''" "cer_RequestedDNSNames demoOrderEnrollment = [''a'']"
  "cer_RequestedIPAddresses demoOrderEnrollment = []" "cer_RequestedNotAfter demoOrderEnrollment = 9000000000"
  by (simp_all add: demoOrderEnrollment_def)

lemma demo_order_enrollment: "orderEnrollmentRequest (demoOrder ''q1'' ACMEOrderReady) demoFinalize = demoOrderEnrollment"
  "validateCreateEnrollmentRequest demoOrderEnrollment 3000000000 = Inr ()" "validateEnrollmentIdentityPolicy demoOrderEnrollment demoIdentity = Inr ()"
  "validateEnrollmentProfilePolicy demoOrderEnrollment zero_CertificateProfile demoCSR 3000000000 = Inr ()"
proof -
  show "orderEnrollmentRequest (demoOrder ''q1'' ACMEOrderReady) demoFinalize = demoOrderEnrollment"
    by (simp add: orderEnrollmentRequest_def demoOrder_def demoFinalize_def demoOrderEnrollment_def)
qed code_simp+

definition demoOrdered :: "EnrollmentStatus \<Rightarrow> Enrollment" where
  "demoOrdered st = \<lparr>enr_ID = ''x'', enr_IdentityID = ''id'', enr_IssuerID = ''ca'', enr_CertificateProfileID = [],
     enr_CSRPEM = ''csr'', enr_Status = st, enr_RequestedSubject = ''CN=a'', enr_RequestedDNSNames = [''a''],
     enr_RequestedIPAddresses = [], enr_CSRDNSNames = [''a''], enr_CSRIPAddresses = [], enr_RequestedNotAfter = 9000000000,
     enr_ApprovedBy = if st = EnrollmentPending then [] else ''op'', enr_ApprovedAt = if st = EnrollmentPending then 0 else 4000000000,
     enr_CreatedAt = 3000000000, enr_UpdatedAt = if st = EnrollmentPending then 3000000000 else 4000000000\<rparr>"

definition demoOrderPoint :: "nat \<Rightarrow> nat \<Rightarrow> Enrollment gomap \<Rightarrow> world \<Rightarrow> bool" where
  "demoOrderPoint clock ids enrs w \<longleftrightarrow> w_clock w = clock \<and> w_ids w = ids \<and>
     ms_identities (w_repo w) = ms_identities demoStore \<and> ms_issuers (w_repo w) = ms_issuers demoStore \<and> ms_enrollments (w_repo w) = enrs \<and>
     ms_certificates (w_repo w) = ms_certificates demoStore \<and> ms_issuanceAttempts (w_repo w) = ms_issuanceAttempts demoStore \<and>
     ms_acmeOrders (w_repo w) = ms_acmeOrders demoStore \<and> quietTrail (ms_auditEvents (w_repo w))"

lemma demo_finalize_enroll:
  assumes "w = \<lparr>w_repo = demoStore, w_clock = 2, w_ids = 0, w_ext = 0\<rparr>"
  shows "\<exists>w1. Service_CreateEnrollment demoService demoContext ''op'' demoOrderEnrollment w = (Inr (demoOrdered EnrollmentPending), w1) \<and>
    demoOrderPoint 3 2 (mput ''x'' (demoOrdered EnrollmentPending) (ms_enrollments demoStore)) w1"
  unfolding assms
  by (simp add: Service_CreateEnrollment_def demo_eval demo_reads demo_enrollment_policy demo_order_enrollment demo_order_enrollment_fields createReqProfile_def
      demo_csr inspectCSR_def newEnrollment_def demoOrdered_def MemoryStore_CreateEnrollment_def demoOrderPoint_def)

lemma demo_finalize_approve:
  assumes "demoOrderPoint 3 2 (mput ''x'' (demoOrdered EnrollmentPending) (ms_enrollments demoStore)) w"
  shows "\<exists>e w1. Service_ApproveEnrollment demoService demoContext ''op'' ''x'' w = (Inr e, w1) \<and>
    demoOrderPoint 4 3 (mput ''x'' (demoOrdered EnrollmentApproved) (mput ''x'' (demoOrdered EnrollmentPending) (ms_enrollments demoStore))) w1"
proof -
  have b: "isBlank ''x'' = False" by code_simp
  show ?thesis
    using assms
    by (simp add: Service_ApproveEnrollment_def demoOrderPoint_def demo_eval demo_reads b MemoryStore_UpdateEnrollmentIfStatus_def updateEnrollmentIfStatus_def demoOrdered_def)
qed

lemma demo_finalize_issue:
  assumes "demoOrderPoint 4 3 (mput ''x'' (demoOrdered EnrollmentApproved) (mput ''x'' (demoOrdered EnrollmentPending) (ms_enrollments demoStore))) w"
  shows "\<exists>c w1. Service_IssueCertificate demoService demoContext ''op'' ''x'' w = (Inr c, w1)"
proof -
  have b: "isBlank ''x'' = False" by code_simp
  show ?thesis
    using assms by (simp add: issue_eval demoOrderPoint_def demo_reads b demoOrdered_def demo_rows demoSigner_def)
qed

lemma demo_finalize: "\<exists>order w'. Service_FinalizeACMEOrder demoService demoContext ''op'' ''q1'' demoFinalize demoWorld = (Inr order, w')"
proof -
  let ?r = "demoOrder ''q1'' ACMEOrderReady" and ?w = "\<lparr>w_repo = demoStore, w_clock = 2, w_ids = 0, w_ext = 0\<rparr>"
  obtain w1 where w1: "Service_CreateEnrollment demoService demoContext ''op'' demoOrderEnrollment ?w = (Inr (demoOrdered EnrollmentPending), w1)"
    "demoOrderPoint 3 2 (mput ''x'' (demoOrdered EnrollmentPending) (ms_enrollments demoStore)) w1" using demo_finalize_enroll by blast
  obtain e w2 where w2: "Service_ApproveEnrollment demoService demoContext ''op'' ''x'' w1 = (Inr e, w2)"
    "demoOrderPoint 4 3 (mput ''x'' (demoOrdered EnrollmentApproved) (mput ''x'' (demoOrdered EnrollmentPending) (ms_enrollments demoStore))) w2"
    using demo_finalize_approve[OF w1(2)] by blast
  obtain c w3 where w3: "Service_IssueCertificate demoService demoContext ''op'' ''x'' w2 = (Inr c, w3)" using demo_finalize_issue[OF w2(2)] by blast
  have orders: "ms_acmeOrders (w_repo w3) = ms_acmeOrders demoStore"
    using preservesD[OF issue_acme_kept w3] w2(2) by (simp add: acme_kept_def demoOrderPoint_def)
  have id: "enr_ID (demoOrdered EnrollmentPending) = ''x''" by (simp add: demoOrdered_def)
  have f: "ord_ID (finalizedOrder ?r req i j t) = ''q1''" for req i j t by (simp add: finalizedOrder_def demo_fields)
  have "\<exists>order w'. issueACMEOrder demoService demoContext ''op'' ?r demoFinalize ?w = (Inr order, w')"
    by (simp add: issueACMEOrder_eq demo_order_enrollment run_bindM w1(1) id w2(1) w3 run_Now recordFinalizedOrder_def run_thenM run_WithinTx run_onRepo tx_agree
        MemoryStore_UpdateACMEOrderIfStatus_def updateACMEOrderIfStatus_def f orders demo_tables mget_mput demo_fields run_createAuditEvent)
  moreover have "\<not> isBlank ''q1''" "\<not> isBlank ''csr''" "\<not> isBlank ''CN=a''" by code_simp+
  moreover have "ord_CertificateProfileID ?r = []" by (simp add: demo_rows)
  ultimately show ?thesis
    by (simp add: Service_FinalizeACMEOrder_def demoFinalize_def demo_eval MemoryStore_GetACMEOrder_def demo_fields acmeExpired_def
        validateACMEPublicTLSValidationEvidence_def numeral_2_eq_2)
qed

theorem FinalizeACMEOrder_delivers_witness:
  "\<exists>order w' c. Service_FinalizeACMEOrder demoService demoContext ''op'' ''q1'' demoFinalize demoWorld = (Inr order, w') \<and> ord_Status order = ACMEOrderValid \<and>
     delivered (w_repo w') (ord_EnrollmentID order) c \<and> cert_DNSNames c = [''a''] \<and> validatedName (w_repo w') ''q1'' ''dns'' ''a''"
proof -
  obtain order w' where run: "Service_FinalizeACMEOrder demoService demoContext ''op'' ''q1'' demoFinalize demoWorld = (Inr order, w')" using demo_finalize by blast
  let ?r = "demoOrder ''q1'' ACMEOrderReady"
  have get: "mget (ms_acmeOrders (w_repo demoWorld)) ''q1'' = Some ?r" "ord_Status ?r = ACMEOrderReady" by (simp_all add: demoWorld_def demo_tables mget_mput demo_fields)
  note fin = FinalizeACMEOrder_delivers[OF demo_ok run get]
  have names: "ord_ID order = ''q1''" "ord_RequestedDNSNames order = [''a'']" "ord_RequestedDNSNames ?r = [''a'']"
  proof -
    have "evolves demoStore (w_repo w')" using servesD[OF Finalize_serves demo_ok run] by (simp add: advance_def demoWorld_def)
    then obtain r2 where "mget (ms_acmeOrders (w_repo w')) ''q1'' = Some r2" "orderCore ?r = orderCore r2"
      using acme_rows_kept(1)[of demoStore "w_repo w'" "''q1''" ?r] get(1) by (auto simp: demoWorld_def)
    then have "orderCore ?r = orderCore order" using fin by simp
    from order_core[OF this] show "ord_ID order = ''q1''" "ord_RequestedDNSNames order = [''a'']" "ord_RequestedDNSNames ?r = [''a'']" by (simp_all add: demoOrder_def)
  qed
  from fin run names show ?thesis by (auto simp: orderValidated_def)
qed

theorem CreateACMEOrder_permitted_witness:
  "\<exists>w order w'. sysok demoService w \<and> Service_CreateACMEOrder demoService demoContext ''op'' demoNewOrder w = (Inr order, w') \<and>
     mget (ms_acmeOrders (w_repo w')) (ord_ID order) = Some order \<and> orderCovered (w_repo w') order"
proof -
  obtain w2 where w2: "serviceRun demoService emptyWorld w2" "demoPoint 2 4 mempty w2" using demo_start by blast
  note w3 = runStep[OF w2(1) stepCreateACMEAccount] demo_account[OF w2(2)]
  let ?w = "snd (Service_CreateACMEAccount demoService demoContext ''op'' demoNewAccount w2)"
  have ok: "sysok demoService ?w" by (rule reachable_ok[OF demo_initial w3(1)])
  have "\<exists>order w'. Service_CreateACMEOrder demoService demoContext ''op'' demoNewOrder ?w = (Inr order, w')"
    using w3(2) by (rule demo_order_succeeds)
  then obtain order w' where run: "Service_CreateACMEOrder demoService demoContext ''op'' demoNewOrder ?w = (Inr order, w')" by blast
  from CreateACMEOrder_permitted[OF ok run] run ok show ?thesis by blast
qed

section \<open>An OCSP response\<close>

lemma demo_ocsp: "\<exists>res w'. Service_RespondOCSP demoService demoContext ''op'' ''der'' demoWorld = (Inr res, w')"
proof -
  have n: "normalizeOCSPHashAlgorithm ''sha1'' = ''sha1''" by code_simp
  show ?thesis
    by (simp add: Service_RespondOCSP_def ocspCertificateStatuses_def ocspIssuersByHash_def demo_eval demo_rows demoSigner_def n ocspHashAlgorithms_def
      MemoryStore_ListIssuers_def MemoryStore_ListCertificates_def ocspIssuerHashKey_def ocspIssuerSerialKey_def cachedRevocations_def
      MemoryStore_ListRevocationsByIssuer_def MemoryStore_GetIssuer_def signerForIssuer_run)
qed

theorem RespondOCSP_truthful_witness:
  "\<exists>res w' info (issuerOf :: OCSPCertificateID \<Rightarrow> Issuer option) statuses. Service_RespondOCSP demoService demoContext ''op'' ''der'' demoWorld = (Inr res, w') \<and>
     ci_InspectOCSP demoSigner 0 ''der'' = Inr info \<and>
     (\<forall>ident \<in> set (ori_Certificates info). case issuerOf ident of
        None \<Rightarrow> statuses ident = ocspStatusForID ident ''unknown''
      | Some i \<Rightarrow> iss_ID i = ''ca'' \<longrightarrow> oci_SerialNumber ident \<noteq> [] \<longrightarrow> ocspTruth demoStore ''ca'' ident (statuses ident))"
proof -
  obtain res w' where run: "Service_RespondOCSP demoService demoContext ''op'' ''der'' demoWorld = (Inr res, w')" using demo_ocsp by blast
  have plain: "plainIssuerIDs (w_repo demoWorld)"
    by (auto simp: plainIssuerIDs_def noNul_def demoWorld_def demo_tables demo_rows mget_mput split: if_splits)
  have rev: "revocation_ok (w_repo demoWorld)" by (simp add: demoWorld_def demo_revocation_ok)
  obtain info issuer issuerOf statuses where i: "ci_InspectOCSP (svc_issuer demoService) (w_ext demoWorld) ''der'' = Inr info"
    and each: "\<forall>ident \<in> set (ori_Certificates info). case issuerOf ident of
        None \<Rightarrow> statuses ident = ocspStatusForID ident ''unknown'' \<and>
          (\<forall>j i. mget (ms_issuers (w_repo demoWorld)) j = Some i \<and> iss_Status i = IssuerActive \<longrightarrow>
             (\<exists>key. issuerNamed demoService i (normalizeOCSPHashAlgorithm (oci_HashAlgorithm ident)) key \<and> key \<noteq> ocspKeyOf ident))
      | Some i \<Rightarrow> iss_Status i = IssuerActive \<and> (\<exists>alg. issuerNamed demoService i alg (ocspKeyOf ident)) \<and> (iss_ID i \<noteq> [] \<longrightarrow> i = issuer \<and>
          (oci_SerialNumber ident \<noteq> [] \<longrightarrow> ocspTruth (w_repo demoWorld) (iss_ID i) ident (statuses ident)))"
    using RespondOCSP_truthful[OF demo_sound rev plain run] by blast
  have "ci_InspectOCSP demoSigner 0 ''der'' = Inr info" using i by (simp add: demo_service demoWorld_def)
  moreover have "case issuerOf ident of None \<Rightarrow> statuses ident = ocspStatusForID ident ''unknown''
      | Some i \<Rightarrow> iss_ID i = ''ca'' \<longrightarrow> oci_SerialNumber ident \<noteq> [] \<longrightarrow> ocspTruth demoStore ''ca'' ident (statuses ident)"
    if "ident \<in> set (ori_Certificates info)" for ident
    using bspec[OF each that] by (auto simp: demoWorld_def split: option.splits)
  ultimately show ?thesis
    using run by (intro exI[of _ res] exI[of _ w'] exI[of _ info] exI[of _ issuerOf] exI[of _ statuses] conjI ballI) simp_all
qed

end
