(* ===== verification/Tour.thy ===== *)
theory Tour
  imports Walkthrough Queries
begin

text \<open>
  Instances of the theorems about the read side and the HTTP interface, on the deployment and the store
  of \<^verbatim>\<open>Scenario\<close>.
\<close>

section \<open>Reports\<close>

definition demoListing :: CertificateListOptions where
  "demoListing = \<lparr>clo_Owner = [], clo_Team = [], clo_Service = [], clo_Environment = [], clo_IssuerID = ''ca'', clo_ProfileID = [],
     clo_SAN = ''a'', clo_RevocationState = ''valid'', clo_RenewalState = ''unnotified'', clo_ExpiresWithinDays = 0, clo_Sort = ''desc'',
     clo_Limit = 5, clo_Offset = 0\<rparr>"

lemma demo_listing: "\<exists>r w'. Service_ListCertificatesQuery demoService demoListing demoWorld = (Inr r, w')"
  by (simp add: Service_ListCertificatesQuery_def demoListing_def lookup_run MemoryStore_ListCertificates_def validateListOptions_def
      isValidCertificateStatus_def prog_simps run_onRepo run_Now)

theorem ListCertificatesQuery_exact_witness:
  "\<exists>cs w'. Service_ListCertificatesQuery demoService demoListing demoWorld = (Inr (Some (pageOf cs 5 0)), w') \<and>
     set cs = {demoCertificate ''c2'' ''e2'' CertificateValid}"
proof -
  obtain r w' where run: "Service_ListCertificatesQuery demoService demoListing demoWorld = (Inr r, w')" using demo_listing by blast
  have "{c. (\<exists>k. mget (ms_certificates demoStore) k = Some c) \<and> certificateSelected demoStore demoListing t c} =
      {demoCertificate ''c2'' ''e2'' CertificateValid}" for t
    by (auto simp: certificateSelected_def demoListing_def demo_tables demo_rows mget_mput split: if_splits)
  then show ?thesis
    using ListCertificatesQuery_exact[OF demo_sound run] run by (auto simp: demoListing_def demoWorld_def)
qed

definition demoStill :: Service where
  "demoStill = demoService\<lparr>svc_clock := (\<lambda>n. 1000000000)\<rparr>"

theorem scan_settles_slo_witness:
  "\<exists>res w' slo w''. Service_ScanCertificateExpirations demoStill demoContext ''op'' \<lparr>scr_WarningWindow = 14 * 24 * Hour, scr_Limit = 10\<rparr> demoWorld =
       (Inr res, w') \<and> Service_ExpirySLO demoStill w' = (Inr slo, w'') \<and> eslo_OK slo"
proof -
  let ?req = "\<lparr>scr_WarningWindow = 14 * 24 * Hour, scr_Limit = 10\<rparr>"
  have sound: "sound demoStill demoWorld" using demo_sound by (simp add: sound_def ids_fresh_def demoStill_def)
  have clock: "svc_clock demoStill n = 1000000000" for n by (simp add: demoStill_def)
  have "length (mvals (ms_certificates demoStore)) \<le> 10" by code_simp
  then have few: "length (filter P (mvals (ms_certificates (w_repo demoWorld)))) \<le> 10" for P
    using length_filter_le le_trans unfolding demoWorld_def by (metis world.select_convs(1))
  have none: "{cert_ID c |k c. mget (ms_certificates (w_repo demoWorld)) k = Some c \<and> cert_Status c = CertificateSuspended \<and> P c} = {}" for P
    by (auto simp: demoWorld_def demo_tables demo_rows mget_mput split: if_splits)
  have "0 \<le> Hour" by (simp add: Hour_def Minute_def Second_def)
  then obtain res w' slo w'' where run: "Service_ScanCertificateExpirations demoStill demoContext ''op'' ?req demoWorld = (Inr res, w')"
      "Service_ExpirySLO demoStill w' = (Inr slo, w'')" and settled: "set (eslo_UnhandledIDs slo) = {}" "eslo_OK slo \<longleftrightarrow> eslo_UnhandledIDs slo = []"
    using scan_settles_slo[OF sound, of ?req demoContext "''op''"] few none by (auto simp: clock)
  then show ?thesis by (intro exI conjI) auto
qed

end
