(* ===== verification/AcmeAuth.thy ===== *)
theory AcmeAuth
  imports HttpAnswers
begin

text \<open>
  Authentication of the ACME protocol: what a request that passes \<^verbatim>\<open>decodeACMEJWS\<close> has shown, and that the handlers that read or change an object
  serve only the account it belongs to.
\<close>

section \<open>Signed requests\<close>

text \<open>
  The request \<open>r\<close> carries a signed message with payload \<open>payload\<close>: it is bound to this URL, its nonce is live, and its signature
  verifies under the key \<open>jwk\<close>.
\<close>

definition signedUnder :: "Server \<Rightarrow> Request \<Rightarrow> httpState \<Rightarrow> acmeJWSRequest \<Rightarrow> acmeProtectedHeader \<Rightarrow> acmeJWK \<Rightarrow> string \<Rightarrow> bool" where
  "signedUnder sv r s req protected jwk payload \<longleftrightarrow>
     decodeJSON r (cdc_acmeJWSRequest (sv_codec sv)) = Inr req \<and>
     (\<exists>bytes. decodeSegment (jws_Protected req) = Inr bytes \<and> umj_acmeProtectedHeader (sv_codec sv) bytes = Some protected) \<and>
     decodeSegment (jws_Payload req) = Inr payload \<and>
     aph_URL protected = requestAbsoluteURL r \<and>
     aph_Nonce protected \<in> memoryLive (hs_nonces s) (sv_now sv (hs_clock s)) \<and>
     isSupportedACMEJWSAlg (aph_Alg protected) \<and>
     verifyACMEJWS (sv_crypto sv) (aph_Alg protected) jwk (jws_Protected req @ ''.'' @ jws_Payload req) (jws_Signature req) = Inr ()"

text \<open>The key is the stored key of the account the header names, or the key in the header itself.\<close>

definition keyOfAccount :: "Server \<Rightarrow> MemoryStore \<Rightarrow> Request \<Rightarrow> acmeProtectedHeader \<Rightarrow> string \<Rightarrow> acmeJWK \<Rightarrow> bool" where
  "keyOfAccount sv store r protected accountID jwk \<longleftrightarrow>
     (\<exists>k account. acmeAccountIDFromKID (svc_runtime (sv_service sv)) (aph_KID protected) = Inr k \<and> mget (ms_acmeAccounts store) k = Some account \<and>
        accountID = acc_ID account \<and> umj_acmeJWK (sv_codec sv) (acc_KeyJWKJSON account) = Some jwk \<and> aph_KID protected \<noteq> [])"

definition authentic :: "Server \<Rightarrow> Request \<Rightarrow> httpState \<Rightarrow> acmeJWSResult \<Rightarrow> bool" where
  "authentic sv r s jws \<longleftrightarrow>
     (\<exists>req protected jwk. signedUnder sv r s req protected jwk (jwr_Payload jws) \<and>
        (if aph_KID protected \<noteq> [] then keyOfAccount sv (w_repo (hs_world s)) r protected (jwr_AccountID jws) jwk
         else jwr_AccountID jws = [] \<and> acmeJWKThumbprint (sv_crypto sv) jwk = Inr (jwr_KeyThumbprint jws)))"

lemma onService_Inr [inr_simps]:
  "onService m s = (Inr x, s') \<longleftrightarrow> (\<exists>w'. m (hs_world s) = (Inr x, w') \<and> s' = s\<lparr>hs_world := w'\<rparr>)"
  by (auto simp: onService_def split: prod.splits)

lemma timeNow_Inr [inr_simps]: "timeNow sv s = (Inr t, s') \<longleftrightarrow> t = sv_now sv (hs_clock s) \<and> s' = s\<lparr>hs_clock := Suc (hs_clock s)\<rparr>"
  by (auto simp: timeNow_def)

lemma asInvalid_Inr [simp]: "asInvalid m = Inr x \<longleftrightarrow> m = Inr x"
  by (cases m) (simp_all add: asInvalid_def)

lemma unmarshal_Inr [simp]: "unmarshal f t = Inr x \<longleftrightarrow> f t = Some x"
  by (cases "f t") (simp_all add: unmarshal_def)

lemma consume_run:
  assumes "consumeACMENonce sv r n s = (Inr True, s')"
  shows "n \<in> memoryLive (hs_nonces s) (sv_now sv (hs_clock s))" "hs_world s' = hs_world s" "mget (ans_nonces (hs_nonces s')) n = None"
  using assms
  by (auto simp: consumeACMENonce_def bindM_Inr timeNow_Inr acmeMemoryNonceStore_Consume_def Let_def mget_removeExpired mget_mdel memoryLive_def
      split: prod.splits sum.splits option.splits if_splits)

lemma GetACMEAccount_Inr: "Service_GetACMEAccount i w = (Inr a, w') \<Longrightarrow> mget (ms_acmeAccounts (w_repo w)) i = Some a \<and> w' = w"
  by (auto simp: Service_GetACMEAccount_def inr_simps)

lemma signingKey_run:
  assumes "signingKey sv r protected payload s = (Inr (jwk, jws), s')"
  shows "s' = s \<and> jwr_Payload jws = payload \<and>
    (if aph_KID protected \<noteq> [] then keyOfAccount sv (w_repo (hs_world s)) r protected (jwr_AccountID jws) jwk
     else jwr_AccountID jws = [] \<and> acmeJWKThumbprint (sv_crypto sv) jwk = Inr (jwr_KeyThumbprint jws))"
  using assms unfolding signingKey_def
  by (auto simp: inr_simps keyOfAccount_def dest!: GetACMEAccount_Inr split: if_splits)

lemma decode_run:
  assumes "decodeACMEJWS sv r s = (Inr jws, s')"
  shows "\<exists>req protected jwk. signedUnder sv r s req protected jwk (jwr_Payload jws) \<and>
    (if aph_KID protected \<noteq> [] then keyOfAccount sv (w_repo (hs_world s)) r protected (jwr_AccountID jws) jwk
     else jwr_AccountID jws = [] \<and> acmeJWKThumbprint (sv_crypto sv) jwk = Inr (jwr_KeyThumbprint jws)) \<and>
    mget (ans_nonces (hs_nonces s')) (aph_Nonce protected) = None \<and> hs_world s' = hs_world s"
proof -
  obtain req bytes protected s1 payload jwk where
    req: "decodeJSON r (cdc_acmeJWSRequest (sv_codec sv)) = Inr req" and
    bytes: "decodeSegment (jws_Protected req) = Inr bytes" "umj_acmeProtectedHeader (sv_codec sv) bytes = Some protected" and
    url: "aph_URL protected = requestAbsoluteURL r" "isSupportedACMEJWSAlg (aph_Alg protected)" and
    nonce: "consumeACMENonce sv r (aph_Nonce protected) s = (Inr True, s1)" and
    payload: "decodeSegment (jws_Payload req) = Inr payload" and
    key: "signingKey sv r protected payload s1 = (Inr (jwk, jws), s')" and
    sig: "verifyACMEJWS (sv_crypto sv) (aph_Alg protected) jwk (jws_Protected req @ ''.'' @ jws_Payload req) (jws_Signature req) = Inr ()"
    using assms unfolding decodeACMEJWS_def Let_def by (auto simp: inr_simps)
  note consumed = consume_run[OF nonce]
  note k = signingKey_run[OF key]
  show ?thesis
    by (intro exI[of _ req] exI[of _ protected] exI[of _ jwk])
      (use req bytes url payload sig consumed k in \<open>auto simp: signedUnder_def\<close>)
qed


section \<open>Objects of the signing account\<close>

text \<open>A successful answer of a handler is one of the run of its body.\<close>

lemma handled_success:
  assumes "handled sv r m s = (Inr (Some resp), s')" "rs_Status resp < 400"
  shows "m s = (Inr (Some resp), s')"
proof -
  obtain res s1 where m: "m s = (res, s1)" by (cases "m s")
  show ?thesis
  proof (cases res)
    case (Inl e)
    then have "fst (writeError sv r e s1) = Inr resp"
      using assms(1) m by (auto simp: handled_def prog_simps split: prod.splits sum.splits)
    then have "rs_Status resp \<in> errorStatuses" using writeError_disclosed[of sv r e s1 resp] statusForError_range[of e] by simp
    then show ?thesis using assms(2) by (auto simp: errorStatuses_def)
  next
    case (Inr ans)
    then show ?thesis using assms(1) m by (simp add: handled_def prog_simps)
  qed
qed

text \<open>An order, authorization, challenge or certificate that belongs to a valid account.\<close>

definition ownsOrder :: "MemoryStore \<Rightarrow> string \<Rightarrow> string \<Rightarrow> bool" where
  "ownsOrder store accountID orderID \<longleftrightarrow>
     (\<exists>order account. mget (ms_acmeOrders store) orderID = Some order \<and> ord_AccountID order = accountID \<and>
        mget (ms_acmeAccounts store) accountID = Some account \<and> acc_Status account = ACMEAccountValid)"

definition ownsAuthorization :: "MemoryStore \<Rightarrow> string \<Rightarrow> string \<Rightarrow> bool" where
  "ownsAuthorization store accountID authorizationID \<longleftrightarrow>
     (\<exists>a. mget (ms_acmeAuthzs store) authorizationID = Some a \<and> ownsOrder store accountID (authz_OrderID a))"

definition ownsChallenge :: "MemoryStore \<Rightarrow> string \<Rightarrow> string \<Rightarrow> bool" where
  "ownsChallenge store accountID challengeID \<longleftrightarrow>
     (\<exists>c. mget (ms_acmeChallenges store) challengeID = Some c \<and> ownsAuthorization store accountID (chal_AuthorizationID c))"

definition ownsCertificate :: "MemoryStore \<Rightarrow> string \<Rightarrow> string \<Rightarrow> bool" where
  "ownsCertificate store accountID certificateID \<longleftrightarrow>
     (\<exists>k order. mget (ms_acmeOrders store) k = Some order \<and> ord_AccountID order = accountID \<and> ord_CertificateID order = certificateID)"

lemma requires_run:
  "requireACMEOrderAccount i j w = (Inr u, w') \<Longrightarrow> j \<noteq> [] \<and> ownsOrder (w_repo w) j i"
  "requireACMEAuthorizationAccount i j w = (Inr u, w') \<Longrightarrow> j \<noteq> [] \<and> ownsAuthorization (w_repo w) j i"
  "requireACMEChallengeAccount i j w = (Inr u, w') \<Longrightarrow> j \<noteq> [] \<and> ownsChallenge (w_repo w) j i"
  "requireACMECertificateAccount i j w = (Inr u, w') \<Longrightarrow> j \<noteq> [] \<and> ownsCertificate (w_repo w) j i"
proof -
  have order: "j \<noteq> [] \<and> ownsOrder (w_repo w) j i" if "requireACMEOrderAccount i j w = (Inr u, w')" for i w w' u
    using that by (auto simp: requireACMEOrderAccount_def Service_GetACMEAccount_def Service_GetACMEOrder_def inr_simps ownsOrder_def)
  then show "requireACMEOrderAccount i j w = (Inr u, w') \<Longrightarrow> j \<noteq> [] \<and> ownsOrder (w_repo w) j i" .
  show "requireACMEAuthorizationAccount i j w = (Inr u, w') \<Longrightarrow> j \<noteq> [] \<and> ownsAuthorization (w_repo w) j i"
    by (auto simp: requireACMEAuthorizationAccount_def Service_GetACMEAuthorization_def inr_simps ownsAuthorization_def dest!: order)
  show "requireACMEChallengeAccount i j w = (Inr u, w') \<Longrightarrow> j \<noteq> [] \<and> ownsChallenge (w_repo w) j i"
    by (auto simp: requireACMEChallengeAccount_def Service_GetACMEChallenge_def Service_GetACMEAuthorization_def inr_simps ownsChallenge_def
        ownsAuthorization_def dest!: order)
  show "requireACMECertificateAccount i j w = (Inr u, w') \<Longrightarrow> j \<noteq> [] \<and> ownsCertificate (w_repo w) j i"
    by (auto simp: requireACMECertificateAccount_def Service_ListACMEOrdersByAccount_def inr_simps MemoryStore_ListACMEOrdersByAccount_def
        listACMEOrdersByAccount_def ownsCertificate_def list_ex_iff in_mvals_iff split: if_splits)
qed

text \<open>A protocol handler: a signed request, and then its work on behalf of the account.\<close>

lemma signed_handler:
  assumes "handled sv r (bindM (decodeACMEJWS sv r) f) s = (Inr (Some resp), s')" "rs_Status resp < 400"
  obtains jws s1 where "authentic sv r s jws" "hs_world s1 = hs_world s" "f jws s1 = (Inr (Some resp), s')"
proof -
  from handled_success[OF assms] obtain jws s1 where jws: "decodeACMEJWS sv r s = (Inr jws, s1)" "f jws s1 = (Inr (Some resp), s')"
    by (auto simp: bindM_Inr)
  from decode_run[OF jws(1)] show thesis using that[of jws s1] jws(2) unfolding authentic_def by blast
qed

text \<open>The account that signed the request, and what must be its own.\<close>

definition signedBy :: "Server \<Rightarrow> Request \<Rightarrow> httpState \<Rightarrow> (acmeJWSResult \<Rightarrow> string \<Rightarrow> bool) \<Rightarrow> bool" where
  "signedBy sv r s P \<longleftrightarrow> (\<exists>jws. authentic sv r s jws \<and> jwr_AccountID jws \<noteq> [] \<and> P jws (jwr_AccountID jws))"

lemma served_order:
  assumes "acmePostAsGetOrder sv r s = (Inr (Some resp), s')" "rs_Status resp < 400"
  shows "signedBy sv r s (\<lambda>jws account. ownsOrder (w_repo (hs_world s)) account (PathValue r ''id''))"
  using signed_handler[OF assms[unfolded acmePostAsGetOrder_def]] by (auto simp: signedBy_def inr_simps dest!: requires_run)

lemma served_finalization:
  assumes "acmeFinalizeOrder sv r s = (Inr (Some resp), s')" "rs_Status resp < 400"
  shows "signedBy sv r s (\<lambda>jws account. ownsOrder (w_repo (hs_world s)) account (PathValue r ''id''))"
  using signed_handler[OF assms[unfolded acmeFinalizeOrder_def]] by (auto simp: signedBy_def inr_simps dest!: requires_run)

lemma served_authorization:
  assumes "acmePostAsGetAuthorization sv r s = (Inr (Some resp), s')" "rs_Status resp < 400"
  shows "signedBy sv r s (\<lambda>jws account. ownsAuthorization (w_repo (hs_world s)) account (PathValue r ''id''))"
  using signed_handler[OF assms[unfolded acmePostAsGetAuthorization_def]] by (auto simp: signedBy_def inr_simps dest!: requires_run)

lemma served_challenge:
  assumes "acmeCompleteChallenge sv r s = (Inr (Some resp), s')" "rs_Status resp < 400"
  shows "signedBy sv r s (\<lambda>jws account. ownsChallenge (w_repo (hs_world s)) account (PathValue r ''id''))"
  using signed_handler[OF assms[unfolded acmeCompleteChallenge_def]] by (auto simp: signedBy_def inr_simps dest!: requires_run)

lemma served_certificate:
  assumes "acmePostAsGetCertificate sv r s = (Inr (Some resp), s')" "rs_Status resp < 400"
  shows "signedBy sv r s (\<lambda>jws account. ownsCertificate (w_repo (hs_world s)) account (PathValue r ''id''))"
  using signed_handler[OF assms[unfolded acmePostAsGetCertificate_def]] by (auto simp: signedBy_def inr_simps dest!: requires_run)

lemma served_revocation:
  assumes "acmeRevokeCertificate sv r s = (Inr (Some resp), s')" "rs_Status resp < 400"
  shows "signedBy sv r s (\<lambda>jws account. \<exists>req. umj_acmeRevokeCertificateRequest (sv_codec sv) (jwr_Payload jws) = Some req \<and>
     ownsCertificate (w_repo (hs_world s)) account (har_CertificateID req))"
proof -
  obtain jws s1 where jws: "authentic sv r s jws" "hs_world s1 = hs_world s" and
    run: "bindM (liftE (unmarshal (umj_acmeRevokeCertificateRequest (sv_codec sv)) (jwr_Payload jws))) (\<lambda>req.
      failIf (har_CertificateID req = [] \<or> str_RevocationReason (har_Reason req) = []) ErrInvalidRequest
     (thenM (onService (requireACMECertificateAccount (har_CertificateID req) (jwr_AccountID jws)))
     (thenM (onService (Service_RevokeCertificate (sv_service sv) (rq_Context r) (requestActor r) (har_CertificateID req) (har_Reason req)))
      (writeACMEJSON sv r mempty 200 (BDirectory []))))) s1 = (Inr (Some resp), s')"
    using signed_handler[OF assms[unfolded acmeRevokeCertificate_def]] by blast
  then show ?thesis by (auto simp: inr_simps signedBy_def dest!: requires_run)
qed

lemma served_account:
  assumes "acmeUpdateAccount sv r s = (Inr (Some resp), s')" "rs_Status resp < 400"
  shows "signedBy sv r s (\<lambda>jws account. account = PathValue r ''id'')"
  using signed_handler[OF assms[unfolded acmeUpdateAccount_def]] by (auto simp: signedBy_def inr_simps Let_def)


end
