(* ===== verification/HttpLimits.thy ===== *)
theory HttpLimits
  imports Http
begin

text \<open>
  The limits of the interface: how many requests the ACME rate limit admits in a window of time, and that a body over its limit is not read.
\<close>

section \<open>The rate limit over a sequence of requests\<close>

text \<open>
  A sequence of checks on one server: \<open>(c, r)\<close> is the check of the request \<open>r\<close> when the clock has been read \<open>c\<close> times, whatever the
  server did in between. \<open>admitted\<close> counts the limited requests with the key \<open>k\<close> that pass.
\<close>

definition limited :: "Request \<Rightarrow> bool" where
  "limited r \<longleftrightarrow> isRateLimitedACMEProtocolEndpoint (rq_Method r) (URLPath r)"

fun admitted :: "Server \<Rightarrow> string \<Rightarrow> (nat \<times> Request) list \<Rightarrow> httpState \<Rightarrow> int" where
  "admitted sv k [] s = 0"
| "admitted sv k ((c, r) # rest) s =
     (case checkACMERateLimit sv r (s\<lparr>hs_clock := c\<rparr>) of
        (res, s') \<Rightarrow> (if limited r \<and> rateKey sv r = k \<and> res = Inr () then 1 else 0) + admitted sv k rest s')"

definition bucketOf :: "httpState \<Rightarrow> string \<Rightarrow> acmeRateBucket" where
  "bucketOf s k = (case mget (hs_rates s) k of None \<Rightarrow> \<lparr>arb_Count = 0, arb_ResetAt = time_zero\<rparr> | Some b \<Rightarrow> b)"

definition openAt :: "acmeRateBucket \<Rightarrow> time \<Rightarrow> bool" where
  "openAt b now \<longleftrightarrow> \<not> IsZero (arb_ResetAt b) \<and> now < arb_ResetAt b"

lemma check_other:
  assumes "checkACMERateLimit sv r s = (res, s')" "\<not> limited r \<or> rateKey sv r \<noteq> k"
  shows "bucketOf s' k = bucketOf s k"
  using assms
  by (auto simp: checkACMERateLimit_def limited_def bucketOf_def prog_simps timeNow_def RecordEvent_def Let_def mget_mput split: if_splits)

lemma check_key:
  assumes "checkACMERateLimit sv r s = (res, s')" "limited r" "rateKey sv r = k"
  shows "openAt (bucketOf s k) (sv_now sv (hs_clock s)) \<Longrightarrow>
      (if arb_Count (bucketOf s k) < acme_RateLimit (sv_acme sv)
       then res = Inr () \<and> bucketOf s' k = (bucketOf s k)\<lparr>arb_Count := arb_Count (bucketOf s k) + 1\<rparr>
       else res = Inl ErrRateLimited \<and> bucketOf s' k = bucketOf s k)"
    and "\<not> openAt (bucketOf s k) (sv_now sv (hs_clock s)) \<Longrightarrow> 0 < acme_RateLimit (sv_acme sv) \<Longrightarrow>
      res = Inr () \<and> bucketOf s' k = \<lparr>arb_Count = 1, arb_ResetAt = sv_now sv (hs_clock s) + acme_RateLimitWindow (sv_acme sv)\<rparr>"
  using assms
  by (auto simp: checkACMERateLimit_def limited_def bucketOf_def openAt_def prog_simps timeNow_def RecordEvent_def Let_def split: if_splits option.splits)

text \<open>As long as a window stays open, it admits what is left of its quota.\<close>

lemma admitted_in_window:
  assumes "\<forall>(c, r) \<in> set rest. openAt (bucketOf s k) (sv_now sv c)"
  shows "admitted sv k rest s \<le> max 0 (acme_RateLimit (sv_acme sv) - arb_Count (bucketOf s k))"
  using assms
proof (induction rest arbitrary: s)
  case (Cons x rest)
  obtain c r where x: "x = (c, r)" by (cases x)
  obtain res s' where run: "checkACMERateLimit sv r (s\<lparr>hs_clock := c\<rparr>) = (res, s')" by fastforce
  have b: "bucketOf (s\<lparr>hs_clock := c\<rparr>) k = bucketOf s k" by (simp add: bucketOf_def)
  show ?case
  proof (cases "limited r \<and> rateKey sv r = k")
    case True
    note hit = check_key(1)[OF run conjunct1[OF True] conjunct2[OF True], unfolded b]
    have "openAt (bucketOf s k) (sv_now sv c)" using Cons.prems x by auto
    note h = hit[simplified, OF this]
    have "arb_ResetAt (bucketOf s' k) = arb_ResetAt (bucketOf s k)" using h by (auto split: if_splits)
    then have "\<forall>(c, r) \<in> set rest. openAt (bucketOf s' k) (sv_now sv c)" using Cons.prems by (auto simp: openAt_def)
    then show ?thesis using Cons.IH[of s'] h run x by (auto split: if_splits)
  next
    case False
    then have "bucketOf s' k = bucketOf s k" using check_other[OF run] b by metis
    then show ?thesis using Cons.IH[of s'] Cons.prems run x False by auto
  qed
qed simp

lemma admitted_in_stretch:
  fixes sv :: Server
  defines "L \<equiv> acme_RateLimit (sv_acme sv)" and "W \<equiv> acme_RateLimitWindow (sv_acme sv)"
  assumes pos: "0 < L" "0 < W" "0 \<le> t"
    and "sorted (map (\<lambda>(c, r). sv_now sv c) rs)" and "\<forall>(c, r) \<in> set rs. t \<le> sv_now sv c \<and> sv_now sv c < t + W"
    and "0 \<le> arb_Count (bucketOf s k)"
  shows "admitted sv k rs s \<le> max 0 (L - arb_Count (bucketOf s k)) + L"
  using assms(6-8)
proof (induction rs arbitrary: s)
  case Nil
  then show ?case using pos by simp
next
  case (Cons x rest)
  obtain c r where x: "x = (c, r)" by (cases x)
  obtain res s' where run: "checkACMERateLimit sv r (s\<lparr>hs_clock := c\<rparr>) = (res, s')" by fastforce
  have b: "bucketOf (s\<lparr>hs_clock := c\<rparr>) k = bucketOf s k" by (simp add: bucketOf_def)
  have rest: "sorted (map (\<lambda>(c, r). sv_now sv c) rest)" "\<forall>(c, r) \<in> set rest. t \<le> sv_now sv c \<and> sv_now sv c < t + W"
    using Cons.prems(1,2) by auto
  show ?case
  proof (cases "limited r \<and> rateKey sv r = k")
    case False
    then have "bucketOf s' k = bucketOf s k" using check_other[OF run] b by metis
    then show ?thesis using Cons.IH[OF rest, of s'] Cons.prems(3) run x False by auto
  next
    case True
    note hit = check_key[OF run conjunct1[OF True] conjunct2[OF True], unfolded b, simplified]
    show ?thesis
    proof (cases "openAt (bucketOf s k) (sv_now sv c)")
      case open_: True
      note h = hit(1)[OF open_]
      then have "0 \<le> arb_Count (bucketOf s' k)" using Cons.prems(3) by (auto split: if_splits)
      then show ?thesis using Cons.IH[OF rest, of s'] h run x True by (auto simp: L_def split: if_splits)
    next
      case False
      note h = hit(2)[OF False pos(1)[unfolded L_def]]
      have "t \<le> sv_now sv c" using Cons.prems(2) x by auto
      then have "\<forall>(c, r) \<in> set rest. openAt (bucketOf s' k) (sv_now sv c)" using h rest(2) pos by (auto simp: openAt_def W_def IsZero_def)
      from admitted_in_window[OF this] show ?thesis using h run x pos by (auto simp: L_def)
    qed
  qed
qed

text \<open>
  C27: in any stretch of time no longer than the configured window, at most twice the configured number of requests of one client and class pass the ACME
  rate limit, whatever other requests are checked in between; and in a window that is already open at most what is left of its quota.
\<close>

theorem rate_limit_bounds:
  assumes "0 < acme_RateLimit (sv_acme sv)" and "0 < acme_RateLimitWindow (sv_acme sv)" and "0 \<le> t"
    and "sorted (map (\<lambda>(c, r). sv_now sv c) rs)" and "\<forall>(c, r) \<in> set rs. t \<le> sv_now sv c \<and> sv_now sv c < t + acme_RateLimitWindow (sv_acme sv)"
    and "0 \<le> arb_Count (bucketOf s k)"
  shows "admitted sv k rs s \<le> 2 * acme_RateLimit (sv_acme sv) \<and>
    ((\<forall>(c, r) \<in> set rs. openAt (bucketOf s k) (sv_now sv c)) \<longrightarrow> admitted sv k rs s \<le> max 0 (acme_RateLimit (sv_acme sv) - arb_Count (bucketOf s k)))"
  using admitted_in_stretch[OF assms] admitted_in_window[of rs s k sv] assms(1,6) by auto

end
