(* ===== verification/HttpTour.thy ===== *)
theory HttpTour
  imports Tour HttpRuns HttpAccess AcmeAuth HttpLimits
begin

text \<open>
  Instances of the theorems about the nonces, the HTTP server and the ACME protocol, on a server in front of the deployment of
  \<^verbatim>\<open>Scenario\<close>: it asks for API keys, admits one ACME request of a kind a minute, and its one ACME account has a stored key.
\<close>

section \<open>Nonces\<close>

theorem memory_nonces_refine_set_witness:
  "\<exists>s' s''. acmeMemoryNonceStore_Consume (newACMEMemoryNonceStore 2) None ''b'' 1 = (Inr False, s') \<and>
     acmeMemoryNonceStore_Issue (newACMEMemoryNonceStore 2) None ''a'' 1 9 = Some (Inr (), s'') \<and> ''a'' \<in> memoryLive s'' 2"
proof -
  have ok: "memoryOk (newACMEMemoryNonceStore 2)" by (simp add: memoryOk_def newACMEMemoryNonceStore_def mentries_mempty)
  have "memoryLive (newACMEMemoryNonceStore 2) 1 = {}" by (simp add: memoryLive_def newACMEMemoryNonceStore_def)
  then show ?thesis using memory_nonces_refine_set[OF ok, of "''a''" 1 2 "''b''" 9] by auto
qed

definition demoCalls :: "nonceCall list" where
  "demoCalls = [IssueCall None ''a'' 1 9, ConsumeCall None ''a'' 2, ConsumeCall None ''a'' 3]"

theorem nonce_single_use_witness:
  "acceptedOf acmeMemoryNonceStore_Issue acmeMemoryNonceStore_Consume ''a'' demoCalls (newACMEMemoryNonceStore 4) \<le> 1 \<and>
   acceptedOf (tableIssue (tableExec ''sqlite'') ''sqlite'') (SQLACMENonceStore_Consume (tableExec ''sqlite'') ''sqlite'') ''a'' demoCalls mempty \<le> 1"
proof -
  have "issuesOf ''a'' demoCalls = 1" by (simp add: demoCalls_def issuesOf_def)
  then show ?thesis
    using nonce_single_use[OF plain_table.nonce_table_axioms[of "''sqlite''"], of mempty 4 demoCalls "''a''"] by (simp add: demoCalls_def)
qed

theorem nonce_survives_witness:
  "\<exists>s1 s2 s3. acmeMemoryNonceStore_Issue (newACMEMemoryNonceStore 2) None ''a'' 1 9 = Some (Inr (), s1) \<and>
     afterCalls [IssueCall None ''b'' 2 9] s1 = Some s2 \<and> acmeMemoryNonceStore_Consume s2 None ''a'' 5 = (Inr True, s3)"
proof -
  have ok: "memoryOk (newACMEMemoryNonceStore 2)" by (simp add: memoryOk_def newACMEMemoryNonceStore_def mentries_mempty)
  have ne: "''a'' \<noteq> []" by simp
  obtain s1 where s1: "acmeMemoryNonceStore_Issue (newACMEMemoryNonceStore 2) None ''a'' 1 9 = Some (Inr (), s1)"
    using ok ne by (cases rule: memory_Issue_cases[where ctxErr = None and t = 1 and e = 9]) auto
  from nonce_survives[OF ok ne _ s1, of "[IssueCall None ''b'' 2 9]" 5] s1 show ?thesis by (auto simp: newACMEMemoryNonceStore_def)
qed

section \<open>A server\<close>

definition demoJWK :: acmeJWK where
  "demoJWK = \<lparr>jwk_KTY = ''OKP'', jwk_CRV = ''Ed25519'', jwk_X = replicate 43 CHR ''A'', jwk_Y = [], jwk_N = [], jwk_E = []\<rparr>"

definition demoMessageJWS :: acmeJWSRequest where
  "demoMessageJWS = \<lparr>jws_Protected = ''e30'', jws_Payload = [], jws_Signature = ''e30''\<rparr>"

definition demoProtected :: acmeProtectedHeader where
  "demoProtected = \<lparr>aph_Alg = ''EdDSA'', aph_Nonce = ''n1'', aph_URL = ''http://h/acme/order/q1'', aph_KID = ''http://h/acme/account/ac'', aph_JWK = None\<rparr>"

definition demoCodec :: Codec where
  "demoCodec = \<lparr>cdc_createIdentityRequest = (\<lambda>t. None), cdc_createIssuerRequest = (\<lambda>t. None), cdc_createOCSPResponderRequest = (\<lambda>t. None),
     cdc_createNotificationEndpointRequest = (\<lambda>t. None), cdc_replayDeadLetterOutboxRequest = (\<lambda>t. None), cdc_createAPIKeyRequest = (\<lambda>t. None),
     cdc_createCertificateProfileRequest = (\<lambda>t. None), cdc_createEnrollmentRequest = (\<lambda>t. None), cdc_issueCertificateRequest = (\<lambda>t. None),
     cdc_scanCertificateExpirationsRequest = (\<lambda>t. None), cdc_revokeCertificateRequest = (\<lambda>t. None), cdc_renewCertificateRequest = (\<lambda>t. None),
     cdc_reissueCertificateRequest = (\<lambda>t. None), cdc_publishCRLRequest = (\<lambda>t. None), cdc_pruneAuditEventsRequest = (\<lambda>t. None),
     cdc_createACMEAccountRequest = (\<lambda>t. None), cdc_createACMEOrderRequest = (\<lambda>t. None), cdc_finalizeACMEOrderRequest = (\<lambda>t. None),
     cdc_acmeJWSRequest = (\<lambda>t. Some (demoMessageJWS, [])), umj_acmeProtectedHeader = (\<lambda>t. Some demoProtected), umj_acmeJWK = (\<lambda>t. Some demoJWK),
     umj_acmeNewAccountRequest = (\<lambda>t. None), umj_acmeUpdateAccountRequest = (\<lambda>t. None), umj_acmeKeyChangeRequest = (\<lambda>t. None),
     umj_acmeJWSRequest = (\<lambda>t. None), umj_acmeNewOrderRequest = (\<lambda>t. None), umj_finalizeACMEOrderRequest = (\<lambda>t. None),
     umj_acmeRevokeCertificateRequest = (\<lambda>t. None)\<rparr>"

definition demoCrypto :: Crypto where
  "demoCrypto = \<lparr>cr_sha256 = (\<lambda>t. t), cr_p256OnCurve = (\<lambda>x y. False), cr_ecdsaVerify = (\<lambda>x y d r s. False), cr_rsaVerify = (\<lambda>n e d s. False),
     cr_ed25519Verify = (\<lambda>k m s. s = ''{}''), cr_csrSubject = (\<lambda>t. None), cr_pemCSR = (\<lambda>t. t), cr_URLEncodingDecode = (\<lambda>t. None),
     cr_parseRFC3339 = (\<lambda>t. None)\<rparr>"

definition demoFront :: Service where
  "demoFront = demoService\<lparr>svc_runtime := demoRuntime\<lparr>rt_urlParse := (\<lambda>u. Some \<lparr>url_Scheme = ''http'', url_Host = ''h'', url_Hostname = ''h'', url_HasUser = False, url_Path = ''/acme/account/ac''\<rparr>)\<rparr>\<rparr>"

definition demoServer :: Server where
  "demoServer = NewWithAuthAndACME demoFront \<lparr>auth_Mode = ''api_key'', auth_TrustedProxies = []\<rparr>
     \<lparr>acme_DefaultIdentityID = [], acme_DefaultIssuerID = [], acme_DefaultCertificateProfileID = [], acme_DefaultValidityPeriod = 0, acme_RateLimit = 1,
      acme_RateLimitWindow = 0\<rparr> demoCodec demoCrypto (\<lambda>n. int n)"

definition demoRequest :: "string \<Rightarrow> string list \<Rightarrow> string \<Rightarrow> Request" where
  "demoRequest method segs authorization = \<lparr>rq_Method = method, rq_Segments = segs, rq_Clean = True, rq_RequestURI = ''/acme/order/q1'', rq_Host = ''h'',
     rq_RemoteAddr = ''1.2.3.4:5'', rq_Header = mput ''Authorization'' authorization mempty, rq_Query = mempty, rq_Body = ''{}'', rq_BodyBroken = False,
     rq_CtxErr = None, rq_PathValues = mput ''id'' ''q1'' mempty, rq_Actor = None, rq_Context = demoContext\<rparr>"

lemma demo_server:
  "sv_service demoServer = demoFront" "auth_Mode (sv_auth demoServer) = ''api_key''" "auth_TrustedProxies (sv_auth demoServer) = []"
  "acme_RateLimit (sv_acme demoServer) = 1" "acme_RateLimitWindow (sv_acme demoServer) = Minute" "sv_codec demoServer = demoCodec"
  "sv_crypto demoServer = demoCrypto" "sv_now demoServer = int"
  by (auto simp: demoServer_def NewWithAuthAndACME_def defaultACMERateWindow_def Let_def)

lemma demo_request:
  "rq_Method (demoRequest m segs a) = m" "rq_Segments (demoRequest m segs a) = segs" "rq_BodyBroken (demoRequest m segs a) = False"
  "rq_Body (demoRequest m segs a) = ''{}''" "rq_CtxErr (demoRequest m segs a) = None" "rq_RemoteAddr (demoRequest m segs a) = ''1.2.3.4:5''"
  "PathValue (demoRequest m segs a) ''id'' = ''q1''" "Header_Get (demoRequest m segs a) ''Authorization'' = a"
  "Header_Get (demoRequest m segs a) ''Content-Type'' = []" "Header_Get (demoRequest m segs a) ''X-Forwarded-Proto'' = []"
  "requestAbsoluteURL (demoRequest m segs a) = ''http://h/acme/order/q1''" "requestBaseURL (demoRequest m segs a) = ''http://h''"
  by (simp_all add: demoRequest_def PathValue_def Header_Get_def getString_def requestAbsoluteURL_def requestBaseURL_def)

lemma demo_front:
  "svc_clock demoFront = svc_clock demoService" "svc_idgen demoFront = svc_idgen demoService" "svc_apiKeyPepper demoFront = []"
  by (simp_all add: demoFront_def demoService_def)

lemma demo_front_sound: "sound demoFront demoWorld"
  using demo_sound by (simp add: sound_def ids_fresh_def demo_front)

section \<open>Access\<close>

theorem requests_refine_service_witness:
  "serviceRun demoFront emptyWorld
     (hs_world (afterRequests demoServer [demoRequest ''POST'' [''identities''] [], demoRequest ''GET'' [''acme'', ''directory''] []] (initialState emptyWorld)))"
proof -
  have "initial (sv_service demoServer) emptyWorld" using demo_initial by (simp add: initial_def demo_server demo_front)
  from requests_refine_service[OF this refl] show ?thesis by (simp only: demo_server)
qed

lemma demo_route: "routeFor demoServer (demoRequest ''GET'' [''crls'', ''p''] a) = Some (''GET'', [Lit ''crls'', Wild ''id''], getCRLPublication demoServer)"
  by (simp add: routeFor_def routes_def methodMatches_def demo_request)

theorem routes_guarded_witness:
  "isPublicEndpoint ''GET'' (URLPath (demoRequest ''GET'' [''crls'', ''p''] []))"
  using routes_guarded[OF demo_route[of "[]"]] by (simp add: demo_request publicPatterns_def unslashed_def)


section \<open>Signed requests\<close>

definition demoAccountKey :: world where
  "demoAccountKey = demoWorld\<lparr>w_repo := demoStore\<lparr>ms_acmeAccounts := mput ''ac'' (demoAccount\<lparr>acc_KeyJWKJSON := ''{}''\<rparr>) mempty\<rparr>\<rparr>"

definition demoFresh :: httpState where
  "demoFresh = (initialState demoAccountKey)\<lparr>hs_nonces := \<lparr>ans_nonces = mput ''n1'' \<lparr>asn_IssuedAt = 0, asn_ExpiresAt = 9\<rparr> mempty, ans_maxSize = 8\<rparr>\<rparr>"

lemma demo_base64: "decodeSegment ''e30'' = Inr ''{}''" "decodeSegment [] = Inr []" "length (projr (decodeSegment (replicate 43 CHR ''A''))) = 32"
  "isl (decodeSegment (replicate 43 CHR ''A'')) = False"
  by code_simp+

lemma demo_verifies: "verifyACMEJWS demoCrypto ''EdDSA'' demoJWK m ''e30'' = Inr ()"
proof -
  obtain key where "decodeSegment (replicate 43 CHR ''A'') = Inr key" "length key = 32"
    using demo_base64(3,4) by (cases "decodeSegment (replicate 43 CHR ''A'')") auto
  then show ?thesis by (simp add: verifyACMEJWS_def demo_base64 acmeOKPJWKPublicKey_def isValidACMEOKPJWK_def demoJWK_def demoCrypto_def Let_def)
qed

lemma demo_decode:
  "\<exists>jws s'. decodeACMEJWS demoServer (demoRequest ''POST'' [''acme'', ''order'', ''q1''] []) demoFresh = (Inr jws, s') \<and>
     jwr_AccountID jws = ''ac'' \<and> jwr_Payload jws = [] \<and> hs_world s' = demoAccountKey"
proof -
  let ?r = "demoRequest ''POST'' [''acme'', ''order'', ''q1''] []"
  have body: "decodeJSON ?r (cdc_acmeJWSRequest demoCodec) = Inr demoMessageJWS"
    by (simp add: decodeJSON_def demo_request demoCodec_def jsonBlank_def requestBodyLimit_def defaultJSONBodyLimit_def defaultOCSPBodyLimit_def)
  have kid: "acmeAccountIDFromKID (svc_runtime demoFront) k = Inr ''ac''" for k
    by (simp add: acmeAccountIDFromKID_def demoFront_def trimSlashes_def)
  have blank: "isBlank ''ac'' = False" by code_simp
  have nonce: "\<exists>s1. consumeACMENonce demoServer ?r ''n1'' demoFresh = (Inr True, s1) \<and> hs_world s1 = demoAccountKey"
    by (simp add: consumeACMENonce_def prog_simps timeNow_def demoFresh_def initialState_def acmeMemoryNonceStore_Consume_def Let_def mget_removeExpired
        demo_request demo_server)
  then obtain s1 where s1: "consumeACMENonce demoServer ?r ''n1'' demoFresh = (Inr True, s1)" "hs_world s1 = demoAccountKey" by blast
  have jwk: "umj_acmeJWK demoCodec t = Some demoJWK" "umj_acmeProtectedHeader demoCodec t = Some demoProtected" for t by (simp_all add: demoCodec_def)
  have "\<exists>jws. signingKey demoServer ?r demoProtected [] s1 = (Inr (demoJWK, jws), s1) \<and> jwr_AccountID jws = ''ac'' \<and> jwr_Payload jws = []"
    by (simp add: signingKey_def demoProtected_def demo_request HasPrefix_Cons demo_server kid prog_simps onService_def Service_GetACMEAccount_def blank run_onRepo
        MemoryStore_GetACMEAccount_def s1(2) demoAccountKey_def demoWorld_def demo_rows asInvalid_def unmarshal_def jwk)
  then obtain jws where "signingKey demoServer ?r demoProtected [] s1 = (Inr (demoJWK, jws), s1)" "jwr_AccountID jws = ''ac''" "jwr_Payload jws = []" by blast
  then show ?thesis
    by (simp add: decodeACMEJWS_def demo_request demo_server body prog_simps demoMessageJWS_def demo_base64 unmarshal_def jwk demoProtected_def s1
        isSupportedACMEJWSAlg_def asInvalid_def demo_verifies)
qed


lemma writeACMEJSON_run: "\<exists>resp s'. writeACMEJSON sv r h status body s = (Inr (Some resp), s') \<and> rs_Status resp = status"
  by (cases "issueACMENonce sv r s") (auto simp: writeACMEJSON_def prog_simps Let_def)

lemma demo_fetch:
  "\<exists>resp s'. acmePostAsGetOrder demoServer (demoRequest ''POST'' [''acme'', ''order'', ''q1''] []) demoFresh = (Inr (Some resp), s') \<and> rs_Status resp = 200"
proof -
  let ?r = "demoRequest ''POST'' [''acme'', ''order'', ''q1''] []"
  obtain jws s1 where jws: "decodeACMEJWS demoServer ?r demoFresh = (Inr jws, s1)" "jwr_AccountID jws = ''ac''" "jwr_Payload jws = []" "hs_world s1 = demoAccountKey"
    using demo_decode by blast
  have blank: "isBlank ''ac'' = False" "isBlank ''q1'' = False" by code_simp+
  have order: "\<exists>p s2. toACMEProtocolOrder ?r (demoOrder ''q1'' ACMEOrderReady) s1 = (Inr p, s2)"
    by (simp add: toACMEProtocolOrder_def prog_simps onService_def Service_ListACMEAuthorizations_def demo_fields blank run_onRepo jws(4) demoAccountKey_def
        demoWorld_def MemoryStore_GetACMEOrder_def MemoryStore_ListACMEAuthorizationsByOrder_def demo_tables Let_def)
  then obtain p s2 where p: "toACMEProtocolOrder ?r (demoOrder ''q1'' ACMEOrderReady) s1 = (Inr p, s2)" by blast
  have same: "s1\<lparr>hs_world := demoAccountKey\<rparr> = s1" using jws(4) by simp
  have own: "requireACMEOrderAccount ''q1'' ''ac'' demoAccountKey = (Inr (), demoAccountKey)" "Service_GetACMEOrder ''q1'' demoAccountKey = (Inr (demoOrder ''q1'' ACMEOrderReady), demoAccountKey)"
    by (simp_all add: requireACMEOrderAccount_def Service_GetACMEAccount_def Service_GetACMEOrder_def blank prog_simps run_onRepo MemoryStore_GetACMEAccount_def
        MemoryStore_GetACMEOrder_def demoAccountKey_def demoWorld_def demo_tables demo_fields)
  obtain resp s' where "writeACMEJSON demoServer ?r mempty 200 (BProtocolOrder p) s2 = (Inr (Some resp), s')" "rs_Status resp = 200"
    using writeACMEJSON_run by blast
  then show ?thesis
    by (simp add: acmePostAsGetOrder_def handled_def prog_simps jws demo_request onService_def own same p)
qed


section \<open>Limits\<close>

theorem rate_limit_bounds_witness:
  "admitted demoServer (rateKey demoServer (demoRequest ''POST'' [''acme'', ''new-order''] []))
     [(0, demoRequest ''POST'' [''acme'', ''new-order''] []), (1, demoRequest ''POST'' [''acme'', ''new-order''] [])] (initialState emptyWorld) \<le> 2"
  using rate_limit_bounds[of demoServer 0 "[(0, demoRequest ''POST'' [''acme'', ''new-order''] []), (1, demoRequest ''POST'' [''acme'', ''new-order''] [])]"
      "initialState emptyWorld" "rateKey demoServer (demoRequest ''POST'' [''acme'', ''new-order''] [])"]
  by (simp add: demo_server Minute_def Second_def bucketOf_def initialState_def)

end
