(* ===== verification/ProcessTour.thy ===== *)
theory ProcessTour
  imports Startup HttpTour
begin

text \<open>
  Instances of the theorems about the process, on a platform where every call succeeds and with the environment of a small production deployment.
\<close>

definition demoLibrary :: Library where
  "demoLibrary = \<lparr>lib_ParseDuration = (\<lambda>t. Inl (ErrExternal t)), lib_durationString = (\<lambda>d. []), lib_Quote = goQuoted,
     lib_numError = (\<lambda>f t. ErrExternal t), lib_netipError = ErrExternal, lib_SplitHostPort = (\<lambda>t. None)\<rparr>"

definition demoMaterial :: Material where
  "demoMaterial = \<lparr>mat_Now = 0, mat_GenerateKey = Inr ''key'', mat_RandInt = (\<lambda>n. Inr 1), mat_CreateCertificate = (\<lambda>t k. Inr ''der''),
     mat_MarshalPKCS8 = Inr, mat_Dir = (\<lambda>f. ''.''), mat_MkdirAll = (\<lambda>d. Inr ()), mat_PEM = (\<lambda>t d. d), mat_WriteFile = (\<lambda>f d. Inr ())\<rparr>"

definition demoPlatform :: Platform where
  "demoPlatform = \<lparr>pf_Library = demoLibrary, pf_Runtime = demoRuntime, pf_Host = demoHost, pf_CoreCodec = demoCoreCodec, pf_files = mempty,
     pf_fetch = demoFetch, pf_client = demoClient, pf_clock = svc_clock demoService, pf_idgen = svc_idgen demoService, pf_now = int, pf_startedAt = 1,
     pf_Codec = demoCodec, pf_Crypto = demoCrypto, pf_caaRandom = (\<lambda>n k. Inl ErrInvalidRequest), pf_caaExchange = (\<lambda>r t n k q. Inl ErrInvalidRequest),
     pf_openDB = (\<lambda>d n. Inr ()), pf_migrate = (\<lambda>d n. Inr ()), pf_Material = demoMaterial, pf_readyDB = (\<lambda>n. Inr ()), pf_Stat = (\<lambda>n f. Inr ()),
     pf_LookPath = (\<lambda>n f. Inr ()), pf_OpenFile = (\<lambda>n f. Inr ())\<rparr>"

definition demoEnv :: Env where
  "demoEnv name =
     (if name = ''MODERN_PKI_ENV'' then ''Production''
      else if name = ''MODERN_PKI_AUTH_MODE'' then ''api_key''
      else if name = ''MODERN_PKI_API_KEY_PEPPER'' then ''a-pepper-of-more-than-32-characters''
      else if name = ''MODERN_PKI_ACME_NONCE_STORE'' then ''sql''
      else if name = ''MODERN_PKI_EXPIRATION_SCAN_ENABLED'' then ''true''
      else [])"

lemma demo_configs:
  "\<exists>cfg. loadAuthConfig demoLibrary demoEnv = Inr cfg \<and> atc_BootstrapAPIKey cfg = []"
  "\<exists>cfg. loadOutboxConfig demoLibrary demoEnv = Inr cfg"
  "\<exists>cfg. loadExpirationScanConfig demoLibrary demoEnv = Inr cfg"
  "loadACMEHTTP01VerifierConfig rt fetch demoEnv = Inr \<lparr>avc_BaseURL = []\<rparr>"
  "\<exists>cfg. loadACMEDefaultsConfig demoLibrary demoEnv = Inr cfg \<and> \<not> adc_BootstrapDefaults cfg"
  "\<exists>cfg. loadACMENonceConfig demoEnv = Inr cfg"
  "\<exists>cfg. loadPublicTLSConfig demoLibrary demoEnv = Inr cfg \<and> ptc_MaxValidity cfg = 0 \<and> ptc_CAAIssuerDomain cfg = []"
proof -
  have t: "TrimSpace ''api_key'' = ''api_key''" "TrimSpace ''sql'' = ''sql''" "TrimSpace ''http-01'' = ''http-01''" "isProductionEnv ''Production''"
    "\<not> isWeakProductionSecret ''a-pepper-of-more-than-32-characters''" by code_simp+
  note c = demoEnv_def Let_def envOrDefault_def parseBoolEnv_def parseDurationEnv_def parseNonNegativeDurationEnv_def parsePositiveIntEnv_def ParseBool_def
  show "\<exists>cfg. loadAuthConfig demoLibrary demoEnv = Inr cfg \<and> atc_BootstrapAPIKey cfg = []"
    by (simp add: loadAuthConfig_def parseTrustedProxiesEnv_def validateProductionAuthConfig_def c t)
  show "\<exists>cfg. loadOutboxConfig demoLibrary demoEnv = Inr cfg" by (simp add: loadOutboxConfig_def c)
  show "\<exists>cfg. loadExpirationScanConfig demoLibrary demoEnv = Inr cfg" by (simp add: loadExpirationScanConfig_def c)
  show "loadACMEHTTP01VerifierConfig rt fetch demoEnv = Inr \<lparr>avc_BaseURL = []\<rparr>" by (simp add: loadACMEHTTP01VerifierConfig_def c)
  show "\<exists>cfg. loadACMEDefaultsConfig demoLibrary demoEnv = Inr cfg \<and> \<not> adc_BootstrapDefaults cfg" by (simp add: loadACMEDefaultsConfig_def c)
  show "\<exists>cfg. loadACMENonceConfig demoEnv = Inr cfg" by (simp add: loadACMENonceConfig_def c t)
  show "\<exists>cfg. loadPublicTLSConfig demoLibrary demoEnv = Inr cfg \<and> ptc_MaxValidity cfg = 0 \<and> ptc_CAAIssuerDomain cfg = []"
    by (simp add: loadPublicTLSConfig_def optionalDuration_def c t)
qed

lemma demo_process_start: "\<exists>proc. main demoPlatform demoEnv emptyWorld = (Inr proc, emptyWorld)"
proof -
  obtain c1 c2 c3 c5 c6 c7 where "loadAuthConfig demoLibrary demoEnv = Inr c1" "atc_BootstrapAPIKey c1 = []" "loadOutboxConfig demoLibrary demoEnv = Inr c2"
    "loadExpirationScanConfig demoLibrary demoEnv = Inr c3" "loadACMEDefaultsConfig demoLibrary demoEnv = Inr c5" "\<not> adc_BootstrapDefaults c5"
    "loadACMENonceConfig demoEnv = Inr c6" "loadPublicTLSConfig demoLibrary demoEnv = Inr c7" "ptc_MaxValidity c7 = 0" "ptc_CAAIssuerDomain c7 = []"
    using demo_configs by metis
  then show ?thesis
    by (simp add: main_def Let_def prog_simps wrapR_def demoPlatform_def demo_configs(4) buildService_def NewACMEHTTP01Verifier_def applyMaxValidity_def
        applyCAAPolicy_def bootstrapAPIKey_def bootstrapACME_def case_prod_beta)
qed

definition demoVersion :: operationalConfig where
  "demoVersion = \<lparr>opc_Version = ''1.0.0'', opc_Commit = [], opc_BuildTime = [], opc_StartedAt = 0, opc_Ready = None\<rparr>"

lemma demo_platform_ids: "inj (pf_idgen demoPlatform)" "pf_idgen demoPlatform n \<noteq> []" "w_repo emptyWorld = NewMemoryStore"
  using demo_initial by (simp_all add: demoPlatform_def initial_def)



end
