(* ===== verification/Spec2Isabelle.thy ===== *)
theory Spec2Isabelle
  imports ProcessTour
begin

text \<open>
  Verification development of the \<^verbatim>\<open>modern-pki\<close> certificate lifecycle service, the Go program under \<^verbatim>\<open>src/service/\<close>.

  \<^bold>\<open>The program.\<close> The service registers identities, issuers and certificate profiles, takes enrollments (a CSR with the
  names asked for), has them approved, signs certificates with an external core program, revokes them, publishes CRLs, answers OCSP requests,
  warns of expiry, and speaks ACME (RFC 8555). Everything it does is recorded in an audit trail, and events leave it as webhooks through an
  outbox. The parts are:

  \<^item> the data model and the error values (\<^verbatim>\<open>internal/domain\<close>);
  \<^item> the repository: an interface (\<^verbatim>\<open>internal/store/store.go\<close>) with an in-memory implementation (\<^verbatim>\<open>memory.go\<close>), its transactional
    view, and an SQL implementation;
  \<^item> the lifecycle service (\<^verbatim>\<open>internal/lifecycle/service.go\<close>, \<^verbatim>\<open>caa.go\<close>), whose operations read and write the repository in transactions and call the
    signer, the clock, the identifier generator, the HTTP-01 verifier and the CAA lookup;
  \<^item> the outbox dispatcher and the webhook handler (\<^verbatim>\<open>outbox_dispatcher.go\<close>, \<^verbatim>\<open>outbox_handler.go\<close>, \<^verbatim>\<open>webhook_handler.go\<close>);
  \<^item> the HTTP server (\<^verbatim>\<open>internal/httpapi\<close>): routes, authentication with API keys, scopes, rate limits, the ACME message format with its nonces;
  \<^item> the adapter that runs the signer as a child process (\<^verbatim>\<open>internal/corecli\<close>), and the process with its configuration and timer loops (\<^verbatim>\<open>cmd/modern-pki-service\<close>).

  \<^bold>\<open>How the model corresponds to the code.\<close> A Go struct is a record with a prefix per struct, a string enumeration a datatype with one
  constructor per constant and one for every other string, a map an association list with distinct keys (\<open>gomap\<close>: the order of the list is the order in
  which \<^verbatim>\<open>range\<close> visits it, so a theorem for all maps is a theorem for all orders), a string its bytes, an instant its nanoseconds since the
  zero time, and \<^verbatim>\<open>int64\<close> arithmetic that may wrap is written with \<open>i64\<close> or in \<open>64 word\<close>. A function that may fail and change state is a
  program \<open>'s \<Rightarrow> ('e + 'a) \<times> 's\<close> built from the combinators of \<^verbatim>\<open>Prelude\<close>, so every early return and every error is a branch. A repository method is
  \<open>MemoryStore_X\<close> or \<open>memoryTx_X\<close>, an operation of the service \<open>Service_X\<close> on a \<open>world\<close> (the repository and the number of calls the clock, the identifier
  generator and the other collaborators have answered), a handler a program on \<open>httpState\<close> (the world, the nonces, the rate buckets, the counters).

  \<^bold>\<open>Theories, bottom up.\<close>

  \<^item> \<^verbatim>\<open>Prelude\<close>, \<^verbatim>\<open>GoLib\<close>, \<^verbatim>\<open>Base64\<close>: maps, sorting, programs and their triples; strings, time and integers of Go; \<^verbatim>\<open>RawURLEncoding\<close> with its round trip.
  \<^item> \<^verbatim>\<open>Domain\<close>: \<^verbatim>\<open>types.go\<close> and \<^verbatim>\<open>errors.go\<close>.
  \<^item> \<^verbatim>\<open>MemoryStore\<close>, \<^verbatim>\<open>MemoryTx\<close>: \<^verbatim>\<open>memory.go\<close>, twice as in the source, with the agreement of both views and \<^verbatim>\<open>WithinTx\<close> (clone, run, commit).
    \<^verbatim>\<open>StoreContracts\<close> states what the service relies on as locales (\<open>entity_store\<close>, \<open>guarded_table\<close>, \<open>ordered_listing\<close>), interpreted for each table, compare-and-set helper and
    listing. \<^verbatim>\<open>StoreInvariant\<close> shows the uniqueness clauses of the tables kept by every call.
  \<^item> \<^verbatim>\<open>Netip\<close>: parsing of IP addresses and prefixes and the guard of HTTP-01 connections; the targets that may be dialled are exactly the external addresses.
  \<^item> \<^verbatim>\<open>Service\<close>, \<^verbatim>\<open>AuditTrail\<close>, \<^verbatim>\<open>Policy\<close>: the \<^verbatim>\<open>Service\<close> struct, requests and collaborators; audit and outbox records; the request checks and profile policy.
  \<^item> \<^verbatim>\<open>Lifecycle\<close>: the abstract specification. Per kind of row the relation on its status and the part that never changes; a store
    \<open>evolves\<close> when every row takes such steps and no row is lost. \<open>clean\<close>, \<open>quiet\<close>, \<open>advances\<close> and their rules carry this to programs.
  \<^item> \<^verbatim>\<open>Registry\<close>, \<^verbatim>\<open>Enrollments\<close>, \<^verbatim>\<open>Issuance\<close>, \<^verbatim>\<open>Issuing\<close>, \<^verbatim>\<open>Revocation\<close>, \<^verbatim>\<open>Outbox\<close>, \<^verbatim>\<open>ApiKeys\<close>, \<^verbatim>\<open>Caa\<close>, \<^verbatim>\<open>Acme\<close>, \<^verbatim>\<open>Ocsp\<close>, \<^verbatim>\<open>Queries\<close>: the operations
    of the service by subject, each with what it delivers on success and on error. \<^verbatim>\<open>Frames\<close> (locale \<open>frame_relation\<close>) shows what an operation leaves alone.
  \<^item> \<^verbatim>\<open>System\<close>, \<^verbatim>\<open>Steps\<close>: the invariant of the whole service and the service as a transition system (\<open>serviceStep\<close>, \<open>serviceRun\<close>) whose steps are the operations,
    dispatcher runs and lookups, with arbitrary arguments; the invariants by rule induction (orders validated, certificates issued once, revocation for good).
  \<^item> \<^verbatim>\<open>Nonces\<close>: the in-memory and the SQL nonce store against one contract (locale \<open>nonce_store\<close>); \<^verbatim>\<open>HttpTypes\<close>, \<^verbatim>\<open>Http\<close>, \<^verbatim>\<open>AcmeHttp\<close>,
    \<^verbatim>\<open>HttpServer\<close>: \<^verbatim>\<open>server.go\<close>, \<^verbatim>\<open>acme.go\<close>, \<^verbatim>\<open>metrics.go\<close> and \<^verbatim>\<open>nonce_sql.go\<close>, one definition per handler, the table of routes and \<^verbatim>\<open>ServeHTTP\<close>.
  \<^item> \<^verbatim>\<open>HttpRuns\<close>: serving requests is a run of the service, so its invariants hold behind the server. \<^verbatim>\<open>HttpAnswers\<close>: what an answer may
    disclose. \<^verbatim>\<open>HttpAccess\<close>: which routes are open, and that nothing else is served without a key. \<^verbatim>\<open>AcmeAuth\<close>: what a signed request has shown, and that ACME objects go to their owners. \<^verbatim>\<open>HttpLimits\<close>: the rate limit.
  \<^item> \<^verbatim>\<open>CoreCli\<close>: \<^verbatim>\<open>corecli/runner.go\<close>, every operation with its temporary files and the child process; no file is left behind on any path, and an answer is one the core wrote for
    the caller's request. \<^verbatim>\<open>Http01\<close>: \<^verbatim>\<open>NewACMEHTTP01Verifier\<close>, and exactly which answer meets a challenge.
  \<^item> \<^verbatim>\<open>Workers\<close>: \<^verbatim>\<open>outbox_worker.go\<close> and \<^verbatim>\<open>expiration_scan_worker.go\<close>, and the interleaving of their rounds with requests. \<^verbatim>\<open>Config\<close>, \<^verbatim>\<open>Startup\<close>: \<^verbatim>\<open>main.go\<close>, the
    configuration from the environment, start-up with the runner as the signer, bootstrap, operational endpoints, readiness, log and shutdown. The whole process from start-up on is a run of the service, and
    in production it asks for keys, has a strong pepper and refuses what is not open.
  \<^item> \<^verbatim>\<open>Scenario\<close>, \<^verbatim>\<open>Walkthrough\<close>, \<^verbatim>\<open>Tour\<close>, \<^verbatim>\<open>HttpTour\<close>, \<^verbatim>\<open>ProcessTour\<close>: a concrete deployment, runs of the service, the server and the process on it, and the
    instances of the theorems there.

  \<^bold>\<open>Parameters and hypotheses.\<close> Code outside the repository is an argument of the model: the signer (\<open>CertificateIssuer\<close>), clock, identifier generator, HTTP-01
  verifier and CAA exchange, hash functions and random source (\<open>Runtime\<close>), the HTTP client of the webhooks, JSON decoding (\<open>Codec\<close>), signature checks and time parsing
  (\<open>Crypto\<close>), the database under the SQL nonce store, the operating system under the adapter (\<open>Host\<close>), the HTTP client of the verifier (\<open>fetcher\<close>), and what the process
  gets from its platform (\<open>Library\<close>, \<open>Platform\<close>). They are functions of the number of earlier calls and may answer anything. Where a theorem needs more it says so: identifiers are
  pairwise different and not empty (\<open>initial\<close>), no stored key has the hash of the token in question, the random source gives as many bytes as asked for, the database runs the three statements of the nonce store (\<open>nonce_table\<close>), temporary
  files are new and can be removed and the core writes its output file only (\<open>tidyHost\<close>).

  \<^bold>\<open>Loops and bounds.\<close> No fuel is used. Recursion is structural or has a measure (the walk up the parents of an issuer stops at the first identifier seen twice, the readers of DNS
  messages move through the message). The eviction loop of the nonce store is a partial function in the option monad, shown to return whenever the size limit is not negative.
  Slice expressions and index accesses that may be out of range yield \<open>None\<close>, the panic of the source.

  \<^bold>\<open>Concurrency.\<close> Every repository method and every transaction of the in-memory store holds a mutex from entry to return and is one atomic step. \<^verbatim>\<open>IssueCertificate\<close> spans three transactions with a
  signing call in between; its invariant is stated with a set of attempts held by other nodes and is kept by each transaction for every such set, so it holds for all interleavings of them. The other operations are steps
  of the transition system as a whole.

  \<^bold>\<open>Not modelled.\<close> The SQL store and the migrations (\<^verbatim>\<open>sqlstore*.go\<close>, \<^verbatim>\<open>migrate.go\<close>), which are SQL statements run by a database outside the repository: the process is modelled
  on the in-memory implementation of the same interface. The calls of \<^verbatim>\<open>ObserveOperation\<close> around single operations, which only count; goroutines, signals and listeners, of which the model has the order of
  events; Unicode case folding beyond ASCII; \<^verbatim>\<open>invalidateACMEChallenge\<close>, which has no caller; the C++ core.
\<close>

end
